(* ===== verification/Js_Prelude.thy ===== *)
theory Js_Prelude
  imports
    Complex_Main
    "HOL-Library.Char_ord"
    "HOL-Library.List_Lexorder"
    "HOL-Library.Multiset"
begin

text \<open>
  The part of JavaScript and of its standard library that the release plane uses, and the
  generic lemmas its components share.

  \<^item> Exceptions: a computation that may throw returns \<open>js_error + 'a\<close> (\<open>result\<close>); \<open>rbind\<close>
    is sequencing, \<open>rmap_list\<close> is \<open>Array.map\<close> with a callback that may throw.
  \<^item> Nullish values: \<open>null\<close> and \<open>undefined\<close> are \<open>None\<close>; \<open>nullish a b\<close> is \<open>a ?? b\<close>.
  \<^item> Strings: lists of code units (8 bit here); \<open>trim\<close>, \<open>toLowerCase\<close>, decimal and
    hexadecimal rendering of integers, \<open>Number.parseInt (_, 16)\<close>.
  \<^item> Time: an instant is an integer, the milliseconds of \<open>Date.getTime\<close>. A timestamp string
    is a \<open>js_date\<close>: \<open>Iso t\<close> is the canonical rendering (\<open>toISOString\<close>) of the instant \<open>t\<close>,
    \<open>BadDate s\<close> is a string that \<open>Date\<close> rejects.
  \<^item> Keyed stores: arrays of records searched with \<open>find\<close> and written by \<open>findIndex\<close>
    (\<open>upsert_by\<close>), with the locale \<open>keyed_store\<close> for their contract.
\<close>

named_theorems result_simps \<open>how a successful or failed computation decomposes\<close>

section \<open>Exceptions\<close>

datatype reviewer_queue_error_code =
    Missing_reviewer
  | Reviewer_not_allowed
  | Reviewer_role_not_allowed
  | Duplicate_reviewer
  | Already_finalized
  | Missing_override_reason
  | Missing_override_requester

datatype token_verification_failure_code = Token_expired | Token_invalid

datatype release_verification_error_code =
    Missing_token
  | Invalid_request
  | Invalid_token
  | Insufficient_scope

datatype js_error =
    Error string
  | RangeError
  | TypeError string
  | ReleaseDecisionLogStoreError string
  | ReleaseTokenIntrospectionStoreError string
  | ReleaseEvidencePackStoreError string
  | ReleaseReviewerQueueError reviewer_queue_error_code string
  | ReleaseTokenVerificationFailure token_verification_failure_code string
  | ReleaseVerificationError nat release_verification_error_code string

type_synonym 'a result = "js_error + 'a"

abbreviation throw :: "js_error \<Rightarrow> 'a result" where
  "throw e \<equiv> Inl e"

abbreviation return :: "'a \<Rightarrow> 'a result" where
  "return x \<equiv> Inr x"

fun rbind :: "'a result \<Rightarrow> ('a \<Rightarrow> 'b result) \<Rightarrow> 'b result" where
  "rbind (Inl e) f = Inl e"
| "rbind (Inr x) f = f x"

fun rmap_list :: "('a \<Rightarrow> 'b result) \<Rightarrow> 'a list \<Rightarrow> 'b list result" where
  "rmap_list f [] = Inr []"
| "rmap_list f (x # xs) =
     rbind (f x) (\<lambda>y. rbind (rmap_list f xs) (\<lambda>ys. Inr (y # ys)))"

lemma rbind_eq_Inr [simp, result_simps]:
  "rbind r f = Inr y \<longleftrightarrow> (\<exists>x. r = Inr x \<and> f x = Inr y)"
  by (cases r) auto

lemma rbind_eq_Inl [simp, result_simps]:
  "rbind r f = Inl e \<longleftrightarrow> r = Inl e \<or> (\<exists>x. r = Inr x \<and> f x = Inl e)"
  by (cases r) auto

lemma Inr_eq_rbind [simp, result_simps]:
  "Inr y = rbind r f \<longleftrightarrow> (\<exists>x. r = Inr x \<and> f x = Inr y)"
  by (cases r) auto

lemma rbind_assoc: "rbind (rbind r f) g = rbind r (\<lambda>x. rbind (f x) g)"
  by (cases r) auto

lemma rmap_list_eq_Inr:
  "rmap_list f xs = Inr ys \<longleftrightarrow> list_all2 (\<lambda>x y. f x = Inr y) xs ys"
  by (induction xs arbitrary: ys) (auto simp: list_all2_Cons1)

lemma rmap_list_length: "rmap_list f xs = Inr ys \<Longrightarrow> length ys = length xs"
  by (simp add: rmap_list_eq_Inr list_all2_lengthD)

section \<open>Nullish values\<close>

fun nullish :: "'a option \<Rightarrow> 'a \<Rightarrow> 'a" where
  "nullish None b = b"
| "nullish (Some a) b = a"

fun nullish_opt :: "'a option \<Rightarrow> 'a option \<Rightarrow> 'a option" where
  "nullish_opt None b = b"
| "nullish_opt (Some a) b = Some a"

text \<open>A string used as a condition is falsy when it is absent or empty.\<close>

fun truthy_str :: "string option \<Rightarrow> string option" where
  "truthy_str None = None"
| "truthy_str (Some s) = (if s = [] then None else Some s)"

lemma truthy_str_eq_Some: "truthy_str x = Some s \<longleftrightarrow> x = Some s \<and> s \<noteq> []"
  by (cases x) auto

lemma truthy_str_eq_None: "truthy_str x = None \<longleftrightarrow> x = None \<or> x = Some []"
  by (cases x) auto

section \<open>Numbers that may be NaN or infinite\<close>

datatype 'a js_number = NonFinite | Num 'a

section \<open>Strings\<close>

definition js_whitespace :: "char \<Rightarrow> bool" where
  "js_whitespace c \<longleftrightarrow> of_char c \<in> {9, 10, 11, 12, 13, 32, 160::nat}"

definition trim :: "string \<Rightarrow> string" where
  "trim s = rev (dropWhile js_whitespace (rev (dropWhile js_whitespace s)))"

definition char_lower :: "char \<Rightarrow> char" where
  "char_lower c =
     (let n = of_char c :: nat in
      if 65 \<le> n \<and> n \<le> 90 \<or> 192 \<le> n \<and> n \<le> 222 \<and> n \<noteq> 215 then char_of (n + 32) else c)"

definition toLowerCase :: "string \<Rightarrow> string" where
  "toLowerCase s = map char_lower s"

lemma trim_Nil [simp]: "trim [] = []"
  by (simp add: trim_def)

lemma trim_all_space: "trim s = [] \<longleftrightarrow> (\<forall>c\<in>set s. js_whitespace c)"
proof
  assume "trim s = []"
  then have "dropWhile js_whitespace s = []"
    by (metis (no_types, lifting) Nil_is_rev_conv dropWhile_eq_Nil_conv hd_dropWhile hd_in_set
        set_rev trim_def)
  then show "\<forall>c\<in>set s. js_whitespace c"
    by (simp add: dropWhile_eq_Nil_conv)
next
  assume "\<forall>c\<in>set s. js_whitespace c"
  then have "dropWhile js_whitespace s = []"
    unfolding dropWhile_eq_Nil_conv .
  then show "trim s = []"
    by (simp only: trim_def) simp
qed

lemma dropWhile_fixed: "(xs \<noteq> [] \<Longrightarrow> \<not> P (hd xs)) \<Longrightarrow> dropWhile P xs = xs"
  by (cases xs) auto

lemma hd_trim: "trim s \<noteq> [] \<Longrightarrow> \<not> js_whitespace (hd (trim s))"
proof -
  assume ne: "trim s \<noteq> []"
  let ?d = "dropWhile js_whitespace s"
  obtain p where p: "rev ?d = p @ rev (trim s)"
    unfolding trim_def rev_rev_ident by (metis takeWhile_dropWhile_id)
  then have d: "?d = trim s @ rev p"
    by (metis rev_append rev_rev_ident)
  with ne have "hd (trim s) = hd ?d" by simp
  moreover have "\<not> js_whitespace (hd ?d)"
    using ne d by (intro hd_dropWhile) auto
  ultimately show ?thesis by simp
qed

lemma last_trim: "trim s \<noteq> [] \<Longrightarrow> \<not> js_whitespace (last (trim s))"
proof -
  assume ne: "trim s \<noteq> []"
  let ?r = "dropWhile js_whitespace (rev (dropWhile js_whitespace s))"
  have "?r \<noteq> []" using ne by (simp add: trim_def)
  then have "\<not> js_whitespace (hd ?r)" by (rule hd_dropWhile)
  with \<open>?r \<noteq> []\<close> show ?thesis by (simp add: trim_def last_rev)
qed

lemma trim_fixed:
  assumes "s \<noteq> [] \<Longrightarrow> \<not> js_whitespace (hd s)" and "s \<noteq> [] \<Longrightarrow> \<not> js_whitespace (last s)"
  shows "trim s = s"
proof -
  have "dropWhile js_whitespace s = s"
    using assms(1) by (rule dropWhile_fixed)
  moreover have "dropWhile js_whitespace (rev s) = rev s"
    using assms(2) by (intro dropWhile_fixed) (simp add: hd_rev)
  ultimately show ?thesis by (simp add: trim_def)
qed

lemma trim_idem [simp]: "trim (trim s) = trim s"
  by (rule trim_fixed) (fact hd_trim last_trim)+

subsection \<open>Rendering of integers\<close>

fun nat_digits :: "nat \<Rightarrow> nat \<Rightarrow> nat list" where
  "nat_digits b n = (if n < b \<or> b < 2 then [n] else nat_digits b (n div b) @ [n mod b])"

declare nat_digits.simps [simp del]

definition digit_char :: "nat \<Rightarrow> char" where
  "digit_char d = char_of (if d < 10 then 48 + d else 87 + d)"

definition string_of_nat :: "nat \<Rightarrow> string" where
  "string_of_nat n = map digit_char (nat_digits 10 n)"

definition string_of_int :: "int \<Rightarrow> string" where
  "string_of_int i = (if i < 0 then CHR ''-'' # string_of_nat (nat (- i)) else string_of_nat (nat i))"

definition hex_of_nat :: "nat \<Rightarrow> string" where
  "hex_of_nat n = map digit_char (nat_digits 16 n)"

definition digits_value :: "nat \<Rightarrow> nat list \<Rightarrow> nat" where
  "digits_value b ds = foldl (\<lambda>v d. v * b + d) 0 ds"

lemma digits_value_snoc [simp]: "digits_value b (ds @ [d]) = digits_value b ds * b + d"
  by (simp add: digits_value_def)

lemma digits_value_single [simp]: "digits_value b [d] = d"
  by (simp add: digits_value_def)

lemma nat_digits_value: "digits_value b (nat_digits b n) = n"
proof (induction b n rule: nat_digits.induct)
  case (1 b n)
  show ?case
  proof (cases "n < b \<or> b < 2")
    case True
    then show ?thesis by (simp add: nat_digits.simps [of b n])
  next
    case False
    with "1.IH" have "digits_value b (nat_digits b (n div b)) = n div b"
      by simp
    with False show ?thesis
      by (simp add: nat_digits.simps [of b n])
  qed
qed

lemma nat_digits_inject: "nat_digits b m = nat_digits b n \<Longrightarrow> m = n"
  by (metis nat_digits_value)

lemma nat_digits_range: "2 \<le> b \<Longrightarrow> d \<in> set (nat_digits b n) \<Longrightarrow> d < b"
proof (induction b n rule: nat_digits.induct)
  case (1 b n)
  then show ?case
    by (cases "n < b") (auto simp: nat_digits.simps [of b n])
qed

lemma nat_digits_nonempty [simp]: "nat_digits b n \<noteq> []"
  by (subst nat_digits.simps) simp

lemma digit_char_code:
  "d < 16 \<Longrightarrow> (of_char (digit_char d) :: nat) = (if d < 10 then 48 + d else 87 + d)"
  by (simp add: digit_char_def)

lemma digit_char_inject: "d < 16 \<Longrightarrow> e < 16 \<Longrightarrow> digit_char d = digit_char e \<Longrightarrow> d = e"
proof -
  assume d: "d < 16" and e: "e < 16" and eq: "digit_char d = digit_char e"
  have "(if d < 10 then 48 + d else 87 + d) = (if e < 10 then 48 + e else 87 + e)"
    using digit_char_code [OF d] digit_char_code [OF e] eq by metis
  then show "d = e" using d e by (simp split: if_splits)
qed

lemma map_digit_char_inject:
  "\<forall>d\<in>set ds. d < 16 \<Longrightarrow> \<forall>e\<in>set es. e < 16 \<Longrightarrow>
   map digit_char ds = map digit_char es \<Longrightarrow> ds = es"
  by (rule map_inj_on [of digit_char]) (auto simp: inj_on_def digit_char_inject)

lemma string_of_nat_inject: "string_of_nat m = string_of_nat n \<longleftrightarrow> m = n"
proof
  assume "string_of_nat m = string_of_nat n"
  then have "nat_digits 10 m = nat_digits 10 n"
    unfolding string_of_nat_def
    by (rule map_digit_char_inject [rotated 2]) (force dest: nat_digits_range [rotated])+
  then show "m = n" by (rule nat_digits_inject)
qed simp

lemma hex_of_nat_inject: "hex_of_nat m = hex_of_nat n \<longleftrightarrow> m = n"
proof
  assume "hex_of_nat m = hex_of_nat n"
  then have "nat_digits 16 m = nat_digits 16 n"
    unfolding hex_of_nat_def
    by (rule map_digit_char_inject [rotated 2]) (force dest: nat_digits_range [rotated])+
  then show "m = n" by (rule nat_digits_inject)
qed simp

definition is_dec_digit :: "char \<Rightarrow> bool" where
  "is_dec_digit c \<longleftrightarrow> 48 \<le> (of_char c :: nat) \<and> (of_char c :: nat) \<le> 57"

lemma string_of_nat_digits: "c \<in> set (string_of_nat n) \<Longrightarrow> is_dec_digit c"
  by (auto simp: string_of_nat_def is_dec_digit_def digit_char_code dest!: nat_digits_range [rotated])

lemma string_of_nat_nonempty [simp]: "string_of_nat n \<noteq> []"
  by (simp add: string_of_nat_def)

lemma string_of_int_inject: "string_of_int i = string_of_int j \<longleftrightarrow> i = j"
proof
  assume eq: "string_of_int i = string_of_int j"
  have dash: "CHR ''-'' # s \<noteq> string_of_nat n" for s n
  proof
    assume "CHR ''-'' # s = string_of_nat n"
    then have "CHR ''-'' \<in> set (string_of_nat n)" by (metis list.set_intros(1))
    then show False by (auto dest: string_of_nat_digits simp: is_dec_digit_def)
  qed
  show "i = j"
    using eq dash dash [symmetric]
    by (auto simp: string_of_int_def string_of_nat_inject split: if_splits)
qed simp

subsection \<open>\<open>Number.parseInt\<close> in base 16\<close>

definition hex_digit_value :: "char \<Rightarrow> nat option" where
  "hex_digit_value c =
     (let n = of_char c :: nat in
      if 48 \<le> n \<and> n \<le> 57 then Some (n - 48)
      else if 97 \<le> n \<and> n \<le> 102 then Some (n - 87)
      else if 65 \<le> n \<and> n \<le> 70 then Some (n - 55)
      else None)"

definition hex_prefix :: "string \<Rightarrow> nat list" where
  "hex_prefix s = map (the \<circ> hex_digit_value) (takeWhile (\<lambda>c. hex_digit_value c \<noteq> None) s)"

definition parseInt_hex :: "string \<Rightarrow> nat js_number" where
  "parseInt_hex s = (if hex_prefix s = [] then NonFinite else Num (digits_value 16 (hex_prefix s)))"

section \<open>Instants and timestamp strings\<close>

type_synonym timestamp = int

datatype js_date = Iso timestamp | BadDate string

text \<open>The range of \<open>Date\<close>: an instant outside it is an invalid date and cannot be rendered.\<close>

definition max_time_value :: int where
  "max_time_value = 8640000000000000"

definition toISO :: "int \<Rightarrow> timestamp result" where
  "toISO t = (if \<bar>t\<bar> \<le> max_time_value then Inr t else Inl RangeError)"

fun getTime :: "js_date \<Rightarrow> int option" where
  "getTime (Iso t) = Some t"
| "getTime (BadDate s) = None"

text \<open>A date string used as a condition is falsy when it is absent or empty.\<close>

fun truthy_date :: "js_date option \<Rightarrow> js_date option" where
  "truthy_date None = None"
| "truthy_date (Some d) = (if d = BadDate [] then None else Some d)"

lemma toISO_eq_Inr [simp]: "toISO t = Inr u \<longleftrightarrow> u = t \<and> \<bar>t\<bar> \<le> max_time_value"
  by (auto simp: toISO_def)

text \<open>The text of a timestamp: the proleptic Gregorian calendar, as \<open>Date.toISOString\<close> prints it.\<close>

definition civil_from_days :: "int \<Rightarrow> int \<times> int \<times> int" where
  "civil_from_days days =
     (let z = days + 719468;
          era = z div 146097;
          doe = z mod 146097;
          yoe = (doe - doe div 1460 + doe div 36524 - doe div 146096) div 365;
          doy = doe - (365 * yoe + yoe div 4 - yoe div 100);
          mp = (5 * doy + 2) div 153;
          d = doy - (153 * mp + 2) div 5 + 1;
          m = (if mp < 10 then mp + 3 else mp - 9);
          y = yoe + era * 400 + (if m \<le> 2 then 1 else 0)
      in (y, m, d))"

definition pad_left :: "nat \<Rightarrow> string \<Rightarrow> string" where
  "pad_left w s = replicate (w - length s) (CHR ''0'') @ s"

definition iso_year :: "int \<Rightarrow> string" where
  "iso_year y =
     (if 0 \<le> y \<and> y \<le> 9999 then pad_left 4 (string_of_nat (nat y))
      else (if y < 0 then CHR ''-'' else CHR ''+'') # pad_left 6 (string_of_nat (nat \<bar>y\<bar>)))"

definition toISOString :: "timestamp \<Rightarrow> string" where
  "toISOString t =
     (let (y, m, d) = civil_from_days (t div 86400000);
          ms = t mod 86400000;
          two = (\<lambda>n. pad_left 2 (string_of_nat (nat n)))
      in iso_year y @ ''-'' @ two m @ ''-'' @ two d @ ''T'' @ two (ms div 3600000) @ '':'' @
         two (ms div 60000 mod 60) @ '':'' @ two (ms div 1000 mod 60) @ ''.'' @
         pad_left 3 (string_of_nat (nat (ms mod 1000))) @ ''Z'')"

fun date_text :: "js_date \<Rightarrow> string" where
  "date_text (Iso t) = toISOString t"
| "date_text (BadDate s) = s"

section \<open>Arrays of records\<close>

text \<open>
  The stores keep an array of records, find one with \<open>find\<close> on its key and write one with
  \<open>findIndex\<close>: in place when the key is present, appended otherwise.
\<close>

fun upsert_by :: "('a \<Rightarrow> 'k) \<Rightarrow> 'a \<Rightarrow> 'a list \<Rightarrow> 'a list" where
  "upsert_by key x [] = [x]"
| "upsert_by key x (y # ys) = (if key y = key x then x # ys else y # upsert_by key x ys)"

abbreviation find_by :: "('a \<Rightarrow> 'k) \<Rightarrow> 'k \<Rightarrow> 'a list \<Rightarrow> 'a option" where
  "find_by key k xs \<equiv> List.find (\<lambda>x. key x = k) xs"

lemma find_by_upsert:
  "find_by key k (upsert_by key x xs) = (if k = key x then Some x else find_by key k xs)"
  by (induction xs) auto

lemma find_by_SomeD: "find_by key k xs = Some x \<Longrightarrow> x \<in> set xs \<and> key x = k"
  by (induction xs) (auto split: if_splits)

lemma find_by_None: "find_by key k xs = None \<longleftrightarrow> (\<forall>x\<in>set xs. key x \<noteq> k)"
  by (induction xs) auto

lemma find_by_append:
  "find_by key k (xs @ ys) = (case find_by key k xs of None \<Rightarrow> find_by key k ys | Some x \<Rightarrow> Some x)"
  by (induction xs) auto

lemma find_by_distinct:
  "distinct (map key xs) \<Longrightarrow> x \<in> set xs \<Longrightarrow> find_by key (key x) xs = Some x"
  by (induction xs) force+

lemma upsert_by_keys:
  "map key (upsert_by key x xs) =
     (if key x \<in> set (map key xs) then map key xs else map key xs @ [key x])"
  by (induction xs) auto

lemma distinct_upsert_by:
  "distinct (map key xs) \<Longrightarrow> distinct (map key (upsert_by key x xs))"
  by (simp add: upsert_by_keys)

lemma set_upsert_by: "set (upsert_by key x xs) \<subseteq> insert x (set xs)"
  by (induction xs) auto

lemma set_upsert_by_distinct:
  "distinct (map key xs) \<Longrightarrow> set (upsert_by key x xs) = insert x {y \<in> set xs. key y \<noteq> key x}"
proof (induction xs)
  case Nil
  then show ?case by simp
next
  case (Cons a xs)
  show ?case
  proof (cases "key a = key x")
    case True
    with Cons.prems have "key x \<notin> key ` set xs" by simp
    then have "\<forall>y\<in>set xs. key y \<noteq> key x" by (metis image_eqI)
    with True show ?thesis by auto
  next
    case False
    with Cons show ?thesis by auto
  qed
qed

lemma length_upsert_by:
  "length (upsert_by key x xs) =
     (if find_by key (key x) xs = None then Suc (length xs) else length xs)"
  by (induction xs) auto

text \<open>The first element satisfying a predicate, as an equation on the prefix before it.\<close>

lemma find_filter_hd: "List.find P xs = (case filter P xs of [] \<Rightarrow> None | x # _ \<Rightarrow> Some x)"
  by (induction xs) auto

lemma find_SomeD: "List.find P xs = Some x \<Longrightarrow> x \<in> set xs \<and> P x"
  by (induction xs) (auto split: if_splits)

subsection \<open>The contract of a keyed store\<close>

text \<open>
  What the clients of a store rely on: the keys of its records are distinct, a lookup after
  a write sees the written record and no other lookup changes.
\<close>

locale keyed_store =
  fixes recs :: "'s \<Rightarrow> 'a list"
    and key :: "'a \<Rightarrow> 'k"
    and lookup :: "'s \<Rightarrow> 'k \<Rightarrow> 'a option"
    and put :: "'s \<Rightarrow> 'a \<Rightarrow> 's"
  assumes lookup_eq: "lookup s k = find_by key k (recs s)"
    and recs_put: "recs (put s x) = upsert_by key x (recs s)"
begin

definition distinct_keys :: "'s \<Rightarrow> bool" where
  "distinct_keys s \<longleftrightarrow> distinct (map key (recs s))"

lemma lookup_put: "lookup (put s x) k = (if k = key x then Some x else lookup s k)"
  by (simp add: lookup_eq recs_put find_by_upsert)

lemma lookup_key: "lookup s k = Some x \<Longrightarrow> key x = k"
  by (auto simp: lookup_eq dest: find_by_SomeD)

lemma lookup_in_recs: "lookup s k = Some x \<Longrightarrow> x \<in> set (recs s)"
  by (auto simp: lookup_eq dest: find_by_SomeD)

lemma distinct_keys_put: "distinct_keys s \<Longrightarrow> distinct_keys (put s x)"
  by (simp add: distinct_keys_def recs_put distinct_upsert_by)

lemma lookup_member: "distinct_keys s \<Longrightarrow> x \<in> set (recs s) \<Longrightarrow> lookup s (key x) = Some x"
  by (simp add: distinct_keys_def lookup_eq find_by_distinct)

lemma recs_put_cases: "y \<in> set (recs (put s x)) \<Longrightarrow> y = x \<or> y \<in> set (recs s)"
  using set_upsert_by [of key x "recs s"] by (auto simp: recs_put)

end

end
