(* ===== verification/Canonical_Json.thy ===== *)
theory Canonical_Json
  imports Js_Prelude
begin

text \<open>
  Canonicalization and hashing of releasable outputs: \<open>release-kernel/release-canonicalization.ts\<close>,
  with the part of \<open>JSON.stringify\<close> it relies on.

  A JSON value is a finite tree, so the guard of the source against circular references never
  fires on it and is not modelled. Finite numbers are integers; \<open>JNumber NonFinite\<close> stands
  for \<open>NaN\<close> and the infinities. An object is the list of its members in insertion order.
  SHA-256 (the hexadecimal digest of a string) is the parameter \<open>sha256\<close>.

  The lemmas show exactly when canonicalization succeeds, that it is insensitive to the order
  of object members at every depth, and that the canonical text determines the value.
\<close>

section \<open>JSON values and \<open>JSON.stringify\<close>\<close>

datatype json =
    JNull
  | JBool bool
  | JNumber "int js_number"
  | JString string
  | JArray "json list"
  | JObject "(string \<times> json) list"
  | JUndefined

definition quote_char :: "char \<Rightarrow> string" where
  "quote_char c =
     (let n = of_char c :: nat; bs = CHR 0x5C in
      if n = 34 then [bs, CHR 0x22]
      else if n = 92 then [bs, bs]
      else if n = 8 then [bs, CHR ''b'']
      else if n = 12 then [bs, CHR ''f'']
      else if n = 10 then [bs, CHR ''n'']
      else if n = 13 then [bs, CHR ''r'']
      else if n = 9 then [bs, CHR ''t'']
      else if n < 32 then [bs, CHR ''u'', CHR ''0'', CHR ''0'', digit_char (n div 16), digit_char (n mod 16)]
      else [c])"

definition json_quote :: "string \<Rightarrow> string" where
  "json_quote s = CHR 0x22 # concat (map quote_char s) @ [CHR 0x22]"

fun join_with :: "string \<Rightarrow> string list \<Rightarrow> string" where
  "join_with sep [] = []"
| "join_with sep [x] = x"
| "join_with sep (x # y # xs) = x @ sep @ join_with sep (y # xs)"

fun JSON_stringify :: "json \<Rightarrow> string" where
  "JSON_stringify JNull = ''null''"
| "JSON_stringify (JBool b) = (if b then ''true'' else ''false'')"
| "JSON_stringify (JNumber NonFinite) = ''null''"
| "JSON_stringify (JNumber (Num i)) = string_of_int i"
| "JSON_stringify (JString s) = json_quote s"
| "JSON_stringify (JArray vs) = ''['' @ join_with '','' (map JSON_stringify vs) @ '']''"
| "JSON_stringify (JObject kvs) =
     ''{'' @ join_with '','' (map (\<lambda>(k, v). json_quote k @ '':'' @ JSON_stringify v)
               (filter (\<lambda>(k, v). v \<noteq> JUndefined) kvs)) @ ''}''"
| "JSON_stringify JUndefined = ''null''"

text \<open>The JSON of a nullable string and of an array of strings.\<close>

fun json_str_opt :: "string option \<Rightarrow> json" where
  "json_str_opt None = JNull"
| "json_str_opt (Some s) = JString s"

definition json_strs :: "string list \<Rightarrow> json" where
  "json_strs ss = JArray (map JString ss)"

section \<open>Normalization\<close>

definition MAX_CANONICAL_RELEASE_JSON_DEPTH :: nat where
  "MAX_CANONICAL_RELEASE_JSON_DEPTH = 128"

definition MAX_CANONICAL_RELEASE_JSON_NODES :: nat where
  "MAX_CANONICAL_RELEASE_JSON_NODES = 100000"

text \<open>The node counter of the canonicalization state is threaded through the traversal.\<close>

fun rmap_state :: "('a \<Rightarrow> 's \<Rightarrow> ('b \<times> 's) result) \<Rightarrow> 'a list \<Rightarrow> 's \<Rightarrow> ('b list \<times> 's) result" where
  "rmap_state f [] s = Inr ([], s)"
| "rmap_state f (x # xs) s =
     rbind (f x s) (\<lambda>(y, s'). rbind (rmap_state f xs s') (\<lambda>(ys, s''). Inr (y # ys, s'')))"

lemma rbind_cong [fundef_cong]:
  "r = r' \<Longrightarrow> (\<And>x. r' = Inr x \<Longrightarrow> f x = g x) \<Longrightarrow> rbind r f = rbind r' g"
  by (cases r') auto

lemma rmap_state_cong [fundef_cong]:
  "xs = ys \<Longrightarrow> s = t \<Longrightarrow> (\<And>x u. x \<in> set ys \<Longrightarrow> f x u = g x u) \<Longrightarrow> rmap_state f xs s = rmap_state g ys t"
proof (induction ys arbitrary: xs s t)
  case Nil
  then show ?case by simp
next
  case (Cons y ys)
  have "rmap_state f ys u = rmap_state g ys u" for u
    by (rule Cons.IH) (simp_all add: Cons.prems(3))
  then show ?case
    using Cons.prems by (auto intro!: rbind_cong split: prod.splits)
qed

lemma rmap_list_cong [fundef_cong]:
  "xs = ys \<Longrightarrow> (\<And>x. x \<in> set ys \<Longrightarrow> f x = g x) \<Longrightarrow> rmap_list f xs = rmap_list g ys"
  by (induction ys arbitrary: xs) auto

definition enterCanonicalNode :: "string \<Rightarrow> nat \<Rightarrow> nat \<Rightarrow> nat result" where
  "enterCanonicalNode path depth nodeCount =
     (if nodeCount + 1 > MAX_CANONICAL_RELEASE_JSON_NODES then
        throw (Error (''Canonical JSON exceeds maximum node count of '' @
          string_of_nat MAX_CANONICAL_RELEASE_JSON_NODES @ '' at '' @ path @ ''.''))
      else if depth > MAX_CANONICAL_RELEASE_JSON_DEPTH then
        throw (Error (''Canonical JSON exceeds maximum depth of '' @
          string_of_nat MAX_CANONICAL_RELEASE_JSON_DEPTH @ '' at '' @ path @ ''.''))
      else return (nodeCount + 1))"

lemma size_member_less:
  fixes kvs :: "(string \<times> json) list"
  shows "(k, v) \<in> set kvs \<Longrightarrow> size v < Suc (size_list (size_prod (\<lambda>_. 0) size) kvs)"
  by (induction kvs) auto

lemma in_set_enumerateD: "(i, v) \<in> set (enumerate n vs) \<Longrightarrow> v \<in> set vs"
  by (induction vs arbitrary: n) auto

function normalizeCanonicalValue :: "json \<Rightarrow> string \<Rightarrow> nat \<Rightarrow> nat \<Rightarrow> (json \<times> nat) result" where
  "normalizeCanonicalValue value path nodeCount depth =
     rbind (enterCanonicalNode path depth nodeCount) (\<lambda>n.
       case value of
         JNull \<Rightarrow> return (JNull, n)
       | JBool b \<Rightarrow> return (JBool b, n)
       | JString s \<Rightarrow> return (JString s, n)
       | JNumber NonFinite \<Rightarrow>
           throw (Error (''Non-finite number is not canonicalizable at '' @ path @ ''.''))
       | JNumber (Num i) \<Rightarrow> return (JNumber (Num i), n)
       | JArray items \<Rightarrow>
           rbind (rmap_state (\<lambda>(index, item) s.
                    normalizeCanonicalValue item (path @ ''['' @ string_of_nat index @ '']'') s (depth + 1))
                  (enumerate 0 items) n)
             (\<lambda>(items', n'). return (JArray items', n'))
       | JObject members \<Rightarrow>
           rbind (rmap_state (\<lambda>(key, nestedValue) s.
                    if nestedValue = JUndefined then
                      throw (Error (''Undefined values are not canonicalizable at '' @ path @ ''.'' @ key @ ''.''))
                    else rbind (normalizeCanonicalValue nestedValue (path @ ''.'' @ key) s (depth + 1))
                           (\<lambda>(v, s'). return ((key, v), s')))
                  (sort_key fst members) n)
             (\<lambda>(members', n'). return (JObject members', n'))
       | JUndefined \<Rightarrow>
           throw (Error (''Only plain JSON objects are canonicalizable at '' @ path @ ''.'')))"
  by pat_completeness auto
termination
  by (relation "measure (\<lambda>(v, p, n, d). size v)")
    (auto dest!: in_set_enumerateD size_member_less intro: size_list_estimation' le_imp_less_Suc)

declare normalizeCanonicalValue.simps [simp del]

section \<open>Serialization\<close>

function serializeCanonicalValue :: "json \<Rightarrow> string result" where
  "serializeCanonicalValue JNull = return ''null''"
| "serializeCanonicalValue (JBool b) = return (if b then ''true'' else ''false'')"
| "serializeCanonicalValue (JNumber x) = return (JSON_stringify (JNumber x))"
| "serializeCanonicalValue (JString s) = return (JSON_stringify (JString s))"
| "serializeCanonicalValue (JArray items) =
     rbind (rmap_list serializeCanonicalValue items)
       (\<lambda>ss. return (''['' @ join_with '','' ss @ '']''))"
| "serializeCanonicalValue (JObject members) =
     rbind (rmap_list (\<lambda>(key, v). rbind (serializeCanonicalValue v)
                         (\<lambda>s. return (json_quote key @ '':'' @ s)))
              (sort_key fst members))
       (\<lambda>ss. return (''{'' @ join_with '','' ss @ ''}''))"
| "serializeCanonicalValue JUndefined =
     throw (Error ''Only canonical JSON objects may reach object serialization.'')"
  by pat_completeness auto
termination
  by (relation "measure size")
    (auto dest!: size_member_less intro: size_list_estimation' le_imp_less_Suc)

definition canonicalizeReleaseJson :: "json \<Rightarrow> string result" where
  "canonicalizeReleaseJson value =
     rbind (normalizeCanonicalValue value ''$'' 0 0)
       (\<lambda>(normalized, _). serializeCanonicalValue normalized)"

section \<open>What canonicalization computes\<close>

text \<open>
  The reference functions: \<open>canon\<close> sorts the members of every object, \<open>json_nodes\<close> and
  \<open>json_depth\<close> measure a value, \<open>json_clean\<close> says that no undefined value and no
  non-finite number occurs in it.
\<close>

fun canon :: "json \<Rightarrow> json" where
  "canon (JArray vs) = JArray (map canon vs)"
| "canon (JObject kvs) = JObject (map (\<lambda>(k, v). (k, canon v)) (sort_key fst kvs))"
| "canon v = v"

fun json_nodes :: "json \<Rightarrow> nat" where
  "json_nodes (JArray vs) = Suc (sum_list (map json_nodes vs))"
| "json_nodes (JObject kvs) = Suc (sum_list (map (\<lambda>(k, v). json_nodes v) kvs))"
| "json_nodes v = 1"

fun json_depth :: "json \<Rightarrow> nat" where
  "json_depth (JArray vs) = fold max (map (\<lambda>v. Suc (json_depth v)) vs) 0"
| "json_depth (JObject kvs) = fold max (map (\<lambda>(k, v). Suc (json_depth v)) kvs) 0"
| "json_depth v = 0"

fun json_clean :: "json \<Rightarrow> bool" where
  "json_clean (JNumber NonFinite) = False"
| "json_clean JUndefined = False"
| "json_clean (JArray vs) = list_all json_clean vs"
| "json_clean (JObject kvs) = list_all (\<lambda>(k, v). json_clean v) kvs"
| "json_clean v = True"

abbreviation node_limit :: nat where
  "node_limit \<equiv> MAX_CANONICAL_RELEASE_JSON_NODES"

abbreviation depth_limit :: nat where
  "depth_limit \<equiv> MAX_CANONICAL_RELEASE_JSON_DEPTH"

lemma fold_max_le: "fold max xs a \<le> (d :: nat) \<longleftrightarrow> a \<le> d \<and> (\<forall>x\<in>set xs. x \<le> d)"
  by (induction xs arbitrary: a) auto

lemma enterCanonicalNode_eq_Inr [simp]:
  "enterCanonicalNode p d n = Inr m \<longleftrightarrow> n + 1 \<le> node_limit \<and> d \<le> depth_limit \<and> m = n + 1"
  by (auto simp: enterCanonicalNode_def)

lemma json_nodes_pos: "1 \<le> json_nodes v"
  by (cases v rule: json_nodes.cases) auto

lemma map_enumerate_snd: "map (\<lambda>x. h (snd x)) (enumerate n vs) = map h vs"
  by (induction vs arbitrary: n) auto

lemma ball_enumerate_snd:
  "(\<forall>x\<in>set (enumerate n vs). Q (snd x)) \<longleftrightarrow> (\<forall>x\<in>set vs. Q x)"
  by (induction vs arbitrary: n) auto

lemma sum_list_sort_key: "sum_list (map f (sort_key g xs)) = sum_list (map f xs)"
  for f :: "'a \<Rightarrow> nat"
  by (metis mset_map mset_sort sum_mset_sum_list)

lemma rmap_state_count:
  assumes "\<And>x s y s'. x \<in> set xs \<Longrightarrow>
      f x s = Inr (y, s') \<longleftrightarrow> C x \<and> s + w x \<le> N \<and> y = g x \<and> s' = s + w x"
    and "s \<le> (N :: nat)"
  shows "rmap_state f xs s = Inr (ys, s') \<longleftrightarrow>
      (\<forall>x\<in>set xs. C x) \<and> s + sum_list (map w xs) \<le> N \<and>
      ys = map g xs \<and> s' = s + sum_list (map w xs)"
  using assms
proof (induction xs arbitrary: s ys s')
  case Nil
  then show ?case by auto
next
  case (Cons x xs)
  have step: "f x s = Inr (y, t) \<longleftrightarrow> C x \<and> s + w x \<le> N \<and> y = g x \<and> t = s + w x" for y t
    by (rule Cons.prems) simp
  have rest: "rmap_state f xs t = Inr (zs, u) \<longleftrightarrow>
      (\<forall>x\<in>set xs. C x) \<and> t + sum_list (map w xs) \<le> N \<and> zs = map g xs \<and> u = t + sum_list (map w xs)"
    if "t \<le> N" for t zs u
    using Cons.prems(1) that by (intro Cons.IH) auto
  show ?case
  proof (cases "C x \<and> s + w x \<le> N")
    case True
    then have "f x s = Inr (g x, s + w x)" by (simp add: step)
    then have "rmap_state f (x # xs) s = Inr (ys, s') \<longleftrightarrow>
        (\<exists>zs. rmap_state f xs (s + w x) = Inr (zs, s') \<and> ys = g x # zs)"
      by auto
    with True show ?thesis by (auto simp: rest add.assoc)
  next
    case False
    then have "f x s \<noteq> Inr (y, t)" for y t by (simp add: step) auto
    then show ?thesis using False by auto
  qed
qed

lemma depth_bound:
  "d + json_depth (JArray vs) \<le> k \<longleftrightarrow> d \<le> k \<and> (\<forall>v\<in>set vs. Suc d + json_depth v \<le> k)"
  "d + json_depth (JObject kvs) \<le> k \<longleftrightarrow> d \<le> k \<and> (\<forall>x\<in>set kvs. Suc d + json_depth (snd x) \<le> k)"
proof -
  have "d + m \<le> k \<longleftrightarrow> d \<le> k \<and> m \<le> k - d" for m by auto
  then show "d + json_depth (JArray vs) \<le> k \<longleftrightarrow> d \<le> k \<and> (\<forall>v\<in>set vs. Suc d + json_depth v \<le> k)"
    and "d + json_depth (JObject kvs) \<le> k \<longleftrightarrow> d \<le> k \<and> (\<forall>x\<in>set kvs. Suc d + json_depth (snd x) \<le> k)"
    by (auto simp: fold_max_le)
qed

theorem normalizeCanonicalValue_eq_Inr:
  "normalizeCanonicalValue v p n d = Inr (v', n') \<longleftrightarrow>
     json_clean v \<and> n + json_nodes v \<le> node_limit \<and> d + json_depth v \<le> depth_limit \<and>
     v' = canon v \<and> n' = n + json_nodes v"
proof (induction v arbitrary: p n d v' n' rule: canon.induct)
  case (1 vs)
  define f where "f = (\<lambda>(i, x) s. normalizeCanonicalValue x (p @ ''['' @ string_of_nat i @ '']'') s (d + 1))"
  have "rmap_state f (enumerate 0 vs) (Suc n) = Inr (ys, n') \<longleftrightarrow>
      (\<forall>x\<in>set (enumerate 0 vs). json_clean (snd x) \<and> Suc d + json_depth (snd x) \<le> depth_limit) \<and>
      Suc n + sum_list (map (\<lambda>x. json_nodes (snd x)) (enumerate 0 vs)) \<le> node_limit \<and>
      ys = map (\<lambda>x. canon (snd x)) (enumerate 0 vs) \<and>
      n' = Suc n + sum_list (map (\<lambda>x. json_nodes (snd x)) (enumerate 0 vs))"
    if "Suc n \<le> node_limit" for ys n'
    using that by (intro rmap_state_count) (auto dest!: in_set_enumerateD simp: f_def 1)
  then have items: "rmap_state f (enumerate 0 vs) (Suc n) = Inr (ys, n') \<longleftrightarrow>
      (\<forall>x\<in>set vs. json_clean x \<and> Suc d + json_depth x \<le> depth_limit) \<and>
      Suc n + sum_list (map json_nodes vs) \<le> node_limit \<and>
      ys = map canon vs \<and> n' = Suc n + sum_list (map json_nodes vs)"
    if "Suc n \<le> node_limit" for ys n'
    using that
    by (simp only: map_enumerate_snd
        ball_enumerate_snd [of 0 vs "\<lambda>x. json_clean x \<and> Suc d + json_depth x \<le> depth_limit"])
  have "normalizeCanonicalValue (JArray vs) p n d = Inr (v', n') \<longleftrightarrow>
      Suc n \<le> node_limit \<and> d \<le> depth_limit \<and>
      (\<exists>ys. rmap_state f (enumerate 0 vs) (Suc n) = Inr (ys, n') \<and> v' = JArray ys)"
    by (subst normalizeCanonicalValue.simps) (auto simp: f_def)
  then show ?case
    by (auto simp: items depth_bound list_all_iff simp del: json_depth.simps)
next
  case (2 kvs)
  define f where "f = (\<lambda>(k, x) s. if x = JUndefined
      then throw (Error (''Undefined values are not canonicalizable at '' @ p @ ''.'' @ k @ ''.''))
      else rbind (normalizeCanonicalValue x (p @ ''.'' @ k) s (d + 1)) (\<lambda>(v, s'). return ((k, v), s')))"
  have item: "f x s = Inr (y, s') \<longleftrightarrow>
      (json_clean (snd x) \<and> Suc d + json_depth (snd x) \<le> depth_limit) \<and>
      s + json_nodes (snd x) \<le> node_limit \<and>
      y = (case x of (k, v) \<Rightarrow> (k, canon v)) \<and> s' = s + json_nodes (snd x)"
    if "x \<in> set (sort_key fst kvs)" for x s y s'
  proof -
    obtain k v where x: "x = (k, v)" by (cases x)
    have "normalizeCanonicalValue v q s e = Inr (v', n') \<longleftrightarrow>
        json_clean v \<and> s + json_nodes v \<le> node_limit \<and> e + json_depth v \<le> depth_limit \<and>
        v' = canon v \<and> n' = s + json_nodes v" for q e v' n'
      using 2 [OF that] x by simp
    then show ?thesis by (auto simp: f_def x)
  qed
  have members: "rmap_state f (sort_key fst kvs) (Suc n) = Inr (ys, n') \<longleftrightarrow>
      (\<forall>x\<in>set (sort_key fst kvs). json_clean (snd x) \<and> Suc d + json_depth (snd x) \<le> depth_limit) \<and>
      Suc n + sum_list (map (\<lambda>x. json_nodes (snd x)) (sort_key fst kvs)) \<le> node_limit \<and>
      ys = map (\<lambda>(k, x). (k, canon x)) (sort_key fst kvs) \<and>
      n' = Suc n + sum_list (map (\<lambda>x. json_nodes (snd x)) (sort_key fst kvs))"
    if "Suc n \<le> node_limit" for ys n'
    using item that by (rule rmap_state_count)
  have "normalizeCanonicalValue (JObject kvs) p n d = Inr (v', n') \<longleftrightarrow>
      Suc n \<le> node_limit \<and> d \<le> depth_limit \<and>
      (\<exists>ys. rmap_state f (sort_key fst kvs) (Suc n) = Inr (ys, n') \<and> v' = JObject ys)"
    by (subst normalizeCanonicalValue.simps) (auto simp: f_def)
  then show ?case
    by (auto simp: members depth_bound list_all_iff sum_list_sort_key case_prod_beta'
        simp del: json_depth.simps) force+
qed (auto simp: normalizeCanonicalValue.simps split: js_number.splits json.splits
      elim: json_clean.elims)

section \<open>The canonical text determines the value\<close>

lemma sort_key_sorted: "sorted (map f xs) \<Longrightarrow> sort_key f xs = xs"
  by (induction xs) (auto intro: insort_is_Cons)

lemma canon_defined: "json_clean v \<Longrightarrow> canon v \<noteq> JUndefined"
  by (cases v rule: canon.cases) auto

lemma json_clean_canon [simp]: "json_clean (canon v) = json_clean v"
  by (induction v rule: canon.induct) (auto simp: list_all_iff)

lemma filter_defined:
  "list_all (\<lambda>(k, v). json_clean v) kvs \<Longrightarrow> filter (\<lambda>(k, v). v \<noteq> JUndefined) kvs = kvs"
  by (induction kvs) auto

lemma rmap_list_pure: "(\<And>x. x \<in> set xs \<Longrightarrow> f x = Inr (g x)) \<Longrightarrow> rmap_list f xs = Inr (map g xs)"
  by (induction xs) auto

lemma serialize_canon:
  "json_clean v \<Longrightarrow> serializeCanonicalValue (canon v) = Inr (JSON_stringify (canon v))"
proof (induction v rule: canon.induct)
  case (1 vs)
  then have "rmap_list serializeCanonicalValue (map canon vs) = Inr (map JSON_stringify (map canon vs))"
    by (intro rmap_list_pure) (auto simp: list_all_iff)
  then show ?case by simp
next
  case (2 kvs)
  let ?kvs = "map (\<lambda>(k, v). (k, canon v)) (sort_key fst kvs)"
  have "map fst ?kvs = map fst (sort_key fst kvs)"
    by (simp add: case_prod_beta')
  then have sorted: "sort_key fst ?kvs = ?kvs"
    by (intro sort_key_sorted) (simp only: sorted_sort_key)
  have ser: "serializeCanonicalValue v = Inr (JSON_stringify v)" if kv: "(k, v) \<in> set ?kvs" for k v
  proof -
    from kv obtain u where u: "(k, u) \<in> set (sort_key fst kvs)" "v = canon u" by auto
    with "2.prems" have "json_clean u" by (auto simp: list_all_iff)
    with 2 u show ?thesis by blast
  qed
  have "rmap_list (\<lambda>(key, v). rbind (serializeCanonicalValue v) (\<lambda>s. return (json_quote key @ '':'' @ s))) ?kvs
      = Inr (map (\<lambda>(k, v). json_quote k @ '':'' @ JSON_stringify v) ?kvs)"
  proof (rule rmap_list_pure)
    fix x assume "x \<in> set ?kvs"
    then have "serializeCanonicalValue (snd x) = Inr (JSON_stringify (snd x))"
      using ser [of "fst x" "snd x"] by simp
    then show "(case x of (key, v) \<Rightarrow> rbind (serializeCanonicalValue v) (\<lambda>s. return (json_quote key @ '':'' @ s)))
        = Inr (case x of (k, v) \<Rightarrow> json_quote k @ '':'' @ JSON_stringify v)"
      by (simp add: case_prod_beta)
  qed
  moreover have "filter (\<lambda>(k, v). v \<noteq> JUndefined) ?kvs = ?kvs"
    using "2.prems" by (intro filter_defined) (auto simp: list_all_iff)
  ultimately show ?case
    by (simp add: sorted del: sort_key_simps)
qed auto

theorem canonicalizeReleaseJson_eq_Inr:
  "canonicalizeReleaseJson v = Inr s \<longleftrightarrow>
     json_clean v \<and> json_nodes v \<le> node_limit \<and> json_depth v \<le> depth_limit \<and>
     s = JSON_stringify (canon v)"
  by (auto simp: canonicalizeReleaseJson_def normalizeCanonicalValue_eq_Inr serialize_canon)

subsection \<open>Quoted strings are self-delimiting\<close>

lemma quote_char_nonempty [simp]: "quote_char c \<noteq> []"
  by (simp add: quote_char_def Let_def)

lemma quote_char_hd: "hd (quote_char c) \<noteq> CHR 0x22"
  by (auto simp: quote_char_def Let_def)

text \<open>A reader for one escaped character, which shows that escapes form a prefix code.\<close>

definition unquote :: "string \<Rightarrow> char \<times> string" where
  "unquote s =
     (if hd s \<noteq> CHR 0x5C then (hd s, tl s)
      else if s ! 1 = CHR ''b'' then (CHR 0x08, drop 2 s)
      else if s ! 1 = CHR ''f'' then (CHR 0x0C, drop 2 s)
      else if s ! 1 = CHR ''n'' then (CHR 0x0A, drop 2 s)
      else if s ! 1 = CHR ''r'' then (CHR 0x0D, drop 2 s)
      else if s ! 1 = CHR ''t'' then (CHR 0x09, drop 2 s)
      else if s ! 1 = CHR ''u'' then
        (char_of (16 * the (hex_digit_value (s ! 4)) + the (hex_digit_value (s ! 5))), drop 6 s)
      else (s ! 1, drop 2 s))"

lemma hex_digit_value_digit_char: "d < 16 \<Longrightarrow> hex_digit_value (digit_char d) = Some d"
  by (simp add: hex_digit_value_def digit_char_code)

lemma backslash_code: "(of_char (CHR 0x5C) :: nat) = 92"
  by simp

lemma unquote_quote_char: "unquote (quote_char c @ r) = (c, r)"
proof -
  have hex: "hex_digit_value (digit_char (n div 16)) = Some (n div 16)"
    "hex_digit_value (digit_char (n mod 16)) = Some (n mod 16)" if "n < 32" for n
    using that by (auto intro: hex_digit_value_digit_char)
  have plain: "c \<noteq> CHR 0x5C" if "(of_char c :: nat) \<noteq> 92"
    using that by (metis backslash_code)
  consider (esc) "(of_char c :: nat) \<in> {34, 92, 8, 12, 10, 13, 9}"
    | (uni) "(of_char c :: nat) \<notin> {34, 92, 8, 12, 10, 13, 9}" "(of_char c :: nat) < 32"
    | (pl) "(of_char c :: nat) \<notin> {34, 92, 8, 12, 10, 13, 9}" "\<not> (of_char c :: nat) < 32"
    by blast
  then show ?thesis
  proof cases
    case esc
    then have "c \<in> char_of ` {34, 92, 8, 12, 10, 13, 9 :: nat}"
      by (metis char_of_char image_eqI)
    then have "c \<in> {CHR 0x22, CHR 0x5C, CHR 0x08, CHR 0x0C, CHR 0x0A, CHR 0x0D, CHR 0x09}"
      by (simp add: char_of_def bit_0)
    then consider "c = CHR 0x22" | "c = CHR 0x5C" | "c = CHR 0x08" | "c = CHR 0x0C"
      | "c = CHR 0x0A" | "c = CHR 0x0D" | "c = CHR 0x09"
      by blast
    then show ?thesis
      by cases (simp_all add: quote_char_def unquote_def Let_def)
  next
    case uni
    then have q: "quote_char c = [CHR 0x5C, CHR ''u'', CHR ''0'', CHR ''0'',
        digit_char (of_char c div 16), digit_char (of_char c mod 16)]"
      by (simp add: quote_char_def Let_def)
    show ?thesis
      unfolding q by (simp add: unquote_def hex [OF uni(2)])
  next
    case pl
    then have "quote_char c = [c]"
      by (simp add: quote_char_def Let_def)
    with pl plain show ?thesis
      by (simp add: unquote_def)
  qed
qed

lemma quote_char_prefix: "quote_char c @ r = quote_char d @ r' \<Longrightarrow> c = d \<and> r = r'"
  by (metis prod.inject unquote_quote_char)

lemma quote_body_prefix:
  "concat (map quote_char s) @ CHR 0x22 # r = concat (map quote_char t) @ CHR 0x22 # r' \<Longrightarrow>
   s = t \<and> r = r'"
proof (induction s arbitrary: t)
  case Nil
  then show ?case
    by (cases t) (auto simp: hd_append dest!: arg_cong [of _ _ hd] simp: quote_char_hd [symmetric])
next
  case (Cons c s)
  show ?case
  proof (cases t)
    case Nil
    with Cons.prems quote_char_hd [of c] show ?thesis
      by (auto dest!: arg_cong [of _ _ hd] simp: hd_append)
  next
    case (Cons d t')
    with Cons.prems have "c = d \<and> concat (map quote_char s) @ CHR 0x22 # r
        = concat (map quote_char t') @ CHR 0x22 # r'"
      by (intro quote_char_prefix) simp
    with Cons.IH Cons show ?thesis by blast
  qed
qed

lemma json_quote_prefix: "json_quote s @ r = json_quote t @ r' \<Longrightarrow> s = t \<and> r = r'"
  by (auto simp: json_quote_def dest: quote_body_prefix)

subsection \<open>Numbers end at the first delimiter\<close>

definition delim :: "string \<Rightarrow> bool" where
  "delim r \<longleftrightarrow> r = [] \<or> hd r \<in> {CHR '','', CHR '']'', CHR ''}''}"

definition number_char :: "char \<Rightarrow> bool" where
  "number_char c \<longleftrightarrow> is_dec_digit c \<or> c = CHR ''-''"

lemma string_of_int_chars: "c \<in> set (string_of_int i) \<Longrightarrow> number_char c"
  by (auto simp: string_of_int_def number_char_def dest: string_of_nat_digits split: if_splits)

lemma string_of_int_nonempty [simp]: "string_of_int i \<noteq> []"
  by (simp add: string_of_int_def)

lemma takeWhile_number: "delim r \<Longrightarrow> takeWhile number_char (string_of_int i @ r) = string_of_int i"
proof -
  assume "delim r"
  then have "takeWhile number_char r = []"
    by (cases r) (auto simp: delim_def number_char_def is_dec_digit_def)
  then show ?thesis
    by (simp add: takeWhile_append2 string_of_int_chars)
qed

lemma number_prefix:
  assumes "string_of_int i @ r = string_of_int j @ r'" and "delim r" and "delim r'"
  shows "i = j \<and> r = r'"
proof -
  have "string_of_int i = string_of_int j"
    using assms takeWhile_number by metis
  with assms(1) show ?thesis
    by (simp add: string_of_int_inject)
qed

subsection \<open>Values\<close>

fun json_head :: "json \<Rightarrow> char" where
  "json_head JNull = CHR ''n''"
| "json_head (JBool b) = (if b then CHR ''t'' else CHR ''f'')"
| "json_head (JNumber x) = CHR ''0''"
| "json_head (JString s) = CHR 0x22"
| "json_head (JArray vs) = CHR ''[''"
| "json_head (JObject kvs) = CHR ''{''"
| "json_head JUndefined = CHR ''n''"

definition head_class :: "char \<Rightarrow> char" where
  "head_class c = (if number_char c then CHR ''0'' else c)"

lemma stringify_nonempty [simp]: "JSON_stringify v \<noteq> []"
  by (cases v rule: JSON_stringify.cases) (auto simp: json_quote_def)

lemma stringify_head: "json_clean v \<Longrightarrow> head_class (hd (JSON_stringify v)) = json_head v"
proof (cases v rule: JSON_stringify.cases)
  case (4 i)
  have "number_char (hd (string_of_int i))"
    by (rule string_of_int_chars [of _ i]) simp
  with 4 show ?thesis by (simp add: head_class_def)
qed (auto simp: head_class_def number_char_def is_dec_digit_def json_quote_def)

lemma json_head_not_delim: "json_head v \<notin> {CHR '','', CHR '']'', CHR ''}''}"
  by (cases v) auto

lemma stringify_not_delim:
  "json_clean v \<Longrightarrow> hd (JSON_stringify v) \<notin> {CHR '','', CHR '']'', CHR ''}''}"
  using stringify_head [of v] json_head_not_delim [of v]
  by (auto simp: head_class_def number_char_def is_dec_digit_def split: if_splits)

text \<open>
  A comma-separated list closed by a bracket is read back uniquely when its elements are: each
  element's text, followed by a delimiter, determines the element.
\<close>

lemma joined_prefix:
  assumes "close \<in> {CHR '']'', CHR ''}''}"
    and "\<And>x. x \<in> set xs \<union> set ys \<Longrightarrow> f x \<noteq> [] \<and> hd (f x) \<noteq> close"
    and "\<And>x y q q'. x \<in> set xs \<Longrightarrow> y \<in> set ys \<Longrightarrow> delim q \<Longrightarrow> delim q' \<Longrightarrow>
      f x @ q = f y @ q' \<Longrightarrow> x = y \<and> q = q'"
    and "join_with '','' (map f xs) @ close # r = join_with '','' (map f ys) @ close # r'"
  shows "xs = ys \<and> r = r'"
  using assms(2-4)
proof (induction xs arbitrary: ys)
  case Nil
  show ?case
  proof (cases ys)
    case (Cons y ys')
    have "hd (join_with '','' (map f ys) @ close # r') = hd (f y)"
      using Cons Nil.prems(1) [of y] by (cases ys') auto
    moreover have "hd (join_with '','' (map f ys) @ close # r') = close"
      by (subst Nil.prems(3) [symmetric]) simp
    ultimately show ?thesis
      using Nil.prems(1) [of y] Cons by simp
  qed (use Nil.prems in simp)
next
  case (Cons x xs)
  let ?rest = "\<lambda>zs q. if zs = [] then close # q else '','' @ join_with '','' (map f zs) @ close # q"
  have unfold: "join_with '','' (map f (z # zs)) @ close # q = f z @ ?rest zs q" for z zs q
    by (cases zs) auto
  have delim: "delim (?rest zs q)" for zs q
    using assms(1) by (auto simp: delim_def)
  show ?case
  proof (cases ys)
    case Nil
    have "hd (f x) = close"
      using Cons.prems(1) [of x] Cons.prems(3) Nil unfold [of x xs r]
      by (metis Un_iff append_Nil hd_append2 join_with.simps(1) list.map(1) list.sel(1) list.set_intros(1))
    with Cons.prems(1) [of x] show ?thesis by simp
  next
    case (Cons y ys')
    have "x = y \<and> ?rest xs r = ?rest ys' r'"
      using Cons.prems(3) delim by (intro Cons.prems(2)) (simp_all add: Cons unfold del: list.map)
    then have "x = y" and rest: "?rest xs r = ?rest ys' r'" by auto
    have comma: "close \<noteq> CHR '',''" using assms(1) by auto
    show ?thesis
    proof (cases "xs = [] \<or> ys' = []")
      case True
      with rest comma \<open>x = y\<close> Cons show ?thesis by (auto split: if_splits)
    next
      case False
      with rest have "join_with '','' (map f xs) @ close # r = join_with '','' (map f ys') @ close # r'"
        by simp
      moreover have "f z \<noteq> [] \<and> hd (f z) \<noteq> close" if "z \<in> set xs \<union> set ys'" for z
        by (rule Cons.prems(1)) (use that Cons in auto)
      moreover have "a = b \<and> q = q'"
        if "a \<in> set xs" "b \<in> set ys'" "delim q" "delim q'" "f a @ q = f b @ q'" for a b q q'
        by (rule Cons.prems(2)) (use that Cons in simp_all)
      ultimately have "xs = ys' \<and> r = r'"
        by (intro Cons.IH)
      with \<open>x = y\<close> Cons show ?thesis by simp
    qed
  qed
qed

lemma member_text_head: "json_quote k @ s \<noteq> [] \<and> hd (json_quote k @ s) = CHR 0x22"
  by (simp add: json_quote_def)

lemma stringify_same_head:
  assumes "json_clean v" "json_clean w" "JSON_stringify v @ r = JSON_stringify w @ r'"
  shows "json_head v = json_head w"
  using stringify_head [OF assms(1)] stringify_head [OF assms(2)] arg_cong [OF assms(3), of hd]
  by simp

inductive scalar :: "json \<Rightarrow> bool" where
  "scalar JNull"
| "scalar (JBool b)"
| "scalar (JNumber (Num i))"
| "scalar (JString s)"

lemma stringify_prefix_scalar:
  assumes "scalar v" and "json_clean w" and eq: "JSON_stringify v @ r = JSON_stringify w @ r'"
    and "delim r" and "delim r'"
  shows "v = w \<and> r = r'"
proof -
  have "json_clean v" using assms(1) by cases simp_all
  then have head: "json_head v = json_head w"
    using assms(2) eq by (rule stringify_same_head)
  from assms(1) show ?thesis
  proof cases
    case 1
    with head eq assms(2) show ?thesis by (cases w) (auto split: if_splits)
  next
    case (2 b)
    with head eq show ?thesis by (cases w) (auto split: if_splits)
  next
    case (3 i)
    with head obtain x where "w = JNumber x" by (cases w) (auto split: if_splits)
    with 3 assms show ?thesis by (cases x) (auto dest: number_prefix)
  next
    case (4 s)
    with head obtain t where "w = JString t" by (cases w) (auto split: if_splits)
    with 4 eq show ?thesis by (auto dest: json_quote_prefix)
  qed
qed

theorem stringify_prefix:
  "json_clean v \<Longrightarrow> json_clean w \<Longrightarrow> JSON_stringify v @ r = JSON_stringify w @ r' \<Longrightarrow>
   delim r \<Longrightarrow> delim r' \<Longrightarrow> v = w \<and> r = r'"
proof (induction v arbitrary: w r r' rule: json_clean.induct)
  case (3 vs)
  then obtain ws where w: "w = JArray ws"
    using stringify_same_head [of "JArray vs" w r r'] by (cases w) (auto split: if_splits)
  have "vs = ws \<and> r = r'"
  proof (rule joined_prefix [of "CHR '']''" vs ws JSON_stringify])
    show "join_with '','' (map JSON_stringify vs) @ CHR '']'' # r =
        join_with '','' (map JSON_stringify ws) @ CHR '']'' # r'"
      using 3 w by simp
    show "JSON_stringify x \<noteq> [] \<and> hd (JSON_stringify x) \<noteq> CHR '']''" if "x \<in> set vs \<union> set ws" for x
      using that 3 w stringify_not_delim [of x] by (auto simp: list_all_iff)
    show "x = y \<and> q = q'" if "x \<in> set vs" "y \<in> set ws" "delim q" "delim q'"
        "JSON_stringify x @ q = JSON_stringify y @ q'" for x y q q'
      using that 3 w by (intro "3.IH") (auto simp: list_all_iff)
  qed simp
  with w show ?case by simp
next
  case (4 kvs)
  let ?f = "\<lambda>(k, v). json_quote k @ '':'' @ JSON_stringify v"
  obtain ls where w: "w = JObject ls"
    using 4 stringify_same_head [of "JObject kvs" w r r'] by (cases w) (auto split: if_splits)
  have "kvs = ls \<and> r = r'"
  proof (rule joined_prefix [of "CHR ''}''" kvs ls ?f])
    show "join_with '','' (map ?f kvs) @ CHR ''}'' # r = join_with '','' (map ?f ls) @ CHR ''}'' # r'"
      using 4 w by (simp add: filter_defined)
    show "?f x \<noteq> [] \<and> hd (?f x) \<noteq> CHR ''}''" for x
      using member_text_head by (auto split: prod.split)
    show "x = y \<and> q = q'" if xy: "x \<in> set kvs" "y \<in> set ls" and d: "delim q" "delim q'"
        and eq: "?f x @ q = ?f y @ q'" for x y q q'
    proof -
      obtain k v l u where x: "x = (k, v)" and y: "y = (l, u)" by fastforce
      have clean: "json_clean v" "json_clean u"
        using xy "4.prems"(1,2) unfolding w by (auto simp: x y list_all_iff)
      have keq: "k = l \<and> JSON_stringify v @ q = JSON_stringify u @ q'"
        using eq by (auto simp: x y dest!: json_quote_prefix)
      have "v = u \<and> q = q'"
        by (rule "4.IH" [OF xy(1) x [symmetric] clean conjunct2 [OF keq] d])
      with keq show ?thesis by (simp add: x y)
    qed
  qed simp
  with w show ?case by simp
qed (simp_all only: json_clean.simps, (rule stringify_prefix_scalar; (assumption | rule scalar.intros))+)

lemma stringify_inject:
  "json_clean v \<Longrightarrow> json_clean w \<Longrightarrow> JSON_stringify v = JSON_stringify w \<Longrightarrow> v = w"
  using stringify_prefix [of v w "[]" "[]"] by (simp add: delim_def)

section \<open>Equality up to the order of object members\<close>

text \<open>
  The keys of a JavaScript object are distinct. Two values are the same JSON when they differ
  at most in the order of the members of their objects, at any depth.
\<close>

fun json_wf :: "json \<Rightarrow> bool" where
  "json_wf (JArray vs) = list_all json_wf vs"
| "json_wf (JObject kvs) = (distinct (map fst kvs) \<and> list_all (\<lambda>(k, v). json_wf v) kvs)"
| "json_wf v = True"

inductive json_same :: "json \<Rightarrow> json \<Rightarrow> bool" where
  same_null: "json_same JNull JNull"
| same_bool: "json_same (JBool b) (JBool b)"
| same_number: "json_same (JNumber n) (JNumber n)"
| same_string: "json_same (JString s) (JString s)"
| same_undefined: "json_same JUndefined JUndefined"
| same_array: "list_all2 json_same vs ws \<Longrightarrow> json_same (JArray vs) (JArray ws)"
| same_object: "(\<And>k. rel_option json_same (map_of kvs k) (map_of ls k)) \<Longrightarrow>
    json_same (JObject kvs) (JObject ls)"

inductive_simps json_same_simps:
  "json_same JNull w" "json_same (JBool b) w" "json_same (JNumber n) w" "json_same (JString s) w"
  "json_same JUndefined w" "json_same (JArray vs) w" "json_same (JObject kvs) w"

lemma map_of_sort_key:
  "distinct (map fst kvs) \<Longrightarrow> map_of (sort_key fst kvs) = map_of kvs"
  by (subst map_of_inject_set) (simp_all add: distinct_map inj_on_def)

lemma canon_object_eq:
  assumes "distinct (map fst kvs)" and "distinct (map fst ls)"
  shows "canon (JObject kvs) = canon (JObject ls) \<longleftrightarrow>
    (\<forall>k. map_option canon (map_of kvs k) = map_option canon (map_of ls k))"
proof -
  let ?c = "\<lambda>xs. map (\<lambda>(k, v). (k, canon v)) (sort_key fst xs)"
  have keys: "sorted (map fst (?c xs))" for xs
    using sorted_sort_key [of fst xs] by (simp add: case_prod_beta' o_def del: sorted_sort_key)
  have dist: "distinct (map fst (?c xs))" if "distinct (map fst xs)" for xs
    using that by (simp add: case_prod_beta' o_def distinct_map inj_on_def)
  have val: "map_of (?c xs) k = map_option canon (map_of xs k)" if "distinct (map fst xs)" for xs k
    using that by (simp add: map_of_map map_of_sort_key)
  have "?c kvs = ?c ls \<longleftrightarrow> set (?c kvs) = set (?c ls)"
  proof
    assume "set (?c kvs) = set (?c ls)"
    moreover have "inj_on fst (set (?c ls))"
      using dist [OF assms(2)] by (simp only: distinct_map)
    ultimately show "?c kvs = ?c ls"
      by (intro map_sorted_distinct_set_unique [of fst])
        (simp_all only: keys dist assms Un_absorb)
  qed simp
  also have "\<dots> \<longleftrightarrow> map_of (?c kvs) = map_of (?c ls)"
    by (rule map_of_inject_set [symmetric]) (rule dist [OF assms(1)] dist [OF assms(2)])+
  finally show ?thesis
    by (simp add: fun_eq_iff val assms)
qed

lemma map_of_member_wf: "list_all (\<lambda>(k, v). P v) kvs \<Longrightarrow> map_of kvs k = Some v \<Longrightarrow> P v"
  by (auto simp: list_all_iff dest: map_of_SomeD)

theorem canon_eq_iff_same:
  "json_wf v \<Longrightarrow> json_wf w \<Longrightarrow> canon v = canon w \<longleftrightarrow> json_same v w"
proof (induction v arbitrary: w rule: json_wf.induct)
  case (1 vs)
  show ?case
  proof (cases w)
    case (JArray ws)
    have "map canon vs = map canon ws \<longleftrightarrow> list_all2 json_same vs ws"
      unfolding list_eq_iff_nth_eq list_all2_conv_all_nth
      using 1 JArray by (auto simp: list_all_length)
    with JArray show ?thesis by (simp add: json_same_simps)
  qed (simp_all add: json_same_simps)
next
  case (2 kvs)
  show ?case
  proof (cases w)
    case (JObject ls)
    have "map_option canon (map_of kvs k) = map_option canon (map_of ls k) \<longleftrightarrow>
        rel_option json_same (map_of kvs k) (map_of ls k)" for k
    proof (cases "map_of kvs k"; cases "map_of ls k")
      fix a b assume ab: "map_of kvs k = Some a" "map_of ls k = Some b"
      have "(k, a) \<in> set kvs" using ab by (auto dest: map_of_SomeD)
      moreover have "json_wf a" "json_wf b"
        using 2 JObject ab by (auto dest: map_of_member_wf)
      ultimately show ?thesis using "2.IH" ab by simp
    qed simp_all
    with JObject 2 show ?thesis
      by (simp only: canon_object_eq json_wf.simps) (auto simp: json_same_simps)
  qed (simp_all add: json_same_simps)
qed (case_tac w; auto simp: json_same_simps)+

lemma json_same_object_keys:
  "distinct (map fst kvs) \<Longrightarrow> map fst kvs = map fst ls \<Longrightarrow>
   json_same (JObject kvs) (JObject ls) \<longleftrightarrow> list_all2 json_same (map snd kvs) (map snd ls)"
proof (induction kvs arbitrary: ls)
  case Nil
  then show ?case by (simp add: json_same_simps)
next
  case (Cons x xs)
  obtain k v where x: "x = (k, v)" by (cases x)
  obtain w ys where ls: "ls = (k, w) # ys" and ys: "map fst xs = map fst ys"
    using Cons.prems x by (cases ls) auto
  have none: "map_of xs k = None" "map_of ys k = None"
    using Cons.prems ys by (auto simp: map_of_eq_None_iff x simp flip: set_map)
  have "json_same (JObject (x # xs)) (JObject ls) \<longleftrightarrow>
      json_same v w \<and> (\<forall>l. l \<noteq> k \<longrightarrow> rel_option json_same (map_of xs l) (map_of ys l))"
    by (auto simp: json_same_simps x ls)
  also have "\<dots> \<longleftrightarrow> json_same v w \<and> json_same (JObject xs) (JObject ys)"
    using none by (auto simp: json_same_simps) (metis option.rel_distinct option.rel_intros(1))
  finally show ?case
    using Cons.IH [OF _ ys] Cons.prems by (simp add: x ls)
qed

lemma json_nodes_canon [simp]: "json_nodes (canon v) = json_nodes v"
proof (induction v rule: canon.induct)
  case (1 vs)
  then have "map json_nodes (map canon vs) = map json_nodes vs" by simp
  then show ?case by (simp only: canon.simps json_nodes.simps)
next
  case (2 kvs)
  have "(\<Sum>x\<leftarrow>kvs. json_nodes (canon (snd x))) = (\<Sum>x\<leftarrow>kvs. json_nodes (snd x))"
    using 2 by (intro arg_cong [of _ _ sum_list] map_cong) auto
  then show ?case
    by (simp add: case_prod_beta' o_def sum_list_sort_key)
qed simp_all

lemma fold_max_cong: "set xs = set ys \<Longrightarrow> fold max xs (0 :: nat) = fold max ys 0"
  by (rule antisym) (simp_all add: fold_max_le, (metis fold_max_le le_refl)+)

lemma json_depth_canon [simp]: "json_depth (canon v) = json_depth v"
proof (induction v rule: canon.induct)
  case (1 vs)
  then have "map (\<lambda>v. Suc (json_depth v)) (map canon vs) = map (\<lambda>v. Suc (json_depth v)) vs" by simp
  then show ?case by (simp only: canon.simps json_depth.simps)
next
  case (2 kvs)
  have "(\<lambda>x. Suc (json_depth (canon (snd x)))) ` set kvs = (\<lambda>x. Suc (json_depth (snd x))) ` set kvs"
    using 2 by (intro image_cong) auto
  then show ?case
    by (auto simp: case_prod_beta' o_def intro!: fold_max_cong)
qed simp_all

lemma json_str_opt_inject [simp]: "json_str_opt a = json_str_opt b \<longleftrightarrow> a = b"
  by (cases a; cases b) simp_all

lemma json_strs_inject [simp]: "json_strs xs = json_strs ys \<longleftrightarrow> xs = ys"
  by (auto simp: json_strs_def dest!: map_injective intro: injI)

lemma json_strs_clean [simp]: "json_clean (json_str_opt a)" "json_clean (json_strs xs)"
  by (cases a; simp) (simp add: json_strs_def list_all_iff)

lemma json_strs_wf [simp]: "json_wf (json_str_opt a)" "json_wf (json_strs xs)"
  by (cases a; simp) (simp add: json_strs_def list_all_iff)

lemma json_str_opt_same [simp]: "json_same (json_str_opt a) (json_str_opt b) \<longleftrightarrow> a = b"
  by (cases a; cases b) (auto simp: json_same_simps)

lemma canonical_text_same:
  assumes "json_wf v" and "json_wf w" and "canonicalizeReleaseJson v = Inr s"
  shows "canonicalizeReleaseJson w = Inr s \<longleftrightarrow> json_same v w"
proof
  assume "json_same v w"
  then have eq: "canon v = canon w"
    using assms(1,2) by (simp add: canon_eq_iff_same)
  then have "json_clean w = json_clean v" "json_nodes w = json_nodes v" "json_depth w = json_depth v"
    by (metis json_clean_canon json_nodes_canon json_depth_canon)+
  with assms(3) eq show "canonicalizeReleaseJson w = Inr s"
    by (simp add: canonicalizeReleaseJson_eq_Inr)
next
  assume "canonicalizeReleaseJson w = Inr s"
  with assms(3) have "canon v = canon w"
    by (intro stringify_inject) (auto simp: canonicalizeReleaseJson_eq_Inr)
  then show "json_same v w"
    using assms(1,2) by (simp add: canon_eq_iff_same)
qed

text \<open>
  C7: Canonicalization is exact. On objects with distinct keys, when one value has a canonical
  text, another value has the same canonical text if and only if it is the same JSON up to the
  order of object members at every depth: the order never matters and nothing else is lost.
\<close>

theorem canonical_text_exact:
  assumes "json_wf v" and "json_wf w" and "canonicalizeReleaseJson v = Inr s"
  shows "canonicalizeReleaseJson w = Inr s \<longleftrightarrow> json_same v w"
  using assms by (rule canonical_text_same)

definition sample_json :: json where
  "sample_json = JObject [(''b'', JArray [JNull, JNumber (Num 7)]), (''a'', JString ''x'')]"

definition sample_json_reordered :: json where
  "sample_json_reordered = JObject [(''a'', JString ''x''), (''b'', JArray [JNull, JNumber (Num 7)])]"

theorem canonical_text_exact_witness:
  "canonicalizeReleaseJson sample_json = canonicalizeReleaseJson sample_json_reordered \<and>
   json_same sample_json sample_json_reordered"
proof -
  have wf: "json_wf sample_json" "json_wf sample_json_reordered"
    by (simp_all add: sample_json_def sample_json_reordered_def)
  have "canon sample_json = canon sample_json_reordered"
    by (simp add: sample_json_def sample_json_reordered_def)
  then have same: "json_same sample_json sample_json_reordered"
    using wf by (simp add: canon_eq_iff_same)
  have "canonicalizeReleaseJson sample_json = Inr (JSON_stringify (canon sample_json))"
    by (simp add: canonicalizeReleaseJson_eq_Inr) (simp add: sample_json_def
        MAX_CANONICAL_RELEASE_JSON_NODES_def MAX_CANONICAL_RELEASE_JSON_DEPTH_def)
  with canonical_text_exact [OF wf this] same show ?thesis by simp
qed

text \<open>
Canonicalization succeeds exactly on values without undefined members or non-finite numbers
  that have at most 100000 nodes and are nested at most 128 levels deep; otherwise it throws. Its
  text is the \<open>JSON.stringify\<close> of the value with the members of every object sorted.
\<close>

theorem canonicalization_succeeds_iff:
  "canonicalizeReleaseJson v = Inr s \<longleftrightarrow>
     json_clean v \<and> json_nodes v \<le> 100000 \<and> json_depth v \<le> 128 \<and> s = JSON_stringify (canon v)"
  by (simp add: canonicalizeReleaseJson_eq_Inr MAX_CANONICAL_RELEASE_JSON_NODES_def
      MAX_CANONICAL_RELEASE_JSON_DEPTH_def)

end
