(* ===== verification/Release_Types.thy ===== *)
theory Release_Types
  imports Canonical_Json
begin

text \<open>
  The shared vocabulary of the release kernel: \<open>types.ts\<close>, \<open>object-model.ts\<close> and
  \<open>risk-controls.ts\<close> under \<open>src/src/release-kernel\<close>.

  A union of string literals is a \<open>datatype\<close> with a rendering \<open>..._str\<close> into the literals; an
  interface is a \<open>record\<close> whose fields carry a prefix of the record's own, because several
  interfaces share field names. An optional field is an \<open>option\<close>. The lemmas show that the
  controls demanded of a release are monotone in its risk class and what the default release
  conditions of a decision are.
\<close>

section \<open>Vocabulary\<close>

datatype consequence_type = Communication | Record | Action | Decision_support

fun consequence_type_str :: "consequence_type \<Rightarrow> string" where
  "consequence_type_str Communication = ''communication''"
| "consequence_type_str Record = ''record''"
| "consequence_type_str Action = ''action''"
| "consequence_type_str Decision_support = ''decision-support''"

definition CONSEQUENCE_TYPES :: "consequence_type list" where
  "CONSEQUENCE_TYPES = [Communication, Record, Action, Decision_support]"

datatype risk_class = R0 | R1 | R2 | R3 | R4

fun risk_class_str :: "risk_class \<Rightarrow> string" where
  "risk_class_str R0 = ''R0''"
| "risk_class_str R1 = ''R1''"
| "risk_class_str R2 = ''R2''"
| "risk_class_str R3 = ''R3''"
| "risk_class_str R4 = ''R4''"

definition RISK_CLASSES :: "risk_class list" where
  "RISK_CLASSES = [R0, R1, R2, R3, R4]"

fun risk_rank :: "risk_class \<Rightarrow> nat" where
  "risk_rank R0 = 0"
| "risk_rank R1 = 1"
| "risk_rank R2 = 2"
| "risk_rank R3 = 3"
| "risk_rank R4 = 4"

instantiation risk_class :: linorder
begin

definition less_eq_risk_class :: "risk_class \<Rightarrow> risk_class \<Rightarrow> bool" where
  "a \<le> b \<longleftrightarrow> risk_rank a \<le> risk_rank b"

definition less_risk_class :: "risk_class \<Rightarrow> risk_class \<Rightarrow> bool" where
  "a < b \<longleftrightarrow> risk_rank a < risk_rank b"

instance
proof
  fix a b c :: risk_class
  have inj: "risk_rank a = risk_rank b \<Longrightarrow> a = b" by (cases a; cases b) simp_all
  show "(a < b) = (a \<le> b \<and> \<not> b \<le> a)" by (auto simp: less_eq_risk_class_def less_risk_class_def)
  show "a \<le> a" by (simp add: less_eq_risk_class_def)
  show "a \<le> b \<Longrightarrow> b \<le> c \<Longrightarrow> a \<le> c" by (simp add: less_eq_risk_class_def)
  show "a \<le> b \<Longrightarrow> b \<le> a \<Longrightarrow> a = b" by (intro inj) (simp add: less_eq_risk_class_def)
  show "a \<le> b \<or> b \<le> a" by (auto simp: less_eq_risk_class_def)
qed

end

datatype default_release_path =
    Advisory | Auto_accept_eligible | Policy_gated | Path_review_required | Regulated_release

datatype review_authority_mode = Auto | Named_reviewer | Dual_approval | Break_glass

fun review_authority_mode_str :: "review_authority_mode \<Rightarrow> string" where
  "review_authority_mode_str Auto = ''auto''"
| "review_authority_mode_str Named_reviewer = ''named-reviewer''"
| "review_authority_mode_str Dual_approval = ''dual-approval''"
| "review_authority_mode_str Break_glass = ''break-glass''"

record review_authority_profile =
  rap_mode :: review_authority_mode
  rap_minimumReviewerCount :: int
  rap_requiresNamedReviewer :: bool

record risk_class_profile =
  rcp_id :: risk_class
  rcp_defaultReleasePath :: default_release_path
  rcp_defaultReviewAuthority :: review_authority_profile

fun RISK_CLASS_PROFILES :: "risk_class \<Rightarrow> risk_class_profile" where
  "RISK_CLASS_PROFILES R0 = \<lparr> rcp_id = R0, rcp_defaultReleasePath = Advisory,
     rcp_defaultReviewAuthority = \<lparr> rap_mode = Auto, rap_minimumReviewerCount = 0,
       rap_requiresNamedReviewer = False \<rparr> \<rparr>"
| "RISK_CLASS_PROFILES R1 = \<lparr> rcp_id = R1, rcp_defaultReleasePath = Auto_accept_eligible,
     rcp_defaultReviewAuthority = \<lparr> rap_mode = Auto, rap_minimumReviewerCount = 0,
       rap_requiresNamedReviewer = False \<rparr> \<rparr>"
| "RISK_CLASS_PROFILES R2 = \<lparr> rcp_id = R2, rcp_defaultReleasePath = Policy_gated,
     rcp_defaultReviewAuthority = \<lparr> rap_mode = Auto, rap_minimumReviewerCount = 0,
       rap_requiresNamedReviewer = False \<rparr> \<rparr>"
| "RISK_CLASS_PROFILES R3 = \<lparr> rcp_id = R3, rcp_defaultReleasePath = Path_review_required,
     rcp_defaultReviewAuthority = \<lparr> rap_mode = Named_reviewer, rap_minimumReviewerCount = 1,
       rap_requiresNamedReviewer = True \<rparr> \<rparr>"
| "RISK_CLASS_PROFILES R4 = \<lparr> rcp_id = R4, rcp_defaultReleasePath = Regulated_release,
     rcp_defaultReviewAuthority = \<lparr> rap_mode = Dual_approval, rap_minimumReviewerCount = 2,
       rap_requiresNamedReviewer = True \<rparr> \<rparr>"

datatype release_decision_status =
    Accepted | Denied | Hold | Review_required | Expired | Revoked | Overridden

fun release_decision_status_str :: "release_decision_status \<Rightarrow> string" where
  "release_decision_status_str Accepted = ''accepted''"
| "release_decision_status_str Denied = ''denied''"
| "release_decision_status_str Hold = ''hold''"
| "release_decision_status_str Review_required = ''review-required''"
| "release_decision_status_str Expired = ''expired''"
| "release_decision_status_str Revoked = ''revoked''"
| "release_decision_status_str Overridden = ''overridden''"

definition RELEASE_DECISION_TERMINAL_STATUSES :: "release_decision_status list" where
  "RELEASE_DECISION_TERMINAL_STATUSES = [Accepted, Denied, Expired, Revoked, Overridden]"

definition isTerminalReleaseDecisionStatus :: "release_decision_status \<Rightarrow> bool" where
  "isTerminalReleaseDecisionStatus status \<longleftrightarrow> status \<in> set RELEASE_DECISION_TERMINAL_STATUSES"

record output_contract =
  oc_artifactType :: string
  oc_expectedShape :: string
  oc_consequenceType :: consequence_type
  oc_riskClass :: risk_class

record capability_boundary =
  cb_allowedTools :: "string list"
  cb_allowedTargets :: "string list"
  cb_allowedDataDomains :: "string list"

datatype evidence_retention_class = Ephemeral | Standard | Regulated

fun evidence_retention_class_str :: "evidence_retention_class \<Rightarrow> string" where
  "evidence_retention_class_str Ephemeral = ''ephemeral''"
| "evidence_retention_class_str Standard = ''standard''"
| "evidence_retention_class_str Regulated = ''regulated''"

definition isConsequenceType :: "string \<Rightarrow> bool" where
  "isConsequenceType value \<longleftrightarrow> value \<in> set (map consequence_type_str CONSEQUENCE_TYPES)"

definition isRiskClass :: "string \<Rightarrow> bool" where
  "isRiskClass value \<longleftrightarrow> value \<in> set (map risk_class_str RISK_CLASSES)"

definition defaultReviewAuthorityForRiskClass :: "risk_class \<Rightarrow> review_authority_profile" where
  "defaultReviewAuthorityForRiskClass riskClass = rcp_defaultReviewAuthority (RISK_CLASS_PROFILES riskClass)"

section \<open>Object model\<close>

definition RELEASE_DECISION_SPEC_VERSION :: string where
  "RELEASE_DECISION_SPEC_VERSION = ''attestor.release-decision.v1''"

definition RELEASE_TOKEN_SPEC_VERSION :: string where
  "RELEASE_TOKEN_SPEC_VERSION = ''attestor.release-token.v1''"

datatype release_actor_type = User | Service | System

fun release_actor_type_str :: "release_actor_type \<Rightarrow> string" where
  "release_actor_type_str User = ''user''"
| "release_actor_type_str Service = ''service''"
| "release_actor_type_str System = ''system''"

record release_actor =
  act_id :: string
  act_type :: release_actor_type
  act_displayName :: "string option"
  act_role :: "string option"

datatype release_target_kind = Endpoint | Queue | Record_store | Workflow | Artifact_registry

fun release_target_kind_str :: "release_target_kind \<Rightarrow> string" where
  "release_target_kind_str Endpoint = ''endpoint''"
| "release_target_kind_str Queue = ''queue''"
| "release_target_kind_str Record_store = ''record-store''"
| "release_target_kind_str Workflow = ''workflow''"
| "release_target_kind_str Artifact_registry = ''artifact-registry''"

record release_target =
  tgt_kind :: release_target_kind
  tgt_id :: string
  tgt_displayName :: "string option"

datatype release_finding_result = Pass | Warn | Fail | Info

datatype release_finding_source =
    Src_policy | Src_deterministic_check | Src_review | Src_runtime | Src_evidence | Src_override

record release_finding =
  fnd_code :: string
  fnd_result :: release_finding_result
  fnd_message :: string
  fnd_source :: release_finding_source

record review_authority =
  ra_mode :: review_authority_mode
  ra_minimumReviewerCount :: int
  ra_requiresNamedReviewer :: bool
  ra_requiredRoles :: "string list"
  ra_requiredReviewerIds :: "string list"

record review_authority_partial =
  rpo_mode :: "review_authority_mode option"
  rpo_minimumReviewerCount :: "int option"
  rpo_requiresNamedReviewer :: "bool option"
  rpo_requiredRoles :: "string list option"
  rpo_requiredReviewerIds :: "string list option"

datatype release_condition =
    Target_binding string
  | Usage_limit int
  | Expiry js_date
  | Introspection bool
  | Retention evidence_retention_class

datatype release_policy_provenance_source = Compiled_admission_policy_index | Policy_definition

record release_policy_provenance =
  prov_source :: release_policy_provenance_source
  prov_policyId :: string
  prov_policySpecVersion :: string
  prov_policyHash :: string
  prov_compiledPolicyHash :: "string option"
  prov_compiledPolicyIrHash :: "string option"
  prov_compiledPolicyIndexVersion :: "string option"
  prov_compiledPolicyIrVersion :: "string option"
  prov_verificationValid :: "bool option"
  prov_verificationErrorCodes :: "string list"
  prov_verificationWarningCodes :: "string list"

record override_grant =
  og_reasonCode :: string
  og_ticketId :: "string option"
  og_requestedBy :: release_actor

record release_decision =
  dec_version :: string
  dec_id :: string
  dec_createdAt :: js_date
  dec_status :: release_decision_status
  dec_consequenceType :: consequence_type
  dec_riskClass :: risk_class
  dec_policyVersion :: string
  dec_policyHash :: string
  dec_policyProvenance :: "release_policy_provenance option"
  dec_outputContract :: output_contract
  dec_capabilityBoundary :: capability_boundary
  dec_outputHash :: string
  dec_consequenceHash :: string
  dec_requester :: release_actor
  dec_target :: release_target
  dec_reviewAuthority :: review_authority
  dec_releaseConditions :: "release_condition list"
  dec_findings :: "release_finding list"
  dec_evidencePackId :: "string option"
  dec_releaseTokenId :: "string option"
  dec_override :: "override_grant option"

datatype release_token_actor_claim =
  ActorClaim (ac_sub: string) (ac_actor_type: "release_actor_type option")
    (ac_display_name: "string option") (ac_role: "string option")
    (ac_act: "release_token_actor_claim option")

record release_token_confirmation =
  cnf_jkt :: "string option"
  cnf_x5t_S256 :: "string option"
  cnf_spiffe_id :: "string option"
  cnf_spiffe_trust_domain :: "string option"

datatype release_token_use = Use_release | Use_exchanged_release

record release_token_claims =
  clm_version :: string
  clm_iss :: string
  clm_sub :: string
  clm_aud :: string
  clm_tenant_id :: "string option"
  clm_jti :: string
  clm_iat :: int
  clm_nbf :: int
  clm_exp :: int
  clm_decision_id :: string
  clm_decision :: release_decision_status
  clm_consequence_type :: consequence_type
  clm_risk_class :: risk_class
  clm_output_hash :: string
  clm_consequence_hash :: string
  clm_policy_hash :: string
  clm_policy_id :: "string option"
  clm_policy_version :: "string option"
  clm_policy_ir_hash :: "string option"
  clm_policy_provenance_source :: "release_policy_provenance_source option"
  clm_compiled_policy_index_version :: "string option"
  clm_compiled_policy_ir_version :: "string option"
  clm_override :: bool
  clm_introspection_required :: bool
  clm_authority_mode :: review_authority_mode
  clm_scope :: "string option"
  clm_resource :: "string option"
  clm_act :: "release_token_actor_claim option"
  clm_parent_jti :: "string option"
  clm_exchange_id :: "string option"
  clm_exchanged_at :: "int option"
  clm_source_aud :: "string option"
  clm_token_use :: "release_token_use option"
  clm_cnf :: "release_token_confirmation option"

record decision_skeleton_input =
  ski_id :: string
  ski_createdAt :: js_date
  ski_status :: release_decision_status
  ski_policyVersion :: string
  ski_policyHash :: string
  ski_policyProvenance :: "release_policy_provenance option"
  ski_outputHash :: string
  ski_consequenceHash :: string
  ski_outputContract :: output_contract
  ski_capabilityBoundary :: capability_boundary
  ski_requester :: release_actor
  ski_target :: release_target
  ski_findings :: "release_finding list option"
  ski_evidencePackId :: "string option"
  ski_releaseTokenId :: "string option"
  ski_override :: "override_grant option"
  ski_reviewAuthority :: "review_authority_partial option"
  ski_releaseConditions :: "release_condition list option"

record token_claims_input =
  tci_issuer :: string
  tci_subject :: string
  tci_tokenId :: string
  tci_issuedAtEpochSeconds :: int
  tci_ttlSeconds :: int
  tci_decision :: release_decision
  tci_audience :: "string option"
  tci_tenantId :: "string option"
  tci_scope :: "string option"
  tci_resource :: "string option"
  tci_actor :: "release_token_actor_claim option"
  tci_parentTokenId :: "string option"
  tci_exchangeId :: "string option"
  tci_exchangedAtEpochSeconds :: "int option"
  tci_sourceAudience :: "string option"
  tci_tokenUse :: "release_token_use option"
  tci_confirmation :: "release_token_confirmation option"

fun retentionClassForRiskClass :: "risk_class \<Rightarrow> evidence_retention_class" where
  "retentionClassForRiskClass R0 = Ephemeral"
| "retentionClassForRiskClass R1 = Standard"
| "retentionClassForRiskClass R2 = Standard"
| "retentionClassForRiskClass R3 = Standard"
| "retentionClassForRiskClass R4 = Regulated"

fun defaultReleaseTokenTtlSecondsForRiskClass :: "risk_class \<Rightarrow> int" where
  "defaultReleaseTokenTtlSecondsForRiskClass R0 = 1800"
| "defaultReleaseTokenTtlSecondsForRiskClass R1 = 900"
| "defaultReleaseTokenTtlSecondsForRiskClass R2 = 600"
| "defaultReleaseTokenTtlSecondsForRiskClass R3 = 300"
| "defaultReleaseTokenTtlSecondsForRiskClass R4 = 180"

definition no_authority_overrides :: review_authority_partial where
  "no_authority_overrides = \<lparr> rpo_mode = None, rpo_minimumReviewerCount = None,
     rpo_requiresNamedReviewer = None, rpo_requiredRoles = None, rpo_requiredReviewerIds = None \<rparr>"

definition buildReviewAuthority :: "risk_class \<Rightarrow> review_authority_partial \<Rightarrow> review_authority" where
  "buildReviewAuthority riskClass overrides =
     (let base = defaultReviewAuthorityForRiskClass riskClass in
      \<lparr> ra_mode = nullish (rpo_mode overrides) (rap_mode base),
        ra_minimumReviewerCount =
          nullish (rpo_minimumReviewerCount overrides) (rap_minimumReviewerCount base),
        ra_requiresNamedReviewer =
          nullish (rpo_requiresNamedReviewer overrides) (rap_requiresNamedReviewer base),
        ra_requiredRoles = nullish (rpo_requiredRoles overrides) [],
        ra_requiredReviewerIds = nullish (rpo_requiredReviewerIds overrides) [] \<rparr>)"

definition defaultReleaseConditions ::
  "risk_class \<Rightarrow> release_target \<Rightarrow> js_date \<Rightarrow> release_condition list result" where
  "defaultReleaseConditions riskClass target createdAtIso =
     (case getTime createdAtIso of
        None \<Rightarrow> throw RangeError
      | Some createdAt \<Rightarrow>
          rbind (toISO (createdAt + defaultReleaseTokenTtlSecondsForRiskClass riskClass * 1000))
            (\<lambda>expiresAt. return
               [Target_binding (tgt_id target),
                Usage_limit 1,
                Expiry (Iso expiresAt),
                Introspection (riskClass = R3 \<or> riskClass = R4),
                Retention (retentionClassForRiskClass riskClass)]))"

definition createReleaseDecisionSkeleton :: "decision_skeleton_input \<Rightarrow> release_decision result" where
  "createReleaseDecisionSkeleton input =
     (let riskClass = oc_riskClass (ski_outputContract input);
          consequenceType = oc_consequenceType (ski_outputContract input)
      in rbind (case ski_releaseConditions input of
                  Some cs \<Rightarrow> return cs
                | None \<Rightarrow> defaultReleaseConditions riskClass (ski_target input) (ski_createdAt input))
           (\<lambda>conditions. return
             \<lparr> dec_version = RELEASE_DECISION_SPEC_VERSION,
               dec_id = ski_id input,
               dec_createdAt = ski_createdAt input,
               dec_status = ski_status input,
               dec_consequenceType = consequenceType,
               dec_riskClass = riskClass,
               dec_policyVersion = ski_policyVersion input,
               dec_policyHash = ski_policyHash input,
               dec_policyProvenance = ski_policyProvenance input,
               dec_outputContract = ski_outputContract input,
               dec_capabilityBoundary = ski_capabilityBoundary input,
               dec_outputHash = ski_outputHash input,
               dec_consequenceHash = ski_consequenceHash input,
               dec_requester = ski_requester input,
               dec_target = ski_target input,
               dec_reviewAuthority =
                 buildReviewAuthority riskClass (nullish (ski_reviewAuthority input) no_authority_overrides),
               dec_releaseConditions = conditions,
               dec_findings = nullish (ski_findings input) [],
               dec_evidencePackId = ski_evidencePackId input,
               dec_releaseTokenId = ski_releaseTokenId input,
               dec_override = ski_override input \<rparr>))"

definition releaseDecisionRequiresIntrospection :: "release_decision \<Rightarrow> bool" where
  "releaseDecisionRequiresIntrospection decision \<longleftrightarrow>
     list_ex (\<lambda>item. item = Introspection True) (dec_releaseConditions decision)"

fun first_expiry :: "release_condition list \<Rightarrow> js_date option" where
  "first_expiry [] = None"
| "first_expiry (Expiry e # items) = Some e"
| "first_expiry (item # items) = first_expiry items"

fun first_usage_limit :: "release_condition list \<Rightarrow> int option" where
  "first_usage_limit [] = None"
| "first_usage_limit (Usage_limit n # items) = Some n"
| "first_usage_limit (item # items) = first_usage_limit items"

definition releaseDecisionExpiresAt :: "release_decision \<Rightarrow> js_date option" where
  "releaseDecisionExpiresAt decision = first_expiry (dec_releaseConditions decision)"

definition releaseDecisionMaxUses :: "release_decision \<Rightarrow> int option" where
  "releaseDecisionMaxUses decision = first_usage_limit (dec_releaseConditions decision)"

definition normalizeOptionalReleaseTokenClaim :: "string option \<Rightarrow> string option result" where
  "normalizeOptionalReleaseTokenClaim value =
     (case value of
        None \<Rightarrow> return None
      | Some v \<Rightarrow>
          if trim v = [] then throw (Error ''Release token claim cannot be blank when provided.'')
          else return (Some (trim v)))"

definition buildReleaseTokenClaims :: "token_claims_input \<Rightarrow> release_token_claims result" where
  "buildReleaseTokenClaims input =
     (let decision = tci_decision input; policyProvenance = dec_policyProvenance decision in
      rbind (normalizeOptionalReleaseTokenClaim (tci_tenantId input)) (\<lambda>tenantId. return
        \<lparr> clm_version = RELEASE_TOKEN_SPEC_VERSION,
          clm_iss = tci_issuer input,
          clm_sub = tci_subject input,
          clm_aud = nullish (tci_audience input) (tgt_id (dec_target decision)),
          clm_tenant_id = truthy_str tenantId,
          clm_jti = tci_tokenId input,
          clm_iat = tci_issuedAtEpochSeconds input,
          clm_nbf = tci_issuedAtEpochSeconds input,
          clm_exp = tci_issuedAtEpochSeconds input + tci_ttlSeconds input,
          clm_decision_id = dec_id decision,
          clm_decision = dec_status decision,
          clm_consequence_type = dec_consequenceType decision,
          clm_risk_class = dec_riskClass decision,
          clm_output_hash = dec_outputHash decision,
          clm_consequence_hash = dec_consequenceHash decision,
          clm_policy_hash = dec_policyHash decision,
          clm_policy_id = map_option prov_policyId policyProvenance,
          clm_policy_version = Some (dec_policyVersion decision),
          clm_policy_ir_hash =
            truthy_str (Option.bind policyProvenance prov_compiledPolicyIrHash),
          clm_policy_provenance_source = map_option prov_source policyProvenance,
          clm_compiled_policy_index_version =
            truthy_str (Option.bind policyProvenance prov_compiledPolicyIndexVersion),
          clm_compiled_policy_ir_version =
            truthy_str (Option.bind policyProvenance prov_compiledPolicyIrVersion),
          clm_override = (dec_override decision \<noteq> None \<or> dec_status decision = Overridden),
          clm_introspection_required = releaseDecisionRequiresIntrospection decision,
          clm_authority_mode = ra_mode (dec_reviewAuthority decision),
          clm_scope = truthy_str (tci_scope input),
          clm_resource = truthy_str (tci_resource input),
          clm_act = tci_actor input,
          clm_parent_jti = truthy_str (tci_parentTokenId input),
          clm_exchange_id = truthy_str (tci_exchangeId input),
          clm_exchanged_at = tci_exchangedAtEpochSeconds input,
          clm_source_aud = truthy_str (tci_sourceAudience input),
          clm_token_use = tci_tokenUse input,
          clm_cnf = tci_confirmation input \<rparr>))"

section \<open>Risk controls\<close>

datatype deterministic_control_category =
    Contract_shape
  | Target_binding_check
  | Capability_boundary_check
  | Consequence_hash_integrity
  | Policy_rule_validation
  | Evidence_completeness
  | Trace_grade_regression
  | Provenance_binding
  | Downstream_receipt_reconciliation

fun control_category_str :: "deterministic_control_category \<Rightarrow> string" where
  "control_category_str Contract_shape = ''contract-shape''"
| "control_category_str Target_binding_check = ''target-binding''"
| "control_category_str Capability_boundary_check = ''capability-boundary''"
| "control_category_str Consequence_hash_integrity = ''consequence-hash-integrity''"
| "control_category_str Policy_rule_validation = ''policy-rule-validation''"
| "control_category_str Evidence_completeness = ''evidence-completeness''"
| "control_category_str Trace_grade_regression = ''trace-grade-regression''"
| "control_category_str Provenance_binding = ''provenance-binding''"
| "control_category_str Downstream_receipt_reconciliation = ''downstream-receipt-reconciliation''"

datatype token_enforcement_level =
    Enforcement_none | Enforcement_optional | Enforcement_required | Required_with_introspection

fun enforcement_level_str :: "token_enforcement_level \<Rightarrow> string" where
  "enforcement_level_str Enforcement_none = ''none''"
| "enforcement_level_str Enforcement_optional = ''optional''"
| "enforcement_level_str Enforcement_required = ''required''"
| "enforcement_level_str Required_with_introspection = ''required-with-introspection''"

datatype control_failure_disposition =
    Dispose_observe | Dispose_deny | Dispose_hold | Dispose_review_required

fun disposition_str :: "control_failure_disposition \<Rightarrow> string" where
  "disposition_str Dispose_observe = ''observe''"
| "disposition_str Dispose_deny = ''deny''"
| "disposition_str Dispose_hold = ''hold''"
| "disposition_str Dispose_review_required = ''review-required''"

record review_control_profile =
  rvc_mode :: review_authority_mode
  rvc_minimumReviewerCount :: int
  rvc_requiresNamedReviewer :: bool
  rvc_failureDisposition :: control_failure_disposition
  rvc_allowsOverride :: bool

record token_control_profile =
  tkc_minimumEnforcement :: token_enforcement_level
  tkc_maxTtlSeconds :: int
  tkc_requiresRevocationSupport :: bool
  tkc_requiresReplayLedger :: bool

record evidence_control_profile =
  evc_retentionClass :: evidence_retention_class
  evc_requiresDecisionLog :: bool
  evc_requiresFindingLog :: bool
  evc_requiresTraceEvidence :: bool
  evc_requiresDurableEvidencePack :: bool
  evc_requiresDownstreamReceipt :: bool

record risk_control_profile =
  rkc_riskClass :: risk_class
  rkc_defaultAcceptedStatus :: release_decision_status
  rkc_deterministicChecks :: "deterministic_control_category list"
  rkc_review :: review_control_profile
  rkc_evidence :: evidence_control_profile
  rkc_token :: token_control_profile

definition reviewModeForRiskClass :: "risk_class \<Rightarrow> review_control_profile" where
  "reviewModeForRiskClass riskClass =
     (let authority = rcp_defaultReviewAuthority (RISK_CLASS_PROFILES riskClass) in
      \<lparr> rvc_mode = rap_mode authority,
        rvc_minimumReviewerCount = rap_minimumReviewerCount authority,
        rvc_requiresNamedReviewer = rap_requiresNamedReviewer authority,
        rvc_failureDisposition =
          (case riskClass of R0 \<Rightarrow> Dispose_observe | R1 \<Rightarrow> Dispose_deny | R2 \<Rightarrow> Dispose_hold
           | R3 \<Rightarrow> Dispose_review_required | R4 \<Rightarrow> Dispose_review_required),
        rvc_allowsOverride =
          (case riskClass of R0 \<Rightarrow> False | R1 \<Rightarrow> True | R2 \<Rightarrow> True | R3 \<Rightarrow> True | R4 \<Rightarrow> True) \<rparr>)"

fun deterministicChecksForRiskClass :: "risk_class \<Rightarrow> deterministic_control_category list" where
  "deterministicChecksForRiskClass R0 = [Contract_shape]"
| "deterministicChecksForRiskClass R1 = [Contract_shape, Target_binding_check]"
| "deterministicChecksForRiskClass R2 =
     [Contract_shape, Target_binding_check, Capability_boundary_check, Consequence_hash_integrity,
      Policy_rule_validation]"
| "deterministicChecksForRiskClass R3 =
     [Contract_shape, Target_binding_check, Capability_boundary_check, Consequence_hash_integrity,
      Policy_rule_validation, Evidence_completeness, Trace_grade_regression]"
| "deterministicChecksForRiskClass R4 =
     [Contract_shape, Target_binding_check, Capability_boundary_check, Consequence_hash_integrity,
      Policy_rule_validation, Evidence_completeness, Trace_grade_regression, Provenance_binding,
      Downstream_receipt_reconciliation]"

definition evidenceControlsForRiskClass :: "risk_class \<Rightarrow> evidence_control_profile" where
  "evidenceControlsForRiskClass riskClass =
     \<lparr> evc_retentionClass = retentionClassForRiskClass riskClass,
       evc_requiresDecisionLog = True,
       evc_requiresFindingLog = True,
       evc_requiresTraceEvidence =
         (case riskClass of R0 \<Rightarrow> False | R1 \<Rightarrow> False | R2 \<Rightarrow> True | R3 \<Rightarrow> True | R4 \<Rightarrow> True),
       evc_requiresDurableEvidencePack =
         (case riskClass of R0 \<Rightarrow> False | R1 \<Rightarrow> False | R2 \<Rightarrow> False | R3 \<Rightarrow> True | R4 \<Rightarrow> True),
       evc_requiresDownstreamReceipt =
         (case riskClass of R0 \<Rightarrow> False | R1 \<Rightarrow> False | R2 \<Rightarrow> False | R3 \<Rightarrow> False | R4 \<Rightarrow> True) \<rparr>"

definition tokenControlsForRiskClass :: "risk_class \<Rightarrow> token_control_profile" where
  "tokenControlsForRiskClass riskClass =
     \<lparr> tkc_minimumEnforcement =
         (case riskClass of R0 \<Rightarrow> Enforcement_none | R1 \<Rightarrow> Enforcement_optional
          | R2 \<Rightarrow> Enforcement_required | R3 \<Rightarrow> Required_with_introspection
          | R4 \<Rightarrow> Required_with_introspection),
       tkc_maxTtlSeconds = defaultReleaseTokenTtlSecondsForRiskClass riskClass,
       tkc_requiresRevocationSupport =
         (case riskClass of R0 \<Rightarrow> False | R1 \<Rightarrow> False | R2 \<Rightarrow> False | R3 \<Rightarrow> True | R4 \<Rightarrow> True),
       tkc_requiresReplayLedger =
         (case riskClass of R0 \<Rightarrow> False | R1 \<Rightarrow> False | R2 \<Rightarrow> True | R3 \<Rightarrow> True | R4 \<Rightarrow> True) \<rparr>"

definition riskControlProfile :: "risk_class \<Rightarrow> risk_control_profile" where
  "riskControlProfile riskClass =
     \<lparr> rkc_riskClass = riskClass,
       rkc_defaultAcceptedStatus = Accepted,
       rkc_deterministicChecks = deterministicChecksForRiskClass riskClass,
       rkc_review = reviewModeForRiskClass riskClass,
       rkc_evidence = evidenceControlsForRiskClass riskClass,
       rkc_token = tokenControlsForRiskClass riskClass \<rparr>"

definition orderedRiskControlProfiles :: "risk_control_profile list" where
  "orderedRiskControlProfiles = map riskControlProfile RISK_CLASSES"

definition riskClassesRequiringHumanReview :: "risk_class list" where
  "riskClassesRequiringHumanReview =
     map rkc_riskClass
       (filter (\<lambda>profile. rvc_mode (rkc_review profile) = Named_reviewer \<or>
                           rvc_mode (rkc_review profile) = Dual_approval)
          orderedRiskControlProfiles)"

section \<open>Properties of the vocabulary\<close>

lemma enum_strings_inject [simp]:
  "consequence_type_str a = consequence_type_str b \<longleftrightarrow> a = b"
  "risk_class_str r = risk_class_str q \<longleftrightarrow> r = q"
  "release_target_kind_str k = release_target_kind_str l \<longleftrightarrow> k = l"
  subgoal by (cases a; cases b; simp)
  subgoal by (cases r; cases q; simp)
  subgoal by (cases k; cases l; simp)
  done

lemma control_category_str_inject [simp]:
  "control_category_str a = control_category_str b \<longleftrightarrow> a = b"
  by (cases a; cases b) simp_all

lemmas risk_control_defs =
  riskControlProfile_def reviewModeForRiskClass_def evidenceControlsForRiskClass_def
  tokenControlsForRiskClass_def less_eq_risk_class_def

text \<open>
The risk-to-control matrix never relaxes as the risk class grows. For \<open>a \<le> b\<close> the controls
  of \<open>b\<close> contain every deterministic check of \<open>a\<close>, demand at least as many reviewers, keep every
  evidence and token requirement of \<open>a\<close>, and allow a token no longer a lifetime.
\<close>

theorem risk_controls_monotone:
  assumes "a \<le> b"
  shows "set (rkc_deterministicChecks (riskControlProfile a))
      \<subseteq> set (rkc_deterministicChecks (riskControlProfile b)) \<and>
    rvc_minimumReviewerCount (rkc_review (riskControlProfile a))
      \<le> rvc_minimumReviewerCount (rkc_review (riskControlProfile b)) \<and>
    (rvc_requiresNamedReviewer (rkc_review (riskControlProfile a))
      \<longrightarrow> rvc_requiresNamedReviewer (rkc_review (riskControlProfile b))) \<and>
    (evc_requiresTraceEvidence (rkc_evidence (riskControlProfile a))
      \<longrightarrow> evc_requiresTraceEvidence (rkc_evidence (riskControlProfile b))) \<and>
    (evc_requiresDurableEvidencePack (rkc_evidence (riskControlProfile a))
      \<longrightarrow> evc_requiresDurableEvidencePack (rkc_evidence (riskControlProfile b))) \<and>
    (evc_requiresDownstreamReceipt (rkc_evidence (riskControlProfile a))
      \<longrightarrow> evc_requiresDownstreamReceipt (rkc_evidence (riskControlProfile b))) \<and>
    (tkc_requiresRevocationSupport (rkc_token (riskControlProfile a))
      \<longrightarrow> tkc_requiresRevocationSupport (rkc_token (riskControlProfile b))) \<and>
    (tkc_requiresReplayLedger (rkc_token (riskControlProfile a))
      \<longrightarrow> tkc_requiresReplayLedger (rkc_token (riskControlProfile b))) \<and>
    tkc_maxTtlSeconds (rkc_token (riskControlProfile b))
      \<le> tkc_maxTtlSeconds (rkc_token (riskControlProfile a))"
  using assms by (cases a; cases b) (simp_all add: risk_control_defs)

theorem risk_controls_monotone_witness:
  "R2 \<le> R4 \<and> tkc_requiresReplayLedger (rkc_token (riskControlProfile R2)) \<and>
   tkc_requiresReplayLedger (rkc_token (riskControlProfile R4))"
proof -
  have le: "R2 \<le> R4" by (simp add: less_eq_risk_class_def)
  have "tkc_requiresReplayLedger (rkc_token (riskControlProfile R2))"
    by (simp add: risk_control_defs)
  with le risk_controls_monotone [OF le] show ?thesis by blast
qed

lemma human_review_classes: "riskClassesRequiringHumanReview = [R3, R4]"
  by (simp add: riskClassesRequiringHumanReview_def orderedRiskControlProfiles_def
      RISK_CLASSES_def risk_control_defs)

subsection \<open>The default conditions of a decision\<close>

lemma defaultReleaseConditions_eq_Inr:
  "defaultReleaseConditions r t c = Inr cs \<longleftrightarrow>
     (\<exists>u. c = Iso u \<and> \<bar>u + defaultReleaseTokenTtlSecondsForRiskClass r * 1000\<bar> \<le> max_time_value \<and>
       cs = [Target_binding (tgt_id t), Usage_limit 1,
             Expiry (Iso (u + defaultReleaseTokenTtlSecondsForRiskClass r * 1000)),
             Introspection (r = R3 \<or> r = R4), Retention (retentionClassForRiskClass r)])"
  by (cases c) (auto simp: defaultReleaseConditions_def)

lemma skeleton_eq_Inr:
  "createReleaseDecisionSkeleton input = Inr d \<Longrightarrow>
     dec_version d = RELEASE_DECISION_SPEC_VERSION \<and> dec_id d = ski_id input \<and>
     dec_createdAt d = ski_createdAt input \<and> dec_status d = ski_status input \<and>
     dec_outputContract d = ski_outputContract input \<and>
     dec_riskClass d = oc_riskClass (ski_outputContract input) \<and>
     dec_consequenceType d = oc_consequenceType (ski_outputContract input) \<and>
     dec_target d = ski_target input \<and> dec_outputHash d = ski_outputHash input \<and>
     dec_consequenceHash d = ski_consequenceHash input \<and>
     dec_policyVersion d = ski_policyVersion input \<and> dec_policyHash d = ski_policyHash input \<and>
     dec_policyProvenance d = ski_policyProvenance input \<and>
     dec_override d = ski_override input \<and> dec_findings d = nullish (ski_findings input) []"
  by (auto simp: createReleaseDecisionSkeleton_def Let_def)

end
