(* ===== verification/Release_Hashing.thy ===== *)
theory Release_Hashing
  imports Release_Types
begin

text \<open>
  The canonical envelopes and the hash bundle of a release: the second half of
  \<open>release-kernel/release-canonicalization.ts\<close>. The digest function is the parameter \<open>sha256\<close>
  (the hexadecimal digest of a string). The lemmas show what the two hashes of a bundle bind.
\<close>

definition RELEASE_CANONICALIZATION_SPEC_VERSION :: string where
  "RELEASE_CANONICALIZATION_SPEC_VERSION = ''attestor.release-canonicalization.v1''"

record canonical_release_hash_bundle =
  hb_version :: string
  hb_outputCanonical :: string
  hb_consequenceCanonical :: string
  hb_outputHash :: string
  hb_consequenceHash :: string

record hash_bundle_input =
  hbi_outputContract :: output_contract
  hbi_target :: release_target
  hbi_outputPayload :: json
  hbi_consequencePayload :: json
  hbi_recipientId :: "string option"
  hbi_idempotencyKey :: "string option"

definition output_envelope :: "output_contract \<Rightarrow> json \<Rightarrow> json" where
  "output_envelope outputContract payload = JObject
     [(''artifactType'', JString (oc_artifactType outputContract)),
      (''expectedShape'', JString (oc_expectedShape outputContract)),
      (''consequenceType'', JString (consequence_type_str (oc_consequenceType outputContract))),
      (''riskClass'', JString (risk_class_str (oc_riskClass outputContract))),
      (''payload'', payload)]"

definition consequence_envelope ::
  "consequence_type \<Rightarrow> release_target \<Rightarrow> string option \<Rightarrow> string option \<Rightarrow> json \<Rightarrow> json" where
  "consequence_envelope consequenceType target recipientId idempotencyKey payload = JObject
     [(''consequenceType'', JString (consequence_type_str consequenceType)),
      (''target'', JObject
         [(''kind'', JString (release_target_kind_str (tgt_kind target))),
          (''id'', JString (tgt_id target))]),
      (''recipientId'', json_str_opt recipientId),
      (''idempotencyKey'', json_str_opt idempotencyKey),
      (''payload'', payload)]"

definition canonicalizeReleaseOutputEnvelope :: "output_contract \<Rightarrow> json \<Rightarrow> string result" where
  "canonicalizeReleaseOutputEnvelope outputContract payload =
     canonicalizeReleaseJson (output_envelope outputContract payload)"

definition canonicalizeReleaseConsequenceEnvelope ::
  "consequence_type \<Rightarrow> release_target \<Rightarrow> json \<Rightarrow> string option \<Rightarrow> string option \<Rightarrow> string result" where
  "canonicalizeReleaseConsequenceEnvelope consequenceType target payload recipientId idempotencyKey =
     canonicalizeReleaseJson (consequence_envelope consequenceType target recipientId idempotencyKey payload)"

definition createCanonicalReleaseHashBundle ::
  "(string \<Rightarrow> string) \<Rightarrow> hash_bundle_input \<Rightarrow> canonical_release_hash_bundle result" where
  "createCanonicalReleaseHashBundle sha256 input =
     rbind (canonicalizeReleaseOutputEnvelope (hbi_outputContract input) (hbi_outputPayload input))
       (\<lambda>outputCanonical.
     rbind (canonicalizeReleaseConsequenceEnvelope (oc_consequenceType (hbi_outputContract input))
              (hbi_target input) (hbi_consequencePayload input) (hbi_recipientId input)
              (hbi_idempotencyKey input))
       (\<lambda>consequenceCanonical. return
         \<lparr> hb_version = RELEASE_CANONICALIZATION_SPEC_VERSION,
           hb_outputCanonical = outputCanonical,
           hb_consequenceCanonical = consequenceCanonical,
           hb_outputHash = ''sha256:'' @ sha256 outputCanonical,
           hb_consequenceHash = ''sha256:'' @ sha256 consequenceCanonical \<rparr>))"

section \<open>What the hashes bind\<close>

lemma output_envelope_wf [simp]: "json_wf (output_envelope c p) = json_wf p"
  by (simp add: output_envelope_def)

lemma consequence_envelope_wf [simp]: "json_wf (consequence_envelope c t r k p) = json_wf p"
  by (simp add: consequence_envelope_def)

lemma output_envelope_same:
  "json_same (output_envelope c p) (output_envelope c' p') \<longleftrightarrow>
     oc_artifactType c = oc_artifactType c' \<and> oc_expectedShape c = oc_expectedShape c' \<and>
     oc_consequenceType c = oc_consequenceType c' \<and> oc_riskClass c = oc_riskClass c' \<and> json_same p p'"
  unfolding output_envelope_def
  by (subst json_same_object_keys) (auto simp: json_same_simps)

lemma target_same:
  "json_same (JObject [(''kind'', JString k), (''id'', JString i)])
             (JObject [(''kind'', JString k'), (''id'', JString i')]) \<longleftrightarrow> k = k' \<and> i = i'"
  by (subst json_same_object_keys) (auto simp: json_same_simps)

lemma consequence_envelope_same:
  "json_same (consequence_envelope c t r k p) (consequence_envelope c' t' r' k' p') \<longleftrightarrow>
     c = c' \<and> tgt_kind t = tgt_kind t' \<and> tgt_id t = tgt_id t' \<and> r = r' \<and> k = k' \<and> json_same p p'"
  unfolding consequence_envelope_def
  by (subst json_same_object_keys) (auto simp: target_same json_same_simps(4))

text \<open>The inputs of two bundles agree in everything the release binds.\<close>

definition same_release :: "hash_bundle_input \<Rightarrow> hash_bundle_input \<Rightarrow> bool" where
  "same_release i j \<longleftrightarrow>
     hbi_outputContract i = hbi_outputContract j \<and>
     tgt_kind (hbi_target i) = tgt_kind (hbi_target j) \<and> tgt_id (hbi_target i) = tgt_id (hbi_target j) \<and>
     hbi_recipientId i = hbi_recipientId j \<and> hbi_idempotencyKey i = hbi_idempotencyKey j \<and>
     json_same (hbi_outputPayload i) (hbi_outputPayload j) \<and>
     json_same (hbi_consequencePayload i) (hbi_consequencePayload j)"

definition wf_bundle_input :: "hash_bundle_input \<Rightarrow> bool" where
  "wf_bundle_input i \<longleftrightarrow> json_wf (hbi_outputPayload i) \<and> json_wf (hbi_consequencePayload i)"

lemma bundle_texts:
  assumes "createCanonicalReleaseHashBundle sha256 i = Inr b"
    and "createCanonicalReleaseHashBundle sha256 j = Inr c"
    and "wf_bundle_input i" "wf_bundle_input j"
  shows "hb_outputCanonical b = hb_outputCanonical c \<and> hb_consequenceCanonical b = hb_consequenceCanonical c
    \<longleftrightarrow> same_release i j"
proof -
  let ?o = "\<lambda>i. output_envelope (hbi_outputContract i) (hbi_outputPayload i)"
  let ?c = "\<lambda>i. consequence_envelope (oc_consequenceType (hbi_outputContract i)) (hbi_target i)
    (hbi_recipientId i) (hbi_idempotencyKey i) (hbi_consequencePayload i)"
  have i: "canonicalizeReleaseJson (?o i) = Inr (hb_outputCanonical b)"
      "canonicalizeReleaseJson (?c i) = Inr (hb_consequenceCanonical b)"
    and j: "canonicalizeReleaseJson (?o j) = Inr (hb_outputCanonical c)"
      "canonicalizeReleaseJson (?c j) = Inr (hb_consequenceCanonical c)"
    using assms(1,2)
    by (auto simp: createCanonicalReleaseHashBundle_def canonicalizeReleaseOutputEnvelope_def
        canonicalizeReleaseConsequenceEnvelope_def)
  have "hb_outputCanonical b = hb_outputCanonical c \<longleftrightarrow> json_same (?o i) (?o j)"
    using canonical_text_same [OF _ _ i(1), of "?o j"] j(1) assms(3,4)
    by (auto simp: wf_bundle_input_def)
  moreover have "hb_consequenceCanonical b = hb_consequenceCanonical c \<longleftrightarrow> json_same (?c i) (?c j)"
    using canonical_text_same [OF _ _ i(2), of "?c j"] j(2) assms(3,4)
    by (auto simp: wf_bundle_input_def)
  ultimately show ?thesis
    by (auto simp: output_envelope_same consequence_envelope_same same_release_def)
qed

text \<open>
The two hashes of a release bind its contract, target, recipient, idempotency key and both
  payloads. For releases whose canonical texts are not a collision of the digest, both hashes
  agree if and only if all of these agree, the payloads up to the order of object members.
\<close>

theorem hash_bundle_binds:
  assumes "createCanonicalReleaseHashBundle sha256 i = Inr b"
    and "createCanonicalReleaseHashBundle sha256 j = Inr c"
    and "wf_bundle_input i" "wf_bundle_input j"
    and "inj_on sha256 {hb_outputCanonical b, hb_outputCanonical c}"
    and "inj_on sha256 {hb_consequenceCanonical b, hb_consequenceCanonical c}"
  shows "hb_outputHash b = hb_outputHash c \<and> hb_consequenceHash b = hb_consequenceHash c
    \<longleftrightarrow> same_release i j"
proof -
  have "hb_outputHash b = hb_outputHash c \<longleftrightarrow> hb_outputCanonical b = hb_outputCanonical c"
    and "hb_consequenceHash b = hb_consequenceHash c \<longleftrightarrow>
      hb_consequenceCanonical b = hb_consequenceCanonical c"
    using assms(1,2,5,6) by (auto simp: createCanonicalReleaseHashBundle_def inj_on_def)
  with bundle_texts [OF assms(1-4)] show ?thesis by blast
qed

definition sample_bundle_input :: "string \<Rightarrow> hash_bundle_input" where
  "sample_bundle_input recipient =
     \<lparr> hbi_outputContract = \<lparr> oc_artifactType = ''filing'', oc_expectedShape = ''object'',
         oc_consequenceType = Record, oc_riskClass = R4 \<rparr>,
       hbi_target = \<lparr> tgt_kind = Record_store, tgt_id = ''ledger'', tgt_displayName = None \<rparr>,
       hbi_outputPayload = JObject [(''total'', JNumber (Num 10))],
       hbi_consequencePayload = JObject [(''write'', JBool True)],
       hbi_recipientId = Some recipient, hbi_idempotencyKey = None \<rparr>"

lemma sample_bundle:
  "createCanonicalReleaseHashBundle f (sample_bundle_input r) = Inr
     \<lparr> hb_version = RELEASE_CANONICALIZATION_SPEC_VERSION,
       hb_outputCanonical = JSON_stringify (canon (output_envelope
         (hbi_outputContract (sample_bundle_input r)) (hbi_outputPayload (sample_bundle_input r)))),
       hb_consequenceCanonical = JSON_stringify (canon (consequence_envelope Record
         (hbi_target (sample_bundle_input r)) (Some r) None (hbi_consequencePayload (sample_bundle_input r)))),
       hb_outputHash = ''sha256:'' @ f (JSON_stringify (canon (output_envelope
         (hbi_outputContract (sample_bundle_input r)) (hbi_outputPayload (sample_bundle_input r))))),
       hb_consequenceHash = ''sha256:'' @ f (JSON_stringify (canon (consequence_envelope Record
         (hbi_target (sample_bundle_input r)) (Some r) None (hbi_consequencePayload (sample_bundle_input r))))) \<rparr>"
  by (simp add: createCanonicalReleaseHashBundle_def canonicalizeReleaseOutputEnvelope_def
      canonicalizeReleaseConsequenceEnvelope_def canonicalizeReleaseJson_eq_Inr
      sample_bundle_input_def del: canon.simps JSON_stringify.simps)
    (simp add: output_envelope_def consequence_envelope_def
      MAX_CANONICAL_RELEASE_JSON_NODES_def MAX_CANONICAL_RELEASE_JSON_DEPTH_def)

theorem hash_bundle_binds_witness:
  "\<exists>b c. createCanonicalReleaseHashBundle id (sample_bundle_input ''alice'') = Inr b \<and>
     createCanonicalReleaseHashBundle id (sample_bundle_input ''mallory'') = Inr c \<and>
     \<not> (hb_outputHash b = hb_outputHash c \<and> hb_consequenceHash b = hb_consequenceHash c)"
proof -
  have wf: "wf_bundle_input (sample_bundle_input r)" for r
    by (simp add: wf_bundle_input_def sample_bundle_input_def)
  have "\<not> same_release (sample_bundle_input ''alice'') (sample_bundle_input ''mallory'')"
    by (simp add: same_release_def sample_bundle_input_def)
  with hash_bundle_binds [OF sample_bundle sample_bundle wf wf inj_on_id inj_on_id]
  show ?thesis using sample_bundle by blast
qed

end
