(* ===== verification/Release_Policy.thy ===== *)
theory Release_Policy
  imports Release_Types
begin

text \<open>
  The release policy language and its rollout controls: \<open>release-policy-rollout.ts\<close>,
  \<open>release-policy.ts\<close>, the gateway wedge of \<open>first-hard-gateway-wedge.ts\<close> (the fields the policy
  reads) and the constants of the two finance flows.

  A canary percentage is a rational number, \<open>Math.round\<close> is HOL's \<open>round\<close> (half up). The digest
  that selects the canary bucket is the parameter \<open>sha256\<close>; a digest that does not start with
  a hexadecimal digit makes the bucket \<open>NaN\<close> (\<open>NonFinite\<close>), as \<open>parseInt\<close> does.

  The lemmas show the range of the bucket, the two ends of a canary ramp and its monotonicity,
  that a policy with an \<open>observe\<close> disposition above R0 can never be enforced, and that the
  built-in finance policies are created.
\<close>

section \<open>Rollout\<close>

definition RELEASE_POLICY_ROLLOUT_SPEC_VERSION :: string where
  "RELEASE_POLICY_ROLLOUT_SPEC_VERSION = ''attestor.release-policy-rollout.v1''"

datatype rollout_mode = Dry_run | Canary | Enforce | Rolled_back

fun rollout_mode_str :: "rollout_mode \<Rightarrow> string" where
  "rollout_mode_str Dry_run = ''dry-run''"
| "rollout_mode_str Canary = ''canary''"
| "rollout_mode_str Enforce = ''enforce''"
| "rollout_mode_str Rolled_back = ''rolled-back''"

datatype rollout_evaluation_mode = Eval_shadow | Eval_enforce

datatype rollout_cohort_key =
    Key_request_id | Key_output_hash | Key_requester_id | Key_target_id
  | Key_tenant_id | Key_account_id | Key_plan_id | Key_cohort_id

fun rollout_cohort_key_str :: "rollout_cohort_key \<Rightarrow> string" where
  "rollout_cohort_key_str Key_request_id = ''request-id''"
| "rollout_cohort_key_str Key_output_hash = ''output-hash''"
| "rollout_cohort_key_str Key_requester_id = ''requester-id''"
| "rollout_cohort_key_str Key_target_id = ''target-id''"
| "rollout_cohort_key_str Key_tenant_id = ''tenant-id''"
| "rollout_cohort_key_str Key_account_id = ''account-id''"
| "rollout_cohort_key_str Key_plan_id = ''plan-id''"
| "rollout_cohort_key_str Key_cohort_id = ''cohort-id''"

record policy_rollout =
  rol_version :: string
  rol_mode :: rollout_mode
  rol_canaryPercentage :: rat
  rol_cohortKey :: rollout_cohort_key
  rol_cohortSalt :: string
  rol_activatedAt :: "js_date option"
  rol_fallbackPolicyId :: "string option"
  rol_notes :: "string list"

record policy_rollout_input =
  rin_mode :: rollout_mode
  rin_canaryPercentage :: "rat js_number option"
  rin_cohortKey :: "rollout_cohort_key option"
  rin_cohortSalt :: "string option"
  rin_activatedAt :: "js_date option"
  rin_fallbackPolicyId :: "string option"
  rin_notes :: "string list option"

record rollout_context =
  rctx_requestId :: string
  rctx_outputHash :: string
  rctx_requesterId :: string
  rctx_targetId :: string
  rctx_tenantId :: "string option"
  rctx_accountId :: "string option"
  rctx_planId :: "string option"
  rctx_cohortId :: "string option"

datatype rollout_reason =
    Reason_dry_run | Reason_canary_enforce | Reason_canary_shadow | Reason_canary_missing_context
  | Reason_enforce | Reason_rolled_back

record rollout_resolution =
  rres_rolloutMode :: rollout_mode
  rres_evaluationMode :: rollout_evaluation_mode
  rres_reason :: rollout_reason
  rres_canaryBucket :: "nat js_number option"

fun assertPercentage :: "rat js_number \<Rightarrow> rat result" where
  "assertPercentage NonFinite =
     throw (Error ''Release policy rollout canaryPercentage must be between 0 and 100.'')"
| "assertPercentage (Num p) =
     (if p < 0 \<or> p > 100
      then throw (Error ''Release policy rollout canaryPercentage must be between 0 and 100.'')
      else return p)"

definition createReleasePolicyRollout :: "policy_rollout_input \<Rightarrow> policy_rollout result" where
  "createReleasePolicyRollout input =
     rbind (assertPercentage
              (if rin_mode input = Canary then nullish (rin_canaryPercentage input) (Num 0)
               else if rin_mode input = Enforce then Num 100 else Num 0))
       (\<lambda>canaryPercentage. return
         \<lparr> rol_version = RELEASE_POLICY_ROLLOUT_SPEC_VERSION,
           rol_mode = rin_mode input,
           rol_canaryPercentage = canaryPercentage,
           rol_cohortKey = nullish (rin_cohortKey input) Key_request_id,
           rol_cohortSalt = nullish (rin_cohortSalt input) ''attestor.release-policy-rollout'',
           rol_activatedAt = rin_activatedAt input,
           rol_fallbackPolicyId = rin_fallbackPolicyId input,
           rol_notes = nullish (rin_notes input) [] \<rparr>)"

definition rolloutCohortMaterial :: "policy_rollout \<Rightarrow> rollout_context \<Rightarrow> string option" where
  "rolloutCohortMaterial rollout context =
     (case rol_cohortKey rollout of
        Key_request_id \<Rightarrow> Some (rctx_requestId context)
      | Key_output_hash \<Rightarrow> Some (rctx_outputHash context)
      | Key_requester_id \<Rightarrow> Some (rctx_requesterId context)
      | Key_target_id \<Rightarrow> Some (rctx_targetId context)
      | Key_tenant_id \<Rightarrow> truthy_str (map_option trim (rctx_tenantId context))
      | Key_account_id \<Rightarrow> truthy_str (map_option trim (rctx_accountId context))
      | Key_plan_id \<Rightarrow> truthy_str (map_option trim (rctx_planId context))
      | Key_cohort_id \<Rightarrow> truthy_str (map_option trim (rctx_cohortId context)))"

fun js_mod :: "nat js_number \<Rightarrow> nat \<Rightarrow> nat js_number" where
  "js_mod NonFinite m = NonFinite"
| "js_mod (Num n) m = Num (n mod m)"

definition computeReleasePolicyCanaryBucket ::
  "(string \<Rightarrow> string) \<Rightarrow> policy_rollout \<Rightarrow> rollout_context \<Rightarrow> nat js_number result" where
  "computeReleasePolicyCanaryBucket sha256 rollout context =
     (case rolloutCohortMaterial rollout context of
        None \<Rightarrow> throw (Error (''Release policy rollout cohortKey '' @ [CHR 0x27] @
                  rollout_cohort_key_str (rol_cohortKey rollout) @ [CHR 0x27] @
                  '' requires matching rollout context.''))
      | Some cohortMaterial \<Rightarrow>
          let material = rol_cohortSalt rollout @ '':'' @ rollout_mode_str (rol_mode rollout) @ '':'' @ cohortMaterial;
              digest = sha256 material;
              basis = parseInt_hex (take 8 digest)
          in return (js_mod basis 10000))"

fun js_less_int :: "nat js_number \<Rightarrow> int \<Rightarrow> bool" where
  "js_less_int NonFinite t = False"
| "js_less_int (Num n) t = (int n < t)"

definition resolveReleasePolicyRollout ::
  "(string \<Rightarrow> string) \<Rightarrow> policy_rollout \<Rightarrow> rollout_context \<Rightarrow> rollout_resolution result" where
  "resolveReleasePolicyRollout sha256 rollout context =
     (case rol_mode rollout of
        Dry_run \<Rightarrow> return \<lparr> rres_rolloutMode = Dry_run, rres_evaluationMode = Eval_shadow,
                            rres_reason = Reason_dry_run, rres_canaryBucket = None \<rparr>
      | Enforce \<Rightarrow> return \<lparr> rres_rolloutMode = Enforce, rres_evaluationMode = Eval_enforce,
                            rres_reason = Reason_enforce, rres_canaryBucket = None \<rparr>
      | Rolled_back \<Rightarrow> return \<lparr> rres_rolloutMode = Rolled_back, rres_evaluationMode = Eval_shadow,
                            rres_reason = Reason_rolled_back, rres_canaryBucket = None \<rparr>
      | Canary \<Rightarrow>
          if rolloutCohortMaterial rollout context = None then
            return \<lparr> rres_rolloutMode = Canary, rres_evaluationMode = Eval_shadow,
                     rres_reason = Reason_canary_missing_context, rres_canaryBucket = None \<rparr>
          else
            rbind (computeReleasePolicyCanaryBucket sha256 rollout context) (\<lambda>bucket.
              let threshold = round (rol_canaryPercentage rollout * 100);
                  evaluationMode = (if js_less_int bucket threshold then Eval_enforce else Eval_shadow)
              in return
                \<lparr> rres_rolloutMode = Canary,
                  rres_evaluationMode = evaluationMode,
                  rres_reason = (if evaluationMode = Eval_enforce then Reason_canary_enforce
                                 else Reason_canary_shadow),
                  rres_canaryBucket = Some bucket \<rparr>))"

section \<open>Policies\<close>

definition RELEASE_POLICY_SPEC_VERSION :: string where
  "RELEASE_POLICY_SPEC_VERSION = ''attestor.release-policy.v1''"

datatype policy_status = Draft | Active | Deprecated

fun policy_status_str :: "policy_status \<Rightarrow> string" where
  "policy_status_str Draft = ''draft''"
| "policy_status_str Active = ''active''"
| "policy_status_str Deprecated = ''deprecated''"

datatype acceptance_strategy = All_required | Fail_on_any_required | Review_on_warning

fun acceptance_strategy_str :: "acceptance_strategy \<Rightarrow> string" where
  "acceptance_strategy_str All_required = ''all-required''"
| "acceptance_strategy_str Fail_on_any_required = ''fail-on-any-required''"
| "acceptance_strategy_str Review_on_warning = ''review-on-warning''"

record policy_scope =
  sco_wedgeId :: string
  sco_consequenceType :: consequence_type
  sco_riskClass :: risk_class
  sco_targetKinds :: "release_target_kind list"
  sco_dataDomains :: "string list"

record output_contract_policy =
  ocp_allowedArtifactTypes :: "string list"
  ocp_expectedShape :: string
  ocp_consequenceType :: consequence_type
  ocp_riskClass :: risk_class

record capability_boundary_policy =
  cbp_allowedTools :: "string list"
  cbp_allowedTargets :: "string list"
  cbp_allowedDataDomains :: "string list"
  cbp_requiresSingleTargetBinding :: bool

record acceptance_policy =
  acc_strategy :: acceptance_strategy
  acc_requiredChecks :: "deterministic_control_category list"
  acc_requiredEvidenceKinds :: "string list"
  acc_maxWarnings :: int
  acc_failureDisposition :: control_failure_disposition

record release_requirements =
  req_reviewMode :: review_authority_mode
  req_minimumReviewerCount :: int
  req_tokenEnforcement :: token_enforcement_level
  req_requireSignedEnvelope :: bool
  req_requireDurableEvidencePack :: bool
  req_requireDownstreamReceipt :: bool
  req_retentionClass :: evidence_retention_class

record release_policy =
  pol_version :: string
  pol_id :: string
  pol_name :: string
  pol_status :: policy_status
  pol_rollout :: policy_rollout
  pol_scope :: policy_scope
  pol_outputContract :: output_contract_policy
  pol_capabilityBoundary :: capability_boundary_policy
  pol_acceptance :: acceptance_policy
  pol_release :: release_requirements
  pol_notes :: "string list"

record release_policy_input =
  pin_id :: string
  pin_name :: string
  pin_status :: "policy_status option"
  pin_rollout :: "policy_rollout_input option"
  pin_scope :: policy_scope
  pin_outputContract :: output_contract_policy
  pin_capabilityBoundary :: capability_boundary_policy
  pin_acceptance :: acceptance_policy
  pin_release :: release_requirements
  pin_notes :: "string list option"

definition rollout_input_for_mode :: "rollout_mode \<Rightarrow> policy_rollout_input" where
  "rollout_input_for_mode mode =
     \<lparr> rin_mode = mode, rin_canaryPercentage = None, rin_cohortKey = None, rin_cohortSalt = None,
       rin_activatedAt = None, rin_fallbackPolicyId = None, rin_notes = None \<rparr>"

definition assertObserveDispositionIsShadowOnly ::
  "release_policy_input \<Rightarrow> policy_rollout \<Rightarrow> unit result" where
  "assertObserveDispositionIsShadowOnly input rollout =
     (if acc_failureDisposition (pin_acceptance input) \<noteq> Dispose_observe \<or>
         sco_riskClass (pin_scope input) = R0 then return ()
      else
        let canEnforce = (rol_mode rollout = Enforce \<or>
              (rol_mode rollout = Canary \<and> rol_canaryPercentage rollout > 0))
        in if canEnforce then
             throw (Error ''Release policy failureDisposition=observe is only allowed for R0 policy or shadow-only rollout modes.'')
           else return ())"

definition createReleasePolicyDefinition :: "release_policy_input \<Rightarrow> release_policy result" where
  "createReleasePolicyDefinition input =
     rbind (createReleasePolicyRollout (nullish (pin_rollout input) (rollout_input_for_mode Enforce)))
       (\<lambda>rollout.
     rbind (assertObserveDispositionIsShadowOnly input rollout) (\<lambda>_. return
       \<lparr> pol_version = RELEASE_POLICY_SPEC_VERSION,
         pol_id = pin_id input,
         pol_name = pin_name input,
         pol_status = nullish (pin_status input) Active,
         pol_rollout = rollout,
         pol_scope = pin_scope input,
         pol_outputContract = pin_outputContract input,
         pol_capabilityBoundary = pin_capabilityBoundary input,
         pol_acceptance = pin_acceptance input,
         pol_release = pin_release input,
         pol_notes = nullish (pin_notes input) [] \<rparr>))"

definition matchesReleasePolicyScope ::
  "release_policy \<Rightarrow> output_contract \<Rightarrow> capability_boundary \<Rightarrow> release_target_kind \<Rightarrow> bool" where
  "matchesReleasePolicyScope policy outputContract capabilityBoundary targetKind \<longleftrightarrow>
     length (cb_allowedTools capabilityBoundary) > 0 \<and>
     length (cb_allowedTargets capabilityBoundary) > 0 \<and>
     length (cb_allowedDataDomains capabilityBoundary) > 0 \<and>
     sco_consequenceType (pol_scope policy) = oc_consequenceType outputContract \<and>
     sco_riskClass (pol_scope policy) = oc_riskClass outputContract \<and>
     targetKind \<in> set (sco_targetKinds (pol_scope policy)) \<and>
     oc_artifactType outputContract \<in> set (ocp_allowedArtifactTypes (pol_outputContract policy)) \<and>
     ocp_expectedShape (pol_outputContract policy) = oc_expectedShape outputContract \<and>
     list_all (\<lambda>tool. tool \<in> set (cbp_allowedTools (pol_capabilityBoundary policy)))
       (cb_allowedTools capabilityBoundary) \<and>
     list_all (\<lambda>target. target \<in> set (cbp_allowedTargets (pol_capabilityBoundary policy)))
       (cb_allowedTargets capabilityBoundary) \<and>
     list_all (\<lambda>dom. dom \<in> set (cbp_allowedDataDomains (pol_capabilityBoundary policy)))
       (cb_allowedDataDomains capabilityBoundary)"

section \<open>The built-in policies\<close>

record gateway_wedge =
  wdg_id :: string
  wdg_consequenceType :: consequence_type
  wdg_defaultRiskClass :: risk_class
  wdg_targetKinds :: "release_target_kind list"

definition FIRST_HARD_GATEWAY_WEDGE :: gateway_wedge where
  "FIRST_HARD_GATEWAY_WEDGE =
     \<lparr> wdg_id = ''finance-structured-record-release'',
       wdg_consequenceType = Record,
       wdg_defaultRiskClass = R4,
       wdg_targetKinds = [Record_store, Artifact_registry] \<rparr>"

definition FINANCE_REVIEW_SUMMARY_TARGET_ID :: string where
  "FINANCE_REVIEW_SUMMARY_TARGET_ID = ''finance.reporting.review.mailbox''"

definition FINANCE_REVIEW_SUMMARY_ARTIFACT_TYPE :: string where
  "FINANCE_REVIEW_SUMMARY_ARTIFACT_TYPE = ''financial-reporting.review-summary-message''"

definition FINANCE_REVIEW_SUMMARY_EXPECTED_SHAPE :: string where
  "FINANCE_REVIEW_SUMMARY_EXPECTED_SHAPE = ''outbound finance release summary''"

definition FINANCE_WORKFLOW_ACTION_TARGET_ID :: string where
  "FINANCE_WORKFLOW_ACTION_TARGET_ID = ''finance.reporting.release-workflow.dispatch''"

definition FINANCE_WORKFLOW_ACTION_ARTIFACT_TYPE :: string where
  "FINANCE_WORKFLOW_ACTION_ARTIFACT_TYPE = ''financial-reporting.workflow-action-request''"

definition FINANCE_WORKFLOW_ACTION_EXPECTED_SHAPE :: string where
  "FINANCE_WORKFLOW_ACTION_EXPECTED_SHAPE = ''bounded finance workflow action request''"

text \<open>The instant \<open>2026-04-17T00:00:00.000Z\<close> at which the built-in policies were activated.\<close>

definition builtin_activatedAt :: timestamp where
  "builtin_activatedAt = 1776384000000"

definition createFirstHardGatewayReleasePolicy :: "release_policy result" where
  "createFirstHardGatewayReleasePolicy =
     (let wedge = FIRST_HARD_GATEWAY_WEDGE;
          riskControls = riskControlProfile (wdg_defaultRiskClass wedge)
      in createReleasePolicyDefinition
       \<lparr> pin_id = ''finance.structured-record-release.v1'',
         pin_name = ''Finance structured record release policy'',
         pin_status = None,
         pin_rollout = Some ((rollout_input_for_mode Enforce)
           \<lparr> rin_activatedAt := Some (Iso builtin_activatedAt),
             rin_notes := Some [''The first hard gateway wedge starts in enforce mode so the finance proving path remains fail-closed by default.''] \<rparr>),
         pin_scope =
           \<lparr> sco_wedgeId = wdg_id wedge,
             sco_consequenceType = wdg_consequenceType wedge,
             sco_riskClass = wdg_defaultRiskClass wedge,
             sco_targetKinds = wdg_targetKinds wedge,
             sco_dataDomains = [''financial-reporting''] \<rparr>,
         pin_outputContract =
           \<lparr> ocp_allowedArtifactTypes =
               [''financial-reporting.record-field'',
                ''financial-reporting.filing-preparation-payload'',
                ''financial-reporting.structured-report-artifact''],
             ocp_expectedShape = ''structured financial record payload'',
             ocp_consequenceType = wdg_consequenceType wedge,
             ocp_riskClass = wdg_defaultRiskClass wedge \<rparr>,
         pin_capabilityBoundary =
           \<lparr> cbp_allowedTools = [''xbrl-export'', ''filing-prepare'', ''record-commit''],
             cbp_allowedTargets = [''sec.edgar.filing.prepare'', ''finance.reporting.record-store''],
             cbp_allowedDataDomains = [''financial-reporting''],
             cbp_requiresSingleTargetBinding = True \<rparr>,
         pin_acceptance =
           \<lparr> acc_strategy = All_required,
             acc_requiredChecks = rkc_deterministicChecks riskControls,
             acc_requiredEvidenceKinds = [''trace'', ''finding-log'', ''signature'', ''provenance''],
             acc_maxWarnings = 0,
             acc_failureDisposition = rvc_failureDisposition (rkc_review riskControls) \<rparr>,
         pin_release =
           \<lparr> req_reviewMode = rvc_mode (rkc_review riskControls),
             req_minimumReviewerCount = rvc_minimumReviewerCount (rkc_review riskControls),
             req_tokenEnforcement = tkc_minimumEnforcement (rkc_token riskControls),
             req_requireSignedEnvelope = True,
             req_requireDurableEvidencePack = evc_requiresDurableEvidencePack (rkc_evidence riskControls),
             req_requireDownstreamReceipt = evc_requiresDownstreamReceipt (rkc_evidence riskControls),
             req_retentionClass = evc_retentionClass (rkc_evidence riskControls) \<rparr>,
         pin_notes = Some
           [''This first policy language slice is intentionally declarative and wedge-bound.'',
            ''The first hard gateway policy stays anchored to structured financial record release before broader platform generalization.''] \<rparr>)"

definition createFinanceCommunicationReleasePolicy :: "release_policy result" where
  "createFinanceCommunicationReleasePolicy =
     (let riskControls = riskControlProfile R2
      in createReleasePolicyDefinition
       \<lparr> pin_id = ''finance.review-summary-communication.v1'',
         pin_name = ''Finance review summary communication policy'',
         pin_status = None,
         pin_rollout = Some ((rollout_input_for_mode Dry_run)
           \<lparr> rin_activatedAt := Some (Iso builtin_activatedAt),
             rin_notes := Some [''Communication launches in dry-run so recipient and channel binding can be calibrated before any blocking send path is enabled.''] \<rparr>),
         pin_scope =
           \<lparr> sco_wedgeId = ''finance-review-summary-communication'',
             sco_consequenceType = Communication,
             sco_riskClass = R2,
             sco_targetKinds = [Endpoint],
             sco_dataDomains = [''financial-reporting''] \<rparr>,
         pin_outputContract =
           \<lparr> ocp_allowedArtifactTypes = [FINANCE_REVIEW_SUMMARY_ARTIFACT_TYPE],
             ocp_expectedShape = FINANCE_REVIEW_SUMMARY_EXPECTED_SHAPE,
             ocp_consequenceType = Communication,
             ocp_riskClass = R2 \<rparr>,
         pin_capabilityBoundary =
           \<lparr> cbp_allowedTools = [''review-summary-render'', ''channel-dispatch''],
             cbp_allowedTargets = [FINANCE_REVIEW_SUMMARY_TARGET_ID],
             cbp_allowedDataDomains = [''financial-reporting''],
             cbp_requiresSingleTargetBinding = True \<rparr>,
         pin_acceptance =
           \<lparr> acc_strategy = All_required,
             acc_requiredChecks = rkc_deterministicChecks riskControls,
             acc_requiredEvidenceKinds = [''trace'', ''finding-log''],
             acc_maxWarnings = 0,
             acc_failureDisposition = rvc_failureDisposition (rkc_review riskControls) \<rparr>,
         pin_release =
           \<lparr> req_reviewMode = Auto,
             req_minimumReviewerCount = 0,
             req_tokenEnforcement = tkc_minimumEnforcement (rkc_token riskControls),
             req_requireSignedEnvelope = False,
             req_requireDurableEvidencePack = evc_requiresDurableEvidencePack (rkc_evidence riskControls),
             req_requireDownstreamReceipt = evc_requiresDownstreamReceipt (rkc_evidence riskControls),
             req_retentionClass = evc_retentionClass (rkc_evidence riskControls) \<rparr>,
         pin_notes = Some
           [''This is the second canonical flow: outbound reviewer-facing communication after record release proved the first hard boundary.''] \<rparr>)"

definition createFinanceActionReleasePolicy :: "release_policy result" where
  "createFinanceActionReleasePolicy =
     (let riskControls = riskControlProfile R3
      in createReleasePolicyDefinition
       \<lparr> pin_id = ''finance.workflow-action-release.v1'',
         pin_name = ''Finance workflow action release policy'',
         pin_status = None,
         pin_rollout = Some ((rollout_input_for_mode Dry_run)
           \<lparr> rin_activatedAt := Some (Iso builtin_activatedAt),
             rin_notes := Some [''Action release launches in dry-run so side effects stay observable before pre-execution authorization becomes mandatory.''] \<rparr>),
         pin_scope =
           \<lparr> sco_wedgeId = ''finance-workflow-action-release'',
             sco_consequenceType = Action,
             sco_riskClass = R3,
             sco_targetKinds = [Workflow],
             sco_dataDomains = [''financial-reporting''] \<rparr>,
         pin_outputContract =
           \<lparr> ocp_allowedArtifactTypes = [FINANCE_WORKFLOW_ACTION_ARTIFACT_TYPE],
             ocp_expectedShape = FINANCE_WORKFLOW_ACTION_EXPECTED_SHAPE,
             ocp_consequenceType = Action,
             ocp_riskClass = R3 \<rparr>,
         pin_capabilityBoundary =
           \<lparr> cbp_allowedTools = [''workflow-dispatch'', ''filing-prepare''],
             cbp_allowedTargets = [FINANCE_WORKFLOW_ACTION_TARGET_ID],
             cbp_allowedDataDomains = [''financial-reporting''],
             cbp_requiresSingleTargetBinding = True \<rparr>,
         pin_acceptance =
           \<lparr> acc_strategy = All_required,
             acc_requiredChecks = rkc_deterministicChecks riskControls,
             acc_requiredEvidenceKinds = [''trace'', ''finding-log'', ''provenance''],
             acc_maxWarnings = 0,
             acc_failureDisposition = rvc_failureDisposition (rkc_review riskControls) \<rparr>,
         pin_release =
           \<lparr> req_reviewMode = rvc_mode (rkc_review riskControls),
             req_minimumReviewerCount = rvc_minimumReviewerCount (rkc_review riskControls),
             req_tokenEnforcement = tkc_minimumEnforcement (rkc_token riskControls),
             req_requireSignedEnvelope = True,
             req_requireDurableEvidencePack = evc_requiresDurableEvidencePack (rkc_evidence riskControls),
             req_requireDownstreamReceipt = evc_requiresDownstreamReceipt (rkc_evidence riskControls),
             req_retentionClass = evc_retentionClass (rkc_evidence riskControls) \<rparr>,
         pin_notes = Some
           [''This is the third canonical flow: bounded workflow action requests stay shadow-first until a concrete pre-execution gate is ready.''] \<rparr>)"

section \<open>Canary rollout\<close>

lemma canary_bucket_range:
  "computeReleasePolicyCanaryBucket sha256 r c = Inr (Num b) \<Longrightarrow> b < 10000"
  by (cases "parseInt_hex (take 8 (sha256 (rol_cohortSalt r @ '':'' @ rollout_mode_str (rol_mode r) @ '':'' @
        the (rolloutCohortMaterial r c))))")
    (auto simp: computeReleasePolicyCanaryBucket_def Let_def split: option.splits)

text \<open>The bucket depends on the salt, the mode and the cohort, never on the percentage.\<close>

lemma cohort_material_percentage [simp]:
  "rolloutCohortMaterial (r\<lparr>rol_canaryPercentage := p\<rparr>) c = rolloutCohortMaterial r c"
  by (simp add: rolloutCohortMaterial_def)

lemma canary_bucket_percentage [simp]:
  "computeReleasePolicyCanaryBucket sha256 (r\<lparr>rol_canaryPercentage := p\<rparr>) c =
   computeReleasePolicyCanaryBucket sha256 r c"
  by (simp add: computeReleasePolicyCanaryBucket_def Let_def split: option.split)

lemma resolve_total: "\<exists>res. resolveReleasePolicyRollout sha256 r c = Inr res"
  by (auto simp: resolveReleasePolicyRollout_def computeReleasePolicyCanaryBucket_def Let_def
      split: rollout_mode.splits)

lemma resolve_canary:
  assumes "rol_mode r = Canary" and "computeReleasePolicyCanaryBucket sha256 r c = Inr b"
    and "rolloutCohortMaterial r c \<noteq> None"
  shows "resolveReleasePolicyRollout sha256 r c = Inr
    \<lparr> rres_rolloutMode = Canary,
      rres_evaluationMode = (if js_less_int b (round (rol_canaryPercentage r * 100)) then Eval_enforce else Eval_shadow),
      rres_reason = (if js_less_int b (round (rol_canaryPercentage r * 100)) then Reason_canary_enforce
        else Reason_canary_shadow),
      rres_canaryBucket = Some b \<rparr>"
  using assms by (simp add: resolveReleasePolicyRollout_def Let_def)

lemma js_less_int_mono: "js_less_int b s \<Longrightarrow> s \<le> t \<Longrightarrow> js_less_int b t"
  by (cases b) auto

definition evaluates :: "(string \<Rightarrow> string) \<Rightarrow> policy_rollout \<Rightarrow> rollout_context \<Rightarrow> rollout_evaluation_mode \<Rightarrow> bool" where
  "evaluates sha256 r c m \<longleftrightarrow> (\<exists>res. resolveReleasePolicyRollout sha256 r c = Inr res \<and> rres_evaluationMode res = m)"

lemma evaluates_cases: "evaluates sha256 r c Eval_shadow \<noteq> evaluates sha256 r c Eval_enforce"
proof -
  obtain res where "resolveReleasePolicyRollout sha256 r c = Inr res"
    using resolve_total by blast
  then show ?thesis
    by (cases "rres_evaluationMode res") (auto simp: evaluates_def)
qed

lemma canary_ends:
  assumes "rol_mode r = Canary"
  shows "evaluates sha256 (r\<lparr>rol_canaryPercentage := 0\<rparr>) c Eval_shadow"
proof (cases "rolloutCohortMaterial r c")
  case None
  then show ?thesis
    using assms by (simp add: evaluates_def resolveReleasePolicyRollout_def)
next
  case (Some m)
  then obtain b where "computeReleasePolicyCanaryBucket sha256 r c = Inr b"
    by (auto simp: computeReleasePolicyCanaryBucket_def Let_def)
  moreover have "\<not> js_less_int b (round (0 * 100 :: rat))"
    by (cases b) simp_all
  ultimately show ?thesis
    using assms Some by (subst evaluates_def, subst resolve_canary [where b = b]) auto
qed

text \<open>
A canary ramp is monotone and its ends are exact. A request that is enforced at some
  percentage stays enforced at every larger one; at 0 percent every request is shadowed; at 100
  percent every request whose cohort is known and whose digest starts with a hexadecimal digit
  is enforced.
\<close>

theorem canary_ramp:
  assumes "rol_mode r = Canary"
  shows "(p \<le> q \<and> evaluates sha256 (r\<lparr>rol_canaryPercentage := p\<rparr>) c Eval_enforce
      \<longrightarrow> evaluates sha256 (r\<lparr>rol_canaryPercentage := q\<rparr>) c Eval_enforce) \<and>
    evaluates sha256 (r\<lparr>rol_canaryPercentage := 0\<rparr>) c Eval_shadow \<and>
    (\<forall>b. rolloutCohortMaterial r c \<noteq> None \<and> computeReleasePolicyCanaryBucket sha256 r c = Inr (Num b)
      \<longrightarrow> evaluates sha256 (r\<lparr>rol_canaryPercentage := 100\<rparr>) c Eval_enforce)"
proof (cases "rolloutCohortMaterial r c")
  case None
  then show ?thesis
    using assms by (simp add: evaluates_def resolveReleasePolicyRollout_def)
next
  case (Some m)
  then obtain b where b: "computeReleasePolicyCanaryBucket sha256 r c = Inr b"
    by (auto simp: computeReleasePolicyCanaryBucket_def Let_def)
  have enforce: "evaluates sha256 (r\<lparr>rol_canaryPercentage := p\<rparr>) c Eval_enforce
      \<longleftrightarrow> js_less_int b (round (p * 100))" for p
    using assms Some b
    by (subst evaluates_def, subst resolve_canary [where b = b]) auto
  have "round (p * 100) \<le> round (q * 100)" if "p \<le> q"
    using that by (intro round_mono) simp
  moreover have "js_less_int (Num k) (round (100 * 100 :: rat))" if "b = Num k" for k
    using canary_bucket_range b that by (simp add: round_numeral del: round_def)
  ultimately show ?thesis
    using enforce b canary_ends [OF assms] by (auto dest: js_less_int_mono)
qed

definition sample_rollout :: policy_rollout where
  "sample_rollout = \<lparr> rol_version = RELEASE_POLICY_ROLLOUT_SPEC_VERSION, rol_mode = Canary,
     rol_canaryPercentage = 25, rol_cohortKey = Key_request_id, rol_cohortSalt = ''s'',
     rol_activatedAt = None, rol_fallbackPolicyId = None, rol_notes = [] \<rparr>"

definition sample_rollout_context :: rollout_context where
  "sample_rollout_context = \<lparr> rctx_requestId = ''req'', rctx_outputHash = ''h'', rctx_requesterId = ''u'',
     rctx_targetId = ''t'', rctx_tenantId = None, rctx_accountId = None, rctx_planId = None,
     rctx_cohortId = None \<rparr>"

theorem canary_ramp_witness:
  "evaluates (\<lambda>_. ''000007d0'') (sample_rollout\<lparr>rol_canaryPercentage := 25\<rparr>) sample_rollout_context Eval_enforce \<and>
   evaluates (\<lambda>_. ''000007d0'') (sample_rollout\<lparr>rol_canaryPercentage := 50\<rparr>) sample_rollout_context Eval_enforce"
proof -
  have mode: "rol_mode sample_rollout = Canary" by (simp add: sample_rollout_def)
  have material: "rolloutCohortMaterial sample_rollout sample_rollout_context = Some ''req''"
    by (simp add: sample_rollout_def sample_rollout_context_def rolloutCohortMaterial_def)
  have "parseInt_hex ''000007d0'' = Num 2000"
    by (simp add: parseInt_hex_def hex_prefix_def hex_digit_value_def digits_value_def)
  then have "computeReleasePolicyCanaryBucket (\<lambda>_. ''000007d0'') sample_rollout sample_rollout_context = Inr (Num 2000)"
    by (simp add: computeReleasePolicyCanaryBucket_def material Let_def)
  moreover have "round (25 * 100 :: rat) = 2500" by (simp add: round_numeral del: round_def)
  ultimately have "evaluates (\<lambda>_. ''000007d0'') (sample_rollout\<lparr>rol_canaryPercentage := 25\<rparr>) sample_rollout_context Eval_enforce"
    using mode material by (subst evaluates_def, subst resolve_canary [where b = "Num 2000"]) auto
  then show ?thesis
    using canary_ramp [OF mode, of 25 50 "\<lambda>_. ''000007d0''" sample_rollout_context] by auto
qed

section \<open>Policy creation\<close>

lemma createReleasePolicyRollout_eq_Inr:
  "createReleasePolicyRollout input = Inr r \<Longrightarrow>
     rol_mode r = rin_mode input \<and> 0 \<le> rol_canaryPercentage r \<and> rol_canaryPercentage r \<le> 100 \<and>
     (rol_mode r = Enforce \<longrightarrow> rol_canaryPercentage r = 100) \<and>
     (rol_mode r \<in> {Dry_run, Rolled_back} \<longrightarrow> rol_canaryPercentage r = 0)"
proof -
  have pct: "assertPercentage x = Inr p \<longleftrightarrow> x = Num p \<and> 0 \<le> p \<and> p \<le> 100" for x p
    by (cases x) auto
  assume "createReleasePolicyRollout input = Inr r"
  then show ?thesis
    by (auto simp: createReleasePolicyRollout_def pct split: if_splits)
qed

text \<open>
A policy that merely observes failed checks cannot be enforced above R0. Whenever the
  constructor accepts a policy whose failure disposition is \<open>observe\<close> and whose risk class is not
  R0, every request it governs is evaluated in shadow mode, whatever its cohort and the digest.
\<close>

theorem observe_policy_shadow_only:
  assumes "createReleasePolicyDefinition input = Inr p"
    and "acc_failureDisposition (pol_acceptance p) = Dispose_observe"
    and "sco_riskClass (pol_scope p) \<noteq> R0"
  shows "evaluates sha256 (pol_rollout p) c Eval_shadow"
proof -
  from assms have roll: "createReleasePolicyRollout (nullish (pin_rollout input) (rollout_input_for_mode Enforce))
      = Inr (pol_rollout p)"
    and no: "rol_mode (pol_rollout p) \<noteq> Enforce"
      "rol_mode (pol_rollout p) = Canary \<Longrightarrow> rol_canaryPercentage (pol_rollout p) \<le> 0"
    by (auto simp: createReleasePolicyDefinition_def assertObserveDispositionIsShadowOnly_def Let_def
        split: if_splits)
  show ?thesis
  proof (cases "rol_mode (pol_rollout p) = Canary")
    case True
    with no createReleasePolicyRollout_eq_Inr [OF roll]
    have "rol_canaryPercentage (pol_rollout p) = 0" by simp
    then have "pol_rollout p = (pol_rollout p)\<lparr>rol_canaryPercentage := 0\<rparr>" by simp
    with canary_ends [OF True] show ?thesis by metis
  next
    case False
    with no(1) show ?thesis
      by (cases "rol_mode (pol_rollout p)") (auto simp: evaluates_def resolveReleasePolicyRollout_def)
  qed
qed

definition sample_observe_input :: release_policy_input where
  "sample_observe_input =
     \<lparr> pin_id = ''observe'', pin_name = ''observe'', pin_status = None,
       pin_rollout = Some (rollout_input_for_mode Canary),
       pin_scope = \<lparr> sco_wedgeId = ''w'', sco_consequenceType = Action, sco_riskClass = R3,
         sco_targetKinds = [Workflow], sco_dataDomains = [''d''] \<rparr>,
       pin_outputContract = \<lparr> ocp_allowedArtifactTypes = [''a''], ocp_expectedShape = ''s'',
         ocp_consequenceType = Action, ocp_riskClass = R3 \<rparr>,
       pin_capabilityBoundary = \<lparr> cbp_allowedTools = [''tool''], cbp_allowedTargets = [''t''],
         cbp_allowedDataDomains = [''d''], cbp_requiresSingleTargetBinding = True \<rparr>,
       pin_acceptance = \<lparr> acc_strategy = All_required, acc_requiredChecks = [Contract_shape],
         acc_requiredEvidenceKinds = [], acc_maxWarnings = 0, acc_failureDisposition = Dispose_observe \<rparr>,
       pin_release = \<lparr> req_reviewMode = Auto, req_minimumReviewerCount = 0,
         req_tokenEnforcement = Enforcement_required, req_requireSignedEnvelope = False,
         req_requireDurableEvidencePack = False, req_requireDownstreamReceipt = False,
         req_retentionClass = Standard \<rparr>,
       pin_notes = None \<rparr>"

lemmas policy_creation_defs =
  createReleasePolicyDefinition_def createReleasePolicyRollout_def rollout_input_for_mode_def
  assertObserveDispositionIsShadowOnly_def

theorem observe_policy_shadow_only_witness:
  "\<exists>p. createReleasePolicyDefinition sample_observe_input = Inr p \<and>
     acc_failureDisposition (pol_acceptance p) = Dispose_observe \<and>
     evaluates id (pol_rollout p) sample_rollout_context Eval_shadow"
proof -
  obtain p where p: "createReleasePolicyDefinition sample_observe_input = Inr p"
    and obs: "acc_failureDisposition (pol_acceptance p) = Dispose_observe"
    and risk: "sco_riskClass (pol_scope p) \<noteq> R0"
    by (simp add: policy_creation_defs sample_observe_input_def)
  from observe_policy_shadow_only [OF p obs risk] p obs show ?thesis by blast
qed

text \<open>The built-in finance policies pass the constructor.\<close>

lemma builtin_policies_created:
  "\<exists>p. createFirstHardGatewayReleasePolicy = Inr p \<and> pol_id p = ''finance.structured-record-release.v1'' \<and>
     rol_mode (pol_rollout p) = Enforce \<and> pol_status p = Active"
  "\<exists>p. createFinanceCommunicationReleasePolicy = Inr p \<and> rol_mode (pol_rollout p) = Dry_run"
  "\<exists>p. createFinanceActionReleasePolicy = Inr p \<and> rol_mode (pol_rollout p) = Dry_run"
  by (simp_all add: createFirstHardGatewayReleasePolicy_def createFinanceCommunicationReleasePolicy_def
      createFinanceActionReleasePolicy_def policy_creation_defs risk_control_defs
      FIRST_HARD_GATEWAY_WEDGE_def)

end
