(* ===== verification/Compiled_Policy.thy ===== *)
theory Compiled_Policy
  imports Release_Policy
begin

text \<open>
  The compiled admission policies: \<open>release-kernel/compiled-policy-ir.ts\<close> (compilation, the
  obligation mask, static verification against the risk baseline) and
  \<open>compiled-policy-index.ts\<close> (the verified index that the decision engine searches), with the
  request type of \<open>release-decision-engine.ts\<close> that the index is searched with.

  The digest is the parameter \<open>sha256\<close>; hashing can throw because canonicalization can. A
  control category or obligation is a value of its datatype, so the branches of the source that
  report unknown categories and obligations cannot be reached and are left out. The bucket table
  of the index is a map, since only lookups by key are made in it.

  The lemmas show what the obligation mask encodes, that verification of a compiled policy is
  exactly the risk baseline, and that searching the index is a linear search through the
  verified active policies.
\<close>

unbundle bit_operations_syntax

section \<open>Obligations\<close>

definition COMPILED_ADMISSION_POLICY_IR_VERSION :: string where
  "COMPILED_ADMISSION_POLICY_IR_VERSION = ''attestor.compiled-admission-policy-ir.v1''"

definition DETERMINISTIC_CONTROL_CATEGORIES :: "deterministic_control_category list" where
  "DETERMINISTIC_CONTROL_CATEGORIES =
     [Contract_shape, Target_binding_check, Capability_boundary_check, Consequence_hash_integrity,
      Policy_rule_validation, Evidence_completeness, Trace_grade_regression, Provenance_binding,
      Downstream_receipt_reconciliation]"

datatype admission_obligation =
    Check_obligation deterministic_control_category
  | Release_token_obligation
  | Token_introspection_obligation
  | Signed_envelope_obligation
  | Durable_evidence_pack_obligation
  | Human_review_obligation
  | Replay_ledger_obligation
  | Regulated_retention_obligation

fun obligation_str :: "admission_obligation \<Rightarrow> string" where
  "obligation_str (Check_obligation c) = control_category_str c"
| "obligation_str Release_token_obligation = ''release-token''"
| "obligation_str Token_introspection_obligation = ''token-introspection''"
| "obligation_str Signed_envelope_obligation = ''signed-envelope''"
| "obligation_str Durable_evidence_pack_obligation = ''durable-evidence-pack''"
| "obligation_str Human_review_obligation = ''human-review''"
| "obligation_str Replay_ledger_obligation = ''replay-ledger''"
| "obligation_str Regulated_retention_obligation = ''regulated-retention''"

definition ADMISSION_OBLIGATION_KINDS :: "admission_obligation list" where
  "ADMISSION_OBLIGATION_KINDS =
     map Check_obligation DETERMINISTIC_CONTROL_CATEGORIES @
     [Release_token_obligation, Token_introspection_obligation, Signed_envelope_obligation,
      Durable_evidence_pack_obligation, Human_review_obligation, Replay_ledger_obligation,
      Regulated_retention_obligation]"

definition obligation_index :: "admission_obligation \<Rightarrow> nat" where
  "obligation_index obligation = length (takeWhile (\<lambda>k. k \<noteq> obligation) ADMISSION_OBLIGATION_KINDS)"

definition ADMISSION_OBLIGATION_BITS :: "admission_obligation \<Rightarrow> nat" where
  "ADMISSION_OBLIGATION_BITS obligation = push_bit (obligation_index obligation) 1"

definition admissionObligationMaskFor :: "admission_obligation list \<Rightarrow> nat" where
  "admissionObligationMaskFor obligations =
     foldl (\<lambda>mask obligation. mask OR ADMISSION_OBLIGATION_BITS obligation) 0 obligations"

definition admissionObligationMaskHex :: "nat \<Rightarrow> string" where
  "admissionObligationMaskHex m = ''0x'' @ hex_of_nat m"

definition uniqueSorted :: "('a \<Rightarrow> string) \<Rightarrow> 'a list \<Rightarrow> 'a list" where
  "uniqueSorted str values = sort_key str (remdups values)"

definition releaseDisciplineObligations :: "release_policy \<Rightarrow> admission_obligation list" where
  "releaseDisciplineObligations policy =
     (let riskProfile = riskControlProfile (sco_riskClass (pol_scope policy));
          release = pol_release policy
      in (if req_tokenEnforcement release \<noteq> Enforcement_none then [Release_token_obligation] else []) @
         (if req_tokenEnforcement release = Required_with_introspection
          then [Token_introspection_obligation] else []) @
         (if req_requireSignedEnvelope release then [Signed_envelope_obligation] else []) @
         (if req_requireDurableEvidencePack release then [Durable_evidence_pack_obligation] else []) @
         (if req_reviewMode release \<noteq> Auto \<or> req_minimumReviewerCount release > 0
          then [Human_review_obligation] else []) @
         (if tkc_requiresReplayLedger (rkc_token riskProfile) then [Replay_ledger_obligation] else []) @
         (if req_retentionClass release = Regulated then [Regulated_retention_obligation] else []))"

definition requiredObligationsForReleasePolicy :: "release_policy \<Rightarrow> admission_obligation list" where
  "requiredObligationsForReleasePolicy policy =
     uniqueSorted obligation_str
       (map Check_obligation (acc_requiredChecks (pol_acceptance policy)) @ releaseDisciplineObligations policy)"

definition requiredObligationMaskForReleasePolicy :: "release_policy \<Rightarrow> nat" where
  "requiredObligationMaskForReleasePolicy policy =
     admissionObligationMaskFor (requiredObligationsForReleasePolicy policy)"

section \<open>Compilation\<close>

record compiled_index_key =
  cik_wedgeId :: string
  cik_consequenceType :: consequence_type
  cik_riskClass :: risk_class
  cik_targetKinds :: "release_target_kind list"
  cik_artifactTypes :: "string list"
  cik_dataDomains :: "string list"

record compiled_output_contract =
  coc_allowedArtifactTypes :: "string list"
  coc_expectedShape :: string

record compiled_acceptance =
  cac_strategy :: acceptance_strategy
  cac_maxWarnings :: int
  cac_failureDisposition :: control_failure_disposition

record compiled_rollout =
  cro_mode :: rollout_mode
  cro_activatedAt :: "js_date option"
  cro_fallbackPolicyId :: "string option"

record compiled_policy =
  cmp_version :: string
  cmp_sourcePolicyId :: string
  cmp_sourcePolicyVersion :: string
  cmp_sourcePolicyStatus :: policy_status
  cmp_policyHash :: string
  cmp_irHash :: string
  cmp_indexKey :: compiled_index_key
  cmp_outputContract :: compiled_output_contract
  cmp_capabilityBoundary :: capability_boundary_policy
  cmp_acceptance :: compiled_acceptance
  cmp_release :: release_requirements
  cmp_deterministicChecks :: "deterministic_control_category list"
  cmp_evidenceKinds :: "string list"
  cmp_requiredObligations :: "admission_obligation list"
  cmp_requiredObligationMaskHex :: string
  cmp_rollout :: compiled_rollout

fun json_date_opt :: "js_date option \<Rightarrow> json" where
  "json_date_opt None = JNull"
| "json_date_opt (Some d) = JString (date_text d)"

definition sha256Canonical :: "(string \<Rightarrow> string) \<Rightarrow> json \<Rightarrow> string result" where
  "sha256Canonical sha256 value =
     rbind (canonicalizeReleaseJson value) (\<lambda>text. return (''sha256:'' @ sha256 text))"

definition scope_json :: "policy_scope \<Rightarrow> json" where
  "scope_json s = JObject
     [(''wedgeId'', JString (sco_wedgeId s)),
      (''consequenceType'', JString (consequence_type_str (sco_consequenceType s))),
      (''riskClass'', JString (risk_class_str (sco_riskClass s))),
      (''targetKinds'', json_strs (map release_target_kind_str (sco_targetKinds s))),
      (''dataDomains'', json_strs (sco_dataDomains s))]"

definition output_contract_policy_json :: "output_contract_policy \<Rightarrow> json" where
  "output_contract_policy_json c = JObject
     [(''allowedArtifactTypes'', json_strs (ocp_allowedArtifactTypes c)),
      (''expectedShape'', JString (ocp_expectedShape c)),
      (''consequenceType'', JString (consequence_type_str (ocp_consequenceType c))),
      (''riskClass'', JString (risk_class_str (ocp_riskClass c)))]"

definition boundary_policy_json :: "capability_boundary_policy \<Rightarrow> json" where
  "boundary_policy_json b = JObject
     [(''allowedTools'', json_strs (cbp_allowedTools b)),
      (''allowedTargets'', json_strs (cbp_allowedTargets b)),
      (''allowedDataDomains'', json_strs (cbp_allowedDataDomains b)),
      (''requiresSingleTargetBinding'', JBool (cbp_requiresSingleTargetBinding b))]"

definition acceptance_json :: "acceptance_policy \<Rightarrow> json" where
  "acceptance_json a = JObject
     [(''strategy'', JString (acceptance_strategy_str (acc_strategy a))),
      (''requiredChecks'', json_strs (map control_category_str (acc_requiredChecks a))),
      (''requiredEvidenceKinds'', json_strs (acc_requiredEvidenceKinds a)),
      (''maxWarnings'', JNumber (Num (acc_maxWarnings a))),
      (''failureDisposition'', JString (disposition_str (acc_failureDisposition a)))]"

definition release_requirements_json :: "release_requirements \<Rightarrow> json" where
  "release_requirements_json r = JObject
     [(''reviewMode'', JString (review_authority_mode_str (req_reviewMode r))),
      (''minimumReviewerCount'', JNumber (Num (req_minimumReviewerCount r))),
      (''tokenEnforcement'', JString (enforcement_level_str (req_tokenEnforcement r))),
      (''requireSignedEnvelope'', JBool (req_requireSignedEnvelope r)),
      (''requireDurableEvidencePack'', JBool (req_requireDurableEvidencePack r)),
      (''requireDownstreamReceipt'', JBool (req_requireDownstreamReceipt r)),
      (''retentionClass'', JString (evidence_retention_class_str (req_retentionClass r)))]"

definition policyHashPayload :: "release_policy \<Rightarrow> json" where
  "policyHashPayload policy = JObject
     [(''version'', JString (pol_version policy)),
      (''id'', JString (pol_id policy)),
      (''name'', JString (pol_name policy)),
      (''status'', JString (policy_status_str (pol_status policy))),
      (''rollout'', JObject
         [(''mode'', JString (rollout_mode_str (rol_mode (pol_rollout policy)))),
          (''activatedAt'', json_date_opt (rol_activatedAt (pol_rollout policy))),
          (''fallbackPolicyId'', json_str_opt (rol_fallbackPolicyId (pol_rollout policy)))]),
      (''scope'', scope_json (pol_scope policy)),
      (''outputContract'', output_contract_policy_json (pol_outputContract policy)),
      (''capabilityBoundary'', boundary_policy_json (pol_capabilityBoundary policy)),
      (''acceptance'', acceptance_json (pol_acceptance policy)),
      (''release'', release_requirements_json (pol_release policy)),
      (''notes'', json_strs (pol_notes policy))]"

definition compiledPolicyHashPayload :: "compiled_policy \<Rightarrow> json" where
  "compiledPolicyHashPayload policy = JObject
     [(''version'', JString (cmp_version policy)),
      (''sourcePolicyId'', JString (cmp_sourcePolicyId policy)),
      (''sourcePolicyVersion'', JString (cmp_sourcePolicyVersion policy)),
      (''sourcePolicyStatus'', JString (policy_status_str (cmp_sourcePolicyStatus policy))),
      (''policyHash'', JString (cmp_policyHash policy)),
      (''indexKey'', JObject
         [(''wedgeId'', JString (cik_wedgeId (cmp_indexKey policy))),
          (''consequenceType'', JString (consequence_type_str (cik_consequenceType (cmp_indexKey policy)))),
          (''riskClass'', JString (risk_class_str (cik_riskClass (cmp_indexKey policy)))),
          (''targetKinds'', json_strs (map release_target_kind_str (cik_targetKinds (cmp_indexKey policy)))),
          (''artifactTypes'', json_strs (cik_artifactTypes (cmp_indexKey policy))),
          (''dataDomains'', json_strs (cik_dataDomains (cmp_indexKey policy)))]),
      (''outputContract'', JObject
         [(''allowedArtifactTypes'', json_strs (coc_allowedArtifactTypes (cmp_outputContract policy))),
          (''expectedShape'', JString (coc_expectedShape (cmp_outputContract policy)))]),
      (''capabilityBoundary'', boundary_policy_json (cmp_capabilityBoundary policy)),
      (''acceptance'', JObject
         [(''strategy'', JString (acceptance_strategy_str (cac_strategy (cmp_acceptance policy)))),
          (''maxWarnings'', JNumber (Num (cac_maxWarnings (cmp_acceptance policy)))),
          (''failureDisposition'', JString (disposition_str (cac_failureDisposition (cmp_acceptance policy))))]),
      (''release'', release_requirements_json (cmp_release policy)),
      (''deterministicChecks'', json_strs (map control_category_str (cmp_deterministicChecks policy))),
      (''evidenceKinds'', json_strs (cmp_evidenceKinds policy)),
      (''requiredObligations'', json_strs (map obligation_str (cmp_requiredObligations policy))),
      (''requiredObligationMaskHex'', JString (cmp_requiredObligationMaskHex policy)),
      (''rollout'', JObject
         [(''mode'', JString (rollout_mode_str (cro_mode (cmp_rollout policy)))),
          (''activatedAt'', json_date_opt (cro_activatedAt (cmp_rollout policy))),
          (''fallbackPolicyId'', json_str_opt (cro_fallbackPolicyId (cmp_rollout policy)))])]"

definition computeReleasePolicyHash :: "(string \<Rightarrow> string) \<Rightarrow> release_policy \<Rightarrow> string result" where
  "computeReleasePolicyHash sha256 policy = sha256Canonical sha256 (policyHashPayload policy)"

definition computeCompiledAdmissionPolicyIrHash ::
  "(string \<Rightarrow> string) \<Rightarrow> compiled_policy \<Rightarrow> string result" where
  "computeCompiledAdmissionPolicyIrHash sha256 policy =
     sha256Canonical sha256 (compiledPolicyHashPayload policy)"

text \<open>The compiled policy before its own hash is known: the field \<open>irHash\<close> is filled in last.\<close>

definition compiled_without_hash :: "release_policy \<Rightarrow> string \<Rightarrow> compiled_policy" where
  "compiled_without_hash policy policyHash =
     (let requiredObligations = requiredObligationsForReleasePolicy policy in
      \<lparr> cmp_version = COMPILED_ADMISSION_POLICY_IR_VERSION,
        cmp_sourcePolicyId = pol_id policy,
        cmp_sourcePolicyVersion = pol_version policy,
        cmp_sourcePolicyStatus = pol_status policy,
        cmp_policyHash = policyHash,
        cmp_irHash = [],
        cmp_indexKey =
          \<lparr> cik_wedgeId = sco_wedgeId (pol_scope policy),
            cik_consequenceType = sco_consequenceType (pol_scope policy),
            cik_riskClass = sco_riskClass (pol_scope policy),
            cik_targetKinds = uniqueSorted release_target_kind_str (sco_targetKinds (pol_scope policy)),
            cik_artifactTypes = uniqueSorted id (ocp_allowedArtifactTypes (pol_outputContract policy)),
            cik_dataDomains = uniqueSorted id (sco_dataDomains (pol_scope policy)) \<rparr>,
        cmp_outputContract =
          \<lparr> coc_allowedArtifactTypes = uniqueSorted id (ocp_allowedArtifactTypes (pol_outputContract policy)),
            coc_expectedShape = ocp_expectedShape (pol_outputContract policy) \<rparr>,
        cmp_capabilityBoundary =
          \<lparr> cbp_allowedTools = uniqueSorted id (cbp_allowedTools (pol_capabilityBoundary policy)),
            cbp_allowedTargets = uniqueSorted id (cbp_allowedTargets (pol_capabilityBoundary policy)),
            cbp_allowedDataDomains = uniqueSorted id (cbp_allowedDataDomains (pol_capabilityBoundary policy)),
            cbp_requiresSingleTargetBinding =
              cbp_requiresSingleTargetBinding (pol_capabilityBoundary policy) \<rparr>,
        cmp_acceptance =
          \<lparr> cac_strategy = acc_strategy (pol_acceptance policy),
            cac_maxWarnings = acc_maxWarnings (pol_acceptance policy),
            cac_failureDisposition = acc_failureDisposition (pol_acceptance policy) \<rparr>,
        cmp_release = pol_release policy,
        cmp_deterministicChecks = uniqueSorted control_category_str (acc_requiredChecks (pol_acceptance policy)),
        cmp_evidenceKinds = uniqueSorted id (acc_requiredEvidenceKinds (pol_acceptance policy)),
        cmp_requiredObligations = requiredObligations,
        cmp_requiredObligationMaskHex =
          admissionObligationMaskHex (admissionObligationMaskFor requiredObligations),
        cmp_rollout =
          \<lparr> cro_mode = rol_mode (pol_rollout policy),
            cro_activatedAt = rol_activatedAt (pol_rollout policy),
            cro_fallbackPolicyId = rol_fallbackPolicyId (pol_rollout policy) \<rparr> \<rparr>)"

definition compileReleasePolicyDefinition ::
  "(string \<Rightarrow> string) \<Rightarrow> release_policy \<Rightarrow> compiled_policy result" where
  "compileReleasePolicyDefinition sha256 policy =
     rbind (computeReleasePolicyHash sha256 policy) (\<lambda>policyHash.
       let withoutHash = compiled_without_hash policy policyHash in
       rbind (computeCompiledAdmissionPolicyIrHash sha256 withoutHash)
         (\<lambda>irHash. return (withoutHash\<lparr>cmp_irHash := irHash\<rparr>)))"

section \<open>Static verification\<close>

datatype verification_severity = Severity_error | Severity_warning

datatype verification_code =
    Version_mismatch | Policy_hash_invalid | Ir_hash_mismatch | Mask_mismatch | Empty_index_dimension
  | Empty_capability_boundary | Unknown_deterministic_check | Unknown_obligation
  | Missing_required_check | Token_enforcement_too_weak | Missing_token_introspection
  | Missing_durable_evidence_pack | Missing_downstream_receipt | Missing_human_review
  | Missing_signed_envelope | Missing_replay_ledger | Missing_regulated_retention
  | Missing_required_evidence | Non_active_policy

fun verification_code_str :: "verification_code \<Rightarrow> string" where
  "verification_code_str Version_mismatch = ''version-mismatch''"
| "verification_code_str Policy_hash_invalid = ''policy-hash-invalid''"
| "verification_code_str Ir_hash_mismatch = ''ir-hash-mismatch''"
| "verification_code_str Mask_mismatch = ''mask-mismatch''"
| "verification_code_str Empty_index_dimension = ''empty-index-dimension''"
| "verification_code_str Empty_capability_boundary = ''empty-capability-boundary''"
| "verification_code_str Unknown_deterministic_check = ''unknown-deterministic-check''"
| "verification_code_str Unknown_obligation = ''unknown-obligation''"
| "verification_code_str Missing_required_check = ''missing-required-check''"
| "verification_code_str Token_enforcement_too_weak = ''token-enforcement-too-weak''"
| "verification_code_str Missing_token_introspection = ''missing-token-introspection''"
| "verification_code_str Missing_durable_evidence_pack = ''missing-durable-evidence-pack''"
| "verification_code_str Missing_downstream_receipt = ''missing-downstream-receipt''"
| "verification_code_str Missing_human_review = ''missing-human-review''"
| "verification_code_str Missing_signed_envelope = ''missing-signed-envelope''"
| "verification_code_str Missing_replay_ledger = ''missing-replay-ledger''"
| "verification_code_str Missing_regulated_retention = ''missing-regulated-retention''"
| "verification_code_str Missing_required_evidence = ''missing-required-evidence''"
| "verification_code_str Non_active_policy = ''non-active-policy''"

record verification_finding =
  vf_severity :: verification_severity
  vf_code :: verification_code
  vf_message :: string

record verification_result =
  vr_valid :: bool
  vr_errors :: "verification_finding list"
  vr_warnings :: "verification_finding list"

fun RELEASE_TOKEN_ENFORCEMENT_RANK :: "token_enforcement_level \<Rightarrow> nat" where
  "RELEASE_TOKEN_ENFORCEMENT_RANK Enforcement_none = 0"
| "RELEASE_TOKEN_ENFORCEMENT_RANK Enforcement_optional = 1"
| "RELEASE_TOKEN_ENFORCEMENT_RANK Enforcement_required = 2"
| "RELEASE_TOKEN_ENFORCEMENT_RANK Required_with_introspection = 3"

definition finding :: "verification_severity \<Rightarrow> verification_code \<Rightarrow> string \<Rightarrow> verification_finding" where
  "finding severity code message = \<lparr> vf_severity = severity, vf_code = code, vf_message = message \<rparr>"

definition hasObligation :: "compiled_policy \<Rightarrow> admission_obligation \<Rightarrow> bool" where
  "hasObligation policy obligation \<longleftrightarrow> obligation \<in> set (cmp_requiredObligations policy)"

text \<open>A finding pushed under a condition.\<close>

definition push_if :: "bool \<Rightarrow> verification_finding \<Rightarrow> verification_finding list" where
  "push_if b f = (if b then [f] else [])"

definition assertRiskBaseline :: "compiled_policy \<Rightarrow> verification_finding list" where
  "assertRiskBaseline policy =
     (let riskClass = cik_riskClass (cmp_indexKey policy);
          profile = riskControlProfile riskClass;
          requires = ''Risk class '' @ risk_class_str riskClass @ '' requires '';
          actualRank = RELEASE_TOKEN_ENFORCEMENT_RANK (req_tokenEnforcement (cmp_release policy));
          minimumRank = RELEASE_TOKEN_ENFORCEMENT_RANK (tkc_minimumEnforcement (rkc_token profile))
      in concat (map (\<lambda>check. push_if
              (check \<notin> set (cmp_deterministicChecks policy) \<or> \<not> hasObligation policy (Check_obligation check))
              (finding Severity_error Missing_required_check
                 (requires @ ''deterministic check '' @ control_category_str check @ ''.'')))
            (rkc_deterministicChecks profile)) @
         push_if (actualRank < minimumRank)
           (finding Severity_error Token_enforcement_too_weak
              (requires @ ''token enforcement '' @
               enforcement_level_str (tkc_minimumEnforcement (rkc_token profile)) @ ''.'')) @
         push_if (tkc_minimumEnforcement (rkc_token profile) = Required_with_introspection \<and>
                  \<not> hasObligation policy Token_introspection_obligation)
           (finding Severity_error Missing_token_introspection (requires @ ''token introspection.'')) @
         push_if (evc_requiresDurableEvidencePack (rkc_evidence profile) \<and>
                  \<not> hasObligation policy Durable_evidence_pack_obligation)
           (finding Severity_error Missing_durable_evidence_pack (requires @ ''a durable evidence pack.'')) @
         push_if (evc_requiresDownstreamReceipt (rkc_evidence profile) \<and>
                  \<not> hasObligation policy (Check_obligation Downstream_receipt_reconciliation))
           (finding Severity_error Missing_downstream_receipt (requires @ ''downstream receipt reconciliation.'')) @
         push_if (rvc_minimumReviewerCount (rkc_review profile) > 0 \<and>
                  (\<not> hasObligation policy Human_review_obligation \<or>
                   req_minimumReviewerCount (cmp_release policy) < rvc_minimumReviewerCount (rkc_review profile)))
           (finding Severity_error Missing_human_review
              (requires @ ''at least '' @ string_of_int (rvc_minimumReviewerCount (rkc_review profile)) @ '' reviewer(s).'')) @
         push_if (tkc_requiresReplayLedger (rkc_token profile) \<and> \<not> hasObligation policy Replay_ledger_obligation)
           (finding Severity_error Missing_replay_ledger (requires @ ''a replay ledger.'')) @
         push_if (evc_retentionClass (rkc_evidence profile) = Regulated \<and>
                  \<not> hasObligation policy Regulated_retention_obligation)
           (finding Severity_error Missing_regulated_retention (requires @ ''regulated evidence retention.'')))"

definition verifyCompiledAdmissionPolicy ::
  "(string \<Rightarrow> string) \<Rightarrow> compiled_policy \<Rightarrow> verification_result result" where
  "verifyCompiledAdmissionPolicy sha256 policy =
     rbind (computeCompiledAdmissionPolicyIrHash sha256 policy) (\<lambda>expectedIrHash.
       let findings =
         push_if (cmp_version policy \<noteq> COMPILED_ADMISSION_POLICY_IR_VERSION)
           (finding Severity_error Version_mismatch ''Compiled admission policy IR version is not supported.'') @
         push_if (take 7 (cmp_policyHash policy) \<noteq> ''sha256:'')
           (finding Severity_error Policy_hash_invalid ''Compiled admission policy must bind a SHA-256 policy hash.'') @
         push_if (cmp_irHash policy \<noteq> expectedIrHash)
           (finding Severity_error Ir_hash_mismatch ''Compiled admission policy IR hash does not match its canonical payload.'') @
         push_if (length (cik_targetKinds (cmp_indexKey policy)) = 0 \<or>
                  length (cik_artifactTypes (cmp_indexKey policy)) = 0 \<or>
                  length (cik_dataDomains (cmp_indexKey policy)) = 0)
           (finding Severity_error Empty_index_dimension ''Compiled admission policy index dimensions must be non-empty.'') @
         push_if (length (cbp_allowedTools (cmp_capabilityBoundary policy)) = 0 \<or>
                  length (cbp_allowedTargets (cmp_capabilityBoundary policy)) = 0 \<or>
                  length (cbp_allowedDataDomains (cmp_capabilityBoundary policy)) = 0)
           (finding Severity_error Empty_capability_boundary ''Compiled admission policy capability boundary must be non-empty.'') @
         push_if (cmp_requiredObligationMaskHex policy \<noteq>
                  admissionObligationMaskHex (admissionObligationMaskFor (cmp_requiredObligations policy)))
           (finding Severity_error Mask_mismatch ''Compiled admission policy obligation mask does not match its obligations.'') @
         push_if (req_requireSignedEnvelope (cmp_release policy) \<and> \<not> hasObligation policy Signed_envelope_obligation)
           (finding Severity_error Missing_signed_envelope ''Signed-envelope release discipline is missing from obligations.'') @
         push_if (req_requireDurableEvidencePack (cmp_release policy) \<and> length (cmp_evidenceKinds policy) = 0)
           (finding Severity_error Missing_required_evidence ''Durable evidence-pack release requires explicit evidence kinds.'') @
         push_if (cik_riskClass (cmp_indexKey policy) = R4 \<and> ''provenance'' \<notin> set (cmp_evidenceKinds policy))
           (finding Severity_error Missing_required_evidence ''R4 compiled admission policies must require provenance evidence.'') @
         push_if (cmp_sourcePolicyStatus policy \<noteq> Active)
           (finding Severity_warning Non_active_policy
              ''Compiled policy is not active and should not be inserted into the enforced hot-path index.'') @
         assertRiskBaseline policy;
         errors = filter (\<lambda>item. vf_severity item = Severity_error) findings;
         warnings = filter (\<lambda>item. vf_severity item = Severity_warning) findings
       in return \<lparr> vr_valid = (length errors = 0), vr_errors = errors, vr_warnings = warnings \<rparr>)"

section \<open>The index\<close>

definition COMPILED_ADMISSION_POLICY_INDEX_VERSION :: string where
  "COMPILED_ADMISSION_POLICY_INDEX_VERSION = ''attestor.compiled-admission-policy-index.v1''"

record evaluation_scope_context =
  esc_tenantId :: "string option"
  esc_accountId :: "string option"
  esc_planId :: "string option"
  esc_cohortId :: "string option"

record evaluation_request =
  evr_id :: string
  evr_createdAt :: js_date
  evr_outputHash :: string
  evr_consequenceHash :: string
  evr_outputContract :: output_contract
  evr_capabilityBoundary :: capability_boundary
  evr_requester :: release_actor
  evr_target :: release_target
  evr_context :: "evaluation_scope_context option"

datatype index_rejection_reason = Verification_failed | Rejected_non_active | Verification_warning

record index_entry =
  ide_definition :: release_policy
  ide_compiled :: compiled_policy
  ide_verification :: verification_result
  ide_lookupKeys :: "string list"

record rejected_index_entry =
  rje_definition :: release_policy
  rje_compiled :: compiled_policy
  rje_verification :: verification_result
  rje_reason :: index_rejection_reason

record policy_index =
  pix_version :: string
  pix_entries :: "index_entry list"
  pix_rejectedEntries :: "rejected_index_entry list"
  pix_buckets :: "string \<Rightarrow> nat list option"

definition compiledAdmissionPolicyIndexLookupKey ::
  "consequence_type \<Rightarrow> risk_class \<Rightarrow> release_target_kind \<Rightarrow> string \<Rightarrow> string" where
  "compiledAdmissionPolicyIndexLookupKey consequenceType riskClass targetKind artifactType =
     join_with ''|'' [consequence_type_str consequenceType, risk_class_str riskClass,
       release_target_kind_str targetKind, artifactType]"

definition lookupKeysForPolicy :: "compiled_policy \<Rightarrow> string list" where
  "lookupKeysForPolicy policy =
     (let key = cmp_indexKey policy in
      uniqueSorted id
        (concat (map (\<lambda>targetKind. map (\<lambda>artifactType.
            compiledAdmissionPolicyIndexLookupKey (cik_consequenceType key) (cik_riskClass key)
              targetKind artifactType) (cik_artifactTypes key)) (cik_targetKinds key))))"

definition rejectionReasonFor ::
  "release_policy \<Rightarrow> verification_result \<Rightarrow> index_rejection_reason option" where
  "rejectionReasonFor policy verification =
     (if \<not> vr_valid verification then Some Verification_failed
      else if pol_status policy \<noteq> Active then Some Rejected_non_active
      else if length (vr_warnings verification) > 0 then Some Verification_warning
      else None)"

definition bucketForRequest :: "evaluation_request \<Rightarrow> string" where
  "bucketForRequest request =
     compiledAdmissionPolicyIndexLookupKey (oc_consequenceType (evr_outputContract request))
       (oc_riskClass (evr_outputContract request)) (tgt_kind (evr_target request))
       (oc_artifactType (evr_outputContract request))"

definition compiledPolicyMatchesRequest :: "index_entry \<Rightarrow> evaluation_request \<Rightarrow> bool" where
  "compiledPolicyMatchesRequest entry request \<longleftrightarrow>
     (let compiled = ide_compiled entry;
          boundary = cmp_capabilityBoundary compiled;
          contract = cmp_outputContract compiled;
          requested = evr_capabilityBoundary request
      in cmp_sourcePolicyStatus compiled = Active \<and>
         cik_consequenceType (cmp_indexKey compiled) = oc_consequenceType (evr_outputContract request) \<and>
         cik_riskClass (cmp_indexKey compiled) = oc_riskClass (evr_outputContract request) \<and>
         tgt_kind (evr_target request) \<in> set (cik_targetKinds (cmp_indexKey compiled)) \<and>
         oc_artifactType (evr_outputContract request) \<in> set (coc_allowedArtifactTypes contract) \<and>
         coc_expectedShape contract = oc_expectedShape (evr_outputContract request) \<and>
         length (cbp_allowedTools boundary) > 0 \<and>
         length (cbp_allowedTargets boundary) > 0 \<and>
         length (cbp_allowedDataDomains boundary) > 0 \<and>
         length (cb_allowedTools requested) > 0 \<and>
         length (cb_allowedTargets requested) > 0 \<and>
         length (cb_allowedDataDomains requested) > 0 \<and>
         list_all (\<lambda>tool. tool \<in> set (cbp_allowedTools boundary)) (cb_allowedTools requested) \<and>
         list_all (\<lambda>target. target \<in> set (cbp_allowedTargets boundary)) (cb_allowedTargets requested) \<and>
         list_all (\<lambda>dom. dom \<in> set (cbp_allowedDataDomains boundary)) (cb_allowedDataDomains requested))"

fun push_buckets :: "nat \<Rightarrow> string list \<Rightarrow> (string \<Rightarrow> nat list option) \<Rightarrow> string \<Rightarrow> nat list option" where
  "push_buckets entryIndex [] buckets = buckets"
| "push_buckets entryIndex (key # keys) buckets =
     push_buckets entryIndex keys (buckets(key \<mapsto> nullish (buckets key) [] @ [entryIndex]))"

fun index_policies ::
  "(string \<Rightarrow> string) \<Rightarrow> release_policy list \<Rightarrow> policy_index \<Rightarrow> policy_index result" where
  "index_policies sha256 [] index = return index"
| "index_policies sha256 (def # policies) index =
     rbind (compileReleasePolicyDefinition sha256 def) (\<lambda>compiled.
     rbind (verifyCompiledAdmissionPolicy sha256 compiled) (\<lambda>verification.
       case rejectionReasonFor def verification of
         Some reason \<Rightarrow>
           index_policies sha256 policies
             (index\<lparr> pix_rejectedEntries := pix_rejectedEntries index @
                [\<lparr> rje_definition = def, rje_compiled = compiled,
                   rje_verification = verification, rje_reason = reason \<rparr>] \<rparr>)
       | None \<Rightarrow>
           let lookupKeys = lookupKeysForPolicy compiled;
               entryIndex = length (pix_entries index)
           in index_policies sha256 policies
             (index\<lparr> pix_entries := pix_entries index @
                [\<lparr> ide_definition = def, ide_compiled = compiled,
                   ide_verification = verification, ide_lookupKeys = lookupKeys \<rparr>],
                pix_buckets := push_buckets entryIndex lookupKeys (pix_buckets index) \<rparr>)))"

definition createCompiledAdmissionPolicyIndex ::
  "(string \<Rightarrow> string) \<Rightarrow> release_policy list \<Rightarrow> policy_index result" where
  "createCompiledAdmissionPolicyIndex sha256 policies =
     index_policies sha256 policies
       \<lparr> pix_version = COMPILED_ADMISSION_POLICY_INDEX_VERSION, pix_entries = [],
         pix_rejectedEntries = [], pix_buckets = Map.empty \<rparr>"

definition resolveCompiledAdmissionPolicyIndexEntries ::
  "policy_index \<Rightarrow> evaluation_request \<Rightarrow> index_entry list" where
  "resolveCompiledAdmissionPolicyIndexEntries index request =
     (let bucket = nullish (pix_buckets index (bucketForRequest request)) [] in
      filter (\<lambda>entry. compiledPolicyMatchesRequest entry request)
        (map (\<lambda>i. pix_entries index ! i) (filter (\<lambda>i. i < length (pix_entries index)) bucket)))"

definition resolveCompiledAdmissionPolicyIndexEntry ::
  "policy_index \<Rightarrow> evaluation_request \<Rightarrow> index_entry option" where
  "resolveCompiledAdmissionPolicyIndexEntry index request =
     (case resolveCompiledAdmissionPolicyIndexEntries index request of [] \<Rightarrow> None | e # _ \<Rightarrow> Some e)"

section \<open>What the mask encodes\<close>

lemma obligation_kinds: "set ADMISSION_OBLIGATION_KINDS = UNIV" "distinct ADMISSION_OBLIGATION_KINDS"
proof -
  have "a \<in> set ADMISSION_OBLIGATION_KINDS" for a
  proof (cases a)
    case (Check_obligation c)
    then show ?thesis
      by (cases c) (auto simp: ADMISSION_OBLIGATION_KINDS_def DETERMINISTIC_CONTROL_CATEGORIES_def)
  qed (auto simp: ADMISSION_OBLIGATION_KINDS_def)
  then show "set ADMISSION_OBLIGATION_KINDS = UNIV" by auto
  show "distinct ADMISSION_OBLIGATION_KINDS"
    by (simp add: ADMISSION_OBLIGATION_KINDS_def DETERMINISTIC_CONTROL_CATEGORIES_def)
qed

lemma nth_takeWhile_neq: "x \<in> set xs \<Longrightarrow> xs ! length (takeWhile (\<lambda>k. k \<noteq> x) xs) = x"
  by (induction xs) auto

lemma obligation_index_inject: "obligation_index a = obligation_index b \<longleftrightarrow> a = b"
proof -
  have "ADMISSION_OBLIGATION_KINDS ! obligation_index a = a" for a
    by (simp add: obligation_index_def nth_takeWhile_neq obligation_kinds(1))
  then show ?thesis by metis
qed

lemma foldl_or:
  "bit (foldl (\<lambda>m a. m OR f a) (m0 :: nat) xs) i \<longleftrightarrow> bit m0 i \<or> (\<exists>a\<in>set xs. bit (f a) i)"
  by (induction xs arbitrary: m0) (auto simp: bit_or_iff)

lemma mask_bit: "bit (admissionObligationMaskFor xs) (obligation_index a) \<longleftrightarrow> a \<in> set xs"
proof -
  have "bit (ADMISSION_OBLIGATION_BITS b) (obligation_index a) \<longleftrightarrow> a = b" for b
    by (auto simp: ADMISSION_OBLIGATION_BITS_def bit_simps obligation_index_inject)
  then show ?thesis
    by (auto simp: admissionObligationMaskFor_def foldl_or)
qed

text \<open>
  The obligation mask is a faithful encoding of the obligations. The bit of an obligation is
  set exactly when it is required, and two policies carry the same hexadecimal mask if and only
  if they require the same set of obligations.
\<close>

theorem obligation_mask_faithful:
  "(bit (admissionObligationMaskFor xs) (obligation_index a) \<longleftrightarrow> a \<in> set xs) \<and>
   (admissionObligationMaskHex (admissionObligationMaskFor xs) =
      admissionObligationMaskHex (admissionObligationMaskFor ys) \<longleftrightarrow> set xs = set ys)"
proof -
  have "set xs = set ys" if "admissionObligationMaskFor xs = admissionObligationMaskFor ys"
  proof (rule set_eqI)
    show "b \<in> set xs \<longleftrightarrow> b \<in> set ys" for b
      unfolding mask_bit [symmetric] that by (rule refl)
  qed
  moreover have "admissionObligationMaskFor xs = admissionObligationMaskFor ys" if "set xs = set ys"
    using that by (intro bit_eqI) (simp add: admissionObligationMaskFor_def foldl_or)
  moreover have "admissionObligationMaskHex m = admissionObligationMaskHex n \<longleftrightarrow> m = n" for m n
    by (simp add: admissionObligationMaskHex_def hex_of_nat_inject)
  ultimately show ?thesis
    by (simp only: mask_bit) blast
qed

section \<open>Verification is the risk baseline\<close>

text \<open>What static verification demands of the authored policy, stated on the policy itself.\<close>

definition meets_baseline :: "release_policy \<Rightarrow> bool" where
  "meets_baseline p \<longleftrightarrow>
     (let profile = riskControlProfile (sco_riskClass (pol_scope p)); release = pol_release p in
      sco_targetKinds (pol_scope p) \<noteq> [] \<and> ocp_allowedArtifactTypes (pol_outputContract p) \<noteq> [] \<and>
      sco_dataDomains (pol_scope p) \<noteq> [] \<and>
      cbp_allowedTools (pol_capabilityBoundary p) \<noteq> [] \<and>
      cbp_allowedTargets (pol_capabilityBoundary p) \<noteq> [] \<and>
      cbp_allowedDataDomains (pol_capabilityBoundary p) \<noteq> [] \<and>
      (req_requireDurableEvidencePack release \<longrightarrow> acc_requiredEvidenceKinds (pol_acceptance p) \<noteq> []) \<and>
      (sco_riskClass (pol_scope p) = R4 \<longrightarrow> ''provenance'' \<in> set (acc_requiredEvidenceKinds (pol_acceptance p))) \<and>
      set (rkc_deterministicChecks profile) \<subseteq> set (acc_requiredChecks (pol_acceptance p)) \<and>
      RELEASE_TOKEN_ENFORCEMENT_RANK (tkc_minimumEnforcement (rkc_token profile))
        \<le> RELEASE_TOKEN_ENFORCEMENT_RANK (req_tokenEnforcement release) \<and>
      (evc_requiresDurableEvidencePack (rkc_evidence profile) \<longrightarrow> req_requireDurableEvidencePack release) \<and>
      rvc_minimumReviewerCount (rkc_review profile) \<le> max 0 (req_minimumReviewerCount release) \<and>
      (evc_retentionClass (rkc_evidence profile) = Regulated \<longrightarrow> req_retentionClass release = Regulated))"

lemma uniqueSorted_set [simp]: "set (uniqueSorted str xs) = set xs"
  by (simp add: uniqueSorted_def)

lemma uniqueSorted_Nil [simp]: "uniqueSorted str xs = [] \<longleftrightarrow> xs = []"
  by (metis set_empty uniqueSorted_set)

lemma push_if_Nil [simp]: "push_if b f = [] \<longleftrightarrow> \<not> b"
  by (simp add: push_if_def)

lemma filter_push_if [simp]: "filter P (push_if b f) = push_if (b \<and> P f) f"
  by (simp add: push_if_def)

lemma finding_severity [simp]: "vf_severity (finding sv c m) = sv"
  by (simp add: finding_def)

lemma compiled_obligations [simp]:
  "cmp_requiredObligations (compiled_without_hash p h) = requiredObligationsForReleasePolicy p"
  by (simp add: compiled_without_hash_def Let_def)

lemma required_obligation_iff:
  "Check_obligation c \<in> set (requiredObligationsForReleasePolicy p) \<longleftrightarrow> c \<in> set (acc_requiredChecks (pol_acceptance p))"
  "Token_introspection_obligation \<in> set (requiredObligationsForReleasePolicy p) \<longleftrightarrow>
     req_tokenEnforcement (pol_release p) = Required_with_introspection"
  "Signed_envelope_obligation \<in> set (requiredObligationsForReleasePolicy p) \<longleftrightarrow>
     req_requireSignedEnvelope (pol_release p)"
  "Durable_evidence_pack_obligation \<in> set (requiredObligationsForReleasePolicy p) \<longleftrightarrow>
     req_requireDurableEvidencePack (pol_release p)"
  "Human_review_obligation \<in> set (requiredObligationsForReleasePolicy p) \<longleftrightarrow>
     req_reviewMode (pol_release p) \<noteq> Auto \<or> req_minimumReviewerCount (pol_release p) > 0"
  "Replay_ledger_obligation \<in> set (requiredObligationsForReleasePolicy p) \<longleftrightarrow>
     tkc_requiresReplayLedger (rkc_token (riskControlProfile (sco_riskClass (pol_scope p))))"
  "Regulated_retention_obligation \<in> set (requiredObligationsForReleasePolicy p) \<longleftrightarrow>
     req_retentionClass (pol_release p) = Regulated"
  by (auto simp: requiredObligationsForReleasePolicy_def releaseDisciplineObligations_def Let_def)

lemma assertRiskBaseline_severity: "f \<in> set (assertRiskBaseline c) \<Longrightarrow> vf_severity f = Severity_error"
  by (auto simp: assertRiskBaseline_def Let_def push_if_def finding_def split: if_splits)

lemma assertRiskBaseline_Nil:
  "assertRiskBaseline c = [] \<longleftrightarrow>
     (let profile = riskControlProfile (cik_riskClass (cmp_indexKey c)) in
      (\<forall>check\<in>set (rkc_deterministicChecks profile).
         check \<in> set (cmp_deterministicChecks c) \<and> hasObligation c (Check_obligation check)) \<and>
      RELEASE_TOKEN_ENFORCEMENT_RANK (tkc_minimumEnforcement (rkc_token profile))
        \<le> RELEASE_TOKEN_ENFORCEMENT_RANK (req_tokenEnforcement (cmp_release c)) \<and>
      (tkc_minimumEnforcement (rkc_token profile) = Required_with_introspection
        \<longrightarrow> hasObligation c Token_introspection_obligation) \<and>
      (evc_requiresDurableEvidencePack (rkc_evidence profile)
        \<longrightarrow> hasObligation c Durable_evidence_pack_obligation) \<and>
      (evc_requiresDownstreamReceipt (rkc_evidence profile)
        \<longrightarrow> hasObligation c (Check_obligation Downstream_receipt_reconciliation)) \<and>
      (rvc_minimumReviewerCount (rkc_review profile) > 0 \<longrightarrow>
         hasObligation c Human_review_obligation \<and>
         rvc_minimumReviewerCount (rkc_review profile) \<le> req_minimumReviewerCount (cmp_release c)) \<and>
      (tkc_requiresReplayLedger (rkc_token profile) \<longrightarrow> hasObligation c Replay_ledger_obligation) \<and>
      (evc_retentionClass (rkc_evidence profile) = Regulated
        \<longrightarrow> hasObligation c Regulated_retention_obligation))"
  by (auto simp: assertRiskBaseline_def Let_def not_less)

lemma irHash_ignored [simp]:
  "computeCompiledAdmissionPolicyIrHash sha256 (c\<lparr>cmp_irHash := h\<rparr>) = computeCompiledAdmissionPolicyIrHash sha256 c"
  by (simp add: computeCompiledAdmissionPolicyIrHash_def compiledPolicyHashPayload_def)

lemma compile_eq_Inr:
  "compileReleasePolicyDefinition sha256 p = Inr c \<longleftrightarrow>
     (\<exists>h i. computeReleasePolicyHash sha256 p = Inr h \<and>
        computeCompiledAdmissionPolicyIrHash sha256 (compiled_without_hash p h) = Inr i \<and>
        c = (compiled_without_hash p h)\<lparr>cmp_irHash := i\<rparr>)"
  by (auto simp: compileReleasePolicyDefinition_def Let_def)

lemma policy_hash_prefix: "computeReleasePolicyHash sha256 p = Inr h \<Longrightarrow> take 7 h = ''sha256:''"
  by (auto simp: computeReleasePolicyHash_def sha256Canonical_def)

lemma baseline_of_compiled:
  "assertRiskBaseline ((compiled_without_hash p h)\<lparr>cmp_irHash := i\<rparr>) = [] \<longleftrightarrow>
     (let profile = riskControlProfile (sco_riskClass (pol_scope p)); release = pol_release p in
      set (rkc_deterministicChecks profile) \<subseteq> set (acc_requiredChecks (pol_acceptance p)) \<and>
      RELEASE_TOKEN_ENFORCEMENT_RANK (tkc_minimumEnforcement (rkc_token profile))
        \<le> RELEASE_TOKEN_ENFORCEMENT_RANK (req_tokenEnforcement release) \<and>
      (evc_requiresDurableEvidencePack (rkc_evidence profile) \<longrightarrow> req_requireDurableEvidencePack release) \<and>
      rvc_minimumReviewerCount (rkc_review profile) \<le> max 0 (req_minimumReviewerCount release) \<and>
      (evc_retentionClass (rkc_evidence profile) = Regulated \<longrightarrow> req_retentionClass release = Regulated))"
proof -
  have rank: "3 \<le> RELEASE_TOKEN_ENFORCEMENT_RANK e \<longleftrightarrow> e = Required_with_introspection" for e
    by (cases e) simp_all
  show ?thesis
    unfolding assertRiskBaseline_Nil hasObligation_def
    by (cases "sco_riskClass (pol_scope p)")
      (auto simp: required_obligation_iff compiled_without_hash_def Let_def risk_control_defs rank)
qed

lemma verify_eq:
  assumes "computeCompiledAdmissionPolicyIrHash sha256 c = Inr i"
  shows "\<exists>v. verifyCompiledAdmissionPolicy sha256 c = Inr v \<and>
    (vr_valid v \<longleftrightarrow>
       cmp_version c = COMPILED_ADMISSION_POLICY_IR_VERSION \<and> take 7 (cmp_policyHash c) = ''sha256:'' \<and>
       cmp_irHash c = i \<and>
       cik_targetKinds (cmp_indexKey c) \<noteq> [] \<and> cik_artifactTypes (cmp_indexKey c) \<noteq> [] \<and>
       cik_dataDomains (cmp_indexKey c) \<noteq> [] \<and>
       cbp_allowedTools (cmp_capabilityBoundary c) \<noteq> [] \<and> cbp_allowedTargets (cmp_capabilityBoundary c) \<noteq> [] \<and>
       cbp_allowedDataDomains (cmp_capabilityBoundary c) \<noteq> [] \<and>
       cmp_requiredObligationMaskHex c =
         admissionObligationMaskHex (admissionObligationMaskFor (cmp_requiredObligations c)) \<and>
       (req_requireSignedEnvelope (cmp_release c) \<longrightarrow> hasObligation c Signed_envelope_obligation) \<and>
       (req_requireDurableEvidencePack (cmp_release c) \<longrightarrow> cmp_evidenceKinds c \<noteq> []) \<and>
       (cik_riskClass (cmp_indexKey c) = R4 \<longrightarrow> ''provenance'' \<in> set (cmp_evidenceKinds c)) \<and>
       assertRiskBaseline c = []) \<and>
    (vr_warnings v = [] \<longleftrightarrow> cmp_sourcePolicyStatus c = Active)"
proof -
  have errs: "filter (\<lambda>f. vf_severity f = Severity_error) (assertRiskBaseline c) = assertRiskBaseline c"
    "filter (\<lambda>f. vf_severity f = Severity_warning) (assertRiskBaseline c) = []"
    by (auto simp: filter_id_conv filter_empty_conv dest: assertRiskBaseline_severity)
  show ?thesis
    by (simp add: verifyCompiledAdmissionPolicy_def assms Let_def errs del: take_eq_Nil)
qed

lemma compiled_fields:
  "cmp_version (compiled_without_hash p h) = COMPILED_ADMISSION_POLICY_IR_VERSION"
  "cmp_policyHash (compiled_without_hash p h) = h"
  "cmp_sourcePolicyStatus (compiled_without_hash p h) = pol_status p"
  "cmp_indexKey (compiled_without_hash p h) =
     \<lparr> cik_wedgeId = sco_wedgeId (pol_scope p), cik_consequenceType = sco_consequenceType (pol_scope p),
       cik_riskClass = sco_riskClass (pol_scope p),
       cik_targetKinds = uniqueSorted release_target_kind_str (sco_targetKinds (pol_scope p)),
       cik_artifactTypes = uniqueSorted id (ocp_allowedArtifactTypes (pol_outputContract p)),
       cik_dataDomains = uniqueSorted id (sco_dataDomains (pol_scope p)) \<rparr>"
  "cmp_outputContract (compiled_without_hash p h) =
     \<lparr> coc_allowedArtifactTypes = uniqueSorted id (ocp_allowedArtifactTypes (pol_outputContract p)),
       coc_expectedShape = ocp_expectedShape (pol_outputContract p) \<rparr>"
  "cmp_capabilityBoundary (compiled_without_hash p h) =
     \<lparr> cbp_allowedTools = uniqueSorted id (cbp_allowedTools (pol_capabilityBoundary p)),
       cbp_allowedTargets = uniqueSorted id (cbp_allowedTargets (pol_capabilityBoundary p)),
       cbp_allowedDataDomains = uniqueSorted id (cbp_allowedDataDomains (pol_capabilityBoundary p)),
       cbp_requiresSingleTargetBinding = cbp_requiresSingleTargetBinding (pol_capabilityBoundary p) \<rparr>"
  "cmp_release (compiled_without_hash p h) = pol_release p"
  "cmp_evidenceKinds (compiled_without_hash p h) = uniqueSorted id (acc_requiredEvidenceKinds (pol_acceptance p))"
  "cmp_requiredObligationMaskHex (compiled_without_hash p h) =
     admissionObligationMaskHex (admissionObligationMaskFor (requiredObligationsForReleasePolicy p))"
  by (simp_all add: compiled_without_hash_def Let_def)

lemma verify_compiled:
  assumes "compileReleasePolicyDefinition sha256 p = Inr c"
  shows "\<exists>v. verifyCompiledAdmissionPolicy sha256 c = Inr v \<and> (vr_valid v \<longleftrightarrow> meets_baseline p) \<and>
    (vr_warnings v = [] \<longleftrightarrow> pol_status p = Active)"
proof -
  from assms obtain h i where h: "computeReleasePolicyHash sha256 p = Inr h"
    and i: "computeCompiledAdmissionPolicyIrHash sha256 (compiled_without_hash p h) = Inr i"
    and c: "c = (compiled_without_hash p h)\<lparr>cmp_irHash := i\<rparr>"
    by (auto simp: compile_eq_Inr)
  have "computeCompiledAdmissionPolicyIrHash sha256 c = Inr i" using i c by simp
  from verify_eq [OF this] show ?thesis
    unfolding c baseline_of_compiled meets_baseline_def hasObligation_def
    by (simp add: compiled_fields required_obligation_iff policy_hash_prefix [OF h] Let_def del: take_eq_Nil)
qed

section \<open>Searching the index is a linear search\<close>

lemma rejectionReason_None:
  assumes "compileReleasePolicyDefinition sha256 p = Inr c" and "verifyCompiledAdmissionPolicy sha256 c = Inr v"
  shows "rejectionReasonFor p v = None \<longleftrightarrow> meets_baseline p \<and> pol_status p = Active"
  using verify_compiled [OF assms(1)] assms(2) by (auto simp: rejectionReasonFor_def)

lemma push_buckets_eq:
  "distinct keys \<Longrightarrow> push_buckets n keys b key =
     (if key \<in> set keys then Some (nullish (b key) [] @ [n]) else b key)"
  by (induction keys arbitrary: b) auto

lemma distinct_lookupKeys: "distinct (lookupKeysForPolicy c)"
  by (simp add: lookupKeysForPolicy_def Let_def uniqueSorted_def)

definition entry_ok :: "(string \<Rightarrow> string) \<Rightarrow> index_entry \<Rightarrow> bool" where
  "entry_ok sha256 e \<longleftrightarrow>
     compileReleasePolicyDefinition sha256 (ide_definition e) = Inr (ide_compiled e) \<and>
     verifyCompiledAdmissionPolicy sha256 (ide_compiled e) = Inr (ide_verification e) \<and>
     vr_valid (ide_verification e) \<and> ide_lookupKeys e = lookupKeysForPolicy (ide_compiled e)"

definition index_ok :: "(string \<Rightarrow> string) \<Rightarrow> policy_index \<Rightarrow> bool" where
  "index_ok sha256 index \<longleftrightarrow> (\<forall>e\<in>set (pix_entries index). entry_ok sha256 e) \<and>
     (\<forall>key. nullish (pix_buckets index key) [] =
        filter (\<lambda>i. key \<in> set (ide_lookupKeys (pix_entries index ! i))) [0..<length (pix_entries index)])"

lemma nullish_Some_append: "nullish (if b then Some (xs @ [n]) else m) [] = (if b then xs @ [n] else nullish m [])"
  by simp

lemma index_ok_push:
  assumes "index_ok sha256 index" and "entry_ok sha256 e"
  shows "index_ok sha256 (index\<lparr>pix_entries := pix_entries index @ [e],
    pix_buckets := push_buckets (length (pix_entries index)) (ide_lookupKeys e) (pix_buckets index)\<rparr>)"
proof -
  let ?es = "pix_entries index"
  have "filter (\<lambda>i. key \<in> set (ide_lookupKeys ((?es @ [e]) ! i))) [0..<length ?es] =
      filter (\<lambda>i. key \<in> set (ide_lookupKeys (?es ! i))) [0..<length ?es]" for key
    by (intro filter_cong) (auto simp: nth_append)
  moreover have "distinct (ide_lookupKeys e)"
    using assms(2) by (simp add: entry_ok_def distinct_lookupKeys)
  ultimately show ?thesis
    using assms by (simp add: index_ok_def push_buckets_eq nullish_Some_append)
qed

lemma index_policies_spec:
  "index_policies sha256 ps index = Inr index' \<Longrightarrow> index_ok sha256 index \<Longrightarrow>
   index_ok sha256 index' \<and> map ide_definition (pix_entries index') =
     map ide_definition (pix_entries index) @ filter (\<lambda>p. meets_baseline p \<and> pol_status p = Active) ps"
proof (induction ps arbitrary: index)
  case Nil
  then show ?case by simp
next
  case (Cons p ps)
  from Cons.prems(1) obtain c v where c: "compileReleasePolicyDefinition sha256 p = Inr c"
    and v: "verifyCompiledAdmissionPolicy sha256 c = Inr v" by auto
  show ?case
  proof (cases "rejectionReasonFor p v")
    case None
    let ?e = "\<lparr>ide_definition = p, ide_compiled = c, ide_verification = v, ide_lookupKeys = lookupKeysForPolicy c\<rparr>"
    have "vr_valid v" using None by (auto simp: rejectionReasonFor_def split: if_splits)
    then have "entry_ok sha256 ?e" using c v by (simp add: entry_ok_def)
    from Cons.IH [OF _ index_ok_push [OF Cons.prems(2) this]] Cons.prems(1) c v None
    show ?thesis using rejectionReason_None [OF c v] by (simp add: Let_def)
  next
    case (Some r)
    let ?x = "\<lparr>rje_definition = p, rje_compiled = c, rje_verification = v, rje_reason = r\<rparr>"
    have "index_ok sha256 (index\<lparr>pix_rejectedEntries := pix_rejectedEntries index @ [?x]\<rparr>)"
      using Cons.prems(2) by (simp add: index_ok_def)
    from Cons.IH [OF _ this] Cons.prems(1) c v Some
    show ?thesis using rejectionReason_None [OF c v] by auto
  qed
qed

lemma createIndex_spec:
  assumes "createCompiledAdmissionPolicyIndex sha256 ps = Inr index"
  shows "index_ok sha256 index"
    and "map ide_definition (pix_entries index) = filter (\<lambda>p. meets_baseline p \<and> pol_status p = Active) ps"
  using index_policies_spec [OF assms [unfolded createCompiledAdmissionPolicyIndex_def]]
  by (simp_all add: index_ok_def)

lemma entry_matches:
  assumes "entry_ok sha256 e"
  shows "compiledPolicyMatchesRequest e r \<longleftrightarrow> pol_status (ide_definition e) = Active \<and>
    matchesReleasePolicyScope (ide_definition e) (evr_outputContract r) (evr_capabilityBoundary r)
      (tgt_kind (evr_target r))"
proof -
  from assms obtain h i where c: "ide_compiled e = (compiled_without_hash (ide_definition e) h)\<lparr>cmp_irHash := i\<rparr>"
    by (auto simp: entry_ok_def compile_eq_Inr)
  have sub: "xs \<noteq> [] \<and> xs' \<noteq> [] \<and> list_all (\<lambda>x. x \<in> set xs') xs \<longleftrightarrow> xs \<noteq> [] \<and> list_all (\<lambda>x. x \<in> set xs') xs"
    for xs xs' :: "string list"
    by (cases xs) auto
  show ?thesis
    unfolding compiledPolicyMatchesRequest_def matchesReleasePolicyScope_def c Let_def
    by (simp add: compiled_fields) (metis sub)
qed

lemma entry_in_bucket:
  assumes "entry_ok sha256 e" and "compiledPolicyMatchesRequest e r"
  shows "bucketForRequest r \<in> set (ide_lookupKeys e)"
proof -
  from assms(1) obtain h i where c: "ide_compiled e = (compiled_without_hash (ide_definition e) h)\<lparr>cmp_irHash := i\<rparr>"
    by (auto simp: entry_ok_def compile_eq_Inr)
  then have "cik_artifactTypes (cmp_indexKey (ide_compiled e)) = coc_allowedArtifactTypes (cmp_outputContract (ide_compiled e))"
    by (simp add: compiled_fields)
  with assms show ?thesis
    by (auto simp: entry_ok_def lookupKeysForPolicy_def Let_def bucketForRequest_def compiledPolicyMatchesRequest_def)
qed

lemma map_nth_filter: "map ((!) xs) (filter (\<lambda>i. P (xs ! i)) [0..<length xs]) = filter P xs"
proof -
  have "filter P xs = filter P (map ((!) xs) [0..<length xs])" by (simp add: map_nth)
  then show ?thesis by (simp add: filter_map o_def)
qed

lemma resolve_entries_eq:
  assumes "index_ok sha256 index"
  shows "resolveCompiledAdmissionPolicyIndexEntries index r =
    filter (\<lambda>e. compiledPolicyMatchesRequest e r) (pix_entries index)"
proof -
  let ?es = "pix_entries index" and ?k = "bucketForRequest r"
  have bucket: "nullish (pix_buckets index ?k) [] = filter (\<lambda>i. ?k \<in> set (ide_lookupKeys (?es ! i))) [0..<length ?es]"
    using assms by (simp add: index_ok_def)
  then have "\<forall>i\<in>set (nullish (pix_buckets index ?k) []). i < length ?es" by simp
  then have "filter (\<lambda>i. i < length ?es) (nullish (pix_buckets index ?k) []) = nullish (pix_buckets index ?k) []"
    unfolding filter_id_conv .
  then have "resolveCompiledAdmissionPolicyIndexEntries index r =
      filter (\<lambda>e. compiledPolicyMatchesRequest e r) (filter (\<lambda>e. ?k \<in> set (ide_lookupKeys e)) ?es)"
    unfolding resolveCompiledAdmissionPolicyIndexEntries_def Let_def
    by (simp only: bucket) (simp only: map_nth_filter [of ?es "\<lambda>e. ?k \<in> set (ide_lookupKeys e)"])
  also have "\<dots> = filter (\<lambda>e. compiledPolicyMatchesRequest e r) ?es"
    using assms entry_in_bucket by (auto simp: index_ok_def intro!: filter_cong)
  finally show ?thesis .
qed

lemma index_linear_search:
  assumes "createCompiledAdmissionPolicyIndex sha256 ps = Inr index"
  shows "map ide_definition (resolveCompiledAdmissionPolicyIndexEntries index r) =
    filter (\<lambda>p. meets_baseline p \<and> pol_status p = Active \<and>
      matchesReleasePolicyScope p (evr_outputContract r) (evr_capabilityBoundary r) (tgt_kind (evr_target r))) ps"
proof -
  note ok = createIndex_spec [OF assms]
  let ?m = "\<lambda>p. pol_status p = Active \<and> matchesReleasePolicyScope p (evr_outputContract r)
    (evr_capabilityBoundary r) (tgt_kind (evr_target r))"
  have "filter (\<lambda>e. compiledPolicyMatchesRequest e r) (pix_entries index) =
      filter (\<lambda>e. ?m (ide_definition e)) (pix_entries index)"
    using ok(1) by (intro filter_cong) (auto simp: index_ok_def entry_matches)
  then have "map ide_definition (resolveCompiledAdmissionPolicyIndexEntries index r) =
      filter ?m (map ide_definition (pix_entries index))"
    by (simp add: resolve_entries_eq [OF ok(1)] filter_map o_def)
  then show ?thesis by (simp add: ok(2) conj_ac)
qed

text \<open>
  C5: The compiled index is an exact optimisation. The policies it finds for a request are, in
  order, exactly the authored policies that meet the risk baseline of their class, are active
  and whose scope matches the request: the bucket never hides a matching policy and never lets
  an unverified one through.
\<close>

theorem index_is_linear_search:
  assumes "createCompiledAdmissionPolicyIndex sha256 ps = Inr index"
  shows "map ide_definition (resolveCompiledAdmissionPolicyIndexEntries index r) =
    filter (\<lambda>p. meets_baseline p \<and> pol_status p = Active \<and>
      matchesReleasePolicyScope p (evr_outputContract r) (evr_capabilityBoundary r) (tgt_kind (evr_target r))) ps"
  using assms by (rule index_linear_search)

text \<open>
  C6: Static verification of a compiled policy is exactly the risk baseline: compiling an
  authored policy and verifying the result finds no error if and only if the policy's dimensions
  are non-empty and it demands at least the checks, token enforcement, evidence, reviewers and
  retention of its risk class. The hash, mask and signed-envelope checks never fail on freshly
  compiled policies.
\<close>

theorem verification_is_baseline:
  assumes "compileReleasePolicyDefinition sha256 p = Inr c"
  shows "\<exists>v. verifyCompiledAdmissionPolicy sha256 c = Inr v \<and> (vr_valid v \<longleftrightarrow> meets_baseline p)"
  using verify_compiled [OF assms] by blast

section \<open>Compilation of ordinary policies succeeds\<close>

lemma json_strs_nodes [simp]: "json_nodes (json_strs xs) = Suc (length xs)"
proof -
  have "map (json_nodes \<circ> JString) xs = replicate (length xs) 1" by (induction xs) auto
  then show ?thesis by (simp add: json_strs_def sum_list_replicate)
qed

lemma json_strs_depth [simp]: "1 \<le> n \<Longrightarrow> json_depth (json_strs xs) \<le> n"
  by (simp add: json_strs_def fold_max_le)

lemma json_str_opt_measures [simp]: "json_nodes (json_str_opt a) = 1" "json_depth (json_str_opt a) = 0"
  by (cases a; simp)+

lemma json_date_opt_measures [simp]:
  "json_nodes (json_date_opt d) = 1" "json_depth (json_date_opt d) = 0" "json_clean (json_date_opt d)"
  by (cases d; simp)+

lemma json_depth_object_le:
  "json_depth (JObject kvs) \<le> Suc n \<longleftrightarrow> list_all (\<lambda>(k, v). json_depth v \<le> n) kvs"
  by (auto simp: fold_max_le list_all_iff)

lemma uniqueSorted_length: "length (uniqueSorted str xs) \<le> length xs"
  by (simp add: uniqueSorted_def length_remdups_leq)

text \<open>The size of a policy: the lengths of the arrays it consists of.\<close>

definition policy_size :: "release_policy \<Rightarrow> nat" where
  "policy_size p =
     length (sco_targetKinds (pol_scope p)) + length (sco_dataDomains (pol_scope p)) +
     length (ocp_allowedArtifactTypes (pol_outputContract p)) +
     length (cbp_allowedTools (pol_capabilityBoundary p)) +
     length (cbp_allowedTargets (pol_capabilityBoundary p)) +
     length (cbp_allowedDataDomains (pol_capabilityBoundary p)) +
     length (acc_requiredChecks (pol_acceptance p)) + length (acc_requiredEvidenceKinds (pol_acceptance p)) +
     length (pol_notes p)"

lemmas payload_defs =
  policyHashPayload_def scope_json_def output_contract_policy_json_def boundary_policy_json_def
  acceptance_json_def release_requirements_json_def

lemma depth_two: "list_all (\<lambda>(k, v). json_depth v \<le> 1) kvs \<Longrightarrow> json_depth (JObject kvs) \<le> 2"
  by (subst numeral_2_eq_2, subst json_depth_object_le) simp

lemma json_depth_flat: "list_all (\<lambda>(k, v). json_depth v \<le> 1) kvs \<Longrightarrow> json_depth (JObject kvs) \<le> 127"
  using depth_two [of kvs] by linarith

lemma policy_payload_measures:
  "json_clean (policyHashPayload p)" "json_depth (policyHashPayload p) \<le> depth_limit"
  "json_nodes (policyHashPayload p) \<le> 100 + policy_size p"
proof -
  have limit: "depth_limit = Suc 127" by (simp add: MAX_CANONICAL_RELEASE_JSON_DEPTH_def)
  show "json_clean (policyHashPayload p)" by (simp add: payload_defs)
  show "json_depth (policyHashPayload p) \<le> depth_limit"
    unfolding payload_defs limit json_depth_object_le
    by (simp only: list.pred_inject prod.case) (intro conjI json_depth_flat; simp)
  show "json_nodes (policyHashPayload p) \<le> 100 + policy_size p"
    by (simp add: payload_defs policy_size_def)
qed

lemma obligations_length: "length (requiredObligationsForReleasePolicy p) \<le> length (acc_requiredChecks (pol_acceptance p)) + 7"
proof -
  have "length (releaseDisciplineObligations p) \<le> 7"
    by (simp add: releaseDisciplineObligations_def Let_def)
  then show ?thesis
    using uniqueSorted_length [of obligation_str "map Check_obligation (acc_requiredChecks (pol_acceptance p)) @
      releaseDisciplineObligations p"]
    by (simp add: requiredObligationsForReleasePolicy_def)
qed

lemma compiled_payload_measures:
  "json_clean (compiledPolicyHashPayload (compiled_without_hash p h))"
  "json_depth (compiledPolicyHashPayload (compiled_without_hash p h)) \<le> depth_limit"
  "json_nodes (compiledPolicyHashPayload (compiled_without_hash p h)) \<le> 100 + 3 * policy_size p"
proof -
  let ?c = "compiled_without_hash p h"
  have limit: "depth_limit = Suc 127" by (simp add: MAX_CANONICAL_RELEASE_JSON_DEPTH_def)
  show "json_clean (compiledPolicyHashPayload ?c)"
    by (simp add: compiledPolicyHashPayload_def boundary_policy_json_def release_requirements_json_def)
  show "json_depth (compiledPolicyHashPayload ?c) \<le> depth_limit"
    unfolding compiledPolicyHashPayload_def boundary_policy_json_def release_requirements_json_def
      limit json_depth_object_le
    by (simp only: list.pred_inject prod.case) (intro conjI json_depth_flat; simp)
  have checks: "cmp_deterministicChecks ?c = uniqueSorted control_category_str (acc_requiredChecks (pol_acceptance p))"
    by (simp add: compiled_without_hash_def Let_def)
  show "json_nodes (compiledPolicyHashPayload ?c) \<le> 100 + 3 * policy_size p"
    using uniqueSorted_length [of release_target_kind_str "sco_targetKinds (pol_scope p)"]
      uniqueSorted_length [of id "sco_dataDomains (pol_scope p)"]
      uniqueSorted_length [of id "ocp_allowedArtifactTypes (pol_outputContract p)"]
      uniqueSorted_length [of id "cbp_allowedTools (pol_capabilityBoundary p)"]
      uniqueSorted_length [of id "cbp_allowedTargets (pol_capabilityBoundary p)"]
      uniqueSorted_length [of id "cbp_allowedDataDomains (pol_capabilityBoundary p)"]
      uniqueSorted_length [of control_category_str "acc_requiredChecks (pol_acceptance p)"]
      uniqueSorted_length [of id "acc_requiredEvidenceKinds (pol_acceptance p)"]
      obligations_length [of p]
    by (simp add: compiledPolicyHashPayload_def boundary_policy_json_def release_requirements_json_def
        compiled_fields checks policy_size_def)
qed

lemma compile_succeeds:
  assumes "policy_size p \<le> 33000"
  shows "\<exists>c. compileReleasePolicyDefinition sha256 p = Inr c"
proof -
  have "\<exists>t. canonicalizeReleaseJson (policyHashPayload p) = Inr t"
    using policy_payload_measures [of p] assms
    by (auto simp: canonicalizeReleaseJson_eq_Inr MAX_CANONICAL_RELEASE_JSON_NODES_def)
  then obtain h where h: "computeReleasePolicyHash sha256 p = Inr h"
    by (auto simp: computeReleasePolicyHash_def sha256Canonical_def)
  have "\<exists>t. canonicalizeReleaseJson (compiledPolicyHashPayload (compiled_without_hash p h)) = Inr t"
    using compiled_payload_measures [of p h] assms
    by (auto simp: canonicalizeReleaseJson_eq_Inr MAX_CANONICAL_RELEASE_JSON_NODES_def)
  then obtain i where "computeCompiledAdmissionPolicyIrHash sha256 (compiled_without_hash p h) = Inr i"
    by (auto simp: computeCompiledAdmissionPolicyIrHash_def sha256Canonical_def)
  with h show ?thesis by (auto simp: compile_eq_Inr)
qed

lemma createIndex_succeeds:
  assumes "\<forall>p\<in>set ps. policy_size p \<le> 33000"
  shows "\<exists>index. createCompiledAdmissionPolicyIndex sha256 ps = Inr index"
proof -
  have "\<exists>index'. index_policies sha256 ps index = Inr index'" for index
    using assms
  proof (induction ps arbitrary: index)
    case (Cons p ps)
    then obtain c where c: "compileReleasePolicyDefinition sha256 p = Inr c"
      using compile_succeeds [of p sha256] by auto
    obtain v where v: "verifyCompiledAdmissionPolicy sha256 c = Inr v"
      using verify_compiled [OF c] by auto
    have "\<exists>index'. index_policies sha256 ps i = Inr index'" for i
      using Cons by auto
    with c v show ?case
      by (simp add: Let_def split: option.split)
  qed simp
  then show ?thesis by (simp add: createCompiledAdmissionPolicyIndex_def)
qed

definition with_canary :: "release_policy \<Rightarrow> rat \<Rightarrow> rollout_cohort_key \<Rightarrow> string \<Rightarrow> release_policy" where
  "with_canary p percentage cohortKey salt = p\<lparr>pol_rollout := (pol_rollout p)
     \<lparr>rol_canaryPercentage := percentage, rol_cohortKey := cohortKey, rol_cohortSalt := salt\<rparr>\<rparr>"

text \<open>
  The policy hash does not bind the canary rollout. Changing the canary percentage, the cohort
  key or the cohort salt of a policy changes neither its policy hash nor its compiled form and
  hash, although they decide which requests are enforced.
\<close>

theorem policy_hash_ignores_canary:
  "computeReleasePolicyHash sha256 (with_canary p x k t) = computeReleasePolicyHash sha256 p \<and>
   compileReleasePolicyDefinition sha256 (with_canary p x k t) = compileReleasePolicyDefinition sha256 p"
proof -
  have "policyHashPayload (with_canary p x k t) = policyHashPayload p"
    by (simp add: policyHashPayload_def with_canary_def)
  moreover have "compiled_without_hash (with_canary p x k t) h = compiled_without_hash p h" for h
    by (simp add: compiled_without_hash_def with_canary_def requiredObligationsForReleasePolicy_def
        releaseDisciplineObligations_def)
  ultimately show ?thesis
    by (simp add: computeReleasePolicyHash_def compileReleasePolicyDefinition_def)
qed

section \<open>The built-in gateway policy\<close>

definition gateway_request :: evaluation_request where
  "gateway_request =
     \<lparr> evr_id = ''req-1'', evr_createdAt = Iso 1776384000000,
       evr_outputHash = ''oh'', evr_consequenceHash = ''ch'',
       evr_outputContract = \<lparr> oc_artifactType = ''financial-reporting.record-field'',
         oc_expectedShape = ''structured financial record payload'', oc_consequenceType = Record,
         oc_riskClass = R4 \<rparr>,
       evr_capabilityBoundary = \<lparr> cb_allowedTools = [''record-commit''],
         cb_allowedTargets = [''finance.reporting.record-store''],
         cb_allowedDataDomains = [''financial-reporting''] \<rparr>,
       evr_requester = \<lparr> act_id = ''analyst'', act_type = User, act_displayName = None, act_role = None \<rparr>,
       evr_target = \<lparr> tgt_kind = Record_store, tgt_id = ''finance.reporting.record-store'', tgt_displayName = None \<rparr>,
       evr_context = None \<rparr>"

lemma gateway_policy:
  obtains p where "createFirstHardGatewayReleasePolicy = Inr p" "meets_baseline p" "policy_size p \<le> 33000"
    "pol_status p = Active" "rol_mode (pol_rollout p) = Enforce" "req_reviewMode (pol_release p) = Dual_approval"
    "matchesReleasePolicyScope p (evr_outputContract gateway_request) (evr_capabilityBoundary gateway_request)
      (tgt_kind (evr_target gateway_request))"
  by (simp add: createFirstHardGatewayReleasePolicy_def policy_creation_defs risk_control_defs
      FIRST_HARD_GATEWAY_WEDGE_def meets_baseline_def policy_size_def matchesReleasePolicyScope_def
      gateway_request_def)

theorem index_is_linear_search_witness:
  "\<exists>p index. createFirstHardGatewayReleasePolicy = Inr p \<and>
     createCompiledAdmissionPolicyIndex id [p] = Inr index \<and>
     map ide_definition (resolveCompiledAdmissionPolicyIndexEntries index gateway_request) = [p]"
proof -
  obtain p where p: "createFirstHardGatewayReleasePolicy = Inr p" "meets_baseline p" "policy_size p \<le> 33000"
    "pol_status p = Active"
    "matchesReleasePolicyScope p (evr_outputContract gateway_request) (evr_capabilityBoundary gateway_request)
      (tgt_kind (evr_target gateway_request))"
    by (rule gateway_policy)
  then obtain index where "createCompiledAdmissionPolicyIndex id [p] = Inr index"
    using createIndex_succeeds [of "[p]" id] by auto
  with index_is_linear_search [OF this, of gateway_request] p show ?thesis by auto
qed

theorem verification_is_baseline_witness:
  "\<exists>p c v. createFirstHardGatewayReleasePolicy = Inr p \<and> compileReleasePolicyDefinition id p = Inr c \<and>
     verifyCompiledAdmissionPolicy id c = Inr v \<and> vr_valid v"
proof -
  obtain p where p: "createFirstHardGatewayReleasePolicy = Inr p" "meets_baseline p" "policy_size p \<le> 33000"
    by (rule gateway_policy)
  then obtain c where "compileReleasePolicyDefinition id p = Inr c"
    using compile_succeeds by blast
  with verification_is_baseline [OF this] p show ?thesis by blast
qed

end
