(* ===== verification/Deterministic_Checks.thy ===== *)
theory Deterministic_Checks
  imports Release_Policy
begin

text \<open>
  The deterministic release checks of \<open>release-kernel/release-deterministic-checks.ts\<close>: the
  resource budget on an observation, one outcome per required control category, and the status
  a decision has after the checks.

  The lemmas show that a decision is accepted only when every required check passed under an
  automatic policy, or when the policy merely observes failures, and that each check says what
  its name promises about the decision, the policy and the observation.
\<close>

section \<open>Data\<close>

definition RELEASE_DETERMINISTIC_CHECKS_SPEC_VERSION :: string where
  "RELEASE_DETERMINISTIC_CHECKS_SPEC_VERSION = ''attestor.release-deterministic-checks.v1''"

datatype observation_array_field = UsedTools | UsedDataDomains | EvidenceKinds

fun RELEASE_DETERMINISTIC_CHECK_OBSERVATION_BUDGET :: "observation_array_field \<Rightarrow> nat" where
  "RELEASE_DETERMINISTIC_CHECK_OBSERVATION_BUDGET UsedTools = 32"
| "RELEASE_DETERMINISTIC_CHECK_OBSERVATION_BUDGET UsedDataDomains = 32"
| "RELEASE_DETERMINISTIC_CHECK_OBSERVATION_BUDGET EvidenceKinds = 64"

datatype evaluation_phase =
    Phase_policy_resolution | Phase_deterministic_checks | Phase_review
  | Phase_terminal_accept | Phase_terminal_deny

record check_observation =
  obs_actualArtifactType :: string
  obs_actualShape :: string
  obs_observedTargetId :: string
  obs_usedTools :: "string list"
  obs_usedDataDomains :: "string list"
  obs_observedOutputHash :: string
  obs_observedConsequenceHash :: string
  obs_policyRulesSatisfied :: bool
  obs_evidenceKinds :: "string list"
  obs_traceGradePassed :: "bool option"
  obs_provenanceBound :: "bool option"
  obs_downstreamReceiptConfirmed :: "bool option"

record check_outcome =
  out_category :: deterministic_control_category
  out_passed :: bool
  out_finding :: release_finding

record check_report =
  rep_version :: string
  rep_allPassed :: bool
  rep_passCount :: nat
  rep_failCount :: nat
  rep_outcomes :: "check_outcome list"
  rep_findings :: "release_finding list"
  rep_resultingStatus :: release_decision_status
  rep_nextPhase :: evaluation_phase

section \<open>Operations\<close>

definition buildReleaseFinding :: "string \<Rightarrow> bool \<Rightarrow> string \<Rightarrow> release_finding" where
  "buildReleaseFinding code passed message =
     \<lparr> fnd_code = code, fnd_result = (if passed then Pass else Fail), fnd_message = message,
       fnd_source = Src_deterministic_check \<rparr>"

definition buildDeterministicFinding ::
  "deterministic_control_category \<Rightarrow> bool \<Rightarrow> string \<Rightarrow> release_finding" where
  "buildDeterministicFinding category passed message =
     buildReleaseFinding (control_category_str category) passed message"

definition OBSERVATION_ARRAY_BUDGET_FIELDS :: "(observation_array_field \<times> string) list" where
  "OBSERVATION_ARRAY_BUDGET_FIELDS =
     [(UsedTools, ''Observed tools''), (UsedDataDomains, ''Observed data domains''),
      (EvidenceKinds, ''Evidence kinds'')]"

fun observation_field :: "check_observation \<Rightarrow> observation_array_field \<Rightarrow> string list" where
  "observation_field observation UsedTools = obs_usedTools observation"
| "observation_field observation UsedDataDomains = obs_usedDataDomains observation"
| "observation_field observation EvidenceKinds = obs_evidenceKinds observation"

definition observationBudgetFindings :: "check_observation \<Rightarrow> release_finding list" where
  "observationBudgetFindings observation =
     concat (map (\<lambda>(field, label).
       let observedCount = length (observation_field observation field);
           maxCount = RELEASE_DETERMINISTIC_CHECK_OBSERVATION_BUDGET field
       in if observedCount \<le> maxCount then []
          else [buildReleaseFinding ''deterministic-check-resource-budget'' False
                  (label @ '' exceeded the deterministic-check resource budget ('' @
                   string_of_nat observedCount @ ''/'' @ string_of_nat maxCount @ '').'')])
       OBSERVATION_ARRAY_BUDGET_FIELDS)"

definition mk_outcome ::
  "deterministic_control_category \<Rightarrow> bool \<Rightarrow> string \<Rightarrow> check_outcome" where
  "mk_outcome category passed message =
     \<lparr> out_category = category, out_passed = passed,
       out_finding = buildDeterministicFinding category passed message \<rparr>"

definition categoryOutcome ::
  "deterministic_control_category \<Rightarrow> release_decision \<Rightarrow> release_policy \<Rightarrow> check_observation \<Rightarrow> check_outcome" where
  "categoryOutcome category decision policy observation =
     (case category of
        Contract_shape \<Rightarrow>
          let passed = (obs_actualArtifactType observation
                          \<in> set (ocp_allowedArtifactTypes (pol_outputContract policy)) \<and>
                        obs_actualShape observation = ocp_expectedShape (pol_outputContract policy))
          in mk_outcome category passed
               (if passed then ''Artifact type and shape match the policy output contract.''
                else ''Artifact type or shape does not match the policy output contract.'')
      | Target_binding_check \<Rightarrow>
          let passed = (obs_observedTargetId observation = tgt_id (dec_target decision) \<and>
                        obs_observedTargetId observation
                          \<in> set (cbp_allowedTargets (pol_capabilityBoundary policy)))
          in mk_outcome category passed
               (if passed then ''Observed target matches the bound release target.''
                else ''Observed target does not match the bound release target or allowed target list.'')
      | Capability_boundary_check \<Rightarrow>
          let toolsObserved = (length (obs_usedTools observation) > 0);
              dataDomainsObserved = (length (obs_usedDataDomains observation) > 0);
              toolsAllowed = (toolsObserved \<and>
                list_all (\<lambda>tool. tool \<in> set (cbp_allowedTools (pol_capabilityBoundary policy)))
                  (obs_usedTools observation));
              domainsAllowed = (dataDomainsObserved \<and>
                list_all (\<lambda>dom. dom \<in> set (cbp_allowedDataDomains (pol_capabilityBoundary policy)))
                  (obs_usedDataDomains observation));
              passed = (toolsAllowed \<and> domainsAllowed)
          in mk_outcome category passed
               (if passed then ''Observed tools and data domains remain inside the declared capability boundary.''
                else if \<not> toolsObserved \<or> \<not> dataDomainsObserved
                then ''Observed tools or data domains were missing from the capability boundary observation.''
                else ''Observed tools or data domains exceeded the declared capability boundary.'')
      | Consequence_hash_integrity \<Rightarrow>
          let passed = (obs_observedOutputHash observation = dec_outputHash decision \<and>
                        obs_observedConsequenceHash observation = dec_consequenceHash decision)
          in mk_outcome category passed
               (if passed then ''Observed output and consequence hashes match the bound release candidate.''
                else ''Observed output or consequence hash diverged from the bound release candidate.'')
      | Policy_rule_validation \<Rightarrow>
          let passed = obs_policyRulesSatisfied observation
          in mk_outcome category passed
               (if passed then ''Policy-specific validation rules passed.''
                else ''Policy-specific validation rules failed.'')
      | Evidence_completeness \<Rightarrow>
          let passed = list_all (\<lambda>kind. kind \<in> set (obs_evidenceKinds observation))
                         (acc_requiredEvidenceKinds (pol_acceptance policy))
          in mk_outcome category passed
               (if passed then ''Required evidence kinds are present.''
                else ''One or more required evidence kinds are missing.'')
      | Trace_grade_regression \<Rightarrow>
          let passed = (obs_traceGradePassed observation = Some True)
          in mk_outcome category passed
               (if passed then ''Trace-grade regression check passed.''
                else ''Trace-grade regression check failed or was missing.'')
      | Provenance_binding \<Rightarrow>
          let passed = (obs_provenanceBound observation = Some True)
          in mk_outcome category passed
               (if passed then ''Provenance is bound to the release candidate.''
                else ''Provenance was not bound to the release candidate.'')
      | Downstream_receipt_reconciliation \<Rightarrow>
          let passed = (obs_downstreamReceiptConfirmed observation = Some True)
          in mk_outcome category passed
               (if passed then ''Downstream receipt was confirmed for the release candidate.''
                else ''Downstream receipt was missing or could not be reconciled.''))"

definition terminalStatusAfterChecks ::
  "release_policy \<Rightarrow> bool \<Rightarrow> release_decision_status \<times> evaluation_phase" where
  "terminalStatusAfterChecks policy allPassed =
     (if allPassed then
        if req_reviewMode (pol_release policy) = Auto then (Accepted, Phase_terminal_accept)
        else (Review_required, Phase_review)
      else case acc_failureDisposition (pol_acceptance policy) of
             Dispose_deny \<Rightarrow> (Denied, Phase_terminal_deny)
           | Dispose_hold \<Rightarrow> (Hold, Phase_deterministic_checks)
           | Dispose_review_required \<Rightarrow> (Review_required, Phase_review)
           | Dispose_observe \<Rightarrow> (Accepted, Phase_terminal_accept))"

definition resourceBudgetFailureReport :: "release_policy \<Rightarrow> release_finding list \<Rightarrow> check_report" where
  "resourceBudgetFailureReport policy findings =
     (let terminal = terminalStatusAfterChecks policy False in
      \<lparr> rep_version = RELEASE_DETERMINISTIC_CHECKS_SPEC_VERSION,
        rep_allPassed = False,
        rep_passCount = 0,
        rep_failCount = length findings,
        rep_outcomes = [],
        rep_findings = findings,
        rep_resultingStatus = fst terminal,
        rep_nextPhase = snd terminal \<rparr>)"

definition runDeterministicReleaseChecks ::
  "release_policy \<Rightarrow> release_decision \<Rightarrow> check_observation \<Rightarrow> check_report" where
  "runDeterministicReleaseChecks policy decision observation =
     (let budgetFindings = observationBudgetFindings observation in
      if length budgetFindings > 0 then resourceBudgetFailureReport policy budgetFindings
      else
        let outcomes = map (\<lambda>category. categoryOutcome category decision policy observation)
                         (acc_requiredChecks (pol_acceptance policy));
            findings = map out_finding outcomes;
            passCount = length (filter out_passed outcomes);
            failCount = length outcomes - passCount;
            allPassed = (failCount = 0);
            terminal = terminalStatusAfterChecks policy allPassed
        in \<lparr> rep_version = RELEASE_DETERMINISTIC_CHECKS_SPEC_VERSION,
             rep_allPassed = allPassed,
             rep_passCount = passCount,
             rep_failCount = failCount,
             rep_outcomes = outcomes,
             rep_findings = findings,
             rep_resultingStatus = fst terminal,
             rep_nextPhase = snd terminal \<rparr>)"

definition applyDeterministicCheckReport :: "release_decision \<Rightarrow> check_report \<Rightarrow> release_decision" where
  "applyDeterministicCheckReport decision report =
     decision\<lparr> dec_status := rep_resultingStatus report,
               dec_findings := dec_findings decision @ rep_findings report \<rparr>"

section \<open>What a check means\<close>

text \<open>The reference: what each control category demands, stated without the code's bookkeeping.\<close>

fun check_holds ::
  "deterministic_control_category \<Rightarrow> release_decision \<Rightarrow> release_policy \<Rightarrow> check_observation \<Rightarrow> bool" where
  "check_holds Contract_shape d p ob \<longleftrightarrow>
     obs_actualArtifactType ob \<in> set (ocp_allowedArtifactTypes (pol_outputContract p)) \<and>
     obs_actualShape ob = ocp_expectedShape (pol_outputContract p)"
| "check_holds Target_binding_check d p ob \<longleftrightarrow>
     obs_observedTargetId ob = tgt_id (dec_target d) \<and>
     tgt_id (dec_target d) \<in> set (cbp_allowedTargets (pol_capabilityBoundary p))"
| "check_holds Capability_boundary_check d p ob \<longleftrightarrow>
     obs_usedTools ob \<noteq> [] \<and> set (obs_usedTools ob) \<subseteq> set (cbp_allowedTools (pol_capabilityBoundary p)) \<and>
     obs_usedDataDomains ob \<noteq> [] \<and>
     set (obs_usedDataDomains ob) \<subseteq> set (cbp_allowedDataDomains (pol_capabilityBoundary p))"
| "check_holds Consequence_hash_integrity d p ob \<longleftrightarrow>
     obs_observedOutputHash ob = dec_outputHash d \<and> obs_observedConsequenceHash ob = dec_consequenceHash d"
| "check_holds Policy_rule_validation d p ob \<longleftrightarrow> obs_policyRulesSatisfied ob"
| "check_holds Evidence_completeness d p ob \<longleftrightarrow>
     set (acc_requiredEvidenceKinds (pol_acceptance p)) \<subseteq> set (obs_evidenceKinds ob)"
| "check_holds Trace_grade_regression d p ob \<longleftrightarrow> obs_traceGradePassed ob = Some True"
| "check_holds Provenance_binding d p ob \<longleftrightarrow> obs_provenanceBound ob = Some True"
| "check_holds Downstream_receipt_reconciliation d p ob \<longleftrightarrow> obs_downstreamReceiptConfirmed ob = Some True"

definition within_budget :: "check_observation \<Rightarrow> bool" where
  "within_budget ob \<longleftrightarrow> length (obs_usedTools ob) \<le> 32 \<and> length (obs_usedDataDomains ob) \<le> 32 \<and>
     length (obs_evidenceKinds ob) \<le> 64"

lemma categoryOutcome_simps [simp]:
  "out_category (categoryOutcome c d p ob) = c"
  "out_passed (categoryOutcome c d p ob) = check_holds c d p ob"
  "fnd_result (out_finding (categoryOutcome c d p ob)) = (if check_holds c d p ob then Pass else Fail)"
  by (cases c; auto simp: categoryOutcome_def mk_outcome_def buildDeterministicFinding_def
      buildReleaseFinding_def Let_def list_all_iff)+

lemma budget_findings_Nil: "observationBudgetFindings ob = [] \<longleftrightarrow> within_budget ob"
  by (simp add: observationBudgetFindings_def OBSERVATION_ARRAY_BUDGET_FIELDS_def within_budget_def Let_def)

lemma length_filter_all: "length xs - length (filter P xs) = 0 \<longleftrightarrow> (\<forall>x\<in>set xs. P x)"
proof -
  have "length (filter P xs) \<le> length xs" by (rule length_filter_le)
  then have "length xs - length (filter P xs) = 0 \<longleftrightarrow> length (filter P xs) = length xs" by linarith
  then show ?thesis by (metis filter_id_conv length_filter_less less_irrefl)
qed

lemma report_allPassed:
  "rep_allPassed (runDeterministicReleaseChecks p d ob) \<longleftrightarrow>
     within_budget ob \<and> (\<forall>c\<in>set (acc_requiredChecks (pol_acceptance p)). check_holds c d p ob)"
proof (cases "observationBudgetFindings ob = []")
  case True
  then have "rep_allPassed (runDeterministicReleaseChecks p d ob) \<longleftrightarrow>
      (let os = map (\<lambda>c. categoryOutcome c d p ob) (acc_requiredChecks (pol_acceptance p))
       in length os - length (filter out_passed os) = 0)"
    by (simp add: runDeterministicReleaseChecks_def Let_def)
  also have "\<dots> \<longleftrightarrow> (\<forall>c\<in>set (acc_requiredChecks (pol_acceptance p)). check_holds c d p ob)"
    by (simp only: Let_def length_filter_all) simp
  finally show ?thesis using True by (simp add: budget_findings_Nil)
next
  case False
  then have "rep_allPassed (runDeterministicReleaseChecks p d ob) = False"
    by (simp add: runDeterministicReleaseChecks_def resourceBudgetFailureReport_def Let_def)
  with False show ?thesis by (simp add: budget_findings_Nil)
qed

lemma report_status:
  "(rep_resultingStatus (runDeterministicReleaseChecks p d ob),
    rep_nextPhase (runDeterministicReleaseChecks p d ob)) =
   terminalStatusAfterChecks p (rep_allPassed (runDeterministicReleaseChecks p d ob))"
  by (simp add: runDeterministicReleaseChecks_def resourceBudgetFailureReport_def Let_def)

text \<open>
The checks decide exactly as the policy says. The decision is accepted if and only if the
  observation is within its resource budget, every required check holds and the policy needs no
  reviewer, or some check fails (or the budget is exceeded) and the policy merely observes
  failures.
\<close>

theorem checks_accept_iff:
  "dec_status (applyDeterministicCheckReport d (runDeterministicReleaseChecks p d ob)) = Accepted \<longleftrightarrow>
     (if within_budget ob \<and> list_all (\<lambda>c. check_holds c d p ob) (acc_requiredChecks (pol_acceptance p))
      then req_reviewMode (pol_release p) = Auto
      else acc_failureDisposition (pol_acceptance p) = Dispose_observe)"
  using report_status [of p d ob]
  by (auto simp: applyDeterministicCheckReport_def report_allPassed terminalStatusAfterChecks_def list_all_iff
      split: if_splits control_failure_disposition.splits)

text \<open>
  The report is truthful and changes nothing else. Applying it keeps every field of the
  decision except the status and the findings, which are extended and never rewritten; and the
  appended findings contain a failure if and only if the report does not say that all passed.
\<close>

theorem checks_report_truthful:
  "dec_findings (applyDeterministicCheckReport d (runDeterministicReleaseChecks p d ob))
     = dec_findings d @ rep_findings (runDeterministicReleaseChecks p d ob) \<and>
   (applyDeterministicCheckReport d (runDeterministicReleaseChecks p d ob))
       \<lparr>dec_status := dec_status d, dec_findings := dec_findings d\<rparr> = d \<and>
   (list_ex (\<lambda>f. fnd_result f = Fail) (rep_findings (runDeterministicReleaseChecks p d ob)) \<longleftrightarrow>
      \<not> rep_allPassed (runDeterministicReleaseChecks p d ob))"
proof -
  have "(\<exists>f\<in>set (rep_findings (runDeterministicReleaseChecks p d ob)). fnd_result f = Fail) \<longleftrightarrow>
      \<not> rep_allPassed (runDeterministicReleaseChecks p d ob)"
  proof (cases "observationBudgetFindings ob = []")
    case True
    then have "rep_findings (runDeterministicReleaseChecks p d ob) =
        map out_finding (map (\<lambda>c. categoryOutcome c d p ob) (acc_requiredChecks (pol_acceptance p)))"
      by (simp add: runDeterministicReleaseChecks_def Let_def)
    with True show ?thesis
      by (auto simp: report_allPassed budget_findings_Nil)
  next
    case False
    then have "rep_findings (runDeterministicReleaseChecks p d ob) = observationBudgetFindings ob"
      by (simp add: runDeterministicReleaseChecks_def resourceBudgetFailureReport_def Let_def)
    moreover have "fnd_result f = Fail" if "f \<in> set (observationBudgetFindings ob)" for f
      using that by (auto simp: observationBudgetFindings_def buildReleaseFinding_def Let_def split: if_splits)
    ultimately show ?thesis
      using False by (cases "observationBudgetFindings ob") (auto simp: report_allPassed budget_findings_Nil [symmetric])
  qed
  then show ?thesis by (simp add: applyDeterministicCheckReport_def list_ex_iff)
qed

end
