(* ===== verification/Decision_Log.thy ===== *)
theory Decision_Log
  imports Release_Types
begin

text \<open>
  The append-only, hash-linked decision log of \<open>release-kernel/release-decision-log.ts\<close>: creation
  and verification of entries, the loader of the file-backed log, and the two writers.

  The digest \<open>sha256\<close> and the entry identifiers of \<open>randomUUID\<close> are parameters. A log file is
  the list of its non-blank lines, each the value \<open>JSON.parse\<close> gives for it or \<open>None\<close> when
  the line is not JSON; the lock around an append makes it one step. In a metadata record \<open>null\<close>
  and \<open>undefined\<close> are both \<open>None\<close>, so the snapshot that replaces one by the other is the identity.

  The locale \<open>decision_log_writer\<close> states what both writers promise; it is interpreted on the
  in-memory and on the file-backed writer. The lemmas show that logs written through a writer
  verify, that the last digest of a verified log commits to every entry, and that the loader
  returns exactly the entries that were written.
\<close>

section \<open>Data\<close>

definition RELEASE_DECISION_LOG_SPEC_VERSION :: string where
  "RELEASE_DECISION_LOG_SPEC_VERSION = ''attestor.release-decision-log.v1''"

datatype log_phase =
    Log_policy_resolution | Log_deterministic_checks | Log_review | Log_override
  | Log_evidence_pack | Log_terminal_accept | Log_terminal_deny

fun log_phase_str :: "log_phase \<Rightarrow> string" where
  "log_phase_str Log_policy_resolution = ''policy-resolution''"
| "log_phase_str Log_deterministic_checks = ''deterministic-checks''"
| "log_phase_str Log_review = ''review''"
| "log_phase_str Log_override = ''override''"
| "log_phase_str Log_evidence_pack = ''evidence-pack''"
| "log_phase_str Log_terminal_accept = ''terminal-accept''"
| "log_phase_str Log_terminal_deny = ''terminal-deny''"

definition RELEASE_DECISION_LOG_PHASES :: "log_phase list" where
  "RELEASE_DECISION_LOG_PHASES =
     [Log_policy_resolution, Log_deterministic_checks, Log_review, Log_override, Log_evidence_pack,
      Log_terminal_accept, Log_terminal_deny]"

definition RELEASE_DECISION_STATUSES :: "release_decision_status list" where
  "RELEASE_DECISION_STATUSES =
     [Accepted, Denied, Hold, Review_required, Expired, Revoked, Overridden]"

fun prov_source_str :: "release_policy_provenance_source \<Rightarrow> string" where
  "prov_source_str Compiled_admission_policy_index = ''compiled-admission-policy-index''"
| "prov_source_str Policy_definition = ''policy-definition''"

record log_metadata =
  lm_policyMatched :: bool
  lm_pendingChecks :: "string list"
  lm_pendingEvidenceKinds :: "string list"
  lm_requiresReview :: bool
  lm_deterministicChecksCompleted :: bool
  lm_effectivePolicyId :: "string option"
  lm_policyHash :: "string option"
  lm_policyIrHash :: "string option"
  lm_policyProvenanceSource :: "release_policy_provenance_source option"
  lm_compiledPolicyIndexVersion :: "string option"
  lm_compiledPolicyIrVersion :: "string option"
  lm_rolloutMode :: "string option"
  lm_rolloutEvaluationMode :: "string option"
  lm_rolloutReason :: "string option"
  lm_rolloutCanaryBucket :: "int js_number option"
  lm_rolloutFallbackPolicyId :: "string option"

record log_entry_base =
  le_version :: string
  le_entryId :: string
  le_sequence :: int
  le_occurredAt :: string
  le_requestId :: string
  le_phase :: log_phase
  le_matchedPolicyId :: "string option"
  le_decisionId :: string
  le_decisionStatus :: release_decision_status
  le_decisionDigest :: string
  le_findingsDigest :: string
  le_previousEntryDigest :: "string option"
  le_metadata :: log_metadata

text \<open>An entry is a base record together with its digest.\<close>

record log_entry =
  ent_base :: log_entry_base
  ent_digest :: string

record log_append_input =
  lai_occurredAt :: string
  lai_requestId :: string
  lai_phase :: log_phase
  lai_matchedPolicyId :: "string option"
  lai_decision :: release_decision
  lai_metadata :: log_metadata

record log_verification =
  lv_valid :: bool
  lv_verifiedEntries :: nat
  lv_brokenEntryId :: "string option"

section \<open>Digests\<close>

fun json_bool_opt :: "bool option \<Rightarrow> json" where
  "json_bool_opt None = JNull"
| "json_bool_opt (Some b) = JBool b"

fun json_num_opt :: "int js_number option \<Rightarrow> json" where
  "json_num_opt None = JNull"
| "json_num_opt (Some n) = JNumber n"

definition provenance_json :: "release_policy_provenance \<Rightarrow> json" where
  "provenance_json p = JObject
     [(''source'', JString (prov_source_str (prov_source p))),
      (''policyId'', JString (prov_policyId p)),
      (''policySpecVersion'', JString (prov_policySpecVersion p)),
      (''policyHash'', JString (prov_policyHash p)),
      (''compiledPolicyHash'', json_str_opt (prov_compiledPolicyHash p)),
      (''compiledPolicyIrHash'', json_str_opt (prov_compiledPolicyIrHash p)),
      (''compiledPolicyIndexVersion'', json_str_opt (prov_compiledPolicyIndexVersion p)),
      (''compiledPolicyIrVersion'', json_str_opt (prov_compiledPolicyIrVersion p)),
      (''verificationValid'', json_bool_opt (prov_verificationValid p)),
      (''verificationErrorCodes'', json_strs (prov_verificationErrorCodes p)),
      (''verificationWarningCodes'', json_strs (prov_verificationWarningCodes p))]"

definition review_authority_json :: "review_authority \<Rightarrow> json" where
  "review_authority_json a = JObject
     [(''mode'', JString (review_authority_mode_str (ra_mode a))),
      (''minimumReviewerCount'', JNumber (Num (ra_minimumReviewerCount a))),
      (''requiresNamedReviewer'', JBool (ra_requiresNamedReviewer a)),
      (''requiredRoles'', json_strs (ra_requiredRoles a)),
      (''requiredReviewerIds'', json_strs (ra_requiredReviewerIds a))]"

fun release_condition_json :: "release_condition \<Rightarrow> json" where
  "release_condition_json (Target_binding t) =
     JObject [(''kind'', JString ''target-binding''), (''allowedTargetId'', JString t)]"
| "release_condition_json (Usage_limit n) =
     JObject [(''kind'', JString ''usage-limit''), (''maxUses'', JNumber (Num n))]"
| "release_condition_json (Expiry e) =
     JObject [(''kind'', JString ''expiry''), (''expiresAt'', JString (date_text e))]"
| "release_condition_json (Introspection b) =
     JObject [(''kind'', JString ''introspection''), (''required'', JBool b)]"
| "release_condition_json (Retention c) =
     JObject [(''kind'', JString ''retention''), (''retentionClass'', JString (evidence_retention_class_str c))]"

fun finding_result_str :: "release_finding_result \<Rightarrow> string" where
  "finding_result_str Pass = ''pass''"
| "finding_result_str Warn = ''warn''"
| "finding_result_str Fail = ''fail''"
| "finding_result_str Info = ''info''"

fun finding_source_str :: "release_finding_source \<Rightarrow> string" where
  "finding_source_str Src_policy = ''policy''"
| "finding_source_str Src_deterministic_check = ''deterministic-check''"
| "finding_source_str Src_review = ''review''"
| "finding_source_str Src_runtime = ''runtime''"
| "finding_source_str Src_evidence = ''evidence''"
| "finding_source_str Src_override = ''override''"

definition finding_json :: "release_finding \<Rightarrow> json" where
  "finding_json f = JObject
     [(''code'', JString (fnd_code f)),
      (''result'', JString (finding_result_str (fnd_result f))),
      (''message'', JString (fnd_message f)),
      (''source'', JString (finding_source_str (fnd_source f)))]"

definition digestDecision :: "(string \<Rightarrow> string) \<Rightarrow> release_decision \<Rightarrow> string" where
  "digestDecision sha256 decision = sha256 (JSON_stringify (JObject
     [(''version'', JString (dec_version decision)),
      (''id'', JString (dec_id decision)),
      (''status'', JString (release_decision_status_str (dec_status decision))),
      (''policyVersion'', JString (dec_policyVersion decision)),
      (''policyHash'', JString (dec_policyHash decision)),
      (''policyProvenance'',
         (case dec_policyProvenance decision of None \<Rightarrow> JNull | Some p \<Rightarrow> provenance_json p)),
      (''outputHash'', JString (dec_outputHash decision)),
      (''consequenceHash'', JString (dec_consequenceHash decision)),
      (''consequenceType'', JString (consequence_type_str (dec_consequenceType decision))),
      (''riskClass'', JString (risk_class_str (dec_riskClass decision))),
      (''reviewAuthority'', review_authority_json (dec_reviewAuthority decision)),
      (''releaseConditions'',
         JObject [(''items'', JArray (map release_condition_json (dec_releaseConditions decision)))])]))"

definition digestFindings :: "(string \<Rightarrow> string) \<Rightarrow> release_decision \<Rightarrow> string" where
  "digestFindings sha256 decision = sha256 (JSON_stringify (JArray (map finding_json (dec_findings decision))))"

definition metadata_json :: "log_metadata \<Rightarrow> json" where
  "metadata_json m = JObject
     [(''policyMatched'', JBool (lm_policyMatched m)),
      (''pendingChecks'', json_strs (lm_pendingChecks m)),
      (''pendingEvidenceKinds'', json_strs (lm_pendingEvidenceKinds m)),
      (''requiresReview'', JBool (lm_requiresReview m)),
      (''deterministicChecksCompleted'', JBool (lm_deterministicChecksCompleted m)),
      (''effectivePolicyId'', json_str_opt (lm_effectivePolicyId m)),
      (''policyHash'', json_str_opt (lm_policyHash m)),
      (''policyIrHash'', json_str_opt (lm_policyIrHash m)),
      (''policyProvenanceSource'',
         json_str_opt (map_option prov_source_str (lm_policyProvenanceSource m))),
      (''compiledPolicyIndexVersion'', json_str_opt (lm_compiledPolicyIndexVersion m)),
      (''compiledPolicyIrVersion'', json_str_opt (lm_compiledPolicyIrVersion m)),
      (''rolloutMode'', json_str_opt (lm_rolloutMode m)),
      (''rolloutEvaluationMode'', json_str_opt (lm_rolloutEvaluationMode m)),
      (''rolloutReason'', json_str_opt (lm_rolloutReason m)),
      (''rolloutCanaryBucket'', json_num_opt (lm_rolloutCanaryBucket m)),
      (''rolloutFallbackPolicyId'', json_str_opt (lm_rolloutFallbackPolicyId m))]"

definition base_members :: "log_entry_base \<Rightarrow> (string \<times> json) list" where
  "base_members b =
     [(''version'', JString (le_version b)),
      (''entryId'', JString (le_entryId b)),
      (''sequence'', JNumber (Num (le_sequence b))),
      (''occurredAt'', JString (le_occurredAt b)),
      (''requestId'', JString (le_requestId b)),
      (''phase'', JString (log_phase_str (le_phase b))),
      (''matchedPolicyId'', json_str_opt (le_matchedPolicyId b)),
      (''decisionId'', JString (le_decisionId b)),
      (''decisionStatus'', JString (release_decision_status_str (le_decisionStatus b))),
      (''decisionDigest'', JString (le_decisionDigest b)),
      (''findingsDigest'', JString (le_findingsDigest b)),
      (''previousEntryDigest'', json_str_opt (le_previousEntryDigest b)),
      (''metadata'', metadata_json (le_metadata b))]"

definition base_text :: "log_entry_base \<Rightarrow> string" where
  "base_text b = JSON_stringify (JObject (base_members b))"

definition computeEntryDigest :: "(string \<Rightarrow> string) \<Rightarrow> log_entry_base \<Rightarrow> string" where
  "computeEntryDigest sha256 entry = sha256 (base_text entry)"

definition entry_json :: "log_entry \<Rightarrow> json" where
  "entry_json e = JObject (base_members (ent_base e) @ [(''entryDigest'', JString (ent_digest e))])"

section \<open>Creation and verification\<close>

definition createReleaseDecisionLogEntry ::
  "(string \<Rightarrow> string) \<Rightarrow> string \<Rightarrow> log_append_input \<Rightarrow> int \<Rightarrow> string option \<Rightarrow> log_entry" where
  "createReleaseDecisionLogEntry sha256 randomUUID input sequence previousEntryDigest =
     (let base =
        \<lparr> le_version = RELEASE_DECISION_LOG_SPEC_VERSION,
          le_entryId = randomUUID,
          le_sequence = sequence,
          le_occurredAt = lai_occurredAt input,
          le_requestId = lai_requestId input,
          le_phase = lai_phase input,
          le_matchedPolicyId = lai_matchedPolicyId input,
          le_decisionId = dec_id (lai_decision input),
          le_decisionStatus = dec_status (lai_decision input),
          le_decisionDigest = digestDecision sha256 (lai_decision input),
          le_findingsDigest = digestFindings sha256 (lai_decision input),
          le_previousEntryDigest = previousEntryDigest,
          le_metadata = lai_metadata input \<rparr>
      in \<lparr> ent_base = base, ent_digest = computeEntryDigest sha256 base \<rparr>)"

text \<open>The loop of \<open>verifyReleaseDecisionLogChain\<close> with its two variables.\<close>

fun verify_chain_from ::
  "(string \<Rightarrow> string) \<Rightarrow> string option \<Rightarrow> int \<Rightarrow> log_entry list \<Rightarrow> log_verification" where
  "verify_chain_from sha256 previousDigest expectedSequence [] =
     \<lparr> lv_valid = True, lv_verifiedEntries = nat (expectedSequence - 1), lv_brokenEntryId = None \<rparr>"
| "verify_chain_from sha256 previousDigest expectedSequence (entry # entries) =
     (if le_sequence (ent_base entry) \<noteq> expectedSequence \<or>
         le_previousEntryDigest (ent_base entry) \<noteq> previousDigest \<or>
         ent_digest entry \<noteq> computeEntryDigest sha256 (ent_base entry)
      then \<lparr> lv_valid = False, lv_verifiedEntries = nat (expectedSequence - 1),
             lv_brokenEntryId = Some (le_entryId (ent_base entry)) \<rparr>
      else verify_chain_from sha256 (Some (ent_digest entry)) (expectedSequence + 1) entries)"

definition verifyReleaseDecisionLogChain :: "(string \<Rightarrow> string) \<Rightarrow> log_entry list \<Rightarrow> log_verification" where
  "verifyReleaseDecisionLogChain sha256 entries = verify_chain_from sha256 None 1 entries"

definition latestEntryDigest :: "log_entry list \<Rightarrow> string option" where
  "latestEntryDigest entries = (if entries = [] then None else Some (ent_digest (last entries)))"

section \<open>The in-memory writer\<close>

definition memory_append ::
  "(string \<Rightarrow> string) \<Rightarrow> log_entry list \<Rightarrow> string \<Rightarrow> log_append_input \<Rightarrow> (log_entry list \<times> log_entry) result" where
  "memory_append sha256 entries uuid input =
     (let entry = createReleaseDecisionLogEntry sha256 uuid input (int (length entries) + 1)
                    (latestEntryDigest entries)
      in return (entries @ [entry], entry))"

section \<open>The loader\<close>

definition invalid_field :: "string \<Rightarrow> nat \<Rightarrow> js_error" where
  "invalid_field fieldName lineNumber = ReleaseDecisionLogStoreError
     (''Release decision log line '' @ string_of_nat lineNumber @ '' has invalid '' @ fieldName @ ''.'')"

fun requireString :: "json \<Rightarrow> string \<Rightarrow> nat \<Rightarrow> string result" where
  "requireString (JString s) fieldName lineNumber =
     (if s = [] then throw (invalid_field fieldName lineNumber) else return s)"
| "requireString v fieldName lineNumber = throw (invalid_field fieldName lineNumber)"

definition requireNullableString :: "json \<Rightarrow> string \<Rightarrow> nat \<Rightarrow> string option result" where
  "requireNullableString value fieldName lineNumber =
     (if value = JNull then return None
      else rbind (requireString value fieldName lineNumber) (\<lambda>s. return (Some s)))"

definition requireNullablePolicyProvenanceSource ::
  "json \<Rightarrow> string \<Rightarrow> nat \<Rightarrow> release_policy_provenance_source option result" where
  "requireNullablePolicyProvenanceSource value fieldName lineNumber =
     (if value = JNull \<or> value = JUndefined then return None
      else if value = JString ''compiled-admission-policy-index'' then return (Some Compiled_admission_policy_index)
      else if value = JString ''policy-definition'' then return (Some Policy_definition)
      else throw (invalid_field fieldName lineNumber))"

fun requireNumber :: "json \<Rightarrow> string \<Rightarrow> nat \<Rightarrow> int result" where
  "requireNumber (JNumber (Num i)) fieldName lineNumber = return i"
| "requireNumber v fieldName lineNumber = throw (invalid_field fieldName lineNumber)"

fun requireBoolean :: "json \<Rightarrow> string \<Rightarrow> nat \<Rightarrow> bool result" where
  "requireBoolean (JBool b) fieldName lineNumber = return b"
| "requireBoolean v fieldName lineNumber = throw (invalid_field fieldName lineNumber)"

fun requireNullableNumber :: "json \<Rightarrow> string \<Rightarrow> nat \<Rightarrow> int js_number option result" where
  "requireNullableNumber JNull fieldName lineNumber = return None"
| "requireNullableNumber (JNumber (Num i)) fieldName lineNumber = return (Some (Num i))"
| "requireNullableNumber v fieldName lineNumber = throw (invalid_field fieldName lineNumber)"

fun json_string_of :: "json \<Rightarrow> string option" where
  "json_string_of (JString s) = Some s"
| "json_string_of v = None"

fun requireStringArray :: "json \<Rightarrow> string \<Rightarrow> nat \<Rightarrow> string list result" where
  "requireStringArray (JArray vs) fieldName lineNumber =
     (if list_ex (\<lambda>v. json_string_of v = None) vs then throw (invalid_field fieldName lineNumber)
      else return (map (the \<circ> json_string_of) vs))"
| "requireStringArray v fieldName lineNumber = throw (invalid_field fieldName lineNumber)"

definition requirePhase :: "json \<Rightarrow> nat \<Rightarrow> log_phase result" where
  "requirePhase value lineNumber =
     (case List.find (\<lambda>p. value = JString (log_phase_str p)) RELEASE_DECISION_LOG_PHASES of
        None \<Rightarrow> throw (invalid_field ''phase'' lineNumber)
      | Some p \<Rightarrow> return p)"

definition requireDecisionStatus :: "json \<Rightarrow> nat \<Rightarrow> release_decision_status result" where
  "requireDecisionStatus value lineNumber =
     (case List.find (\<lambda>s. value = JString (release_decision_status_str s)) RELEASE_DECISION_STATUSES of
        None \<Rightarrow> throw (invalid_field ''decisionStatus'' lineNumber)
      | Some s \<Rightarrow> return s)"

text \<open>Property access on a parsed object, and \<open>value ?? null\<close>.\<close>

definition field :: "(string \<times> json) list \<Rightarrow> string \<Rightarrow> json" where
  "field kvs k = (case map_of kvs k of None \<Rightarrow> JUndefined | Some v \<Rightarrow> v)"

definition or_null :: "json \<Rightarrow> json" where
  "or_null v = (if v = JUndefined then JNull else v)"

fun normalizeLoadedMetadata :: "json \<Rightarrow> nat \<Rightarrow> log_metadata result" where
  "normalizeLoadedMetadata (JObject value) n =
     rbind (requireBoolean (field value ''policyMatched'') ''metadata.policyMatched'' n) (\<lambda>policyMatched.
     rbind (requireStringArray (field value ''pendingChecks'') ''metadata.pendingChecks'' n) (\<lambda>pendingChecks.
     rbind (requireStringArray (field value ''pendingEvidenceKinds'') ''metadata.pendingEvidenceKinds'' n) (\<lambda>pendingEvidenceKinds.
     rbind (requireBoolean (field value ''requiresReview'') ''metadata.requiresReview'' n) (\<lambda>requiresReview.
     rbind (requireBoolean (field value ''deterministicChecksCompleted'') ''metadata.deterministicChecksCompleted'' n) (\<lambda>completed.
     rbind (requireNullableString (field value ''effectivePolicyId'') ''metadata.effectivePolicyId'' n) (\<lambda>effectivePolicyId.
     rbind (requireNullableString (or_null (field value ''policyHash'')) ''metadata.policyHash'' n) (\<lambda>policyHash.
     rbind (requireNullableString (or_null (field value ''policyIrHash'')) ''metadata.policyIrHash'' n) (\<lambda>policyIrHash.
     rbind (requireNullablePolicyProvenanceSource (field value ''policyProvenanceSource'') ''metadata.policyProvenanceSource'' n) (\<lambda>source.
     rbind (requireNullableString (or_null (field value ''compiledPolicyIndexVersion'')) ''metadata.compiledPolicyIndexVersion'' n) (\<lambda>indexVersion.
     rbind (requireNullableString (or_null (field value ''compiledPolicyIrVersion'')) ''metadata.compiledPolicyIrVersion'' n) (\<lambda>irVersion.
     rbind (requireNullableString (field value ''rolloutMode'') ''metadata.rolloutMode'' n) (\<lambda>rolloutMode.
     rbind (requireNullableString (field value ''rolloutEvaluationMode'') ''metadata.rolloutEvaluationMode'' n) (\<lambda>evaluationMode.
     rbind (requireNullableString (field value ''rolloutReason'') ''metadata.rolloutReason'' n) (\<lambda>reason.
     rbind (requireNullableNumber (field value ''rolloutCanaryBucket'') ''metadata.rolloutCanaryBucket'' n) (\<lambda>bucket.
     rbind (requireNullableString (field value ''rolloutFallbackPolicyId'') ''metadata.rolloutFallbackPolicyId'' n) (\<lambda>fallback.
     return \<lparr> lm_policyMatched = policyMatched, lm_pendingChecks = pendingChecks,
       lm_pendingEvidenceKinds = pendingEvidenceKinds, lm_requiresReview = requiresReview,
       lm_deterministicChecksCompleted = completed, lm_effectivePolicyId = effectivePolicyId,
       lm_policyHash = policyHash, lm_policyIrHash = policyIrHash,
       lm_policyProvenanceSource = source, lm_compiledPolicyIndexVersion = indexVersion,
       lm_compiledPolicyIrVersion = irVersion, lm_rolloutMode = rolloutMode,
       lm_rolloutEvaluationMode = evaluationMode, lm_rolloutReason = reason,
       lm_rolloutCanaryBucket = bucket, lm_rolloutFallbackPolicyId = fallback \<rparr>))))))))))))))))"
| "normalizeLoadedMetadata v n = throw (invalid_field ''metadata'' n)"

fun normalizeLoadedReleaseDecisionLogEntry :: "json \<Rightarrow> nat \<Rightarrow> log_entry result" where
  "normalizeLoadedReleaseDecisionLogEntry (JObject value) n =
     (if field value ''version'' \<noteq> JString RELEASE_DECISION_LOG_SPEC_VERSION then
        throw (ReleaseDecisionLogStoreError
          (''Release decision log line '' @ string_of_nat n @ '' has unsupported version.''))
      else
        rbind (requireString (field value ''entryId'') ''entryId'' n) (\<lambda>entryId.
        rbind (requireNumber (field value ''sequence'') ''sequence'' n) (\<lambda>sequence.
        rbind (requireString (field value ''occurredAt'') ''occurredAt'' n) (\<lambda>occurredAt.
        rbind (requireString (field value ''requestId'') ''requestId'' n) (\<lambda>requestId.
        rbind (requirePhase (field value ''phase'') n) (\<lambda>phase.
        rbind (requireNullableString (field value ''matchedPolicyId'') ''matchedPolicyId'' n) (\<lambda>matchedPolicyId.
        rbind (requireString (field value ''decisionId'') ''decisionId'' n) (\<lambda>decisionId.
        rbind (requireDecisionStatus (field value ''decisionStatus'') n) (\<lambda>decisionStatus.
        rbind (requireString (field value ''decisionDigest'') ''decisionDigest'' n) (\<lambda>decisionDigest.
        rbind (requireString (field value ''findingsDigest'') ''findingsDigest'' n) (\<lambda>findingsDigest.
        rbind (requireNullableString (field value ''previousEntryDigest'') ''previousEntryDigest'' n) (\<lambda>previousEntryDigest.
        rbind (normalizeLoadedMetadata (field value ''metadata'') n) (\<lambda>metadata.
        rbind (requireString (field value ''entryDigest'') ''entryDigest'' n) (\<lambda>entryDigest.
        return \<lparr> ent_base =
          \<lparr> le_version = RELEASE_DECISION_LOG_SPEC_VERSION, le_entryId = entryId, le_sequence = sequence,
            le_occurredAt = occurredAt, le_requestId = requestId, le_phase = phase,
            le_matchedPolicyId = matchedPolicyId, le_decisionId = decisionId,
            le_decisionStatus = decisionStatus, le_decisionDigest = decisionDigest,
            le_findingsDigest = findingsDigest, le_previousEntryDigest = previousEntryDigest,
            le_metadata = metadata \<rparr>,
          ent_digest = entryDigest \<rparr>))))))))))))))"
| "normalizeLoadedReleaseDecisionLogEntry v n = throw (ReleaseDecisionLogStoreError
     (''Release decision log line '' @ string_of_nat n @ '' is not an object.''))"

section \<open>The file-backed writer\<close>

type_synonym log_file = "json option list"

definition load_line :: "nat \<times> json option \<Rightarrow> log_entry result" where
  "load_line = (\<lambda>(index, line).
     case line of
       None \<Rightarrow> throw (ReleaseDecisionLogStoreError
         (''Release decision log line '' @ string_of_nat (index + 1) @ '' is not valid JSON.''))
     | Some v \<Rightarrow> normalizeLoadedReleaseDecisionLogEntry v (index + 1))"

definition readReleaseDecisionLogEntries ::
  "(string \<Rightarrow> string) \<Rightarrow> log_file \<Rightarrow> log_entry list result" where
  "readReleaseDecisionLogEntries sha256 lines =
     rbind (rmap_list load_line (enumerate 0 lines)) (\<lambda>entries.
       let verification = verifyReleaseDecisionLogChain sha256 entries in
       if \<not> lv_valid verification then
         throw (ReleaseDecisionLogStoreError (''Release decision log chain is invalid at entry '' @
           nullish (lv_brokenEntryId verification) ''unknown'' @ ''.''))
       else return entries)"

text \<open>
  \<open>JSON.stringify\<close> prints a \<open>NaN\<close> bucket as \<open>null\<close>, so this is what \<open>JSON.parse\<close> reads back.
\<close>

definition stored_entry :: "log_entry \<Rightarrow> log_entry" where
  "stored_entry e =
     (if lm_rolloutCanaryBucket (le_metadata (ent_base e)) = Some NonFinite
      then e\<lparr>ent_base := (ent_base e)\<lparr>le_metadata :=
             (le_metadata (ent_base e))\<lparr>lm_rolloutCanaryBucket := None\<rparr>\<rparr>\<rparr>
      else e)"

definition file_append ::
  "(string \<Rightarrow> string) \<Rightarrow> log_file \<Rightarrow> string \<Rightarrow> log_append_input \<Rightarrow> (log_file \<times> log_entry) result" where
  "file_append sha256 lines uuid input =
     rbind (readReleaseDecisionLogEntries sha256 lines) (\<lambda>entries.
       let entry = createReleaseDecisionLogEntry sha256 uuid input (int (length entries) + 1)
                     (latestEntryDigest entries)
       in return (lines @ [Some (entry_json (stored_entry entry))], entry))"

section \<open>Entries and their texts\<close>

lemma log_strings_inject [simp]:
  "log_phase_str p = log_phase_str q \<longleftrightarrow> p = q"
  "release_decision_status_str a = release_decision_status_str b \<longleftrightarrow> a = b"
  "prov_source_str x = prov_source_str y \<longleftrightarrow> x = y"
  subgoal by (cases p; cases q; simp)
  subgoal by (cases a; cases b; simp)
  subgoal by (cases x; cases y; simp)
  done

lemma json_num_opt_inject [simp]:
  "json_num_opt m = json_num_opt n \<longleftrightarrow> m = n"
  by (cases m; cases n; simp)

lemma map_option_prov_source [simp]:
  "map_option prov_source_str a = map_option prov_source_str b \<longleftrightarrow> a = b"
  by (cases a; cases b) auto

lemma metadata_json_inject [simp]: "metadata_json m = metadata_json n \<longleftrightarrow> m = n"
  by (cases m; cases n) (auto simp: metadata_json_def)

lemma base_members_inject [simp]: "base_members a = base_members b \<longleftrightarrow> a = b"
  by (cases a; cases b) (auto simp: base_members_def)

text \<open>Every bucket that the rollout computes from a hexadecimal digest is a number.\<close>

definition finite_bucket :: "log_entry_base \<Rightarrow> bool" where
  "finite_bucket b \<longleftrightarrow> lm_rolloutCanaryBucket (le_metadata b) \<noteq> Some NonFinite"

lemma json_num_opt_clean [simp]: "json_clean (json_num_opt n) \<longleftrightarrow> n \<noteq> Some NonFinite"
  by (cases n rule: json_num_opt.cases) (auto, metis js_number.exhaust json_clean.simps(7))

lemma base_members_clean: "json_clean (JObject (base_members b)) \<longleftrightarrow> finite_bucket b"
  by (simp add: base_members_def metadata_json_def finite_bucket_def)

lemma base_text_inject:
  "finite_bucket a \<Longrightarrow> finite_bucket b \<Longrightarrow> base_text a = base_text b \<Longrightarrow> a = b"
  unfolding base_text_def
  by (metis base_members_clean base_members_inject json.inject(5) stringify_inject)

section \<open>Hash-linked chains\<close>

abbreviation chain_valid :: "(string \<Rightarrow> string) \<Rightarrow> log_entry list \<Rightarrow> bool" where
  "chain_valid sha256 es \<equiv> lv_valid (verifyReleaseDecisionLogChain sha256 es)"

lemma verify_chain_snoc:
  "lv_valid (verify_chain_from sha256 prev n (es @ [e])) \<longleftrightarrow>
     lv_valid (verify_chain_from sha256 prev n es) \<and>
     le_sequence (ent_base e) = n + int (length es) \<and>
     le_previousEntryDigest (ent_base e) = (if es = [] then prev else Some (ent_digest (last es))) \<and>
     ent_digest e = computeEntryDigest sha256 (ent_base e)"
  by (induction es arbitrary: prev n) auto

lemma chain_valid_Nil [simp]: "chain_valid sha256 []"
  by (simp add: verifyReleaseDecisionLogChain_def)

lemma chain_valid_snoc:
  "chain_valid sha256 (es @ [e]) \<longleftrightarrow>
     chain_valid sha256 es \<and> le_sequence (ent_base e) = int (length es) + 1 \<and>
     le_previousEntryDigest (ent_base e) = latestEntryDigest es \<and>
     ent_digest e = computeEntryDigest sha256 (ent_base e)"
  by (auto simp: verifyReleaseDecisionLogChain_def verify_chain_snoc latestEntryDigest_def)

lemma chain_valid_append:
  "chain_valid sha256 es \<Longrightarrow>
   chain_valid sha256 (es @ [createReleaseDecisionLogEntry sha256 uuid i (int (length es) + 1) (latestEntryDigest es)])"
  by (simp add: chain_valid_snoc createReleaseDecisionLogEntry_def Let_def)

lemma verify_count:
  "lv_valid (verify_chain_from sha256 prev n es) \<Longrightarrow> 1 \<le> n \<Longrightarrow>
   lv_verifiedEntries (verify_chain_from sha256 prev n es) = nat (n - 1) + length es"
  by (induction es arbitrary: prev n) (auto split: if_splits)

lemma valid_no_broken:
  "lv_valid (verify_chain_from sha256 prev n es) \<Longrightarrow>
   lv_brokenEntryId (verify_chain_from sha256 prev n es) = None"
  by (induction es arbitrary: prev n) (auto split: if_splits)

definition log_texts :: "log_entry list \<Rightarrow> string set" where
  "log_texts es = (\<lambda>e. base_text (ent_base e)) ` set es"

lemma chain_commit:
  assumes "chain_valid sha256 es" "chain_valid sha256 fs"
    and "latestEntryDigest es = latestEntryDigest fs"
    and "\<forall>e\<in>set es \<union> set fs. finite_bucket (ent_base e)"
    and "inj_on sha256 (log_texts es \<union> log_texts fs)"
  shows "es = fs"
  using assms
proof (induction es arbitrary: fs rule: rev_induct)
  case Nil
  then show ?case by (simp add: latestEntryDigest_def split: if_split_asm)
next
  case (snoc e es)
  have "fs \<noteq> []" using snoc.prems(3) by (auto simp: latestEntryDigest_def)
  then obtain f gs where fs: "fs = gs @ [f]" by (metis rev_exhaust)
  have digest: "ent_digest e = ent_digest f"
    using snoc.prems(3) by (simp add: fs latestEntryDigest_def)
  have "computeEntryDigest sha256 (ent_base e) = computeEntryDigest sha256 (ent_base f)"
    using snoc.prems(1,2) digest by (simp add: fs chain_valid_snoc)
  then have "base_text (ent_base e) = base_text (ent_base f)"
    unfolding computeEntryDigest_def
    by (rule inj_onD [OF snoc.prems(5)]) (simp_all add: fs log_texts_def)
  then have base: "ent_base e = ent_base f"
    using snoc.prems(4) by (intro base_text_inject) (auto simp: fs)
  have "es = gs"
  proof (rule snoc.IH)
    show "latestEntryDigest es = latestEntryDigest gs"
      using snoc.prems(1,2) base by (simp add: fs chain_valid_snoc)
    show "inj_on sha256 (log_texts es \<union> log_texts gs)"
      using snoc.prems(5) by (rule inj_on_subset) (auto simp: log_texts_def fs)
  qed (use snoc.prems fs in \<open>auto simp: chain_valid_snoc\<close>)
  with base digest show ?case
    by (simp add: fs log_entry.equality)
qed

text \<open>
  C8: The last digest of a verified log commits to the whole history. Two logs that both verify
  and have the same latest digest are the same list of entries, whatever their lengths, unless
  the digest function collides on the texts of their entries: no entry can be removed, added,
  rewritten or reordered under an unchanged latest digest. (The canary buckets of the entries are
  finite, as the loader demands: JSON writes any other number as null.)
\<close>

theorem log_digest_commits:
  assumes "lv_valid (verifyReleaseDecisionLogChain sha256 es)"
    and "lv_valid (verifyReleaseDecisionLogChain sha256 fs)"
    and "latestEntryDigest es = latestEntryDigest fs"
    and "\<forall>e\<in>set es \<union> set fs. finite_bucket (ent_base e)"
    and "inj_on sha256 (log_texts es \<union> log_texts fs)"
  shows "es = fs"
  using assms by (rule chain_commit)

section \<open>The loader reads back what was written\<close>

text \<open>What the loader demands of an entry: non-empty strings and a numeric or absent bucket.\<close>

definition loadable_str_opt :: "string option \<Rightarrow> bool" where
  "loadable_str_opt a \<longleftrightarrow> a \<noteq> Some []"

definition loadable_metadata :: "log_metadata \<Rightarrow> bool" where
  "loadable_metadata m \<longleftrightarrow>
     list_all loadable_str_opt
       [lm_effectivePolicyId m, lm_policyHash m, lm_policyIrHash m, lm_compiledPolicyIndexVersion m,
        lm_compiledPolicyIrVersion m, lm_rolloutMode m, lm_rolloutEvaluationMode m, lm_rolloutReason m,
        lm_rolloutFallbackPolicyId m]"

definition loadable_entry :: "log_entry \<Rightarrow> bool" where
  "loadable_entry e \<longleftrightarrow> (let b = ent_base e in
     le_version b = RELEASE_DECISION_LOG_SPEC_VERSION \<and>
     list_all (\<lambda>s. s \<noteq> []) [le_entryId b, le_occurredAt b, le_requestId b, le_decisionId b,
       le_decisionDigest b, le_findingsDigest b, ent_digest e] \<and>
     loadable_str_opt (le_matchedPolicyId b) \<and> loadable_str_opt (le_previousEntryDigest b) \<and>
     loadable_metadata (le_metadata b) \<and> finite_bucket b)"

lemma require_roundtrip [simp]:
  "loadable_str_opt a \<Longrightarrow> requireNullableString (json_str_opt a) f n = Inr a"
  "requireNullablePolicyProvenanceSource (json_str_opt (map_option prov_source_str src)) f n = Inr src"
  "bucket \<noteq> Some NonFinite \<Longrightarrow> requireNullableNumber (json_num_opt bucket) f n = Inr bucket"
  "requireStringArray (json_strs xs) f n = Inr xs"
  "requirePhase (JString (log_phase_str p)) n = Inr p"
  "requireDecisionStatus (JString (release_decision_status_str st)) n = Inr st"
  subgoal by (cases a) (auto simp: requireNullableString_def loadable_str_opt_def)
  subgoal by (cases src; cases "the src")
      (auto simp: requireNullablePolicyProvenanceSource_def)
  subgoal by (cases bucket rule: json_num_opt.cases)
      (auto, metis js_number.exhaust requireNullableNumber.simps(2))
  subgoal by (auto simp: json_strs_def list_ex_iff o_def)
  subgoal by (cases p) (auto simp: requirePhase_def RELEASE_DECISION_LOG_PHASES_def)
  subgoal by (cases st) (auto simp: requireDecisionStatus_def RELEASE_DECISION_STATUSES_def)
  done

lemma or_null_json_str_opt [simp]: "or_null (json_str_opt a) = json_str_opt a"
  by (cases a) (auto simp: or_null_def)

lemma metadata_roundtrip:
  "loadable_metadata m \<Longrightarrow> lm_rolloutCanaryBucket m \<noteq> Some NonFinite \<Longrightarrow>
   normalizeLoadedMetadata (metadata_json m) n = Inr m"
  by (cases m) (simp add: metadata_json_def field_def loadable_metadata_def del: rbind_eq_Inr)

lemma entry_load:
  assumes "loadable_entry e"
  shows "normalizeLoadedReleaseDecisionLogEntry (entry_json e) n = Inr e"
proof -
  obtain b d where e: "e = \<lparr>ent_base = b, ent_digest = d\<rparr>" by (cases e)
  have md: "normalizeLoadedMetadata (metadata_json (le_metadata b)) n = Inr (le_metadata b)"
    using assms by (intro metadata_roundtrip) (simp_all add: loadable_entry_def e finite_bucket_def)
  show ?thesis
    using assms
    by (simp add: entry_json_def base_members_def field_def e md loadable_entry_def Let_def del: rbind_eq_Inr)
qed

section \<open>The contract of a log writer\<close>

text \<open>
  What the decision engine relies on when it appends: an admissible append to a log in order
  succeeds, returns the entry that continues the chain, and leaves the earlier entries alone.
\<close>

abbreviation next_entry ::
  "(string \<Rightarrow> string) \<Rightarrow> log_entry list \<Rightarrow> string \<Rightarrow> log_append_input \<Rightarrow> log_entry" where
  "next_entry sha256 es u i \<equiv>
     createReleaseDecisionLogEntry sha256 u i (int (length es) + 1) (latestEntryDigest es)"

fun append_all ::
  "('s \<Rightarrow> string \<Rightarrow> log_append_input \<Rightarrow> ('s \<times> log_entry) result) \<Rightarrow> 's \<Rightarrow>
   (string \<times> log_append_input) list \<Rightarrow> 's result" where
  "append_all app s [] = return s"
| "append_all app s ((u, i) # xs) = rbind (app s u i) (\<lambda>(s', e). append_all app s' xs)"

definition records :: "log_entry \<Rightarrow> string \<times> log_append_input \<Rightarrow> bool" where
  "records e = (\<lambda>(u, i).
     le_entryId (ent_base e) = u \<and> le_requestId (ent_base e) = lai_requestId i \<and>
     le_phase (ent_base e) = lai_phase i \<and> le_decisionId (ent_base e) = dec_id (lai_decision i) \<and>
     le_decisionStatus (ent_base e) = dec_status (lai_decision i) \<and>
     le_metadata (ent_base e) = lai_metadata i)"

lemma next_entry_records: "records (next_entry sha256 es u i) (u, i)"
  by (simp add: records_def createReleaseDecisionLogEntry_def Let_def)

locale decision_log_writer =
  fixes sha256 :: "string \<Rightarrow> string"
    and entries :: "'s \<Rightarrow> log_entry list"
    and ready :: "'s \<Rightarrow> bool"
    and admissible :: "string \<Rightarrow> log_append_input \<Rightarrow> bool"
    and app :: "'s \<Rightarrow> string \<Rightarrow> log_append_input \<Rightarrow> ('s \<times> log_entry) result"
  assumes ready_valid: "ready s \<Longrightarrow> chain_valid sha256 (entries s)"
    and append_law: "ready s \<Longrightarrow> admissible u i \<Longrightarrow>
      \<exists>s'. app s u i = Inr (s', next_entry sha256 (entries s) u i) \<and> ready s' \<and>
        entries s' = entries s @ [next_entry sha256 (entries s) u i]"
begin

lemma append_all_ok:
  "ready s \<Longrightarrow> list_all (\<lambda>(u, i). admissible u i) xs \<Longrightarrow>
   \<exists>s' new. append_all app s xs = Inr s' \<and> ready s' \<and> entries s' = entries s @ new \<and>
     list_all2 records new xs"
proof (induction xs arbitrary: s)
  case Nil
  then show ?case by auto
next
  case (Cons x xs)
  obtain u i where x: "x = (u, i)" by (cases x)
  let ?e = "next_entry sha256 (entries s) u i"
  from Cons.prems x append_law [of s u i] obtain s1 where
    s1: "app s u i = Inr (s1, ?e)" "ready s1" "entries s1 = entries s @ [?e]" by auto
  from Cons.IH [OF s1(2)] Cons.prems obtain s' new where
    "append_all app s1 xs = Inr s'" "ready s'" "entries s' = entries s1 @ new" "list_all2 records new xs"
    by auto
  with s1 x have "append_all app s (x # xs) = Inr s' \<and> ready s' \<and> entries s' = entries s @ (?e # new) \<and>
      list_all2 records (?e # new) (x # xs)"
    by (simp add: next_entry_records)
  then show ?case by blast
qed

lemma append_all_verifies:
  assumes "ready s" "list_all (\<lambda>(u, i). admissible u i) xs" "append_all app s xs = Inr s'"
  shows "verifyReleaseDecisionLogChain sha256 (entries s') =
    \<lparr> lv_valid = True, lv_verifiedEntries = length (entries s'), lv_brokenEntryId = None \<rparr>"
proof -
  from append_all_ok [OF assms(1,2)] assms(3) have "chain_valid sha256 (entries s')"
    using ready_valid by auto
  then show ?thesis
    using verify_count [of sha256 None 1 "entries s'"] valid_no_broken [of sha256 None 1 "entries s'"]
    by (simp add: verifyReleaseDecisionLogChain_def log_verification.equality)
qed

end

definition always :: "string \<Rightarrow> log_append_input \<Rightarrow> bool" where
  "always u i = True"

interpretation memory_log: decision_log_writer sha256 id "chain_valid sha256" always "memory_append sha256"
  for sha256
  by unfold_locales (auto simp: memory_append_def chain_valid_append Let_def)

subsection \<open>The file-backed writer\<close>

lemma rmap_list_append:
  "rmap_list f (xs @ ys) = rbind (rmap_list f xs) (\<lambda>us. rbind (rmap_list f ys) (\<lambda>vs. Inr (us @ vs)))"
proof (induction xs)
  case Nil
  then show ?case by (cases "rmap_list f ys") auto
next
  case (Cons x xs)
  then show ?case
    by (cases "f x"; cases "rmap_list f xs"; cases "rmap_list f ys") auto
qed

definition file_entries :: "(string \<Rightarrow> string) \<Rightarrow> log_file \<Rightarrow> log_entry list" where
  "file_entries sha256 lines =
     (case readReleaseDecisionLogEntries sha256 lines of Inl _ \<Rightarrow> [] | Inr es \<Rightarrow> es)"

definition file_ready :: "(string \<Rightarrow> string) \<Rightarrow> log_file \<Rightarrow> bool" where
  "file_ready sha256 lines \<longleftrightarrow> (\<exists>es. readReleaseDecisionLogEntries sha256 lines = Inr es)"

definition loadable_input :: "string \<Rightarrow> log_append_input \<Rightarrow> bool" where
  "loadable_input u i \<longleftrightarrow>
     u \<noteq> [] \<and> lai_occurredAt i \<noteq> [] \<and> lai_requestId i \<noteq> [] \<and> dec_id (lai_decision i) \<noteq> [] \<and>
     loadable_str_opt (lai_matchedPolicyId i) \<and> loadable_metadata (lai_metadata i) \<and>
     lm_rolloutCanaryBucket (lai_metadata i) \<noteq> Some NonFinite"

definition file_admissible :: "(string \<Rightarrow> string) \<Rightarrow> string \<Rightarrow> log_append_input \<Rightarrow> bool" where
  "file_admissible sha256 u i \<longleftrightarrow> (\<forall>x. sha256 x \<noteq> []) \<and> loadable_input u i"

lemma read_eq_Inr:
  "readReleaseDecisionLogEntries sha256 lines = Inr es \<longleftrightarrow>
     rmap_list load_line (enumerate 0 lines) = Inr es \<and> chain_valid sha256 es"
  by (auto simp: readReleaseDecisionLogEntries_def Let_def)

lemma latest_digest_loadable:
  "(\<forall>x. sha256 x \<noteq> []) \<Longrightarrow> chain_valid sha256 es \<Longrightarrow> loadable_str_opt (latestEntryDigest es)"
  by (cases es rule: rev_cases)
    (auto simp: latestEntryDigest_def loadable_str_opt_def chain_valid_snoc computeEntryDigest_def)

lemma next_entry_loadable:
  assumes "file_admissible sha256 u i" and "chain_valid sha256 es"
  shows "loadable_entry (next_entry sha256 es u i)" "stored_entry (next_entry sha256 es u i) = next_entry sha256 es u i"
  using assms latest_digest_loadable [of sha256 es]
  by (simp_all add: file_admissible_def loadable_input_def loadable_entry_def stored_entry_def
      createReleaseDecisionLogEntry_def Let_def computeEntryDigest_def digestDecision_def
      digestFindings_def finite_bucket_def)

lemma load_line_entry: "loadable_entry e \<Longrightarrow> load_line (n, Some (entry_json e)) = Inr e"
  by (simp add: load_line_def entry_load)

lemma file_append_law:
  assumes "file_ready sha256 lines" and "file_admissible sha256 u i"
  shows "\<exists>lines'. file_append sha256 lines u i = Inr (lines', next_entry sha256 (file_entries sha256 lines) u i) \<and>
    file_ready sha256 lines' \<and>
    file_entries sha256 lines' = file_entries sha256 lines @ [next_entry sha256 (file_entries sha256 lines) u i]"
proof -
  from assms(1) obtain es where read: "readReleaseDecisionLogEntries sha256 lines = Inr es"
    by (auto simp: file_ready_def)
  then have es: "file_entries sha256 lines = es" and valid: "chain_valid sha256 es"
    by (simp add: file_entries_def) (use read in \<open>simp add: read_eq_Inr\<close>)
  let ?e = "next_entry sha256 es u i"
  note ok = next_entry_loadable [OF assms(2) valid]
  have "rmap_list load_line (enumerate 0 (lines @ [Some (entry_json ?e)])) = Inr (es @ [?e])"
    using read ok(1) by (simp add: enumerate_append_eq rmap_list_append read_eq_Inr load_line_entry)
  then have "readReleaseDecisionLogEntries sha256 (lines @ [Some (entry_json ?e)]) = Inr (es @ [?e])"
    using chain_valid_append [OF valid] by (simp add: read_eq_Inr)
  then show ?thesis
    using read ok(2) by (auto simp: file_append_def es file_ready_def file_entries_def Let_def)
qed

interpretation file_log: decision_log_writer sha256 "file_entries sha256" "file_ready sha256"
    "file_admissible sha256" "file_append sha256"
  for sha256
proof
  show "chain_valid sha256 (file_entries sha256 s)" if "file_ready sha256 s" for s
  proof -
    from that obtain es where "readReleaseDecisionLogEntries sha256 s = Inr es"
      by (auto simp: file_ready_def)
    then show ?thesis by (simp add: file_entries_def) (simp add: read_eq_Inr)
  qed
qed (fact file_append_law)

text \<open>
A log file survives reloading. When the digest is never empty, any sequence of appends with
  non-empty identifiers to an empty file-backed log succeeds, and reading the file afterwards
  gives exactly one entry per append, in order, recording its request, phase, decision and
  metadata, with a chain that verifies to its full length.
\<close>

theorem file_log_reload:
  assumes "\<forall>x. sha256 x \<noteq> []" and "list_all (\<lambda>(u, i). loadable_input u i) xs"
  shows "\<exists>lines es. append_all (file_append sha256) [] xs = Inr lines \<and>
    readReleaseDecisionLogEntries sha256 lines = Inr es \<and> list_all2 records es xs \<and>
    verifyReleaseDecisionLogChain sha256 es =
      \<lparr> lv_valid = True, lv_verifiedEntries = length xs, lv_brokenEntryId = None \<rparr>"
proof -
  have empty: "file_ready sha256 []" "file_entries sha256 [] = []"
    by (simp_all add: file_ready_def file_entries_def readReleaseDecisionLogEntries_def)
  have adm: "list_all (\<lambda>(u, i). file_admissible sha256 u i) xs"
    using assms by (auto simp: list_all_iff file_admissible_def)
  from file_log.append_all_ok [OF empty(1) adm] empty(2) obtain lines where
    run: "append_all (file_append sha256) [] xs = Inr lines" and ready: "file_ready sha256 lines"
    and recs: "list_all2 records (file_entries sha256 lines) xs"
    by auto
  from ready have "readReleaseDecisionLogEntries sha256 lines = Inr (file_entries sha256 lines)"
    by (auto simp: file_ready_def file_entries_def)
  with file_log.append_all_verifies [OF empty(1) adm run] run recs show ?thesis
    by (simp add: list_all2_lengthD)
qed

text \<open>
The in-memory log always verifies. Whatever is appended to an empty in-memory writer, its
  chain verifies to its full length and holds one entry per append, in order.
\<close>

theorem memory_log_verifies:
  "\<exists>es. append_all (memory_append sha256) [] xs = Inr es \<and> list_all2 records es xs \<and>
     verifyReleaseDecisionLogChain sha256 es =
       \<lparr> lv_valid = True, lv_verifiedEntries = length xs, lv_brokenEntryId = None \<rparr>"
proof -
  have adm: "list_all (\<lambda>(u, i). always u i) xs" by (simp add: list_all_iff always_def)
  from memory_log.append_all_ok [of sha256 "[]" xs] adm obtain es where
    run: "append_all (memory_append sha256) [] xs = Inr es" and recs: "list_all2 records es xs"
    by auto
  from memory_log.append_all_verifies [OF _ adm run] run recs show ?thesis
    by (simp add: list_all2_lengthD)
qed

text \<open>
The file-backed writer does not check what the loader demands. Appending an entry with an
  empty request identifier to a healthy log succeeds and writes it durably; from then on reading
  the log and appending to it both throw.
\<close>

theorem file_append_can_poison:
  assumes "readReleaseDecisionLogEntries sha256 lines = Inr es" and "lai_requestId i = []"
  shows "\<exists>lines' e. file_append sha256 lines u i = Inr (lines', e) \<and>
    (\<exists>err. readReleaseDecisionLogEntries sha256 lines' = Inl err) \<and>
    (\<exists>err. file_append sha256 lines' v j = Inl err)"
proof -
  let ?e = "stored_entry (next_entry sha256 es u i)"
  have empty: "le_requestId (ent_base ?e) = []"
    using assms(2) by (simp add: stored_entry_def createReleaseDecisionLogEntry_def Let_def)
  have "\<exists>err. normalizeLoadedReleaseDecisionLogEntry (entry_json ?e) n = Inl err" for n
  proof (cases "normalizeLoadedReleaseDecisionLogEntry (entry_json ?e) n")
    case (Inr a)
    then have "requireString (field (base_members (ent_base ?e) @ [(''entryDigest'', JString (ent_digest ?e))]) ''requestId'')
        ''requestId'' n \<noteq> Inl (invalid_field ''requestId'' n)"
      by (auto simp: entry_json_def split: if_splits)
    with empty show ?thesis by (simp add: base_members_def field_def)
  qed simp
  then obtain err where "load_line (length lines, Some (entry_json ?e)) = Inl err"
    by (auto simp: load_line_def)
  then have "rmap_list load_line (enumerate 0 (lines @ [Some (entry_json ?e)])) = Inl err"
    using assms(1) by (simp add: enumerate_append_eq rmap_list_append read_eq_Inr)
  then have read: "readReleaseDecisionLogEntries sha256 (lines @ [Some (entry_json ?e)]) = Inl err"
    by (simp add: readReleaseDecisionLogEntries_def)
  then have "file_append sha256 (lines @ [Some (entry_json ?e)]) v j = Inl err"
    by (simp add: file_append_def)
  with read show ?thesis
    using assms(1) by (simp add: file_append_def Let_def)
qed

section \<open>Witnesses\<close>

definition sample_log_decision :: release_decision where
  "sample_log_decision =
     \<lparr> dec_version = RELEASE_DECISION_SPEC_VERSION, dec_id = ''d1'', dec_createdAt = Iso 0,
       dec_status = Accepted, dec_consequenceType = Record, dec_riskClass = R2,
       dec_policyVersion = ''p'', dec_policyHash = ''p'', dec_policyProvenance = None,
       dec_outputContract = \<lparr> oc_artifactType = ''a'', oc_expectedShape = ''s'',
         oc_consequenceType = Record, oc_riskClass = R2 \<rparr>,
       dec_capabilityBoundary = \<lparr> cb_allowedTools = [], cb_allowedTargets = [], cb_allowedDataDomains = [] \<rparr>,
       dec_outputHash = ''o'', dec_consequenceHash = ''c'',
       dec_requester = \<lparr> act_id = ''u'', act_type = User, act_displayName = None, act_role = None \<rparr>,
       dec_target = \<lparr> tgt_kind = Record_store, tgt_id = ''t'', tgt_displayName = None \<rparr>,
       dec_reviewAuthority = buildReviewAuthority R2 no_authority_overrides,
       dec_releaseConditions = [Usage_limit 1], dec_findings = [], dec_evidencePackId = None,
       dec_releaseTokenId = None, dec_override = None \<rparr>"

definition sample_log_input :: "string \<Rightarrow> log_append_input" where
  "sample_log_input request =
     \<lparr> lai_occurredAt = ''2026-01-01T00:00:00.000Z'', lai_requestId = request,
       lai_phase = Log_policy_resolution, lai_matchedPolicyId = Some ''p'',
       lai_decision = sample_log_decision,
       lai_metadata = \<lparr> lm_policyMatched = True, lm_pendingChecks = [''contract-shape''],
         lm_pendingEvidenceKinds = [], lm_requiresReview = False,
         lm_deterministicChecksCompleted = False, lm_effectivePolicyId = Some ''p'',
         lm_policyHash = None, lm_policyIrHash = None, lm_policyProvenanceSource = None,
         lm_compiledPolicyIndexVersion = None, lm_compiledPolicyIrVersion = None,
         lm_rolloutMode = Some ''enforce'', lm_rolloutEvaluationMode = Some ''enforce'',
         lm_rolloutReason = None, lm_rolloutCanaryBucket = Some (Num 17),
         lm_rolloutFallbackPolicyId = None \<rparr> \<rparr>"

definition sample_digest :: "string \<Rightarrow> string" where
  "sample_digest s = CHR ''x'' # s"

theorem file_log_reload_witness:
  "\<exists>lines es. append_all (file_append sample_digest) []
      [(''u1'', sample_log_input ''r1''), (''u2'', sample_log_input ''r2'')] = Inr lines \<and>
    readReleaseDecisionLogEntries sample_digest lines = Inr es \<and>
    list_all2 records es [(''u1'', sample_log_input ''r1''), (''u2'', sample_log_input ''r2'')] \<and>
    verifyReleaseDecisionLogChain sample_digest es =
      \<lparr> lv_valid = True, lv_verifiedEntries = 2, lv_brokenEntryId = None \<rparr>"
proof -
  let ?xs = "[(''u1'', sample_log_input ''r1''), (''u2'', sample_log_input ''r2'')]"
  have "list_all (\<lambda>(u, i). loadable_input u i) ?xs"
    by (simp add: loadable_input_def sample_log_input_def sample_log_decision_def
        loadable_str_opt_def loadable_metadata_def)
  then show ?thesis
    using file_log_reload [of sample_digest ?xs] by (simp add: sample_digest_def numeral_2_eq_2)
qed

theorem file_append_can_poison_witness:
  "\<exists>lines' e. file_append sample_digest [] ''u'' (sample_log_input []) = Inr (lines', e) \<and>
    (\<exists>err. readReleaseDecisionLogEntries sample_digest lines' = Inl err) \<and>
    (\<exists>err. file_append sample_digest lines' ''u2'' (sample_log_input ''r'') = Inl err)"
  by (rule file_append_can_poison [where es = "[]"])
    (simp_all add: readReleaseDecisionLogEntries_def sample_log_input_def)

definition sample_log :: "string \<Rightarrow> log_entry list" where
  "sample_log request = [next_entry sample_digest [] ''u1'' (sample_log_input request)]"

lemma sample_log_valid: "lv_valid (verifyReleaseDecisionLogChain sample_digest (sample_log r))"
  using chain_valid_append [of sample_digest "[]"] by (simp add: sample_log_def)

lemma sample_log_finite: "e \<in> set (sample_log r) \<Longrightarrow> finite_bucket (ent_base e)"
  by (simp add: sample_log_def finite_bucket_def createReleaseDecisionLogEntry_def
      sample_log_input_def Let_def)

definition longer_log :: "log_entry list" where
  "longer_log = sample_log ''r1'' @
     [next_entry sample_digest (sample_log ''r1'') ''u2'' (sample_log_input ''r1'')]"

lemma longer_log_valid: "lv_valid (verifyReleaseDecisionLogChain sample_digest longer_log)"
  using chain_valid_append [OF sample_log_valid] by (simp add: longer_log_def)

lemma longer_log_finite: "e \<in> set longer_log \<Longrightarrow> finite_bucket (ent_base e)"
  using sample_log_finite
  by (auto simp: longer_log_def finite_bucket_def createReleaseDecisionLogEntry_def sample_log_input_def Let_def)

theorem log_digest_commits_witness:
  "length (sample_log ''r2'') = 1 \<and> length longer_log = 2 \<and>
   lv_valid (verifyReleaseDecisionLogChain sample_digest (sample_log ''r2'')) \<and>
   lv_valid (verifyReleaseDecisionLogChain sample_digest longer_log) \<and>
   latestEntryDigest (sample_log ''r2'') \<noteq> latestEntryDigest longer_log"
proof -
  have inj: "inj_on sample_digest A" for A by (simp add: sample_digest_def inj_on_def)
  have "sample_log ''r2'' = longer_log"
    if "latestEntryDigest (sample_log ''r2'') = latestEntryDigest longer_log"
    by (rule log_digest_commits [OF sample_log_valid longer_log_valid that _ inj])
      (auto simp: sample_log_finite longer_log_finite)
  moreover have "length (sample_log ''r2'') = 1" "length longer_log = 2"
    by (simp_all add: sample_log_def longer_log_def)
  ultimately show ?thesis
    using sample_log_valid longer_log_valid by (metis numeral_eq_one_iff semiring_norm(85))
qed

end
