(* ===== verification/Decision_Engine.thy ===== *)
theory Decision_Engine
  imports Compiled_Policy Deterministic_Checks Decision_Log
begin

text \<open>
  The release decision engine of \<open>release-kernel/release-decision-engine.ts\<close>: resolution of the
  effective policy with its rollout and rollback fallback, the decision skeleton, the
  deterministic evaluation and the log entries both write.

  The engine is given a log writer as the operation \<open>app\<close> on a log state (\<open>None\<close> when there is
  no writer) and the identifiers \<open>randomUUID\<close> returns for the entries; \<open>sha256\<close> is the digest.

  The lemmas show that the engine fails closed, what an accepted decision implies about the
  policies and the observation, and what a run leaves in the log.
\<close>

section \<open>Data\<close>

definition RELEASE_DECISION_ENGINE_SPEC_VERSION :: string where
  "RELEASE_DECISION_ENGINE_SPEC_VERSION = ''attestor.release-decision-engine.v1''"

record evaluation_plan =
  pln_phase :: evaluation_phase
  pln_pendingChecks :: "deterministic_control_category list"
  pln_pendingEvidenceKinds :: "string list"
  pln_requiresReview :: bool
  pln_policyId :: "string option"
  pln_effectivePolicyId :: "string option"
  pln_rolloutMode :: "rollout_mode option"
  pln_rolloutEvaluationMode :: "rollout_evaluation_mode option"
  pln_rolloutReason :: "rollout_reason option"
  pln_rolloutCanaryBucket :: "nat js_number option"
  pln_rolloutFallbackPolicyId :: "string option"

record evaluation_result =
  evl_version :: string
  evl_matchedPolicyId :: "string option"
  evl_policyMatched :: bool
  evl_decision :: release_decision
  evl_plan :: evaluation_plan

record policy_resolution =
  prs_matchedPolicy :: release_policy
  prs_effectivePolicy :: release_policy
  prs_effectiveCompiledPolicy :: "index_entry option"
  prs_rollout :: rollout_resolution
  prs_fallbackPolicyId :: "string option"

fun rollout_reason_str :: "rollout_reason \<Rightarrow> string" where
  "rollout_reason_str Reason_dry_run = ''dry-run''"
| "rollout_reason_str Reason_canary_enforce = ''canary-enforce''"
| "rollout_reason_str Reason_canary_shadow = ''canary-shadow''"
| "rollout_reason_str Reason_canary_missing_context = ''canary-missing-context''"
| "rollout_reason_str Reason_enforce = ''enforce''"
| "rollout_reason_str Reason_rolled_back = ''rolled-back''"

fun evaluation_mode_str :: "rollout_evaluation_mode \<Rightarrow> string" where
  "evaluation_mode_str Eval_shadow = ''shadow''"
| "evaluation_mode_str Eval_enforce = ''enforce''"

fun bucket_number :: "nat js_number \<Rightarrow> int js_number" where
  "bucket_number NonFinite = NonFinite"
| "bucket_number (Num n) = Num (int n)"

section \<open>Policy resolution\<close>

definition buildPolicyScopeMismatchFinding :: release_finding where
  "buildPolicyScopeMismatchFinding =
     \<lparr> fnd_code = ''policy_scope_mismatch'', fnd_result = Fail,
       fnd_message = ''No active release policy matched the requested consequence, risk, target kind, and output contract.'',
       fnd_source = Src_policy \<rparr>"

definition buildPendingChecksFinding :: "string \<Rightarrow> release_finding" where
  "buildPendingChecksFinding policyId =
     \<lparr> fnd_code = ''deterministic_checks_pending'', fnd_result = Info,
       fnd_message = ''Release policy '' @ policyId @ '' matched. Deterministic release checks must run before final release.'',
       fnd_source = Src_policy \<rparr>"

definition buildPolicyProvenance :: "policy_resolution \<Rightarrow> release_policy_provenance" where
  "buildPolicyProvenance resolution =
     (case prs_effectiveCompiledPolicy resolution of
        Some compiledPolicy \<Rightarrow>
          (let compiled = ide_compiled compiledPolicy; verification = ide_verification compiledPolicy in
           \<lparr> prov_source = Compiled_admission_policy_index,
             prov_policyId = cmp_sourcePolicyId compiled,
             prov_policySpecVersion = cmp_sourcePolicyVersion compiled,
             prov_policyHash = cmp_policyHash compiled,
             prov_compiledPolicyHash = Some (cmp_policyHash compiled),
             prov_compiledPolicyIrHash = Some (cmp_irHash compiled),
             prov_compiledPolicyIndexVersion = Some COMPILED_ADMISSION_POLICY_INDEX_VERSION,
             prov_compiledPolicyIrVersion = Some (cmp_version compiled),
             prov_verificationValid = Some (vr_valid verification),
             prov_verificationErrorCodes = map (verification_code_str \<circ> vf_code) (vr_errors verification),
             prov_verificationWarningCodes = map (verification_code_str \<circ> vf_code) (vr_warnings verification) \<rparr>)
      | None \<Rightarrow>
          \<lparr> prov_source = Policy_definition,
            prov_policyId = pol_id (prs_effectivePolicy resolution),
            prov_policySpecVersion = pol_version (prs_effectivePolicy resolution),
            prov_policyHash = pol_id (prs_effectivePolicy resolution),
            prov_compiledPolicyHash = None,
            prov_compiledPolicyIrHash = None,
            prov_compiledPolicyIndexVersion = None,
            prov_compiledPolicyIrVersion = None,
            prov_verificationValid = None,
            prov_verificationErrorCodes = [],
            prov_verificationWarningCodes = [] \<rparr>)"

definition buildRolloutContext :: "evaluation_request \<Rightarrow> rollout_context" where
  "buildRolloutContext input =
     \<lparr> rctx_requestId = evr_id input,
       rctx_outputHash = evr_outputHash input,
       rctx_requesterId = act_id (evr_requester input),
       rctx_targetId = tgt_id (evr_target input),
       rctx_tenantId = Option.bind (evr_context input) esc_tenantId,
       rctx_accountId = Option.bind (evr_context input) esc_accountId,
       rctx_planId = Option.bind (evr_context input) esc_planId,
       rctx_cohortId = Option.bind (evr_context input) esc_cohortId \<rparr>"

abbreviation request_in_scope :: "release_policy \<Rightarrow> evaluation_request \<Rightarrow> bool" where
  "request_in_scope policy input \<equiv>
     matchesReleasePolicyScope policy (evr_outputContract input) (evr_capabilityBoundary input)
       (tgt_kind (evr_target input))"

definition resolveMatchingReleasePolicy ::
  "release_policy list \<Rightarrow> evaluation_request \<Rightarrow> release_policy option" where
  "resolveMatchingReleasePolicy policies input =
     List.find (\<lambda>policy. pol_status policy = Active \<and> request_in_scope policy input) policies"

definition findRollbackFallbackPolicy ::
  "release_policy list \<Rightarrow> release_policy \<Rightarrow> evaluation_request \<Rightarrow> release_policy option" where
  "findRollbackFallbackPolicy policies matchedPolicy input =
     (case truthy_str (rol_fallbackPolicyId (pol_rollout matchedPolicy)) of
        None \<Rightarrow> None
      | Some fallbackPolicyId \<Rightarrow>
          (case List.find (\<lambda>policy. pol_id policy = fallbackPolicyId) policies of
             None \<Rightarrow> None
           | Some fallback \<Rightarrow>
               if pol_status fallback = Draft then None
               else if request_in_scope fallback input then Some fallback else None))"

definition findRollbackFallbackCompiledPolicy ::
  "policy_index \<Rightarrow> release_policy \<Rightarrow> evaluation_request \<Rightarrow> index_entry option" where
  "findRollbackFallbackCompiledPolicy index matchedPolicy input =
     (case truthy_str (rol_fallbackPolicyId (pol_rollout matchedPolicy)) of
        None \<Rightarrow> None
      | Some fallbackPolicyId \<Rightarrow>
          List.find (\<lambda>entry. pol_id (ide_definition entry) = fallbackPolicyId)
            (resolveCompiledAdmissionPolicyIndexEntries index input))"

definition resolveEffectiveReleasePolicy ::
  "(string \<Rightarrow> string) \<Rightarrow> release_policy list \<Rightarrow> evaluation_request \<Rightarrow> policy_index option \<Rightarrow>
   policy_resolution option result" where
  "resolveEffectiveReleasePolicy sha256 policies input compiledPolicyIndex =
     (let matchedCompiledPolicy = Option.bind compiledPolicyIndex
            (\<lambda>index. resolveCompiledAdmissionPolicyIndexEntry index input);
          matchedPolicy_opt = (if compiledPolicyIndex \<noteq> None
            then map_option ide_definition matchedCompiledPolicy
            else resolveMatchingReleasePolicy policies input)
      in case matchedPolicy_opt of
           None \<Rightarrow> return None
         | Some matchedPolicy \<Rightarrow>
             let rolloutContext = buildRolloutContext input in
             if rol_mode (pol_rollout matchedPolicy) \<noteq> Rolled_back then
               rbind (resolveReleasePolicyRollout sha256 (pol_rollout matchedPolicy) rolloutContext)
                 (\<lambda>rollout. return (Some
                   \<lparr> prs_matchedPolicy = matchedPolicy, prs_effectivePolicy = matchedPolicy,
                     prs_effectiveCompiledPolicy = matchedCompiledPolicy, prs_rollout = rollout,
                     prs_fallbackPolicyId = None \<rparr>))
             else
               let fallbackCompiledPolicy = Option.bind compiledPolicyIndex
                     (\<lambda>index. findRollbackFallbackCompiledPolicy index matchedPolicy input);
                   fallback_opt = (if compiledPolicyIndex \<noteq> None
                     then map_option ide_definition fallbackCompiledPolicy
                     else findRollbackFallbackPolicy policies matchedPolicy input)
               in case fallback_opt of
                    None \<Rightarrow>
                      rbind (resolveReleasePolicyRollout sha256 (pol_rollout matchedPolicy) rolloutContext)
                        (\<lambda>rollout. return (Some
                          \<lparr> prs_matchedPolicy = matchedPolicy, prs_effectivePolicy = matchedPolicy,
                            prs_effectiveCompiledPolicy = matchedCompiledPolicy, prs_rollout = rollout,
                            prs_fallbackPolicyId = rol_fallbackPolicyId (pol_rollout matchedPolicy) \<rparr>))
                  | Some fallback \<Rightarrow>
                      rbind (resolveReleasePolicyRollout sha256 (pol_rollout fallback) rolloutContext)
                        (\<lambda>fallbackRollout. return (Some
                          \<lparr> prs_matchedPolicy = matchedPolicy, prs_effectivePolicy = fallback,
                            prs_effectiveCompiledPolicy = fallbackCompiledPolicy,
                            prs_rollout =
                              \<lparr> rres_rolloutMode = Rolled_back,
                                rres_evaluationMode = rres_evaluationMode fallbackRollout,
                                rres_reason = Reason_rolled_back,
                                rres_canaryBucket = rres_canaryBucket fallbackRollout \<rparr>,
                            prs_fallbackPolicyId = Some (pol_id fallback) \<rparr>)))"

section \<open>Evaluation\<close>

definition skeleton_input ::
  "evaluation_request \<Rightarrow> release_decision_status \<Rightarrow> string \<Rightarrow> string \<Rightarrow>
   release_policy_provenance option \<Rightarrow> release_finding \<Rightarrow> decision_skeleton_input" where
  "skeleton_input input status policyVersion policyHash provenance fnd =
     \<lparr> ski_id = evr_id input, ski_createdAt = evr_createdAt input, ski_status = status,
       ski_policyVersion = policyVersion, ski_policyHash = policyHash,
       ski_policyProvenance = provenance, ski_outputHash = evr_outputHash input,
       ski_consequenceHash = evr_consequenceHash input, ski_outputContract = evr_outputContract input,
       ski_capabilityBoundary = evr_capabilityBoundary input, ski_requester = evr_requester input,
       ski_target = evr_target input, ski_findings = Some [fnd], ski_evidencePackId = None,
       ski_releaseTokenId = None, ski_override = None, ski_reviewAuthority = None,
       ski_releaseConditions = None \<rparr>"

definition evaluateReleaseDecisionSkeleton ::
  "(string \<Rightarrow> string) \<Rightarrow> evaluation_request \<Rightarrow> release_policy list \<Rightarrow> policy_index option \<Rightarrow>
   evaluation_result result" where
  "evaluateReleaseDecisionSkeleton sha256 input policies compiledPolicyIndex =
     rbind (resolveEffectiveReleasePolicy sha256 policies input compiledPolicyIndex) (\<lambda>resolved.
       case resolved of
         None \<Rightarrow>
           rbind (createReleaseDecisionSkeleton
               (skeleton_input input Denied ''unmatched'' ''unmatched'' None buildPolicyScopeMismatchFinding))
             (\<lambda>decision. return
               \<lparr> evl_version = RELEASE_DECISION_ENGINE_SPEC_VERSION,
                 evl_matchedPolicyId = None, evl_policyMatched = False, evl_decision = decision,
                 evl_plan =
                   \<lparr> pln_phase = Phase_terminal_deny, pln_pendingChecks = [], pln_pendingEvidenceKinds = [],
                     pln_requiresReview = False, pln_policyId = None, pln_effectivePolicyId = None,
                     pln_rolloutMode = None, pln_rolloutEvaluationMode = None, pln_rolloutReason = None,
                     pln_rolloutCanaryBucket = None, pln_rolloutFallbackPolicyId = None \<rparr> \<rparr>)
       | Some resolvedPolicy \<Rightarrow>
           let matchedPolicy = prs_matchedPolicy resolvedPolicy;
               effectivePolicy = prs_effectivePolicy resolvedPolicy;
               requiresReview = (req_reviewMode (pol_release effectivePolicy) = Named_reviewer \<or>
                                 req_reviewMode (pol_release effectivePolicy) = Dual_approval)
           in rbind (createReleaseDecisionSkeleton
                (skeleton_input input Hold (pol_id effectivePolicy)
                   (nullish (map_option (\<lambda>e. cmp_policyHash (ide_compiled e)) (prs_effectiveCompiledPolicy resolvedPolicy))
                      (pol_id effectivePolicy))
                   (Some (buildPolicyProvenance resolvedPolicy))
                   (buildPendingChecksFinding (pol_id effectivePolicy))))
              (\<lambda>decision. return
                \<lparr> evl_version = RELEASE_DECISION_ENGINE_SPEC_VERSION,
                  evl_matchedPolicyId = Some (pol_id matchedPolicy), evl_policyMatched = True,
                  evl_decision = decision,
                  evl_plan =
                    \<lparr> pln_phase = Phase_deterministic_checks,
                      pln_pendingChecks = acc_requiredChecks (pol_acceptance effectivePolicy),
                      pln_pendingEvidenceKinds = acc_requiredEvidenceKinds (pol_acceptance effectivePolicy),
                      pln_requiresReview = requiresReview,
                      pln_policyId = Some (pol_id matchedPolicy),
                      pln_effectivePolicyId = Some (pol_id effectivePolicy),
                      pln_rolloutMode = Some (rres_rolloutMode (prs_rollout resolvedPolicy)),
                      pln_rolloutEvaluationMode = Some (rres_evaluationMode (prs_rollout resolvedPolicy)),
                      pln_rolloutReason = Some (rres_reason (prs_rollout resolvedPolicy)),
                      pln_rolloutCanaryBucket = rres_canaryBucket (prs_rollout resolvedPolicy),
                      pln_rolloutFallbackPolicyId = prs_fallbackPolicyId resolvedPolicy \<rparr> \<rparr>))"

type_synonym 's log_writer = "('s \<Rightarrow> string \<Rightarrow> log_append_input \<Rightarrow> ('s \<times> log_entry) result) option"

definition evaluation_log_input ::
  "evaluation_request \<Rightarrow> evaluation_result \<Rightarrow> log_phase \<Rightarrow> bool \<Rightarrow> log_append_input" where
  "evaluation_log_input request res phase deterministicChecksCompleted =
     (let decision = evl_decision res; plan = evl_plan res; prov = dec_policyProvenance decision in
      \<lparr> lai_occurredAt = date_text (evr_createdAt request),
        lai_requestId = evr_id request,
        lai_phase = phase,
        lai_matchedPolicyId = evl_matchedPolicyId res,
        lai_decision = decision,
        lai_metadata =
          \<lparr> lm_policyMatched = evl_policyMatched res,
            lm_pendingChecks = map control_category_str (pln_pendingChecks plan),
            lm_pendingEvidenceKinds = pln_pendingEvidenceKinds plan,
            lm_requiresReview = pln_requiresReview plan,
            lm_deterministicChecksCompleted = deterministicChecksCompleted,
            lm_effectivePolicyId = pln_effectivePolicyId plan,
            lm_policyHash = Some (dec_policyHash decision),
            lm_policyIrHash = Option.bind prov prov_compiledPolicyIrHash,
            lm_policyProvenanceSource = map_option prov_source prov,
            lm_compiledPolicyIndexVersion = Option.bind prov prov_compiledPolicyIndexVersion,
            lm_compiledPolicyIrVersion = Option.bind prov prov_compiledPolicyIrVersion,
            lm_rolloutMode = map_option rollout_mode_str (pln_rolloutMode plan),
            lm_rolloutEvaluationMode = map_option evaluation_mode_str (pln_rolloutEvaluationMode plan),
            lm_rolloutReason = map_option rollout_reason_str (pln_rolloutReason plan),
            lm_rolloutCanaryBucket = map_option bucket_number (pln_rolloutCanaryBucket plan),
            lm_rolloutFallbackPolicyId = pln_rolloutFallbackPolicyId plan \<rparr> \<rparr>)"

definition logEvaluation ::
  "'s log_writer \<Rightarrow> 's \<Rightarrow> string \<Rightarrow> evaluation_request \<Rightarrow> evaluation_result \<Rightarrow> log_phase \<Rightarrow> bool \<Rightarrow> 's result" where
  "logEvaluation writer lg uuid request res phase deterministicChecksCompleted =
     (case writer of
        None \<Rightarrow> return lg
      | Some app \<Rightarrow>
          rbind (app lg uuid (evaluation_log_input request res phase deterministicChecksCompleted))
            (\<lambda>(lg', entry). return lg'))"

text \<open>An engine: its policies and the index compiled from them when it was created.\<close>

record decision_engine =
  eng_policies :: "release_policy list"
  eng_index :: policy_index

definition createReleaseDecisionEngine ::
  "(string \<Rightarrow> string) \<Rightarrow> release_policy list option \<Rightarrow> decision_engine result" where
  "createReleaseDecisionEngine sha256 policies_opt =
     rbind (case policies_opt of
              Some policies \<Rightarrow> return policies
            | None \<Rightarrow> rbind createFirstHardGatewayReleasePolicy (\<lambda>policy. return [policy]))
       (\<lambda>policies. rbind (createCompiledAdmissionPolicyIndex sha256 policies)
         (\<lambda>index. return \<lparr> eng_policies = policies, eng_index = index \<rparr>))"

definition evaluate ::
  "(string \<Rightarrow> string) \<Rightarrow> decision_engine \<Rightarrow> 's log_writer \<Rightarrow> string \<Rightarrow> 's \<Rightarrow> evaluation_request \<Rightarrow>
   (evaluation_result \<times> 's) result" where
  "evaluate sha256 engine writer uuid lg request =
     rbind (evaluateReleaseDecisionSkeleton sha256 request (eng_policies engine) (Some (eng_index engine)))
       (\<lambda>res. rbind (logEvaluation writer lg uuid request res Log_policy_resolution False)
         (\<lambda>lg'. return (res, lg')))"

definition evaluateWithDeterministicChecks ::
  "(string \<Rightarrow> string) \<Rightarrow> decision_engine \<Rightarrow> 's log_writer \<Rightarrow> string \<Rightarrow> string \<Rightarrow> 's \<Rightarrow> evaluation_request \<Rightarrow>
   check_observation \<Rightarrow> (evaluation_result \<times> bool \<times> 's) result" where
  "evaluateWithDeterministicChecks sha256 engine writer uuid1 uuid2 lg request observation =
     rbind (evaluateReleaseDecisionSkeleton sha256 request (eng_policies engine) (Some (eng_index engine)))
       (\<lambda>initial.
     rbind (logEvaluation writer lg uuid1 request initial Log_policy_resolution False) (\<lambda>log1.
       if \<not> evl_policyMatched initial \<or> evl_matchedPolicyId initial = None then
         return (initial, False, log1)
       else
         rbind (resolveEffectiveReleasePolicy sha256 (eng_policies engine) request (Some (eng_index engine)))
           (\<lambda>resolved.
             case resolved of
               None \<Rightarrow> return (initial, False, log1)
             | Some resolvedPolicy \<Rightarrow>
                 let report = runDeterministicReleaseChecks (prs_effectivePolicy resolvedPolicy)
                       (evl_decision initial) observation;
                     decision = applyDeterministicCheckReport (evl_decision initial) report;
                     finalResult =
                       \<lparr> evl_version = evl_version initial,
                         evl_matchedPolicyId = evl_matchedPolicyId initial,
                         evl_policyMatched = True,
                         evl_decision = decision,
                         evl_plan = (evl_plan initial)
                           \<lparr> pln_phase := rep_nextPhase report,
                             pln_pendingChecks := [],
                             pln_pendingEvidenceKinds := [],
                             pln_requiresReview := (rep_nextPhase report = Phase_review),
                             pln_policyId := evl_matchedPolicyId initial \<rparr> \<rparr>
                 in rbind (logEvaluation writer log1 uuid2 request finalResult Log_deterministic_checks True)
                      (\<lambda>log2. return (finalResult, True, log2)))))"

section \<open>The effective policy is verified\<close>

lemma createEngine_eq_Inr:
  "createReleaseDecisionEngine sha256 (Some ps) = Inr eng \<longleftrightarrow>
     eng_policies eng = ps \<and> createCompiledAdmissionPolicyIndex sha256 ps = Inr (eng_index eng)"
  by (cases eng) (auto simp: createReleaseDecisionEngine_def)

lemma resolve_entry_member:
  "resolveCompiledAdmissionPolicyIndexEntry index r = Some e \<Longrightarrow>
   e \<in> set (resolveCompiledAdmissionPolicyIndexEntries index r)"
  by (auto simp: resolveCompiledAdmissionPolicyIndexEntry_def split: list.splits)

lemma fallback_member:
  "findRollbackFallbackCompiledPolicy index p r = Some e \<Longrightarrow>
   e \<in> set (resolveCompiledAdmissionPolicyIndexEntries index r)"
  by (auto simp: findRollbackFallbackCompiledPolicy_def dest: find_SomeD split: option.splits)

lemma effective_in_index:
  assumes "resolveEffectiveReleasePolicy sha256 ps r (Some index) = Inr (Some res)"
  shows "prs_effectivePolicy res \<in> ide_definition ` set (resolveCompiledAdmissionPolicyIndexEntries index r)"
  using assms
  by (auto simp: resolveEffectiveReleasePolicy_def Let_def split: option.splits if_splits
      dest!: resolve_entry_member fallback_member)

lemma effective_verified:
  assumes "createReleaseDecisionEngine sha256 (Some ps) = Inr eng"
    and "resolveEffectiveReleasePolicy sha256 (eng_policies eng) r (Some (eng_index eng)) = Inr (Some res)"
  shows "prs_effectivePolicy res \<in> set ps \<and> meets_baseline (prs_effectivePolicy res) \<and>
    pol_status (prs_effectivePolicy res) = Active \<and> request_in_scope (prs_effectivePolicy res) r"
proof -
  have "createCompiledAdmissionPolicyIndex sha256 ps = Inr (eng_index eng)"
    using assms(1) by (simp add: createEngine_eq_Inr)
  from arg_cong [OF index_linear_search [OF this, of r], of set] effective_in_index [OF assms(2)]
  show ?thesis by auto
qed

lemma unresolved_no_match:
  assumes "resolveEffectiveReleasePolicy sha256 ps r (Some index) = Inr None"
  shows "resolveCompiledAdmissionPolicyIndexEntries index r = []"
  using assms
  by (auto simp: resolveEffectiveReleasePolicy_def resolveCompiledAdmissionPolicyIndexEntry_def Let_def
      split: option.splits if_splits list.splits)

section \<open>What a skeleton decision is\<close>

lemma skeleton_unmatched:
  assumes "evaluateReleaseDecisionSkeleton sha256 r ps idx = Inr res" and "\<not> evl_policyMatched res"
  shows "resolveEffectiveReleasePolicy sha256 ps r idx = Inr None \<and> dec_status (evl_decision res) = Denied \<and>
    pln_phase (evl_plan res) = Phase_terminal_deny \<and> evl_matchedPolicyId res = None"
  using assms
  by (auto simp: evaluateReleaseDecisionSkeleton_def Let_def skeleton_input_def
      dest!: skeleton_eq_Inr split: option.splits)

lemma skeleton_matched:
  assumes "evaluateReleaseDecisionSkeleton sha256 r ps idx = Inr res" and "evl_policyMatched res"
  obtains p where "resolveEffectiveReleasePolicy sha256 ps r idx = Inr (Some p)"
    "dec_status (evl_decision res) = Hold" "evl_matchedPolicyId res = Some (pol_id (prs_matchedPolicy p))"
    "dec_policyVersion (evl_decision res) = pol_id (prs_effectivePolicy p)"
    "dec_outputHash (evl_decision res) = evr_outputHash r"
    "dec_consequenceHash (evl_decision res) = evr_consequenceHash r"
    "dec_target (evl_decision res) = evr_target r" "dec_id (evl_decision res) = evr_id r"
    "dec_riskClass (evl_decision res) = oc_riskClass (evr_outputContract r)"
    "pln_rolloutEvaluationMode (evl_plan res) = Some (rres_evaluationMode (prs_rollout p))"
  using assms
  by (auto simp: evaluateReleaseDecisionSkeleton_def Let_def skeleton_input_def
      dest!: skeleton_eq_Inr split: option.splits)

lemma evaluation_result_cases:
  assumes "evaluateWithDeterministicChecks sha256 eng w u1 u2 s r ob = Inr (res, done, s')"
  obtains (unmatched) "\<not> done" "dec_status (evl_decision res) = Denied" "\<not> evl_policyMatched res"
      "evaluateReleaseDecisionSkeleton sha256 r (eng_policies eng) (Some (eng_index eng)) = Inr res"
  | (checked) initial p where "done"
      "evaluateReleaseDecisionSkeleton sha256 r (eng_policies eng) (Some (eng_index eng)) = Inr initial"
      "evl_policyMatched initial"
      "resolveEffectiveReleasePolicy sha256 (eng_policies eng) r (Some (eng_index eng)) = Inr (Some p)"
      "dec_policyVersion (evl_decision initial) = pol_id (prs_effectivePolicy p)"
      "evl_decision res = applyDeterministicCheckReport (evl_decision initial)
         (runDeterministicReleaseChecks (prs_effectivePolicy p) (evl_decision initial) ob)"
proof -
  from assms obtain initial s1 where
    init: "evaluateReleaseDecisionSkeleton sha256 r (eng_policies eng) (Some (eng_index eng)) = Inr initial"
    and "logEvaluation w s u1 r initial Log_policy_resolution False = Inr s1"
    by (auto simp: evaluateWithDeterministicChecks_def)
  show thesis
  proof (cases "evl_policyMatched initial")
    case False
    with assms init skeleton_unmatched [OF init False] show thesis
      by (intro unmatched) (auto simp: evaluateWithDeterministicChecks_def)
  next
    case True
    with init obtain p where
      "resolveEffectiveReleasePolicy sha256 (eng_policies eng) r (Some (eng_index eng)) = Inr (Some p)"
      "evl_matchedPolicyId initial = Some (pol_id (prs_matchedPolicy p))"
      "dec_policyVersion (evl_decision initial) = pol_id (prs_effectivePolicy p)"
      by (rule skeleton_matched)
    with True assms init show thesis
      by (intro checked [of initial p]) (auto simp: evaluateWithDeterministicChecks_def Let_def)
  qed
qed

section \<open>The engine fails closed\<close>

definition governs :: "release_policy \<Rightarrow> evaluation_request \<Rightarrow> bool" where
  "governs p r \<longleftrightarrow> meets_baseline p \<and> pol_status p = Active \<and> request_in_scope p r"

lemma matched_iff_governed:
  assumes "createReleaseDecisionEngine sha256 (Some ps) = Inr eng"
    and "evaluateReleaseDecisionSkeleton sha256 r (eng_policies eng) (Some (eng_index eng)) = Inr res"
  shows "evl_policyMatched res \<longleftrightarrow> (\<exists>p\<in>set ps. governs p r)"
proof -
  have idx: "createCompiledAdmissionPolicyIndex sha256 ps = Inr (eng_index eng)"
    using assms(1) by (simp add: createEngine_eq_Inr)
  have "set (map ide_definition (resolveCompiledAdmissionPolicyIndexEntries (eng_index eng) r)) =
      {p \<in> set ps. governs p r}"
    unfolding index_linear_search [OF idx] by (auto simp: governs_def)
  then have entries: "resolveCompiledAdmissionPolicyIndexEntries (eng_index eng) r = [] \<longleftrightarrow> \<not> (\<exists>p\<in>set ps. governs p r)"
    by (metis (mono_tags, lifting) empty_Collect_eq map_is_Nil_conv set_empty)
  show ?thesis
  proof (cases "evl_policyMatched res")
    case True
    with assms(2) obtain p where
      "resolveEffectiveReleasePolicy sha256 (eng_policies eng) r (Some (eng_index eng)) = Inr (Some p)"
      by (rule skeleton_matched)
    from effective_in_index [OF this] True entries show ?thesis by auto
  next
    case False
    with skeleton_unmatched [OF assms(2) False] unresolved_no_match entries show ?thesis by metis
  qed
qed

lemma evaluation_done_iff:
  assumes "createReleaseDecisionEngine sha256 (Some ps) = Inr eng"
    and "evaluateWithDeterministicChecks sha256 eng w u1 u2 s r ob = Inr (res, d, s')"
  shows "(d \<longleftrightarrow> (\<exists>p\<in>set ps. governs p r)) \<and> (\<not> d \<longrightarrow> dec_status (evl_decision res) = Denied)"
  using assms(2)
proof (cases rule: evaluation_result_cases)
  case unmatched
  with matched_iff_governed [OF assms(1) unmatched(4)] show ?thesis by simp
next
  case (checked initial p)
  with matched_iff_governed [OF assms(1) checked(2)] show ?thesis by simp
qed

text \<open>
  C4: The engine fails closed. The deterministic checks run exactly when some configured policy
  meets the baseline of its risk class, is active and has the request in its scope; otherwise
  the decision is denied. A policy that fails static verification never governs a request.
\<close>

theorem engine_fails_closed:
  assumes "createReleaseDecisionEngine sha256 (Some ps) = Inr eng"
    and "evaluateWithDeterministicChecks sha256 eng w u1 u2 s r ob = Inr (res, d, s')"
  shows "(d \<longleftrightarrow> (\<exists>p\<in>set ps. governs p r)) \<and> (\<not> d \<longrightarrow> dec_status (evl_decision res) = Denied)"
  using assms by (rule evaluation_done_iff)

section \<open>What acceptance implies\<close>

lemma check_holds_report [simp]:
  "check_holds c (applyDeterministicCheckReport d rep) p ob = check_holds c d p ob"
  by (cases c) (auto simp: applyDeterministicCheckReport_def)

lemma accepted_report:
  assumes "dec_status (applyDeterministicCheckReport d (runDeterministicReleaseChecks p d ob)) = Accepted"
  shows "req_reviewMode (pol_release p) = Auto \<and> within_budget ob \<and>
      (\<forall>c\<in>set (acc_requiredChecks (pol_acceptance p)). check_holds c d p ob)
    \<or> acc_failureDisposition (pol_acceptance p) = Dispose_observe"
  using assms report_status [of p d ob] report_allPassed [of p d ob]
  by (auto simp: applyDeterministicCheckReport_def terminalStatusAfterChecks_def
      split: if_splits control_failure_disposition.splits)

text \<open>
  C3: An accepted decision is backed by a verified policy. If the engine accepts a request, some
  configured policy that meets its risk baseline, is active and has the request in its scope is
  the one the decision names, and either every deterministic check that the request's risk class
  demands holds and the policy needs no reviewer, or the policy merely observes failures.
\<close>

theorem engine_accept_sound:
  assumes "createReleaseDecisionEngine sha256 (Some ps) = Inr eng"
    and "evaluateWithDeterministicChecks sha256 eng w u1 u2 s r ob = Inr (res, d, s')"
    and "dec_status (evl_decision res) = Accepted"
  shows "\<exists>p\<in>set ps. governs p r \<and> dec_policyVersion (evl_decision res) = pol_id p \<and>
    (req_reviewMode (pol_release p) = Auto \<and> within_budget ob \<and>
       (\<forall>c\<in>set (rkc_deterministicChecks (riskControlProfile (oc_riskClass (evr_outputContract r)))).
          check_holds c (evl_decision res) p ob)
     \<or> acc_failureDisposition (pol_acceptance p) = Dispose_observe)"
  using assms(2)
proof (cases rule: evaluation_result_cases)
  case unmatched
  with assms(3) show ?thesis by simp
next
  case (checked initial p)
  let ?p = "prs_effectivePolicy p"
  from effective_verified [OF assms(1) checked(4)]
  have gov: "?p \<in> set ps" "governs ?p r" by (auto simp: governs_def)
  then have "set (rkc_deterministicChecks (riskControlProfile (oc_riskClass (evr_outputContract r))))
      \<subseteq> set (acc_requiredChecks (pol_acceptance ?p))"
    by (auto simp: governs_def meets_baseline_def matchesReleasePolicyScope_def Let_def)
  moreover have "dec_policyVersion (evl_decision res) = pol_id ?p"
    using checked(5,6) by (simp add: applyDeterministicCheckReport_def)
  moreover note accepted_report [of "evl_decision initial" ?p ob] assms(3) checked(6) gov
  ultimately show ?thesis by (intro bexI [of _ ?p]) auto
qed

text \<open>
  C10: What the checks lead to. For a request that is governed, the decision names a configured
  policy that governs it, and its status follows from that policy: with every required check
  holding within the budget it is accepted when the review mode is \<open>auto\<close> and otherwise sent to
  review; with a failed check it is denied, held, sent to review or accepted as the policy's
  failure disposition says. The minimum number of reviewers plays no part: an R4 policy that
  demands two reviewers is admitted with review mode \<open>auto\<close>, and then accepts without any.
\<close>

theorem governed_verdict:
  assumes "createReleaseDecisionEngine sha256 (Some ps) = Inr eng"
    and "evaluateWithDeterministicChecks sha256 eng w u1 u2 s r ob = Inr (res, True, s')"
  shows "\<exists>p\<in>set ps. governs p r \<and> dec_policyVersion (evl_decision res) = pol_id p \<and>
    dec_status (evl_decision res) =
      (if within_budget ob \<and> list_all (\<lambda>c. check_holds c (evl_decision res) p ob) (acc_requiredChecks (pol_acceptance p))
       then if req_reviewMode (pol_release p) = Auto then Accepted else Review_required
       else case acc_failureDisposition (pol_acceptance p) of
              Dispose_deny \<Rightarrow> Denied | Dispose_hold \<Rightarrow> Hold
            | Dispose_review_required \<Rightarrow> Review_required | Dispose_observe \<Rightarrow> Accepted)"
  using assms(2)
proof (cases rule: evaluation_result_cases)
  case unmatched
  then show ?thesis by simp
next
  case (checked initial p)
  let ?p = "prs_effectivePolicy p"
  from effective_verified [OF assms(1) checked(4)]
  have gov: "?p \<in> set ps" "governs ?p r" by (auto simp: governs_def)
  have "dec_policyVersion (evl_decision res) = pol_id ?p"
    using checked(5,6) by (simp add: applyDeterministicCheckReport_def)
  moreover have "dec_status (evl_decision res) =
      fst (terminalStatusAfterChecks ?p (rep_allPassed (runDeterministicReleaseChecks ?p (evl_decision initial) ob)))"
    using report_status [of ?p "evl_decision initial" ob] checked(6)
    by (metis applyDeterministicCheckReport_def fst_conv release_decision.select_convs(4)
        release_decision.simps release_decision.surjective release_decision.update_convs(4))
  ultimately show ?thesis
    using gov checked(6)
    by (intro bexI [of _ ?p])
      (auto simp: terminalStatusAfterChecks_def report_allPassed list_all_iff split: control_failure_disposition.split)
qed

section \<open>What a run leaves in the log\<close>

lemma memory_append_spec:
  "memory_append sha256 es u i = Inr (es', e) \<longleftrightarrow> e = next_entry sha256 es u i \<and> es' = es @ [e]"
  by (auto simp: memory_append_def Let_def)

lemma log_memory:
  "logEvaluation (Some (memory_append sha256)) es u r res ph b = Inr es' \<longleftrightarrow>
     es' = es @ [next_entry sha256 es u (evaluation_log_input r res ph b)]"
  by (auto simp: logEvaluation_def memory_append_spec)

lemma next_entry_status:
  "le_decisionStatus (ent_base (createReleaseDecisionLogEntry sha256 u (evaluation_log_input r res ph b) n pd))
     = dec_status (evl_decision res)"
  "le_requestId (ent_base (createReleaseDecisionLogEntry sha256 u (evaluation_log_input r res ph b) n pd)) = evr_id r"
  by (simp_all add: createReleaseDecisionLogEntry_def evaluation_log_input_def Let_def)

text \<open>
Every evaluation is logged. Evaluating a request with the in-memory log keeps the earlier
  entries, adds one entry when no policy governs it and two otherwise, leaves the chain valid,
  and the last entry carries the request and the status of the returned decision.
\<close>

theorem engine_logs_every_evaluation:
  assumes "lv_valid (verifyReleaseDecisionLogChain sha256 es)"
    and "evaluateWithDeterministicChecks sha256 eng (Some (memory_append sha256)) u1 u2 es r ob = Inr (res, d, es')"
  shows "lv_valid (verifyReleaseDecisionLogChain sha256 es') \<and>
    length es' = length es + (if d then 2 else 1) \<and> take (length es) es' = es \<and>
    le_decisionStatus (ent_base (last es')) = dec_status (evl_decision res) \<and>
    le_requestId (ent_base (last es')) = evr_id r"
proof -
  from assms(2) obtain initial e1 where e1: "e1 = es @ [next_entry sha256 es u1
      (evaluation_log_input r initial Log_policy_resolution False)]"
    and cs: "(res = initial \<and> \<not> d \<and> es' = e1) \<or>
      (d \<and> es' = e1 @ [next_entry sha256 e1 u2 (evaluation_log_input r res Log_deterministic_checks True)])"
    by (auto simp: evaluateWithDeterministicChecks_def log_memory Let_def split: if_splits option.splits)
  have v1: "lv_valid (verifyReleaseDecisionLogChain sha256 e1)"
    unfolding e1 by (rule chain_valid_append [OF assms(1)])
  from cs show ?thesis
  proof (elim disjE conjE)
    assume "res = initial" "\<not> d" "es' = e1"
    with v1 show ?thesis by (simp add: e1 next_entry_status)
  next
    assume d: d and es': "es' = e1 @ [next_entry sha256 e1 u2 (evaluation_log_input r res Log_deterministic_checks True)]"
    have "lv_valid (verifyReleaseDecisionLogChain sha256 es')"
      unfolding es' by (rule chain_valid_append [OF v1])
    moreover have "length es' = length es + 2" "take (length es) es' = es"
      by (simp_all add: es' e1)
    ultimately show ?thesis using d by (simp add: es' next_entry_status)
  qed
qed

section \<open>The engine always answers\<close>

lemma resolveEffective_total: "\<exists>x. resolveEffectiveReleasePolicy sha256 ps r idx = Inr x"
proof -
  have roll: "\<exists>x. rbind (resolveReleasePolicyRollout sha256 ro c) (\<lambda>y. Inr (f y)) = Inr x" for ro c
    and f :: "rollout_resolution \<Rightarrow> policy_resolution option"
    using resolve_total [of sha256 ro c] by auto
  show ?thesis
    unfolding resolveEffectiveReleasePolicy_def Let_def
    by (auto split: option.split simp del: rbind_eq_Inr intro!: roll)
qed

definition dated :: "evaluation_request \<Rightarrow> bool" where
  "dated r \<longleftrightarrow> (\<exists>t. evr_createdAt r = Iso t \<and>
     \<bar>t + defaultReleaseTokenTtlSecondsForRiskClass (oc_riskClass (evr_outputContract r)) * 1000\<bar> \<le> max_time_value)"

lemma skeleton_total:
  assumes "dated r"
  shows "\<exists>d. createReleaseDecisionSkeleton (skeleton_input r st v h pr f) = Inr d"
proof -
  from assms obtain cs where "defaultReleaseConditions (oc_riskClass (evr_outputContract r)) (evr_target r)
      (evr_createdAt r) = Inr cs"
    by (auto simp: dated_def defaultReleaseConditions_eq_Inr)
  then show ?thesis
    by (simp add: createReleaseDecisionSkeleton_def skeleton_input_def Let_def)
qed

lemma evaluateSkeleton_total:
  assumes "dated r"
  shows "\<exists>res. evaluateReleaseDecisionSkeleton sha256 r ps idx = Inr res"
proof -
  obtain x where x: "resolveEffectiveReleasePolicy sha256 ps r idx = Inr x"
    using resolveEffective_total by blast
  have "\<exists>res. rbind (createReleaseDecisionSkeleton (skeleton_input r st v h pr f)) (\<lambda>d. Inr (g d)) = Inr res"
    for st v h pr f and g :: "release_decision \<Rightarrow> evaluation_result"
    using skeleton_total [OF assms, of st v h pr f] by auto
  then show ?thesis
    by (cases x) (simp_all only: evaluateReleaseDecisionSkeleton_def Let_def x rbind.simps option.case)
qed

lemma evaluate_total:
  assumes "dated r"
  shows "\<exists>res d. evaluateWithDeterministicChecks sha256 eng None u1 u2 s r ob = Inr (res, d, s)"
proof -
  obtain x where x: "resolveEffectiveReleasePolicy sha256 (eng_policies eng) r (Some (eng_index eng)) = Inr x"
    using resolveEffective_total by blast
  obtain res where res: "evaluateReleaseDecisionSkeleton sha256 r (eng_policies eng) (Some (eng_index eng)) = Inr res"
    using evaluateSkeleton_total [OF assms] by blast
  show ?thesis
    by (cases x) (simp_all add: evaluateWithDeterministicChecks_def logEvaluation_def Let_def x res
        del: rbind_eq_Inr, blast+)
qed

lemma skeleton_dated:
  assumes "evaluateReleaseDecisionSkeleton sha256 r ps idx = Inr res"
  shows "dated r"
proof -
  have created: "dated r" if "createReleaseDecisionSkeleton (skeleton_input r st v h pr f) = Inr d" for st v h pr f d
    using that by (auto simp: createReleaseDecisionSkeleton_def skeleton_input_def Let_def dated_def
        defaultReleaseConditions_eq_Inr)
  show ?thesis
    using assms by (auto simp: evaluateReleaseDecisionSkeleton_def Let_def split: option.splits dest: created)
qed

lemma evaluation_dated: "evaluateWithDeterministicChecks sha256 eng w u1 u2 s r ob = Inr out \<Longrightarrow> dated r"
  using skeleton_dated unfolding evaluateWithDeterministicChecks_def
  by (cases "evaluateReleaseDecisionSkeleton sha256 r (eng_policies eng) (Some (eng_index eng))") auto

lemma evaluation_logs:
  assumes "evaluateWithDeterministicChecks sha256 eng w u1 u2 s r ob = Inr out"
  shows "\<exists>res s'. logEvaluation w s u1 r res Log_policy_resolution False = Inr s'"
  using assms by (auto simp: evaluateWithDeterministicChecks_def)

text \<open>When a writer accepts or refuses whatever the entry, evaluation returns when it accepts both.\<close>

lemma evaluation_returns_iff:
  assumes "createReleaseDecisionEngine sha256 (Some ps) = Inr eng"
    and ready: "\<And>s u res ph b. (\<exists>s'. logEvaluation w s u r res ph b = Inr s') \<longleftrightarrow> ready s"
  shows "(\<exists>out. evaluateWithDeterministicChecks sha256 eng w u1 u2 s r ob = Inr out) \<longleftrightarrow>
    dated r \<and> ready s \<and>
    (\<not> (\<exists>p\<in>set ps. governs p r) \<or> (\<exists>res s1. evaluate sha256 eng w u1 s r = Inr (res, s1) \<and> ready s1))"
proof (cases "dated r \<and> ready s")
  case False
  have "ready s" if "evaluateWithDeterministicChecks sha256 eng w u1 u2 s r ob = Inr out" for out
    using evaluation_logs [OF that] ready by blast
  with False show ?thesis using evaluation_dated [of sha256 eng w u1 u2 s r ob] by metis
next
  case True
  then obtain initial s1 where
    init: "evaluateReleaseDecisionSkeleton sha256 r (eng_policies eng) (Some (eng_index eng)) = Inr initial"
    and s1: "logEvaluation w s u1 r initial Log_policy_resolution False = Inr s1"
    using evaluateSkeleton_total ready by metis
  then have ev: "evaluate sha256 eng w u1 s r = Inr (initial, s1)" by (simp add: evaluate_def)
  show ?thesis
  proof (cases "evl_policyMatched initial")
    case False
    then have "evaluateWithDeterministicChecks sha256 eng w u1 u2 s r ob = Inr (initial, False, s1)"
      using init s1 by (simp add: evaluateWithDeterministicChecks_def)
    then show ?thesis using True matched_iff_governed [OF assms(1) init] False by blast
  next
    case matched: True
    obtain p where
      "resolveEffectiveReleasePolicy sha256 (eng_policies eng) r (Some (eng_index eng)) = Inr (Some p)"
      "evl_matchedPolicyId initial = Some (pol_id (prs_matchedPolicy p))"
      using init matched by (rule skeleton_matched)
    then have "(\<exists>out. evaluateWithDeterministicChecks sha256 eng w u1 u2 s r ob = Inr out) \<longleftrightarrow>
        (\<exists>res s2. logEvaluation w s1 u2 r res Log_deterministic_checks True = Inr s2)"
      using init s1 matched ready [of s1 u2]
      by (auto simp: evaluateWithDeterministicChecks_def Let_def simp del: rbind_eq_Inl)
    then have "(\<exists>out. evaluateWithDeterministicChecks sha256 eng w u1 u2 s r ob = Inr out) \<longleftrightarrow> ready s1"
      using ready by blast
    then show ?thesis using True matched matched_iff_governed [OF assms(1) init] ev by auto
  qed
qed

lemma writers_ready:
  "(\<exists>s'. logEvaluation None s u r res ph b = Inr s') \<longleftrightarrow> True"
  "(\<exists>es'. logEvaluation (Some (memory_append sha256)) es u r res ph b = Inr es') \<longleftrightarrow> True"
  "(\<exists>lines'. logEvaluation (Some (file_append sha256)) lines u r res ph b = Inr lines') \<longleftrightarrow>
     (\<exists>es. readReleaseDecisionLogEntries sha256 lines = Inr es)"
  by (auto simp: logEvaluation_def memory_append_def file_append_def Let_def)

text \<open>
  C9: When the engine answers. Without a decision log, and with the one in memory, an evaluation
  returns a decision exactly when the creation time of the request is a valid date (with its token
  lifetime inside the range of \<open>Date\<close>), whatever the policies, the observation and the digest. With
  the file-backed log the file must also be readable, and, if a policy governs the request, still
  be readable after the first of the two entries was written.
\<close>

theorem engine_total:
  assumes "createReleaseDecisionEngine sha256 (Some ps) = Inr eng"
  shows "((\<exists>out. evaluateWithDeterministicChecks sha256 eng None u1 u2 s r ob = Inr out) \<longleftrightarrow> dated r) \<and>
    ((\<exists>out. evaluateWithDeterministicChecks sha256 eng (Some (memory_append sha256)) u1 u2 es r ob = Inr out) \<longleftrightarrow>
       dated r) \<and>
    ((\<exists>out. evaluateWithDeterministicChecks sha256 eng (Some (file_append sha256)) u1 u2 lines r ob = Inr out) \<longleftrightarrow>
       dated r \<and> (\<exists>es. readReleaseDecisionLogEntries sha256 lines = Inr es) \<and>
       (\<not> (\<exists>p\<in>set ps. governs p r) \<or>
        (\<exists>res lines1 es. evaluate sha256 eng (Some (file_append sha256)) u1 lines r = Inr (res, lines1) \<and>
           readReleaseDecisionLogEntries sha256 lines1 = Inr es)))"
proof (intro conjI)
  show "(\<exists>out. evaluateWithDeterministicChecks sha256 eng None u1 u2 s r ob = Inr out) \<longleftrightarrow> dated r"
    using evaluation_dated [of sha256 eng None u1 u2 s r ob] evaluate_total [of r sha256 eng u1 u2 s ob] by blast
  have "evaluate sha256 eng (Some (memory_append sha256)) u1 es r \<noteq> Inl e" if "dated r" for e
    using evaluateSkeleton_total [OF that, of sha256 "eng_policies eng" "Some (eng_index eng)"]
    by (auto simp: evaluate_def logEvaluation_def memory_append_def Let_def)
  then have "\<exists>res es1. evaluate sha256 eng (Some (memory_append sha256)) u1 es r = Inr (res, es1)" if "dated r"
    using that by (cases "evaluate sha256 eng (Some (memory_append sha256)) u1 es r") auto
  then show "(\<exists>out. evaluateWithDeterministicChecks sha256 eng (Some (memory_append sha256)) u1 u2 es r ob = Inr out) \<longleftrightarrow>
       dated r"
    using evaluation_returns_iff [OF assms writers_ready(2)] by blast
  show "(\<exists>out. evaluateWithDeterministicChecks sha256 eng (Some (file_append sha256)) u1 u2 lines r ob = Inr out) \<longleftrightarrow>
       dated r \<and> (\<exists>es. readReleaseDecisionLogEntries sha256 lines = Inr es) \<and>
       (\<not> (\<exists>p\<in>set ps. governs p r) \<or>
        (\<exists>res lines1 es. evaluate sha256 eng (Some (file_append sha256)) u1 lines r = Inr (res, lines1) \<and>
           readReleaseDecisionLogEntries sha256 lines1 = Inr es))"
    using evaluation_returns_iff [OF assms writers_ready(3)] by simp
qed

section \<open>Automatic acceptance of a regulated release\<close>

definition gateway_observation :: check_observation where
  "gateway_observation =
     \<lparr> obs_actualArtifactType = ''financial-reporting.record-field'',
       obs_actualShape = ''structured financial record payload'',
       obs_observedTargetId = ''finance.reporting.record-store'',
       obs_usedTools = [''record-commit''], obs_usedDataDomains = [''financial-reporting''],
       obs_observedOutputHash = ''oh'', obs_observedConsequenceHash = ''ch'',
       obs_policyRulesSatisfied = True,
       obs_evidenceKinds = [''trace'', ''finding-log'', ''signature'', ''provenance''],
       obs_traceGradePassed = Some True, obs_provenanceBound = Some True,
       obs_downstreamReceiptConfirmed = Some True \<rparr>"

definition without_review :: "release_policy \<Rightarrow> release_policy" where
  "without_review p = p\<lparr>pol_release := (pol_release p)\<lparr>req_reviewMode := Auto\<rparr>\<rparr>"

lemma without_review_baseline: "meets_baseline (without_review p) = meets_baseline p"
  by (simp add: meets_baseline_def without_review_def Let_def)

lemma dated_gateway: "dated gateway_request"
  by (simp add: dated_def gateway_request_def max_time_value_def)

lemma gateway_fields:
  obtains p where "createFirstHardGatewayReleasePolicy = Inr p" "governs p gateway_request"
    "policy_size p \<le> 33000" "sco_riskClass (pol_scope p) = R4" "req_minimumReviewerCount (pol_release p) = 2"
    "ocp_allowedArtifactTypes (pol_outputContract p) = [''financial-reporting.record-field'',
       ''financial-reporting.filing-preparation-payload'', ''financial-reporting.structured-report-artifact'']"
    "ocp_expectedShape (pol_outputContract p) = ''structured financial record payload''"
    "cbp_allowedTools (pol_capabilityBoundary p) = [''xbrl-export'', ''filing-prepare'', ''record-commit'']"
    "cbp_allowedTargets (pol_capabilityBoundary p) = [''sec.edgar.filing.prepare'', ''finance.reporting.record-store'']"
    "cbp_allowedDataDomains (pol_capabilityBoundary p) = [''financial-reporting'']"
    "acc_requiredEvidenceKinds (pol_acceptance p) = [''trace'', ''finding-log'', ''signature'', ''provenance'']"
  by (simp add: createFirstHardGatewayReleasePolicy_def policy_creation_defs risk_control_defs
      FIRST_HARD_GATEWAY_WEDGE_def meets_baseline_def policy_size_def matchesReleasePolicyScope_def
      gateway_request_def governs_def)

lemma engine_runs:
  assumes "\<forall>p\<in>set ps. policy_size p \<le> 33000" and "p \<in> set ps" and "governs p r" and "dated r"
  obtains eng res where "createReleaseDecisionEngine sha256 (Some ps) = Inr eng"
    "evaluateWithDeterministicChecks sha256 eng None u1 u2 s r ob = Inr (res, True, s)"
proof -
  obtain index where "createCompiledAdmissionPolicyIndex sha256 ps = Inr index"
    using createIndex_succeeds [OF assms(1)] by blast
  then have eng: "createReleaseDecisionEngine sha256 (Some ps) = Inr \<lparr>eng_policies = ps, eng_index = index\<rparr>"
    by (simp add: createEngine_eq_Inr)
  from evaluate_total [OF assms(4), of sha256 "\<lparr>eng_policies = ps, eng_index = index\<rparr>" u1 u2 s ob]
  obtain res d where
    run: "evaluateWithDeterministicChecks sha256 \<lparr>eng_policies = ps, eng_index = index\<rparr> None u1 u2 s r ob
      = Inr (res, d, s)" by blast
  with evaluation_done_iff [OF eng run] assms(2,3) that [OF eng] show thesis by auto
qed

lemma auto_accept_run:
  "\<exists>q eng res. meets_baseline q \<and> sco_riskClass (pol_scope q) = R4 \<and>
     req_minimumReviewerCount (pol_release q) = 2 \<and>
     createReleaseDecisionEngine id (Some [q]) = Inr eng \<and>
     evaluateWithDeterministicChecks id eng None [] [] () gateway_request gateway_observation
       = Inr (res, True, ()) \<and>
     dec_status (evl_decision res) = Accepted \<and> dec_riskClass (evl_decision res) = R4"
proof -
  obtain p where p: "governs p gateway_request" "policy_size p \<le> 33000" "sco_riskClass (pol_scope p) = R4"
    "req_minimumReviewerCount (pol_release p) = 2"
    and fields: "ocp_allowedArtifactTypes (pol_outputContract p) = [''financial-reporting.record-field'',
       ''financial-reporting.filing-preparation-payload'', ''financial-reporting.structured-report-artifact'']"
    "ocp_expectedShape (pol_outputContract p) = ''structured financial record payload''"
    "cbp_allowedTools (pol_capabilityBoundary p) = [''xbrl-export'', ''filing-prepare'', ''record-commit'']"
    "cbp_allowedTargets (pol_capabilityBoundary p) = [''sec.edgar.filing.prepare'', ''finance.reporting.record-store'']"
    "cbp_allowedDataDomains (pol_capabilityBoundary p) = [''financial-reporting'']"
    "acc_requiredEvidenceKinds (pol_acceptance p) = [''trace'', ''finding-log'', ''signature'', ''provenance'']"
    by (rule gateway_fields)
  let ?q = "without_review p"
  have q: "governs ?q gateway_request" "policy_size ?q \<le> 33000"
    using p by (simp_all add: governs_def without_review_baseline)
      (simp_all add: without_review_def matchesReleasePolicyScope_def policy_size_def)
  from q(2) have "\<forall>p\<in>set [?q]. policy_size p \<le> 33000" by simp
  then obtain eng res where eng: "createReleaseDecisionEngine id (Some [?q]) = Inr eng"
    and run: "evaluateWithDeterministicChecks id eng None [] [] () gateway_request gateway_observation = Inr (res, True, ())"
    by (rule engine_runs [OF _ _ q(1) dated_gateway]) simp
  from run have "dec_status (evl_decision res) = Accepted \<and> dec_riskClass (evl_decision res) = R4"
  proof (cases rule: evaluation_result_cases)
    case (checked initial pr)
    from effective_verified [OF eng checked(4)] have eff: "prs_effectivePolicy pr = ?q" by simp
    from checked(2,3) have dec: "dec_outputHash (evl_decision initial) = ''oh''"
      "dec_consequenceHash (evl_decision initial) = ''ch''"
      "tgt_id (dec_target (evl_decision initial)) = ''finance.reporting.record-store''"
      "dec_riskClass (evl_decision initial) = R4"
      by (auto elim!: skeleton_matched simp: gateway_request_def)
    have "check_holds c (evl_decision initial) ?q gateway_observation" for c
      by (cases c) (simp_all add: dec fields gateway_observation_def without_review_def)
    then have "rep_allPassed (runDeterministicReleaseChecks ?q (evl_decision initial) gateway_observation)"
      by (simp add: report_allPassed within_budget_def gateway_observation_def)
    with report_status [of ?q "evl_decision initial" gateway_observation] checked(6) dec(4) show ?thesis
      by (simp add: eff terminalStatusAfterChecks_def applyDeterministicCheckReport_def without_review_def)
  qed simp
  moreover have "meets_baseline ?q" "sco_riskClass (pol_scope ?q) = R4" "req_minimumReviewerCount (pol_release ?q) = 2"
    using p by (simp_all add: governs_def without_review_baseline) (simp_all add: without_review_def)
  ultimately show ?thesis using eng run by blast
qed

section \<open>Witnesses\<close>

lemma gateway_run:
  obtains p eng res where "createFirstHardGatewayReleasePolicy = Inr p" "governs p gateway_request"
    "createReleaseDecisionEngine id (Some [p]) = Inr eng"
    "evaluateWithDeterministicChecks id eng None [] [] () gateway_request gateway_observation = Inr (res, True, ())"
proof -
  obtain p where p: "createFirstHardGatewayReleasePolicy = Inr p" "governs p gateway_request" "policy_size p \<le> 33000"
    by (rule gateway_fields)
  then have "\<forall>p\<in>set [p]. policy_size p \<le> 33000" by simp
  then obtain eng res where "createReleaseDecisionEngine id (Some [p]) = Inr eng"
    "evaluateWithDeterministicChecks id eng None [] [] () gateway_request gateway_observation = Inr (res, True, ())"
    by (rule engine_runs [OF _ _ p(2) dated_gateway]) simp
  with p that show thesis by blast
qed

theorem engine_fails_closed_witness:
  "\<exists>p eng res. createReleaseDecisionEngine id (Some [p]) = Inr eng \<and> governs p gateway_request \<and>
     evaluateWithDeterministicChecks id eng None [] [] () gateway_request gateway_observation = Inr (res, True, ())
     \<and> (True \<longleftrightarrow> (\<exists>p\<in>set [p]. governs p gateway_request))"
proof -
  obtain p eng res where run: "governs p gateway_request" "createReleaseDecisionEngine id (Some [p]) = Inr eng"
    "evaluateWithDeterministicChecks id eng None [] [] () gateway_request gateway_observation = Inr (res, True, ())"
    by (rule gateway_run)
  with engine_fails_closed [OF run(2,3)] show ?thesis by blast
qed

lemma empty_engine: "\<exists>eng. createReleaseDecisionEngine id (Some []) = Inr eng"
  using createIndex_succeeds [of "[]" id] by (auto simp: createReleaseDecisionEngine_def)

theorem engine_total_witness:
  "\<exists>p eng none. createFirstHardGatewayReleasePolicy = Inr p \<and> governs p gateway_request \<and>
     createReleaseDecisionEngine id (Some [p]) = Inr eng \<and> createReleaseDecisionEngine id (Some []) = Inr none \<and>
     (\<exists>out. evaluateWithDeterministicChecks id eng None [] [] () gateway_request gateway_observation = Inr out) \<and>
     (\<exists>out. evaluateWithDeterministicChecks id eng (Some (memory_append id)) ''u1'' ''u2'' []
        gateway_request gateway_observation = Inr out) \<and>
     \<not> (\<exists>out. evaluateWithDeterministicChecks id eng (Some (file_append id)) ''u1'' ''u2'' [None]
        gateway_request gateway_observation = Inr out) \<and>
     (\<exists>out. evaluateWithDeterministicChecks id none (Some (file_append id)) ''u1'' ''u2'' []
        gateway_request gateway_observation = Inr out)"
proof -
  obtain p eng res where p: "createFirstHardGatewayReleasePolicy = Inr p" "governs p gateway_request"
    "createReleaseDecisionEngine id (Some [p]) = Inr eng"
    by (rule gateway_run)
  obtain none where none: "createReleaseDecisionEngine id (Some []) = Inr none" using empty_engine by blast
  have "readReleaseDecisionLogEntries id [] = Inr []" by (simp add: readReleaseDecisionLogEntries_def)
  moreover have "readReleaseDecisionLogEntries id [None] \<noteq> Inr es" for es
    by (simp add: readReleaseDecisionLogEntries_def load_line_def)
  ultimately show ?thesis
    using p none engine_total [OF p(3), of "[]" "[]" "()" gateway_request gateway_observation]
      engine_total [OF p(3), of "''u1''" "''u2''" "()" gateway_request gateway_observation "[]" "[None]"]
      engine_total [OF none, of "''u1''" "''u2''" "()" gateway_request gateway_observation "[]" "[]"]
      dated_gateway
    by (intro exI [of _ p] exI [of _ eng] exI [of _ none]) auto
qed

theorem governed_verdict_witness:
  "\<exists>q eng res. sco_riskClass (pol_scope q) = R4 \<and> req_minimumReviewerCount (pol_release q) = 2 \<and>
     createReleaseDecisionEngine id (Some [q]) = Inr eng \<and>
     evaluateWithDeterministicChecks id eng None [] [] () gateway_request gateway_observation = Inr (res, True, ()) \<and>
     dec_status (evl_decision res) = Accepted \<and>
     (req_reviewMode (pol_release q) = Auto \<or> acc_failureDisposition (pol_acceptance q) = Dispose_observe)"
proof -
  obtain q eng res where run: "sco_riskClass (pol_scope q) = R4" "req_minimumReviewerCount (pol_release q) = 2"
    "createReleaseDecisionEngine id (Some [q]) = Inr eng"
    "evaluateWithDeterministicChecks id eng None [] [] () gateway_request gateway_observation = Inr (res, True, ())"
    "dec_status (evl_decision res) = Accepted"
    using auto_accept_run by blast
  from governed_verdict [OF run(3,4)] run(5)
  have "req_reviewMode (pol_release q) = Auto \<or> acc_failureDisposition (pol_acceptance q) = Dispose_observe"
    by (auto split: if_split_asm control_failure_disposition.split_asm)
  with run show ?thesis by blast
qed

theorem engine_accept_sound_witness:
  "\<exists>q eng res. createReleaseDecisionEngine id (Some [q]) = Inr eng \<and>
     evaluateWithDeterministicChecks id eng None [] [] () gateway_request gateway_observation = Inr (res, True, ()) \<and>
     dec_status (evl_decision res) = Accepted \<and> dec_policyVersion (evl_decision res) = pol_id q"
proof -
  obtain q eng res where run: "createReleaseDecisionEngine id (Some [q]) = Inr eng"
    "evaluateWithDeterministicChecks id eng None [] [] () gateway_request gateway_observation = Inr (res, True, ())"
    "dec_status (evl_decision res) = Accepted"
    using auto_accept_run by blast
  from engine_accept_sound [OF run] run show ?thesis by auto
qed

theorem engine_logs_every_evaluation_witness:
  "\<exists>res d es. evaluateWithDeterministicChecks id \<lparr>eng_policies = [], eng_index =
      \<lparr>pix_version = [], pix_entries = [], pix_rejectedEntries = [], pix_buckets = Map.empty\<rparr>\<rparr>
      (Some (memory_append id)) ''u1'' ''u2'' [] gateway_request gateway_observation = Inr (res, d, es) \<and>
      lv_valid (verifyReleaseDecisionLogChain id es) \<and> length es = (if d then 2 else 1)"
proof -
  let ?eng = "\<lparr>eng_policies = [], eng_index =
      \<lparr>pix_version = [], pix_entries = [], pix_rejectedEntries = [], pix_buckets = Map.empty\<rparr>\<rparr>"
  obtain res where init: "evaluateReleaseDecisionSkeleton id gateway_request [] (Some (eng_index ?eng)) = Inr res"
    using evaluateSkeleton_total [OF dated_gateway] by blast
  have "resolveEffectiveReleasePolicy id [] gateway_request (Some (eng_index ?eng)) = Inr None"
    by (simp add: resolveEffectiveReleasePolicy_def resolveCompiledAdmissionPolicyIndexEntry_def
        resolveCompiledAdmissionPolicyIndexEntries_def Let_def)
  with init have "\<not> evl_policyMatched res"
    by (auto elim!: skeleton_matched)
  with init obtain es where
    run: "evaluateWithDeterministicChecks id ?eng (Some (memory_append id)) ''u1'' ''u2'' [] gateway_request gateway_observation
      = Inr (res, False, es)"
    by (simp add: evaluateWithDeterministicChecks_def log_memory del: rbind_eq_Inr)
      (metis log_memory rbind.simps(2))
  from engine_logs_every_evaluation [OF chain_valid_Nil run] run show ?thesis by auto
qed

end
