(* ===== verification/Release_Token.thy ===== *)
theory Release_Token
  imports Release_Types Canonical_Json
begin

text \<open>
  Signed release tokens: src/release-kernel/release-token.ts.

  The issuer turns an accepted (or properly overridden) decision into a short-lived signed
  token, the verifier checks a presented token against a verification key. The JOSE library
  (\<open>importPKCS8\<close>, \<open>importSPKI\<close>, \<open>exportJWK\<close>, \<open>SignJWT\<close>, \<open>jwtVerify\<close>) and the fingerprint of a
  public key are not part of the repository's own logic: they are the record \<open>jose_api\<close>, an
  argument of every operation that uses them. The clock and the random identifier are
  arguments too. The lemmas show who may obtain a token, how long it lives, that an issued
  token is accepted by the verifier until it expires, and that exported key sets hold no
  private key member.
\<close>

section \<open>The signing library\<close>

record jwt_header =
  hdr_alg :: string
  hdr_kid :: "string option"

text \<open>
  What \<open>jwtVerify\<close> gives: the payload and header, the error for an expired token, or another
  error with its message.
\<close>

datatype jwt_outcome =
    Jwt_verified release_token_claims jwt_header
  | Jwt_expired
  | Jwt_error string

record jose_api =
  jose_fingerprint :: "string \<Rightarrow> string result"
  jose_importPKCS8 :: "string \<Rightarrow> string \<Rightarrow> string result"
  jose_importSPKI :: "string \<Rightarrow> string \<Rightarrow> string result"
  jose_exportJWK :: "string \<Rightarrow> (string \<times> json) list result"
  jose_sign :: "string \<Rightarrow> jwt_header \<Rightarrow> release_token_claims \<Rightarrow> string result"
  jose_verify :: "string \<Rightarrow> string \<Rightarrow> string \<Rightarrow> string option \<Rightarrow> js_date option \<Rightarrow> jwt_outcome"

section \<open>Data\<close>

definition RELEASE_TOKEN_ISSUANCE_SPEC_VERSION :: string where
  "RELEASE_TOKEN_ISSUANCE_SPEC_VERSION = ''attestor.release-token-issuance.v1''"

definition RELEASE_TOKEN_VERIFICATION_KEY_SPEC_VERSION :: string where
  "RELEASE_TOKEN_VERIFICATION_KEY_SPEC_VERSION = ''attestor.release-token-verification-key.v1''"

definition RELEASE_TOKEN_VERIFICATION_SPEC_VERSION :: string where
  "RELEASE_TOKEN_VERIFICATION_SPEC_VERSION = ''attestor.release-token-verification.v1''"

datatype release_token_signing_algorithm = EdDSA

fun signing_algorithm_str :: "release_token_signing_algorithm \<Rightarrow> string" where
  "signing_algorithm_str EdDSA = ''EdDSA''"

record token_issuer_input =
  iss_issuer :: string
  iss_privateKeyPem :: string
  iss_publicKeyPem :: string
  iss_keyId :: "string option"
  iss_algorithm :: "release_token_signing_algorithm option"
  iss_overrideAuthorityRoles :: "string list option"

record verification_key_input =
  vki_issuer :: string
  vki_publicKeyPem :: string
  vki_keyId :: "string option"
  vki_algorithm :: "release_token_signing_algorithm option"

record token_issue_input =
  tii_decision :: release_decision
  tii_subject :: "string option"
  tii_issuedAt :: "js_date option"
  tii_tokenId :: "string option"
  tii_ttlSeconds :: "int option"
  tii_audience :: "string option"
  tii_tenantId :: "string option"
  tii_scope :: "string option"
  tii_resource :: "string option"
  tii_actor :: "release_token_actor_claim option"
  tii_parentTokenId :: "string option"
  tii_exchangeId :: "string option"
  tii_exchangedAt :: "js_date option"
  tii_sourceAudience :: "string option"
  tii_tokenUse :: "release_token_use option"
  tii_confirmation :: "release_token_confirmation option"

record issued_release_token =
  irt_version :: string
  irt_tokenId :: string
  irt_token :: string
  irt_claims :: release_token_claims
  irt_keyId :: string
  irt_algorithm :: release_token_signing_algorithm
  irt_issuedAt :: timestamp
  irt_expiresAt :: timestamp
  irt_publicKeyFingerprint :: string

record release_token_verification_key =
  rvk_version :: string
  rvk_issuer :: string
  rvk_algorithm :: release_token_signing_algorithm
  rvk_keyId :: string
  rvk_publicKeyFingerprint :: string
  rvk_publicKeyPem :: string
  rvk_jwk :: "(string \<times> json) list"

record verify_token_input =
  vti_token :: string
  vti_verificationKey :: release_token_verification_key
  vti_audience :: "string option"
  vti_expectedTenantId :: "string option"
  vti_currentDate :: "js_date option"

record token_verification_result =
  tvr_version :: string
  tvr_claims :: release_token_claims
  tvr_protectedHeader :: jwt_header
  tvr_keyId :: "string option"
  tvr_publicKeyFingerprint :: string

definition DEFAULT_RELEASE_TOKEN_OVERRIDE_AUTHORITY_ROLES :: "string list" where
  "DEFAULT_RELEASE_TOKEN_OVERRIDE_AUTHORITY_ROLES =
     [''policy-admin'', ''policy-break-glass'', ''risk-owner'', ''compliance-officer'',
      ''security-admin'', ''incident-commander'', ''financial_reporting_manager'']"

text \<open>Overwriting members of an object (\<open>{...obj, k: v}\<close>).\<close>

abbreviation set_member :: "string \<Rightarrow> json \<Rightarrow> (string \<times> json) list \<Rightarrow> (string \<times> json) list" where
  "set_member k v obj \<equiv> upsert_by fst (k, v) obj"

section \<open>Verification keys\<close>

definition createReleaseTokenVerificationKey ::
  "jose_api \<Rightarrow> verification_key_input \<Rightarrow> release_token_verification_key result" where
  "createReleaseTokenVerificationKey jose input =
     (let algorithm = nullish (vki_algorithm input) EdDSA in
      rbind (jose_fingerprint jose (vki_publicKeyPem input)) (\<lambda>fingerprint.
      let keyId = nullish (vki_keyId input) fingerprint in
      rbind (jose_importSPKI jose (vki_publicKeyPem input) (signing_algorithm_str algorithm)) (\<lambda>publicKey.
      rbind (jose_exportJWK jose publicKey) (\<lambda>jwk. return
        \<lparr> rvk_version = RELEASE_TOKEN_VERIFICATION_KEY_SPEC_VERSION,
          rvk_issuer = vki_issuer input,
          rvk_algorithm = algorithm,
          rvk_keyId = keyId,
          rvk_publicKeyFingerprint = fingerprint,
          rvk_publicKeyPem = vki_publicKeyPem input,
          rvk_jwk =
            set_member ''alg'' (JString (signing_algorithm_str algorithm))
              (set_member ''use'' (JString ''sig'')
                (set_member ''kid'' (JString keyId) jwk)) \<rparr>))))"

definition private_jwk_members :: "string list" where
  "private_jwk_members = [''d'', ''p'', ''q'', ''dp'', ''dq'', ''qi'', ''k'']"

definition releaseTokenVerificationKeyToJwk ::
  "release_token_verification_key \<Rightarrow> (string \<times> json) list" where
  "releaseTokenVerificationKeyToJwk verificationKey =
     (let publicJwk = filter (\<lambda>(name, _). name \<notin> set private_jwk_members) (rvk_jwk verificationKey) in
      set_member ''key_ops'' (JArray [JString ''verify''])
        (set_member ''alg'' (JString (signing_algorithm_str (rvk_algorithm verificationKey)))
          (set_member ''use'' (JString ''sig'')
            (set_member ''kid'' (JString (rvk_keyId verificationKey)) publicJwk))))"

fun jwks_from :: "string list \<Rightarrow> release_token_verification_key list \<Rightarrow> (string \<times> json) list list" where
  "jwks_from seen [] = []"
| "jwks_from seen (verificationKey # verificationKeys) =
     (if rvk_keyId verificationKey \<in> set seen then jwks_from seen verificationKeys
      else releaseTokenVerificationKeyToJwk verificationKey #
             jwks_from (rvk_keyId verificationKey # seen) verificationKeys)"

definition releaseTokenVerificationKeysToJwks ::
  "release_token_verification_key list \<Rightarrow> (string \<times> json) list list" where
  "releaseTokenVerificationKeysToJwks verificationKeys = jwks_from [] verificationKeys"

definition releaseTokenVerificationKeyToJwks ::
  "release_token_verification_key \<Rightarrow> (string \<times> json) list list" where
  "releaseTokenVerificationKeyToJwks verificationKey = releaseTokenVerificationKeysToJwks [verificationKey]"

section \<open>Issuance\<close>

definition normalizeRole :: "string option \<Rightarrow> string" where
  "normalizeRole role = nullish (map_option (\<lambda>r. toLowerCase (trim r)) role) []"

definition assertDecisionEligibleForReleaseToken ::
  "release_decision \<Rightarrow> string list \<Rightarrow> unit result" where
  "assertDecisionEligibleForReleaseToken decision overrideAuthorityRoles =
     (if dec_status decision \<noteq> Accepted \<and> dec_status decision \<noteq> Overridden then
        throw (Error (''Release token issuance requires an accepted or overridden decision, received ''
          @ release_decision_status_str (dec_status decision) @ ''.''))
      else if dec_status decision \<noteq> Overridden then return ()
      else case dec_override decision of
        None \<Rightarrow> throw (Error ''Overridden release token issuance requires an explicit override grant.'')
      | Some override \<Rightarrow>
          if trim (og_reasonCode override) = [] then
            throw (Error ''Overridden release token issuance requires an override reasonCode.'')
          else
            let overrideRole = normalizeRole (act_role (og_requestedBy override)) in
            if overrideRole = [] then
              throw (Error ''Overridden release token issuance requires an override requester role.'')
            else
              let requiredRoles = ra_requiredRoles (dec_reviewAuthority decision);
                  allowedRoles = map (\<lambda>r. normalizeRole (Some r))
                    (if 0 < length requiredRoles then requiredRoles else overrideAuthorityRoles)
              in if overrideRole \<notin> set allowedRoles then
                   throw (Error (''Overridden release token issuance requires an authorized override requester role, received ''
                     @ nullish (act_role (og_requestedBy override)) ''undefined'' @ ''.''))
                 else return ())"

definition parseIssuedAt :: "int \<Rightarrow> js_date option \<Rightarrow> int result" where
  "parseIssuedAt now issuedAt =
     (case truthy_date issuedAt of
        None \<Rightarrow> return now
      | Some value \<Rightarrow>
          (case getTime value of
             None \<Rightarrow> throw (Error ''Release token issuance requires a valid issuedAt timestamp.'')
           | Some t \<Rightarrow> return t))"

definition parseOptionalEpochSeconds :: "js_date option \<Rightarrow> string \<Rightarrow> int option result" where
  "parseOptionalEpochSeconds value fieldName =
     (case value of
        None \<Rightarrow> return None
      | Some d \<Rightarrow>
          (case getTime d of
             None \<Rightarrow> throw (Error (''Release token issuance requires a valid '' @ fieldName @ '' timestamp.''))
           | Some t \<Rightarrow> return (Some (t div 1000))))"

definition resolveTokenTtlSeconds :: "release_decision \<Rightarrow> int \<Rightarrow> int option \<Rightarrow> int result" where
  "resolveTokenTtlSeconds decision issuedAt requestedTtl =
     (if requestedTtl \<noteq> None \<and> the requestedTtl \<le> 0 then
        throw (Error ''Release token issuance requires ttlSeconds to be positive when provided.'')
      else case truthy_date (releaseDecisionExpiresAt decision) of
        None \<Rightarrow>
          return (nullish requestedTtl (defaultReleaseTokenTtlSecondsForRiskClass (dec_riskClass decision)))
      | Some maxExpiry \<Rightarrow>
          (case getTime maxExpiry of
             None \<Rightarrow> throw (Error ''Release decision expiry is invalid and cannot be used for token issuance.'')
           | Some decisionExpiry \<Rightarrow>
               let maxAllowedTtl = (decisionExpiry - issuedAt) div 1000 in
               if maxAllowedTtl \<le> 0 then
                 throw (Error ''Release decision is already expired for token issuance.'')
               else return (case requestedTtl of None \<Rightarrow> maxAllowedTtl | Some r \<Rightarrow> min r maxAllowedTtl)))"

text \<open>The issuer's key identifier and algorithm, fixed when the issuer is created.\<close>

definition issuer_keyId :: "jose_api \<Rightarrow> token_issuer_input \<Rightarrow> (string \<times> string) result" where
  "issuer_keyId jose input =
     rbind (jose_fingerprint jose (iss_publicKeyPem input)) (\<lambda>fingerprint.
       return (nullish (iss_keyId input) fingerprint, fingerprint))"

definition issue ::
  "jose_api \<Rightarrow> int \<Rightarrow> string \<Rightarrow> token_issuer_input \<Rightarrow> token_issue_input \<Rightarrow> issued_release_token result" where
  "issue jose now uuid input issueInput =
     (let algorithm = nullish (iss_algorithm input) EdDSA;
          overrideAuthorityRoles =
            nullish (iss_overrideAuthorityRoles input) DEFAULT_RELEASE_TOKEN_OVERRIDE_AUTHORITY_ROLES;
          decision = tii_decision issueInput
      in
      rbind (issuer_keyId jose input) (\<lambda>(keyId, fingerprint).
      rbind (assertDecisionEligibleForReleaseToken decision overrideAuthorityRoles) (\<lambda>_.
      rbind (parseIssuedAt now (tii_issuedAt issueInput)) (\<lambda>issuedAt.
      let issuedAtEpochSeconds = issuedAt div 1000 in
      rbind (resolveTokenTtlSeconds decision issuedAt (tii_ttlSeconds issueInput)) (\<lambda>ttlSeconds.
      let tokenId = nullish (tii_tokenId issueInput) (''rt_'' @ uuid) in
      rbind (parseOptionalEpochSeconds (tii_exchangedAt issueInput) ''exchangedAt'') (\<lambda>exchangedAt.
      rbind (buildReleaseTokenClaims
        \<lparr> tci_issuer = iss_issuer input,
          tci_subject = nullish (tii_subject issueInput) (''releaseDecision:'' @ dec_id decision),
          tci_tokenId = tokenId,
          tci_issuedAtEpochSeconds = issuedAtEpochSeconds,
          tci_ttlSeconds = ttlSeconds,
          tci_decision = decision,
          tci_audience = tii_audience issueInput,
          tci_tenantId = tii_tenantId issueInput,
          tci_scope = tii_scope issueInput,
          tci_resource = tii_resource issueInput,
          tci_actor = tii_actor issueInput,
          tci_parentTokenId = tii_parentTokenId issueInput,
          tci_exchangeId = tii_exchangeId issueInput,
          tci_exchangedAtEpochSeconds = exchangedAt,
          tci_sourceAudience = tii_sourceAudience issueInput,
          tci_tokenUse = tii_tokenUse issueInput,
          tci_confirmation = tii_confirmation issueInput \<rparr>) (\<lambda>claims.
      rbind (jose_importPKCS8 jose (iss_privateKeyPem input) (signing_algorithm_str algorithm)) (\<lambda>privateKey.
      rbind (jose_sign jose privateKey
        \<lparr> hdr_alg = signing_algorithm_str algorithm, hdr_kid = Some keyId \<rparr> claims) (\<lambda>token.
      rbind (toISO (clm_iat claims * 1000)) (\<lambda>issuedAtIso.
      rbind (toISO (clm_exp claims * 1000)) (\<lambda>expiresAtIso. return
        \<lparr> irt_version = RELEASE_TOKEN_ISSUANCE_SPEC_VERSION,
          irt_tokenId = tokenId,
          irt_token = token,
          irt_claims = claims,
          irt_keyId = keyId,
          irt_algorithm = algorithm,
          irt_issuedAt = issuedAtIso,
          irt_expiresAt = expiresAtIso,
          irt_publicKeyFingerprint = fingerprint \<rparr>)))))))))))"

definition exportVerificationKey ::
  "jose_api \<Rightarrow> token_issuer_input \<Rightarrow> release_token_verification_key result" where
  "exportVerificationKey jose input =
     rbind (issuer_keyId jose input) (\<lambda>(keyId, _).
       createReleaseTokenVerificationKey jose
         \<lparr> vki_issuer = iss_issuer input,
           vki_publicKeyPem = iss_publicKeyPem input,
           vki_keyId = Some keyId,
           vki_algorithm = Some (nullish (iss_algorithm input) EdDSA) \<rparr>)"

section \<open>Verification\<close>

definition normalizeOptionalExpectedTenantId :: "string option \<Rightarrow> string option result" where
  "normalizeOptionalExpectedTenantId value =
     (case value of
        None \<Rightarrow> return None
      | Some v \<Rightarrow>
          if trim v = [] then
            throw (ReleaseTokenVerificationFailure Token_invalid
              ''Release token expected tenant_id cannot be blank.'')
          else return (Some (trim v)))"

definition verifyIssuedReleaseToken ::
  "jose_api \<Rightarrow> verify_token_input \<Rightarrow> token_verification_result result" where
  "verifyIssuedReleaseToken jose input =
     (let key = vti_verificationKey input in
      rbind (jose_importSPKI jose (rvk_publicKeyPem key) (signing_algorithm_str (rvk_algorithm key))) (\<lambda>publicKey.
      case jose_verify jose (vti_token input) publicKey (rvk_issuer key) (vti_audience input)
             (truthy_date (vti_currentDate input)) of
        Jwt_expired \<Rightarrow>
          throw (ReleaseTokenVerificationFailure Token_expired ''Release token has expired.'')
      | Jwt_error message \<Rightarrow> throw (ReleaseTokenVerificationFailure Token_invalid message)
      | Jwt_verified claims header \<Rightarrow>
          if hdr_alg header \<noteq> signing_algorithm_str (rvk_algorithm key) then
            throw (ReleaseTokenVerificationFailure Token_invalid
              ''Release token protected header algorithm does not match the verification key.'')
          else if hdr_kid header \<noteq> Some (rvk_keyId key) then
            throw (ReleaseTokenVerificationFailure Token_invalid
              ''Release token protected header kid does not match the verification key.'')
          else
            rbind (normalizeOptionalExpectedTenantId (vti_expectedTenantId input)) (\<lambda>expectedTenantId.
            if expectedTenantId \<noteq> None \<and> clm_tenant_id claims \<noteq> expectedTenantId then
              throw (ReleaseTokenVerificationFailure Token_invalid
                ''Release token tenant_id does not match the expected tenant.'')
            else return
              \<lparr> tvr_version = RELEASE_TOKEN_VERIFICATION_SPEC_VERSION,
                tvr_claims = claims,
                tvr_protectedHeader = header,
                tvr_keyId = hdr_kid header,
                tvr_publicKeyFingerprint = rvk_publicKeyFingerprint key \<rparr>)))"

section \<open>Who may obtain a token, and for how long\<close>

text \<open>The role a requester needs for a token on an overridden decision.\<close>

definition override_role_allowed :: "release_decision \<Rightarrow> string list \<Rightarrow> string \<Rightarrow> bool" where
  "override_role_allowed decision roles role \<longleftrightarrow>
     list_ex (\<lambda>r. normalizeRole (Some r) = normalizeRole (Some role))
       (let required = ra_requiredRoles (dec_reviewAuthority decision) in
        if required = [] then roles else required)"

definition token_eligible :: "release_decision \<Rightarrow> string list \<Rightarrow> bool" where
  "token_eligible decision roles \<longleftrightarrow>
     dec_status decision = Accepted \<or>
     dec_status decision = Overridden \<and>
     (case dec_override decision of
        None \<Rightarrow> False
      | Some grant \<Rightarrow> trim (og_reasonCode grant) \<noteq> [] \<and>
          (case act_role (og_requestedBy grant) of
             None \<Rightarrow> False
           | Some role \<Rightarrow> trim role \<noteq> [] \<and> override_role_allowed decision roles role))"

lemma normalizeRole_Nil [simp]: "normalizeRole (Some r) = [] \<longleftrightarrow> trim r = []"
  by (simp add: normalizeRole_def toLowerCase_def)

lemma eligible_eq_Inr:
  "assertDecisionEligibleForReleaseToken decision roles = Inr u \<longleftrightarrow> token_eligible decision roles"
  by (auto simp: assertDecisionEligibleForReleaseToken_def token_eligible_def Let_def
      override_role_allowed_def list_ex_iff normalizeRole_def toLowerCase_def image_iff
      split: option.splits if_splits)

lemma ttl_eq_Inr:
  assumes "resolveTokenTtlSeconds decision t req = Inr ttl"
  shows "0 < ttl" and "\<And>r. req = Some r \<Longrightarrow> ttl \<le> r"
    and "\<And>e. releaseDecisionExpiresAt decision = Some (Iso e) \<Longrightarrow> ttl \<le> (e - t) div 1000"
proof -
  have "0 < defaultReleaseTokenTtlSecondsForRiskClass (dec_riskClass decision)"
    by (cases "dec_riskClass decision") simp_all
  then show "0 < ttl" using assms
    by (cases req) (auto simp: resolveTokenTtlSeconds_def Let_def split: option.splits if_splits)
  show "ttl \<le> r" if "req = Some r" for r
    using assms that by (auto simp: resolveTokenTtlSeconds_def Let_def split: option.splits if_splits)
  show "ttl \<le> (e - t) div 1000" if "releaseDecisionExpiresAt decision = Some (Iso e)" for e
    using assms that
    by (cases req) (auto simp: resolveTokenTtlSeconds_def Let_def split: if_splits)
qed

lemma whole_seconds_le: "x div 1000 * 1000 \<le> (x::int)"
  by (simp flip: minus_mod_eq_div_mult)

lemma seconds_le_iff: "x \<le> d div 1000 \<longleftrightarrow> x * 1000 \<le> (d::int)"
proof
  assume "x \<le> d div 1000"
  then have "x * 1000 \<le> d div 1000 * 1000" by simp
  then show "x * 1000 \<le> d" using whole_seconds_le order_trans by blast
next
  assume "x * 1000 \<le> d"
  then have "x * 1000 div 1000 \<le> d div 1000" by (rule zdiv_mono1) simp
  then show "x \<le> d div 1000" by simp
qed

text \<open>The claims bind the token to the decision it was issued for.\<close>

definition claims_of_decision :: "release_decision \<Rightarrow> release_token_claims \<Rightarrow> bool" where
  "claims_of_decision d c \<longleftrightarrow>
     clm_decision_id c = dec_id d \<and> clm_decision c = dec_status d \<and>
     clm_consequence_type c = dec_consequenceType d \<and> clm_risk_class c = dec_riskClass d \<and>
     clm_output_hash c = dec_outputHash d \<and> clm_consequence_hash c = dec_consequenceHash d \<and>
     clm_policy_hash c = dec_policyHash d \<and>
     clm_policy_version c = Some (dec_policyVersion d) \<and>
     clm_policy_ir_hash c = truthy_str (Option.bind (dec_policyProvenance d) prov_compiledPolicyIrHash) \<and>
     clm_policy_provenance_source c = map_option prov_source (dec_policyProvenance d) \<and>
     clm_compiled_policy_index_version c =
       truthy_str (Option.bind (dec_policyProvenance d) prov_compiledPolicyIndexVersion) \<and>
     clm_compiled_policy_ir_version c =
       truthy_str (Option.bind (dec_policyProvenance d) prov_compiledPolicyIrVersion) \<and>
     clm_override c = (dec_override d \<noteq> None \<or> dec_status d = Overridden) \<and>
     clm_introspection_required c = releaseDecisionRequiresIntrospection d \<and>
     clm_authority_mode c = ra_mode (dec_reviewAuthority d)"

lemma claims_eq_Inr:
  assumes "buildReleaseTokenClaims i = Inr c"
  shows "claims_of_decision (tci_decision i) c"
    and "clm_iss c = tci_issuer i" "clm_jti c = tci_tokenId i" "clm_sub c = tci_subject i"
    and "clm_iat c = tci_issuedAtEpochSeconds i" "clm_nbf c = clm_iat c"
    and "clm_exp c = tci_issuedAtEpochSeconds i + tci_ttlSeconds i"
    and "clm_aud c = nullish (tci_audience i) (tgt_id (dec_target (tci_decision i)))"
  using assms by (auto simp: buildReleaseTokenClaims_def claims_of_decision_def Let_def)

text \<open>Everything an issued token says about its decision, key and lifetime.\<close>

lemma issue_facts:
  assumes "issue jose now uuid I i = Inr t"
  defines "d \<equiv> tii_decision i"
  obtains t0 ttl fp pk where
    "parseIssuedAt now (tii_issuedAt i) = Inr t0"
    "token_eligible d (nullish (iss_overrideAuthorityRoles I) DEFAULT_RELEASE_TOKEN_OVERRIDE_AUTHORITY_ROLES)"
    "resolveTokenTtlSeconds d t0 (tii_ttlSeconds i) = Inr ttl"
    "jose_fingerprint jose (iss_publicKeyPem I) = Inr fp"
    "claims_of_decision d (irt_claims t)"
    "clm_iss (irt_claims t) = iss_issuer I"
    "clm_aud (irt_claims t) = nullish (tii_audience i) (tgt_id (dec_target d))"
    "clm_jti (irt_claims t) = irt_tokenId t"
    "clm_iat (irt_claims t) = t0 div 1000"
    "clm_nbf (irt_claims t) = t0 div 1000"
    "clm_exp (irt_claims t) = t0 div 1000 + ttl"
    "irt_issuedAt t = clm_iat (irt_claims t) * 1000"
    "irt_expiresAt t = clm_exp (irt_claims t) * 1000"
    "irt_keyId t = nullish (iss_keyId I) fp"
    "irt_algorithm t = nullish (iss_algorithm I) EdDSA"
    "jose_importPKCS8 jose (iss_privateKeyPem I) (signing_algorithm_str (irt_algorithm t)) = Inr pk"
    "jose_sign jose pk \<lparr> hdr_alg = signing_algorithm_str (irt_algorithm t), hdr_kid = Some (irt_keyId t) \<rparr>
       (irt_claims t) = Inr (irt_token t)"
proof -
  let ?in = "\<lambda>t0 ttl xat.
    \<lparr> tci_issuer = iss_issuer I,
      tci_subject = nullish (tii_subject i) (''releaseDecision:'' @ dec_id d),
      tci_tokenId = irt_tokenId t, tci_issuedAtEpochSeconds = t0 div 1000, tci_ttlSeconds = ttl,
      tci_decision = d, tci_audience = tii_audience i, tci_tenantId = tii_tenantId i,
      tci_scope = tii_scope i, tci_resource = tii_resource i, tci_actor = tii_actor i,
      tci_parentTokenId = tii_parentTokenId i, tci_exchangeId = tii_exchangeId i,
      tci_exchangedAtEpochSeconds = xat, tci_sourceAudience = tii_sourceAudience i,
      tci_tokenUse = tii_tokenUse i, tci_confirmation = tii_confirmation i \<rparr>"
  obtain t0 ttl fp pk xat where *:
    "parseIssuedAt now (tii_issuedAt i) = Inr t0"
    "token_eligible d (nullish (iss_overrideAuthorityRoles I) DEFAULT_RELEASE_TOKEN_OVERRIDE_AUTHORITY_ROLES)"
    "resolveTokenTtlSeconds d t0 (tii_ttlSeconds i) = Inr ttl"
    "jose_fingerprint jose (iss_publicKeyPem I) = Inr fp"
    "irt_keyId t = nullish (iss_keyId I) fp"
    "irt_algorithm t = nullish (iss_algorithm I) EdDSA"
    "jose_importPKCS8 jose (iss_privateKeyPem I) (signing_algorithm_str (irt_algorithm t)) = Inr pk"
    "jose_sign jose pk \<lparr> hdr_alg = signing_algorithm_str (irt_algorithm t), hdr_kid = Some (irt_keyId t) \<rparr>
       (irt_claims t) = Inr (irt_token t)"
    "irt_issuedAt t = clm_iat (irt_claims t) * 1000"
    "irt_expiresAt t = clm_exp (irt_claims t) * 1000"
    and claims: "buildReleaseTokenClaims (?in t0 ttl xat) = Inr (irt_claims t)"
    using assms by (auto simp: issue_def issuer_keyId_def Let_def eligible_eq_Inr)
  from claims_eq_Inr [OF claims] show thesis
    by (intro that [OF *(1-4) _ _ _ _ _ _ _ *(9,10,5-8)]) simp_all
qed

text \<open>
  C12: A token is issued only for an accepted decision, or for an overridden one whose grant
  has a reason and a requester with an authorized role. Its claims carry the decision's
  identity, status and hashes; it lives for a positive time, never longer than requested, and
  never beyond the expiry the decision states.\<close>

theorem token_issue_sound:
  assumes "issue jose now uuid I i = Inr t"
  shows "token_eligible (tii_decision i)
      (nullish (iss_overrideAuthorityRoles I) DEFAULT_RELEASE_TOKEN_OVERRIDE_AUTHORITY_ROLES) \<and>
    claims_of_decision (tii_decision i) (irt_claims t) \<and>
    irt_issuedAt t < irt_expiresAt t \<and>
    (case tii_ttlSeconds i of None \<Rightarrow> True | Some r \<Rightarrow> irt_expiresAt t \<le> irt_issuedAt t + r * 1000) \<and>
    (case releaseDecisionExpiresAt (tii_decision i) of Some (Iso e) \<Rightarrow> irt_expiresAt t \<le> e | _ \<Rightarrow> True)"
proof -
  obtain t0 ttl where elig: "token_eligible (tii_decision i)
      (nullish (iss_overrideAuthorityRoles I) DEFAULT_RELEASE_TOKEN_OVERRIDE_AUTHORITY_ROLES)"
    and ttl: "resolveTokenTtlSeconds (tii_decision i) t0 (tii_ttlSeconds i) = Inr ttl"
    and claims: "claims_of_decision (tii_decision i) (irt_claims t)"
    and times: "irt_issuedAt t = t0 div 1000 * 1000" "irt_expiresAt t = (t0 div 1000 + ttl) * 1000"
    using assms by (rule issue_facts) auto
  have "(t0 div 1000 + ttl) * 1000 \<le> e" if "ttl \<le> (e - t0) div 1000" for e
  proof -
    have "ttl * 1000 \<le> (e - t0) div 1000 * 1000" using that by simp
    also have "\<dots> \<le> e - t0" by (rule whole_seconds_le)
    finally show ?thesis using whole_seconds_le [of t0] by (simp add: distrib_right)
  qed
  then show ?thesis
    using elig claims times ttl_eq_Inr [OF ttl] by (auto split: option.splits js_date.splits)
qed

section \<open>Issued tokens verify until they expire\<close>

text \<open>
  What the JOSE library documents of \<open>jwtVerify\<close> on a token it signed with the matching
  private key: issuer and audience must match, then the not-before and expiry instants are
  compared with the given date in whole seconds.
\<close>

definition jwt_check ::
  "release_token_claims \<Rightarrow> jwt_header \<Rightarrow> string \<Rightarrow> string option \<Rightarrow> timestamp \<Rightarrow> jwt_outcome" where
  "jwt_check claims header issuer audience date =
     (if clm_iss claims \<noteq> issuer then Jwt_error ''unexpected iss claim value''
      else if audience \<noteq> None \<and> audience \<noteq> Some (clm_aud claims) then
        Jwt_error ''unexpected aud claim value''
      else if clm_nbf claims > date div 1000 then Jwt_error ''nbf claim timestamp check failed''
      else if clm_exp claims \<le> date div 1000 then Jwt_expired
      else Jwt_verified claims header)"

definition signature_checks ::
  "jose_api \<Rightarrow> string \<Rightarrow> string \<Rightarrow> jwt_header \<Rightarrow> release_token_claims \<Rightarrow> bool" where
  "signature_checks jose publicKey token header claims \<longleftrightarrow>
     (\<forall>issuer audience date.
        jose_verify jose token publicKey issuer audience (Some (Iso date)) =
          jwt_check claims header issuer audience date)"

lemma expected_tenant_eq_Inr:
  "normalizeOptionalExpectedTenantId None = Inr x \<longleftrightarrow> x = None"
  "normalizeOptionalExpectedTenantId (Some v) = Inr x \<longleftrightarrow> trim v \<noteq> [] \<and> x = Some (trim v)"
  by (auto simp: normalizeOptionalExpectedTenantId_def)

lemma verify_eq_Inr:
  "verifyIssuedReleaseToken jose input = Inr r \<longleftrightarrow>
     (\<exists>publicKey claims header.
        jose_importSPKI jose (rvk_publicKeyPem (vti_verificationKey input))
          (signing_algorithm_str (rvk_algorithm (vti_verificationKey input))) = Inr publicKey \<and>
        jose_verify jose (vti_token input) publicKey (rvk_issuer (vti_verificationKey input))
          (vti_audience input) (truthy_date (vti_currentDate input)) = Jwt_verified claims header \<and>
        hdr_alg header = signing_algorithm_str (rvk_algorithm (vti_verificationKey input)) \<and>
        hdr_kid header = Some (rvk_keyId (vti_verificationKey input)) \<and>
        (case vti_expectedTenantId input of
           None \<Rightarrow> True
         | Some tenant \<Rightarrow> trim tenant \<noteq> [] \<and> clm_tenant_id claims = Some (trim tenant)) \<and>
        r = \<lparr> tvr_version = RELEASE_TOKEN_VERIFICATION_SPEC_VERSION, tvr_claims = claims,
              tvr_protectedHeader = header, tvr_keyId = hdr_kid header,
              tvr_publicKeyFingerprint = rvk_publicKeyFingerprint (vti_verificationKey input) \<rparr>)"
proof (cases "jose_importSPKI jose (rvk_publicKeyPem (vti_verificationKey input))
    (signing_algorithm_str (rvk_algorithm (vti_verificationKey input)))")
  case (Inr pk)
  then show ?thesis
    by (cases "jose_verify jose (vti_token input) pk (rvk_issuer (vti_verificationKey input))
          (vti_audience input) (truthy_date (vti_currentDate input))"; cases "vti_expectedTenantId input")
      (auto simp: verifyIssuedReleaseToken_def Let_def expected_tenant_eq_Inr)
qed (simp add: verifyIssuedReleaseToken_def Let_def)

lemma exported_key_facts:
  assumes "exportVerificationKey jose I = Inr key"
  obtains fp publicKey where
    "jose_fingerprint jose (iss_publicKeyPem I) = Inr fp"
    "jose_importSPKI jose (iss_publicKeyPem I)
       (signing_algorithm_str (nullish (iss_algorithm I) EdDSA)) = Inr publicKey"
    "rvk_issuer key = iss_issuer I" "rvk_publicKeyPem key = iss_publicKeyPem I"
    "rvk_keyId key = nullish (iss_keyId I) fp" "rvk_algorithm key = nullish (iss_algorithm I) EdDSA"
    "rvk_publicKeyFingerprint key = fp"
  using assms
  by (auto simp: exportVerificationKey_def issuer_keyId_def createReleaseTokenVerificationKey_def Let_def)

definition verify_request ::
  "string \<Rightarrow> release_token_verification_key \<Rightarrow> string \<Rightarrow> string option \<Rightarrow> timestamp \<Rightarrow> verify_token_input" where
  "verify_request token key audience tenant date =
     \<lparr> vti_token = token, vti_verificationKey = key, vti_audience = Some audience,
       vti_expectedTenantId = tenant, vti_currentDate = Some (Iso date) \<rparr>"

text \<open>The header the issuer signs.\<close>

definition issued_header :: "issued_release_token \<Rightarrow> jwt_header" where
  "issued_header t =
     \<lparr> hdr_alg = signing_algorithm_str (irt_algorithm t), hdr_kid = Some (irt_keyId t) \<rparr>"

lemma issued_token_cases:
  assumes "issue jose now uuid I i = Inr t" and "exportVerificationKey jose I = Inr key"
    and "jose_importSPKI jose (rvk_publicKeyPem key) (signing_algorithm_str (rvk_algorithm key)) = Inr pub"
    and "signature_checks jose pub (irt_token t) (issued_header t) (irt_claims t)"
  shows "(case verifyIssuedReleaseToken jose
            (verify_request (irt_token t) key (clm_aud (irt_claims t)) tenant date) of
       Inr r \<Rightarrow> irt_issuedAt t \<le> date \<and> date < irt_expiresAt t \<and>
         (tenant = None \<or> clm_tenant_id (irt_claims t) = map_option trim tenant) \<and>
         tvr_claims r = irt_claims t \<and> tvr_keyId r = Some (irt_keyId t) \<and>
         tvr_publicKeyFingerprint r = irt_publicKeyFingerprint t
     | Inl (ReleaseTokenVerificationFailure Token_expired _) \<Rightarrow> irt_expiresAt t \<le> date
     | Inl (ReleaseTokenVerificationFailure Token_invalid _) \<Rightarrow>
         date < irt_issuedAt t \<or>
         tenant \<noteq> None \<and>
           (map_option trim tenant = Some [] \<or> clm_tenant_id (irt_claims t) \<noteq> map_option trim tenant)
     | Inl _ \<Rightarrow> False)"
proof -
  obtain fp where facts: "rvk_issuer key = clm_iss (irt_claims t)" "rvk_keyId key = irt_keyId t"
    "rvk_algorithm key = irt_algorithm t" "rvk_publicKeyFingerprint key = fp"
    "clm_nbf (irt_claims t) = clm_iat (irt_claims t)"
    "irt_issuedAt t = clm_iat (irt_claims t) * 1000" "irt_expiresAt t = clm_exp (irt_claims t) * 1000"
    "jose_fingerprint jose (iss_publicKeyPem I) = Inr fp"
    by (rule issue_facts [OF assms(1)], rule exported_key_facts [OF assms(2)]) auto
  have fp: "irt_publicKeyFingerprint t = fp"
    using assms(1) facts(8) by (auto simp: issue_def issuer_keyId_def Let_def)
  have secs: "x \<le> date div 1000 \<longleftrightarrow> x * 1000 \<le> date" for x
    by (rule seconds_le_iff)
  show ?thesis
    using assms(3,4) facts fp
    by (cases tenant) (auto simp: verifyIssuedReleaseToken_def verify_request_def Let_def
        signature_checks_def jwt_check_def issued_header_def normalizeOptionalExpectedTenantId_def
        secs not_le)
qed

text \<open>
  C14: An issued token, presented with the issuer's exported key to its own audience, is not
  yet valid before the second it was issued in, verifies with exactly its claims until it
  expires, and is refused as expired from then on; a tenant is accepted only when it is the
  tenant of the token.\<close>

theorem issued_token_verifies:
  assumes "issue jose now uuid I i = Inr t" and "exportVerificationKey jose I = Inr key"
    and "jose_importSPKI jose (rvk_publicKeyPem key) (signing_algorithm_str (rvk_algorithm key)) = Inr pub"
    and "signature_checks jose pub (irt_token t) (issued_header t) (irt_claims t)"
  shows "(case verifyIssuedReleaseToken jose
            (verify_request (irt_token t) key (clm_aud (irt_claims t)) tenant date) of
       Inr r \<Rightarrow> irt_issuedAt t \<le> date \<and> date < irt_expiresAt t \<and>
         (tenant = None \<or> clm_tenant_id (irt_claims t) = map_option trim tenant) \<and>
         tvr_claims r = irt_claims t \<and> tvr_keyId r = Some (irt_keyId t) \<and>
         tvr_publicKeyFingerprint r = irt_publicKeyFingerprint t
     | Inl (ReleaseTokenVerificationFailure Token_expired _) \<Rightarrow> irt_expiresAt t \<le> date
     | Inl (ReleaseTokenVerificationFailure Token_invalid _) \<Rightarrow>
         date < irt_issuedAt t \<or>
         tenant \<noteq> None \<and>
           (map_option trim tenant = Some [] \<or> clm_tenant_id (irt_claims t) \<noteq> map_option trim tenant)
     | Inl _ \<Rightarrow> False)"
  using assms by (rule issued_token_cases)

section \<open>Exported key sets\<close>

lemma map_of_set_member: "map_of (set_member k v obj) = (map_of obj)(k \<mapsto> v)"
  by (induction obj) (auto simp: fun_eq_iff)

lemma fst_set_member: "fst ` set (set_member k v obj) = insert k (fst ` set obj)"
  by (induction obj) auto

lemma jwk_kid: "map_of (releaseTokenVerificationKeyToJwk k) ''kid'' = Some (JString (rvk_keyId k))"
  by (simp add: releaseTokenVerificationKeyToJwk_def Let_def map_of_set_member)

lemma jwk_public: "fst ` set (releaseTokenVerificationKeyToJwk k) \<inter> set private_jwk_members = {}"
  by (auto simp: releaseTokenVerificationKeyToJwk_def Let_def fst_set_member private_jwk_members_def)

lemma jwks_from_public: "key \<in> set (jwks_from seen ks) \<Longrightarrow> fst ` set key \<inter> set private_jwk_members = {}"
  by (induction seen ks rule: jwks_from.induct) (use jwk_public in \<open>fastforce split: if_splits\<close>)+

lemma jwks_from_kids:
  "distinct (map (\<lambda>key. map_of key ''kid'') (jwks_from seen ks))"
  "(\<lambda>key. map_of key ''kid'') ` set (jwks_from seen ks) =
     (\<lambda>k. Some (JString k)) ` (rvk_keyId ` set ks - set seen)"
  by (induction seen ks rule: jwks_from.induct) (auto simp: jwk_kid)

text \<open>
  An exported key set holds no private key member, no key identifier twice, and a key for
  exactly the identifiers of the given verification keys.\<close>

theorem jwks_public_only:
  "list_all (\<lambda>key. fst ` set key \<inter> set private_jwk_members = {}) (releaseTokenVerificationKeysToJwks ks) \<and>
   distinct (map (\<lambda>key. map_of key ''kid'') (releaseTokenVerificationKeysToJwks ks)) \<and>
   (\<lambda>key. map_of key ''kid'') ` set (releaseTokenVerificationKeysToJwks ks) =
     (\<lambda>k. Some (JString (rvk_keyId k))) ` set ks"
  using jwks_from_public [of _ "[]" ks] jwks_from_kids [of "[]" ks]
  by (simp add: releaseTokenVerificationKeysToJwks_def list_all_iff image_image)

section \<open>Witnesses\<close>

definition sample_decision :: release_decision where
  "sample_decision =
     \<lparr> dec_version = RELEASE_DECISION_SPEC_VERSION, dec_id = ''d1'', dec_createdAt = Iso 0,
       dec_status = Accepted, dec_consequenceType = Record, dec_riskClass = R2,
       dec_policyVersion = ''p'', dec_policyHash = ''p'', dec_policyProvenance = None,
       dec_outputContract = \<lparr> oc_artifactType = ''a'', oc_expectedShape = ''s'',
         oc_consequenceType = Record, oc_riskClass = R2 \<rparr>,
       dec_capabilityBoundary = \<lparr> cb_allowedTools = [], cb_allowedTargets = [], cb_allowedDataDomains = [] \<rparr>,
       dec_outputHash = ''o'', dec_consequenceHash = ''c'',
       dec_requester = \<lparr> act_id = ''u'', act_type = User, act_displayName = None, act_role = None \<rparr>,
       dec_target = \<lparr> tgt_kind = Record_store, tgt_id = ''t'', tgt_displayName = None \<rparr>,
       dec_reviewAuthority = buildReviewAuthority R2 no_authority_overrides,
       dec_releaseConditions = [Usage_limit 1, Expiry (Iso 600000)], dec_findings = [],
       dec_evidencePackId = None, dec_releaseTokenId = None, dec_override = None \<rparr>"

definition sample_issuer :: token_issuer_input where
  "sample_issuer = \<lparr> iss_issuer = ''attestor'', iss_privateKeyPem = ''priv'', iss_publicKeyPem = ''pub'',
     iss_keyId = None, iss_algorithm = None, iss_overrideAuthorityRoles = None \<rparr>"

definition sample_issue_input :: token_issue_input where
  "sample_issue_input =
     \<lparr> tii_decision = sample_decision, tii_subject = None, tii_issuedAt = Some (Iso 5500),
       tii_tokenId = Some ''rt1'', tii_ttlSeconds = Some 900, tii_audience = None, tii_tenantId = Some ''acme'',
       tii_scope = None, tii_resource = None, tii_actor = None, tii_parentTokenId = None,
       tii_exchangeId = None, tii_exchangedAt = None, tii_sourceAudience = None,
       tii_tokenUse = None, tii_confirmation = None \<rparr>"

definition sample_claims :: release_token_claims where
  "sample_claims =
     \<lparr> clm_version = RELEASE_TOKEN_SPEC_VERSION, clm_iss = ''attestor'', clm_sub = ''releaseDecision:d1'',
       clm_aud = ''t'', clm_tenant_id = Some ''acme'', clm_jti = ''rt1'', clm_iat = 5, clm_nbf = 5,
       clm_exp = 599, clm_decision_id = ''d1'', clm_decision = Accepted, clm_consequence_type = Record,
       clm_risk_class = R2, clm_output_hash = ''o'', clm_consequence_hash = ''c'', clm_policy_hash = ''p'',
       clm_policy_id = None, clm_policy_version = Some ''p'', clm_policy_ir_hash = None,
       clm_policy_provenance_source = None, clm_compiled_policy_index_version = None,
       clm_compiled_policy_ir_version = None, clm_override = False, clm_introspection_required = False,
       clm_authority_mode = ra_mode (buildReviewAuthority R2 no_authority_overrides), clm_scope = None,
       clm_resource = None, clm_act = None, clm_parent_jti = None, clm_exchange_id = None,
       clm_exchanged_at = None, clm_source_aud = None, clm_token_use = None, clm_cnf = None \<rparr>"

text \<open>A signing library that knows one token.\<close>

definition sample_jose :: jose_api where
  "sample_jose =
     \<lparr> jose_fingerprint = (\<lambda>pem. return (''fp:'' @ pem)),
       jose_importPKCS8 = (\<lambda>pem alg. return pem), jose_importSPKI = (\<lambda>pem alg. return pem),
       jose_exportJWK = (\<lambda>key. return [(''x'', JString key)]),
       jose_sign = (\<lambda>key header claims. return ''jwt''),
       jose_verify = (\<lambda>token key issuer audience date.
         case date of
           Some (Iso t) \<Rightarrow> jwt_check sample_claims \<lparr> hdr_alg = ''EdDSA'', hdr_kid = Some ''fp:pub'' \<rparr>
             issuer audience t
         | _ \<Rightarrow> Jwt_error ''no date'') \<rparr>"

definition sample_token :: issued_release_token where
  "sample_token =
     \<lparr> irt_version = RELEASE_TOKEN_ISSUANCE_SPEC_VERSION, irt_tokenId = ''rt1'', irt_token = ''jwt'',
       irt_claims = sample_claims, irt_keyId = ''fp:pub'', irt_algorithm = EdDSA, irt_issuedAt = 5000,
       irt_expiresAt = 599000, irt_publicKeyFingerprint = ''fp:pub'' \<rparr>"

definition sample_key :: release_token_verification_key where
  "sample_key =
     \<lparr> rvk_version = RELEASE_TOKEN_VERIFICATION_KEY_SPEC_VERSION, rvk_issuer = ''attestor'',
       rvk_algorithm = EdDSA, rvk_keyId = ''fp:pub'', rvk_publicKeyFingerprint = ''fp:pub'',
       rvk_publicKeyPem = ''pub'',
       rvk_jwk = [(''x'', JString ''pub''), (''kid'', JString ''fp:pub''), (''use'', JString ''sig''),
         (''alg'', JString ''EdDSA'')] \<rparr>"

lemma sample_tenant: "normalizeOptionalReleaseTokenClaim (Some ''acme'') = Inr (Some ''acme'')"
  by (simp add: normalizeOptionalReleaseTokenClaim_def trim_def js_whitespace_def)

lemma sample_issued: "issue sample_jose now uuid sample_issuer sample_issue_input = Inr sample_token"
  by (simp del: rbind_eq_Inr add: issue_def issuer_keyId_def sample_jose_def sample_issuer_def sample_issue_input_def
      sample_decision_def sample_token_def sample_claims_def assertDecisionEligibleForReleaseToken_def
      parseIssuedAt_def resolveTokenTtlSeconds_def releaseDecisionExpiresAt_def parseOptionalEpochSeconds_def
      buildReleaseTokenClaims_def sample_tenant toISO_def max_time_value_def
      releaseDecisionRequiresIntrospection_def Let_def)

lemma sample_exported: "exportVerificationKey sample_jose sample_issuer = Inr sample_key"
  by (simp del: rbind_eq_Inr add: exportVerificationKey_def issuer_keyId_def createReleaseTokenVerificationKey_def
      sample_jose_def sample_issuer_def sample_key_def Let_def)

theorem token_issue_sound_witness:
  "issue sample_jose 0 [] sample_issuer sample_issue_input = Inr sample_token \<and>
   claims_of_decision sample_decision sample_claims \<and> irt_expiresAt sample_token \<le> 600000"
  using token_issue_sound [OF sample_issued [of 0 "[]"]] sample_issued [of 0 "[]"]
  by (simp add: sample_issue_input_def sample_token_def sample_decision_def releaseDecisionExpiresAt_def)

theorem issued_token_verifies_witness:
  "\<exists>r. verifyIssuedReleaseToken sample_jose
        (verify_request ''jwt'' sample_key ''t'' (Some '' acme'') 598999) = Inr r \<and>
      tvr_claims r = sample_claims"
proof -
  have pub: "jose_importSPKI sample_jose (rvk_publicKeyPem sample_key)
      (signing_algorithm_str (rvk_algorithm sample_key)) = Inr ''pub''"
    and sig: "signature_checks sample_jose ''pub'' (irt_token sample_token) (issued_header sample_token)
      (irt_claims sample_token)"
    by (simp_all add: sample_jose_def sample_key_def signature_checks_def sample_token_def issued_header_def)
  have "trim '' acme'' = ''acme''" by (simp add: trim_def js_whitespace_def)
  then show ?thesis
    using issued_token_verifies [OF sample_issued [of 0 "[]"] sample_exported pub sig,
        where tenant = "Some '' acme''" and date = 598999]
    by (auto simp: sample_token_def sample_claims_def split: sum.splits js_error.splits
        token_verification_failure_code.splits)
qed

end
