(* ===== verification/Reviewer_Queue.thy ===== *)
theory Reviewer_Queue
  imports Release_Token Decision_Log "HOL-Library.Product_Lexorder"
begin

text \<open>
  The reviewer queue: src/release-kernel/reviewer-queue-types.ts, reviewer-queue-helpers.ts,
  reviewer-queue-core.ts and reviewer-queue-store.ts.

  A decision that needs review waits in the queue. Reviewers act on a record they read before;
  the store commits the changed record only when the stored one is still pending with the same
  number of reviewer decisions. An emergency override goes the same way. Timestamps are the
  strings the code passes around. Freezing and copying of records has no counterpart, since
  values do not change. The file-backed variant differs only in where the list is kept.

  Reviewer_Protocol has the lemmas on concurrent reviewers.
\<close>

section \<open>Data\<close>

definition RELEASE_REVIEWER_QUEUE_SPEC_VERSION :: string where
  "RELEASE_REVIEWER_QUEUE_SPEC_VERSION = ''attestor.release-reviewer-queue.v2''"

datatype queue_status = Q_pending_review | Q_approved | Q_rejected | Q_overridden

fun queue_status_str :: "queue_status \<Rightarrow> string" where
  "queue_status_str Q_pending_review = ''pending-review''"
| "queue_status_str Q_approved = ''approved''"
| "queue_status_str Q_rejected = ''rejected''"
| "queue_status_str Q_overridden = ''overridden''"

datatype authority_state = As_pending | As_approved | As_rejected | As_overridden

datatype reviewer_outcome = Rv_approved | Rv_rejected

record timeline_entry =
  rtl_occurredAt :: string
  rtl_phase :: log_phase
  rtl_decisionStatus :: release_decision_status
  rtl_requiresReview :: bool
  rtl_deterministicChecksCompleted :: bool
  rtl_reviewerLabel :: "string option"

datatype checklist_emphasis = Primary | Supporting

record checklist_item =
  rcl_id :: string
  rcl_label :: string
  rcl_emphasis :: checklist_emphasis

text \<open>A filing row is an object of scalars, in the order of its keys.\<close>

type_synonym filing_row = "(string \<times> json) list"

record filing_candidate =
  fca_adapterId :: string
  fca_runId :: string
  fca_decision :: string
  fca_certificateId :: "string option"
  fca_evidenceChainTerminal :: string
  fca_rows :: "filing_row list"
  fca_proofMode :: string

text \<open>The part of a finance report the queue reads.\<close>

record filing_report =
  frp_decision :: string
  frp_receiptStatus :: "string option"
  frp_oversightStatus :: string

record candidate_preview =
  cpv_runId :: string
  cpv_adapterId :: string
  cpv_certificateId :: "string option"
  cpv_proofMode :: string
  cpv_evidenceChainTerminal :: string
  cpv_rowCount :: nat
  cpv_rowKeys :: "string list"
  cpv_previewRows :: "filing_row list"
  cpv_financeDecision :: string
  cpv_receiptStatus :: "string option"
  cpv_oversightStatus :: "string option"

record reviewer_decision =
  rvd_id :: string
  rvd_reviewerId :: string
  rvd_reviewerName :: string
  rvd_reviewerRole :: string
  rvd_outcome :: reviewer_outcome
  rvd_decidedAt :: string
  rvd_note :: "string option"

record issued_token_summary =
  its_tokenId :: string
  its_expiresAt :: string
  its_audience :: string
  its_policyVersion :: "string option"
  its_policyHash :: string
  its_policyIrHash :: "string option"
  its_policyProvenanceSource :: "release_policy_provenance_source option"
  its_compiledPolicyIndexVersion :: "string option"
  its_compiledPolicyIrVersion :: "string option"

record override_summary =
  ovs_reasonCode :: string
  ovs_ticketId :: "string option"
  ovs_requestedById :: string
  ovs_requestedByLabel :: string
  ovs_requestedByRole :: "string option"

record queue_detail =
  qd_version :: string
  qd_id :: string
  qd_kind :: string
  qd_tenantId :: "string option"
  qd_status :: queue_status
  qd_authorityState :: authority_state
  qd_createdAt :: string
  qd_updatedAt :: string
  qd_decisionId :: string
  qd_releaseDecisionStatus :: release_decision_status
  qd_policyVersion :: string
  qd_policyHash :: string
  qd_policyIrHash :: "string option"
  qd_policyProvenanceSource :: "release_policy_provenance_source option"
  qd_compiledPolicyIndexVersion :: "string option"
  qd_compiledPolicyIrVersion :: "string option"
  qd_consequenceType :: consequence_type
  qd_consequenceLabel :: string
  qd_riskClass :: risk_class
  qd_riskLabel :: string
  qd_requesterLabel :: string
  qd_targetId :: string
  qd_targetDisplayName :: string
  qd_authorityMode :: review_authority_mode
  qd_minimumReviewerCount :: int
  qd_approvalsRecorded :: int
  qd_approvalsRemaining :: int
  qd_headline :: string
  qd_summary :: string
  qd_findingSummary :: string
  qd_checklistSummary :: string
  qd_outputHash :: string
  qd_consequenceHash :: string
  qd_evidencePackId :: "string option"
  qd_findings :: "release_finding list"
  qd_candidate :: candidate_preview
  qd_checklist :: "checklist_item list"
  qd_timeline :: "timeline_entry list"
  qd_reviewerDecisions :: "reviewer_decision list"
  qd_issuedReleaseToken :: "issued_token_summary option"
  qd_overrideGrant :: "override_summary option"

record queue_record =
  qr_detail :: queue_detail
  qr_releaseDecision :: release_decision

record queue_list_options =
  qlo_riskClass :: "risk_class option"
  qlo_consequenceType :: "consequence_type option"
  qlo_limit :: "nat option"

record queue_list_result =
  qlr_totalPending :: nat
  qlr_countsByRiskClass :: "risk_class \<Rightarrow> nat"
  qlr_items :: "queue_detail list"

record create_queue_item_input =
  cqi_decision :: release_decision
  cqi_candidate :: filing_candidate
  cqi_report :: filing_report
  cqi_logEntries :: "log_entry list"
  cqi_tenantId :: "string option"

record apply_decision_input =
  adi_record :: queue_record
  adi_outcome :: reviewer_outcome
  adi_reviewerId :: string
  adi_reviewerName :: string
  adi_reviewerRole :: string
  adi_decidedAt :: string
  adi_note :: "string option"

record commit_transition_input =
  cti_record :: queue_record
  cti_expectedAuthorityState :: authority_state
  cti_expectedReviewerDecisionCount :: nat

record break_glass_input =
  bgi_record :: queue_record
  bgi_reasonCode :: string
  bgi_ticketId :: "string option"
  bgi_requestedById :: string
  bgi_requestedByName :: string
  bgi_requestedByRole :: "string option"
  bgi_requestedByType :: "release_actor_type option"
  bgi_note :: "string option"
  bgi_decidedAt :: string

section \<open>Labels and previews\<close>

abbreviation quoted :: "string \<Rightarrow> string" where
  "quoted s \<equiv> CHR 0x27 # s @ [CHR 0x27]"

fun consequenceTypeLabel :: "consequence_type \<Rightarrow> string" where
  "consequenceTypeLabel Communication = ''Communication''"
| "consequenceTypeLabel Record = ''Record''"
| "consequenceTypeLabel Action = ''Action''"
| "consequenceTypeLabel Decision_support = ''Decision Support''"

fun risk_class_label :: "risk_class \<Rightarrow> string" where
  "risk_class_label R0 = ''Advisory''"
| "risk_class_label R1 = ''Low Consequence''"
| "risk_class_label R2 = ''Operational''"
| "risk_class_label R3 = ''High Consequence''"
| "risk_class_label R4 = ''Regulated Artifact''"

text \<open>A trimmed string, or nothing when it is absent or blank (\<open>value?.trim() || null\<close>).\<close>

definition trimmed_opt :: "string option \<Rightarrow> string option" where
  "trimmed_opt v = truthy_str (map_option trim v)"

definition normalizeOptionalRole :: "string option \<Rightarrow> string option" where
  "normalizeOptionalRole value = trimmed_opt value"

fun riskRank :: "risk_class \<Rightarrow> nat" where
  "riskRank R4 = 4"
| "riskRank R3 = 3"
| "riskRank R2 = 2"
| "riskRank R1 = 1"
| "riskRank R0 = 0"

definition requesterLabel :: "release_decision \<Rightarrow> string" where
  "requesterLabel decision =
     nullish (trimmed_opt (act_displayName (dec_requester decision))) (act_id (dec_requester decision))"

definition targetDisplayName :: "release_decision \<Rightarrow> string" where
  "targetDisplayName decision =
     nullish (trimmed_opt (tgt_displayName (dec_target decision))) (tgt_id (dec_target decision))"

definition policyIrHash :: "release_decision \<Rightarrow> string option" where
  "policyIrHash decision = Option.bind (dec_policyProvenance decision) prov_compiledPolicyIrHash"

definition policyProvenanceSource :: "release_decision \<Rightarrow> release_policy_provenance_source option" where
  "policyProvenanceSource decision = map_option prov_source (dec_policyProvenance decision)"

definition compiledPolicyIndexVersion :: "release_decision \<Rightarrow> string option" where
  "compiledPolicyIndexVersion decision =
     Option.bind (dec_policyProvenance decision) prov_compiledPolicyIndexVersion"

definition compiledPolicyIrVersion :: "release_decision \<Rightarrow> string option" where
  "compiledPolicyIrVersion decision =
     Option.bind (dec_policyProvenance decision) prov_compiledPolicyIrVersion"

definition summarizeFindings :: "release_finding list \<Rightarrow> string" where
  "summarizeFindings findings =
     (case filter (\<lambda>f. fnd_result f = Fail) findings of
        f # _ \<Rightarrow> fnd_message f
      | [] \<Rightarrow>
          (case filter (\<lambda>f. fnd_result f = Warn) findings of
             f # _ \<Rightarrow> fnd_message f
           | [] \<Rightarrow> ''Deterministic controls passed, but human authority is still required before consequence.''))"

definition buildChecklist :: "release_decision \<Rightarrow> filing_candidate \<Rightarrow> checklist_item list" where
  "buildChecklist decision candidate =
     (let count = ra_minimumReviewerCount (dec_reviewAuthority decision) in
      [\<lparr> rcl_id = ''target-binding'',
         rcl_label = ''Confirm the release target is still '' @ quoted (targetDisplayName decision) @ ''.'',
         rcl_emphasis = Primary \<rparr>,
       \<lparr> rcl_id = ''row-preview'',
         rcl_label = ''Review the '' @ string_of_nat (length (fca_rows candidate)) @
           '' structured record row(s) that would cross the consequence boundary.'',
         rcl_emphasis = Primary \<rparr>,
       \<lparr> rcl_id = ''finding-review'',
         rcl_label = ''Read the deterministic findings and verify no blocked control was bypassed.'',
         rcl_emphasis = Primary \<rparr>,
       \<lparr> rcl_id = ''authority-bridge'',
         rcl_label = ''Check the finance authority chain state (receipt, oversight, proof mode) before authorizing release.'',
         rcl_emphasis = Supporting \<rparr>] @
      (if count > 1 then
        [\<lparr> rcl_id = ''dual-approval-heads-up'',
           rcl_label = ''This risk class is configured for '' @ string_of_int count @
             '' reviewers. Coordinate the second approval path before consequence.'',
           rcl_emphasis = Supporting \<rparr>]
       else []))"

definition buildCandidatePreview :: "filing_candidate \<Rightarrow> filing_report \<Rightarrow> candidate_preview" where
  "buildCandidatePreview candidate report =
     \<lparr> cpv_runId = fca_runId candidate,
       cpv_adapterId = fca_adapterId candidate,
       cpv_certificateId = fca_certificateId candidate,
       cpv_proofMode = fca_proofMode candidate,
       cpv_evidenceChainTerminal = fca_evidenceChainTerminal candidate,
       cpv_rowCount = length (fca_rows candidate),
       cpv_rowKeys = sort (remdups (concat (map (map fst) (fca_rows candidate)))),
       cpv_previewRows = take 3 (fca_rows candidate),
       cpv_financeDecision = frp_decision report,
       cpv_receiptStatus = frp_receiptStatus report,
       cpv_oversightStatus = Some (frp_oversightStatus report) \<rparr>"

definition buildTimeline :: "release_decision \<Rightarrow> log_entry list \<Rightarrow> timeline_entry list" where
  "buildTimeline decision entries =
     map (\<lambda>entry. \<lparr> rtl_occurredAt = le_occurredAt (ent_base entry),
                    rtl_phase = le_phase (ent_base entry),
                    rtl_decisionStatus = le_decisionStatus (ent_base entry),
                    rtl_requiresReview = lm_requiresReview (le_metadata (ent_base entry)),
                    rtl_deterministicChecksCompleted =
                      lm_deterministicChecksCompleted (le_metadata (ent_base entry)),
                    rtl_reviewerLabel = None \<rparr>)
       (sort_key (\<lambda>entry. le_sequence (ent_base entry))
          (filter (\<lambda>entry. le_decisionId (ent_base entry) = dec_id decision) entries))"

definition reviewerTimelineEntry ::
  "string \<Rightarrow> log_phase \<Rightarrow> release_decision_status \<Rightarrow> string \<Rightarrow> timeline_entry" where
  "reviewerTimelineEntry occurredAt phase decisionStatus reviewerLabel =
     \<lparr> rtl_occurredAt = occurredAt, rtl_phase = phase, rtl_decisionStatus = decisionStatus,
       rtl_requiresReview = (decisionStatus = Review_required \<or> decisionStatus = Hold),
       rtl_deterministicChecksCompleted = True, rtl_reviewerLabel = Some reviewerLabel \<rparr>"

section \<open>Reviewer decisions\<close>

definition ensureNamedReviewerRequirements :: "release_decision \<Rightarrow> apply_decision_input \<Rightarrow> unit result" where
  "ensureNamedReviewerRequirements decision input =
     (let authority = dec_reviewAuthority decision in
      if trim (adi_reviewerId input) = [] \<or> trim (adi_reviewerName input) = [] \<or>
         trim (adi_reviewerRole input) = [] then
        throw (ReleaseReviewerQueueError Missing_reviewer
          ''Named review requires reviewerId, reviewerName, and reviewerRole.'')
      else if 0 < length (ra_requiredReviewerIds authority) \<and>
              trim (adi_reviewerId input) \<notin> set (ra_requiredReviewerIds authority) then
        throw (ReleaseReviewerQueueError Reviewer_not_allowed
          (''Reviewer '' @ quoted (adi_reviewerId input) @ '' is not authorized for this release decision.''))
      else if 0 < length (ra_requiredRoles authority) \<and>
              trim (adi_reviewerRole input) \<notin> set (ra_requiredRoles authority) then
        throw (ReleaseReviewerQueueError Reviewer_role_not_allowed
          (''Reviewer role '' @ quoted (adi_reviewerRole input) @ '' is not allowed for this release decision.''))
      else return ())"

definition reviewerDecisionRecord :: "string \<Rightarrow> apply_decision_input \<Rightarrow> reviewer_decision" where
  "reviewerDecisionRecord uuid input =
     \<lparr> rvd_id = ''rrd_'' @ take 16 (filter (\<lambda>c. c \<noteq> CHR ''-'') uuid),
       rvd_reviewerId = trim (adi_reviewerId input),
       rvd_reviewerName = trim (adi_reviewerName input),
       rvd_reviewerRole = trim (adi_reviewerRole input),
       rvd_outcome = adi_outcome input,
       rvd_decidedAt = adi_decidedAt input,
       rvd_note = trimmed_opt (adi_note input) \<rparr>"

definition overrideSummaryFromDecision :: "release_decision \<Rightarrow> override_summary option" where
  "overrideSummaryFromDecision decision =
     map_option (\<lambda>grant.
       \<lparr> ovs_reasonCode = og_reasonCode grant,
         ovs_ticketId = og_ticketId grant,
         ovs_requestedById = act_id (og_requestedBy grant),
         ovs_requestedByLabel =
           nullish (trimmed_opt (act_displayName (og_requestedBy grant))) (act_id (og_requestedBy grant)),
         ovs_requestedByRole = normalizeOptionalRole (act_role (og_requestedBy grant)) \<rparr>)
       (dec_override decision)"

record review_summary =
  rsm_status :: queue_status
  rsm_authorityState :: authority_state
  rsm_releaseDecisionStatus :: release_decision_status
  rsm_approvalsRecorded :: int
  rsm_approvalsRemaining :: int
  rsm_summary :: string
  rsm_findingSummary :: string

definition approvals :: "reviewer_decision list \<Rightarrow> int" where
  "approvals reviewerDecisions =
     int (length (filter (\<lambda>entry. rvd_outcome entry = Rv_approved) reviewerDecisions))"

definition updateReviewSummary :: "release_decision \<Rightarrow> reviewer_decision list \<Rightarrow> review_summary" where
  "updateReviewSummary decision reviewerDecisions =
     (let approvalsRecorded = approvals reviewerDecisions;
          minimum = ra_minimumReviewerCount (dec_reviewAuthority decision);
          approvalsRemaining = max (minimum - approvalsRecorded) 0
      in case List.find (\<lambda>entry. rvd_outcome entry = Rv_rejected) reviewerDecisions of
        Some rejection \<Rightarrow>
          \<lparr> rsm_status = Q_rejected, rsm_authorityState = As_rejected, rsm_releaseDecisionStatus = Denied,
            rsm_approvalsRecorded = approvalsRecorded, rsm_approvalsRemaining = approvalsRemaining,
            rsm_summary = ''Reviewer authority denied consequence after '' @ rvd_reviewerName rejection @
              '' rejected the release candidate.'',
            rsm_findingSummary = ''Rejected by '' @ rvd_reviewerName rejection @
              ''; no release token may be issued for this candidate.'' \<rparr>
      | None \<Rightarrow>
          if approvalsRemaining = 0 then
            \<lparr> rsm_status = Q_approved, rsm_authorityState = As_approved, rsm_releaseDecisionStatus = Accepted,
              rsm_approvalsRecorded = approvalsRecorded, rsm_approvalsRemaining = approvalsRemaining,
              rsm_summary = ''Reviewer authority is complete. '' @ string_of_int approvalsRecorded @
                '' reviewer approval(s) authorized release to '' @ targetDisplayName decision @ ''.'',
              rsm_findingSummary = ''Human authority completed the release decision; token issuance may proceed.'' \<rparr>
          else
            \<lparr> rsm_status = Q_pending_review, rsm_authorityState = As_pending,
              rsm_releaseDecisionStatus = dec_status decision,
              rsm_approvalsRecorded = approvalsRecorded, rsm_approvalsRemaining = approvalsRemaining,
              rsm_summary = string_of_int approvalsRecorded @ '' of '' @ string_of_int minimum @
                '' required reviewer approval(s) recorded before consequence may proceed.'',
              rsm_findingSummary =
                (if approvalsRecorded > 0
                 then ''Additional named reviewer approval is still required before token issuance.''
                 else summarizeFindings (dec_findings decision)) \<rparr>)"

definition buildBreakGlassSummary :: "release_decision \<Rightarrow> review_summary" where
  "buildBreakGlassSummary decision =
     \<lparr> rsm_status = Q_overridden, rsm_authorityState = As_overridden, rsm_releaseDecisionStatus = Overridden,
       rsm_approvalsRecorded = (if dec_override decision \<noteq> None then 1 else 0),
       rsm_approvalsRemaining = 0,
       rsm_summary = ''Break-glass release override authorized consequence to '' @ targetDisplayName decision @
         '' under explicit emergency controls.'',
       rsm_findingSummary = ''Emergency override '' @
         quoted (nullish (map_option og_reasonCode (dec_override decision)) ''unspecified'') @
         '' replaced normal reviewer closure for this candidate.'' \<rparr>"

definition addReviewFinding :: "release_decision \<Rightarrow> apply_decision_input \<Rightarrow> int \<Rightarrow> release_finding" where
  "addReviewFinding decision input approvalsRecorded =
     (let minimum = ra_minimumReviewerCount (dec_reviewAuthority decision);
          name = trim (adi_reviewerName input)
      in case adi_outcome input of
        Rv_rejected \<Rightarrow>
          \<lparr> fnd_code = ''release_reviewer_rejected'', fnd_result = Fail,
            fnd_message = name @ '' rejected the release candidate before consequence.'',
            fnd_source = Src_review \<rparr>
      | Rv_approved \<Rightarrow>
          \<lparr> fnd_code =
              (if minimum > 1 then
                 (if approvalsRecorded \<ge> minimum then ''release_dual_approval_completed''
                  else ''release_dual_approval_partial'')
               else ''release_named_review_approved''),
            fnd_result = (if approvalsRecorded \<ge> minimum then Pass else Info),
            fnd_message =
              (if approvalsRecorded \<ge> minimum
               then name @ '' completed the required reviewer authority for consequence release.''
               else name @ '' recorded approval '' @ string_of_int approvalsRecorded @ '' of '' @
                 string_of_int minimum @ ''.''),
            fnd_source = Src_review \<rparr>)"

definition cloneDecisionWithReviewOutcome ::
  "release_decision \<Rightarrow> apply_decision_input \<Rightarrow> reviewer_decision list \<Rightarrow> release_decision" where
  "cloneDecisionWithReviewOutcome decision input reviewerDecisions =
     (let approvalsRecorded = approvals reviewerDecisions;
          nextStatus =
            (if adi_outcome input = Rv_rejected then Denied
             else if approvalsRecorded \<ge> ra_minimumReviewerCount (dec_reviewAuthority decision) then Accepted
             else dec_status decision)
      in decision\<lparr> dec_status := nextStatus,
           dec_findings := dec_findings decision @ [addReviewFinding decision input approvalsRecorded] \<rparr>)"

definition cloneDecisionWithBreakGlassOverride ::
  "release_decision \<Rightarrow> break_glass_input \<Rightarrow> release_decision result" where
  "cloneDecisionWithBreakGlassOverride decision input =
     (let reasonCode = trim (bgi_reasonCode input);
          requestedById = trim (bgi_requestedById input);
          requestedByName = trim (bgi_requestedByName input)
      in
      if reasonCode = [] then
        throw (ReleaseReviewerQueueError Missing_override_reason
          ''Break-glass override requires a non-empty reasonCode.'')
      else if requestedById = [] \<or> requestedByName = [] then
        throw (ReleaseReviewerQueueError Missing_override_requester
          ''Break-glass override requires requestedById and requestedByName.'')
      else return (decision\<lparr>
        dec_status := Overridden,
        dec_override := Some
          \<lparr> og_reasonCode = reasonCode,
            og_ticketId = trimmed_opt (bgi_ticketId input),
            og_requestedBy =
              \<lparr> act_id = requestedById, act_type = nullish (bgi_requestedByType input) User,
                act_displayName = Some requestedByName,
                act_role = normalizeOptionalRole (bgi_requestedByRole input) \<rparr> \<rparr>,
        dec_findings := dec_findings decision @
          [\<lparr> fnd_code = ''release_break_glass_override'', fnd_result = Warn,
             fnd_message = requestedByName @ '' authorized an emergency break-glass release for reason '' @
               quoted reasonCode @ ''.'',
             fnd_source = Src_override \<rparr>] \<rparr>))"

section \<open>Queue items\<close>

definition createFinanceReviewerQueueItem :: "create_queue_item_input \<Rightarrow> queue_record" where
  "createFinanceReviewerQueueItem input =
     (let decision = cqi_decision input;
          candidate = cqi_candidate input;
          checklist = buildChecklist decision candidate;
          createdAt = date_text (dec_createdAt decision);
          minimum = ra_minimumReviewerCount (dec_reviewAuthority decision)
      in \<lparr> qr_detail =
        \<lparr> qd_version = RELEASE_REVIEWER_QUEUE_SPEC_VERSION,
          qd_id = ''review_'' @ dec_id decision,
          qd_kind = ''finance.filing-export'',
          qd_tenantId = cqi_tenantId input,
          qd_status = Q_pending_review,
          qd_authorityState = As_pending,
          qd_createdAt = createdAt,
          qd_updatedAt = createdAt,
          qd_decisionId = dec_id decision,
          qd_releaseDecisionStatus = dec_status decision,
          qd_policyVersion = dec_policyVersion decision,
          qd_policyHash = dec_policyHash decision,
          qd_policyIrHash = policyIrHash decision,
          qd_policyProvenanceSource = policyProvenanceSource decision,
          qd_compiledPolicyIndexVersion = compiledPolicyIndexVersion decision,
          qd_compiledPolicyIrVersion = compiledPolicyIrVersion decision,
          qd_consequenceType = dec_consequenceType decision,
          qd_consequenceLabel = consequenceTypeLabel (dec_consequenceType decision),
          qd_riskClass = dec_riskClass decision,
          qd_riskLabel = risk_class_label (dec_riskClass decision),
          qd_requesterLabel = requesterLabel decision,
          qd_targetId = tgt_id (dec_target decision),
          qd_targetDisplayName = targetDisplayName decision,
          qd_authorityMode = ra_mode (dec_reviewAuthority decision),
          qd_minimumReviewerCount = minimum,
          qd_approvalsRecorded = 0,
          qd_approvalsRemaining = minimum,
          qd_headline = fca_adapterId candidate @ '' filing export waiting for release review'',
          qd_summary = fca_runId candidate @ '' is paused before consequence because '' @
            (if minimum = 1 then ''a reviewer'' else string_of_int minimum @ '' reviewers'') @
            '' must authorize release to '' @ targetDisplayName decision @ ''.'',
          qd_findingSummary = summarizeFindings (dec_findings decision),
          qd_checklistSummary =
            (case checklist of item # _ \<Rightarrow> rcl_label item | [] \<Rightarrow> ''Review required before consequence.''),
          qd_outputHash = dec_outputHash decision,
          qd_consequenceHash = dec_consequenceHash decision,
          qd_evidencePackId = dec_evidencePackId decision,
          qd_findings = dec_findings decision,
          qd_candidate = buildCandidatePreview candidate (cqi_report input),
          qd_checklist = checklist,
          qd_timeline = buildTimeline decision (cqi_logEntries input),
          qd_reviewerDecisions = [],
          qd_issuedReleaseToken = None,
          qd_overrideGrant = None \<rparr>,
        qr_releaseDecision = decision \<rparr>)"

definition already_final :: "queue_record \<Rightarrow> js_error" where
  "already_final record = ReleaseReviewerQueueError Already_finalized
     (''Release review '' @ quoted (qd_id (qr_detail record)) @ '' is already '' @
      queue_status_str (qd_status (qr_detail record)) @ ''.'')"

definition applyReviewerDecision :: "string \<Rightarrow> apply_decision_input \<Rightarrow> (queue_record \<times> bool) result" where
  "applyReviewerDecision uuid input =
     (let record = adi_record input; detail = qr_detail record in
      if qd_status detail \<noteq> Q_pending_review then throw (already_final record)
      else rbind (ensureNamedReviewerRequirements (qr_releaseDecision record) input) (\<lambda>_.
      if list_ex (\<lambda>entry. rvd_reviewerId entry = trim (adi_reviewerId input)) (qd_reviewerDecisions detail) then
        throw (ReleaseReviewerQueueError Duplicate_reviewer
          (''Reviewer '' @ quoted (adi_reviewerId input) @ '' has already acted on this release decision.''))
      else
        let reviewEntry = reviewerDecisionRecord uuid input;
            reviewerDecisions = qd_reviewerDecisions detail @ [reviewEntry];
            nextDecision = cloneDecisionWithReviewOutcome (qr_releaseDecision record) input reviewerDecisions;
            summary = updateReviewSummary nextDecision reviewerDecisions;
            timeline = qd_timeline detail @
              [reviewerTimelineEntry (adi_decidedAt input) Log_review (dec_status nextDecision)
                 (rvd_reviewerName reviewEntry)] @
              (if rsm_authorityState summary = As_approved then
                 [reviewerTimelineEntry (adi_decidedAt input) Log_terminal_accept Accepted
                    (rvd_reviewerName reviewEntry)]
               else if rsm_authorityState summary = As_rejected then
                 [reviewerTimelineEntry (adi_decidedAt input) Log_terminal_deny Denied
                    (rvd_reviewerName reviewEntry)]
               else [])
        in return
          (\<lparr> qr_detail = detail\<lparr>
               qd_status := rsm_status summary,
               qd_authorityState := rsm_authorityState summary,
               qd_updatedAt := adi_decidedAt input,
               qd_releaseDecisionStatus := rsm_releaseDecisionStatus summary,
               qd_approvalsRecorded := rsm_approvalsRecorded summary,
               qd_approvalsRemaining := rsm_approvalsRemaining summary,
               qd_summary := rsm_summary summary,
               qd_findingSummary := rsm_findingSummary summary,
               qd_findings := dec_findings nextDecision,
               qd_timeline := timeline,
               qd_reviewerDecisions := reviewerDecisions \<rparr>,
             qr_releaseDecision = nextDecision \<rparr>,
           rsm_authorityState summary = As_approved \<or> rsm_authorityState summary = As_rejected)))"

definition applyBreakGlassOverride :: "break_glass_input \<Rightarrow> queue_record result" where
  "applyBreakGlassOverride input =
     (let record = bgi_record input; detail = qr_detail record in
      if qd_status detail \<noteq> Q_pending_review then throw (already_final record)
      else rbind (cloneDecisionWithBreakGlassOverride (qr_releaseDecision record) input) (\<lambda>nextDecision.
        let summary = buildBreakGlassSummary nextDecision;
            name = trim (bgi_requestedByName input)
        in return
          \<lparr> qr_detail = detail\<lparr>
              qd_status := rsm_status summary,
              qd_authorityState := rsm_authorityState summary,
              qd_updatedAt := bgi_decidedAt input,
              qd_releaseDecisionStatus := rsm_releaseDecisionStatus summary,
              qd_approvalsRecorded := rsm_approvalsRecorded summary,
              qd_approvalsRemaining := rsm_approvalsRemaining summary,
              qd_summary := rsm_summary summary,
              qd_findingSummary := rsm_findingSummary summary,
              qd_findings := dec_findings nextDecision,
              qd_timeline := qd_timeline detail @
                [reviewerTimelineEntry (bgi_decidedAt input) Log_override Overridden name,
                 reviewerTimelineEntry (bgi_decidedAt input) Log_terminal_accept Overridden name],
              qd_overrideGrant := overrideSummaryFromDecision nextDecision \<rparr>,
            qr_releaseDecision = nextDecision \<rparr>))"

definition attachIssuedTokenToReviewerQueueRecord :: "queue_record \<Rightarrow> issued_release_token \<Rightarrow> queue_record" where
  "attachIssuedTokenToReviewerQueueRecord record issuedToken =
     (let claims = irt_claims issuedToken in
      \<lparr> qr_detail = (qr_detail record)\<lparr>
          qd_updatedAt := toISOString (irt_issuedAt issuedToken),
          qd_issuedReleaseToken := Some
            \<lparr> its_tokenId = irt_tokenId issuedToken,
              its_expiresAt = toISOString (irt_expiresAt issuedToken),
              its_audience = clm_aud claims,
              its_policyVersion = clm_policy_version claims,
              its_policyHash = clm_policy_hash claims,
              its_policyIrHash = clm_policy_ir_hash claims,
              its_policyProvenanceSource = clm_policy_provenance_source claims,
              its_compiledPolicyIndexVersion = clm_compiled_policy_index_version claims,
              its_compiledPolicyIrVersion = clm_compiled_policy_ir_version claims \<rparr> \<rparr>,
        qr_releaseDecision =
          (qr_releaseDecision record)\<lparr> dec_releaseTokenId := Some (irt_tokenId issuedToken) \<rparr> \<rparr>)"

section \<open>The store\<close>

type_synonym queue_store = "queue_record list"

definition record_id :: "queue_record \<Rightarrow> string" where
  "record_id record = qd_id (qr_detail record)"

definition upsert :: "queue_store \<Rightarrow> queue_record \<Rightarrow> queue_store" where
  "upsert file record = upsert_by record_id record file"

definition getRecord :: "queue_store \<Rightarrow> string \<Rightarrow> queue_record option" where
  "getRecord file reviewId = find_by record_id reviewId file"

definition get_detail :: "queue_store \<Rightarrow> string \<Rightarrow> queue_detail option" where
  "get_detail file reviewId = map_option qr_detail (find_by record_id reviewId file)"

definition commitPendingTransition ::
  "commit_transition_input \<Rightarrow> queue_store \<Rightarrow> (queue_detail \<times> queue_store) result" where
  "commitPendingTransition input file =
     (let stored = cti_record input in
      case find_by record_id (record_id stored) file of
        None \<Rightarrow> throw (ReleaseReviewerQueueError Already_finalized
          (''Release review '' @ quoted (record_id stored) @ '' is no longer pending or is missing.''))
      | Some existing \<Rightarrow>
          if qd_status (qr_detail existing) \<noteq> Q_pending_review \<or>
             qd_authorityState (qr_detail existing) \<noteq> cti_expectedAuthorityState input \<or>
             length (qd_reviewerDecisions (qr_detail existing)) \<noteq> cti_expectedReviewerDecisionCount input
          then throw (ReleaseReviewerQueueError Already_finalized
            (''Release review '' @ quoted (record_id stored) @
             '' changed before this transition could be committed.''))
          else return (qr_detail stored, upsert file stored))"

text \<open>
  Creation times are compared by code units; \<open>localeCompare\<close> in the code orders the texts
  \<open>toISOString\<close> produces in the same way.
\<close>

definition listPending :: "queue_list_options \<Rightarrow> queue_store \<Rightarrow> queue_list_result" where
  "listPending options file =
     (let filtered =
            sort_key (\<lambda>item. (4 - riskRank (qd_riskClass item), qd_createdAt item))
              (filter (\<lambda>item. case qlo_consequenceType options of None \<Rightarrow> True | Some t \<Rightarrow> qd_consequenceType item = t)
                (filter (\<lambda>item. case qlo_riskClass options of None \<Rightarrow> True | Some r \<Rightarrow> qd_riskClass item = r)
                  (filter (\<lambda>item. qd_status item = Q_pending_review) (map qr_detail file))));
          limited = (case qlo_limit options of None \<Rightarrow> filtered | Some n \<Rightarrow> if n = 0 then filtered else take n filtered)
      in \<lparr> qlr_totalPending = length filtered,
           qlr_countsByRiskClass = (\<lambda>r. length (filter (\<lambda>item. qd_riskClass item = r) filtered)),
           qlr_items = limited \<rparr>)"

section \<open>Closing a review\<close>

text \<open>
  The record stored once a token and an evidence pack were issued for a closed review
  (\<open>completeReleaseReviewAuthorityClosure\<close> of service/http/routes/release-review-routes.ts).
\<close>

definition review_closure_record ::
  "queue_record \<Rightarrow> issued_release_token \<Rightarrow> string \<Rightarrow> string \<Rightarrow> queue_record" where
  "review_closure_record record issuedToken closureId issuedAt =
     (let tokenRecord = attachIssuedTokenToReviewerQueueRecord record issuedToken;
          detail = qr_detail tokenRecord;
          decision = qr_releaseDecision tokenRecord;
          evidencePackId = nullish (qd_evidencePackId detail) (nullish (dec_evidencePackId decision) closureId)
      in \<lparr> qr_detail = detail\<lparr>
             qd_updatedAt := issuedAt,
             qd_evidencePackId := Some evidencePackId,
             qd_timeline := qd_timeline detail @
               [\<lparr> rtl_occurredAt = issuedAt, rtl_phase = Log_evidence_pack,
                  rtl_decisionStatus = dec_status decision, rtl_requiresReview = False,
                  rtl_deterministicChecksCompleted = True,
                  rtl_reviewerLabel = Some ''Attestor release evidence issuer'' \<rparr>] \<rparr>,
           qr_releaseDecision = decision\<lparr> dec_evidencePackId := Some evidencePackId \<rparr> \<rparr>)"

end
