(* ===== verification/Reviewer_Protocol.thy ===== *)
theory Reviewer_Protocol
  imports Reviewer_Queue "HOL-Library.Sublist"
begin

text \<open>
  The reviewer queue under concurrent reviewers: the operations of Reviewer_Queue as steps of a
  system whose actors work on records they read before.

  The lemmas show that an approved item has the required number of distinct, authorized
  reviewers and no rejection, that concurrent reviewers never lose each other's decisions,
  that a token for a queued decision needs a quorum or an authorized override, and that the
  list of pending items is complete and ordered by risk.
\<close>

section \<open>The queue as a concurrent system\<close>

text \<open>
  A state is the store and the records handed out so far. A decision is enqueued when it needs
  review (the guard of service/http/routes/pipeline-execution-routes.ts) under a fresh
  identifier; anybody may read a record; a reviewer or an emergency requester applies an action
  to a record read at any time before, and commits it with the authority state and decision
  count of that record; a closed review is stored with its token.
\<close>

definition expect_unchanged :: "queue_record \<Rightarrow> queue_record \<Rightarrow> commit_transition_input" where
  "expect_unchanged seen record =
     \<lparr> cti_record = record, cti_expectedAuthorityState = qd_authorityState (qr_detail seen),
       cti_expectedReviewerDecisionCount = length (qd_reviewerDecisions (qr_detail seen)) \<rparr>"

definition needs_review :: "release_decision \<Rightarrow> bool" where
  "needs_review decision \<longleftrightarrow> ra_minimumReviewerCount (dec_reviewAuthority decision) > 0 \<and>
     (dec_status decision = Review_required \<or> dec_status decision = Hold)"

type_synonym queue_state = "queue_store \<times> queue_record list"

inductive queue_step :: "queue_state \<Rightarrow> queue_state \<Rightarrow> bool" where
  q_enqueue: "needs_review (cqi_decision input) \<Longrightarrow>
    getRecord file (record_id (createFinanceReviewerQueueItem input)) = None \<Longrightarrow>
    queue_step (file, seen) (upsert file (createFinanceReviewerQueueItem input), seen)"
| q_read: "getRecord file reviewId = Some r \<Longrightarrow> queue_step (file, seen) (file, r # seen)"
| q_review: "adi_record input \<in> set seen \<Longrightarrow> applyReviewerDecision uuid input = Inr (r, reached) \<Longrightarrow>
    commitPendingTransition (expect_unchanged (adi_record input) r) file = Inr (stored, file') \<Longrightarrow>
    queue_step (file, seen) (file', seen)"
| q_override: "bgi_record input \<in> set seen \<Longrightarrow> applyBreakGlassOverride input = Inr r \<Longrightarrow>
    commitPendingTransition (expect_unchanged (bgi_record input) r) file = Inr (stored, file') \<Longrightarrow>
    queue_step (file, seen) (file', seen)"
| q_close: "getRecord file reviewId = Some r \<Longrightarrow> qd_status (qr_detail r) \<in> {Q_approved, Q_overridden} \<Longrightarrow>
    queue_step (file, seen) (upsert file (review_closure_record r token closureId issuedAt), seen)"

inductive queue_reachable :: "queue_state \<Rightarrow> bool" where
  queue_start: "queue_reachable ([], [])"
| queue_next: "queue_reachable st \<Longrightarrow> queue_step st st' \<Longrightarrow> queue_reachable st'"

abbreviation revs :: "queue_record \<Rightarrow> reviewer_decision list" where
  "revs r \<equiv> qd_reviewerDecisions (qr_detail r)"

abbreviation qstatus :: "queue_record \<Rightarrow> queue_status" where
  "qstatus r \<equiv> qd_status (qr_detail r)"

abbreviation required_reviewers :: "queue_record \<Rightarrow> int" where
  "required_reviewers r \<equiv> ra_minimumReviewerCount (dec_reviewAuthority (qr_releaseDecision r))"

interpretation queue_records: keyed_store id record_id getRecord upsert
  by unfold_locales (simp_all add: getRecord_def upsert_def)

section \<open>The invariant of a record\<close>

definition authorized_reviewer :: "release_decision \<Rightarrow> reviewer_decision \<Rightarrow> bool" where
  "authorized_reviewer decision e \<longleftrightarrow>
     rvd_reviewerId e \<noteq> [] \<and> rvd_reviewerRole e \<noteq> [] \<and>
     (ra_requiredReviewerIds (dec_reviewAuthority decision) = [] \<or>
        rvd_reviewerId e \<in> set (ra_requiredReviewerIds (dec_reviewAuthority decision))) \<and>
     (ra_requiredRoles (dec_reviewAuthority decision) = [] \<or>
        rvd_reviewerRole e \<in> set (ra_requiredRoles (dec_reviewAuthority decision)))"

definition quorum :: "queue_record \<Rightarrow> bool" where
  "quorum r \<longleftrightarrow> required_reviewers r \<le> int (length (revs r)) \<and>
     list_all (\<lambda>e. rvd_outcome e = Rv_approved) (revs r)"

definition outcome_matches :: "queue_record \<Rightarrow> bool" where
  "outcome_matches r \<longleftrightarrow>
     (case qstatus r of
        Q_pending_review \<Rightarrow> qd_authorityState (qr_detail r) = As_pending \<and>
          needs_review (qr_releaseDecision r) \<and> int (length (revs r)) < required_reviewers r \<and>
          list_all (\<lambda>e. rvd_outcome e = Rv_approved) (revs r)
      | Q_approved \<Rightarrow> dec_status (qr_releaseDecision r) = Accepted \<and> quorum r
      | Q_rejected \<Rightarrow> dec_status (qr_releaseDecision r) = Denied \<and>
          list_ex (\<lambda>e. rvd_outcome e = Rv_rejected) (revs r)
      | Q_overridden \<Rightarrow> dec_status (qr_releaseDecision r) = Overridden \<and> dec_override (qr_releaseDecision r) \<noteq> None)"

definition queue_record_ok :: "queue_record \<Rightarrow> bool" where
  "queue_record_ok r \<longleftrightarrow> 0 < required_reviewers r \<and> distinct (map rvd_reviewerId (revs r)) \<and>
     list_all (authorized_reviewer (qr_releaseDecision r)) (revs r) \<and> outcome_matches r"

lemma approvals_snoc:
  "approvals (es @ [e]) = approvals es + (if rvd_outcome e = Rv_approved then 1 else 0)"
  by (simp add: approvals_def)

lemma approvals_all: "list_all (\<lambda>e. rvd_outcome e = Rv_approved) es \<Longrightarrow> approvals es = int (length es)"
  by (induction es) (auto simp: approvals_def)

lemma find_rejected_None:
  "List.find (\<lambda>e. rvd_outcome e = Rv_rejected) es = None \<longleftrightarrow> list_all (\<lambda>e. rvd_outcome e = Rv_approved) es"
  by (induction es) (auto, (metis reviewer_outcome.exhaust)+)

lemma created_record_ok:
  assumes "needs_review (cqi_decision input)"
  shows "queue_record_ok (createFinanceReviewerQueueItem input)"
  using assms by (simp add: queue_record_ok_def outcome_matches_def createFinanceReviewerQueueItem_def
      needs_review_def Let_def)

lemma reviewer_requirements:
  assumes "ensureNamedReviewerRequirements decision input = Inr u"
  shows "authorized_reviewer decision (reviewerDecisionRecord uuid input)"
  using assms by (auto simp: ensureNamedReviewerRequirements_def authorized_reviewer_def
      reviewerDecisionRecord_def Let_def split: if_splits)

lemma reviewed_decision_fields [simp]:
  "dec_reviewAuthority (cloneDecisionWithReviewOutcome d i es) = dec_reviewAuthority d"
  "dec_id (cloneDecisionWithReviewOutcome d i es) = dec_id d"
  by (simp_all add: cloneDecisionWithReviewOutcome_def Let_def)

lemma applied_decision:
  assumes "applyReviewerDecision uuid input = Inr (r, reached)"
  defines "old \<equiv> adi_record input"
  defines "e \<equiv> reviewerDecisionRecord uuid input"
  defines "d \<equiv> cloneDecisionWithReviewOutcome (qr_releaseDecision old) input (revs old @ [e])"
  shows "qstatus old = Q_pending_review" "revs r = revs old @ [e]" "qr_releaseDecision r = d"
    "record_id r = record_id old" "authorized_reviewer (qr_releaseDecision old) e"
    "rvd_reviewerId e \<notin> rvd_reviewerId ` set (revs old)"
    "qstatus r = rsm_status (updateReviewSummary d (revs old @ [e]))"
    "qd_authorityState (qr_detail r) = rsm_authorityState (updateReviewSummary d (revs old @ [e]))"
  using assms reviewer_requirements [of "qr_releaseDecision old" input _ uuid]
  by (auto simp: applyReviewerDecision_def Let_def record_id_def list_ex_iff reviewerDecisionRecord_def
      split: if_splits)

lemma summary_status:
  "rsm_status (updateReviewSummary d es) =
     (if \<not> list_all (\<lambda>e. rvd_outcome e = Rv_approved) es then Q_rejected
      else if ra_minimumReviewerCount (dec_reviewAuthority d) \<le> int (length es) then Q_approved
      else Q_pending_review)"
  "rsm_authorityState (updateReviewSummary d es) =
     (if \<not> list_all (\<lambda>e. rvd_outcome e = Rv_approved) es then As_rejected
      else if ra_minimumReviewerCount (dec_reviewAuthority d) \<le> int (length es) then As_approved
      else As_pending)"
  using find_rejected_None [of es] approvals_all [of es]
  by (cases "List.find (\<lambda>e. rvd_outcome e = Rv_rejected) es"; auto simp: updateReviewSummary_def Let_def)+

lemma reviewed_status:
  assumes "list_all (\<lambda>e. rvd_outcome e = Rv_approved) es"
  shows "dec_status (cloneDecisionWithReviewOutcome d input (es @ [reviewerDecisionRecord uuid input])) =
    (if adi_outcome input = Rv_rejected then Denied
     else if ra_minimumReviewerCount (dec_reviewAuthority d) \<le> int (length es) + 1 then Accepted
     else dec_status d)"
  using approvals_all [OF assms]
  by (cases "adi_outcome input")
    (auto simp: cloneDecisionWithReviewOutcome_def Let_def approvals_snoc reviewerDecisionRecord_def)

lemma reviewed_record_ok:
  assumes "applyReviewerDecision uuid input = Inr (r, reached)" and "queue_record_ok (adi_record input)"
  shows "queue_record_ok r"
proof -
  let ?old = "adi_record input" and ?e = "reviewerDecisionRecord uuid input"
  let ?d = "cloneDecisionWithReviewOutcome (qr_releaseDecision ?old) input (revs ?old @ [?e])"
  note a = applied_decision [OF assms(1)]
  have all: "list_all (\<lambda>e. rvd_outcome e = Rv_approved) (revs ?old)"
    and pending: "needs_review (qr_releaseDecision ?old)"
    using assms(2) a(1) by (simp_all add: queue_record_ok_def outcome_matches_def)
  have e: "rvd_outcome ?e = adi_outcome input" by (simp add: reviewerDecisionRecord_def)
  have "outcome_matches r"
    using reviewed_status [OF all, of "qr_releaseDecision ?old" input uuid] all pending e
    by (cases "adi_outcome input")
      (auto simp: outcome_matches_def a(2,3,7,8) summary_status quorum_def needs_review_def)
  then show ?thesis
    using assms(2) a(5,6) by (auto simp: queue_record_ok_def a(2,3) authorized_reviewer_def list_all_iff)
qed

lemma overridden_record:
  assumes "applyBreakGlassOverride input = Inr r"
  shows "qstatus (bgi_record input) = Q_pending_review" "revs r = revs (bgi_record input)"
    "record_id r = record_id (bgi_record input)" "qstatus r = Q_overridden"
    "dec_status (qr_releaseDecision r) = Overridden" "dec_override (qr_releaseDecision r) \<noteq> None"
    "dec_reviewAuthority (qr_releaseDecision r) = dec_reviewAuthority (qr_releaseDecision (bgi_record input))"
  using assms by (auto simp: applyBreakGlassOverride_def Let_def buildBreakGlassSummary_def record_id_def
      cloneDecisionWithBreakGlassOverride_def split: if_splits)

lemma closure_fields [simp]:
  "qstatus (review_closure_record r t c i) = qstatus r" "revs (review_closure_record r t c i) = revs r"
  "record_id (review_closure_record r t c i) = record_id r"
  "qd_authorityState (qr_detail (review_closure_record r t c i)) = qd_authorityState (qr_detail r)"
  "dec_status (qr_releaseDecision (review_closure_record r t c i)) = dec_status (qr_releaseDecision r)"
  "dec_override (qr_releaseDecision (review_closure_record r t c i)) = dec_override (qr_releaseDecision r)"
  "dec_reviewAuthority (qr_releaseDecision (review_closure_record r t c i)) =
     dec_reviewAuthority (qr_releaseDecision r)"
  by (simp_all add: review_closure_record_def attachIssuedTokenToReviewerQueueRecord_def Let_def record_id_def)

lemma authorized_reviewer_cong:
  "dec_reviewAuthority d = dec_reviewAuthority d' \<Longrightarrow> authorized_reviewer d = authorized_reviewer d'"
  by (simp add: fun_eq_iff authorized_reviewer_def)

lemma other_records_ok:
  "applyBreakGlassOverride input = Inr r \<Longrightarrow> queue_record_ok (bgi_record input) \<Longrightarrow> queue_record_ok r"
  "queue_record_ok old \<Longrightarrow> queue_record_ok (review_closure_record old t c i)"
  subgoal using authorized_reviewer_cong [OF overridden_record(7)]
    by (auto simp: queue_record_ok_def overridden_record outcome_matches_def)
  subgoal using authorized_reviewer_cong [OF closure_fields(7)]
    by (cases "qstatus old") (auto simp: queue_record_ok_def outcome_matches_def quorum_def needs_review_def)
  done

section \<open>Concurrent reviewers\<close>

text \<open>
  A later version of a record: it keeps all reviewer decisions, a closed review stays as it was
  closed, and a pending version with as many decisions is the very same record.
\<close>

definition supersedes :: "queue_record \<Rightarrow> queue_record \<Rightarrow> bool" where
  "supersedes new old \<longleftrightarrow> prefix (revs old) (revs new) \<and>
     (qstatus old \<noteq> Q_pending_review \<longrightarrow> qstatus new = qstatus old \<and> revs new = revs old) \<and>
     (qstatus new = Q_pending_review \<and> length (revs new) = length (revs old) \<longrightarrow> new = old)"

lemma supersedes_refl: "supersedes r r"
  by (simp add: supersedes_def)

lemma supersedes_trans:
  assumes "supersedes c b" and "supersedes b a"
  shows "supersedes c a"
proof -
  have "prefix (revs a) (revs c)"
    using assms prefix_order.trans by (auto simp: supersedes_def)
  moreover have "c = a" if "qstatus c = Q_pending_review" "length (revs c) = length (revs a)"
  proof -
    have "length (revs a) \<le> length (revs b)" "length (revs b) \<le> length (revs c)"
      using assms by (auto simp: supersedes_def dest: prefix_length_le)
    moreover have "qstatus b = Q_pending_review" using assms(1) that(1) by (auto simp: supersedes_def)
    ultimately show ?thesis using assms that by (auto simp: supersedes_def)
  qed
  ultimately show ?thesis using assms by (auto simp: supersedes_def)
qed

definition queue_inv :: "queue_state \<Rightarrow> bool" where
  "queue_inv st \<longleftrightarrow> (\<forall>k r. getRecord (fst st) k = Some r \<longrightarrow> queue_record_ok r) \<and>
     (\<forall>r\<in>set (snd st). queue_record_ok r \<and>
        (\<exists>cur. getRecord (fst st) (record_id r) = Some cur \<and> supersedes cur r))"

definition extends :: "queue_store \<Rightarrow> queue_store \<Rightarrow> bool" where
  "extends new old \<longleftrightarrow>
     (\<forall>k r. getRecord old k = Some r \<longrightarrow> (\<exists>r'. getRecord new k = Some r' \<and> supersedes r' r))"

lemma extends_refl: "extends f f"
  by (auto simp: extends_def supersedes_refl)

lemma extends_trans: "extends h g \<Longrightarrow> extends g f \<Longrightarrow> extends h f"
  unfolding extends_def by (meson supersedes_trans)

text \<open>Writing a well-formed record that supersedes the stored one keeps the invariant.\<close>

lemma upsert_step:
  assumes "queue_inv (file, seen)" and "queue_record_ok r"
    and "\<And>cur. getRecord file (record_id r) = Some cur \<Longrightarrow> supersedes r cur"
  shows "queue_inv (upsert file r, seen)" and "extends (upsert file r) file"
proof -
  show ext: "extends (upsert file r) file"
    using assms(3) by (auto simp: extends_def queue_records.lookup_put supersedes_refl)
  have "\<exists>cur. getRecord (upsert file r) (record_id sn) = Some cur \<and> supersedes cur sn"
    if sn: "sn \<in> set seen" for sn
  proof -
    obtain cur where cur: "getRecord file (record_id sn) = Some cur" "supersedes cur sn"
      using assms(1) sn by (auto simp: queue_inv_def)
    with ext obtain cur' where "getRecord (upsert file r) (record_id sn) = Some cur'" "supersedes cur' cur"
      by (auto simp: extends_def)
    with cur(2) show ?thesis using supersedes_trans by blast
  qed
  then show "queue_inv (upsert file r, seen)"
    using assms(1,2) by (auto simp: queue_inv_def queue_records.lookup_put)
qed

text \<open>A commit succeeds only when the stored record is the one that was read.\<close>

lemma commit_current:
  assumes "queue_inv (file, seen)" and "old \<in> set seen" and "qstatus old = Q_pending_review"
    and "record_id r = record_id old"
    and "commitPendingTransition (expect_unchanged old r) file = Inr (stored, file')"
  shows "getRecord file (record_id r) = Some old" and "file' = upsert file r"
proof -
  from assms(5) obtain cur where cur: "getRecord file (record_id r) = Some cur"
    and same: "qstatus cur = Q_pending_review" "length (revs cur) = length (revs old)"
    and file': "file' = upsert file r"
    by (auto simp: commitPendingTransition_def expect_unchanged_def getRecord_def Let_def
        split: option.splits if_splits)
  have "supersedes cur old" using assms(1,2,4) cur by (auto simp: queue_inv_def)
  then show "getRecord file (record_id r) = Some old" and "file' = upsert file r"
    using same cur file' by (auto simp: supersedes_def)
qed

lemma queue_step_inv:
  assumes "queue_step st st'" and "queue_inv st"
  shows "queue_inv st' \<and> extends (fst st') (fst st)"
  using assms
proof (induction rule: queue_step.induct)
  case (q_enqueue input fl seen)
  then show ?case using upsert_step [OF q_enqueue.prems created_record_ok [OF q_enqueue.hyps(1)]] by simp
next
  case (q_read fl reviewId r seen)
  then show ?case
    using queue_records.lookup_key [OF q_read.hyps]
    by (auto simp: queue_inv_def extends_refl supersedes_refl)
next
  case (q_review input seen uuid r reached fl stored fl')
  note a = applied_decision [OF q_review.hyps(2)]
  note c = commit_current [OF q_review.prems q_review.hyps(1) a(1,4) q_review.hyps(3)]
  have ok: "queue_record_ok r"
    using q_review.prems q_review.hyps(1) reviewed_record_ok [OF q_review.hyps(2)] by (auto simp: queue_inv_def)
  have "supersedes r cur" if "getRecord fl (record_id r) = Some cur" for cur
    using that c(1) a(1,2) by (simp add: supersedes_def)
  then show ?case using upsert_step [OF q_review.prems ok] c(2) by simp
next
  case (q_override input seen r fl stored fl')
  note a = overridden_record [OF q_override.hyps(2)]
  note c = commit_current [OF q_override.prems q_override.hyps(1) a(1,3) q_override.hyps(3)]
  have ok: "queue_record_ok r"
    using q_override.prems q_override.hyps(1) other_records_ok(1) [OF q_override.hyps(2)]
    by (auto simp: queue_inv_def)
  have "supersedes r cur" if "getRecord fl (record_id r) = Some cur" for cur
    using that c(1) a(1,2,4) by (simp add: supersedes_def)
  then show ?case using upsert_step [OF q_override.prems ok] c(2) by simp
next
  case (q_close fl reviewId r seen token closureId issuedAt)
  let ?r = "review_closure_record r token closureId issuedAt"
  have "record_id r = reviewId" using q_close.hyps(1) by (rule queue_records.lookup_key)
  then have "supersedes ?r cur" if "getRecord fl (record_id ?r) = Some cur" for cur
    using that q_close.hyps by (auto simp: supersedes_def)
  moreover have "queue_record_ok r" using q_close.prems q_close.hyps(1) by (auto simp: queue_inv_def)
  ultimately show ?case
    using upsert_step [OF q_close.prems other_records_ok(2)] by simp
qed

lemma queue_reachable_inv: "queue_reachable st \<Longrightarrow> queue_inv st"
proof (induction rule: queue_reachable.induct)
  case queue_start
  then show ?case by (simp add: queue_inv_def getRecord_def)
qed (blast dest: queue_step_inv)

lemma reachable_record_ok:
  "queue_reachable (file, seen) \<Longrightarrow> getRecord file k = Some r \<Longrightarrow> queue_record_ok r"
  using queue_reachable_inv by (fastforce simp: queue_inv_def)

text \<open>
  C16: Review authority. In every reachable state of the queue, however reviewers and emergency
  overrides interleave and however old the records are they act on, a review whose decision is
  accepted has at least the required number of reviewers, all distinct, all authorized for the
  decision and all approving; a rejected review is denied; an overridden one carries a grant.\<close>

theorem accepted_review_has_quorum:
  assumes "queue_reachable (file, seen)" and "getRecord file reviewId = Some r"
  shows "distinct (map rvd_reviewerId (revs r)) \<and> list_all (authorized_reviewer (qr_releaseDecision r)) (revs r) \<and>
    (case dec_status (qr_releaseDecision r) of
       Accepted \<Rightarrow> qstatus r = Q_approved \<and> quorum r
     | Denied \<Rightarrow> qstatus r = Q_rejected
     | Overridden \<Rightarrow> qstatus r = Q_overridden \<and> dec_override (qr_releaseDecision r) \<noteq> None
     | Review_required \<Rightarrow> qstatus r = Q_pending_review
     | Hold \<Rightarrow> qstatus r = Q_pending_review
     | _ \<Rightarrow> False)"
  using reachable_record_ok [OF assms]
  by (cases "qstatus r") (auto simp: queue_record_ok_def outcome_matches_def needs_review_def)

text \<open>
  C17: No lost review. From any reachable state, after any number of further steps every review
  is still there with all the reviewer decisions it had, in order, and a closed review is closed
  the same way.\<close>

theorem reviews_never_lost:
  assumes "queue_reachable st" and "queue_step\<^sup>*\<^sup>* st st'"
    and "getRecord (fst st) reviewId = Some r"
  shows "\<exists>r'. getRecord (fst st') reviewId = Some r' \<and> prefix (revs r) (revs r') \<and>
    (qstatus r \<noteq> Q_pending_review \<longrightarrow> qstatus r' = qstatus r)"
proof -
  have "queue_reachable st' \<and> extends (fst st') (fst st)"
    using assms(2,1)
  proof (induction rule: rtranclp_induct)
    case base
    then show ?case by (simp add: extends_refl)
  next
    case (step y z)
    then have "queue_inv y" by (simp add: queue_reachable_inv)
    with step show ?case
      using queue_step_inv extends_trans by (blast intro: queue_next)
  qed
  then show ?thesis using assms(3) by (auto simp: extends_def supersedes_def)
qed

text \<open>
  C18: No token without authority. A token issued for the decision of a queued review implies
  that the review was approved by a quorum, or overridden with a reason by a requester in an
  authorized role.\<close>

theorem review_token_needs_authority:
  assumes "queue_reachable (file, seen)" and "getRecord file reviewId = Some r"
    and "issue jose now uuid I i = Inr t" and "tii_decision i = qr_releaseDecision r"
  shows "quorum r \<and> 0 < length (revs r) \<or>
    (\<exists>grant role. dec_override (qr_releaseDecision r) = Some grant \<and> trim (og_reasonCode grant) \<noteq> [] \<and>
      act_role (og_requestedBy grant) = Some role \<and>
      override_role_allowed (qr_releaseDecision r)
        (nullish (iss_overrideAuthorityRoles I) DEFAULT_RELEASE_TOKEN_OVERRIDE_AUTHORITY_ROLES) role)"
proof -
  have ok: "outcome_matches r" "0 < required_reviewers r"
    using reachable_record_ok [OF assms(1,2)] by (simp_all add: queue_record_ok_def)
  have "token_eligible (qr_releaseDecision r)
      (nullish (iss_overrideAuthorityRoles I) DEFAULT_RELEASE_TOKEN_OVERRIDE_AUTHORITY_ROLES)"
    by (rule issue_facts [OF assms(3)]) (simp add: assms(4))
  then show ?thesis
    using ok by (cases "qstatus r")
      (auto simp: outcome_matches_def needs_review_def token_eligible_def quorum_def split: option.splits)
qed

section \<open>The list of pending reviews\<close>

definition listed :: "queue_list_options \<Rightarrow> queue_detail \<Rightarrow> bool" where
  "listed options item \<longleftrightarrow> qd_status item = Q_pending_review \<and>
     (case qlo_riskClass options of None \<Rightarrow> True | Some r \<Rightarrow> qd_riskClass item = r) \<and>
     (case qlo_consequenceType options of None \<Rightarrow> True | Some t \<Rightarrow> qd_consequenceType item = t)"

lemma riskRank_order:
  "4 - riskRank a < 4 - riskRank b \<longleftrightarrow> b < a" "4 - riskRank a \<le> 4 - riskRank b \<longleftrightarrow> b = a \<or> b < a"
  by (cases a; cases b; simp add: less_risk_class_def)+

definition pending_items :: "queue_list_options \<Rightarrow> queue_store \<Rightarrow> queue_detail list" where
  "pending_items options file =
     sort_key (\<lambda>item. (4 - riskRank (qd_riskClass item), qd_createdAt item))
       (filter (listed options) (map qr_detail file))"

definition before :: "queue_detail \<Rightarrow> queue_detail \<Rightarrow> bool" where
  "before a b \<longleftrightarrow> qd_riskClass b < qd_riskClass a \<or>
     qd_riskClass a = qd_riskClass b \<and> qd_createdAt a \<le> qd_createdAt b"

lemma listPending_eq:
  "qlr_items (listPending options file) =
     (case qlo_limit options of None \<Rightarrow> pending_items options file
      | Some n \<Rightarrow> if n = 0 then pending_items options file else take n (pending_items options file))"
  "qlr_totalPending (listPending options file) = length (pending_items options file)"
  "qlr_countsByRiskClass (listPending options file) r =
     length (filter (\<lambda>item. qd_riskClass item = r) (pending_items options file))"
proof -
  have "filter (\<lambda>item. case qlo_consequenceType options of None \<Rightarrow> True | Some t \<Rightarrow> qd_consequenceType item = t)
      (filter (\<lambda>item. case qlo_riskClass options of None \<Rightarrow> True | Some r \<Rightarrow> qd_riskClass item = r)
        (filter (\<lambda>item. qd_status item = Q_pending_review) (map qr_detail file))) =
      filter (listed options) (map qr_detail file)"
    unfolding filter_filter by (rule filter_cong) (auto simp: listed_def)
  note filtered = this
  show "qlr_items (listPending options file) =
     (case qlo_limit options of None \<Rightarrow> pending_items options file
      | Some n \<Rightarrow> if n = 0 then pending_items options file else take n (pending_items options file))"
    "qlr_totalPending (listPending options file) = length (pending_items options file)"
    "qlr_countsByRiskClass (listPending options file) r =
     length (filter (\<lambda>item. qd_riskClass item = r) (pending_items options file))"
    unfolding listPending_def Let_def filtered pending_items_def by simp_all
qed

lemma pending_items_sorted: "sorted_wrt before (pending_items options file)"
proof -
  let ?key = "\<lambda>item. (4 - riskRank (qd_riskClass item), qd_createdAt item)"
  have key: "before a b" if "?key a \<le> ?key b" for a b
    using that by (auto simp: before_def riskRank_order)
  have "sorted_wrt (\<lambda>a b. ?key a \<le> ?key b) (pending_items options file)"
    using sorted_sort_key [of ?key] unfolding pending_items_def sorted_map .
  then show ?thesis by (rule sorted_wrt_mono_rel [rotated]) (rule key)
qed

lemma pending_items_mset: "mset (pending_items options file) = mset (filter (listed options) (map qr_detail file))"
  by (simp add: pending_items_def)

lemma pending_items_count:
  "length (filter P (pending_items options file)) =
     length (filter (\<lambda>item. listed options item \<and> P item) (map qr_detail file))"
proof -
  have "length (filter P (pending_items options file)) =
      length (filter P (filter (listed options) (map qr_detail file)))"
    by (metis mset_filter pending_items_mset size_mset)
  then show ?thesis by (simp add: filter_filter conj_commute)
qed

lemma pending_items_limit: "pending_items (options\<lparr> qlo_limit := l \<rparr>) file = pending_items options file"
  by (simp add: pending_items_def listed_def cong: filter_cong)

text \<open>
Without a limit the list of pending reviews holds exactly the pending items that match
  the filters, the most dangerous risk class first and the oldest first within a class; a
  limit cuts this list; the total and the counts per risk class describe the whole list.\<close>

theorem pending_list_exact:
  "mset (qlr_items (listPending (options\<lparr> qlo_limit := None \<rparr>) file)) =
     mset (filter (listed options) (map qr_detail file)) \<and>
   sorted_wrt before (qlr_items (listPending options file)) \<and>
   prefix (qlr_items (listPending options file))
     (qlr_items (listPending (options\<lparr> qlo_limit := None \<rparr>) file)) \<and>
   qlr_totalPending (listPending options file) = length (filter (listed options) (map qr_detail file)) \<and>
   qlr_countsByRiskClass (listPending options file) r =
     length (filter (\<lambda>item. listed options item \<and> qd_riskClass item = r) (map qr_detail file))"
proof (intro conjI)
  show "sorted_wrt before (qlr_items (listPending options file))"
    using pending_items_sorted by (simp add: listPending_eq sorted_wrt_take split: option.split)
  show "prefix (qlr_items (listPending options file))
      (qlr_items (listPending (options\<lparr> qlo_limit := None \<rparr>) file))"
    by (simp add: listPending_eq pending_items_limit take_is_prefix split: option.split)
  show "qlr_totalPending (listPending options file) = length (filter (listed options) (map qr_detail file))"
    using pending_items_count [where P = "\<lambda>_. True"] by (simp add: listPending_eq)
qed (simp_all add: listPending_eq pending_items_limit pending_items_mset pending_items_count)

section \<open>Witnesses\<close>

definition review_decision :: release_decision where
  "review_decision = sample_decision\<lparr> dec_status := Review_required,
     dec_reviewAuthority := buildReviewAuthority R3 no_authority_overrides \<rparr>"

definition review_input :: create_queue_item_input where
  "review_input =
     \<lparr> cqi_decision = review_decision,
       cqi_candidate = \<lparr> fca_adapterId = ''xbrl'', fca_runId = ''run1'', fca_decision = ''pass'',
         fca_certificateId = None, fca_evidenceChainTerminal = ''e'', fca_rows = [], fca_proofMode = ''live'' \<rparr>,
       cqi_report = \<lparr> frp_decision = ''pass'', frp_receiptStatus = None, frp_oversightStatus = ''none'' \<rparr>,
       cqi_logEntries = [], cqi_tenantId = None \<rparr>"

definition queued_review :: queue_record where
  "queued_review = createFinanceReviewerQueueItem review_input"

definition approval :: apply_decision_input where
  "approval = \<lparr> adi_record = queued_review, adi_outcome = Rv_approved, adi_reviewerId = ''ann'',
     adi_reviewerName = ''Ann'', adi_reviewerRole = ''controller'', adi_decidedAt = ''t1'', adi_note = None \<rparr>"

definition approved_review :: queue_record where
  "approved_review = fst (projr (applyReviewerDecision ''u'' approval))"

lemma review_authority: "dec_reviewAuthority (qr_releaseDecision queued_review) =
    \<lparr> ra_mode = Named_reviewer, ra_minimumReviewerCount = 1, ra_requiresNamedReviewer = True,
      ra_requiredRoles = [], ra_requiredReviewerIds = [] \<rparr>"
  by (simp add: queued_review_def createFinanceReviewerQueueItem_def Let_def review_input_def review_decision_def
      buildReviewAuthority_def no_authority_overrides_def defaultReviewAuthorityForRiskClass_def)

lemma queued_fields: "qstatus queued_review = Q_pending_review" "revs queued_review = []"
    "record_id queued_review = ''review_d1''" "qr_releaseDecision queued_review = review_decision"
    "qd_authorityState (qr_detail queued_review) = As_pending"
  by (simp_all add: queued_review_def createFinanceReviewerQueueItem_def Let_def record_id_def
      review_input_def review_decision_def sample_decision_def)

lemma approval_applies: "\<exists>reached. applyReviewerDecision ''u'' approval = Inr (approved_review, reached)"
proof -
  have "trim ''ann'' = ''ann''" "trim ''Ann'' = ''Ann''" "trim ''controller'' = ''controller''"
    by (simp_all add: trim_def js_whitespace_def)
  then have "ensureNamedReviewerRequirements (qr_releaseDecision queued_review) approval = Inr ()"
    by (simp add: ensureNamedReviewerRequirements_def review_authority approval_def Let_def)
  moreover have "adi_record approval = queued_review" by (simp add: approval_def)
  ultimately have "\<exists>x. applyReviewerDecision ''u'' approval = Inr x"
    by (simp add: applyReviewerDecision_def queued_fields Let_def del: rbind_eq_Inr)
  then show ?thesis by (auto simp: approved_review_def)
qed

lemma approved_fields:
  "record_id approved_review = ''review_d1''" "revs approved_review = [reviewerDecisionRecord ''u'' approval]"
  "qr_releaseDecision approved_review =
     cloneDecisionWithReviewOutcome review_decision approval [reviewerDecisionRecord ''u'' approval]"
proof -
  obtain reached where "applyReviewerDecision ''u'' approval = Inr (approved_review, reached)"
    using approval_applies by blast
  note a = applied_decision [OF this]
  have "adi_record approval = queued_review" by (simp add: approval_def)
  then show "record_id approved_review = ''review_d1''" "revs approved_review = [reviewerDecisionRecord ''u'' approval]"
    "qr_releaseDecision approved_review =
     cloneDecisionWithReviewOutcome review_decision approval [reviewerDecisionRecord ''u'' approval]"
    using a(2-4) by (simp_all add: queued_fields)
qed

lemma queued_reachable: "queue_reachable ([queued_review], [queued_review])"
proof -
  have "needs_review (cqi_decision review_input)"
    using review_authority queued_fields(4)
    by (simp add: needs_review_def review_input_def) (simp add: review_decision_def)
  then have "queue_step ([], []) (upsert [] queued_review, [])"
    unfolding queued_review_def by (rule q_enqueue) (simp add: getRecord_def)
  with queue_start have "queue_reachable ([queued_review], [])"
    by (auto simp: upsert_def intro: queue_next)
  moreover have "queue_step ([queued_review], []) ([queued_review], [queued_review])"
    by (rule q_read [where reviewId = "''review_d1''"]) (simp add: getRecord_def queued_fields)
  ultimately show ?thesis by (rule queue_next)
qed

lemma approved_step: "queue_step ([queued_review], [queued_review]) ([approved_review], [queued_review])"
proof -
  obtain reached where a: "applyReviewerDecision ''u'' approval = Inr (approved_review, reached)"
    using approval_applies by blast
  have "adi_record approval \<in> set [queued_review]" by (simp add: approval_def)
  moreover have "commitPendingTransition (expect_unchanged (adi_record approval) approved_review) [queued_review] =
      Inr (qr_detail approved_review, [approved_review])"
    by (simp add: commitPendingTransition_def expect_unchanged_def approval_def Let_def queued_fields
        approved_fields(1) upsert_def)
  ultimately show ?thesis by (intro q_review [OF _ a])
qed

lemmas approved_reachable = queue_next [OF queued_reachable approved_step]

lemma approved_stored: "getRecord [approved_review] ''review_d1'' = Some approved_review"
  by (simp add: getRecord_def approved_fields(1))

lemma approved_status: "dec_status (qr_releaseDecision approved_review) = Accepted"
  using review_authority reviewed_status [of "[]" review_decision approval "''u''"]
  by (simp add: approved_fields(3) queued_fields(4)) (simp add: approval_def)

theorem accepted_review_has_quorum_witness:
  "queue_reachable ([approved_review], [queued_review]) \<and> qstatus approved_review = Q_approved \<and> quorum approved_review"
  using accepted_review_has_quorum [OF approved_reachable approved_stored] approved_reachable approved_status
  by simp

theorem reviews_never_lost_witness:
  "\<exists>r'. getRecord [approved_review] ''review_d1'' = Some r' \<and> prefix (revs queued_review) (revs r')"
proof -
  have "getRecord (fst ([queued_review], [queued_review])) ''review_d1'' = Some queued_review"
    by (simp add: getRecord_def queued_fields)
  from reviews_never_lost [OF queued_reachable r_into_rtranclp [of queue_step, OF approved_step] this]
  show ?thesis by auto
qed

definition review_issue_input :: token_issue_input where
  "review_issue_input = sample_issue_input\<lparr> tii_decision := qr_releaseDecision approved_review \<rparr>"

theorem review_token_needs_authority_witness:
  "\<exists>t. issue sample_jose 0 [] sample_issuer review_issue_input = Inr t \<and>
     quorum approved_review \<and> 0 < length (revs approved_review)"
proof -
  have "dec_releaseConditions (qr_releaseDecision approved_review) = dec_releaseConditions sample_decision"
    "dec_override (qr_releaseDecision approved_review) = None"
    by (simp_all add: approved_fields(3) cloneDecisionWithReviewOutcome_def Let_def review_decision_def
        sample_decision_def)
  with approved_status have "\<exists>t. issue sample_jose 0 [] sample_issuer review_issue_input = Inr t"
    by (simp del: rbind_eq_Inr add: issue_def issuer_keyId_def sample_jose_def sample_issuer_def
        review_issue_input_def sample_issue_input_def assertDecisionEligibleForReleaseToken_def
        parseIssuedAt_def resolveTokenTtlSeconds_def releaseDecisionExpiresAt_def sample_decision_def
        parseOptionalEpochSeconds_def buildReleaseTokenClaims_def sample_tenant toISO_def
        max_time_value_def Let_def)
  then obtain t where t: "issue sample_jose 0 [] sample_issuer review_issue_input = Inr t" by blast
  have "dec_override (qr_releaseDecision approved_review) = None"
    by (simp add: approved_fields(3) cloneDecisionWithReviewOutcome_def Let_def review_decision_def
        sample_decision_def)
  then show ?thesis
    using t review_token_needs_authority [OF approved_reachable approved_stored t]
    by (simp add: review_issue_input_def)
qed

end
