(* ===== verification/Token_Registry.thy ===== *)
theory Token_Registry
  imports Release_Token Decision_Log
begin

text \<open>
  The registry of issued release tokens: the stores of
  src/release-kernel/release-introspection.ts with the types of release-introspection-types.ts
  and release-decision-revocation.ts.

  The state of a store is the list of registered tokens and the list of decision revocations.
  Every operation runs as an action on a working copy which is kept only when the action
  returns; the in-memory store keeps it in a variable, the file-backed store loads it before
  and saves it after the action. Instants in records are integers: the code compares
  \<open>toISOString\<close> texts, which order like the instants for the years 0 to 9999. A file is the
  content a parser finds in it. The directory, lock and path resolution are not modelled.

  The lemmas show that a token is used at most as often as its decision allows, that a token
  that left the state \<open>issued\<close> never comes back, that revocation of a decision is final, and
  that the file-backed store behaves like the in-memory one.
\<close>

section \<open>Data\<close>

definition RELEASE_TOKEN_REGISTRY_SPEC_VERSION :: string where
  "RELEASE_TOKEN_REGISTRY_SPEC_VERSION = ''attestor.release-token-registry.v2''"

datatype token_registry_status = Tok_issued | Tok_revoked | Tok_expired | Tok_consumed

fun token_registry_status_str :: "token_registry_status \<Rightarrow> string" where
  "token_registry_status_str Tok_issued = ''issued''"
| "token_registry_status_str Tok_revoked = ''revoked''"
| "token_registry_status_str Tok_expired = ''expired''"
| "token_registry_status_str Tok_consumed = ''consumed''"

datatype token_inactive_reason =
    Ir_invalid
  | Ir_unknown
  | Ir_unsupported_token_type
  | Ir_claim_mismatch
  | Ir_revoked
  | Ir_expired
  | Ir_usage_exhausted

record registered_release_token =
  rrt_version :: string
  rrt_status :: token_registry_status
  rrt_statusChangedAt :: timestamp
  rrt_tokenId :: string
  rrt_issuer :: string
  rrt_subject :: string
  rrt_audience :: string
  rrt_tenantId :: "string option"
  rrt_issuedAt :: timestamp
  rrt_notBefore :: timestamp
  rrt_expiresAt :: timestamp
  rrt_decisionId :: string
  rrt_decisionStatus :: release_decision_status
  rrt_consequenceType :: consequence_type
  rrt_riskClass :: risk_class
  rrt_outputHash :: string
  rrt_consequenceHash :: string
  rrt_policyHash :: string
  rrt_policyVersion :: "string option"
  rrt_policyIrHash :: "string option"
  rrt_policyProvenanceSource :: "release_policy_provenance_source option"
  rrt_compiledPolicyIndexVersion :: "string option"
  rrt_compiledPolicyIrVersion :: "string option"
  rrt_override :: bool
  rrt_introspectionRequired :: bool
  rrt_authorityMode :: review_authority_mode
  rrt_keyId :: string
  rrt_publicKeyFingerprint :: string
  rrt_maxUses :: int
  rrt_useCount :: int
  rrt_firstUsedAt :: "timestamp option"
  rrt_lastUsedAt :: "timestamp option"
  rrt_lastUsedByResourceServerId :: "string option"
  rrt_revokedAt :: "timestamp option"
  rrt_revocationReason :: "string option"
  rrt_revokedBy :: "string option"
  rrt_expiredAt :: "timestamp option"

record register_token_input =
  rti_issuedToken :: issued_release_token
  rti_decision :: release_decision

record revoke_token_input =
  rvi_tokenId :: string
  rvi_revokedAt :: "js_date option"
  rvi_reason :: "string option"
  rvi_revokedBy :: "string option"

record decision_revocation =
  drv_version :: string
  drv_decisionId :: string
  drv_revokedAt :: timestamp
  drv_reason :: "string option"
  drv_revokedBy :: "string option"

record revoke_decision_input =
  rdi_decisionId :: string
  rdi_revokedAt :: "js_date option"
  rdi_reason :: "string option"
  rdi_revokedBy :: "string option"

record revoke_decision_result =
  rdr_decisionRevocation :: decision_revocation
  rdr_revokedTokens :: "registered_release_token list"
  rdr_alreadyInactiveTokens :: "registered_release_token list"

record token_use_input =
  tui_tokenId :: string
  tui_usedAt :: "js_date option"
  tui_resourceServerId :: "string option"

record token_use_result =
  tur_accepted :: bool
  tur_inactiveReason :: "token_inactive_reason option"
  tur_record :: "registered_release_token option"

record token_store =
  sto_records :: "registered_release_token list"
  sto_decisionRevocations :: "decision_revocation list"

section \<open>Lifecycle texts and instants\<close>

definition introspectionTimestamp :: "int \<Rightarrow> js_date option \<Rightarrow> timestamp result" where
  "introspectionTimestamp now currentDate =
     (case truthy_date currentDate of
        None \<Rightarrow> return now
      | Some d \<Rightarrow>
          (case getTime d of
             None \<Rightarrow> throw (Error ''Release token introspection requires a valid currentDate when provided.'')
           | Some t \<Rightarrow> return t))"

definition normalizeLifecycleTimestamp :: "int \<Rightarrow> string \<Rightarrow> js_date option \<Rightarrow> timestamp result" where
  "normalizeLifecycleTimestamp now label timestamp =
     rbind (introspectionTimestamp now timestamp) (\<lambda>normalized. return normalized)"

definition normalizeReleaseLifecycleText :: "string option \<Rightarrow> string \<Rightarrow> string option result" where
  "normalizeReleaseLifecycleText value fieldName =
     (case value of
        None \<Rightarrow> return None
      | Some v \<Rightarrow>
          if trim v = [] then
            throw (Error (''Release token lifecycle '' @ fieldName @ '' must be non-empty when provided.''))
          else return (Some (trim v)))"

definition freezeReleaseDecisionRevocation ::
  "int \<Rightarrow> string \<times> js_date \<times> string option \<times> string option \<Rightarrow> decision_revocation result" where
  "freezeReleaseDecisionRevocation now record =
     (let (decisionId, revokedAt, reason, revokedBy) = record in
      rbind (normalizeReleaseLifecycleText (Some decisionId) ''decisionId'') (\<lambda>decisionId'.
      rbind (introspectionTimestamp now (Some revokedAt)) (\<lambda>revokedAt'.
      rbind (normalizeReleaseLifecycleText reason ''reason'') (\<lambda>reason'.
      rbind (normalizeReleaseLifecycleText revokedBy ''revokedBy'') (\<lambda>revokedBy'. return
        \<lparr> drv_version = RELEASE_TOKEN_REGISTRY_SPEC_VERSION,
          drv_decisionId = nullish decisionId' decisionId,
          drv_revokedAt = revokedAt',
          drv_reason = reason',
          drv_revokedBy = revokedBy' \<rparr>)))))"

definition releaseDecisionRevocationRecordFor ::
  "int \<Rightarrow> revoke_decision_input \<Rightarrow> decision_revocation result" where
  "releaseDecisionRevocationRecordFor now input =
     rbind (normalizeReleaseLifecycleText (Some (rdi_decisionId input)) ''decisionId'') (\<lambda>decisionId.
     rbind (normalizeLifecycleTimestamp now ''revokedAt'' (rdi_revokedAt input)) (\<lambda>revokedAt.
     rbind (normalizeReleaseLifecycleText (rdi_reason input) ''reason'') (\<lambda>reason.
     rbind (normalizeReleaseLifecycleText (rdi_revokedBy input) ''revokedBy'') (\<lambda>revokedBy. return
       \<lparr> drv_version = RELEASE_TOKEN_REGISTRY_SPEC_VERSION,
         drv_decisionId = nullish decisionId (rdi_decisionId input),
         drv_revokedAt = revokedAt,
         drv_reason = reason,
         drv_revokedBy = revokedBy \<rparr>))))"

text \<open>The fields of a revocation as they stand in a record that is frozen again or saved.\<close>

definition revocation_fields ::
  "decision_revocation \<Rightarrow> string \<times> js_date \<times> string option \<times> string option" where
  "revocation_fields r = (drv_decisionId r, Iso (drv_revokedAt r), drv_reason r, drv_revokedBy r)"

section \<open>Records\<close>

definition inactiveReasonForRegisteredReleaseToken ::
  "registered_release_token \<Rightarrow> token_inactive_reason" where
  "inactiveReasonForRegisteredReleaseToken record =
     (case rrt_status record of
        Tok_revoked \<Rightarrow> Ir_revoked
      | Tok_expired \<Rightarrow> Ir_expired
      | Tok_consumed \<Rightarrow> Ir_usage_exhausted
      | Tok_issued \<Rightarrow> Ir_invalid)"

definition buildRegisteredReleaseToken :: "register_token_input \<Rightarrow> registered_release_token result" where
  "buildRegisteredReleaseToken input =
     (let issuedToken = rti_issuedToken input;
          decision = rti_decision input;
          claims = irt_claims issuedToken;
          provenance = dec_policyProvenance decision
      in rbind (toISO (clm_nbf claims * 1000)) (\<lambda>notBefore. return
        \<lparr> rrt_version = RELEASE_TOKEN_REGISTRY_SPEC_VERSION,
          rrt_status = Tok_issued,
          rrt_statusChangedAt = irt_issuedAt issuedToken,
          rrt_tokenId = irt_tokenId issuedToken,
          rrt_issuer = clm_iss claims,
          rrt_subject = clm_sub claims,
          rrt_audience = clm_aud claims,
          rrt_tenantId = clm_tenant_id claims,
          rrt_issuedAt = irt_issuedAt issuedToken,
          rrt_notBefore = notBefore,
          rrt_expiresAt = irt_expiresAt issuedToken,
          rrt_decisionId = dec_id decision,
          rrt_decisionStatus = dec_status decision,
          rrt_consequenceType = dec_consequenceType decision,
          rrt_riskClass = dec_riskClass decision,
          rrt_outputHash = dec_outputHash decision,
          rrt_consequenceHash = dec_consequenceHash decision,
          rrt_policyHash = dec_policyHash decision,
          rrt_policyVersion = Some (nullish (clm_policy_version claims) (dec_policyVersion decision)),
          rrt_policyIrHash =
            nullish_opt (clm_policy_ir_hash claims) (Option.bind provenance prov_compiledPolicyIrHash),
          rrt_policyProvenanceSource =
            nullish_opt (clm_policy_provenance_source claims) (map_option prov_source provenance),
          rrt_compiledPolicyIndexVersion =
            nullish_opt (clm_compiled_policy_index_version claims)
              (Option.bind provenance prov_compiledPolicyIndexVersion),
          rrt_compiledPolicyIrVersion =
            nullish_opt (clm_compiled_policy_ir_version claims)
              (Option.bind provenance prov_compiledPolicyIrVersion),
          rrt_override = (dec_override decision \<noteq> None \<or> dec_status decision = Overridden),
          rrt_introspectionRequired = clm_introspection_required claims,
          rrt_authorityMode = ra_mode (dec_reviewAuthority decision),
          rrt_keyId = irt_keyId issuedToken,
          rrt_publicKeyFingerprint = irt_publicKeyFingerprint issuedToken,
          rrt_maxUses = max 1 (nullish (releaseDecisionMaxUses decision) 1),
          rrt_useCount = 0,
          rrt_firstUsedAt = None,
          rrt_lastUsedAt = None,
          rrt_lastUsedByResourceServerId = None,
          rrt_revokedAt = None,
          rrt_revocationReason = None,
          rrt_revokedBy = None,
          rrt_expiredAt = None \<rparr>))"

definition json_date_opt :: "timestamp option \<Rightarrow> json" where
  "json_date_opt t = json_str_opt (map_option toISOString t)"

definition registered_token_json :: "registered_release_token \<Rightarrow> json" where
  "registered_token_json r = JObject
     [(''version'', JString (rrt_version r)),
      (''status'', JString (token_registry_status_str (rrt_status r))),
      (''statusChangedAt'', JString (toISOString (rrt_statusChangedAt r))),
      (''tokenId'', JString (rrt_tokenId r)),
      (''issuer'', JString (rrt_issuer r)),
      (''subject'', JString (rrt_subject r)),
      (''audience'', JString (rrt_audience r)),
      (''tenantId'', json_str_opt (rrt_tenantId r)),
      (''issuedAt'', JString (toISOString (rrt_issuedAt r))),
      (''notBefore'', JString (toISOString (rrt_notBefore r))),
      (''expiresAt'', JString (toISOString (rrt_expiresAt r))),
      (''decisionId'', JString (rrt_decisionId r)),
      (''decisionStatus'', JString (release_decision_status_str (rrt_decisionStatus r))),
      (''consequenceType'', JString (consequence_type_str (rrt_consequenceType r))),
      (''riskClass'', JString (risk_class_str (rrt_riskClass r))),
      (''outputHash'', JString (rrt_outputHash r)),
      (''consequenceHash'', JString (rrt_consequenceHash r)),
      (''policyHash'', JString (rrt_policyHash r)),
      (''policyVersion'', json_str_opt (rrt_policyVersion r)),
      (''policyIrHash'', json_str_opt (rrt_policyIrHash r)),
      (''policyProvenanceSource'', json_str_opt (map_option prov_source_str (rrt_policyProvenanceSource r))),
      (''compiledPolicyIndexVersion'', json_str_opt (rrt_compiledPolicyIndexVersion r)),
      (''compiledPolicyIrVersion'', json_str_opt (rrt_compiledPolicyIrVersion r)),
      (''override'', JBool (rrt_override r)),
      (''introspectionRequired'', JBool (rrt_introspectionRequired r)),
      (''authorityMode'', JString (review_authority_mode_str (rrt_authorityMode r))),
      (''keyId'', JString (rrt_keyId r)),
      (''publicKeyFingerprint'', JString (rrt_publicKeyFingerprint r)),
      (''maxUses'', JNumber (Num (rrt_maxUses r))),
      (''useCount'', JNumber (Num (rrt_useCount r))),
      (''firstUsedAt'', json_date_opt (rrt_firstUsedAt r)),
      (''lastUsedAt'', json_date_opt (rrt_lastUsedAt r)),
      (''lastUsedByResourceServerId'', json_str_opt (rrt_lastUsedByResourceServerId r)),
      (''revokedAt'', json_date_opt (rrt_revokedAt r)),
      (''revocationReason'', json_str_opt (rrt_revocationReason r)),
      (''revokedBy'', json_str_opt (rrt_revokedBy r)),
      (''expiredAt'', json_date_opt (rrt_expiredAt r))]"

definition registeredTokenRecordsMatch ::
  "registered_release_token \<Rightarrow> registered_release_token \<Rightarrow> bool result" where
  "registeredTokenRecordsMatch left right =
     rbind (canonicalizeReleaseJson (registered_token_json left)) (\<lambda>l.
     rbind (canonicalizeReleaseJson (registered_token_json right)) (\<lambda>r. return (l = r)))"

abbreviation in_quotes :: "string \<Rightarrow> string" where
  "in_quotes s \<equiv> CHR 0x27 # s @ [CHR 0x27]"

definition assertRegistrationCanReplay ::
  "registered_release_token \<Rightarrow> registered_release_token \<Rightarrow> unit result" where
  "assertRegistrationCanReplay existing proposed =
     (if rrt_status existing \<noteq> Tok_issued then
        throw (ReleaseTokenIntrospectionStoreError (''Release token '' @ in_quotes (rrt_tokenId proposed) @
          '' cannot be re-registered after '' @ token_registry_status_str (rrt_status existing) @ '' state.''))
      else rbind (registeredTokenRecordsMatch existing proposed) (\<lambda>same.
        if \<not> same then
          throw (ReleaseTokenIntrospectionStoreError (''Release token '' @ in_quotes (rrt_tokenId proposed) @
            '' is already registered with different authority state.''))
        else return ()))"

definition expireRegisteredReleaseToken :: "registered_release_token \<Rightarrow> registered_release_token" where
  "expireRegisteredReleaseToken record =
     (if rrt_status record \<noteq> Tok_issued then record
      else record\<lparr> rrt_status := Tok_expired, rrt_statusChangedAt := rrt_expiresAt record,
             rrt_expiredAt := Some (rrt_expiresAt record) \<rparr>)"

definition nonblank :: "string option \<Rightarrow> string option" where
  "nonblank value =
     (case value of None \<Rightarrow> None | Some v \<Rightarrow> if trim v \<noteq> [] then Some (trim v) else None)"

definition revokeRegisteredReleaseToken ::
  "int \<Rightarrow> registered_release_token \<Rightarrow> revoke_token_input \<Rightarrow> registered_release_token result" where
  "revokeRegisteredReleaseToken now record input =
     (if rrt_status record = Tok_revoked then return record
      else rbind (normalizeLifecycleTimestamp now ''revokedAt'' (rvi_revokedAt input)) (\<lambda>revokedAt.
        return (record\<lparr> rrt_status := Tok_revoked, rrt_statusChangedAt := revokedAt,
          rrt_revokedAt := Some revokedAt, rrt_revocationReason := nonblank (rvi_reason input),
          rrt_revokedBy := nonblank (rvi_revokedBy input) \<rparr>)))"

definition consumeRegisteredReleaseToken ::
  "int \<Rightarrow> registered_release_token \<Rightarrow> token_use_input \<Rightarrow> registered_release_token result" where
  "consumeRegisteredReleaseToken now record input =
     rbind (normalizeLifecycleTimestamp now ''usedAt'' (tui_usedAt input)) (\<lambda>usedAt.
       let nextUseCount = rrt_useCount record + 1;
           exhausted = nextUseCount \<ge> rrt_maxUses record
       in return (record\<lparr>
            rrt_status := (if exhausted then Tok_consumed else rrt_status record),
            rrt_statusChangedAt := (if exhausted then usedAt else rrt_statusChangedAt record),
            rrt_useCount := nextUseCount,
            rrt_firstUsedAt := Some (nullish (rrt_firstUsedAt record) usedAt),
            rrt_lastUsedAt := Some usedAt,
            rrt_lastUsedByResourceServerId := tui_resourceServerId input \<rparr>))"

section \<open>Writing to the working copy\<close>

definition defaultReleaseTokenIntrospectionStoreFile :: token_store where
  "defaultReleaseTokenIntrospectionStoreFile = \<lparr> sto_records = [], sto_decisionRevocations = [] \<rparr>"

definition writeRegisteredReleaseToken ::
  "token_store \<Rightarrow> registered_release_token \<Rightarrow> token_store" where
  "writeRegisteredReleaseToken file record =
     file\<lparr> sto_records := upsert_by rrt_tokenId record (sto_records file) \<rparr>"

definition insertRegisteredReleaseToken ::
  "registered_release_token \<Rightarrow> token_store \<Rightarrow> (registered_release_token \<times> token_store) result" where
  "insertRegisteredReleaseToken record file =
     (if list_ex (\<lambda>entry. drv_decisionId entry = rrt_decisionId record) (sto_decisionRevocations file) then
        throw (ReleaseTokenIntrospectionStoreError (''Release decision '' @ in_quotes (rrt_decisionId record) @
          '' is revoked and cannot issue active release tokens.''))
      else case find_by rrt_tokenId (rrt_tokenId record) (sto_records file) of
        Some existing \<Rightarrow>
          rbind (assertRegistrationCanReplay existing record) (\<lambda>_. return (existing, file))
      | None \<Rightarrow> return (record, file\<lparr> sto_records := sto_records file @ [record] \<rparr>))"

definition writeDecisionRevocation ::
  "int \<Rightarrow> decision_revocation \<Rightarrow> token_store \<Rightarrow> (decision_revocation \<times> token_store) result" where
  "writeDecisionRevocation now record file =
     rbind (freezeReleaseDecisionRevocation now (revocation_fields record)) (\<lambda>frozen.
       case find_by drv_decisionId (drv_decisionId frozen) (sto_decisionRevocations file) of
         Some existing \<Rightarrow> return (existing, file)
       | None \<Rightarrow>
           return (frozen, file\<lparr> sto_decisionRevocations := sto_decisionRevocations file @ [frozen] \<rparr>))"

text \<open>
  A loop over the array of records that replaces some of them while it runs: at each index the
  current record is read, \<open>update\<close> gives its replacement (or none, or throws), \<open>collect\<close> adds to
  the results, and the replacement is written under its token identifier.
\<close>

fun record_loop ::
  "(registered_release_token \<Rightarrow> registered_release_token option result) \<Rightarrow>
   (registered_release_token \<Rightarrow> registered_release_token option \<Rightarrow> 'acc \<Rightarrow> 'acc) \<Rightarrow>
   nat list \<Rightarrow> token_store \<Rightarrow> 'acc \<Rightarrow> ('acc \<times> token_store) result" where
  "record_loop update collect [] file acc = return (acc, file)"
| "record_loop update collect (i # is) file acc =
     (let record = sto_records file ! i in
      rbind (update record) (\<lambda>written.
        record_loop update collect is
          (case written of None \<Rightarrow> file | Some r \<Rightarrow> writeRegisteredReleaseToken file r)
          (collect record written acc)))"

definition expiry_update :: "timestamp \<Rightarrow> registered_release_token \<Rightarrow> registered_release_token option" where
  "expiry_update now record =
     (if rrt_status record = Tok_issued \<and> rrt_expiresAt record \<le> now
      then Some (expireRegisteredReleaseToken record) else None)"

definition collect_written ::
  "registered_release_token \<Rightarrow> registered_release_token option \<Rightarrow> registered_release_token list \<Rightarrow>
   registered_release_token list" where
  "collect_written record written acc = (case written of None \<Rightarrow> acc | Some r \<Rightarrow> acc @ [r])"

definition expire_loop ::
  "timestamp \<Rightarrow> token_store \<Rightarrow> (registered_release_token list \<times> token_store) result" where
  "expire_loop now file =
     record_loop (\<lambda>r. return (expiry_update now r)) collect_written
       [0..<length (sto_records file)] file []"

section \<open>The operations of a store\<close>

definition registerIssuedToken ::
  "register_token_input \<Rightarrow> token_store \<Rightarrow> (registered_release_token \<times> token_store) result" where
  "registerIssuedToken input file =
     rbind (buildRegisteredReleaseToken input) (\<lambda>record. insertRegisteredReleaseToken record file)"

definition findToken :: "token_store \<Rightarrow> string \<Rightarrow> registered_release_token option" where
  "findToken file tokenId = find_by rrt_tokenId tokenId (sto_records file)"

definition revokeToken ::
  "int \<Rightarrow> revoke_token_input \<Rightarrow> token_store \<Rightarrow> (registered_release_token option \<times> token_store) result" where
  "revokeToken now input file =
     (case findToken file (rvi_tokenId input) of
        None \<Rightarrow> return (None, file)
      | Some existing \<Rightarrow>
          rbind (revokeRegisteredReleaseToken now existing input) (\<lambda>revoked.
            return (Some revoked, writeRegisteredReleaseToken file revoked)))"

definition findDecisionRevocation :: "token_store \<Rightarrow> string \<Rightarrow> decision_revocation option result" where
  "findDecisionRevocation file decisionId =
     rbind (normalizeReleaseLifecycleText (Some decisionId) ''decisionId'') (\<lambda>normalized.
       return (find_by drv_decisionId (nullish normalized decisionId) (sto_decisionRevocations file)))"

definition decision_update ::
  "int \<Rightarrow> decision_revocation \<Rightarrow> registered_release_token \<Rightarrow> registered_release_token option result" where
  "decision_update now revocation record =
     (if rrt_decisionId record \<noteq> drv_decisionId revocation then return None
      else if rrt_status record \<noteq> Tok_issued then return None
      else rbind (revokeRegisteredReleaseToken now record
             \<lparr> rvi_tokenId = rrt_tokenId record,
               rvi_revokedAt = Some (Iso (drv_revokedAt revocation)),
               rvi_reason = drv_reason revocation,
               rvi_revokedBy = drv_revokedBy revocation \<rparr>) (\<lambda>revoked. return (Some revoked)))"

definition collect_decision ::
  "decision_revocation \<Rightarrow> registered_release_token \<Rightarrow> registered_release_token option \<Rightarrow>
   registered_release_token list \<times> registered_release_token list \<Rightarrow>
   registered_release_token list \<times> registered_release_token list" where
  "collect_decision revocation record written acc =
     (let (revokedTokens, alreadyInactiveTokens) = acc in
      if rrt_decisionId record \<noteq> drv_decisionId revocation then acc
      else case written of
        None \<Rightarrow> (revokedTokens, alreadyInactiveTokens @ [record])
      | Some r \<Rightarrow> (revokedTokens @ [r], alreadyInactiveTokens))"

definition revokeTokensForDecision ::
  "int \<Rightarrow> revoke_decision_input \<Rightarrow> token_store \<Rightarrow> (revoke_decision_result \<times> token_store) result" where
  "revokeTokensForDecision now input file =
     rbind (releaseDecisionRevocationRecordFor now input) (\<lambda>record.
     rbind (writeDecisionRevocation now record file) (\<lambda>(decisionRevocation, file1).
     rbind (record_loop (decision_update now decisionRevocation) (collect_decision decisionRevocation)
              [0..<length (sto_records file1)] file1 ([], [])) (\<lambda>((revoked, inactive), file2).
       return (\<lparr> rdr_decisionRevocation = decisionRevocation, rdr_revokedTokens = revoked,
                 rdr_alreadyInactiveTokens = inactive \<rparr>, file2))))"

definition syncLifecycle ::
  "int \<Rightarrow> js_date option \<Rightarrow> token_store \<Rightarrow> (registered_release_token list \<times> token_store) result" where
  "syncLifecycle now currentDate file =
     rbind (introspectionTimestamp now currentDate) (\<lambda>t. expire_loop t file)"

definition recordTokenUse ::
  "int \<Rightarrow> token_use_input \<Rightarrow> token_store \<Rightarrow> (token_use_result \<times> token_store) result" where
  "recordTokenUse now input file =
     rbind (introspectionTimestamp now (tui_usedAt input)) (\<lambda>t.
     rbind (expire_loop t file) (\<lambda>(_, file1).
       case findToken file1 (tui_tokenId input) of
         None \<Rightarrow>
           return (\<lparr> tur_accepted = False, tur_inactiveReason = Some Ir_unknown, tur_record = None \<rparr>, file1)
       | Some existing \<Rightarrow>
           if rrt_status existing \<noteq> Tok_issued then
             return (\<lparr> tur_accepted = False,
                 tur_inactiveReason = Some (inactiveReasonForRegisteredReleaseToken existing),
                 tur_record = Some existing \<rparr>, file1)
           else if list_ex (\<lambda>entry. drv_decisionId entry = rrt_decisionId existing)
                     (sto_decisionRevocations file1) then
             return (\<lparr> tur_accepted = False, tur_inactiveReason = Some Ir_revoked,
                 tur_record = Some existing \<rparr>, file1)
           else
             rbind (consumeRegisteredReleaseToken now existing input) (\<lambda>consumed.
               return (\<lparr> tur_accepted = True, tur_inactiveReason = None, tur_record = Some consumed \<rparr>,
                 writeRegisteredReleaseToken file1 consumed))))"

section \<open>Stores as state machines\<close>

text \<open>
  The operations that change a store as one type, the action each runs on the working copy, and
  the outcome it returns.
\<close>

datatype store_op =
    Op_register register_token_input
  | Op_revoke revoke_token_input
  | Op_revoke_decision revoke_decision_input
  | Op_sync "js_date option"
  | Op_use token_use_input

datatype store_outcome =
    Out_registered registered_release_token
  | Out_revoked "registered_release_token option"
  | Out_decision revoke_decision_result
  | Out_synced "registered_release_token list"
  | Out_use token_use_result

abbreviation outcome_of :: "('a \<Rightarrow> store_outcome) \<Rightarrow> ('a \<times> 's) result \<Rightarrow> (store_outcome \<times> 's) result" where
  "outcome_of f r \<equiv> rbind r (\<lambda>(x, s). return (f x, s))"

fun store_action :: "int \<Rightarrow> store_op \<Rightarrow> token_store \<Rightarrow> (store_outcome \<times> token_store) result" where
  "store_action now (Op_register input) file = outcome_of Out_registered (registerIssuedToken input file)"
| "store_action now (Op_revoke input) file = outcome_of Out_revoked (revokeToken now input file)"
| "store_action now (Op_revoke_decision input) file =
     outcome_of Out_decision (revokeTokensForDecision now input file)"
| "store_action now (Op_sync date) file = outcome_of Out_synced (syncLifecycle now date file)"
| "store_action now (Op_use input) file = outcome_of Out_use (recordTokenUse now input file)"

text \<open>The in-memory store: the working copy replaces the state only when the action returns.\<close>

definition memory_mutate ::
  "(token_store \<Rightarrow> ('a \<times> token_store) result) \<Rightarrow> token_store \<Rightarrow> 'a result \<times> token_store" where
  "memory_mutate action file =
     (case action file of Inl e \<Rightarrow> (Inl e, file) | Inr (x, workingCopy) \<Rightarrow> (Inr x, workingCopy))"

text \<open>Runs of the in-memory store, with the outcome of every operation.\<close>

inductive store_runs :: "token_store \<Rightarrow> (store_op \<times> store_outcome result) list \<Rightarrow> token_store \<Rightarrow> bool" where
  run_start: "store_runs s [] s"
| run_step: "store_runs s trace s1 \<Longrightarrow> memory_mutate (store_action now op) s1 = (out, s2) \<Longrightarrow>
    store_runs s (trace @ [(op, out)]) s2"

inductive_simps store_runs_Nil: "store_runs s [] s'"

section \<open>Loops over distinct records\<close>

interpretation token_records: keyed_store sto_records rrt_tokenId findToken writeRegisteredReleaseToken
  by unfold_locales (simp_all add: findToken_def writeRegisteredReleaseToken_def)

lemma upsert_by_middle:
  "key x \<notin> key ` set xs \<Longrightarrow> key y = key x \<Longrightarrow> upsert_by key x (xs @ y # ys) = xs @ x # ys"
  by (induction xs) auto

lemma record_loop_suffix:
  assumes "\<And>r r'. h r = Some r' \<Longrightarrow> rrt_tokenId r' = rrt_tokenId r"
  shows "sto_records st = xs @ ys \<Longrightarrow> distinct (map rrt_tokenId (xs @ ys)) \<Longrightarrow>
    (\<And>r. r \<in> set ys \<Longrightarrow> update r = Inr (h r)) \<Longrightarrow>
    record_loop update collect [length xs..<length (xs @ ys)] st acc =
      Inr (fold (\<lambda>r. collect r (h r)) ys acc, st\<lparr> sto_records := xs @ map (\<lambda>r. nullish (h r) r) ys \<rparr>)"
proof (induction ys arbitrary: xs st acc)
  case Nil
  then show ?case by simp
next
  case (Cons y ys)
  let ?y = "nullish (h y) y"
  let ?st = "case h y of None \<Rightarrow> st | Some r \<Rightarrow> writeRegisteredReleaseToken st r"
  have key: "rrt_tokenId ?y = rrt_tokenId y" using assms by (cases "h y") auto
  have st: "?st = st\<lparr> sto_records := (xs @ [?y]) @ ys \<rparr>"
    using Cons.prems(1,2) assms
    by (cases "h y") (auto simp: writeRegisteredReleaseToken_def upsert_by_middle)
  have "record_loop update collect [length (xs @ [?y])..<length ((xs @ [?y]) @ ys)] ?st (collect y (h y) acc) =
      Inr (fold (\<lambda>r. collect r (h r)) ys (collect y (h y) acc),
        ?st\<lparr> sto_records := (xs @ [?y]) @ map (\<lambda>r. nullish (h r) r) ys \<rparr>)"
    using Cons.prems key by (intro Cons.IH) (simp_all add: st)
  moreover have "[length xs..<length (xs @ y # ys)] =
      length xs # [length (xs @ [?y])..<length ((xs @ [?y]) @ ys)]"
    by (simp add: upt_conv_Cons del: upt_Suc)
  moreover have "update y = Inr (h y)" and "sto_records st ! length xs = y"
    using Cons.prems by simp_all
  ultimately show ?case
    by (simp only: record_loop.simps Let_def rbind.simps fold_Cons o_apply st list.map append_assoc append_Cons append_Nil) simp
qed

lemma record_loop_map:
  assumes "\<And>r r'. h r = Some r' \<Longrightarrow> rrt_tokenId r' = rrt_tokenId r"
    and "token_records.distinct_keys st"
    and "\<And>r. r \<in> set (sto_records st) \<Longrightarrow> update r = Inr (h r)"
  shows "record_loop update collect [0..<length (sto_records st)] st acc =
    Inr (fold (\<lambda>r. collect r (h r)) (sto_records st) acc,
      st\<lparr> sto_records := map (\<lambda>r. nullish (h r) r) (sto_records st) \<rparr>)"
  using record_loop_suffix [where h = h and xs = "[]" and ys = "sto_records st" and st = st and update = update
      and collect = collect and acc = acc, OF assms(1) _ _ assms(3)] assms(2)
  by (simp add: token_records.distinct_keys_def)

text \<open>What the two loops do to a record, and to a store with distinct token identifiers.\<close>

definition expire_record :: "timestamp \<Rightarrow> registered_release_token \<Rightarrow> registered_release_token" where
  "expire_record t r = nullish (expiry_update t r) r"

definition revoked_record :: "decision_revocation \<Rightarrow> registered_release_token \<Rightarrow> registered_release_token" where
  "revoked_record v r =
     (if rrt_decisionId r = drv_decisionId v \<and> rrt_status r = Tok_issued
      then r\<lparr> rrt_status := Tok_revoked, rrt_statusChangedAt := drv_revokedAt v,
        rrt_revokedAt := Some (drv_revokedAt v), rrt_revocationReason := nonblank (drv_reason v),
        rrt_revokedBy := nonblank (drv_revokedBy v) \<rparr>
      else r)"

lemma expire_loop_map:
  assumes "token_records.distinct_keys st"
  shows "expire_loop t st =
    Inr (List.map_filter (expiry_update t) (sto_records st),
      st\<lparr> sto_records := map (expire_record t) (sto_records st) \<rparr>)"
proof -
  have collected: "fold (\<lambda>r. collect_written r (expiry_update t r)) xs acc =
      acc @ List.map_filter (expiry_update t) xs" for xs acc
    by (induction xs arbitrary: acc) (auto simp: collect_written_def List.map_filter_def split: option.splits)
  have "expire_loop t st = Inr (fold (\<lambda>r. collect_written r (expiry_update t r)) (sto_records st) [],
      st\<lparr> sto_records := map (\<lambda>r. nullish (expiry_update t r) r) (sto_records st) \<rparr>)"
    unfolding expire_loop_def
    by (rule record_loop_map [OF _ assms])
      (auto simp: expiry_update_def expireRegisteredReleaseToken_def split: if_splits)
  then show ?thesis by (simp add: collected expire_record_def)
qed

lemma decision_update_pure:
  "decision_update now v r =
     Inr (if rrt_decisionId r = drv_decisionId v \<and> rrt_status r = Tok_issued then Some (revoked_record v r) else None)"
  by (simp add: decision_update_def revokeRegisteredReleaseToken_def normalizeLifecycleTimestamp_def
      introspectionTimestamp_def revoked_record_def)

lemma decision_loop_map:
  assumes "token_records.distinct_keys st"
  shows "\<exists>acc'. record_loop (decision_update now v) (collect_decision v) [0..<length (sto_records st)] st acc =
    Inr (acc', st\<lparr> sto_records := map (revoked_record v) (sto_records st) \<rparr>)"
proof -
  let ?h = "\<lambda>r. if rrt_decisionId r = drv_decisionId v \<and> rrt_status r = Tok_issued
      then Some (revoked_record v r) else None"
  have h: "nullish (?h r) r = revoked_record v r" for r by (simp add: revoked_record_def)
  have key: "?h r = Some r' \<Longrightarrow> rrt_tokenId r' = rrt_tokenId r" for r r'
    by (auto simp: revoked_record_def split: if_splits)
  from record_loop_map [OF key assms decision_update_pure]
  have "record_loop (decision_update now v) (collect_decision v) [0..<length (sto_records st)] st acc =
      Inr (fold (\<lambda>r. collect_decision v r (?h r)) (sto_records st) acc,
        st\<lparr> sto_records := map (\<lambda>r. nullish (?h r) r) (sto_records st) \<rparr>)" .
  then show ?thesis unfolding h by (rule exI)
qed

section \<open>The invariant of a store\<close>

definition revoked_decisions :: "token_store \<Rightarrow> string set" where
  "revoked_decisions s = drv_decisionId ` set (sto_decisionRevocations s)"

definition record_ok :: "registered_release_token \<Rightarrow> bool" where
  "record_ok r \<longleftrightarrow> 0 \<le> rrt_useCount r \<and> rrt_useCount r \<le> rrt_maxUses r \<and>
     (rrt_status r = Tok_issued \<longrightarrow> rrt_useCount r < rrt_maxUses r) \<and>
     (rrt_status r = Tok_consumed \<longrightarrow> rrt_useCount r = rrt_maxUses r)"

definition lifecycle_text_ok :: "string option \<Rightarrow> bool" where
  "lifecycle_text_ok v \<longleftrightarrow> (case v of None \<Rightarrow> True | Some t \<Rightarrow> t \<noteq> [] \<and> trim t = t)"

definition revocation_ok :: "decision_revocation \<Rightarrow> bool" where
  "revocation_ok v \<longleftrightarrow> drv_version v = RELEASE_TOKEN_REGISTRY_SPEC_VERSION \<and>
     lifecycle_text_ok (Some (drv_decisionId v)) \<and> lifecycle_text_ok (drv_reason v) \<and>
     lifecycle_text_ok (drv_revokedBy v)"

definition store_inv :: "token_store \<Rightarrow> bool" where
  "store_inv s \<longleftrightarrow>
     token_records.distinct_keys s \<and>
     (\<forall>r\<in>set (sto_records s). record_ok r \<and>
        (rrt_status r = Tok_issued \<longrightarrow> rrt_decisionId r \<notin> revoked_decisions s)) \<and>
     (\<forall>v\<in>set (sto_decisionRevocations s). revocation_ok v)"

text \<open>
  How the record of one token may change in one step: it appears unused, or it keeps its
  decision, bound and expiry, counts an accepted use, and never becomes \<open>issued\<close> again.
\<close>

fun progress :: "bool \<Rightarrow> registered_release_token option \<Rightarrow> registered_release_token option \<Rightarrow> bool" where
  "progress used None None \<longleftrightarrow> \<not> used"
| "progress used None (Some r') \<longleftrightarrow> \<not> used \<and> rrt_useCount r' = 0"
| "progress used (Some r) None \<longleftrightarrow> False"
| "progress used (Some r) (Some r') \<longleftrightarrow>
     rrt_maxUses r' = rrt_maxUses r \<and> rrt_decisionId r' = rrt_decisionId r \<and>
     rrt_expiresAt r' = rrt_expiresAt r \<and>
     rrt_useCount r' = rrt_useCount r + (if used then 1 else 0) \<and>
     (used \<longrightarrow> rrt_status r = Tok_issued) \<and>
     (rrt_status r' = Tok_issued \<longrightarrow> rrt_status r = Tok_issued)"

fun accepted_use :: "string \<Rightarrow> store_op \<times> store_outcome result \<Rightarrow> bool" where
  "accepted_use tok (Op_use input, Inr (Out_use r)) \<longleftrightarrow> tui_tokenId input = tok \<and> tur_accepted r"
| "accepted_use tok _ \<longleftrightarrow> False"

lemma revoked_iff:
  "list_ex (\<lambda>entry. drv_decisionId entry = d) (sto_decisionRevocations s) \<longleftrightarrow> d \<in> revoked_decisions s"
  by (auto simp: list_ex_iff revoked_decisions_def)

lemma progress_refl: "progress False x x"
  by (cases x) auto

lemma progress_trans: "progress False x y \<Longrightarrow> (x = None \<Longrightarrow> y = None) \<Longrightarrow> progress u y z \<Longrightarrow> progress u x z"
  by (cases x; cases y; cases z) auto

lemma store_invD:
  "store_inv s \<Longrightarrow> token_records.distinct_keys s"
  "store_inv s \<Longrightarrow> r \<in> set (sto_records s) \<Longrightarrow> record_ok r"
  "store_inv s \<Longrightarrow> r \<in> set (sto_records s) \<Longrightarrow> rrt_status r = Tok_issued \<Longrightarrow>
     rrt_decisionId r \<notin> revoked_decisions s"
  by (auto simp: store_inv_def)

text \<open>A record that may replace another: the invariant does not depend on anything else.\<close>

definition replaces :: "registered_release_token \<Rightarrow> registered_release_token \<Rightarrow> bool" where
  "replaces r' r \<longleftrightarrow> rrt_tokenId r' = rrt_tokenId r \<and> rrt_decisionId r' = rrt_decisionId r \<and>
     rrt_maxUses r' = rrt_maxUses r \<and> rrt_expiresAt r' = rrt_expiresAt r \<and>
     (record_ok r \<longrightarrow> record_ok r') \<and> (rrt_status r' = Tok_issued \<longrightarrow> rrt_status r = Tok_issued)"

lemma replaces_refl: "replaces r r"
  by (simp add: replaces_def)

lemma find_by_map:
  "(\<And>x. key (f x) = key x) \<Longrightarrow> find_by key k (map f xs) = map_option f (find_by key k xs)"
  by (induction xs) auto

lemma inv_map:
  assumes "store_inv s" and "\<And>r. replaces (f r) r"
  shows "store_inv (s\<lparr> sto_records := map f (sto_records s) \<rparr>)"
  using assms by (auto simp: store_inv_def token_records.distinct_keys_def replaces_def
      revoked_decisions_def comp_def)

lemma progress_map:
  assumes "\<And>r. replaces (f r) r" and "\<And>r. rrt_useCount (f r) = rrt_useCount r"
  shows "progress False (findToken s tok) (findToken (s\<lparr> sto_records := map f (sto_records s) \<rparr>) tok)"
  using assms
  by (cases "findToken s tok") (auto simp: findToken_def find_by_map replaces_def)

lemma inv_put:
  assumes "store_inv s" and "findToken s tok = Some r" and "replaces r' r"
  shows "store_inv (writeRegisteredReleaseToken s r')"
proof -
  have r: "r \<in> set (sto_records s)" using assms(2) by (rule token_records.lookup_in_recs)
  have "sto_decisionRevocations (writeRegisteredReleaseToken s r') = sto_decisionRevocations s"
    by (simp add: writeRegisteredReleaseToken_def)
  moreover have "token_records.distinct_keys (writeRegisteredReleaseToken s r')"
    using assms(1) by (simp add: store_inv_def token_records.distinct_keys_put)
  moreover have "record_ok y \<and> (rrt_status y = Tok_issued \<longrightarrow> rrt_decisionId y \<notin> revoked_decisions s)"
    if "y \<in> set (sto_records (writeRegisteredReleaseToken s r'))" for y
    using token_records.recs_put_cases [OF that] assms(1,3) r
    by (auto simp: store_inv_def replaces_def)
  ultimately show ?thesis
    using assms(1) by (simp add: store_inv_def revoked_decisions_def)
qed

lemma progress_put:
  assumes "findToken s tok = Some r" and "replaces r' r"
    and "rrt_useCount r' = rrt_useCount r + (if u then 1 else 0)" and "u \<Longrightarrow> rrt_status r = Tok_issued"
  shows "progress (u \<and> k = tok) (findToken s k) (findToken (writeRegisteredReleaseToken s r') k)"
  using assms token_records.lookup_key [OF assms(1)]
  by (cases "k = tok") (auto simp: token_records.lookup_put replaces_def progress_refl)

section \<open>Every operation keeps the invariant\<close>

lemma expire_record_replaces:
  "replaces (expire_record t r) r" "rrt_useCount (expire_record t r) = rrt_useCount r"
  by (auto simp: replaces_def expire_record_def expiry_update_def expireRegisteredReleaseToken_def record_ok_def)

lemma revoked_record_replaces:
  "replaces (revoked_record v r) r" "rrt_useCount (revoked_record v r) = rrt_useCount r"
  by (auto simp: replaces_def revoked_record_def record_ok_def)

lemma revoke_replaces:
  assumes "revokeRegisteredReleaseToken now r input = Inr r'"
  shows "replaces r' r" and "rrt_useCount r' = rrt_useCount r" and "rrt_status r' = Tok_revoked"
  using assms by (auto simp: revokeRegisteredReleaseToken_def replaces_def record_ok_def split: if_splits)

lemma consume_replaces:
  assumes "consumeRegisteredReleaseToken now r input = Inr r'" and "rrt_status r = Tok_issued"
  shows "record_ok r \<Longrightarrow> replaces r' r" and "rrt_useCount r' = rrt_useCount r + 1"
  using assms by (auto simp: consumeRegisteredReleaseToken_def replaces_def record_ok_def Let_def split: if_splits)

text \<open>What an operation guarantees: the invariant afterwards and the progress of every token.\<close>

definition guarantees :: "token_store \<Rightarrow> store_op \<times> store_outcome result \<Rightarrow> token_store \<Rightarrow> bool" where
  "guarantees s event s' \<longleftrightarrow> store_inv s' \<and> revoked_decisions s \<subseteq> revoked_decisions s' \<and>
     (\<forall>tok. progress (accepted_use tok event) (findToken s tok) (findToken s' tok))"

lemma registered_record_fresh:
  assumes "buildRegisteredReleaseToken input = Inr r"
  shows "record_ok r" and "rrt_useCount r = 0" and "rrt_status r = Tok_issued"
    and "rrt_decisionId r = dec_id (rti_decision input)"
    and "rrt_tokenId r = irt_tokenId (rti_issuedToken input)"
    and "rrt_maxUses r = max 1 (nullish (releaseDecisionMaxUses (rti_decision input)) 1)"
  using assms by (auto simp: buildRegisteredReleaseToken_def record_ok_def Let_def)

lemma register_guarantees:
  assumes "store_inv s" and "registerIssuedToken input s = Inr (r, s')"
  shows "guarantees s (Op_register input, Inr (Out_registered r)) s'"
proof -
  from assms(2) obtain new where new: "buildRegisteredReleaseToken input = Inr new"
    and unrevoked: "rrt_decisionId new \<notin> revoked_decisions s"
    and step: "s' = s \<or> findToken s (rrt_tokenId new) = None \<and>
        s' = s\<lparr> sto_records := sto_records s @ [new] \<rparr>"
    by (auto simp: registerIssuedToken_def insertRegisteredReleaseToken_def revoked_iff
        findToken_def split: if_splits option.splits)
  show ?thesis
  proof (cases "s' = s")
    case True
    then show ?thesis using assms(1) by (simp add: guarantees_def progress_refl)
  next
    case False
    with step have fresh: "findToken s (rrt_tokenId new) = None"
      and s': "s' = s\<lparr> sto_records := sto_records s @ [new] \<rparr>" by auto
    have "progress False (findToken s tok) (findToken s' tok)" for tok
      using fresh registered_record_fresh(2) [OF new]
      by (cases "findToken s tok") (auto simp: s' findToken_def find_by_append progress_refl)
    moreover have "store_inv s'"
      using assms(1) fresh unrevoked registered_record_fresh(1) [OF new]
      by (auto simp: s' store_inv_def token_records.distinct_keys_def findToken_def find_by_None
          revoked_decisions_def)
    ultimately show ?thesis by (simp add: guarantees_def s' revoked_decisions_def)
  qed
qed

lemma revoke_guarantees:
  assumes "store_inv s" and "revokeToken now input s = Inr (r, s')"
  shows "guarantees s (Op_revoke input, Inr (Out_revoked r)) s'"
proof (cases "findToken s (rvi_tokenId input)")
  case None
  with assms show ?thesis by (simp add: revokeToken_def guarantees_def progress_refl)
next
  case (Some old)
  with assms(2) obtain new where new: "revokeRegisteredReleaseToken now old input = Inr new"
    and s': "s' = writeRegisteredReleaseToken s new"
    by (auto simp: revokeToken_def)
  show ?thesis
    using inv_put [OF assms(1) Some revoke_replaces(1) [OF new]]
      progress_put [OF Some revoke_replaces(1) [OF new], where u = False] revoke_replaces(2) [OF new]
    by (simp add: guarantees_def s' revoked_decisions_def writeRegisteredReleaseToken_def)
qed

lemma expire_guarantees:
  assumes "store_inv s" and "expire_loop t s = Inr (rs, s')"
  shows "store_inv s'" and "progress False (findToken s tok) (findToken s' tok)"
    and "findToken s' tok = map_option (expire_record t) (findToken s tok)"
    and "sto_decisionRevocations s' = sto_decisionRevocations s"
proof -
  have s': "s' = s\<lparr> sto_records := map (expire_record t) (sto_records s) \<rparr>"
    using assms(2) expire_loop_map [OF store_invD(1) [OF assms(1)]] by simp
  show "store_inv s'" unfolding s' by (rule inv_map [OF assms(1) expire_record_replaces(1)])
  show "progress False (findToken s tok) (findToken s' tok)"
    unfolding s' by (rule progress_map [OF expire_record_replaces])
  show "findToken s' tok = map_option (expire_record t) (findToken s tok)"
    using expire_record_replaces(1) by (simp add: s' findToken_def find_by_map replaces_def)
  show "sto_decisionRevocations s' = sto_decisionRevocations s" by (simp add: s')
qed

lemma sync_guarantees:
  assumes "store_inv s" and "syncLifecycle now date s = Inr (rs, s')"
  shows "guarantees s (Op_sync date, Inr (Out_synced rs)) s'"
  using assms expire_guarantees [OF assms(1)]
  by (auto simp: syncLifecycle_def guarantees_def revoked_decisions_def)

lemma use_guarantees:
  assumes "store_inv s" and "recordTokenUse now input s = Inr (res, s')"
  shows "guarantees s (Op_use input, Inr (Out_use res)) s'"
proof -
  from assms(2) [unfolded recordTokenUse_def revoked_iff] obtain t rs s1 where ex: "expire_loop t s = Inr (rs, s1)"
    and rest: "(case findToken s1 (tui_tokenId input) of
        None \<Rightarrow> Inr (\<lparr> tur_accepted = False, tur_inactiveReason = Some Ir_unknown, tur_record = None \<rparr>, s1)
      | Some r \<Rightarrow>
          if rrt_status r \<noteq> Tok_issued then
            Inr (\<lparr> tur_accepted = False, tur_inactiveReason = Some (inactiveReasonForRegisteredReleaseToken r),
              tur_record = Some r \<rparr>, s1)
          else if rrt_decisionId r \<in> revoked_decisions s1 then
            Inr (\<lparr> tur_accepted = False, tur_inactiveReason = Some Ir_revoked, tur_record = Some r \<rparr>, s1)
          else rbind (consumeRegisteredReleaseToken now r input) (\<lambda>c.
            Inr (\<lparr> tur_accepted = True, tur_inactiveReason = None, tur_record = Some c \<rparr>,
              writeRegisteredReleaseToken s1 c))) = Inr (res, s')"
    by auto
  note ex' = expire_guarantees [OF assms(1) ex]
  have none: "findToken s k = None \<Longrightarrow> findToken s1 k = None" for k by (simp add: ex'(3))
  have rev: "revoked_decisions s1 = revoked_decisions s" by (simp add: revoked_decisions_def ex'(4))
  consider "s' = s1" "\<not> tur_accepted res"
    | r c where "findToken s1 (tui_tokenId input) = Some r" "rrt_status r = Tok_issued"
      "consumeRegisteredReleaseToken now r input = Inr c" "s' = writeRegisteredReleaseToken s1 c"
      "tur_accepted res"
    using rest by (auto split: option.splits if_splits)
  then show ?thesis
  proof cases
    case 1
    then show ?thesis using ex'(1,2) rev by (simp add: guarantees_def)
  next
    case (2 r c)
    have "record_ok r" using store_invD(2) [OF ex'(1)] token_records.lookup_in_recs [OF 2(1)] by simp
    then have c: "replaces c r" "rrt_useCount c = rrt_useCount r + 1"
      using consume_replaces [OF 2(3,2)] by simp_all
    have "progress (k = tui_tokenId input) (findToken s1 k) (findToken s' k)" for k
      using progress_put [OF 2(1) c(1), where u = True] c(2) 2(2,4) by simp
    then have "progress (k = tui_tokenId input) (findToken s k) (findToken s' k)" for k
      using progress_trans [OF ex'(2) none] by blast
    then show ?thesis
      using inv_put [OF ex'(1) 2(1) c(1)] 2(4,5) rev
      by (simp add: guarantees_def eq_commute [of "tui_tokenId input"])
        (simp add: revoked_decisions_def writeRegisteredReleaseToken_def)
  qed
qed

lemma lifecycle_text_eq_Inr:
  "normalizeReleaseLifecycleText v f = Inr w \<Longrightarrow> lifecycle_text_ok w"
  "lifecycle_text_ok v \<Longrightarrow> normalizeReleaseLifecycleText v f = Inr v"
  "normalizeReleaseLifecycleText (Some d) f = Inr w \<longleftrightarrow> trim d \<noteq> [] \<and> w = Some (trim d)"
  by (auto simp: normalizeReleaseLifecycleText_def lifecycle_text_ok_def split: option.splits if_splits)

lemma freeze_revocation:
  "revocation_ok v \<Longrightarrow> freezeReleaseDecisionRevocation now (revocation_fields v) = Inr v"
  by (simp add: freezeReleaseDecisionRevocation_def revocation_fields_def revocation_ok_def
      lifecycle_text_eq_Inr(2) introspectionTimestamp_def del: rbind_eq_Inr)

lemma revocation_record_ok:
  assumes "releaseDecisionRevocationRecordFor now input = Inr v"
  shows "revocation_ok v" and "drv_decisionId v = trim (rdi_decisionId input)"
  using assms
  by (auto simp: releaseDecisionRevocationRecordFor_def revocation_ok_def lifecycle_text_eq_Inr(3)
      dest: lifecycle_text_eq_Inr(1)) (simp_all add: lifecycle_text_ok_def)

lemma revoke_decision_facts:
  assumes "store_inv s" and "revokeTokensForDecision now input s = Inr (res, s')"
  obtains v vs where "drv_decisionId v = trim (rdi_decisionId input)" "revocation_ok v"
    "rdr_decisionRevocation res = v" "set vs = insert v (set (sto_decisionRevocations s))"
    "s' = \<lparr> sto_records = map (revoked_record v) (sto_records s), sto_decisionRevocations = vs \<rparr>"
proof -
  from assms(2) obtain v0 v s1 acc where v0: "releaseDecisionRevocationRecordFor now input = Inr v0"
    and w: "writeDecisionRevocation now v0 s = Inr (v, s1)"
    and loop: "record_loop (decision_update now v) (collect_decision v) [0..<length (sto_records s1)] s1 ([], []) =
      Inr (acc, s')"
    and res: "rdr_decisionRevocation res = v"
    by (auto simp: revokeTokensForDecision_def)
  have recs: "sto_records s1 = sto_records s"
    and v: "drv_decisionId v = trim (rdi_decisionId input)" "revocation_ok v"
    and vs: "set (sto_decisionRevocations s1) = insert v (set (sto_decisionRevocations s))"
    using w revocation_record_ok [OF v0] assms(1)
    by (auto simp: writeDecisionRevocation_def freeze_revocation store_inv_def
        dest: find_by_SomeD split: option.splits)
  have "token_records.distinct_keys s1"
    using store_invD(1) [OF assms(1)] by (simp add: token_records.distinct_keys_def recs)
  with decision_loop_map [OF this, of now v "([], [])"] loop
  have "s' = s1\<lparr> sto_records := map (revoked_record v) (sto_records s) \<rparr>" by (auto simp: recs)
  then show thesis by (intro that [OF v res vs]) simp
qed

lemma revoke_decision_guarantees:
  assumes "store_inv s" and "revokeTokensForDecision now input s = Inr (res, s')"
  shows "guarantees s (Op_revoke_decision input, Inr (Out_decision res)) s'"
    and "trim (rdi_decisionId input) \<in> revoked_decisions s'"
proof -
  obtain v vs where v: "drv_decisionId v = trim (rdi_decisionId input)" "revocation_ok v"
    and vs: "set vs = insert v (set (sto_decisionRevocations s))"
    and s': "s' = \<lparr> sto_records = map (revoked_record v) (sto_records s), sto_decisionRevocations = vs \<rparr>"
    using assms by (rule revoke_decision_facts)
  let ?s = "s\<lparr> sto_records := map (revoked_record v) (sto_records s) \<rparr>"
  have find: "findToken s' k = findToken ?s k" for k by (simp add: s' findToken_def)
  have "rrt_decisionId r \<noteq> drv_decisionId v"
    if "r \<in> set (sto_records s')" "rrt_status r = Tok_issued" for r
    using that by (auto simp: s' revoked_record_def split: if_splits)
  moreover have "store_inv ?s" by (rule inv_map [OF assms(1) revoked_record_replaces(1)])
  ultimately have "store_inv s'"
    using v(2) vs by (simp add: store_inv_def revoked_decisions_def s' token_records.distinct_keys_def)
  then show "guarantees s (Op_revoke_decision input, Inr (Out_decision res)) s'"
    using vs progress_map [OF revoked_record_replaces]
    by (simp add: guarantees_def find) (auto simp: revoked_decisions_def s')
  show "trim (rdi_decisionId input) \<in> revoked_decisions s'"
    using v(1) vs by (simp add: revoked_decisions_def s')
qed

theorem action_guarantees:
  assumes "store_inv s" and "store_action now op s = Inr (out, s')"
  shows "guarantees s (op, Inr out) s'"
  using assms register_guarantees revoke_guarantees revoke_decision_guarantees(1) sync_guarantees
    use_guarantees
  by (cases op) auto

lemma mutate_guarantees:
  assumes "store_inv s" and "memory_mutate (store_action now op) s = (out, s')"
  shows "guarantees s (op, out) s'"
proof (cases "store_action now op s")
  case (Inl e)
  with assms show ?thesis
    by (cases op) (auto simp: memory_mutate_def guarantees_def progress_refl)
next
  case (Inr r)
  with assms show ?thesis
    by (cases r) (auto simp: memory_mutate_def intro: action_guarantees)
qed

section \<open>Runs of a store\<close>

definition uses :: "string \<Rightarrow> (store_op \<times> store_outcome result) list \<Rightarrow> nat" where
  "uses tok trace = length (filter (accepted_use tok) trace)"

fun trace_progress ::
  "nat \<Rightarrow> registered_release_token option \<Rightarrow> registered_release_token option \<Rightarrow> bool" where
  "trace_progress n None None \<longleftrightarrow> n = 0"
| "trace_progress n None (Some r') \<longleftrightarrow> rrt_useCount r' = int n"
| "trace_progress n (Some r) None \<longleftrightarrow> False"
| "trace_progress n (Some r) (Some r') \<longleftrightarrow>
     rrt_maxUses r' = rrt_maxUses r \<and> rrt_decisionId r' = rrt_decisionId r \<and>
     rrt_useCount r' = rrt_useCount r + int n \<and>
     (rrt_status r \<noteq> Tok_issued \<longrightarrow> n = 0 \<and> rrt_status r' \<noteq> Tok_issued)"

lemma trace_progress_refl: "trace_progress 0 x x"
  by (cases x) auto

lemma trace_progress_step:
  "trace_progress n x y \<Longrightarrow> progress u y z \<Longrightarrow> trace_progress (n + (if u then 1 else 0)) x z"
  by (cases x; cases y; cases z) (auto split: if_splits)

lemma runs_guarantee:
  assumes "store_runs s trace s'" and "store_inv s"
  shows "store_inv s' \<and> revoked_decisions s \<subseteq> revoked_decisions s' \<and>
    (\<forall>tok. trace_progress (uses tok trace) (findToken s tok) (findToken s' tok))"
  using assms
proof (induction rule: store_runs.induct)
  case (run_start s)
  then show ?case by (simp add: uses_def trace_progress_refl)
next
  case (run_step s trace s1 now op out s2)
  then have g: "guarantees s1 (op, out) s2" by (blast intro: mutate_guarantees)
  have "trace_progress (uses tok trace + (if accepted_use tok (op, out) then 1 else 0))
      (findToken s tok) (findToken s2 tok)" for tok
    using g run_step by (intro trace_progress_step) (auto simp: guarantees_def)
  moreover have "uses tok (trace @ [(op, out)]) =
      uses tok trace + (if accepted_use tok (op, out) then 1 else 0)" for tok
    by (simp add: uses_def)
  ultimately show ?case
    using g run_step by (simp only:) (auto simp: guarantees_def)
qed

lemma default_store_inv: "store_inv defaultReleaseTokenIntrospectionStoreFile"
  by (simp add: store_inv_def defaultReleaseTokenIntrospectionStoreFile_def token_records.distinct_keys_def)

lemma default_store_empty: "findToken defaultReleaseTokenIntrospectionStoreFile tok = None"
  by (simp add: defaultReleaseTokenIntrospectionStoreFile_def findToken_def)

section \<open>What a decision allows\<close>

text \<open>
  The number of uses a decision allows, read from its release conditions: its first usage limit,
  where a decision without one allows one use, and so does a limit below one.
\<close>

definition use_allowance :: "release_decision \<Rightarrow> int" where
  "use_allowance d =
     (case List.map_filter (\<lambda>c. case c of Usage_limit n \<Rightarrow> Some n | _ \<Rightarrow> None) (dec_releaseConditions d) of
        [] \<Rightarrow> 1
      | n # _ \<Rightarrow> max 1 n)"

text \<open>The decisions under which a token was registered in a run.\<close>

fun registration_of :: "string \<Rightarrow> store_op \<times> store_outcome result \<Rightarrow> release_decision option" where
  "registration_of tok (Op_register input, Inr (Out_registered r)) =
     (if irt_tokenId (rti_issuedToken input) = tok then Some (rti_decision input) else None)"
| "registration_of tok _ = None"

definition registered_decisions ::
  "string \<Rightarrow> (store_op \<times> store_outcome result) list \<Rightarrow> release_decision set" where
  "registered_decisions tok trace = set (List.map_filter (registration_of tok) trace)"

text \<open>A record stands for exactly the decisions its token was registered under.\<close>

definition stands_for :: "registered_release_token option \<Rightarrow> release_decision set \<Rightarrow> bool" where
  "stands_for r ds \<longleftrightarrow>
     (case r of
        None \<Rightarrow> ds = {}
      | Some r \<Rightarrow> ds \<noteq> {} \<and> (\<forall>d\<in>ds. rrt_maxUses r = use_allowance d \<and> rrt_decisionId r = dec_id d))"

lemma limit_is_allowance: "max 1 (nullish (releaseDecisionMaxUses d) 1) = use_allowance d"
proof -
  have "first_usage_limit cs =
      (case List.map_filter (\<lambda>c. case c of Usage_limit n \<Rightarrow> Some n | _ \<Rightarrow> None) cs of
         [] \<Rightarrow> None | n # _ \<Rightarrow> Some n)" for cs
    by (induction cs rule: first_usage_limit.induct) (simp_all add: List.map_filter_simps)
  then show ?thesis
    by (simp add: releaseDecisionMaxUses_def use_allowance_def split: list.split)
qed

lemma records_match_bound:
  assumes "registeredTokenRecordsMatch r r' = Inr True"
  shows "rrt_maxUses r = rrt_maxUses r'" and "rrt_decisionId r = rrt_decisionId r'"
proof -
  from assms obtain t where t: "canonicalizeReleaseJson (registered_token_json r) = Inr t"
    "canonicalizeReleaseJson (registered_token_json r') = Inr t"
    by (auto simp: registeredTokenRecordsMatch_def)
  have "json_wf (registered_token_json x)" for x
    by (simp add: registered_token_json_def json_date_opt_def)
  with canonical_text_same t have same: "json_same (registered_token_json r) (registered_token_json r')"
    by blast
  have member: "rel_option json_same (map_of kvs k) (map_of ls k)" if "json_same (JObject kvs) (JObject ls)"
    for kvs ls k using that by (simp add: json_same_simps)
  show "rrt_maxUses r = rrt_maxUses r'"
    using member [OF same [unfolded registered_token_json_def], of "''maxUses''"] by (simp add: json_same_simps)
  show "rrt_decisionId r = rrt_decisionId r'"
    using member [OF same [unfolded registered_token_json_def], of "''decisionId''"] by (simp add: json_same_simps)
qed

lemma register_binds:
  assumes "store_inv s" and "registerIssuedToken input s = Inr (r, s')"
  shows "findToken s' tok = (if tok = irt_tokenId (rti_issuedToken input) then Some r else findToken s tok)"
    and "rrt_maxUses r = use_allowance (rti_decision input)"
    and "rrt_decisionId r = dec_id (rti_decision input)"
proof -
  from assms(2) obtain new where new: "buildRegisteredReleaseToken input = Inr new"
    and step: "findToken s (rrt_tokenId new) = Some r \<and> s' = s \<and> registeredTokenRecordsMatch r new = Inr True \<or>
        findToken s (rrt_tokenId new) = None \<and> r = new \<and> s' = s\<lparr> sto_records := sto_records s @ [new] \<rparr>"
    by (auto simp: registerIssuedToken_def insertRegisteredReleaseToken_def findToken_def
        assertRegistrationCanReplay_def split: if_splits option.splits)
  note f = registered_record_fresh [OF new]
  show "findToken s' tok = (if tok = irt_tokenId (rti_issuedToken input) then Some r else findToken s tok)"
    using step f(5) by (auto simp: findToken_def find_by_append split: option.split)
  show "rrt_maxUses r = use_allowance (rti_decision input)" "rrt_decisionId r = dec_id (rti_decision input)"
    using step f(4,6) records_match_bound [of r new] by (auto simp: limit_is_allowance)
qed

lemma put_known:
  assumes "findToken s k = Some r" and "replaces r' r" and "findToken s tok = None"
  shows "findToken (writeRegisteredReleaseToken s r') tok = None"
  using assms token_records.lookup_key [OF assms(1)] by (auto simp: token_records.lookup_put replaces_def)

lemma use_adds_nothing:
  assumes "store_inv s" and "recordTokenUse now input s = Inr (res, s')" and "findToken s tok = None"
  shows "findToken s' tok = None"
proof -
  from assms(2) obtain t rs s1 where ex: "expire_loop t s = Inr (rs, s1)"
    and s': "s' = s1 \<or> (\<exists>r c. findToken s1 (tui_tokenId input) = Some r \<and> rrt_status r = Tok_issued \<and>
        consumeRegisteredReleaseToken now r input = Inr c \<and> s' = writeRegisteredReleaseToken s1 c)"
    by (fastforce simp: recordTokenUse_def split: option.splits if_splits)
  note ex' = expire_guarantees [OF assms(1) ex]
  have "findToken s1 tok = None" using assms(3) by (simp add: ex'(3))
  moreover have "replaces c r"
    if "findToken s1 k = Some r" "rrt_status r = Tok_issued" "consumeRegisteredReleaseToken now r input = Inr c" for k r c
    using that consume_replaces(1) store_invD(2) [OF ex'(1)] token_records.lookup_in_recs by blast
  ultimately show ?thesis using s' by (auto intro: put_known)
qed

lemma only_registrations_add:
  assumes "store_inv s" and "store_action now op s = Inr (out, s')" and "\<And>input. op \<noteq> Op_register input"
    and "findToken s tok = None"
  shows "findToken s' tok = None"
proof (cases op)
  case (Op_revoke input)
  with assms(2,4) show ?thesis
    by (auto simp: revokeToken_def split: option.splits intro: put_known dest: revoke_replaces(1))
next
  case (Op_revoke_decision input)
  with assms(2) obtain res where "revokeTokensForDecision now input s = Inr (res, s')" by auto
  then obtain v vs where
    "s' = \<lparr> sto_records = map (revoked_record v) (sto_records s), sto_decisionRevocations = vs \<rparr>"
    using assms(1) by (blast elim: revoke_decision_facts)
  with assms(4) revoked_record_replaces(1) show ?thesis
    by (simp add: findToken_def find_by_map replaces_def)
next
  case (Op_sync date)
  with assms(2,4) show ?thesis by (auto simp: syncLifecycle_def expire_guarantees(3) [OF assms(1)])
next
  case (Op_use input)
  with assms show ?thesis by (auto intro: use_adds_nothing)
qed (use assms(3) in blast)

lemma stands_for_step:
  assumes "store_inv s" and "memory_mutate (store_action now op) s = (out, s')"
    and "stands_for (findToken s tok) ds"
  shows "stands_for (findToken s' tok) (ds \<union> set_option (registration_of tok (op, out)))"
proof (cases "store_action now op s")
  case (Inl e)
  with assms show ?thesis by (cases op) (auto simp: memory_mutate_def)
next
  case (Inr x)
  then obtain y where run: "store_action now op s = Inr (y, s')" and out: "out = Inr y"
    using assms(2) by (cases x) (auto simp: memory_mutate_def)
  show ?thesis
  proof (cases "\<exists>input. op = Op_register input")
    case True
    then obtain input r where op: "op = Op_register input" "y = Out_registered r"
      and reg: "registerIssuedToken input s = Inr (r, s')"
      using run by auto
    note b = register_binds [OF assms(1) reg]
    have "progress False (findToken s tok) (findToken s' tok)"
      using register_guarantees [OF assms(1) reg] by (simp add: guarantees_def)
    then show ?thesis
      using assms(3) b(2,3) by (cases "findToken s tok") (auto simp: b(1) op out stands_for_def)
  next
    case False
    have "progress (accepted_use tok (op, Inr y)) (findToken s tok) (findToken s' tok)"
      using action_guarantees [OF assms(1) run] by (simp add: guarantees_def)
    moreover have "findToken s tok = None \<Longrightarrow> findToken s' tok = None"
      using only_registrations_add [OF assms(1) run] False by blast
    moreover have "registration_of tok (op, out) = None" using False by (cases op) auto
    ultimately show ?thesis
      using assms(3) by (cases "findToken s tok"; cases "findToken s' tok") (auto simp: stands_for_def)
  qed
qed

lemma map_filter_snoc:
  "set (List.map_filter f (xs @ [x])) = set (List.map_filter f xs) \<union> set_option (f x)"
  by (induction xs) (auto split: option.splits)

lemma runs_stand_for:
  assumes "store_runs s trace s'" and "store_inv s" and "stands_for (findToken s tok) ds"
  shows "stands_for (findToken s' tok) (ds \<union> registered_decisions tok trace)"
  using assms
proof (induction rule: store_runs.induct)
  case (run_start s)
  then show ?case by (simp add: registered_decisions_def)
next
  case (run_step s trace s1 now op out s2)
  have "store_inv s1" using run_step runs_guarantee by blast
  from stands_for_step [OF this run_step.hyps(2) run_step.IH [OF run_step.prems]]
  show ?case
    by (simp add: registered_decisions_def map_filter_snoc Un_assoc)
qed

lemma default_stands_for: "stands_for (findToken defaultReleaseTokenIntrospectionStoreFile tok) {}"
  by (simp add: stands_for_def default_store_empty)

text \<open>What follows for one token once its uses are counted by its record.\<close>

lemma uses_allowed:
  assumes "stands_for rec ds"
    and "case rec of None \<Rightarrow> n = 0 | Some r \<Rightarrow> int n = rrt_useCount r \<and> rrt_useCount r \<le> rrt_maxUses r"
  shows "(\<forall>d\<in>ds. int n \<le> use_allowance d) \<and> (ds = {} \<longrightarrow> n = 0)"
  using assms by (auto simp: stands_for_def split: option.splits)

section \<open>Reachable stores\<close>

abbreviation reaches :: "(store_op \<times> store_outcome result) list \<Rightarrow> token_store \<Rightarrow> bool" where
  "reaches trace s \<equiv> store_runs defaultReleaseTokenIntrospectionStoreFile trace s"

lemmas reachable_inv = runs_guarantee [OF _ default_store_inv, THEN conjunct1]

lemma uses_within_bound:
  assumes "reaches trace s"
  shows "case findToken s tok of
      None \<Rightarrow> uses tok trace = 0
    | Some r \<Rightarrow> int (uses tok trace) = rrt_useCount r \<and> rrt_useCount r \<le> rrt_maxUses r"
proof -
  have inv: "store_inv s" using assms by (rule reachable_inv)
  have "trace_progress (uses tok trace) None (findToken s tok)"
    using runs_guarantee [OF assms default_store_inv] by (metis default_store_empty)
  moreover have "record_ok r" if "findToken s tok = Some r" for r
    using store_invD(2) [OF inv] token_records.lookup_in_recs [OF that] by simp
  ultimately show ?thesis by (cases "findToken s tok") (auto simp: record_ok_def)
qed

lemma uses_and_decisions:
  assumes "reaches trace s"
  shows "(\<forall>d\<in>registered_decisions tok trace. int (uses tok trace) \<le> use_allowance d) \<and>
    (registered_decisions tok trace = {} \<longrightarrow> uses tok trace = 0)"
proof -
  have "stands_for (findToken s tok) (registered_decisions tok trace)"
    using runs_stand_for [OF assms default_store_inv default_stands_for] by simp
  then show ?thesis using uses_within_bound [OF assms] by (rule uses_allowed)
qed

text \<open>
  C11: Replay protection. However registrations, uses, revocations and expiry runs are
  interleaved, failed operations included, the store accepts at most as many uses of a token as
  every decision the token was registered under allows by its usage limit, and none of a token
  that was never registered; the use count of its record is exactly the number of accepted uses.
  (A limit below one still allows one use, as the registry takes the maximum with one.)\<close>

theorem token_uses_bounded:
  assumes "reaches trace s"
  shows "(\<forall>d\<in>registered_decisions tok trace. int (uses tok trace) \<le> use_allowance d) \<and>
    (registered_decisions tok trace = {} \<longrightarrow> uses tok trace = 0) \<and>
    (case findToken s tok of
       None \<Rightarrow> uses tok trace = 0
     | Some r \<Rightarrow> int (uses tok trace) = rrt_useCount r \<and> rrt_useCount r \<le> rrt_maxUses r)"
  using uses_and_decisions [OF assms] uses_within_bound [OF assms] by blast

text \<open>
Once a registered token is revoked, expired or consumed, no later operation makes it
  issued again and no later use of it is accepted.\<close>

theorem inactive_token_final:
  assumes "reaches trace s" and "findToken s tok = Some r" and "rrt_status r \<noteq> Tok_issued"
    and "store_runs s trace' s'"
  shows "uses tok trace' = 0 \<and> (\<exists>r'. findToken s' tok = Some r' \<and> rrt_status r' \<noteq> Tok_issued)"
proof -
  have "trace_progress (uses tok trace') (Some r) (findToken s' tok)"
    using runs_guarantee [OF assms(4) reachable_inv [OF assms(1)]] assms(2) by metis
  then show ?thesis using assms(3) by (cases "findToken s' tok") auto
qed

lemma revoked_token_unused:
  assumes "store_inv s" and "findToken s tok = Some r" and "rrt_decisionId r \<in> revoked_decisions s"
  shows "rrt_status r \<noteq> Tok_issued"
  using store_invD(3) [OF assms(1) token_records.lookup_in_recs [OF assms(2)]] assms(3) by blast

text \<open>
  C15: Revoking a decision is final: in every later state the decision is revoked, no token
  registered under its (trimmed) identifier is issued, registering a token for it throws, and
  no use of a token that was registered for it is accepted.\<close>

theorem decision_revocation_final:
  assumes "reaches trace s" and "revokeTokensForDecision now input s = Inr (res, s1)"
    and "store_runs s1 trace' s2"
  shows "list_all (\<lambda>r. rrt_decisionId r = trim (rdi_decisionId input) \<longrightarrow> rrt_status r \<noteq> Tok_issued)
      (sto_records s2) \<and>
    (\<forall>i. dec_id (rti_decision i) = trim (rdi_decisionId input) \<longrightarrow>
      (\<exists>e. registerIssuedToken i s2 = Inl e)) \<and>
    (\<forall>tok r. findToken s1 tok = Some r \<and> rrt_decisionId r = trim (rdi_decisionId input) \<longrightarrow>
      uses tok trace' = 0)"
proof -
  let ?d = "trim (rdi_decisionId input)"
  have inv: "store_inv s" using assms(1) by (rule reachable_inv)
  note g = revoke_decision_guarantees [OF inv assms(2)]
  have inv1: "store_inv s1" using g(1) by (simp add: guarantees_def)
  note runs = runs_guarantee [OF assms(3) inv1]
  have rev: "?d \<in> revoked_decisions s2" using g(2) runs by blast
  have "\<exists>e. registerIssuedToken i s2 = Inl e" if "dec_id (rti_decision i) = ?d" for i
  proof (cases "buildRegisteredReleaseToken i")
    case (Inr r)
    then have "rrt_decisionId r \<in> revoked_decisions s2"
      using rev that registered_record_fresh(4) by simp
    then show ?thesis
      using Inr by (simp add: registerIssuedToken_def insertRegisteredReleaseToken_def revoked_iff)
  qed (simp add: registerIssuedToken_def)
  moreover have "uses tok trace' = 0" if "findToken s1 tok = Some r" "rrt_decisionId r = ?d" for tok r
  proof -
    have "rrt_status r \<noteq> Tok_issued" using revoked_token_unused [OF inv1 that(1)] g(2) that(2) by simp
    moreover have "trace_progress (uses tok trace') (Some r) (findToken s2 tok)"
      using runs that(1) by metis
    ultimately show ?thesis by (cases "findToken s2 tok") auto
  qed
  ultimately show ?thesis
    using runs rev by (auto simp: list_all_iff store_inv_def)
qed

text \<open>
In every reachable store a use of a token is accepted exactly when the token is
  registered, still issued and not yet expired at the instant of use; otherwise the reason
  returned is the state the token is in.\<close>

theorem token_use_exact:
  assumes "reaches trace s" and "introspectionTimestamp now (tui_usedAt input) = Inr t"
  shows "\<exists>res s'. recordTokenUse now input s = Inr (res, s') \<and>
    tur_inactiveReason res =
      (case findToken s (tui_tokenId input) of
         None \<Rightarrow> Some Ir_unknown
       | Some r \<Rightarrow>
           (case rrt_status r of
              Tok_issued \<Rightarrow> if rrt_expiresAt r \<le> t then Some Ir_expired else None
            | Tok_revoked \<Rightarrow> Some Ir_revoked
            | Tok_expired \<Rightarrow> Some Ir_expired
            | Tok_consumed \<Rightarrow> Some Ir_usage_exhausted)) \<and>
    tur_accepted res = (tur_inactiveReason res = None)"
proof -
  have inv: "store_inv s" using assms(1) by (rule reachable_inv)
  obtain rs s1 where ex: "expire_loop t s = Inr (rs, s1)"
    using expire_loop_map [OF store_invD(1) [OF inv]] by blast
  note ex' = expire_guarantees [OF inv ex]
  have consume: "\<exists>c. consumeRegisteredReleaseToken now r input = Inr c" for r
    using assms(2) by (simp add: consumeRegisteredReleaseToken_def normalizeLifecycleTimestamp_def Let_def)
  have rev: "rrt_decisionId r \<notin> revoked_decisions s1"
    if "findToken s1 tok = Some r" "rrt_status r = Tok_issued" for tok r
    using revoked_token_unused [OF ex'(1) that(1)] that(2) by blast
  show ?thesis
  proof (cases "findToken s (tui_tokenId input)")
    case None
    then show ?thesis
      using assms(2) ex by (simp add: recordTokenUse_def ex'(3) del: rbind_eq_Inr)
  next
    case (Some r)
    let ?r = "expire_record t r"
    have f: "findToken s1 (tui_tokenId input) = Some ?r" using Some by (simp add: ex'(3))
    have st: "rrt_status ?r = (if rrt_status r = Tok_issued \<and> rrt_expiresAt r \<le> t then Tok_expired
        else rrt_status r)"
      by (simp add: expire_record_def expiry_update_def expireRegisteredReleaseToken_def)
    from consume [of ?r] obtain c where "consumeRegisteredReleaseToken now ?r input = Inr c" by blast
    then show ?thesis
      using assms(2) ex f rev [OF f] st Some
      by (cases "rrt_status r")
        (auto simp: recordTokenUse_def revoked_iff inactiveReasonForRegisteredReleaseToken_def
          simp del: rbind_eq_Inr)
  qed
qed

text \<open>
The identifier of a decision is trimmed when the decision is revoked, but not when its
  tokens are registered: revoking a decision whose identifier has surrounding white space
  leaves its tokens as they were.\<close>

theorem padded_decision_keeps_tokens:
  assumes "reaches trace s" and "findToken s tok = Some r"
    and "rrt_decisionId r = rdi_decisionId input" and "trim (rdi_decisionId input) \<noteq> rdi_decisionId input"
    and "revokeTokensForDecision now input s = Inr (res, s')"
  shows "findToken s' tok = Some r"
proof -
  obtain v vs where v: "drv_decisionId v = trim (rdi_decisionId input)"
    and s': "s' = \<lparr> sto_records = map (revoked_record v) (sto_records s), sto_decisionRevocations = vs \<rparr>"
    using reachable_inv [OF assms(1)] assms(5) by (rule revoke_decision_facts)
  have "rrt_tokenId (revoked_record v x) = rrt_tokenId x" for x
    using revoked_record_replaces(1) by (simp add: replaces_def)
  then have "findToken s' tok = map_option (revoked_record v) (findToken s tok)"
    by (simp add: s' findToken_def find_by_map)
  then show ?thesis using assms(2-4) v by (simp add: revoked_record_def)
qed

section \<open>The file-backed store\<close>

text \<open>
  What a reader finds at the path of a store: nothing, text that does not parse, a value of the
  wrong shape, or the records and (optionally) the revocations with their raw fields.
\<close>

datatype store_file =
    No_file
  | Unparsable
  | Bad_shape
  | Store_content "registered_release_token list"
      "(string \<times> js_date \<times> string option \<times> string option) list option"

definition could_not_be_parsed :: "string \<Rightarrow> js_error" where
  "could_not_be_parsed path = ReleaseTokenIntrospectionStoreError
     (''Release token introspection store '' @ in_quotes path @ '' could not be parsed.'')"

fun normalizeReleaseTokenIntrospectionStoreFile :: "int \<Rightarrow> store_file \<Rightarrow> string \<Rightarrow> token_store result" where
  "normalizeReleaseTokenIntrospectionStoreFile now (Store_content recs revocations) path =
     rbind (rmap_list (freezeReleaseDecisionRevocation now) (nullish revocations [])) (\<lambda>decisionRevocations.
       return \<lparr> sto_records = recs, sto_decisionRevocations = decisionRevocations \<rparr>)"
| "normalizeReleaseTokenIntrospectionStoreFile now _ path = throw (ReleaseTokenIntrospectionStoreError
     (''Release token introspection store '' @ in_quotes path @ '' has an invalid file shape.''))"

definition loadReleaseTokenIntrospectionStoreFile :: "int \<Rightarrow> string \<Rightarrow> store_file \<Rightarrow> token_store result" where
  "loadReleaseTokenIntrospectionStoreFile now path file =
     (case file of
        No_file \<Rightarrow> return defaultReleaseTokenIntrospectionStoreFile
      | Unparsable \<Rightarrow> throw (could_not_be_parsed path)
      | content \<Rightarrow>
          (case normalizeReleaseTokenIntrospectionStoreFile now content path of
             Inl (ReleaseTokenIntrospectionStoreError m) \<Rightarrow> throw (ReleaseTokenIntrospectionStoreError m)
           | Inl _ \<Rightarrow> throw (could_not_be_parsed path)
           | Inr store \<Rightarrow> return store))"

definition saveReleaseTokenIntrospectionStoreFile :: "token_store \<Rightarrow> store_file" where
  "saveReleaseTokenIntrospectionStoreFile file =
     Store_content (sto_records file) (Some (map revocation_fields (sto_decisionRevocations file)))"

definition file_mutate ::
  "int \<Rightarrow> string \<Rightarrow> (token_store \<Rightarrow> ('a \<times> token_store) result) \<Rightarrow> store_file \<Rightarrow> 'a result \<times> store_file" where
  "file_mutate now path action content =
     (case loadReleaseTokenIntrospectionStoreFile now path content of
        Inl e \<Rightarrow> (Inl e, content)
      | Inr file \<Rightarrow>
          (case action file of
             Inl e \<Rightarrow> (Inl e, content)
           | Inr (x, file') \<Rightarrow> (Inr x, saveReleaseTokenIntrospectionStoreFile file')))"

text \<open>
  The contract between the operations and the place a store is kept: a place that holds a
  well-formed store answers every operation like the in-memory store does, and then holds the
  store it leaves.
\<close>

locale store_backend =
  fixes holds :: "'f \<Rightarrow> token_store \<Rightarrow> bool"
    and mutate :: "int \<Rightarrow> store_op \<Rightarrow> 'f \<Rightarrow> store_outcome result \<times> 'f"
    and start :: 'f
  assumes holds_start: "holds start defaultReleaseTokenIntrospectionStoreFile"
    and mutate_like_memory:
      "holds f s \<Longrightarrow> store_inv s \<Longrightarrow> memory_mutate (store_action now op) s = (out, s') \<Longrightarrow>
        fst (mutate now op f) = out \<and> holds (snd (mutate now op f)) s'"
begin

fun run_ops :: "(int \<times> store_op) list \<Rightarrow> 'f \<Rightarrow> store_outcome result list \<times> 'f" where
  "run_ops [] f = ([], f)"
| "run_ops ((now, op) # ops) f =
     (let (out, f') = mutate now op f; (outs, f'') = run_ops ops f' in (out # outs, f''))"

end

interpretation memory_store: store_backend "(=)" "\<lambda>now op. memory_mutate (store_action now op)"
  defaultReleaseTokenIntrospectionStoreFile
  by unfold_locales auto

context store_backend
begin

lemma run_like_memory:
  "holds f s \<Longrightarrow> store_inv s \<Longrightarrow>
     fst (run_ops ops f) = fst (memory_store.run_ops ops s) \<and>
     holds (snd (run_ops ops f)) (snd (memory_store.run_ops ops s))"
proof (induction ops arbitrary: f s)
  case (Cons step ops)
  obtain now op where step: "step = (now, op)" by force
  obtain out s' where m: "memory_mutate (store_action now op) s = (out, s')" by force
  have "store_inv s'" using mutate_guarantees [OF Cons.prems(2) m] by (simp add: guarantees_def)
  with mutate_like_memory [OF Cons.prems m] Cons.IH show ?case
    by (simp add: step m case_prod_beta Let_def)
qed simp

end

lemma load_saved:
  assumes "store_inv s"
  shows "loadReleaseTokenIntrospectionStoreFile now path (saveReleaseTokenIntrospectionStoreFile s) = Inr s"
proof -
  have "rmap_list (freezeReleaseDecisionRevocation now) (map revocation_fields vs) = Inr vs"
    if "\<forall>v\<in>set vs. revocation_ok v" for vs
    using that by (induction vs) (simp_all add: freeze_revocation)
  then show ?thesis
    using assms by (simp add: loadReleaseTokenIntrospectionStoreFile_def
        saveReleaseTokenIntrospectionStoreFile_def store_inv_def)
qed

definition file_holds :: "store_file \<Rightarrow> token_store \<Rightarrow> bool" where
  "file_holds f s \<longleftrightarrow> f = saveReleaseTokenIntrospectionStoreFile s \<or>
     f = No_file \<and> s = defaultReleaseTokenIntrospectionStoreFile"

lemma load_held:
  "file_holds f s \<Longrightarrow> store_inv s \<Longrightarrow> loadReleaseTokenIntrospectionStoreFile now path f = Inr s"
  unfolding file_holds_def by (auto simp: load_saved) (simp add: loadReleaseTokenIntrospectionStoreFile_def)

interpretation file_store: store_backend file_holds "\<lambda>now op. file_mutate now path (store_action now op)" No_file
  for path
proof unfold_locales
  show "file_holds No_file defaultReleaseTokenIntrospectionStoreFile" by (simp add: file_holds_def)
next
  fix f s now op out s'
  assume "file_holds f s" and "store_inv s" and "memory_mutate (store_action now op) s = (out, s')"
  then show "fst (file_mutate now path (store_action now op) f) = out \<and>
      file_holds (snd (file_mutate now path (store_action now op) f)) s'"
    using load_held [of f s now path]
    by (auto simp: file_mutate_def memory_mutate_def file_holds_def split: sum.splits prod.splits)
qed

text \<open>
  C13: The file-backed store implements the in-memory one: for every sequence of operations,
  starting with no file, it returns the same outcomes, and the file it leaves loads as the
  store the in-memory run ends in.\<close>

theorem file_store_refines_memory:
  "fst (file_store.run_ops path ops No_file) =
     fst (memory_store.run_ops ops defaultReleaseTokenIntrospectionStoreFile) \<and>
   loadReleaseTokenIntrospectionStoreFile now path (snd (file_store.run_ops path ops No_file)) =
     Inr (snd (memory_store.run_ops ops defaultReleaseTokenIntrospectionStoreFile))"
proof -
  let ?s = "snd (memory_store.run_ops ops defaultReleaseTokenIntrospectionStoreFile)"
  have "store_inv (snd (memory_store.run_ops ops s))" if "store_inv s" for s
    using that
  proof (induction ops arbitrary: s)
    case (Cons step ops)
    obtain n op out s' where m: "step = (n, op)" "memory_mutate (store_action n op) s = (out, s')"
      by (metis prod.collapse)
    then have "store_inv s'" using mutate_guarantees Cons.prems by (simp add: guarantees_def)
    with Cons.IH show ?case by (simp add: m case_prod_beta)
  qed simp
  then have "store_inv ?s" using default_store_inv by blast
  then show ?thesis
    using file_store.run_like_memory [OF file_store.holds_start default_store_inv] by (auto intro: load_held)
qed

section \<open>Witnesses\<close>

definition sample_registration :: register_token_input where
  "sample_registration = \<lparr> rti_issuedToken = sample_token, rti_decision = sample_decision \<rparr>"

definition sample_use :: "int \<Rightarrow> token_use_input" where
  "sample_use t = \<lparr> tui_tokenId = ''rt1'', tui_usedAt = Some (Iso t), tui_resourceServerId = None \<rparr>"

definition sample_record :: registered_release_token where
  "sample_record = projr (buildRegisteredReleaseToken sample_registration)"

definition sample_store :: token_store where
  "sample_store = \<lparr> sto_records = [sample_record], sto_decisionRevocations = [] \<rparr>"

definition sample_spent :: registered_release_token where
  "sample_spent = sample_record\<lparr> rrt_status := Tok_consumed, rrt_statusChangedAt := 6000, rrt_useCount := 1,
     rrt_firstUsedAt := Some 6000, rrt_lastUsedAt := Some 6000 \<rparr>"

definition spent_store :: token_store where
  "spent_store = \<lparr> sto_records = [sample_spent], sto_decisionRevocations = [] \<rparr>"

definition sample_registered :: "store_op \<times> store_outcome result" where
  "sample_registered = (Op_register sample_registration, Inr (Out_registered sample_record))"

definition sample_used :: "store_op \<times> store_outcome result" where
  "sample_used = (Op_use (sample_use 6000),
     Inr (Out_use \<lparr> tur_accepted = True, tur_inactiveReason = None, tur_record = Some sample_spent \<rparr>))"

lemma sample_build: "buildRegisteredReleaseToken sample_registration = Inr sample_record"
  by (simp add: sample_record_def buildRegisteredReleaseToken_def sample_registration_def Let_def
      sample_token_def sample_claims_def toISO_def max_time_value_def del: toISO_eq_Inr)

lemma sample_record_fields [simp]:
  "rrt_tokenId sample_record = ''rt1''" "rrt_status sample_record = Tok_issued"
  "rrt_maxUses sample_record = 1" "rrt_useCount sample_record = 0" "rrt_expiresAt sample_record = 599000"
  "rrt_decisionId sample_record = ''d1''" "rrt_firstUsedAt sample_record = None"
  "rrt_lastUsedByResourceServerId sample_record = None"
  by (simp_all add: sample_record_def buildRegisteredReleaseToken_def sample_registration_def Let_def
      sample_token_def sample_claims_def sample_decision_def releaseDecisionMaxUses_def toISO_def
      max_time_value_def del: toISO_eq_Inr)

lemma sample_registered_run: "reaches [sample_registered] sample_store"
proof -
  have "memory_mutate (store_action 0 (Op_register sample_registration))
      defaultReleaseTokenIntrospectionStoreFile = (Inr (Out_registered sample_record), sample_store)"
    by (simp add: memory_mutate_def registerIssuedToken_def sample_build insertRegisteredReleaseToken_def
        defaultReleaseTokenIntrospectionStoreFile_def sample_store_def)
  from run_step [OF run_start this] show ?thesis by (simp add: sample_registered_def)
qed

lemma sample_use_step:
  "recordTokenUse 0 (sample_use 6000) sample_store =
     Inr (\<lparr> tur_accepted = True, tur_inactiveReason = None, tur_record = Some sample_spent \<rparr>, spent_store)"
  by (simp add: recordTokenUse_def sample_use_def introspectionTimestamp_def expire_loop_def sample_store_def
      expiry_update_def collect_written_def findToken_def consumeRegisteredReleaseToken_def
      normalizeLifecycleTimestamp_def Let_def sample_spent_def spent_store_def writeRegisteredReleaseToken_def
      del: rbind_eq_Inr)

lemma sample_used_run: "reaches [sample_registered, sample_used] spent_store"
proof -
  have "memory_mutate (store_action 0 (Op_use (sample_use 6000))) sample_store =
      (snd sample_used, spent_store)"
    by (simp add: memory_mutate_def sample_use_step sample_used_def)
  from run_step [OF sample_registered_run this] show ?thesis by (simp add: sample_used_def)
qed

lemma sample_find:
  "findToken sample_store ''rt1'' = Some sample_record" "findToken spent_store ''rt1'' = Some sample_spent"
  by (simp_all add: findToken_def sample_store_def spent_store_def sample_spent_def)

lemma sample_allowance:
  "registered_decisions ''rt1'' [sample_registered, sample_used] = {sample_decision}"
  "use_allowance sample_decision = 1"
  by (simp_all add: registered_decisions_def sample_registered_def sample_used_def sample_registration_def
      sample_token_def sample_decision_def use_allowance_def)

theorem token_uses_bounded_witness:
  "uses ''rt1'' [sample_registered, sample_used] = 1 \<and> rrt_useCount sample_spent = 1 \<and>
   int (uses ''rt1'' [sample_registered, sample_used]) \<le> use_allowance sample_decision \<and>
   use_allowance sample_decision = 1 \<and> uses ''rt2'' [sample_registered, sample_used] = 0"
proof -
  have "registered_decisions ''rt2'' [sample_registered, sample_used] = {}"
    by (simp add: registered_decisions_def sample_registered_def sample_used_def sample_registration_def
        sample_token_def)
  then show ?thesis
    using token_uses_bounded [OF sample_used_run, of "''rt1''"] token_uses_bounded [OF sample_used_run, of "''rt2''"]
      sample_allowance
    by (simp add: sample_find) (simp add: sample_spent_def)
qed

theorem inactive_token_final_witness:
  "\<exists>s out. memory_mutate (store_action 0 (Op_use (sample_use 7000))) spent_store = (out, s) \<and>
     uses ''rt1'' [(Op_use (sample_use 7000), out)] = 0"
proof -
  obtain out s where m: "memory_mutate (store_action 0 (Op_use (sample_use 7000))) spent_store = (out, s)"
    by force
  have "rrt_status sample_spent \<noteq> Tok_issued" by (simp add: sample_spent_def)
  from inactive_token_final [OF sample_used_run sample_find(2) this run_step [OF run_start m]] m
  show ?thesis by auto
qed

definition sample_revocation :: "string \<Rightarrow> revoke_decision_input" where
  "sample_revocation d = \<lparr> rdi_decisionId = d, rdi_revokedAt = Some (Iso 7000), rdi_reason = None, rdi_revokedBy = None \<rparr>"

lemma sample_revocation_succeeds:
  assumes "store_inv s" and "trim d \<noteq> []"
  shows "\<exists>res s'. revokeTokensForDecision 0 (sample_revocation d) s = Inr (res, s')"
proof -
  let ?v = "\<lparr> drv_version = RELEASE_TOKEN_REGISTRY_SPEC_VERSION, drv_decisionId = trim d, drv_revokedAt = 7000,
      drv_reason = None, drv_revokedBy = None \<rparr>"
  have v: "releaseDecisionRevocationRecordFor 0 (sample_revocation d) = Inr ?v"
    using assms(2) by (simp add: releaseDecisionRevocationRecordFor_def sample_revocation_def
        normalizeLifecycleTimestamp_def introspectionTimestamp_def normalizeReleaseLifecycleText_def)
  obtain v s1 where w: "writeDecisionRevocation 0 ?v s = Inr (v, s1)" and recs: "sto_records s1 = sto_records s"
    using freeze_revocation [OF revocation_record_ok(1) [OF v]]
    by (cases "find_by drv_decisionId (trim d) (sto_decisionRevocations s)")
      (auto simp: writeDecisionRevocation_def)
  have "token_records.distinct_keys s1"
    using store_invD(1) [OF assms(1)] by (simp add: token_records.distinct_keys_def recs)
  from decision_loop_map [OF this, of 0 v "([], [])"] w v show ?thesis
    by (auto simp: revokeTokensForDecision_def simp del: rbind_eq_Inr)
qed

theorem decision_revocation_final_witness:
  "\<exists>res s1. revokeTokensForDecision 0 (sample_revocation '' d1'') sample_store = Inr (res, s1) \<and>
     (\<exists>e. registerIssuedToken sample_registration s1 = Inl e)"
proof -
  have t: "trim '' d1'' = ''d1''" by (simp add: trim_def js_whitespace_def)
  obtain res s1 where r: "revokeTokensForDecision 0 (sample_revocation '' d1'') sample_store = Inr (res, s1)"
    using sample_revocation_succeeds [OF reachable_inv [OF sample_registered_run]] t by fastforce
  show ?thesis
    using r decision_revocation_final [OF sample_registered_run r run_start]
    by (simp add: sample_revocation_def t sample_registration_def sample_decision_def)
qed

theorem token_use_exact_witness:
  "\<exists>res s'. recordTokenUse 0 (sample_use 7000) spent_store = Inr (res, s') \<and>
     tur_inactiveReason res = Some Ir_usage_exhausted \<and> \<not> tur_accepted res"
proof -
  have t: "introspectionTimestamp 0 (tui_usedAt (sample_use 7000)) = Inr 7000"
    by (simp add: introspectionTimestamp_def sample_use_def)
  have "tui_tokenId (sample_use 7000) = ''rt1''" "rrt_status sample_spent = Tok_consumed"
    by (simp_all add: sample_use_def sample_spent_def)
  with token_use_exact [OF sample_used_run t] show ?thesis by (auto simp: sample_find)
qed

definition padded_registration :: register_token_input where
  "padded_registration =
     \<lparr> rti_issuedToken = sample_token, rti_decision = sample_decision\<lparr> dec_id := '' d1'' \<rparr> \<rparr>"

theorem padded_decision_keeps_tokens_witness:
  "\<exists>r s res s'. memory_mutate (store_action 0 (Op_register padded_registration))
       defaultReleaseTokenIntrospectionStoreFile = (Inr (Out_registered r), s) \<and>
     revokeTokensForDecision 0 (sample_revocation '' d1'') s = Inr (res, s') \<and>
     findToken s' ''rt1'' = Some r \<and> rrt_status r = Tok_issued"
proof -
  obtain r where b: "buildRegisteredReleaseToken padded_registration = Inr r"
    by (auto simp: buildRegisteredReleaseToken_def padded_registration_def Let_def
      sample_token_def sample_claims_def toISO_def max_time_value_def simp del: toISO_eq_Inr)
  let ?s = "\<lparr> sto_records = [r], sto_decisionRevocations = [] \<rparr>"
  have r: "rrt_tokenId r = ''rt1''" "rrt_decisionId r = '' d1''" "rrt_status r = Tok_issued"
    using registered_record_fresh [OF b] by (simp_all add: padded_registration_def sample_token_def)
  have m: "memory_mutate (store_action 0 (Op_register padded_registration))
      defaultReleaseTokenIntrospectionStoreFile = (Inr (Out_registered r), ?s)"
    by (simp add: memory_mutate_def registerIssuedToken_def b insertRegisteredReleaseToken_def
        defaultReleaseTokenIntrospectionStoreFile_def)
  note run = run_step [OF run_start m]
  have f: "findToken ?s ''rt1'' = Some r" by (simp add: findToken_def r)
  have t: "trim '' d1'' = ''d1''" by (simp add: trim_def js_whitespace_def)
  obtain res s1 where v: "revokeTokensForDecision 0 (sample_revocation '' d1'') ?s = Inr (res, s1)"
    using sample_revocation_succeeds [OF reachable_inv [OF run]] t by fastforce
  have "findToken s1 ''rt1'' = Some r"
    by (rule padded_decision_keeps_tokens [OF run f _ _ v]) (simp_all add: r sample_revocation_def t)
  with m v r show ?thesis by blast
qed

end
