(* ===== verification/Token_Introspection.thy ===== *)
theory Token_Introspection
  imports Token_Registry
begin

text \<open>
  Introspection of presented tokens: \<open>introspectReleaseToken\<close> of
  src/release-kernel/release-introspection.ts.

  A presented token is verified and looked up in the registry; it is active when the registry
  holds a matching record that is issued and whose decision is not revoked. Introspection first
  expires overdue tokens in the store, so it returns the store as well, also when it throws
  later. The store is the in-memory one; Token_Registry shows that the file-backed store behaves
  alike.
\<close>

section \<open>Data\<close>

definition RELEASE_TOKEN_INTROSPECTION_SPEC_VERSION :: string where
  "RELEASE_TOKEN_INTROSPECTION_SPEC_VERSION = ''attestor.release-introspection.v2''"

definition DEFAULT_RELEASE_TOKEN_TYPE_HINT :: string where
  "DEFAULT_RELEASE_TOKEN_TYPE_HINT = ''attestor_release_token''"

record introspection_input =
  ini_token :: string
  ini_verificationKey :: release_token_verification_key
  ini_audience :: "string option"
  ini_currentDate :: "js_date option"
  ini_tokenTypeHint :: "string option"
  ini_resourceServerId :: "string option"

record introspection_policy_context =
  ipc_policy_hash :: string
  ipc_policy_version :: "string option"
  ipc_policy_ir_hash :: "string option"
  ipc_policy_provenance_source :: "release_policy_provenance_source option"
  ipc_compiled_policy_index_version :: "string option"
  ipc_compiled_policy_ir_version :: "string option"

record introspection_base =
  inb_version :: string
  inb_token_type :: string
  inb_checked_at :: timestamp
  inb_resource_server_id :: "string option"

record active_introspection =
  ain_scope :: string
  ain_iss :: string
  ain_sub :: string
  ain_aud :: string
  ain_tenant_id :: "string option"
  ain_jti :: string
  ain_iat :: int
  ain_nbf :: int
  ain_exp :: int
  ain_decision_id :: string
  ain_decision :: release_decision_status
  ain_consequence_type :: consequence_type
  ain_risk_class :: risk_class
  ain_output_hash :: string
  ain_consequence_hash :: string
  ain_policy_hash :: string
  ain_policy_version :: "string option"
  ain_policy_ir_hash :: "string option"
  ain_policy_provenance_source :: "release_policy_provenance_source option"
  ain_compiled_policy_index_version :: "string option"
  ain_compiled_policy_ir_version :: "string option"
  ain_token_policy :: introspection_policy_context
  ain_override :: bool
  ain_authority_mode :: review_authority_mode
  ain_introspection_required :: bool
  ain_resource :: "string option"
  ain_act :: "release_token_actor_claim option"
  ain_parent_jti :: "string option"
  ain_exchange_id :: "string option"
  ain_exchanged_at :: "int option"
  ain_source_aud :: "string option"
  ain_token_use :: "release_token_use option"
  ain_cnf :: "release_token_confirmation option"

datatype introspection_result =
    Inactive introspection_base token_inactive_reason
  | Active introspection_base active_introspection

section \<open>Operations\<close>

definition introspection_base_of :: "timestamp \<Rightarrow> string option \<Rightarrow> introspection_base" where
  "introspection_base_of checkedAt resourceServerId =
     \<lparr> inb_version = RELEASE_TOKEN_INTROSPECTION_SPEC_VERSION,
       inb_token_type = DEFAULT_RELEASE_TOKEN_TYPE_HINT,
       inb_checked_at = checkedAt,
       inb_resource_server_id = resourceServerId \<rparr>"

definition inactiveReleaseTokenIntrospection ::
  "int \<Rightarrow> token_inactive_reason \<Rightarrow> js_date option \<Rightarrow> string option \<Rightarrow> introspection_result result" where
  "inactiveReleaseTokenIntrospection now reason currentDate resourceServerId =
     rbind (introspectionTimestamp now currentDate) (\<lambda>checkedAt.
       return (Inactive (introspection_base_of checkedAt resourceServerId) reason))"

definition releaseTokenIntrospectionPolicyContext ::
  "release_token_claims \<Rightarrow> introspection_policy_context" where
  "releaseTokenIntrospectionPolicyContext claims =
     \<lparr> ipc_policy_hash = clm_policy_hash claims,
       ipc_policy_version = truthy_str (clm_policy_version claims),
       ipc_policy_ir_hash = truthy_str (clm_policy_ir_hash claims),
       ipc_policy_provenance_source = clm_policy_provenance_source claims,
       ipc_compiled_policy_index_version = truthy_str (clm_compiled_policy_index_version claims),
       ipc_compiled_policy_ir_version = truthy_str (clm_compiled_policy_ir_version claims) \<rparr>"

definition normalizeSupportedTokenTypeHint :: "string option \<Rightarrow> string option" where
  "normalizeSupportedTokenTypeHint tokenTypeHint =
     (case truthy_str tokenTypeHint of
        None \<Rightarrow> None
      | Some hint \<Rightarrow>
          if hint = DEFAULT_RELEASE_TOKEN_TYPE_HINT \<or> hint = ''access_token'' then Some hint else None)"

definition registeredReleaseTokenMatchesClaims ::
  "registered_release_token \<Rightarrow> release_token_claims \<Rightarrow> bool" where
  "registeredReleaseTokenMatchesClaims record claims \<longleftrightarrow>
     rrt_tokenId record = clm_jti claims \<and>
     rrt_issuer record = clm_iss claims \<and>
     rrt_subject record = clm_sub claims \<and>
     rrt_audience record = clm_aud claims \<and>
     rrt_tenantId record = clm_tenant_id claims \<and>
     rrt_decisionId record = clm_decision_id claims \<and>
     rrt_decisionStatus record = clm_decision claims \<and>
     rrt_consequenceType record = clm_consequence_type claims \<and>
     rrt_riskClass record = clm_risk_class claims \<and>
     rrt_outputHash record = clm_output_hash claims \<and>
     rrt_consequenceHash record = clm_consequence_hash claims \<and>
     rrt_policyHash record = clm_policy_hash claims \<and>
     rrt_policyVersion record = clm_policy_version claims \<and>
     rrt_policyIrHash record = clm_policy_ir_hash claims \<and>
     rrt_policyProvenanceSource record = clm_policy_provenance_source claims \<and>
     rrt_compiledPolicyIndexVersion record = clm_compiled_policy_index_version claims \<and>
     rrt_compiledPolicyIrVersion record = clm_compiled_policy_ir_version claims \<and>
     rrt_override record = clm_override claims \<and>
     rrt_introspectionRequired record = clm_introspection_required claims \<and>
     rrt_authorityMode record = clm_authority_mode claims"

definition active_claims :: "release_token_claims \<Rightarrow> active_introspection" where
  "active_claims claims =
     \<lparr> ain_scope = nullish (clm_scope claims) (''release:'' @ consequence_type_str (clm_consequence_type claims)),
       ain_iss = clm_iss claims,
       ain_sub = clm_sub claims,
       ain_aud = clm_aud claims,
       ain_tenant_id = truthy_str (clm_tenant_id claims),
       ain_jti = clm_jti claims,
       ain_iat = clm_iat claims,
       ain_nbf = clm_nbf claims,
       ain_exp = clm_exp claims,
       ain_decision_id = clm_decision_id claims,
       ain_decision = clm_decision claims,
       ain_consequence_type = clm_consequence_type claims,
       ain_risk_class = clm_risk_class claims,
       ain_output_hash = clm_output_hash claims,
       ain_consequence_hash = clm_consequence_hash claims,
       ain_policy_hash = clm_policy_hash claims,
       ain_policy_version = truthy_str (clm_policy_version claims),
       ain_policy_ir_hash = truthy_str (clm_policy_ir_hash claims),
       ain_policy_provenance_source = clm_policy_provenance_source claims,
       ain_compiled_policy_index_version = truthy_str (clm_compiled_policy_index_version claims),
       ain_compiled_policy_ir_version = truthy_str (clm_compiled_policy_ir_version claims),
       ain_token_policy = releaseTokenIntrospectionPolicyContext claims,
       ain_override = clm_override claims,
       ain_authority_mode = clm_authority_mode claims,
       ain_introspection_required = clm_introspection_required claims,
       ain_resource = truthy_str (clm_resource claims),
       ain_act = clm_act claims,
       ain_parent_jti = truthy_str (clm_parent_jti claims),
       ain_exchange_id = truthy_str (clm_exchange_id claims),
       ain_exchanged_at = clm_exchanged_at claims,
       ain_source_aud = truthy_str (clm_source_aud claims),
       ain_token_use = clm_token_use claims,
       ain_cnf = clm_cnf claims \<rparr>"

definition introspectReleaseToken ::
  "jose_api \<Rightarrow> int \<Rightarrow> introspection_input \<Rightarrow> token_store \<Rightarrow> introspection_result result \<times> token_store" where
  "introspectReleaseToken jose now input store =
     (let inactive = (\<lambda>reason.
            inactiveReleaseTokenIntrospection now reason (ini_currentDate input) (ini_resourceServerId input))
      in
      if truthy_str (ini_tokenTypeHint input) \<noteq> None \<and>
         normalizeSupportedTokenTypeHint (ini_tokenTypeHint input) = None
      then (inactive Ir_unsupported_token_type, store)
      else case memory_mutate (syncLifecycle now (ini_currentDate input)) store of
        (Inl e, store1) \<Rightarrow> (Inl e, store1)
      | (Inr _, store1) \<Rightarrow>
          (case verifyIssuedReleaseToken jose
                  \<lparr> vti_token = ini_token input,
                    vti_verificationKey = ini_verificationKey input,
                    vti_audience = ini_audience input,
                    vti_expectedTenantId = None,
                    vti_currentDate = ini_currentDate input \<rparr> of
             Inl (ReleaseTokenVerificationFailure Token_expired _) \<Rightarrow> (inactive Ir_expired, store1)
           | Inl _ \<Rightarrow> (inactive Ir_invalid, store1)
           | Inr verified \<Rightarrow>
               (case findToken store1 (clm_jti (tvr_claims verified)) of
                  None \<Rightarrow> (inactive Ir_unknown, store1)
                | Some record \<Rightarrow>
                    if \<not> registeredReleaseTokenMatchesClaims record (tvr_claims verified) then
                      (inactive Ir_claim_mismatch, store1)
                    else if rrt_status record \<noteq> Tok_issued then
                      (inactive (inactiveReasonForRegisteredReleaseToken record), store1)
                    else
                      (rbind (findDecisionRevocation store1 (rrt_decisionId record)) (\<lambda>decisionRevocation.
                         if decisionRevocation \<noteq> None then inactive Ir_revoked
                         else rbind (introspectionTimestamp now (ini_currentDate input)) (\<lambda>checkedAt.
                           return (Active (introspection_base_of checkedAt (ini_resourceServerId input))
                             (active_claims (tvr_claims verified))))), store1))))"

section \<open>When a token is active\<close>

text \<open>
  The state of the registry as introspection sees it: expiry is applied first.
\<close>

definition live_record :: "token_store \<Rightarrow> timestamp \<Rightarrow> release_token_claims \<Rightarrow> bool" where
  "live_record s t claims \<longleftrightarrow>
     (case findToken s (clm_jti claims) of
        None \<Rightarrow> False
      | Some r \<Rightarrow> registeredReleaseTokenMatchesClaims r claims \<and> rrt_status r = Tok_issued \<and> t < rrt_expiresAt r)"

definition introspection_request :: "introspection_input \<Rightarrow> verify_token_input" where
  "introspection_request input =
     \<lparr> vti_token = ini_token input, vti_verificationKey = ini_verificationKey input,
       vti_audience = ini_audience input, vti_expectedTenantId = None,
       vti_currentDate = ini_currentDate input \<rparr>"

definition supported_hint :: "string option \<Rightarrow> bool" where
  "supported_hint hint \<longleftrightarrow>
     hint \<in> {None, Some [], Some ''attestor_release_token'', Some ''access_token''}"

lemma hint_supported:
  "truthy_str h \<noteq> None \<and> normalizeSupportedTokenTypeHint h = None \<longleftrightarrow> \<not> supported_hint h"
  by (cases h) (auto simp: normalizeSupportedTokenTypeHint_def DEFAULT_RELEASE_TOKEN_TYPE_HINT_def
      supported_hint_def)

lemma expire_record_match:
  "registeredReleaseTokenMatchesClaims (expire_record t r) c = registeredReleaseTokenMatchesClaims r c"
  "rrt_status (expire_record t r) = Tok_issued \<longleftrightarrow> rrt_status r = Tok_issued \<and> t < rrt_expiresAt r"
  by (auto simp: expire_record_def expiry_update_def expireRegisteredReleaseToken_def
      registeredReleaseTokenMatchesClaims_def)

text \<open>
  The decision identifiers the introspection of a token trims; the registry compares the
  identifiers as they are, so both agree on identifiers without surrounding white space.
\<close>

definition trimmed :: "string \<Rightarrow> bool" where
  "trimmed s \<longleftrightarrow> s \<noteq> [] \<and> trim s = s"

lemma find_revocation_None:
  "find_by drv_decisionId d (sto_decisionRevocations s) = None \<longleftrightarrow> d \<notin> revoked_decisions s"
  by (auto simp: find_by_None revoked_decisions_def)

lemma introspect_active_iff:
  assumes "store_inv s" and "introspectionTimestamp now (ini_currentDate input) = Inr t"
    and "\<And>v. verifyIssuedReleaseToken jose (introspection_request input) = Inr v \<Longrightarrow>
      trimmed (clm_decision_id (tvr_claims v))"
  shows "\<exists>b. fst (introspectReleaseToken jose now input s) = Inr b \<and>
    ((\<exists>base a. b = Active base a) \<longleftrightarrow> supported_hint (ini_tokenTypeHint input) \<and>
      (\<exists>v. verifyIssuedReleaseToken jose (introspection_request input) = Inr v \<and> live_record s t (tvr_claims v)))"
proof -
  obtain rs s1 where ex: "expire_loop t s = Inr (rs, s1)"
    using expire_loop_map [OF store_invD(1) [OF assms(1)]] by blast
  note ex' = expire_guarantees [OF assms(1) ex]
  have sync: "memory_mutate (syncLifecycle now (ini_currentDate input)) s = (Inr rs, s1)"
    using assms(2) ex by (simp add: memory_mutate_def syncLifecycle_def)
  have revocation: "findDecisionRevocation s1 (rrt_decisionId r) = Inr None"
    if "findToken s1 tok = Some r" "rrt_status r = Tok_issued" "trimmed (rrt_decisionId r)" for tok r
    using revoked_token_unused [OF ex'(1) that(1)] that(2,3)
    by (auto simp: findDecisionRevocation_def normalizeReleaseLifecycleText_def trimmed_def
        find_revocation_None)
  have inactive: "inactiveReleaseTokenIntrospection now reason (ini_currentDate input) rsid =
      Inr (Inactive (introspection_base_of t rsid) reason)" for reason rsid
    using assms(2) by (simp add: inactiveReleaseTokenIntrospection_def)
  show ?thesis
  proof (cases "supported_hint (ini_tokenTypeHint input)")
    case False
    then show ?thesis
      unfolding introspectReleaseToken_def hint_supported by (simp add: inactive Let_def)
  next
    case hint: True
    show ?thesis
    proof (cases "verifyIssuedReleaseToken jose (introspection_request input)")
      case (Inl e)
      then show ?thesis
        unfolding introspectReleaseToken_def hint_supported introspection_request_def [symmetric]
        using hint by (cases e) (auto simp: inactive Let_def sync split: token_verification_failure_code.split)
    next
      case (Inr v)
      note simps = introspectReleaseToken_def hint_supported introspection_request_def [symmetric]
      show ?thesis
      proof (cases "findToken s (clm_jti (tvr_claims v))")
        case None
        then show ?thesis
          unfolding simps using hint Inr by (simp add: inactive Let_def sync ex'(3) live_record_def)
      next
        case (Some r)
        have find: "findToken s1 (clm_jti (tvr_claims v)) = Some (expire_record t r)"
          using Some by (simp add: ex'(3))
        have "rrt_decisionId (expire_record t r) = clm_decision_id (tvr_claims v)"
          if "registeredReleaseTokenMatchesClaims r (tvr_claims v)"
          using that expire_record_replaces(1) by (simp add: registeredReleaseTokenMatchesClaims_def replaces_def)
        then show ?thesis
          unfolding simps using hint Inr Some find revocation [OF find] assms(2,3)
          by (auto simp: inactive Let_def sync live_record_def expire_record_match
              simp del: rbind_eq_Inr)
      qed
    qed
  qed
qed

text \<open>
Against every reachable registry and at every valid instant introspection returns an
  answer, and it is active exactly when the type hint is supported, the token verifies, and
  the registry holds a record that matches the verified claims, is still issued and has not
  expired at that instant (for decision identifiers without surrounding white space).\<close>

theorem introspection_exact:
  assumes "reaches trace s" and "introspectionTimestamp now (ini_currentDate input) = Inr t"
    and "\<And>v. verifyIssuedReleaseToken jose (introspection_request input) = Inr v \<Longrightarrow>
      trimmed (clm_decision_id (tvr_claims v))"
  shows "\<exists>b. fst (introspectReleaseToken jose now input s) = Inr b \<and>
    ((\<exists>base a. b = Active base a) \<longleftrightarrow> supported_hint (ini_tokenTypeHint input) \<and>
      (\<exists>v. verifyIssuedReleaseToken jose (introspection_request input) = Inr v \<and> live_record s t (tvr_claims v)))"
  using reachable_inv [OF assms(1)] assms(2,3) by (rule introspect_active_iff)

section \<open>From issuance to introspection\<close>

text \<open>The provenance strings of a decision, absent or non-empty as the decision engine sets them.\<close>

definition plain_provenance :: "release_decision \<Rightarrow> bool" where
  "plain_provenance d \<longleftrightarrow>
     (case dec_policyProvenance d of
        None \<Rightarrow> True
      | Some p \<Rightarrow> prov_compiledPolicyIrHash p \<noteq> Some [] \<and> prov_compiledPolicyIndexVersion p \<noteq> Some [] \<and>
          prov_compiledPolicyIrVersion p \<noteq> Some [])"

lemma truthy_str_id: "x \<noteq> Some [] \<Longrightarrow> truthy_str x = x"
  by (cases x) auto

lemma nullish_opt_self [simp]: "nullish_opt x x = x"
  by (cases x) auto

lemma provenance_strings:
  assumes "plain_provenance d"
  shows "truthy_str (Option.bind (dec_policyProvenance d) prov_compiledPolicyIrHash) =
      Option.bind (dec_policyProvenance d) prov_compiledPolicyIrHash"
    and "truthy_str (Option.bind (dec_policyProvenance d) prov_compiledPolicyIndexVersion) =
      Option.bind (dec_policyProvenance d) prov_compiledPolicyIndexVersion"
    and "truthy_str (Option.bind (dec_policyProvenance d) prov_compiledPolicyIrVersion) =
      Option.bind (dec_policyProvenance d) prov_compiledPolicyIrVersion"
  using assms by (cases "dec_policyProvenance d"; simp add: plain_provenance_def truthy_str_id)+

lemma registered_record_fields:
  assumes "buildRegisteredReleaseToken \<lparr> rti_issuedToken = t, rti_decision = d \<rparr> = Inr r"
  shows "rrt_issuer r = clm_iss (irt_claims t)" "rrt_subject r = clm_sub (irt_claims t)"
    "rrt_audience r = clm_aud (irt_claims t)" "rrt_tenantId r = clm_tenant_id (irt_claims t)"
    "rrt_expiresAt r = irt_expiresAt t"
    "rrt_decisionStatus r = dec_status d" "rrt_consequenceType r = dec_consequenceType d"
    "rrt_riskClass r = dec_riskClass d" "rrt_outputHash r = dec_outputHash d"
    "rrt_consequenceHash r = dec_consequenceHash d" "rrt_policyHash r = dec_policyHash d"
    "rrt_policyVersion r = Some (nullish (clm_policy_version (irt_claims t)) (dec_policyVersion d))"
    "rrt_policyIrHash r = nullish_opt (clm_policy_ir_hash (irt_claims t))
      (Option.bind (dec_policyProvenance d) prov_compiledPolicyIrHash)"
    "rrt_policyProvenanceSource r = nullish_opt (clm_policy_provenance_source (irt_claims t))
      (map_option prov_source (dec_policyProvenance d))"
    "rrt_compiledPolicyIndexVersion r = nullish_opt (clm_compiled_policy_index_version (irt_claims t))
      (Option.bind (dec_policyProvenance d) prov_compiledPolicyIndexVersion)"
    "rrt_compiledPolicyIrVersion r = nullish_opt (clm_compiled_policy_ir_version (irt_claims t))
      (Option.bind (dec_policyProvenance d) prov_compiledPolicyIrVersion)"
    "rrt_override r = (dec_override d \<noteq> None \<or> dec_status d = Overridden)"
    "rrt_introspectionRequired r = clm_introspection_required (irt_claims t)"
    "rrt_authorityMode r = ra_mode (dec_reviewAuthority d)"
  using assms by (auto simp: buildRegisteredReleaseToken_def Let_def)

lemma registered_claims_match:
  assumes "claims_of_decision d (irt_claims t)" and "clm_jti (irt_claims t) = irt_tokenId t"
    and "plain_provenance d"
    and "buildRegisteredReleaseToken \<lparr> rti_issuedToken = t, rti_decision = d \<rparr> = Inr r"
  shows "registeredReleaseTokenMatchesClaims r (irt_claims t)"
  unfolding registeredReleaseTokenMatchesClaims_def registered_record_fields [OF assms(4)]
    registered_record_fresh(4,5) [OF assms(4)]
  using assms(1,2) unfolding claims_of_decision_def provenance_strings [OF assms(3)] by simp

definition introspection_of ::
  "string \<Rightarrow> release_token_verification_key \<Rightarrow> string \<Rightarrow> timestamp \<Rightarrow> introspection_input" where
  "introspection_of token key audience date =
     \<lparr> ini_token = token, ini_verificationKey = key, ini_audience = Some audience,
       ini_currentDate = Some (Iso date), ini_tokenTypeHint = None, ini_resourceServerId = None \<rparr>"

lemma introspection_of_request:
  "introspection_request (introspection_of token key audience date) = verify_request token key audience None date"
  by (simp add: introspection_request_def introspection_of_def verify_request_def)

text \<open>
  C19: From issuance to enforcement. A token issued for a decision and registered in a store
  that does not know it yet introspects as active, under the issuer's exported key, exactly
  from the second it was issued in until it expires.\<close>

theorem registered_token_introspects:
  assumes "reaches trace s" and "issue jose now uuid I i = Inr t" and "exportVerificationKey jose I = Inr key"
    and "jose_importSPKI jose (rvk_publicKeyPem key) (signing_algorithm_str (rvk_algorithm key)) = Inr pub"
    and "signature_checks jose pub (irt_token t) (issued_header t) (irt_claims t)"
    and "plain_provenance (tii_decision i)" and "trimmed (dec_id (tii_decision i))"
    and "findToken s (irt_tokenId t) = None"
    and "registerIssuedToken \<lparr> rti_issuedToken = t, rti_decision = tii_decision i \<rparr> s = Inr (r, s')"
  shows "\<exists>b. fst (introspectReleaseToken jose now'
      (introspection_of (irt_token t) key (clm_aud (irt_claims t)) date) s') = Inr b \<and>
    ((\<exists>base a. b = Active base a) \<longleftrightarrow> irt_issuedAt t \<le> date \<and> date < irt_expiresAt t)"
proof -
  let ?reg = "\<lparr> rti_issuedToken = t, rti_decision = tii_decision i \<rparr>"
  let ?in = "introspection_of (irt_token t) key (clm_aud (irt_claims t)) date"
  let ?verify = "verifyIssuedReleaseToken jose (introspection_request ?in)"
  have claims: "claims_of_decision (tii_decision i) (irt_claims t)" "clm_jti (irt_claims t) = irt_tokenId t"
    by (rule issue_facts [OF assms(2)], simp)+
  from assms(9) obtain n where n: "buildRegisteredReleaseToken ?reg = Inr n"
    and ins: "insertRegisteredReleaseToken n s = Inr (r, s')"
    by (auto simp: registerIssuedToken_def)
  note fresh = registered_record_fresh [OF n] and match = registered_claims_match [OF claims assms(6) n]
  have "find_by rrt_tokenId (rrt_tokenId n) (sto_records s) = None"
    using assms(8) fresh(5) by (simp add: findToken_def)
  with ins have s': "s' = s\<lparr> sto_records := sto_records s @ [n] \<rparr>"
    by (auto simp: insertRegisteredReleaseToken_def split: if_splits)
  have find: "findToken s' (irt_tokenId t) = Some n"
    using assms(8) fresh(5) by (simp add: s' findToken_def find_by_append)
  have inv: "store_inv s'"
    using register_guarantees [OF reachable_inv [OF assms(1)] assms(9)] by (simp add: guarantees_def)
  have date: "introspectionTimestamp now' (ini_currentDate ?in) = Inr date"
    by (simp add: introspectionTimestamp_def introspection_of_def)
  have verified: "(case ?verify of Inr v \<Rightarrow> irt_issuedAt t \<le> date \<and> date < irt_expiresAt t \<and> tvr_claims v = irt_claims t
      | Inl e \<Rightarrow> \<not> (irt_issuedAt t \<le> date \<and> date < irt_expiresAt t))"
    using issued_token_cases [OF assms(2-5), where tenant = None and date = date]
    by (auto simp: introspection_of_request split: sum.splits js_error.splits
        token_verification_failure_code.splits)
  have id: "trimmed (clm_decision_id (tvr_claims v))" if "?verify = Inr v" for v
    using verified that assms(7) claims(1) by (simp add: claims_of_decision_def)
  have "live_record s' date (irt_claims t) \<longleftrightarrow> date < irt_expiresAt t"
    using match fresh(3) find claims(2) registered_record_fields(5) [OF n] by (simp add: live_record_def)
  moreover have "supported_hint (ini_tokenTypeHint ?in)"
    by (simp add: introspection_of_def supported_hint_def)
  moreover obtain b where "fst (introspectReleaseToken jose now' ?in s') = Inr b"
    "(\<exists>base a. b = Active base a) \<longleftrightarrow> supported_hint (ini_tokenTypeHint ?in) \<and>
      (\<exists>v. ?verify = Inr v \<and> live_record s' date (tvr_claims v))"
    using introspect_active_iff [OF inv date id] by blast
  ultimately show ?thesis
    using verified by (cases ?verify) auto
qed

section \<open>Witnesses\<close>

lemma sample_signature:
  "jose_importSPKI sample_jose (rvk_publicKeyPem sample_key)
     (signing_algorithm_str (rvk_algorithm sample_key)) = Inr ''pub''"
  "signature_checks sample_jose ''pub'' (irt_token sample_token) (issued_header sample_token)
     (irt_claims sample_token)"
  by (simp_all add: sample_jose_def sample_key_def signature_checks_def sample_token_def issued_header_def)

lemma sample_decision_id: "trimmed ''d1''"
  by (simp add: trimmed_def trim_def js_whitespace_def)

theorem registered_token_introspects_witness:
  "\<exists>base a. fst (introspectReleaseToken sample_jose 0
       (introspection_of ''jwt'' sample_key ''t'' 598999) sample_store) = Inr (Active base a)"
proof -
  have reg: "registerIssuedToken \<lparr> rti_issuedToken = sample_token, rti_decision = tii_decision sample_issue_input \<rparr>
      defaultReleaseTokenIntrospectionStoreFile = Inr (sample_record, sample_store)"
    using sample_build
    by (simp add: registerIssuedToken_def sample_registration_def sample_issue_input_def
        insertRegisteredReleaseToken_def defaultReleaseTokenIntrospectionStoreFile_def sample_store_def)
  have d: "plain_provenance (tii_decision sample_issue_input)" "trimmed (dec_id (tii_decision sample_issue_input))"
    using sample_decision_id by (simp_all add: plain_provenance_def sample_issue_input_def sample_decision_def)
  show ?thesis
    using registered_token_introspects [OF run_start sample_issued sample_exported sample_signature d
        default_store_empty reg, where now' = 0 and date = 598999]
    by (auto simp: sample_token_def sample_claims_def)
qed

theorem introspection_exact_witness:
  "\<exists>base reason. fst (introspectReleaseToken sample_jose 0
       (introspection_of ''jwt'' sample_key ''t'' 598999) spent_store) = Inr (Inactive base reason)"
proof -
  let ?in = "introspection_of ''jwt'' sample_key ''t'' 598999"
  have date: "introspectionTimestamp 0 (ini_currentDate ?in) = Inr 598999"
    by (simp add: introspectionTimestamp_def introspection_of_def)
  have claims: "tvr_claims v = sample_claims"
    if "verifyIssuedReleaseToken sample_jose (introspection_request ?in) = Inr v" for v
    using that issued_token_cases [OF sample_issued sample_exported sample_signature,
        where tenant = None and date = 598999]
    by (simp add: introspection_of_request sample_token_def sample_claims_def)
  have "\<not> live_record spent_store 598999 sample_claims"
    by (simp add: live_record_def sample_claims_def sample_find) (simp add: sample_spent_def)
  moreover have id: "trimmed (clm_decision_id (tvr_claims v))"
    if "verifyIssuedReleaseToken sample_jose (introspection_request ?in) = Inr v" for v
    using claims [OF that] sample_decision_id by (simp add: sample_claims_def)
  ultimately show ?thesis
    using introspection_exact [OF sample_used_run date id] claims by (metis introspection_result.exhaust)
qed

end
