(* ===== verification/Enforcement_Types.thy ===== *)
theory Enforcement_Types
  imports Release_Types Canonical_Json
begin

text \<open>
  The vocabulary of the release enforcement plane:
  src/release-enforcement-plane/types.ts.

  An enforcement point (a middleware, a webhook receiver, a gateway, a proxy, a verifier)
  guards a boundary (an HTTP request, a message, a write). Each closed list of the source is a
  datatype with its rendering and its list of values; the locale \<open>vocabulary\<close> states what the
  rest of the plane relies on: the list is complete and without repetitions, and values are
  determined by their names. Lists of reasons and modes are kept in the order of the
  vocabulary, so two of them are equal exactly when they have the same members.
\<close>

section \<open>The contract of a vocabulary\<close>

locale vocabulary =
  fixes entries :: "'a list"
    and name :: "'a \<Rightarrow> string"
  assumes complete: "x \<in> set entries"
    and distinct_names: "distinct (map name entries)"
begin

definition arrange :: "'a list \<Rightarrow> 'a list" where
  "arrange xs = filter (\<lambda>x. x \<in> set xs) entries"

lemma distinct_values: "distinct entries"
  using distinct_names by (simp add: distinct_map)

lemma name_inject: "name x = name y \<longleftrightarrow> x = y"
  using distinct_names complete by (auto simp: distinct_map inj_on_def)

lemma name_known: "s \<in> set (map name entries) \<longleftrightarrow> (\<exists>x. name x = s)"
  using complete by auto

lemma set_arrange: "set (arrange xs) = set xs"
  using complete by (auto simp: arrange_def)

lemma distinct_arrange: "distinct (arrange xs)"
  by (simp add: arrange_def distinct_values)

lemma arrange_eq_iff: "arrange xs = arrange ys \<longleftrightarrow> set xs = set ys"
proof
  assume "set xs = set ys"
  then show "arrange xs = arrange ys" by (simp add: arrange_def)
qed (metis set_arrange)

lemma arrange_idem: "arrange (arrange xs) = arrange xs"
  by (simp add: arrange_eq_iff set_arrange)

lemma arrange_Nil_iff: "arrange xs = [] \<longleftrightarrow> xs = []"
  by (metis set_arrange set_empty)

end

section \<open>Vocabularies\<close>

definition RELEASE_ENFORCEMENT_PLANE_SPEC_VERSION :: string where
  "RELEASE_ENFORCEMENT_PLANE_SPEC_VERSION = ''attestor.release-enforcement-plane.v1''"

datatype enforcement_point_kind =
    Application_middleware
  | Webhook_receiver
  | Async_consumer
  | Record_write_gateway
  | Communication_send_gateway
  | Action_dispatch_gateway
  | Proxy_ext_authz
  | Artifact_verifier

fun enforcement_point_kind_str :: "enforcement_point_kind \<Rightarrow> string" where
  "enforcement_point_kind_str Application_middleware = ''application-middleware''"
| "enforcement_point_kind_str Webhook_receiver = ''webhook-receiver''"
| "enforcement_point_kind_str Async_consumer = ''async-consumer''"
| "enforcement_point_kind_str Record_write_gateway = ''record-write-gateway''"
| "enforcement_point_kind_str Communication_send_gateway = ''communication-send-gateway''"
| "enforcement_point_kind_str Action_dispatch_gateway = ''action-dispatch-gateway''"
| "enforcement_point_kind_str Proxy_ext_authz = ''proxy-ext-authz''"
| "enforcement_point_kind_str Artifact_verifier = ''artifact-verifier''"

definition ENFORCEMENT_POINT_KINDS :: "enforcement_point_kind list" where
  "ENFORCEMENT_POINT_KINDS =
     [Application_middleware, Webhook_receiver, Async_consumer, Record_write_gateway,
      Communication_send_gateway, Action_dispatch_gateway, Proxy_ext_authz, Artifact_verifier]"

datatype enforcement_boundary_kind =
    Http_request
  | Webhook
  | Async_message
  | Record_write
  | Communication_send
  | Action_dispatch
  | Proxy_admission
  | Artifact_export

fun enforcement_boundary_kind_str :: "enforcement_boundary_kind \<Rightarrow> string" where
  "enforcement_boundary_kind_str Http_request = ''http-request''"
| "enforcement_boundary_kind_str Webhook = ''webhook''"
| "enforcement_boundary_kind_str Async_message = ''async-message''"
| "enforcement_boundary_kind_str Record_write = ''record-write''"
| "enforcement_boundary_kind_str Communication_send = ''communication-send''"
| "enforcement_boundary_kind_str Action_dispatch = ''action-dispatch''"
| "enforcement_boundary_kind_str Proxy_admission = ''proxy-admission''"
| "enforcement_boundary_kind_str Artifact_export = ''artifact-export''"

definition ENFORCEMENT_BOUNDARY_KINDS :: "enforcement_boundary_kind list" where
  "ENFORCEMENT_BOUNDARY_KINDS =
     [Http_request, Webhook, Async_message, Record_write, Communication_send, Action_dispatch,
      Proxy_admission, Artifact_export]"

datatype enforcement_verification_mode =
  Offline_signature | Online_introspection | Hybrid_required | Shadow_observe

fun enforcement_verification_mode_str :: "enforcement_verification_mode \<Rightarrow> string" where
  "enforcement_verification_mode_str Offline_signature = ''offline-signature''"
| "enforcement_verification_mode_str Online_introspection = ''online-introspection''"
| "enforcement_verification_mode_str Hybrid_required = ''hybrid-required''"
| "enforcement_verification_mode_str Shadow_observe = ''shadow-observe''"

definition ENFORCEMENT_VERIFICATION_MODES :: "enforcement_verification_mode list" where
  "ENFORCEMENT_VERIFICATION_MODES =
     [Offline_signature, Online_introspection, Hybrid_required, Shadow_observe]"

datatype release_presentation_mode =
    Bearer_release_token
  | Dpop_bound_token
  | Mtls_bound_token
  | Spiffe_bound_token
  | Http_message_signature
  | Signed_json_envelope

fun release_presentation_mode_str :: "release_presentation_mode \<Rightarrow> string" where
  "release_presentation_mode_str Bearer_release_token = ''bearer-release-token''"
| "release_presentation_mode_str Dpop_bound_token = ''dpop-bound-token''"
| "release_presentation_mode_str Mtls_bound_token = ''mtls-bound-token''"
| "release_presentation_mode_str Spiffe_bound_token = ''spiffe-bound-token''"
| "release_presentation_mode_str Http_message_signature = ''http-message-signature''"
| "release_presentation_mode_str Signed_json_envelope = ''signed-json-envelope''"

definition RELEASE_PRESENTATION_MODES :: "release_presentation_mode list" where
  "RELEASE_PRESENTATION_MODES =
     [Bearer_release_token, Dpop_bound_token, Mtls_bound_token, Spiffe_bound_token,
      Http_message_signature, Signed_json_envelope]"

datatype enforcement_cache_state =
  Cache_fresh | Cache_stale_allowed | Cache_stale_denied | Cache_miss | Cache_negative_hit

fun enforcement_cache_state_str :: "enforcement_cache_state \<Rightarrow> string" where
  "enforcement_cache_state_str Cache_fresh = ''fresh''"
| "enforcement_cache_state_str Cache_stale_allowed = ''stale-allowed''"
| "enforcement_cache_state_str Cache_stale_denied = ''stale-denied''"
| "enforcement_cache_state_str Cache_miss = ''miss''"
| "enforcement_cache_state_str Cache_negative_hit = ''negative-hit''"

definition ENFORCEMENT_CACHE_STATES :: "enforcement_cache_state list" where
  "ENFORCEMENT_CACHE_STATES =
     [Cache_fresh, Cache_stale_allowed, Cache_stale_denied, Cache_miss, Cache_negative_hit]"

datatype enforcement_degraded_state =
  Deg_normal | Deg_cache_only | Deg_introspection_unavailable | Deg_fail_closed | Deg_break_glass_open

fun enforcement_degraded_state_str :: "enforcement_degraded_state \<Rightarrow> string" where
  "enforcement_degraded_state_str Deg_normal = ''normal''"
| "enforcement_degraded_state_str Deg_cache_only = ''cache-only''"
| "enforcement_degraded_state_str Deg_introspection_unavailable = ''introspection-unavailable''"
| "enforcement_degraded_state_str Deg_fail_closed = ''fail-closed''"
| "enforcement_degraded_state_str Deg_break_glass_open = ''break-glass-open''"

definition ENFORCEMENT_DEGRADED_STATES :: "enforcement_degraded_state list" where
  "ENFORCEMENT_DEGRADED_STATES =
     [Deg_normal, Deg_cache_only, Deg_introspection_unavailable, Deg_fail_closed, Deg_break_glass_open]"

datatype enforcement_break_glass_reason =
    Bg_incident_response
  | Bg_availability_restore
  | Bg_customer_approved_emergency
  | Bg_regulatory_deadline
  | Bg_control_plane_recovery

fun enforcement_break_glass_reason_str :: "enforcement_break_glass_reason \<Rightarrow> string" where
  "enforcement_break_glass_reason_str Bg_incident_response = ''incident-response''"
| "enforcement_break_glass_reason_str Bg_availability_restore = ''availability-restore''"
| "enforcement_break_glass_reason_str Bg_customer_approved_emergency = ''customer-approved-emergency''"
| "enforcement_break_glass_reason_str Bg_regulatory_deadline = ''regulatory-deadline''"
| "enforcement_break_glass_reason_str Bg_control_plane_recovery = ''control-plane-recovery''"

definition ENFORCEMENT_BREAK_GLASS_REASONS :: "enforcement_break_glass_reason list" where
  "ENFORCEMENT_BREAK_GLASS_REASONS =
     [Bg_incident_response, Bg_availability_restore, Bg_customer_approved_emergency,
      Bg_regulatory_deadline, Bg_control_plane_recovery]"

datatype enforcement_outcome =
  Out_allow | Out_deny | Out_shadow_allow | Out_needs_introspection | Out_break_glass_allow

fun enforcement_outcome_str :: "enforcement_outcome \<Rightarrow> string" where
  "enforcement_outcome_str Out_allow = ''allow''"
| "enforcement_outcome_str Out_deny = ''deny''"
| "enforcement_outcome_str Out_shadow_allow = ''shadow-allow''"
| "enforcement_outcome_str Out_needs_introspection = ''needs-introspection''"
| "enforcement_outcome_str Out_break_glass_allow = ''break-glass-allow''"

definition ENFORCEMENT_OUTCOMES :: "enforcement_outcome list" where
  "ENFORCEMENT_OUTCOMES =
     [Out_allow, Out_deny, Out_shadow_allow, Out_needs_introspection, Out_break_glass_allow]"

datatype enforcement_failure_reason =
    Fr_missing_release_authorization
  | Fr_invalid_signature
  | Fr_expired_authorization
  | Fr_not_yet_valid_authorization
  | Fr_future_issued_at
  | Fr_stale_authorization
  | Fr_revoked_authorization
  | Fr_unknown_authorization
  | Fr_replayed_authorization
  | Fr_missing_replay_proof
  | Fr_missing_workload_proof
  | Fr_negative_cache_hit
  | Fr_fresh_introspection_required
  | Fr_unsupported_token_type
  | Fr_introspection_claim_mismatch
  | Fr_missing_nonce
  | Fr_invalid_nonce
  | Fr_wrong_audience
  | Fr_wrong_consequence
  | Fr_binding_mismatch
  | Fr_stale_policy
  | Fr_introspection_unavailable
  | Fr_policy_frozen
  | Fr_break_glass_required

fun enforcement_failure_reason_str :: "enforcement_failure_reason \<Rightarrow> string" where
  "enforcement_failure_reason_str Fr_missing_release_authorization = ''missing-release-authorization''"
| "enforcement_failure_reason_str Fr_invalid_signature = ''invalid-signature''"
| "enforcement_failure_reason_str Fr_expired_authorization = ''expired-authorization''"
| "enforcement_failure_reason_str Fr_not_yet_valid_authorization = ''not-yet-valid-authorization''"
| "enforcement_failure_reason_str Fr_future_issued_at = ''future-issued-at''"
| "enforcement_failure_reason_str Fr_stale_authorization = ''stale-authorization''"
| "enforcement_failure_reason_str Fr_revoked_authorization = ''revoked-authorization''"
| "enforcement_failure_reason_str Fr_unknown_authorization = ''unknown-authorization''"
| "enforcement_failure_reason_str Fr_replayed_authorization = ''replayed-authorization''"
| "enforcement_failure_reason_str Fr_missing_replay_proof = ''missing-replay-proof''"
| "enforcement_failure_reason_str Fr_missing_workload_proof = ''missing-workload-proof''"
| "enforcement_failure_reason_str Fr_negative_cache_hit = ''negative-cache-hit''"
| "enforcement_failure_reason_str Fr_fresh_introspection_required = ''fresh-introspection-required''"
| "enforcement_failure_reason_str Fr_unsupported_token_type = ''unsupported-token-type''"
| "enforcement_failure_reason_str Fr_introspection_claim_mismatch = ''introspection-claim-mismatch''"
| "enforcement_failure_reason_str Fr_missing_nonce = ''missing-nonce''"
| "enforcement_failure_reason_str Fr_invalid_nonce = ''invalid-nonce''"
| "enforcement_failure_reason_str Fr_wrong_audience = ''wrong-audience''"
| "enforcement_failure_reason_str Fr_wrong_consequence = ''wrong-consequence''"
| "enforcement_failure_reason_str Fr_binding_mismatch = ''binding-mismatch''"
| "enforcement_failure_reason_str Fr_stale_policy = ''stale-policy''"
| "enforcement_failure_reason_str Fr_introspection_unavailable = ''introspection-unavailable''"
| "enforcement_failure_reason_str Fr_policy_frozen = ''policy-frozen''"
| "enforcement_failure_reason_str Fr_break_glass_required = ''break-glass-required''"

definition ENFORCEMENT_FAILURE_REASONS :: "enforcement_failure_reason list" where
  "ENFORCEMENT_FAILURE_REASONS =
     [Fr_missing_release_authorization, Fr_invalid_signature, Fr_expired_authorization,
      Fr_not_yet_valid_authorization, Fr_future_issued_at, Fr_stale_authorization,
      Fr_revoked_authorization, Fr_unknown_authorization, Fr_replayed_authorization,
      Fr_missing_replay_proof, Fr_missing_workload_proof, Fr_negative_cache_hit,
      Fr_fresh_introspection_required, Fr_unsupported_token_type, Fr_introspection_claim_mismatch,
      Fr_missing_nonce, Fr_invalid_nonce, Fr_wrong_audience, Fr_wrong_consequence,
      Fr_binding_mismatch, Fr_stale_policy, Fr_introspection_unavailable, Fr_policy_frozen,
      Fr_break_glass_required]"

text \<open>Every list of failure reasons the plane returns passes through this function.\<close>

definition uniqueFailureReasons :: "enforcement_failure_reason list \<Rightarrow> enforcement_failure_reason list" where
  "uniqueFailureReasons reasons = filter (\<lambda>reason. reason \<in> set reasons) ENFORCEMENT_FAILURE_REASONS"

section \<open>Profiles of points and boundaries\<close>

datatype enforcement_default_posture = Allow_on_valid | Shadow_only | Posture_fail_closed

record enforcement_point_profile =
  epp_kind :: enforcement_point_kind
  epp_label :: string
  epp_supportedBoundaryKinds :: "enforcement_boundary_kind list"
  epp_defaultVerificationModes :: "enforcement_verification_mode list"
  epp_defaultPresentationModes :: "release_presentation_mode list"
  epp_defaultPosture :: enforcement_default_posture

record enforcement_boundary_profile =
  ebp_kind :: enforcement_boundary_kind
  ebp_label :: string
  ebp_defaultConsequenceType :: consequence_type
  ebp_defaultVerificationModes :: "enforcement_verification_mode list"
  ebp_supportedPointKinds :: "enforcement_point_kind list"

fun ENFORCEMENT_POINT_PROFILES :: "enforcement_point_kind \<Rightarrow> enforcement_point_profile" where
  "ENFORCEMENT_POINT_PROFILES Application_middleware =
     \<lparr> epp_kind = Application_middleware, epp_label = ''Application Middleware'',
       epp_supportedBoundaryKinds = [Http_request, Record_write, Communication_send, Action_dispatch],
       epp_defaultVerificationModes = [Offline_signature, Online_introspection],
       epp_defaultPresentationModes = [Bearer_release_token, Dpop_bound_token],
       epp_defaultPosture = Posture_fail_closed \<rparr>"
| "ENFORCEMENT_POINT_PROFILES Webhook_receiver =
     \<lparr> epp_kind = Webhook_receiver, epp_label = ''Webhook Receiver'',
       epp_supportedBoundaryKinds = [Webhook],
       epp_defaultVerificationModes = [Hybrid_required],
       epp_defaultPresentationModes = [Http_message_signature, Bearer_release_token],
       epp_defaultPosture = Posture_fail_closed \<rparr>"
| "ENFORCEMENT_POINT_PROFILES Async_consumer =
     \<lparr> epp_kind = Async_consumer, epp_label = ''Async Consumer'',
       epp_supportedBoundaryKinds = [Async_message],
       epp_defaultVerificationModes = [Offline_signature, Online_introspection],
       epp_defaultPresentationModes = [Signed_json_envelope],
       epp_defaultPosture = Posture_fail_closed \<rparr>"
| "ENFORCEMENT_POINT_PROFILES Record_write_gateway =
     \<lparr> epp_kind = Record_write_gateway, epp_label = ''Record Write Gateway'',
       epp_supportedBoundaryKinds = [Record_write],
       epp_defaultVerificationModes = [Hybrid_required],
       epp_defaultPresentationModes = [Bearer_release_token, Mtls_bound_token, Spiffe_bound_token],
       epp_defaultPosture = Posture_fail_closed \<rparr>"
| "ENFORCEMENT_POINT_PROFILES Communication_send_gateway =
     \<lparr> epp_kind = Communication_send_gateway, epp_label = ''Communication Send Gateway'',
       epp_supportedBoundaryKinds = [Communication_send],
       epp_defaultVerificationModes = [Hybrid_required],
       epp_defaultPresentationModes = [Bearer_release_token, Dpop_bound_token, Http_message_signature],
       epp_defaultPosture = Posture_fail_closed \<rparr>"
| "ENFORCEMENT_POINT_PROFILES Action_dispatch_gateway =
     \<lparr> epp_kind = Action_dispatch_gateway, epp_label = ''Action Dispatch Gateway'',
       epp_supportedBoundaryKinds = [Action_dispatch],
       epp_defaultVerificationModes = [Hybrid_required],
       epp_defaultPresentationModes = [Dpop_bound_token, Mtls_bound_token, Spiffe_bound_token],
       epp_defaultPosture = Posture_fail_closed \<rparr>"
| "ENFORCEMENT_POINT_PROFILES Proxy_ext_authz =
     \<lparr> epp_kind = Proxy_ext_authz, epp_label = ''Proxy External Authorization'',
       epp_supportedBoundaryKinds = [Proxy_admission, Http_request],
       epp_defaultVerificationModes = [Online_introspection, Hybrid_required],
       epp_defaultPresentationModes = [Bearer_release_token, Dpop_bound_token, Mtls_bound_token],
       epp_defaultPosture = Posture_fail_closed \<rparr>"
| "ENFORCEMENT_POINT_PROFILES Artifact_verifier =
     \<lparr> epp_kind = Artifact_verifier, epp_label = ''Artifact Verifier'',
       epp_supportedBoundaryKinds = [Artifact_export],
       epp_defaultVerificationModes = [Offline_signature],
       epp_defaultPresentationModes = [Signed_json_envelope],
       epp_defaultPosture = Allow_on_valid \<rparr>"

fun ENFORCEMENT_BOUNDARY_PROFILES :: "enforcement_boundary_kind \<Rightarrow> enforcement_boundary_profile" where
  "ENFORCEMENT_BOUNDARY_PROFILES Http_request =
     \<lparr> ebp_kind = Http_request, ebp_label = ''HTTP Request'',
       ebp_defaultConsequenceType = Decision_support,
       ebp_defaultVerificationModes = [Offline_signature],
       ebp_supportedPointKinds = [Application_middleware, Proxy_ext_authz] \<rparr>"
| "ENFORCEMENT_BOUNDARY_PROFILES Webhook =
     \<lparr> ebp_kind = Webhook, ebp_label = ''Webhook'',
       ebp_defaultConsequenceType = Action,
       ebp_defaultVerificationModes = [Hybrid_required],
       ebp_supportedPointKinds = [Webhook_receiver] \<rparr>"
| "ENFORCEMENT_BOUNDARY_PROFILES Async_message =
     \<lparr> ebp_kind = Async_message, ebp_label = ''Async Message'',
       ebp_defaultConsequenceType = Action,
       ebp_defaultVerificationModes = [Offline_signature, Online_introspection],
       ebp_supportedPointKinds = [Async_consumer] \<rparr>"
| "ENFORCEMENT_BOUNDARY_PROFILES Record_write =
     \<lparr> ebp_kind = Record_write, ebp_label = ''Record Write'',
       ebp_defaultConsequenceType = Record,
       ebp_defaultVerificationModes = [Hybrid_required],
       ebp_supportedPointKinds = [Application_middleware, Record_write_gateway] \<rparr>"
| "ENFORCEMENT_BOUNDARY_PROFILES Communication_send =
     \<lparr> ebp_kind = Communication_send, ebp_label = ''Communication Send'',
       ebp_defaultConsequenceType = Communication,
       ebp_defaultVerificationModes = [Hybrid_required],
       ebp_supportedPointKinds = [Application_middleware, Communication_send_gateway] \<rparr>"
| "ENFORCEMENT_BOUNDARY_PROFILES Action_dispatch =
     \<lparr> ebp_kind = Action_dispatch, ebp_label = ''Action Dispatch'',
       ebp_defaultConsequenceType = Action,
       ebp_defaultVerificationModes = [Hybrid_required],
       ebp_supportedPointKinds = [Application_middleware, Action_dispatch_gateway] \<rparr>"
| "ENFORCEMENT_BOUNDARY_PROFILES Proxy_admission =
     \<lparr> ebp_kind = Proxy_admission, ebp_label = ''Proxy Admission'',
       ebp_defaultConsequenceType = Decision_support,
       ebp_defaultVerificationModes = [Online_introspection, Hybrid_required],
       ebp_supportedPointKinds = [Proxy_ext_authz] \<rparr>"
| "ENFORCEMENT_BOUNDARY_PROFILES Artifact_export =
     \<lparr> ebp_kind = Artifact_export, ebp_label = ''Artifact Export'',
       ebp_defaultConsequenceType = Record,
       ebp_defaultVerificationModes = [Offline_signature],
       ebp_supportedPointKinds = [Artifact_verifier] \<rparr>"

section \<open>Enforcement points\<close>

record enforcement_point_reference =
  epr_environment :: string
  epr_enforcementPointId :: string
  epr_pointKind :: enforcement_point_kind
  epr_boundaryKind :: enforcement_boundary_kind
  epr_consequenceType :: consequence_type
  epr_riskClass :: risk_class
  epr_tenantId :: "string option"
  epr_accountId :: "string option"
  epr_workloadId :: "string option"
  epr_audience :: "string option"

definition plane_normalizeIdentifier :: "string \<Rightarrow> string \<Rightarrow> string result" where
  "plane_normalizeIdentifier value fieldName =
     (if trim value = [] then
        throw (Error (''Release enforcement-plane '' @ fieldName @ '' requires a non-empty value.''))
      else return (trim value))"

definition plane_normalizeOptionalIdentifier :: "string option \<Rightarrow> string \<Rightarrow> string option result" where
  "plane_normalizeOptionalIdentifier value fieldName =
     (case value of
        None \<Rightarrow> return None
      | Some v \<Rightarrow>
          if trim v = [] then
            throw (Error (''Release enforcement-plane '' @ fieldName @ '' cannot be blank when provided.''))
          else return (Some (trim v)))"

definition isEnforcementPointKind :: "string \<Rightarrow> bool" where
  "isEnforcementPointKind value \<longleftrightarrow> value \<in> set (map enforcement_point_kind_str ENFORCEMENT_POINT_KINDS)"

definition isEnforcementBoundaryKind :: "string \<Rightarrow> bool" where
  "isEnforcementBoundaryKind value \<longleftrightarrow>
     value \<in> set (map enforcement_boundary_kind_str ENFORCEMENT_BOUNDARY_KINDS)"

definition isEnforcementVerificationMode :: "string \<Rightarrow> bool" where
  "isEnforcementVerificationMode value \<longleftrightarrow>
     value \<in> set (map enforcement_verification_mode_str ENFORCEMENT_VERIFICATION_MODES)"

definition isReleasePresentationMode :: "string \<Rightarrow> bool" where
  "isReleasePresentationMode value \<longleftrightarrow>
     value \<in> set (map release_presentation_mode_str RELEASE_PRESENTATION_MODES)"

definition isEnforcementCacheState :: "string \<Rightarrow> bool" where
  "isEnforcementCacheState value \<longleftrightarrow>
     value \<in> set (map enforcement_cache_state_str ENFORCEMENT_CACHE_STATES)"

definition isEnforcementDegradedState :: "string \<Rightarrow> bool" where
  "isEnforcementDegradedState value \<longleftrightarrow>
     value \<in> set (map enforcement_degraded_state_str ENFORCEMENT_DEGRADED_STATES)"

definition isEnforcementBreakGlassReason :: "string \<Rightarrow> bool" where
  "isEnforcementBreakGlassReason value \<longleftrightarrow>
     value \<in> set (map enforcement_break_glass_reason_str ENFORCEMENT_BREAK_GLASS_REASONS)"

definition isEnforcementFailureReason :: "string \<Rightarrow> bool" where
  "isEnforcementFailureReason value \<longleftrightarrow>
     value \<in> set (map enforcement_failure_reason_str ENFORCEMENT_FAILURE_REASONS)"

definition enforcementPointSupportsBoundary ::
  "enforcement_point_kind \<Rightarrow> enforcement_boundary_kind \<Rightarrow> bool" where
  "enforcementPointSupportsBoundary pointKind boundaryKind \<longleftrightarrow>
     boundaryKind \<in> set (epp_supportedBoundaryKinds (ENFORCEMENT_POINT_PROFILES pointKind))"

text \<open>The input of the constructor has the fields of the reference, not yet normalized.\<close>

definition createEnforcementPointReference ::
  "enforcement_point_reference \<Rightarrow> enforcement_point_reference result" where
  "createEnforcementPointReference input =
     (if \<not> enforcementPointSupportsBoundary (epr_pointKind input) (epr_boundaryKind input) then
        throw (Error (''Release enforcement-plane point kind '' @ enforcement_point_kind_str (epr_pointKind input)
          @ '' does not support '' @ enforcement_boundary_kind_str (epr_boundaryKind input) @ '' boundaries.''))
      else if epr_accountId input \<noteq> None \<and> epr_tenantId input = None then
        throw (Error ''Release enforcement-plane account-scoped enforcement point also requires tenant scope.'')
      else
        rbind (plane_normalizeIdentifier (epr_environment input) ''environment'') (\<lambda>environment.
        rbind (plane_normalizeIdentifier (epr_enforcementPointId input) ''enforcementPointId'') (\<lambda>enforcementPointId.
        rbind (plane_normalizeOptionalIdentifier (epr_tenantId input) ''tenantId'') (\<lambda>tenantId.
        rbind (plane_normalizeOptionalIdentifier (epr_accountId input) ''accountId'') (\<lambda>accountId.
        rbind (plane_normalizeOptionalIdentifier (epr_workloadId input) ''workloadId'') (\<lambda>workloadId.
        rbind (plane_normalizeOptionalIdentifier (epr_audience input) ''audience'') (\<lambda>audience. return
          \<lparr> epr_environment = environment,
            epr_enforcementPointId = enforcementPointId,
            epr_pointKind = epr_pointKind input,
            epr_boundaryKind = epr_boundaryKind input,
            epr_consequenceType = epr_consequenceType input,
            epr_riskClass = epr_riskClass input,
            epr_tenantId = tenantId,
            epr_accountId = accountId,
            epr_workloadId = workloadId,
            epr_audience = audience \<rparr>)))))))"

definition enforcementPointReferenceLabel :: "enforcement_point_reference \<Rightarrow> string" where
  "enforcementPointReferenceLabel reference =
     (let optional = (\<lambda>prefix value. case truthy_str value of None \<Rightarrow> [] | Some v \<Rightarrow> [prefix @ v])
      in join_with '' / ''
        ([''env:'' @ epr_environment reference,
          ''point:'' @ epr_enforcementPointId reference,
          ''kind:'' @ enforcement_point_kind_str (epr_pointKind reference),
          ''boundary:'' @ enforcement_boundary_kind_str (epr_boundaryKind reference),
          ''consequence:'' @ consequence_type_str (epr_consequenceType reference),
          ''risk:'' @ risk_class_str (epr_riskClass reference)] @
         optional ''tenant:'' (epr_tenantId reference) @
         optional ''account:'' (epr_accountId reference) @
         optional ''workload:'' (epr_workloadId reference) @
         optional ''aud:'' (epr_audience reference)))"

section \<open>The vocabularies meet their contract\<close>

interpretation point_kinds: vocabulary ENFORCEMENT_POINT_KINDS enforcement_point_kind_str
proof
  show "x \<in> set ENFORCEMENT_POINT_KINDS" for x
    by (cases x) (simp_all add: ENFORCEMENT_POINT_KINDS_def)
qed (simp add: ENFORCEMENT_POINT_KINDS_def)

interpretation boundary_kinds: vocabulary ENFORCEMENT_BOUNDARY_KINDS enforcement_boundary_kind_str
proof
  show "x \<in> set ENFORCEMENT_BOUNDARY_KINDS" for x
    by (cases x) (simp_all add: ENFORCEMENT_BOUNDARY_KINDS_def)
qed (simp add: ENFORCEMENT_BOUNDARY_KINDS_def)

interpretation verification_modes: vocabulary ENFORCEMENT_VERIFICATION_MODES enforcement_verification_mode_str
proof
  show "x \<in> set ENFORCEMENT_VERIFICATION_MODES" for x
    by (cases x) (simp_all add: ENFORCEMENT_VERIFICATION_MODES_def)
qed (simp add: ENFORCEMENT_VERIFICATION_MODES_def)

interpretation presentation_modes: vocabulary RELEASE_PRESENTATION_MODES release_presentation_mode_str
proof
  show "x \<in> set RELEASE_PRESENTATION_MODES" for x
    by (cases x) (simp_all add: RELEASE_PRESENTATION_MODES_def)
qed (simp add: RELEASE_PRESENTATION_MODES_def)

interpretation cache_states: vocabulary ENFORCEMENT_CACHE_STATES enforcement_cache_state_str
proof
  show "x \<in> set ENFORCEMENT_CACHE_STATES" for x
    by (cases x) (simp_all add: ENFORCEMENT_CACHE_STATES_def)
qed (simp add: ENFORCEMENT_CACHE_STATES_def)

interpretation degraded_states: vocabulary ENFORCEMENT_DEGRADED_STATES enforcement_degraded_state_str
proof
  show "x \<in> set ENFORCEMENT_DEGRADED_STATES" for x
    by (cases x) (simp_all add: ENFORCEMENT_DEGRADED_STATES_def)
qed (simp add: ENFORCEMENT_DEGRADED_STATES_def)

interpretation break_glass_reasons: vocabulary ENFORCEMENT_BREAK_GLASS_REASONS enforcement_break_glass_reason_str
proof
  show "x \<in> set ENFORCEMENT_BREAK_GLASS_REASONS" for x
    by (cases x) (simp_all add: ENFORCEMENT_BREAK_GLASS_REASONS_def)
qed (simp add: ENFORCEMENT_BREAK_GLASS_REASONS_def)

interpretation outcomes: vocabulary ENFORCEMENT_OUTCOMES enforcement_outcome_str
proof
  show "x \<in> set ENFORCEMENT_OUTCOMES" for x
    by (cases x) (simp_all add: ENFORCEMENT_OUTCOMES_def)
qed (simp add: ENFORCEMENT_OUTCOMES_def)

interpretation failure_reasons: vocabulary ENFORCEMENT_FAILURE_REASONS enforcement_failure_reason_str
proof
  show "x \<in> set ENFORCEMENT_FAILURE_REASONS" for x
    by (cases x) (simp_all add: ENFORCEMENT_FAILURE_REASONS_def)
qed (simp add: ENFORCEMENT_FAILURE_REASONS_def)

text \<open>Reasons are kept in the order of the vocabulary, each at most once.\<close>

lemma uniqueFailureReasons_arrange: "uniqueFailureReasons = failure_reasons.arrange"
  by (simp add: fun_eq_iff uniqueFailureReasons_def failure_reasons.arrange_def)

lemma set_uniqueFailureReasons [simp]: "set (uniqueFailureReasons rs) = set rs"
  by (simp add: uniqueFailureReasons_arrange failure_reasons.set_arrange)

lemma uniqueFailureReasons_Nil_iff [simp]:
  "uniqueFailureReasons rs = [] \<longleftrightarrow> rs = []" "[] = uniqueFailureReasons rs \<longleftrightarrow> rs = []"
  using failure_reasons.arrange_Nil_iff [of rs] by (auto simp: uniqueFailureReasons_arrange)

section \<open>Points and boundaries agree\<close>

lemma point_boundary_tables:
  "enforcementPointSupportsBoundary p b \<longleftrightarrow> p \<in> set (ebp_supportedPointKinds (ENFORCEMENT_BOUNDARY_PROFILES b))"
  by (cases p; cases b) (simp_all add: enforcementPointSupportsBoundary_def)

definition clean_text :: "string \<Rightarrow> bool" where
  "clean_text s \<longleftrightarrow> s \<noteq> [] \<and> trim s = s"

lemma plane_normalizeIdentifier_clean:
  "plane_normalizeIdentifier value f = Inr v \<Longrightarrow> clean_text v"
  by (auto simp: plane_normalizeIdentifier_def clean_text_def split: if_splits)

lemma plane_normalizeOptionalIdentifier_clean:
  assumes "plane_normalizeOptionalIdentifier value f = Inr v"
  shows "pred_option clean_text v" and "v = None \<longleftrightarrow> value = None"
  using assms
  by (auto simp: plane_normalizeOptionalIdentifier_def clean_text_def split: option.splits if_splits)

text \<open>What every reference satisfies once it has been created.\<close>

definition reference_ok :: "enforcement_point_reference \<Rightarrow> bool" where
  "reference_ok r \<longleftrightarrow>
     epr_pointKind r \<in> set (ebp_supportedPointKinds (ENFORCEMENT_BOUNDARY_PROFILES (epr_boundaryKind r))) \<and>
     (epr_tenantId r = None \<longrightarrow> epr_accountId r = None) \<and>
     clean_text (epr_environment r) \<and> clean_text (epr_enforcementPointId r) \<and>
     pred_option clean_text (epr_tenantId r) \<and> pred_option clean_text (epr_accountId r) \<and>
     pred_option clean_text (epr_workloadId r) \<and> pred_option clean_text (epr_audience r)"

lemma created_reference_ok: "createEnforcementPointReference i = Inr r \<Longrightarrow> reference_ok r"
  unfolding createEnforcementPointReference_def point_boundary_tables
  by (auto simp: reference_ok_def plane_normalizeIdentifier_clean
      dest: plane_normalizeOptionalIdentifier_clean split: if_splits)

lemma normalize_fixed:
  "clean_text s \<Longrightarrow> plane_normalizeIdentifier s f = Inr s"
  "pred_option clean_text v \<Longrightarrow> plane_normalizeOptionalIdentifier v f = Inr v"
  by (auto simp: plane_normalizeIdentifier_def plane_normalizeOptionalIdentifier_def clean_text_def
      split: option.split)

lemma reference_fixed: "reference_ok r \<Longrightarrow> createEnforcementPointReference r = Inr r"
  unfolding createEnforcementPointReference_def point_boundary_tables reference_ok_def
  by (auto simp: normalize_fixed simp del: rbind_eq_Inr)

end
