(* ===== verification/Verification_Profiles.thy ===== *)
theory Verification_Profiles
  imports Enforcement_Types
begin

text \<open>
  The verification posture of an enforcement point:
  src/release-enforcement-plane/verification-profiles.ts.

  A profile is resolved from the consequence type, the risk class and the boundary: it merges
  the baseline of the risk class with the baseline of the boundary. The lemmas show that a
  profile exists exactly for the supported consequences, that merging never weakens either
  baseline (but for the sender constraint of exported artifacts), and that profiles never
  relax as the risk class grows.
\<close>

section \<open>Data\<close>

definition VERIFICATION_PROFILE_MATRIX_SPEC_VERSION :: string where
  "VERIFICATION_PROFILE_MATRIX_SPEC_VERSION = ''attestor.verification-profile-matrix.v1''"

datatype sender_constraint_requirement =
  Constraint_none | Constraint_recommended | Constraint_required | Constraint_not_applicable

datatype enforcement_override_posture = Override_not_allowed | Named_break_glass | Dual_break_glass

record verification_cache_budget =
  vcb_positiveTtlSeconds :: int
  vcb_negativeTtlSeconds :: int
  vcb_staleIfErrorSeconds :: int
  vcb_requireFreshOnlineCheck :: bool

record risk_verification_baseline =
  rvb_riskClass :: risk_class
  rvb_verificationModes :: "enforcement_verification_mode list"
  rvb_onlineIntrospectionRequired :: bool
  rvb_policyProvenanceRequired :: bool
  rvb_senderConstraint :: sender_constraint_requirement
  rvb_replayProtectionRequired :: bool
  rvb_cacheBudget :: verification_cache_budget
  rvb_overridePosture :: enforcement_override_posture
  rvb_failClosed :: bool

record boundary_verification_baseline =
  bvb_boundaryKind :: enforcement_boundary_kind
  bvb_supportedConsequenceTypes :: "consequence_type list"
  bvb_verificationModes :: "enforcement_verification_mode list"
  bvb_allowedPresentationModes :: "release_presentation_mode list"
  bvb_policyProvenanceRequired :: bool
  bvb_senderConstraint :: sender_constraint_requirement
  bvb_replayProtectionRequired :: bool
  bvb_cacheBudget :: verification_cache_budget
  bvb_failClosed :: bool

record verification_profile_resolution_input =
  vpi_consequenceType :: consequence_type
  vpi_riskClass :: risk_class
  vpi_boundaryKind :: enforcement_boundary_kind

record verification_profile =
  vpr_version :: string
  vpr_id :: string
  vpr_consequenceType :: consequence_type
  vpr_riskClass :: risk_class
  vpr_boundaryKind :: enforcement_boundary_kind
  vpr_verificationModes :: "enforcement_verification_mode list"
  vpr_onlineIntrospectionRequired :: bool
  vpr_allowedPresentationModes :: "release_presentation_mode list"
  vpr_senderConstrainedPresentationModes :: "release_presentation_mode list"
  vpr_policyProvenanceRequired :: bool
  vpr_senderConstraint :: sender_constraint_requirement
  vpr_replayProtectionRequired :: bool
  vpr_cacheBudget :: verification_cache_budget
  vpr_overridePosture :: enforcement_override_posture
  vpr_failClosed :: bool

definition SENDER_CONSTRAINED_PRESENTATION_MODES :: "release_presentation_mode list" where
  "SENDER_CONSTRAINED_PRESENTATION_MODES =
     [Dpop_bound_token, Mtls_bound_token, Spiffe_bound_token, Http_message_signature, Signed_json_envelope]"

abbreviation cache_budget :: "int \<Rightarrow> int \<Rightarrow> int \<Rightarrow> bool \<Rightarrow> verification_cache_budget" where
  "cache_budget pos neg stale online \<equiv>
     \<lparr> vcb_positiveTtlSeconds = pos, vcb_negativeTtlSeconds = neg, vcb_staleIfErrorSeconds = stale,
       vcb_requireFreshOnlineCheck = online \<rparr>"

fun RISK_VERIFICATION_BASELINES :: "risk_class \<Rightarrow> risk_verification_baseline" where
  "RISK_VERIFICATION_BASELINES R0 =
     \<lparr> rvb_riskClass = R0,
       rvb_verificationModes = [Shadow_observe],
       rvb_onlineIntrospectionRequired = False,
       rvb_policyProvenanceRequired = False,
       rvb_senderConstraint = Constraint_none,
       rvb_replayProtectionRequired = False,
       rvb_cacheBudget = cache_budget 300 60 300 False,
       rvb_overridePosture = Override_not_allowed,
       rvb_failClosed = False \<rparr>"
| "RISK_VERIFICATION_BASELINES R1 =
     \<lparr> rvb_riskClass = R1,
       rvb_verificationModes = [Offline_signature],
       rvb_onlineIntrospectionRequired = False,
       rvb_policyProvenanceRequired = False,
       rvb_senderConstraint = Constraint_none,
       rvb_replayProtectionRequired = True,
       rvb_cacheBudget = cache_budget 120 30 60 False,
       rvb_overridePosture = Override_not_allowed,
       rvb_failClosed = True \<rparr>"
| "RISK_VERIFICATION_BASELINES R2 =
     \<lparr> rvb_riskClass = R2,
       rvb_verificationModes = [Offline_signature, Online_introspection],
       rvb_onlineIntrospectionRequired = True,
       rvb_policyProvenanceRequired = False,
       rvb_senderConstraint = Constraint_recommended,
       rvb_replayProtectionRequired = True,
       rvb_cacheBudget = cache_budget 60 15 30 False,
       rvb_overridePosture = Named_break_glass,
       rvb_failClosed = True \<rparr>"
| "RISK_VERIFICATION_BASELINES R3 =
     \<lparr> rvb_riskClass = R3,
       rvb_verificationModes = [Hybrid_required],
       rvb_onlineIntrospectionRequired = True,
       rvb_policyProvenanceRequired = True,
       rvb_senderConstraint = Constraint_required,
       rvb_replayProtectionRequired = True,
       rvb_cacheBudget = cache_budget 15 5 0 True,
       rvb_overridePosture = Named_break_glass,
       rvb_failClosed = True \<rparr>"
| "RISK_VERIFICATION_BASELINES R4 =
     \<lparr> rvb_riskClass = R4,
       rvb_verificationModes = [Hybrid_required],
       rvb_onlineIntrospectionRequired = True,
       rvb_policyProvenanceRequired = True,
       rvb_senderConstraint = Constraint_required,
       rvb_replayProtectionRequired = True,
       rvb_cacheBudget = cache_budget 0 0 0 True,
       rvb_overridePosture = Dual_break_glass,
       rvb_failClosed = True \<rparr>"

fun BOUNDARY_VERIFICATION_BASELINES :: "enforcement_boundary_kind \<Rightarrow> boundary_verification_baseline" where
  "BOUNDARY_VERIFICATION_BASELINES Http_request =
     \<lparr> bvb_boundaryKind = Http_request,
       bvb_supportedConsequenceTypes = [Communication, Record, Action, Decision_support],
       bvb_verificationModes = [Offline_signature],
       bvb_allowedPresentationModes = [Bearer_release_token, Dpop_bound_token, Http_message_signature],
       bvb_policyProvenanceRequired = False,
       bvb_senderConstraint = Constraint_recommended,
       bvb_replayProtectionRequired = True,
       bvb_cacheBudget = cache_budget 60 15 30 False,
       bvb_failClosed = True \<rparr>"
| "BOUNDARY_VERIFICATION_BASELINES Webhook =
     \<lparr> bvb_boundaryKind = Webhook,
       bvb_supportedConsequenceTypes = [Communication, Record, Action],
       bvb_verificationModes = [Hybrid_required],
       bvb_allowedPresentationModes = [Bearer_release_token, Dpop_bound_token, Http_message_signature],
       bvb_policyProvenanceRequired = True,
       bvb_senderConstraint = Constraint_required,
       bvb_replayProtectionRequired = True,
       bvb_cacheBudget = cache_budget 15 5 0 True,
       bvb_failClosed = True \<rparr>"
| "BOUNDARY_VERIFICATION_BASELINES Async_message =
     \<lparr> bvb_boundaryKind = Async_message,
       bvb_supportedConsequenceTypes = [Communication, Record, Action],
       bvb_verificationModes = [Offline_signature, Online_introspection],
       bvb_allowedPresentationModes = [Signed_json_envelope, Spiffe_bound_token, Mtls_bound_token],
       bvb_policyProvenanceRequired = True,
       bvb_senderConstraint = Constraint_recommended,
       bvb_replayProtectionRequired = True,
       bvb_cacheBudget = cache_budget 60 15 30 False,
       bvb_failClosed = True \<rparr>"
| "BOUNDARY_VERIFICATION_BASELINES Record_write =
     \<lparr> bvb_boundaryKind = Record_write,
       bvb_supportedConsequenceTypes = [Record],
       bvb_verificationModes = [Hybrid_required],
       bvb_allowedPresentationModes =
         [Bearer_release_token, Dpop_bound_token, Mtls_bound_token, Spiffe_bound_token],
       bvb_policyProvenanceRequired = True,
       bvb_senderConstraint = Constraint_required,
       bvb_replayProtectionRequired = True,
       bvb_cacheBudget = cache_budget 15 5 0 True,
       bvb_failClosed = True \<rparr>"
| "BOUNDARY_VERIFICATION_BASELINES Communication_send =
     \<lparr> bvb_boundaryKind = Communication_send,
       bvb_supportedConsequenceTypes = [Communication],
       bvb_verificationModes = [Hybrid_required],
       bvb_allowedPresentationModes = [Bearer_release_token, Dpop_bound_token, Http_message_signature],
       bvb_policyProvenanceRequired = True,
       bvb_senderConstraint = Constraint_required,
       bvb_replayProtectionRequired = True,
       bvb_cacheBudget = cache_budget 15 5 0 True,
       bvb_failClosed = True \<rparr>"
| "BOUNDARY_VERIFICATION_BASELINES Action_dispatch =
     \<lparr> bvb_boundaryKind = Action_dispatch,
       bvb_supportedConsequenceTypes = [Action],
       bvb_verificationModes = [Hybrid_required],
       bvb_allowedPresentationModes = [Dpop_bound_token, Mtls_bound_token, Spiffe_bound_token],
       bvb_policyProvenanceRequired = True,
       bvb_senderConstraint = Constraint_required,
       bvb_replayProtectionRequired = True,
       bvb_cacheBudget = cache_budget 0 0 0 True,
       bvb_failClosed = True \<rparr>"
| "BOUNDARY_VERIFICATION_BASELINES Proxy_admission =
     \<lparr> bvb_boundaryKind = Proxy_admission,
       bvb_supportedConsequenceTypes = [Communication, Record, Action, Decision_support],
       bvb_verificationModes = [Online_introspection, Hybrid_required],
       bvb_allowedPresentationModes =
         [Bearer_release_token, Dpop_bound_token, Mtls_bound_token, Spiffe_bound_token],
       bvb_policyProvenanceRequired = True,
       bvb_senderConstraint = Constraint_recommended,
       bvb_replayProtectionRequired = True,
       bvb_cacheBudget = cache_budget 10 5 0 True,
       bvb_failClosed = True \<rparr>"
| "BOUNDARY_VERIFICATION_BASELINES Artifact_export =
     \<lparr> bvb_boundaryKind = Artifact_export,
       bvb_supportedConsequenceTypes = [Record, Decision_support],
       bvb_verificationModes = [Offline_signature],
       bvb_allowedPresentationModes = [Signed_json_envelope, Http_message_signature],
       bvb_policyProvenanceRequired = False,
       bvb_senderConstraint = Constraint_not_applicable,
       bvb_replayProtectionRequired = False,
       bvb_cacheBudget = cache_budget 300 60 300 False,
       bvb_failClosed = False \<rparr>"

section \<open>Resolution\<close>

fun SENDER_CONSTRAINT_ORDER :: "sender_constraint_requirement \<Rightarrow> int" where
  "SENDER_CONSTRAINT_ORDER Constraint_not_applicable = - 1"
| "SENDER_CONSTRAINT_ORDER Constraint_none = 0"
| "SENDER_CONSTRAINT_ORDER Constraint_recommended = 1"
| "SENDER_CONSTRAINT_ORDER Constraint_required = 2"

definition sortedVerificationModes ::
  "enforcement_verification_mode list \<Rightarrow> enforcement_verification_mode list" where
  "sortedVerificationModes modes = filter (\<lambda>mode. mode \<in> set modes) ENFORCEMENT_VERIFICATION_MODES"

definition sortedPresentationModes :: "release_presentation_mode list \<Rightarrow> release_presentation_mode list" where
  "sortedPresentationModes modes = filter (\<lambda>mode. mode \<in> set modes) RELEASE_PRESENTATION_MODES"

definition mergeVerificationModes ::
  "enforcement_verification_mode list \<Rightarrow> enforcement_verification_mode list \<Rightarrow>
   enforcement_verification_mode list" where
  "mergeVerificationModes left right =
     (if Hybrid_required \<in> set (left @ right) then [Hybrid_required]
      else sortedVerificationModes (left @ right))"

definition senderConstraintMode ::
  "sender_constraint_requirement \<Rightarrow> sender_constraint_requirement \<Rightarrow> sender_constraint_requirement" where
  "senderConstraintMode risk boundary =
     (if boundary = Constraint_not_applicable then Constraint_not_applicable
      else if SENDER_CONSTRAINT_ORDER boundary \<le> SENDER_CONSTRAINT_ORDER risk then risk
      else boundary)"

definition senderConstrainedModes :: "release_presentation_mode list \<Rightarrow> release_presentation_mode list" where
  "senderConstrainedModes allowedPresentationModes =
     filter (\<lambda>mode. mode \<in> set allowedPresentationModes) SENDER_CONSTRAINED_PRESENTATION_MODES"

definition mergeCacheBudget ::
  "verification_cache_budget \<Rightarrow> verification_cache_budget \<Rightarrow> verification_cache_budget" where
  "mergeCacheBudget risk boundary =
     \<lparr> vcb_positiveTtlSeconds = min (vcb_positiveTtlSeconds risk) (vcb_positiveTtlSeconds boundary),
       vcb_negativeTtlSeconds = min (vcb_negativeTtlSeconds risk) (vcb_negativeTtlSeconds boundary),
       vcb_staleIfErrorSeconds = min (vcb_staleIfErrorSeconds risk) (vcb_staleIfErrorSeconds boundary),
       vcb_requireFreshOnlineCheck =
         (vcb_requireFreshOnlineCheck risk \<or> vcb_requireFreshOnlineCheck boundary) \<rparr>"

definition verificationProfileId :: "verification_profile_resolution_input \<Rightarrow> string" where
  "verificationProfileId input =
     join_with '':''
       [''verification-profile'', consequence_type_str (vpi_consequenceType input),
        risk_class_str (vpi_riskClass input), enforcement_boundary_kind_str (vpi_boundaryKind input)]"

definition assertBoundarySupportsConsequence ::
  "boundary_verification_baseline \<Rightarrow> consequence_type \<Rightarrow> unit result" where
  "assertBoundarySupportsConsequence boundary consequenceType =
     (if consequenceType \<notin> set (bvb_supportedConsequenceTypes boundary) then
        throw (Error (''Release enforcement-plane ''
          @ enforcement_boundary_kind_str (bvb_boundaryKind boundary)
          @ '' boundary does not support '' @ consequence_type_str consequenceType @ '' consequence.''))
      else return ())"

definition resolveVerificationProfile ::
  "verification_profile_resolution_input \<Rightarrow> verification_profile result" where
  "resolveVerificationProfile input =
     (let risk = RISK_VERIFICATION_BASELINES (vpi_riskClass input);
          boundary = BOUNDARY_VERIFICATION_BASELINES (vpi_boundaryKind input)
      in
      rbind (assertBoundarySupportsConsequence boundary (vpi_consequenceType input)) (\<lambda>_.
      let verificationModes =
            mergeVerificationModes (rvb_verificationModes risk) (bvb_verificationModes boundary);
          allowedPresentationModes = sortedPresentationModes (bvb_allowedPresentationModes boundary);
          senderConstraint =
            senderConstraintMode (rvb_senderConstraint risk) (bvb_senderConstraint boundary);
          constrainedModes = senderConstrainedModes allowedPresentationModes
      in
      if senderConstraint = Constraint_required \<and> constrainedModes = [] then
        throw (Error
          ''Release enforcement-plane sender-constrained profile has no sender-constrained presentation mode.'')
      else
        let cacheBudget = mergeCacheBudget (rvb_cacheBudget risk) (bvb_cacheBudget boundary);
            onlineIntrospectionRequired =
              (rvb_onlineIntrospectionRequired risk \<or>
               Online_introspection \<in> set (bvb_verificationModes boundary) \<or>
               Hybrid_required \<in> set (bvb_verificationModes boundary) \<or>
               Hybrid_required \<in> set verificationModes \<or>
               vcb_requireFreshOnlineCheck cacheBudget)
        in return
          \<lparr> vpr_version = VERIFICATION_PROFILE_MATRIX_SPEC_VERSION,
            vpr_id = verificationProfileId input,
            vpr_consequenceType = vpi_consequenceType input,
            vpr_riskClass = vpi_riskClass input,
            vpr_boundaryKind = vpi_boundaryKind input,
            vpr_verificationModes = verificationModes,
            vpr_onlineIntrospectionRequired = onlineIntrospectionRequired,
            vpr_allowedPresentationModes = allowedPresentationModes,
            vpr_senderConstrainedPresentationModes = constrainedModes,
            vpr_policyProvenanceRequired =
              (rvb_policyProvenanceRequired risk \<or> bvb_policyProvenanceRequired boundary),
            vpr_senderConstraint = senderConstraint,
            vpr_replayProtectionRequired =
              (rvb_replayProtectionRequired risk \<or> bvb_replayProtectionRequired boundary),
            vpr_cacheBudget = cacheBudget,
            vpr_overridePosture = rvb_overridePosture risk,
            vpr_failClosed = (rvb_failClosed risk \<or> bvb_failClosed boundary) \<rparr>))"

section \<open>Strictness of budgets and profiles\<close>

text \<open>
  A budget is at most as generous as another when its times are no longer and it does not drop
  the demand for a fresh online check.
\<close>

definition budget_le :: "verification_cache_budget \<Rightarrow> verification_cache_budget \<Rightarrow> bool" where
  "budget_le b c \<longleftrightarrow>
     vcb_positiveTtlSeconds b \<le> vcb_positiveTtlSeconds c \<and>
     vcb_negativeTtlSeconds b \<le> vcb_negativeTtlSeconds c \<and>
     vcb_staleIfErrorSeconds b \<le> vcb_staleIfErrorSeconds c \<and>
     (vcb_requireFreshOnlineCheck c \<longrightarrow> vcb_requireFreshOnlineCheck b)"

text \<open>The merge is the greatest budget below both: the meet of the order.\<close>

lemma budget_le_merge:
  "budget_le b (mergeCacheBudget c d) \<longleftrightarrow> budget_le b c \<and> budget_le b d"
  by (auto simp: budget_le_def mergeCacheBudget_def)

lemma budget_le_refl: "budget_le b b"
  by (simp add: budget_le_def)

lemma budget_le_trans: "budget_le b c \<Longrightarrow> budget_le c d \<Longrightarrow> budget_le b d"
  by (auto simp: budget_le_def)

lemma merge_le: "budget_le (mergeCacheBudget c d) c" "budget_le (mergeCacheBudget c d) d"
  using budget_le_refl budget_le_merge by blast+

definition tightens :: "verification_profile \<Rightarrow> verification_profile \<Rightarrow> bool" where
  "tightens p q \<longleftrightarrow>
     (vpr_onlineIntrospectionRequired q \<longrightarrow> vpr_onlineIntrospectionRequired p) \<and>
     (vpr_policyProvenanceRequired q \<longrightarrow> vpr_policyProvenanceRequired p) \<and>
     (vpr_replayProtectionRequired q \<longrightarrow> vpr_replayProtectionRequired p) \<and>
     (vpr_failClosed q \<longrightarrow> vpr_failClosed p) \<and>
     (Hybrid_required \<in> set (vpr_verificationModes q) \<longrightarrow> Hybrid_required \<in> set (vpr_verificationModes p)) \<and>
     SENDER_CONSTRAINT_ORDER (vpr_senderConstraint q) \<le> SENDER_CONSTRAINT_ORDER (vpr_senderConstraint p) \<and>
     budget_le (vpr_cacheBudget p) (vpr_cacheBudget q)"

definition profile_for :: "consequence_type \<Rightarrow> risk_class \<Rightarrow> enforcement_boundary_kind \<Rightarrow> verification_profile result" where
  "profile_for c r b = resolveVerificationProfile
     \<lparr> vpi_consequenceType = c, vpi_riskClass = r, vpi_boundaryKind = b \<rparr>"

text \<open>The consequences a boundary admits.\<close>

definition supported :: "consequence_type \<Rightarrow> enforcement_boundary_kind \<Rightarrow> bool" where
  "supported c b \<longleftrightarrow> c \<in> set (bvb_supportedConsequenceTypes (BOUNDARY_VERIFICATION_BASELINES b))"

lemma set_sorted_modes [simp]:
  "set (sortedVerificationModes vs) = set vs" "set (sortedPresentationModes ps) = set ps"
  using verification_modes.set_arrange presentation_modes.set_arrange
  by (simp_all add: sortedVerificationModes_def sortedPresentationModes_def
      verification_modes.arrange_def presentation_modes.arrange_def)

lemma sender_modes_available:
  "bvb_senderConstraint (BOUNDARY_VERIFICATION_BASELINES b) \<noteq> Constraint_not_applicable \<Longrightarrow>
   senderConstrainedModes (sortedPresentationModes
     (bvb_allowedPresentationModes (BOUNDARY_VERIFICATION_BASELINES b))) \<noteq> []"
  by (cases b) (simp_all add: senderConstrainedModes_def SENDER_CONSTRAINED_PRESENTATION_MODES_def)

lemma constraint_required_boundary:
  "senderConstraintMode r s = Constraint_required \<Longrightarrow> s \<noteq> Constraint_not_applicable"
  by (auto simp: senderConstraintMode_def)

lemma profile_resolves_iff: "(\<exists>p. profile_for c r b = Inr p) \<longleftrightarrow> supported c b"
  using sender_modes_available [of b] constraint_required_boundary
  by (auto simp: profile_for_def resolveVerificationProfile_def assertBoundarySupportsConsequence_def
      supported_def Let_def)

text \<open>The fields of a resolved profile.\<close>

lemma set_senderConstrainedModes:
  "set (senderConstrainedModes modes) = set modes - {Bearer_release_token}"
proof -
  have "x \<in> set SENDER_CONSTRAINED_PRESENTATION_MODES \<longleftrightarrow> x \<noteq> Bearer_release_token" for x
    by (cases x) (simp_all add: SENDER_CONSTRAINED_PRESENTATION_MODES_def)
  then show ?thesis by (auto simp: senderConstrainedModes_def)
qed

lemma profile_fields:
  assumes "profile_for c r b = Inr p"
  defines "risk \<equiv> RISK_VERIFICATION_BASELINES r" and "boundary \<equiv> BOUNDARY_VERIFICATION_BASELINES b"
  shows "vpr_riskClass p = r" "vpr_boundaryKind p = b" "vpr_consequenceType p = c"
    "vpr_verificationModes p = mergeVerificationModes (rvb_verificationModes risk) (bvb_verificationModes boundary)"
    "vpr_senderConstraint p = senderConstraintMode (rvb_senderConstraint risk) (bvb_senderConstraint boundary)"
    "vpr_cacheBudget p = mergeCacheBudget (rvb_cacheBudget risk) (bvb_cacheBudget boundary)"
    "vpr_replayProtectionRequired p = (rvb_replayProtectionRequired risk \<or> bvb_replayProtectionRequired boundary)"
    "vpr_policyProvenanceRequired p = (rvb_policyProvenanceRequired risk \<or> bvb_policyProvenanceRequired boundary)"
    "vpr_failClosed p = (rvb_failClosed risk \<or> bvb_failClosed boundary)"
    "vpr_onlineIntrospectionRequired p = (rvb_onlineIntrospectionRequired risk \<or>
       Online_introspection \<in> set (bvb_verificationModes boundary) \<or>
       Hybrid_required \<in> set (bvb_verificationModes boundary) \<or>
       Hybrid_required \<in> set (vpr_verificationModes p) \<or> vcb_requireFreshOnlineCheck (vpr_cacheBudget p))"
    "vpr_senderConstrainedPresentationModes p = senderConstrainedModes (vpr_allowedPresentationModes p)"
    "vpr_allowedPresentationModes p = sortedPresentationModes (bvb_allowedPresentationModes boundary)"
    "vpr_overridePosture p = rvb_overridePosture risk"
  using assms(1) unfolding profile_for_def resolveVerificationProfile_def Let_def risk_def boundary_def
  by (auto split: if_split_asm)

text \<open>The order of two baselines of risk classes.\<close>

definition baseline_le :: "risk_verification_baseline \<Rightarrow> risk_verification_baseline \<Rightarrow> bool" where
  "baseline_le low high \<longleftrightarrow>
     (rvb_onlineIntrospectionRequired low \<longrightarrow> rvb_onlineIntrospectionRequired high) \<and>
     (rvb_policyProvenanceRequired low \<longrightarrow> rvb_policyProvenanceRequired high) \<and>
     (rvb_replayProtectionRequired low \<longrightarrow> rvb_replayProtectionRequired high) \<and>
     (rvb_failClosed low \<longrightarrow> rvb_failClosed high) \<and>
     (Hybrid_required \<in> set (rvb_verificationModes low) \<longrightarrow> Hybrid_required \<in> set (rvb_verificationModes high)) \<and>
     SENDER_CONSTRAINT_ORDER (rvb_senderConstraint low) \<le> SENDER_CONSTRAINT_ORDER (rvb_senderConstraint high) \<and>
     budget_le (rvb_cacheBudget high) (rvb_cacheBudget low)"

lemma risk_baselines_monotone:
  "r \<le> r' \<Longrightarrow> baseline_le (RISK_VERIFICATION_BASELINES r) (RISK_VERIFICATION_BASELINES r')"
  by (cases r; cases r') (simp_all add: baseline_le_def budget_le_def less_eq_risk_class_def)

lemma hybrid_merge: "Hybrid_required \<in> set (mergeVerificationModes l r) \<longleftrightarrow> Hybrid_required \<in> set l \<union> set r"
  by (auto simp: mergeVerificationModes_def)

lemma constraint_order_mono:
  "SENDER_CONSTRAINT_ORDER q \<le> SENDER_CONSTRAINT_ORDER r \<Longrightarrow>
   SENDER_CONSTRAINT_ORDER (senderConstraintMode q b) \<le> SENDER_CONSTRAINT_ORDER (senderConstraintMode r b)"
  by (auto simp: senderConstraintMode_def)

lemma profile_tightens:
  assumes "profile_for c r b = Inr p" and "profile_for c' r' b = Inr q" and "r \<le> r'"
  shows "tightens q p"
proof -
  note p = profile_fields [OF assms(1)] and q = profile_fields [OF assms(2)]
    and mono = risk_baselines_monotone [OF assms(3), unfolded baseline_le_def]
  have budget: "budget_le (vpr_cacheBudget q) (vpr_cacheBudget p)"
    unfolding p(6) q(6) budget_le_merge using merge_le mono budget_le_trans by blast
  then have fresh: "vcb_requireFreshOnlineCheck (vpr_cacheBudget p) \<longrightarrow>
      vcb_requireFreshOnlineCheck (vpr_cacheBudget q)"
    by (simp add: budget_le_def)
  have hybrid: "Hybrid_required \<in> set (vpr_verificationModes p) \<longrightarrow>
      Hybrid_required \<in> set (vpr_verificationModes q)"
    unfolding p(4) q(4) hybrid_merge using mono by blast
  have "SENDER_CONSTRAINT_ORDER (vpr_senderConstraint p) \<le> SENDER_CONSTRAINT_ORDER (vpr_senderConstraint q)"
    unfolding p(5) q(5) using mono by (intro constraint_order_mono) blast
  with budget fresh hybrid mono show ?thesis
    unfolding tightens_def p(7-10) q(7-10) by blast
qed

text \<open>
  A profile honours the baselines it was merged from: it demands whatever one of them demands,
  its cache budget is the greatest one within both, and a required sender constraint leaves
  some presentation mode to use unless the boundary has no sender at all.
\<close>

definition honours ::
  "verification_profile \<Rightarrow> risk_verification_baseline \<Rightarrow> boundary_verification_baseline \<Rightarrow> bool" where
  "honours p risk boundary \<longleftrightarrow>
     (rvb_onlineIntrospectionRequired risk \<or>
      set (bvb_verificationModes boundary) \<inter> {Online_introspection, Hybrid_required} \<noteq> {} \<longrightarrow>
        vpr_onlineIntrospectionRequired p) \<and>
     (rvb_policyProvenanceRequired risk \<or> bvb_policyProvenanceRequired boundary \<longrightarrow> vpr_policyProvenanceRequired p) \<and>
     (rvb_replayProtectionRequired risk \<or> bvb_replayProtectionRequired boundary \<longrightarrow> vpr_replayProtectionRequired p) \<and>
     (rvb_failClosed risk \<or> bvb_failClosed boundary \<longrightarrow> vpr_failClosed p) \<and>
     (\<forall>budget. budget_le budget (vpr_cacheBudget p) =
        (budget_le budget (rvb_cacheBudget risk) \<and> budget_le budget (bvb_cacheBudget boundary))) \<and>
     (if bvb_senderConstraint boundary = Constraint_not_applicable
      then vpr_senderConstraint p = Constraint_not_applicable
      else SENDER_CONSTRAINT_ORDER (rvb_senderConstraint risk) \<le> SENDER_CONSTRAINT_ORDER (vpr_senderConstraint p) \<and>
        SENDER_CONSTRAINT_ORDER (bvb_senderConstraint boundary) \<le> SENDER_CONSTRAINT_ORDER (vpr_senderConstraint p) \<and>
        vpr_senderConstrainedPresentationModes p \<noteq> [])"

lemma profile_honours:
  assumes "profile_for c r b = Inr p"
  shows "honours p (RISK_VERIFICATION_BASELINES r) (BOUNDARY_VERIFICATION_BASELINES b)"
  unfolding honours_def profile_fields(5-12) [OF assms] budget_le_merge
  using sender_modes_available [of b] by (auto simp: senderConstraintMode_def)

text \<open>
A verification profile resolves exactly for the consequences its boundary supports. It
  honours both the baseline of the risk class and the baseline of the boundary, and at the same
  boundary a higher risk class never gets a more relaxed profile.\<close>

theorem verification_profile_strict:
  "(\<exists>p. profile_for c r b = Inr p) = supported c b \<and>
   (\<forall>p. profile_for c r b = Inr p \<longrightarrow>
      honours p (RISK_VERIFICATION_BASELINES r) (BOUNDARY_VERIFICATION_BASELINES b) \<and>
      (\<forall>r' q. r \<le> r' \<and> profile_for c r' b = Inr q \<longrightarrow> tightens q p))"
  using profile_resolves_iff profile_honours profile_tightens by blast

definition sample_profile :: verification_profile where
  "sample_profile =
     \<lparr> vpr_version = VERIFICATION_PROFILE_MATRIX_SPEC_VERSION,
       vpr_id = ''verification-profile:record:R2:record-write'',
       vpr_consequenceType = Record, vpr_riskClass = R2, vpr_boundaryKind = Record_write,
       vpr_verificationModes = [Hybrid_required], vpr_onlineIntrospectionRequired = True,
       vpr_allowedPresentationModes =
         [Bearer_release_token, Dpop_bound_token, Mtls_bound_token, Spiffe_bound_token],
       vpr_senderConstrainedPresentationModes = [Dpop_bound_token, Mtls_bound_token, Spiffe_bound_token],
       vpr_policyProvenanceRequired = True, vpr_senderConstraint = Constraint_required,
       vpr_replayProtectionRequired = True, vpr_cacheBudget = cache_budget 15 5 0 True,
       vpr_overridePosture = Named_break_glass, vpr_failClosed = True \<rparr>"

lemma sample_profile_resolved: "profile_for Record R2 Record_write = Inr sample_profile"
  by (simp add: profile_for_def resolveVerificationProfile_def assertBoundarySupportsConsequence_def
      mergeVerificationModes_def sortedPresentationModes_def RELEASE_PRESENTATION_MODES_def
      senderConstrainedModes_def SENDER_CONSTRAINED_PRESENTATION_MODES_def senderConstraintMode_def
      mergeCacheBudget_def verificationProfileId_def sample_profile_def Let_def)

theorem verification_profile_strict_witness:
  "honours sample_profile (RISK_VERIFICATION_BASELINES R2) (BOUNDARY_VERIFICATION_BASELINES Record_write) \<and>
   (\<exists>q. profile_for Record R4 Record_write = Inr q \<and> tightens q sample_profile)"
proof -
  have le: "R2 \<le> R4" by (simp add: less_eq_risk_class_def)
  obtain q where "profile_for Record R4 Record_write = Inr q"
    using verification_profile_strict [of Record R4 Record_write] by (auto simp: supported_def)
  then show ?thesis
    using verification_profile_strict [of Record R2 Record_write] sample_profile_resolved le by blast
qed

end
