(* ===== verification/Freshness.thy ===== *)
theory Freshness
  imports Verification_Profiles
begin

text \<open>
  Freshness of a presented authorization: src/release-enforcement-plane/freshness.ts and
  freshness-types.ts.

  The rules of a verification profile bound the age of a token, the life of a cached
  introspection, the window of the replay ledger and the use of nonces. Four evaluations (time
  bounds, introspection cache, replay, nonce) are combined into one status. Each evaluation is
  characterised exactly by a condition on instants; the combined status is fresh exactly when
  all four conditions hold.
\<close>

section \<open>Data\<close>

definition RELEASE_FRESHNESS_RULES_SPEC_VERSION :: string where
  "RELEASE_FRESHNESS_RULES_SPEC_VERSION = ''attestor.release-enforcement-freshness-rules.v1''"

datatype freshness_decision_status =
  Fresh | Stale_allowed | Stale_denied | Indeterminate | Invalid

datatype introspection_cache_status =
    Ics_not_required
  | Ics_fresh
  | Ics_stale_allowed
  | Ics_stale_denied
  | Ics_negative_hit
  | Ics_miss

datatype replay_protection_status = Rps_not_required | Rps_fresh | Rps_replayed | Rps_missing_key

datatype replay_subject_kind =
    Rsk_release_token
  | Rsk_dpop_proof
  | Rsk_http_message_signature
  | Rsk_signed_json_envelope
  | Rsk_idempotency_key

datatype nonce_freshness_status =
    Nfs_not_required
  | Nfs_valid
  | Nfs_missing
  | Nfs_invalid
  | Nfs_consumed
  | Nfs_expired

record freshness_rules =
  frr_version :: string
  frr_id :: string
  frr_profileId :: string
  frr_riskClass :: risk_class
  frr_boundaryKind :: enforcement_boundary_kind
  frr_onlineIntrospectionRequired :: bool
  frr_clockSkewSeconds :: int
  frr_maxTokenAgeSeconds :: int
  frr_positiveCacheTtlSeconds :: int
  frr_negativeCacheTtlSeconds :: int
  frr_staleIfErrorSeconds :: int
  frr_requireFreshOnlineCheck :: bool
  frr_failClosedWhenStale :: bool
  frr_negativeCacheAuthoritative :: bool
  frr_replayProtectionRequired :: bool
  frr_replayWindowSeconds :: int
  frr_nonceWindowSeconds :: int
  frr_requireNonceForPresentationModes :: "release_presentation_mode list"

record authorization_time_bounds_input =
  atb_rules :: freshness_rules
  atb_now :: js_date
  atb_issuedAt :: "js_date option"
  atb_notBefore :: "js_date option"
  atb_expiresAt :: "js_date option"

record authorization_time_bounds_evaluation =
  tbe_valid :: bool
  tbe_failureReasons :: "enforcement_failure_reason list"
  tbe_checkedAt :: timestamp
  tbe_earliestValidAt :: "timestamp option"
  tbe_validUntil :: "timestamp option"
  tbe_maxAgeExpiresAt :: "timestamp option"

record introspection_cache_observation =
  ico_checkedAt :: js_date
  ico_active :: bool
  ico_tokenExpiresAt :: "js_date option"
  ico_cacheExpiresAt :: "js_date option"

record introspection_cache_input =
  ici_rules :: freshness_rules
  ici_now :: js_date
  ici_cache :: "introspection_cache_observation option"
  ici_introspectionError :: bool

record introspection_cache_evaluation =
  ice_status :: introspection_cache_status
  ice_cacheState :: enforcement_cache_state
  ice_failureReasons :: "enforcement_failure_reason list"
  ice_active :: "bool option"
  ice_checkedAt :: "timestamp option"
  ice_freshUntil :: "timestamp option"
  ice_staleIfErrorUntil :: "timestamp option"

record replay_ledger_entry =
  rle_subjectKind :: replay_subject_kind
  rle_key :: string
  rle_firstSeenAt :: js_date
  rle_expiresAt :: js_date

record replay_protection_input =
  rpi_rules :: freshness_rules
  rpi_now :: js_date
  rpi_replayKey :: "string option"
  rpi_subjectKind :: "replay_subject_kind option"
  rpi_ledgerEntry :: "replay_ledger_entry option"

record replay_protection_evaluation =
  rpe_status :: replay_protection_status
  rpe_failureReasons :: "enforcement_failure_reason list"
  rpe_replayKey :: "string option"
  rpe_subjectKind :: "replay_subject_kind option"
  rpe_storeUntil :: "timestamp option"

record nonce_ledger_entry =
  nle_nonce :: string
  nle_issuedAt :: js_date
  nle_expiresAt :: js_date
  nle_consumedAt :: "js_date option"

record nonce_freshness_input =
  nfi_rules :: freshness_rules
  nfi_now :: js_date
  nfi_presentationMode :: release_presentation_mode
  nfi_nonce :: "string option"
  nfi_ledgerEntry :: "nonce_ledger_entry option"

record nonce_freshness_evaluation =
  nfe_status :: nonce_freshness_status
  nfe_failureReasons :: "enforcement_failure_reason list"
  nfe_nonce :: "string option"
  nfe_consumeOnAllow :: bool
  nfe_expiresAt :: "timestamp option"

record release_freshness_input =
  rfi_rules :: freshness_rules
  rfi_now :: js_date
  rfi_presentationMode :: release_presentation_mode
  rfi_issuedAt :: "js_date option"
  rfi_notBefore :: "js_date option"
  rfi_expiresAt :: "js_date option"
  rfi_introspectionCache :: "introspection_cache_observation option"
  rfi_introspectionError :: bool
  rfi_replayKey :: "string option"
  rfi_replaySubjectKind :: "replay_subject_kind option"
  rfi_replayLedgerEntry :: "replay_ledger_entry option"
  rfi_nonce :: "string option"
  rfi_nonceLedgerEntry :: "nonce_ledger_entry option"

record release_freshness_evaluation =
  rfe_version :: string
  rfe_status :: freshness_decision_status
  rfe_checkedAt :: timestamp
  rfe_cacheState :: enforcement_cache_state
  rfe_degradedState :: enforcement_degraded_state
  rfe_failureReasons :: "enforcement_failure_reason list"
  rfe_timeBounds :: authorization_time_bounds_evaluation
  rfe_introspectionCache :: introspection_cache_evaluation
  rfe_replay :: replay_protection_evaluation
  rfe_nonce :: nonce_freshness_evaluation

section \<open>Baselines\<close>

record freshness_baseline =
  fbl_clockSkewSeconds :: int
  fbl_maxTokenAgeSeconds :: int
  fbl_replayWindowSeconds :: int
  fbl_nonceWindowSeconds :: int

abbreviation baseline :: "int \<Rightarrow> int \<Rightarrow> int \<Rightarrow> int \<Rightarrow> freshness_baseline" where
  "baseline skew age replay nonce \<equiv>
     \<lparr> fbl_clockSkewSeconds = skew, fbl_maxTokenAgeSeconds = age, fbl_replayWindowSeconds = replay,
       fbl_nonceWindowSeconds = nonce \<rparr>"

fun RISK_FRESHNESS_BASELINES :: "risk_class \<Rightarrow> freshness_baseline" where
  "RISK_FRESHNESS_BASELINES R0 = baseline 120 86400 0 0"
| "RISK_FRESHNESS_BASELINES R1 = baseline 120 3600 300 0"
| "RISK_FRESHNESS_BASELINES R2 = baseline 60 900 120 120"
| "RISK_FRESHNESS_BASELINES R3 = baseline 30 300 60 60"
| "RISK_FRESHNESS_BASELINES R4 = baseline 15 120 30 30"

fun BOUNDARY_FRESHNESS_BASELINES :: "enforcement_boundary_kind \<Rightarrow> freshness_baseline" where
  "BOUNDARY_FRESHNESS_BASELINES Http_request = baseline 60 900 120 120"
| "BOUNDARY_FRESHNESS_BASELINES Webhook = baseline 30 300 60 60"
| "BOUNDARY_FRESHNESS_BASELINES Async_message = baseline 60 3600 300 0"
| "BOUNDARY_FRESHNESS_BASELINES Record_write = baseline 30 300 60 60"
| "BOUNDARY_FRESHNESS_BASELINES Communication_send = baseline 30 300 60 60"
| "BOUNDARY_FRESHNESS_BASELINES Action_dispatch = baseline 15 120 30 30"
| "BOUNDARY_FRESHNESS_BASELINES Proxy_admission = baseline 15 120 30 30"
| "BOUNDARY_FRESHNESS_BASELINES Artifact_export = baseline 120 86400 0 0"

definition NONCE_CAPABLE_PRESENTATION_MODES :: "release_presentation_mode list" where
  "NONCE_CAPABLE_PRESENTATION_MODES = [Dpop_bound_token, Http_message_signature]"

section \<open>Helpers\<close>

definition freshness_normalizeIdentifier :: "string option \<Rightarrow> string \<Rightarrow> string option result" where
  "freshness_normalizeIdentifier value fieldName =
     (case value of
        None \<Rightarrow> return None
      | Some v \<Rightarrow>
          if trim v = [] then
            throw (Error (''Release enforcement-plane freshness '' @ fieldName @ '' cannot be blank.''))
          else return (Some (trim v)))"

definition freshness_normalizeIsoTimestamp :: "js_date \<Rightarrow> string \<Rightarrow> timestamp result" where
  "freshness_normalizeIsoTimestamp value fieldName =
     (case getTime value of
        None \<Rightarrow> throw (Error (''Release enforcement-plane freshness '' @ fieldName
          @ '' must be a valid ISO timestamp.''))
      | Some t \<Rightarrow> return t)"

text \<open>\<open>value ? normalizeIsoTimestamp(value) : null\<close>.\<close>

definition optional_timestamp :: "js_date option \<Rightarrow> string \<Rightarrow> timestamp option result" where
  "optional_timestamp value fieldName =
     (case truthy_date value of
        None \<Rightarrow> return None
      | Some v \<Rightarrow> rbind (freshness_normalizeIsoTimestamp v fieldName) (\<lambda>t. return (Some t)))"

definition addSeconds :: "timestamp \<Rightarrow> int \<Rightarrow> timestamp result" where
  "addSeconds timestamp seconds = toISO (timestamp + seconds * 1000)"

text \<open>The earliest of some instants; it is one of them, so it can be rendered when they can.\<close>

definition earliestIso :: "timestamp option list \<Rightarrow> timestamp option" where
  "earliestIso vals =
     (case List.map_filter id vals of
        [] \<Rightarrow> None
      | t # ts \<Rightarrow> Some (fold min ts t))"

definition freshnessRulesId :: "verification_profile \<Rightarrow> string" where
  "freshnessRulesId profile =
     join_with '':''
       [''freshness-rules'', consequence_type_str (vpr_consequenceType profile),
        risk_class_str (vpr_riskClass profile), enforcement_boundary_kind_str (vpr_boundaryKind profile)]"

definition requiredNonceModes :: "verification_profile \<Rightarrow> release_presentation_mode list" where
  "requiredNonceModes profile =
     (if vpr_senderConstraint profile \<noteq> Constraint_required then []
      else filter (\<lambda>mode. mode \<in> set (vpr_senderConstrainedPresentationModes profile))
             NONCE_CAPABLE_PRESENTATION_MODES)"

section \<open>Rules\<close>

definition resolveFreshnessRules :: "verification_profile \<Rightarrow> freshness_rules" where
  "resolveFreshnessRules profile =
     (let risk = RISK_FRESHNESS_BASELINES (vpr_riskClass profile);
          boundary = BOUNDARY_FRESHNESS_BASELINES (vpr_boundaryKind profile);
          replayProtectionRequired = vpr_replayProtectionRequired profile;
          nonceModes = requiredNonceModes profile;
          nonceWindowSeconds =
            (if 0 < length nonceModes
             then min (fbl_nonceWindowSeconds risk) (fbl_nonceWindowSeconds boundary) else 0);
          budget = vpr_cacheBudget profile
      in \<lparr> frr_version = RELEASE_FRESHNESS_RULES_SPEC_VERSION,
           frr_id = freshnessRulesId profile,
           frr_profileId = vpr_id profile,
           frr_riskClass = vpr_riskClass profile,
           frr_boundaryKind = vpr_boundaryKind profile,
           frr_onlineIntrospectionRequired = vpr_onlineIntrospectionRequired profile,
           frr_clockSkewSeconds = min (fbl_clockSkewSeconds risk) (fbl_clockSkewSeconds boundary),
           frr_maxTokenAgeSeconds = min (fbl_maxTokenAgeSeconds risk) (fbl_maxTokenAgeSeconds boundary),
           frr_positiveCacheTtlSeconds = vcb_positiveTtlSeconds budget,
           frr_negativeCacheTtlSeconds = vcb_negativeTtlSeconds budget,
           frr_staleIfErrorSeconds = vcb_staleIfErrorSeconds budget,
           frr_requireFreshOnlineCheck = vcb_requireFreshOnlineCheck budget,
           frr_failClosedWhenStale =
             (vpr_failClosed profile \<and>
              (vpr_onlineIntrospectionRequired profile \<or> vcb_requireFreshOnlineCheck budget \<or>
               vcb_staleIfErrorSeconds budget = 0)),
           frr_negativeCacheAuthoritative = vpr_failClosed profile,
           frr_replayProtectionRequired = replayProtectionRequired,
           frr_replayWindowSeconds =
             (if replayProtectionRequired
              then min (fbl_replayWindowSeconds risk) (fbl_replayWindowSeconds boundary) else 0),
           frr_nonceWindowSeconds = nonceWindowSeconds,
           frr_requireNonceForPresentationModes = nonceModes \<rparr>)"

section \<open>Evaluations\<close>

definition evaluateAuthorizationTimeBounds ::
  "authorization_time_bounds_input \<Rightarrow> authorization_time_bounds_evaluation result" where
  "evaluateAuthorizationTimeBounds input =
     rbind (freshness_normalizeIsoTimestamp (atb_now input) ''now'') (\<lambda>nowMs.
     let skewMs = frr_clockSkewSeconds (atb_rules input) * 1000 in
     rbind (optional_timestamp (atb_issuedAt input) ''issuedAt'') (\<lambda>issuedAt.
     rbind (optional_timestamp (atb_notBefore input) ''notBefore'') (\<lambda>notBefore.
     rbind (optional_timestamp (atb_expiresAt input) ''expiresAt'') (\<lambda>expiresAt.
     let early = (case notBefore of
             None \<Rightarrow> []
           | Some t \<Rightarrow> if nowMs + skewMs < t then [Fr_not_yet_valid_authorization] else []);
         late = (case expiresAt of
             None \<Rightarrow> []
           | Some t \<Rightarrow> if t \<le> nowMs - skewMs then [Fr_expired_authorization] else [])
     in
     rbind (case issuedAt of
              None \<Rightarrow> return ([], None)
            | Some issuedAtMs \<Rightarrow>
                rbind (addSeconds issuedAtMs (frr_maxTokenAgeSeconds (atb_rules input))) (\<lambda>maxAgeExpiresAt.
                  return ((if nowMs < issuedAtMs - skewMs then [Fr_future_issued_at] else []) @
                          (if maxAgeExpiresAt < nowMs - skewMs then [Fr_stale_authorization] else []),
                          Some maxAgeExpiresAt))) (\<lambda>(aged, maxAgeExpiresAt).
     let failureReasons = early @ late @ aged in return
       \<lparr> tbe_valid = (failureReasons = []),
         tbe_failureReasons = uniqueFailureReasons failureReasons,
         tbe_checkedAt = nowMs,
         tbe_earliestValidAt = notBefore,
         tbe_validUntil = earliestIso [expiresAt, maxAgeExpiresAt],
         tbe_maxAgeExpiresAt = maxAgeExpiresAt \<rparr>)))))"

definition cache_evaluation ::
  "introspection_cache_status \<Rightarrow> enforcement_cache_state \<Rightarrow> enforcement_failure_reason list \<Rightarrow> bool option \<Rightarrow>
   timestamp option \<Rightarrow> timestamp option \<Rightarrow> timestamp option \<Rightarrow> introspection_cache_evaluation" where
  "cache_evaluation status state reasons active checkedAt freshUntil staleIfErrorUntil =
     \<lparr> ice_status = status, ice_cacheState = state, ice_failureReasons = reasons, ice_active = active,
       ice_checkedAt = checkedAt, ice_freshUntil = freshUntil, ice_staleIfErrorUntil = staleIfErrorUntil \<rparr>"

definition evaluateIntrospectionCache ::
  "introspection_cache_input \<Rightarrow> introspection_cache_evaluation result" where
  "evaluateIntrospectionCache input =
     (let rules = ici_rules input;
          unavailableReason = (if ici_introspectionError input then [Fr_introspection_unavailable] else [])
      in
      rbind (freshness_normalizeIsoTimestamp (ici_now input) ''now'') (\<lambda>nowMs.
      case ici_cache input of
        None \<Rightarrow> return (cache_evaluation
          (if frr_onlineIntrospectionRequired rules then Ics_miss else Ics_not_required) Cache_miss
          (if frr_onlineIntrospectionRequired rules
           then uniqueFailureReasons (Fr_fresh_introspection_required # unavailableReason) else [])
          None None None None)
      | Some cache \<Rightarrow>
          rbind (freshness_normalizeIsoTimestamp (ico_checkedAt cache) ''cache.checkedAt'') (\<lambda>cacheCheckedAt.
          let ttlSeconds = (if ico_active cache then frr_positiveCacheTtlSeconds rules
                            else frr_negativeCacheTtlSeconds rules) in
          rbind (addSeconds cacheCheckedAt ttlSeconds) (\<lambda>configuredFreshUntil.
          rbind (optional_timestamp (ico_cacheExpiresAt cache) ''cache.cacheExpiresAt'') (\<lambda>explicitCacheExpiresAt.
          rbind (optional_timestamp (ico_tokenExpiresAt cache) ''cache.tokenExpiresAt'') (\<lambda>tokenExpiresAt.
          let freshUntil = earliestIso
                [Some configuredFreshUntil, explicitCacheExpiresAt,
                 if ico_active cache then tokenExpiresAt else None];
              freshUntilMs = nullish freshUntil configuredFreshUntil
          in
          rbind (addSeconds freshUntilMs (frr_staleIfErrorSeconds rules)) (\<lambda>staleIfErrorUntil.
          if \<not> ico_active cache then
            if nowMs \<le> freshUntilMs then
              return (cache_evaluation Ics_negative_hit Cache_negative_hit
                (uniqueFailureReasons [Fr_negative_cache_hit]) (Some False) (Some cacheCheckedAt) freshUntil None)
            else
              return (cache_evaluation Ics_miss Cache_miss
                (if frr_onlineIntrospectionRequired rules
                 then uniqueFailureReasons (Fr_fresh_introspection_required # unavailableReason) else [])
                (Some False) (Some cacheCheckedAt) freshUntil None)
          else if nowMs \<le> freshUntilMs then
            return (cache_evaluation Ics_fresh Cache_fresh [] (Some True) (Some cacheCheckedAt)
              freshUntil (Some staleIfErrorUntil))
          else if ici_introspectionError input \<and> 0 < frr_staleIfErrorSeconds rules \<and>
                  \<not> frr_requireFreshOnlineCheck rules \<and> nowMs \<le> staleIfErrorUntil then
            return (cache_evaluation Ics_stale_allowed Cache_stale_allowed [] (Some True) (Some cacheCheckedAt)
              freshUntil (Some staleIfErrorUntil))
          else
            return (cache_evaluation Ics_stale_denied Cache_stale_denied
              (uniqueFailureReasons (Fr_stale_authorization #
                 (if frr_onlineIntrospectionRequired rules then [Fr_fresh_introspection_required] else []) @
                 unavailableReason))
              (Some True) (Some cacheCheckedAt) freshUntil (Some staleIfErrorUntil)))))))))"

definition evaluateReplayProtection ::
  "replay_protection_input \<Rightarrow> replay_protection_evaluation result" where
  "evaluateReplayProtection input =
     (let rules = rpi_rules input in
      rbind (freshness_normalizeIsoTimestamp (rpi_now input) ''now'') (\<lambda>checkedAt.
      rbind (freshness_normalizeIdentifier (rpi_replayKey input) ''replayKey'') (\<lambda>replayKey.
      let subjectKind = rpi_subjectKind input in
      if \<not> frr_replayProtectionRequired rules then return
        \<lparr> rpe_status = Rps_not_required, rpe_failureReasons = [], rpe_replayKey = replayKey,
          rpe_subjectKind = subjectKind, rpe_storeUntil = None \<rparr>
      else case replayKey of
        None \<Rightarrow> return
          \<lparr> rpe_status = Rps_missing_key,
            rpe_failureReasons = uniqueFailureReasons [Fr_missing_replay_proof],
            rpe_replayKey = None, rpe_subjectKind = subjectKind, rpe_storeUntil = None \<rparr>
      | Some key \<Rightarrow>
          let fresh = rbind (addSeconds checkedAt (frr_replayWindowSeconds rules)) (\<lambda>storeUntil. return
                \<lparr> rpe_status = Rps_fresh, rpe_failureReasons = [], rpe_replayKey = replayKey,
                  rpe_subjectKind = subjectKind, rpe_storeUntil = Some storeUntil \<rparr>)
          in (case rpi_ledgerEntry input of
                None \<Rightarrow> fresh
              | Some entry \<Rightarrow>
                  if rle_key entry = key then
                    rbind (freshness_normalizeIsoTimestamp (rle_expiresAt entry) ''ledgerEntry.expiresAt'')
                      (\<lambda>ledgerExpiresAt.
                        if checkedAt \<le> ledgerExpiresAt then return
                          \<lparr> rpe_status = Rps_replayed,
                            rpe_failureReasons = uniqueFailureReasons [Fr_replayed_authorization],
                            rpe_replayKey = replayKey, rpe_subjectKind = Some (rle_subjectKind entry),
                            rpe_storeUntil = None \<rparr>
                        else fresh)
                  else fresh))))"

definition nonce_evaluation ::
  "nonce_freshness_status \<Rightarrow> enforcement_failure_reason list \<Rightarrow> string option \<Rightarrow> bool \<Rightarrow> timestamp option \<Rightarrow>
   nonce_freshness_evaluation" where
  "nonce_evaluation status reasons nonce consumeOnAllow expiresAt =
     \<lparr> nfe_status = status, nfe_failureReasons = reasons, nfe_nonce = nonce,
       nfe_consumeOnAllow = consumeOnAllow, nfe_expiresAt = expiresAt \<rparr>"

definition evaluateNonceFreshness ::
  "nonce_freshness_input \<Rightarrow> nonce_freshness_evaluation result" where
  "evaluateNonceFreshness input =
     (let rules = nfi_rules input;
          skewMs = frr_clockSkewSeconds rules * 1000
      in
      rbind (freshness_normalizeIsoTimestamp (nfi_now input) ''now'') (\<lambda>nowMs.
      rbind (freshness_normalizeIdentifier (nfi_nonce input) ''nonce'') (\<lambda>nonce.
      let nonceRequired =
            (nfi_presentationMode input \<in> set (frr_requireNonceForPresentationModes rules))
      in
      if \<not> nonceRequired \<and> nonce = None then
        return (nonce_evaluation Nfs_not_required [] None False None)
      else if nonceRequired \<and> nonce = None then
        return (nonce_evaluation Nfs_missing (uniqueFailureReasons [Fr_missing_nonce]) None False None)
      else case nfi_ledgerEntry input of
        None \<Rightarrow> return (nonce_evaluation Nfs_invalid (uniqueFailureReasons [Fr_invalid_nonce]) nonce False None)
      | Some entry \<Rightarrow>
          if Some (nle_nonce entry) \<noteq> nonce then
            return (nonce_evaluation Nfs_invalid (uniqueFailureReasons [Fr_invalid_nonce]) nonce False None)
          else
            rbind (freshness_normalizeIsoTimestamp (nle_issuedAt entry) ''nonce.issuedAt'') (\<lambda>issuedAt.
            rbind (freshness_normalizeIsoTimestamp (nle_expiresAt entry) ''nonce.expiresAt'') (\<lambda>expiresAt.
            if truthy_date (nle_consumedAt entry) \<noteq> None then
              return (nonce_evaluation Nfs_consumed (uniqueFailureReasons [Fr_invalid_nonce]) nonce False (Some expiresAt))
            else if nowMs < issuedAt - skewMs then
              return (nonce_evaluation Nfs_invalid (uniqueFailureReasons [Fr_invalid_nonce]) nonce False (Some expiresAt))
            else if expiresAt < nowMs - skewMs then
              return (nonce_evaluation Nfs_expired (uniqueFailureReasons [Fr_invalid_nonce]) nonce False (Some expiresAt))
            else
              return (nonce_evaluation Nfs_valid [] nonce True (Some expiresAt)))))))"

section \<open>The combined status\<close>

definition deriveFreshnessStatus ::
  "authorization_time_bounds_evaluation \<Rightarrow> introspection_cache_evaluation \<Rightarrow>
   replay_protection_evaluation \<Rightarrow> nonce_freshness_evaluation \<Rightarrow> freshness_decision_status" where
  "deriveFreshnessStatus timeBounds cache replay nonce =
     (if \<not> tbe_valid timeBounds \<or> ice_status cache = Ics_negative_hit \<or>
         ice_status cache = Ics_stale_denied \<or> rpe_status replay = Rps_replayed \<or>
         rpe_status replay = Rps_missing_key \<or> nfe_status nonce = Nfs_missing \<or>
         nfe_status nonce = Nfs_invalid \<or> nfe_status nonce = Nfs_consumed \<or>
         nfe_status nonce = Nfs_expired
      then Invalid
      else if ice_status cache = Ics_miss then Indeterminate
      else if ice_status cache = Ics_stale_allowed then Stale_allowed
      else Fresh)"

definition deriveDegradedState ::
  "freshness_decision_status \<Rightarrow> freshness_rules \<Rightarrow> introspection_cache_evaluation \<Rightarrow> enforcement_degraded_state" where
  "deriveDegradedState status rules cache =
     (if status = Stale_allowed then Deg_cache_only
      else if frr_failClosedWhenStale rules \<and>
              (ice_status cache = Ics_stale_denied \<or> ice_status cache = Ics_miss) then Deg_fail_closed
      else Deg_normal)"

definition evaluateReleaseFreshness ::
  "release_freshness_input \<Rightarrow> release_freshness_evaluation result" where
  "evaluateReleaseFreshness input =
     rbind (freshness_normalizeIsoTimestamp (rfi_now input) ''now'') (\<lambda>checkedAt.
     rbind (evaluateAuthorizationTimeBounds
       \<lparr> atb_rules = rfi_rules input, atb_now = Iso checkedAt, atb_issuedAt = rfi_issuedAt input,
         atb_notBefore = rfi_notBefore input, atb_expiresAt = rfi_expiresAt input \<rparr>) (\<lambda>timeBounds.
     rbind (evaluateIntrospectionCache
       \<lparr> ici_rules = rfi_rules input, ici_now = Iso checkedAt, ici_cache = rfi_introspectionCache input,
         ici_introspectionError = rfi_introspectionError input \<rparr>) (\<lambda>introspectionCache.
     rbind (evaluateReplayProtection
       \<lparr> rpi_rules = rfi_rules input, rpi_now = Iso checkedAt, rpi_replayKey = rfi_replayKey input,
         rpi_subjectKind = rfi_replaySubjectKind input, rpi_ledgerEntry = rfi_replayLedgerEntry input \<rparr>) (\<lambda>replay.
     rbind (evaluateNonceFreshness
       \<lparr> nfi_rules = rfi_rules input, nfi_now = Iso checkedAt,
         nfi_presentationMode = rfi_presentationMode input, nfi_nonce = rfi_nonce input,
         nfi_ledgerEntry = rfi_nonceLedgerEntry input \<rparr>) (\<lambda>nonce.
     let status = deriveFreshnessStatus timeBounds introspectionCache replay nonce in return
       \<lparr> rfe_version = RELEASE_FRESHNESS_RULES_SPEC_VERSION,
         rfe_status = status,
         rfe_checkedAt = checkedAt,
         rfe_cacheState = ice_cacheState introspectionCache,
         rfe_degradedState = deriveDegradedState status (rfi_rules input) introspectionCache,
         rfe_failureReasons = uniqueFailureReasons
           (tbe_failureReasons timeBounds @ ice_failureReasons introspectionCache @
            rpe_failureReasons replay @ nfe_failureReasons nonce),
         rfe_timeBounds = timeBounds,
         rfe_introspectionCache = introspectionCache,
         rfe_replay = replay,
         rfe_nonce = nonce \<rparr>)))))"

section \<open>What each evaluation decides\<close>

text \<open>The instant an optional date string stands for; absent and empty strings stand for none.\<close>

definition instant :: "js_date option \<Rightarrow> timestamp option" where
  "instant d = Option.bind (truthy_date d) getTime"

abbreviation no_later :: "timestamp \<Rightarrow> timestamp option \<Rightarrow> bool" where
  "no_later now t \<equiv> pred_option (\<lambda>t. now \<le> t) t"

definition readable :: "js_date option \<Rightarrow> bool" where
  "readable d \<longleftrightarrow> truthy_date d = None \<or> instant d \<noteq> None"

lemma optional_timestamp_eq [simp]: "optional_timestamp d f = Inr t \<longleftrightarrow> t = instant d \<and> readable d"
  by (auto simp: optional_timestamp_def instant_def readable_def freshness_normalizeIsoTimestamp_def
      split: option.splits)

lemma raised_Nil [simp]: "(if b then [r] else []) = [] \<longleftrightarrow> \<not> b"
  by simp

lemma normalize_timestamp_eq [simp]: "freshness_normalizeIsoTimestamp d f = Inr t \<longleftrightarrow> getTime d = Some t"
  by (auto simp: freshness_normalizeIsoTimestamp_def split: option.splits)

lemma addSeconds_eq [simp]:
  "addSeconds t s = Inr u \<longleftrightarrow> u = t + s * 1000 \<and> \<bar>t + s * 1000\<bar> \<le> max_time_value"
  by (simp add: addSeconds_def)

definition within_time_bounds ::
  "freshness_rules \<Rightarrow> timestamp \<Rightarrow> timestamp option \<Rightarrow> timestamp option \<Rightarrow> timestamp option \<Rightarrow> bool" where
  "within_time_bounds rules now issuedAt notBefore expiresAt \<longleftrightarrow>
     (let skew = frr_clockSkewSeconds rules * 1000 in
      pred_option (\<lambda>t. t \<le> now + skew) notBefore \<and>
      pred_option (\<lambda>t. now - skew < t) expiresAt \<and>
      pred_option (\<lambda>t. t - skew \<le> now \<and> now - skew \<le> t + frr_maxTokenAgeSeconds rules * 1000) issuedAt)"

lemma time_bounds_decides:
  assumes "evaluateAuthorizationTimeBounds i = Inr e" and "atb_now i = Iso now"
  shows "tbe_valid e = within_time_bounds (atb_rules i) now (instant (atb_issuedAt i))
      (instant (atb_notBefore i)) (instant (atb_expiresAt i))"
    and "tbe_failureReasons e = [] \<longleftrightarrow> tbe_valid e"
proof -
  let ?iat = "instant (atb_issuedAt i)" and ?nbf = "instant (atb_notBefore i)"
    and ?exp = "instant (atb_expiresAt i)"
  show "tbe_valid e = within_time_bounds (atb_rules i) now ?iat ?nbf ?exp"
    using assms unfolding evaluateAuthorizationTimeBounds_def Let_def within_time_bounds_def
    by (cases ?iat; cases ?nbf; cases ?exp) (auto simp: not_less not_le)
  show "tbe_failureReasons e = [] \<longleftrightarrow> tbe_valid e"
    using assms unfolding evaluateAuthorizationTimeBounds_def Let_def by (auto split: prod.splits)
qed

text \<open>A cached answer is live until its time to live, its own expiry and that of the token have passed.\<close>

definition cache_live :: "freshness_rules \<Rightarrow> timestamp \<Rightarrow> introspection_cache_observation \<Rightarrow> bool" where
  "cache_live rules now c \<longleftrightarrow>
     no_later now (map_option (\<lambda>t. t + (if ico_active c then frr_positiveCacheTtlSeconds rules
       else frr_negativeCacheTtlSeconds rules) * 1000) (getTime (ico_checkedAt c))) \<and>
     no_later now (instant (ico_cacheExpiresAt c)) \<and>
     (ico_active c \<longrightarrow> no_later now (instant (ico_tokenExpiresAt c)))"

lemma earliest_three: "nullish (earliestIso [Some a, b, c]) a = min a (min (nullish b a) (nullish c a))"
  by (cases b; cases c) (simp_all add: earliestIso_def List.map_filter_simps min.commute min.left_commute)

lemma earliest_ge: "now \<le> nullish (earliestIso [Some a, b, c]) a \<longleftrightarrow> now \<le> a \<and> no_later now b \<and> no_later now c"
  by (cases b; cases c) (auto simp: earliest_three)

definition stale_usable :: "freshness_rules \<Rightarrow> timestamp \<Rightarrow> bool \<Rightarrow> introspection_cache_observation \<Rightarrow> bool" where
  "stale_usable rules now err c \<longleftrightarrow>
     err \<and> 0 < frr_staleIfErrorSeconds rules \<and> \<not> frr_requireFreshOnlineCheck rules \<and>
     cache_live rules (now - frr_staleIfErrorSeconds rules * 1000) c"

definition cache_status ::
  "freshness_rules \<Rightarrow> timestamp \<Rightarrow> bool \<Rightarrow> introspection_cache_observation option \<Rightarrow> introspection_cache_status" where
  "cache_status rules now err cache =
     (case cache of
        None \<Rightarrow> if frr_onlineIntrospectionRequired rules then Ics_miss else Ics_not_required
      | Some c \<Rightarrow>
          if ico_active c then
            if cache_live rules now c then Ics_fresh
            else if stale_usable rules now err c then Ics_stale_allowed else Ics_stale_denied
          else if cache_live rules now c then Ics_negative_hit else Ics_miss)"

lemma cache_decides:
  assumes "evaluateIntrospectionCache i = Inr e" and "ici_now i = Iso now"
  shows "ice_status e = cache_status (ici_rules i) now (ici_introspectionError i) (ici_cache i)"
    and "ice_failureReasons e = [] \<longleftrightarrow> ice_status e \<in> {Ics_fresh, Ics_stale_allowed, Ics_not_required} \<or>
      ice_status e = Ics_miss \<and> \<not> frr_onlineIntrospectionRequired (ici_rules i)"
proof -
  let ?rules = "ici_rules i" and ?err = "ici_introspectionError i"
  have "ice_status e = cache_status ?rules now ?err (ici_cache i) \<and>
      (ice_failureReasons e = [] \<longleftrightarrow> ice_status e \<in> {Ics_fresh, Ics_stale_allowed, Ics_not_required} \<or>
        ice_status e = Ics_miss \<and> \<not> frr_onlineIntrospectionRequired ?rules)"
  proof (cases "ici_cache i")
    case None
    then show ?thesis
      using assms by (auto simp: evaluateIntrospectionCache_def cache_status_def cache_evaluation_def)
  next
    case (Some c)
    let ?ttl = "if ico_active c then frr_positiveCacheTtlSeconds ?rules else frr_negativeCacheTtlSeconds ?rules"
    obtain t where t: "getTime (ico_checkedAt c) = Some t"
      using assms Some by (auto simp: evaluateIntrospectionCache_def Let_def)
    define until where "until = nullish (earliestIso [Some (t + ?ttl * 1000), instant (ico_cacheExpiresAt c),
        if ico_active c then instant (ico_tokenExpiresAt c) else None]) (t + ?ttl * 1000)"
    have live: "x \<le> until \<longleftrightarrow> cache_live ?rules x c" for x
      unfolding until_def earliest_ge by (simp add: cache_live_def t)
    have stale: "now \<le> until + z \<longleftrightarrow> cache_live ?rules (now - z) c" for z
      using live [of "now - z"] by auto
    show ?thesis
    proof (cases "ico_active c")
      case True
      then have "nullish (earliestIso [Some (t + frr_positiveCacheTtlSeconds ?rules * 1000),
          instant (ico_cacheExpiresAt c), instant (ico_tokenExpiresAt c)])
          (t + frr_positiveCacheTtlSeconds ?rules * 1000) = until"
        by (simp add: until_def)
      then show ?thesis
        using assms Some t True unfolding evaluateIntrospectionCache_def Let_def cache_status_def stale_usable_def
        by (auto simp: live stale cache_evaluation_def split: if_split_asm)
    next
      case False
      then have "nullish (earliestIso [Some (t + frr_negativeCacheTtlSeconds ?rules * 1000),
          instant (ico_cacheExpiresAt c), None]) (t + frr_negativeCacheTtlSeconds ?rules * 1000) = until"
        by (simp add: until_def)
      then show ?thesis
        using assms Some t False unfolding evaluateIntrospectionCache_def Let_def cache_status_def
        by (auto simp: live cache_evaluation_def split: if_split_asm)
    qed
  qed
  then show "ice_status e = cache_status ?rules now ?err (ici_cache i)"
    and "ice_failureReasons e = [] \<longleftrightarrow> ice_status e \<in> {Ics_fresh, Ics_stale_allowed, Ics_not_required} \<or>
      ice_status e = Ics_miss \<and> \<not> frr_onlineIntrospectionRequired ?rules"
    by blast+
qed

definition replay_recorded :: "timestamp \<Rightarrow> string \<Rightarrow> replay_ledger_entry option \<Rightarrow> bool" where
  "replay_recorded now key entry \<longleftrightarrow>
     (case entry of None \<Rightarrow> False | Some e \<Rightarrow> rle_key e = key \<and>
        (case getTime (rle_expiresAt e) of None \<Rightarrow> False | Some t \<Rightarrow> now \<le> t))"

definition replay_clear ::
  "freshness_rules \<Rightarrow> timestamp \<Rightarrow> string option \<Rightarrow> replay_ledger_entry option \<Rightarrow> bool" where
  "replay_clear rules now key entry \<longleftrightarrow>
     (frr_replayProtectionRequired rules \<longrightarrow>
        (case key of None \<Rightarrow> False | Some k \<Rightarrow> \<not> replay_recorded now (trim k) entry))"

lemma normalize_identifier_eq [simp]:
  "freshness_normalizeIdentifier v f = Inr r \<longleftrightarrow> r = map_option trim v \<and> r \<noteq> Some []"
  by (auto simp: freshness_normalizeIdentifier_def split: option.splits)

lemma replay_decides:
  assumes "evaluateReplayProtection i = Inr e" and "rpi_now i = Iso now"
  shows "rpe_status e \<in> {Rps_not_required, Rps_fresh} \<longleftrightarrow>
      replay_clear (rpi_rules i) now (rpi_replayKey i) (rpi_ledgerEntry i)"
    and "rpe_failureReasons e = [] \<longleftrightarrow> rpe_status e \<in> {Rps_not_required, Rps_fresh}"
    and "rpe_status e = Rps_replayed \<longleftrightarrow> frr_replayProtectionRequired (rpi_rules i) \<and>
      (\<exists>k. rpi_replayKey i = Some k \<and> replay_recorded now (trim k) (rpi_ledgerEntry i))"
proof -
  have "(rpe_status e \<in> {Rps_not_required, Rps_fresh} \<longleftrightarrow>
      replay_clear (rpi_rules i) now (rpi_replayKey i) (rpi_ledgerEntry i)) \<and>
    (rpe_failureReasons e = [] \<longleftrightarrow> rpe_status e \<in> {Rps_not_required, Rps_fresh}) \<and>
    (rpe_status e = Rps_replayed \<longleftrightarrow> frr_replayProtectionRequired (rpi_rules i) \<and>
      (\<exists>k. rpi_replayKey i = Some k \<and> replay_recorded now (trim k) (rpi_ledgerEntry i)))"
    using assms unfolding evaluateReplayProtection_def Let_def replay_clear_def replay_recorded_def
    by (cases "rpi_replayKey i"; cases "rpi_ledgerEntry i") (auto split: if_split_asm)
  then show "rpe_status e \<in> {Rps_not_required, Rps_fresh} \<longleftrightarrow>
      replay_clear (rpi_rules i) now (rpi_replayKey i) (rpi_ledgerEntry i)"
    and "rpe_failureReasons e = [] \<longleftrightarrow> rpe_status e \<in> {Rps_not_required, Rps_fresh}"
    and "rpe_status e = Rps_replayed \<longleftrightarrow> frr_replayProtectionRequired (rpi_rules i) \<and>
      (\<exists>k. rpi_replayKey i = Some k \<and> replay_recorded now (trim k) (rpi_ledgerEntry i))"
    by blast+
qed

definition nonce_accepted ::
  "freshness_rules \<Rightarrow> timestamp \<Rightarrow> release_presentation_mode \<Rightarrow> string option \<Rightarrow> nonce_ledger_entry option \<Rightarrow> bool" where
  "nonce_accepted rules now mode nonce entry \<longleftrightarrow>
     (let skew = frr_clockSkewSeconds rules * 1000 in
      case nonce of
        None \<Rightarrow> mode \<notin> set (frr_requireNonceForPresentationModes rules)
      | Some n \<Rightarrow>
          (case entry of
             None \<Rightarrow> False
           | Some e \<Rightarrow> nle_nonce e = trim n \<and> truthy_date (nle_consumedAt e) = None \<and>
               pred_option (\<lambda>t. t - skew \<le> now) (getTime (nle_issuedAt e)) \<and>
               pred_option (\<lambda>t. now - skew \<le> t) (getTime (nle_expiresAt e))))"

lemma nonce_decides:
  assumes "evaluateNonceFreshness i = Inr e" and "nfi_now i = Iso now"
  shows "nfe_status e \<in> {Nfs_not_required, Nfs_valid} \<longleftrightarrow>
      nonce_accepted (nfi_rules i) now (nfi_presentationMode i) (nfi_nonce i) (nfi_ledgerEntry i)"
    and "nfe_failureReasons e = [] \<longleftrightarrow> nfe_status e \<in> {Nfs_not_required, Nfs_valid}"
proof -
  have "(nfe_status e \<in> {Nfs_not_required, Nfs_valid} \<longleftrightarrow>
      nonce_accepted (nfi_rules i) now (nfi_presentationMode i) (nfi_nonce i) (nfi_ledgerEntry i)) \<and>
    (nfe_failureReasons e = [] \<longleftrightarrow> nfe_status e \<in> {Nfs_not_required, Nfs_valid})"
    using assms unfolding evaluateNonceFreshness_def Let_def nonce_accepted_def nonce_evaluation_def
    by (cases "nfi_nonce i"; cases "nfi_ledgerEntry i") (auto split: if_split_asm)
  then show "nfe_status e \<in> {Nfs_not_required, Nfs_valid} \<longleftrightarrow>
      nonce_accepted (nfi_rules i) now (nfi_presentationMode i) (nfi_nonce i) (nfi_ledgerEntry i)"
    and "nfe_failureReasons e = [] \<longleftrightarrow> nfe_status e \<in> {Nfs_not_required, Nfs_valid}"
    by blast+
qed

section \<open>When an authorization is fresh\<close>

text \<open>Everything but the cached introspection.\<close>

definition otherwise_fresh :: "release_freshness_input \<Rightarrow> timestamp \<Rightarrow> bool" where
  "otherwise_fresh i now \<longleftrightarrow>
     within_time_bounds (rfi_rules i) now (instant (rfi_issuedAt i)) (instant (rfi_notBefore i))
       (instant (rfi_expiresAt i)) \<and>
     replay_clear (rfi_rules i) now (rfi_replayKey i) (rfi_replayLedgerEntry i) \<and>
     nonce_accepted (rfi_rules i) now (rfi_presentationMode i) (rfi_nonce i) (rfi_nonceLedgerEntry i)"

lemma derive_status:
  "deriveFreshnessStatus tb c r n =
     (if tbe_valid tb \<and> rpe_status r \<in> {Rps_not_required, Rps_fresh} \<and>
         nfe_status n \<in> {Nfs_not_required, Nfs_valid} then
        case ice_status c of
          Ics_not_required \<Rightarrow> Fresh
        | Ics_fresh \<Rightarrow> Fresh
        | Ics_stale_allowed \<Rightarrow> Stale_allowed
        | Ics_miss \<Rightarrow> Indeterminate
        | _ \<Rightarrow> Invalid
      else Invalid)"
  by (cases "rpe_status r"; cases "nfe_status n"; cases "ice_status c")
    (simp_all add: deriveFreshnessStatus_def)

lemma freshness_decides:
  assumes "evaluateReleaseFreshness i = Inr e"
  defines "now \<equiv> rfe_checkedAt e"
    and "cache \<equiv> cache_status (rfi_rules i) (rfe_checkedAt e) (rfi_introspectionError i) (rfi_introspectionCache i)"
  shows "rfe_status e =
      (if otherwise_fresh i now then
         case cache of
           Ics_not_required \<Rightarrow> Fresh
         | Ics_fresh \<Rightarrow> Fresh
         | Ics_stale_allowed \<Rightarrow> Stale_allowed
         | Ics_miss \<Rightarrow> Indeterminate
         | _ \<Rightarrow> Invalid
       else Invalid)" (is ?status)
    and "rfe_failureReasons e = [] \<longleftrightarrow> otherwise_fresh i now \<and>
      (cache \<in> {Ics_fresh, Ics_stale_allowed, Ics_not_required} \<or>
       cache = Ics_miss \<and> \<not> frr_onlineIntrospectionRequired (rfi_rules i))" (is ?reasons)
proof -
  from assms(1) obtain t c r n where parts: "rfi_now i = Iso now"
    "evaluateAuthorizationTimeBounds \<lparr> atb_rules = rfi_rules i, atb_now = Iso now, atb_issuedAt = rfi_issuedAt i,
         atb_notBefore = rfi_notBefore i, atb_expiresAt = rfi_expiresAt i \<rparr> = Inr t"
    "evaluateIntrospectionCache \<lparr> ici_rules = rfi_rules i, ici_now = Iso now, ici_cache = rfi_introspectionCache i,
         ici_introspectionError = rfi_introspectionError i \<rparr> = Inr c"
    "evaluateReplayProtection \<lparr> rpi_rules = rfi_rules i, rpi_now = Iso now, rpi_replayKey = rfi_replayKey i,
         rpi_subjectKind = rfi_replaySubjectKind i, rpi_ledgerEntry = rfi_replayLedgerEntry i \<rparr> = Inr r"
    "evaluateNonceFreshness \<lparr> nfi_rules = rfi_rules i, nfi_now = Iso now,
         nfi_presentationMode = rfi_presentationMode i, nfi_nonce = rfi_nonce i,
         nfi_ledgerEntry = rfi_nonceLedgerEntry i \<rparr> = Inr n"
    and e: "rfe_status e = deriveFreshnessStatus t c r n"
      "rfe_failureReasons e = uniqueFailureReasons (tbe_failureReasons t @ ice_failureReasons c @
         rpe_failureReasons r @ nfe_failureReasons n)"
    by (cases "rfi_now i") (auto simp: evaluateReleaseFreshness_def now_def Let_def)
  note decides = time_bounds_decides [OF parts(2)] cache_decides [OF parts(3)]
    replay_decides(1,2) [OF parts(4)] nonce_decides [OF parts(5)]
  have cache: "ice_status c = cache"
    using decides(3) by (simp add: cache_def now_def)
  have other: "otherwise_fresh i now \<longleftrightarrow> tbe_valid t \<and> rpe_status r \<in> {Rps_not_required, Rps_fresh} \<and>
      nfe_status n \<in> {Nfs_not_required, Nfs_valid}"
    using decides(1,5,7) by (simp add: otherwise_fresh_def)
  show ?status
    unfolding e(1) derive_status other cache by simp
  show ?reasons
    unfolding e(2) uniqueFailureReasons_Nil_iff append_is_Nil_conv other
    using decides(2,4,6,8) cache by auto
qed

text \<open>The cached introspection, as far as it makes an authorization fresh.\<close>

definition cache_current :: "release_freshness_input \<Rightarrow> timestamp \<Rightarrow> bool" where
  "cache_current i now \<longleftrightarrow>
     (case rfi_introspectionCache i of
        None \<Rightarrow> \<not> frr_onlineIntrospectionRequired (rfi_rules i)
      | Some c \<Rightarrow> ico_active c \<and> cache_live (rfi_rules i) now c)"

text \<open>
  C22: An authorization is fresh exactly when its time claims hold within the clock skew and the
  maximal age, no live ledger entry records its replay key, its nonce is the unused current one
  (or none is demanded), and a live positive introspection is cached (or none is demanded). It
  is served stale exactly when only the cache has run out and the rules allow that on an
  introspection error. Where online introspection is required, no failure reason means one of
  the two.\<close>

theorem freshness_exact:
  assumes "evaluateReleaseFreshness i = Inr e"
  shows "(rfe_status e = Fresh \<longleftrightarrow> otherwise_fresh i (rfe_checkedAt e) \<and> cache_current i (rfe_checkedAt e)) \<and>
    (rfe_status e = Stale_allowed \<longleftrightarrow> otherwise_fresh i (rfe_checkedAt e) \<and>
       (\<exists>c. rfi_introspectionCache i = Some c \<and> ico_active c \<and> \<not> cache_live (rfi_rules i) (rfe_checkedAt e) c \<and>
          stale_usable (rfi_rules i) (rfe_checkedAt e) (rfi_introspectionError i) c)) \<and>
    (frr_onlineIntrospectionRequired (rfi_rules i) \<longrightarrow>
       (rfe_failureReasons e = [] \<longleftrightarrow> rfe_status e \<in> {Fresh, Stale_allowed}))"
proof (intro conjI impI)
  note decides = freshness_decides [OF assms]
  show "rfe_status e = Fresh \<longleftrightarrow> otherwise_fresh i (rfe_checkedAt e) \<and> cache_current i (rfe_checkedAt e)"
    unfolding decides(1) by (auto simp: cache_status_def cache_current_def split: option.splits)
  show "rfe_status e = Stale_allowed \<longleftrightarrow> otherwise_fresh i (rfe_checkedAt e) \<and>
       (\<exists>c. rfi_introspectionCache i = Some c \<and> ico_active c \<and> \<not> cache_live (rfi_rules i) (rfe_checkedAt e) c \<and>
          stale_usable (rfi_rules i) (rfe_checkedAt e) (rfi_introspectionError i) c)"
    unfolding decides(1) by (auto simp: cache_status_def split: option.splits)
  show "rfe_failureReasons e = [] \<longleftrightarrow> rfe_status e \<in> {Fresh, Stale_allowed}"
    if "frr_onlineIntrospectionRequired (rfi_rules i)"
    unfolding decides using that by (auto split: introspection_cache_status.splits)
qed

section \<open>The replay window\<close>

lemma rules_fields:
  "frr_replayProtectionRequired (resolveFreshnessRules p) = vpr_replayProtectionRequired p"
  "frr_replayWindowSeconds (resolveFreshnessRules p) =
     (if vpr_replayProtectionRequired p
      then min (fbl_replayWindowSeconds (RISK_FRESHNESS_BASELINES (vpr_riskClass p)))
        (fbl_replayWindowSeconds (BOUNDARY_FRESHNESS_BASELINES (vpr_boundaryKind p))) else 0)"
  "frr_maxTokenAgeSeconds (resolveFreshnessRules p) =
     min (fbl_maxTokenAgeSeconds (RISK_FRESHNESS_BASELINES (vpr_riskClass p)))
       (fbl_maxTokenAgeSeconds (BOUNDARY_FRESHNESS_BASELINES (vpr_boundaryKind p)))"
  by (simp_all add: resolveFreshnessRules_def Let_def)

lemma replay_window_short:
  "frr_replayWindowSeconds (resolveFreshnessRules p) < frr_maxTokenAgeSeconds (resolveFreshnessRules p)"
  unfolding rules_fields by (cases "vpr_riskClass p"; cases "vpr_boundaryKind p") simp_all

lemma windows_nonnegative:
  "0 \<le> frr_replayWindowSeconds (resolveFreshnessRules p) \<and> 0 \<le> frr_clockSkewSeconds (resolveFreshnessRules p)"
  unfolding rules_fields
  by (cases "vpr_riskClass p"; cases "vpr_boundaryKind p") (simp_all add: resolveFreshnessRules_def Let_def)

definition presentation ::
  "freshness_rules \<Rightarrow> timestamp \<Rightarrow> string \<Rightarrow> replay_ledger_entry option \<Rightarrow> replay_protection_input" where
  "presentation rules now key entry =
     \<lparr> rpi_rules = rules, rpi_now = Iso now, rpi_replayKey = Some key,
       rpi_subjectKind = Some Rsk_release_token, rpi_ledgerEntry = entry \<rparr>"

text \<open>The ledger entry of a first presentation, kept until the instant its evaluation names.\<close>

definition ledger_entry_of :: "string \<Rightarrow> timestamp \<Rightarrow> timestamp \<Rightarrow> replay_ledger_entry" where
  "ledger_entry_of key now until =
     \<lparr> rle_subjectKind = Rsk_release_token, rle_key = trim key, rle_firstSeenAt = Iso now,
       rle_expiresAt = Iso until \<rparr>"

text \<open>
  C23: A presentation that passes the replay check names the instant its ledger entry is to be
  kept until, one replay window after it; a second presentation of the same key is detected
  exactly up to that instant and passes again afterwards. The window is shorter than the maximal
  age of tokens under every verification profile, so the check does not cover the life of a
  token: when its entry is dropped, a token is still within the age the time bounds accept exactly
  if it was first presented earlier than the maximal age plus clock skew less the window after
  its issue.\<close>

theorem replay_window_exact:
  assumes "evaluateReplayProtection (presentation (resolveFreshnessRules p) now key entry) = Inr e"
    and "rpe_storeUntil e = Some until"
    and "evaluateReplayProtection
      (presentation (resolveFreshnessRules p) now' key (Some (ledger_entry_of key now until))) = Inr e'"
  shows "rpe_status e = Rps_fresh \<and> (rpe_status e' = Rps_replayed \<longleftrightarrow> now' \<le> until) \<and>
    (rpe_status e' = Rps_fresh \<longleftrightarrow> until < now') \<and>
    until = now + frr_replayWindowSeconds (resolveFreshnessRules p) * 1000 \<and>
    frr_replayWindowSeconds (resolveFreshnessRules p) < frr_maxTokenAgeSeconds (resolveFreshnessRules p) \<and>
    (\<forall>issued. issued \<le> now \<longrightarrow>
      (within_time_bounds (resolveFreshnessRules p) (until + 1) (Some issued) None None \<longleftrightarrow>
       now < issued + (frr_maxTokenAgeSeconds (resolveFreshnessRules p) +
         frr_clockSkewSeconds (resolveFreshnessRules p) - frr_replayWindowSeconds (resolveFreshnessRules p)) * 1000))"
proof -
  let ?rules = "resolveFreshnessRules p"
  have first: "rpe_status e = Rps_fresh \<and> frr_replayProtectionRequired ?rules \<and>
      until = now + frr_replayWindowSeconds ?rules * 1000"
    using assms(1,2) unfolding evaluateReplayProtection_def presentation_def Let_def
    by (cases entry) (auto split: if_split_asm)
  moreover have "(rpe_status e' = Rps_replayed \<longleftrightarrow> now' \<le> until) \<and> (rpe_status e' = Rps_fresh \<longleftrightarrow> until < now')"
    using assms(3) first unfolding evaluateReplayProtection_def presentation_def ledger_entry_of_def Let_def
    by (auto split: if_split_asm)
  moreover have "within_time_bounds ?rules (until + 1) (Some issued) None None \<longleftrightarrow>
      now < issued + (frr_maxTokenAgeSeconds ?rules + frr_clockSkewSeconds ?rules - frr_replayWindowSeconds ?rules) * 1000"
    if "issued \<le> now" for issued
    using that windows_nonnegative [of p] first
    by (auto simp: within_time_bounds_def Let_def left_diff_distrib distrib_right)
  ultimately show ?thesis
    using replay_window_short [of p] by simp
qed

section \<open>Witnesses\<close>

definition advisory_profile :: verification_profile where
  "advisory_profile =
     \<lparr> vpr_version = VERIFICATION_PROFILE_MATRIX_SPEC_VERSION,
       vpr_id = ''verification-profile:decision-support:R1:http-request'',
       vpr_consequenceType = Decision_support, vpr_riskClass = R1, vpr_boundaryKind = Http_request,
       vpr_verificationModes = [Offline_signature], vpr_onlineIntrospectionRequired = False,
       vpr_allowedPresentationModes = [Bearer_release_token, Dpop_bound_token, Http_message_signature],
       vpr_senderConstrainedPresentationModes = [Dpop_bound_token, Http_message_signature],
       vpr_policyProvenanceRequired = False, vpr_senderConstraint = Constraint_recommended,
       vpr_replayProtectionRequired = True, vpr_cacheBudget = cache_budget 60 15 30 False,
       vpr_overridePosture = Override_not_allowed, vpr_failClosed = True \<rparr>"

lemma advisory_profile_resolved: "profile_for Decision_support R1 Http_request = Inr advisory_profile"
  by (simp add: profile_for_def resolveVerificationProfile_def assertBoundarySupportsConsequence_def
      mergeVerificationModes_def sortedVerificationModes_def ENFORCEMENT_VERIFICATION_MODES_def
      sortedPresentationModes_def RELEASE_PRESENTATION_MODES_def senderConstrainedModes_def
      SENDER_CONSTRAINED_PRESENTATION_MODES_def senderConstraintMode_def
      mergeCacheBudget_def verificationProfileId_def advisory_profile_def Let_def)

lemma advisory_rules:
  "frr_onlineIntrospectionRequired (resolveFreshnessRules advisory_profile) = False"
  "frr_clockSkewSeconds (resolveFreshnessRules advisory_profile) = 60"
  "frr_maxTokenAgeSeconds (resolveFreshnessRules advisory_profile) = 900"
  "frr_replayProtectionRequired (resolveFreshnessRules advisory_profile) = True"
  "frr_replayWindowSeconds (resolveFreshnessRules advisory_profile) = 120"
  "frr_requireNonceForPresentationModes (resolveFreshnessRules advisory_profile) = []"
  by (simp_all add: resolveFreshnessRules_def advisory_profile_def requiredNonceModes_def Let_def)

text \<open>A bearer token issued at instant 0, valid for ten minutes, presented at an instant.\<close>

definition bearer_presentation :: "timestamp \<Rightarrow> replay_ledger_entry option \<Rightarrow> release_freshness_input" where
  "bearer_presentation now entry =
     \<lparr> rfi_rules = resolveFreshnessRules advisory_profile, rfi_now = Iso now,
       rfi_presentationMode = Bearer_release_token, rfi_issuedAt = Some (Iso 0), rfi_notBefore = Some (Iso 0),
       rfi_expiresAt = Some (Iso 600000), rfi_introspectionCache = None, rfi_introspectionError = False,
       rfi_replayKey = Some ''rt1'', rfi_replaySubjectKind = Some Rsk_release_token,
       rfi_replayLedgerEntry = entry, rfi_nonce = None, rfi_nonceLedgerEntry = None \<rparr>"

lemma trim_rt1: "trim ''rt1'' = ''rt1''"
  by (simp add: trim_def js_whitespace_def)

lemma bearer_evaluated:
  "\<exists>e. evaluateReleaseFreshness
      (bearer_presentation 121000 (Some (ledger_entry_of ''rt1'' 0 120000))) = Inr e \<and> rfe_checkedAt e = 121000"
  by (simp add: evaluateReleaseFreshness_def bearer_presentation_def evaluateAuthorizationTimeBounds_def
      evaluateIntrospectionCache_def evaluateReplayProtection_def evaluateNonceFreshness_def
      optional_timestamp_def freshness_normalizeIsoTimestamp_def freshness_normalizeIdentifier_def
      addSeconds_def toISO_def max_time_value_def ledger_entry_of_def trim_rt1 advisory_rules Let_def
      del: rbind_eq_Inr)

theorem freshness_exact_witness:
  "\<exists>e. evaluateReleaseFreshness
      (bearer_presentation 121000 (Some (ledger_entry_of ''rt1'' 0 120000))) = Inr e \<and> rfe_status e = Fresh"
proof -
  let ?i = "bearer_presentation 121000 (Some (ledger_entry_of ''rt1'' 0 120000))"
  obtain e where e: "evaluateReleaseFreshness ?i = Inr e" "rfe_checkedAt e = 121000"
    using bearer_evaluated by blast
  have "otherwise_fresh ?i 121000" "cache_current ?i 121000"
    by (simp_all add: otherwise_fresh_def cache_current_def bearer_presentation_def within_time_bounds_def
        replay_clear_def replay_recorded_def nonce_accepted_def instant_def ledger_entry_of_def
        advisory_rules trim_rt1 Let_def)
  then show ?thesis using freshness_exact [OF e(1)] e by simp
qed

theorem replay_window_exact_witness:
  "\<exists>e. evaluateReplayProtection (presentation (resolveFreshnessRules advisory_profile) 121000 ''rt1''
      (Some (ledger_entry_of ''rt1'' 0 120000))) = Inr e \<and> rpe_status e = Rps_fresh \<and>
    within_time_bounds (resolveFreshnessRules advisory_profile) 120001 (Some 0) None None \<and>
    \<not> within_time_bounds (resolveFreshnessRules advisory_profile) 120001 (Some (- 840000)) None None"
proof -
  let ?rules = "resolveFreshnessRules advisory_profile"
  note eval = evaluateReplayProtection_def presentation_def freshness_normalizeIsoTimestamp_def
    freshness_normalizeIdentifier_def addSeconds_def toISO_def max_time_value_def ledger_entry_of_def
    trim_rt1 advisory_rules
  obtain e where e: "evaluateReplayProtection (presentation ?rules 0 ''rt1'' None) = Inr e"
    "rpe_storeUntil e = Some 120000"
    by (simp add: eval Let_def del: rbind_eq_Inr)
  obtain e' where e': "evaluateReplayProtection
      (presentation ?rules 121000 ''rt1'' (Some (ledger_entry_of ''rt1'' 0 120000))) = Inr e'"
    by (simp add: eval Let_def del: rbind_eq_Inr)
  note exact = replay_window_exact [OF e e']
  have "within_time_bounds ?rules (120000 + 1) (Some issued) None None \<longleftrightarrow> 0 < issued + 840000"
    if "issued \<le> 0" for issued
    using exact that by (simp add: advisory_rules)
  from this [of 0] this [of "- 840000"] exact e' show ?thesis by simp
qed

end
