(* ===== verification/Dpop.thy ===== *)
theory Dpop
  imports Freshness Release_Token
begin

text \<open>
  Proof of possession for presented tokens: src/release-enforcement-plane/dpop.ts.

  A sender-constrained token names the thumbprint of a key. With every request the sender
  presents a proof: a token signed with that key over the method and target of the request, the
  hash of the presented token and, where demanded, a nonce. The JOSE library, the URL parser and
  the token hash are the record \<open>dpop_api\<close>, an argument of the operations. Decoded headers and
  payloads are JSON, so members of an unexpected type are part of the model.
\<close>

section \<open>The libraries\<close>

record dpop_header =
  dph_typ :: "string option"
  dph_alg :: "json option"
  dph_jwk :: "json option"

type_synonym jwt_payload = "(string \<times> json) list"

text \<open>
  \<open>dpa_decode\<close> is \<open>decodeProtectedHeader\<close> with \<open>decodeJwt\<close> (\<open>None\<close> when one of them throws),
  \<open>dpa_url\<close> parses an absolute URL and renders it without query and fragment,
  \<open>dpa_tokenHash\<close> is the base64url SHA-256 digest of a text.
\<close>

record dpop_api =
  dpa_decode :: "string \<Rightarrow> (dpop_header \<times> jwt_payload) option"
  dpa_thumbprint :: "json \<Rightarrow> string result"
  dpa_importJWK :: "json \<Rightarrow> string \<Rightarrow> string result"
  dpa_verify :: "string \<Rightarrow> string \<Rightarrow> unit result"
  dpa_sign :: "string \<Rightarrow> dpop_header \<Rightarrow> jwt_payload \<Rightarrow> string result"
  dpa_url :: "string \<Rightarrow> string result"
  dpa_tokenHash :: "string \<Rightarrow> string"

section \<open>Data\<close>

definition DPOP_PRESENTATION_SPEC_VERSION :: string where
  "DPOP_PRESENTATION_SPEC_VERSION = ''attestor.release-enforcement-dpop.v1''"

definition DPOP_PROOF_JWT_TYPE :: string where
  "DPOP_PROOF_JWT_TYPE = ''dpop+jwt''"

datatype dpop_signing_algorithm = ES256 | ES384 | ES512 | Dpop_EdDSA | RS256 | PS256

fun dpop_algorithm_str :: "dpop_signing_algorithm \<Rightarrow> string" where
  "dpop_algorithm_str ES256 = ''ES256''"
| "dpop_algorithm_str ES384 = ''ES384''"
| "dpop_algorithm_str ES512 = ''ES512''"
| "dpop_algorithm_str Dpop_EdDSA = ''EdDSA''"
| "dpop_algorithm_str RS256 = ''RS256''"
| "dpop_algorithm_str PS256 = ''PS256''"

definition DEFAULT_DPOP_SIGNING_ALGORITHM :: dpop_signing_algorithm where
  "DEFAULT_DPOP_SIGNING_ALGORITHM = ES256"

definition DEFAULT_ACCEPTED_DPOP_ALGORITHMS :: "dpop_signing_algorithm list" where
  "DEFAULT_ACCEPTED_DPOP_ALGORITHMS = [DEFAULT_DPOP_SIGNING_ALGORITHM, Dpop_EdDSA]"

definition DEFAULT_DPOP_MAX_PROOF_AGE_SECONDS :: int where
  "DEFAULT_DPOP_MAX_PROOF_AGE_SECONDS = 120"

definition DEFAULT_DPOP_CLOCK_SKEW_SECONDS :: int where
  "DEFAULT_DPOP_CLOCK_SKEW_SECONDS = 30"

record create_dpop_proof_input =
  cdp_privateJwk :: json
  cdp_publicJwk :: jwt_payload
  cdp_algorithm :: "dpop_signing_algorithm option"
  cdp_httpMethod :: string
  cdp_httpUri :: string
  cdp_accessToken :: "string option"
  cdp_nonce :: "string option"
  cdp_proofJti :: "string option"
  cdp_issuedAt :: "js_date option"

record dpop_proof =
  dpp_version :: string
  dpp_proofJwt :: string
  dpp_proofJti :: string
  dpp_httpMethod :: string
  dpp_httpUri :: string
  dpp_issuedAt :: timestamp
  dpp_accessTokenHash :: "string option"
  dpp_nonce :: "string option"
  dpp_publicKeyThumbprint :: string
  dpp_publicJwk :: jwt_payload

record verify_dpop_proof_input =
  vdp_proofJwt :: string
  vdp_httpMethod :: string
  vdp_httpUri :: string
  vdp_accessToken :: "string option"
  vdp_expectedJwkThumbprint :: "string option"
  vdp_expectedNonce :: "string option"
  vdp_now :: js_date
  vdp_maxProofAgeSeconds :: "int option"
  vdp_clockSkewSeconds :: "int option"
  vdp_acceptedAlgorithms :: "dpop_signing_algorithm list option"
  vdp_replayLedgerEntry :: "replay_ledger_entry option"

record dpop_proof_verification =
  dpv_version :: string
  dpv_valid :: bool
  dpv_checkedAt :: timestamp
  dpv_proofJti :: "string option"
  dpv_httpMethod :: "string option"
  dpv_httpUri :: "string option"
  dpv_issuedAt :: "timestamp option"
  dpv_accessTokenHash :: "string option"
  dpv_nonce :: "string option"
  dpv_publicKeyThumbprint :: "string option"
  dpv_replayKey :: "string option"
  dpv_failureReasons :: "enforcement_failure_reason list"

section \<open>Helpers\<close>

definition char_upper :: "char \<Rightarrow> char" where
  "char_upper c =
     (let n = of_char c :: nat in
      if 97 \<le> n \<and> n \<le> 122 \<or> 224 \<le> n \<and> n \<le> 254 \<and> n \<noteq> 247 then char_of (n - 32) else c)"

text \<open>\<open>toUpperCase\<close> on 8-bit strings; the sharp s becomes two characters.\<close>

definition toUpperCase :: "string \<Rightarrow> string" where
  "toUpperCase s = concat (map (\<lambda>c. if of_char c = (223::nat) then ''SS'' else [char_upper c]) s)"

definition dpop_normalizeIdentifier :: "string \<Rightarrow> string \<Rightarrow> string result" where
  "dpop_normalizeIdentifier value fieldName =
     (if trim value = [] then throw (Error (''DPoP '' @ fieldName @ '' requires a non-empty value.''))
      else return (trim value))"

definition normalizeHttpMethod :: "string \<Rightarrow> string result" where
  "normalizeHttpMethod method =
     rbind (dpop_normalizeIdentifier method ''httpMethod'') (\<lambda>m. return (toUpperCase m))"

definition dpop_normalizeIsoTimestamp :: "js_date \<Rightarrow> string \<Rightarrow> timestamp result" where
  "dpop_normalizeIsoTimestamp value fieldName =
     (case getTime value of
        None \<Rightarrow> throw (Error (''DPoP '' @ fieldName @ '' must be a valid ISO timestamp.''))
      | Some t \<Rightarrow> return t)"

definition epochSeconds :: "timestamp \<Rightarrow> int" where
  "epochSeconds value = value div 1000"

definition normalizeDpopHttpUri :: "dpop_api \<Rightarrow> string \<Rightarrow> string result" where
  "normalizeDpopHttpUri api uri = rbind (dpop_normalizeIdentifier uri ''httpUri'') (dpa_url api)"

definition dpopAccessTokenHash :: "dpop_api \<Rightarrow> string \<Rightarrow> string" where
  "dpopAccessTokenHash api accessToken = dpa_tokenHash api accessToken"

definition dpopReplayKey :: "string \<Rightarrow> string result" where
  "dpopReplayKey proofJti =
     rbind (dpop_normalizeIdentifier proofJti ''proofJti'') (\<lambda>jti. return (''dpop-proof:'' @ jti))"

definition publicJwkForHeader :: "jwt_payload \<Rightarrow> jwt_payload" where
  "publicJwkForHeader jwk =
     filter (\<lambda>(name, _). name \<notin> {''d'', ''p'', ''q'', ''dp'', ''dq'', ''qi'', ''k'', ''key_ops'', ''ext''}) jwk"

fun headerContainsPrivateKey :: "json \<Rightarrow> bool" where
  "headerContainsPrivateKey (JObject members) =
     list_ex (\<lambda>name. name \<in> fst ` set members) [''d'', ''p'', ''q'', ''dp'', ''dq'', ''qi'', ''k'']"
| "headerContainsPrivateKey _ = False"

text \<open>
  The algorithm of a decoded header is whatever JSON the sender wrote: a falsy value is not
  accepted, another value that is not a string has no \<open>startsWith\<close>.
\<close>

definition falsy_json :: "json option \<Rightarrow> bool" where
  "falsy_json v \<longleftrightarrow>
     v \<in> {None, Some JUndefined, Some JNull, Some (JBool False), Some (JNumber (Num 0)), Some (JString [])}"

definition algorithmIsAccepted ::
  "json option \<Rightarrow> dpop_signing_algorithm list \<Rightarrow> bool result" where
  "algorithmIsAccepted algorithm acceptedAlgorithms =
     (if falsy_json algorithm then return False
      else case algorithm of
        Some (JString s) \<Rightarrow>
          if s = ''none'' \<or> take 2 s = ''HS'' then return False
          else return (s \<in> set (map dpop_algorithm_str acceptedAlgorithms))
      | _ \<Rightarrow> throw (Error ''algorithm.startsWith is not a function''))"

definition claimString :: "jwt_payload \<Rightarrow> string \<Rightarrow> string option" where
  "claimString payload claim =
     (case map_of payload claim of
        Some (JString s) \<Rightarrow> if trim s \<noteq> [] then Some s else None
      | _ \<Rightarrow> None)"

definition claimNumber :: "jwt_payload \<Rightarrow> string \<Rightarrow> int option" where
  "claimNumber payload claim =
     (case map_of payload claim of Some (JNumber (Num n)) \<Rightarrow> Some n | _ \<Rightarrow> None)"

definition proofIssuedAt :: "int option \<Rightarrow> timestamp option result" where
  "proofIssuedAt iat =
     (case iat of None \<Rightarrow> return None | Some n \<Rightarrow> rbind (toISO (n * 1000)) (\<lambda>t. return (Some t)))"

definition failureVerification ::
  "timestamp \<Rightarrow> enforcement_failure_reason list \<Rightarrow> jwt_payload option \<Rightarrow> dpop_proof_verification result" where
  "failureVerification checkedAt failureReasons payload =
     (let claim = (\<lambda>name. Option.bind payload (\<lambda>p. claimString p name)) in
      rbind (proofIssuedAt (Option.bind payload (\<lambda>p. claimNumber p ''iat''))) (\<lambda>issuedAt.
      rbind (case claim ''jti'' of
               None \<Rightarrow> return None
             | Some jti \<Rightarrow> rbind (dpopReplayKey jti) (\<lambda>k. return (Some k))) (\<lambda>replayKey. return
        \<lparr> dpv_version = DPOP_PRESENTATION_SPEC_VERSION,
          dpv_valid = False,
          dpv_checkedAt = checkedAt,
          dpv_proofJti = claim ''jti'',
          dpv_httpMethod = claim ''htm'',
          dpv_httpUri = claim ''htu'',
          dpv_issuedAt = issuedAt,
          dpv_accessTokenHash = claim ''ath'',
          dpv_nonce = claim ''nonce'',
          dpv_publicKeyThumbprint = None,
          dpv_replayKey = replayKey,
          dpv_failureReasons = uniqueFailureReasons failureReasons \<rparr>)))"

definition proofTimeFailureReasons ::
  "int \<Rightarrow> timestamp \<Rightarrow> int \<Rightarrow> int \<Rightarrow> enforcement_failure_reason list" where
  "proofTimeFailureReasons iat now maxProofAgeSeconds clockSkewSeconds =
     (let now = epochSeconds now in
      (if now + clockSkewSeconds < iat then [Fr_future_issued_at] else []) @
      (if maxProofAgeSeconds + clockSkewSeconds < now - iat then [Fr_stale_authorization] else []))"

section \<open>Creating a proof\<close>

text \<open>The claims and the header that are signed.\<close>

definition dpop_payload ::
  "string \<Rightarrow> string \<Rightarrow> string \<Rightarrow> int \<Rightarrow> string option \<Rightarrow> string option \<Rightarrow> jwt_payload" where
  "dpop_payload proofJti httpMethod httpUri iat accessTokenHash nonce =
     [(''jti'', JString proofJti), (''htm'', JString httpMethod), (''htu'', JString httpUri),
      (''iat'', JNumber (Num iat))] @
     (case truthy_str accessTokenHash of None \<Rightarrow> [] | Some h \<Rightarrow> [(''ath'', JString h)]) @
     (case truthy_str nonce of None \<Rightarrow> [] | Some n \<Rightarrow> [(''nonce'', JString n)])"

definition dpop_header_of :: "dpop_signing_algorithm \<Rightarrow> jwt_payload \<Rightarrow> dpop_header" where
  "dpop_header_of algorithm publicJwk =
     \<lparr> dph_typ = Some DPOP_PROOF_JWT_TYPE, dph_alg = Some (JString (dpop_algorithm_str algorithm)),
       dph_jwk = Some (JObject publicJwk) \<rparr>"

definition createDpopProof ::
  "dpop_api \<Rightarrow> int \<Rightarrow> string \<Rightarrow> create_dpop_proof_input \<Rightarrow> dpop_proof result" where
  "createDpopProof api now uuid input =
     (let algorithm = nullish (cdp_algorithm input) DEFAULT_DPOP_SIGNING_ALGORITHM in
      rbind (normalizeHttpMethod (cdp_httpMethod input)) (\<lambda>httpMethod.
      rbind (normalizeDpopHttpUri api (cdp_httpUri input)) (\<lambda>httpUri.
      rbind (dpop_normalizeIsoTimestamp (nullish (cdp_issuedAt input) (Iso now)) ''issuedAt'') (\<lambda>issuedAt.
      let proofJti = nullish (cdp_proofJti input) (''dpop_'' @ uuid);
          publicJwk = set_member ''alg'' (JString (dpop_algorithm_str algorithm))
            (publicJwkForHeader (cdp_publicJwk input))
      in
      rbind (dpa_thumbprint api (JObject publicJwk)) (\<lambda>publicKeyThumbprint.
      let accessTokenHash = map_option (dpopAccessTokenHash api) (truthy_str (cdp_accessToken input));
          payload = dpop_payload proofJti httpMethod httpUri (epochSeconds issuedAt) accessTokenHash
            (cdp_nonce input)
      in
      rbind (dpa_importJWK api (cdp_privateJwk input) (dpop_algorithm_str algorithm)) (\<lambda>privateKey.
      rbind (dpa_sign api privateKey (dpop_header_of algorithm publicJwk) payload) (\<lambda>proofJwt. return
        \<lparr> dpp_version = DPOP_PRESENTATION_SPEC_VERSION,
          dpp_proofJwt = proofJwt,
          dpp_proofJti = proofJti,
          dpp_httpMethod = httpMethod,
          dpp_httpUri = httpUri,
          dpp_issuedAt = issuedAt,
          dpp_accessTokenHash = accessTokenHash,
          dpp_nonce = cdp_nonce input,
          dpp_publicKeyThumbprint = publicKeyThumbprint,
          dpp_publicJwk = publicJwk \<rparr>)))))))"

section \<open>Verifying a proof\<close>

text \<open>\<open>typeof header.jwk\<close> is \<open>'object'\<close> for arrays and objects; \<open>null\<close> is excluded.\<close>

fun is_object :: "json option \<Rightarrow> bool" where
  "is_object (Some (JObject _)) = True"
| "is_object (Some (JArray _)) = True"
| "is_object _ = False"

text \<open>The signature of a proof under the key of its own header, with the thumbprint of that key.\<close>

definition dpop_signature :: "dpop_api \<Rightarrow> string \<Rightarrow> json \<Rightarrow> json option \<Rightarrow> string result" where
  "dpop_signature api proofJwt publicJwk alg =
     rbind (dpa_thumbprint api publicJwk) (\<lambda>publicKeyThumbprint.
     rbind (dpa_importJWK api publicJwk (case alg of Some (JString a) \<Rightarrow> a | _ \<Rightarrow> [])) (\<lambda>publicKey.
     rbind (dpa_verify api proofJwt publicKey) (\<lambda>_. return publicKeyThumbprint)))"

definition verifyDpopProof ::
  "dpop_api \<Rightarrow> verify_dpop_proof_input \<Rightarrow> dpop_proof_verification result" where
  "verifyDpopProof api input =
     rbind (dpop_normalizeIsoTimestamp (vdp_now input) ''now'') (\<lambda>checkedAt.
     let acceptedAlgorithms = nullish (vdp_acceptedAlgorithms input) DEFAULT_ACCEPTED_DPOP_ALGORITHMS in
     case dpa_decode api (vdp_proofJwt input) of
       None \<Rightarrow> failureVerification checkedAt [Fr_invalid_signature] None
     | Some (header, payload) \<Rightarrow>
         rbind (algorithmIsAccepted (dph_alg header) acceptedAlgorithms) (\<lambda>accepted.
         let proofJti = claimString payload ''jti'';
             htm = claimString payload ''htm'';
             htu = claimString payload ''htu'';
             iat = claimNumber payload ''iat'';
             ath = claimString payload ''ath'';
             nonce = claimString payload ''nonce'';
             proofShapeFailures =
               (if dph_typ header \<noteq> Some DPOP_PROOF_JWT_TYPE then [Fr_invalid_signature] else []) @
               (if \<not> accepted then [Fr_invalid_signature] else []) @
               (if \<not> is_object (dph_jwk header) \<or> headerContainsPrivateKey (the (dph_jwk header))
                then [Fr_invalid_signature] else []) @
               (if proofJti = None \<or> htm = None \<or> htu = None \<or> iat = None
                then [Fr_invalid_signature] else [])
         in
         if proofShapeFailures \<noteq> [] then failureVerification checkedAt proofShapeFailures (Some payload)
         else
           case dpop_signature api (vdp_proofJwt input) (the (dph_jwk header)) (dph_alg header) of
             Inl _ \<Rightarrow> failureVerification checkedAt [Fr_invalid_signature] (Some payload)
           | Inr publicKeyThumbprint \<Rightarrow>
               rbind (normalizeHttpMethod (vdp_httpMethod input)) (\<lambda>expectedMethod.
               rbind (normalizeDpopHttpUri api (vdp_httpUri input)) (\<lambda>expectedUri.
               let expectedAccessTokenHash =
                     map_option (dpopAccessTokenHash api) (truthy_str (vdp_accessToken input))
               in
               rbind (dpopReplayKey (the proofJti)) (\<lambda>replayKey.
               let failureReasons =
                     (if htm \<noteq> Some expectedMethod \<or> htu \<noteq> Some expectedUri
                      then [Fr_binding_mismatch] else []) @
                     (if ath \<noteq> expectedAccessTokenHash then [Fr_binding_mismatch] else []) @
                     (case vdp_expectedJwkThumbprint input of
                        None \<Rightarrow> []
                      | Some t \<Rightarrow> if publicKeyThumbprint \<noteq> t then [Fr_binding_mismatch] else []) @
                     (case vdp_expectedNonce input of
                        None \<Rightarrow> []
                      | Some n \<Rightarrow>
                          if nonce = None then [Fr_missing_nonce]
                          else if nonce \<noteq> Some n then [Fr_invalid_nonce] else []) @
                     proofTimeFailureReasons (the iat) checkedAt
                       (nullish (vdp_maxProofAgeSeconds input) DEFAULT_DPOP_MAX_PROOF_AGE_SECONDS)
                       (nullish (vdp_clockSkewSeconds input) DEFAULT_DPOP_CLOCK_SKEW_SECONDS) @
                     (case vdp_replayLedgerEntry input of
                        None \<Rightarrow> []
                      | Some entry \<Rightarrow>
                          if rle_key entry = replayKey \<and>
                             (case getTime (rle_expiresAt entry) of None \<Rightarrow> False | Some t \<Rightarrow> checkedAt \<le> t)
                          then [Fr_replayed_authorization] else []);
                   uniqueFailures = uniqueFailureReasons failureReasons
               in
               rbind (proofIssuedAt iat) (\<lambda>issuedAt. return
                 \<lparr> dpv_version = DPOP_PRESENTATION_SPEC_VERSION,
                   dpv_valid = (uniqueFailures = []),
                   dpv_checkedAt = checkedAt,
                   dpv_proofJti = proofJti,
                   dpv_httpMethod = htm,
                   dpv_httpUri = htu,
                   dpv_issuedAt = issuedAt,
                   dpv_accessTokenHash = ath,
                   dpv_nonce = nonce,
                   dpv_publicKeyThumbprint = Some publicKeyThumbprint,
                   dpv_replayKey = Some replayKey,
                   dpv_failureReasons = uniqueFailures \<rparr>))))))"

section \<open>When a proof is valid\<close>

lemma failure_invalid: "failureVerification c r p = Inr v \<Longrightarrow> \<not> dpv_valid v"
  by (auto simp: failureVerification_def Let_def)

lemma algorithm_names:
  "dpop_algorithm_str a \<noteq> []" "dpop_algorithm_str a \<noteq> ''none''" "take 2 (dpop_algorithm_str a) \<noteq> ''HS''"
  by (cases a; simp)+

lemma algorithm_accepted:
  "algorithmIsAccepted alg acc = Inr b \<Longrightarrow> b \<longleftrightarrow> alg \<in> Some ` JString ` dpop_algorithm_str ` set acc"
  using algorithm_names
  by (auto simp: algorithmIsAccepted_def falsy_json_def split: if_split_asm option.splits json.splits)

lemma accepted_algorithm:
  "alg \<in> Some ` JString ` dpop_algorithm_str ` set acc \<Longrightarrow> algorithmIsAccepted alg acc = Inr True"
  using algorithm_names by (auto simp: algorithmIsAccepted_def falsy_json_def)

text \<open>What a decoded proof has to be before its signature is looked at.\<close>

definition proof_shape :: "verify_dpop_proof_input \<Rightarrow> dpop_header \<Rightarrow> jwt_payload \<Rightarrow> bool" where
  "proof_shape input header payload \<longleftrightarrow>
     dph_typ header = Some DPOP_PROOF_JWT_TYPE \<and>
     dph_alg header \<in> Some ` JString ` dpop_algorithm_str `
       set (nullish (vdp_acceptedAlgorithms input) DEFAULT_ACCEPTED_DPOP_ALGORITHMS) \<and>
     is_object (dph_jwk header) \<and> \<not> headerContainsPrivateKey (the (dph_jwk header)) \<and>
     claimString payload ''jti'' \<noteq> None \<and> claimString payload ''htm'' \<noteq> None \<and>
     claimString payload ''htu'' \<noteq> None \<and> claimNumber payload ''iat'' \<noteq> None"

text \<open>What the claims of a proof say about the request it is presented with.\<close>

definition proof_binds :: "dpop_api \<Rightarrow> verify_dpop_proof_input \<Rightarrow> jwt_payload \<Rightarrow> string \<Rightarrow> bool" where
  "proof_binds api input payload thumbprint \<longleftrightarrow>
     map_option Inr (claimString payload ''htm'') = Some (normalizeHttpMethod (vdp_httpMethod input)) \<and>
     map_option Inr (claimString payload ''htu'') = Some (normalizeDpopHttpUri api (vdp_httpUri input)) \<and>
     claimString payload ''ath'' = map_option (dpopAccessTokenHash api) (truthy_str (vdp_accessToken input)) \<and>
     vdp_expectedJwkThumbprint input \<in> {None, Some thumbprint} \<and>
     (vdp_expectedNonce input = None \<or> claimString payload ''nonce'' = vdp_expectedNonce input)"

definition proof_current :: "verify_dpop_proof_input \<Rightarrow> timestamp \<Rightarrow> jwt_payload \<Rightarrow> bool" where
  "proof_current input now payload \<longleftrightarrow>
     (let skew = nullish (vdp_clockSkewSeconds input) DEFAULT_DPOP_CLOCK_SKEW_SECONDS;
          age = nullish (vdp_maxProofAgeSeconds input) DEFAULT_DPOP_MAX_PROOF_AGE_SECONDS;
          iat = the (claimNumber payload ''iat'')
      in iat \<le> epochSeconds now + skew \<and> epochSeconds now - iat \<le> age + skew) \<and>
     \<not> replay_recorded now (''dpop-proof:'' @ trim (the (claimString payload ''jti''))) (vdp_replayLedgerEntry input)"

lemma claimString_nonblank: "claimString p c = Some s \<Longrightarrow> trim s \<noteq> []"
  by (auto simp: claimString_def split: option.splits json.splits if_splits)

lemma replay_key_eq: "claimString p c = Some s \<Longrightarrow> dpopReplayKey s = Inr (''dpop-proof:'' @ trim s)"
  using claimString_nonblank [of p c s] by (simp add: dpopReplayKey_def dpop_normalizeIdentifier_def)

lemma proof_times: "proofTimeFailureReasons iat now age skew = [] \<longleftrightarrow>
    iat \<le> epochSeconds now + skew \<and> epochSeconds now - iat \<le> age + skew"
  by (auto simp: proofTimeFailureReasons_def Let_def)

text \<open>
  Past the checks of shape and signature the outcome is decided by the bindings and the times.
\<close>

lemma verified_proof_decides:
  assumes "verifyDpopProof api input = Inr v" and "vdp_now input = Iso now"
    and "dpa_decode api (vdp_proofJwt input) = Some (header, payload)" and "proof_shape input header payload"
    and "dpop_signature api (vdp_proofJwt input) (the (dph_jwk header)) (dph_alg header) = Inr tp"
  shows "dpv_valid v \<longleftrightarrow> proof_binds api input payload tp \<and> proof_current input now payload"
    and "dpv_publicKeyThumbprint v = Some tp" and "dpv_proofJti v = claimString payload ''jti''"
proof -
  obtain jti iat htm htu where c: "claimString payload ''jti'' = Some jti" "claimNumber payload ''iat'' = Some iat"
    "claimString payload ''htm'' = Some htm" "claimString payload ''htu'' = Some htu"
    using assms(4) by (auto simp: proof_shape_def)
  obtain k where k: "dpopReplayKey jti = Inr k" and key: "''dpop-proof:'' @ trim jti = k"
    using replay_key_eq [OF c(1)] by blast
  note shape = assms(4) [unfolded proof_shape_def]
  have acc: "algorithmIsAccepted (dph_alg header)
      (nullish (vdp_acceptedAlgorithms input) DEFAULT_ACCEPTED_DPOP_ALGORITHMS) = Inr True"
    using shape by (intro accepted_algorithm) simp
  obtain m u where mu: "normalizeHttpMethod (vdp_httpMethod input) = Inr m"
    "normalizeDpopHttpUri api (vdp_httpUri input) = Inr u"
    using assms(1) shape unfolding verifyDpopProof_def Let_def
    by (auto simp: assms(2,3,5) acc dpop_normalizeIsoTimestamp_def)
  have v: "dpv_valid v \<longleftrightarrow> uniqueFailureReasons
      ((if htm \<noteq> m \<or> htu \<noteq> u then [Fr_binding_mismatch] else []) @
       (if claimString payload ''ath'' \<noteq> map_option (dpopAccessTokenHash api) (truthy_str (vdp_accessToken input))
        then [Fr_binding_mismatch] else []) @
       (case vdp_expectedJwkThumbprint input of
          None \<Rightarrow> [] | Some t \<Rightarrow> if tp \<noteq> t then [Fr_binding_mismatch] else []) @
       (case vdp_expectedNonce input of
          None \<Rightarrow> []
        | Some n \<Rightarrow> if claimString payload ''nonce'' = None then [Fr_missing_nonce]
            else if claimString payload ''nonce'' \<noteq> Some n then [Fr_invalid_nonce] else []) @
       proofTimeFailureReasons iat now
         (nullish (vdp_maxProofAgeSeconds input) DEFAULT_DPOP_MAX_PROOF_AGE_SECONDS)
         (nullish (vdp_clockSkewSeconds input) DEFAULT_DPOP_CLOCK_SKEW_SECONDS) @
       (case vdp_replayLedgerEntry input of
          None \<Rightarrow> []
        | Some entry \<Rightarrow>
            if rle_key entry = k \<and>
               (case getTime (rle_expiresAt entry) of None \<Rightarrow> False | Some t \<Rightarrow> now \<le> t)
            then [Fr_replayed_authorization] else [])) = []"
    "dpv_publicKeyThumbprint v = Some tp" "dpv_proofJti v = claimString payload ''jti''"
    using assms(1) shape unfolding verifyDpopProof_def Let_def
    by (auto simp: assms(2,3,5) acc mu c k dpop_normalizeIsoTimestamp_def)
  show "dpv_valid v \<longleftrightarrow> proof_binds api input payload tp \<and> proof_current input now payload"
    unfolding v(1) uniqueFailureReasons_Nil_iff append_is_Nil_conv proof_times
      proof_binds_def proof_current_def replay_recorded_def Let_def c mu option.sel key
    by (auto split: option.split)
  show "dpv_publicKeyThumbprint v = Some tp" "dpv_proofJti v = claimString payload ''jti''"
    by (fact v)+
qed

definition signed_proof :: "dpop_api \<Rightarrow> verify_dpop_proof_input \<Rightarrow> dpop_header \<Rightarrow> jwt_payload \<Rightarrow> string \<Rightarrow> bool" where
  "signed_proof api input header payload tp \<longleftrightarrow>
     dpa_decode api (vdp_proofJwt input) = Some (header, payload) \<and> proof_shape input header payload \<and>
     dpop_signature api (vdp_proofJwt input) (the (dph_jwk header)) (dph_alg header) = Inr tp"

lemma unsigned_proof_invalid:
  assumes "verifyDpopProof api input = Inr v" and "\<And>h p tp. \<not> signed_proof api input h p tp"
  shows "\<not> dpv_valid v"
proof (cases "dpa_decode api (vdp_proofJwt input)")
  case None
  then show ?thesis
    using assms(1) failure_invalid by (auto simp: verifyDpopProof_def Let_def)
next
  case (Some hp)
  obtain h p where hp: "hp = (h, p)" by fastforce
  let ?accs = "nullish (vdp_acceptedAlgorithms input) DEFAULT_ACCEPTED_DPOP_ALGORITHMS"
  obtain b where b: "algorithmIsAccepted (dph_alg h) ?accs = Inr b"
    using assms(1) Some hp by (auto simp: verifyDpopProof_def Let_def)
  note b' = algorithm_accepted [OF b]
  show ?thesis
  proof (cases "proof_shape input h p")
    case False
    then show ?thesis
      using assms(1) Some hp b b' failure_invalid unfolding verifyDpopProof_def Let_def proof_shape_def
      by (auto split: if_split_asm)
  next
    case True
    then obtain e where "dpop_signature api (vdp_proofJwt input) (the (dph_jwk h)) (dph_alg h) = Inl e"
      using assms(2) [of h p] Some hp
      by (cases "dpop_signature api (vdp_proofJwt input) (the (dph_jwk h)) (dph_alg h)")
        (auto simp: signed_proof_def)
    then show ?thesis
      using assms(1) Some hp b b' True failure_invalid unfolding verifyDpopProof_def Let_def proof_shape_def
      by (auto split: if_split_asm)
  qed
qed

text \<open>
  C21: A proof of possession is valid exactly when it decodes to a proof of the right type and an
  accepted algorithm under a public key, is signed with that key, names the method, the target,
  the presented token and the expected key and nonce, is neither too old nor from the future,
  and has no live entry in the replay ledger.\<close>

theorem dpop_valid_iff:
  assumes "verifyDpopProof api input = Inr v" and "vdp_now input = Iso now"
  shows "dpv_valid v \<longleftrightarrow> (\<exists>header payload tp. signed_proof api input header payload tp \<and>
    proof_binds api input payload tp \<and> proof_current input now payload)"
proof (cases "\<exists>h p tp. signed_proof api input h p tp")
  case True
  then obtain h p tp where h: "signed_proof api input h p tp" by blast
  have "h' = h \<and> p' = p \<and> tp' = tp" if "signed_proof api input h' p' tp'" for h' p' tp'
    using h that by (simp add: signed_proof_def)
  then show ?thesis
    using verified_proof_decides(1) [OF assms] h unfolding signed_proof_def by blast
next
  case False
  then show ?thesis using unsigned_proof_invalid [OF assms(1)] by blast
qed

section \<open>A created proof verifies\<close>

lemma upper_not_space: "\<not> js_whitespace c \<Longrightarrow> \<not> js_whitespace (char_upper c)"
  by (auto simp: js_whitespace_def char_upper_def Let_def)

lemma toUpperCase_nonblank: "trim s \<noteq> [] \<Longrightarrow> trim (toUpperCase s) \<noteq> []"
proof -
  assume "trim s \<noteq> []"
  then obtain c where c: "c \<in> set s" "\<not> js_whitespace c" by (auto simp: trim_all_space)
  have "\<not> js_whitespace (CHR ''S'')" by (simp add: js_whitespace_def)
  moreover have "CHR ''S'' \<in> set (toUpperCase s) \<or> char_upper c \<in> set (toUpperCase s)"
    using c(1) by (force simp: toUpperCase_def)
  ultimately show ?thesis using upper_not_space [OF c(2)] by (auto simp: trim_all_space)
qed

abbreviation not_blank :: "string \<Rightarrow> bool" where
  "not_blank s \<equiv> trim s \<noteq> []"

lemma method_nonblank: "normalizeHttpMethod m = Inr r \<Longrightarrow> not_blank r"
  using toUpperCase_nonblank [of "trim m"]
  by (simp add: normalizeHttpMethod_def dpop_normalizeIdentifier_def split: if_split_asm)

lemma not_blank_nonempty: "not_blank s \<Longrightarrow> s \<noteq> []"
  by auto

lemma payload_claims:
  assumes "not_blank jti" "not_blank m" "not_blank u" "pred_option not_blank ath" "pred_option not_blank n"
  shows "claimString (dpop_payload jti m u iat ath n) ''jti'' = Some jti"
    "claimString (dpop_payload jti m u iat ath n) ''htm'' = Some m"
    "claimString (dpop_payload jti m u iat ath n) ''htu'' = Some u"
    "claimNumber (dpop_payload jti m u iat ath n) ''iat'' = Some iat"
    "claimString (dpop_payload jti m u iat ath n) ''ath'' = ath"
    "claimString (dpop_payload jti m u iat ath n) ''nonce'' = n"
  using assms
  by (cases ath; cases n; auto simp: dpop_payload_def claimString_def claimNumber_def not_blank_nonempty)+

lemma verify_total:
  assumes "signed_proof api input h p tp" and "vdp_now input = Iso now"
    and "normalizeHttpMethod (vdp_httpMethod input) = Inr m" and "normalizeDpopHttpUri api (vdp_httpUri input) = Inr u"
    and "claimNumber p ''iat'' = Some iat" and "\<bar>iat * 1000\<bar> \<le> max_time_value"
  shows "\<exists>v. verifyDpopProof api input = Inr v"
proof -
  have shape: "proof_shape input h p" and dec: "dpa_decode api (vdp_proofJwt input) = Some (h, p)"
    and sig: "dpop_signature api (vdp_proofJwt input) (the (dph_jwk h)) (dph_alg h) = Inr tp"
    using assms(1) by (simp_all add: signed_proof_def)
  note shape = shape [unfolded proof_shape_def]
  obtain jti htm htu where jti: "claimString p ''jti'' = Some jti"
    and ht: "claimString p ''htm'' = Some htm" "claimString p ''htu'' = Some htu" using shape by blast
  have acc: "algorithmIsAccepted (dph_alg h)
      (nullish (vdp_acceptedAlgorithms input) DEFAULT_ACCEPTED_DPOP_ALGORITHMS) = Inr True"
    using shape by (intro accepted_algorithm) simp
  show ?thesis
    using shape unfolding verifyDpopProof_def Let_def
    by (simp add: assms(2-6) dec sig acc jti ht replay_key_eq [OF jti] dpop_normalizeIsoTimestamp_def
        proofIssuedAt_def)
qed

text \<open>
  What the signing library promises of a proof it signed: it decodes to what was signed and
  verifies under the public key of its header.
\<close>

definition proof_checks :: "dpop_api \<Rightarrow> string \<Rightarrow> dpop_header \<Rightarrow> jwt_payload \<Rightarrow> string \<Rightarrow> bool" where
  "proof_checks api jwt header payload alg \<longleftrightarrow>
     dpa_decode api jwt = Some (header, payload) \<and>
     (\<exists>key. dpa_importJWK api (the (dph_jwk header)) alg = Inr key \<and> dpa_verify api jwt key = Inr ())"

definition proof_algorithm :: "create_dpop_proof_input \<Rightarrow> dpop_signing_algorithm" where
  "proof_algorithm c = nullish (cdp_algorithm c) DEFAULT_DPOP_SIGNING_ALGORITHM"

definition proof_request :: "create_dpop_proof_input \<Rightarrow> dpop_proof \<Rightarrow> timestamp \<Rightarrow> verify_dpop_proof_input" where
  "proof_request c p now =
     \<lparr> vdp_proofJwt = dpp_proofJwt p, vdp_httpMethod = cdp_httpMethod c, vdp_httpUri = cdp_httpUri c,
       vdp_accessToken = cdp_accessToken c, vdp_expectedJwkThumbprint = Some (dpp_publicKeyThumbprint p),
       vdp_expectedNonce = cdp_nonce c, vdp_now = Iso now, vdp_maxProofAgeSeconds = None,
       vdp_clockSkewSeconds = None, vdp_acceptedAlgorithms = None, vdp_replayLedgerEntry = None \<rparr>"

lemma created_proof_facts:
  assumes "createDpopProof api now uuid c = Inr p"
  shows "normalizeHttpMethod (cdp_httpMethod c) = Inr (dpp_httpMethod p)"
    "normalizeDpopHttpUri api (cdp_httpUri c) = Inr (dpp_httpUri p)"
    "dpp_accessTokenHash p = map_option (dpopAccessTokenHash api) (truthy_str (cdp_accessToken c))"
    "dpp_nonce p = cdp_nonce c"
    "dpp_publicJwk p = set_member ''alg'' (JString (dpop_algorithm_str (proof_algorithm c)))
       (publicJwkForHeader (cdp_publicJwk c))"
    "dpa_thumbprint api (JObject (dpp_publicJwk p)) = Inr (dpp_publicKeyThumbprint p)"
  using assms by (auto simp: createDpopProof_def proof_algorithm_def Let_def)

lemma header_key_public: "\<not> headerContainsPrivateKey (JObject (set_member ''alg'' v (publicJwkForHeader jwk)))"
  by (auto simp: publicJwkForHeader_def fst_set_member)

text \<open>
  A proof created for a request, signed with an accepted algorithm, verifies when it is
  presented with that request, its token and its nonce: it is valid exactly from thirty seconds
  before to a hundred and fifty seconds after the second it was issued in.\<close>

theorem dpop_proof_verifies:
  assumes "createDpopProof api now uuid c = Inr p"
    and "proof_checks api (dpp_proofJwt p) (dpop_header_of (proof_algorithm c) (dpp_publicJwk p))
      (dpop_payload (dpp_proofJti p) (dpp_httpMethod p) (dpp_httpUri p) (epochSeconds (dpp_issuedAt p))
        (dpp_accessTokenHash p) (dpp_nonce p)) (dpop_algorithm_str (proof_algorithm c))"
    and "proof_algorithm c \<in> set DEFAULT_ACCEPTED_DPOP_ALGORITHMS"
    and "not_blank (dpp_proofJti p)" "not_blank (dpp_httpUri p)"
    and "pred_option not_blank (dpp_accessTokenHash p)" "pred_option not_blank (dpp_nonce p)"
    and "\<bar>epochSeconds (dpp_issuedAt p) * 1000\<bar> \<le> max_time_value"
  shows "\<exists>v. verifyDpopProof api (proof_request c p t) = Inr v \<and>
    (dpv_valid v \<longleftrightarrow> epochSeconds (dpp_issuedAt p) - 30 \<le> epochSeconds t \<and>
       epochSeconds t \<le> epochSeconds (dpp_issuedAt p) + 150)"
proof -
  let ?in = "proof_request c p t" and ?h = "dpop_header_of (proof_algorithm c) (dpp_publicJwk p)"
  let ?pl = "dpop_payload (dpp_proofJti p) (dpp_httpMethod p) (dpp_httpUri p) (epochSeconds (dpp_issuedAt p))
        (dpp_accessTokenHash p) (dpp_nonce p)"
  note facts = created_proof_facts [OF assms(1)]
  have "not_blank (dpp_httpMethod p)"
    using facts(1) by (rule method_nonblank)
  note claims = payload_claims [OF assms(4) this assms(5-7)]
  have shape: "proof_shape ?in ?h ?pl"
    using assms(3) header_key_public facts(5)
    by (auto simp: proof_shape_def claims dpop_header_of_def proof_request_def simp del: headerContainsPrivateKey.simps)
  have signed: "signed_proof api ?in ?h ?pl (dpp_publicKeyThumbprint p)"
    using assms(2) facts(6) shape unfolding signed_proof_def proof_checks_def dpop_signature_def
    by (simp add: dpop_header_of_def proof_request_def del: headerContainsPrivateKey.simps)
  have binds: "proof_binds api ?in ?pl (dpp_publicKeyThumbprint p)"
    unfolding proof_binds_def claims using facts(1-4) by (simp add: proof_request_def)
  have current: "proof_current ?in t ?pl \<longleftrightarrow> epochSeconds (dpp_issuedAt p) - 30 \<le> epochSeconds t \<and>
       epochSeconds t \<le> epochSeconds (dpp_issuedAt p) + 150"
    by (auto simp: proof_current_def claims proof_request_def replay_recorded_def Let_def
        DEFAULT_DPOP_CLOCK_SKEW_SECONDS_def DEFAULT_DPOP_MAX_PROOF_AGE_SECONDS_def)
  have now: "vdp_now ?in = Iso t" by (simp add: proof_request_def)
  obtain v where v: "verifyDpopProof api ?in = Inr v"
    using verify_total [OF signed now _ _ claims(4) assms(8)] facts(1,2) by (auto simp: proof_request_def)
  then show ?thesis
    using verified_proof_decides(1) [OF v now] signed binds current by (auto simp: signed_proof_def)
qed

section \<open>Witnesses\<close>

definition sample_proof_payload :: jwt_payload where
  "sample_proof_payload = dpop_payload ''j1'' ''POST'' ''u'' 5 (Some ''h'') None"

definition sample_proof_header :: dpop_header where
  "sample_proof_header = dpop_header_of ES256 [(''kty'', JString ''EC''), (''alg'', JString ''ES256'')]"

text \<open>A library that knows one proof.\<close>

definition sample_dpop :: dpop_api where
  "sample_dpop =
     \<lparr> dpa_decode = (\<lambda>jwt. if jwt = ''proof'' then Some (sample_proof_header, sample_proof_payload) else None),
       dpa_thumbprint = (\<lambda>jwk. return ''tp''), dpa_importJWK = (\<lambda>jwk alg. return ''key''),
       dpa_verify = (\<lambda>jwt key. return ()), dpa_sign = (\<lambda>key header payload. return ''proof''),
       dpa_url = (\<lambda>u. return u), dpa_tokenHash = (\<lambda>t. ''h'') \<rparr>"

definition sample_proof_input :: create_dpop_proof_input where
  "sample_proof_input =
     \<lparr> cdp_privateJwk = JObject [], cdp_publicJwk = [(''kty'', JString ''EC''), (''d'', JString ''secret'')],
       cdp_algorithm = None, cdp_httpMethod = ''post'', cdp_httpUri = ''u'', cdp_accessToken = Some ''jwt'',
       cdp_nonce = None, cdp_proofJti = Some ''j1'', cdp_issuedAt = Some (Iso 5500) \<rparr>"

definition sample_proof :: dpop_proof where
  "sample_proof =
     \<lparr> dpp_version = DPOP_PRESENTATION_SPEC_VERSION, dpp_proofJwt = ''proof'', dpp_proofJti = ''j1'',
       dpp_httpMethod = ''POST'', dpp_httpUri = ''u'', dpp_issuedAt = 5500, dpp_accessTokenHash = Some ''h'',
       dpp_nonce = None, dpp_publicKeyThumbprint = ''tp'',
       dpp_publicJwk = [(''kty'', JString ''EC''), (''alg'', JString ''ES256'')] \<rparr>"

lemma sample_texts: "trim ''j1'' = ''j1''" "trim ''u'' = ''u''" "trim ''h'' = ''h''" "trim ''post'' = ''post''"
  by (simp_all add: trim_def js_whitespace_def)

lemma sample_post: "toUpperCase ''post'' = ''POST''"
  by code_simp

lemma sample_proof_created: "createDpopProof sample_dpop now uuid sample_proof_input = Inr sample_proof"
  by (simp add: createDpopProof_def sample_proof_input_def sample_dpop_def sample_proof_def
      DEFAULT_DPOP_SIGNING_ALGORITHM_def normalizeHttpMethod_def dpop_normalizeIdentifier_def
      normalizeDpopHttpUri_def dpop_normalizeIsoTimestamp_def publicJwkForHeader_def dpopAccessTokenHash_def
      sample_texts sample_post Let_def del: rbind_eq_Inr)

lemma sample_proof_checks:
  "proof_checks sample_dpop (dpp_proofJwt sample_proof)
     (dpop_header_of (proof_algorithm sample_proof_input) (dpp_publicJwk sample_proof))
     (dpop_payload (dpp_proofJti sample_proof) (dpp_httpMethod sample_proof) (dpp_httpUri sample_proof)
       (epochSeconds (dpp_issuedAt sample_proof)) (dpp_accessTokenHash sample_proof) (dpp_nonce sample_proof))
     (dpop_algorithm_str (proof_algorithm sample_proof_input))"
  by (simp add: proof_checks_def sample_dpop_def sample_proof_def sample_proof_header_def
      sample_proof_payload_def proof_algorithm_def sample_proof_input_def DEFAULT_DPOP_SIGNING_ALGORITHM_def
      epochSeconds_def)

lemma sample_proof_plain:
  "proof_algorithm sample_proof_input \<in> set DEFAULT_ACCEPTED_DPOP_ALGORITHMS"
  "not_blank (dpp_proofJti sample_proof)" "not_blank (dpp_httpUri sample_proof)"
  "pred_option not_blank (dpp_accessTokenHash sample_proof)" "pred_option not_blank (dpp_nonce sample_proof)"
  "\<bar>epochSeconds (dpp_issuedAt sample_proof) * 1000\<bar> \<le> max_time_value"
  by (simp_all add: proof_algorithm_def sample_proof_input_def DEFAULT_ACCEPTED_DPOP_ALGORITHMS_def
      sample_proof_def sample_texts epochSeconds_def max_time_value_def)

theorem dpop_proof_verifies_witness:
  "\<exists>v. verifyDpopProof sample_dpop (proof_request sample_proof_input sample_proof 155999) = Inr v \<and> dpv_valid v"
  using dpop_proof_verifies [OF sample_proof_created [of 0 "[]"] sample_proof_checks sample_proof_plain,
      where t = 155999]
  by (simp add: sample_proof_def epochSeconds_def)

theorem dpop_valid_iff_witness:
  "\<exists>v. verifyDpopProof sample_dpop
      ((proof_request sample_proof_input sample_proof 6000)\<lparr> vdp_httpUri := ''x'' \<rparr>) = Inr v \<and> \<not> dpv_valid v"
proof -
  let ?in = "(proof_request sample_proof_input sample_proof 6000)\<lparr> vdp_httpUri := ''x'' \<rparr>"
  have x: "trim ''x'' = ''x''" "trim ''POST'' = ''POST''"
    by (simp_all add: trim_def js_whitespace_def)
  note claims = payload_claims [of "''j1''" "''POST''" "''u''" "Some ''h''" None 5, folded sample_proof_payload_def]
  have signed: "signed_proof sample_dpop ?in sample_proof_header sample_proof_payload ''tp''"
    by (simp add: signed_proof_def proof_shape_def claims sample_texts x sample_dpop_def sample_proof_def
        dpop_signature_def proof_request_def sample_proof_header_def dpop_header_of_def
        DEFAULT_ACCEPTED_DPOP_ALGORITHMS_def DEFAULT_DPOP_SIGNING_ALGORITHM_def)
  obtain v where v: "verifyDpopProof sample_dpop ?in = Inr v"
    using verify_total [OF signed, of 6000 "''POST''" "''x''" 5]
    by (auto simp: claims sample_texts x proof_request_def sample_proof_input_def normalizeHttpMethod_def
        dpop_normalizeIdentifier_def sample_post normalizeDpopHttpUri_def sample_dpop_def max_time_value_def)
  have "\<not> proof_binds sample_dpop ?in sample_proof_payload tp" for tp
    by (simp add: proof_binds_def claims sample_texts x normalizeDpopHttpUri_def dpop_normalizeIdentifier_def
        sample_dpop_def)
  moreover have "p = sample_proof_payload" if "signed_proof sample_dpop ?in h p tp" for h p tp
    using that signed by (simp add: signed_proof_def)
  ultimately have "\<not> dpv_valid v"
    using dpop_valid_iff [OF v, of 6000] by (auto simp: proof_request_def)
  with v show ?thesis by blast
qed

end
