(* ===== verification/Release_Verification.thy ===== *)
theory Release_Verification
  imports Token_Introspection Dpop
begin

text \<open>
  The consumer side of "no token, no release": src/release-kernel/release-verification.ts.

  Before a consequence path proceeds, the presented token is verified, compared with the target,
  hashes and policy the path expects, checked against the key of its sender, introspected when
  its risk demands it, and consumed in the replay ledger. The introspector and the usage store
  are over one token registry, which the operations thread through; \<open>None\<close> of them present is a
  flag of the input. What a call changes in the registry stays changed when it fails later.
\<close>

section \<open>Data\<close>

definition RELEASE_VERIFICATION_SPEC_VERSION :: string where
  "RELEASE_VERIFICATION_SPEC_VERSION = ''attestor.release-verification.v1''"

definition DEFAULT_RELEASE_TOKEN_HEADER :: string where
  "DEFAULT_RELEASE_TOKEN_HEADER = ''x-attestor-release-token''"

fun release_verification_error_code_str :: "release_verification_error_code \<Rightarrow> string" where
  "release_verification_error_code_str Missing_token = ''missing_token''"
| "release_verification_error_code_str Invalid_request = ''invalid_request''"
| "release_verification_error_code_str Invalid_token = ''invalid_token''"
| "release_verification_error_code_str Insufficient_scope = ''insufficient_scope''"

record release_verification_input =
  rvi_token :: string
  rvi_verificationKey :: release_token_verification_key
  rvi_audience :: "string option"
  rvi_expectedTenantId :: "string option"
  rvi_currentDate :: "js_date option"
  rvi_expectedTargetId :: "string option"
  rvi_expectedOutputHash :: "string option"
  rvi_expectedConsequenceHash :: "string option"
  rvi_expectedPolicyHash :: "string option"
  rvi_expectedPolicyVersion :: "string option"
  rvi_expectedPolicyIrHash :: "string option"
  rvi_expectedPolicyProvenanceSource :: "release_policy_provenance_source option"
  rvi_expectedCompiledPolicyIndexVersion :: "string option"
  rvi_expectedCompiledPolicyIrVersion :: "string option"
  rvi_introspector :: bool
  rvi_usageStore :: bool
  rvi_consumeOnSuccess :: bool
  rvi_tokenTypeHint :: "string option"
  rvi_resourceServerId :: "string option"
  rvi_requireSenderConstrainedToken :: bool
  rvi_dpopProofJwt :: "string option"
  rvi_dpopHttpMethod :: "string option"
  rvi_dpopHttpUri :: "string option"

record release_verification_policy_context =
  rpc_policyVersion :: "string option"
  rpc_policyHash :: string
  rpc_policyIrHash :: "string option"
  rpc_policyProvenanceSource :: "release_policy_provenance_source option"
  rpc_compiledPolicyIndexVersion :: "string option"
  rpc_compiledPolicyIrVersion :: "string option"

datatype sender_binding_mode = Sender_bearer | Sender_dpop_bound_token

record sender_binding_context =
  sbc_mode :: sender_binding_mode
  sbc_required :: bool
  sbc_verified :: bool
  sbc_proofJti :: "string option"
  sbc_publicKeyThumbprint :: "string option"
  sbc_failureReasons :: "enforcement_failure_reason list"

record usage_context =
  usg_consumed :: bool
  usg_useCount :: int
  usg_maxUses :: int

record release_verification_context =
  rvc_version :: string
  rvc_token :: string
  rvc_verification :: token_verification_result
  rvc_tokenPolicy :: release_verification_policy_context
  rvc_audience :: "string option"
  rvc_expectedTargetId :: "string option"
  rvc_expectedOutputHash :: "string option"
  rvc_expectedConsequenceHash :: "string option"
  rvc_expectedPolicyHash :: "string option"
  rvc_expectedPolicyVersion :: "string option"
  rvc_expectedPolicyIrHash :: "string option"
  rvc_expectedPolicyProvenanceSource :: "release_policy_provenance_source option"
  rvc_expectedCompiledPolicyIndexVersion :: "string option"
  rvc_expectedCompiledPolicyIrVersion :: "string option"
  rvc_requireSenderConstrainedToken :: bool
  rvc_senderBinding :: sender_binding_context
  rvc_introspection :: "introspection_result option"
  rvc_usage :: "usage_context option"

section \<open>Challenges and headers\<close>

definition escapeChallengeValue :: "string \<Rightarrow> string" where
  "escapeChallengeValue value =
     concat (map (\<lambda>c. if c = CHR 0x5C \<or> c = CHR 0x22 then [CHR 0x5C, c] else [c]) value)"

definition buildBearerChallenge :: "release_verification_error_code \<Rightarrow> string \<Rightarrow> string" where
  "buildBearerChallenge error description =
     ''Bearer realm='' @ [CHR 0x22] @ ''attestor-release'' @ [CHR 0x22] @ '', error='' @ [CHR 0x22]
     @ release_verification_error_code_str error @ [CHR 0x22] @ '', error_description='' @ [CHR 0x22]
     @ escapeChallengeValue description @ [CHR 0x22]"

text \<open>
  Every error carries the challenge of its own code and description; a missing token is
  challenged as an invalid one.
\<close>

fun error_challenge :: "release_verification_error_code \<Rightarrow> string \<Rightarrow> string" where
  "error_challenge Missing_token description = buildBearerChallenge Invalid_token description"
| "error_challenge code description = buildBearerChallenge code description"

abbreviation unauthorized :: "string \<Rightarrow> js_error" where
  "unauthorized description \<equiv> ReleaseVerificationError 401 Invalid_token description"

abbreviation out_of_scope :: "string \<Rightarrow> js_error" where
  "out_of_scope description \<equiv> ReleaseVerificationError 403 Insufficient_scope description"

text \<open>
  \<open>/^Bearer\s+(.+)$/i\<close> on a header value, which has no line break: after the scheme comes a
  white space and at least one more character; the group is trimmed by its only user.
\<close>

definition bearer_value :: "string \<Rightarrow> string option" where
  "bearer_value authorization =
     (if toLowerCase (take 6 authorization) = ''bearer'' \<and> 8 \<le> length authorization \<and>
         js_whitespace (authorization ! 6)
      then Some (trim (drop 6 authorization)) else None)"

type_synonym headers = "string \<Rightarrow> string option"

definition resolveTokenFromHeaders :: "headers \<Rightarrow> string \<Rightarrow> string option result" where
  "resolveTokenFromHeaders headers tokenHeaderName =
     (case truthy_str (headers ''authorization'') of
        Some authorization \<Rightarrow>
          (case bearer_value authorization of
             Some token \<Rightarrow> return (Some token)
           | None \<Rightarrow> throw (ReleaseVerificationError 401 Invalid_request
               ''Authorization header must use Bearer token syntax.''))
      | None \<Rightarrow> return (map_option trim (truthy_str (headers tokenHeaderName))))"

definition resolveReleaseTokenFromRequest :: "headers \<Rightarrow> string \<Rightarrow> string result" where
  "resolveReleaseTokenFromRequest headers tokenHeaderName =
     rbind (resolveTokenFromHeaders headers tokenHeaderName) (\<lambda>token.
     case truthy_str token of
       None \<Rightarrow> throw (ReleaseVerificationError 401 Missing_token
         ''A release token is required before this consequence path may proceed.'')
     | Some t \<Rightarrow> return t)"

section \<open>Bindings\<close>

text \<open>A sequence of guards: the first one that fails throws its error.\<close>

fun first_failure :: "(bool \<times> js_error) list \<Rightarrow> unit result" where
  "first_failure [] = return ()"
| "first_failure ((failed, e) # rest) = (if failed then throw e else first_failure rest)"

definition assertVerifiedBinding ::
  "token_verification_result \<Rightarrow> release_verification_input \<Rightarrow> unit result" where
  "assertVerifiedBinding verification input =
     (let claims = tvr_claims verification in
      first_failure
       [(rvi_expectedTargetId input \<noteq> None \<and> Some (clm_aud claims) \<noteq> rvi_expectedTargetId input,
         out_of_scope ''Release token audience does not match the downstream target.''),
        (rvi_expectedOutputHash input \<noteq> None \<and> Some (clm_output_hash claims) \<noteq> rvi_expectedOutputHash input,
         out_of_scope ''Release token output hash does not match the downstream release candidate.''),
        (rvi_expectedConsequenceHash input \<noteq> None \<and>
           Some (clm_consequence_hash claims) \<noteq> rvi_expectedConsequenceHash input,
         out_of_scope ''Release token consequence hash does not match the downstream consequence candidate.''),
        (rvi_expectedPolicyHash input \<noteq> None \<and> Some (clm_policy_hash claims) \<noteq> rvi_expectedPolicyHash input,
         out_of_scope
           ''Release token policy hash does not match the downstream policy provenance requirement.''),
        (rvi_expectedPolicyVersion input \<noteq> None \<and> clm_policy_version claims \<noteq> rvi_expectedPolicyVersion input,
         out_of_scope
           ''Release token policy version does not match the downstream policy provenance requirement.''),
        (rvi_expectedPolicyIrHash input \<noteq> None \<and> clm_policy_ir_hash claims \<noteq> rvi_expectedPolicyIrHash input,
         out_of_scope
           ''Release token policy IR hash does not match the downstream policy provenance requirement.''),
        (rvi_expectedPolicyProvenanceSource input \<noteq> None \<and>
           clm_policy_provenance_source claims \<noteq> rvi_expectedPolicyProvenanceSource input,
         out_of_scope
           ''Release token policy provenance source does not match the downstream policy provenance requirement.''),
        (rvi_expectedCompiledPolicyIndexVersion input \<noteq> None \<and>
           clm_compiled_policy_index_version claims \<noteq> rvi_expectedCompiledPolicyIndexVersion input,
         out_of_scope
           ''Release token compiled policy index version does not match the downstream policy provenance requirement.''),
        (rvi_expectedCompiledPolicyIrVersion input \<noteq> None \<and>
           clm_compiled_policy_ir_version claims \<noteq> rvi_expectedCompiledPolicyIrVersion input,
         out_of_scope
           ''Release token compiled policy IR version does not match the downstream policy provenance requirement.'')])"

definition normalizedDpopProof :: "string option \<Rightarrow> string option" where
  "normalizedDpopProof value =
     (case value of None \<Rightarrow> None | Some v \<Rightarrow> if trim v = [] then None else Some (trim v))"

definition senderBindingContext ::
  "sender_binding_mode \<Rightarrow> bool \<Rightarrow> bool \<Rightarrow> dpop_proof_verification option \<Rightarrow> sender_binding_context" where
  "senderBindingContext mode required verified verification =
     \<lparr> sbc_mode = mode,
       sbc_required = required,
       sbc_verified = verified,
       sbc_proofJti = Option.bind verification dpv_proofJti,
       sbc_publicKeyThumbprint = Option.bind verification dpv_publicKeyThumbprint,
       sbc_failureReasons = nullish (map_option dpv_failureReasons verification) [] \<rparr>"

text \<open>The thumbprint a token is bound to: \<open>claims.cnf?.jkt?.trim() || null\<close>.\<close>

definition token_thumbprint :: "release_token_claims \<Rightarrow> string option" where
  "token_thumbprint claims = truthy_str (map_option trim (Option.bind (clm_cnf claims) cnf_jkt))"

definition verifySenderBinding ::
  "dpop_api \<Rightarrow> int \<Rightarrow> token_verification_result \<Rightarrow> release_verification_input \<Rightarrow> sender_binding_context result" where
  "verifySenderBinding dpop now verification input =
     (case token_thumbprint (tvr_claims verification) of
        None \<Rightarrow>
          if rvi_requireSenderConstrainedToken input then
            throw (out_of_scope ''Release token must be sender-constrained for this consequence path.'')
          else return (senderBindingContext Sender_bearer False False None)
      | Some expectedJwkThumbprint \<Rightarrow>
          (case (normalizedDpopProof (rvi_dpopProofJwt input), truthy_str (rvi_dpopHttpMethod input),
                 truthy_str (rvi_dpopHttpUri input)) of
             (Some dpopProofJwt, Some httpMethod, Some httpUri) \<Rightarrow>
               rbind (verifyDpopProof dpop
                 \<lparr> vdp_proofJwt = dpopProofJwt, vdp_httpMethod = httpMethod, vdp_httpUri = httpUri,
                   vdp_accessToken = Some (rvi_token input),
                   vdp_expectedJwkThumbprint = Some expectedJwkThumbprint, vdp_expectedNonce = None,
                   vdp_now = nullish (rvi_currentDate input) (Iso now), vdp_maxProofAgeSeconds = None,
                   vdp_clockSkewSeconds = None, vdp_acceptedAlgorithms = None,
                   vdp_replayLedgerEntry = None \<rparr>) (\<lambda>verified.
               if \<not> dpv_valid verified then
                 throw (out_of_scope ''DPoP proof does not match the sender-constrained release token.'')
               else return (senderBindingContext Sender_dpop_bound_token True True (Some verified)))
           | _ \<Rightarrow> throw (unauthorized ''DPoP proof is required for this sender-constrained release token.'')))"

definition introspection_consistent :: "release_token_claims \<Rightarrow> active_introspection \<Rightarrow> bool" where
  "introspection_consistent claims introspection \<longleftrightarrow>
     ain_jti introspection = clm_jti claims \<and>
     ain_decision_id introspection = clm_decision_id claims \<and>
     ain_aud introspection = clm_aud claims \<and>
     ain_output_hash introspection = clm_output_hash claims \<and>
     ain_consequence_hash introspection = clm_consequence_hash claims \<and>
     ain_policy_hash introspection = clm_policy_hash claims \<and>
     ain_policy_version introspection = clm_policy_version claims \<and>
     ain_policy_ir_hash introspection = clm_policy_ir_hash claims \<and>
     ain_policy_provenance_source introspection = clm_policy_provenance_source claims \<and>
     ain_compiled_policy_index_version introspection = clm_compiled_policy_index_version claims \<and>
     ain_compiled_policy_ir_version introspection = clm_compiled_policy_ir_version claims \<and>
     ain_tenant_id introspection = clm_tenant_id claims \<and>
     Option.bind (ain_cnf introspection) cnf_jkt = Option.bind (clm_cnf claims) cnf_jkt \<and>
     ain_decision introspection = clm_decision claims \<and>
     ain_risk_class introspection = clm_risk_class claims"

definition assertActiveIntrospectionConsistency ::
  "token_verification_result \<Rightarrow> active_introspection \<Rightarrow> unit result" where
  "assertActiveIntrospectionConsistency verification introspection =
     (if \<not> introspection_consistent (tvr_claims verification) introspection then
        throw (unauthorized ''Release token introspection does not match the verified token claims.'')
      else return ())"

fun introspectionInactiveDescription :: "token_inactive_reason \<Rightarrow> string" where
  "introspectionInactiveDescription Ir_revoked =
     ''Release token was revoked by the Attestor release authority.''"
| "introspectionInactiveDescription Ir_expired = ''Release token has expired.''"
| "introspectionInactiveDescription Ir_usage_exhausted =
     ''Release token has already been consumed and cannot be replayed.''"
| "introspectionInactiveDescription Ir_claim_mismatch =
     ''Release token registry state does not match the verified token claims.''"
| "introspectionInactiveDescription Ir_unsupported_token_type =
     ''Release token type hint is not supported by the Attestor introspection registry.''"
| "introspectionInactiveDescription Ir_unknown =
     ''Release token is not registered in the Attestor release authority plane.''"
| "introspectionInactiveDescription Ir_invalid =
     ''Release token is not active according to the Attestor introspection registry.''"

section \<open>Authorization\<close>

fun error_message :: "js_error \<Rightarrow> string" where
  "error_message (Error message) = message"
| "error_message RangeError = ''Invalid time value''"
| "error_message (TypeError message) = message"
| "error_message (ReleaseEvidencePackStoreError message) = message"
| "error_message (ReleaseDecisionLogStoreError message) = message"
| "error_message (ReleaseTokenIntrospectionStoreError message) = message"
| "error_message (ReleaseReviewerQueueError _ message) = message"
| "error_message (ReleaseTokenVerificationFailure _ message) = message"
| "error_message (ReleaseVerificationError _ _ message) = message"

definition token_request :: "release_verification_input \<Rightarrow> verify_token_input" where
  "token_request input =
     \<lparr> vti_token = rvi_token input,
       vti_verificationKey = rvi_verificationKey input,
       vti_audience = rvi_audience input,
       vti_expectedTenantId = rvi_expectedTenantId input,
       vti_currentDate = rvi_currentDate input \<rparr>"

definition introspection_query :: "release_verification_input \<Rightarrow> introspection_input" where
  "introspection_query input =
     \<lparr> ini_token = rvi_token input,
       ini_verificationKey = rvi_verificationKey input,
       ini_audience = rvi_audience input,
       ini_currentDate = rvi_currentDate input,
       ini_tokenTypeHint = rvi_tokenTypeHint input,
       ini_resourceServerId = rvi_resourceServerId input \<rparr>"

definition require_introspection ::
  "jose_api \<Rightarrow> int \<Rightarrow> token_verification_result \<Rightarrow> release_verification_input \<Rightarrow> token_store \<Rightarrow>
   introspection_result option result \<times> token_store" where
  "require_introspection jose now verification input store =
     (if \<not> clm_introspection_required (tvr_claims verification) then (return None, store)
      else if \<not> rvi_introspector input then
        (throw (unauthorized
          ''This high-risk release token requires active introspection before the consequence path may proceed.''),
         store)
      else case introspectReleaseToken jose now (introspection_query input) store of
        (Inl e, store1) \<Rightarrow> (Inl e, store1)
      | (Inr (Inactive _ reason), store1) \<Rightarrow>
          (throw (unauthorized (introspectionInactiveDescription reason)), store1)
      | (Inr (Active base introspection), store1) \<Rightarrow>
          (rbind (assertActiveIntrospectionConsistency verification introspection) (\<lambda>_.
             return (Some (Active base introspection))), store1))"

definition consume_token ::
  "int \<Rightarrow> token_verification_result \<Rightarrow> release_verification_input \<Rightarrow> token_store \<Rightarrow>
   usage_context option result \<times> token_store" where
  "consume_token now verification input store =
     (if \<not> rvi_consumeOnSuccess input then (return None, store)
      else if \<not> rvi_usageStore input then
        (throw (unauthorized ''Release token consumption requires a replay-protection ledger.''), store)
      else case memory_mutate (recordTokenUse now
          \<lparr> tui_tokenId = clm_jti (tvr_claims verification), tui_usedAt = rvi_currentDate input,
            tui_resourceServerId = rvi_resourceServerId input \<rparr>) store of
        (Inl e, store1) \<Rightarrow> (Inl e, store1)
      | (Inr consumed, store1) \<Rightarrow>
          (case (tur_accepted consumed, tur_record consumed) of
             (True, Some record) \<Rightarrow>
               (return (Some \<lparr> usg_consumed = True, usg_useCount = rrt_useCount record,
                  usg_maxUses = rrt_maxUses record \<rparr>), store1)
           | _ \<Rightarrow>
               (throw (unauthorized (introspectionInactiveDescription
                  (nullish (tur_inactiveReason consumed) Ir_invalid))), store1)))"

definition verification_context ::
  "release_verification_input \<Rightarrow> token_verification_result \<Rightarrow> sender_binding_context \<Rightarrow>
   introspection_result option \<Rightarrow> usage_context option \<Rightarrow> release_verification_context" where
  "verification_context input verification senderBinding introspection usage =
     (let claims = tvr_claims verification in
      \<lparr> rvc_version = RELEASE_VERIFICATION_SPEC_VERSION,
        rvc_token = rvi_token input,
        rvc_verification = verification,
        rvc_tokenPolicy =
          \<lparr> rpc_policyVersion = clm_policy_version claims,
            rpc_policyHash = clm_policy_hash claims,
            rpc_policyIrHash = clm_policy_ir_hash claims,
            rpc_policyProvenanceSource = clm_policy_provenance_source claims,
            rpc_compiledPolicyIndexVersion = clm_compiled_policy_index_version claims,
            rpc_compiledPolicyIrVersion = clm_compiled_policy_ir_version claims \<rparr>,
        rvc_audience = rvi_audience input,
        rvc_expectedTargetId = rvi_expectedTargetId input,
        rvc_expectedOutputHash = rvi_expectedOutputHash input,
        rvc_expectedConsequenceHash = rvi_expectedConsequenceHash input,
        rvc_expectedPolicyHash = rvi_expectedPolicyHash input,
        rvc_expectedPolicyVersion = rvi_expectedPolicyVersion input,
        rvc_expectedPolicyIrHash = rvi_expectedPolicyIrHash input,
        rvc_expectedPolicyProvenanceSource = rvi_expectedPolicyProvenanceSource input,
        rvc_expectedCompiledPolicyIndexVersion = rvi_expectedCompiledPolicyIndexVersion input,
        rvc_expectedCompiledPolicyIrVersion = rvi_expectedCompiledPolicyIrVersion input,
        rvc_requireSenderConstrainedToken = rvi_requireSenderConstrainedToken input,
        rvc_senderBinding = senderBinding,
        rvc_introspection = introspection,
        rvc_usage = usage \<rparr>)"

definition verifyReleaseAuthorization ::
  "jose_api \<Rightarrow> dpop_api \<Rightarrow> int \<Rightarrow> release_verification_input \<Rightarrow> token_store \<Rightarrow>
   release_verification_context result \<times> token_store" where
  "verifyReleaseAuthorization jose dpop now input store =
     (case verifyIssuedReleaseToken jose (token_request input) of
        Inl e \<Rightarrow> (throw (unauthorized (error_message e)), store)
      | Inr verification \<Rightarrow>
          (case rbind (assertVerifiedBinding verification input) (\<lambda>_.
                  verifySenderBinding dpop now verification input) of
             Inl e \<Rightarrow> (Inl e, store)
           | Inr senderBinding \<Rightarrow>
               (case require_introspection jose now verification input store of
                  (Inl e, store1) \<Rightarrow> (Inl e, store1)
                | (Inr introspection, store1) \<Rightarrow>
                    (case consume_token now verification input store1 of
                       (Inl e, store2) \<Rightarrow> (Inl e, store2)
                     | (Inr usage, store2) \<Rightarrow>
                         (return (verification_context input verification senderBinding introspection usage),
                          store2)))))"

section \<open>The middleware\<close>

text \<open>
  A request as the middleware reads it, and its options with the header names filled in; the
  options that depend on the request are resolved by one function, which may throw.
\<close>

record http_request =
  hrq_headers :: headers
  hrq_method :: string
  hrq_url :: string

record middleware_values =
  mwv_verificationKey :: release_token_verification_key
  mwv_audience :: "string option"
  mwv_expectedTargetId :: "string option"
  mwv_expectedOutputHash :: "string option"
  mwv_expectedConsequenceHash :: "string option"
  mwv_expectedPolicyHash :: "string option"
  mwv_expectedPolicyVersion :: "string option"
  mwv_expectedPolicyIrHash :: "string option"
  mwv_expectedPolicyProvenanceSource :: "release_policy_provenance_source option"
  mwv_expectedCompiledPolicyIndexVersion :: "string option"
  mwv_expectedCompiledPolicyIrVersion :: "string option"
  mwv_currentDate :: "js_date option"
  mwv_introspector :: bool
  mwv_usageStore :: bool
  mwv_consumeOnSuccess :: bool
  mwv_tokenTypeHint :: "string option"
  mwv_resourceServerId :: "string option"
  mwv_requireSenderConstrainedToken :: bool
  mwv_dpopHttpUri :: "string option"

record middleware_options =
  mwo_tokenHeaderName :: "string option"
  mwo_dpopProofHeaderName :: "string option"
  mwo_resolve :: "http_request \<Rightarrow> middleware_values result"

definition middleware_input ::
  "middleware_options \<Rightarrow> http_request \<Rightarrow> string \<Rightarrow> middleware_values \<Rightarrow> release_verification_input" where
  "middleware_input options request token v =
     \<lparr> rvi_token = token,
       rvi_verificationKey = mwv_verificationKey v,
       rvi_audience = mwv_audience v,
       rvi_expectedTenantId = None,
       rvi_currentDate = mwv_currentDate v,
       rvi_expectedTargetId = mwv_expectedTargetId v,
       rvi_expectedOutputHash = mwv_expectedOutputHash v,
       rvi_expectedConsequenceHash = mwv_expectedConsequenceHash v,
       rvi_expectedPolicyHash = mwv_expectedPolicyHash v,
       rvi_expectedPolicyVersion = mwv_expectedPolicyVersion v,
       rvi_expectedPolicyIrHash = mwv_expectedPolicyIrHash v,
       rvi_expectedPolicyProvenanceSource = mwv_expectedPolicyProvenanceSource v,
       rvi_expectedCompiledPolicyIndexVersion = mwv_expectedCompiledPolicyIndexVersion v,
       rvi_expectedCompiledPolicyIrVersion = mwv_expectedCompiledPolicyIrVersion v,
       rvi_introspector = mwv_introspector v,
       rvi_usageStore = mwv_usageStore v,
       rvi_consumeOnSuccess = mwv_consumeOnSuccess v,
       rvi_tokenTypeHint = mwv_tokenTypeHint v,
       rvi_resourceServerId = mwv_resourceServerId v,
       rvi_requireSenderConstrainedToken = mwv_requireSenderConstrainedToken v,
       rvi_dpopProofJwt = hrq_headers request (toLowerCase (nullish (mwo_dpopProofHeaderName options) ''DPoP'')),
       rvi_dpopHttpMethod = Some (hrq_method request),
       rvi_dpopHttpUri = Some (nullish (mwv_dpopHttpUri v) (hrq_url request)) \<rparr>"

text \<open>The next handler runs with the verified context, or the request is answered with an error.\<close>

datatype middleware_outcome =
    Next release_verification_context
  | Rejected (rejected_status: nat) (rejected_code: release_verification_error_code)
      (rejected_description: string) (rejected_challenge: string)

fun reject_with :: "js_error \<Rightarrow> middleware_outcome" where
  "reject_with (ReleaseVerificationError status code description) =
     Rejected status code description (error_challenge code description)"
| "reject_with e = Rejected 401 Invalid_token (error_message e) (error_challenge Invalid_token (error_message e))"

definition releaseVerificationMiddleware ::
  "jose_api \<Rightarrow> dpop_api \<Rightarrow> int \<Rightarrow> middleware_options \<Rightarrow> http_request \<Rightarrow> token_store \<Rightarrow>
   middleware_outcome \<times> token_store" where
  "releaseVerificationMiddleware jose dpop now options request store =
     (case rbind (resolveReleaseTokenFromRequest (hrq_headers request)
             (toLowerCase (nullish (mwo_tokenHeaderName options) DEFAULT_RELEASE_TOKEN_HEADER))) (\<lambda>token.
           rbind (mwo_resolve options request) (\<lambda>v. return (middleware_input options request token v))) of
        Inl e \<Rightarrow> (reject_with e, store)
      | Inr input \<Rightarrow>
          (case verifyReleaseAuthorization jose dpop now input store of
             (Inl e, store1) \<Rightarrow> (reject_with e, store1)
           | (Inr verified, store1) \<Rightarrow> (Next verified, store1)))"

section \<open>Authorizations as runs of the registry\<close>

lemma memory_mutate_run:
  assumes "memory_mutate (store_action now op) s = (out, s')"
  shows "store_runs s [(op, out)] s'"
  using run_step [OF run_start assms] by simp

text \<open>An action wrapped as an operation of the registry leaves the same store.\<close>

lemma wrapped_run:
  assumes "memory_mutate action s = (r, s')" and "\<And>t. store_action now op t = outcome_of f (action t)"
  shows "store_runs s [(op, rbind r (\<lambda>x. return (f x)))] s'"
proof -
  have "memory_mutate (store_action now op) s = (rbind r (\<lambda>x. return (f x)), s')"
    using assms by (auto simp: memory_mutate_def split: sum.splits)
  then show ?thesis by (rule memory_mutate_run)
qed

lemma quiet_steps [simp]:
  "registered_decisions tok [] = {}"
  "registered_decisions tok [(Op_sync d, r)] = {}" "registered_decisions tok [(Op_use u, r)] = {}"
  by (simp_all add: registered_decisions_def)

lemma registered_decisions_append [simp]:
  "registered_decisions tok (trace @ trace') = registered_decisions tok trace \<union> registered_decisions tok trace'"
  by (induction trace) (auto simp: registered_decisions_def split: option.splits)

lemma introspect_run:
  assumes "introspectReleaseToken jose now i s = (r, s')"
  shows "\<exists>trace. store_runs s trace s' \<and> (\<forall>tok. uses tok trace = 0 \<and> registered_decisions tok trace = {})"
proof (cases "s' = s")
  case True
  then show ?thesis using run_start [of s] by (auto simp: uses_def intro!: exI [of _ "[]"])
next
  case False
  obtain out s1 where sync: "memory_mutate (syncLifecycle now (ini_currentDate i)) s = (out, s1)"
    by fastforce
  have s1: "s' = s1"
    using assms False sync unfolding introspectReleaseToken_def Let_def
    by (auto split: if_split_asm sum.splits option.splits js_error.splits token_verification_failure_code.splits)
  have "store_runs s [(Op_sync (ini_currentDate i), rbind out (\<lambda>x. return (Out_synced x)))] s1"
    using sync by (rule wrapped_run) simp
  then show ?thesis by (auto simp: s1 uses_def intro!: exI)
qed

lemma store_runs_append:
  assumes "store_runs s1 trace' s2" and "store_runs s trace s1"
  shows "store_runs s (trace @ trace') s2"
  using assms
proof (induction rule: store_runs.induct)
  case (run_step s1 trace' s2 now op out s3)
  then show ?case using store_runs.run_step [of s "trace @ trace'" s2 now op out s3] by simp
qed simp

lemma uses_append: "uses tok (trace @ trace') = uses tok trace + uses tok trace'"
  by (simp add: uses_def)

lemma accepted_has_record:
  "recordTokenUse now input s = Inr (res, s') \<Longrightarrow> tur_accepted res \<Longrightarrow> tur_record res \<noteq> None"
  by (auto simp: recordTokenUse_def split: option.splits if_splits)

lemma consume_run:
  assumes "consume_token now v input s = (r, s')"
  shows "\<exists>trace. store_runs s trace s' \<and> (\<forall>tok. uses tok trace =
    (if rvi_consumeOnSuccess input \<and> (\<exists>u. r = Inr u) \<and> clm_jti (tvr_claims v) = tok then 1 else 0) \<and>
    registered_decisions tok trace = {})"
proof (cases "rvi_consumeOnSuccess input \<and> rvi_usageStore input")
  case False
  then have "s' = s" and "rvi_consumeOnSuccess input \<Longrightarrow> \<exists>e. r = Inl e"
    using assms by (auto simp: consume_token_def split: if_splits)
  then show ?thesis using run_start [of s] by (auto simp: uses_def intro!: exI [of _ "[]"])
next
  case True
  let ?use = "\<lparr> tui_tokenId = clm_jti (tvr_claims v), tui_usedAt = rvi_currentDate input,
      tui_resourceServerId = rvi_resourceServerId input \<rparr>"
  obtain out s1 where m: "memory_mutate (recordTokenUse now ?use) s = (out, s1)" by fastforce
  have s1: "s' = s1"
    using assms True m by (auto simp: consume_token_def split: sum.splits bool.splits option.splits)
  have run: "store_runs s [(Op_use ?use, rbind out (\<lambda>x. return (Out_use x)))] s1"
    using m by (rule wrapped_run) simp
  have "uses tok [(Op_use ?use, rbind out (\<lambda>x. return (Out_use x)))] =
      (if (\<exists>u. r = Inr u) \<and> clm_jti (tvr_claims v) = tok then 1 else 0)" for tok
  proof (cases out)
    case (Inl e)
    then show ?thesis using assms True m by (auto simp: consume_token_def uses_def)
  next
    case (Inr res)
    then have "tur_accepted res \<Longrightarrow> tur_record res \<noteq> None"
      using m accepted_has_record by (auto simp: memory_mutate_def split: sum.splits)
    then show ?thesis
      using assms True m Inr
      by (auto simp: consume_token_def uses_def split: bool.splits option.splits)
  qed
  then show ?thesis using run True by (auto simp: s1 intro!: exI)
qed

lemma require_introspection_run:
  assumes "require_introspection jose now v input s = (r, s')"
  shows "\<exists>trace. store_runs s trace s' \<and> (\<forall>tok. uses tok trace = 0 \<and> registered_decisions tok trace = {})"
proof (cases "s' = s")
  case True
  then show ?thesis using run_start [of s] by (auto simp: uses_def intro!: exI [of _ "[]"])
next
  case False
  obtain out s1 where i: "introspectReleaseToken jose now (introspection_query input) s = (out, s1)"
    by fastforce
  have "s' = s1"
    using assms False i
    by (auto simp: require_introspection_def split: if_split_asm sum.splits introspection_result.splits)
  with introspect_run [OF i] show ?thesis by simp
qed

text \<open>The stages a successful authorization passed.\<close>

lemma authorization_stages:
  assumes "verifyReleaseAuthorization jose dpop now input s = (Inr ctx, s')"
  obtains v b i u s1 where "verifyIssuedReleaseToken jose (token_request input) = Inr v"
    and "assertVerifiedBinding v input = Inr ()" and "verifySenderBinding dpop now v input = Inr b"
    and "require_introspection jose now v input s = (Inr i, s1)"
    and "consume_token now v input s1 = (Inr u, s')" and "ctx = verification_context input v b i u"
  using assms unfolding verifyReleaseAuthorization_def
  by (auto split: sum.splits prod.splits)

lemma context_fields [simp]:
  "rvc_verification (verification_context input v b i u) = v"
  "rvc_senderBinding (verification_context input v b i u) = b"
  "rvc_introspection (verification_context input v b i u) = i"
  "rvc_usage (verification_context input v b i u) = u"
  by (simp_all add: verification_context_def Let_def)

text \<open>The token an authorization has used up, if it succeeded and consumes tokens.\<close>

fun consumed_by :: "string \<Rightarrow> release_verification_input \<Rightarrow> release_verification_context result \<Rightarrow> bool" where
  "consumed_by tok input (Inr ctx) \<longleftrightarrow>
     rvi_consumeOnSuccess input \<and> clm_jti (tvr_claims (rvc_verification ctx)) = tok"
| "consumed_by tok input (Inl e) \<longleftrightarrow> False"

lemma authorization_run:
  assumes "verifyReleaseAuthorization jose dpop now input s = (out, s')"
  shows "\<exists>trace. store_runs s trace s' \<and> (\<forall>tok. uses tok trace = (if consumed_by tok input out then 1 else 0) \<and>
    registered_decisions tok trace = {})"
proof (cases "verifyIssuedReleaseToken jose (token_request input)")
  case (Inl e)
  then have "s' = s" "\<exists>e. out = Inl e" using assms by (auto simp: verifyReleaseAuthorization_def)
  then show ?thesis using run_start [of s] by (auto simp: uses_def intro!: exI [of _ "[]"])
next
  case v: (Inr v)
  show ?thesis
  proof (cases "rbind (assertVerifiedBinding v input) (\<lambda>_. verifySenderBinding dpop now v input)")
    case (Inl e)
    then have "s' = s" "\<exists>e. out = Inl e"
      using assms v by (auto simp: verifyReleaseAuthorization_def simp del: rbind_eq_Inl)
    then show ?thesis using run_start [of s] by (auto simp: uses_def intro!: exI [of _ "[]"])
  next
    case b: (Inr b)
    obtain i s1 where i: "require_introspection jose now v input s = (i, s1)" by fastforce
    obtain u s2 where u: "consume_token now v input s1 = (u, s2)" by fastforce
    obtain t1 where t1: "store_runs s t1 s1" "\<And>tok. uses tok t1 = 0" "\<And>tok. registered_decisions tok t1 = {}"
      using require_introspection_run [OF i] by blast
    obtain t2 where t2: "store_runs s1 t2 s2" "\<And>tok. uses tok t2 =
        (if rvi_consumeOnSuccess input \<and> (\<exists>x. u = Inr x) \<and> clm_jti (tvr_claims v) = tok then 1 else 0)"
      "\<And>tok. registered_decisions tok t2 = {}"
      using consume_run [OF u] by blast
    have run: "store_runs s (t1 @ t2) s2" using t2(1) t1(1) by (rule store_runs_append)
    show ?thesis
    proof (cases i)
      case (Inl e)
      then have "s' = s1" "out = Inl e"
        using assms v b i by (simp_all add: verifyReleaseAuthorization_def del: rbind_eq_Inr)
      then show ?thesis using t1 by auto
    next
      case (Inr x)
      then have "s' = s2" "out = rbind u (\<lambda>y. Inr (verification_context input v b x y))"
        using assms v b i u
        by (cases u; simp add: verifyReleaseAuthorization_def del: rbind_eq_Inr)+
      moreover have "consumed_by tok input (rbind u (\<lambda>y. Inr (verification_context input v b x y))) \<longleftrightarrow>
          rvi_consumeOnSuccess input \<and> (\<exists>y. u = Inr y) \<and> clm_jti (tvr_claims v) = tok" for tok
        by (cases u) auto
      ultimately show ?thesis
        using t1(2,3) t2(2,3) by (intro exI [of _ "t1 @ t2"]) (auto simp: uses_append run)
    qed
  qed
qed

section \<open>Many consumers of one registry\<close>

text \<open>
  Authorizations, by any number of consumers, interleaved with the other operations on the
  registry.
\<close>

datatype release_event =
    Authorize release_verification_input "release_verification_context result"
  | Registry store_op "store_outcome result"

inductive release_runs ::
  "jose_api \<Rightarrow> dpop_api \<Rightarrow> token_store \<Rightarrow> release_event list \<Rightarrow> token_store \<Rightarrow> bool"
  for jose dpop where
  release_start: "release_runs jose dpop s [] s"
| release_authorize: "release_runs jose dpop s events s1 \<Longrightarrow>
    verifyReleaseAuthorization jose dpop now input s1 = (out, s2) \<Longrightarrow>
    release_runs jose dpop s (events @ [Authorize input out]) s2"
| release_registry: "release_runs jose dpop s events s1 \<Longrightarrow>
    memory_mutate (store_action now op) s1 = (out, s2) \<Longrightarrow>
    release_runs jose dpop s (events @ [Registry op out]) s2"

fun releases_token :: "string \<Rightarrow> release_event \<Rightarrow> bool" where
  "releases_token tok (Authorize input out) \<longleftrightarrow> consumed_by tok input out"
| "releases_token tok (Registry op out) \<longleftrightarrow> accepted_use tok (op, out)"

definition releases :: "string \<Rightarrow> release_event list \<Rightarrow> nat" where
  "releases tok events = length (filter (releases_token tok) events)"

text \<open>The decisions under which a token was registered among the events.\<close>

fun event_registration :: "string \<Rightarrow> release_event \<Rightarrow> release_decision option" where
  "event_registration tok (Authorize input out) = None"
| "event_registration tok (Registry op out) = registration_of tok (op, out)"

definition registered_for :: "string \<Rightarrow> release_event list \<Rightarrow> release_decision set" where
  "registered_for tok events = set (List.map_filter (event_registration tok) events)"

text \<open>Every such run is a run of the registry that accepts the same uses and registrations.\<close>

lemma release_runs_refine:
  "release_runs jose dpop s events s' \<Longrightarrow>
   \<exists>trace. store_runs s trace s' \<and>
     (\<forall>tok. uses tok trace = releases tok events \<and> registered_decisions tok trace = registered_for tok events)"
proof (induction rule: release_runs.induct)
  case (release_start s)
  then show ?case
    using run_start [of s] by (auto simp: uses_def releases_def registered_for_def intro!: exI [of _ "[]"])
next
  case (release_authorize s events s1 now input out s2)
  then obtain t where t: "store_runs s t s1" "\<And>tok. uses tok t = releases tok events"
    "\<And>tok. registered_decisions tok t = registered_for tok events" by blast
  obtain t' where t': "store_runs s1 t' s2"
    "\<And>tok. uses tok t' = (if consumed_by tok input out then 1 else 0)" "\<And>tok. registered_decisions tok t' = {}"
    using authorization_run [OF release_authorize.hyps(2)] by blast
  have "uses tok (t @ t') = releases tok (events @ [Authorize input out])" for tok
    by (simp add: uses_append t(2) t'(2) releases_def)
  moreover have "registered_decisions tok (t @ t') = registered_for tok (events @ [Authorize input out])" for tok
    by (simp add: t(3) t'(3)) (simp add: registered_for_def map_filter_snoc)
  ultimately show ?case using store_runs_append [OF t'(1) t(1)] by blast
next
  case (release_registry s events s1 now op out s2)
  then obtain t where t: "store_runs s t s1" "\<And>tok. uses tok t = releases tok events"
    "\<And>tok. registered_decisions tok t = registered_for tok events" by blast
  have "uses tok (t @ [(op, out)]) = releases tok (events @ [Registry op out])" for tok
    using t(2) by (simp add: uses_def releases_def)
  moreover have "registered_decisions tok (t @ [(op, out)]) = registered_for tok (events @ [Registry op out])" for tok
    using t(3) [of tok] by (simp add: registered_decisions_def registered_for_def map_filter_snoc)
  ultimately show ?case using run_step [OF t(1) release_registry.hyps(2)] by blast
qed

text \<open>
  C2: No double release. However many consumers present a token, in whatever order their
  authorizations interleave with registrations, revocations and expiry, the authorizations that
  consume it, together with the uses recorded directly, are at most as many as every decision
  the token was registered under allows by its usage limit (where a limit below one still allows
  one), none for a token that was never registered, and exactly as many as its record counts.\<close>

theorem authorizations_bounded:
  assumes "release_runs jose dpop defaultReleaseTokenIntrospectionStoreFile events s"
  shows "(\<forall>d\<in>registered_for tok events. int (releases tok events) \<le> use_allowance d) \<and>
    (registered_for tok events = {} \<longrightarrow> releases tok events = 0) \<and>
    (case findToken s tok of
       None \<Rightarrow> releases tok events = 0
     | Some r \<Rightarrow> int (releases tok events) = rrt_useCount r \<and> rrt_useCount r \<le> rrt_maxUses r)"
proof -
  obtain trace where t: "reaches trace s" "\<And>tok. uses tok trace = releases tok events"
    "\<And>tok. registered_decisions tok trace = registered_for tok events"
    using release_runs_refine [OF assms] by blast
  show ?thesis
    using uses_within_bound [OF t(1), of tok] uses_and_decisions [OF t(1), of tok] unfolding t(2,3) by blast
qed

section \<open>What an authorization proves\<close>

lemma first_failure_eq_Inr [simp]: "first_failure gs = Inr u \<longleftrightarrow> list_all (\<lambda>g. \<not> fst g) gs"
  by (induction gs rule: first_failure.induct) auto

text \<open>Every expectation that was stated is met by the claims.\<close>

definition meets :: "'a option \<Rightarrow> 'a option \<Rightarrow> bool" where
  "meets expected actual \<longleftrightarrow> expected = None \<or> actual = expected"

definition bound_as_expected :: "release_verification_input \<Rightarrow> release_token_claims \<Rightarrow> bool" where
  "bound_as_expected input claims \<longleftrightarrow>
     meets (rvi_expectedTargetId input) (Some (clm_aud claims)) \<and>
     meets (rvi_expectedOutputHash input) (Some (clm_output_hash claims)) \<and>
     meets (rvi_expectedConsequenceHash input) (Some (clm_consequence_hash claims)) \<and>
     meets (rvi_expectedPolicyHash input) (Some (clm_policy_hash claims)) \<and>
     meets (rvi_expectedPolicyVersion input) (clm_policy_version claims) \<and>
     meets (rvi_expectedPolicyIrHash input) (clm_policy_ir_hash claims) \<and>
     meets (rvi_expectedPolicyProvenanceSource input) (clm_policy_provenance_source claims) \<and>
     meets (rvi_expectedCompiledPolicyIndexVersion input) (clm_compiled_policy_index_version claims) \<and>
     meets (rvi_expectedCompiledPolicyIrVersion input) (clm_compiled_policy_ir_version claims)"

lemma binding_eq_Inr: "assertVerifiedBinding v input = Inr u \<longleftrightarrow> bound_as_expected input (tvr_claims v)"
  by (auto simp: assertVerifiedBinding_def bound_as_expected_def meets_def Let_def)

text \<open>
  The sender holds the key the token is bound to: a valid proof over this request, this token
  and this key was presented.
\<close>

definition sender_proved :: "dpop_api \<Rightarrow> int \<Rightarrow> release_verification_input \<Rightarrow> string \<Rightarrow> bool" where
  "sender_proved dpop now input thumbprint \<longleftrightarrow>
     (\<exists>proof m u p. rvi_dpopProofJwt input = Some proof \<and> rvi_dpopHttpMethod input = Some m \<and>
        rvi_dpopHttpUri input = Some u \<and> dpv_valid p \<and>
        verifyDpopProof dpop
          \<lparr> vdp_proofJwt = trim proof, vdp_httpMethod = m, vdp_httpUri = u,
            vdp_accessToken = Some (rvi_token input), vdp_expectedJwkThumbprint = Some thumbprint,
            vdp_expectedNonce = None, vdp_now = nullish (rvi_currentDate input) (Iso now),
            vdp_maxProofAgeSeconds = None, vdp_clockSkewSeconds = None, vdp_acceptedAlgorithms = None,
            vdp_replayLedgerEntry = None \<rparr> = Inr p)"

lemma sender_binding_sound:
  assumes "verifySenderBinding dpop now v input = Inr b"
  shows "case token_thumbprint (tvr_claims v) of
      None \<Rightarrow> \<not> rvi_requireSenderConstrainedToken input
    | Some t \<Rightarrow> sender_proved dpop now input t"
  using assms
  by (auto simp: verifySenderBinding_def sender_proved_def normalizedDpopProof_def truthy_str_eq_Some
      split: option.splits if_split_asm)

lemma introspected_live:
  assumes "store_inv s" and "introspectionTimestamp now (ini_currentDate i) = Inr t"
    and "introspectReleaseToken jose now i s = (Inr (Active base a), s')"
  shows "\<exists>v. verifyIssuedReleaseToken jose (introspection_request i) = Inr v \<and> live_record s t (tvr_claims v)"
proof -
  obtain rs s1 where ex: "expire_loop t s = Inr (rs, s1)"
    using expire_loop_map [OF store_invD(1) [OF assms(1)]] by blast
  note ex' = expire_guarantees [OF assms(1) ex]
  have sync: "memory_mutate (syncLifecycle now (ini_currentDate i)) s = (Inr rs, s1)"
    using assms(2) ex by (simp add: memory_mutate_def syncLifecycle_def)
  have inactive: "inactiveReleaseTokenIntrospection now reason (ini_currentDate i) rsid =
      Inr (Inactive (introspection_base_of t rsid) reason)" for reason rsid
    using assms(2) by (simp add: inactiveReleaseTokenIntrospection_def)
  show ?thesis
    using assms(3) unfolding introspectReleaseToken_def Let_def introspection_request_def [symmetric]
    by (auto simp: inactive sync ex'(3) live_record_def expire_record_match
        split: if_split_asm sum.splits js_error.splits token_verification_failure_code.splits option.splits)
qed

text \<open>What an accepted use means for the record of the token.\<close>

lemma accepted_use_facts:
  assumes "store_inv s" and "introspectionTimestamp now (tui_usedAt i) = Inr t"
    and "recordTokenUse now i s = Inr (res, s')" and "tur_accepted res"
  shows "\<exists>r c. findToken s (tui_tokenId i) = Some r \<and> rrt_status r = Tok_issued \<and> t < rrt_expiresAt r \<and>
    findToken s' (tui_tokenId i) = Some c \<and> tur_record res = Some c \<and>
    rrt_useCount c = rrt_useCount r + 1 \<and> rrt_maxUses c = rrt_maxUses r \<and> rrt_useCount c \<le> rrt_maxUses c"
proof -
  obtain rs s1 where ex: "expire_loop t s = Inr (rs, s1)"
    using expire_loop_map [OF store_invD(1) [OF assms(1)]] by blast
  note ex' = expire_guarantees [OF assms(1) ex]
  from assms(2-4) ex obtain r1 c where r1: "findToken s1 (tui_tokenId i) = Some r1" "rrt_status r1 = Tok_issued"
    and c: "consumeRegisteredReleaseToken now r1 i = Inr c" "s' = writeRegisteredReleaseToken s1 c"
      "tur_record res = Some c"
    by (auto simp: recordTokenUse_def split: option.splits if_split_asm)
  have ok: "record_ok r1" using store_invD(2) [OF ex'(1)] token_records.lookup_in_recs [OF r1(1)] by simp
  note cons = consume_replaces [OF c(1) r1(2)]
  have rep: "replaces c r1" using cons(1) ok by simp
  from rep have c': "record_ok c" "rrt_maxUses c = rrt_maxUses r1" "rrt_tokenId c = rrt_tokenId r1"
    using ok by (simp_all add: replaces_def)
  have "findToken s' (tui_tokenId i) = Some c"
    using token_records.lookup_key [OF r1(1)] c'(3) by (simp add: c(2) token_records.lookup_put)
  moreover obtain r where r: "findToken s (tui_tokenId i) = Some r" "r1 = expire_record t r"
    using r1(1) by (auto simp: ex'(3))
  moreover have "rrt_status r = Tok_issued \<and> t < rrt_expiresAt r"
    using r1(2) expire_record_match(2) r(2) by simp
  ultimately show ?thesis
    using c(3) c' cons(2) expire_record_replaces [of t r]
    by (intro exI [of _ r] exI [of _ c]) (simp add: replaces_def record_ok_def)
qed

text \<open>Introspection changes a registry only by expiring tokens.\<close>

lemma introspection_keeps_records:
  assumes "store_inv s" and "require_introspection jose now v input s = (r, s')"
  shows "store_inv s' \<and> (\<forall>tok x'. findToken s' tok = Some x' \<longrightarrow>
    (\<exists>x. findToken s tok = Some x \<and> replaces x' x \<and> rrt_useCount x' = rrt_useCount x))"
proof (cases "s' = s")
  case True
  then show ?thesis using assms(1) replaces_refl by auto
next
  case False
  let ?i = "introspection_query input"
  obtain out s1 where i: "introspectReleaseToken jose now ?i s = (out, s1)" by fastforce
  have s1: "s' = s1"
    using assms(2) False i
    by (auto simp: require_introspection_def split: if_split_asm sum.splits introspection_result.splits)
  obtain o2 s2 where sync: "memory_mutate (syncLifecycle now (ini_currentDate ?i)) s = (o2, s2)" by fastforce
  have s2: "s1 = s2"
    using i False s1 sync unfolding introspectReleaseToken_def Let_def
    by (auto split: if_split_asm sum.splits option.splits js_error.splits token_verification_failure_code.splits)
  obtain t rs where ex: "expire_loop t s = Inr (rs, s')"
    using sync False s1 s2 by (auto simp: memory_mutate_def syncLifecycle_def split: sum.splits)
  note ex' = expire_guarantees [OF assms(1) ex]
  show ?thesis using ex'(1) expire_record_replaces by (auto simp: ex'(3))
qed

lemma token_of_introspection:
  assumes "verifyIssuedReleaseToken jose (token_request input) = Inr v"
    and "verifyIssuedReleaseToken jose (introspection_request (introspection_query input)) = Inr v'"
  shows "tvr_claims v' = tvr_claims v"
  using assms by (auto simp: verify_eq_Inr token_request_def introspection_request_def introspection_query_def)

text \<open>
  C1: No token, no release. An authorization that succeeds against a reachable registry had a
  token that verifies, whose claims meet every stated expectation; the sender proved possession
  of the key a bound token names, and a demanded binding was there; a token that requires
  introspection is registered with those claims, issued and not expired; and when tokens are
  consumed, an unused use of a live token was taken from the registry.\<close>

theorem authorization_sound:
  assumes "reaches trace s" and "introspectionTimestamp now (rvi_currentDate input) = Inr t"
    and "verifyReleaseAuthorization jose dpop now input s = (Inr ctx, s')"
  defines "claims \<equiv> tvr_claims (rvc_verification ctx)"
  shows "verifyIssuedReleaseToken jose (token_request input) = Inr (rvc_verification ctx) \<and>
    bound_as_expected input claims \<and>
    (case token_thumbprint claims of
       None \<Rightarrow> \<not> rvi_requireSenderConstrainedToken input
     | Some jkt \<Rightarrow> sender_proved dpop now input jkt) \<and>
    (clm_introspection_required claims \<longrightarrow> rvi_introspector input \<and> live_record s t claims) \<and>
    (rvi_consumeOnSuccess input \<longrightarrow> (\<exists>r c.
       findToken s (clm_jti claims) = Some r \<and> rrt_status r = Tok_issued \<and> t < rrt_expiresAt r \<and>
       findToken s' (clm_jti claims) = Some c \<and> rrt_useCount c = rrt_useCount r + 1 \<and>
       rrt_useCount c \<le> rrt_maxUses r))"
proof -
  have inv: "store_inv s" using assms(1) by (rule reachable_inv)
  obtain v b i u s1 where v: "verifyIssuedReleaseToken jose (token_request input) = Inr v"
    and bind: "assertVerifiedBinding v input = Inr ()" and sender: "verifySenderBinding dpop now v input = Inr b"
    and intro: "require_introspection jose now v input s = (Inr i, s1)"
    and use: "consume_token now v input s1 = (Inr u, s')" and ctx: "ctx = verification_context input v b i u"
    using assms(3) by (rule authorization_stages)
  have c: "claims = tvr_claims v" "rvc_verification ctx = v" by (simp_all add: claims_def ctx)
  have live: "rvi_introspector input \<and> live_record s t claims" if req: "clm_introspection_required claims"
  proof -
    have date: "introspectionTimestamp now (ini_currentDate (introspection_query input)) = Inr t"
      using assms(2) by (simp add: introspection_query_def)
    obtain base a where ia: "rvi_introspector input"
      "introspectReleaseToken jose now (introspection_query input) s = (Inr (Active base a), s1)"
      using intro req c by (auto simp: require_introspection_def split: if_split_asm sum.splits
          introspection_result.splits prod.splits)
    obtain v' where "verifyIssuedReleaseToken jose (introspection_request (introspection_query input)) = Inr v'"
      "live_record s t (tvr_claims v')"
      using introspected_live [OF inv date ia(2)] by blast
    then show ?thesis using ia(1) token_of_introspection [OF v] c by metis
  qed
  note keeps = introspection_keeps_records [OF inv intro]
  have used: "\<exists>r c'. findToken s (clm_jti claims) = Some r \<and> rrt_status r = Tok_issued \<and> t < rrt_expiresAt r \<and>
       findToken s' (clm_jti claims) = Some c' \<and> rrt_useCount c' = rrt_useCount r + 1 \<and>
       rrt_useCount c' \<le> rrt_maxUses r" if consume: "rvi_consumeOnSuccess input"
  proof -
    let ?use = "\<lparr> tui_tokenId = clm_jti (tvr_claims v), tui_usedAt = rvi_currentDate input,
        tui_resourceServerId = rvi_resourceServerId input \<rparr>"
    obtain res where res: "recordTokenUse now ?use s1 = Inr (res, s')" "tur_accepted res"
      using use consume
      by (auto simp: consume_token_def memory_mutate_def split: if_split_asm sum.splits prod.splits bool.splits option.splits)
    have "introspectionTimestamp now (tui_usedAt ?use) = Inr t" using assms(2) by simp
    from accepted_use_facts [OF conjunct1 [OF keeps] this res] obtain r c' where
      r: "findToken s1 (clm_jti claims) = Some r" "rrt_status r = Tok_issued" "t < rrt_expiresAt r"
      "findToken s' (clm_jti claims) = Some c'" "rrt_useCount c' = rrt_useCount r + 1"
      "rrt_maxUses c' = rrt_maxUses r" "rrt_useCount c' \<le> rrt_maxUses c'"
      by (auto simp: c)
    obtain x where "findToken s (clm_jti claims) = Some x" "replaces r x" "rrt_useCount r = rrt_useCount x"
      using keeps r(1) by blast
    with r show ?thesis by (auto simp: replaces_def)
  qed
  show ?thesis
    using v bind sender_binding_sound [OF sender] live used by (auto simp: binding_eq_Inr c)
qed

text \<open>
  What the options of the middleware, resolved for a request, demand of the claims of its token,
  and the proof of possession the request itself carries.
\<close>

definition meets_options :: "middleware_values \<Rightarrow> release_token_claims \<Rightarrow> bool" where
  "meets_options v claims \<longleftrightarrow>
     meets (mwv_expectedTargetId v) (Some (clm_aud claims)) \<and>
     meets (mwv_expectedOutputHash v) (Some (clm_output_hash claims)) \<and>
     meets (mwv_expectedConsequenceHash v) (Some (clm_consequence_hash claims)) \<and>
     meets (mwv_expectedPolicyHash v) (Some (clm_policy_hash claims)) \<and>
     meets (mwv_expectedPolicyVersion v) (clm_policy_version claims) \<and>
     meets (mwv_expectedPolicyIrHash v) (clm_policy_ir_hash claims) \<and>
     meets (mwv_expectedPolicyProvenanceSource v) (clm_policy_provenance_source claims) \<and>
     meets (mwv_expectedCompiledPolicyIndexVersion v) (clm_compiled_policy_index_version claims) \<and>
     meets (mwv_expectedCompiledPolicyIrVersion v) (clm_compiled_policy_ir_version claims)"

definition request_proves ::
  "dpop_api \<Rightarrow> int \<Rightarrow> middleware_options \<Rightarrow> http_request \<Rightarrow> middleware_values \<Rightarrow> string \<Rightarrow> string \<Rightarrow> bool" where
  "request_proves dpop now options request v token thumbprint \<longleftrightarrow>
     (\<exists>proof p. hrq_headers request (toLowerCase (nullish (mwo_dpopProofHeaderName options) ''DPoP'')) = Some proof \<and>
        verifyDpopProof dpop
          \<lparr> vdp_proofJwt = trim proof, vdp_httpMethod = hrq_method request,
            vdp_httpUri = nullish (mwv_dpopHttpUri v) (hrq_url request),
            vdp_accessToken = Some token, vdp_expectedJwkThumbprint = Some thumbprint,
            vdp_expectedNonce = None, vdp_now = nullish (mwv_currentDate v) (Iso now),
            vdp_maxProofAgeSeconds = None, vdp_clockSkewSeconds = None, vdp_acceptedAlgorithms = None,
            vdp_replayLedgerEntry = None \<rparr> = Inr p \<and> dpv_valid p)"

text \<open>Everything that holds when the next handler runs with the token of the request.\<close>

definition let_through ::
  "jose_api \<Rightarrow> dpop_api \<Rightarrow> int \<Rightarrow> middleware_options \<Rightarrow> http_request \<Rightarrow> middleware_values \<Rightarrow> string \<Rightarrow>
   release_verification_context \<Rightarrow> bool" where
  "let_through jose dpop now options request v token ctx \<longleftrightarrow>
     (let claims = tvr_claims (rvc_verification ctx) in
      verifyIssuedReleaseToken jose
        \<lparr> vti_token = token, vti_verificationKey = mwv_verificationKey v, vti_audience = mwv_audience v,
          vti_expectedTenantId = None, vti_currentDate = mwv_currentDate v \<rparr> = Inr (rvc_verification ctx) \<and>
      meets_options v claims \<and>
      (case token_thumbprint claims of
         None \<Rightarrow> \<not> mwv_requireSenderConstrainedToken v
       | Some jkt \<Rightarrow> request_proves dpop now options request v token jkt) \<and>
      (clm_introspection_required claims \<longrightarrow> mwv_introspector v))"

lemma authorized_let_through:
  assumes "verifyReleaseAuthorization jose dpop now (middleware_input options request token v) s = (Inr ctx, s')"
  shows "let_through jose dpop now options request v token ctx"
proof -
  let ?input = "middleware_input options request token v"
  obtain x b i u s1 where x: "verifyIssuedReleaseToken jose (token_request ?input) = Inr x"
    and bind: "assertVerifiedBinding x ?input = Inr ()" and sender: "verifySenderBinding dpop now x ?input = Inr b"
    and intro: "require_introspection jose now x ?input s = (Inr i, s1)"
    and ctx: "ctx = verification_context ?input x b i u"
    using assms by (rule authorization_stages)
  have "clm_introspection_required (tvr_claims x) \<longrightarrow> mwv_introspector v"
    using intro by (auto simp: require_introspection_def middleware_input_def split: if_split_asm)
  moreover have "sender_proved dpop now ?input jkt \<longleftrightarrow> request_proves dpop now options request v token jkt" for jkt
    by (auto simp: sender_proved_def request_proves_def middleware_input_def)
  ultimately show ?thesis
    using x bind sender_binding_sound [OF sender]
    by (auto simp: let_through_def ctx Let_def binding_eq_Inr bound_as_expected_def meets_options_def
        token_request_def middleware_input_def split: option.splits)
qed

text \<open>
  C20: The middleware fails closed. The next handler runs only when the token in the headers of
  the request verifies with the key, audience and date the options resolve to for it, its claims
  meet every expectation they resolve to, a bound token came with a valid proof of possession in
  the proof header for the method and address of the request, a bare token was allowed, and an
  introspector was there if the token requires one; the token is used once if the options say so
  and no other token is. A rejected request uses up no token, and a request without a token is
  challenged before anything else happens.\<close>

theorem middleware_fails_closed:
  assumes "releaseVerificationMiddleware jose dpop now options request s = (out, s')"
  defines "header \<equiv> toLowerCase (nullish (mwo_tokenHeaderName options) DEFAULT_RELEASE_TOKEN_HEADER)"
  shows "(case out of
      Next ctx \<Rightarrow> (\<exists>token v. token \<noteq> [] \<and>
        resolveReleaseTokenFromRequest (hrq_headers request) header = Inr token \<and>
        mwo_resolve options request = Inr v \<and>
        let_through jose dpop now options request v token ctx \<and>
        verifyReleaseAuthorization jose dpop now (middleware_input options request token v) s = (Inr ctx, s') \<and>
        (\<exists>trace. store_runs s trace s' \<and> (\<forall>tok. uses tok trace =
          (if mwv_consumeOnSuccess v \<and> tok = clm_jti (tvr_claims (rvc_verification ctx)) then 1 else 0))))
    | Rejected status code description challenge \<Rightarrow>
        (\<exists>trace. store_runs s trace s' \<and> (\<forall>tok. uses tok trace = 0))) \<and>
    (truthy_str (hrq_headers request ''authorization'') = None \<and>
       truthy_str (map_option trim (hrq_headers request header)) = None \<longrightarrow>
     (\<exists>description. out = Rejected 401 Missing_token description (buildBearerChallenge Invalid_token description) \<and> s' = s))"
proof (intro conjI impI)
  let ?resolve = "resolveReleaseTokenFromRequest (hrq_headers request) header"
  have rejected: "\<exists>a b c d. reject_with e = Rejected a b c d" for e
    by (cases e) auto
  have empty: "\<exists>trace. store_runs s trace s \<and> (\<forall>tok. uses tok trace = 0)"
    using run_start [of s] by (auto simp: uses_def intro!: exI [of _ "[]"])
  show "case out of
      Next ctx \<Rightarrow> (\<exists>token v. token \<noteq> [] \<and> ?resolve = Inr token \<and> mwo_resolve options request = Inr v \<and>
        let_through jose dpop now options request v token ctx \<and>
        verifyReleaseAuthorization jose dpop now (middleware_input options request token v) s = (Inr ctx, s') \<and>
        (\<exists>trace. store_runs s trace s' \<and> (\<forall>tok. uses tok trace =
          (if mwv_consumeOnSuccess v \<and> tok = clm_jti (tvr_claims (rvc_verification ctx)) then 1 else 0))))
    | Rejected status code description challenge \<Rightarrow>
        (\<exists>trace. store_runs s trace s' \<and> (\<forall>tok. uses tok trace = 0))"
  proof (cases "rbind ?resolve (\<lambda>token. rbind (mwo_resolve options request)
      (\<lambda>v. return (middleware_input options request token v)))")
    case (Inl e)
    then have "out = reject_with e" "s' = s"
      using assms by (auto simp: releaseVerificationMiddleware_def simp del: rbind_eq_Inl)
    with rejected [of e] empty show ?thesis by auto
  next
    case (Inr input)
    then obtain token v where tv: "?resolve = Inr token" "mwo_resolve options request = Inr v"
      "input = middleware_input options request token v"
      by auto
    have token: "token \<noteq> []"
      using tv(1) by (auto simp: resolveReleaseTokenFromRequest_def truthy_str_eq_Some split: option.splits)
    obtain r s1 where auth: "verifyReleaseAuthorization jose dpop now input s = (r, s1)" by fastforce
    have out: "out = (case r of Inl e \<Rightarrow> reject_with e | Inr ctx \<Rightarrow> Next ctx)" "s' = s1"
      using assms Inr auth
      by (auto simp: releaseVerificationMiddleware_def simp del: rbind_eq_Inr split: sum.splits)
    obtain trace where run: "store_runs s trace s1"
      "\<And>tok. uses tok trace = (if consumed_by tok input r then 1 else 0)"
      using authorization_run [OF auth] by blast
    show ?thesis
    proof (cases r)
      case (Inl e)
      then have "\<exists>trace. store_runs s trace s1 \<and> (\<forall>tok. uses tok trace = 0)" using run by auto
      with Inl out rejected [of e] show ?thesis by auto
    next
      case (Inr ctx)
      have "consumed_by tok input r \<longleftrightarrow>
          mwv_consumeOnSuccess v \<and> tok = clm_jti (tvr_claims (rvc_verification ctx))" for tok
        by (auto simp: Inr tv(3) middleware_input_def)
      then have "\<exists>trace. store_runs s trace s1 \<and> (\<forall>tok. uses tok trace =
          (if mwv_consumeOnSuccess v \<and> tok = clm_jti (tvr_claims (rvc_verification ctx)) then 1 else 0))"
        using run by auto
      with authorized_let_through [OF auth [unfolded tv(3) Inr]] show ?thesis
        using out auth tv token Inr by (simp only: sum.case middleware_outcome.case) blast
    qed
  qed
next
  assume no: "truthy_str (hrq_headers request ''authorization'') = None \<and>
       truthy_str (map_option trim (hrq_headers request header)) = None"
  have "\<exists>d. resolveReleaseTokenFromRequest (hrq_headers request) header =
      Inl (ReleaseVerificationError 401 Missing_token d)"
    using no by (cases "hrq_headers request header")
      (auto simp: resolveReleaseTokenFromRequest_def resolveTokenFromHeaders_def)
  then show "\<exists>description. out = Rejected 401 Missing_token description
      (buildBearerChallenge Invalid_token description) \<and> s' = s"
    using assms by (auto simp: releaseVerificationMiddleware_def)
qed

section \<open>Witnesses\<close>

definition sample_verification :: release_verification_input where
  "sample_verification =
     \<lparr> rvi_token = ''jwt'', rvi_verificationKey = sample_key, rvi_audience = Some ''t'',
       rvi_expectedTenantId = None, rvi_currentDate = Some (Iso 6000), rvi_expectedTargetId = Some ''t'',
       rvi_expectedOutputHash = Some ''o'', rvi_expectedConsequenceHash = Some ''c'',
       rvi_expectedPolicyHash = None, rvi_expectedPolicyVersion = None, rvi_expectedPolicyIrHash = None,
       rvi_expectedPolicyProvenanceSource = None, rvi_expectedCompiledPolicyIndexVersion = None,
       rvi_expectedCompiledPolicyIrVersion = None, rvi_introspector = False, rvi_usageStore = True,
       rvi_consumeOnSuccess = True, rvi_tokenTypeHint = None, rvi_resourceServerId = None,
       rvi_requireSenderConstrainedToken = False, rvi_dpopProofJwt = None, rvi_dpopHttpMethod = None,
       rvi_dpopHttpUri = None \<rparr>"

lemma sample_verified:
  "\<exists>v. verifyIssuedReleaseToken sample_jose (token_request sample_verification) = Inr v \<and> tvr_claims v = sample_claims"
proof -
  have "token_request sample_verification = verify_request ''jwt'' sample_key ''t'' None 6000"
    by (simp add: token_request_def sample_verification_def verify_request_def)
  then show ?thesis
    using issued_token_cases [OF sample_issued [of 0 "[]"] sample_exported sample_signature,
        where tenant = None and date = 6000]
    by (auto simp: sample_token_def sample_claims_def split: sum.splits js_error.splits
        token_verification_failure_code.splits)
qed

lemma sample_authorized_at:
  "\<exists>ctx. verifyReleaseAuthorization sample_jose sample_dpop 0
      (sample_verification\<lparr> rvi_dpopHttpMethod := m, rvi_dpopHttpUri := u \<rparr>) sample_store =
      (Inr ctx, spent_store) \<and> tvr_claims (rvc_verification ctx) = sample_claims"
proof -
  let ?in = "sample_verification\<lparr> rvi_dpopHttpMethod := m, rvi_dpopHttpUri := u \<rparr>"
  obtain v where v: "verifyIssuedReleaseToken sample_jose (token_request ?in) = Inr v"
    "tvr_claims v = sample_claims"
    using sample_verified by (auto simp: token_request_def)
  have claims: "clm_jti sample_claims = ''rt1''" "clm_aud sample_claims = ''t''" "clm_output_hash sample_claims = ''o''"
    "clm_consequence_hash sample_claims = ''c''" "clm_cnf sample_claims = None"
    "clm_introspection_required sample_claims = False"
    by (simp_all add: sample_claims_def)
  have bound: "assertVerifiedBinding v ?in = Inr ()"
    by (simp add: binding_eq_Inr bound_as_expected_def meets_def v(2) claims) (simp add: sample_verification_def)
  have use: "memory_mutate (recordTokenUse 0 \<lparr> tui_tokenId = ''rt1'', tui_usedAt = Some (Iso 6000),
      tui_resourceServerId = None \<rparr>) sample_store =
      (Inr \<lparr> tur_accepted = True, tur_inactiveReason = None, tur_record = Some sample_spent \<rparr>, spent_store)"
    using sample_use_step by (simp add: memory_mutate_def sample_use_def)
  obtain b where b: "verifySenderBinding sample_dpop 0 v ?in = Inr b"
    by (simp add: verifySenderBinding_def token_thumbprint_def v(2) claims sample_verification_def)
  have i: "require_introspection sample_jose 0 v ?in sample_store = (Inr None, sample_store)"
    by (simp add: require_introspection_def v(2) claims)
  obtain y where u: "consume_token 0 v ?in sample_store = (Inr y, spent_store)"
    using use by (simp add: consume_token_def v(2) claims sample_verification_def)
  show ?thesis
    using v bound b i u by (auto simp: verifyReleaseAuthorization_def)
qed

lemma sample_authorized:
  "\<exists>ctx. verifyReleaseAuthorization sample_jose sample_dpop 0 sample_verification sample_store =
      (Inr ctx, spent_store) \<and> tvr_claims (rvc_verification ctx) = sample_claims"
  using sample_authorized_at [of None None] by (simp add: sample_verification_def)

theorem authorization_sound_witness:
  "\<exists>r. findToken sample_store ''rt1'' = Some r \<and> rrt_status r = Tok_issued \<and>
    bound_as_expected sample_verification sample_claims"
proof -
  obtain ctx where ctx: "verifyReleaseAuthorization sample_jose sample_dpop 0 sample_verification sample_store =
      (Inr ctx, spent_store)" "tvr_claims (rvc_verification ctx) = sample_claims"
    using sample_authorized by blast
  have "introspectionTimestamp 0 (rvi_currentDate sample_verification) = Inr 6000"
    by (simp add: introspectionTimestamp_def sample_verification_def)
  from authorization_sound [OF sample_registered_run this ctx(1)] show ?thesis
    by (auto simp: ctx(2) sample_find)
qed

theorem authorizations_bounded_witness:
  "\<exists>events. release_runs sample_jose sample_dpop defaultReleaseTokenIntrospectionStoreFile events spent_store \<and>
    registered_for ''rt1'' events = {sample_decision} \<and> use_allowance sample_decision = 1 \<and>
    releases ''rt1'' events = 1 \<and> int (releases ''rt1'' events) \<le> use_allowance sample_decision"
proof -
  have "memory_mutate (store_action 0 (Op_register sample_registration))
      defaultReleaseTokenIntrospectionStoreFile = (Inr (Out_registered sample_record), sample_store)"
    by (simp add: memory_mutate_def registerIssuedToken_def sample_build insertRegisteredReleaseToken_def
        defaultReleaseTokenIntrospectionStoreFile_def sample_store_def)
  from release_registry [OF release_start this]
  have reg: "release_runs sample_jose sample_dpop defaultReleaseTokenIntrospectionStoreFile
      ([] @ [Registry (Op_register sample_registration) (Inr (Out_registered sample_record))]) sample_store" .
  obtain ctx where ctx: "verifyReleaseAuthorization sample_jose sample_dpop 0 sample_verification sample_store =
      (Inr ctx, spent_store)"
    using sample_authorized by blast
  note run = release_authorize [OF reg ctx]
  let ?events = "([] @ [Registry (Op_register sample_registration) (Inr (Out_registered sample_record))]) @
      [Authorize sample_verification (Inr ctx)]"
  have "rrt_useCount sample_spent = 1" by (simp add: sample_spent_def)
  moreover have "registered_for ''rt1'' ?events = {sample_decision}"
    by (simp add: registered_for_def sample_registration_def sample_token_def)
  ultimately show ?thesis
    using authorizations_bounded [OF run, of "''rt1''"] run sample_allowance(2)
    by (intro exI [of _ ?events]) (simp add: sample_find)
qed

definition sample_options :: middleware_options where
  "sample_options = \<lparr> mwo_tokenHeaderName = None, mwo_dpopProofHeaderName = None,
     mwo_resolve = (\<lambda>request. Inr
       \<lparr> mwv_verificationKey = sample_key, mwv_audience = Some ''t'', mwv_expectedTargetId = Some ''t'',
         mwv_expectedOutputHash = Some ''o'', mwv_expectedConsequenceHash = Some ''c'',
         mwv_expectedPolicyHash = None, mwv_expectedPolicyVersion = None, mwv_expectedPolicyIrHash = None,
         mwv_expectedPolicyProvenanceSource = None, mwv_expectedCompiledPolicyIndexVersion = None,
         mwv_expectedCompiledPolicyIrVersion = None, mwv_currentDate = Some (Iso 6000),
         mwv_introspector = False, mwv_usageStore = True, mwv_consumeOnSuccess = True,
         mwv_tokenTypeHint = None, mwv_resourceServerId = None,
         mwv_requireSenderConstrainedToken = False, mwv_dpopHttpUri = None \<rparr>) \<rparr>"

definition sample_request :: "string option \<Rightarrow> http_request" where
  "sample_request token = \<lparr> hrq_headers =
       (\<lambda>name. if name = toLowerCase DEFAULT_RELEASE_TOKEN_HEADER then token else None),
     hrq_method = ''POST'', hrq_url = ''u'' \<rparr>"

text \<open>The request without proof headers is the sample authorization with its method and address.\<close>

lemma sample_let_through:
  "\<exists>ctx. releaseVerificationMiddleware sample_jose sample_dpop 0 sample_options (sample_request (Some ''jwt''))
     sample_store = (Next ctx, spent_store) \<and> tvr_claims (rvc_verification ctx) = sample_claims"
proof -
  have "toLowerCase DEFAULT_RELEASE_TOKEN_HEADER \<noteq> ''authorization''"
    "toLowerCase ''DPoP'' \<noteq> toLowerCase DEFAULT_RELEASE_TOKEN_HEADER"
    by (simp_all add: DEFAULT_RELEASE_TOKEN_HEADER_def toLowerCase_def char_lower_def)
  then have token: "resolveReleaseTokenFromRequest (hrq_headers (sample_request (Some ''jwt'')))
      (toLowerCase DEFAULT_RELEASE_TOKEN_HEADER) = Inr ''jwt''"
    and none: "hrq_headers (sample_request (Some ''jwt'')) (toLowerCase ''DPoP'') = None"
    by (simp_all add: resolveReleaseTokenFromRequest_def resolveTokenFromHeaders_def sample_request_def
        trim_def js_whitespace_def)
  obtain v where v: "mwo_resolve sample_options (sample_request (Some ''jwt'')) = Inr v"
    "middleware_input sample_options (sample_request (Some ''jwt'')) ''jwt'' v =
       sample_verification\<lparr> rvi_dpopHttpMethod := Some ''POST'', rvi_dpopHttpUri := Some ''u'' \<rparr>"
    using none by (simp add: sample_options_def middleware_input_def sample_verification_def)
      (simp add: sample_request_def)
  then show ?thesis
    using sample_authorized_at [where m = "Some ''POST''" and u = "Some ''u''"] token
    by (auto simp: releaseVerificationMiddleware_def) (simp add: sample_options_def)
qed

theorem middleware_fails_closed_witness:
  "\<exists>ctx d c. releaseVerificationMiddleware sample_jose sample_dpop 0 sample_options
       (sample_request (Some ''jwt'')) sample_store = (Next ctx, spent_store) \<and>
     (\<exists>v. mwo_resolve sample_options (sample_request (Some ''jwt'')) = Inr v \<and>
       meets_options v sample_claims \<and> mwv_expectedOutputHash v = Some ''o'' \<and> mwv_consumeOnSuccess v) \<and>
     (\<exists>trace. store_runs sample_store trace spent_store \<and> uses ''rt1'' trace = 1) \<and>
     releaseVerificationMiddleware sample_jose sample_dpop 0 sample_options (sample_request None) sample_store =
       (Rejected 401 Missing_token d c, sample_store)"
proof -
  let ?r = "sample_request (Some ''jwt'')"
  obtain ctx where m: "releaseVerificationMiddleware sample_jose sample_dpop 0 sample_options ?r sample_store =
      (Next ctx, spent_store)" "tvr_claims (rvc_verification ctx) = sample_claims"
    using sample_let_through by blast
  have options: "mwv_consumeOnSuccess v \<and> mwv_expectedOutputHash v = Some ''o''"
    if "mwo_resolve sample_options ?r = Inr v" for v
    using that by (auto simp: sample_options_def)
  have jti: "clm_jti sample_claims = ''rt1''" by (simp add: sample_claims_def)
  have a: "(\<exists>v. mwo_resolve sample_options ?r = Inr v \<and>
       meets_options v sample_claims \<and> mwv_expectedOutputHash v = Some ''o'' \<and> mwv_consumeOnSuccess v) \<and>
     (\<exists>trace. store_runs sample_store trace spent_store \<and> uses ''rt1'' trace = 1)"
    using middleware_fails_closed [OF m(1)] m(2) options jti by (fastforce simp: let_through_def Let_def)
  obtain out s' where n: "releaseVerificationMiddleware sample_jose sample_dpop 0 sample_options
      (sample_request None) sample_store = (out, s')"
    by fastforce
  have "hrq_headers (sample_request None) = (\<lambda>name. None)" by (auto simp: sample_request_def)
  with middleware_fails_closed [OF n] n m a show ?thesis by auto
qed

end
