(* ===== verification/Policy_Types.thy ===== *)
theory Policy_Types
  imports Enforcement_Types
begin

text \<open>
  The language of the release policy control plane:
  src/release-policy-control-plane/types.ts.

  A bundle of policies is activated for a target: an environment and optional identities
  (tenant, account, domain, wedge, cohort, plan) and classifications (consequence type, risk
  class). A selector is a target together with the list of the dimensions it constrains; it
  extends the record of a target as the interface of the source extends the other. A
  dimension is constrained when its value is truthy, so an empty identifier counts as absent.
\<close>

section \<open>Vocabularies\<close>

definition POLICY_CONTROL_PLANE_SPEC_VERSION :: string where
  "POLICY_CONTROL_PLANE_SPEC_VERSION = ''attestor.release-policy-control-plane.v1''"

datatype pack_lifecycle_state =
    Pack_draft | Pack_validated | Pack_signed | Pack_published | Pack_deprecated | Pack_revoked

fun pack_lifecycle_state_str :: "pack_lifecycle_state \<Rightarrow> string" where
  "pack_lifecycle_state_str Pack_draft = ''draft''"
| "pack_lifecycle_state_str Pack_validated = ''validated''"
| "pack_lifecycle_state_str Pack_signed = ''signed''"
| "pack_lifecycle_state_str Pack_published = ''published''"
| "pack_lifecycle_state_str Pack_deprecated = ''deprecated''"
| "pack_lifecycle_state_str Pack_revoked = ''revoked''"

definition POLICY_PACK_LIFECYCLE_STATES :: "pack_lifecycle_state list" where
  "POLICY_PACK_LIFECYCLE_STATES =
     [Pack_draft, Pack_validated, Pack_signed, Pack_published, Pack_deprecated, Pack_revoked]"

datatype activation_state =
    Act_candidate | Act_active | Act_superseded | Act_rolled_back | Act_frozen

fun activation_state_str :: "activation_state \<Rightarrow> string" where
  "activation_state_str Act_candidate = ''candidate''"
| "activation_state_str Act_active = ''active''"
| "activation_state_str Act_superseded = ''superseded''"
| "activation_state_str Act_rolled_back = ''rolled-back''"
| "activation_state_str Act_frozen = ''frozen''"

definition POLICY_ACTIVATION_STATES :: "activation_state list" where
  "POLICY_ACTIVATION_STATES =
     [Act_candidate, Act_active, Act_superseded, Act_rolled_back, Act_frozen]"

datatype discovery_mode = Mode_static | Mode_scoped_active | Mode_bundle_manifest

fun discovery_mode_str :: "discovery_mode \<Rightarrow> string" where
  "discovery_mode_str Mode_static = ''static''"
| "discovery_mode_str Mode_scoped_active = ''scoped-active''"
| "discovery_mode_str Mode_bundle_manifest = ''bundle-manifest''"

definition POLICY_DISCOVERY_MODES :: "discovery_mode list" where
  "POLICY_DISCOVERY_MODES = [Mode_static, Mode_scoped_active, Mode_bundle_manifest]"

datatype policy_store_kind = Store_embedded_memory | Store_file_backed | Store_postgres

fun policy_store_kind_str :: "policy_store_kind \<Rightarrow> string" where
  "policy_store_kind_str Store_embedded_memory = ''embedded-memory''"
| "policy_store_kind_str Store_file_backed = ''file-backed''"
| "policy_store_kind_str Store_postgres = ''postgres''"

definition POLICY_STORE_KINDS :: "policy_store_kind list" where
  "POLICY_STORE_KINDS = [Store_embedded_memory, Store_file_backed, Store_postgres]"

datatype scope_dimension =
    Dim_environment | Dim_tenant | Dim_account | Dim_domain | Dim_wedge | Dim_consequence_type
  | Dim_risk_class | Dim_cohort | Dim_plan

fun scope_dimension_str :: "scope_dimension \<Rightarrow> string" where
  "scope_dimension_str Dim_environment = ''environment''"
| "scope_dimension_str Dim_tenant = ''tenant''"
| "scope_dimension_str Dim_account = ''account''"
| "scope_dimension_str Dim_domain = ''domain''"
| "scope_dimension_str Dim_wedge = ''wedge''"
| "scope_dimension_str Dim_consequence_type = ''consequence-type''"
| "scope_dimension_str Dim_risk_class = ''risk-class''"
| "scope_dimension_str Dim_cohort = ''cohort''"
| "scope_dimension_str Dim_plan = ''plan''"

definition POLICY_SCOPE_DIMENSIONS :: "scope_dimension list" where
  "POLICY_SCOPE_DIMENSIONS =
     [Dim_environment, Dim_tenant, Dim_account, Dim_domain, Dim_wedge, Dim_consequence_type,
      Dim_risk_class, Dim_cohort, Dim_plan]"

datatype policy_mutation_action =
    Create_pack | Publish_bundle | Request_activation_approval | Approve_activation
  | Reject_activation | Activate_bundle | Rollback_activation | Freeze_scope

fun policy_mutation_action_str :: "policy_mutation_action \<Rightarrow> string" where
  "policy_mutation_action_str Create_pack = ''create-pack''"
| "policy_mutation_action_str Publish_bundle = ''publish-bundle''"
| "policy_mutation_action_str Request_activation_approval = ''request-activation-approval''"
| "policy_mutation_action_str Approve_activation = ''approve-activation''"
| "policy_mutation_action_str Reject_activation = ''reject-activation''"
| "policy_mutation_action_str Activate_bundle = ''activate-bundle''"
| "policy_mutation_action_str Rollback_activation = ''rollback-activation''"
| "policy_mutation_action_str Freeze_scope = ''freeze-scope''"

definition POLICY_MUTATION_ACTIONS :: "policy_mutation_action list" where
  "POLICY_MUTATION_ACTIONS =
     [Create_pack, Publish_bundle, Request_activation_approval, Approve_activation,
      Reject_activation, Activate_bundle, Rollback_activation, Freeze_scope]"

interpretation pack_states: vocabulary POLICY_PACK_LIFECYCLE_STATES pack_lifecycle_state_str
proof
  show "x \<in> set POLICY_PACK_LIFECYCLE_STATES" for x
    by (cases x) (simp_all add: POLICY_PACK_LIFECYCLE_STATES_def)
qed (simp add: POLICY_PACK_LIFECYCLE_STATES_def)

interpretation activation_states: vocabulary POLICY_ACTIVATION_STATES activation_state_str
proof
  show "x \<in> set POLICY_ACTIVATION_STATES" for x
    by (cases x) (simp_all add: POLICY_ACTIVATION_STATES_def)
qed (simp add: POLICY_ACTIVATION_STATES_def)

interpretation discovery_modes: vocabulary POLICY_DISCOVERY_MODES discovery_mode_str
proof
  show "x \<in> set POLICY_DISCOVERY_MODES" for x
    by (cases x) (simp_all add: POLICY_DISCOVERY_MODES_def)
qed (simp add: POLICY_DISCOVERY_MODES_def)

interpretation store_kinds: vocabulary POLICY_STORE_KINDS policy_store_kind_str
proof
  show "x \<in> set POLICY_STORE_KINDS" for x
    by (cases x) (simp_all add: POLICY_STORE_KINDS_def)
qed (simp add: POLICY_STORE_KINDS_def)

interpretation scope_dimensions: vocabulary POLICY_SCOPE_DIMENSIONS scope_dimension_str
proof
  show "x \<in> set POLICY_SCOPE_DIMENSIONS" for x
    by (cases x) (simp_all add: POLICY_SCOPE_DIMENSIONS_def)
qed (simp add: POLICY_SCOPE_DIMENSIONS_def)

interpretation mutation_actions: vocabulary POLICY_MUTATION_ACTIONS policy_mutation_action_str
proof
  show "x \<in> set POLICY_MUTATION_ACTIONS" for x
    by (cases x) (simp_all add: POLICY_MUTATION_ACTIONS_def)
qed (simp add: POLICY_MUTATION_ACTIONS_def)

section \<open>Targets and selectors\<close>

record bundle_reference =
  bref_packId :: string
  bref_bundleId :: string
  bref_bundleVersion :: string
  bref_digest :: string

record activation_target =
  atg_environment :: string
  atg_tenantId :: "string option"
  atg_accountId :: "string option"
  atg_domainId :: "string option"
  atg_wedgeId :: "string option"
  atg_consequenceType :: "consequence_type option"
  atg_riskClass :: "risk_class option"
  atg_cohortId :: "string option"
  atg_planId :: "string option"

record scope_selector = activation_target +
  sel_dimensions :: "scope_dimension list"

record activation_target_input =
  tin_environment :: string
  tin_tenantId :: "string option"
  tin_accountId :: "string option"
  tin_domainId :: "string option"
  tin_wedgeId :: "string option"
  tin_consequenceType :: "consequence_type option"
  tin_riskClass :: "risk_class option"
  tin_cohortId :: "string option"
  tin_planId :: "string option"

fun normalizeOptionalIdentifier :: "string option \<Rightarrow> string \<Rightarrow> string option result" where
  "normalizeOptionalIdentifier None fieldName = return None"
| "normalizeOptionalIdentifier (Some v) fieldName =
     (let normalized = trim v in
      if length normalized = 0
      then throw (Error (''Policy control-plane '' @ fieldName @ '' cannot be blank when provided.''))
      else return (Some normalized))"

definition assertActivationTargetValidity :: "'a activation_target_scheme \<Rightarrow> unit result" where
  "assertActivationTargetValidity target =
     (if trim (atg_environment target) = []
      then throw (Error ''Policy control-plane activation target requires a non-empty environment.'')
      else if atg_accountId target \<noteq> None \<and> atg_tenantId target = None
      then throw (Error ''Policy control-plane account-scoped activation also requires tenant scope.'')
      else if atg_wedgeId target \<noteq> None \<and> atg_domainId target = None
      then throw (Error ''Policy control-plane wedge-scoped activation also requires domain scope.'')
      else if atg_riskClass target \<noteq> None \<and> atg_consequenceType target = None
      then throw (Error ''Policy control-plane risk-class targeting requires a consequence type to be set.'')
      else return ())"

definition createPolicyActivationTarget :: "activation_target_input \<Rightarrow> activation_target result" where
  "createPolicyActivationTarget input =
     rbind (normalizeOptionalIdentifier (tin_tenantId input) ''tenantId'') (\<lambda>tenantId.
     rbind (normalizeOptionalIdentifier (tin_accountId input) ''accountId'') (\<lambda>accountId.
     rbind (normalizeOptionalIdentifier (tin_domainId input) ''domainId'') (\<lambda>domainId.
     rbind (normalizeOptionalIdentifier (tin_wedgeId input) ''wedgeId'') (\<lambda>wedgeId.
     rbind (normalizeOptionalIdentifier (tin_cohortId input) ''cohortId'') (\<lambda>cohortId.
     rbind (normalizeOptionalIdentifier (tin_planId input) ''planId'') (\<lambda>planId.
     let target =
       \<lparr> atg_environment = trim (tin_environment input),
         atg_tenantId = tenantId,
         atg_accountId = accountId,
         atg_domainId = domainId,
         atg_wedgeId = wedgeId,
         atg_consequenceType = tin_consequenceType input,
         atg_riskClass = tin_riskClass input,
         atg_cohortId = cohortId,
         atg_planId = planId \<rparr>
     in rbind (assertActivationTargetValidity target) (\<lambda>_. return target)))))))"

definition policyScopeDimensionsForTarget :: "'a activation_target_scheme \<Rightarrow> scope_dimension list" where
  "policyScopeDimensionsForTarget target =
     [Dim_environment]
     @ (if truthy_str (atg_tenantId target) \<noteq> None then [Dim_tenant] else [])
     @ (if truthy_str (atg_accountId target) \<noteq> None then [Dim_account] else [])
     @ (if truthy_str (atg_domainId target) \<noteq> None then [Dim_domain] else [])
     @ (if truthy_str (atg_wedgeId target) \<noteq> None then [Dim_wedge] else [])
     @ (if atg_consequenceType target \<noteq> None then [Dim_consequence_type] else [])
     @ (if atg_riskClass target \<noteq> None then [Dim_risk_class] else [])
     @ (if truthy_str (atg_cohortId target) \<noteq> None then [Dim_cohort] else [])
     @ (if truthy_str (atg_planId target) \<noteq> None then [Dim_plan] else [])"

definition createPolicyScopeSelector :: "activation_target \<Rightarrow> scope_selector" where
  "createPolicyScopeSelector target =
     activation_target.extend target
       (scope_selector.fields (policyScopeDimensionsForTarget target))"

fun label_segment :: "string \<Rightarrow> string option \<Rightarrow> string list" where
  "label_segment prefix v = (case truthy_str v of None \<Rightarrow> [] | Some s \<Rightarrow> [prefix @ s])"

definition policyActivationTargetLabel :: "'a activation_target_scheme \<Rightarrow> string" where
  "policyActivationTargetLabel target =
     join_with '' / ''
       ([''env:'' @ atg_environment target]
        @ label_segment ''tenant:'' (atg_tenantId target)
        @ label_segment ''account:'' (atg_accountId target)
        @ label_segment ''domain:'' (atg_domainId target)
        @ label_segment ''wedge:'' (atg_wedgeId target)
        @ label_segment ''consequence:'' (map_option consequence_type_str (atg_consequenceType target))
        @ label_segment ''risk:'' (map_option risk_class_str (atg_riskClass target))
        @ label_segment ''cohort:'' (atg_cohortId target)
        @ label_segment ''plan:'' (atg_planId target))"

record control_plane_descriptor =
  cpd_version :: string
  cpd_storeKinds :: "policy_store_kind list"
  cpd_lifecycleStates :: "pack_lifecycle_state list"
  cpd_activationStates :: "activation_state list"
  cpd_discoveryModes :: "discovery_mode list"
  cpd_scopeDimensions :: "scope_dimension list"
  cpd_mutationActions :: "policy_mutation_action list"

definition policyControlPlaneDescriptor :: control_plane_descriptor where
  "policyControlPlaneDescriptor =
     \<lparr> cpd_version = POLICY_CONTROL_PLANE_SPEC_VERSION,
       cpd_storeKinds = POLICY_STORE_KINDS,
       cpd_lifecycleStates = POLICY_PACK_LIFECYCLE_STATES,
       cpd_activationStates = POLICY_ACTIVATION_STATES,
       cpd_discoveryModes = POLICY_DISCOVERY_MODES,
       cpd_scopeDimensions = POLICY_SCOPE_DIMENSIONS,
       cpd_mutationActions = POLICY_MUTATION_ACTIONS \<rparr>"

section \<open>What a created target satisfies\<close>

definition wf_identifier :: "string option \<Rightarrow> bool" where
  "wf_identifier v \<longleftrightarrow> (\<forall>s. v = Some s \<longrightarrow> s \<noteq> [] \<and> trim s = s)"

definition wf_target :: "'a activation_target_scheme \<Rightarrow> bool" where
  "wf_target t \<longleftrightarrow>
     atg_environment t \<noteq> [] \<and> trim (atg_environment t) = atg_environment t \<and>
     wf_identifier (atg_tenantId t) \<and> wf_identifier (atg_accountId t) \<and>
     wf_identifier (atg_domainId t) \<and> wf_identifier (atg_wedgeId t) \<and>
     wf_identifier (atg_cohortId t) \<and> wf_identifier (atg_planId t) \<and>
     (atg_accountId t \<noteq> None \<longrightarrow> atg_tenantId t \<noteq> None) \<and>
     (atg_wedgeId t \<noteq> None \<longrightarrow> atg_domainId t \<noteq> None) \<and>
     (atg_riskClass t \<noteq> None \<longrightarrow> atg_consequenceType t \<noteq> None)"

lemma wf_identifier_None [simp]: "wf_identifier None"
  by (simp add: wf_identifier_def)

lemma wf_identifier_Some [simp]: "wf_identifier (Some s) \<longleftrightarrow> s \<noteq> [] \<and> trim s = s"
  by (simp add: wf_identifier_def)

lemma wf_identifier_truthy: "wf_identifier v \<Longrightarrow> truthy_str v = v"
  by (cases v) auto

lemma normalizeOptionalIdentifier_eq_Inr:
  "normalizeOptionalIdentifier v f = Inr w \<longleftrightarrow>
     w = map_option trim v \<and> wf_identifier (map_option trim v)"
  by (cases v) (auto simp: Let_def)

lemma normalizeOptionalIdentifier_wf [simp]:
  "wf_identifier v \<Longrightarrow> normalizeOptionalIdentifier v f = Inr v"
  by (cases v) (auto simp: Let_def)

definition normalized_target :: "activation_target_input \<Rightarrow> activation_target" where
  "normalized_target i =
     \<lparr> atg_environment = trim (tin_environment i),
       atg_tenantId = map_option trim (tin_tenantId i),
       atg_accountId = map_option trim (tin_accountId i),
       atg_domainId = map_option trim (tin_domainId i),
       atg_wedgeId = map_option trim (tin_wedgeId i),
       atg_consequenceType = tin_consequenceType i,
       atg_riskClass = tin_riskClass i,
       atg_cohortId = map_option trim (tin_cohortId i),
       atg_planId = map_option trim (tin_planId i) \<rparr>"

lemma assertActivationTargetValidity_eq_Inr:
  "assertActivationTargetValidity t = Inr u \<longleftrightarrow>
     trim (atg_environment t) \<noteq> [] \<and>
     (atg_accountId t \<noteq> None \<longrightarrow> atg_tenantId t \<noteq> None) \<and>
     (atg_wedgeId t \<noteq> None \<longrightarrow> atg_domainId t \<noteq> None) \<and>
     (atg_riskClass t \<noteq> None \<longrightarrow> atg_consequenceType t \<noteq> None)"
  by (simp add: assertActivationTargetValidity_def)

lemma create_target_eq_Inr:
  "createPolicyActivationTarget i = Inr t \<longleftrightarrow> t = normalized_target i \<and> wf_target (normalized_target i)"
  by (auto simp: createPolicyActivationTarget_def Let_def normalizeOptionalIdentifier_eq_Inr
      assertActivationTargetValidity_eq_Inr normalized_target_def wf_target_def)

definition input_of_target :: "activation_target \<Rightarrow> activation_target_input" where
  "input_of_target t =
     \<lparr> tin_environment = atg_environment t, tin_tenantId = atg_tenantId t,
       tin_accountId = atg_accountId t, tin_domainId = atg_domainId t,
       tin_wedgeId = atg_wedgeId t, tin_consequenceType = atg_consequenceType t,
       tin_riskClass = atg_riskClass t, tin_cohortId = atg_cohortId t,
       tin_planId = atg_planId t \<rparr>"

lemma wf_identifier_trim: "wf_identifier v \<Longrightarrow> map_option trim v = v"
  by (cases v) auto

lemma create_target_idem: "createPolicyActivationTarget (input_of_target t) = Inr t \<longleftrightarrow> wf_target t"
proof
  assume wf: "wf_target t"
  then have "normalized_target (input_of_target t) = t"
    by (simp add: normalized_target_def input_of_target_def wf_target_def wf_identifier_trim)
  with wf show "createPolicyActivationTarget (input_of_target t) = Inr t"
    by (simp add: create_target_eq_Inr)
qed (auto simp: create_target_eq_Inr)

lemma selector_fields [simp]:
  "activation_target.truncate (createPolicyScopeSelector t) = t"
  "sel_dimensions (createPolicyScopeSelector t) = policyScopeDimensionsForTarget t"
  "atg_environment (createPolicyScopeSelector t) = atg_environment t"
  "atg_tenantId (createPolicyScopeSelector t) = atg_tenantId t"
  "atg_accountId (createPolicyScopeSelector t) = atg_accountId t"
  "atg_domainId (createPolicyScopeSelector t) = atg_domainId t"
  "atg_wedgeId (createPolicyScopeSelector t) = atg_wedgeId t"
  "atg_consequenceType (createPolicyScopeSelector t) = atg_consequenceType t"
  "atg_riskClass (createPolicyScopeSelector t) = atg_riskClass t"
  "atg_cohortId (createPolicyScopeSelector t) = atg_cohortId t"
  "atg_planId (createPolicyScopeSelector t) = atg_planId t"
  by (simp_all add: createPolicyScopeSelector_def activation_target.defs scope_selector.defs)

section \<open>What the label of a target determines\<close>

definition label_segments :: "'a activation_target_scheme \<Rightarrow> string list" where
  "label_segments target =
     [''env:'' @ atg_environment target]
     @ label_segment ''tenant:'' (atg_tenantId target)
     @ label_segment ''account:'' (atg_accountId target)
     @ label_segment ''domain:'' (atg_domainId target)
     @ label_segment ''wedge:'' (atg_wedgeId target)
     @ label_segment ''consequence:'' (map_option consequence_type_str (atg_consequenceType target))
     @ label_segment ''risk:'' (map_option risk_class_str (atg_riskClass target))
     @ label_segment ''cohort:'' (atg_cohortId target)
     @ label_segment ''plan:'' (atg_planId target)"

lemma label_is_joined: "policyActivationTargetLabel t = join_with '' / '' (label_segments t)"
  by (simp add: policyActivationTargetLabel_def label_segments_def)

definition slash_free :: "string \<Rightarrow> bool" where
  "slash_free s \<longleftrightarrow> CHR 0x2F \<notin> set s"

definition slash_free_target :: "'a activation_target_scheme \<Rightarrow> bool" where
  "slash_free_target t \<longleftrightarrow>
     slash_free (atg_environment t) \<and>
     list_all (\<lambda>v. pred_option slash_free v)
       [atg_tenantId t, atg_accountId t, atg_domainId t, atg_wedgeId t, atg_cohortId t, atg_planId t]"

lemma take_before_slash:
  "slash_free x \<Longrightarrow> takeWhile (\<lambda>c. c \<noteq> CHR 0x2F) (x @ '' / '' @ r) = x @ '' ''"
  by (induction x) (auto simp: slash_free_def)

lemma slash_in_join:
  "CHR 0x2F \<in> set (join_with '' / '' (x # y # ys))"
  by simp

lemma join_slash_inject:
  "\<lbrakk>list_all slash_free xs; list_all slash_free ys; xs \<noteq> []; ys \<noteq> [];
    join_with '' / '' xs = join_with '' / '' ys\<rbrakk> \<Longrightarrow> xs = ys"
proof (induction "'' / ''" xs arbitrary: ys rule: join_with.induct)
  case (2 x)
  then obtain y ys' where ys: "ys = y # ys'" by (cases ys) auto
  show ?case
  proof (cases ys')
    case Nil
    with 2 ys show ?thesis by simp
  next
    case (Cons z zs)
    have "CHR 0x2F \<in> set x" using 2(5) slash_in_join [of y z zs] unfolding ys Cons by simp
    with 2 show ?thesis by (simp add: slash_free_def)
  qed
next
  case (3 x x' xs)
  then obtain y ys' where ys: "ys = y # ys'" by (cases ys) auto
  show ?case
  proof (cases ys')
    case Nil
    have "CHR 0x2F \<in> set y" using 3(6) slash_in_join [of x x' xs] unfolding ys Nil by simp
    with 3 ys show ?thesis by (simp add: slash_free_def)
  next
    case (Cons z zs)
    have eq: "x @ '' / '' @ join_with '' / '' (x' # xs) = y @ '' / '' @ join_with '' / '' (z # zs)"
      using 3(6) by (simp add: ys Cons)
    have free: "slash_free x" "slash_free y" using 3 ys by simp_all
    have "x @ '' '' = y @ '' ''"
      using arg_cong [OF eq, of "takeWhile (\<lambda>c. c \<noteq> CHR 0x2F)"]
      by (simp only: take_before_slash [OF free(1)] take_before_slash [OF free(2)])
    then have "x = y" by simp
    moreover have "x' # xs = z # zs"
      using 3 ys Cons eq \<open>x = y\<close> by (intro "3.hyps") auto
    ultimately show ?thesis by (simp add: ys Cons)
  qed
qed simp

lemma label_segment_slash_free:
  "slash_free p \<Longrightarrow> pred_option slash_free v \<Longrightarrow> list_all slash_free (label_segment p v)"
  by (cases v) (auto simp: slash_free_def)

lemma consequence_type_str_facts [simp]:
  "consequence_type_str c \<noteq> []" "slash_free (consequence_type_str c)"
  "consequence_type_str c = consequence_type_str d \<longleftrightarrow> c = d"
  by (cases c; cases d; simp add: slash_free_def)+

lemma risk_class_str_facts [simp]:
  "risk_class_str r \<noteq> []" "slash_free (risk_class_str r)"
  "risk_class_str r = risk_class_str q \<longleftrightarrow> r = q"
  by (cases r; cases q; simp add: slash_free_def)+

lemma label_segments_slash_free: "slash_free_target t \<Longrightarrow> list_all slash_free (label_segments t)"
proof -
  assume t: "slash_free_target t"
  have "pred_option slash_free (map_option consequence_type_str (atg_consequenceType t))"
    "pred_option slash_free (map_option risk_class_str (atg_riskClass t))"
    by (simp_all add: option.pred_map comp_def option.pred_True)
  with t show ?thesis
    unfolding label_segments_def list_all_append slash_free_target_def
    by (intro conjI label_segment_slash_free) (auto simp: slash_free_def)
qed

text \<open>The value of a segment is recovered from its prefix.\<close>

definition segment_values :: "string \<Rightarrow> string list \<Rightarrow> string list" where
  "segment_values p segs = map (drop (length p)) (filter (\<lambda>s. take (length p) s = p) segs)"

lemma segment_values_append: "segment_values p (xs @ ys) = segment_values p xs @ segment_values p ys"
  by (simp add: segment_values_def)

lemma segment_values_same:
  "segment_values p (label_segment p v) = (case truthy_str v of None \<Rightarrow> [] | Some s \<Rightarrow> [s])"
  by (auto simp: segment_values_def split: option.splits)

lemma segment_values_other:
  "(\<And>s. take (length p) (q @ s) \<noteq> p) \<Longrightarrow> segment_values p (label_segment q v) = []"
  by (auto simp: segment_values_def split: option.splits)

lemma label_segment_values:
  fixes t :: "'a activation_target_scheme"
  defines "val \<equiv> \<lambda>v. case truthy_str v of None \<Rightarrow> [] | Some s \<Rightarrow> [s]"
  shows "segment_values ''tenant:'' (tl (label_segments t)) = val (atg_tenantId t)"
    and "segment_values ''account:'' (tl (label_segments t)) = val (atg_accountId t)"
    and "segment_values ''domain:'' (tl (label_segments t)) = val (atg_domainId t)"
    and "segment_values ''wedge:'' (tl (label_segments t)) = val (atg_wedgeId t)"
    and "segment_values ''consequence:'' (tl (label_segments t)) =
           val (map_option consequence_type_str (atg_consequenceType t))"
    and "segment_values ''risk:'' (tl (label_segments t)) =
           val (map_option risk_class_str (atg_riskClass t))"
    and "segment_values ''cohort:'' (tl (label_segments t)) = val (atg_cohortId t)"
    and "segment_values ''plan:'' (tl (label_segments t)) = val (atg_planId t)"
  unfolding val_def
  by (simp_all add: label_segments_def segment_values_append segment_values_same segment_values_other
      del: label_segment.simps)

lemma segment_option_inject:
  "(case truthy_str v of None \<Rightarrow> [] | Some s \<Rightarrow> [s]) = (case truthy_str w of None \<Rightarrow> [] | Some s \<Rightarrow> [s]) \<longleftrightarrow>
     truthy_str v = truthy_str w"
  by (cases "truthy_str v"; cases "truthy_str w") auto

lemma truthy_map_str:
  "(\<And>x. f x \<noteq> []) \<Longrightarrow> truthy_str (map_option f v) = map_option f v"
  by (cases v) auto

lemma map_str_inject:
  "map_option consequence_type_str v = map_option consequence_type_str w \<longleftrightarrow> v = w"
  "map_option risk_class_str r = map_option risk_class_str q \<longleftrightarrow> r = q"
  by (cases v; cases w; simp) (cases r; cases q; simp)

lemma label_inject:
  fixes t u :: activation_target
  assumes "wf_target t" "wf_target u" "slash_free_target t" "slash_free_target u"
    and "policyActivationTargetLabel t = policyActivationTargetLabel u"
  shows "t = u"
proof -
  have eq: "label_segments t = label_segments u"
    using assms(5) label_segments_slash_free [OF assms(3)] label_segments_slash_free [OF assms(4)]
    unfolding label_is_joined by (intro join_slash_inject) (auto simp: label_segments_def)
  then have tl: "tl (label_segments t) = tl (label_segments u)" by simp
  have env: "atg_environment t = atg_environment u"
    using eq by (simp add: label_segments_def)
  note vals = label_segment_values [of t, unfolded tl label_segment_values segment_option_inject]
  have fields: "atg_consequenceType t = atg_consequenceType u" "atg_riskClass t = atg_riskClass u"
    using vals(5,6)
    by (simp_all add: truthy_map_str map_str_inject)
  show ?thesis
    using vals(1-4,7,8) env fields assms(1,2)
    by (intro activation_target.equality) (simp_all add: wf_target_def wf_identifier_truthy)
qed

definition sample_target :: "string \<Rightarrow> string option \<Rightarrow> activation_target" where
  "sample_target env tenant =
     \<lparr> atg_environment = env, atg_tenantId = tenant, atg_accountId = None, atg_domainId = None,
       atg_wedgeId = None, atg_consequenceType = None, atg_riskClass = None, atg_cohortId = None,
       atg_planId = None \<rparr>"

text \<open>
Two created targets have the same label exactly when they are equal, provided no
  identifier contains a slash. Without the proviso the label is ambiguous: there are two
  different created targets with one label. Everything that finds the activations of an exact
  target compares labels.
\<close>

theorem activation_label_exact:
  fixes t u :: activation_target
  assumes "wf_target t" "wf_target u" "slash_free_target t" "slash_free_target u"
  shows "(policyActivationTargetLabel t = policyActivationTargetLabel u \<longleftrightarrow> t = u) \<and>
    createPolicyActivationTarget (input_of_target (sample_target ''prod / tenant:x'' None)) =
      Inr (sample_target ''prod / tenant:x'' None) \<and>
    createPolicyActivationTarget (input_of_target (sample_target ''prod'' (Some ''x''))) =
      Inr (sample_target ''prod'' (Some ''x'')) \<and>
    policyActivationTargetLabel (sample_target ''prod / tenant:x'' None) =
      policyActivationTargetLabel (sample_target ''prod'' (Some ''x''))"
proof (intro conjI)
  show "policyActivationTargetLabel t = policyActivationTargetLabel u \<longleftrightarrow> t = u"
    using label_inject [OF assms] by auto
qed code_simp+

theorem activation_label_exact_witness:
  "policyActivationTargetLabel (sample_target ''prod'' None) \<noteq>
     policyActivationTargetLabel (sample_target ''prod'' (Some ''x''))"
proof -
  have "wf_target (sample_target ''prod'' None)" "wf_target (sample_target ''prod'' (Some ''x''))"
    by (subst create_target_idem [symmetric], code_simp)+
  moreover have "slash_free_target (sample_target ''prod'' None)"
    "slash_free_target (sample_target ''prod'' (Some ''x''))"
    by (simp_all add: slash_free_target_def slash_free_def sample_target_def)
  ultimately show ?thesis
    using activation_label_exact [of "sample_target ''prod'' None" "sample_target ''prod'' (Some ''x'')"]
    by (simp add: sample_target_def)
qed

end
