(* ===== verification/Policy_Objects.thy ===== *)
theory Policy_Objects
  imports Policy_Types Compiled_Policy
begin

text \<open>
  The objects of the policy control plane:
  src/release-policy-control-plane/object-model.ts.

  Packs, bundle entries, bundle manifests, signature records, activation records and the
  metadata of the control plane, each with its validating constructor. A constructor returns
  the record with its texts trimmed, or throws; the lemmas at the end say when an activation
  record is created, what its fields are and that re-creating a record changes nothing but
  what was asked.
\<close>

definition POLICY_PACK_SPEC_VERSION :: string where
  "POLICY_PACK_SPEC_VERSION = ''attestor.policy-pack.v1''"

definition POLICY_BUNDLE_MANIFEST_SPEC_VERSION :: string where
  "POLICY_BUNDLE_MANIFEST_SPEC_VERSION = ''attestor.policy-bundle-manifest.v1''"

definition POLICY_BUNDLE_SIGNATURE_SPEC_VERSION :: string where
  "POLICY_BUNDLE_SIGNATURE_SPEC_VERSION = ''attestor.policy-bundle-signature.v1''"

definition POLICY_ACTIVATION_RECORD_SPEC_VERSION :: string where
  "POLICY_ACTIVATION_RECORD_SPEC_VERSION = ''attestor.policy-activation-record.v1''"

definition POLICY_CONTROL_METADATA_SPEC_VERSION :: string where
  "POLICY_CONTROL_METADATA_SPEC_VERSION = ''attestor.policy-control-plane-metadata.v1''"

definition RELEASE_LAYER_PLATFORM_SURFACE_SPEC_VERSION :: string where
  "RELEASE_LAYER_PLATFORM_SURFACE_SPEC_VERSION = ''attestor.release-layer-platform.v1''"

datatype signature_envelope_type = Envelope_dsse | Envelope_jws

datatype signature_algorithm = Alg_EdDSA | Alg_ES256

datatype activation_operation = Op_activate_bundle | Op_rollback_activation | Op_freeze_scope

section \<open>Records\<close>

record schema_reference =
  sch_id :: string
  sch_version :: string
  sch_uri :: string
  sch_digest :: "string option"

record compatibility_descriptor =
  cpt_controlPlaneSpecVersion :: string
  cpt_releaseLayerPlatformSpecVersion :: string
  cpt_releasePolicySpecVersion :: string
  cpt_releasePolicyRolloutSpecVersion :: string

record policy_pack =
  pck_version :: string
  pck_id :: string
  pck_name :: string
  pck_description :: "string option"
  pck_lifecycleState :: pack_lifecycle_state
  pck_owners :: "string list"
  pck_labels :: "string list"
  pck_createdAt :: timestamp
  pck_updatedAt :: timestamp
  pck_latestBundleRef :: "bundle_reference option"

record bundle_entry =
  ben_id :: string
  ben_policyId :: string
  ben_scope :: scope_selector
  ben_definition :: release_policy
  ben_rollout :: policy_rollout
  ben_policyHash :: string
  ben_compiledPolicyHash :: string
  ben_compiledPolicyIrHash :: string

record bundle_manifest =
  bmf_version :: string
  bmf_bundle :: bundle_reference
  bmf_packId :: string
  bmf_bundleLabels :: "string list"
  bmf_generatedAt :: timestamp
  bmf_discoveryMode :: discovery_mode
  bmf_compatibility :: compatibility_descriptor
  bmf_schemas :: "schema_reference list"
  bmf_entries :: "bundle_entry list"

record bundle_signature_record =
  bsr_version :: string
  bsr_bundle :: bundle_reference
  bsr_envelopeType :: signature_envelope_type
  bsr_algorithm :: signature_algorithm
  bsr_keyId :: string
  bsr_signerFingerprint :: string
  bsr_signedAt :: timestamp
  bsr_payloadDigest :: string
  bsr_signature :: string

record activation_record =
  acr_version :: string
  acr_id :: string
  acr_state :: activation_state
  acr_operationType :: activation_operation
  acr_target :: activation_target
  acr_selector :: scope_selector
  acr_targetLabel :: string
  acr_bundle :: bundle_reference
  acr_activatedBy :: release_actor
  acr_activatedAt :: timestamp
  acr_rolloutMode :: rollout_mode
  acr_reasonCode :: string
  acr_rationale :: string
  acr_previousActivationId :: "string option"
  acr_supersededByActivationId :: "string option"
  acr_rollbackOfActivationId :: "string option"
  acr_freezeReason :: "string option"
  acr_compatibility :: compatibility_descriptor

record control_plane_metadata =
  cpm_version :: string
  cpm_storeKind :: policy_store_kind
  cpm_discoveryMode :: discovery_mode
  cpm_activeBundleRef :: "bundle_reference option"
  cpm_latestActivationId :: "string option"
  cpm_compatibility :: compatibility_descriptor

record policy_pack_input =
  pki_id :: string
  pki_name :: string
  pki_description :: "string option"
  pki_lifecycleState :: "pack_lifecycle_state option"
  pki_owners :: "string list option"
  pki_labels :: "string list option"
  pki_createdAt :: js_date
  pki_updatedAt :: "js_date option"
  pki_latestBundleRef :: "bundle_reference option"

record bundle_entry_input =
  bei_id :: string
  bei_scopeTarget :: activation_target
  bei_definition :: release_policy
  bei_policyHash :: string
  bei_compiledPolicyHash :: "string option"
  bei_compiledPolicyIrHash :: "string option"

record bundle_manifest_input =
  bmi_bundle :: bundle_reference
  bmi_pack :: policy_pack
  bmi_generatedAt :: js_date
  bmi_discoveryMode :: "discovery_mode option"
  bmi_bundleLabels :: "string list option"
  bmi_schemas :: "schema_reference list option"
  bmi_entries :: "bundle_entry list"

record bundle_signature_input =
  bsi_bundle :: bundle_reference
  bsi_envelopeType :: signature_envelope_type
  bsi_algorithm :: signature_algorithm
  bsi_keyId :: string
  bsi_signerFingerprint :: string
  bsi_signedAt :: js_date
  bsi_payloadDigest :: string
  bsi_signature :: string

record activation_record_input =
  ari_id :: string
  ari_state :: "activation_state option"
  ari_operationType :: "activation_operation option"
  ari_target :: activation_target
  ari_bundle :: bundle_reference
  ari_activatedBy :: release_actor
  ari_activatedAt :: js_date
  ari_rolloutMode :: "rollout_mode option"
  ari_reasonCode :: "string option"
  ari_rationale :: string
  ari_previousActivationId :: "string option"
  ari_supersededByActivationId :: "string option"
  ari_rollbackOfActivationId :: "string option"
  ari_freezeReason :: "string option"

section \<open>Validation of texts\<close>

definition normalizeIdentifier :: "string \<Rightarrow> string \<Rightarrow> string result" where
  "normalizeIdentifier value fieldName =
     (let normalized = trim value in
      if length normalized = 0
      then throw (Error (''Policy control-plane '' @ fieldName @ '' cannot be blank.''))
      else return normalized)"

fun normalizeOptionalText :: "string option \<Rightarrow> string option" where
  "normalizeOptionalText None = None"
| "normalizeOptionalText (Some v) =
     (let normalized = trim v in if length normalized > 0 then Some normalized else None)"

definition normalizeIsoTimestamp :: "js_date \<Rightarrow> string \<Rightarrow> timestamp result" where
  "normalizeIsoTimestamp value fieldName =
     (case getTime value of
        None \<Rightarrow> throw (Error (''Policy control-plane '' @ fieldName @ '' must be a valid ISO timestamp.''))
      | Some t \<Rightarrow> return t)"

definition normalizeUniqueStrings :: "string list option \<Rightarrow> string list" where
  "normalizeUniqueStrings strings =
     (case strings of None \<Rightarrow> []
      | Some vs \<Rightarrow> sort (remdups (filter (\<lambda>v. length v > 0) (map trim vs))))"

definition assertBundleReference :: "bundle_reference \<Rightarrow> unit result" where
  "assertBundleReference bundle =
     rbind (normalizeIdentifier (bref_packId bundle) ''bundle.packId'') (\<lambda>_.
     rbind (normalizeIdentifier (bref_bundleId bundle) ''bundle.bundleId'') (\<lambda>_.
     rbind (normalizeIdentifier (bref_bundleVersion bundle) ''bundle.bundleVersion'') (\<lambda>_.
     rbind (normalizeIdentifier (bref_digest bundle) ''bundle.digest'') (\<lambda>_. return ()))))"

section \<open>Constructors\<close>

definition defaultPolicyCompatibilityDescriptor :: compatibility_descriptor where
  "defaultPolicyCompatibilityDescriptor =
     \<lparr> cpt_controlPlaneSpecVersion = POLICY_CONTROL_PLANE_SPEC_VERSION,
       cpt_releaseLayerPlatformSpecVersion = RELEASE_LAYER_PLATFORM_SURFACE_SPEC_VERSION,
       cpt_releasePolicySpecVersion = RELEASE_POLICY_SPEC_VERSION,
       cpt_releasePolicyRolloutSpecVersion = RELEASE_POLICY_ROLLOUT_SPEC_VERSION \<rparr>"

definition createPolicyPackMetadata :: "policy_pack_input \<Rightarrow> policy_pack result" where
  "createPolicyPackMetadata input =
     rbind (normalizeIsoTimestamp (pki_createdAt input) ''createdAt'') (\<lambda>createdAt.
     rbind (normalizeIsoTimestamp (nullish (pki_updatedAt input) (Iso createdAt)) ''updatedAt'') (\<lambda>updatedAt.
     rbind (normalizeIdentifier (pki_id input) ''policy pack id'') (\<lambda>packId.
     rbind (normalizeIdentifier (pki_name input) ''policy pack name'') (\<lambda>name. return
       \<lparr> pck_version = POLICY_PACK_SPEC_VERSION,
         pck_id = packId,
         pck_name = name,
         pck_description = normalizeOptionalText (pki_description input),
         pck_lifecycleState = nullish (pki_lifecycleState input) Pack_draft,
         pck_owners = normalizeUniqueStrings (pki_owners input),
         pck_labels = normalizeUniqueStrings (pki_labels input),
         pck_createdAt = createdAt,
         pck_updatedAt = updatedAt,
         pck_latestBundleRef = pki_latestBundleRef input \<rparr>))))"

definition createPolicyBundleEntry ::
  "(string \<Rightarrow> string) \<Rightarrow> bundle_entry_input \<Rightarrow> bundle_entry result" where
  "createPolicyBundleEntry sha256 input =
     rbind (compileReleasePolicyDefinition sha256 (bei_definition input)) (\<lambda>compiled.
     rbind (normalizeIdentifier (bei_id input) ''policy bundle entry id'') (\<lambda>entryId.
     rbind (normalizeIdentifier (bei_policyHash input) ''policy bundle entry hash'') (\<lambda>policyHash.
     rbind (normalizeIdentifier (nullish (bei_compiledPolicyHash input) (cmp_policyHash compiled))
       ''compiled policy hash'') (\<lambda>compiledPolicyHash.
     rbind (normalizeIdentifier (nullish (bei_compiledPolicyIrHash input) (cmp_irHash compiled))
       ''compiled policy IR hash'') (\<lambda>compiledPolicyIrHash. return
       \<lparr> ben_id = entryId,
         ben_policyId = pol_id (bei_definition input),
         ben_scope = createPolicyScopeSelector (bei_scopeTarget input),
         ben_definition = bei_definition input,
         ben_rollout = pol_rollout (bei_definition input),
         ben_policyHash = policyHash,
         ben_compiledPolicyHash = compiledPolicyHash,
         ben_compiledPolicyIrHash = compiledPolicyIrHash \<rparr>)))))"

definition createPolicyBundleManifest :: "bundle_manifest_input \<Rightarrow> bundle_manifest result" where
  "createPolicyBundleManifest input =
     rbind (assertBundleReference (bmi_bundle input)) (\<lambda>_.
     if length (bmi_entries input) = 0
     then throw (Error ''Policy bundle manifest requires at least one policy entry.'')
     else if pck_id (bmi_pack input) \<noteq> bref_packId (bmi_bundle input)
     then throw (Error ''Policy bundle manifest pack id must match the bundle reference pack id.'')
     else rbind (normalizeIsoTimestamp (bmi_generatedAt input) ''generatedAt'') (\<lambda>generatedAt. return
       \<lparr> bmf_version = POLICY_BUNDLE_MANIFEST_SPEC_VERSION,
         bmf_bundle = bmi_bundle input,
         bmf_packId = pck_id (bmi_pack input),
         bmf_bundleLabels = normalizeUniqueStrings (bmi_bundleLabels input),
         bmf_generatedAt = generatedAt,
         bmf_discoveryMode = nullish (bmi_discoveryMode input) Mode_bundle_manifest,
         bmf_compatibility = defaultPolicyCompatibilityDescriptor,
         bmf_schemas = nullish (bmi_schemas input) [],
         bmf_entries = bmi_entries input \<rparr>))"

definition createPolicyBundleSignatureRecord ::
  "bundle_signature_input \<Rightarrow> bundle_signature_record result" where
  "createPolicyBundleSignatureRecord input =
     rbind (assertBundleReference (bsi_bundle input)) (\<lambda>_.
     rbind (normalizeIdentifier (bsi_keyId input) ''policy bundle signature keyId'') (\<lambda>keyId.
     rbind (normalizeIdentifier (bsi_signerFingerprint input)
       ''policy bundle signature signerFingerprint'') (\<lambda>signerFingerprint.
     rbind (normalizeIsoTimestamp (bsi_signedAt input) ''signedAt'') (\<lambda>signedAt.
     rbind (normalizeIdentifier (bsi_payloadDigest input)
       ''policy bundle signature payloadDigest'') (\<lambda>payloadDigest.
     rbind (normalizeIdentifier (bsi_signature input) ''policy bundle signature'') (\<lambda>signature. return
       \<lparr> bsr_version = POLICY_BUNDLE_SIGNATURE_SPEC_VERSION,
         bsr_bundle = bsi_bundle input,
         bsr_envelopeType = bsi_envelopeType input,
         bsr_algorithm = bsi_algorithm input,
         bsr_keyId = keyId,
         bsr_signerFingerprint = signerFingerprint,
         bsr_signedAt = signedAt,
         bsr_payloadDigest = payloadDigest,
         bsr_signature = signature \<rparr>))))))"

text \<open>The defaults an activation record takes from its state and its operation.\<close>

definition activation_operation_for :: "activation_record_input \<Rightarrow> activation_state \<Rightarrow> activation_operation" where
  "activation_operation_for input st =
     nullish (ari_operationType input)
       (if st = Act_frozen then Op_freeze_scope
        else if truthy_str (ari_rollbackOfActivationId input) \<noteq> None then Op_rollback_activation
        else Op_activate_bundle)"

definition activation_reason_default :: "activation_operation \<Rightarrow> string" where
  "activation_reason_default operation =
     (if operation = Op_freeze_scope then ''freeze''
      else if operation = Op_rollback_activation then ''rollback'' else ''promotion'')"

definition createPolicyActivationRecord :: "activation_record_input \<Rightarrow> activation_record result" where
  "createPolicyActivationRecord input =
     rbind (assertBundleReference (ari_bundle input)) (\<lambda>_.
     let state = nullish (ari_state input) Act_candidate in
     if state \<notin> set POLICY_ACTIVATION_STATES
     then throw (Error (''Unsupported policy activation state '' @ [CHR 0x27] @ activation_state_str state @ [CHR 0x27] @ ''.''))
     else
     let operationType = activation_operation_for input state;
         rolloutMode = nullish (ari_rolloutMode input)
           (if operationType = Op_rollback_activation then Rolled_back else Enforce)
     in
     rbind (normalizeIdentifier (nullish (ari_reasonCode input) (activation_reason_default operationType))
       ''policy activation reasonCode'') (\<lambda>reasonCode.
     rbind (normalizeIdentifier (ari_rationale input) ''policy activation rationale'') (\<lambda>rationale.
     let freezeReason = normalizeOptionalText (ari_freezeReason input);
         supersededByActivationId = normalizeOptionalText (ari_supersededByActivationId input)
     in
     if state = Act_frozen \<and> freezeReason = None
     then throw (Error ''Frozen policy activation records require a freeze reason.'')
     else if operationType = Op_rollback_activation \<and> truthy_str (ari_rollbackOfActivationId input) = None
     then throw (Error ''Rollback policy activation records require a rollback target activation id.'')
     else if state = Act_superseded \<and> supersededByActivationId = None
     then throw (Error ''Superseded policy activation records require a superseding activation id.'')
     else if state = Act_rolled_back \<and> supersededByActivationId = None
     then throw (Error ''Rolled-back policy activation records require a replacement activation id.'')
     else
     rbind (normalizeIdentifier (ari_id input) ''policy activation id'') (\<lambda>activationId.
     rbind (normalizeIsoTimestamp (ari_activatedAt input) ''activatedAt'') (\<lambda>activatedAt. return
       \<lparr> acr_version = POLICY_ACTIVATION_RECORD_SPEC_VERSION,
         acr_id = activationId,
         acr_state = state,
         acr_operationType = operationType,
         acr_target = ari_target input,
         acr_selector = createPolicyScopeSelector (ari_target input),
         acr_targetLabel = policyActivationTargetLabel (ari_target input),
         acr_bundle = ari_bundle input,
         acr_activatedBy = ari_activatedBy input,
         acr_activatedAt = activatedAt,
         acr_rolloutMode = rolloutMode,
         acr_reasonCode = reasonCode,
         acr_rationale = rationale,
         acr_previousActivationId = normalizeOptionalText (ari_previousActivationId input),
         acr_supersededByActivationId = supersededByActivationId,
         acr_rollbackOfActivationId = normalizeOptionalText (ari_rollbackOfActivationId input),
         acr_freezeReason = freezeReason,
         acr_compatibility = defaultPolicyCompatibilityDescriptor \<rparr>)))))"

definition createPolicyControlPlaneMetadata ::
  "policy_store_kind \<Rightarrow> discovery_mode \<Rightarrow> bundle_reference option \<Rightarrow> string option
     \<Rightarrow> control_plane_metadata result" where
  "createPolicyControlPlaneMetadata storeKind discoveryMode activeBundleRef latestActivationId =
     (if discoveryMode \<notin> set POLICY_DISCOVERY_MODES
      then throw (Error (''Unsupported policy discovery mode '' @ [CHR 0x27] @ discovery_mode_str discoveryMode @ [CHR 0x27] @ ''.''))
      else rbind (case activeBundleRef of None \<Rightarrow> return () | Some b \<Rightarrow> assertBundleReference b) (\<lambda>_. return
       \<lparr> cpm_version = POLICY_CONTROL_METADATA_SPEC_VERSION,
         cpm_storeKind = storeKind,
         cpm_discoveryMode = discoveryMode,
         cpm_activeBundleRef = activeBundleRef,
         cpm_latestActivationId = normalizeOptionalText latestActivationId,
         cpm_compatibility = defaultPolicyCompatibilityDescriptor \<rparr>))"

definition policyBundleCompatibilityKey :: "compatibility_descriptor \<Rightarrow> string" where
  "policyBundleCompatibilityKey compatibility =
     join_with '' | ''
       [cpt_controlPlaneSpecVersion compatibility,
        cpt_releaseLayerPlatformSpecVersion compatibility,
        cpt_releasePolicySpecVersion compatibility,
        cpt_releasePolicyRolloutSpecVersion compatibility]"

section \<open>What the constructors establish\<close>

definition wf_bundle_reference :: "bundle_reference \<Rightarrow> bool" where
  "wf_bundle_reference b \<longleftrightarrow>
     trim (bref_packId b) \<noteq> [] \<and> trim (bref_bundleId b) \<noteq> [] \<and>
     trim (bref_bundleVersion b) \<noteq> [] \<and> trim (bref_digest b) \<noteq> []"

lemma normalizeIdentifier_eq_Inr [simp]:
  "normalizeIdentifier v f = Inr w \<longleftrightarrow> w = trim v \<and> trim v \<noteq> []"
  by (auto simp: normalizeIdentifier_def Let_def)

lemma normalizeOptionalText_Some:
  "normalizeOptionalText v = Some w \<longleftrightarrow> (\<exists>s. v = Some s \<and> w = trim s \<and> trim s \<noteq> [])"
  by (cases v) (auto simp: Let_def)

lemma normalizeOptionalText_wf: "wf_identifier (normalizeOptionalText v)"
  by (cases v) (auto simp: Let_def)

lemma normalizeOptionalText_fixed [simp]: "wf_identifier v \<Longrightarrow> normalizeOptionalText v = v"
  by (cases v) (auto simp: Let_def)

lemma normalizeIsoTimestamp_eq_Inr [simp]: "normalizeIsoTimestamp d f = Inr t \<longleftrightarrow> d = Iso t"
  by (cases d) (auto simp: normalizeIsoTimestamp_def)

lemma assertBundleReference_eq_Inr [simp]: "assertBundleReference b = Inr u \<longleftrightarrow> wf_bundle_reference b"
  by (simp add: assertBundleReference_def wf_bundle_reference_def)

definition wf_activation :: "activation_record \<Rightarrow> bool" where
  "wf_activation r \<longleftrightarrow>
     acr_version r = POLICY_ACTIVATION_RECORD_SPEC_VERSION \<and>
     acr_compatibility r = defaultPolicyCompatibilityDescriptor \<and>
     acr_id r \<noteq> [] \<and> trim (acr_id r) = acr_id r \<and>
     acr_selector r = createPolicyScopeSelector (acr_target r) \<and>
     acr_targetLabel r = policyActivationTargetLabel (acr_target r) \<and>
     wf_bundle_reference (acr_bundle r) \<and>
     acr_reasonCode r \<noteq> [] \<and> trim (acr_reasonCode r) = acr_reasonCode r \<and>
     acr_rationale r \<noteq> [] \<and> trim (acr_rationale r) = acr_rationale r \<and>
     wf_identifier (acr_previousActivationId r) \<and>
     wf_identifier (acr_supersededByActivationId r) \<and>
     wf_identifier (acr_rollbackOfActivationId r) \<and>
     wf_identifier (acr_freezeReason r) \<and>
     (acr_state r = Act_frozen \<longrightarrow> acr_freezeReason r \<noteq> None) \<and>
     (acr_state r = Act_superseded \<or> acr_state r = Act_rolled_back \<longrightarrow>
        acr_supersededByActivationId r \<noteq> None)"

text \<open>The record an accepted input creates at an instant, and which inputs are accepted.\<close>

definition activation_record_of ::
  "activation_record_input \<Rightarrow> timestamp \<Rightarrow> activation_record" where
  "activation_record_of i t =
     (let st = nullish (ari_state i) Act_candidate;
          operation = activation_operation_for i st
      in \<lparr> acr_version = POLICY_ACTIVATION_RECORD_SPEC_VERSION,
           acr_id = trim (ari_id i),
           acr_state = st,
           acr_operationType = operation,
           acr_target = ari_target i,
           acr_selector = createPolicyScopeSelector (ari_target i),
           acr_targetLabel = policyActivationTargetLabel (ari_target i),
           acr_bundle = ari_bundle i,
           acr_activatedBy = ari_activatedBy i,
           acr_activatedAt = t,
           acr_rolloutMode = nullish (ari_rolloutMode i)
             (if operation = Op_rollback_activation then Rolled_back else Enforce),
           acr_reasonCode = trim (nullish (ari_reasonCode i) (activation_reason_default operation)),
           acr_rationale = trim (ari_rationale i),
           acr_previousActivationId = normalizeOptionalText (ari_previousActivationId i),
           acr_supersededByActivationId = normalizeOptionalText (ari_supersededByActivationId i),
           acr_rollbackOfActivationId = normalizeOptionalText (ari_rollbackOfActivationId i),
           acr_freezeReason = normalizeOptionalText (ari_freezeReason i),
           acr_compatibility = defaultPolicyCompatibilityDescriptor \<rparr>)"

definition activation_input_ok :: "activation_record_input \<Rightarrow> bool" where
  "activation_input_ok i \<longleftrightarrow>
     (let st = nullish (ari_state i) Act_candidate;
          operation = activation_operation_for i st
      in wf_bundle_reference (ari_bundle i) \<and> trim (ari_id i) \<noteq> [] \<and> trim (ari_rationale i) \<noteq> [] \<and>
         trim (nullish (ari_reasonCode i) (activation_reason_default operation)) \<noteq> [] \<and>
         (st = Act_frozen \<longrightarrow> normalizeOptionalText (ari_freezeReason i) \<noteq> None) \<and>
         (operation = Op_rollback_activation \<longrightarrow> truthy_str (ari_rollbackOfActivationId i) \<noteq> None) \<and>
         (st = Act_superseded \<or> st = Act_rolled_back \<longrightarrow>
            normalizeOptionalText (ari_supersededByActivationId i) \<noteq> None))"

lemma createPolicyActivationRecord_eq_Inr:
  "createPolicyActivationRecord i = Inr r \<longleftrightarrow>
     activation_input_ok i \<and> (\<exists>t. ari_activatedAt i = Iso t \<and> r = activation_record_of i t)"
proof -
  define st where "st = nullish (ari_state i) Act_candidate"
  define operation where "operation = activation_operation_for i st"
  define reason where "reason = nullish (ari_reasonCode i) (activation_reason_default operation)"
  have known: "st \<in> set POLICY_ACTIVATION_STATES" by (rule activation_states.complete)
  show ?thesis
    unfolding createPolicyActivationRecord_def activation_input_ok_def activation_record_of_def Let_def
      st_def [symmetric] operation_def [symmetric] reason_def [symmetric]
    using known by auto
qed

lemma activation_record_of_wf: "activation_input_ok i \<Longrightarrow> wf_activation (activation_record_of i t)"
  by (auto simp: activation_input_ok_def activation_record_of_def wf_activation_def Let_def
      normalizeOptionalText_wf)

lemma created_activation_wf: "createPolicyActivationRecord i = Inr r \<Longrightarrow> wf_activation r"
  by (auto simp: createPolicyActivationRecord_eq_Inr activation_record_of_wf)

end
