(* ===== verification/Js_Sort.thy ===== *)
theory Js_Sort
  imports Js_Prelude
begin

text \<open>
  \<open>Array.prototype.sort\<close> with a comparison callback. The standard requires the sort to be
  stable and, when the callback is a consistent comparison, leaves only one result: the stable
  sorted permutation, which the insertion sort below computes. The locale \<open>consistent_cmp\<close>
  states what makes a callback consistent; the sortedness of the result is proved in it. That
  the result is a permutation holds for every callback.
\<close>

fun sort_insert :: "('a \<Rightarrow> 'a \<Rightarrow> int) \<Rightarrow> 'a \<Rightarrow> 'a list \<Rightarrow> 'a list" where
  "sort_insert cmp x [] = [x]"
| "sort_insert cmp x (y # ys) = (if cmp x y \<le> 0 then x # y # ys else y # sort_insert cmp x ys)"

definition sort_with :: "('a \<Rightarrow> 'a \<Rightarrow> int) \<Rightarrow> 'a list \<Rightarrow> 'a list" where
  "sort_with cmp xs = foldr (sort_insert cmp) xs []"

lemma mset_sort_insert [simp]: "mset (sort_insert cmp x xs) = add_mset x (mset xs)"
  by (induction xs) auto

lemma mset_sort_with [simp]: "mset (sort_with cmp xs) = mset xs"
  unfolding sort_with_def by (induction xs) auto

lemma set_sort_with [simp]: "set (sort_with cmp xs) = set xs"
  by (metis mset_sort_with set_mset_mset)

lemma length_sort_with [simp]: "length (sort_with cmp xs) = length xs"
  by (metis mset_sort_with size_mset)

lemma sort_with_Nil [simp]: "sort_with cmp [] = []"
  by (simp add: sort_with_def)

lemma sort_with_Cons [simp]: "sort_with cmp (x # xs) = sort_insert cmp x (sort_with cmp xs)"
  by (simp add: sort_with_def)

lemma sort_with_eq_Nil [simp]: "sort_with cmp xs = [] \<longleftrightarrow> xs = []"
  by (metis length_0_conv length_sort_with)

lemma distinct_map_mset: "mset xs = mset ys \<Longrightarrow> distinct (map f xs) = distinct (map f ys)"
  by (metis mset_eq_imp_distinct_iff mset_map)

lemma distinct_map_sort_with [simp]: "distinct (map f (sort_with cmp xs)) = distinct (map f xs)"
  by (rule distinct_map_mset) simp

lemma map_sort_insert:
  "(\<And>x y. cmp (f x) (f y) = cmp' x y) \<Longrightarrow>
   map f (sort_insert cmp' x xs) = sort_insert cmp (f x) (map f xs)"
  by (induction xs) auto

lemma map_sort_with:
  "(\<And>x y. cmp (f x) (f y) = cmp' x y) \<Longrightarrow> map f (sort_with cmp' xs) = sort_with cmp (map f xs)"
  by (induction xs) (auto simp: map_sort_insert [of cmp f cmp'])

text \<open>Elements with one key, and a search by a key no two elements share, do not depend on the order.\<close>

lemma find_unique:
  "x \<in> set xs \<Longrightarrow> P x \<Longrightarrow> \<forall>y\<in>set xs. P y \<longrightarrow> y = x \<Longrightarrow> List.find P xs = Some x"
proof -
  assume x: "x \<in> set xs" "P x" and unique: "\<forall>y\<in>set xs. P y \<longrightarrow> y = x"
  show "List.find P xs = Some x"
  proof (cases "List.find P xs")
    case None
    with x show ?thesis by (auto simp: find_None_iff)
  next
    case (Some y)
    with unique show ?thesis using find_SomeD [OF Some] by blast
  qed
qed

lemma find_by_mset:
  assumes "mset xs = mset ys" "distinct (map key ys)"
  shows "find_by key k xs = find_by key k ys"
proof -
  have same: "set xs = set ys" using assms(1) by (rule mset_eq_setD)
  show ?thesis
  proof (cases "find_by key k ys")
    case None
    then have "\<forall>x\<in>set xs. key x \<noteq> k" unfolding same by (simp only: find_by_None)
    then have "find_by key k xs = None" by (simp only: find_by_None)
    with None show ?thesis by (simp only:)
  next
    case (Some y)
    then have y: "y \<in> set xs" "key y = k" unfolding same by (auto dest: find_by_SomeD)
    moreover have "\<forall>z\<in>set xs. key z = k \<longrightarrow> z = y"
      using y assms(2) unfolding same by (auto simp: distinct_map inj_on_def)
    ultimately have "find_by key k xs = Some y" by (rule find_unique)
    with Some show ?thesis by (simp only:)
  qed
qed

section \<open>Consistent comparisons\<close>

locale consistent_cmp =
  fixes cmp :: "'a \<Rightarrow> 'a \<Rightarrow> int"
  assumes cmp_total: "cmp x y \<le> 0 \<or> cmp y x \<le> 0"
    and cmp_trans: "cmp x y \<le> 0 \<Longrightarrow> cmp y z \<le> 0 \<Longrightarrow> cmp x z \<le> 0"
begin

abbreviation in_order :: "'a list \<Rightarrow> bool" where
  "in_order \<equiv> sorted_wrt (\<lambda>x y. cmp x y \<le> 0)"

lemma sort_insert_in_order: "in_order xs \<Longrightarrow> in_order (sort_insert cmp x xs)"
proof (induction xs)
  case (Cons y ys)
  have "set (sort_insert cmp x ys) = insert x (set ys)"
    by (metis mset_sort_insert set_mset_add_mset_insert set_mset_mset)
  with Cons show ?case
    using cmp_total [of x y] cmp_trans by auto
qed simp

lemma sort_with_in_order: "in_order (sort_with cmp xs)"
  by (induction xs) (auto intro: sort_insert_in_order)

lemma first_is_least: "sort_with cmp xs = y # ys \<Longrightarrow> x \<in> set xs \<Longrightarrow> cmp y x \<le> 0"
proof -
  assume eq: "sort_with cmp xs = y # ys" and x: "x \<in> set xs"
  then have "x \<in> set (y # ys)" by (metis set_sort_with)
  moreover have "in_order (y # ys)" using sort_with_in_order [of xs] by (simp only: eq)
  ultimately show ?thesis
    using cmp_total [of y y] by auto
qed

lemma sorted_list_fixed: "in_order xs \<Longrightarrow> sort_with cmp xs = xs"
proof (induction xs)
  case (Cons x xs)
  then have "sort_with cmp xs = xs" by simp
  with Cons.prems show ?case by (cases xs) auto
qed simp

lemma sort_with_idem: "sort_with cmp (sort_with cmp xs) = sort_with cmp xs"
  by (rule sorted_list_fixed [OF sort_with_in_order])

end

section \<open>Stores that keep their records sorted\<close>

text \<open>
  A store that sorts its array after each write does not keep the records where
  \<open>upsert_by\<close> puts them, only which records it holds. With distinct keys that is all its
  clients rely on.
\<close>

locale sorted_store =
  fixes recs :: "'s \<Rightarrow> 'a list"
    and key :: "'a \<Rightarrow> 'k"
    and lookup :: "'s \<Rightarrow> 'k \<Rightarrow> 'a option"
    and put :: "'s \<Rightarrow> 'a \<Rightarrow> 's"
  assumes lookup_find: "lookup s k = find_by key k (recs s)"
    and recs_put_mset: "mset (recs (put s x)) = mset (upsert_by key x (recs s))"
begin

definition unique_keys :: "'s \<Rightarrow> bool" where
  "unique_keys s \<longleftrightarrow> distinct (map key (recs s))"

lemma unique_keys_put: "unique_keys s \<Longrightarrow> unique_keys (put s x)"
  unfolding unique_keys_def
  using distinct_upsert_by [of key "recs s" x] distinct_map_mset [OF recs_put_mset] by blast

lemma members_put:
  "unique_keys s \<Longrightarrow> set (recs (put s x)) = insert x {y \<in> set (recs s). key y \<noteq> key x}"
  unfolding unique_keys_def
  using set_upsert_by_distinct [of key "recs s" x] mset_eq_setD [OF recs_put_mset] by blast

lemma lookup_put_sorted:
  assumes "unique_keys s"
  shows "lookup (put s x) k = (if k = key x then Some x else lookup s k)"
proof -
  have "find_by key k (recs (put s x)) = find_by key k (upsert_by key x (recs s))"
    using assms unfolding unique_keys_def
    by (intro find_by_mset recs_put_mset distinct_upsert_by)
  then show ?thesis by (simp only: lookup_find find_by_upsert)
qed

lemma lookup_iff_member: "unique_keys s \<Longrightarrow> lookup s k = Some x \<longleftrightarrow> x \<in> set (recs s) \<and> key x = k"
  unfolding unique_keys_def lookup_find
  by (metis find_by_SomeD find_by_distinct)

lemma lookup_member_key: "lookup s k = Some x \<Longrightarrow> x \<in> set (recs s) \<and> key x = k"
  unfolding lookup_find by (rule find_by_SomeD)

end

sublocale keyed_store \<subseteq> sorted_store recs key lookup put
  by unfold_locales (simp_all add: lookup_eq recs_put)

end
