(* ===== verification/Policy_Scoping.thy ===== *)
theory Policy_Scoping
  imports Policy_Objects Js_Sort
begin

text \<open>
  Scoped matching and precedence: src/release-policy-control-plane/scoping.ts.

  A selector matches a request when the environments agree and every dimension the selector
  constrains has the value of the request. Matches are ordered by a vector with one entry for
  each dimension, in the order of precedence, and the number of constrained dimensions; the
  candidates of a request are the matching activations in that order, and the first one wins
  unless another has the same vector.

  The lemmas relate the vectors to a comparison of targets (\<open>more_specific\<close>), show that the
  comparison callback is consistent, so the sort is determined, and that two matching
  selectors with one vector are selectors of one target.
\<close>

definition POLICY_SCOPE_PRECEDENCE_SPEC_VERSION :: string where
  "POLICY_SCOPE_PRECEDENCE_SPEC_VERSION = ''attestor.policy-scope-precedence.v1''"

definition POLICY_SCOPE_PRECEDENCE_ORDER :: "scope_dimension list" where
  "POLICY_SCOPE_PRECEDENCE_ORDER =
     [Dim_account, Dim_tenant, Dim_wedge, Dim_domain, Dim_risk_class, Dim_consequence_type,
      Dim_cohort, Dim_plan]"

record scope_match =
  smt_request :: activation_target
  smt_selector :: scope_selector
  smt_matches :: bool
  smt_matchedDimensions :: "scope_dimension list"
  smt_mismatchDimension :: "scope_dimension option"
  smt_precedenceVector :: "int list"
  smt_specificityScore :: int
  smt_selectorLabel :: string

record activation_candidate =
  acd_activation :: activation_record
  acd_match :: scope_match

record precedence_resolution =
  prs_request :: activation_target
  prs_matchedCandidates :: "activation_candidate list"
  prs_winner :: "activation_candidate option"
  prs_ambiguousTopCandidates :: "activation_candidate list"

fun selectorValue :: "'a activation_target_scheme \<Rightarrow> scope_dimension \<Rightarrow> string option" where
  "selectorValue selector Dim_environment = Some (atg_environment selector)"
| "selectorValue selector Dim_tenant = atg_tenantId selector"
| "selectorValue selector Dim_account = atg_accountId selector"
| "selectorValue selector Dim_domain = atg_domainId selector"
| "selectorValue selector Dim_wedge = atg_wedgeId selector"
| "selectorValue selector Dim_consequence_type =
     map_option consequence_type_str (atg_consequenceType selector)"
| "selectorValue selector Dim_risk_class = map_option risk_class_str (atg_riskClass selector)"
| "selectorValue selector Dim_cohort = atg_cohortId selector"
| "selectorValue selector Dim_plan = atg_planId selector"

text \<open>The accessors of the precedence dimensions agree with \<open>selectorValue\<close>.\<close>

definition dimension_bit :: "scope_selector \<Rightarrow> scope_dimension \<Rightarrow> int" where
  "dimension_bit selector dimension =
     (if truthy_str (selectorValue selector dimension) \<noteq> None then 1 else 0)"

definition precedenceVectorForSelector :: "scope_selector \<Rightarrow> int list" where
  "precedenceVectorForSelector selector =
     map (dimension_bit selector) POLICY_SCOPE_PRECEDENCE_ORDER
     @ [int (length (sel_dimensions selector))]"

definition specificityScoreForSelector :: "scope_selector \<Rightarrow> int" where
  "specificityScoreForSelector selector =
     foldl (\<lambda>score (index, dimension).
         score + (if truthy_str (selectorValue selector dimension) \<noteq> None then 2 ^ (8 - index) else 0))
       (int (length (sel_dimensions selector)))
       (enumerate 0 POLICY_SCOPE_PRECEDENCE_ORDER)"

definition compareCanonicalLabels :: "string \<Rightarrow> string \<Rightarrow> int" where
  "compareCanonicalLabels left right = (if left < right then - 1 else if left > right then 1 else 0)"

text \<open>\<open>vector[index] ?? 0\<close>: an index beyond the end is undefined.\<close>

definition vector_at :: "int list \<Rightarrow> nat \<Rightarrow> int" where
  "vector_at v i = (if i < length v then v ! i else 0)"

definition samePrecedenceMatch :: "scope_match \<Rightarrow> scope_match \<Rightarrow> bool" where
  "samePrecedenceMatch left right \<longleftrightarrow>
     smt_specificityScore left = smt_specificityScore right \<and>
     length (smt_precedenceVector left) = length (smt_precedenceVector right) \<and>
     list_all (\<lambda>i. vector_at (smt_precedenceVector left) i = vector_at (smt_precedenceVector right) i)
       [0..<length (smt_precedenceVector left)]"

definition comparePolicyScopeMatches :: "scope_match \<Rightarrow> scope_match \<Rightarrow> int" where
  "comparePolicyScopeMatches left right =
     (let l = smt_precedenceVector left;
          r = smt_precedenceVector right
      in case List.find (\<lambda>i. vector_at l i \<noteq> vector_at r i) [0..<max (length l) (length r)] of
           Some i \<Rightarrow> vector_at r i - vector_at l i
         | None \<Rightarrow> compareCanonicalLabels (smt_selectorLabel left) (smt_selectorLabel right))"

text \<open>
  The loop over the dimensions of the selector: the dimensions matched so far, and the one
  that does not match, if any. A dimension whose value is null is skipped.
\<close>

fun match_dimensions ::
  "activation_target \<Rightarrow> scope_selector \<Rightarrow> scope_dimension list \<Rightarrow> scope_dimension list
     \<Rightarrow> scope_dimension list \<times> scope_dimension option" where
  "match_dimensions request selector [] matched = (matched, None)"
| "match_dimensions request selector (d # ds) matched =
     (if d = Dim_environment then match_dimensions request selector ds matched
      else case selectorValue selector d of
        None \<Rightarrow> match_dimensions request selector ds matched
      | Some v \<Rightarrow>
          if selectorValue request d \<noteq> Some v then (matched, Some d)
          else match_dimensions request selector ds (matched @ [d]))"

text \<open>The argument is a target or a selector; a target is turned into a selector first.\<close>

fun selector_of :: "activation_target + scope_selector \<Rightarrow> scope_selector" where
  "selector_of (Inl target) = createPolicyScopeSelector target"
| "selector_of (Inr selector) = selector"

definition matchPolicyScope ::
  "activation_target \<Rightarrow> activation_target + scope_selector \<Rightarrow> scope_match" where
  "matchPolicyScope request selectorOrTarget =
     (let selector = selector_of selectorOrTarget;
          verdict = (\<lambda>m dims mismatch.
            \<lparr> smt_request = request, smt_selector = selector, smt_matches = m,
              smt_matchedDimensions = dims, smt_mismatchDimension = mismatch,
              smt_precedenceVector = precedenceVectorForSelector selector,
              smt_specificityScore = specificityScoreForSelector selector,
              smt_selectorLabel = policyActivationTargetLabel selector \<rparr>)
      in if atg_environment request \<noteq> atg_environment selector
         then verdict False [] (Some Dim_environment)
         else case match_dimensions request selector (sel_dimensions selector) [Dim_environment] of
             (matched, Some d) \<Rightarrow> verdict False matched (Some d)
           | (matched, None) \<Rightarrow> verdict True matched None)"

definition activation_candidate_for :: "activation_target \<Rightarrow> activation_record \<Rightarrow> activation_candidate" where
  "activation_candidate_for request activation =
     \<lparr> acd_activation = activation,
       acd_match = matchPolicyScope request (Inr (acr_selector activation)) \<rparr>"

definition activation_candidates ::
  "activation_target \<Rightarrow> activation_record list \<Rightarrow> activation_candidate list" where
  "activation_candidates request activations =
     sort_with (\<lambda>left right. comparePolicyScopeMatches (acd_match left) (acd_match right))
       (filter (\<lambda>candidate. smt_matches (acd_match candidate))
         (map (activation_candidate_for request) activations))"

definition resolvePolicyActivationPrecedence ::
  "activation_target \<Rightarrow> activation_record list \<Rightarrow> precedence_resolution" where
  "resolvePolicyActivationPrecedence request activations =
     (let matchedCandidates = activation_candidates request activations in
      case matchedCandidates of
        [] \<Rightarrow> \<lparr> prs_request = request, prs_matchedCandidates = matchedCandidates,
               prs_winner = None, prs_ambiguousTopCandidates = [] \<rparr>
      | topCandidate # _ \<Rightarrow>
          let ambiguousTopCandidates =
            filter (\<lambda>candidate. samePrecedenceMatch (acd_match candidate) (acd_match topCandidate))
              matchedCandidates
          in \<lparr> prs_request = request,
               prs_matchedCandidates = matchedCandidates,
               prs_winner = (if length ambiguousTopCandidates = 1 then Some topCandidate else None),
               prs_ambiguousTopCandidates =
                 (if length ambiguousTopCandidates > 1 then ambiguousTopCandidates else []) \<rparr>)"

record scope_precedence_descriptor =
  spd_version :: string
  spd_mandatoryExactBoundary :: "scope_dimension list"
  spd_wildcardSemantics :: string
  spd_precedenceOrder :: "scope_dimension list"
  spd_hierarchyRules :: "string list"

definition policyScopePrecedenceDescriptor :: scope_precedence_descriptor where
  "policyScopePrecedenceDescriptor =
     \<lparr> spd_version = POLICY_SCOPE_PRECEDENCE_SPEC_VERSION,
       spd_mandatoryExactBoundary = [Dim_environment],
       spd_wildcardSemantics = ''null-means-unscoped'',
       spd_precedenceOrder = POLICY_SCOPE_PRECEDENCE_ORDER,
       spd_hierarchyRules =
         [''Environment is mandatory and must always match exactly; there is no cross-environment fallback.'',
          ''A null dimension inside a selector means the selector is unscoped on that dimension and therefore acts as a wildcard.'',
          ''Account scope requires tenant scope and overrides broader tenant-wide matches when both apply.'',
          ''Wedge scope requires domain scope and overrides broader domain-wide matches when both apply.'',
          ''Risk-class scope requires consequence-type scope and overrides broader consequence-wide matches when both apply.'',
          ''Cohort scope is an optional rollout discriminator that can narrow a bundle without overriding explicit identity or domain/consequence-specific matches.'',
          ''Plan scope is optional and acts as the lowest-precedence optional discriminator after identity, wedge/domain, consequence scope, and cohort selection.'',
          ''If two matching activations have identical precedence vectors, resolution is ambiguous and must be treated as a control-plane conflict rather than resolved implicitly.''] \<rparr>"

section \<open>The comparison of matches is consistent\<close>

lemma compareCanonicalLabels_nonpos: "compareCanonicalLabels x y \<le> 0 \<longleftrightarrow> x \<le> y"
  by (auto simp: compareCanonicalLabels_def)

text \<open>Vectors compare at the first index where they differ; beyond their ends they agree.\<close>

definition vector_before :: "int list \<Rightarrow> int list \<Rightarrow> bool" where
  "vector_before v w \<longleftrightarrow> (\<exists>i. (\<forall>j<i. vector_at v j = vector_at w j) \<and> vector_at w i < vector_at v i)"

definition vector_same :: "int list \<Rightarrow> int list \<Rightarrow> bool" where
  "vector_same v w \<longleftrightarrow> (\<forall>i. vector_at v i = vector_at w i)"

lemma vector_before_antisym: "vector_before v w \<Longrightarrow> \<not> vector_before w v"
  unfolding vector_before_def by (metis less_irrefl linorder_less_linear order_less_not_sym)

lemma vector_before_not_same: "vector_before v w \<Longrightarrow> \<not> vector_same v w"
  unfolding vector_before_def vector_same_def by (metis order_less_irrefl)

lemma vector_trichotomy: "vector_before v w \<or> vector_same v w \<or> vector_before w v"
proof (cases "vector_same v w")
  case False
  define i where "i = (LEAST i. vector_at v i \<noteq> vector_at w i)"
  have ne: "vector_at v i \<noteq> vector_at w i"
    unfolding i_def by (rule LeastI_ex) (use False in \<open>auto simp: vector_same_def\<close>)
  moreover have "\<forall>j<i. vector_at v j = vector_at w j"
    unfolding i_def by (meson not_less_Least)
  ultimately show ?thesis
    unfolding vector_before_def by (metis linorder_neqE)
qed simp

lemma vector_before_trans: "vector_before u v \<Longrightarrow> vector_before v w \<Longrightarrow> vector_before u w"
proof -
  assume "vector_before u v" "vector_before v w"
  then obtain i k where i: "\<forall>j<i. vector_at u j = vector_at v j" "vector_at v i < vector_at u i"
    and k: "\<forall>j<k. vector_at v j = vector_at w j" "vector_at w k < vector_at v k"
    by (auto simp: vector_before_def)
  have "(\<forall>j<min i k. vector_at u j = vector_at w j) \<and> vector_at w (min i k) < vector_at u (min i k)"
    using i k by (cases i k rule: linorder_cases) auto
  then show ?thesis unfolding vector_before_def by blast
qed

lemma vector_before_same: "vector_same u u' \<Longrightarrow> vector_same v v' \<Longrightarrow> vector_before u v = vector_before u' v'"
  by (simp add: vector_before_def vector_same_def)

lemma compare_nonpos:
  "comparePolicyScopeMatches left right \<le> 0 \<longleftrightarrow>
     vector_before (smt_precedenceVector left) (smt_precedenceVector right) \<or>
     vector_same (smt_precedenceVector left) (smt_precedenceVector right) \<and>
       smt_selectorLabel left \<le> smt_selectorLabel right"
proof -
  define l where "l = smt_precedenceVector left"
  define r where "r = smt_precedenceVector right"
  let ?P = "\<lambda>i. vector_at l i \<noteq> vector_at r i"
  have beyond: "\<not> ?P i" if "max (length l) (length r) \<le> i" for i
    using that by (simp add: vector_at_def)
  show ?thesis
  proof (cases "List.find ?P [0..<max (length l) (length r)]")
    case None
    then have "\<forall>i<max (length l) (length r). \<not> ?P i"
      by (auto simp: find_None_iff)
    then have "vector_same l r"
      unfolding vector_same_def using beyond by (metis not_le_imp_less)
    moreover from this have "\<not> vector_before l r" using vector_before_not_same by blast
    ultimately show ?thesis
      using None by (simp add: comparePolicyScopeMatches_def Let_def l_def [symmetric] r_def [symmetric]
          compareCanonicalLabels_nonpos)
  next
    case (Some i)
    then obtain k where "k < max (length l) (length r)" "?P k" "i = k" "\<forall>j<k. \<not> ?P j"
      by (auto simp: find_Some_iff)
    then have ne: "?P i" and same: "\<forall>j<i. vector_at l j = vector_at r j" by auto
    then have "vector_before l r \<longleftrightarrow> vector_at r i < vector_at l i"
      by (metis linorder_neqE order_less_not_sym vector_before_antisym vector_before_def)
    moreover have "\<not> vector_same l r" using ne by (auto simp: vector_same_def)
    ultimately show ?thesis
      using Some ne
      by (simp add: comparePolicyScopeMatches_def Let_def l_def [symmetric] r_def [symmetric]
          order_le_less)
  qed
qed

interpretation match_order: consistent_cmp comparePolicyScopeMatches
proof
  fix x y z
  show "comparePolicyScopeMatches x y \<le> 0 \<or> comparePolicyScopeMatches y x \<le> 0"
    using vector_trichotomy [of "smt_precedenceVector x" "smt_precedenceVector y"]
    by (auto simp: compare_nonpos vector_same_def)
  assume "comparePolicyScopeMatches x y \<le> 0" "comparePolicyScopeMatches y z \<le> 0"
  then show "comparePolicyScopeMatches x z \<le> 0"
    unfolding compare_nonpos
    by (smt (verit) order_trans vector_before_same vector_before_trans vector_same_def)
qed

section \<open>Matching\<close>

definition covers :: "'a activation_target_scheme \<Rightarrow> activation_target \<Rightarrow> bool" where
  "covers t request \<longleftrightarrow>
     atg_environment t = atg_environment request \<and>
     (\<forall>d\<in>set POLICY_SCOPE_PRECEDENCE_ORDER.
        selectorValue t d = None \<or> selectorValue t d = selectorValue request d)"

lemma precedence_dimensions: "d \<in> set POLICY_SCOPE_PRECEDENCE_ORDER \<longleftrightarrow> d \<noteq> Dim_environment"
  by (cases d) (simp_all add: POLICY_SCOPE_PRECEDENCE_ORDER_def)

lemma match_dimensions_all:
  "snd (match_dimensions request selector ds matched) = None \<longleftrightarrow>
     (\<forall>d\<in>set ds. d \<noteq> Dim_environment \<longrightarrow>
        selectorValue selector d = None \<or> selectorValue selector d = selectorValue request d)"
  by (induction ds arbitrary: matched) (auto split: option.splits)

lemma match_fields [simp]:
  "smt_request (matchPolicyScope request s) = request"
  "smt_selector (matchPolicyScope request s) = selector_of s"
  "smt_precedenceVector (matchPolicyScope request s) = precedenceVectorForSelector (selector_of s)"
  "smt_specificityScore (matchPolicyScope request s) = specificityScoreForSelector (selector_of s)"
  "smt_selectorLabel (matchPolicyScope request s) = policyActivationTargetLabel (selector_of s)"
  by (simp_all add: matchPolicyScope_def Let_def split: prod.split option.split)

lemma match_matches:
  "smt_matches (matchPolicyScope request s) \<longleftrightarrow>
     atg_environment request = atg_environment (selector_of s) \<and>
     (\<forall>d\<in>set (sel_dimensions (selector_of s)). d \<noteq> Dim_environment \<longrightarrow>
        selectorValue (selector_of s) d = None \<or>
        selectorValue (selector_of s) d = selectorValue request d)"
proof -
  obtain m r where eq: "match_dimensions request (selector_of s) (sel_dimensions (selector_of s))
      [Dim_environment] = (m, r)"
    by fastforce
  with match_dimensions_all [of request "selector_of s" "sel_dimensions (selector_of s)"
      "[Dim_environment]"]
  show ?thesis
    by (auto simp: matchPolicyScope_def Let_def split: option.split)
qed

lemma selectorValue_selector [simp]:
  "selectorValue (createPolicyScopeSelector t) d = selectorValue t d"
  by (cases d) simp_all

lemma wf_target_truthy:
  "wf_target t \<Longrightarrow> truthy_str (selectorValue t d) = selectorValue t d"
  by (cases d) (simp_all add: wf_target_def wf_identifier_truthy truthy_map_str)

lemma target_dimensions:
  assumes "wf_target t"
  shows "d \<in> set (policyScopeDimensionsForTarget t) \<longleftrightarrow> selectorValue t d \<noteq> None"
  using assms
  by (cases d) (auto simp: policyScopeDimensionsForTarget_def wf_target_def wf_identifier_truthy)

lemma target_matches:
  assumes "wf_target t"
  shows "smt_matches (matchPolicyScope request (Inr (createPolicyScopeSelector t))) \<longleftrightarrow> covers t request"
  using assms by (auto simp: match_matches covers_def precedence_dimensions target_dimensions)

section \<open>Specificity\<close>

text \<open>
  A target outranks another when, at the first dimension in the order of precedence that only
  one of them constrains, it is the one that does.
\<close>

fun outranks :: "scope_dimension list \<Rightarrow> activation_target \<Rightarrow> activation_target \<Rightarrow> bool" where
  "outranks [] t u \<longleftrightarrow> False"
| "outranks (d # ds) t u \<longleftrightarrow>
     (if (selectorValue t d = None) = (selectorValue u d = None) then outranks ds t u
      else selectorValue t d \<noteq> None)"

definition more_specific :: "activation_target \<Rightarrow> activation_target \<Rightarrow> bool" where
  "more_specific t u \<longleftrightarrow> outranks POLICY_SCOPE_PRECEDENCE_ORDER t u"

abbreviation target_vector :: "activation_target \<Rightarrow> int list" where
  "target_vector t \<equiv> precedenceVectorForSelector (createPolicyScopeSelector t)"

lemma dimension_bit_target:
  "wf_target t \<Longrightarrow> dimension_bit (createPolicyScopeSelector t) d = (if selectorValue t d = None then 0 else 1)"
  by (simp add: dimension_bit_def wf_target_truthy)

lemma outranks_iff:
  "outranks ds t u \<longleftrightarrow>
     (\<exists>i<length ds. (\<forall>j<i. (selectorValue t (ds ! j) = None) = (selectorValue u (ds ! j) = None)) \<and>
        selectorValue t (ds ! i) \<noteq> None \<and> selectorValue u (ds ! i) = None)"
  by (induction ds) (auto simp: Ex_less_Suc2 All_less_Suc2)

lemma target_vector_at:
  assumes "wf_target t"
  shows "i < length POLICY_SCOPE_PRECEDENCE_ORDER \<Longrightarrow>
    vector_at (target_vector t) i =
      (if selectorValue t (POLICY_SCOPE_PRECEDENCE_ORDER ! i) = None then 0 else 1)"
  using assms by (simp add: vector_at_def precedenceVectorForSelector_def nth_append dimension_bit_target)

lemma same_constraints_same_dimensions:
  assumes "wf_target t" "wf_target u"
    and "\<forall>d\<in>set POLICY_SCOPE_PRECEDENCE_ORDER. (selectorValue t d = None) = (selectorValue u d = None)"
  shows "policyScopeDimensionsForTarget t = policyScopeDimensionsForTarget u"
  using assms
  by (simp add: POLICY_SCOPE_PRECEDENCE_ORDER_def policyScopeDimensionsForTarget_def wf_target_def
      wf_identifier_truthy)

lemma target_vector_before:
  assumes "wf_target t" "wf_target u"
  shows "vector_before (target_vector t) (target_vector u) \<longleftrightarrow> more_specific t u"
proof
  let ?O = POLICY_SCOPE_PRECEDENCE_ORDER
  note at = target_vector_at [OF assms(1)] target_vector_at [OF assms(2)]
  {
    assume "vector_before (target_vector t) (target_vector u)"
    then obtain i where i: "\<forall>j<i. vector_at (target_vector t) j = vector_at (target_vector u) j"
      "vector_at (target_vector u) i < vector_at (target_vector t) i"
      by (auto simp: vector_before_def)
    have "i < length ?O"
    proof (rule ccontr)
      assume ni: "\<not> i < length ?O"
      then have "\<forall>j<length ?O. (selectorValue t (?O ! j) = None) = (selectorValue u (?O ! j) = None)"
        using i(1) at by (metis not_less order_less_le_trans zero_neq_one)
      then have "policyScopeDimensionsForTarget t = policyScopeDimensionsForTarget u"
        using assms by (intro same_constraints_same_dimensions) (auto simp: in_set_conv_nth)
      then show False
        using i(2) ni by (auto simp: vector_at_def precedenceVectorForSelector_def nth_append split: if_splits)
    qed
    with i show "more_specific t u"
      unfolding more_specific_def outranks_iff
      by (intro exI [of _ i]) (use at in \<open>auto split: if_splits\<close>)
  next
    assume "more_specific t u"
    then obtain i where "i < length ?O"
      "\<forall>j<i. (selectorValue t (?O ! j) = None) = (selectorValue u (?O ! j) = None)"
      "selectorValue t (?O ! i) \<noteq> None" "selectorValue u (?O ! i) = None"
      unfolding more_specific_def outranks_iff by blast
    then show "vector_before (target_vector t) (target_vector u)"
      unfolding vector_before_def by (intro exI [of _ i]) (simp add: at)
  }
qed

lemma target_vector_eq:
  assumes "wf_target t" "wf_target u" "covers t request" "covers u request"
  shows "target_vector t = target_vector u \<longleftrightarrow> t = u"
proof
  assume eq: "target_vector t = target_vector u"
  have "selectorValue t d = selectorValue u d" if d: "d \<in> set POLICY_SCOPE_PRECEDENCE_ORDER" for d
  proof -
    obtain i where "i < length POLICY_SCOPE_PRECEDENCE_ORDER" "d = POLICY_SCOPE_PRECEDENCE_ORDER ! i"
      using d by (auto simp: in_set_conv_nth)
    then have "(selectorValue t d = None) = (selectorValue u d = None)"
      using target_vector_at [OF assms(1), of i] target_vector_at [OF assms(2), of i] eq
      by (auto split: if_splits)
    moreover have "selectorValue t d = None \<or> selectorValue t d = selectorValue request d"
      "selectorValue u d = None \<or> selectorValue u d = selectorValue request d"
      using assms(3,4) d by (auto simp: covers_def)
    ultimately show ?thesis by auto
  qed
  from this [of Dim_account] this [of Dim_tenant] this [of Dim_wedge] this [of Dim_domain]
    this [of Dim_risk_class] this [of Dim_consequence_type] this [of Dim_cohort] this [of Dim_plan]
  have "atg_accountId t = atg_accountId u" "atg_tenantId t = atg_tenantId u"
    "atg_wedgeId t = atg_wedgeId u" "atg_domainId t = atg_domainId u"
    "atg_riskClass t = atg_riskClass u" "atg_consequenceType t = atg_consequenceType u"
    "atg_cohortId t = atg_cohortId u" "atg_planId t = atg_planId u"
    by (simp_all add: precedence_dimensions map_str_inject)
  moreover have "atg_environment t = atg_environment u"
    using assms(3,4) by (simp add: covers_def)
  ultimately show "t = u" by (intro activation_target.equality) simp_all
qed simp

section \<open>Which activation wins\<close>

definition scoped_record :: "activation_record \<Rightarrow> bool" where
  "scoped_record a \<longleftrightarrow> acr_selector a = createPolicyScopeSelector (acr_target a) \<and> wf_target (acr_target a)"

text \<open>An activation leads when it covers the request and outranks every covering activation of another target.\<close>

definition leads :: "activation_target \<Rightarrow> activation_record list \<Rightarrow> activation_record \<Rightarrow> bool" where
  "leads request activations a \<longleftrightarrow>
     a \<in> set activations \<and> covers (acr_target a) request \<and>
     (\<forall>b\<in>set activations. covers (acr_target b) request \<longrightarrow>
        acr_target b = acr_target a \<or> more_specific (acr_target a) (acr_target b))"

abbreviation same_target :: "activation_record list \<Rightarrow> activation_record \<Rightarrow> activation_record list" where
  "same_target activations a \<equiv> filter (\<lambda>b. acr_target b = acr_target a) activations"

lemma candidate_fields [simp]:
  "acd_activation (activation_candidate_for request a) = a"
  "acd_match (activation_candidate_for request a) = matchPolicyScope request (Inr (acr_selector a))"
  by (simp_all add: activation_candidate_for_def)

lemma vector_same_eq: "length v = length w \<Longrightarrow> vector_same v w \<longleftrightarrow> v = w"
  by (auto simp: vector_same_def vector_at_def intro!: nth_equalityI)

lemma length_precedenceVector [simp]:
  "length (precedenceVectorForSelector s) = Suc (length POLICY_SCOPE_PRECEDENCE_ORDER)"
  by (simp add: precedenceVectorForSelector_def)

lemma scoped_candidate_matches:
  "scoped_record a \<Longrightarrow>
   smt_matches (matchPolicyScope request (Inr (acr_selector a))) \<longleftrightarrow> covers (acr_target a) request"
  by (simp add: scoped_record_def target_matches)

lemma scoped_candidates_same:
  assumes "scoped_record a" "scoped_record b" "covers (acr_target a) request" "covers (acr_target b) request"
  shows "samePrecedenceMatch (acd_match (activation_candidate_for request a))
      (acd_match (activation_candidate_for request b)) \<longleftrightarrow> acr_target a = acr_target b"
proof
  let ?va = "target_vector (acr_target a)" and ?vb = "target_vector (acr_target b)"
  assume "samePrecedenceMatch (acd_match (activation_candidate_for request a))
      (acd_match (activation_candidate_for request b))"
  then have "list_all (\<lambda>i. vector_at ?va i = vector_at ?vb i) [0..<length ?va]"
    using assms(1,2) by (simp add: samePrecedenceMatch_def scoped_record_def)
  then have "?va = ?vb"
    by (intro nth_equalityI) (auto simp: list_all_iff vector_at_def less_Suc_eq)
  then show "acr_target a = acr_target b"
    using assms target_vector_eq by (auto simp: scoped_record_def)
next
  assume "acr_target a = acr_target b"
  then show "samePrecedenceMatch (acd_match (activation_candidate_for request a))
      (acd_match (activation_candidate_for request b))"
    using assms(1,2) by (simp add: samePrecedenceMatch_def scoped_record_def list_all_iff)
qed

lemma scoped_candidates_order:
  assumes "scoped_record a" "scoped_record b" "covers (acr_target a) request" "covers (acr_target b) request"
    and "comparePolicyScopeMatches (acd_match (activation_candidate_for request a))
      (acd_match (activation_candidate_for request b)) \<le> 0"
  shows "acr_target a = acr_target b \<or> more_specific (acr_target a) (acr_target b)"
  using assms target_vector_before [of "acr_target a" "acr_target b"]
    target_vector_eq [of "acr_target a" "acr_target b" request]
  by (auto simp: compare_nonpos scoped_record_def vector_same_eq)

lemma more_specific_antisym:
  "wf_target t \<Longrightarrow> wf_target u \<Longrightarrow> more_specific t u \<Longrightarrow> \<not> more_specific u t"
  using vector_before_antisym by (simp flip: target_vector_before)

lemma length_filter_sort_with: "length (filter P (sort_with cmp xs)) = length (filter P xs)"
  by (metis mset_filter mset_sort_with size_mset)

lemma candidates_cong:
  "activation_candidates request as =
     sort_with (\<lambda>l r. comparePolicyScopeMatches (acd_match l) (acd_match r))
       (filter (\<lambda>c. smt_matches (acd_match c)) (map (activation_candidate_for request) as))"
  by (simp add: activation_candidates_def)

lemma candidate_members:
  assumes "\<forall>a\<in>set as. scoped_record a"
  shows "c \<in> set (activation_candidates request as) \<longleftrightarrow>
    (\<exists>a\<in>set as. covers (acr_target a) request \<and> c = activation_candidate_for request a)"
  using assms by (auto simp: candidates_cong scoped_candidate_matches)

interpretation candidate_order: consistent_cmp
  "\<lambda>l r. comparePolicyScopeMatches (acd_match l) (acd_match r)"
  by unfold_locales (use match_order.cmp_total match_order.cmp_trans in blast)+

text \<open>The top candidate: a covering activation that outranks every covering one of another target.\<close>

lemma leading_candidate:
  assumes scoped: "\<forall>a\<in>set as. scoped_record a"
    and lead: "activation_candidates request as = lead # rest"
  obtains a where "leads request as a" "lead = activation_candidate_for request a"
    "length (filter (\<lambda>c. samePrecedenceMatch (acd_match c) (acd_match lead)) (lead # rest)) =
       length (same_target as a)"
proof -
  have "lead \<in> set (activation_candidates request as)" by (simp add: lead)
  then obtain a where a: "a \<in> set as" "covers (acr_target a) request"
    "lead = activation_candidate_for request a"
    using candidate_members [OF scoped] by blast
  have least: "acr_target b = acr_target a \<or> more_specific (acr_target a) (acr_target b)"
    if b: "b \<in> set as" "covers (acr_target b) request" for b
  proof -
    have "activation_candidate_for request b \<in>
        set (filter (\<lambda>c. smt_matches (acd_match c)) (map (activation_candidate_for request) as))"
      using b scoped by (auto simp: scoped_candidate_matches)
    from candidate_order.first_is_least [OF lead [unfolded candidates_cong] this]
    have "comparePolicyScopeMatches (acd_match (activation_candidate_for request a))
        (acd_match (activation_candidate_for request b)) \<le> 0"
      by (simp only: a(3))
    then show ?thesis
      using scoped_candidates_order a b scoped by metis
  qed
  have same: "samePrecedenceMatch (acd_match (activation_candidate_for request b)) (acd_match lead) \<longleftrightarrow>
      acr_target b = acr_target a" if "b \<in> set as" "covers (acr_target b) request" for b
    unfolding a(3) using scoped_candidates_same that a scoped by blast
  have "length (filter (\<lambda>c. samePrecedenceMatch (acd_match c) (acd_match lead)) (lead # rest)) =
      length (filter (\<lambda>c. samePrecedenceMatch (acd_match c) (acd_match lead))
        (filter (\<lambda>c. smt_matches (acd_match c)) (map (activation_candidate_for request) as)))"
    by (simp only: lead [symmetric] candidates_cong length_filter_sort_with)
  also have "\<dots> = length (filter (\<lambda>b. samePrecedenceMatch (acd_match (activation_candidate_for request b))
      (acd_match lead) \<and> smt_matches (acd_match (activation_candidate_for request b))) as)"
    by (simp add: filter_map comp_def conj_commute del: candidate_fields)
  also have "\<dots> = length (filter (\<lambda>b. acr_target b = acr_target a) as)"
    using same scoped a(2)
    by (intro arg_cong [of _ _ length] filter_cong) (auto simp: scoped_candidate_matches)
  finally show ?thesis using that [of a] a least by (auto simp: leads_def)
qed

lemma leads_unique:
  assumes "\<forall>a\<in>set as. scoped_record a" "leads request as a" "leads request as b"
  shows "acr_target b = acr_target a"
proof -
  have "wf_target (acr_target a)" "wf_target (acr_target b)"
    using assms by (auto simp: leads_def scoped_record_def)
  then show ?thesis
    using assms(2,3) more_specific_antisym unfolding leads_def by metis
qed

lemma same_target_member: "leads request as a \<Longrightarrow> a \<in> set (same_target as a)"
  by (simp add: leads_def)

lemma same_target_cong: "acr_target b = acr_target a \<Longrightarrow> same_target as b = same_target as a"
  by simp

lemma length_one_member: "x \<in> set xs \<Longrightarrow> length xs = 1 \<longleftrightarrow> xs = [x]"
  by (cases xs) auto

lemma unique_choice:
  assumes "L a" and unique: "\<And>b. L b \<Longrightarrow> P b \<longleftrightarrow> P a \<and> b = a"
  shows "(if P a then Some (f a) else None) = Some c \<longleftrightarrow> (\<exists>b. L b \<and> P b \<and> c = f b)"
proof
  assume "(if P a then Some (f a) else None) = Some c"
  then have "P a" "c = f a" by (auto split: if_splits)
  with assms(1) show "\<exists>b. L b \<and> P b \<and> c = f b" by blast
next
  assume "\<exists>b. L b \<and> P b \<and> c = f b"
  then obtain b where "L b" "P b" "c = f b" by blast
  moreover from this have "P a" "b = a" using unique [of b] by blast+
  ultimately show "(if P a then Some (f a) else None) = Some c" by simp
qed

lemma precedence_outcome:
  assumes scoped: "\<forall>a\<in>set as. scoped_record a"
  shows "prs_winner (resolvePolicyActivationPrecedence request as) = Some c \<longleftrightarrow>
      (\<exists>a. leads request as a \<and> same_target as a = [a] \<and> c = activation_candidate_for request a)"
    and "prs_ambiguousTopCandidates (resolvePolicyActivationPrecedence request as) \<noteq> [] \<longleftrightarrow>
      (\<exists>a. leads request as a \<and> same_target as a \<noteq> [a])"
    and "prs_matchedCandidates (resolvePolicyActivationPrecedence request as) = [] \<longleftrightarrow>
      (\<forall>a\<in>set as. \<not> covers (acr_target a) request)"
proof -
  let ?R = "resolvePolicyActivationPrecedence request as"
  have matched: "prs_matchedCandidates ?R = activation_candidates request as"
    by (simp add: resolvePolicyActivationPrecedence_def Let_def split: list.split)
  then show "prs_matchedCandidates ?R = [] \<longleftrightarrow> (\<forall>a\<in>set as. \<not> covers (acr_target a) request)"
    using candidate_members [OF scoped, of _ request] by (metis empty_iff list.set_intros(1) neq_Nil_conv set_empty)
  have "(prs_winner ?R = Some c \<longleftrightarrow>
        (\<exists>a. leads request as a \<and> same_target as a = [a] \<and> c = activation_candidate_for request a)) \<and>
      (prs_ambiguousTopCandidates ?R \<noteq> [] \<longleftrightarrow> (\<exists>a. leads request as a \<and> same_target as a \<noteq> [a]))"
  proof (cases "activation_candidates request as")
    case Nil
    then have "\<not> leads request as a" for a
      using candidate_members [OF scoped, of _ request] by (auto simp: leads_def)
    with Nil show ?thesis by (simp add: resolvePolicyActivationPrecedence_def)
  next
    case (Cons lead rest)
    obtain a where a: "leads request as a" "lead = activation_candidate_for request a"
      "length (filter (\<lambda>c. samePrecedenceMatch (acd_match c) (acd_match lead)) (lead # rest)) =
         length (same_target as a)"
      using leading_candidate [OF scoped Cons] .
    define amb where "amb = filter (\<lambda>c. samePrecedenceMatch (acd_match c) (acd_match lead)) (lead # rest)"
    have R: "prs_winner ?R = (if length amb = 1 then Some lead else None)"
      "prs_ambiguousTopCandidates ?R = (if length amb > 1 then amb else [])"
      by (simp_all only: resolvePolicyActivationPrecedence_def Cons Let_def list.case amb_def
          precedence_resolution.simps)
    have len: "length amb = 1 \<longleftrightarrow> same_target as a = [a]" "length amb > 0"
      using a(3) length_one_member [OF same_target_member [OF a(1)]]
        length_pos_if_in_set [OF same_target_member [OF a(1)]]
      unfolding amb_def [symmetric] by (simp_all only:)
    have eq: "same_target as b = same_target as a" if "leads request as b" for b
      using leads_unique [OF scoped a(1) that] by simp
    have only: "same_target as b = [b] \<longleftrightarrow> same_target as a = [a] \<and> b = a" if "leads request as b" for b
    proof
      assume one: "same_target as b = [b]"
      then have "a \<in> set [b]"
        using same_target_member [OF a(1)] eq [OF that] by (simp only:)
      with one eq [OF that] show "same_target as a = [a] \<and> b = a" by simp
    qed auto
    have only': "same_target as b \<noteq> [b] \<longleftrightarrow> same_target as a \<noteq> [a]" if "leads request as b" for b
    proof -
      have "b = a" if "same_target as a = [a]"
        using same_target_member [OF \<open>leads request as b\<close>] that
        unfolding eq [OF \<open>leads request as b\<close>] by simp
      with only [OF that] show ?thesis by blast
    qed
    define one where "one b \<longleftrightarrow> same_target as b = [b]" for b
    have amb: "length amb > 1 \<longleftrightarrow> \<not> one a" "length amb = 1 \<longleftrightarrow> one a"
      using len unfolding one_def by linarith+
    have "prs_winner ?R = Some c \<longleftrightarrow> (\<exists>a. leads request as a \<and> one a \<and> c = activation_candidate_for request a)"
      unfolding R(1) amb(2) a(2)
    proof (rule unique_choice)
      show "leads request as a" by (rule a(1))
      show "one b \<longleftrightarrow> one a \<and> b = a" if "leads request as b" for b
        unfolding one_def by (rule only [OF that])
    qed
    moreover have "prs_ambiguousTopCandidates ?R \<noteq> [] \<longleftrightarrow> (\<exists>a. leads request as a \<and> \<not> one a)"
    proof
      assume "prs_ambiguousTopCandidates ?R \<noteq> []"
      then have "\<not> one a" unfolding R(2) amb(1) by (simp split: if_splits)
      with a(1) show "\<exists>a. leads request as a \<and> \<not> one a" by blast
    next
      assume "\<exists>a. leads request as a \<and> \<not> one a"
      then have "\<not> one a" unfolding one_def using only' by blast
      then show "prs_ambiguousTopCandidates ?R \<noteq> []"
        unfolding R(2) amb(1) using len(2) by simp
    qed
    ultimately show ?thesis unfolding one_def by blast
  qed
  then show "prs_winner ?R = Some c \<longleftrightarrow>
        (\<exists>a. leads request as a \<and> same_target as a = [a] \<and> c = activation_candidate_for request a)"
    "prs_ambiguousTopCandidates ?R \<noteq> [] \<longleftrightarrow> (\<exists>a. leads request as a \<and> same_target as a \<noteq> [a])"
    by blast+
qed

text \<open>
  The precedence of scopes. An activation wins a request exactly when it covers the
  request, it outranks every covering activation of another target (at the first dimension of
  the order account, tenant, wedge, domain, risk class, consequence type, cohort, plan that
  only one of the two constrains, it is the one that does) and no other activation has its
  target; the request is ambiguous exactly when such a leading activation shares its target
  with another, and nothing matches exactly when nothing covers the request.
\<close>

theorem precedence_winner_exact:
  assumes "\<forall>a\<in>set as. scoped_record a"
  shows "(prs_winner (resolvePolicyActivationPrecedence request as) = Some c \<longleftrightarrow>
      (\<exists>a. leads request as a \<and> same_target as a = [a] \<and> c = activation_candidate_for request a)) \<and>
    (prs_ambiguousTopCandidates (resolvePolicyActivationPrecedence request as) \<noteq> [] \<longleftrightarrow>
      (\<exists>a. leads request as a \<and> same_target as a \<noteq> [a])) \<and>
    (prs_matchedCandidates (resolvePolicyActivationPrecedence request as) = [] \<longleftrightarrow>
      (\<forall>a\<in>set as. \<not> covers (acr_target a) request))"
  using precedence_outcome [OF assms] by blast

text \<open>Three activations of one environment: everything, one tenant, and one domain with a plan.\<close>

definition sample_activation :: "string \<Rightarrow> activation_target \<Rightarrow> activation_record" where
  "sample_activation key target =
     activation_record_of
       \<lparr> ari_id = key, ari_state = Some Act_active, ari_operationType = None, ari_target = target,
         ari_bundle = \<lparr> bref_packId = ''p'', bref_bundleId = ''b'', bref_bundleVersion = ''1'',
                        bref_digest = ''d'' \<rparr>,
         ari_activatedBy = \<lparr> act_id = ''u'', act_type = User, act_displayName = None, act_role = None \<rparr>,
         ari_activatedAt = Iso 0, ari_rolloutMode = None, ari_reasonCode = None,
         ari_rationale = ''r'', ari_previousActivationId = None, ari_supersededByActivationId = None,
         ari_rollbackOfActivationId = None, ari_freezeReason = None \<rparr> 0"

definition sample_activations :: "activation_record list" where
  "sample_activations =
     [sample_activation ''a1'' (sample_target ''prod'' None),
      sample_activation ''a2'' (sample_target ''prod'' (Some ''t'')),
      sample_activation ''a3'' ((sample_target ''prod'' None)
        \<lparr> atg_domainId := Some ''finance'', atg_planId := Some ''pro'' \<rparr>)]"

definition sample_request :: activation_target where
  "sample_request = (sample_target ''prod'' (Some ''t''))
     \<lparr> atg_domainId := Some ''finance'', atg_planId := Some ''pro'' \<rparr>"

lemma sample_activations_scoped: "\<forall>a\<in>set sample_activations. scoped_record a"
  by (simp add: sample_activations_def sample_activation_def activation_record_of_def Let_def
      scoped_record_def flip: create_target_idem) code_simp

theorem precedence_winner_exact_witness:
  "\<exists>a. leads sample_request sample_activations a \<and> acr_id a = ''a2''"
proof -
  have "map_option (\<lambda>c. acr_id (acd_activation c))
      (prs_winner (resolvePolicyActivationPrecedence sample_request sample_activations)) = Some ''a2''"
    by code_simp
  then obtain c where "prs_winner (resolvePolicyActivationPrecedence sample_request sample_activations) = Some c"
    "acr_id (acd_activation c) = ''a2''"
    by auto
  then show ?thesis
    using precedence_winner_exact [OF sample_activations_scoped, of sample_request c] by auto
qed

end
