(* ===== verification/Policy_Bundles.thy ===== *)
theory Policy_Bundles
  imports Policy_Scoping
begin

text \<open>
  Policy bundles: src/release-policy-control-plane/bundle-format.ts, bundle-signing.ts and
  bundle-cache.ts.

  A signable artifact is a statement about a pack and the manifest of a bundle, its canonical
  text and the digests of its parts. Signing wraps the canonical text in a DSSE envelope;
  verification checks the signature and the coherence of the envelope, the signature record
  and the artifact. A bundle is served with a strong entity tag and freshness windows.

  The functions of the host are the record \<open>bundle_host\<close>: the SHA-256 digest,
  \<open>String.localeCompare\<close> (its order depends on the locale of the process) and the rendering of
  a JSON number that need not be an integer (a canary percentage). The functions of
  \<open>node:crypto\<close> and of \<open>Buffer\<close> are the record \<open>signing_host\<close>.
\<close>

record bundle_host =
  bh_sha256 :: "string \<Rightarrow> string"
  bh_localeCompare :: "string \<Rightarrow> string \<Rightarrow> int"
  bh_number :: "rat \<Rightarrow> json"

section \<open>The objects of a bundle as JSON values\<close>

definition schema_json :: "schema_reference \<Rightarrow> json" where
  "schema_json s = JObject
     [(''id'', JString (sch_id s)),
      (''version'', JString (sch_version s)),
      (''uri'', JString (sch_uri s)),
      (''digest'', json_str_opt (sch_digest s))]"

definition bundle_reference_json :: "bundle_reference \<Rightarrow> json" where
  "bundle_reference_json b = JObject
     [(''packId'', JString (bref_packId b)),
      (''bundleId'', JString (bref_bundleId b)),
      (''bundleVersion'', JString (bref_bundleVersion b)),
      (''digest'', JString (bref_digest b))]"

definition compatibility_json :: "compatibility_descriptor \<Rightarrow> json" where
  "compatibility_json c = JObject
     [(''controlPlaneSpecVersion'', JString (cpt_controlPlaneSpecVersion c)),
      (''releaseLayerPlatformSpecVersion'', JString (cpt_releaseLayerPlatformSpecVersion c)),
      (''releasePolicySpecVersion'', JString (cpt_releasePolicySpecVersion c)),
      (''releasePolicyRolloutSpecVersion'', JString (cpt_releasePolicyRolloutSpecVersion c))]"

definition json_stamp :: "timestamp \<Rightarrow> json" where
  "json_stamp t = JString (toISOString t)"

fun json_opt :: "('a \<Rightarrow> json) \<Rightarrow> 'a option \<Rightarrow> json" where
  "json_opt f None = JNull"
| "json_opt f (Some x) = f x"

definition pack_json :: "policy_pack \<Rightarrow> json" where
  "pack_json p = JObject
     [(''version'', JString (pck_version p)),
      (''id'', JString (pck_id p)),
      (''name'', JString (pck_name p)),
      (''description'', json_str_opt (pck_description p)),
      (''lifecycleState'', JString (pack_lifecycle_state_str (pck_lifecycleState p))),
      (''owners'', json_strs (pck_owners p)),
      (''labels'', json_strs (pck_labels p)),
      (''createdAt'', json_stamp (pck_createdAt p)),
      (''updatedAt'', json_stamp (pck_updatedAt p)),
      (''latestBundleRef'', json_opt bundle_reference_json (pck_latestBundleRef p))]"

definition target_members :: "'a activation_target_scheme \<Rightarrow> (string \<times> json) list" where
  "target_members t =
     [(''environment'', JString (atg_environment t)),
      (''tenantId'', json_str_opt (atg_tenantId t)),
      (''accountId'', json_str_opt (atg_accountId t)),
      (''domainId'', json_str_opt (atg_domainId t)),
      (''wedgeId'', json_str_opt (atg_wedgeId t)),
      (''consequenceType'', json_str_opt (map_option consequence_type_str (atg_consequenceType t))),
      (''riskClass'', json_str_opt (map_option risk_class_str (atg_riskClass t))),
      (''cohortId'', json_str_opt (atg_cohortId t)),
      (''planId'', json_str_opt (atg_planId t))]"

definition selector_json :: "scope_selector \<Rightarrow> json" where
  "selector_json s = JObject
     (target_members s @ [(''dimensions'', json_strs (map scope_dimension_str (sel_dimensions s)))])"

definition rollout_json :: "bundle_host \<Rightarrow> policy_rollout \<Rightarrow> json" where
  "rollout_json h r = JObject
     [(''version'', JString (rol_version r)),
      (''mode'', JString (rollout_mode_str (rol_mode r))),
      (''canaryPercentage'', bh_number h (rol_canaryPercentage r)),
      (''cohortKey'', JString (rollout_cohort_key_str (rol_cohortKey r))),
      (''cohortSalt'', JString (rol_cohortSalt r)),
      (''activatedAt'', json_date_opt (rol_activatedAt r)),
      (''fallbackPolicyId'', json_str_opt (rol_fallbackPolicyId r)),
      (''notes'', json_strs (rol_notes r))]"

definition release_policy_json :: "bundle_host \<Rightarrow> release_policy \<Rightarrow> json" where
  "release_policy_json h p = JObject
     [(''version'', JString (pol_version p)),
      (''id'', JString (pol_id p)),
      (''name'', JString (pol_name p)),
      (''status'', JString (policy_status_str (pol_status p))),
      (''rollout'', rollout_json h (pol_rollout p)),
      (''scope'', scope_json (pol_scope p)),
      (''outputContract'', output_contract_policy_json (pol_outputContract p)),
      (''capabilityBoundary'', boundary_policy_json (pol_capabilityBoundary p)),
      (''acceptance'', acceptance_json (pol_acceptance p)),
      (''release'', release_requirements_json (pol_release p)),
      (''notes'', json_strs (pol_notes p))]"

definition bundle_entry_json :: "bundle_host \<Rightarrow> bundle_entry \<Rightarrow> json" where
  "bundle_entry_json h e = JObject
     [(''id'', JString (ben_id e)),
      (''policyId'', JString (ben_policyId e)),
      (''scope'', selector_json (ben_scope e)),
      (''definition'', release_policy_json h (ben_definition e)),
      (''rollout'', rollout_json h (ben_rollout e)),
      (''policyHash'', JString (ben_policyHash e)),
      (''compiledPolicyHash'', JString (ben_compiledPolicyHash e)),
      (''compiledPolicyIrHash'', JString (ben_compiledPolicyIrHash e))]"

text \<open>A manifest with its entries and schemas rendered by the caller.\<close>

definition manifest_json_with :: "bundle_manifest \<Rightarrow> json list \<Rightarrow> json list \<Rightarrow> json" where
  "manifest_json_with m schemas entries = JObject
     [(''version'', JString (bmf_version m)),
      (''bundle'', bundle_reference_json (bmf_bundle m)),
      (''packId'', JString (bmf_packId m)),
      (''bundleLabels'', json_strs (bmf_bundleLabels m)),
      (''generatedAt'', json_stamp (bmf_generatedAt m)),
      (''discoveryMode'', JString (discovery_mode_str (bmf_discoveryMode m))),
      (''compatibility'', compatibility_json (bmf_compatibility m)),
      (''schemas'', JArray schemas),
      (''entries'', JArray entries)]"

definition manifest_json :: "bundle_host \<Rightarrow> bundle_manifest \<Rightarrow> json" where
  "manifest_json h m =
     manifest_json_with m (map schema_json (bmf_schemas m)) (map (bundle_entry_json h) (bmf_entries m))"

section \<open>The signable artifact\<close>

definition POLICY_BUNDLE_FORMAT_SPEC_VERSION :: string where
  "POLICY_BUNDLE_FORMAT_SPEC_VERSION = ''attestor.policy-bundle-format.v1''"

definition POLICY_BUNDLE_PAYLOAD_TYPE :: string where
  "POLICY_BUNDLE_PAYLOAD_TYPE = ''application/vnd.in-toto+json''"

definition POLICY_BUNDLE_STATEMENT_TYPE :: string where
  "POLICY_BUNDLE_STATEMENT_TYPE = ''https://in-toto.io/Statement/v1''"

definition POLICY_BUNDLE_PREDICATE_TYPE :: string where
  "POLICY_BUNDLE_PREDICATE_TYPE = ''https://attestor.ai/attestation/policy-bundle/v1''"

record statement_subject =
  sbj_name :: string
  sbj_sha256 :: string

record bundle_predicate =
  bpr_version :: string
  bpr_pack :: policy_pack
  bpr_manifest :: bundle_manifest
  bpr_entries :: "bundle_entry list"
  bpr_schemas :: "schema_reference list"

record bundle_statement =
  bst_type :: string
  bst_subject :: "statement_subject list"
  bst_predicateType :: string
  bst_predicate :: bundle_predicate

record bundle_artifact =
  bar_version :: string
  bar_bundleId :: string
  bar_packId :: string
  bar_payloadType :: string
  bar_statement :: bundle_statement
  bar_canonicalPayload :: string
  bar_payloadDigest :: string
  bar_packDigest :: string
  bar_manifestDigest :: string
  bar_entriesDigest :: string
  bar_schemasDigest :: string

definition taggedDigest :: "bundle_host \<Rightarrow> string \<Rightarrow> string" where
  "taggedDigest h value = ''sha256:'' @ bh_sha256 h value"

definition stripSha256Prefix :: "string \<Rightarrow> string" where
  "stripSha256Prefix value =
     (if take 7 value = ''sha256:'' then drop (length ''sha256:'') value else value)"

definition normalizePackMetadata :: "policy_pack \<Rightarrow> policy_pack" where
  "normalizePackMetadata pack = pack\<lparr> pck_owners := sort (pck_owners pack), pck_labels := sort (pck_labels pack) \<rparr>"

text \<open>\<open>a || b\<close> on the results of comparisons.\<close>

definition cmp_or :: "int \<Rightarrow> int \<Rightarrow> int" where
  "cmp_or a b = (if a \<noteq> 0 then a else b)"

definition compare_schemas :: "bundle_host \<Rightarrow> schema_reference \<Rightarrow> schema_reference \<Rightarrow> int" where
  "compare_schemas h left right =
     cmp_or (bh_localeCompare h (sch_id left) (sch_id right))
       (cmp_or (bh_localeCompare h (sch_version left) (sch_version right))
         (bh_localeCompare h (sch_uri left) (sch_uri right)))"

definition normalizeSchemas :: "bundle_host \<Rightarrow> schema_reference list \<Rightarrow> schema_reference list" where
  "normalizeSchemas h schemas = sort_with (compare_schemas h) schemas"

definition compare_entries :: "bundle_host \<Rightarrow> bundle_entry \<Rightarrow> bundle_entry \<Rightarrow> int" where
  "compare_entries h left right =
     cmp_or (bh_localeCompare h (ben_id left) (ben_id right))
       (cmp_or (bh_localeCompare h (ben_policyId left) (ben_policyId right))
         (bh_localeCompare h (atg_environment (ben_scope left)) (atg_environment (ben_scope right))))"

definition normalizeEntries :: "bundle_host \<Rightarrow> bundle_entry list \<Rightarrow> bundle_entry list" where
  "normalizeEntries h entries = sort_with (compare_entries h) entries"

definition normalizeManifest ::
  "bundle_manifest \<Rightarrow> bundle_entry list \<Rightarrow> schema_reference list \<Rightarrow> bundle_manifest" where
  "normalizeManifest manifest entries schemas =
     manifest\<lparr> bmf_bundleLabels := sort (bmf_bundleLabels manifest),
               bmf_schemas := schemas, bmf_entries := entries \<rparr>"

definition computeDigest :: "bundle_host \<Rightarrow> json \<Rightarrow> string result" where
  "computeDigest h value = rbind (canonicalizeReleaseJson value) (\<lambda>text. return (taggedDigest h text))"

text \<open>The scope in the digest of an entry lists its members one by one; the cohort is not among them.\<close>

definition entry_digest_json :: "bundle_host \<Rightarrow> bundle_entry \<Rightarrow> json" where
  "entry_digest_json h entry = JObject
     [(''id'', JString (ben_id entry)),
      (''policyId'', JString (ben_policyId entry)),
      (''scope'', JObject
         [(''environment'', JString (atg_environment (ben_scope entry))),
          (''tenantId'', json_str_opt (atg_tenantId (ben_scope entry))),
          (''accountId'', json_str_opt (atg_accountId (ben_scope entry))),
          (''domainId'', json_str_opt (atg_domainId (ben_scope entry))),
          (''wedgeId'', json_str_opt (atg_wedgeId (ben_scope entry))),
          (''consequenceType'', json_str_opt (map_option consequence_type_str (atg_consequenceType (ben_scope entry)))),
          (''riskClass'', json_str_opt (map_option risk_class_str (atg_riskClass (ben_scope entry)))),
          (''planId'', json_str_opt (atg_planId (ben_scope entry))),
          (''dimensions'', json_strs (map scope_dimension_str (sel_dimensions (ben_scope entry))))]),
      (''definition'', release_policy_json h (ben_definition entry)),
      (''rollout'', rollout_json h (ben_rollout entry)),
      (''compiledPolicyHash'', JString (ben_compiledPolicyHash entry)),
      (''compiledPolicyIrHash'', JString (ben_compiledPolicyIrHash entry))]"

definition computePolicyBundleEntryDigest :: "bundle_host \<Rightarrow> bundle_entry \<Rightarrow> string result" where
  "computePolicyBundleEntryDigest h entry = computeDigest h (entry_digest_json h entry)"

definition digest_mismatch :: "string \<Rightarrow> string \<Rightarrow> string \<Rightarrow> string \<Rightarrow> js_error" where
  "digest_mismatch entryId field actual expected =
     Error (''Policy bundle entry '' @ [CHR 0x27] @ entryId @ [CHR 0x27] @ '' has '' @ field @ '' '' @
       [CHR 0x27] @ actual @ [CHR 0x27] @ '' but expected '' @ [CHR 0x27] @ expected @ [CHR 0x27] @ ''.'')"

fun check_entries :: "bundle_host \<Rightarrow> string list \<Rightarrow> bundle_entry list \<Rightarrow> unit result" where
  "check_entries h seen [] = return ()"
| "check_entries h seen (e # es) =
     (if ben_id e \<in> set seen
      then throw (Error (''Policy bundle format requires unique entry ids; duplicate '' @
             [CHR 0x27] @ ben_id e @ [CHR 0x27] @ '' found.''))
      else rbind (computePolicyBundleEntryDigest h e) (\<lambda>expectedDigest.
        if ben_policyHash e \<noteq> expectedDigest
        then throw (digest_mismatch (ben_id e) ''policyHash'' (ben_policyHash e) expectedDigest)
        else rbind (compileReleasePolicyDefinition (bh_sha256 h) (ben_definition e)) (\<lambda>compiled.
          if ben_compiledPolicyHash e \<noteq> cmp_policyHash compiled
          then throw (digest_mismatch (ben_id e) ''compiledPolicyHash'' (ben_compiledPolicyHash e)
                 (cmp_policyHash compiled))
          else if ben_compiledPolicyIrHash e \<noteq> cmp_irHash compiled
          then throw (digest_mismatch (ben_id e) ''compiledPolicyIrHash'' (ben_compiledPolicyIrHash e)
                 (cmp_irHash compiled))
          else check_entries h (seen @ [ben_id e]) es)))"

definition assertBundleIntegrity ::
  "bundle_host \<Rightarrow> policy_pack \<Rightarrow> bundle_manifest \<Rightarrow> bundle_entry list \<Rightarrow> unit result" where
  "assertBundleIntegrity h pack manifest entries =
     (if bmf_packId manifest \<noteq> pck_id pack \<or> bref_packId (bmf_bundle manifest) \<noteq> pck_id pack
      then throw (Error ''Policy bundle format requires manifest and bundle pack ids to match the pack metadata.'')
      else check_entries h [] entries)"

definition entry_summary_json :: "bundle_entry \<Rightarrow> json" where
  "entry_summary_json entry = JObject
     [(''id'', JString (ben_id entry)),
      (''policyHash'', JString (ben_policyHash entry)),
      (''compiledPolicyHash'', JString (ben_compiledPolicyHash entry)),
      (''compiledPolicyIrHash'', JString (ben_compiledPolicyIrHash entry))]"

definition subject_json :: "statement_subject \<Rightarrow> json" where
  "subject_json s = JObject
     [(''name'', JString (sbj_name s)), (''digest'', JObject [(''sha256'', JString (sbj_sha256 s))])]"

definition statement_json :: "bundle_host \<Rightarrow> bundle_statement \<Rightarrow> json" where
  "statement_json h s = JObject
     [(''_type'', JString (bst_type s)),
      (''subject'', JArray (map subject_json (bst_subject s))),
      (''predicateType'', JString (bst_predicateType s)),
      (''predicate'', JObject
         [(''version'', JString (bpr_version (bst_predicate s))),
          (''pack'', pack_json (bpr_pack (bst_predicate s))),
          (''manifest'', manifest_json h (bpr_manifest (bst_predicate s))),
          (''entries'', JArray (map (bundle_entry_json h) (bpr_entries (bst_predicate s)))),
          (''schemas'', JArray (map schema_json (bpr_schemas (bst_predicate s))))])]"

definition artifact_json :: "bundle_host \<Rightarrow> bundle_artifact \<Rightarrow> json" where
  "artifact_json h a = JObject
     [(''version'', JString (bar_version a)),
      (''bundleId'', JString (bar_bundleId a)),
      (''packId'', JString (bar_packId a)),
      (''payloadType'', JString (bar_payloadType a)),
      (''statement'', statement_json h (bar_statement a)),
      (''canonicalPayload'', JString (bar_canonicalPayload a)),
      (''payloadDigest'', JString (bar_payloadDigest a)),
      (''packDigest'', JString (bar_packDigest a)),
      (''manifestDigest'', JString (bar_manifestDigest a)),
      (''entriesDigest'', JString (bar_entriesDigest a)),
      (''schemasDigest'', JString (bar_schemasDigest a))]"

definition createSignablePolicyBundleArtifact ::
  "bundle_host \<Rightarrow> policy_pack \<Rightarrow> bundle_manifest \<Rightarrow> bundle_artifact result" where
  "createSignablePolicyBundleArtifact h pack manifest =
     (let normalizedPack = normalizePackMetadata pack;
          normalizedSchemas = normalizeSchemas h (bmf_schemas manifest);
          normalizedEntries = normalizeEntries h (bmf_entries manifest)
      in rbind (assertBundleIntegrity h normalizedPack manifest normalizedEntries) (\<lambda>_.
      let normalizedManifest = normalizeManifest manifest normalizedEntries normalizedSchemas;
          bundleId = bref_bundleId (bmf_bundle normalizedManifest)
      in
      rbind (computeDigest h (pack_json normalizedPack)) (\<lambda>packDigest.
      rbind (computeDigest h (manifest_json_with normalizedManifest
          (map schema_json (bmf_schemas normalizedManifest))
          (map (\<lambda>entry. JString (ben_id entry)) (bmf_entries normalizedManifest)))) (\<lambda>manifestDigest.
      rbind (computeDigest h (JArray (map entry_summary_json normalizedEntries))) (\<lambda>entriesDigest.
      rbind (computeDigest h (JArray (map schema_json normalizedSchemas))) (\<lambda>schemasDigest.
      let statement =
        \<lparr> bst_type = POLICY_BUNDLE_STATEMENT_TYPE,
          bst_subject =
            [\<lparr> sbj_name = ''policy-pack/'' @ pck_id normalizedPack,
               sbj_sha256 = stripSha256Prefix packDigest \<rparr>,
             \<lparr> sbj_name = ''policy-bundle-manifest/'' @ bundleId,
               sbj_sha256 = stripSha256Prefix manifestDigest \<rparr>,
             \<lparr> sbj_name = ''policy-bundle-entries/'' @ bundleId,
               sbj_sha256 = stripSha256Prefix entriesDigest \<rparr>,
             \<lparr> sbj_name = ''policy-bundle-schemas/'' @ bundleId,
               sbj_sha256 = stripSha256Prefix schemasDigest \<rparr>],
          bst_predicateType = POLICY_BUNDLE_PREDICATE_TYPE,
          bst_predicate =
            \<lparr> bpr_version = POLICY_BUNDLE_FORMAT_SPEC_VERSION, bpr_pack = normalizedPack,
              bpr_manifest = normalizedManifest, bpr_entries = normalizedEntries,
              bpr_schemas = normalizedSchemas \<rparr> \<rparr>
      in
      rbind (canonicalizeReleaseJson (statement_json h statement)) (\<lambda>canonicalPayload. return
        \<lparr> bar_version = POLICY_BUNDLE_FORMAT_SPEC_VERSION,
          bar_bundleId = bundleId,
          bar_packId = pck_id normalizedPack,
          bar_payloadType = POLICY_BUNDLE_PAYLOAD_TYPE,
          bar_statement = statement,
          bar_canonicalPayload = canonicalPayload,
          bar_payloadDigest = taggedDigest h canonicalPayload,
          bar_packDigest = packDigest,
          bar_manifestDigest = manifestDigest,
          bar_entriesDigest = entriesDigest,
          bar_schemasDigest = schemasDigest \<rparr>)))))))"

section \<open>Signing and verification\<close>

definition POLICY_BUNDLE_SIGNING_SPEC_VERSION :: string where
  "POLICY_BUNDLE_SIGNING_SPEC_VERSION = ''attestor.policy-bundle-signing.v1''"

definition POLICY_BUNDLE_VERIFICATION_KEY_SPEC_VERSION :: string where
  "POLICY_BUNDLE_VERIFICATION_KEY_SPEC_VERSION = ''attestor.policy-bundle-verification-key.v1''"

definition POLICY_BUNDLE_VERIFICATION_SPEC_VERSION :: string where
  "POLICY_BUNDLE_VERIFICATION_SPEC_VERSION = ''attestor.policy-bundle-verification.v1''"

definition POLICY_BUNDLE_SIGNER_BOUNDARY_SPEC_VERSION :: string where
  "POLICY_BUNDLE_SIGNER_BOUNDARY_SPEC_VERSION = ''attestor.policy-bundle-signer-boundary.v1''"

text \<open>
  The host functions: the DER export of a public key, \<open>sign\<close> and \<open>verify\<close> of \<open>node:crypto\<close> on a
  key in PEM form, and the conversions of \<open>Buffer\<close> between text and bytes. A byte string is a
  list of characters.
\<close>

record signing_host =
  sih_spkiDer :: "string \<Rightarrow> string result"
  sih_sha256Hex :: "string \<Rightarrow> string"
  sih_hex :: "string \<Rightarrow> string"
  sih_sign :: "string \<Rightarrow> string \<Rightarrow> string result"
  sih_verify :: "string \<Rightarrow> string \<Rightarrow> string \<Rightarrow> bool result"
  sih_toBase64 :: "string \<Rightarrow> string"
  sih_fromBase64 :: "string \<Rightarrow> string"
  sih_toUtf8 :: "string \<Rightarrow> string"
  sih_fromUtf8 :: "string \<Rightarrow> string"

definition ATTESTOR_SIGNING_FINGERPRINT_HEX_LENGTH :: nat where
  "ATTESTOR_SIGNING_FINGERPRINT_HEX_LENGTH = 32"

definition fingerprintPublicKeyDer :: "signing_host \<Rightarrow> string \<Rightarrow> string" where
  "fingerprintPublicKeyDer k der = take ATTESTOR_SIGNING_FINGERPRINT_HEX_LENGTH (sih_sha256Hex k der)"

record public_key_identity =
  pkd_publicKeyHex :: string
  pkd_fingerprint :: string

definition derivePublicKeyIdentity :: "signing_host \<Rightarrow> string \<Rightarrow> public_key_identity result" where
  "derivePublicKeyIdentity k publicKeyPem =
     rbind (sih_spkiDer k publicKeyPem) (\<lambda>der. return
       \<lparr> pkd_publicKeyHex = sih_hex k (drop 12 der),
         pkd_fingerprint = fingerprintPublicKeyDer k der \<rparr>)"

record bundle_verification_key =
  bvk_version :: string
  bvk_issuer :: string
  bvk_algorithm :: signature_algorithm
  bvk_keyId :: string
  bvk_publicKeyFingerprint :: string
  bvk_publicKeyPem :: string

record dsse_signature =
  dsg_keyid :: string
  dsg_sig :: string

record dsse_envelope =
  dse_payloadType :: string
  dse_payload :: string
  dse_signatures :: "dsse_signature list"

record issued_bundle =
  isb_version :: string
  isb_artifact :: bundle_artifact
  isb_envelope :: dsse_envelope
  isb_signatureRecord :: bundle_signature_record
  isb_verificationKey :: bundle_verification_key
  isb_signedAt :: timestamp
  isb_keyId :: string
  isb_publicKeyFingerprint :: string

record bundle_signer_input =
  bsn_issuer :: string
  bsn_privateKeyPem :: string
  bsn_publicKeyPem :: string
  bsn_keyId :: "string option"
  bsn_algorithm :: "signature_algorithm option"
  bsn_envelopeType :: "signature_envelope_type option"

record bundle_sign_input =
  sgn_artifact :: bundle_artifact
  sgn_signedAt :: "js_date option"

record bundle_verification_result =
  bvr_version :: string
  bvr_valid :: bool
  bvr_bundleId :: string
  bvr_keyId :: string
  bvr_publicKeyFingerprint :: string
  bvr_payloadDigest :: string
  bvr_predicateType :: string

definition resolveSignedAt :: "int \<Rightarrow> js_date option \<Rightarrow> timestamp result" where
  "resolveSignedAt now value =
     (case truthy_date value of
        None \<Rightarrow> toISO now
      | Some d \<Rightarrow> (case getTime d of
          None \<Rightarrow> throw (Error ''Policy bundle signing requires a valid signedAt timestamp.'')
        | Some t \<Rightarrow> return t))"

definition dssePreAuthEncoding :: "signing_host \<Rightarrow> string \<Rightarrow> string \<Rightarrow> string" where
  "dssePreAuthEncoding k payloadType payload =
     (let payloadTypeBuffer = sih_toUtf8 k payloadType in
      ''DSSEv1 '' @ string_of_nat (length payloadTypeBuffer) @ '' '' @ payloadTypeBuffer @ '' ''
      @ string_of_nat (length payload) @ '' '' @ payload)"

definition assertArtifactSignable :: "bundle_artifact \<Rightarrow> unit result" where
  "assertArtifactSignable artifact =
     (if bar_payloadType artifact \<noteq> POLICY_BUNDLE_PAYLOAD_TYPE
      then throw (Error ''Policy bundle signing requires the expected DSSE payload type.'')
      else if bst_type (bar_statement artifact) \<noteq> POLICY_BUNDLE_STATEMENT_TYPE
      then throw (Error ''Policy bundle signing requires the expected in-toto statement type.'')
      else if bst_predicateType (bar_statement artifact) \<noteq> POLICY_BUNDLE_PREDICATE_TYPE
      then throw (Error ''Policy bundle signing requires the expected policy-bundle predicate type.'')
      else return ())"

text \<open>A signer is its verification key; creating it derives the fingerprint of the public key.\<close>

definition createPolicyBundleSigner ::
  "signing_host \<Rightarrow> bundle_signer_input \<Rightarrow> bundle_verification_key result" where
  "createPolicyBundleSigner k input =
     rbind (derivePublicKeyIdentity k (bsn_publicKeyPem input)) (\<lambda>keyIdentity. return
       \<lparr> bvk_version = POLICY_BUNDLE_VERIFICATION_KEY_SPEC_VERSION,
         bvk_issuer = bsn_issuer input,
         bvk_algorithm = nullish (bsn_algorithm input) Alg_EdDSA,
         bvk_keyId = nullish (bsn_keyId input) (pkd_fingerprint keyIdentity),
         bvk_publicKeyFingerprint = pkd_fingerprint keyIdentity,
         bvk_publicKeyPem = bsn_publicKeyPem input \<rparr>)"

definition signPolicyBundle ::
  "signing_host \<Rightarrow> int \<Rightarrow> bundle_signer_input \<Rightarrow> bundle_verification_key \<Rightarrow> bundle_sign_input
     \<Rightarrow> issued_bundle result" where
  "signPolicyBundle k now input verificationKey signInput =
     rbind (assertArtifactSignable (sgn_artifact signInput)) (\<lambda>_.
     rbind (resolveSignedAt now (sgn_signedAt signInput)) (\<lambda>signedAt.
     let payload = sih_toUtf8 k (bar_canonicalPayload (sgn_artifact signInput));
         pae = dssePreAuthEncoding k (bar_payloadType (sgn_artifact signInput)) payload
     in
     rbind (sih_sign k (bsn_privateKeyPem input) pae) (\<lambda>signature.
     let envelope =
       \<lparr> dse_payloadType = bar_payloadType (sgn_artifact signInput),
         dse_payload = sih_toBase64 k payload,
         dse_signatures = [\<lparr> dsg_keyid = bvk_keyId verificationKey, dsg_sig = sih_toBase64 k signature \<rparr>] \<rparr>
     in
     rbind (createPolicyBundleSignatureRecord
       \<lparr> bsi_bundle = bmf_bundle (bpr_manifest (bst_predicate (bar_statement (sgn_artifact signInput)))),
         bsi_envelopeType = nullish (bsn_envelopeType input) Envelope_dsse,
         bsi_algorithm = bvk_algorithm verificationKey,
         bsi_keyId = bvk_keyId verificationKey,
         bsi_signerFingerprint = bvk_publicKeyFingerprint verificationKey,
         bsi_signedAt = Iso signedAt,
         bsi_payloadDigest = bar_payloadDigest (sgn_artifact signInput),
         bsi_signature = sih_toBase64 k signature \<rparr>) (\<lambda>signatureRecord. return
       \<lparr> isb_version = POLICY_BUNDLE_SIGNING_SPEC_VERSION,
         isb_artifact = sgn_artifact signInput,
         isb_envelope = envelope,
         isb_signatureRecord = signatureRecord,
         isb_verificationKey = verificationKey,
         isb_signedAt = signedAt,
         isb_keyId = bvk_keyId verificationKey,
         isb_publicKeyFingerprint = bvk_publicKeyFingerprint verificationKey \<rparr>))))"

definition verifyIssuedPolicyBundle ::
  "signing_host \<Rightarrow> issued_bundle \<Rightarrow> bundle_verification_key option \<Rightarrow> bundle_verification_result result" where
  "verifyIssuedPolicyBundle k issuedBundle key =
     (case key of
        None \<Rightarrow> throw (Error ''Policy bundle verification requires an explicit trusted verification key.'')
      | Some verificationKey \<Rightarrow>
          let payload = sih_fromBase64 k (dse_payload (isb_envelope issuedBundle));
              pae = dssePreAuthEncoding k (dse_payloadType (isb_envelope issuedBundle)) payload;
              rec = isb_signatureRecord issuedBundle;
              artifact = isb_artifact issuedBundle;
              bundle = bmf_bundle (bpr_manifest (bst_predicate (bar_statement artifact)))
          in case dse_signatures (isb_envelope issuedBundle) of
            [] \<Rightarrow> throw (Error ''Policy bundle envelope is missing DSSE signatures.'')
          | dsseSignature # _ \<Rightarrow>
              if bsr_keyId rec \<noteq> bvk_keyId verificationKey
              then throw (Error ''Policy bundle signature record keyId does not match the verification key.'')
              else if bsr_signerFingerprint rec \<noteq> bvk_publicKeyFingerprint verificationKey
              then throw (Error ''Policy bundle signature record fingerprint does not match the verification key.'')
              else if bsr_signature rec \<noteq> dsg_sig dsseSignature
              then throw (Error ''Policy bundle signature record does not match the DSSE envelope signature.'')
              else if bsr_payloadDigest rec \<noteq> bar_payloadDigest artifact
              then throw (Error ''Policy bundle signature record payload digest does not match the bundle artifact.'')
              else if bref_bundleId (bsr_bundle rec) \<noteq> bref_bundleId bundle \<or>
                      bref_packId (bsr_bundle rec) \<noteq> bref_packId bundle
              then throw (Error ''Policy bundle signature record bundle reference does not match the artifact manifest.'')
              else rbind (sih_verify k (bvk_publicKeyPem verificationKey) pae
                       (sih_fromBase64 k (dsg_sig dsseSignature))) (\<lambda>valid.
                if \<not> valid
                then throw (Error ''Policy bundle DSSE signature is invalid.'')
                else if sih_fromUtf8 k payload \<noteq> bar_canonicalPayload artifact
                then throw (Error ''Policy bundle DSSE payload does not match the canonical bundle payload.'')
                else return
                  \<lparr> bvr_version = POLICY_BUNDLE_VERIFICATION_SPEC_VERSION,
                    bvr_valid = True,
                    bvr_bundleId = bar_bundleId artifact,
                    bvr_keyId = bvk_keyId verificationKey,
                    bvr_publicKeyFingerprint = bvk_publicKeyFingerprint verificationKey,
                    bvr_payloadDigest = bar_payloadDigest artifact,
                    bvr_predicateType = bst_predicateType (bar_statement artifact) \<rparr>))"

record signer_boundary =
  sbd_version :: string
  sbd_signerKind :: string
  sbd_privateKeyMaterial :: string
  sbd_productionReady :: bool
  sbd_externalKmsHsmRequiredForProduction :: bool
  sbd_acceptedLimitationId :: string
  sbd_nonClaims :: "string list"

definition policyBundleSignerBoundaryDescriptor :: signer_boundary where
  "policyBundleSignerBoundaryDescriptor =
     \<lparr> sbd_version = POLICY_BUNDLE_SIGNER_BOUNDARY_SPEC_VERSION,
       sbd_signerKind = ''runtime-pem'',
       sbd_privateKeyMaterial = ''process-memory'',
       sbd_productionReady = False,
       sbd_externalKmsHsmRequiredForProduction = True,
       sbd_acceptedLimitationId = ''AUD-2026-POL-BUNDLESIGN-001'',
       sbd_nonClaims =
         [''not-external-kms-hsm'', ''not-non-exportable-key-custody'', ''not-production-signing-boundary''] \<rparr>"

section \<open>The pre-authentication encoding\<close>

text \<open>A decimal followed by a blank determines the decimal and what follows.\<close>

lemma decimal_prefix:
  "string_of_nat m @ '' '' @ r = string_of_nat n @ '' '' @ r' \<Longrightarrow> m = n \<and> r = r'"
proof -
  have cut: "takeWhile is_dec_digit (string_of_nat m @ '' '' @ r) = string_of_nat m" for m r
    by (subst takeWhile_append2) (auto dest: string_of_nat_digits simp: is_dec_digit_def)
  assume eq: "string_of_nat m @ '' '' @ r = string_of_nat n @ '' '' @ r'"
  then have "string_of_nat m = string_of_nat n" by (metis cut)
  with eq show ?thesis by (simp add: string_of_nat_inject)
qed

lemma dsse_encoding_inject:
  assumes "dssePreAuthEncoding k t p = dssePreAuthEncoding k t' p'"
  shows "sih_toUtf8 k t = sih_toUtf8 k t' \<and> p = p'"
proof -
  have "string_of_nat (length (sih_toUtf8 k t)) @ '' '' @ sih_toUtf8 k t @ '' ''
      @ string_of_nat (length p) @ '' '' @ p =
    string_of_nat (length (sih_toUtf8 k t')) @ '' '' @ sih_toUtf8 k t' @ '' ''
      @ string_of_nat (length p') @ '' '' @ p'"
    using assms by (simp add: dssePreAuthEncoding_def Let_def)
  from decimal_prefix [OF this]
  have "length (sih_toUtf8 k t) = length (sih_toUtf8 k t')"
    and "sih_toUtf8 k t @ '' '' @ string_of_nat (length p) @ '' '' @ p =
      sih_toUtf8 k t' @ '' '' @ string_of_nat (length p') @ '' '' @ p'"
    by auto
  then have "sih_toUtf8 k t = sih_toUtf8 k t'"
    and "string_of_nat (length p) @ '' '' @ p = string_of_nat (length p') @ '' '' @ p'"
    by (simp_all add: append_eq_append_conv)
  with decimal_prefix show ?thesis by blast
qed

end
