(* ===== verification/Policy_Store.thy ===== *)
theory Policy_Store
  imports Policy_Bundles
begin

text \<open>
  The store of the policy control plane: src/release-policy-control-plane/store.ts and
  store-records.ts.

  The store holds the metadata, the packs, the stored bundles and the activations; each array
  is sorted after a write. A bundle is stored only when its artifact is the one its manifest
  and pack produce, a signature over it verifies, and a bundle of the same pack and identifier
  has the same content. The file-backed store is the same operations around a load and a save
  of the whole file; a file that cannot be parsed counts as empty.

  \<open>cloneAndFreeze\<close> copies values and prevents later changes, so it is the identity here.
\<close>

definition POLICY_STORE_RECORD_SPEC_VERSION :: string where
  "POLICY_STORE_RECORD_SPEC_VERSION = ''attestor.policy-store-record.v1''"

definition POLICY_STORE_SNAPSHOT_SPEC_VERSION :: string where
  "POLICY_STORE_SNAPSHOT_SPEC_VERSION = ''attestor.policy-store-snapshot.v1''"

section \<open>Records\<close>

record stored_bundle =
  stb_version :: string
  stb_packId :: string
  stb_bundleId :: string
  stb_bundleVersion :: string
  stb_storedAt :: timestamp
  stb_manifest :: bundle_manifest
  stb_artifact :: bundle_artifact
  stb_signedBundle :: "issued_bundle option"
  stb_verificationKey :: "bundle_verification_key option"

record policy_store =
  pst_metadata :: "control_plane_metadata option"
  pst_packs :: "policy_pack list"
  pst_bundles :: "stored_bundle list"
  pst_activations :: "activation_record list"

record policy_store_snapshot =
  pss_version :: string
  pss_metadata :: "control_plane_metadata option"
  pss_packs :: "policy_pack list"
  pss_bundles :: "stored_bundle list"
  pss_activations :: "activation_record list"

record upsert_bundle_input =
  ubi_manifest :: bundle_manifest
  ubi_artifact :: bundle_artifact
  ubi_signedBundle :: "issued_bundle option"
  ubi_verificationKey :: "bundle_verification_key option"
  ubi_storedAt :: "js_date option"

definition defaultPolicyStoreFile :: policy_store where
  "defaultPolicyStoreFile =
     \<lparr> pst_metadata = None, pst_packs = [], pst_bundles = [], pst_activations = [] \<rparr>"

section \<open>Stored bundles\<close>

definition resolveStoredAt :: "int \<Rightarrow> js_date option \<Rightarrow> timestamp result" where
  "resolveStoredAt now storedAt =
     (case truthy_date storedAt of
        None \<Rightarrow> toISO now
      | Some d \<Rightarrow> (case getTime d of
          None \<Rightarrow> throw (Error ''Policy store records require a valid storedAt timestamp.'')
        | Some t \<Rightarrow> return t))"

text \<open>The artifact is the one the manifest and the pack of its own statement produce.\<close>

definition assert_artifact_regenerated ::
  "bundle_host \<Rightarrow> bundle_artifact \<Rightarrow> bundle_manifest \<Rightarrow> unit result" where
  "assert_artifact_regenerated h artifact manifest =
     (let mismatch = throw (Error ''Policy store bundle artifact must be regenerated from the supplied manifest and pack predicate.'')
      in rbind (createSignablePolicyBundleArtifact h
            (bpr_pack (bst_predicate (bar_statement artifact))) manifest) (\<lambda>expected.
         if bar_version artifact \<noteq> bar_version expected \<or>
            bar_bundleId artifact \<noteq> bar_bundleId expected \<or>
            bar_packId artifact \<noteq> bar_packId expected \<or>
            bar_payloadType artifact \<noteq> bar_payloadType expected \<or>
            bar_canonicalPayload artifact \<noteq> bar_canonicalPayload expected \<or>
            bar_payloadDigest artifact \<noteq> bar_payloadDigest expected \<or>
            bar_packDigest artifact \<noteq> bar_packDigest expected \<or>
            bar_manifestDigest artifact \<noteq> bar_manifestDigest expected \<or>
            bar_entriesDigest artifact \<noteq> bar_entriesDigest expected \<or>
            bar_schemasDigest artifact \<noteq> bar_schemasDigest expected
         then mismatch
         else rbind (canonicalizeReleaseJson (statement_json h (bar_statement artifact))) (\<lambda>text.
           if text \<noteq> bar_canonicalPayload expected then mismatch else return ())))"

definition assert_signed_artifact ::
  "bundle_host \<Rightarrow> bundle_artifact \<Rightarrow> bundle_artifact \<Rightarrow> unit result" where
  "assert_signed_artifact h signed artifact =
     (let mismatch = throw (Error ''Policy store signed bundle must wrap the exact bundle artifact content.'')
      in if bar_bundleId signed \<noteq> bar_bundleId artifact \<or> bar_packId signed \<noteq> bar_packId artifact
         then throw (Error ''Policy store signed bundle must wrap the same bundle artifact.'')
         else if bar_payloadDigest signed \<noteq> bar_payloadDigest artifact \<or>
                 bar_canonicalPayload signed \<noteq> bar_canonicalPayload artifact
         then mismatch
         else rbind (canonicalizeReleaseJson (artifact_json h signed)) (\<lambda>a.
              rbind (canonicalizeReleaseJson (artifact_json h artifact)) (\<lambda>b.
              if a \<noteq> b then mismatch else return ())))"

definition assertBundleRecordCoherence ::
  "bundle_host \<Rightarrow> signing_host \<Rightarrow> upsert_bundle_input \<Rightarrow> unit result" where
  "assertBundleRecordCoherence h k input =
     (let manifestBundle = bmf_bundle (ubi_manifest input);
          artifact = ubi_artifact input
      in if bar_bundleId artifact \<noteq> bref_bundleId manifestBundle \<or>
            bar_packId artifact \<noteq> bref_packId manifestBundle
         then throw (Error ''Policy store bundle artifact must match the manifest bundle reference.'')
         else rbind (assert_artifact_regenerated h artifact (ubi_manifest input)) (\<lambda>_.
           case ubi_signedBundle input of
             None \<Rightarrow> return ()
           | Some signed \<Rightarrow>
               rbind (assert_signed_artifact h (isb_artifact signed) artifact) (\<lambda>_.
               if (case ubi_verificationKey input of
                     None \<Rightarrow> False
                   | Some key \<Rightarrow> bvk_keyId key \<noteq> isb_keyId signed)
               then throw (Error ''Policy store verification key must match the signed bundle key id.'')
               else rbind (verifyIssuedPolicyBundle k signed
                     (Some (nullish (ubi_verificationKey input) (isb_verificationKey signed))))
                     (\<lambda>_. return ()))))"

definition assertBundleRecordContentIsImmutable :: "stored_bundle \<Rightarrow> stored_bundle \<Rightarrow> unit result" where
  "assertBundleRecordContentIsImmutable existing nextRecord =
     (if bref_digest (bmf_bundle (stb_manifest existing)) \<noteq> bref_digest (bmf_bundle (stb_manifest nextRecord)) \<or>
         bar_payloadDigest (stb_artifact existing) \<noteq> bar_payloadDigest (stb_artifact nextRecord) \<or>
         stb_bundleVersion existing \<noteq> stb_bundleVersion nextRecord
      then throw (Error ''Policy store bundle content is immutable for an existing packId and bundleId; publish changed content under a new bundleId.'')
      else return ())"

definition normalizeBundleRecord ::
  "bundle_host \<Rightarrow> signing_host \<Rightarrow> int \<Rightarrow> upsert_bundle_input \<Rightarrow> stored_bundle result" where
  "normalizeBundleRecord h k now input =
     rbind (assertBundleRecordCoherence h k input) (\<lambda>_.
     rbind (resolveStoredAt now (ubi_storedAt input)) (\<lambda>storedAt. return
       \<lparr> stb_version = POLICY_STORE_RECORD_SPEC_VERSION,
         stb_packId = bmf_packId (ubi_manifest input),
         stb_bundleId = bref_bundleId (bmf_bundle (ubi_manifest input)),
         stb_bundleVersion = bref_bundleVersion (bmf_bundle (ubi_manifest input)),
         stb_storedAt = storedAt,
         stb_manifest = ubi_manifest input,
         stb_artifact = ubi_artifact input,
         stb_signedBundle = ubi_signedBundle input,
         stb_verificationKey =
           nullish_opt (ubi_verificationKey input) (map_option isb_verificationKey (ubi_signedBundle input)) \<rparr>))"

section \<open>The orders of the arrays\<close>

definition compareBundleRecords :: "bundle_host \<Rightarrow> stored_bundle \<Rightarrow> stored_bundle \<Rightarrow> int" where
  "compareBundleRecords h left right =
     cmp_or (stb_storedAt right - stb_storedAt left)
       (cmp_or (bh_localeCompare h (stb_bundleVersion right) (stb_bundleVersion left))
         (bh_localeCompare h (stb_bundleId right) (stb_bundleId left)))"

definition comparePacks :: "bundle_host \<Rightarrow> policy_pack \<Rightarrow> policy_pack \<Rightarrow> int" where
  "comparePacks h left right = bh_localeCompare h (pck_id left) (pck_id right)"

definition compareActivations :: "bundle_host \<Rightarrow> activation_record \<Rightarrow> activation_record \<Rightarrow> int" where
  "compareActivations h left right =
     cmp_or (acr_activatedAt right - acr_activatedAt left)
       (bh_localeCompare h (acr_id right) (acr_id left))"

section \<open>Operations\<close>

definition getMetadata :: "policy_store \<Rightarrow> control_plane_metadata option" where
  "getMetadata s = pst_metadata s"

definition setMetadata :: "control_plane_metadata \<Rightarrow> policy_store \<Rightarrow> policy_store" where
  "setMetadata metadata s = s\<lparr> pst_metadata := Some metadata \<rparr>"

definition upsertPack :: "bundle_host \<Rightarrow> policy_store \<Rightarrow> policy_pack \<Rightarrow> policy_store" where
  "upsertPack h s pack = s\<lparr> pst_packs := sort_with (comparePacks h) (upsert_by pck_id pack (pst_packs s)) \<rparr>"

definition getPack :: "policy_store \<Rightarrow> string \<Rightarrow> policy_pack option" where
  "getPack s packId = find_by pck_id packId (pst_packs s)"

definition listPacks :: "bundle_host \<Rightarrow> policy_store \<Rightarrow> policy_pack list" where
  "listPacks h s = sort_with (comparePacks h) (pst_packs s)"

definition stored_bundle_key :: "stored_bundle \<Rightarrow> string \<times> string" where
  "stored_bundle_key b = (stb_packId b, stb_bundleId b)"

definition getBundle :: "policy_store \<Rightarrow> string \<times> string \<Rightarrow> stored_bundle option" where
  "getBundle s key = find_by stored_bundle_key key (pst_bundles s)"

definition put_bundle :: "bundle_host \<Rightarrow> policy_store \<Rightarrow> stored_bundle \<Rightarrow> policy_store" where
  "put_bundle h s bundle =
     s\<lparr> pst_bundles := sort_with (compareBundleRecords h) (upsert_by stored_bundle_key bundle (pst_bundles s)) \<rparr>"

definition upsertBundle ::
  "bundle_host \<Rightarrow> signing_host \<Rightarrow> int \<Rightarrow> upsert_bundle_input \<Rightarrow> policy_store
     \<Rightarrow> (stored_bundle \<times> policy_store) result" where
  "upsertBundle h k now input s =
     rbind (normalizeBundleRecord h k now input) (\<lambda>bundle.
     rbind (case find_by stored_bundle_key (stored_bundle_key bundle) (pst_bundles s) of
              None \<Rightarrow> return ()
            | Some existing \<Rightarrow> assertBundleRecordContentIsImmutable existing bundle) (\<lambda>_.
     return (bundle, put_bundle h s bundle)))"

definition listBundleHistory :: "bundle_host \<Rightarrow> policy_store \<Rightarrow> string \<Rightarrow> stored_bundle list" where
  "listBundleHistory h s packId =
     sort_with (compareBundleRecords h) (filter (\<lambda>b. stb_packId b = packId) (pst_bundles s))"

definition listBundles :: "bundle_host \<Rightarrow> policy_store \<Rightarrow> stored_bundle list" where
  "listBundles h s = sort_with (compareBundleRecords h) (pst_bundles s)"

definition upsertActivation :: "bundle_host \<Rightarrow> policy_store \<Rightarrow> activation_record \<Rightarrow> policy_store" where
  "upsertActivation h s activation =
     s\<lparr> pst_activations :=
          sort_with (compareActivations h) (upsert_by acr_id activation (pst_activations s)) \<rparr>"

definition getActivation :: "policy_store \<Rightarrow> string \<Rightarrow> activation_record option" where
  "getActivation s key = find_by acr_id key (pst_activations s)"

definition listActivations :: "bundle_host \<Rightarrow> policy_store \<Rightarrow> activation_record list" where
  "listActivations h s = sort_with (compareActivations h) (pst_activations s)"

definition exportSnapshot :: "bundle_host \<Rightarrow> policy_store \<Rightarrow> policy_store_snapshot" where
  "exportSnapshot h s =
     \<lparr> pss_version = POLICY_STORE_SNAPSHOT_SPEC_VERSION,
       pss_metadata = pst_metadata s,
       pss_packs = listPacks h s,
       pss_bundles = listBundles h s,
       pss_activations = listActivations h s \<rparr>"

definition storeFromSnapshot :: "policy_store_snapshot \<Rightarrow> policy_store" where
  "storeFromSnapshot snapshot =
     \<lparr> pst_metadata = pss_metadata snapshot,
       pst_packs = pss_packs snapshot,
       pst_bundles = pss_bundles snapshot,
       pst_activations = pss_activations snapshot \<rparr>"

subsection \<open>The file\<close>

text \<open>What is at the path: nothing, text that is not a store file, or a store file.\<close>

datatype policy_file = No_file | Unreadable_file | Store_file policy_store

fun loadPolicyStoreFile :: "policy_file \<Rightarrow> policy_store" where
  "loadPolicyStoreFile No_file = defaultPolicyStoreFile"
| "loadPolicyStoreFile Unreadable_file = defaultPolicyStoreFile"
| "loadPolicyStoreFile (Store_file s) = s"

definition mutate_file :: "(policy_store \<Rightarrow> ('a \<times> policy_store) result) \<Rightarrow> policy_file \<Rightarrow> ('a \<times> policy_file) result" where
  "mutate_file action f =
     rbind (action (loadPolicyStoreFile f)) (\<lambda>(outcome, s). return (outcome, Store_file s))"

section \<open>The arrays as stores\<close>

interpretation packs: sorted_store pst_packs pck_id getPack "upsertPack h" for h
  by unfold_locales (simp_all add: getPack_def upsertPack_def)

interpretation bundles: sorted_store pst_bundles stored_bundle_key getBundle "put_bundle h" for h
  by unfold_locales (simp_all add: getBundle_def put_bundle_def)

interpretation activations: sorted_store pst_activations acr_id getActivation "upsertActivation h" for h
  by unfold_locales (simp_all add: getActivation_def upsertActivation_def)

lemma upsertActivation_frame [simp]:
  "pst_metadata (upsertActivation h s a) = pst_metadata s"
  "pst_packs (upsertActivation h s a) = pst_packs s"
  "pst_bundles (upsertActivation h s a) = pst_bundles s"
  by (simp_all add: upsertActivation_def)

lemma set_listActivations [simp]: "set (listActivations h s) = set (pst_activations s)"
  by (simp add: listActivations_def)

end
