(* ===== verification/Activation_Approvals.thy ===== *)
theory Activation_Approvals
  imports Policy_Store
begin

text \<open>
  The reviewer gate of activations: src/release-policy-control-plane/activation-approvals.ts.

  The requirement of an activation follows from the highest risk class of its target and of the
  policies of its bundle. A request collects the decisions of reviewers; it is rejected by one
  rejection and approved by enough distinct approvals. The gate admits an activation that needs
  no approval, or that names an approved, unexpired request for the same target, bundle and
  digest whose requirement is not weaker than the current one.

  \<open>approval_run\<close> is the reachability relation of requests and decisions taken one after the
  other; \<open>stale_decision\<close> is the request path of the service, which computes a decision on a
  snapshot of the store and then writes the request back.
\<close>

section \<open>Vocabulary and records\<close>

definition POLICY_ACTIVATION_APPROVAL_SPEC_VERSION :: string where
  "POLICY_ACTIVATION_APPROVAL_SPEC_VERSION = ''attestor.policy-activation-approval.v1''"

definition POLICY_ACTIVATION_APPROVAL_STORE_SPEC_VERSION :: string where
  "POLICY_ACTIVATION_APPROVAL_STORE_SPEC_VERSION = ''attestor.policy-activation-approval-store.v1''"

fun approval_ttl_hours :: "risk_class \<Rightarrow> int" where
  "approval_ttl_hours R0 = 24"
| "approval_ttl_hours R1 = 24"
| "approval_ttl_hours R2 = 24"
| "approval_ttl_hours R3 = 8"
| "approval_ttl_hours R4 = 4"

datatype approval_state = Ap_pending | Ap_approved | Ap_rejected

fun approval_state_str :: "approval_state \<Rightarrow> string" where
  "approval_state_str Ap_pending = ''pending''"
| "approval_state_str Ap_approved = ''approved''"
| "approval_state_str Ap_rejected = ''rejected''"

datatype approval_decision_kind = Approve | Reject

fun approval_decision_kind_str :: "approval_decision_kind \<Rightarrow> string" where
  "approval_decision_kind_str Approve = ''approve''"
| "approval_decision_kind_str Reject = ''reject''"

datatype approval_mode = Mode_none | Mode_named_reviewer | Mode_dual_approval

fun approval_mode_str :: "approval_mode \<Rightarrow> string" where
  "approval_mode_str Mode_none = ''none''"
| "approval_mode_str Mode_named_reviewer = ''named-reviewer''"
| "approval_mode_str Mode_dual_approval = ''dual-approval''"

datatype approval_gate_status =
    Gate_not_required | Gate_approval_required | Gate_not_found | Gate_target_mismatch
  | Gate_bundle_mismatch | Gate_bundle_digest_mismatch | Gate_requirement_mismatch | Gate_pending
  | Gate_rejected | Gate_expired | Gate_approved

record approval_requirement =
  arq_mode :: approval_mode
  arq_requiredApprovals :: nat
  arq_requiresNamedReviewer :: bool
  arq_requiresDistinctReviewers :: bool
  arq_requiresRequesterSeparation :: bool
  arq_requiredReviewerRoles :: "string list"
  arq_riskClass :: "risk_class option"
  arq_reasonCode :: string

record approval_decision =
  apd_id :: string
  apd_requestId :: string
  apd_decision :: approval_decision_kind
  apd_reviewer :: release_actor
  apd_decidedAt :: timestamp
  apd_rationale :: string
  apd_decisionDigest :: string

record approval_request =
  apr_version :: string
  apr_id :: string
  apr_state :: approval_state
  apr_target :: activation_target
  apr_targetLabel :: string
  apr_bundle :: bundle_reference
  apr_requestedBy :: release_actor
  apr_requestedAt :: timestamp
  apr_expiresAt :: timestamp
  apr_reasonCode :: string
  apr_rationale :: string
  apr_requirement :: approval_requirement
  apr_decisions :: "approval_decision list"
  apr_approvedReviewerIds :: "string list"
  apr_rejectedReviewerIds :: "string list"
  apr_latestDecisionAt :: "timestamp option"
  apr_approvalDigest :: string

record request_approval_input =
  rai_id :: "string option"
  rai_target :: activation_target
  rai_bundleRecord :: stored_bundle
  rai_requestedBy :: release_actor
  rai_requestedAt :: "js_date option"
  rai_expiresAt :: "js_date option"
  rai_reasonCode :: "string option"
  rai_rationale :: string

record decision_input =
  dci_requestId :: string
  dci_decision :: approval_decision_kind
  dci_reviewer :: release_actor
  dci_decidedAt :: "js_date option"
  dci_rationale :: string

record gate_input =
  gti_target :: activation_target
  gti_bundleRecord :: stored_bundle
  gti_approvalRequestId :: "string option"
  gti_now :: "js_date option"

record gate_result =
  gtr_allowed :: bool
  gtr_status :: approval_gate_status
  gtr_requirement :: approval_requirement
  gtr_request :: "approval_request option"
  gtr_message :: string

record approval_filters =
  apf_state :: "approval_state option"
  apf_targetLabel :: "string option"
  apf_bundleId :: "string option"
  apf_packId :: "string option"

section \<open>Texts, instants and digests\<close>

definition approval_normalizeText :: "string \<Rightarrow> string \<Rightarrow> string result" where
  "approval_normalizeText value fieldName =
     (let normalized = trim value in
      if length normalized = 0
      then throw (Error (''Policy activation approval '' @ fieldName @ '' cannot be blank.''))
      else return normalized)"

definition approval_normalizeIsoTimestamp :: "js_date \<Rightarrow> string \<Rightarrow> timestamp result" where
  "approval_normalizeIsoTimestamp value fieldName =
     (case getTime value of
        None \<Rightarrow> throw (Error (''Policy activation approval '' @ fieldName @ '' must be a valid ISO timestamp.''))
      | Some t \<Rightarrow> return t)"

definition resolveTimestamp :: "int \<Rightarrow> js_date option \<Rightarrow> string \<Rightarrow> timestamp result" where
  "resolveTimestamp now value fieldName =
     (case value of
        None \<Rightarrow> rbind (toISO now) (\<lambda>t. approval_normalizeIsoTimestamp (Iso t) fieldName)
      | Some d \<Rightarrow> approval_normalizeIsoTimestamp d fieldName)"

definition defaultExpiresAt :: "timestamp \<Rightarrow> risk_class option \<Rightarrow> timestamp result" where
  "defaultExpiresAt requestedAt riskClass =
     (let ttlHours = (case riskClass of None \<Rightarrow> 24 | Some r \<Rightarrow> approval_ttl_hours r)
      in toISO (requestedAt + ttlHours * 60 * 60 * 1000))"

function stableStringify :: "json \<Rightarrow> string result" where
  "stableStringify JNull = return ''null''"
| "stableStringify (JString s) = return (JSON_stringify (JString s))"
| "stableStringify (JNumber NonFinite) =
     throw (Error ''Policy activation approval digests cannot contain non-finite numbers.'')"
| "stableStringify (JNumber (Num n)) = return (JSON_stringify (JNumber (Num n)))"
| "stableStringify (JBool b) = return (if b then ''true'' else ''false'')"
| "stableStringify (JArray items) =
     rbind (rmap_list stableStringify items) (\<lambda>ss. return (''['' @ join_with '','' ss @ '']''))"
| "stableStringify (JObject members) =
     rbind (rmap_list (\<lambda>(key, v). rbind (stableStringify v) (\<lambda>s. return (json_quote key @ '':'' @ s)))
              (sort_key fst (filter (\<lambda>(key, v). v \<noteq> JUndefined) members)))
       (\<lambda>ss. return (''{'' @ join_with '','' ss @ ''}''))"
| "stableStringify JUndefined = throw (Error ''Policy activation approval digests require JSON-like values.'')"
  by pat_completeness auto
termination
  by (relation "measure size")
    (auto dest!: size_member_less intro: size_list_estimation' le_imp_less_Suc)

declare stableStringify.simps [simp del]

fun undefined_str :: "string option \<Rightarrow> json" where
  "undefined_str None = JUndefined"
| "undefined_str (Some s) = JString s"

definition actor_json :: "release_actor \<Rightarrow> json" where
  "actor_json a = JObject
     [(''id'', JString (act_id a)),
      (''type'', JString (release_actor_type_str (act_type a))),
      (''displayName'', undefined_str (act_displayName a)),
      (''role'', undefined_str (act_role a))]"

definition requirement_json :: "approval_requirement \<Rightarrow> json" where
  "requirement_json r = JObject
     [(''mode'', JString (approval_mode_str (arq_mode r))),
      (''requiredApprovals'', JNumber (Num (int (arq_requiredApprovals r)))),
      (''requiresNamedReviewer'', JBool (arq_requiresNamedReviewer r)),
      (''requiresDistinctReviewers'', JBool (arq_requiresDistinctReviewers r)),
      (''requiresRequesterSeparation'', JBool (arq_requiresRequesterSeparation r)),
      (''requiredReviewerRoles'', json_strs (arq_requiredReviewerRoles r)),
      (''riskClass'', json_str_opt (map_option risk_class_str (arq_riskClass r))),
      (''reasonCode'', JString (arq_reasonCode r))]"

definition decision_members :: "approval_decision \<Rightarrow> (string \<times> json) list" where
  "decision_members d =
     [(''id'', JString (apd_id d)),
      (''requestId'', JString (apd_requestId d)),
      (''decision'', JString (approval_decision_kind_str (apd_decision d))),
      (''reviewer'', actor_json (apd_reviewer d)),
      (''decidedAt'', json_stamp (apd_decidedAt d)),
      (''rationale'', JString (apd_rationale d))]"

definition decision_json :: "approval_decision \<Rightarrow> json" where
  "decision_json d = JObject (decision_members d @ [(''decisionDigest'', JString (apd_decisionDigest d))])"

text \<open>
  A request without its digest. When a request is finalized its old digest is spread into the
  new object before the new one is computed, so it takes part in the new digest.
\<close>

definition request_members :: "approval_request \<Rightarrow> (string \<times> json) list" where
  "request_members r =
     [(''version'', JString (apr_version r)),
      (''id'', JString (apr_id r)),
      (''state'', JString (approval_state_str (apr_state r))),
      (''target'', JObject (target_members (apr_target r))),
      (''targetLabel'', JString (apr_targetLabel r)),
      (''bundle'', bundle_reference_json (apr_bundle r)),
      (''requestedBy'', actor_json (apr_requestedBy r)),
      (''requestedAt'', json_stamp (apr_requestedAt r)),
      (''expiresAt'', json_stamp (apr_expiresAt r)),
      (''reasonCode'', JString (apr_reasonCode r)),
      (''rationale'', JString (apr_rationale r)),
      (''requirement'', requirement_json (apr_requirement r)),
      (''decisions'', JArray (map decision_json (apr_decisions r))),
      (''approvedReviewerIds'', json_strs (apr_approvedReviewerIds r)),
      (''rejectedReviewerIds'', json_strs (apr_rejectedReviewerIds r)),
      (''latestDecisionAt'', json_opt json_stamp (apr_latestDecisionAt r))]"

definition computeDecisionDigest :: "bundle_host \<Rightarrow> approval_decision \<Rightarrow> string result" where
  "computeDecisionDigest h d =
     rbind (stableStringify (JObject (decision_members d))) (\<lambda>text. return (bh_sha256 h text))"

definition computeApprovalDigest ::
  "bundle_host \<Rightarrow> approval_request \<Rightarrow> (string \<times> json) list \<Rightarrow> string result" where
  "computeApprovalDigest h r previousDigest =
     rbind (stableStringify (JObject (request_members r @ previousDigest)))
       (\<lambda>text. return (bh_sha256 h text))"

definition requestWithDigest ::
  "bundle_host \<Rightarrow> approval_request \<Rightarrow> (string \<times> json) list \<Rightarrow> approval_request result" where
  "requestWithDigest h r previousDigest =
     rbind (computeApprovalDigest h r previousDigest) (\<lambda>digest. return (r\<lparr> apr_approvalDigest := digest \<rparr>))"

section \<open>Requirements\<close>

fun approval_riskRank :: "risk_class option \<Rightarrow> int" where
  "approval_riskRank (Some R4) = 4"
| "approval_riskRank (Some R3) = 3"
| "approval_riskRank (Some R2) = 2"
| "approval_riskRank (Some R1) = 1"
| "approval_riskRank (Some R0) = 0"
| "approval_riskRank None = - 1"

abbreviation bundle_entries :: "stored_bundle \<Rightarrow> bundle_entry list" where
  "bundle_entries b \<equiv> bpr_entries (bst_predicate (bar_statement (stb_artifact b)))"

definition highestRiskClass :: "activation_target \<Rightarrow> stored_bundle \<Rightarrow> risk_class option" where
  "highestRiskClass target bundleRecord =
     (let risks = atg_riskClass target #
          map (\<lambda>entry. Some (sco_riskClass (pol_scope (ben_definition entry)))) (bundle_entries bundleRecord)
      in hd (sort_with (\<lambda>left right. approval_riskRank right - approval_riskRank left) risks))"

definition derivePolicyActivationApprovalRequirement ::
  "activation_target \<Rightarrow> stored_bundle \<Rightarrow> approval_requirement" where
  "derivePolicyActivationApprovalRequirement target bundleRecord =
     (let riskClass = highestRiskClass target bundleRecord in
      if approval_riskRank riskClass \<ge> 4 then
        \<lparr> arq_mode = Mode_dual_approval, arq_requiredApprovals = 2, arq_requiresNamedReviewer = True,
          arq_requiresDistinctReviewers = True, arq_requiresRequesterSeparation = True,
          arq_requiredReviewerRoles = [''compliance-officer'', ''policy-admin'', ''risk-owner''],
          arq_riskClass = riskClass, arq_reasonCode = ''regulated-or-r4-policy-activation'' \<rparr>
      else if approval_riskRank riskClass \<ge> 3 then
        \<lparr> arq_mode = Mode_named_reviewer, arq_requiredApprovals = 1, arq_requiresNamedReviewer = True,
          arq_requiresDistinctReviewers = True, arq_requiresRequesterSeparation = True,
          arq_requiredReviewerRoles = [''policy-admin'', ''risk-owner''],
          arq_riskClass = riskClass, arq_reasonCode = ''high-consequence-policy-activation'' \<rparr>
      else
        \<lparr> arq_mode = Mode_none, arq_requiredApprovals = 0, arq_requiresNamedReviewer = False,
          arq_requiresDistinctReviewers = False, arq_requiresRequesterSeparation = False,
          arq_requiredReviewerRoles = [], arq_riskClass = riskClass,
          arq_reasonCode = ''approval-not-required'' \<rparr>)"

section \<open>Requests\<close>

definition identifier_suffix :: "string \<Rightarrow> string" where
  "identifier_suffix uuid = take 16 (filter (\<lambda>c. c \<noteq> CHR ''-'') uuid)"

definition createPolicyActivationApprovalRequest ::
  "bundle_host \<Rightarrow> int \<Rightarrow> string \<Rightarrow> request_approval_input \<Rightarrow> approval_request result" where
  "createPolicyActivationApprovalRequest h now uuid input =
     rbind (resolveTimestamp now (rai_requestedAt input) ''requestedAt'') (\<lambda>requestedAt.
     let requirement = derivePolicyActivationApprovalRequirement (rai_target input) (rai_bundleRecord input) in
     rbind (case rai_expiresAt input of
              Some d \<Rightarrow> return d
            | None \<Rightarrow> rbind (defaultExpiresAt requestedAt (arq_riskClass requirement)) (\<lambda>t. return (Iso t)))
       (\<lambda>expiry.
     rbind (approval_normalizeIsoTimestamp expiry ''expiresAt'') (\<lambda>expiresAt.
     rbind (approval_normalizeText (rai_rationale input) ''request rationale'') (\<lambda>rationale.
     requestWithDigest h
       \<lparr> apr_version = POLICY_ACTIVATION_APPROVAL_SPEC_VERSION,
         apr_id = nullish (rai_id input) (''activation_approval_'' @ identifier_suffix uuid),
         apr_state = (if arq_requiredApprovals requirement = 0 then Ap_approved else Ap_pending),
         apr_target = rai_target input,
         apr_targetLabel = policyActivationTargetLabel (rai_target input),
         apr_bundle = bmf_bundle (stb_manifest (rai_bundleRecord input)),
         apr_requestedBy = rai_requestedBy input,
         apr_requestedAt = requestedAt,
         apr_expiresAt = expiresAt,
         apr_reasonCode = nullish (rai_reasonCode input) (arq_reasonCode requirement),
         apr_rationale = rationale,
         apr_requirement = requirement,
         apr_decisions = [],
         apr_approvedReviewerIds = [],
         apr_rejectedReviewerIds = [],
         apr_latestDecisionAt = None,
         apr_approvalDigest = [] \<rparr> []))))"

subsection \<open>The store of requests\<close>

type_synonym approval_store = "approval_request list"

definition compareRequests :: "approval_request \<Rightarrow> approval_request \<Rightarrow> int" where
  "compareRequests left right =
     cmp_or (apr_requestedAt right - apr_requestedAt left)
       (compareCanonicalLabels (apr_id right) (apr_id left))"

definition approval_upsert :: "approval_store \<Rightarrow> approval_request \<Rightarrow> approval_store" where
  "approval_upsert requests request = sort_with compareRequests (upsert_by apr_id request requests)"

definition approval_get :: "approval_store \<Rightarrow> string \<Rightarrow> approval_request option" where
  "approval_get requests key = find_by apr_id key requests"

definition passes_filter :: "'a option \<Rightarrow> 'a \<Rightarrow> bool" where
  "passes_filter f x \<longleftrightarrow> f = None \<or> f = Some x"

definition approval_list :: "approval_filters \<Rightarrow> approval_store \<Rightarrow> approval_request list" where
  "approval_list filters requests =
     sort_with compareRequests
       (filter (\<lambda>r. passes_filter (truthy_str (apf_packId filters)) (bref_packId (apr_bundle r)))
       (filter (\<lambda>r. passes_filter (truthy_str (apf_bundleId filters)) (bref_bundleId (apr_bundle r)))
       (filter (\<lambda>r. passes_filter (truthy_str (apf_targetLabel filters)) (apr_targetLabel r))
       (filter (\<lambda>r. passes_filter (apf_state filters) (apr_state r)) requests))))"

text \<open>The snapshot of the store, and the store made from one: the requests in order.\<close>

definition approval_snapshot :: "approval_store \<Rightarrow> approval_store" where
  "approval_snapshot requests = sort_with compareRequests requests"

datatype approval_file = No_approval_file | Unreadable_approval_file | Approval_file approval_store

fun load_approval_file :: "approval_file \<Rightarrow> approval_store" where
  "load_approval_file No_approval_file = []"
| "load_approval_file Unreadable_approval_file = []"
| "load_approval_file (Approval_file requests) = requests"

definition requestPolicyActivationApproval ::
  "bundle_host \<Rightarrow> int \<Rightarrow> string \<Rightarrow> request_approval_input \<Rightarrow> approval_store
     \<Rightarrow> (approval_request \<times> approval_store) result" where
  "requestPolicyActivationApproval h now uuid input requests =
     rbind (createPolicyActivationApprovalRequest h now uuid input)
       (\<lambda>request. return (request, approval_upsert requests request))"

section \<open>Decisions\<close>

definition createDecision ::
  "bundle_host \<Rightarrow> int \<Rightarrow> string \<Rightarrow> decision_input \<Rightarrow> approval_decision result" where
  "createDecision h now uuid input =
     rbind (resolveTimestamp now (dci_decidedAt input) ''decidedAt'') (\<lambda>decidedAt.
     rbind (approval_normalizeText (dci_requestId input) ''requestId'') (\<lambda>requestId.
     rbind (approval_normalizeText (dci_rationale input) ''decision rationale'') (\<lambda>rationale.
     let base =
       \<lparr> apd_id = ''approval_decision_'' @ identifier_suffix uuid,
         apd_requestId = requestId,
         apd_decision = dci_decision input,
         apd_reviewer = dci_reviewer input,
         apd_decidedAt = decidedAt,
         apd_rationale = rationale,
         apd_decisionDigest = [] \<rparr>
     in rbind (computeDecisionDigest h base) (\<lambda>digest. return (base\<lparr> apd_decisionDigest := digest \<rparr>)))))"

definition approval_roleAllowed :: "approval_requirement \<Rightarrow> release_actor \<Rightarrow> bool" where
  "approval_roleAllowed requirement reviewer \<longleftrightarrow>
     (if length (arq_requiredReviewerRoles requirement) = 0 then True
      else case truthy_str (act_role reviewer) of
             None \<Rightarrow> False
           | Some role \<Rightarrow> role \<in> set (arq_requiredReviewerRoles requirement))"

definition reviewer_ids :: "approval_decision_kind \<Rightarrow> approval_decision list \<Rightarrow> string list" where
  "reviewer_ids kind decisions =
     remdups (map (\<lambda>d. act_id (apd_reviewer d)) (filter (\<lambda>d. apd_decision d = kind) decisions))"

definition distinctApprovalCount :: "approval_decision list \<Rightarrow> nat" where
  "distinctApprovalCount decisions = length (reviewer_ids Approve decisions)"

definition finalizeRequestWithDecision ::
  "bundle_host \<Rightarrow> approval_request \<Rightarrow> approval_decision \<Rightarrow> approval_request result" where
  "finalizeRequestWithDecision h request decision =
     (let decisions = apr_decisions request @ [decision];
          state = (if apd_decision decision = Reject then Ap_rejected
                   else if distinctApprovalCount decisions \<ge> arq_requiredApprovals (apr_requirement request)
                   then Ap_approved else Ap_pending)
      in requestWithDigest h
           (request\<lparr> apr_state := state,
                     apr_decisions := decisions,
                     apr_approvedReviewerIds := sort (reviewer_ids Approve decisions),
                     apr_rejectedReviewerIds := sort (reviewer_ids Reject decisions),
                     apr_latestDecisionAt := Some (apd_decidedAt decision) \<rparr>)
           [(''approvalDigest'', JString (apr_approvalDigest request))])"

definition quoted_text :: "string \<Rightarrow> string" where
  "quoted_text s = [CHR 0x27] @ s @ [CHR 0x27]"

text \<open>The new state of a request, computed from the store; the caller writes it back.\<close>

definition decideRequest ::
  "bundle_host \<Rightarrow> int \<Rightarrow> string \<Rightarrow> decision_input \<Rightarrow> approval_store \<Rightarrow> approval_request result" where
  "decideRequest h now uuid input requests =
     (case approval_get requests (dci_requestId input) of
        None \<Rightarrow> throw (Error (''Policy activation approval request '' @ quoted_text (dci_requestId input) @
          '' was not found.''))
      | Some request \<Rightarrow>
          if apr_state request \<noteq> Ap_pending
          then throw (Error (''Policy activation approval request '' @ quoted_text (dci_requestId input) @
            '' is already '' @ approval_state_str (apr_state request) @ ''.''))
          else rbind (resolveTimestamp now (dci_decidedAt input) ''decidedAt'') (\<lambda>decidedAt.
            if apr_expiresAt request < decidedAt
            then throw (Error (''Policy activation approval request '' @ quoted_text (dci_requestId input) @
              '' has expired.''))
            else if arq_requiresRequesterSeparation (apr_requirement request) \<and>
                    act_id (apr_requestedBy request) = act_id (dci_reviewer input)
            then throw (Error ''Policy activation approval cannot be granted by the same actor that requested activation.'')
            else if dci_decision input = Approve \<and>
                    \<not> approval_roleAllowed (apr_requirement request) (dci_reviewer input)
            then throw (Error (''Reviewer role '' @ quoted_text (nullish (act_role (dci_reviewer input)) ''undefined'') @
              '' is not allowed for this policy activation approval.''))
            else if dci_decision input = Approve \<and>
                    act_id (dci_reviewer input) \<in> set (apr_approvedReviewerIds request)
            then throw (Error (''Reviewer '' @ quoted_text (act_id (dci_reviewer input)) @
              '' has already approved this activation request.''))
            else rbind (createDecision h now uuid (input\<lparr> dci_decidedAt := Some (Iso decidedAt) \<rparr>))
              (\<lambda>decision. finalizeRequestWithDecision h request decision)))"

definition recordPolicyActivationApprovalDecision ::
  "bundle_host \<Rightarrow> int \<Rightarrow> string \<Rightarrow> decision_input \<Rightarrow> approval_store
     \<Rightarrow> (approval_request \<times> approval_store) result" where
  "recordPolicyActivationApprovalDecision h now uuid input requests =
     rbind (decideRequest h now uuid input requests)
       (\<lambda>request. return (request, approval_upsert requests request))"

section \<open>The gate\<close>

definition requestExpired :: "int \<Rightarrow> approval_request \<Rightarrow> js_date option \<Rightarrow> bool result" where
  "requestExpired clock request now =
     rbind (case truthy_date now of
              None \<Rightarrow> return clock
            | Some d \<Rightarrow> approval_normalizeIsoTimestamp d ''now'')
       (\<lambda>comparisonTime. return (apr_expiresAt request < comparisonTime))"

definition refuse ::
  "approval_gate_status \<Rightarrow> approval_requirement \<Rightarrow> approval_request option \<Rightarrow> string \<Rightarrow> gate_result" where
  "refuse status requirement request message =
     \<lparr> gtr_allowed = False, gtr_status = status, gtr_requirement = requirement,
       gtr_request = request, gtr_message = message \<rparr>"

definition evaluatePolicyActivationApprovalGate ::
  "int \<Rightarrow> approval_store \<Rightarrow> gate_input \<Rightarrow> gate_result result" where
  "evaluatePolicyActivationApprovalGate clock requests input =
     (let requirement = derivePolicyActivationApprovalRequirement (gti_target input) (gti_bundleRecord input) in
      if arq_requiredApprovals requirement = 0 then return
        \<lparr> gtr_allowed = True, gtr_status = Gate_not_required, gtr_requirement = requirement,
          gtr_request = None,
          gtr_message = ''Policy activation approval is not required for this target and bundle.'' \<rparr>
      else case truthy_str (map_option trim (gti_approvalRequestId input)) of
        None \<Rightarrow> return (refuse Gate_approval_required requirement None
          ''Policy activation requires an approved reviewer authorization request.'')
      | Some requestId \<Rightarrow>
      (case approval_get requests requestId of
        None \<Rightarrow> return (refuse Gate_not_found requirement None
          (''Policy activation approval request '' @ quoted_text (nullish (gti_approvalRequestId input) []) @
           '' was not found.''))
      | Some request \<Rightarrow>
      if apr_targetLabel request \<noteq> policyActivationTargetLabel (gti_target input)
      then return (refuse Gate_target_mismatch requirement (Some request)
        ''Policy activation approval target does not match the requested activation target.'')
      else if bref_packId (apr_bundle request) \<noteq> stb_packId (gti_bundleRecord input) \<or>
              bref_bundleId (apr_bundle request) \<noteq> stb_bundleId (gti_bundleRecord input)
      then return (refuse Gate_bundle_mismatch requirement (Some request)
        ''Policy activation approval bundle does not match the requested activation bundle.'')
      else if bref_digest (apr_bundle request) \<noteq> bref_digest (bmf_bundle (stb_manifest (gti_bundleRecord input)))
      then return (refuse Gate_bundle_digest_mismatch requirement (Some request)
        ''Policy activation approval bundle digest does not match the requested activation bundle.'')
      else if arq_requiredApprovals (apr_requirement request) < arq_requiredApprovals requirement
      then return (refuse Gate_requirement_mismatch requirement (Some request)
        ''Policy activation approval no longer satisfies the current approval requirement.'')
      else rbind (requestExpired clock request (gti_now input)) (\<lambda>expired.
      if expired
      then return (refuse Gate_expired requirement (Some request)
        ''Policy activation approval has expired.'')
      else if apr_state request = Ap_rejected
      then return (refuse Gate_rejected requirement (Some request)
        ''Policy activation approval was rejected.'')
      else if apr_state request \<noteq> Ap_approved
      then return (refuse Gate_pending requirement (Some request)
        ''Policy activation approval is still pending.'')
      else return
        \<lparr> gtr_allowed = True, gtr_status = Gate_approved, gtr_requirement = requirement,
          gtr_request = Some request,
          gtr_message = ''Policy activation approval requirement satisfied.'' \<rparr>)))"

interpretation approvals: sorted_store "\<lambda>requests. requests" apr_id approval_get approval_upsert
  by unfold_locales (simp_all add: approval_get_def approval_upsert_def)

section \<open>Digests never fail\<close>

text \<open>JSON values that \<open>stableStringify\<close> accepts; an object may have undefined members.\<close>

inductive plain_json :: "json \<Rightarrow> bool" where
  plain_null: "plain_json JNull"
| plain_string: "plain_json (JString s)"
| plain_number: "plain_json (JNumber (Num n))"
| plain_bool: "plain_json (JBool b)"
| plain_array: "(\<And>v. v \<in> set items \<Longrightarrow> plain_json v) \<Longrightarrow> plain_json (JArray items)"
| plain_object: "(\<And>k v. (k, v) \<in> set members \<Longrightarrow> v \<noteq> JUndefined \<Longrightarrow> plain_json v) \<Longrightarrow>
    plain_json (JObject members)"

inductive_simps plain_json_simps [simp]:
  "plain_json JNull" "plain_json (JString s)" "plain_json (JNumber n)" "plain_json (JBool b)"
  "plain_json (JArray items)" "plain_json (JObject members)" "plain_json JUndefined"

lemma rmap_list_succeeds: "(\<And>x. x \<in> set xs \<Longrightarrow> \<exists>y. f x = Inr y) \<Longrightarrow> \<exists>ys. rmap_list f xs = Inr ys"
  by (induction xs) auto

lemma plain_json_stringifies: "plain_json v \<Longrightarrow> \<exists>text. stableStringify v = Inr text"
proof (induction rule: plain_json.induct)
  case (plain_array items)
  then have "\<exists>ys. rmap_list stableStringify items = Inr ys" by (intro rmap_list_succeeds) blast
  then show ?case by (auto simp: stableStringify.simps)
next
  case (plain_object members)
  have "\<exists>ys. rmap_list (\<lambda>(key, v). rbind (stableStringify v) (\<lambda>s. return (json_quote key @ '':'' @ s)))
      (sort_key fst (filter (\<lambda>(key, v). v \<noteq> JUndefined) members)) = Inr ys"
    using plain_object.IH by (intro rmap_list_succeeds) fastforce
  then show ?case by (auto simp: stableStringify.simps)
qed (simp_all add: stableStringify.simps)

lemma plain_json_parts [simp]:
  "plain_json (json_strs xs)" "plain_json (json_stamp t)"
  by (auto simp: json_strs_def json_stamp_def)

lemma plain_json_str_opt [simp]: "plain_json (json_str_opt x)"
  by (cases x) simp_all

lemma plain_json_opt [simp]: "(\<And>y. plain_json (f y)) \<Longrightarrow> plain_json (json_opt f x)"
  by (cases x) simp_all

lemma undefined_str_plain [simp]: "undefined_str x \<noteq> JUndefined \<Longrightarrow> plain_json (undefined_str x)"
  by (cases x) simp_all

lemma actor_json_plain [simp]: "plain_json (actor_json a)"
  by (auto simp: actor_json_def)

lemma decision_json_plain [simp]: "plain_json (decision_json d)"
  by (auto simp: decision_json_def decision_members_def)

lemma request_members_plain:
  "(k, v) \<in> set (request_members r) \<Longrightarrow> plain_json v"
  unfolding request_members_def
  by (auto simp: target_members_def bundle_reference_json_def requirement_json_def)

lemma computeDecisionDigest_total:
  "\<exists>text. computeDecisionDigest h d = Inr (bh_sha256 h text)"
proof -
  have "plain_json (JObject (decision_members d))" by (auto simp: decision_members_def)
  from plain_json_stringifies [OF this] obtain out where
    "stableStringify (JObject (decision_members d)) = Inr out" by blast
  then have "computeDecisionDigest h d = Inr (bh_sha256 h out)" by (simp add: computeDecisionDigest_def)
  then show ?thesis by blast
qed

lemma requestWithDigest_total:
  assumes "\<And>k v. (k, v) \<in> set p \<Longrightarrow> plain_json v"
  shows "\<exists>text. requestWithDigest h r p = Inr (r\<lparr> apr_approvalDigest := bh_sha256 h text \<rparr>)"
proof -
  have "plain_json (JObject (request_members r @ p))" using assms request_members_plain by auto
  from plain_json_stringifies [OF this] obtain out where
    "stableStringify (JObject (request_members r @ p)) = Inr out" by blast
  then have "requestWithDigest h r p = Inr (r\<lparr> apr_approvalDigest := bh_sha256 h out \<rparr>)"
    by (simp add: requestWithDigest_def computeApprovalDigest_def)
  then show ?thesis by blast
qed

section \<open>What a stored request says\<close>

definition approvals_by :: "approval_request \<Rightarrow> approval_decision list" where
  "approvals_by r = filter (\<lambda>d. apd_decision d = Approve) (apr_decisions r)"

definition sound_approval :: "approval_request \<Rightarrow> approval_decision \<Rightarrow> bool" where
  "sound_approval r d \<longleftrightarrow>
     act_id (apd_reviewer d) \<noteq> act_id (apr_requestedBy r) \<and>
     approval_roleAllowed (apr_requirement r) (apd_reviewer d) \<and>
     apd_decidedAt d \<le> apr_expiresAt r"

definition separated :: "approval_requirement \<Rightarrow> bool" where
  "separated q \<longleftrightarrow> arq_requiresRequesterSeparation q \<and> arq_requiredReviewerRoles q \<noteq> []"

text \<open>
  A request whose requirement asks for reviewers: its approvals are sound and by distinct
  reviewers, it has no rejection unless it is rejected, and it is approved only with enough
  approvals.
\<close>

definition request_ok :: "approval_request \<Rightarrow> bool" where
  "request_ok r \<longleftrightarrow>
     (arq_requiredApprovals (apr_requirement r) = 0 \<or>
      separated (apr_requirement r) \<and>
      (\<forall>d\<in>set (approvals_by r). sound_approval r d) \<and>
      distinct (map (\<lambda>d. act_id (apd_reviewer d)) (approvals_by r)) \<and>
      set (apr_approvedReviewerIds r) = (\<lambda>d. act_id (apd_reviewer d)) ` set (approvals_by r) \<and>
      (apr_state r \<noteq> Ap_rejected \<longrightarrow> (\<forall>d\<in>set (apr_decisions r). apd_decision d \<noteq> Reject)) \<and>
      (apr_state r = Ap_approved \<longrightarrow> arq_requiredApprovals (apr_requirement r) \<le> length (approvals_by r)))"

lemma derived_requirement_separated:
  "arq_requiredApprovals (derivePolicyActivationApprovalRequirement t b) = 0 \<or>
   separated (derivePolicyActivationApprovalRequirement t b)"
  by (simp add: derivePolicyActivationApprovalRequirement_def Let_def separated_def)

lemma requestWithDigest_eq_Inr:
  "requestWithDigest h r p = Inr r' \<longleftrightarrow>
     (\<exists>digest. computeApprovalDigest h r p = Inr digest \<and> r' = r\<lparr> apr_approvalDigest := digest \<rparr>)"
  by (auto simp: requestWithDigest_def)

lemma created_request:
  assumes "createPolicyActivationApprovalRequest h now uuid i = Inr r"
  shows "apr_requirement r = derivePolicyActivationApprovalRequirement (rai_target i) (rai_bundleRecord i)"
    "apr_decisions r = []" "apr_approvedReviewerIds r = []"
    "apr_state r = (if arq_requiredApprovals (apr_requirement r) = 0 then Ap_approved else Ap_pending)"
  using assms by (auto simp: createPolicyActivationApprovalRequest_def requestWithDigest_eq_Inr Let_def)

lemma created_request_ok:
  assumes "createPolicyActivationApprovalRequest h now uuid i = Inr r"
  shows "request_ok r"
  using derived_requirement_separated [of "rai_target i" "rai_bundleRecord i"]
  by (auto simp: request_ok_def approvals_by_def created_request [OF assms])

text \<open>The conditions under which a decision is taken, and the request it leaves.\<close>

definition decided_request :: "approval_request \<Rightarrow> approval_decision \<Rightarrow> string \<Rightarrow> approval_request" where
  "decided_request r d digest =
     r\<lparr> apr_state := (if apd_decision d = Reject then Ap_rejected
                      else if arq_requiredApprovals (apr_requirement r) \<le> distinctApprovalCount (apr_decisions r @ [d])
                      then Ap_approved else Ap_pending),
        apr_decisions := apr_decisions r @ [d],
        apr_approvedReviewerIds := sort (reviewer_ids Approve (apr_decisions r @ [d])),
        apr_rejectedReviewerIds := sort (reviewer_ids Reject (apr_decisions r @ [d])),
        apr_latestDecisionAt := Some (apd_decidedAt d),
        apr_approvalDigest := digest \<rparr>"

lemma finalize_eq_Inr:
  "finalizeRequestWithDecision h r d = Inr r' \<Longrightarrow> \<exists>digest. r' = decided_request r d digest"
  by (auto simp: finalizeRequestWithDecision_def Let_def requestWithDigest_eq_Inr decided_request_def)

lemma createDecision_fields:
  assumes "createDecision h now uuid i = Inr d" "dci_decidedAt i = Some (Iso t)"
  shows "apd_decision d = dci_decision i" "apd_reviewer d = dci_reviewer i" "apd_decidedAt d = t"
  using assms
  by (auto simp: createDecision_def resolveTimestamp_def approval_normalizeIsoTimestamp_def Let_def)

lemma decideRequest_eq_Inr:
  assumes "decideRequest h now uuid i rs = Inr r'"
  obtains r d digest where "approval_get rs (dci_requestId i) = Some r" "apr_state r = Ap_pending"
    "r' = decided_request r d digest" "apd_decision d = dci_decision i" "apd_reviewer d = dci_reviewer i"
    "apd_decidedAt d \<le> apr_expiresAt r"
    "arq_requiresRequesterSeparation (apr_requirement r) \<Longrightarrow>
       act_id (dci_reviewer i) \<noteq> act_id (apr_requestedBy r)"
    "dci_decision i = Approve \<Longrightarrow> approval_roleAllowed (apr_requirement r) (dci_reviewer i) \<and>
       act_id (dci_reviewer i) \<notin> set (apr_approvedReviewerIds r)"
proof (cases "approval_get rs (dci_requestId i)")
  case None
  with assms show ?thesis by (simp add: decideRequest_def)
next
  case (Some r)
  then obtain t d where g: "apr_state r = Ap_pending" "\<not> apr_expiresAt r < t"
    "\<not> (arq_requiresRequesterSeparation (apr_requirement r) \<and>
        act_id (apr_requestedBy r) = act_id (dci_reviewer i))"
    "\<not> (dci_decision i = Approve \<and> \<not> approval_roleAllowed (apr_requirement r) (dci_reviewer i))"
    "\<not> (dci_decision i = Approve \<and> act_id (dci_reviewer i) \<in> set (apr_approvedReviewerIds r))"
    "createDecision h now uuid (i\<lparr> dci_decidedAt := Some (Iso t) \<rparr>) = Inr d"
    "finalizeRequestWithDecision h r d = Inr r'"
    using assms by (auto simp: decideRequest_def split: if_split_asm)
  note d = createDecision_fields [OF g(6), simplified, OF refl]
  obtain digest where "r' = decided_request r d digest" using finalize_eq_Inr [OF g(7)] by blast
  then show ?thesis
    using Some g d by (intro that [of r d digest]) auto
qed

lemma reviewer_ids_Approve:
  "reviewer_ids Approve (apr_decisions r) = remdups (map (\<lambda>d. act_id (apd_reviewer d)) (approvals_by r))"
  by (simp add: reviewer_ids_def approvals_by_def)

lemma approvals_by_decided:
  "approvals_by (decided_request r d digest) =
     approvals_by r @ (if apd_decision d = Approve then [d] else [])"
  by (simp add: approvals_by_def decided_request_def)

lemma decided_request_keeps [simp]:
  "apr_id (decided_request r d digest) = apr_id r"
  "apr_requirement (decided_request r d digest) = apr_requirement r"
  "apr_requestedBy (decided_request r d digest) = apr_requestedBy r"
  "apr_expiresAt (decided_request r d digest) = apr_expiresAt r"
  "apr_targetLabel (decided_request r d digest) = apr_targetLabel r"
  "apr_bundle (decided_request r d digest) = apr_bundle r"
  "apr_decisions (decided_request r d digest) = apr_decisions r @ [d]"
  by (simp_all add: decided_request_def)

lemma sound_approval_decided [simp]:
  "sound_approval (decided_request r d digest) e = sound_approval r e"
  by (simp add: sound_approval_def)

lemma decided_state:
  "apr_state (decided_request r d digest) = Ap_approved \<Longrightarrow>
     apd_decision d = Approve \<and>
     arq_requiredApprovals (apr_requirement r) \<le>
       length (remdups (map (\<lambda>d. act_id (apd_reviewer d)) (approvals_by (decided_request r d digest))))"
  "apr_state (decided_request r d digest) \<noteq> Ap_rejected \<Longrightarrow> apd_decision d = Approve"
  by (cases "apd_decision d"; auto simp: decided_request_def distinctApprovalCount_def reviewer_ids_def
      approvals_by_def split: if_split_asm)+

lemma decided_ids:
  "set (apr_approvedReviewerIds (decided_request r d digest)) =
     (\<lambda>d. act_id (apd_reviewer d)) ` set (approvals_by (decided_request r d digest))"
  by (auto simp: decided_request_def reviewer_ids_def approvals_by_def)

lemma decided_request_ok:
  assumes ok: "request_ok r" "apr_state r = Ap_pending"
    and late: "apd_decidedAt d \<le> apr_expiresAt r"
    and sep: "arq_requiresRequesterSeparation (apr_requirement r) \<Longrightarrow>
      act_id (apd_reviewer d) \<noteq> act_id (apr_requestedBy r)"
    and allowed: "apd_decision d = Approve \<Longrightarrow> approval_roleAllowed (apr_requirement r) (apd_reviewer d) \<and>
      act_id (apd_reviewer d) \<notin> set (apr_approvedReviewerIds r)"
  shows "request_ok (decided_request r d digest)"
proof (cases "arq_requiredApprovals (apr_requirement r) = 0")
  case True
  then show ?thesis by (simp add: request_ok_def)
next
  case False
  let ?r = "decided_request r d digest"
  let ?ids = "map (\<lambda>d. act_id (apd_reviewer d))"
  from False ok have old: "separated (apr_requirement r)" "\<forall>d\<in>set (approvals_by r). sound_approval r d"
    "distinct (?ids (approvals_by r))"
    "set (apr_approvedReviewerIds r) = (\<lambda>d. act_id (apd_reviewer d)) ` set (approvals_by r)"
    "\<forall>d\<in>set (apr_decisions r). apd_decision d \<noteq> Reject"
    by (simp_all add: request_ok_def)
  have "\<forall>e\<in>set (approvals_by ?r). sound_approval ?r e"
    using old(1,2) late sep allowed by (auto simp: approvals_by_decided sound_approval_def separated_def)
  moreover have dist: "distinct (?ids (approvals_by ?r))"
    using old(3,4) allowed by (auto simp: approvals_by_decided)
  moreover have "\<forall>e\<in>set (apr_decisions ?r). apd_decision e \<noteq> Reject" if "apr_state ?r \<noteq> Ap_rejected"
    using old(5) decided_state(2) [OF that] by auto
  moreover have "arq_requiredApprovals (apr_requirement ?r) \<le> length (approvals_by ?r)"
    if "apr_state ?r = Ap_approved"
    using decided_state(1) [OF that] dist by (simp add: distinct_remdups_id)
  ultimately show ?thesis
    using old(1) by (auto simp: request_ok_def decided_ids)
qed

section \<open>Reachable stores\<close>

inductive approval_run :: "bundle_host \<Rightarrow> approval_store \<Rightarrow> bool" for h where
  approval_empty: "approval_run h []"
| approval_requested: "approval_run h rs \<Longrightarrow>
    requestPolicyActivationApproval h now uuid i rs = Inr (r, rs') \<Longrightarrow> approval_run h rs'"
| approval_decided: "approval_run h rs \<Longrightarrow>
    recordPolicyActivationApprovalDecision h now uuid d rs = Inr (r, rs') \<Longrightarrow> approval_run h rs'"

definition approvals_ok :: "approval_store \<Rightarrow> bool" where
  "approvals_ok rs \<longleftrightarrow> approvals.unique_keys rs \<and> (\<forall>r\<in>set rs. request_ok r)"

lemma approvals_ok_upsert:
  assumes "approvals_ok rs" "request_ok r"
  shows "approvals_ok (approval_upsert rs r)"
proof -
  have "set (approval_upsert rs r) = insert r {y \<in> set rs. apr_id y \<noteq> apr_id r}"
    using assms by (intro approvals.members_put) (simp add: approvals_ok_def)
  moreover have "approvals.unique_keys (approval_upsert rs r)"
    using assms by (intro approvals.unique_keys_put) (simp add: approvals_ok_def)
  ultimately show ?thesis using assms by (auto simp: approvals_ok_def)
qed

lemma decided_in_store_ok:
  assumes "approvals_ok rs" "decideRequest h now uuid i rs = Inr r'"
  shows "request_ok r'"
  using assms(2)
proof (rule decideRequest_eq_Inr)
  fix r d digest
  assume a: "approval_get rs (dci_requestId i) = Some r" "apr_state r = Ap_pending"
    "r' = decided_request r d digest" "apd_decision d = dci_decision i" "apd_reviewer d = dci_reviewer i"
    "apd_decidedAt d \<le> apr_expiresAt r"
    "arq_requiresRequesterSeparation (apr_requirement r) \<Longrightarrow> act_id (dci_reviewer i) \<noteq> act_id (apr_requestedBy r)"
    "dci_decision i = Approve \<Longrightarrow> approval_roleAllowed (apr_requirement r) (dci_reviewer i) \<and>
       act_id (dci_reviewer i) \<notin> set (apr_approvedReviewerIds r)"
  have "request_ok r"
    using assms(1) approvals.lookup_member_key [OF a(1)] by (simp add: approvals_ok_def)
  then show "request_ok r'"
    unfolding a(3) by (rule decided_request_ok) (use a in auto)
qed

lemma approval_run_ok: "approval_run h rs \<Longrightarrow> approvals_ok rs"
proof (induction rule: approval_run.induct)
  case approval_empty
  show ?case by (simp add: approvals_ok_def approvals.unique_keys_def)
next
  case (approval_requested rs now uuid i r rs')
  then obtain q where "createPolicyActivationApprovalRequest h now uuid i = Inr q" "rs' = approval_upsert rs q"
    by (auto simp: requestPolicyActivationApproval_def)
  with approval_requested.IH show ?case by (simp add: approvals_ok_upsert created_request_ok)
next
  case (approval_decided rs now uuid d r rs')
  then obtain q where "decideRequest h now uuid d rs = Inr q" "rs' = approval_upsert rs q"
    by (auto simp: recordPolicyActivationApprovalDecision_def)
  with approval_decided.IH show ?case by (simp add: approvals_ok_upsert decided_in_store_ok)
qed

section \<open>What the gate promises\<close>

lemma gate_allowed:
  assumes "evaluatePolicyActivationApprovalGate clock rs i = Inr g" "gtr_allowed g"
    and "arq_requiredApprovals (derivePolicyActivationApprovalRequirement (gti_target i) (gti_bundleRecord i)) \<noteq> 0"
  obtains key r where "truthy_str (map_option trim (gti_approvalRequestId i)) = Some key"
    "approval_get rs key = Some r" "gtr_request g = Some r"
    "apr_targetLabel r = policyActivationTargetLabel (gti_target i)"
    "bref_packId (apr_bundle r) = stb_packId (gti_bundleRecord i)"
    "bref_bundleId (apr_bundle r) = stb_bundleId (gti_bundleRecord i)"
    "bref_digest (apr_bundle r) = bref_digest (bmf_bundle (stb_manifest (gti_bundleRecord i)))"
    "arq_requiredApprovals (derivePolicyActivationApprovalRequirement (gti_target i) (gti_bundleRecord i))
       \<le> arq_requiredApprovals (apr_requirement r)"
    "requestExpired clock r (gti_now i) = Inr False" "apr_state r = Ap_approved"
proof (cases "truthy_str (map_option trim (gti_approvalRequestId i))")
  case None
  with assms show ?thesis by (auto simp: evaluatePolicyActivationApprovalGate_def Let_def refuse_def)
next
  case (Some key)
  show ?thesis
  proof (cases "approval_get rs key")
    case None
    with assms Some show ?thesis by (auto simp: evaluatePolicyActivationApprovalGate_def Let_def refuse_def)
  next
    case (Some r)
    with assms \<open>truthy_str _ = Some key\<close> show ?thesis
      by (intro that [of key r])
        (auto simp: evaluatePolicyActivationApprovalGate_def Let_def refuse_def not_less split: if_split_asm)
  qed
qed

definition gate_instant :: "int \<Rightarrow> js_date option \<Rightarrow> int option" where
  "gate_instant clock now = (case truthy_date now of None \<Rightarrow> Some clock | Some d \<Rightarrow> getTime d)"

lemma not_requestExpired:
  "requestExpired clock r now = Inr False \<longleftrightarrow>
     (\<exists>t. gate_instant clock now = Some t \<and> t \<le> apr_expiresAt r)"
  by (auto simp: requestExpired_def gate_instant_def approval_normalizeIsoTimestamp_def
      split: option.splits)

text \<open>
  C33: In every store that requests and decisions reach one after the other, an activation that
  needs approval passes the gate only with a stored request for the same target label, bundle
  and digest, not yet expired at the instant compared, without a rejection, and approved by at
  least the number of distinct reviewers the activation needs now, each of them not the
  requester, in a role the request allows, and no later than the request's expiry.
\<close>

theorem approval_gate_sound:
  assumes "approval_run h rs" "evaluatePolicyActivationApprovalGate clock rs i = Inr g" "gtr_allowed g"
    and "arq_requiredApprovals (derivePolicyActivationApprovalRequirement (gti_target i) (gti_bundleRecord i)) \<noteq> 0"
  shows "\<exists>r t approvers. r \<in> set rs \<and> gtr_request g = Some r \<and>
    apr_targetLabel r = policyActivationTargetLabel (gti_target i) \<and>
    bref_packId (apr_bundle r) = stb_packId (gti_bundleRecord i) \<and>
    bref_bundleId (apr_bundle r) = stb_bundleId (gti_bundleRecord i) \<and>
    bref_digest (apr_bundle r) = bref_digest (bmf_bundle (stb_manifest (gti_bundleRecord i))) \<and>
    gate_instant clock (gti_now i) = Some t \<and> t \<le> apr_expiresAt r \<and>
    (\<forall>d\<in>set (apr_decisions r). apd_decision d \<noteq> Reject) \<and>
    distinct approvers \<and>
    arq_requiredApprovals (derivePolicyActivationApprovalRequirement (gti_target i) (gti_bundleRecord i))
      \<le> length approvers \<and>
    (\<forall>a\<in>set approvers. a \<noteq> act_id (apr_requestedBy r) \<and>
      (\<exists>d\<in>set (apr_decisions r). apd_decision d = Approve \<and> act_id (apd_reviewer d) = a \<and>
         approval_roleAllowed (apr_requirement r) (apd_reviewer d) \<and> apd_decidedAt d \<le> apr_expiresAt r))"
proof -
  obtain key r where gate: "approval_get rs key = Some r" "gtr_request g = Some r"
    "apr_targetLabel r = policyActivationTargetLabel (gti_target i)"
    "bref_packId (apr_bundle r) = stb_packId (gti_bundleRecord i)"
    "bref_bundleId (apr_bundle r) = stb_bundleId (gti_bundleRecord i)"
    "bref_digest (apr_bundle r) = bref_digest (bmf_bundle (stb_manifest (gti_bundleRecord i)))"
    "arq_requiredApprovals (derivePolicyActivationApprovalRequirement (gti_target i) (gti_bundleRecord i))
       \<le> arq_requiredApprovals (apr_requirement r)"
    "requestExpired clock r (gti_now i) = Inr False" "apr_state r = Ap_approved"
    by (rule gate_allowed [OF assms(2-4)]) blast
  have r: "r \<in> set rs" using approvals.lookup_member_key [OF gate(1)] by simp
  then have "request_ok r" using approval_run_ok [OF assms(1)] by (simp add: approvals_ok_def)
  with gate(7,9) assms(4) have ok: "\<forall>d\<in>set (approvals_by r). sound_approval r d"
    "distinct (map (\<lambda>d. act_id (apd_reviewer d)) (approvals_by r))"
    "\<forall>d\<in>set (apr_decisions r). apd_decision d \<noteq> Reject"
    "arq_requiredApprovals (apr_requirement r) \<le> length (approvals_by r)"
    by (auto simp: request_ok_def)
  obtain t where t: "gate_instant clock (gti_now i) = Some t" "t \<le> apr_expiresAt r"
    using gate(8) unfolding not_requestExpired by blast
  show ?thesis
    using r gate(2-6) t ok(2,3) le_trans [OF gate(7) ok(4)] ok(1)
    by (intro exI [of _ r] exI [of _ t] exI [of _ "map (\<lambda>d. act_id (apd_reviewer d)) (approvals_by r)"])
      (auto simp: sound_approval_def approvals_by_def)
qed

section \<open>Examples\<close>

definition review_host :: bundle_host where
  "review_host =
     \<lparr> bh_sha256 = (\<lambda>s. ''00''), bh_localeCompare = compareCanonicalLabels,
       bh_number = (\<lambda>p. JNumber (Num \<lfloor>p\<rfloor>)) \<rparr>"

lemma review_host_digests [simp]:
  "computeDecisionDigest review_host d = Inr ''00''"
  "requestWithDigest review_host r [] = Inr (r\<lparr> apr_approvalDigest := ''00'' \<rparr>)"
  "requestWithDigest review_host r [(key, JString s)] = Inr (r\<lparr> apr_approvalDigest := ''00'' \<rparr>)"
  using computeDecisionDigest_total [of review_host d]
    requestWithDigest_total [of "[]" review_host r]
    requestWithDigest_total [of "[(key, JString s)]" review_host r]
  by (simp_all add: review_host_def)

definition review_pack :: policy_pack where
  "review_pack =
     \<lparr> pck_version = ''1'', pck_id = ''p'', pck_name = ''p'', pck_description = None,
       pck_lifecycleState = Pack_published, pck_owners = [], pck_labels = [], pck_createdAt = 0,
       pck_updatedAt = 0, pck_latestBundleRef = None \<rparr>"

definition review_manifest :: bundle_manifest where
  "review_manifest =
     \<lparr> bmf_version = ''1'',
       bmf_bundle = \<lparr> bref_packId = ''p'', bref_bundleId = ''b'', bref_bundleVersion = ''1'', bref_digest = ''d'' \<rparr>,
       bmf_packId = ''p'', bmf_bundleLabels = [], bmf_generatedAt = 0, bmf_discoveryMode = Mode_scoped_active,
       bmf_compatibility =
         \<lparr> cpt_controlPlaneSpecVersion = [], cpt_releaseLayerPlatformSpecVersion = [],
           cpt_releasePolicySpecVersion = [], cpt_releasePolicyRolloutSpecVersion = [] \<rparr>,
       bmf_schemas = [], bmf_entries = [] \<rparr>"

definition review_bundle :: stored_bundle where
  "review_bundle =
     \<lparr> stb_version = POLICY_STORE_RECORD_SPEC_VERSION, stb_packId = ''p'', stb_bundleId = ''b'',
       stb_bundleVersion = ''1'', stb_storedAt = 0, stb_manifest = review_manifest,
       stb_artifact =
         \<lparr> bar_version = ''1'', bar_bundleId = ''b'', bar_packId = ''p'', bar_payloadType = [],
           bar_statement =
             \<lparr> bst_type = [], bst_subject = [], bst_predicateType = [],
               bst_predicate =
                 \<lparr> bpr_version = [], bpr_pack = review_pack, bpr_manifest = review_manifest,
                   bpr_entries = [], bpr_schemas = [] \<rparr> \<rparr>,
           bar_canonicalPayload = [], bar_payloadDigest = [], bar_packDigest = [], bar_manifestDigest = [],
           bar_entriesDigest = [], bar_schemasDigest = [] \<rparr>,
       stb_signedBundle = None, stb_verificationKey = None \<rparr>"

definition review_target :: activation_target where
  "review_target = (sample_target ''prod'' None)\<lparr> atg_riskClass := Some R4 \<rparr>"

definition reviewer :: "string \<Rightarrow> string \<Rightarrow> release_actor" where
  "reviewer key role = \<lparr> act_id = key, act_type = User, act_displayName = None, act_role = Some role \<rparr>"

definition review_input :: request_approval_input where
  "review_input =
     \<lparr> rai_id = Some ''r1'', rai_target = review_target, rai_bundleRecord = review_bundle,
       rai_requestedBy = reviewer ''alice'' ''policy-admin'', rai_requestedAt = Some (Iso 1000),
       rai_expiresAt = None, rai_reasonCode = None, rai_rationale = ''why'' \<rparr>"

definition review_decision :: "string \<Rightarrow> approval_decision_kind \<Rightarrow> decision_input" where
  "review_decision who kind =
     \<lparr> dci_requestId = ''r1'', dci_decision = kind, dci_reviewer = reviewer who ''risk-owner'',
       dci_decidedAt = Some (Iso 2000), dci_rationale = ''seen'' \<rparr>"

definition review_gate :: gate_input where
  "review_gate =
     \<lparr> gti_target = review_target, gti_bundleRecord = review_bundle, gti_approvalRequestId = Some ''r1'',
       gti_now = None \<rparr>"

fun run_decisions :: "bundle_host \<Rightarrow> decision_input list \<Rightarrow> approval_store \<Rightarrow> approval_store" where
  "run_decisions h [] rs = rs"
| "run_decisions h (d # ds) rs =
     (case recordPolicyActivationApprovalDecision h 0 ''u'' d rs of
        Inl e \<Rightarrow> run_decisions h ds rs
      | Inr (r, rs') \<Rightarrow> run_decisions h ds rs')"

lemma run_decisions_run: "approval_run h rs \<Longrightarrow> approval_run h (run_decisions h ds rs)"
  by (induction ds arbitrary: rs) (auto split: sum.split intro: approval_decided)

definition review_store :: "decision_input list \<Rightarrow> approval_store" where
  "review_store ds =
     (case requestPolicyActivationApproval review_host 0 ''u'' review_input [] of
        Inl e \<Rightarrow> []
      | Inr (r, rs) \<Rightarrow> run_decisions review_host ds rs)"

lemma review_store_run: "approval_run review_host (review_store ds)"
  by (auto simp: review_store_def split: sum.split
      intro: run_decisions_run approval_requested approval_empty)

lemma review_trims [simp]:
  "trim ''why'' = ''why''" "trim ''seen'' = ''seen''" "trim ''r1'' = ''r1''"
  by code_simp+

lemmas review_defs = review_store_def requestPolicyActivationApproval_def createPolicyActivationApprovalRequest_def
  review_input_def resolveTimestamp_def approval_normalizeIsoTimestamp_def defaultExpiresAt_def
  approval_normalizeText_def derivePolicyActivationApprovalRequirement_def highestRiskClass_def
  review_target_def review_bundle_def review_manifest_def sample_target_def approval_upsert_def
  toISO_def max_time_value_def Let_def

lemmas decision_defs = review_decision_def reviewer_def recordPolicyActivationApprovalDecision_def
  decideRequest_def approval_get_def approval_roleAllowed_def createDecision_def
  finalizeRequestWithDecision_def distinctApprovalCount_def reviewer_ids_def

lemmas gate_defs = review_gate_def evaluatePolicyActivationApprovalGate_def requestExpired_def

theorem approval_gate_sound_witness:
  "\<exists>r\<in>set (review_store [review_decision ''bob'' Approve, review_decision ''carol'' Approve]).
     2 \<le> card {a. a \<noteq> act_id (apr_requestedBy r) \<and>
       (\<exists>d\<in>set (apr_decisions r). apd_decision d = Approve \<and> act_id (apd_reviewer d) = a)}"
proof -
  let ?rs = "review_store [review_decision ''bob'' Approve, review_decision ''carol'' Approve]"
  have "case evaluatePolicyActivationApprovalGate 3000 ?rs review_gate of Inl e \<Rightarrow> False | Inr g \<Rightarrow> gtr_allowed g"
    by (simp add: review_defs decision_defs gate_defs)
  then obtain g where g: "evaluatePolicyActivationApprovalGate 3000 ?rs review_gate = Inr g" "gtr_allowed g"
    by (auto split: sum.splits)
  have two: "arq_requiredApprovals
      (derivePolicyActivationApprovalRequirement (gti_target review_gate) (gti_bundleRecord review_gate)) = 2"
    by (simp add: review_defs review_gate_def)
  then have needed: "arq_requiredApprovals
      (derivePolicyActivationApprovalRequirement (gti_target review_gate) (gti_bundleRecord review_gate)) \<noteq> 0"
    by simp
  obtain r approvers where r: "r \<in> set ?rs" and approvers: "distinct approvers" "2 \<le> length approvers"
    "\<forall>a\<in>set approvers. a \<noteq> act_id (apr_requestedBy r) \<and>
      (\<exists>d\<in>set (apr_decisions r). apd_decision d = Approve \<and> act_id (apd_reviewer d) = a)"
    using approval_gate_sound [OF review_store_run g needed] unfolding two
    by (elim exE conjE, intro that) (assumption | fast)+
  let ?A = "{a. a \<noteq> act_id (apr_requestedBy r) \<and>
      (\<exists>d\<in>set (apr_decisions r). apd_decision d = Approve \<and> act_id (apd_reviewer d) = a)}"
  have "?A \<subseteq> (\<lambda>d. act_id (apd_reviewer d)) ` set (apr_decisions r)" by auto
  then have "finite ?A" by (rule finite_subset) simp
  then have "card (set approvers) \<le> card ?A" using approvers(3) by (intro card_mono) auto
  then have "2 \<le> card ?A" using approvers(1,2) by (simp add: distinct_card)
  with r show ?thesis by blast
qed

section \<open>Decisions of the service\<close>

text \<open>
  The service's stores are asynchronous. Its request path
  (src/service/http/routes/release-policy-control-route-context.ts) reads a snapshot, decides on
  a local store made from it, and writes the request that results; another decision may be
  written in between. \<open>service_decides\<close> is the first half, on the snapshot.
\<close>

definition service_decides ::
  "bundle_host \<Rightarrow> int \<Rightarrow> string \<Rightarrow> decision_input \<Rightarrow> approval_store \<Rightarrow> approval_request result" where
  "service_decides h now uuid input requests =
     rbind (recordPolicyActivationApprovalDecision h now uuid input (approval_snapshot requests))
       (\<lambda>(request, localStore). return request)"

definition recordActivationApprovalDecision ::
  "bundle_host \<Rightarrow> int \<Rightarrow> string \<Rightarrow> decision_input \<Rightarrow> approval_store \<Rightarrow> approval_store
     \<Rightarrow> (approval_request \<times> approval_store) result" where
  "recordActivationApprovalDecision h now uuid input read written =
     rbind (service_decides h now uuid input read)
       (\<lambda>request. return (request, approval_upsert written request))"

definition requestActivationApproval ::
  "bundle_host \<Rightarrow> int \<Rightarrow> string \<Rightarrow> request_approval_input \<Rightarrow> approval_store \<Rightarrow> approval_store
     \<Rightarrow> (approval_request \<times> approval_store) result" where
  "requestActivationApproval h now uuid input read written =
     rbind (requestPolicyActivationApproval h now uuid input (approval_snapshot read))
       (\<lambda>(request, localStore). return (request, approval_upsert written request))"

definition evaluateActivationApprovalGate ::
  "int \<Rightarrow> approval_store \<Rightarrow> gate_input \<Rightarrow> gate_result result" where
  "evaluateActivationApprovalGate clock requests input =
     evaluatePolicyActivationApprovalGate clock (approval_snapshot requests) input"

lemma approval_get_snapshot:
  "approvals.unique_keys rs \<Longrightarrow> approval_get (approval_snapshot rs) key = approval_get rs key"
  unfolding approval_get_def approval_snapshot_def
  by (rule find_by_mset) (simp_all add: approvals.unique_keys_def)

lemma service_decides_eq:
  "approvals.unique_keys rs \<Longrightarrow> service_decides h now uuid i rs = decideRequest h now uuid i rs"
  by (cases "decideRequest h now uuid i rs")
    (simp_all add: service_decides_def recordPolicyActivationApprovalDecision_def decideRequest_def
      approval_get_snapshot)

lemma gate_snapshot:
  "approvals.unique_keys rs \<Longrightarrow>
     evaluateActivationApprovalGate clock rs i = evaluatePolicyActivationApprovalGate clock rs i"
  by (cases "truthy_str (map_option trim (gti_approvalRequestId i))")
    (simp_all add: evaluateActivationApprovalGate_def evaluatePolicyActivationApprovalGate_def
      approval_get_snapshot Let_def)

text \<open>
  C40: When two decisions on one pending request are taken from the same snapshot and the first
  is a rejection, the request that stays is the second one written and nothing of the rejection
  remains in it. Taken one after the other, the second decision is refused.
\<close>

theorem stale_decision_overwrites:
  assumes "approval_run h rs"
    and "dci_requestId i = dci_requestId j"
    and "recordActivationApprovalDecision h n u i rs rs = Inr (first, rs1)"
    and "recordActivationApprovalDecision h m v j rs rs1 = Inr (second, rs2)"
    and "dci_decision i = Reject"
  shows "approval_get rs1 (dci_requestId i) = Some first \<and> apr_state first = Ap_rejected \<and>
    approval_get rs2 (dci_requestId i) = Some second \<and>
    (\<exists>r d. approval_get rs (dci_requestId i) = Some r \<and> apr_decisions second = apr_decisions r @ [d] \<and>
       apd_decision d = dci_decision j) \<and>
    isl (recordActivationApprovalDecision h m v j rs1 rs1)"
proof -
  note ok = approval_run_ok [OF assms(1)]
  have keys: "approvals.unique_keys rs" using ok by (simp add: approvals_ok_def)
  have one: "decideRequest h n u i rs = Inr first" "rs1 = approval_upsert rs first"
    using assms(3) by (auto simp: recordActivationApprovalDecision_def service_decides_eq [OF keys])
  have two: "decideRequest h m v j rs = Inr second" "rs2 = approval_upsert rs1 second"
    using assms(4) by (auto simp: recordActivationApprovalDecision_def service_decides_eq [OF keys])
  have keys1: "approvals.unique_keys rs1" unfolding one(2) by (rule approvals.unique_keys_put [OF keys])
  obtain r d digest where r: "approval_get rs (dci_requestId i) = Some r" "first = decided_request r d digest"
    "apd_decision d = dci_decision i"
    using one(1) by (rule decideRequest_eq_Inr) blast
  obtain r' e digest' where r': "approval_get rs (dci_requestId j) = Some r'" "second = decided_request r' e digest'"
    "apd_decision e = dci_decision j"
    using two(1) by (rule decideRequest_eq_Inr) blast
  have same: "r' = r" using r(1) r'(1) assms(2) by simp
  have id_r: "apr_id r = dci_requestId i" using approvals.lookup_member_key [OF r(1)] by simp
  have rejected: "apr_state first = Ap_rejected" using r(2,3) assms(5) by (simp add: decided_request_def)
  have got1: "approval_get rs1 (dci_requestId i) = Some first"
    unfolding one(2) using keys by (simp add: approvals.lookup_put_sorted r(2) id_r)
  have got2: "approval_get rs2 (dci_requestId i) = Some second"
    unfolding two(2) using keys1 by (simp add: approvals.lookup_put_sorted r'(2) same id_r)
  have "isl (decideRequest h m v j rs1)"
    using got1 rejected assms(2) by (simp add: decideRequest_def)
  then have "isl (recordActivationApprovalDecision h m v j rs1 rs1)"
    by (cases "decideRequest h m v j rs1")
      (simp_all add: recordActivationApprovalDecision_def service_decides_eq [OF keys1])
  with got1 got2 rejected r(1) r'(2,3) same show ?thesis by auto
qed

theorem stale_decision_overwrites_witness:
  "\<exists>rs rs1 rs2 first second.
     recordActivationApprovalDecision review_host 0 ''u'' (review_decision ''bob'' Reject) rs rs = Inr (first, rs1) \<and>
     recordActivationApprovalDecision review_host 0 ''v'' (review_decision ''carol'' Approve) rs rs1 = Inr (second, rs2) \<and>
     approval_get rs1 ''r1'' = Some first \<and> apr_state first = Ap_rejected \<and>
     approval_get rs2 ''r1'' = Some second \<and> apr_state second = Ap_approved \<and>
     (case evaluateActivationApprovalGate 3000 rs2 review_gate of Inl e \<Rightarrow> False | Inr g \<Rightarrow> gtr_allowed g)"
proof -
  let ?rs = "review_store [review_decision ''dave'' Approve]"
  let ?i = "review_decision ''bob'' Reject" and ?j = "review_decision ''carol'' Approve"
  let ?one = "recordActivationApprovalDecision review_host 0 ''u'' ?i ?rs ?rs"
  let ?two = "recordActivationApprovalDecision review_host 0 ''v'' ?j ?rs (snd (projr ?one))"
  note defs = recordActivationApprovalDecision_def service_decides_def approval_snapshot_def
    evaluateActivationApprovalGate_def review_defs decision_defs gate_defs
  have "\<not> isl ?one" by (simp add: defs)
  then obtain first rs1 where one: "?one = Inr (first, rs1)" by (cases ?one) auto
  have "\<not> isl ?two" by (simp add: defs)
  then obtain second rs2 where two: "?two = Inr (second, rs2)" by (cases ?two) auto
  have "apr_state (fst (projr ?two)) = Ap_approved" by (simp add: defs)
  then have approved: "apr_state second = Ap_approved" by (simp add: two)
  have "case evaluateActivationApprovalGate 3000 (snd (projr ?two)) review_gate of Inl e \<Rightarrow> False | Inr g \<Rightarrow> gtr_allowed g"
    by (simp add: defs)
  then have gate: "case evaluateActivationApprovalGate 3000 rs2 review_gate of Inl e \<Rightarrow> False | Inr g \<Rightarrow> gtr_allowed g"
    by (simp add: two)
  have two': "recordActivationApprovalDecision review_host 0 ''v'' ?j ?rs rs1 = Inr (second, rs2)"
    using two by (simp add: one)
  have i: "dci_requestId ?i = dci_requestId ?j" "dci_decision ?i = Reject" "dci_requestId ?i = ''r1''"
    by (simp_all add: review_decision_def)
  have "approval_get rs1 ''r1'' = Some first" "apr_state first = Ap_rejected" "approval_get rs2 ''r1'' = Some second"
    using stale_decision_overwrites [OF review_store_run i(1) one two' i(2)] unfolding i(3) by blast+
  with one two' approved gate show ?thesis
    by (intro exI conjI)
qed

end
