(* ===== verification/Activation_Lifecycle.thy ===== *)
theory Activation_Lifecycle
  imports Policy_Store
begin

text \<open>
  The lifecycle of activations: src/release-policy-control-plane/activation-records.ts.

  Staging, activating, rolling back and freezing write an activation record for an exact
  target and turn the record that was active or frozen there into history. The operations
  compare targets by their labels. \<open>lifecycle_ok\<close> is the invariant: identifiers are unique,
  every record is well formed and for each label at most one record is live, that is active or
  frozen. \<open>lifecycle_run\<close> is the reachability relation of the operations.
\<close>

definition POLICY_ACTIVATION_LIFECYCLE_SPEC_VERSION :: string where
  "POLICY_ACTIVATION_LIFECYCLE_SPEC_VERSION = ''attestor.policy-activation-lifecycle.v1''"

record stage_activation_input =
  sai_id :: string
  sai_target :: activation_target
  sai_bundle :: bundle_reference
  sai_requestedBy :: release_actor
  sai_requestedAt :: js_date
  sai_rolloutMode :: rollout_mode
  sai_reasonCode :: "string option"
  sai_rationale :: string

record activate_bundle_input =
  abi_id :: string
  abi_target :: activation_target
  abi_bundle :: bundle_reference
  abi_activatedBy :: release_actor
  abi_activatedAt :: js_date
  abi_rolloutMode :: rollout_mode
  abi_reasonCode :: "string option"
  abi_rationale :: string

record rollback_activation_input =
  rbi_id :: string
  rbi_target :: activation_target
  rbi_rollbackTargetActivationId :: string
  rbi_activatedBy :: release_actor
  rbi_activatedAt :: js_date
  rbi_rationale :: string
  rbi_reasonCode :: "string option"

record freeze_scope_input =
  fsi_id :: string
  fsi_target :: activation_target
  fsi_bundle :: "bundle_reference option"
  fsi_activatedBy :: release_actor
  fsi_activatedAt :: js_date
  fsi_freezeReason :: string
  fsi_rationale :: string
  fsi_reasonCode :: "string option"

record lifecycle_result =
  lcr_version :: string
  lcr_operationType :: activation_operation
  lcr_targetLabel :: string
  lcr_appliedRecord :: activation_record
  lcr_currentActiveRecord :: "activation_record option"
  lcr_updatedHistoricalRecord :: "activation_record option"
  lcr_rollbackTargetRecord :: "activation_record option"

section \<open>Records of an exact target\<close>

definition exactTargetLabel :: "activation_target \<Rightarrow> string" where
  "exactTargetLabel target = policyActivationTargetLabel target"

definition exactTargetActivations ::
  "bundle_host \<Rightarrow> policy_store \<Rightarrow> activation_target \<Rightarrow> activation_record list" where
  "exactTargetActivations h s target =
     filter (\<lambda>r. acr_targetLabel r = exactTargetLabel target) (listActivations h s)"

definition findLatestExactTargetActivation ::
  "bundle_host \<Rightarrow> policy_store \<Rightarrow> activation_target \<Rightarrow> activation_record option" where
  "findLatestExactTargetActivation h s target =
     (case exactTargetActivations h s target of [] \<Rightarrow> None | r # _ \<Rightarrow> Some r)"

definition findLatestActiveExactTargetActivation ::
  "bundle_host \<Rightarrow> policy_store \<Rightarrow> activation_target \<Rightarrow> activation_record option" where
  "findLatestActiveExactTargetActivation h s target =
     List.find (\<lambda>r. acr_state r = Act_active) (exactTargetActivations h s target)"

definition findLatestActiveOrFrozenExactTargetActivation ::
  "bundle_host \<Rightarrow> policy_store \<Rightarrow> activation_target \<Rightarrow> activation_record option" where
  "findLatestActiveOrFrozenExactTargetActivation h s target =
     List.find (\<lambda>r. acr_state r = Act_active \<or> acr_state r = Act_frozen)
       (exactTargetActivations h s target)"

definition markHistoricalActivation ::
  "activation_record \<Rightarrow> activation_state \<Rightarrow> string \<Rightarrow> activation_record result" where
  "markHistoricalActivation r state supersededByActivationId =
     createPolicyActivationRecord
       \<lparr> ari_id = acr_id r,
         ari_state = Some state,
         ari_operationType = Some (acr_operationType r),
         ari_target = acr_target r,
         ari_bundle = acr_bundle r,
         ari_activatedBy = acr_activatedBy r,
         ari_activatedAt = Iso (acr_activatedAt r),
         ari_rolloutMode = Some (acr_rolloutMode r),
         ari_reasonCode = Some (acr_reasonCode r),
         ari_rationale = acr_rationale r,
         ari_previousActivationId = acr_previousActivationId r,
         ari_supersededByActivationId = Some supersededByActivationId,
         ari_rollbackOfActivationId = acr_rollbackOfActivationId r,
         ari_freezeReason = acr_freezeReason r \<rparr>"

text \<open>
  The second write of an operation: the record that was live before, unless the first write
  replaced it.
\<close>

definition update_historical ::
  "bundle_host \<Rightarrow> policy_store \<Rightarrow> activation_record option \<Rightarrow> activation_record \<Rightarrow> activation_state
     \<Rightarrow> (activation_record option \<times> policy_store) result" where
  "update_historical h s currentActive appliedRecord state =
     (case currentActive of
        None \<Rightarrow> return (None, s)
      | Some current \<Rightarrow>
          if acr_id current \<noteq> acr_id appliedRecord
          then rbind (markHistoricalActivation current state (acr_id appliedRecord))
                 (\<lambda>m. return (Some m, upsertActivation h s m))
          else return (None, s))"

section \<open>Operations\<close>

text \<open>Each operation first builds the input of the record it writes.\<close>

definition stage_record_input :: "stage_activation_input \<Rightarrow> activation_record option \<Rightarrow> activation_record_input" where
  "stage_record_input input latest =
       \<lparr> ari_id = sai_id input,
         ari_state = Some Act_candidate,
         ari_operationType = Some Op_activate_bundle,
         ari_target = sai_target input,
         ari_bundle = sai_bundle input,
         ari_activatedBy = sai_requestedBy input,
         ari_activatedAt = sai_requestedAt input,
         ari_rolloutMode = Some (sai_rolloutMode input),
         ari_reasonCode = Some (nullish (sai_reasonCode input) ''stage-activation''),
         ari_rationale = sai_rationale input,
         ari_previousActivationId =
           map_option acr_id latest,
         ari_supersededByActivationId = None,
         ari_rollbackOfActivationId = None,
         ari_freezeReason = None \<rparr>"

definition stagePolicyActivationCandidate ::
  "bundle_host \<Rightarrow> stage_activation_input \<Rightarrow> policy_store \<Rightarrow> (lifecycle_result \<times> policy_store) result" where
  "stagePolicyActivationCandidate h input s =
     rbind (createPolicyActivationRecord
       (stage_record_input input (findLatestExactTargetActivation h s (sai_target input)))) (\<lambda>candidate.
     let s' = upsertActivation h s candidate in return
       (\<lparr> lcr_version = POLICY_ACTIVATION_LIFECYCLE_SPEC_VERSION,
          lcr_operationType = acr_operationType candidate,
          lcr_targetLabel = acr_targetLabel candidate,
          lcr_appliedRecord = candidate,
          lcr_currentActiveRecord = findLatestActiveExactTargetActivation h s' (sai_target input),
          lcr_updatedHistoricalRecord = None,
          lcr_rollbackTargetRecord = None \<rparr>, s'))"

definition activate_record_input :: "activate_bundle_input \<Rightarrow> activation_record option \<Rightarrow> activation_record_input" where
  "activate_record_input input currentActive =
       \<lparr> ari_id = abi_id input,
         ari_state = Some Act_active,
         ari_operationType = Some Op_activate_bundle,
         ari_target = abi_target input,
         ari_bundle = abi_bundle input,
         ari_activatedBy = abi_activatedBy input,
         ari_activatedAt = abi_activatedAt input,
         ari_rolloutMode = Some (abi_rolloutMode input),
         ari_reasonCode = Some (nullish (abi_reasonCode input) ''promote-bundle''),
         ari_rationale = abi_rationale input,
         ari_previousActivationId = map_option acr_id currentActive,
         ari_supersededByActivationId = None,
         ari_rollbackOfActivationId = None,
         ari_freezeReason = None \<rparr>"

definition activatePolicyBundle ::
  "bundle_host \<Rightarrow> activate_bundle_input \<Rightarrow> policy_store \<Rightarrow> (lifecycle_result \<times> policy_store) result" where
  "activatePolicyBundle h input s =
     (let currentActive = findLatestActiveOrFrozenExactTargetActivation h s (abi_target input) in
     rbind (createPolicyActivationRecord
       (activate_record_input input currentActive)) (\<lambda>appliedRecord.
     rbind (update_historical h (upsertActivation h s appliedRecord) currentActive appliedRecord
       Act_superseded) (\<lambda>(updatedHistoricalRecord, s'). return
       (\<lparr> lcr_version = POLICY_ACTIVATION_LIFECYCLE_SPEC_VERSION,
          lcr_operationType = acr_operationType appliedRecord,
          lcr_targetLabel = acr_targetLabel appliedRecord,
          lcr_appliedRecord = appliedRecord,
          lcr_currentActiveRecord = currentActive,
          lcr_updatedHistoricalRecord = updatedHistoricalRecord,
          lcr_rollbackTargetRecord = None \<rparr>, s'))))"

definition rollback_record_input :: "rollback_activation_input \<Rightarrow> activation_record option \<Rightarrow> activation_record \<Rightarrow> activation_record_input" where
  "rollback_record_input input currentActive rollbackTargetRecord =
       \<lparr> ari_id = rbi_id input,
         ari_state = Some Act_active,
         ari_operationType = Some Op_rollback_activation,
         ari_target = rbi_target input,
         ari_bundle = acr_bundle rollbackTargetRecord,
         ari_activatedBy = rbi_activatedBy input,
         ari_activatedAt = rbi_activatedAt input,
         ari_rolloutMode = Some Rolled_back,
         ari_reasonCode = Some (nullish (rbi_reasonCode input) ''rollback''),
         ari_rationale = rbi_rationale input,
         ari_previousActivationId = map_option acr_id currentActive,
         ari_supersededByActivationId = None,
         ari_rollbackOfActivationId = Some (acr_id rollbackTargetRecord),
         ari_freezeReason = None \<rparr>"

definition rollbackPolicyActivation ::
  "bundle_host \<Rightarrow> rollback_activation_input \<Rightarrow> policy_store \<Rightarrow> (lifecycle_result \<times> policy_store) result" where
  "rollbackPolicyActivation h input s =
     (case getActivation s (rbi_rollbackTargetActivationId input) of
        None \<Rightarrow> throw (Error (''Cannot rollback policy activation; target '' @ [CHR 0x27] @
          rbi_rollbackTargetActivationId input @ [CHR 0x27] @ '' was not found.''))
      | Some rollbackTargetRecord \<Rightarrow>
     if acr_targetLabel rollbackTargetRecord \<noteq> exactTargetLabel (rbi_target input)
     then throw (Error ''Rollback policy activation target must match the exact target label of the rollback source.'')
     else
     let currentActive = findLatestActiveOrFrozenExactTargetActivation h s (rbi_target input) in
     rbind (createPolicyActivationRecord
       (rollback_record_input input currentActive rollbackTargetRecord)) (\<lambda>appliedRecord.
     rbind (update_historical h (upsertActivation h s appliedRecord) currentActive appliedRecord
       Act_rolled_back) (\<lambda>(updatedHistoricalRecord, s'). return
       (\<lparr> lcr_version = POLICY_ACTIVATION_LIFECYCLE_SPEC_VERSION,
          lcr_operationType = acr_operationType appliedRecord,
          lcr_targetLabel = acr_targetLabel appliedRecord,
          lcr_appliedRecord = appliedRecord,
          lcr_currentActiveRecord = currentActive,
          lcr_updatedHistoricalRecord = updatedHistoricalRecord,
          lcr_rollbackTargetRecord = Some rollbackTargetRecord \<rparr>, s'))))"

definition freeze_record_input :: "freeze_scope_input \<Rightarrow> activation_record option \<Rightarrow> bundle_reference \<Rightarrow> activation_record_input" where
  "freeze_record_input input currentActive bundle =
       \<lparr> ari_id = fsi_id input,
         ari_state = Some Act_frozen,
         ari_operationType = Some Op_freeze_scope,
         ari_target = fsi_target input,
         ari_bundle = bundle,
         ari_activatedBy = fsi_activatedBy input,
         ari_activatedAt = fsi_activatedAt input,
         ari_rolloutMode = Some Rolled_back,
         ari_reasonCode = Some (nullish (fsi_reasonCode input) ''emergency-freeze''),
         ari_rationale = fsi_rationale input,
         ari_previousActivationId = map_option acr_id currentActive,
         ari_supersededByActivationId = None,
         ari_rollbackOfActivationId = None,
         ari_freezeReason = Some (fsi_freezeReason input) \<rparr>"

definition freezePolicyActivationScope ::
  "bundle_host \<Rightarrow> freeze_scope_input \<Rightarrow> policy_store \<Rightarrow> (lifecycle_result \<times> policy_store) result" where
  "freezePolicyActivationScope h input s =
     (let currentActive = findLatestActiveOrFrozenExactTargetActivation h s (fsi_target input) in
     case nullish_opt (fsi_bundle input) (map_option acr_bundle currentActive) of
       None \<Rightarrow> throw (Error ''Cannot freeze policy activation scope without an active policy bundle or explicit bundle reference.'')
     | Some bundle \<Rightarrow>
     rbind (createPolicyActivationRecord
       (freeze_record_input input currentActive bundle)) (\<lambda>appliedRecord.
     rbind (update_historical h (upsertActivation h s appliedRecord) currentActive appliedRecord
       Act_superseded) (\<lambda>(updatedHistoricalRecord, s'). return
       (\<lparr> lcr_version = POLICY_ACTIVATION_LIFECYCLE_SPEC_VERSION,
          lcr_operationType = acr_operationType appliedRecord,
          lcr_targetLabel = acr_targetLabel appliedRecord,
          lcr_appliedRecord = appliedRecord,
          lcr_currentActiveRecord = currentActive,
          lcr_updatedHistoricalRecord = updatedHistoricalRecord,
          lcr_rollbackTargetRecord = None \<rparr>, s'))))"

section \<open>One live activation for each target\<close>

definition live :: "activation_record \<Rightarrow> bool" where
  "live r \<longleftrightarrow> acr_state r = Act_active \<or> acr_state r = Act_frozen"

definition settled :: "activation_record \<Rightarrow> bool" where
  "settled r \<longleftrightarrow>
     wf_activation r \<and> (acr_operationType r = Op_rollback_activation \<longrightarrow> acr_rollbackOfActivationId r \<noteq> None)"

definition one_live :: "activation_record set \<Rightarrow> bool" where
  "one_live R \<longleftrightarrow> (\<forall>a\<in>R. \<forall>b\<in>R. live a \<and> live b \<and> acr_targetLabel a = acr_targetLabel b \<longrightarrow> a = b)"

definition lifecycle_ok :: "policy_store \<Rightarrow> bool" where
  "lifecycle_ok s \<longleftrightarrow>
     distinct (map acr_id (pst_activations s)) \<and>
     (\<forall>r\<in>set (pst_activations s). settled r) \<and> one_live (set (pst_activations s))"

lemma lifecycle_ok_keys: "lifecycle_ok s \<Longrightarrow> activations.unique_keys s"
  by (simp add: lifecycle_ok_def activations.unique_keys_def)

lemma find_live_Some:
  "findLatestActiveOrFrozenExactTargetActivation h s t = Some c \<Longrightarrow>
   c \<in> set (pst_activations s) \<and> live c \<and> acr_targetLabel c = policyActivationTargetLabel t"
  unfolding findLatestActiveOrFrozenExactTargetActivation_def exactTargetActivations_def exactTargetLabel_def
  by (drule find_SomeD) (auto simp: live_def)

lemma find_live_None:
  "findLatestActiveOrFrozenExactTargetActivation h s t = None \<Longrightarrow>
   \<forall>r\<in>set (pst_activations s). acr_targetLabel r = policyActivationTargetLabel t \<longrightarrow> \<not> live r"
  unfolding findLatestActiveOrFrozenExactTargetActivation_def exactTargetActivations_def exactTargetLabel_def
  by (auto simp: live_def find_None_iff)

lemma markHistoricalActivation_eq:
  assumes "settled r" "state = Act_superseded \<or> state = Act_rolled_back" "k \<noteq> []" "trim k = k"
  shows "markHistoricalActivation r state k =
    Inr (r\<lparr> acr_state := state, acr_supersededByActivationId := Some k \<rparr>)"
proof -
  let ?i = "\<lparr> ari_id = acr_id r, ari_state = Some state, ari_operationType = Some (acr_operationType r),
    ari_target = acr_target r, ari_bundle = acr_bundle r, ari_activatedBy = acr_activatedBy r,
    ari_activatedAt = Iso (acr_activatedAt r), ari_rolloutMode = Some (acr_rolloutMode r),
    ari_reasonCode = Some (acr_reasonCode r), ari_rationale = acr_rationale r,
    ari_previousActivationId = acr_previousActivationId r, ari_supersededByActivationId = Some k,
    ari_rollbackOfActivationId = acr_rollbackOfActivationId r, ari_freezeReason = acr_freezeReason r \<rparr>"
  have r: "wf_activation r" using assms(1) by (simp add: settled_def)
  have "activation_input_ok ?i"
    using assms r
    by (auto simp: activation_input_ok_def activation_operation_for_def settled_def wf_activation_def
        wf_identifier_truthy)
  moreover have "activation_record_of ?i (acr_activatedAt r) =
      r\<lparr> acr_state := state, acr_supersededByActivationId := Some k \<rparr>"
    using r assms(3,4)
    by (intro activation_record.equality)
      (simp_all add: activation_record_of_def activation_operation_for_def wf_activation_def Let_def)
  ultimately show ?thesis
    unfolding markHistoricalActivation_def createPolicyActivationRecord_eq_Inr by auto
qed

lemma historical_settled:
  assumes "settled r" "state = Act_superseded \<or> state = Act_rolled_back" "k \<noteq> []" "trim k = k"
  shows "settled (r\<lparr> acr_state := state, acr_supersededByActivationId := Some k \<rparr>)"
  using assms by (auto simp: settled_def wf_activation_def)

text \<open>The two writes of an operation always succeed and leave the applied record alone in its label.\<close>

lemma replace_live:
  assumes ok: "lifecycle_ok s" and applied: "settled a" "acr_targetLabel a = policyActivationTargetLabel t"
    and state: "state = Act_superseded \<or> state = Act_rolled_back"
  obtains m s' where
    "update_historical h (upsertActivation h s a) (findLatestActiveOrFrozenExactTargetActivation h s t) a state
       = Inr (m, s')"
    "lifecycle_ok s'" "a \<in> set (pst_activations s')"
    "\<forall>r\<in>set (pst_activations s'). live r \<and> acr_targetLabel r = acr_targetLabel a \<longrightarrow> r = a"
    "pst_bundles s' = pst_bundles s" "pst_metadata s' = pst_metadata s"
proof -
  let ?cur = "findLatestActiveOrFrozenExactTargetActivation h s t"
  let ?s1 = "upsertActivation h s a"
  note keys = lifecycle_ok_keys [OF ok]
  have keys1: "activations.unique_keys ?s1" using keys by (rule activations.unique_keys_put)
  have acts1: "set (pst_activations ?s1) = insert a {y \<in> set (pst_activations s). acr_id y \<noteq> acr_id a}"
    using keys by (rule activations.members_put)
  have a_id: "acr_id a \<noteq> []" "trim (acr_id a) = acr_id a"
    using applied(1) by (auto simp: settled_def wf_activation_def)
  have others: "settled r" if "r \<in> set (pst_activations s)" for r
    using ok that by (simp add: lifecycle_ok_def)
  show thesis
  proof (cases "\<exists>c. ?cur = Some c \<and> acr_id c \<noteq> acr_id a")
    case True
    then obtain c where cur: "?cur = Some c" and ne: "acr_id c \<noteq> acr_id a" by blast
    have c: "c \<in> set (pst_activations s)" "live c" "acr_targetLabel c = acr_targetLabel a"
      using find_live_Some [OF cur] applied(2) by auto
    let ?m = "c\<lparr> acr_state := state, acr_supersededByActivationId := Some (acr_id a) \<rparr>"
    let ?s2 = "upsertActivation h ?s1 ?m"
    have "update_historical h ?s1 ?cur a state = Inr (Some ?m, ?s2)"
      using markHistoricalActivation_eq [OF others [OF c(1)] state a_id] cur ne
      by (simp add: update_historical_def)
    moreover have acts2: "set (pst_activations ?s2) =
        insert ?m (insert a {y \<in> set (pst_activations s). acr_id y \<noteq> acr_id a \<and> acr_id y \<noteq> acr_id c})"
      using activations.members_put [OF keys1, of h ?m] acts1 ne by auto
    moreover have dead: "\<not> live ?m" using state by (auto simp: live_def)
    moreover have only: "\<forall>r\<in>set (pst_activations ?s2). live r \<and> acr_targetLabel r = acr_targetLabel a \<longrightarrow> r = a"
    proof (intro ballI impI)
      fix r assume r: "r \<in> set (pst_activations ?s2)" "live r \<and> acr_targetLabel r = acr_targetLabel a"
      have "r = c" if "r \<in> set (pst_activations s)"
        using ok that c r(2) unfolding lifecycle_ok_def one_live_def by metis
      with r dead show "r = a" unfolding acts2 by blast
    qed
    moreover have "lifecycle_ok ?s2"
      unfolding lifecycle_ok_def
    proof (intro conjI ballI)
      show "distinct (map acr_id (pst_activations ?s2))"
        using activations.unique_keys_put [OF keys1] by (simp add: activations.unique_keys_def)
      show "settled r" if "r \<in> set (pst_activations ?s2)" for r
        using that others applied(1) historical_settled [OF others [OF c(1)] state a_id] unfolding acts2 by blast
      show "one_live (set (pst_activations ?s2))"
        unfolding one_live_def
      proof (intro ballI impI)
        fix x y assume xy: "x \<in> set (pst_activations ?s2)" "y \<in> set (pst_activations ?s2)"
          "live x \<and> live y \<and> acr_targetLabel x = acr_targetLabel y"
        show "x = y"
        proof (cases "acr_targetLabel x = acr_targetLabel a")
          case True
          with only xy show ?thesis by metis
        next
          case False
          then have "x \<in> set (pst_activations s)" "y \<in> set (pst_activations s)"
            using xy dead unfolding acts2 by auto
          with ok xy(3) show ?thesis unfolding lifecycle_ok_def one_live_def by blast
        qed
      qed
    qed
    ultimately show ?thesis using that [of "Some ?m" ?s2] by simp
  next
    case False
    have "update_historical h ?s1 ?cur a state = Inr (None, ?s1)"
      using False by (auto simp: update_historical_def split: option.split)
    moreover have only: "\<forall>r\<in>set (pst_activations ?s1). live r \<and> acr_targetLabel r = acr_targetLabel a \<longrightarrow> r = a"
    proof (intro ballI impI)
      fix r assume r: "r \<in> set (pst_activations ?s1)" "live r \<and> acr_targetLabel r = acr_targetLabel a"
      show "r = a"
      proof (rule ccontr)
        assume "r \<noteq> a"
        then have old: "r \<in> set (pst_activations s)" "acr_id r \<noteq> acr_id a" using r(1) unfolding acts1 by auto
        obtain c where cur: "?cur = Some c"
          using find_live_None [of h s t] old(1) r(2) applied(2) by fastforce
        then have "c = r"
          using find_live_Some [OF cur] old(1) r(2) applied(2) ok
          unfolding lifecycle_ok_def one_live_def by auto
        with False cur old(2) show False by blast
      qed
    qed
    moreover have "lifecycle_ok ?s1"
      unfolding lifecycle_ok_def
    proof (intro conjI ballI)
      show "distinct (map acr_id (pst_activations ?s1))"
        using keys1 by (simp add: activations.unique_keys_def)
      show "settled r" if "r \<in> set (pst_activations ?s1)" for r
        using that others applied(1) unfolding acts1 by blast
      show "one_live (set (pst_activations ?s1))"
        using ok only unfolding acts1 lifecycle_ok_def one_live_def by (metis insertE mem_Collect_eq)
    qed
    ultimately show ?thesis using that [of None ?s1] acts1 by simp
  qed
qed

section \<open>Runs of the lifecycle\<close>

datatype lifecycle_op =
    Stage_candidate stage_activation_input
  | Activate activate_bundle_input
  | Rollback rollback_activation_input
  | Freeze freeze_scope_input

fun lifecycle_step ::
  "bundle_host \<Rightarrow> lifecycle_op \<Rightarrow> policy_store \<Rightarrow> (lifecycle_result \<times> policy_store) result" where
  "lifecycle_step h (Stage_candidate i) s = stagePolicyActivationCandidate h i s"
| "lifecycle_step h (Activate i) s = activatePolicyBundle h i s"
| "lifecycle_step h (Rollback i) s = rollbackPolicyActivation h i s"
| "lifecycle_step h (Freeze i) s = freezePolicyActivationScope h i s"

text \<open>The stores that operations reach from the empty store, bundles and packs being written in between.\<close>

inductive lifecycle_run :: "bundle_host \<Rightarrow> signing_host \<Rightarrow> policy_store \<Rightarrow> bool" for h k where
  run_empty: "lifecycle_run h k defaultPolicyStoreFile"
| run_step: "lifecycle_run h k s \<Longrightarrow> lifecycle_step h op s = Inr (r, s') \<Longrightarrow> lifecycle_run h k s'"
| run_bundle: "lifecycle_run h k s \<Longrightarrow> upsertBundle h k now i s = Inr (b, s') \<Longrightarrow> lifecycle_run h k s'"
| run_pack: "lifecycle_run h k s \<Longrightarrow> lifecycle_run h k (upsertPack h s p)"
| run_metadata: "lifecycle_run h k s \<Longrightarrow> lifecycle_run h k (setMetadata m s)"

lemma created_settled:
  "createPolicyActivationRecord i = Inr r \<Longrightarrow>
   (acr_operationType r = Op_rollback_activation \<longrightarrow> acr_rollbackOfActivationId r \<noteq> None) \<Longrightarrow> settled r"
  by (auto simp: settled_def dest: created_activation_wf)

text \<open>The outcome of an operation that makes a record live: it is created, and it is alone.\<close>

definition installs ::
  "policy_store \<Rightarrow> activation_record \<Rightarrow> activation_target \<Rightarrow> policy_store \<Rightarrow> bool" where
  "installs s a t s' \<longleftrightarrow>
     lifecycle_ok s' \<and> a \<in> set (pst_activations s') \<and> acr_target a = t \<and>
     acr_targetLabel a = policyActivationTargetLabel t \<and> live a \<and>
     (\<forall>r\<in>set (pst_activations s'). live r \<and> acr_targetLabel r = policyActivationTargetLabel t \<longrightarrow> r = a) \<and>
     pst_bundles s' = pst_bundles s \<and> pst_metadata s' = pst_metadata s"

lemma installs_by_replacing:
  assumes ok: "lifecycle_ok s" and created: "createPolicyActivationRecord i = Inr a"
    and shape: "ari_target i = t" "live a" "settled a"
    and state: "state = Act_superseded \<or> state = Act_rolled_back"
    and written: "update_historical h (upsertActivation h s a)
      (findLatestActiveOrFrozenExactTargetActivation h s t) a state = Inr (m, s')"
  shows "installs s a t s'"
proof -
  have label: "acr_target a = t" "acr_targetLabel a = policyActivationTargetLabel t"
    using created shape(1) by (auto simp: createPolicyActivationRecord_eq_Inr activation_record_of_def Let_def)
  from replace_live [OF ok shape(3) label(2) state, of h] obtain m' s'' where
    r: "update_historical h (upsertActivation h s a)
      (findLatestActiveOrFrozenExactTargetActivation h s t) a state = Inr (m', s'')"
    "lifecycle_ok s''" "a \<in> set (pst_activations s'')"
    "\<forall>r\<in>set (pst_activations s''). live r \<and> acr_targetLabel r = acr_targetLabel a \<longrightarrow> r = a"
    "pst_bundles s'' = pst_bundles s" "pst_metadata s'' = pst_metadata s" .
  have same: "s'' = s'" using r(1) written by simp
  show ?thesis
    unfolding installs_def using r(2-6) [unfolded same label(2)] label shape(2) by blast
qed

lemma created_fields:
  assumes "createPolicyActivationRecord i = Inr a" "ari_state i = Some st" "ari_operationType i = Some op"
  shows "acr_state a = st" "acr_operationType a = op" "acr_bundle a = ari_bundle i"
    "acr_rollbackOfActivationId a = normalizeOptionalText (ari_rollbackOfActivationId i)"
    "acr_id a = trim (ari_id i)" "ari_activatedAt i = Iso (acr_activatedAt a)"
  using assms
  by (auto simp: createPolicyActivationRecord_eq_Inr activation_record_of_def activation_operation_for_def Let_def)

text \<open>An operation that succeeds has created its record and made both writes.\<close>

lemma two_writes:
  assumes "rbind c (\<lambda>a. rbind (u a) (\<lambda>(m, s'). Inr (f a m, s'))) = Inr (r, s')"
  obtains a m where "c = Inr a" "u a = Inr (m, s')" "r = f a m"
  using assms by (cases c) (auto split: prod.splits)

lemma activate_installs:
  assumes "lifecycle_ok s" "activatePolicyBundle h i s = Inr (r, s')"
  shows "installs s (lcr_appliedRecord r) (abi_target i) s'"
    and "acr_state (lcr_appliedRecord r) = Act_active" "acr_bundle (lcr_appliedRecord r) = abi_bundle i"
proof -
  let ?cur = "findLatestActiveOrFrozenExactTargetActivation h s (abi_target i)"
  define inp where "inp = activate_record_input i ?cur"
  have inp: "ari_state inp = Some Act_active" "ari_operationType inp = Some Op_activate_bundle"
    "ari_target inp = abi_target i" "ari_bundle inp = abi_bundle i"
    by (simp_all add: inp_def activate_record_input_def)
  obtain m where c: "createPolicyActivationRecord inp = Inr (lcr_appliedRecord r)"
    "update_historical h (upsertActivation h s (lcr_appliedRecord r)) ?cur (lcr_appliedRecord r)
       Act_superseded = Inr (m, s')"
  proof (rule two_writes)
    show "rbind (createPolicyActivationRecord inp) (\<lambda>a.
      rbind (update_historical h (upsertActivation h s a) ?cur a Act_superseded) (\<lambda>(m, s'). Inr
        (\<lparr> lcr_version = POLICY_ACTIVATION_LIFECYCLE_SPEC_VERSION, lcr_operationType = acr_operationType a,
           lcr_targetLabel = acr_targetLabel a, lcr_appliedRecord = a, lcr_currentActiveRecord = ?cur,
           lcr_updatedHistoricalRecord = m, lcr_rollbackTargetRecord = None \<rparr>, s'))) = Inr (r, s')"
      using assms(2) unfolding activatePolicyBundle_def Let_def inp_def .
  qed (rule that, simp_all)
  note f = created_fields [OF c(1) inp(1,2)]
  show "installs s (lcr_appliedRecord r) (abi_target i) s'"
    by (rule installs_by_replacing [OF assms(1) c(1) inp(3) _ _ _ c(2)])
      (use f in \<open>simp_all add: live_def created_settled [OF c(1)]\<close>)
  show "acr_state (lcr_appliedRecord r) = Act_active" "acr_bundle (lcr_appliedRecord r) = abi_bundle i"
    using f inp(4) by simp_all
qed

lemma rollback_installs:
  assumes "lifecycle_ok s" "rollbackPolicyActivation h i s = Inr (r, s')"
  obtains source where "getActivation s (rbi_rollbackTargetActivationId i) = Some source"
    "acr_targetLabel source = policyActivationTargetLabel (rbi_target i)"
    "installs s (lcr_appliedRecord r) (rbi_target i) s'"
    "acr_state (lcr_appliedRecord r) = Act_active" "acr_bundle (lcr_appliedRecord r) = acr_bundle source"
proof -
  let ?cur = "findLatestActiveOrFrozenExactTargetActivation h s (rbi_target i)"
  obtain source where source: "getActivation s (rbi_rollbackTargetActivationId i) = Some source"
    "acr_targetLabel source = exactTargetLabel (rbi_target i)"
    using assms(2) by (auto simp: rollbackPolicyActivation_def split: option.splits if_split_asm)
  define inp where "inp = rollback_record_input i ?cur source"
  have inp: "ari_state inp = Some Act_active" "ari_operationType inp = Some Op_rollback_activation"
    "ari_target inp = rbi_target i" "ari_bundle inp = acr_bundle source"
    "ari_rollbackOfActivationId inp = Some (acr_id source)"
    by (simp_all add: inp_def rollback_record_input_def)
  obtain m where c: "createPolicyActivationRecord inp = Inr (lcr_appliedRecord r)"
    "update_historical h (upsertActivation h s (lcr_appliedRecord r)) ?cur (lcr_appliedRecord r)
       Act_rolled_back = Inr (m, s')"
  proof (rule two_writes)
    show "rbind (createPolicyActivationRecord inp) (\<lambda>a.
      rbind (update_historical h (upsertActivation h s a) ?cur a Act_rolled_back) (\<lambda>(m, s'). Inr
        (\<lparr> lcr_version = POLICY_ACTIVATION_LIFECYCLE_SPEC_VERSION, lcr_operationType = acr_operationType a,
           lcr_targetLabel = acr_targetLabel a, lcr_appliedRecord = a, lcr_currentActiveRecord = ?cur,
           lcr_updatedHistoricalRecord = m, lcr_rollbackTargetRecord = Some source \<rparr>, s'))) = Inr (r, s')"
      using assms(2) source unfolding rollbackPolicyActivation_def Let_def inp_def by (simp del: rbind_eq_Inr)
  qed (rule that, simp_all)
  note f = created_fields [OF c(1) inp(1,2)]
  have "source \<in> set (pst_activations s)"
    using activations.lookup_member_key [OF source(1)] by blast
  then have "wf_activation source" using assms(1) by (simp add: lifecycle_ok_def settled_def)
  then have "acr_rollbackOfActivationId (lcr_appliedRecord r) \<noteq> None"
    using f(4) inp(5) by (simp add: wf_activation_def Let_def)
  then have "settled (lcr_appliedRecord r)" using created_settled [OF c(1)] by blast
  then have "installs s (lcr_appliedRecord r) (rbi_target i) s'"
    by (intro installs_by_replacing [OF assms(1) c(1) inp(3) _ _ _ c(2)]) (use f in \<open>simp_all add: live_def\<close>)
  with source f inp(4) show thesis using that by (simp add: exactTargetLabel_def)
qed

lemma freeze_installs:
  assumes "lifecycle_ok s" "freezePolicyActivationScope h i s = Inr (r, s')"
  shows "installs s (lcr_appliedRecord r) (fsi_target i) s'"
    and "acr_state (lcr_appliedRecord r) = Act_frozen"
proof -
  let ?cur = "findLatestActiveOrFrozenExactTargetActivation h s (fsi_target i)"
  obtain b where b: "nullish_opt (fsi_bundle i) (map_option acr_bundle ?cur) = Some b"
    using assms(2) by (auto simp: freezePolicyActivationScope_def Let_def split: option.splits)
  define inp where "inp = freeze_record_input i ?cur b"
  have inp: "ari_state inp = Some Act_frozen" "ari_operationType inp = Some Op_freeze_scope"
    "ari_target inp = fsi_target i"
    by (simp_all add: inp_def freeze_record_input_def)
  obtain m where c: "createPolicyActivationRecord inp = Inr (lcr_appliedRecord r)"
    "update_historical h (upsertActivation h s (lcr_appliedRecord r)) ?cur (lcr_appliedRecord r)
       Act_superseded = Inr (m, s')"
  proof (rule two_writes)
    show "rbind (createPolicyActivationRecord inp) (\<lambda>a.
      rbind (update_historical h (upsertActivation h s a) ?cur a Act_superseded) (\<lambda>(m, s'). Inr
        (\<lparr> lcr_version = POLICY_ACTIVATION_LIFECYCLE_SPEC_VERSION, lcr_operationType = acr_operationType a,
           lcr_targetLabel = acr_targetLabel a, lcr_appliedRecord = a, lcr_currentActiveRecord = ?cur,
           lcr_updatedHistoricalRecord = m, lcr_rollbackTargetRecord = None \<rparr>, s'))) = Inr (r, s')"
      using assms(2) b unfolding freezePolicyActivationScope_def Let_def inp_def by (simp del: rbind_eq_Inr)
  qed (rule that, simp_all)
  note f = created_fields [OF c(1) inp(1,2)]
  show "installs s (lcr_appliedRecord r) (fsi_target i) s'"
    by (rule installs_by_replacing [OF assms(1) c(1) inp(3) _ _ _ c(2)])
      (use f in \<open>simp_all add: live_def created_settled [OF c(1)]\<close>)
  show "acr_state (lcr_appliedRecord r) = Act_frozen" using f by simp
qed

lemma stage_keeps_ok:
  assumes ok: "lifecycle_ok s" and staged: "stagePolicyActivationCandidate h i s = Inr (r, s')"
  shows "lifecycle_ok s'" "\<not> live (lcr_appliedRecord r)"
proof -
  define inp where "inp = stage_record_input i (findLatestExactTargetActivation h s (sai_target i))"
  obtain a where a: "createPolicyActivationRecord inp = Inr a" "s' = upsertActivation h s a"
    "lcr_appliedRecord r = a"
    using staged by (auto simp: stagePolicyActivationCandidate_def inp_def Let_def)
  have inp: "ari_state inp = Some Act_candidate" "ari_operationType inp = Some Op_activate_bundle"
    by (simp_all add: inp_def stage_record_input_def)
  note f = created_fields [OF a(1) inp]
  have dead: "\<not> live a" and settled: "settled a"
    using f by (simp_all add: live_def created_settled [OF a(1)])
  note keys = lifecycle_ok_keys [OF ok]
  have acts: "set (pst_activations s') = insert a {y \<in> set (pst_activations s). acr_id y \<noteq> acr_id a}"
    unfolding a(2) using keys by (rule activations.members_put)
  have "distinct (map acr_id (pst_activations s'))"
    using activations.unique_keys_put [OF keys] by (simp add: a(2) activations.unique_keys_def)
  moreover have "\<forall>x\<in>set (pst_activations s'). settled x"
    using ok settled unfolding acts lifecycle_ok_def by blast
  moreover have "one_live (set (pst_activations s'))"
    using ok dead unfolding acts lifecycle_ok_def one_live_def by blast
  ultimately show "lifecycle_ok s'" by (simp add: lifecycle_ok_def)
  show "\<not> live (lcr_appliedRecord r)" using dead a(3) by simp
qed

lemma step_keeps_ok:
  assumes ok: "lifecycle_ok s" and step: "lifecycle_step h op s = Inr (r, s')"
  shows "lifecycle_ok s'"
proof (cases op)
  case (Stage_candidate i)
  with step show ?thesis by (simp add: stage_keeps_ok [OF ok])
next
  case (Activate i)
  with step activate_installs(1) [OF ok] show ?thesis by (simp add: installs_def)
next
  case (Rollback i)
  then have "rollbackPolicyActivation h i s = Inr (r, s')" using step by simp
  from rollback_installs [OF ok this] show ?thesis by (auto simp: installs_def)
next
  case (Freeze i)
  with step freeze_installs(1) [OF ok] show ?thesis by (simp add: installs_def)
qed

lemma lifecycle_ok_cong: "pst_activations s' = pst_activations s \<Longrightarrow> lifecycle_ok s' = lifecycle_ok s"
  by (simp add: lifecycle_ok_def)

lemma upsertBundle_activations:
  "upsertBundle h k now i s = Inr (b, s') \<Longrightarrow> pst_activations s' = pst_activations s"
  by (auto simp: upsertBundle_def put_bundle_def)

lemma run_ok: "lifecycle_run h k s \<Longrightarrow> lifecycle_ok s"
proof (induction rule: lifecycle_run.induct)
  case run_empty
  show ?case by (simp add: lifecycle_ok_def defaultPolicyStoreFile_def one_live_def)
next
  case (run_step s op r s')
  then show ?case by (simp add: step_keeps_ok)
next
  case (run_bundle s now i b s')
  then show ?case using lifecycle_ok_cong [OF upsertBundle_activations] by blast
next
  case (run_pack s p)
  then show ?case by (simp add: lifecycle_ok_def upsertPack_def)
next
  case (run_metadata s m)
  then show ?case by (simp add: lifecycle_ok_def setMetadata_def)
qed

lemma distinct_singleton: "distinct xs \<Longrightarrow> set xs = {a} \<Longrightarrow> xs = [a]"
proof -
  assume xs: "distinct xs" "set xs = {a}"
  then have "length xs = 1" using distinct_card [OF xs(1)] by simp
  moreover have "a \<in> set xs" using xs(2) by simp
  ultimately show ?thesis by (simp only: length_one_member)
qed

lemma live_alone:
  assumes "installs s a t s'"
  shows "filter live (exactTargetActivations h s' t) = [a]"
proof -
  let ?L = "filter live (exactTargetActivations h s' t)"
  have "distinct (pst_activations s')"
    using assms by (auto simp: installs_def lifecycle_ok_def distinct_map)
  then have "distinct (listActivations h s')"
    by (metis listActivations_def mset_eq_imp_distinct_iff mset_sort_with)
  then have "distinct ?L" by (simp add: exactTargetActivations_def)
  moreover have "set ?L = {a}"
    using assms unfolding installs_def exactTargetActivations_def exactTargetLabel_def by auto
  ultimately show ?thesis by (rule distinct_singleton)
qed

lemma at_most_one_live:
  assumes "lifecycle_ok s"
  shows "length (filter live (exactTargetActivations h s t)) \<le> 1"
proof -
  let ?L = "filter live (exactTargetActivations h s t)"
  have "distinct (pst_activations s)"
    using assms by (auto simp: lifecycle_ok_def distinct_map)
  then have "distinct (listActivations h s)"
    by (metis listActivations_def mset_eq_imp_distinct_iff mset_sort_with)
  then have d: "distinct ?L" by (simp add: exactTargetActivations_def)
  have "x = y" if "x \<in> set ?L" "y \<in> set ?L" for x y
    using that assms unfolding lifecycle_ok_def one_live_def exactTargetActivations_def by auto
  then have "card (set ?L) \<le> 1"
    by (simp only: card_le_Suc0_iff_eq [OF finite_set] One_nat_def) blast
  with d show ?thesis by (simp only: distinct_card)
qed

text \<open>
  C32: In every store that staging, activating, rolling back and freezing reach, in any order
  and with any instants (also earlier ones), at most one record of a target is active or
  frozen. Activating or rolling back leaves exactly the record it created, active, with the
  requested bundle, or the bundle of the record rolled back to; freezing leaves exactly its
  record, frozen.
\<close>

theorem one_live_activation:
  assumes "lifecycle_run h k s"
  shows "length (filter live (exactTargetActivations h s t)) \<le> 1 \<and>
    (\<forall>i r s'. activatePolicyBundle h i s = Inr (r, s') \<longrightarrow>
       filter live (exactTargetActivations h s' (abi_target i)) = [lcr_appliedRecord r] \<and>
       acr_state (lcr_appliedRecord r) = Act_active \<and> acr_bundle (lcr_appliedRecord r) = abi_bundle i) \<and>
    (\<forall>i r s'. rollbackPolicyActivation h i s = Inr (r, s') \<longrightarrow>
       filter live (exactTargetActivations h s' (rbi_target i)) = [lcr_appliedRecord r] \<and>
       acr_state (lcr_appliedRecord r) = Act_active \<and>
       (\<exists>source. getActivation s (rbi_rollbackTargetActivationId i) = Some source \<and>
          acr_targetLabel source = policyActivationTargetLabel (rbi_target i) \<and>
          acr_bundle (lcr_appliedRecord r) = acr_bundle source)) \<and>
    (\<forall>i r s'. freezePolicyActivationScope h i s = Inr (r, s') \<longrightarrow>
       filter live (exactTargetActivations h s' (fsi_target i)) = [lcr_appliedRecord r] \<and>
       acr_state (lcr_appliedRecord r) = Act_frozen)"
proof -
  note ok = run_ok [OF assms]
  show ?thesis
  proof (intro conjI allI impI)
    show "length (filter live (exactTargetActivations h s t)) \<le> 1" by (rule at_most_one_live [OF ok])
  next
    fix i r s' assume act: "activatePolicyBundle h i s = Inr (r, s')"
    show "filter live (exactTargetActivations h s' (abi_target i)) = [lcr_appliedRecord r]"
      by (rule live_alone [OF activate_installs(1) [OF ok act]])
    show "acr_state (lcr_appliedRecord r) = Act_active" "acr_bundle (lcr_appliedRecord r) = abi_bundle i"
      by (fact activate_installs(2,3) [OF ok act])+
  next
    fix i r s' assume rb: "rollbackPolicyActivation h i s = Inr (r, s')"
    obtain source where src: "getActivation s (rbi_rollbackTargetActivationId i) = Some source"
      "acr_targetLabel source = policyActivationTargetLabel (rbi_target i)"
      "installs s (lcr_appliedRecord r) (rbi_target i) s'"
      "acr_state (lcr_appliedRecord r) = Act_active" "acr_bundle (lcr_appliedRecord r) = acr_bundle source"
      using rollback_installs [OF ok rb] .
    show "filter live (exactTargetActivations h s' (rbi_target i)) = [lcr_appliedRecord r]"
      by (rule live_alone [OF src(3)])
    show "acr_state (lcr_appliedRecord r) = Act_active" by (fact src(4))
    show "\<exists>source. getActivation s (rbi_rollbackTargetActivationId i) = Some source \<and>
          acr_targetLabel source = policyActivationTargetLabel (rbi_target i) \<and>
          acr_bundle (lcr_appliedRecord r) = acr_bundle source"
      using src(1,2,5) by blast
  next
    fix i r s' assume fr: "freezePolicyActivationScope h i s = Inr (r, s')"
    show "filter live (exactTargetActivations h s' (fsi_target i)) = [lcr_appliedRecord r]"
      by (rule live_alone [OF freeze_installs(1) [OF ok fr]])
    show "acr_state (lcr_appliedRecord r) = Act_frozen"
      by (fact freeze_installs(2) [OF ok fr])
  qed
qed

text \<open>
  C38: In every store the operations reach, every activation record is well formed: its version and
  compatibility are those of the program, its selector and its label are computed from its
  target, its identifiers, reason and rationale are trimmed and not empty, a frozen record says
  why it is frozen, a superseded or rolled-back one names its successor, and a rollback names what
  it rolls back. The identifiers are unique, so each record is found under its own.
\<close>

theorem stored_activations_well_formed:
  assumes "lifecycle_run h k s" "r \<in> set (pst_activations s)"
  shows "wf_activation r \<and> getActivation s (acr_id r) = Some r \<and>
    (acr_operationType r = Op_rollback_activation \<longrightarrow> acr_rollbackOfActivationId r \<noteq> None) \<and>
    (\<forall>x\<in>set (pst_activations s). acr_id x = acr_id r \<longrightarrow> x = r)"
proof -
  have ok: "lifecycle_ok s" by (rule run_ok [OF assms(1)])
  have only: "\<forall>x\<in>set (pst_activations s). acr_id x = acr_id r \<longrightarrow> x = r"
    using ok assms(2) by (auto simp: lifecycle_ok_def distinct_map inj_on_def)
  moreover have "getActivation s (acr_id r) = Some r"
    using activations.lookup_iff_member [OF lifecycle_ok_keys [OF ok]] assms(2) by blast
  ultimately show ?thesis using ok assms(2) by (auto simp: lifecycle_ok_def settled_def)
qed

section \<open>Examples\<close>

definition sample_host :: bundle_host where
  "sample_host =
     \<lparr> bh_sha256 = (\<lambda>s. s), bh_localeCompare = compareCanonicalLabels, bh_number = (\<lambda>p. JNumber (Num \<lfloor>p\<rfloor>)) \<rparr>"

definition sample_actor :: release_actor where
  "sample_actor = \<lparr> act_id = ''admin'', act_type = User, act_displayName = None, act_role = Some ''policy-admin'' \<rparr>"

definition sample_bundle :: "string \<Rightarrow> bundle_reference" where
  "sample_bundle b = \<lparr> bref_packId = ''p'', bref_bundleId = b, bref_bundleVersion = ''1'', bref_digest = ''d'' \<rparr>"

definition sample_activate :: "string \<Rightarrow> activation_target \<Rightarrow> string \<Rightarrow> activate_bundle_input" where
  "sample_activate key target bundle =
     \<lparr> abi_id = key, abi_target = target, abi_bundle = sample_bundle bundle, abi_activatedBy = sample_actor,
       abi_activatedAt = Iso 1000, abi_rolloutMode = Enforce, abi_reasonCode = None, abi_rationale = ''why'' \<rparr>"

definition sample_freeze :: "string \<Rightarrow> activation_target \<Rightarrow> string \<Rightarrow> freeze_scope_input" where
  "sample_freeze key target bundle =
     \<lparr> fsi_id = key, fsi_target = target, fsi_bundle = Some (sample_bundle bundle),
       fsi_activatedBy = sample_actor, fsi_activatedAt = Iso 500, fsi_freezeReason = ''incident'',
       fsi_rationale = ''why'', fsi_reasonCode = None \<rparr>"

text \<open>The store after a sequence of operations; an operation that throws leaves it as it was.\<close>

fun run_ops :: "bundle_host \<Rightarrow> lifecycle_op list \<Rightarrow> policy_store \<Rightarrow> policy_store" where
  "run_ops h [] s = s"
| "run_ops h (op # ops) s =
     (case lifecycle_step h op s of Inl e \<Rightarrow> run_ops h ops s | Inr (r, s') \<Rightarrow> run_ops h ops s')"

lemma run_ops_run: "lifecycle_run h k s \<Longrightarrow> lifecycle_run h k (run_ops h ops s)"
  by (induction ops arbitrary: s) (auto split: sum.split intro: run_step)

definition sample_store :: policy_store where
  "sample_store = run_ops sample_host
     [Freeze (sample_freeze ''f1'' (sample_target ''prod'' (Some ''t'')) ''b0''),
      Activate (sample_activate ''a1'' (sample_target ''prod'' None) ''b1''),
      Activate (sample_activate ''a2'' (sample_target ''prod'' None) ''b2'')]
     defaultPolicyStoreFile"

lemma sample_store_run: "lifecycle_run sample_host k sample_store"
  unfolding sample_store_def by (rule run_ops_run [OF run_empty])

theorem one_live_activation_witness:
  "\<exists>a. filter live (exactTargetActivations sample_host sample_store (sample_target ''prod'' None)) = [a]"
proof -
  have "length (filter live (exactTargetActivations sample_host sample_store (sample_target ''prod'' None))) \<le> 1"
    using one_live_activation [OF sample_store_run] by blast
  moreover have "filter live (exactTargetActivations sample_host sample_store (sample_target ''prod'' None)) \<noteq> []"
    by code_simp
  ultimately show ?thesis
    by (cases "filter live (exactTargetActivations sample_host sample_store (sample_target ''prod'' None))") auto
qed

theorem stored_activations_well_formed_witness:
  "\<exists>r. wf_activation r \<and> acr_state r = Act_superseded \<and> getActivation sample_store ''a1'' = Some r"
proof -
  let ?historical = "map (\<lambda>r. (acr_id r, acr_state r))
    (filter (\<lambda>r. acr_state r = Act_superseded) (pst_activations sample_store))"
  have "?historical = [(''a1'', Act_superseded)]" by code_simp
  then have "(''a1'', Act_superseded) \<in> set ?historical" by (simp only: list.set insertI1)
  then obtain r where r: "r \<in> set (pst_activations sample_store)" "acr_id r = ''a1''" "acr_state r = Act_superseded"
    by auto
  have "wf_activation r" "getActivation sample_store (acr_id r) = Some r"
    using stored_activations_well_formed [OF sample_store_run r(1)] by blast+
  then show ?thesis unfolding r(2) by (intro exI [of _ r] conjI r(3))
qed

section \<open>An identifier used again\<close>

lemma update_historical_members:
  assumes "activations.unique_keys s" "update_historical h (upsertActivation h s a) cur a state = Inr (m, s')"
    and "r \<in> set (pst_activations s')"
  shows "r = a \<or> m = Some r \<or> r \<in> set (pst_activations s) \<and> acr_id r \<noteq> acr_id a"
proof -
  have acts1: "set (pst_activations (upsertActivation h s a)) =
      insert a {y \<in> set (pst_activations s). acr_id y \<noteq> acr_id a}"
    using assms(1) by (rule activations.members_put)
  show ?thesis
  proof (cases m)
    case None
    then have "s' = upsertActivation h s a"
      using assms(2) by (auto simp: update_historical_def split: option.splits if_split_asm)
    with assms(3) acts1 show ?thesis by auto
  next
    case (Some x)
    then have "s' = upsertActivation h (upsertActivation h s a) x"
      using assms(2) by (auto simp: update_historical_def split: option.splits if_split_asm)
    then have "set (pst_activations s') = insert x {y \<in> set (pst_activations (upsertActivation h s a)). acr_id y \<noteq> acr_id x}"
      using activations.members_put [OF activations.unique_keys_put [OF assms(1)]] by blast
    with Some assms(3) acts1 show ?thesis by auto
  qed
qed

lemma historical_not_live:
  assumes "update_historical h s1 cur a state = Inr (Some m, s')" "state = Act_superseded \<or> state = Act_rolled_back"
  shows "\<not> live m"
proof -
  obtain c where "markHistoricalActivation c state (acr_id a) = Inr m"
    using assms(1) by (auto simp: update_historical_def split: option.splits if_split_asm)
  then have "acr_state m = state"
    by (auto simp: markHistoricalActivation_def dest: created_fields(1))
  with assms(2) show ?thesis by (auto simp: live_def)
qed

text \<open>
  C39: An activation whose identifier is already used replaces the record with that identifier,
  whatever its target: activating a bundle for one target under the identifier of the live
  record of another leaves the other target without a live record, without a trace. A frozen
  scope is unfrozen that way.
\<close>

theorem reused_identifier_drops_live:
  assumes "lifecycle_run h k s" and "old \<in> set (pst_activations s)" "live old"
    and "activatePolicyBundle h i s = Inr (r, s')"
    and "trim (abi_id i) = acr_id old" "policyActivationTargetLabel (abi_target i) \<noteq> acr_targetLabel old"
  shows "\<forall>x\<in>set (pst_activations s'). acr_targetLabel x = acr_targetLabel old \<longrightarrow> \<not> live x"
proof (intro ballI impI notI)
  note ok = run_ok [OF assms(1)]
  let ?cur = "findLatestActiveOrFrozenExactTargetActivation h s (abi_target i)"
  let ?a = "lcr_appliedRecord r"
  obtain m where w: "createPolicyActivationRecord (activate_record_input i ?cur) = Inr ?a"
    "update_historical h (upsertActivation h s ?a) ?cur ?a Act_superseded = Inr (m, s')"
    using assms(4) unfolding activatePolicyBundle_def Let_def by (rule two_writes) auto
  have a: "acr_id ?a = acr_id old"
    using created_fields(5) [OF w(1)] assms(5) by (simp add: activate_record_input_def)
  fix x assume x: "x \<in> set (pst_activations s')" "acr_targetLabel x = acr_targetLabel old" "live x"
  from update_historical_members [OF lifecycle_ok_keys [OF ok] w(2) x(1)]
  consider "x = ?a" | "m = Some x" | "x \<in> set (pst_activations s)" "acr_id x \<noteq> acr_id ?a" by blast
  then show False
  proof cases
    case 1
    with activate_installs(1) [OF ok assms(4)] x(2) assms(6) show False by (simp add: installs_def)
  next
    case 2
    with historical_not_live w(2) x(3) show False by blast
  next
    case 3
    then have "x = old"
      using ok x(2,3) assms(2,3) unfolding lifecycle_ok_def one_live_def by blast
    with 3(2) a show False by simp
  qed
qed

theorem reused_identifier_drops_live_witness:
  "filter live (exactTargetActivations sample_host sample_store (sample_target ''prod'' (Some ''t''))) \<noteq> [] \<and>
   filter (\<lambda>x. acr_targetLabel x = ''env:prod / tenant:t'' \<and> live x)
     (pst_activations (snd (projr (activatePolicyBundle sample_host
        (sample_activate ''f1'' (sample_target ''test'' None) ''b3'') sample_store)))) = []"
proof -
  let ?i = "sample_activate ''f1'' (sample_target ''test'' None) ''b3''"
  have "\<not> isl (activatePolicyBundle sample_host ?i sample_store)" by code_simp
  then obtain r s' where s': "activatePolicyBundle sample_host ?i sample_store = Inr (r, s')"
    by (cases "activatePolicyBundle sample_host ?i sample_store") auto
  obtain old where old: "getActivation sample_store ''f1'' = Some old" "live old"
    "acr_targetLabel old = ''env:prod / tenant:t''"
  proof -
    have "case getActivation sample_store ''f1'' of None \<Rightarrow> False
      | Some r \<Rightarrow> live r \<and> acr_targetLabel r = ''env:prod / tenant:t''"
      by code_simp
    then show ?thesis using that by (auto split: option.splits)
  qed
  have "old \<in> set (pst_activations sample_store)" "acr_id old = ''f1''"
    using activations.lookup_member_key [OF old(1)] by auto
  moreover have "trim (abi_id ?i) = ''f1''" "policyActivationTargetLabel (abi_target ?i) = ''env:test''"
    by code_simp+
  ultimately have "\<forall>x\<in>set (pst_activations s'). acr_targetLabel x = acr_targetLabel old \<longrightarrow> \<not> live x"
    using old(2,3) by (intro reused_identifier_drops_live [OF sample_store_run _ _ s']) auto
  moreover have "filter live (exactTargetActivations sample_host sample_store (sample_target ''prod'' (Some ''t''))) \<noteq> []"
    by code_simp
  ultimately show ?thesis using old(3) s' by (simp add: filter_empty_conv)
qed

end
