(* ===== verification/Bundle_Cache.thy ===== *)
theory Bundle_Cache
  imports Policy_Store
begin

text \<open>
  The cache controls of stored bundles: src/release-policy-control-plane/bundle-cache.ts.

  A bundle resource has a strong entity tag and two windows after it was validated: fresh, then
  usable when the origin fails, then expired. The header \<open>If-None-Match\<close> is a comma-separated
  list of entity tags.
\<close>

definition POLICY_BUNDLE_CACHE_POLICY_SPEC_VERSION :: string where
  "POLICY_BUNDLE_CACHE_POLICY_SPEC_VERSION = ''attestor.policy-bundle-cache-policy.v1''"

definition POLICY_BUNDLE_CACHE_DESCRIPTOR_SPEC_VERSION :: string where
  "POLICY_BUNDLE_CACHE_DESCRIPTOR_SPEC_VERSION = ''attestor.policy-bundle-cache-descriptor.v1''"

definition DEFAULT_POLICY_BUNDLE_MAX_AGE_SECONDS :: rat where
  "DEFAULT_POLICY_BUNDLE_MAX_AGE_SECONDS = 60"

definition DEFAULT_POLICY_BUNDLE_STALE_IF_ERROR_SECONDS :: rat where
  "DEFAULT_POLICY_BUNDLE_STALE_IF_ERROR_SECONDS = 300"

datatype bundle_freshness = Bundle_fresh | Bundle_stale_if_error | Bundle_expired

fun bundle_freshness_str :: "bundle_freshness \<Rightarrow> string" where
  "bundle_freshness_str Bundle_fresh = ''fresh''"
| "bundle_freshness_str Bundle_stale_if_error = ''stale-if-error''"
| "bundle_freshness_str Bundle_expired = ''expired''"

datatype conditional_status = Modified | Not_modified

record bundle_cache_policy =
  bcp_version :: string
  bcp_validator :: string
  bcp_maxAgeSeconds :: int
  bcp_staleIfErrorSeconds :: int
  bcp_failureMode :: string
  bcp_persistAcrossRestart :: bool

record bundle_cache_descriptor =
  bcd_version :: string
  bcd_resource :: string
  bcd_etag :: string
  bcd_digest :: string
  bcd_packId :: string
  bcd_bundleId :: string
  bcd_bundleVersion :: string
  bcd_storedAt :: timestamp
  bcd_validatedAt :: timestamp
  bcd_evaluatedAt :: timestamp
  bcd_freshUntil :: timestamp
  bcd_staleIfErrorUntil :: timestamp
  bcd_ageSeconds :: int
  bcd_freshness :: bundle_freshness
  bcd_cacheControl :: string
  bcd_persisted :: bool
  bcd_policy :: bundle_cache_policy

record bundle_cache_input =
  bci_maxAgeSeconds :: "rat js_number option"
  bci_staleIfErrorSeconds :: "rat js_number option"
  bci_persistAcrossRestart :: "bool option"
  bci_now :: "js_date option"
  bci_validatedAt :: "js_date option"
  bci_persisted :: "bool option"

definition normalizePositiveInteger :: "rat js_number \<Rightarrow> string \<Rightarrow> int result" where
  "normalizePositiveInteger value fieldName =
     (let bad = throw (Error (fieldName @ '' must be a non-negative integer.''))
      in case value of
           NonFinite \<Rightarrow> bad
         | Num p \<Rightarrow> if of_int \<lfloor>p\<rfloor> \<noteq> p \<or> p < 0 then bad else return \<lfloor>p\<rfloor>)"

definition cache_normalizeIsoTimestamp :: "js_date \<Rightarrow> string \<Rightarrow> timestamp result" where
  "cache_normalizeIsoTimestamp value fieldName =
     (case getTime value of
        None \<Rightarrow> throw (Error (''Policy bundle cache '' @ fieldName @ '' must be a valid ISO timestamp.''))
      | Some t \<Rightarrow> return t)"

definition cache_addSeconds :: "timestamp \<Rightarrow> int \<Rightarrow> timestamp result" where
  "cache_addSeconds isoTimestamp seconds = toISO (isoTimestamp + seconds * 1000)"

definition ageSeconds :: "timestamp \<Rightarrow> timestamp \<Rightarrow> int" where
  "ageSeconds validatedAt evaluatedAt = max 0 ((evaluatedAt - validatedAt) div 1000)"

text \<open>\<open>encodeURIComponent\<close>: the UTF-8 bytes of every character that is not unreserved, in hexadecimal.\<close>

definition unreserved_char :: "char \<Rightarrow> bool" where
  "unreserved_char c \<longleftrightarrow>
     (let n = of_char c :: nat in
      48 \<le> n \<and> n \<le> 57 \<or> 65 \<le> n \<and> n \<le> 90 \<or> 97 \<le> n \<and> n \<le> 122 \<or>
      c \<in> set (''-_.!~*'' @ [CHR 0x27] @ ''()''))"

definition hex_upper :: "nat \<Rightarrow> char" where
  "hex_upper d = char_of (if d < 10 then 48 + d else 55 + d)"

definition percent_byte :: "nat \<Rightarrow> string" where
  "percent_byte b = [CHR 0x25, hex_upper (b div 16), hex_upper (b mod 16)]"

definition percent_encode_char :: "char \<Rightarrow> string" where
  "percent_encode_char c =
     (let n = of_char c :: nat in
      if unreserved_char c then [c]
      else if n < 128 then percent_byte n
      else percent_byte (192 + n div 64) @ percent_byte (128 + n mod 64))"

definition encodeURIComponent :: "string \<Rightarrow> string" where
  "encodeURIComponent s = concat (map percent_encode_char s)"

text \<open>\<open>Date.toUTCString\<close>.\<close>

definition toUTCString :: "timestamp \<Rightarrow> string" where
  "toUTCString t =
     (let days = t div 86400000;
          (y, m, d) = civil_from_days days;
          ms = t mod 86400000;
          two = (\<lambda>n. pad_left 2 (string_of_nat (nat n)));
          weekday = [''Thu'', ''Fri'', ''Sat'', ''Sun'', ''Mon'', ''Tue'', ''Wed''] ! nat (days mod 7);
          month = [''Jan'', ''Feb'', ''Mar'', ''Apr'', ''May'', ''Jun'', ''Jul'', ''Aug'', ''Sep'',
                   ''Oct'', ''Nov'', ''Dec''] ! nat (m - 1);
          year = (if y < 0 then ''-'' @ pad_left 6 (string_of_nat (nat (- y)))
                  else pad_left 4 (string_of_nat (nat y)))
      in weekday @ '', '' @ two d @ '' '' @ month @ '' '' @ year @ '' '' @ two (ms div 3600000) @ '':'' @
         two (ms div 60000 mod 60) @ '':'' @ two (ms div 1000 mod 60) @ '' GMT'')"

definition httpDate :: "timestamp \<Rightarrow> string" where
  "httpDate isoTimestamp = toUTCString isoTimestamp"

definition createPolicyBundleResourcePath :: "stored_bundle \<Rightarrow> string" where
  "createPolicyBundleResourcePath bundle =
     ''policy-bundles/'' @ encodeURIComponent (stb_packId bundle) @ ''/'' @
     encodeURIComponent (stb_bundleId bundle)"

definition createPolicyBundleCachePolicy :: "bundle_cache_input \<Rightarrow> bundle_cache_policy result" where
  "createPolicyBundleCachePolicy input =
     rbind (normalizePositiveInteger
        (nullish (bci_maxAgeSeconds input) (Num DEFAULT_POLICY_BUNDLE_MAX_AGE_SECONDS))
        ''maxAgeSeconds'') (\<lambda>maxAgeSeconds.
     rbind (normalizePositiveInteger
        (nullish (bci_staleIfErrorSeconds input) (Num DEFAULT_POLICY_BUNDLE_STALE_IF_ERROR_SECONDS))
        ''staleIfErrorSeconds'') (\<lambda>staleIfErrorSeconds. return
       \<lparr> bcp_version = POLICY_BUNDLE_CACHE_POLICY_SPEC_VERSION,
         bcp_validator = ''strong-etag'',
         bcp_maxAgeSeconds = maxAgeSeconds,
         bcp_staleIfErrorSeconds = staleIfErrorSeconds,
         bcp_failureMode = ''fail-closed-after-stale-if-error'',
         bcp_persistAcrossRestart = nullish (bci_persistAcrossRestart input) True \<rparr>))"

definition quote_tag :: "string \<Rightarrow> string" where
  "quote_tag s = CHR 0x22 # s @ [CHR 0x22]"

definition policyBundleStrongEtag :: "stored_bundle \<Rightarrow> string" where
  "policyBundleStrongEtag bundle =
     quote_tag (nullish (map_option (\<lambda>signed. bsr_payloadDigest (isb_signatureRecord signed))
         (stb_signedBundle bundle))
       (bar_payloadDigest (stb_artifact bundle)))"

definition policyBundleCacheControlHeader :: "bundle_cache_policy \<Rightarrow> string" where
  "policyBundleCacheControlHeader policy =
     join_with '', ''
       [''private'',
        ''max-age='' @ string_of_int (bcp_maxAgeSeconds policy),
        ''stale-if-error='' @ string_of_int (bcp_staleIfErrorSeconds policy)]"

definition resolveFreshness :: "timestamp \<Rightarrow> timestamp \<Rightarrow> timestamp \<Rightarrow> bundle_freshness" where
  "resolveFreshness evaluatedAt freshUntil staleIfErrorUntil =
     (if evaluatedAt \<le> freshUntil then Bundle_fresh
      else if evaluatedAt \<le> staleIfErrorUntil then Bundle_stale_if_error
      else Bundle_expired)"

definition createPolicyBundleCacheDescriptor ::
  "stored_bundle \<Rightarrow> bundle_cache_input \<Rightarrow> bundle_cache_descriptor result" where
  "createPolicyBundleCacheDescriptor bundle input =
     rbind (createPolicyBundleCachePolicy input) (\<lambda>policy.
     rbind (cache_normalizeIsoTimestamp
        (nullish (bci_validatedAt input) (nullish (bci_now input) (Iso (stb_storedAt bundle))))
        ''validatedAt'') (\<lambda>validatedAt.
     rbind (cache_normalizeIsoTimestamp (nullish (bci_now input) (Iso validatedAt)) ''evaluatedAt'') (\<lambda>evaluatedAt.
     rbind (cache_addSeconds validatedAt (bcp_maxAgeSeconds policy)) (\<lambda>freshUntil.
     rbind (cache_addSeconds freshUntil (bcp_staleIfErrorSeconds policy)) (\<lambda>staleIfErrorUntil. return
       \<lparr> bcd_version = POLICY_BUNDLE_CACHE_DESCRIPTOR_SPEC_VERSION,
         bcd_resource = createPolicyBundleResourcePath bundle,
         bcd_etag = policyBundleStrongEtag bundle,
         bcd_digest = bref_digest (bmf_bundle (stb_manifest bundle)),
         bcd_packId = stb_packId bundle,
         bcd_bundleId = stb_bundleId bundle,
         bcd_bundleVersion = stb_bundleVersion bundle,
         bcd_storedAt = stb_storedAt bundle,
         bcd_validatedAt = validatedAt,
         bcd_evaluatedAt = evaluatedAt,
         bcd_freshUntil = freshUntil,
         bcd_staleIfErrorUntil = staleIfErrorUntil,
         bcd_ageSeconds = ageSeconds validatedAt evaluatedAt,
         bcd_freshness = resolveFreshness evaluatedAt freshUntil staleIfErrorUntil,
         bcd_cacheControl = policyBundleCacheControlHeader policy,
         bcd_persisted = nullish (bci_persisted input) (bcp_persistAcrossRestart policy),
         bcd_policy = policy \<rparr>)))))"

section \<open>Conditional requests\<close>

fun split_char :: "char \<Rightarrow> string \<Rightarrow> string list" where
  "split_char sep [] = [[]]"
| "split_char sep (c # s) =
     (if c = sep then [] # split_char sep s
      else case split_char sep s of [] \<Rightarrow> [[c]] | p # ps \<Rightarrow> (c # p) # ps)"

definition normalizeEntityTag :: "string \<Rightarrow> string" where
  "normalizeEntityTag value =
     (let trimmed = trim value in
      if take 1 trimmed = [CHR 0x22] \<and> take 1 (rev trimmed) = [CHR 0x22] then trimmed
      else quote_tag trimmed)"

definition policyBundleEtagMatches :: "string option \<Rightarrow> bundle_cache_descriptor \<Rightarrow> bool" where
  "policyBundleEtagMatches ifNoneMatchHeader descriptor =
     (case truthy_str ifNoneMatchHeader of
        None \<Rightarrow> False
      | Some header \<Rightarrow>
          if length (trim header) = 0 then False
          else list_ex (\<lambda>candidate.
              if candidate = ''*'' then True
              else if take 2 candidate = ''W/'' then False
              else normalizeEntityTag candidate = bcd_etag descriptor)
            (map trim (split_char (CHR '','') header)))"

definition createPolicyBundleConditionalResponse ::
  "stored_bundle \<Rightarrow> string option \<Rightarrow> bundle_cache_input
     \<Rightarrow> (conditional_status \<times> bundle_cache_descriptor) result" where
  "createPolicyBundleConditionalResponse bundle ifNoneMatchHeader input =
     rbind (createPolicyBundleCacheDescriptor bundle input) (\<lambda>descriptor. return
       ((if policyBundleEtagMatches ifNoneMatchHeader descriptor then Not_modified else Modified),
        descriptor))"

definition policyBundleCacheHeaders :: "bundle_cache_descriptor \<Rightarrow> (string \<times> string) list" where
  "policyBundleCacheHeaders descriptor =
     [(''etag'', bcd_etag descriptor),
      (''cache-control'', bcd_cacheControl descriptor),
      (''vary'', ''Authorization''),
      (''last-modified'', httpDate (bcd_storedAt descriptor)),
      (''x-attestor-policy-bundle-digest'', bcd_digest descriptor),
      (''x-attestor-policy-bundle-version'', bcd_bundleVersion descriptor),
      (''x-attestor-policy-bundle-freshness'', bundle_freshness_str (bcd_freshness descriptor)),
      (''x-attestor-policy-bundle-fresh-until'', toISOString (bcd_freshUntil descriptor)),
      (''x-attestor-policy-bundle-stale-if-error-until'', toISOString (bcd_staleIfErrorUntil descriptor)),
      (''x-attestor-policy-bundle-failure-mode'', bcp_failureMode (bcd_policy descriptor)),
      (''x-attestor-policy-bundle-persisted'', (if bcd_persisted descriptor then ''true'' else ''false''))]"

section \<open>Freshness of a descriptor\<close>

text \<open>The descriptor of a bundle at the instant it was stored, as discovery asks for it.\<close>

definition at_storage :: "stored_bundle \<Rightarrow> bundle_cache_input" where
  "at_storage bundle =
     \<lparr> bci_maxAgeSeconds = None, bci_staleIfErrorSeconds = None, bci_persistAcrossRestart = None,
       bci_now = Some (Iso (stb_storedAt bundle)), bci_validatedAt = Some (Iso (stb_storedAt bundle)),
       bci_persisted = None \<rparr>"

lemma default_cache_policy [simp]:
  "createPolicyBundleCachePolicy (at_storage b) = Inr
     \<lparr> bcp_version = POLICY_BUNDLE_CACHE_POLICY_SPEC_VERSION, bcp_validator = ''strong-etag'',
       bcp_maxAgeSeconds = 60, bcp_staleIfErrorSeconds = 300,
       bcp_failureMode = ''fail-closed-after-stale-if-error'', bcp_persistAcrossRestart = True \<rparr>"
  by (simp add: createPolicyBundleCachePolicy_def at_storage_def normalizePositiveInteger_def
      DEFAULT_POLICY_BUNDLE_MAX_AGE_SECONDS_def DEFAULT_POLICY_BUNDLE_STALE_IF_ERROR_SECONDS_def Let_def)

lemma freshness_windows:
  assumes "createPolicyBundleCacheDescriptor b i = Inr d"
  shows "bcd_freshUntil d = bcd_validatedAt d + bcp_maxAgeSeconds (bcd_policy d) * 1000"
    and "bcd_staleIfErrorUntil d = bcd_freshUntil d + bcp_staleIfErrorSeconds (bcd_policy d) * 1000"
    and "bcd_freshness d = resolveFreshness (bcd_evaluatedAt d) (bcd_freshUntil d) (bcd_staleIfErrorUntil d)"
    and "0 \<le> bcp_maxAgeSeconds (bcd_policy d)" "0 \<le> bcp_staleIfErrorSeconds (bcd_policy d)"
  using assms
  by (auto simp: createPolicyBundleCacheDescriptor_def cache_addSeconds_def createPolicyBundleCachePolicy_def
      normalizePositiveInteger_def Let_def split: js_number.splits if_split_asm)

end
