(* ===== verification/Policy_Discovery.thy ===== *)
theory Policy_Discovery
  imports Activation_Lifecycle Bundle_Cache Policy_Scoping
begin

text \<open>
  Which bundle and which policy a consumer gets: src/release-policy-control-plane/discovery.ts and
  resolver.ts.

  A frozen activation that matches the target freezes it. Otherwise the bundle is the one named
  by the metadata in static mode, or the one of the leading active activation; the resolver then
  picks the leading entry of the bundle whose policy fits the request and passes static
  verification.

  The last sections compose discovery with the lifecycle of activations: in the stores that the
  lifecycle reaches, resolution is never ambiguous, and its status is determined by the
  activations that cover the target and by which bundles are stored.
\<close>

section \<open>Vocabulary and records\<close>

definition POLICY_DISCOVERY_LABELS_SPEC_VERSION :: string where
  "POLICY_DISCOVERY_LABELS_SPEC_VERSION = ''attestor.policy-discovery-labels.v1''"

definition POLICY_BUNDLE_RESOURCE_SPEC_VERSION :: string where
  "POLICY_BUNDLE_RESOURCE_SPEC_VERSION = ''attestor.policy-bundle-resource.v1''"

definition POLICY_BUNDLE_RESOLUTION_SPEC_VERSION :: string where
  "POLICY_BUNDLE_RESOLUTION_SPEC_VERSION = ''attestor.policy-bundle-resolution.v1''"

definition POLICY_DISCOVERY_DOCUMENT_SPEC_VERSION :: string where
  "POLICY_DISCOVERY_DOCUMENT_SPEC_VERSION = ''attestor.policy-discovery-document.v1''"

datatype bundle_resolution_status =
    Res_resolved | Res_no_match | Res_ambiguous | Res_missing_bundle | Res_frozen

datatype bundle_resolution_source = Source_static | Source_activation

text \<open>The value of a label; a number is given by the text \<open>String\<close> makes of it.\<close>

datatype label_value = Label_text string | Label_number string | Label_bool bool | Label_null

record discovery_labels =
  dlb_version :: string
  dlb_values :: "(string \<times> string) list"

record bundle_resource =
  brd_version :: string
  brd_resource :: string
  brd_etag :: string
  brd_cache :: bundle_cache_descriptor
  brd_digest :: string
  brd_packId :: string
  brd_bundleId :: string
  brd_bundleVersion :: string
  brd_storedAt :: timestamp
  brd_signed :: bool
  brd_keyId :: "string option"
  brd_publicKeyFingerprint :: "string option"

record resolution_candidate =
  rcd_source :: bundle_resolution_source
  rcd_bundleRef :: bundle_reference
  rcd_activation :: "activation_record option"
  rcd_activationId :: "string option"
  rcd_targetLabel :: "string option"
  rcd_match :: "scope_match option"
  rcd_bundleRecord :: "stored_bundle option"
  rcd_resource :: "bundle_resource option"

record bundle_resolution =
  brs_version :: string
  brs_status :: bundle_resolution_status
  brs_storeKind :: policy_store_kind
  brs_discoveryMode :: discovery_mode
  brs_target :: activation_target
  brs_targetLabel :: string
  brs_labels :: discovery_labels
  brs_metadata :: "control_plane_metadata option"
  brs_selectedCandidate :: "resolution_candidate option"
  brs_matchedCandidates :: "resolution_candidate list"
  brs_ambiguousCandidates :: "resolution_candidate list"
  brs_missingBundleCandidates :: "resolution_candidate list"

record discovery_document =
  ddc_version :: string
  ddc_generatedAt :: timestamp
  ddc_metadata :: "control_plane_metadata option"
  ddc_labels :: discovery_labels
  ddc_target :: activation_target
  ddc_targetLabel :: string
  ddc_bundleResolution :: bundle_resolution

record labels_input =
  lbi_target :: activation_target
  lbi_metadata :: "control_plane_metadata option"
  lbi_storeKind :: "policy_store_kind option"
  lbi_labels :: "(string \<times> label_value) list"

record resolve_bundle_input =
  rsi_target :: activation_target
  rsi_metadata :: "control_plane_metadata option"
  rsi_labels :: "(string \<times> label_value) list"

section \<open>Labels\<close>

definition RESERVED_DISCOVERY_LABEL_KEYS :: "string list" where
  "RESERVED_DISCOVERY_LABEL_KEYS =
     [''attestor.environment'', ''attestor.tenant'', ''attestor.account'', ''attestor.domain'',
      ''attestor.wedge'', ''attestor.consequence_type'', ''attestor.risk_class'', ''attestor.cohort'',
      ''attestor.plan'', ''attestor.discovery_mode'', ''attestor.store_kind'', ''attestor.target_label'']"

definition resolveGeneratedAt :: "int \<Rightarrow> js_date option \<Rightarrow> timestamp result" where
  "resolveGeneratedAt now value =
     (case truthy_date value of
        None \<Rightarrow> toISO now
      | Some d \<Rightarrow> (case getTime d of
          None \<Rightarrow> throw (Error ''Policy discovery document requires a valid generatedAt timestamp.'')
        | Some t \<Rightarrow> return t))"

definition normalizeDiscoveryLabelKey :: "string \<Rightarrow> string result" where
  "normalizeDiscoveryLabelKey key =
     (let normalized = trim key in
      if length normalized = 0 then throw (Error ''Policy discovery labels require non-empty keys.'')
      else return normalized)"

fun label_text :: "label_value \<Rightarrow> string option" where
  "label_text (Label_text s) = Some s"
| "label_text (Label_number s) = Some s"
| "label_text (Label_bool b) = Some (if b then ''true'' else ''false'')"
| "label_text Label_null = None"

definition normalizeDiscoveryLabelValue :: "label_value \<Rightarrow> string option" where
  "normalizeDiscoveryLabelValue value = truthy_str (map_option trim (label_text value))"

definition resolveDiscoveryMode :: "control_plane_metadata option \<Rightarrow> discovery_mode" where
  "resolveDiscoveryMode metadata = nullish (map_option cpm_discoveryMode metadata) Mode_scoped_active"

text \<open>The optional entries of the target, set when they are present and not empty.\<close>

definition scope_label_entries :: "activation_target \<Rightarrow> (string \<times> string) list" where
  "scope_label_entries target =
     concat (map (\<lambda>(key, v). case truthy_str v of None \<Rightarrow> [] | Some s \<Rightarrow> [(key, s)])
       [(''attestor.tenant'', atg_tenantId target),
        (''attestor.account'', atg_accountId target),
        (''attestor.domain'', atg_domainId target),
        (''attestor.wedge'', atg_wedgeId target),
        (''attestor.consequence_type'', map_option consequence_type_str (atg_consequenceType target)),
        (''attestor.risk_class'', map_option risk_class_str (atg_riskClass target)),
        (''attestor.cohort'', atg_cohortId target),
        (''attestor.plan'', atg_planId target)])"

fun set_labels :: "(string \<times> label_value) list \<Rightarrow> (string \<times> string) list \<Rightarrow> (string \<times> string) list result" where
  "set_labels [] entries = return entries"
| "set_labels ((rawKey, rawValue) # rest) entries =
     rbind (normalizeDiscoveryLabelKey rawKey) (\<lambda>key.
       if key \<in> set RESERVED_DISCOVERY_LABEL_KEYS
       then throw (Error (''Policy discovery label '' @ [CHR 0x27] @ key @ [CHR 0x27] @
         '' is reserved by the control plane and cannot be overridden.''))
       else set_labels rest
         (case normalizeDiscoveryLabelValue rawValue of
            None \<Rightarrow> entries
          | Some v \<Rightarrow> upsert_by fst (key, v) entries))"

definition discoveryLabelEntries :: "bundle_host \<Rightarrow> labels_input \<Rightarrow> (string \<times> string) list result" where
  "discoveryLabelEntries h input =
     (let storeKind = nullish (nullish_opt (lbi_storeKind input) (map_option cpm_storeKind (lbi_metadata input)))
            Store_embedded_memory;
          entries =
            [(''attestor.environment'', atg_environment (lbi_target input)),
             (''attestor.discovery_mode'', discovery_mode_str (resolveDiscoveryMode (lbi_metadata input))),
             (''attestor.store_kind'', policy_store_kind_str storeKind),
             (''attestor.target_label'', policyActivationTargetLabel (lbi_target input))]
            @ scope_label_entries (lbi_target input)
      in rbind (set_labels (lbi_labels input) entries) (\<lambda>entries. return
           (sort_with (\<lambda>(leftKey, _) (rightKey, _). bh_localeCompare h leftKey rightKey) entries)))"

definition createPolicyDiscoveryLabels :: "bundle_host \<Rightarrow> labels_input \<Rightarrow> discovery_labels result" where
  "createPolicyDiscoveryLabels h input =
     rbind (discoveryLabelEntries h input) (\<lambda>entries. return
       \<lparr> dlb_version = POLICY_DISCOVERY_LABELS_SPEC_VERSION, dlb_values = entries \<rparr>)"

section \<open>Candidates\<close>

definition lookupBundleRecord :: "policy_store \<Rightarrow> bundle_reference \<Rightarrow> stored_bundle option" where
  "lookupBundleRecord s bundleRef = getBundle s (bref_packId bundleRef, bref_bundleId bundleRef)"

definition createBundleResourceDescriptor :: "stored_bundle \<Rightarrow> bundle_resource result" where
  "createBundleResourceDescriptor bundle =
     rbind (createPolicyBundleCacheDescriptor bundle (at_storage bundle)) (\<lambda>cache. return
       \<lparr> brd_version = POLICY_BUNDLE_RESOURCE_SPEC_VERSION,
         brd_resource = createPolicyBundleResourcePath bundle,
         brd_etag = bcd_etag cache,
         brd_cache = cache,
         brd_digest = bref_digest (bmf_bundle (stb_manifest bundle)),
         brd_packId = stb_packId bundle,
         brd_bundleId = stb_bundleId bundle,
         brd_bundleVersion = stb_bundleVersion bundle,
         brd_storedAt = stb_storedAt bundle,
         brd_signed = (stb_signedBundle bundle \<noteq> None),
         brd_keyId = map_option bvk_keyId (stb_verificationKey bundle),
         brd_publicKeyFingerprint = map_option bvk_publicKeyFingerprint (stb_verificationKey bundle) \<rparr>)"

definition resource_of :: "stored_bundle option \<Rightarrow> bundle_resource option result" where
  "resource_of bundleRecord =
     (case bundleRecord of
        None \<Rightarrow> return None
      | Some b \<Rightarrow> rbind (createBundleResourceDescriptor b) (\<lambda>r. return (Some r)))"

definition createActivationCandidate ::
  "policy_store \<Rightarrow> activation_candidate \<Rightarrow> resolution_candidate result" where
  "createActivationCandidate s candidate =
     (let activation = acd_activation candidate;
          bundleRecord = lookupBundleRecord s (acr_bundle activation)
      in rbind (resource_of bundleRecord) (\<lambda>resource. return
       \<lparr> rcd_source = Source_activation,
         rcd_bundleRef = acr_bundle activation,
         rcd_activation = Some activation,
         rcd_activationId = Some (acr_id activation),
         rcd_targetLabel = Some (acr_targetLabel activation),
         rcd_match = Some (acd_match candidate),
         rcd_bundleRecord = bundleRecord,
         rcd_resource = resource \<rparr>))"

definition createStaticCandidate ::
  "policy_store \<Rightarrow> control_plane_metadata \<Rightarrow> resolution_candidate option result" where
  "createStaticCandidate s metadata =
     (case cpm_activeBundleRef metadata of
        None \<Rightarrow> return None
      | Some bundleRef \<Rightarrow>
          let bundleRecord = lookupBundleRecord s bundleRef
          in rbind (resource_of bundleRecord) (\<lambda>resource. return (Some
           \<lparr> rcd_source = Source_static,
             rcd_bundleRef = bundleRef,
             rcd_activation = None,
             rcd_activationId = None,
             rcd_targetLabel = None,
             rcd_match = None,
             rcd_bundleRecord = bundleRecord,
             rcd_resource = resource \<rparr>)))"

definition candidate_frozen :: "resolution_candidate \<Rightarrow> bool" where
  "candidate_frozen c \<longleftrightarrow> (case rcd_activation c of None \<Rightarrow> False | Some a \<Rightarrow> acr_state a = Act_frozen)"

definition classifyResolutionStatus ::
  "resolution_candidate option \<Rightarrow> resolution_candidate list \<Rightarrow> resolution_candidate list
     \<Rightarrow> resolution_candidate list \<Rightarrow> bundle_resolution_status" where
  "classifyResolutionStatus selectedCandidate ambiguousCandidates missingBundleCandidates matchedCandidates =
     (if (case selectedCandidate of None \<Rightarrow> False | Some c \<Rightarrow> candidate_frozen c) then Res_frozen
      else if length ambiguousCandidates > 0 then Res_ambiguous
      else case selectedCandidate of
        None \<Rightarrow> Res_no_match
      | Some c \<Rightarrow>
          if rcd_bundleRecord c = None \<or> length missingBundleCandidates > 0 then Res_missing_bundle
          else if length matchedCandidates = 0 \<and> rcd_source c \<noteq> Source_static then Res_no_match
          else Res_resolved)"

definition candidateActivationsForScopedResolution :: "bundle_host \<Rightarrow> policy_store \<Rightarrow> activation_record list" where
  "candidateActivationsForScopedResolution h s =
     filter (\<lambda>a. acr_state a = Act_active \<or> acr_state a = Act_frozen) (listActivations h s)"

definition resolveFrozenPrecedence :: "activation_target \<Rightarrow> activation_record list \<Rightarrow> precedence_resolution" where
  "resolveFrozenPrecedence target candidates =
     resolvePolicyActivationPrecedence target (filter (\<lambda>a. acr_state a = Act_frozen) candidates)"

text \<open>The first candidate of each source, bundle and activation.\<close>

fun drop_repeated :: "resolution_candidate list \<Rightarrow> resolution_candidate list \<Rightarrow> resolution_candidate list" where
  "drop_repeated seen [] = []"
| "drop_repeated seen (c # cs) =
     (if list_ex (\<lambda>d. rcd_source d = rcd_source c \<and>
            bref_bundleId (rcd_bundleRef d) = bref_bundleId (rcd_bundleRef c) \<and>
            rcd_activationId d = rcd_activationId c) seen
      then drop_repeated (seen @ [c]) cs
      else c # drop_repeated (seen @ [c]) cs)"

section \<open>Resolution of bundles\<close>

definition resolution_result ::
  "policy_store_kind \<Rightarrow> resolve_bundle_input \<Rightarrow> control_plane_metadata option \<Rightarrow> discovery_labels
     \<Rightarrow> bundle_resolution_status \<Rightarrow> resolution_candidate option \<Rightarrow> resolution_candidate list
     \<Rightarrow> resolution_candidate list \<Rightarrow> resolution_candidate list \<Rightarrow> bundle_resolution" where
  "resolution_result kind input metadata labels status selected matched ambiguous missing =
     \<lparr> brs_version = POLICY_BUNDLE_RESOLUTION_SPEC_VERSION,
       brs_status = status,
       brs_storeKind = kind,
       brs_discoveryMode = resolveDiscoveryMode metadata,
       brs_target = rsi_target input,
       brs_targetLabel = policyActivationTargetLabel (rsi_target input),
       brs_labels = labels,
       brs_metadata = metadata,
       brs_selectedCandidate = selected,
       brs_matchedCandidates = matched,
       brs_ambiguousCandidates = ambiguous,
       brs_missingBundleCandidates = missing \<rparr>"

definition resolve_frozen ::
  "policy_store \<Rightarrow> activation_target \<Rightarrow> activation_record list \<Rightarrow> precedence_resolution
     \<Rightarrow> (resolution_candidate option \<Rightarrow> resolution_candidate list \<Rightarrow> resolution_candidate list
         \<Rightarrow> resolution_candidate list \<Rightarrow> bundle_resolution) \<Rightarrow> bundle_resolution result" where
  "resolve_frozen s target scopedActivations frozenPrecedence result =
     (let topFrozenCandidate = nullish (prs_winner frozenPrecedence) (hd (prs_matchedCandidates frozenPrecedence)) in
      rbind (createActivationCandidate s topFrozenCandidate) (\<lambda>frozenCandidate.
      rbind (rmap_list (createActivationCandidate s) (activation_candidates target scopedActivations))
        (\<lambda>matchedCandidates.
      rbind (rmap_list (createActivationCandidate s) (prs_ambiguousTopCandidates frozenPrecedence))
        (\<lambda>ambiguousCandidates. return
           (result (Some frozenCandidate) matchedCandidates ambiguousCandidates
             (filter (\<lambda>c. rcd_bundleRecord c = None) matchedCandidates))))))"

definition resolve_static ::
  "policy_store \<Rightarrow> control_plane_metadata
     \<Rightarrow> (bundle_resolution_status \<Rightarrow> resolution_candidate option \<Rightarrow> resolution_candidate list
         \<Rightarrow> resolution_candidate list \<Rightarrow> resolution_candidate list \<Rightarrow> bundle_resolution)
     \<Rightarrow> bundle_resolution result" where
  "resolve_static s metadata result =
     rbind (createStaticCandidate s metadata) (\<lambda>selectedCandidate.
       let matchedCandidates = (case selectedCandidate of None \<Rightarrow> [] | Some c \<Rightarrow> [c]);
           missingBundleCandidates = filter (\<lambda>c. rcd_bundleRecord c = None) matchedCandidates
       in return (result
            (classifyResolutionStatus selectedCandidate [] missingBundleCandidates matchedCandidates)
            selectedCandidate matchedCandidates [] missingBundleCandidates))"

definition resolve_active ::
  "policy_store \<Rightarrow> precedence_resolution
     \<Rightarrow> (bundle_resolution_status \<Rightarrow> resolution_candidate option \<Rightarrow> resolution_candidate list
         \<Rightarrow> resolution_candidate list \<Rightarrow> resolution_candidate list \<Rightarrow> bundle_resolution)
     \<Rightarrow> bundle_resolution result" where
  "resolve_active s precedence result =
     rbind (rmap_list (createActivationCandidate s) (prs_matchedCandidates precedence)) (\<lambda>matchedCandidates.
     rbind (rmap_list (createActivationCandidate s) (prs_ambiguousTopCandidates precedence)) (\<lambda>ambiguousCandidates.
     rbind (case prs_winner precedence of
              None \<Rightarrow> return None
            | Some w \<Rightarrow> rbind (createActivationCandidate s w) (\<lambda>c. return (Some c))) (\<lambda>selectedCandidate.
     let missingBundleCandidates =
           drop_repeated [] (filter (\<lambda>c. rcd_bundleRecord c = None) matchedCandidates @
             (case selectedCandidate of
                None \<Rightarrow> []
              | Some c \<Rightarrow> if rcd_bundleRecord c = None then [c] else []))
     in return (result
          (classifyResolutionStatus selectedCandidate ambiguousCandidates missingBundleCandidates matchedCandidates)
          selectedCandidate matchedCandidates ambiguousCandidates missingBundleCandidates))))"

definition resolvePolicyBundleForTarget ::
  "bundle_host \<Rightarrow> policy_store_kind \<Rightarrow> policy_store \<Rightarrow> resolve_bundle_input \<Rightarrow> bundle_resolution result" where
  "resolvePolicyBundleForTarget h kind s input =
     (let metadata = nullish_opt (rsi_metadata input) (getMetadata s) in
      rbind (createPolicyDiscoveryLabels h
        \<lparr> lbi_target = rsi_target input, lbi_metadata = metadata, lbi_storeKind = Some kind,
          lbi_labels = rsi_labels input \<rparr>) (\<lambda>labels.
      let result = resolution_result kind input metadata labels;
          scopedActivations = candidateActivationsForScopedResolution h s;
          frozenPrecedence = resolveFrozenPrecedence (rsi_target input) scopedActivations
      in if length (prs_matchedCandidates frozenPrecedence) > 0
         then resolve_frozen s (rsi_target input) scopedActivations frozenPrecedence (result Res_frozen)
         else case (if resolveDiscoveryMode metadata = Mode_static then metadata else None) of
             Some m \<Rightarrow> resolve_static s m result
           | None \<Rightarrow> resolve_active s
               (resolvePolicyActivationPrecedence (rsi_target input)
                 (filter (\<lambda>a. acr_state a = Act_active) scopedActivations)) result))"

definition createPolicyDiscoveryDocument ::
  "bundle_host \<Rightarrow> int \<Rightarrow> policy_store_kind \<Rightarrow> policy_store \<Rightarrow> resolve_bundle_input \<Rightarrow> js_date option
     \<Rightarrow> discovery_document result" where
  "createPolicyDiscoveryDocument h now kind s input generatedAt =
     (let metadata = nullish_opt (rsi_metadata input) (getMetadata s) in
      rbind (resolvePolicyBundleForTarget h kind s input) (\<lambda>bundleResolution.
      rbind (resolveGeneratedAt now generatedAt) (\<lambda>generatedAt. return
        \<lparr> ddc_version = POLICY_DISCOVERY_DOCUMENT_SPEC_VERSION,
          ddc_generatedAt = generatedAt,
          ddc_metadata = metadata,
          ddc_labels = brs_labels bundleResolution,
          ddc_target = rsi_target input,
          ddc_targetLabel = policyActivationTargetLabel (rsi_target input),
          ddc_bundleResolution = bundleResolution \<rparr>)))"

section \<open>The active policy\<close>

definition ACTIVE_POLICY_RESOLVER_SPEC_VERSION :: string where
  "ACTIVE_POLICY_RESOLVER_SPEC_VERSION = ''attestor.active-policy-resolver.v1''"

datatype active_policy_status =
    Pol_resolved | Pol_scope_frozen | Pol_bundle_resolution_failed | Pol_incompatible_bundle
  | Pol_no_entry | Pol_entry_verification_failed | Pol_ambiguous_entry

record active_policy_input =
  api_target :: activation_target
  api_outputContract :: output_contract
  api_capabilityBoundary :: capability_boundary
  api_targetKind :: release_target_kind
  api_rolloutContext :: rollout_context

record entry_candidate =
  ecd_entry :: bundle_entry
  ecd_match :: scope_match

record rejected_entry_candidate = entry_candidate +
  rec_reason :: index_rejection_reason
  rec_verification :: verification_result

record compatibility_envelope =
  cve_expected :: compatibility_descriptor
  cve_actual :: "compatibility_descriptor option"
  cve_compatible :: bool

record active_policy_result =
  avp_version :: string
  avp_status :: active_policy_status
  avp_target :: activation_target
  avp_bundleResolution :: bundle_resolution
  avp_bundleRecord :: "stored_bundle option"
  avp_compatibility :: compatibility_envelope
  avp_matchedEntryCandidates :: "entry_candidate list"
  avp_ambiguousEntryCandidates :: "entry_candidate list"
  avp_rejectedEntryCandidates :: "rejected_entry_candidate list"
  avp_selectedEntry :: "bundle_entry option"
  avp_effectivePolicy :: "release_policy option"
  avp_rollout :: "rollout_resolution option"

record entry_selection =
  esl_matchedEntryCandidates :: "entry_candidate list"
  esl_ambiguousEntryCandidates :: "entry_candidate list"
  esl_rejectedEntryCandidates :: "rejected_entry_candidate list"
  esl_selectedEntry :: "bundle_entry option"

definition entry_candidate_for :: "activation_target \<Rightarrow> bundle_entry \<Rightarrow> entry_candidate" where
  "entry_candidate_for target entry =
     \<lparr> ecd_entry = entry, ecd_match = matchPolicyScope target (Inr (ben_scope entry)) \<rparr>"

definition entry_applies :: "active_policy_input \<Rightarrow> entry_candidate \<Rightarrow> bool" where
  "entry_applies input candidate \<longleftrightarrow>
     smt_matches (ecd_match candidate) \<and>
     matchesReleasePolicyScope (ben_definition (ecd_entry candidate)) (api_outputContract input)
       (api_capabilityBoundary input) (api_targetKind input)"

text \<open>The rejection of the policy of a candidate by an index over it alone.\<close>

definition reject_candidate ::
  "bundle_host \<Rightarrow> entry_candidate \<Rightarrow> rejected_entry_candidate option result" where
  "reject_candidate h candidate =
     rbind (createCompiledAdmissionPolicyIndex (bh_sha256 h) [ben_definition (ecd_entry candidate)]) (\<lambda>index.
       case pix_rejectedEntries index of
         [] \<Rightarrow> return None
       | rejection # _ \<Rightarrow> return (Some
           \<lparr> ecd_entry = ecd_entry candidate, ecd_match = ecd_match candidate,
             rec_reason = rje_reason rejection, rec_verification = rje_verification rejection \<rparr>))"

definition selectMatchingEntries ::
  "bundle_host \<Rightarrow> stored_bundle \<Rightarrow> active_policy_input \<Rightarrow> entry_selection result" where
  "selectMatchingEntries h bundleRecord input =
     (let matchedEntryCandidates =
            sort_with (\<lambda>left right. comparePolicyScopeMatches (ecd_match left) (ecd_match right))
              (filter (entry_applies input)
                (map (entry_candidate_for (api_target input))
                  (bpr_entries (bst_predicate (bar_statement (stb_artifact bundleRecord))))))
      in case matchedEntryCandidates of
        [] \<Rightarrow> return
          \<lparr> esl_matchedEntryCandidates = matchedEntryCandidates, esl_ambiguousEntryCandidates = [],
            esl_rejectedEntryCandidates = [], esl_selectedEntry = None \<rparr>
      | topCandidate # _ \<Rightarrow>
          let topPrecedenceCandidates =
            filter (\<lambda>c. samePrecedenceMatch (ecd_match c) (ecd_match topCandidate)) matchedEntryCandidates
          in rbind (rmap_list (reject_candidate h) topPrecedenceCandidates) (\<lambda>rejections.
            let rejectedEntryCandidates = concat (map (\<lambda>r. case r of None \<Rightarrow> [] | Some c \<Rightarrow> [c]) rejections) in
            if length rejectedEntryCandidates > 0
            then return
              \<lparr> esl_matchedEntryCandidates = matchedEntryCandidates, esl_ambiguousEntryCandidates = [],
                esl_rejectedEntryCandidates = rejectedEntryCandidates, esl_selectedEntry = None \<rparr>
            else return
              \<lparr> esl_matchedEntryCandidates = matchedEntryCandidates,
                esl_ambiguousEntryCandidates =
                  (if length topPrecedenceCandidates > 1 then topPrecedenceCandidates else []),
                esl_rejectedEntryCandidates = rejectedEntryCandidates,
                esl_selectedEntry =
                  (if length topPrecedenceCandidates > 1 then None else Some (ecd_entry topCandidate)) \<rparr>))"

definition compatibilityEnvelope :: "stored_bundle option \<Rightarrow> compatibility_envelope" where
  "compatibilityEnvelope bundleRecord =
     (let expected = defaultPolicyCompatibilityDescriptor;
          actual = map_option (\<lambda>b. bmf_compatibility (stb_manifest b)) bundleRecord
      in \<lparr> cve_expected = expected,
           cve_actual = actual,
           cve_compatible =
             (case actual of
                None \<Rightarrow> False
              | Some a \<Rightarrow> policyBundleCompatibilityKey expected = policyBundleCompatibilityKey a) \<rparr>)"

definition failResult ::
  "active_policy_input \<Rightarrow> bundle_resolution \<Rightarrow> stored_bundle option \<Rightarrow> active_policy_status
     \<Rightarrow> compatibility_envelope \<Rightarrow> entry_candidate list \<Rightarrow> entry_candidate list
     \<Rightarrow> rejected_entry_candidate list \<Rightarrow> active_policy_result" where
  "failResult input bundleResolution bundleRecord status compatibility matched ambiguous rejected =
     \<lparr> avp_version = ACTIVE_POLICY_RESOLVER_SPEC_VERSION,
       avp_status = status,
       avp_target = api_target input,
       avp_bundleResolution = bundleResolution,
       avp_bundleRecord = bundleRecord,
       avp_compatibility = compatibility,
       avp_matchedEntryCandidates = matched,
       avp_ambiguousEntryCandidates = ambiguous,
       avp_rejectedEntryCandidates = rejected,
       avp_selectedEntry = None,
       avp_effectivePolicy = None,
       avp_rollout = None \<rparr>"

text \<open>The selected entry is present at the end; reading it otherwise would be a \<open>TypeError\<close>.\<close>

definition resolve_entry ::
  "bundle_host \<Rightarrow> active_policy_input \<Rightarrow> bundle_resolution \<Rightarrow> stored_bundle \<Rightarrow> compatibility_envelope
     \<Rightarrow> active_policy_result result" where
  "resolve_entry h input bundleResolution bundleRecord compatibility =
     rbind (selectMatchingEntries h bundleRecord input) (\<lambda>entrySelection.
       let failed = failResult input bundleResolution (Some bundleRecord);
           matched = esl_matchedEntryCandidates entrySelection
       in if length matched = 0
          then return (failed Pol_no_entry compatibility matched [] [])
          else if length (esl_rejectedEntryCandidates entrySelection) > 0
          then return (failed Pol_entry_verification_failed compatibility matched []
                 (esl_rejectedEntryCandidates entrySelection))
          else if length (esl_ambiguousEntryCandidates entrySelection) > 0
          then return (failed Pol_ambiguous_entry compatibility matched
                 (esl_ambiguousEntryCandidates entrySelection) [])
          else case esl_selectedEntry entrySelection of
            None \<Rightarrow> throw (Error ''Cannot read properties of null.'')
          | Some selectedEntry \<Rightarrow>
              rbind (resolveReleasePolicyRollout (bh_sha256 h) (ben_rollout selectedEntry)
                  (api_rolloutContext input)) (\<lambda>rollout. return
                \<lparr> avp_version = ACTIVE_POLICY_RESOLVER_SPEC_VERSION,
                  avp_status = Pol_resolved,
                  avp_target = api_target input,
                  avp_bundleResolution = bundleResolution,
                  avp_bundleRecord = Some bundleRecord,
                  avp_compatibility = compatibility,
                  avp_matchedEntryCandidates = matched,
                  avp_ambiguousEntryCandidates = [],
                  avp_rejectedEntryCandidates = [],
                  avp_selectedEntry = Some selectedEntry,
                  avp_effectivePolicy = Some (ben_definition selectedEntry),
                  avp_rollout = Some rollout \<rparr>))"

definition resolveActivePolicy ::
  "bundle_host \<Rightarrow> policy_store_kind \<Rightarrow> policy_store \<Rightarrow> active_policy_input \<Rightarrow> active_policy_result result" where
  "resolveActivePolicy h kind s input =
     rbind (resolvePolicyBundleForTarget h kind s
       \<lparr> rsi_target = api_target input, rsi_metadata = None, rsi_labels = [] \<rparr>) (\<lambda>bundleResolution.
     let bundleRecord = (case brs_selectedCandidate bundleResolution of None \<Rightarrow> None | Some c \<Rightarrow> rcd_bundleRecord c);
         compatibility = compatibilityEnvelope bundleRecord;
         failed = failResult input bundleResolution bundleRecord
     in if brs_status bundleResolution = Res_frozen
        then return (failed Pol_scope_frozen compatibility [] [] [])
        else case (if brs_status bundleResolution \<noteq> Res_resolved then None else bundleRecord) of
          None \<Rightarrow> return (failed Pol_bundle_resolution_failed compatibility [] [] [])
        | Some bundle \<Rightarrow>
            if \<not> cve_compatible compatibility
            then return (failed Pol_incompatible_bundle compatibility [] [] [])
            else resolve_entry h input bundleResolution bundle compatibility)"

section \<open>Discovery in reachable stores\<close>

definition covering :: "policy_store \<Rightarrow> activation_state \<Rightarrow> activation_target \<Rightarrow> activation_record set" where
  "covering s st target = {a \<in> set (pst_activations s). acr_state a = st \<and> covers (acr_target a) target}"

definition in_state :: "bundle_host \<Rightarrow> policy_store \<Rightarrow> activation_state \<Rightarrow> activation_record list" where
  "in_state h s st = filter (\<lambda>a. acr_state a = st) (listActivations h s)"

definition targets_ok :: "policy_store \<Rightarrow> bool" where
  "targets_ok s \<longleftrightarrow> (\<forall>a\<in>set (pst_activations s). wf_target (acr_target a))"

lemma scoped_activations:
  "lifecycle_ok s \<Longrightarrow> targets_ok s \<Longrightarrow> a \<in> set (pst_activations s) \<Longrightarrow> scoped_record a"
  by (simp add: lifecycle_ok_def settled_def wf_activation_def targets_ok_def scoped_record_def)

lemma set_in_state: "set (in_state h s st) = {a \<in> set (pst_activations s). acr_state a = st}"
  by (auto simp: in_state_def)

lemma scoped_in_state:
  "lifecycle_ok s \<Longrightarrow> targets_ok s \<Longrightarrow> \<forall>a\<in>set (in_state h s st). scoped_record a"
  by (auto simp: set_in_state intro: scoped_activations)

lemma in_state_alone:
  assumes ok: "lifecycle_ok s" and st: "st = Act_active \<or> st = Act_frozen" and a: "a \<in> set (in_state h s st)"
  shows "same_target (in_state h s st) a = [a]"
proof -
  have "distinct (map acr_id (listActivations h s))"
    using ok by (simp add: lifecycle_ok_def listActivations_def)
  then have d: "distinct (same_target (in_state h s st) a)"
    by (simp add: in_state_def distinct_map)
  have "b = a" if b: "b \<in> set (in_state h s st)" "acr_target b = acr_target a" for b
  proof -
    have ab: "a \<in> set (pst_activations s)" "b \<in> set (pst_activations s)" "live a" "live b"
      using a b st by (auto simp: set_in_state live_def)
    then have "acr_targetLabel a = acr_targetLabel b"
      using ok b(2) by (simp add: lifecycle_ok_def settled_def wf_activation_def)
    with ab ok show ?thesis unfolding lifecycle_ok_def one_live_def by blast
  qed
  then have "set (same_target (in_state h s st) a) = {a}" using a by auto
  with d show ?thesis by (rule distinct_singleton)
qed

text \<open>Precedence over the records in one live state always has a winner when something covers the target.\<close>

lemma state_precedence:
  fixes h :: bundle_host and target :: activation_target
  assumes ok: "lifecycle_ok s" "targets_ok s" and st: "st = Act_active \<or> st = Act_frozen"
  defines "R \<equiv> resolvePolicyActivationPrecedence target (in_state h s st)"
  shows "prs_ambiguousTopCandidates R = []"
    and "set (prs_matchedCandidates R) = activation_candidate_for target ` covering s st target"
    and "covering s st target = {} \<Longrightarrow> prs_winner R = None"
    and "covering s st target \<noteq> {} \<Longrightarrow> \<exists>a\<in>covering s st target. leads target (in_state h s st) a \<and>
      prs_winner R = Some (activation_candidate_for target a)"
proof -
  note scoped = scoped_in_state [OF ok, of h st]
  have member: "a \<in> set (in_state h s st)" if "leads target (in_state h s st) a" for a
    using that by (simp add: leads_def)
  note one = in_state_alone [OF ok(1) st, of _ h]
  have matched: "prs_matchedCandidates R = activation_candidates target (in_state h s st)"
    by (simp add: R_def resolvePolicyActivationPrecedence_def Let_def split: list.split)
  show "prs_ambiguousTopCandidates R = []"
    using precedence_outcome(2) [OF scoped, of target] member one unfolding R_def by blast
  show S: "set (prs_matchedCandidates R) = activation_candidate_for target ` covering s st target"
    unfolding matched using candidate_members [OF scoped, of _ target]
    by (auto simp: covering_def set_in_state)
  show "prs_winner R = None" if "covering s st target = {}"
    using S that matched by (simp add: R_def resolvePolicyActivationPrecedence_def)
  show "\<exists>a\<in>covering s st target. leads target (in_state h s st) a \<and>
      prs_winner R = Some (activation_candidate_for target a)" if "covering s st target \<noteq> {}"
  proof (cases "activation_candidates target (in_state h s st)")
    case Nil
    with S that matched show ?thesis by simp
  next
    case (Cons lead rest)
    obtain a where a: "leads target (in_state h s st) a" using leading_candidate [OF scoped Cons] .
    then have "a \<in> covering s st target"
      by (auto simp: leads_def covering_def set_in_state)
    with a one [OF member [OF a]] precedence_outcome(1) [OF scoped] show ?thesis
      unfolding R_def by blast
  qed
qed

text \<open>
  A selection made from the activations in one live state: the candidate of the record that
  outranks all others there; and the selection of a bundle named by the metadata.
\<close>

definition selects ::
  "bundle_host \<Rightarrow> policy_store \<Rightarrow> activation_target \<Rightarrow> activation_state \<Rightarrow> resolution_candidate option \<Rightarrow> bool" where
  "selects h s target st selected \<longleftrightarrow>
     (\<exists>a c. selected = Some c \<and> leads target (in_state h s st) a \<and> acr_state a = st \<and>
        rcd_source c = Source_activation \<and> rcd_activation c = Some a \<and> rcd_bundleRef c = acr_bundle a \<and>
        rcd_bundleRecord c = lookupBundleRecord s (acr_bundle a))"

definition selects_named :: "policy_store \<Rightarrow> bundle_reference \<Rightarrow> resolution_candidate option \<Rightarrow> bool" where
  "selects_named s ref selected \<longleftrightarrow>
     (\<exists>c. selected = Some c \<and> rcd_source c = Source_static \<and> rcd_activation c = None \<and>
        rcd_bundleRef c = ref \<and> rcd_bundleRecord c = lookupBundleRecord s ref)"

lemma candidate_created:
  assumes "createActivationCandidate s (activation_candidate_for target a) = Inr c"
  shows "rcd_activation c = Some a" "rcd_bundleRecord c = lookupBundleRecord s (acr_bundle a)"
    "rcd_source c = Source_activation" "rcd_bundleRef c = acr_bundle a"
  using assms by (auto simp: createActivationCandidate_def Let_def activation_candidate_for_def)

lemma candidates_created:
  assumes "rmap_list (createActivationCandidate s) cs = Inr ds" "set cs = activation_candidate_for target ` A"
  shows "rcd_bundleRecord ` set ds = (\<lambda>a. lookupBundleRecord s (acr_bundle a)) ` A"
    and "ds = [] \<longleftrightarrow> A = {}"
proof -
  from assms(1) have l: "list_all2 (\<lambda>c d. createActivationCandidate s c = Inr d) cs ds"
    by (simp add: rmap_list_eq_Inr)
  have fwd: "\<exists>d\<in>set ds. createActivationCandidate s c = Inr d" if "c \<in> set cs" for c
    using that l by (auto simp: in_set_conv_nth list_all2_conv_all_nth)
  have bwd: "\<exists>c\<in>set cs. createActivationCandidate s c = Inr d" if d: "d \<in> set ds" for d
  proof -
    obtain i where "i < length ds" "ds ! i = d" using d unfolding in_set_conv_nth by blast
    with l have "cs ! i \<in> set cs" "createActivationCandidate s (cs ! i) = Inr d"
      by (simp_all add: list_all2_conv_all_nth)
    then show ?thesis by blast
  qed
  show "rcd_bundleRecord ` set ds = (\<lambda>a. lookupBundleRecord s (acr_bundle a)) ` A"
  proof (intro equalityI subsetI)
    fix x assume "x \<in> rcd_bundleRecord ` set ds"
    then obtain d where d: "d \<in> set ds" "x = rcd_bundleRecord d" by blast
    with bwd obtain c where "c \<in> set cs" "createActivationCandidate s c = Inr d" by blast
    moreover from this(1) assms(2) obtain a where "a \<in> A" "c = activation_candidate_for target a" by blast
    ultimately show "x \<in> (\<lambda>a. lookupBundleRecord s (acr_bundle a)) ` A"
      using candidate_created(2) d(2) by blast
  next
    fix x assume "x \<in> (\<lambda>a. lookupBundleRecord s (acr_bundle a)) ` A"
    then obtain a where a: "a \<in> A" "x = lookupBundleRecord s (acr_bundle a)" by blast
    with assms(2) fwd obtain d where "d \<in> set ds" "createActivationCandidate s (activation_candidate_for target a) = Inr d"
      by blast
    with a(2) candidate_created(2) show "x \<in> rcd_bundleRecord ` set ds" by force
  qed
  have "length ds = length cs" using l by (simp add: list_all2_lengthD)
  with assms(2) show "ds = [] \<longleftrightarrow> A = {}" by (metis image_is_empty length_0_conv set_empty)
qed

lemma drop_repeated_Nil: "drop_repeated [] cs = [] \<longleftrightarrow> cs = []"
  by (cases cs) simp_all

text \<open>The active branch: its status depends on the covering active activations and their bundles.\<close>

lemma resolve_active_outcome:
  assumes ok: "lifecycle_ok s" "targets_ok s"
    and res: "resolve_active s (resolvePolicyActivationPrecedence target (in_state h s Act_active)) result = Inr r"
  obtains st selected matched ambiguous missing where "r = result st selected matched ambiguous missing"
    "covering s Act_active target = {} \<Longrightarrow> st = Res_no_match \<and> selected = None"
    "covering s Act_active target \<noteq> {} \<Longrightarrow>
       st = (if \<forall>a\<in>covering s Act_active target. lookupBundleRecord s (acr_bundle a) \<noteq> None
             then Res_resolved else Res_missing_bundle) \<and> selects h s target Act_active selected"
proof -
  let ?R = "resolvePolicyActivationPrecedence target (in_state h s Act_active)"
  let ?A = "covering s Act_active target"
  note R = state_precedence [OF ok, of Act_active target h, simplified]
  obtain matched selected where m: "rmap_list (createActivationCandidate s) (prs_matchedCandidates ?R) = Inr matched"
    and sel: "(case prs_winner ?R of None \<Rightarrow> Inr None
       | Some w \<Rightarrow> rbind (createActivationCandidate s w) (\<lambda>c. Inr (Some c))) = Inr selected"
    and r: "r = (let missing = drop_repeated [] (filter (\<lambda>c. rcd_bundleRecord c = None) matched @
             (case selected of None \<Rightarrow> [] | Some c \<Rightarrow> if rcd_bundleRecord c = None then [c] else []))
       in result (classifyResolutionStatus selected [] missing matched) selected matched [] missing)"
    using res R(1) by (auto simp: resolve_active_def Let_def)
  note created = candidates_created [OF m R(2)]
  define missing where "missing = drop_repeated [] (filter (\<lambda>c. rcd_bundleRecord c = None) matched @
             (case selected of None \<Rightarrow> [] | Some c \<Rightarrow> if rcd_bundleRecord c = None then [c] else []))"
  have none: "filter (\<lambda>c. rcd_bundleRecord c = None) matched = [] \<longleftrightarrow>
      (\<forall>a\<in>?A. lookupBundleRecord s (acr_bundle a) \<noteq> None)"
  proof -
    have "filter (\<lambda>c. rcd_bundleRecord c = None) matched = [] \<longleftrightarrow> None \<notin> rcd_bundleRecord ` set matched"
      by (metis (mono_tags, lifting) filter_empty_conv imageE imageI)
    then show ?thesis unfolding created(1) by (simp only: image_iff) metis
  qed
  show thesis
  proof (rule that [of "classifyResolutionStatus selected [] missing matched" selected matched "[]" missing])
    show "r = result (classifyResolutionStatus selected [] missing matched) selected matched [] missing"
      by (simp add: r missing_def Let_def)
  next
    assume "?A = {}"
    then have "selected = None" using R(3) sel by simp
    then show "classifyResolutionStatus selected [] missing matched = Res_no_match \<and> selected = None"
      by (simp add: classifyResolutionStatus_def)
  next
    assume ne: "?A \<noteq> {}"
    obtain a where a: "a \<in> ?A" "leads target (in_state h s Act_active) a"
      "prs_winner ?R = Some (activation_candidate_for target a)"
      using R(4) [OF ne] by blast
    with sel obtain c where c: "createActivationCandidate s (activation_candidate_for target a) = Inr c" "selected = Some c"
      by auto
    note f = candidate_created [OF c(1)]
    have st: "acr_state a = Act_active" using a(1) by (simp add: covering_def)
    have miss: "missing = [] \<longleftrightarrow> (\<forall>a\<in>?A. lookupBundleRecord s (acr_bundle a) \<noteq> None)"
      unfolding missing_def drop_repeated_Nil using none f(2) a(1) c(2) by auto
    have "classifyResolutionStatus selected [] missing matched =
      (if \<forall>a\<in>?A. lookupBundleRecord s (acr_bundle a) \<noteq> None then Res_resolved else Res_missing_bundle)"
      using miss f st a(1) ne created(2) c(2)
      by (auto simp: classifyResolutionStatus_def candidate_frozen_def)
    with a(2) c(2) f st show "classifyResolutionStatus selected [] missing matched =
        (if \<forall>a\<in>?A. lookupBundleRecord s (acr_bundle a) \<noteq> None then Res_resolved else Res_missing_bundle) \<and>
       selects h s target Act_active selected"
      unfolding selects_def by blast
  qed
qed

definition resolution_mode :: "policy_store \<Rightarrow> resolve_bundle_input \<Rightarrow> discovery_mode" where
  "resolution_mode s i = resolveDiscoveryMode (nullish_opt (rsi_metadata i) (getMetadata s))"

lemma resolution_result_fields [simp]:
  "brs_status (resolution_result k i m l st sel ma am mi) = st"
  "brs_selectedCandidate (resolution_result k i m l st sel ma am mi) = sel"
  by (simp_all add: resolution_result_def)

text \<open>What the metadata decides in static mode.\<close>

definition named_outcome ::
  "policy_store \<Rightarrow> bundle_reference option \<Rightarrow> bundle_resolution_status \<Rightarrow> resolution_candidate option \<Rightarrow> bool" where
  "named_outcome s active st selected \<longleftrightarrow>
     (case active of
        None \<Rightarrow> st = Res_no_match \<and> selected = None
      | Some ref \<Rightarrow>
          st = (if lookupBundleRecord s ref \<noteq> None then Res_resolved else Res_missing_bundle) \<and>
          selects_named s ref selected)"

lemma resolve_static_outcome:
  assumes "resolve_static s m (resolution_result kind i metadata labels) = Inr r"
  shows "named_outcome s (cpm_activeBundleRef m) (brs_status r) (brs_selectedCandidate r)"
proof (cases "cpm_activeBundleRef m")
  case None
  with assms show ?thesis
    by (auto simp: resolve_static_def createStaticCandidate_def named_outcome_def classifyResolutionStatus_def)
next
  case (Some ref)
  then obtain c where c: "createStaticCandidate s m = Inr (Some c)"
      "rcd_source c = Source_static" "rcd_activation c = None" "rcd_bundleRef c = ref"
      "rcd_bundleRecord c = lookupBundleRecord s ref"
    using assms by (auto simp: resolve_static_def createStaticCandidate_def Let_def)
  have "brs_selectedCandidate r = Some c \<and>
      brs_status r = classifyResolutionStatus (Some c) [] (filter (\<lambda>c. rcd_bundleRecord c = None) [c]) [c]"
    using assms c(1) by (auto simp: resolve_static_def Let_def)
  then show ?thesis
    using c(2-5) Some
    by (simp add: named_outcome_def selects_named_def classifyResolutionStatus_def candidate_frozen_def)
qed

text \<open>Which branch resolution takes.\<close>

lemma resolution_branches:
  assumes ok: "lifecycle_ok s" "targets_ok s" and res: "resolvePolicyBundleForTarget h kind s i = Inr r"
  obtains "covering s Act_frozen (rsi_target i) \<noteq> {}" "brs_status r = Res_frozen"
      "selects h s (rsi_target i) Act_frozen (brs_selectedCandidate r)"
  | labels m where "covering s Act_frozen (rsi_target i) = {}" "resolution_mode s i = Mode_static"
      "nullish_opt (rsi_metadata i) (getMetadata s) = Some m"
      "resolve_static s m (resolution_result kind i (Some m) labels) = Inr r"
  | labels where "covering s Act_frozen (rsi_target i) = {}" "resolution_mode s i \<noteq> Mode_static"
      "resolve_active s (resolvePolicyActivationPrecedence (rsi_target i) (in_state h s Act_active))
         (resolution_result kind i (nullish_opt (rsi_metadata i) (getMetadata s)) labels) = Inr r"
proof -
  let ?m = "nullish_opt (rsi_metadata i) (getMetadata s)"
  let ?scoped = "candidateActivationsForScopedResolution h s"
  have frozen_list: "filter (\<lambda>a. acr_state a = Act_frozen) ?scoped = in_state h s Act_frozen"
    and active_list: "filter (\<lambda>a. acr_state a = Act_active) ?scoped = in_state h s Act_active"
    by (auto simp: candidateActivationsForScopedResolution_def in_state_def intro: filter_cong)
  let ?F = "resolvePolicyActivationPrecedence (rsi_target i) (in_state h s Act_frozen)"
  have nonempty: "length (prs_matchedCandidates ?F) > 0 \<longleftrightarrow> covering s Act_frozen (rsi_target i) \<noteq> {}"
    using state_precedence(2) [OF ok, of Act_frozen "rsi_target i" h]
    by (metis image_is_empty length_greater_0_conv set_empty)
  obtain labels where l: "createPolicyDiscoveryLabels h
        \<lparr> lbi_target = rsi_target i, lbi_metadata = ?m, lbi_storeKind = Some kind, lbi_labels = rsi_labels i \<rparr> = Inr labels"
    using res by (auto simp: resolvePolicyBundleForTarget_def Let_def)
  let ?result = "resolution_result kind i ?m labels"
  have body: "(if length (prs_matchedCandidates ?F) > 0
         then resolve_frozen s (rsi_target i) ?scoped ?F (?result Res_frozen)
         else case (if resolution_mode s i = Mode_static then ?m else None) of
             Some m \<Rightarrow> resolve_static s m ?result
           | None \<Rightarrow> resolve_active s
               (resolvePolicyActivationPrecedence (rsi_target i) (in_state h s Act_active)) ?result) = Inr r"
    using res unfolding resolvePolicyBundleForTarget_def Let_def resolveFrozenPrecedence_def frozen_list
      active_list l rbind.simps resolution_mode_def .
  show thesis
  proof (cases "covering s Act_frozen (rsi_target i) = {}")
    case False
    then have "resolve_frozen s (rsi_target i) ?scoped ?F (?result Res_frozen) = Inr r"
      using body nonempty by simp
    moreover obtain a where a: "a \<in> covering s Act_frozen (rsi_target i)"
      "leads (rsi_target i) (in_state h s Act_frozen) a"
      "prs_winner ?F = Some (activation_candidate_for (rsi_target i) a)"
      using state_precedence(4) [OF ok, of Act_frozen "rsi_target i" h] False by blast
    ultimately obtain c where c: "createActivationCandidate s (activation_candidate_for (rsi_target i) a) = Inr c"
      "brs_status r = Res_frozen" "brs_selectedCandidate r = Some c"
      by (auto simp: resolve_frozen_def Let_def)
    have "selects h s (rsi_target i) Act_frozen (brs_selectedCandidate r)"
      using candidate_created [OF c(1)] c(3) a(1,2) unfolding selects_def covering_def by blast
    with False c(2) show thesis by (rule that(1))
  next
    case True
    then have rest: "(case (if resolution_mode s i = Mode_static then ?m else None) of
             Some m \<Rightarrow> resolve_static s m ?result
           | None \<Rightarrow> resolve_active s
               (resolvePolicyActivationPrecedence (rsi_target i) (in_state h s Act_active)) ?result) = Inr r"
      using body nonempty by simp
    show thesis
    proof (cases "resolution_mode s i = Mode_static")
      case static: True
      then obtain m where m: "?m = Some m"
        by (cases ?m) (auto simp: resolution_mode_def resolveDiscoveryMode_def)
      then show thesis using that(2) [OF True static m, of labels] rest static by simp
    next
      case False
      with rest show thesis using that(3) [OF True False, of labels] by simp
    qed
  qed
qed

lemma discovery_outcome:
  assumes ok: "lifecycle_ok s" "targets_ok s" and res: "resolvePolicyBundleForTarget h kind s i = Inr r"
  shows "if covering s Act_frozen (rsi_target i) \<noteq> {}
    then brs_status r = Res_frozen \<and> selects h s (rsi_target i) Act_frozen (brs_selectedCandidate r)
    else if resolution_mode s i = Mode_static
    then named_outcome s (Option.bind (nullish_opt (rsi_metadata i) (getMetadata s)) cpm_activeBundleRef)
      (brs_status r) (brs_selectedCandidate r)
    else if covering s Act_active (rsi_target i) = {}
    then brs_status r = Res_no_match \<and> brs_selectedCandidate r = None
    else brs_status r = (if \<forall>a\<in>covering s Act_active (rsi_target i). lookupBundleRecord s (acr_bundle a) \<noteq> None
        then Res_resolved else Res_missing_bundle) \<and>
      selects h s (rsi_target i) Act_active (brs_selectedCandidate r)"
  using ok res
proof (cases rule: resolution_branches)
  case 1
  then show ?thesis by simp
next
  case (2 labels m)
  then show ?thesis using resolve_static_outcome [OF 2(4)] by simp
next
  case (3 labels)
  from resolve_active_outcome [OF ok 3(3)] obtain st selected matched ambiguous missing where
    r: "r = resolution_result kind i (nullish_opt (rsi_metadata i) (getMetadata s)) labels st selected matched ambiguous missing"
    "covering s Act_active (rsi_target i) = {} \<Longrightarrow> st = Res_no_match \<and> selected = None"
    "covering s Act_active (rsi_target i) \<noteq> {} \<Longrightarrow>
       st = (if \<forall>a\<in>covering s Act_active (rsi_target i). lookupBundleRecord s (acr_bundle a) \<noteq> None
             then Res_resolved else Res_missing_bundle) \<and> selects h s (rsi_target i) Act_active selected"
    by blast
  show ?thesis
    using r(2,3) 3(1,2) by (cases "covering s Act_active (rsi_target i) = {}") (simp_all add: r(1))
qed

text \<open>
  C34: In every store the lifecycle reaches with well-formed targets, the status of a resolution
  and its selection are determined, in every discovery mode. If a frozen activation covers the
  target, it is frozen and selects the frozen activation that outranks all others. Otherwise in
  static mode the metadata decides: no match if they name no bundle, else the named bundle is
  selected, and resolved exactly when it is stored. Otherwise there is no match and no selection
  if no active activation covers the target; else the active one that outranks all others is
  selected, and the target resolves exactly when the bundles of all covering ones are stored. So
  no resolution is ambiguous.
\<close>

theorem discovery_exact:
  assumes "lifecycle_run h k s" "targets_ok s" "resolvePolicyBundleForTarget h kind s i = Inr r"
  shows "if covering s Act_frozen (rsi_target i) \<noteq> {}
    then brs_status r = Res_frozen \<and> selects h s (rsi_target i) Act_frozen (brs_selectedCandidate r)
    else if resolution_mode s i = Mode_static
    then case Option.bind (nullish_opt (rsi_metadata i) (getMetadata s)) cpm_activeBundleRef of
        None \<Rightarrow> brs_status r = Res_no_match \<and> brs_selectedCandidate r = None
      | Some ref \<Rightarrow>
          brs_status r = (if lookupBundleRecord s ref \<noteq> None then Res_resolved else Res_missing_bundle) \<and>
          selects_named s ref (brs_selectedCandidate r)
    else if covering s Act_active (rsi_target i) = {}
    then brs_status r = Res_no_match \<and> brs_selectedCandidate r = None
    else brs_status r = (if \<forall>a\<in>covering s Act_active (rsi_target i). lookupBundleRecord s (acr_bundle a) \<noteq> None
        then Res_resolved else Res_missing_bundle) \<and>
      selects h s (rsi_target i) Act_active (brs_selectedCandidate r)"
  using discovery_outcome [OF run_ok [OF assms(1)] assms(2,3)] unfolding named_outcome_def .

lemma sample_targets_ok: "targets_ok sample_store"
  unfolding targets_ok_def create_target_idem [symmetric] by code_simp

text \<open>Metadata in static mode that name a bundle.\<close>

definition static_metadata :: "string \<Rightarrow> control_plane_metadata" where
  "static_metadata b =
     \<lparr> cpm_version = [], cpm_storeKind = Store_embedded_memory, cpm_discoveryMode = Mode_static,
       cpm_activeBundleRef = Some (sample_bundle b), cpm_latestActivationId = None,
       cpm_compatibility = defaultPolicyCompatibilityDescriptor \<rparr>"

definition discovery_query :: "string option \<Rightarrow> control_plane_metadata option \<Rightarrow> resolve_bundle_input" where
  "discovery_query tenant m = \<lparr> rsi_target = sample_target ''prod'' tenant, rsi_metadata = m, rsi_labels = [] \<rparr>"

theorem discovery_exact_witness:
  "(\<exists>r. resolvePolicyBundleForTarget sample_host Store_embedded_memory sample_store
      (discovery_query (Some ''t'') None) = Inr r \<and> brs_status r = Res_frozen \<and>
      selects sample_host sample_store (sample_target ''prod'' (Some ''t'')) Act_frozen (brs_selectedCandidate r)) \<and>
   (\<exists>r. resolvePolicyBundleForTarget sample_host Store_embedded_memory sample_store
      (discovery_query None None) = Inr r \<and> brs_status r = Res_missing_bundle \<and>
      selects sample_host sample_store (sample_target ''prod'' None) Act_active (brs_selectedCandidate r)) \<and>
   (\<exists>r. resolvePolicyBundleForTarget sample_host Store_embedded_memory sample_store
      (discovery_query None (Some (static_metadata ''b9''))) = Inr r \<and> brs_status r = Res_missing_bundle \<and>
      selects_named sample_store (sample_bundle ''b9'') (brs_selectedCandidate r))"
proof -
  let ?resolve = "resolvePolicyBundleForTarget sample_host Store_embedded_memory sample_store"
  have run: "\<exists>r. ?resolve (discovery_query (Some ''t'') None) = Inr r \<and> brs_status r = Res_frozen"
    "\<exists>r. ?resolve (discovery_query None None) = Inr r \<and> brs_status r = Res_missing_bundle"
    "\<exists>r. ?resolve (discovery_query None (Some (static_metadata ''b9''))) = Inr r \<and>
      brs_status r = Res_missing_bundle"
  proof -
    have "map_sum (\<lambda>_. ()) brs_status (?resolve (discovery_query (Some ''t'') None)) = Inr Res_frozen"
      "map_sum (\<lambda>_. ()) brs_status (?resolve (discovery_query None None)) = Inr Res_missing_bundle"
      "map_sum (\<lambda>_. ()) brs_status (?resolve (discovery_query None (Some (static_metadata ''b9'')))) =
        Inr Res_missing_bundle"
      by code_simp+
    then show "\<exists>r. ?resolve (discovery_query (Some ''t'') None) = Inr r \<and> brs_status r = Res_frozen"
      "\<exists>r. ?resolve (discovery_query None None) = Inr r \<and> brs_status r = Res_missing_bundle"
      "\<exists>r. ?resolve (discovery_query None (Some (static_metadata ''b9''))) = Inr r \<and>
        brs_status r = Res_missing_bundle"
      by (auto simp: map_sum_def split: sum.splits)
  qed
  have "getMetadata sample_store = None" by code_simp
  then have mode: "resolution_mode sample_store (discovery_query t None) = Mode_scoped_active"
    "resolution_mode sample_store (discovery_query t (Some (static_metadata b))) = Mode_static"
    "nullish_opt (rsi_metadata (discovery_query t (Some (static_metadata b)))) m = Some (static_metadata b)"
    "cpm_activeBundleRef (static_metadata b) = Some (sample_bundle b)"
    "rsi_target (discovery_query t q) = sample_target ''prod'' t" for t b m q
    by (simp_all add: resolution_mode_def resolveDiscoveryMode_def discovery_query_def static_metadata_def)
  note exact = discovery_exact [OF sample_store_run sample_targets_ok]
  have "selects sample_host sample_store (sample_target ''prod'' (Some ''t'')) Act_frozen (brs_selectedCandidate r)"
    if "?resolve (discovery_query (Some ''t'') None) = Inr r" "brs_status r = Res_frozen" for r
    using exact [OF that(1)] that(2) by (simp add: mode split: if_split_asm)
  moreover have "selects sample_host sample_store (sample_target ''prod'' None) Act_active (brs_selectedCandidate r)"
    if "?resolve (discovery_query None None) = Inr r" "brs_status r = Res_missing_bundle" for r
    using exact [OF that(1)] that(2) by (simp add: mode split: if_split_asm)
  moreover have "selects_named sample_store (sample_bundle ''b9'') (brs_selectedCandidate r)"
    if "?resolve (discovery_query None (Some (static_metadata ''b9''))) = Inr r"
      "brs_status r = Res_missing_bundle" for r
    using exact [OF that(1)] that(2) by (simp add: mode split: if_split_asm)
  ultimately show ?thesis using run by blast
qed

section \<open>The policy that is in force\<close>

lemma single_index:
  assumes "createCompiledAdmissionPolicyIndex sha256 [p] = Inr index"
  shows "pix_rejectedEntries index = [] \<longleftrightarrow> meets_baseline p \<and> pol_status p = Active"
proof -
  obtain c v where cv: "compileReleasePolicyDefinition sha256 p = Inr c"
    "verifyCompiledAdmissionPolicy sha256 c = Inr v"
    using assms by (auto simp: createCompiledAdmissionPolicyIndex_def)
  have "pix_rejectedEntries index = [] \<longleftrightarrow> map ide_definition (pix_entries index) = [p]"
    using assms cv
    by (cases "rejectionReasonFor p v") (auto simp: createCompiledAdmissionPolicyIndex_def Let_def)
  also have "\<dots> \<longleftrightarrow> meets_baseline p \<and> pol_status p = Active"
    unfolding createIndex_spec(2) [OF assms] by simp
  finally show ?thesis .
qed

lemma reject_candidate_None:
  "reject_candidate h c = Inr None \<Longrightarrow>
     meets_baseline (ben_definition (ecd_entry c)) \<and> pol_status (ben_definition (ecd_entry c)) = Active"
proof -
  assume none: "reject_candidate h c = Inr None"
  then obtain index where index:
    "createCompiledAdmissionPolicyIndex (bh_sha256 h) [ben_definition (ecd_entry c)] = Inr index"
    by (auto simp: reject_candidate_def)
  then have "pix_rejectedEntries index = []"
    using none by (cases "pix_rejectedEntries index") (simp_all add: reject_candidate_def)
  with single_index [OF index] show ?thesis by simp
qed

interpretation entry_order: consistent_cmp
  "\<lambda>l r. comparePolicyScopeMatches (ecd_match l) (ecd_match r)"
  by unfold_locales (use match_order.cmp_total match_order.cmp_trans in blast)+

lemma samePrecedenceMatch_refl [simp]: "samePrecedenceMatch m m"
  by (simp add: samePrecedenceMatch_def list_all_iff)

definition entries_of :: "stored_bundle \<Rightarrow> bundle_entry list" where
  "entries_of b = bpr_entries (bst_predicate (bar_statement (stb_artifact b)))"

text \<open>An entry that is ahead of every other applicable entry of its bundle.\<close>

definition leading_entry :: "active_policy_input \<Rightarrow> stored_bundle \<Rightarrow> bundle_entry \<Rightarrow> bool" where
  "leading_entry i b e \<longleftrightarrow>
     e \<in> set (entries_of b) \<and> entry_applies i (entry_candidate_for (api_target i) e) \<and>
     (\<forall>d\<in>set (entries_of b). entry_applies i (entry_candidate_for (api_target i) d) \<and> d \<noteq> e \<longrightarrow>
        comparePolicyScopeMatches (ecd_match (entry_candidate_for (api_target i) e))
          (ecd_match (entry_candidate_for (api_target i) d)) \<le> 0 \<and>
        \<not> samePrecedenceMatch (ecd_match (entry_candidate_for (api_target i) d))
            (ecd_match (entry_candidate_for (api_target i) e)))"

lemma selected_entry:
  assumes sel: "selectMatchingEntries h b i = Inr sel" "esl_matchedEntryCandidates sel \<noteq> []"
    "esl_rejectedEntryCandidates sel = []" "esl_ambiguousEntryCandidates sel = []"
  obtains e where "esl_selectedEntry sel = Some e" "leading_entry i b e"
    "meets_baseline (ben_definition e)" "pol_status (ben_definition e) = Active"
proof -
  let ?cand = "entry_candidate_for (api_target i)"
  let ?cmp = "\<lambda>l r. comparePolicyScopeMatches (ecd_match l) (ecd_match r)"
  define M where "M = sort_with ?cmp (filter (entry_applies i) (map ?cand (entries_of b)))"
  have setM: "set M = {c \<in> ?cand ` set (entries_of b). entry_applies i c}" by (auto simp: M_def)
  obtain top rest where M: "M = top # rest"
    using sel(1,2) unfolding selectMatchingEntries_def Let_def entries_of_def [symmetric] M_def [symmetric]
    by (cases M) auto
  define T where "T = filter (\<lambda>c. samePrecedenceMatch (ecd_match c) (ecd_match top)) M"
  obtain rejections where rj: "rmap_list (reject_candidate h) T = Inr rejections"
    and branch: "(let rejected = concat (map (\<lambda>r. case r of None \<Rightarrow> [] | Some c \<Rightarrow> [c]) rejections) in
            if length rejected > 0
            then Inr \<lparr> esl_matchedEntryCandidates = M, esl_ambiguousEntryCandidates = [],
                esl_rejectedEntryCandidates = rejected, esl_selectedEntry = None \<rparr>
            else Inr \<lparr> esl_matchedEntryCandidates = M,
                esl_ambiguousEntryCandidates = (if length T > 1 then T else []),
                esl_rejectedEntryCandidates = rejected,
                esl_selectedEntry = (if length T > 1 then None else Some (ecd_entry top)) \<rparr>) = (Inr sel :: entry_selection result)"
    using sel(1) M unfolding selectMatchingEntries_def Let_def entries_of_def [symmetric] M_def [symmetric] T_def
    by auto
  have none: "concat (map (\<lambda>r. case r of None \<Rightarrow> [] | Some c \<Rightarrow> [c]) rejections) = []"
    using branch sel(3) by (auto simp: Let_def split: if_split_asm)
  have "length T \<le> 1" "esl_selectedEntry sel = Some (ecd_entry top)"
    using branch none sel(4) by (auto simp: Let_def split: if_split_asm)
  moreover have "top \<in> set T" by (simp add: T_def M)
  ultimately have T: "T = [top]" by (cases T) auto
  have "rejections \<noteq> [] \<and> hd rejections = None"
    using rj none by (cases rejections) (auto simp: T split: option.splits)
  then have "reject_candidate h top = Inr None" using rj by (cases rejections) (auto simp: T)
  note ok = reject_candidate_None [OF this]
  obtain e where e: "e \<in> set (entries_of b)" "top = ?cand e" "entry_applies i top"
  proof -
    have "top \<in> set M" by (simp add: M)
    then show ?thesis using that unfolding setM by blast
  qed
  have top_entry: "ecd_entry top = e" using e(2) by (simp add: entry_candidate_for_def)
  have "leading_entry i b e"
    unfolding leading_entry_def
  proof (intro conjI ballI impI)
    show "e \<in> set (entries_of b)" "entry_applies i (?cand e)" using e by auto
    fix d assume d: "d \<in> set (entries_of b)" and ap: "entry_applies i (?cand d) \<and> d \<noteq> e"
    then have "?cand d \<in> set (filter (entry_applies i) (map ?cand (entries_of b)))" by auto
    from entry_order.first_is_least [OF M [unfolded M_def] this]
    show "comparePolicyScopeMatches (ecd_match (?cand e)) (ecd_match (?cand d)) \<le> 0"
      by (simp only: e(2))
    have "?cand d \<noteq> top" using ap e(2) by (auto simp: entry_candidate_for_def)
    moreover have "?cand d \<in> set M" using d ap setM by blast
    ultimately show "\<not> samePrecedenceMatch (ecd_match (?cand d)) (ecd_match (?cand e))"
    proof (intro notI)
      assume "?cand d \<noteq> top" "?cand d \<in> set M" "samePrecedenceMatch (ecd_match (?cand d)) (ecd_match (?cand e))"
      then have "?cand d \<in> set T" unfolding T_def e(2) [symmetric] by simp
      with T \<open>?cand d \<noteq> top\<close> show False by simp
    qed
  qed
  with \<open>esl_selectedEntry sel = Some (ecd_entry top)\<close> top_entry ok show ?thesis
    by (intro that [of e]) auto
qed

text \<open>
  C31: When the resolver finds a policy in a store with one live activation for each target and
  well-formed targets, no frozen activation covers the target; the policy is the definition of an
  entry of a stored bundle: in static mode the one the metadata name as active, and otherwise that
  of the active activation that outranks all others; the bundle has the expected compatibility;
  the entry is ahead of every other entry of the bundle that matches the target and fits the
  request; and its policy is active and meets the baseline of its risk class.
\<close>

theorem active_policy_sound:
  assumes "lifecycle_ok s" "targets_ok s"
    and "resolveActivePolicy h kind s i = Inr r" "avp_status r = Pol_resolved"
  shows "covering s Act_frozen (api_target i) = {} \<and>
    (\<exists>b e. (if resolveDiscoveryMode (getMetadata s) = Mode_static
         then \<exists>m ref. getMetadata s = Some m \<and> cpm_activeBundleRef m = Some ref \<and> lookupBundleRecord s ref = Some b
         else \<exists>a. leads (api_target i) (in_state h s Act_active) a \<and> acr_state a = Act_active \<and>
           lookupBundleRecord s (acr_bundle a) = Some b) \<and>
       policyBundleCompatibilityKey (bmf_compatibility (stb_manifest b)) =
         policyBundleCompatibilityKey defaultPolicyCompatibilityDescriptor \<and>
       leading_entry i b e \<and> avp_selectedEntry r = Some e \<and>
       avp_effectivePolicy r = Some (ben_definition e) \<and>
       meets_baseline (ben_definition e) \<and> pol_status (ben_definition e) = Active)"
proof -
  let ?q = "\<lparr> rsi_target = api_target i, rsi_metadata = None, rsi_labels = [] \<rparr>"
  obtain br where br: "resolvePolicyBundleForTarget h kind s ?q = Inr br"
    using assms(3) by (auto simp: resolveActivePolicy_def)
  note D = discovery_outcome [OF assms(1,2) br, simplified]
  have status: "brs_status br = Res_resolved"
    using assms(3,4) br
    by (auto simp: resolveActivePolicy_def Let_def failResult_def split: if_split_asm option.splits)
  have frozen: "covering s Act_frozen (api_target i) = {}"
    using D status by (simp split: if_split_asm)
  have mode: "resolution_mode s ?q = resolveDiscoveryMode (getMetadata s)"
    by (simp add: resolution_mode_def)
  obtain c where c: "brs_selectedCandidate br = Some c"
    "if resolveDiscoveryMode (getMetadata s) = Mode_static
     then \<exists>m ref. getMetadata s = Some m \<and> cpm_activeBundleRef m = Some ref \<and>
       rcd_bundleRecord c = lookupBundleRecord s ref
     else \<exists>a. leads (api_target i) (in_state h s Act_active) a \<and> acr_state a = Act_active \<and>
       rcd_bundleRecord c = lookupBundleRecord s (acr_bundle a)"
    using D status frozen unfolding mode
    by (auto simp: named_outcome_def selects_def selects_named_def bind_eq_Some_conv
        split: if_split_asm option.splits)
  obtain b where b: "rcd_bundleRecord c = Some b"
    "cve_compatible (compatibilityEnvelope (Some b))"
    "resolve_entry h i br b (compatibilityEnvelope (Some b)) = Inr r"
    using assms(3,4) br status c(1)
    by (auto simp: resolveActivePolicy_def Let_def failResult_def split: if_split_asm option.splits)
  have source: "if resolveDiscoveryMode (getMetadata s) = Mode_static
     then \<exists>m ref. getMetadata s = Some m \<and> cpm_activeBundleRef m = Some ref \<and> lookupBundleRecord s ref = Some b
     else \<exists>a. leads (api_target i) (in_state h s Act_active) a \<and> acr_state a = Act_active \<and>
       lookupBundleRecord s (acr_bundle a) = Some b"
    using c(2) unfolding b(1) by (simp only: eq_commute [of "Some b"])
  obtain sel where sel: "selectMatchingEntries h b i = Inr sel"
    using b(3) by (auto simp: resolve_entry_def)
  then have ok: "esl_matchedEntryCandidates sel \<noteq> []" "esl_rejectedEntryCandidates sel = []"
    "esl_ambiguousEntryCandidates sel = []"
    using b(3) assms(4) by (auto simp: resolve_entry_def Let_def failResult_def split: if_split_asm)
  obtain e where e: "esl_selectedEntry sel = Some e" "leading_entry i b e"
    "meets_baseline (ben_definition e)" "pol_status (ben_definition e) = Active"
    by (rule selected_entry [OF sel ok])
  have "avp_selectedEntry r = Some e" "avp_effectivePolicy r = Some (ben_definition e)"
    using b(3) sel ok e(1) by (auto simp: resolve_entry_def Let_def)
  moreover have "policyBundleCompatibilityKey (bmf_compatibility (stb_manifest b)) =
      policyBundleCompatibilityKey defaultPolicyCompatibilityDescriptor"
    using b(2) by (simp add: compatibilityEnvelope_def Let_def)
  ultimately show ?thesis using frozen source e(2-4) by blast
qed

section \<open>Example\<close>

definition sample_stored :: "bundle_entry list \<Rightarrow> stored_bundle" where
  "sample_stored entries =
     (let manifest =
            \<lparr> bmf_version = POLICY_BUNDLE_MANIFEST_SPEC_VERSION, bmf_bundle = sample_bundle ''b2'',
              bmf_packId = ''p'', bmf_bundleLabels = [], bmf_generatedAt = 0,
              bmf_discoveryMode = Mode_scoped_active, bmf_compatibility = defaultPolicyCompatibilityDescriptor,
              bmf_schemas = [], bmf_entries = entries \<rparr>;
          pack =
            \<lparr> pck_version = POLICY_PACK_SPEC_VERSION, pck_id = ''p'', pck_name = ''p'', pck_description = None,
              pck_lifecycleState = Pack_published, pck_owners = [], pck_labels = [], pck_createdAt = 0,
              pck_updatedAt = 0, pck_latestBundleRef = None \<rparr>
      in \<lparr> stb_version = POLICY_STORE_RECORD_SPEC_VERSION, stb_packId = ''p'', stb_bundleId = ''b2'',
           stb_bundleVersion = ''1'', stb_storedAt = 0, stb_manifest = manifest,
           stb_artifact =
             \<lparr> bar_version = POLICY_BUNDLE_FORMAT_SPEC_VERSION, bar_bundleId = ''b2'', bar_packId = ''p'',
               bar_payloadType = POLICY_BUNDLE_PAYLOAD_TYPE,
               bar_statement =
                 \<lparr> bst_type = POLICY_BUNDLE_STATEMENT_TYPE, bst_subject = [],
                   bst_predicateType = POLICY_BUNDLE_PREDICATE_TYPE,
                   bst_predicate =
                     \<lparr> bpr_version = POLICY_BUNDLE_FORMAT_SPEC_VERSION, bpr_pack = pack,
                       bpr_manifest = manifest, bpr_entries = entries, bpr_schemas = [] \<rparr> \<rparr>,
               bar_canonicalPayload = [], bar_payloadDigest = [], bar_packDigest = [],
               bar_manifestDigest = [], bar_entriesDigest = [], bar_schemasDigest = [] \<rparr>,
           stb_signedBundle = None, stb_verificationKey = None \<rparr>)"

definition sample_entry :: "release_policy \<Rightarrow> bundle_entry" where
  "sample_entry p =
     \<lparr> ben_id = ''e'', ben_policyId = pol_id p,
       ben_scope = createPolicyScopeSelector (sample_target ''prod'' None), ben_definition = p,
       ben_rollout = pol_rollout p, ben_policyHash = [], ben_compiledPolicyHash = [],
       ben_compiledPolicyIrHash = [] \<rparr>"

definition sample_policy_input :: active_policy_input where
  "sample_policy_input =
     \<lparr> api_target = sample_target ''prod'' None,
       api_outputContract = evr_outputContract gateway_request,
       api_capabilityBoundary = evr_capabilityBoundary gateway_request,
       api_targetKind = tgt_kind (evr_target gateway_request),
       api_rolloutContext = sample_rollout_context \<rparr>"

definition store_with :: "bundle_entry list \<Rightarrow> policy_store" where
  "store_with entries = sample_store\<lparr> pst_bundles := [sample_stored entries] \<rparr>"

text \<open>The same store in static mode, where the metadata name the bundle.\<close>

definition static_store :: "bundle_entry list \<Rightarrow> policy_store" where
  "static_store entries = setMetadata (static_metadata ''b2'') (store_with entries)"

lemma store_with_ok:
  "lifecycle_ok (store_with es)" "targets_ok (store_with es)"
  "lifecycle_ok (static_store es)" "targets_ok (static_store es)"
  using run_ok [OF sample_store_run] sample_targets_ok
  by (simp_all add: static_store_def setMetadata_def store_with_def lifecycle_ok_def targets_ok_def)

text \<open>With the bundle stored, the sample target resolves to it, whatever its entries are.\<close>

lemma store_with_resolves:
  assumes "s \<in> {store_with es, static_store es}"
  obtains br c where "resolvePolicyBundleForTarget sample_host Store_embedded_memory s
      \<lparr> rsi_target = sample_target ''prod'' None, rsi_metadata = None, rsi_labels = [] \<rparr> = Inr br"
    "brs_status br = Res_resolved" "brs_selectedCandidate br = Some c"
    "rcd_bundleRecord c = Some (sample_stored es)"
proof -
  let ?q = "\<lparr> rsi_target = sample_target ''prod'' None, rsi_metadata = None, rsi_labels = [] \<rparr>"
  let ?found = "\<lambda>s. case resolvePolicyBundleForTarget sample_host Store_embedded_memory s ?q of
      Inl e \<Rightarrow> False
    | Inr br \<Rightarrow> brs_status br = Res_resolved \<and>
        (case brs_selectedCandidate br of None \<Rightarrow> False
         | Some c \<Rightarrow> rcd_bundleRecord c = Some (sample_stored es))"
  have "?found (store_with es)" by code_simp
  moreover have "?found (static_store es)" by code_simp
  ultimately have "?found s" using assms by blast
  then show thesis using that by (auto split: sum.splits option.splits)
qed

lemma reject_candidate_passes:
  assumes "policy_size (ben_definition (ecd_entry c)) \<le> 33000" "meets_baseline (ben_definition (ecd_entry c))"
    "pol_status (ben_definition (ecd_entry c)) = Active"
  shows "reject_candidate h c = Inr None"
proof -
  obtain index where index:
    "createCompiledAdmissionPolicyIndex (bh_sha256 h) [ben_definition (ecd_entry c)] = Inr index"
    using createIndex_succeeds [of "[ben_definition (ecd_entry c)]" "bh_sha256 h"] assms(1) by auto
  with single_index [OF index] assms(2,3) show ?thesis by (simp add: reject_candidate_def)
qed

lemma sample_policy_found:
  assumes p: "createFirstHardGatewayReleasePolicy = Inr p"
    and s: "s \<in> {store_with [sample_entry p], static_store [sample_entry p]}"
  shows "\<exists>r. resolveActivePolicy sample_host Store_embedded_memory s sample_policy_input = Inr r \<and>
    avp_status r = Pol_resolved \<and> avp_effectivePolicy r = Some p"
proof -
  have p: "meets_baseline p" "policy_size p \<le> 33000"
    "pol_status p = Active" "rol_mode (pol_rollout p) = Enforce"
    "matchesReleasePolicyScope p (evr_outputContract gateway_request) (evr_capabilityBoundary gateway_request)
      (tgt_kind (evr_target gateway_request))"
  proof -
    obtain q where q: "createFirstHardGatewayReleasePolicy = Inr q" "meets_baseline q" "policy_size q \<le> 33000"
      "pol_status q = Active" "rol_mode (pol_rollout q) = Enforce"
      "matchesReleasePolicyScope q (evr_outputContract gateway_request) (evr_capabilityBoundary gateway_request)
        (tgt_kind (evr_target gateway_request))"
      by (rule gateway_policy)
    have "q = p" using p unfolding q(1) by (rule sum.inject(2) [THEN iffD1])
    with q(2-) show "meets_baseline p" "policy_size p \<le> 33000" "pol_status p = Active"
      "rol_mode (pol_rollout p) = Enforce"
      "matchesReleasePolicyScope p (evr_outputContract gateway_request) (evr_capabilityBoundary gateway_request)
        (tgt_kind (evr_target gateway_request))"
      by simp_all
  qed
  let ?t = "sample_target ''prod'' None" and ?e = "sample_entry p"
  obtain br c where br: "resolvePolicyBundleForTarget sample_host Store_embedded_memory s
      \<lparr> rsi_target = ?t, rsi_metadata = None, rsi_labels = [] \<rparr> = Inr br"
    "brs_status br = Res_resolved" "brs_selectedCandidate br = Some c"
    "rcd_bundleRecord c = Some (sample_stored [?e])"
    using s by (rule store_with_resolves)
  have "smt_matches (matchPolicyScope ?t (Inr (createPolicyScopeSelector ?t)))" by code_simp
  then have applies: "entry_applies sample_policy_input (entry_candidate_for ?t ?e)"
    using p(5) by (simp add: entry_applies_def entry_candidate_for_def sample_entry_def sample_policy_input_def)
  have "reject_candidate sample_host (entry_candidate_for ?t ?e) = Inr None"
    by (rule reject_candidate_passes) (use p in \<open>simp_all add: entry_candidate_for_def sample_entry_def\<close>)
  then have sel: "selectMatchingEntries sample_host (sample_stored [?e]) sample_policy_input = Inr
      \<lparr> esl_matchedEntryCandidates = [entry_candidate_for ?t ?e], esl_ambiguousEntryCandidates = [],
        esl_rejectedEntryCandidates = [], esl_selectedEntry = Some ?e \<rparr>"
    using applies
    by (simp add: selectMatchingEntries_def sample_stored_def Let_def sample_policy_input_def entry_candidate_for_def)
  have "\<exists>r. resolve_entry sample_host sample_policy_input br (sample_stored [?e])
      (compatibilityEnvelope (Some (sample_stored [?e]))) = Inr r \<and> avp_status r = Pol_resolved \<and>
        avp_effectivePolicy r = Some p"
    using sel p(4) by (simp add: resolve_entry_def resolveReleasePolicyRollout_def sample_entry_def)
  moreover have "cve_compatible (compatibilityEnvelope (Some (sample_stored [?e])))"
    by (simp add: compatibilityEnvelope_def sample_stored_def Let_def)
  ultimately show ?thesis
    using br by (auto simp: resolveActivePolicy_def sample_policy_input_def Let_def)
qed

theorem active_policy_sound_witness:
  "\<exists>p scoped static. createFirstHardGatewayReleasePolicy = Inr p \<and> meets_baseline p \<and>
     resolveActivePolicy sample_host Store_embedded_memory (store_with [sample_entry p]) sample_policy_input =
       Inr scoped \<and> avp_effectivePolicy scoped = Some p \<and>
     resolveActivePolicy sample_host Store_embedded_memory (static_store [sample_entry p]) sample_policy_input =
       Inr static \<and> avp_effectivePolicy static = Some p \<and>
     (\<exists>m ref b. getMetadata (static_store [sample_entry p]) = Some m \<and> cpm_activeBundleRef m = Some ref \<and>
        lookupBundleRecord (static_store [sample_entry p]) ref = Some b)"
proof -
  obtain p where p: "createFirstHardGatewayReleasePolicy = Inr p"
    by (rule gateway_policy)
  obtain r1 where r1: "resolveActivePolicy sample_host Store_embedded_memory (store_with [sample_entry p])
      sample_policy_input = Inr r1" "avp_status r1 = Pol_resolved" "avp_effectivePolicy r1 = Some p"
    using sample_policy_found [OF p, of "store_with [sample_entry p]"] by blast
  obtain r2 where r2: "resolveActivePolicy sample_host Store_embedded_memory (static_store [sample_entry p])
      sample_policy_input = Inr r2" "avp_status r2 = Pol_resolved" "avp_effectivePolicy r2 = Some p"
    using sample_policy_found [OF p, of "static_store [sample_entry p]"] by blast
  have "resolveDiscoveryMode (getMetadata (static_store [sample_entry p])) = Mode_static"
    by (simp add: static_store_def setMetadata_def getMetadata_def resolveDiscoveryMode_def static_metadata_def)
  with active_policy_sound [OF store_with_ok(3,4) r2(1,2)]
  have named: "\<exists>m ref b. getMetadata (static_store [sample_entry p]) = Some m \<and> cpm_activeBundleRef m = Some ref \<and>
        lookupBundleRecord (static_store [sample_entry p]) ref = Some b"
    by (simp only: simp_thms if_True) blast
  have "meets_baseline p"
    using active_policy_sound [OF store_with_ok(1,2) r1(1,2)] r1(3) by auto
  with p r1(1,3) r2(1,3) named show ?thesis by blast
qed

end
