(* ===== verification/Policy_Integrity.thy ===== *)
theory Policy_Integrity
  imports Activation_Lifecycle
begin

text \<open>
  What signatures and the store of the policy control plane guarantee for bundles
  (src/release-policy-control-plane/bundle-signing.ts, store-records.ts and store.ts).

  The first part is about one bundle: a bundle that a signer issues verifies under the exported
  key, and a bundle that verifies carries a payload its signer signed. The second part is about
  the store: every stored bundle is coherent, and what is stored under a pack and bundle
  identifier never changes its content, while its signature is that of the last accepted input.
\<close>

section \<open>Issued bundles\<close>

text \<open>
  What is assumed of the host: decoding undoes encoding, and a signature made with the private
  key verifies under the public key.
\<close>

definition decoding_undoes_encoding :: "signing_host \<Rightarrow> bool" where
  "decoding_undoes_encoding k \<longleftrightarrow>
     (\<forall>b. sih_fromBase64 k (sih_toBase64 k b) = b) \<and> (\<forall>s. sih_fromUtf8 k (sih_toUtf8 k s) = s)"

definition key_pair :: "signing_host \<Rightarrow> string \<Rightarrow> string \<Rightarrow> bool" where
  "key_pair k privateKey publicKey \<longleftrightarrow>
     (\<forall>m sig. sih_sign k privateKey m = Inr sig \<longrightarrow> sih_verify k publicKey m sig = Inr True)"

lemma signature_record_fields:
  assumes "createPolicyBundleSignatureRecord i = Inr rec"
  shows "bsr_keyId rec = trim (bsi_keyId i)" "bsr_signerFingerprint rec = trim (bsi_signerFingerprint i)"
    "bsr_signature rec = trim (bsi_signature i)" "bsr_payloadDigest rec = trim (bsi_payloadDigest i)"
    "bsr_bundle rec = bsi_bundle i"
  using assms by (auto simp: createPolicyBundleSignatureRecord_def)

definition signed_payload :: "bundle_artifact \<Rightarrow> signing_host \<Rightarrow> string" where
  "signed_payload a k =
     dssePreAuthEncoding k (bar_payloadType a) (sih_toUtf8 k (bar_canonicalPayload a))"

lemma issued_fields:
  assumes "signPolicyBundle k now inp key si = Inr issued"
  obtains signature where "sih_sign k (bsn_privateKeyPem inp) (signed_payload (sgn_artifact si) k) = Inr signature"
    "isb_artifact issued = sgn_artifact si"
    "dse_payloadType (isb_envelope issued) = bar_payloadType (sgn_artifact si)"
    "dse_payload (isb_envelope issued) = sih_toBase64 k (sih_toUtf8 k (bar_canonicalPayload (sgn_artifact si)))"
    "dse_signatures (isb_envelope issued) = [\<lparr> dsg_keyid = bvk_keyId key, dsg_sig = sih_toBase64 k signature \<rparr>]"
    "bsr_keyId (isb_signatureRecord issued) = trim (bvk_keyId key)"
    "bsr_signerFingerprint (isb_signatureRecord issued) = trim (bvk_publicKeyFingerprint key)"
    "bsr_signature (isb_signatureRecord issued) = trim (sih_toBase64 k signature)"
    "bsr_payloadDigest (isb_signatureRecord issued) = trim (bar_payloadDigest (sgn_artifact si))"
    "bsr_bundle (isb_signatureRecord issued) =
       bmf_bundle (bpr_manifest (bst_predicate (bar_statement (sgn_artifact si))))"
proof -
  obtain signature i rec where s:
    "sih_sign k (bsn_privateKeyPem inp) (signed_payload (sgn_artifact si) k) = Inr signature"
    "createPolicyBundleSignatureRecord i = Inr rec"
    "bsi_keyId i = bvk_keyId key" "bsi_signerFingerprint i = bvk_publicKeyFingerprint key"
    "bsi_signature i = sih_toBase64 k signature" "bsi_payloadDigest i = bar_payloadDigest (sgn_artifact si)"
    "bsi_bundle i = bmf_bundle (bpr_manifest (bst_predicate (bar_statement (sgn_artifact si))))"
    "isb_signatureRecord issued = rec" "isb_artifact issued = sgn_artifact si"
    "isb_envelope issued =
       \<lparr> dse_payloadType = bar_payloadType (sgn_artifact si),
         dse_payload = sih_toBase64 k (sih_toUtf8 k (bar_canonicalPayload (sgn_artifact si))),
         dse_signatures = [\<lparr> dsg_keyid = bvk_keyId key, dsg_sig = sih_toBase64 k signature \<rparr>] \<rparr>"
    using assms by (auto simp: signPolicyBundle_def Let_def signed_payload_def)
  show thesis
    by (rule that [OF s(1,9)]) (simp_all add: s signature_record_fields [OF s(2)])
qed

lemma issued_verification:
  assumes "decoding_undoes_encoding k" "key_pair k (bsn_privateKeyPem inp) (bsn_publicKeyPem inp)"
    and "createPolicyBundleSigner k inp = Inr key" "signPolicyBundle k now inp key si = Inr issued"
  shows "(\<exists>signature. dse_signatures (isb_envelope issued) = [signature] \<and>
      ((\<exists>r. verifyIssuedPolicyBundle k issued (Some key) = Inr r \<and> bvr_valid r \<and>
          bvr_bundleId r = bar_bundleId (sgn_artifact si) \<and>
          bvr_payloadDigest r = bar_payloadDigest (sgn_artifact si)) \<longleftrightarrow>
       trim (bvk_keyId key) = bvk_keyId key \<and>
       trim (bvk_publicKeyFingerprint key) = bvk_publicKeyFingerprint key \<and>
       trim (dsg_sig signature) = dsg_sig signature \<and>
       trim (bar_payloadDigest (sgn_artifact si)) = bar_payloadDigest (sgn_artifact si)))"
proof -
  obtain signature where s: "sih_sign k (bsn_privateKeyPem inp) (signed_payload (sgn_artifact si) k) = Inr signature"
    and f: "isb_artifact issued = sgn_artifact si"
    "dse_payloadType (isb_envelope issued) = bar_payloadType (sgn_artifact si)"
    "dse_payload (isb_envelope issued) = sih_toBase64 k (sih_toUtf8 k (bar_canonicalPayload (sgn_artifact si)))"
    "dse_signatures (isb_envelope issued) = [\<lparr> dsg_keyid = bvk_keyId key, dsg_sig = sih_toBase64 k signature \<rparr>]"
    "bsr_keyId (isb_signatureRecord issued) = trim (bvk_keyId key)"
    "bsr_signerFingerprint (isb_signatureRecord issued) = trim (bvk_publicKeyFingerprint key)"
    "bsr_signature (isb_signatureRecord issued) = trim (sih_toBase64 k signature)"
    "bsr_payloadDigest (isb_signatureRecord issued) = trim (bar_payloadDigest (sgn_artifact si))"
    "bsr_bundle (isb_signatureRecord issued) =
       bmf_bundle (bpr_manifest (bst_predicate (bar_statement (sgn_artifact si))))"
    by (rule issued_fields [OF assms(4)])
  have pem: "bvk_publicKeyPem key = bsn_publicKeyPem inp"
    using assms(3) by (auto simp: createPolicyBundleSigner_def)
  have "sih_verify k (bvk_publicKeyPem key) (signed_payload (sgn_artifact si) k) signature = Inr True"
    using assms(2) s unfolding key_pair_def pem by blast
  moreover have "sih_fromBase64 k (sih_toBase64 k b) = b" "sih_fromUtf8 k (sih_toUtf8 k t) = t" for b t
    using assms(1) by (simp_all add: decoding_undoes_encoding_def)
  ultimately show ?thesis
    by (intro exI [of _ "\<lparr> dsg_keyid = bvk_keyId key, dsg_sig = sih_toBase64 k signature \<rparr>"])
      (simp add: verifyIssuedPolicyBundle_def f Let_def signed_payload_def)
qed

text \<open>
  C36: A bundle issued by a signer verifies under the key the signer exports, with the identifiers
  and the digest of the artifact that was signed, exactly when the key identifier, the
  fingerprint, the encoded signature and the payload digest have no surrounding white space (the
  signature record stores them trimmed, and verification compares them with the texts as given).
\<close>

theorem issued_bundle_verifies:
  assumes "decoding_undoes_encoding k" "key_pair k (bsn_privateKeyPem inp) (bsn_publicKeyPem inp)"
    and "createPolicyBundleSigner k inp = Inr key" "signPolicyBundle k now inp key si = Inr issued"
  shows "(\<exists>signature. dse_signatures (isb_envelope issued) = [signature] \<and>
      ((\<exists>r. verifyIssuedPolicyBundle k issued (Some key) = Inr r \<and> bvr_valid r \<and>
          bvr_bundleId r = bar_bundleId (sgn_artifact si) \<and>
          bvr_payloadDigest r = bar_payloadDigest (sgn_artifact si)) \<longleftrightarrow>
       trim (bvk_keyId key) = bvk_keyId key \<and>
       trim (bvk_publicKeyFingerprint key) = bvk_publicKeyFingerprint key \<and>
       trim (dsg_sig signature) = dsg_sig signature \<and>
       trim (bar_payloadDigest (sgn_artifact si)) = bar_payloadDigest (sgn_artifact si)))"
  using assms by (rule issued_verification)

lemma verified_bundle_eq_Inr:
  assumes "verifyIssuedPolicyBundle k issued (Some key) = Inr r"
  obtains signature rest where "dse_signatures (isb_envelope issued) = signature # rest"
    "sih_verify k (bvk_publicKeyPem key)
       (dssePreAuthEncoding k (dse_payloadType (isb_envelope issued))
         (sih_fromBase64 k (dse_payload (isb_envelope issued))))
       (sih_fromBase64 k (dsg_sig signature)) = Inr True"
    "sih_fromUtf8 k (sih_fromBase64 k (dse_payload (isb_envelope issued))) =
       bar_canonicalPayload (isb_artifact issued)"
proof (cases "dse_signatures (isb_envelope issued)")
  case Nil
  with assms show ?thesis by (simp add: verifyIssuedPolicyBundle_def Let_def)
next
  case (Cons signature rest)
  with assms show ?thesis
    by (intro that [OF Cons]) (auto simp: verifyIssuedPolicyBundle_def Let_def split: if_split_asm)
qed

text \<open>
  C37: A bundle that verifies under a key has the canonical payload of an artifact the owner of the
  key signed, provided signatures that verify under the key are only on the encodings of artifacts
  the owner signed: the payload type and the payload cannot be confused with one another in what
  is signed.
\<close>

theorem verified_bundle_authentic:
  assumes "decoding_undoes_encoding k"
    and "\<forall>m sig. sih_verify k (bvk_publicKeyPem key) m sig = Inr True \<longrightarrow> (\<exists>a\<in>signed. m = signed_payload a k)"
    and "verifyIssuedPolicyBundle k issued (Some key) = Inr r"
  shows "\<exists>a\<in>signed. bar_canonicalPayload (isb_artifact issued) = bar_canonicalPayload a \<and>
    dse_payloadType (isb_envelope issued) = bar_payloadType a"
proof -
  let ?p = "sih_fromBase64 k (dse_payload (isb_envelope issued))"
  obtain signature :: dsse_signature where v: "sih_verify k (bvk_publicKeyPem key)
       (dssePreAuthEncoding k (dse_payloadType (isb_envelope issued)) ?p)
       (sih_fromBase64 k (dsg_sig signature)) = Inr True"
    "sih_fromUtf8 k ?p = bar_canonicalPayload (isb_artifact issued)"
    by (rule verified_bundle_eq_Inr [OF assms(3)]) blast
  then obtain a where a: "a \<in> signed"
    "dssePreAuthEncoding k (dse_payloadType (isb_envelope issued)) ?p = signed_payload a k"
    using assms(2) by blast
  have "sih_toUtf8 k (dse_payloadType (isb_envelope issued)) = sih_toUtf8 k (bar_payloadType a)"
    "?p = sih_toUtf8 k (bar_canonicalPayload a)"
    using dsse_encoding_inject [OF a(2) [unfolded signed_payload_def]] by blast+
  then have "dse_payloadType (isb_envelope issued) = bar_payloadType a"
    "sih_fromUtf8 k ?p = bar_canonicalPayload a"
    using assms(1) unfolding decoding_undoes_encoding_def by metis+
  with a(1) v(2) show ?thesis by (intro bexI [of _ a]) simp_all
qed

section \<open>Stored bundles\<close>

abbreviation bundle_statement_of :: "stored_bundle \<Rightarrow> bundle_statement" where
  "bundle_statement_of b \<equiv> bar_statement (stb_artifact b)"

text \<open>
  A stored bundle: its artifact has the payload that its manifest and pack produce, its payload is
  the canonical text of its statement, its digest is the digest of the payload, and a signature
  over it verifies under the stored key for the same payload.
\<close>

definition bundle_coherent :: "bundle_host \<Rightarrow> signing_host \<Rightarrow> stored_bundle \<Rightarrow> bool" where
  "bundle_coherent h k b \<longleftrightarrow>
     (\<exists>expected. createSignablePolicyBundleArtifact h (bpr_pack (bst_predicate (bundle_statement_of b)))
          (stb_manifest b) = Inr expected \<and>
        bar_canonicalPayload (stb_artifact b) = bar_canonicalPayload expected) \<and>
     canonicalizeReleaseJson (statement_json h (bundle_statement_of b)) =
       Inr (bar_canonicalPayload (stb_artifact b)) \<and>
     bar_payloadDigest (stb_artifact b) = taggedDigest h (bar_canonicalPayload (stb_artifact b)) \<and>
     stb_bundleId b = bar_bundleId (stb_artifact b) \<and>
     (\<forall>issued. stb_signedBundle b = Some issued \<longrightarrow>
        bar_canonicalPayload (isb_artifact issued) = bar_canonicalPayload (stb_artifact b) \<and>
        (\<exists>key r. stb_verificationKey b = Some key \<and> verifyIssuedPolicyBundle k issued (Some key) = Inr r))"

lemma signable_payloadDigest:
  "createSignablePolicyBundleArtifact h pack m = Inr a \<Longrightarrow>
     bar_payloadDigest a = taggedDigest h (bar_canonicalPayload a)"
  by (auto simp: createSignablePolicyBundleArtifact_def Let_def)

lemma regenerated:
  assumes "assert_artifact_regenerated h a m = Inr u"
  obtains expected where "createSignablePolicyBundleArtifact h (bpr_pack (bst_predicate (bar_statement a))) m = Inr expected"
    "bar_canonicalPayload a = bar_canonicalPayload expected" "bar_payloadDigest a = bar_payloadDigest expected"
    "canonicalizeReleaseJson (statement_json h (bar_statement a)) = Inr (bar_canonicalPayload a)"
  using assms by (auto simp: assert_artifact_regenerated_def Let_def split: if_split_asm)

lemma normalized_coherent:
  assumes "normalizeBundleRecord h k now i = Inr b"
  shows "bundle_coherent h k b"
proof -
  obtain t where b: "b = \<lparr> stb_version = POLICY_STORE_RECORD_SPEC_VERSION,
         stb_packId = bmf_packId (ubi_manifest i),
         stb_bundleId = bref_bundleId (bmf_bundle (ubi_manifest i)),
         stb_bundleVersion = bref_bundleVersion (bmf_bundle (ubi_manifest i)),
         stb_storedAt = t, stb_manifest = ubi_manifest i, stb_artifact = ubi_artifact i,
         stb_signedBundle = ubi_signedBundle i,
         stb_verificationKey =
           nullish_opt (ubi_verificationKey i) (map_option isb_verificationKey (ubi_signedBundle i)) \<rparr>"
    and c: "assertBundleRecordCoherence h k i = Inr ()"
    using assms by (auto simp: normalizeBundleRecord_def)
  have ids: "bar_bundleId (ubi_artifact i) = bref_bundleId (bmf_bundle (ubi_manifest i))"
    and reg: "assert_artifact_regenerated h (ubi_artifact i) (ubi_manifest i) = Inr ()"
    using c by (auto simp: assertBundleRecordCoherence_def Let_def split: if_split_asm)
  obtain expected where e: "createSignablePolicyBundleArtifact h
      (bpr_pack (bst_predicate (bar_statement (ubi_artifact i)))) (ubi_manifest i) = Inr expected"
    "bar_canonicalPayload (ubi_artifact i) = bar_canonicalPayload expected"
    "bar_payloadDigest (ubi_artifact i) = bar_payloadDigest expected"
    "canonicalizeReleaseJson (statement_json h (bar_statement (ubi_artifact i))) =
       Inr (bar_canonicalPayload (ubi_artifact i))"
    by (rule regenerated [OF reg])
  have signed: "bar_canonicalPayload (isb_artifact issued) = bar_canonicalPayload (ubi_artifact i) \<and>
      (\<exists>r. verifyIssuedPolicyBundle k issued
         (Some (nullish (ubi_verificationKey i) (isb_verificationKey issued))) = Inr r)"
    if "ubi_signedBundle i = Some issued" for issued
  proof -
    have "assert_signed_artifact h (isb_artifact issued) (ubi_artifact i) = Inr ()"
      "\<exists>r. verifyIssuedPolicyBundle k issued
         (Some (nullish (ubi_verificationKey i) (isb_verificationKey issued))) = Inr r"
      using c that by (auto simp: assertBundleRecordCoherence_def Let_def split: if_split_asm)
    then show ?thesis by (auto simp: assert_signed_artifact_def Let_def split: if_split_asm)
  qed
  have "nullish_opt (ubi_verificationKey i) (Some v) = Some (nullish (ubi_verificationKey i) v)" for v
    by (cases "ubi_verificationKey i") simp_all
  with e ids signed show ?thesis
    unfolding bundle_coherent_def b
    by (auto simp: signable_payloadDigest)
qed

lemma upsertBundle_cases:
  assumes "upsertBundle h k now i s = Inr (b, s')"
  obtains "normalizeBundleRecord h k now i = Inr b" "s' = put_bundle h s b"
    "\<And>old. getBundle s (stored_bundle_key b) = Some old \<Longrightarrow>
       assertBundleRecordContentIsImmutable old b = Inr ()"
  using assms by (auto simp: upsertBundle_def getBundle_def split: option.splits)

definition bundles_ok :: "bundle_host \<Rightarrow> signing_host \<Rightarrow> policy_store \<Rightarrow> bool" where
  "bundles_ok h k s \<longleftrightarrow> bundles.unique_keys s \<and> (\<forall>b\<in>set (pst_bundles s). bundle_coherent h k b)"

lemma bundles_ok_cong: "pst_bundles s' = pst_bundles s \<Longrightarrow> bundles_ok h k s' = bundles_ok h k s"
  by (simp add: bundles_ok_def bundles.unique_keys_def)

lemma bundles_ok_upsert:
  assumes "bundles_ok h k s" "upsertBundle h k now i s = Inr (b, s')"
  shows "bundles_ok h k s'"
  using assms(2)
proof (rule upsertBundle_cases)
  assume b: "normalizeBundleRecord h k now i = Inr b" "s' = put_bundle h s b"
  have "set (pst_bundles s') = insert b {y \<in> set (pst_bundles s). stored_bundle_key y \<noteq> stored_bundle_key b}"
    unfolding b(2) using assms(1) by (intro bundles.members_put) (simp add: bundles_ok_def)
  moreover have "bundles.unique_keys s'"
    unfolding b(2) using assms(1) by (intro bundles.unique_keys_put) (simp add: bundles_ok_def)
  ultimately show ?thesis
    using assms(1) normalized_coherent [OF b(1)] by (auto simp: bundles_ok_def)
qed

lemma lifecycle_step_bundles: "lifecycle_step h op s = Inr (r, s') \<Longrightarrow> pst_bundles s' = pst_bundles s"
proof -
  have hist: "update_historical h s1 cur a st = Inr (m, s2) \<Longrightarrow> pst_bundles s2 = pst_bundles s1" for s1 cur a st m s2
    by (auto simp: update_historical_def split: option.splits if_split_asm)
  assume "lifecycle_step h op s = Inr (r, s')"
  then show ?thesis
    by (cases op)
      (auto simp: stagePolicyActivationCandidate_def activatePolicyBundle_def rollbackPolicyActivation_def
        freezePolicyActivationScope_def Let_def split: option.splits if_split_asm dest!: hist)
qed

lemma run_bundles_ok: "lifecycle_run h k s \<Longrightarrow> bundles_ok h k s"
proof (induction rule: lifecycle_run.induct)
  case run_empty
  show ?case by (simp add: bundles_ok_def bundles.unique_keys_def defaultPolicyStoreFile_def)
next
  case (run_step s op r s')
  then show ?case using bundles_ok_cong [OF lifecycle_step_bundles] by blast
next
  case (run_bundle s now i b s')
  then show ?case using bundles_ok_upsert by blast
next
  case (run_pack s p)
  have "pst_bundles (upsertPack h s p) = pst_bundles s" by (simp add: upsertPack_def)
  from bundles_ok_cong [OF this] run_pack.IH show ?case by blast
next
  case (run_metadata s m)
  have "pst_bundles (setMetadata m s) = pst_bundles s" by (simp add: setMetadata_def)
  from bundles_ok_cong [OF this] run_metadata.IH show ?case by blast
qed

text \<open>
  How a store goes on from a given state, with the inputs of the bundles it accepted on the way.
\<close>

inductive store_evolves ::
  "bundle_host \<Rightarrow> signing_host \<Rightarrow> policy_store \<Rightarrow> upsert_bundle_input list \<Rightarrow> policy_store \<Rightarrow> bool" for h k s where
  evolves_refl: "store_evolves h k s [] s"
| evolves_step: "store_evolves h k s inputs t \<Longrightarrow> lifecycle_step h op t = Inr (r, t') \<Longrightarrow> store_evolves h k s inputs t'"
| evolves_bundle: "store_evolves h k s inputs t \<Longrightarrow> upsertBundle h k now i t = Inr (b, t') \<Longrightarrow>
    store_evolves h k s (inputs @ [i]) t'"
| evolves_pack: "store_evolves h k s inputs t \<Longrightarrow> store_evolves h k s inputs (upsertPack h t p)"
| evolves_metadata: "store_evolves h k s inputs t \<Longrightarrow> store_evolves h k s inputs (setMetadata m t)"

lemma evolves_run: "store_evolves h k s inputs t \<Longrightarrow> lifecycle_run h k s \<Longrightarrow> lifecycle_run h k t"
  by (induction rule: store_evolves.induct) (auto intro: lifecycle_run.intros)

definition same_content :: "stored_bundle \<Rightarrow> stored_bundle \<Rightarrow> bool" where
  "same_content a b \<longleftrightarrow>
     bref_digest (bmf_bundle (stb_manifest a)) = bref_digest (bmf_bundle (stb_manifest b)) \<and>
     bar_payloadDigest (stb_artifact a) = bar_payloadDigest (stb_artifact b) \<and>
     stb_bundleVersion a = stb_bundleVersion b"

lemma same_content_trans: "same_content a b \<Longrightarrow> same_content b c \<Longrightarrow> same_content a c"
  by (simp add: same_content_def)

text \<open>
  The signature of a stored bundle and the key stored with it, as a later input leaves them: the
  last accepted input for the same identifiers decides, whether it carries a signature or not.
\<close>

definition input_key :: "upsert_bundle_input \<Rightarrow> string \<times> string" where
  "input_key i = (bmf_packId (ubi_manifest i), bref_bundleId (bmf_bundle (ubi_manifest i)))"

definition signature_after ::
  "string \<times> string \<Rightarrow> upsert_bundle_input list \<Rightarrow> stored_bundle \<Rightarrow>
   issued_bundle option \<times> bundle_verification_key option" where
  "signature_after key inputs a =
     (case rev (filter (\<lambda>i. input_key i = key) inputs) of
        [] \<Rightarrow> (stb_signedBundle a, stb_verificationKey a)
      | i # _ \<Rightarrow> (ubi_signedBundle i,
          if ubi_verificationKey i \<noteq> None then ubi_verificationKey i
          else map_option isb_verificationKey (ubi_signedBundle i)))"

lemma normalized_fields:
  assumes "normalizeBundleRecord h k now i = Inr b"
  shows "stored_bundle_key b = input_key i" "stb_signedBundle b = ubi_signedBundle i"
    "stb_verificationKey b = (if ubi_verificationKey i \<noteq> None then ubi_verificationKey i
       else map_option isb_verificationKey (ubi_signedBundle i))"
  using assms
  by (auto simp: normalizeBundleRecord_def stored_bundle_key_def input_key_def split: option.splits)

lemma upsert_keeps_content:
  assumes "bundles_ok h k s" "upsertBundle h k now i s = Inr (b, s')" "getBundle s key = Some a"
  shows "\<exists>c. getBundle s' key = Some c \<and> same_content a c \<and>
    (stb_signedBundle c, stb_verificationKey c) = signature_after key [i] a"
  using assms(2)
proof (rule upsertBundle_cases)
  assume b: "normalizeBundleRecord h k now i = Inr b" "s' = put_bundle h s b"
    and imm: "\<And>old. getBundle s (stored_bundle_key b) = Some old \<Longrightarrow>
       assertBundleRecordContentIsImmutable old b = Inr ()"
  note f = normalized_fields [OF b(1)]
  have get: "getBundle s' key = (if key = stored_bundle_key b then Some b else getBundle s key)"
    unfolding b(2) using assms(1) by (intro bundles.lookup_put_sorted) (simp add: bundles_ok_def)
  show ?thesis
  proof (cases "key = stored_bundle_key b")
    case True
    with imm assms(3) have "same_content a b"
      by (auto simp: assertBundleRecordContentIsImmutable_def same_content_def split: if_split_asm)
    moreover have "(stb_signedBundle b, stb_verificationKey b) = signature_after key [i] a"
      using True f by (simp add: signature_after_def)
    ultimately show ?thesis using True get by simp
  next
    case False
    then have "(stb_signedBundle a, stb_verificationKey a) = signature_after key [i] a"
      using f(1) by (simp add: signature_after_def)
    with False get assms(3) show ?thesis by (simp add: same_content_def)
  qed
qed

lemma signature_after_snoc:
  "(stb_signedBundle c, stb_verificationKey c) = signature_after key inputs a \<Longrightarrow>
   signature_after key [i] c = signature_after key (inputs @ [i]) a"
  by (auto simp: signature_after_def)

lemma evolves_keeps_content:
  assumes "store_evolves h k s inputs t" "lifecycle_run h k s" "getBundle s key = Some a"
  shows "\<exists>c. getBundle t key = Some c \<and> same_content a c \<and>
    (stb_signedBundle c, stb_verificationKey c) = signature_after key inputs a"
  using assms
proof (induction rule: store_evolves.induct)
  case evolves_refl
  then show ?case by (simp add: same_content_def signature_after_def)
next
  case (evolves_step inputs t op r t')
  then show ?case using lifecycle_step_bundles by (auto simp: getBundle_def)
next
  case (evolves_bundle inputs t now i b t')
  then obtain c where c: "getBundle t key = Some c" "same_content a c"
    "(stb_signedBundle c, stb_verificationKey c) = signature_after key inputs a" by blast
  have "bundles_ok h k t" using evolves_bundle evolves_run run_bundles_ok by blast
  from upsert_keeps_content [OF this evolves_bundle.hyps(2) c(1)] obtain d where
    d: "getBundle t' key = Some d" "same_content c d"
    "(stb_signedBundle d, stb_verificationKey d) = signature_after key [i] c" by blast
  with same_content_trans [OF c(2) d(2)] signature_after_snoc [OF c(3)] show ?case by simp
next
  case (evolves_pack inputs t p)
  then show ?case by (simp add: getBundle_def upsertPack_def)
next
  case (evolves_metadata inputs t m)
  then show ?case by (simp add: getBundle_def setMetadata_def)
qed

text \<open>
  C35: A stored bundle stays, its signature need not. In every store reached from one that holds
  a bundle, by any operations, the same pack and bundle identifier still names a stored bundle,
  with the same reference digest, payload digest and version, and, absent a collision of the two
  payloads' digests, with the same canonical payload. It is coherent: its payload is the canonical
  text of its statement, regenerated from its manifest and pack. Its signature is that of the last
  accepted input for these identifiers, or the one it had if there was none: an input with equal
  digests and no signature drops it. A signature that is there wraps the same payload and
  verifies under the stored key.
\<close>

theorem stored_bundle_final:
  assumes "lifecycle_run h k s" "store_evolves h k s accepted t" "getBundle s key = Some a"
  shows "\<exists>c. getBundle t key = Some c \<and> bundle_coherent h k c \<and>
    bref_digest (bmf_bundle (stb_manifest c)) = bref_digest (bmf_bundle (stb_manifest a)) \<and>
    stb_bundleVersion c = stb_bundleVersion a \<and>
    bar_payloadDigest (stb_artifact c) = bar_payloadDigest (stb_artifact a) \<and>
    (inj_on (bh_sha256 h) {bar_canonicalPayload (stb_artifact a), bar_canonicalPayload (stb_artifact c)} \<longrightarrow>
       bar_canonicalPayload (stb_artifact c) = bar_canonicalPayload (stb_artifact a)) \<and>
    (stb_signedBundle c, stb_verificationKey c) = signature_after key accepted a \<and>
    (case stb_signedBundle c of
       None \<Rightarrow> True
     | Some issued \<Rightarrow> bar_canonicalPayload (isb_artifact issued) = bar_canonicalPayload (stb_artifact c) \<and>
         (\<exists>pub r. stb_verificationKey c = Some pub \<and> verifyIssuedPolicyBundle k issued (Some pub) = Inr r))"
proof -
  obtain c where c: "getBundle t key = Some c" "same_content a c"
    "(stb_signedBundle c, stb_verificationKey c) = signature_after key accepted a"
    using evolves_keeps_content [OF assms(2,1,3)] by blast
  have ok: "bundles_ok h k s" "bundles_ok h k t"
    using assms(1) evolves_run [OF assms(2,1)] run_bundles_ok by blast+
  have coh: "bundle_coherent h k a" "bundle_coherent h k c"
    using ok bundles.lookup_member_key [OF assms(3)] bundles.lookup_member_key [OF c(1)]
    by (auto simp: bundles_ok_def)
  have "bar_payloadDigest (stb_artifact a) = taggedDigest h (bar_canonicalPayload (stb_artifact a))"
    "bar_payloadDigest (stb_artifact c) = taggedDigest h (bar_canonicalPayload (stb_artifact c))"
    using coh by (simp_all add: bundle_coherent_def)
  then have eq: "bh_sha256 h (bar_canonicalPayload (stb_artifact c)) = bh_sha256 h (bar_canonicalPayload (stb_artifact a))"
    using c(2) by (simp add: same_content_def taggedDigest_def)
  have "bar_canonicalPayload (stb_artifact c) = bar_canonicalPayload (stb_artifact a)"
    if "inj_on (bh_sha256 h) {bar_canonicalPayload (stb_artifact a), bar_canonicalPayload (stb_artifact c)}"
    using that eq by (rule inj_onD) simp_all
  moreover have "bref_digest (bmf_bundle (stb_manifest c)) = bref_digest (bmf_bundle (stb_manifest a))"
    "stb_bundleVersion c = stb_bundleVersion a"
    "bar_payloadDigest (stb_artifact c) = bar_payloadDigest (stb_artifact a)"
    using c(2) unfolding same_content_def by (elim conjE, simp only:)+
  moreover have "case stb_signedBundle c of
       None \<Rightarrow> True
     | Some issued \<Rightarrow> bar_canonicalPayload (isb_artifact issued) = bar_canonicalPayload (stb_artifact c) \<and>
         (\<exists>pub r. stb_verificationKey c = Some pub \<and> verifyIssuedPolicyBundle k issued (Some pub) = Inr r)"
    using coh(2) by (simp add: bundle_coherent_def split: option.split)
  ultimately show ?thesis using c(1,3) coh(2) by (intro exI [of _ c] conjI impI)
qed

section \<open>Examples\<close>

definition short_manifest :: bundle_manifest where
  "short_manifest =
     \<lparr> bmf_version = [], bmf_bundle = sample_bundle ''b'', bmf_packId = ''p'', bmf_bundleLabels = [],
       bmf_generatedAt = 0, bmf_discoveryMode = Mode_scoped_active,
       bmf_compatibility =
         \<lparr> cpt_controlPlaneSpecVersion = [], cpt_releaseLayerPlatformSpecVersion = [],
           cpt_releasePolicySpecVersion = [], cpt_releasePolicyRolloutSpecVersion = [] \<rparr>,
       bmf_schemas = [], bmf_entries = [] \<rparr>"

definition short_pack :: policy_pack where
  "short_pack =
     \<lparr> pck_version = [], pck_id = ''p'', pck_name = [], pck_description = None,
       pck_lifecycleState = Pack_published, pck_owners = [], pck_labels = [], pck_createdAt = 0,
       pck_updatedAt = 0, pck_latestBundleRef = None \<rparr>"

definition short_host :: bundle_host where
  "short_host = sample_host\<lparr> bh_sha256 := (\<lambda>s. ''00'') \<rparr>"

definition short_input :: upsert_bundle_input where
  "short_input =
     \<lparr> ubi_manifest = short_manifest,
       ubi_artifact = projr (createSignablePolicyBundleArtifact short_host short_pack short_manifest),
       ubi_signedBundle = None, ubi_verificationKey = None, ubi_storedAt = Some (Iso 0) \<rparr>"


lemma canonicalize_clean:
  "json_clean v \<Longrightarrow> json_nodes v \<le> node_limit \<Longrightarrow> json_depth v \<le> depth_limit \<Longrightarrow>
     canonicalizeReleaseJson v = Inr (JSON_stringify (canon v))"
  by (simp add: canonicalizeReleaseJson_eq_Inr)

text \<open>A toy scheme: a signature is the key followed by the message.\<close>

definition toy_signing :: signing_host where
  "toy_signing =
     \<lparr> sih_spkiDer = (\<lambda>pem. Inr pem), sih_sha256Hex = (\<lambda>s. s), sih_hex = (\<lambda>s. s),
       sih_sign = (\<lambda>key m. Inr (key @ m)), sih_verify = (\<lambda>key m sig. Inr (sig = key @ m)),
       sih_toBase64 = (\<lambda>s. s), sih_fromBase64 = (\<lambda>s. s), sih_toUtf8 = (\<lambda>s. s), sih_fromUtf8 = (\<lambda>s. s) \<rparr>"

definition toy_signer :: bundle_signer_input where
  "toy_signer =
     \<lparr> bsn_issuer = ''attestor'', bsn_privateKeyPem = ''k'', bsn_publicKeyPem = ''k'', bsn_keyId = None,
       bsn_algorithm = None, bsn_envelopeType = None \<rparr>"

definition toy_key :: bundle_verification_key where
  "toy_key = projr (createPolicyBundleSigner toy_signing toy_signer)"

definition short_artifact :: bundle_artifact where
  "short_artifact = projr (createSignablePolicyBundleArtifact short_host short_pack short_manifest)"

definition short_signing :: signing_host where
  "short_signing = toy_signing\<lparr> sih_sign := (\<lambda>key m. Inr key), sih_verify := (\<lambda>key m sig. Inr (sig = key)) \<rparr>"

definition short_issued :: issued_bundle where
  "short_issued = projr (signPolicyBundle short_signing 0 toy_signer toy_key
     \<lparr> sgn_artifact = short_artifact, sgn_signedAt = Some (Iso 0) \<rparr>)"

definition short_signed_input :: upsert_bundle_input where
  "short_signed_input = short_input\<lparr> ubi_signedBundle := Some short_issued \<rparr>"

lemma short_artifact:
  "createSignablePolicyBundleArtifact short_host short_pack short_manifest = Inr short_artifact"
  "bpr_pack (bst_predicate (bar_statement short_artifact)) = short_pack"
  "bar_bundleId short_artifact = ''b''" "bar_packId short_artifact = ''p''"
  "bar_payloadDigest short_artifact = ''sha256:00''"
  "assertArtifactSignable short_artifact = Inr ()"
  "canonicalizeReleaseJson (statement_json short_host (bar_statement short_artifact)) =
     Inr (bar_canonicalPayload short_artifact)"
  "\<exists>t. canonicalizeReleaseJson (artifact_json short_host short_artifact) = Inr t"
  "bmf_bundle (bpr_manifest (bst_predicate (bar_statement short_artifact))) = sample_bundle ''b''"
proof -
  note host = short_host_def sample_host_def
  note jsons = pack_json_def manifest_json_def manifest_json_with_def statement_json_def artifact_json_def
    bundle_reference_json_def compatibility_json_def subject_json_def json_strs_def json_stamp_def
  note limits = MAX_CANONICAL_RELEASE_JSON_NODES_def MAX_CANONICAL_RELEASE_JSON_DEPTH_def
  note objects = short_pack_def short_manifest_def sample_bundle_def
  obtain a where a: "createSignablePolicyBundleArtifact short_host short_pack short_manifest = Inr a"
    "bpr_pack (bst_predicate (bar_statement a)) = short_pack" "bar_bundleId a = ''b''" "bar_packId a = ''p''"
    "bar_payloadDigest a = ''sha256:00''" "assertArtifactSignable a = Inr ()"
    "canonicalizeReleaseJson (statement_json short_host (bar_statement a)) = Inr (bar_canonicalPayload a)"
    "\<exists>t. canonicalizeReleaseJson (artifact_json short_host a) = Inr t"
    "bmf_bundle (bpr_manifest (bst_predicate (bar_statement a))) = sample_bundle ''b''"
    by (simp add: createSignablePolicyBundleArtifact_def assertBundleIntegrity_def normalizePackMetadata_def
        normalizeManifest_def normalizeEntries_def normalizeSchemas_def computeDigest_def Let_def taggedDigest_def
        assertArtifactSignable_def host jsons limits objects canonicalize_clean del: canon.simps)
  then have "short_artifact = a" by (simp add: short_artifact_def)
  with a show
    "createSignablePolicyBundleArtifact short_host short_pack short_manifest = Inr short_artifact"
    "bpr_pack (bst_predicate (bar_statement short_artifact)) = short_pack"
    "bar_bundleId short_artifact = ''b''" "bar_packId short_artifact = ''p''"
    "bar_payloadDigest short_artifact = ''sha256:00''"
    "assertArtifactSignable short_artifact = Inr ()"
    "canonicalizeReleaseJson (statement_json short_host (bar_statement short_artifact)) =
       Inr (bar_canonicalPayload short_artifact)"
    "\<exists>t. canonicalizeReleaseJson (artifact_json short_host short_artifact) = Inr t"
    "bmf_bundle (bpr_manifest (bst_predicate (bar_statement short_artifact))) = sample_bundle ''b''"
    by simp_all
qed

lemma short_key: "createPolicyBundleSigner short_signing toy_signer = Inr toy_key"
proof -
  have "createPolicyBundleSigner short_signing toy_signer = createPolicyBundleSigner toy_signing toy_signer"
    by (simp add: createPolicyBundleSigner_def derivePublicKeyIdentity_def
        fingerprintPublicKeyDer_def short_signing_def)
  moreover have "\<not> isl (createPolicyBundleSigner toy_signing toy_signer)" by code_simp
  ultimately show ?thesis by (simp add: toy_key_def)
qed

lemma short_issued:
  "isb_artifact short_issued = short_artifact" "isb_keyId short_issued = bvk_keyId toy_key"
  "isb_verificationKey short_issued = toy_key"
  "\<exists>r. verifyIssuedPolicyBundle short_signing short_issued (Some toy_key) = Inr r"
proof -
  let ?in = "\<lparr> sgn_artifact = short_artifact, sgn_signedAt = Some (Iso 0) \<rparr>"
  have texts: "trim (bvk_keyId toy_key) = bvk_keyId toy_key" "bvk_keyId toy_key \<noteq> []"
    "trim (bvk_publicKeyFingerprint toy_key) = bvk_publicKeyFingerprint toy_key"
    "bvk_publicKeyFingerprint toy_key \<noteq> []" "trim ''k'' = ''k''" "trim ''sha256:00'' = ''sha256:00''"
    by code_simp+
  have sign: "sih_sign short_signing (bsn_privateKeyPem toy_signer) m = Inr ''k''"
    "sih_toBase64 short_signing x = x" for m x
    by (simp_all add: short_signing_def toy_signing_def toy_signer_def)
  have wf: "wf_bundle_reference (sample_bundle ''b'')" by code_simp
  obtain issued where issued: "signPolicyBundle short_signing 0 toy_signer toy_key ?in = Inr issued"
    "isb_artifact issued = short_artifact" "isb_keyId issued = bvk_keyId toy_key"
    "isb_verificationKey issued = toy_key"
    by (simp add: signPolicyBundle_def createPolicyBundleSignatureRecord_def resolveSignedAt_def
        short_artifact texts sign wf Let_def)
  then have eq: "short_issued = issued" by (simp add: short_issued_def)
  show "isb_artifact short_issued = short_artifact" "isb_keyId short_issued = bvk_keyId toy_key"
    "isb_verificationKey short_issued = toy_key"
    using issued unfolding eq by simp_all
  have dec: "decoding_undoes_encoding short_signing"
    by (simp add: decoding_undoes_encoding_def short_signing_def toy_signing_def)
  have pair: "key_pair short_signing (bsn_privateKeyPem toy_signer) (bsn_publicKeyPem toy_signer)"
    by (simp add: key_pair_def short_signing_def toy_signer_def)
  obtain signature where "dsg_sig signature = ''k''" "dse_signatures (isb_envelope issued) = [signature]"
    using issued_fields [OF issued(1)] sign by (metis dsse_signature.select_convs(2) sum.inject(2))
  with issued_verification [OF dec pair short_key issued(1)] texts short_artifact(5)
  show "\<exists>r. verifyIssuedPolicyBundle short_signing short_issued (Some toy_key) = Inr r"
    unfolding eq by auto
qed

definition short_record :: "upsert_bundle_input \<Rightarrow> stored_bundle" where
  "short_record i = projr (normalizeBundleRecord short_host short_signing 0 i)"

lemma short_records:
  assumes "i \<in> {short_input, short_signed_input}"
  shows "normalizeBundleRecord short_host short_signing 0 i = Inr (short_record i)"
    "stored_bundle_key (short_record i) = (''p'', ''b'')" "stb_signedBundle (short_record i) = ubi_signedBundle i"
    "stb_manifest (short_record i) = short_manifest" "stb_artifact (short_record i) = short_artifact"
    "stb_bundleVersion (short_record i) = ''1''"
proof -
  have manifest: "ubi_manifest i = short_manifest" "ubi_artifact i = short_artifact"
    "ubi_verificationKey i = None" "ubi_storedAt i = Some (Iso 0)"
    "ubi_signedBundle i = None \<or> ubi_signedBundle i = Some short_issued"
    using assms by (auto simp: short_signed_input_def short_input_def short_artifact_def)
  have "assert_artifact_regenerated short_host short_artifact short_manifest = Inr ()"
    using short_artifact by (simp add: assert_artifact_regenerated_def)
  moreover have "assert_signed_artifact short_host short_artifact short_artifact = Inr ()"
    using short_artifact(8) by (auto simp: assert_signed_artifact_def)
  moreover obtain r where "verifyIssuedPolicyBundle short_signing short_issued (Some toy_key) = Inr r"
    using short_issued(4) by blast
  ultimately have "assertBundleRecordCoherence short_host short_signing i = Inr ()"
    using manifest short_issued(1,3) short_artifact(3,4)
    by (auto simp: assertBundleRecordCoherence_def Let_def) (simp_all add: short_manifest_def sample_bundle_def)
  then have norm: "normalizeBundleRecord short_host short_signing 0 i = Inr
       \<lparr> stb_version = POLICY_STORE_RECORD_SPEC_VERSION, stb_packId = ''p'', stb_bundleId = ''b'',
         stb_bundleVersion = ''1'', stb_storedAt = 0, stb_manifest = short_manifest,
         stb_artifact = short_artifact, stb_signedBundle = ubi_signedBundle i,
         stb_verificationKey = map_option isb_verificationKey (ubi_signedBundle i) \<rparr>"
    using manifest by (simp add: normalizeBundleRecord_def resolveStoredAt_def)
      (simp add: short_manifest_def sample_bundle_def)
  then have rec: "short_record i =
       \<lparr> stb_version = POLICY_STORE_RECORD_SPEC_VERSION, stb_packId = ''p'', stb_bundleId = ''b'',
         stb_bundleVersion = ''1'', stb_storedAt = 0, stb_manifest = short_manifest,
         stb_artifact = short_artifact, stb_signedBundle = ubi_signedBundle i,
         stb_verificationKey = map_option isb_verificationKey (ubi_signedBundle i) \<rparr>"
    by (simp add: short_record_def)
  show "normalizeBundleRecord short_host short_signing 0 i = Inr (short_record i)" unfolding rec by (rule norm)
  show "stored_bundle_key (short_record i) = (''p'', ''b'')" "stb_signedBundle (short_record i) = ubi_signedBundle i"
    "stb_manifest (short_record i) = short_manifest" "stb_artifact (short_record i) = short_artifact"
    "stb_bundleVersion (short_record i) = ''1''"
    by (simp_all add: rec stored_bundle_key_def)
qed

lemma short_upsert:
  assumes i: "i \<in> {short_input, short_signed_input}" and j: "j \<in> {short_input, short_signed_input}"
    and s: "pst_bundles s = [] \<or> pst_bundles s = [short_record j]"
  shows "\<exists>s'. upsertBundle short_host short_signing 0 i s = Inr (short_record i, s') \<and>
    pst_bundles s' = [short_record i]"
  using s
proof
  assume "pst_bundles s = []"
  then show ?thesis
    using short_records [OF i] by (simp add: upsertBundle_def put_bundle_def)
next
  assume "pst_bundles s = [short_record j]"
  then show ?thesis
    using short_records [OF i] short_records [OF j]
    by (simp add: upsertBundle_def put_bundle_def assertBundleRecordContentIsImmutable_def)
qed

theorem stored_bundle_final_witness:
  "\<exists>s a t c. lifecycle_run short_host short_signing s \<and> getBundle s (''p'', ''b'') = Some a \<and>
     stb_signedBundle a = Some short_issued \<and>
     (\<exists>r. verifyIssuedPolicyBundle short_signing short_issued (stb_verificationKey a) = Inr r) \<and>
     store_evolves short_host short_signing s [short_input] t \<and> getBundle t (''p'', ''b'') = Some c \<and>
     bundle_coherent short_host short_signing c \<and>
     bar_payloadDigest (stb_artifact c) = bar_payloadDigest (stb_artifact a) \<and> stb_signedBundle c = None"
proof -
  have "pst_bundles defaultPolicyStoreFile = []" by (simp add: defaultPolicyStoreFile_def)
  then obtain s where s: "upsertBundle short_host short_signing 0 short_signed_input defaultPolicyStoreFile =
      Inr (short_record short_signed_input, s)" "pst_bundles s = [short_record short_signed_input]"
    using short_upsert [of short_signed_input short_input defaultPolicyStoreFile] by auto
  obtain t where t: "upsertBundle short_host short_signing 0 short_input s = Inr (short_record short_input, t)"
    using short_upsert [of short_input short_signed_input s] s(2) by auto
  let ?a = "short_record short_signed_input"
  have a: "getBundle s (''p'', ''b'') = Some ?a" "stb_signedBundle ?a = Some short_issued"
    using short_records [of short_signed_input] s(2) by (simp_all add: getBundle_def short_signed_input_def)
  have run: "lifecycle_run short_host short_signing s" using run_bundle [OF run_empty s(1)] .
  have kept: "store_evolves short_host short_signing s [] s" by (rule evolves_refl)
  have dropped: "store_evolves short_host short_signing s [short_input] t"
    using evolves_bundle [OF evolves_refl t] by simp
  have key: "input_key short_input = (''p'', ''b'')" "ubi_signedBundle short_input = None"
    by (simp_all add: input_key_def short_input_def short_manifest_def sample_bundle_def)
  have verified: "\<exists>r. verifyIssuedPolicyBundle short_signing short_issued (stb_verificationKey ?a) = Inr r"
    using stored_bundle_final [OF run kept a(1)] a by auto
  obtain c where c: "getBundle t (''p'', ''b'') = Some c" "bundle_coherent short_host short_signing c"
    "bar_payloadDigest (stb_artifact c) = bar_payloadDigest (stb_artifact ?a)"
    "(stb_signedBundle c, stb_verificationKey c) = signature_after (''p'', ''b'') [short_input] ?a"
    using stored_bundle_final [OF run dropped a(1)] by blast
  have "stb_signedBundle c = None" using c(4) key by (simp add: signature_after_def)
  with run a verified dropped c(1-3) show ?thesis by blast
qed

definition toy_artifact :: bundle_artifact where
  "toy_artifact =
     \<lparr> bar_version = POLICY_BUNDLE_FORMAT_SPEC_VERSION, bar_bundleId = ''b'', bar_packId = ''p'',
       bar_payloadType = POLICY_BUNDLE_PAYLOAD_TYPE,
       bar_statement =
         \<lparr> bst_type = POLICY_BUNDLE_STATEMENT_TYPE, bst_subject = [],
           bst_predicateType = POLICY_BUNDLE_PREDICATE_TYPE,
           bst_predicate =
             \<lparr> bpr_version = [], bpr_pack = short_pack, bpr_manifest = short_manifest,
               bpr_entries = [], bpr_schemas = [] \<rparr> \<rparr>,
       bar_canonicalPayload = ''{}'', bar_payloadDigest = ''d'', bar_packDigest = [],
       bar_manifestDigest = [], bar_entriesDigest = [], bar_schemasDigest = [] \<rparr>"

definition toy_request :: bundle_sign_input where
  "toy_request = \<lparr> sgn_artifact = toy_artifact, sgn_signedAt = Some (Iso 0) \<rparr>"

definition toy_issued :: issued_bundle where
  "toy_issued = projr (signPolicyBundle toy_signing 0 toy_signer toy_key toy_request)"

lemma toy_results:
  "createPolicyBundleSigner toy_signing toy_signer = Inr toy_key"
  "signPolicyBundle toy_signing 0 toy_signer toy_key toy_request = Inr toy_issued"
proof -
  have "\<not> isl (createPolicyBundleSigner toy_signing toy_signer)"
    "\<not> isl (signPolicyBundle toy_signing 0 toy_signer toy_key toy_request)"
    by code_simp+
  then show "createPolicyBundleSigner toy_signing toy_signer = Inr toy_key"
    "signPolicyBundle toy_signing 0 toy_signer toy_key toy_request = Inr toy_issued"
    by (simp_all add: toy_key_def toy_issued_def)
qed

lemma toy_decoding: "decoding_undoes_encoding toy_signing"
  by (simp add: decoding_undoes_encoding_def toy_signing_def)

theorem issued_bundle_verifies_witness:
  "\<exists>r. verifyIssuedPolicyBundle toy_signing toy_issued (Some toy_key) = Inr r \<and> bvr_valid r \<and>
     bvr_bundleId r = ''b'' \<and> bvr_payloadDigest r = ''d''"
proof -
  have pair: "key_pair toy_signing (bsn_privateKeyPem toy_signer) (bsn_publicKeyPem toy_signer)"
    by (simp add: key_pair_def toy_signing_def toy_signer_def)
  have art: "bar_bundleId (sgn_artifact toy_request) = ''b''" "bar_payloadDigest (sgn_artifact toy_request) = ''d''"
    by (simp_all add: toy_request_def toy_artifact_def)
  have clean: "trim (bvk_keyId toy_key) = bvk_keyId toy_key"
    "trim (bvk_publicKeyFingerprint toy_key) = bvk_publicKeyFingerprint toy_key"
    "trim ''d'' = ''d''"
    "list_all (\<lambda>s. trim (dsg_sig s) = dsg_sig s) (dse_signatures (isb_envelope toy_issued))"
    by code_simp+
  from issued_bundle_verifies [OF toy_decoding pair toy_results, unfolded art]
  obtain signature :: dsse_signature where s: "dse_signatures (isb_envelope toy_issued) = [signature]"
    "(\<exists>r. verifyIssuedPolicyBundle toy_signing toy_issued (Some toy_key) = Inr r \<and> bvr_valid r \<and>
        bvr_bundleId r = ''b'' \<and> bvr_payloadDigest r = ''d'') \<longleftrightarrow>
     trim (bvk_keyId toy_key) = bvk_keyId toy_key \<and>
     trim (bvk_publicKeyFingerprint toy_key) = bvk_publicKeyFingerprint toy_key \<and>
     trim (dsg_sig signature) = dsg_sig signature \<and> trim ''d'' = ''d''"
    by blast
  from clean(4) have "trim (dsg_sig signature) = dsg_sig signature" unfolding s(1) by simp
  with s(2) clean(1-3) show ?thesis by blast
qed

text \<open>A host that verifies only what the signer signed.\<close>

definition honest_signing :: signing_host where
  "honest_signing = toy_signing\<lparr> sih_verify :=
     (\<lambda>key m sig. Inr (m = signed_payload toy_artifact toy_signing \<and> sig = key @ m)) \<rparr>"

theorem verified_bundle_authentic_witness:
  "\<exists>r. verifyIssuedPolicyBundle honest_signing toy_issued (Some toy_key) = Inr r \<and>
     bar_canonicalPayload (isb_artifact toy_issued) = ''{}''"
proof -
  have "\<not> isl (verifyIssuedPolicyBundle honest_signing toy_issued (Some toy_key))" by code_simp
  then obtain r where r: "verifyIssuedPolicyBundle honest_signing toy_issued (Some toy_key) = Inr r"
    by (cases "verifyIssuedPolicyBundle honest_signing toy_issued (Some toy_key)") auto
  have dec: "decoding_undoes_encoding honest_signing"
    by (simp add: decoding_undoes_encoding_def honest_signing_def toy_signing_def)
  have same: "signed_payload a honest_signing = signed_payload a toy_signing" for a
    by (simp add: signed_payload_def dssePreAuthEncoding_def honest_signing_def)
  have unforged: "\<forall>m sig. sih_verify honest_signing (bvk_publicKeyPem toy_key) m sig = Inr True \<longrightarrow>
      (\<exists>a\<in>{toy_artifact}. m = signed_payload a honest_signing)"
    by (simp add: same) (simp add: honest_signing_def)
  from verified_bundle_authentic [OF dec unforged r] r show ?thesis
    by (simp add: toy_artifact_def)
qed

end
