(* ===== verification/Enforcement_Objects.thy ===== *)
theory Enforcement_Objects
  imports Dpop
begin

text \<open>
  The objects of the release enforcement plane: src/release-enforcement-plane/object-model.ts and
  object-model-types.ts.

  A request to an enforcement point, the presentation of a release token with its proof, the
  snapshot of an introspection, the result of a verification, the decision of the enforcement
  point and the receipt of the decision, each with its validating constructor. A kind of proof
  is a constructor of a datatype; instants are \<open>js_date\<close> in the inputs and milliseconds in the
  objects, so the datatype of proofs has the type of its instants as a parameter.

  The lemmas say when a constructor returns and what it returns; the theorems are about the
  coherence of decisions and about what the digest of a receipt binds.
\<close>

section \<open>Vocabulary\<close>

definition RELEASE_ENFORCEMENT_OBJECT_MODEL_SPEC_VERSION :: string where
  "RELEASE_ENFORCEMENT_OBJECT_MODEL_SPEC_VERSION = ''attestor.release-enforcement-object-model.v1''"

definition ENFORCEMENT_REQUEST_SPEC_VERSION :: string where
  "ENFORCEMENT_REQUEST_SPEC_VERSION = ''attestor.enforcement-request.v1''"

definition RELEASE_PRESENTATION_SPEC_VERSION :: string where
  "RELEASE_PRESENTATION_SPEC_VERSION = ''attestor.release-presentation.v1''"

definition INTROSPECTION_SNAPSHOT_SPEC_VERSION :: string where
  "INTROSPECTION_SNAPSHOT_SPEC_VERSION = ''attestor.introspection-snapshot.v1''"

definition VERIFICATION_RESULT_SPEC_VERSION :: string where
  "VERIFICATION_RESULT_SPEC_VERSION = ''attestor.verification-result.v1''"

definition ENFORCEMENT_DECISION_SPEC_VERSION :: string where
  "ENFORCEMENT_DECISION_SPEC_VERSION = ''attestor.enforcement-decision.v1''"

definition ENFORCEMENT_RECEIPT_SPEC_VERSION :: string where
  "ENFORCEMENT_RECEIPT_SPEC_VERSION = ''attestor.enforcement-receipt.v1''"

datatype verification_status = Vs_valid | Vs_invalid | Vs_indeterminate

fun verification_status_str :: "verification_status \<Rightarrow> string" where
  "verification_status_str Vs_valid = ''valid''"
| "verification_status_str Vs_invalid = ''invalid''"
| "verification_status_str Vs_indeterminate = ''indeterminate''"

datatype enforcement_evidence_boundary = Evb_none | Evb_declared_only | Evb_verified

fun enforcement_evidence_boundary_str :: "enforcement_evidence_boundary \<Rightarrow> string" where
  "enforcement_evidence_boundary_str Evb_none = ''none''"
| "enforcement_evidence_boundary_str Evb_declared_only = ''declared-only''"
| "enforcement_evidence_boundary_str Evb_verified = ''verified''"

section \<open>Records\<close>

text \<open>Counts are any numbers in an input and integers once they were validated.\<close>

record 'n evidence_semantics =
  evs_declarationBound :: bool
  evs_verifiedEvidence :: bool
  evs_declaredEvidenceCount :: 'n
  evs_verifiedEvidenceCount :: 'n
  evs_evidenceKinds :: "string list"
  evs_boundary :: enforcement_evidence_boundary

record enforcement_policy_context =
  pcx_policyHash :: "string option"
  pcx_policyVersion :: "string option"
  pcx_policyIrHash :: "string option"
  pcx_policyProvenanceSource :: "release_policy_provenance_source option"
  pcx_compiledPolicyIndexVersion :: "string option"
  pcx_compiledPolicyIrVersion :: "string option"

record http_transport =
  htr_method :: string
  htr_uri :: string
  htr_headersDigest :: "string option"
  htr_bodyDigest :: "string option"

record async_transport =
  atr_messageId :: string
  atr_queueOrTopic :: string
  atr_envelopeDigest :: "string option"

record artifact_transport =
  aft_artifactId :: string
  aft_artifactDigest :: string

datatype enforcement_request_transport =
    Transport_http http_transport
  | Transport_async async_transport
  | Transport_artifact artifact_transport

record enforcement_request =
  erq_version :: string
  erq_id :: string
  erq_receivedAt :: timestamp
  erq_enforcementPoint :: enforcement_point_reference
  erq_enforcementPointLabel :: string
  erq_targetId :: string
  erq_outputHash :: string
  erq_consequenceHash :: string
  erq_releaseTokenId :: "string option"
  erq_releaseDecisionId :: "string option"
  erq_requester :: "release_actor option"
  erq_traceId :: "string option"
  erq_idempotencyKey :: "string option"
  erq_transport :: "enforcement_request_transport option"

record dpop_presentation_proof =
  dpp_proofJwt :: string
  dpp_httpMethod :: string
  dpp_httpUri :: string
  dpp_proofJti :: string
  dpp_accessTokenHash :: "string option"
  dpp_nonce :: "string option"
  dpp_keyThumbprint :: string

record mtls_presentation_proof =
  mtp_certificateThumbprint :: string
  mtp_subjectDn :: "string option"
  mtp_spiffeId :: "string option"

record spiffe_presentation_proof =
  spp_spiffeId :: string
  spp_trustDomain :: string
  spp_svidThumbprint :: "string option"

record 'd http_signature_proof =
  hsp_signatureInput :: string
  hsp_signature :: string
  hsp_keyId :: string
  hsp_coveredComponents :: "string list"
  hsp_createdAt :: "'d option"
  hsp_expiresAt :: "'d option"
  hsp_nonce :: "string option"

record signed_envelope_proof =
  sep_envelopeDigest :: string
  sep_subjectDigest :: string
  sep_signatureRef :: "string option"

datatype 'd release_presentation_proof =
    Proof_dpop dpop_presentation_proof
  | Proof_mtls mtls_presentation_proof
  | Proof_spiffe spiffe_presentation_proof
  | Proof_http_message_signature "'d http_signature_proof"
  | Proof_signed_json_envelope signed_envelope_proof

record release_presentation =
  prn_version :: string
  prn_mode :: release_presentation_mode
  prn_presentedAt :: timestamp
  prn_releaseToken :: "string option"
  prn_releaseTokenId :: "string option"
  prn_releaseTokenDigest :: "string option"
  prn_issuer :: "string option"
  prn_subject :: "string option"
  prn_audience :: "string option"
  prn_expiresAt :: "timestamp option"
  prn_scope :: "string list"
  prn_proof :: "timestamp release_presentation_proof option"

record introspection_snapshot =
  isn_version :: string
  isn_checkedAt :: timestamp
  isn_authority :: string
  isn_active :: bool
  isn_releaseTokenId :: "string option"
  isn_releaseDecisionId :: "string option"
  isn_issuer :: "string option"
  isn_subject :: "string option"
  isn_audience :: "string option"
  isn_tenantId :: "string option"
  isn_scope :: "string list"
  isn_issuedAt :: "timestamp option"
  isn_expiresAt :: "timestamp option"
  isn_notBefore :: "timestamp option"
  isn_clientId :: "string option"
  isn_consequenceType :: "consequence_type option"
  isn_riskClass :: "risk_class option"
  isn_policyHash :: "string option"
  isn_policyVersion :: "string option"
  isn_policyIrHash :: "string option"
  isn_policyProvenanceSource :: "release_policy_provenance_source option"
  isn_compiledPolicyIndexVersion :: "string option"
  isn_compiledPolicyIrVersion :: "string option"
  isn_policyContext :: enforcement_policy_context

record enforcement_verification_result =
  vro_version :: string
  vro_id :: string
  vro_checkedAt :: timestamp
  vro_mode :: enforcement_verification_mode
  vro_status :: verification_status
  vro_cacheState :: enforcement_cache_state
  vro_degradedState :: enforcement_degraded_state
  vro_presentationMode :: release_presentation_mode
  vro_releaseTokenId :: "string option"
  vro_releaseDecisionId :: "string option"
  vro_issuer :: "string option"
  vro_subject :: "string option"
  vro_audience :: "string option"
  vro_tenantId :: "string option"
  vro_outputHash :: "string option"
  vro_consequenceHash :: "string option"
  vro_policyHash :: "string option"
  vro_policyVersion :: "string option"
  vro_policyIrHash :: "string option"
  vro_policyProvenanceSource :: "release_policy_provenance_source option"
  vro_compiledPolicyIndexVersion :: "string option"
  vro_compiledPolicyIrVersion :: "string option"
  vro_policyContext :: enforcement_policy_context
  vro_failureReasons :: "enforcement_failure_reason list"
  vro_introspection :: "introspection_snapshot option"

record break_glass_grant =
  bgg_reason :: enforcement_break_glass_reason
  bgg_authorizedBy :: release_actor
  bgg_authorizedAt :: timestamp
  bgg_expiresAt :: timestamp
  bgg_ticketId :: "string option"
  bgg_rationale :: string

record enforcement_decision =
  edc_version :: string
  edc_id :: string
  edc_requestId :: string
  edc_decidedAt :: timestamp
  edc_outcome :: enforcement_outcome
  edc_enforcementPoint :: enforcement_point_reference
  edc_releaseTokenId :: "string option"
  edc_releaseDecisionId :: "string option"
  edc_verification :: enforcement_verification_result
  edc_failureReasons :: "enforcement_failure_reason list"
  edc_cacheState :: enforcement_cache_state
  edc_degradedState :: enforcement_degraded_state
  edc_breakGlass :: "break_glass_grant option"

record enforcement_receipt =
  ert_version :: string
  ert_id :: string
  ert_issuedAt :: timestamp
  ert_decisionId :: string
  ert_requestId :: string
  ert_outcome :: enforcement_outcome
  ert_enforcementPointLabel :: string
  ert_releaseTokenId :: "string option"
  ert_releaseDecisionId :: "string option"
  ert_outputHash :: "string option"
  ert_consequenceHash :: "string option"
  ert_policyHash :: "string option"
  ert_policyVersion :: "string option"
  ert_policyIrHash :: "string option"
  ert_policyProvenanceSource :: "release_policy_provenance_source option"
  ert_compiledPolicyIndexVersion :: "string option"
  ert_compiledPolicyIrVersion :: "string option"
  ert_policyContext :: enforcement_policy_context
  ert_verificationStatus :: verification_status
  ert_failureReasons :: "enforcement_failure_reason list"
  ert_evidenceSemantics :: "int evidence_semantics option"
  ert_receiptDigest :: "string option"

record receipt_digest_material =
  rdm_decisionId :: string
  rdm_requestId :: string
  rdm_outcome :: enforcement_outcome
  rdm_releaseTokenId :: "string option"
  rdm_releaseDecisionId :: "string option"
  rdm_outputHash :: "string option"
  rdm_consequenceHash :: "string option"
  rdm_policyHash :: "string option"
  rdm_policyVersion :: "string option"
  rdm_policyIrHash :: "string option"
  rdm_policyProvenanceSource :: "release_policy_provenance_source option"
  rdm_compiledPolicyIndexVersion :: "string option"
  rdm_compiledPolicyIrVersion :: "string option"
  rdm_policyContext :: enforcement_policy_context
  rdm_verificationStatus :: verification_status
  rdm_failureReasons :: "enforcement_failure_reason list"
  rdm_evidenceSemantics :: "int evidence_semantics option"

section \<open>Inputs\<close>

record enforcement_request_input =
  eri_id :: string
  eri_receivedAt :: js_date
  eri_enforcementPoint :: enforcement_point_reference
  eri_targetId :: string
  eri_outputHash :: string
  eri_consequenceHash :: string
  eri_releaseTokenId :: "string option"
  eri_releaseDecisionId :: "string option"
  eri_requester :: "release_actor option"
  eri_traceId :: "string option"
  eri_idempotencyKey :: "string option"
  eri_transport :: "enforcement_request_transport option"

record release_presentation_input =
  pni_mode :: release_presentation_mode
  pni_presentedAt :: js_date
  pni_releaseToken :: "string option"
  pni_releaseTokenId :: "string option"
  pni_releaseTokenDigest :: "string option"
  pni_issuer :: "string option"
  pni_subject :: "string option"
  pni_audience :: "string option"
  pni_expiresAt :: "js_date option"
  pni_scope :: "string list"
  pni_proof :: "js_date release_presentation_proof option"

record introspection_snapshot_input =
  sni_checkedAt :: js_date
  sni_authority :: string
  sni_active :: bool
  sni_releaseTokenId :: "string option"
  sni_releaseDecisionId :: "string option"
  sni_issuer :: "string option"
  sni_subject :: "string option"
  sni_audience :: "string option"
  sni_tenantId :: "string option"
  sni_scope :: "string list"
  sni_issuedAt :: "js_date option"
  sni_expiresAt :: "js_date option"
  sni_notBefore :: "js_date option"
  sni_clientId :: "string option"
  sni_consequenceType :: "consequence_type option"
  sni_riskClass :: "risk_class option"
  sni_policyHash :: "string option"
  sni_policyVersion :: "string option"
  sni_policyIrHash :: "string option"
  sni_policyProvenanceSource :: "release_policy_provenance_source option"
  sni_compiledPolicyIndexVersion :: "string option"
  sni_compiledPolicyIrVersion :: "string option"

record verification_result_input =
  vri_id :: string
  vri_checkedAt :: js_date
  vri_mode :: enforcement_verification_mode
  vri_status :: verification_status
  vri_cacheState :: "enforcement_cache_state option"
  vri_degradedState :: "enforcement_degraded_state option"
  vri_presentation :: release_presentation
  vri_releaseDecisionId :: "string option"
  vri_outputHash :: "string option"
  vri_consequenceHash :: "string option"
  vri_policyHash :: "string option"
  vri_policyVersion :: "string option"
  vri_policyIrHash :: "string option"
  vri_policyProvenanceSource :: "release_policy_provenance_source option"
  vri_compiledPolicyIndexVersion :: "string option"
  vri_compiledPolicyIrVersion :: "string option"
  vri_tenantId :: "string option"
  vri_failureReasons :: "enforcement_failure_reason list"
  vri_introspection :: "introspection_snapshot option"

record enforcement_decision_input =
  edi_id :: string
  edi_request :: enforcement_request
  edi_decidedAt :: js_date
  edi_verification :: enforcement_verification_result
  edi_outcome :: "enforcement_outcome option"
  edi_failureReasons :: "enforcement_failure_reason list option"
  edi_breakGlass :: "break_glass_grant option"

record receipt_digest_input =
  rgi_decision :: enforcement_decision
  rgi_outputHash :: "string option"
  rgi_consequenceHash :: "string option"
  rgi_evidenceSemantics :: "rat js_number evidence_semantics option"

record enforcement_receipt_input = receipt_digest_input +
  rgi_id :: string
  rgi_issuedAt :: js_date
  rgi_receiptDigest :: "string option"

section \<open>Normalization\<close>

definition object_normalizeOptionalText :: "string option \<Rightarrow> string option" where
  "object_normalizeOptionalText value = truthy_str (map_option trim value)"

definition object_normalizeIsoTimestamp :: "js_date \<Rightarrow> string \<Rightarrow> timestamp result" where
  "object_normalizeIsoTimestamp value fieldName =
     (case getTime value of
        None \<Rightarrow> throw (Error (''Release enforcement-plane '' @ fieldName @ '' must be a valid ISO timestamp.''))
      | Some t \<Rightarrow> return t)"

definition normalizeOptionalIsoTimestamp :: "js_date option \<Rightarrow> string \<Rightarrow> timestamp option result" where
  "normalizeOptionalIsoTimestamp value fieldName =
     (case value of
        None \<Rightarrow> return None
      | Some v \<Rightarrow> rbind (object_normalizeIsoTimestamp v fieldName) (\<lambda>t. return (Some t)))"

text \<open>Trimmed, without empty texts and repetitions, in the order of the strings.\<close>

definition sorted_texts :: "string list \<Rightarrow> string list" where
  "sorted_texts vals = sort (remdups (filter (\<lambda>v. v \<noteq> []) (map trim vals)))"

definition object_normalizeFailureReasons ::
  "enforcement_failure_reason list \<Rightarrow> enforcement_failure_reason list" where
  "object_normalizeFailureReasons reasons = sort_key enforcement_failure_reason_str (remdups reasons)"

definition max_safe_integer :: int where
  "max_safe_integer = 2 ^ 53 - 1"

fun safe_integer :: "rat js_number \<Rightarrow> int option" where
  "safe_integer NonFinite = None"
| "safe_integer (Num q) =
     (case quotient_of q of (n, d) \<Rightarrow> if d = 1 \<and> \<bar>n\<bar> \<le> max_safe_integer then Some n else None)"

definition evidence_count :: "rat js_number \<Rightarrow> string \<Rightarrow> int result" where
  "evidence_count value what =
     (case safe_integer value of
        None \<Rightarrow> throw (Error (''Release enforcement-plane evidence semantics requires a non-negative '' @ what @ '' evidence count.''))
      | Some n \<Rightarrow>
          if n < 0 then throw (Error (''Release enforcement-plane evidence semantics requires a non-negative '' @ what @ '' evidence count.''))
          else return n)"

definition normalizeEnforcementEvidenceSemantics ::
  "rat js_number evidence_semantics option \<Rightarrow> int evidence_semantics option result" where
  "normalizeEnforcementEvidenceSemantics value =
     (case value of
        None \<Rightarrow> return None
      | Some v \<Rightarrow>
          rbind (evidence_count (evs_declaredEvidenceCount v) ''declared'') (\<lambda>declared.
          rbind (evidence_count (evs_verifiedEvidenceCount v) ''verified'') (\<lambda>verified.
          if evs_boundary v = Evb_none \<and>
             (evs_declarationBound v \<or> evs_verifiedEvidence v \<or> declared \<noteq> 0 \<or> verified \<noteq> 0)
          then throw (Error ''Release enforcement-plane empty evidence boundary cannot carry declared or verified evidence.'')
          else if evs_boundary v = Evb_declared_only \<and>
             (\<not> evs_declarationBound v \<or> evs_verifiedEvidence v \<or> declared = 0 \<or> verified \<noteq> 0)
          then throw (Error ''Release enforcement-plane declared-only evidence boundary cannot claim verified evidence.'')
          else if evs_boundary v = Evb_verified \<and> (\<not> evs_verifiedEvidence v \<or> verified = 0)
          then throw (Error ''Release enforcement-plane verified evidence boundary requires verified evidence.'')
          else return (Some
            \<lparr> evs_declarationBound = evs_declarationBound v,
              evs_verifiedEvidence = evs_verifiedEvidence v,
              evs_declaredEvidenceCount = declared,
              evs_verifiedEvidenceCount = verified,
              evs_evidenceKinds = sorted_texts (evs_evidenceKinds v),
              evs_boundary = evs_boundary v \<rparr>))))"

definition normalizeTransport ::
  "enforcement_request_transport option \<Rightarrow> enforcement_request_transport option result" where
  "normalizeTransport transport =
     (case transport of
        None \<Rightarrow> return None
      | Some (Transport_http t) \<Rightarrow>
          rbind (plane_normalizeIdentifier (toUpperCase (htr_method t)) ''transport.method'') (\<lambda>method.
          rbind (plane_normalizeIdentifier (htr_uri t) ''transport.uri'') (\<lambda>uri.
          rbind (plane_normalizeOptionalIdentifier (htr_headersDigest t) ''transport.headersDigest'') (\<lambda>headersDigest.
          rbind (plane_normalizeOptionalIdentifier (htr_bodyDigest t) ''transport.bodyDigest'') (\<lambda>bodyDigest.
          return (Some (Transport_http
            \<lparr> htr_method = method, htr_uri = uri, htr_headersDigest = headersDigest, htr_bodyDigest = bodyDigest \<rparr>))))))
      | Some (Transport_async t) \<Rightarrow>
          rbind (plane_normalizeIdentifier (atr_messageId t) ''transport.messageId'') (\<lambda>messageId.
          rbind (plane_normalizeIdentifier (atr_queueOrTopic t) ''transport.queueOrTopic'') (\<lambda>queueOrTopic.
          rbind (plane_normalizeOptionalIdentifier (atr_envelopeDigest t) ''transport.envelopeDigest'') (\<lambda>envelopeDigest.
          return (Some (Transport_async
            \<lparr> atr_messageId = messageId, atr_queueOrTopic = queueOrTopic, atr_envelopeDigest = envelopeDigest \<rparr>)))))
      | Some (Transport_artifact t) \<Rightarrow>
          rbind (plane_normalizeIdentifier (aft_artifactId t) ''transport.artifactId'') (\<lambda>artifactId.
          rbind (plane_normalizeIdentifier (aft_artifactDigest t) ''transport.artifactDigest'') (\<lambda>artifactDigest.
          return (Some (Transport_artifact
            \<lparr> aft_artifactId = artifactId, aft_artifactDigest = artifactDigest \<rparr>)))))"

definition normalize_dpop_proof :: "dpop_presentation_proof \<Rightarrow> dpop_presentation_proof result" where
  "normalize_dpop_proof p =
     rbind (plane_normalizeIdentifier (dpp_proofJwt p) ''dpop.proofJwt'') (\<lambda>proofJwt.
     rbind (plane_normalizeIdentifier (toUpperCase (dpp_httpMethod p)) ''dpop.httpMethod'') (\<lambda>httpMethod.
     rbind (plane_normalizeIdentifier (dpp_httpUri p) ''dpop.httpUri'') (\<lambda>httpUri.
     rbind (plane_normalizeIdentifier (dpp_proofJti p) ''dpop.proofJti'') (\<lambda>proofJti.
     rbind (plane_normalizeOptionalIdentifier (dpp_accessTokenHash p) ''dpop.accessTokenHash'') (\<lambda>accessTokenHash.
     rbind (plane_normalizeOptionalIdentifier (dpp_nonce p) ''dpop.nonce'') (\<lambda>nonce.
     rbind (plane_normalizeIdentifier (dpp_keyThumbprint p) ''dpop.keyThumbprint'') (\<lambda>keyThumbprint. return
       \<lparr> dpp_proofJwt = proofJwt, dpp_httpMethod = httpMethod, dpp_httpUri = httpUri,
         dpp_proofJti = proofJti, dpp_accessTokenHash = accessTokenHash, dpp_nonce = nonce,
         dpp_keyThumbprint = keyThumbprint \<rparr>)))))))"

definition normalize_mtls_proof :: "mtls_presentation_proof \<Rightarrow> mtls_presentation_proof result" where
  "normalize_mtls_proof p =
     rbind (plane_normalizeIdentifier (mtp_certificateThumbprint p) ''mtls.certificateThumbprint'') (\<lambda>certificateThumbprint.
     rbind (plane_normalizeOptionalIdentifier (mtp_spiffeId p) ''mtls.spiffeId'') (\<lambda>spiffeId. return
       \<lparr> mtp_certificateThumbprint = certificateThumbprint,
         mtp_subjectDn = object_normalizeOptionalText (mtp_subjectDn p),
         mtp_spiffeId = spiffeId \<rparr>))"

definition normalize_spiffe_proof :: "spiffe_presentation_proof \<Rightarrow> spiffe_presentation_proof result" where
  "normalize_spiffe_proof p =
     rbind (plane_normalizeIdentifier (spp_spiffeId p) ''spiffe.spiffeId'') (\<lambda>spiffeId.
     rbind (plane_normalizeIdentifier (spp_trustDomain p) ''spiffe.trustDomain'') (\<lambda>trustDomain.
     rbind (plane_normalizeOptionalIdentifier (spp_svidThumbprint p) ''spiffe.svidThumbprint'') (\<lambda>svidThumbprint. return
       \<lparr> spp_spiffeId = spiffeId, spp_trustDomain = trustDomain, spp_svidThumbprint = svidThumbprint \<rparr>)))"

definition normalize_http_signature_proof ::
  "js_date http_signature_proof \<Rightarrow> timestamp http_signature_proof result" where
  "normalize_http_signature_proof p =
     rbind (plane_normalizeIdentifier (hsp_signatureInput p) ''httpMessageSignature.signatureInput'') (\<lambda>signatureInput.
     rbind (plane_normalizeIdentifier (hsp_signature p) ''httpMessageSignature.signature'') (\<lambda>signature.
     rbind (plane_normalizeIdentifier (hsp_keyId p) ''httpMessageSignature.keyId'') (\<lambda>keyId.
     rbind (normalizeOptionalIsoTimestamp (hsp_createdAt p) ''httpMessageSignature.createdAt'') (\<lambda>createdAt.
     rbind (normalizeOptionalIsoTimestamp (hsp_expiresAt p) ''httpMessageSignature.expiresAt'') (\<lambda>expiresAt.
     rbind (plane_normalizeOptionalIdentifier (hsp_nonce p) ''httpMessageSignature.nonce'') (\<lambda>nonce. return
       \<lparr> hsp_signatureInput = signatureInput, hsp_signature = signature, hsp_keyId = keyId,
         hsp_coveredComponents = sorted_texts (hsp_coveredComponents p),
         hsp_createdAt = createdAt, hsp_expiresAt = expiresAt, hsp_nonce = nonce \<rparr>))))))"

definition normalize_envelope_proof :: "signed_envelope_proof \<Rightarrow> signed_envelope_proof result" where
  "normalize_envelope_proof p =
     rbind (plane_normalizeIdentifier (sep_envelopeDigest p) ''signedEnvelope.envelopeDigest'') (\<lambda>envelopeDigest.
     rbind (plane_normalizeIdentifier (sep_subjectDigest p) ''signedEnvelope.subjectDigest'') (\<lambda>subjectDigest.
     rbind (plane_normalizeOptionalIdentifier (sep_signatureRef p) ''signedEnvelope.signatureRef'') (\<lambda>signatureRef. return
       \<lparr> sep_envelopeDigest = envelopeDigest, sep_subjectDigest = subjectDigest,
         sep_signatureRef = signatureRef \<rparr>)))"

fun normalizeProof ::
  "js_date release_presentation_proof \<Rightarrow> timestamp release_presentation_proof result" where
  "normalizeProof (Proof_dpop p) = rbind (normalize_dpop_proof p) (\<lambda>q. return (Proof_dpop q))"
| "normalizeProof (Proof_mtls p) = rbind (normalize_mtls_proof p) (\<lambda>q. return (Proof_mtls q))"
| "normalizeProof (Proof_spiffe p) = rbind (normalize_spiffe_proof p) (\<lambda>q. return (Proof_spiffe q))"
| "normalizeProof (Proof_http_message_signature p) =
     rbind (normalize_http_signature_proof p) (\<lambda>q. return (Proof_http_message_signature q))"
| "normalizeProof (Proof_signed_json_envelope p) =
     rbind (normalize_envelope_proof p) (\<lambda>q. return (Proof_signed_json_envelope q))"

definition assertPresentationProof ::
  "release_presentation_mode \<Rightarrow> 'd release_presentation_proof option \<Rightarrow> unit result" where
  "assertPresentationProof mode proof' =
     (let demand = (\<lambda>ok what. if ok then return ()
                     else throw (Error (''Release enforcement-plane '' @ what)))
      in case mode of
        Bearer_release_token \<Rightarrow> return ()
      | Dpop_bound_token \<Rightarrow> demand (case proof' of Some (Proof_dpop _) \<Rightarrow> True | _ \<Rightarrow> False)
          ''DPoP-bound presentation requires a DPoP proof.''
      | Mtls_bound_token \<Rightarrow> demand (case proof' of Some (Proof_mtls _) \<Rightarrow> True | _ \<Rightarrow> False)
          ''mTLS-bound presentation requires an mTLS proof.''
      | Spiffe_bound_token \<Rightarrow> demand (case proof' of Some (Proof_spiffe _) \<Rightarrow> True | _ \<Rightarrow> False)
          ''SPIFFE-bound presentation requires a SPIFFE proof.''
      | Http_message_signature \<Rightarrow>
          demand (case proof' of Some (Proof_http_message_signature _) \<Rightarrow> True | _ \<Rightarrow> False)
          ''HTTP message signature presentation requires an HTTP message signature proof.''
      | Signed_json_envelope \<Rightarrow>
          demand (case proof' of Some (Proof_signed_json_envelope _) \<Rightarrow> True | _ \<Rightarrow> False)
          ''signed JSON envelope presentation requires an envelope proof.'')"

section \<open>Constructors\<close>

text \<open>Every reference has the members that the test for an input looks for, so it is created anew.\<close>

definition resolveEnforcementPoint :: "enforcement_point_reference \<Rightarrow> enforcement_point_reference result" where
  "resolveEnforcementPoint reference = createEnforcementPointReference reference"

definition createEnforcementRequest :: "enforcement_request_input \<Rightarrow> enforcement_request result" where
  "createEnforcementRequest input =
     rbind (resolveEnforcementPoint (eri_enforcementPoint input)) (\<lambda>enforcementPoint.
     rbind (plane_normalizeIdentifier (eri_id input) ''enforcementRequest.id'') (\<lambda>key.
     rbind (object_normalizeIsoTimestamp (eri_receivedAt input) ''enforcementRequest.receivedAt'') (\<lambda>receivedAt.
     rbind (plane_normalizeIdentifier (eri_targetId input) ''enforcementRequest.targetId'') (\<lambda>targetId.
     rbind (plane_normalizeIdentifier (eri_outputHash input) ''enforcementRequest.outputHash'') (\<lambda>outputHash.
     rbind (plane_normalizeIdentifier (eri_consequenceHash input) ''enforcementRequest.consequenceHash'') (\<lambda>consequenceHash.
     rbind (plane_normalizeOptionalIdentifier (eri_releaseTokenId input) ''enforcementRequest.releaseTokenId'') (\<lambda>releaseTokenId.
     rbind (plane_normalizeOptionalIdentifier (eri_releaseDecisionId input) ''enforcementRequest.releaseDecisionId'') (\<lambda>releaseDecisionId.
     rbind (plane_normalizeOptionalIdentifier (eri_traceId input) ''enforcementRequest.traceId'') (\<lambda>traceId.
     rbind (plane_normalizeOptionalIdentifier (eri_idempotencyKey input) ''enforcementRequest.idempotencyKey'') (\<lambda>idempotencyKey.
     rbind (normalizeTransport (eri_transport input)) (\<lambda>transport. return
       \<lparr> erq_version = ENFORCEMENT_REQUEST_SPEC_VERSION,
         erq_id = key,
         erq_receivedAt = receivedAt,
         erq_enforcementPoint = enforcementPoint,
         erq_enforcementPointLabel = enforcementPointReferenceLabel enforcementPoint,
         erq_targetId = targetId,
         erq_outputHash = outputHash,
         erq_consequenceHash = consequenceHash,
         erq_releaseTokenId = releaseTokenId,
         erq_releaseDecisionId = releaseDecisionId,
         erq_requester = eri_requester input,
         erq_traceId = traceId,
         erq_idempotencyKey = idempotencyKey,
         erq_transport = transport \<rparr>)))))))))))"

definition createReleasePresentation :: "release_presentation_input \<Rightarrow> release_presentation result" where
  "createReleasePresentation input =
     rbind (case pni_proof input of
              None \<Rightarrow> return None
            | Some p \<Rightarrow> rbind (normalizeProof p) (\<lambda>q. return (Some q))) (\<lambda>proof'.
     rbind (assertPresentationProof (pni_mode input) proof') (\<lambda>_.
     rbind (object_normalizeIsoTimestamp (pni_presentedAt input) ''releasePresentation.presentedAt'') (\<lambda>presentedAt.
     rbind (plane_normalizeOptionalIdentifier (pni_releaseTokenId input) ''releasePresentation.releaseTokenId'') (\<lambda>releaseTokenId.
     rbind (plane_normalizeOptionalIdentifier (pni_releaseTokenDigest input) ''releasePresentation.releaseTokenDigest'') (\<lambda>releaseTokenDigest.
     rbind (plane_normalizeOptionalIdentifier (pni_issuer input) ''releasePresentation.issuer'') (\<lambda>issuer.
     rbind (plane_normalizeOptionalIdentifier (pni_subject input) ''releasePresentation.subject'') (\<lambda>subject'.
     rbind (plane_normalizeOptionalIdentifier (pni_audience input) ''releasePresentation.audience'') (\<lambda>audience.
     rbind (normalizeOptionalIsoTimestamp (pni_expiresAt input) ''releasePresentation.expiresAt'') (\<lambda>expiresAt. return
       \<lparr> prn_version = RELEASE_PRESENTATION_SPEC_VERSION,
         prn_mode = pni_mode input,
         prn_presentedAt = presentedAt,
         prn_releaseToken = object_normalizeOptionalText (pni_releaseToken input),
         prn_releaseTokenId = releaseTokenId,
         prn_releaseTokenDigest = releaseTokenDigest,
         prn_issuer = issuer,
         prn_subject = subject',
         prn_audience = audience,
         prn_expiresAt = expiresAt,
         prn_scope = sorted_texts (pni_scope input),
         prn_proof = proof' \<rparr>)))))))))"

text \<open>\<open>buildPolicyContext\<close> groups six members that the object also carries on its own.\<close>

definition buildPolicyContext ::
  "string option \<Rightarrow> string option \<Rightarrow> string option \<Rightarrow> release_policy_provenance_source option
     \<Rightarrow> string option \<Rightarrow> string option \<Rightarrow> enforcement_policy_context" where
  "buildPolicyContext policyHash policyVersion policyIrHash source indexVersion irVersion =
     \<lparr> pcx_policyHash = policyHash, pcx_policyVersion = policyVersion, pcx_policyIrHash = policyIrHash,
       pcx_policyProvenanceSource = source, pcx_compiledPolicyIndexVersion = indexVersion,
       pcx_compiledPolicyIrVersion = irVersion \<rparr>"

definition createIntrospectionSnapshot :: "introspection_snapshot_input \<Rightarrow> introspection_snapshot result" where
  "createIntrospectionSnapshot input =
     rbind (plane_normalizeOptionalIdentifier (sni_policyHash input) ''introspectionSnapshot.policyHash'') (\<lambda>policyHash.
     rbind (plane_normalizeOptionalIdentifier (sni_policyVersion input) ''introspectionSnapshot.policyVersion'') (\<lambda>policyVersion.
     rbind (plane_normalizeOptionalIdentifier (sni_policyIrHash input) ''introspectionSnapshot.policyIrHash'') (\<lambda>policyIrHash.
     rbind (plane_normalizeOptionalIdentifier (sni_compiledPolicyIndexVersion input) ''introspectionSnapshot.compiledPolicyIndexVersion'') (\<lambda>indexVersion.
     rbind (plane_normalizeOptionalIdentifier (sni_compiledPolicyIrVersion input) ''introspectionSnapshot.compiledPolicyIrVersion'') (\<lambda>irVersion.
     rbind (object_normalizeIsoTimestamp (sni_checkedAt input) ''introspectionSnapshot.checkedAt'') (\<lambda>checkedAt.
     rbind (plane_normalizeIdentifier (sni_authority input) ''introspectionSnapshot.authority'') (\<lambda>authority.
     rbind (plane_normalizeOptionalIdentifier (sni_releaseTokenId input) ''introspectionSnapshot.releaseTokenId'') (\<lambda>releaseTokenId.
     rbind (plane_normalizeOptionalIdentifier (sni_releaseDecisionId input) ''introspectionSnapshot.releaseDecisionId'') (\<lambda>releaseDecisionId.
     rbind (plane_normalizeOptionalIdentifier (sni_issuer input) ''introspectionSnapshot.issuer'') (\<lambda>issuer.
     rbind (plane_normalizeOptionalIdentifier (sni_subject input) ''introspectionSnapshot.subject'') (\<lambda>subject'.
     rbind (plane_normalizeOptionalIdentifier (sni_audience input) ''introspectionSnapshot.audience'') (\<lambda>audience.
     rbind (plane_normalizeOptionalIdentifier (sni_tenantId input) ''introspectionSnapshot.tenantId'') (\<lambda>tenantId.
     rbind (normalizeOptionalIsoTimestamp (sni_issuedAt input) ''introspectionSnapshot.issuedAt'') (\<lambda>issuedAt.
     rbind (normalizeOptionalIsoTimestamp (sni_expiresAt input) ''introspectionSnapshot.expiresAt'') (\<lambda>expiresAt.
     rbind (normalizeOptionalIsoTimestamp (sni_notBefore input) ''introspectionSnapshot.notBefore'') (\<lambda>notBefore.
     rbind (plane_normalizeOptionalIdentifier (sni_clientId input) ''introspectionSnapshot.clientId'') (\<lambda>clientId. return
       \<lparr> isn_version = INTROSPECTION_SNAPSHOT_SPEC_VERSION,
         isn_checkedAt = checkedAt,
         isn_authority = authority,
         isn_active = sni_active input,
         isn_releaseTokenId = releaseTokenId,
         isn_releaseDecisionId = releaseDecisionId,
         isn_issuer = issuer,
         isn_subject = subject',
         isn_audience = audience,
         isn_tenantId = tenantId,
         isn_scope = sorted_texts (sni_scope input),
         isn_issuedAt = issuedAt,
         isn_expiresAt = expiresAt,
         isn_notBefore = notBefore,
         isn_clientId = clientId,
         isn_consequenceType = sni_consequenceType input,
         isn_riskClass = sni_riskClass input,
         isn_policyHash = policyHash,
         isn_policyVersion = policyVersion,
         isn_policyIrHash = policyIrHash,
         isn_policyProvenanceSource = sni_policyProvenanceSource input,
         isn_compiledPolicyIndexVersion = indexVersion,
         isn_compiledPolicyIrVersion = irVersion,
         isn_policyContext = buildPolicyContext policyHash policyVersion policyIrHash
           (sni_policyProvenanceSource input) indexVersion irVersion \<rparr>)))))))))))))))))"

definition createVerificationResult :: "verification_result_input \<Rightarrow> enforcement_verification_result result" where
  "createVerificationResult input =
     (let failureReasons = object_normalizeFailureReasons (vri_failureReasons input) in
      if vri_status input = Vs_invalid \<and> length failureReasons = 0
      then throw (Error ''Release enforcement-plane invalid verification requires a failure reason.'')
      else if vri_status input = Vs_valid \<and> length failureReasons > 0
      then throw (Error ''Release enforcement-plane valid verification cannot carry failure reasons.'')
      else
        rbind (plane_normalizeOptionalIdentifier (vri_policyHash input) ''verificationResult.policyHash'') (\<lambda>policyHash.
        rbind (plane_normalizeOptionalIdentifier (vri_policyVersion input) ''verificationResult.policyVersion'') (\<lambda>policyVersion.
        rbind (plane_normalizeOptionalIdentifier (vri_policyIrHash input) ''verificationResult.policyIrHash'') (\<lambda>policyIrHash.
        rbind (plane_normalizeOptionalIdentifier (vri_compiledPolicyIndexVersion input) ''verificationResult.compiledPolicyIndexVersion'') (\<lambda>indexVersion.
        rbind (plane_normalizeOptionalIdentifier (vri_compiledPolicyIrVersion input) ''verificationResult.compiledPolicyIrVersion'') (\<lambda>irVersion.
        rbind (plane_normalizeIdentifier (vri_id input) ''verificationResult.id'') (\<lambda>key.
        rbind (object_normalizeIsoTimestamp (vri_checkedAt input) ''verificationResult.checkedAt'') (\<lambda>checkedAt.
        rbind (plane_normalizeOptionalIdentifier (vri_releaseDecisionId input) ''verificationResult.releaseDecisionId'') (\<lambda>releaseDecisionId.
        rbind (plane_normalizeOptionalIdentifier (vri_tenantId input) ''verificationResult.tenantId'') (\<lambda>tenantId.
        rbind (plane_normalizeOptionalIdentifier (vri_outputHash input) ''verificationResult.outputHash'') (\<lambda>outputHash.
        rbind (plane_normalizeOptionalIdentifier (vri_consequenceHash input) ''verificationResult.consequenceHash'') (\<lambda>consequenceHash.
        let policyHash = nullish_opt policyHash (Option.bind (vri_introspection input) isn_policyHash);
            policyVersion = nullish_opt policyVersion (Option.bind (vri_introspection input) isn_policyVersion);
            policyIrHash = nullish_opt policyIrHash (Option.bind (vri_introspection input) isn_policyIrHash);
            source = nullish_opt (vri_policyProvenanceSource input) (Option.bind (vri_introspection input) isn_policyProvenanceSource);
            indexVersion = nullish_opt indexVersion (Option.bind (vri_introspection input) isn_compiledPolicyIndexVersion);
            irVersion = nullish_opt irVersion (Option.bind (vri_introspection input) isn_compiledPolicyIrVersion)
        in return
          \<lparr> vro_version = VERIFICATION_RESULT_SPEC_VERSION,
            vro_id = key,
            vro_checkedAt = checkedAt,
            vro_mode = vri_mode input,
            vro_status = vri_status input,
            vro_cacheState = nullish (vri_cacheState input) Cache_miss,
            vro_degradedState = nullish (vri_degradedState input) Deg_normal,
            vro_presentationMode = prn_mode (vri_presentation input),
            vro_releaseTokenId = prn_releaseTokenId (vri_presentation input),
            vro_releaseDecisionId = releaseDecisionId,
            vro_issuer = prn_issuer (vri_presentation input),
            vro_subject = prn_subject (vri_presentation input),
            vro_audience = prn_audience (vri_presentation input),
            vro_tenantId = nullish_opt tenantId (Option.bind (vri_introspection input) isn_tenantId),
            vro_outputHash = outputHash,
            vro_consequenceHash = consequenceHash,
            vro_policyHash = policyHash,
            vro_policyVersion = policyVersion,
            vro_policyIrHash = policyIrHash,
            vro_policyProvenanceSource = source,
            vro_compiledPolicyIndexVersion = indexVersion,
            vro_compiledPolicyIrVersion = irVersion,
            vro_policyContext =
              buildPolicyContext policyHash policyVersion policyIrHash source indexVersion irVersion,
            vro_failureReasons = failureReasons,
            vro_introspection = vri_introspection input \<rparr>))))))))))))"

definition deriveOutcome :: "enforcement_verification_result \<Rightarrow> break_glass_grant option \<Rightarrow> enforcement_outcome" where
  "deriveOutcome verification breakGlass =
     (if breakGlass \<noteq> None then Out_break_glass_allow
      else if vro_mode verification = Shadow_observe then Out_shadow_allow
      else if vro_status verification = Vs_valid then Out_allow
      else if vro_status verification = Vs_indeterminate then Out_needs_introspection
      else Out_deny)"

definition assertEnforcementOutcomeCoherence ::
  "enforcement_outcome \<Rightarrow> enforcement_verification_result \<Rightarrow> enforcement_failure_reason list
     \<Rightarrow> break_glass_grant option \<Rightarrow> unit result" where
  "assertEnforcementOutcomeCoherence outcome verification failureReasons breakGlass =
     (if outcome = Out_allow \<and> vro_status verification \<noteq> Vs_valid
      then throw (Error ''Release enforcement-plane allow decisions require valid verification.'')
      else if outcome = Out_deny \<and> length failureReasons = 0
      then throw (Error ''Release enforcement-plane deny decisions require at least one failure reason.'')
      else if outcome = Out_break_glass_allow \<and> breakGlass = None
      then throw (Error ''Release enforcement-plane break-glass allow decisions require a break-glass grant.'')
      else return ())"

definition createEnforcementDecision :: "enforcement_decision_input \<Rightarrow> enforcement_decision result" where
  "createEnforcementDecision input =
     (let verification = edi_verification input;
          outcome = nullish (edi_outcome input) (deriveOutcome verification (edi_breakGlass input));
          failureReasons = (case edi_failureReasons input of
              None \<Rightarrow> vro_failureReasons verification
            | Some rs \<Rightarrow> object_normalizeFailureReasons rs)
      in
      rbind (assertEnforcementOutcomeCoherence outcome verification failureReasons (edi_breakGlass input)) (\<lambda>_.
      rbind (plane_normalizeIdentifier (edi_id input) ''enforcementDecision.id'') (\<lambda>key.
      rbind (object_normalizeIsoTimestamp (edi_decidedAt input) ''enforcementDecision.decidedAt'') (\<lambda>decidedAt. return
        \<lparr> edc_version = ENFORCEMENT_DECISION_SPEC_VERSION,
          edc_id = key,
          edc_requestId = erq_id (edi_request input),
          edc_decidedAt = decidedAt,
          edc_outcome = outcome,
          edc_enforcementPoint = erq_enforcementPoint (edi_request input),
          edc_releaseTokenId = vro_releaseTokenId verification,
          edc_releaseDecisionId = vro_releaseDecisionId verification,
          edc_verification = verification,
          edc_failureReasons = failureReasons,
          edc_cacheState = vro_cacheState verification,
          edc_degradedState = vro_degradedState verification,
          edc_breakGlass = edi_breakGlass input \<rparr>))))"

section \<open>Receipts\<close>

definition enforcementReceiptDigestMaterial ::
  "'z receipt_digest_input_scheme \<Rightarrow> receipt_digest_material result" where
  "enforcementReceiptDigestMaterial input =
     (let decision = rgi_decision input; verification = edc_verification decision in
      rbind (plane_normalizeOptionalIdentifier (rgi_outputHash input) ''enforcementReceipt.outputHash'') (\<lambda>outputHash.
      rbind (plane_normalizeOptionalIdentifier (rgi_consequenceHash input) ''enforcementReceipt.consequenceHash'') (\<lambda>consequenceHash.
      rbind (normalizeEnforcementEvidenceSemantics (rgi_evidenceSemantics input)) (\<lambda>evidenceSemantics. return
        \<lparr> rdm_decisionId = edc_id decision,
          rdm_requestId = edc_requestId decision,
          rdm_outcome = edc_outcome decision,
          rdm_releaseTokenId = edc_releaseTokenId decision,
          rdm_releaseDecisionId = edc_releaseDecisionId decision,
          rdm_outputHash = nullish_opt outputHash (vro_outputHash verification),
          rdm_consequenceHash = nullish_opt consequenceHash (vro_consequenceHash verification),
          rdm_policyHash = vro_policyHash verification,
          rdm_policyVersion = vro_policyVersion verification,
          rdm_policyIrHash = vro_policyIrHash verification,
          rdm_policyProvenanceSource = vro_policyProvenanceSource verification,
          rdm_compiledPolicyIndexVersion = vro_compiledPolicyIndexVersion verification,
          rdm_compiledPolicyIrVersion = vro_compiledPolicyIrVersion verification,
          rdm_policyContext = vro_policyContext verification,
          rdm_verificationStatus = vro_status verification,
          rdm_failureReasons = edc_failureReasons decision,
          rdm_evidenceSemantics = evidenceSemantics \<rparr>))))"

fun provenance_source_json :: "release_policy_provenance_source option \<Rightarrow> json" where
  "provenance_source_json None = JNull"
| "provenance_source_json (Some Compiled_admission_policy_index) = JString ''compiled-admission-policy-index''"
| "provenance_source_json (Some Policy_definition) = JString ''policy-definition''"

definition policy_context_json :: "enforcement_policy_context \<Rightarrow> json" where
  "policy_context_json c = JObject
     [(''policyHash'', json_str_opt (pcx_policyHash c)),
      (''policyVersion'', json_str_opt (pcx_policyVersion c)),
      (''policyIrHash'', json_str_opt (pcx_policyIrHash c)),
      (''policyProvenanceSource'', provenance_source_json (pcx_policyProvenanceSource c)),
      (''compiledPolicyIndexVersion'', json_str_opt (pcx_compiledPolicyIndexVersion c)),
      (''compiledPolicyIrVersion'', json_str_opt (pcx_compiledPolicyIrVersion c))]"

definition evidence_semantics_json :: "int evidence_semantics \<Rightarrow> json" where
  "evidence_semantics_json e = JObject
     [(''declarationBound'', JBool (evs_declarationBound e)),
      (''verifiedEvidence'', JBool (evs_verifiedEvidence e)),
      (''declaredEvidenceCount'', JNumber (Num (evs_declaredEvidenceCount e))),
      (''verifiedEvidenceCount'', JNumber (Num (evs_verifiedEvidenceCount e))),
      (''evidenceKinds'', json_strs (evs_evidenceKinds e)),
      (''boundary'', JString (enforcement_evidence_boundary_str (evs_boundary e)))]"

definition digest_material_json :: "receipt_digest_material \<Rightarrow> json" where
  "digest_material_json m = JObject
     ([(''decisionId'', JString (rdm_decisionId m)),
       (''requestId'', JString (rdm_requestId m)),
       (''outcome'', JString (enforcement_outcome_str (rdm_outcome m))),
       (''releaseTokenId'', json_str_opt (rdm_releaseTokenId m)),
       (''releaseDecisionId'', json_str_opt (rdm_releaseDecisionId m)),
       (''outputHash'', json_str_opt (rdm_outputHash m)),
       (''consequenceHash'', json_str_opt (rdm_consequenceHash m)),
       (''policyHash'', json_str_opt (rdm_policyHash m)),
       (''policyVersion'', json_str_opt (rdm_policyVersion m)),
       (''policyIrHash'', json_str_opt (rdm_policyIrHash m)),
       (''policyProvenanceSource'', provenance_source_json (rdm_policyProvenanceSource m)),
       (''compiledPolicyIndexVersion'', json_str_opt (rdm_compiledPolicyIndexVersion m)),
       (''compiledPolicyIrVersion'', json_str_opt (rdm_compiledPolicyIrVersion m)),
       (''policyContext'', policy_context_json (rdm_policyContext m)),
       (''verificationStatus'', JString (verification_status_str (rdm_verificationStatus m))),
       (''failureReasons'', json_strs (map enforcement_failure_reason_str (rdm_failureReasons m)))] @
      (case rdm_evidenceSemantics m of
         None \<Rightarrow> []
       | Some e \<Rightarrow> [(''evidenceSemantics'', evidence_semantics_json e)]))"

definition createEnforcementReceiptDigest ::
  "(string \<Rightarrow> string) \<Rightarrow> 'z receipt_digest_input_scheme \<Rightarrow> string result" where
  "createEnforcementReceiptDigest sha256 input =
     rbind (enforcementReceiptDigestMaterial input) (\<lambda>material.
       return (''sha256:'' @ sha256 (JSON_stringify (digest_material_json material))))"

definition createEnforcementReceipt :: "enforcement_receipt_input \<Rightarrow> enforcement_receipt result" where
  "createEnforcementReceipt input =
     (let decision = rgi_decision input in
      rbind (enforcementReceiptDigestMaterial input) (\<lambda>material.
      rbind (normalizeEnforcementEvidenceSemantics (rgi_evidenceSemantics input)) (\<lambda>evidenceSemantics.
      rbind (plane_normalizeIdentifier (rgi_id input) ''enforcementReceipt.id'') (\<lambda>key.
      rbind (object_normalizeIsoTimestamp (rgi_issuedAt input) ''enforcementReceipt.issuedAt'') (\<lambda>issuedAt.
      rbind (plane_normalizeOptionalIdentifier (rgi_receiptDigest input) ''enforcementReceipt.receiptDigest'') (\<lambda>receiptDigest. return
        \<lparr> ert_version = ENFORCEMENT_RECEIPT_SPEC_VERSION,
          ert_id = key,
          ert_issuedAt = issuedAt,
          ert_decisionId = edc_id decision,
          ert_requestId = edc_requestId decision,
          ert_outcome = edc_outcome decision,
          ert_enforcementPointLabel = enforcementPointReferenceLabel (edc_enforcementPoint decision),
          ert_releaseTokenId = edc_releaseTokenId decision,
          ert_releaseDecisionId = edc_releaseDecisionId decision,
          ert_outputHash = rdm_outputHash material,
          ert_consequenceHash = rdm_consequenceHash material,
          ert_policyHash = rdm_policyHash material,
          ert_policyVersion = rdm_policyVersion material,
          ert_policyIrHash = rdm_policyIrHash material,
          ert_policyProvenanceSource = rdm_policyProvenanceSource material,
          ert_compiledPolicyIndexVersion = rdm_compiledPolicyIndexVersion material,
          ert_compiledPolicyIrVersion = rdm_compiledPolicyIrVersion material,
          ert_policyContext = rdm_policyContext material,
          ert_verificationStatus = vro_status (edc_verification decision),
          ert_failureReasons = edc_failureReasons decision,
          ert_evidenceSemantics = evidenceSemantics,
          ert_receiptDigest = receiptDigest \<rparr>))))))"

section \<open>What the constructors return\<close>

lemma evidence_boundary_str_inject [simp]:
  "enforcement_evidence_boundary_str a = enforcement_evidence_boundary_str b \<longleftrightarrow> a = b"
  by (cases a; cases b) simp_all

lemma verification_status_str_inject [simp]:
  "verification_status_str a = verification_status_str b \<longleftrightarrow> a = b"
  by (cases a; cases b) simp_all

lemma provenance_source_json_inject [simp]: "provenance_source_json a = provenance_source_json b \<longleftrightarrow> a = b"
  by (cases a rule: provenance_source_json.cases; cases b rule: provenance_source_json.cases) simp_all

lemma failure_names_inject [simp]:
  "map enforcement_failure_reason_str rs = map enforcement_failure_reason_str qs \<longleftrightarrow> rs = qs"
  by (rule inj_map_eq_map) (simp add: inj_on_def failure_reasons.name_inject)

lemma policy_context_json_inject [simp]: "policy_context_json a = policy_context_json b \<longleftrightarrow> a = b"
  by (cases a; cases b) (simp add: policy_context_json_def)

lemma evidence_semantics_json_inject [simp]: "evidence_semantics_json a = evidence_semantics_json b \<longleftrightarrow> a = b"
  by (cases a; cases b) (simp add: evidence_semantics_json_def)

lemma digest_material_json_inject: "digest_material_json a = digest_material_json b \<longleftrightarrow> a = b"
  by (cases a; cases b) (auto simp: digest_material_json_def outcomes.name_inject split: option.splits)

lemma json_clean_parts [simp]:
  "json_clean (json_str_opt x)" "json_clean (json_strs xs)" "json_clean (provenance_source_json s)"
proof -
  show "json_clean (json_str_opt x)" by (cases x) simp_all
  show "json_clean (json_strs xs)" by (simp add: json_strs_def list_all_iff)
  show "json_clean (provenance_source_json s)" by (cases s rule: provenance_source_json.cases) simp_all
qed

lemma json_clean_objects [simp]:
  "json_clean (policy_context_json c)" "json_clean (evidence_semantics_json e)"
  by (simp_all add: policy_context_json_def evidence_semantics_json_def)

lemma digest_material_json_clean: "json_clean (digest_material_json m)"
  by (simp add: digest_material_json_def split: option.split)

text \<open>The text a receipt digest is computed from.\<close>

definition receipt_texts :: "enforcement_receipt_input \<Rightarrow> string set" where
  "receipt_texts i = {JSON_stringify (digest_material_json m) | m. enforcementReceiptDigestMaterial i = Inr m}"

lemma receipt_fields:
  assumes "createEnforcementReceipt i = Inr r" "enforcementReceiptDigestMaterial i = Inr m"
  shows "ert_version r = ENFORCEMENT_RECEIPT_SPEC_VERSION"
    "ert_decisionId r = rdm_decisionId m"
    "ert_requestId r = rdm_requestId m"
    "ert_outcome r = rdm_outcome m"
    "ert_releaseTokenId r = rdm_releaseTokenId m"
    "ert_releaseDecisionId r = rdm_releaseDecisionId m"
    "ert_outputHash r = rdm_outputHash m"
    "ert_consequenceHash r = rdm_consequenceHash m"
    "ert_policyHash r = rdm_policyHash m"
    "ert_policyVersion r = rdm_policyVersion m"
    "ert_policyIrHash r = rdm_policyIrHash m"
    "ert_policyProvenanceSource r = rdm_policyProvenanceSource m"
    "ert_compiledPolicyIndexVersion r = rdm_compiledPolicyIndexVersion m"
    "ert_compiledPolicyIrVersion r = rdm_compiledPolicyIrVersion m"
    "ert_policyContext r = rdm_policyContext m"
    "ert_verificationStatus r = rdm_verificationStatus m"
    "ert_failureReasons r = rdm_failureReasons m"
    "ert_evidenceSemantics r = rdm_evidenceSemantics m"
  using assms by (auto simp: createEnforcementReceipt_def enforcementReceiptDigestMaterial_def Let_def)

text \<open>
  C27: The digest of a receipt binds what was decided. If two digests agree and the digest function
  does not collide on the two texts, the receipts agree on decision, request, outcome, token,
  hashes, policy, verification status, failure reasons and evidence: only the identifier, the
  instant, the label of the enforcement point and the digest member of a receipt may differ.
\<close>

theorem receipt_digest_binds:
  assumes "createEnforcementReceiptDigest sha256 i = Inr d" "createEnforcementReceiptDigest sha256 j = Inr d"
    and "inj_on sha256 (receipt_texts i \<union> receipt_texts j)"
    and "createEnforcementReceipt i = Inr r" "createEnforcementReceipt j = Inr q"
  shows "q = r\<lparr> ert_id := ert_id q, ert_issuedAt := ert_issuedAt q,
    ert_enforcementPointLabel := ert_enforcementPointLabel q, ert_receiptDigest := ert_receiptDigest q \<rparr>"
proof -
  obtain m where m: "enforcementReceiptDigestMaterial i = Inr m"
      "d = ''sha256:'' @ sha256 (JSON_stringify (digest_material_json m))"
    using assms(1) by (auto simp: createEnforcementReceiptDigest_def)
  obtain n where n: "enforcementReceiptDigestMaterial j = Inr n"
      "d = ''sha256:'' @ sha256 (JSON_stringify (digest_material_json n))"
    using assms(2) by (auto simp: createEnforcementReceiptDigest_def)
  have "JSON_stringify (digest_material_json m) = JSON_stringify (digest_material_json n)"
  proof (rule inj_onD [OF assms(3)])
    show "sha256 (JSON_stringify (digest_material_json m)) = sha256 (JSON_stringify (digest_material_json n))"
      using m(2) n(2) by simp
    show "JSON_stringify (digest_material_json m) \<in> receipt_texts i \<union> receipt_texts j"
      unfolding receipt_texts_def using m(1) by blast
    show "JSON_stringify (digest_material_json n) \<in> receipt_texts i \<union> receipt_texts j"
      unfolding receipt_texts_def using n(1) by blast
  qed
  then have "digest_material_json m = digest_material_json n"
    by (rule stringify_inject [OF digest_material_json_clean digest_material_json_clean])
  then have "m = n" by (simp only: digest_material_json_inject)
  then have n': "enforcementReceiptDigestMaterial j = Inr m" using n(1) by simp
  show ?thesis
    by (rule enforcement_receipt.equality)
      (simp_all add: receipt_fields [OF assms(4) m(1)] receipt_fields [OF assms(5) n'])
qed

lemma created_verification:
  assumes "createVerificationResult i = Inr v"
  shows "vro_status v = vri_status i" "vro_mode v = vri_mode i"
    "vro_failureReasons v = object_normalizeFailureReasons (vri_failureReasons i)"
    "vro_status v = Vs_invalid \<Longrightarrow> vro_failureReasons v \<noteq> []"
    "vro_status v = Vs_valid \<Longrightarrow> vro_failureReasons v = []"
  using assms by (auto simp: createVerificationResult_def Let_def split: if_split_asm)

lemma object_normalizeFailureReasons_set [simp]:
  "set (object_normalizeFailureReasons rs) = set rs"
  "object_normalizeFailureReasons rs = [] \<longleftrightarrow> rs = []"
  by (simp_all add: object_normalizeFailureReasons_def flip: set_empty)

lemma created_decision:
  assumes "createEnforcementDecision i = Inr d"
  shows "edc_verification d = edi_verification i" "edc_breakGlass d = edi_breakGlass i"
    "edc_outcome d = nullish (edi_outcome i) (deriveOutcome (edi_verification i) (edi_breakGlass i))"
    "edc_failureReasons d = (case edi_failureReasons i of None \<Rightarrow> vro_failureReasons (edi_verification i)
       | Some rs \<Rightarrow> object_normalizeFailureReasons rs)"
    "edc_outcome d = Out_allow \<Longrightarrow> vro_status (edi_verification i) = Vs_valid"
    "edc_outcome d = Out_deny \<Longrightarrow> edc_failureReasons d \<noteq> []"
    "edc_outcome d = Out_break_glass_allow \<Longrightarrow> edi_breakGlass i \<noteq> None"
  using assms
  by (auto simp: createEnforcementDecision_def assertEnforcementOutcomeCoherence_def Let_def split: if_split_asm)

text \<open>
  Decisions are coherent with their verification. Whatever outcome the caller asks for, a
  decision to allow rests on a valid verification without failure reasons, a denial names a
  reason, and breaking the glass carries a grant. Without a requested outcome and outside the
  shadow mode, a decision without a grant allows exactly when verification is valid, asks for
  introspection exactly when it is indeterminate, and denies otherwise.
\<close>

theorem enforcement_decision_coherent:
  assumes "createVerificationResult vi = Inr v" "createEnforcementDecision di = Inr d"
    and "edi_verification di = v"
  shows "(edc_outcome d = Out_allow \<longrightarrow> vro_status v = Vs_valid \<and> vro_failureReasons v = []) \<and>
    (edc_outcome d = Out_deny \<longrightarrow> edc_failureReasons d \<noteq> []) \<and>
    (edc_outcome d = Out_break_glass_allow \<longrightarrow> edc_breakGlass d \<noteq> None) \<and>
    (edi_outcome di = None \<and> edi_breakGlass di = None \<and> vro_mode v \<noteq> Shadow_observe \<longrightarrow>
      (edc_outcome d = Out_allow \<longleftrightarrow> vro_status v = Vs_valid) \<and>
      (edc_outcome d = Out_needs_introspection \<longleftrightarrow> vro_status v = Vs_indeterminate) \<and>
      (edc_outcome d = Out_deny \<longleftrightarrow> vro_status v = Vs_invalid))"
proof -
  note c = created_decision [OF assms(2)] and w = created_verification [OF assms(1)]
  have "(edc_outcome d = Out_allow \<longleftrightarrow> vro_status v = Vs_valid) \<and>
      (edc_outcome d = Out_needs_introspection \<longleftrightarrow> vro_status v = Vs_indeterminate) \<and>
      (edc_outcome d = Out_deny \<longleftrightarrow> vro_status v = Vs_invalid)"
    if "edi_outcome di = None" "edi_breakGlass di = None" "vro_mode v \<noteq> Shadow_observe"
    using that c(3) assms(3) by (cases "vro_status v") (simp_all add: deriveOutcome_def)
  then show ?thesis using c w assms(3) by simp
qed

section \<open>Examples\<close>

definition sample_point :: enforcement_point_reference where
  "sample_point =
     \<lparr> epr_environment = ''prod'', epr_enforcementPointId = ''gw'', epr_pointKind = Record_write_gateway,
       epr_boundaryKind = Record_write, epr_consequenceType = Record, epr_riskClass = R3,
       epr_tenantId = None, epr_accountId = None, epr_workloadId = None, epr_audience = None \<rparr>"

definition sample_enforcement_request :: enforcement_request where
  "sample_enforcement_request =
     \<lparr> erq_version = ENFORCEMENT_REQUEST_SPEC_VERSION, erq_id = ''q1'', erq_receivedAt = 0,
       erq_enforcementPoint = sample_point,
       erq_enforcementPointLabel = enforcementPointReferenceLabel sample_point,
       erq_targetId = ''ledger'', erq_outputHash = ''o'', erq_consequenceHash = ''c'',
       erq_releaseTokenId = None, erq_releaseDecisionId = None, erq_requester = None, erq_traceId = None,
       erq_idempotencyKey = None, erq_transport = None \<rparr>"

definition sample_presentation :: release_presentation where
  "sample_presentation =
     \<lparr> prn_version = RELEASE_PRESENTATION_SPEC_VERSION, prn_mode = Bearer_release_token,
       prn_presentedAt = 0, prn_releaseToken = Some ''token'', prn_releaseTokenId = None,
       prn_releaseTokenDigest = None, prn_issuer = None, prn_subject = None, prn_audience = None,
       prn_expiresAt = None, prn_scope = [], prn_proof = None \<rparr>"

definition sample_verification_input ::
  "verification_status \<Rightarrow> enforcement_failure_reason list \<Rightarrow> verification_result_input" where
  "sample_verification_input status reasons =
     \<lparr> vri_id = ''v1'', vri_checkedAt = Iso 0, vri_mode = Offline_signature, vri_status = status,
       vri_cacheState = None, vri_degradedState = None, vri_presentation = sample_presentation,
       vri_releaseDecisionId = None, vri_outputHash = Some ''o'', vri_consequenceHash = Some ''c'',
       vri_policyHash = None, vri_policyVersion = None, vri_policyIrHash = None,
       vri_policyProvenanceSource = None, vri_compiledPolicyIndexVersion = None,
       vri_compiledPolicyIrVersion = None, vri_tenantId = None, vri_failureReasons = reasons,
       vri_introspection = None \<rparr>"

definition sample_result ::
  "verification_status \<Rightarrow> enforcement_failure_reason list \<Rightarrow> enforcement_verification_result" where
  "sample_result status reasons = projr (createVerificationResult (sample_verification_input status reasons))"

definition sample_decision_input ::
  "verification_status \<Rightarrow> enforcement_failure_reason list \<Rightarrow> enforcement_decision_input" where
  "sample_decision_input status reasons =
     \<lparr> edi_id = ''d1'', edi_request = sample_enforcement_request, edi_decidedAt = Iso 0,
       edi_verification = sample_result status reasons, edi_outcome = None,
       edi_failureReasons = None, edi_breakGlass = None \<rparr>"

definition sample_receipt_input :: "string \<Rightarrow> enforcement_receipt_input" where
  "sample_receipt_input key =
     \<lparr> rgi_decision = projr (createEnforcementDecision (sample_decision_input Vs_valid [])),
       rgi_outputHash = None, rgi_consequenceHash = None, rgi_evidenceSemantics = None,
       rgi_id = key, rgi_issuedAt = Iso 0, rgi_receiptDigest = None \<rparr>"

theorem enforcement_decision_coherent_witness:
  "\<exists>d. createEnforcementDecision (sample_decision_input Vs_invalid [Fr_expired_authorization]) = Inr d \<and>
     edc_outcome d = Out_deny"
proof -
  let ?vi = "sample_verification_input Vs_invalid [Fr_expired_authorization]"
  let ?di = "sample_decision_input Vs_invalid [Fr_expired_authorization]"
  have "\<not> isl (createVerificationResult ?vi)" by code_simp
  then have v: "createVerificationResult ?vi = Inr (sample_result Vs_invalid [Fr_expired_authorization])"
    by (cases "createVerificationResult ?vi") (simp_all add: sample_result_def)
  have "\<not> isl (createEnforcementDecision ?di)" by code_simp
  then obtain d where d: "createEnforcementDecision ?di = Inr d"
    by (cases "createEnforcementDecision ?di") auto
  have "edi_verification ?di = sample_result Vs_invalid [Fr_expired_authorization]"
    "edi_outcome ?di = None" "edi_breakGlass ?di = None"
    by (simp_all add: sample_decision_input_def)
  moreover have "vro_mode (sample_result Vs_invalid [Fr_expired_authorization]) \<noteq> Shadow_observe"
    "vro_status (sample_result Vs_invalid [Fr_expired_authorization]) = Vs_invalid"
    by code_simp+
  ultimately show ?thesis using enforcement_decision_coherent [OF v d] d by blast
qed

theorem receipt_digest_binds_witness:
  "\<exists>r q. createEnforcementReceipt (sample_receipt_input ''r1'') = Inr r \<and>
     createEnforcementReceipt (sample_receipt_input ''r2'') = Inr q \<and> ert_id r \<noteq> ert_id q \<and>
     ert_outputHash q = ert_outputHash r \<and> ert_outcome q = ert_outcome r"
proof -
  let ?i = "sample_receipt_input ''r1''" and ?j = "sample_receipt_input ''r2''"
  have receipt: "createEnforcementReceipt (sample_receipt_input k) = Inr (projr (createEnforcementReceipt (sample_receipt_input k))) \<and>
      ert_id (projr (createEnforcementReceipt (sample_receipt_input k))) = k" if "trim k = k" "k \<noteq> []" for k
    using that by (simp add: createEnforcementReceipt_def enforcementReceiptDigestMaterial_def
        normalizeEnforcementEvidenceSemantics_def plane_normalizeOptionalIdentifier_def
        plane_normalizeIdentifier_def object_normalizeIsoTimestamp_def sample_receipt_input_def Let_def)
  have r: "createEnforcementReceipt ?i = Inr (projr (createEnforcementReceipt ?i))"
      "createEnforcementReceipt ?j = Inr (projr (createEnforcementReceipt ?j))"
      "ert_id (projr (createEnforcementReceipt ?i)) = ''r1''" "ert_id (projr (createEnforcementReceipt ?j)) = ''r2''"
    by (use receipt [of "''r1''"] receipt [of "''r2''"] in \<open>simp_all add: trim_def js_whitespace_def\<close>)
  obtain d where d: "createEnforcementReceiptDigest (\<lambda>s. s) ?i = Inr d" "createEnforcementReceiptDigest (\<lambda>s. s) ?j = Inr d"
    by (simp add: createEnforcementReceiptDigest_def enforcementReceiptDigestMaterial_def
        normalizeEnforcementEvidenceSemantics_def plane_normalizeOptionalIdentifier_def
        sample_receipt_input_def Let_def)
  have same: "projr (createEnforcementReceipt ?j) = (projr (createEnforcementReceipt ?i))
    \<lparr> ert_id := ert_id (projr (createEnforcementReceipt ?j)),
      ert_issuedAt := ert_issuedAt (projr (createEnforcementReceipt ?j)),
      ert_enforcementPointLabel := ert_enforcementPointLabel (projr (createEnforcementReceipt ?j)),
      ert_receiptDigest := ert_receiptDigest (projr (createEnforcementReceipt ?j)) \<rparr>"
    by (rule receipt_digest_binds [OF d _ r(1,2)]) simp
  have "ert_outputHash (projr (createEnforcementReceipt ?j)) = ert_outputHash (projr (createEnforcementReceipt ?i))"
    "ert_outcome (projr (createEnforcementReceipt ?j)) = ert_outcome (projr (createEnforcementReceipt ?i))"
    by (subst same, simp)+
  with r show ?thesis by (intro exI [of _ "projr (createEnforcementReceipt ?i)"] exI [of _ "projr (createEnforcementReceipt ?j)"]) simp
qed

end
