(* ===== verification/Degraded_Mode.thy ===== *)
theory Degraded_Mode
  imports Enforcement_Objects
begin

text \<open>
  Emergency operation of the enforcement plane: src/release-enforcement-plane/degraded-mode-types.ts,
  degraded-mode-utils.ts, degraded-mode-grant.ts, degraded-mode-evaluate.ts and
  degraded-mode-store.ts.

  A grant allows an enforcement point, within a scope, for a short time and a number of uses, to
  go on although verification failed for reasons the grant names: with a cached introspection, or
  by breaking the glass. \<open>evaluateDegradedMode\<close> says whether a grant covers a failed verification.
  The store keeps the grants and a hash-linked list of audit records; every operation works on a
  copy that replaces the store when the operation returns. The file-backed store is the same
  operations around a load and a save of the file, so it is not repeated here.

  Degraded_Control has the lemmas and theorems.
\<close>

section \<open>Vocabulary and records\<close>

definition RELEASE_DEGRADED_MODE_CONTROL_SPEC_VERSION :: string where
  "RELEASE_DEGRADED_MODE_CONTROL_SPEC_VERSION = ''attestor.release-enforcement-degraded-mode.v1''"

definition DEFAULT_CACHE_ONLY_MAX_TTL_SECONDS :: int where
  "DEFAULT_CACHE_ONLY_MAX_TTL_SECONDS = 10 * 60"

definition DEFAULT_BREAK_GLASS_MAX_TTL_SECONDS :: int where
  "DEFAULT_BREAK_GLASS_MAX_TTL_SECONDS = 30 * 60"

definition DEFAULT_DEGRADED_MODE_MAX_USES :: int where
  "DEFAULT_DEGRADED_MODE_MAX_USES = 1"

definition DEFAULT_DEGRADED_MODE_ALLOWED_FAILURE_REASONS :: "enforcement_failure_reason list" where
  "DEFAULT_DEGRADED_MODE_ALLOWED_FAILURE_REASONS =
     [Fr_introspection_unavailable, Fr_fresh_introspection_required]"

definition CACHE_ONLY_ACCEPTED_CACHE_STATES :: "enforcement_cache_state list" where
  "CACHE_ONLY_ACCEPTED_CACHE_STATES = [Cache_fresh, Cache_stale_allowed]"

datatype degraded_grant_state = Grant_cache_only | Grant_break_glass_open

datatype degraded_grant_status =
  Gst_active | Gst_not_yet_valid | Gst_expired | Gst_revoked | Gst_exhausted

datatype degraded_decision_status =
  Dds_normal | Dds_fail_closed | Dds_cache_only_allow | Dds_break_glass_allow | Dds_break_glass_required

datatype degraded_audit_action = Grant_created | Grant_used | Grant_denied | Grant_revoked

record degraded_scope =
  dsc_environment :: "string option"
  dsc_enforcementPointId :: "string option"
  dsc_pointKind :: "enforcement_point_kind option"
  dsc_boundaryKind :: "enforcement_boundary_kind option"
  dsc_tenantId :: "string option"
  dsc_accountId :: "string option"
  dsc_workloadId :: "string option"
  dsc_audience :: "string option"
  dsc_targetId :: "string option"
  dsc_consequenceType :: "consequence_type option"
  dsc_riskClass :: "risk_class option"

record degraded_grant_input =
  dgi_id :: "string option"
  dgi_state :: degraded_grant_state
  dgi_reason :: enforcement_break_glass_reason
  dgi_scope :: "degraded_scope option"
  dgi_authorizedBy :: release_actor
  dgi_approvedBy :: "release_actor list"
  dgi_authorizedAt :: "js_date option"
  dgi_startsAt :: "js_date option"
  dgi_expiresAt :: "js_date option"
  dgi_ttlSeconds :: "rat js_number option"
  dgi_maxTtlSeconds :: "rat js_number option"
  dgi_ticketId :: string
  dgi_rationale :: string
  dgi_allowedFailureReasons :: "enforcement_failure_reason list option"
  dgi_maxUses :: "rat js_number option"
  dgi_remainingUses :: "rat js_number option"

record degraded_grant =
  dgr_version :: string
  dgr_id :: string
  dgr_state :: degraded_grant_state
  dgr_reason :: enforcement_break_glass_reason
  dgr_scope :: degraded_scope
  dgr_authorizedBy :: release_actor
  dgr_approvedBy :: "release_actor list"
  dgr_authorizedAt :: timestamp
  dgr_startsAt :: timestamp
  dgr_expiresAt :: timestamp
  dgr_ticketId :: string
  dgr_rationale :: string
  dgr_allowedFailureReasons :: "enforcement_failure_reason list"
  dgr_maxUses :: int
  dgr_remainingUses :: int
  dgr_auditDigest :: string
  dgr_revokedAt :: "timestamp option"
  dgr_revokedBy :: "release_actor option"
  dgr_revocationReason :: "string option"

record degraded_audit_record =
  dar_version :: string
  dar_id :: string
  dar_action :: degraded_audit_action
  dar_grantId :: string
  dar_recordedAt :: timestamp
  dar_actor :: "release_actor option"
  dar_state :: degraded_grant_state
  dar_scope :: degraded_scope
  dar_reason :: enforcement_break_glass_reason
  dar_ticketId :: string
  dar_expiresAt :: timestamp
  dar_failureReasons :: "enforcement_failure_reason list"
  dar_outcome :: "enforcement_outcome option"
  dar_remainingUses :: int
  dar_previousDigest :: "string option"
  dar_digest :: string
  dar_metadata :: "(string \<times> json) list"

record degraded_evaluation_input =
  dei_checkedAt :: js_date
  dei_grant :: "degraded_grant option"
  dei_request :: "enforcement_request option"
  dei_scope :: "degraded_scope option"
  dei_verification :: "enforcement_verification_result option"
  dei_failureReasons :: "enforcement_failure_reason list option"
  dei_profile :: "verification_profile option"

record degraded_decision =
  ddn_version :: string
  ddn_checkedAt :: timestamp
  ddn_status :: degraded_decision_status
  ddn_degradedState :: enforcement_degraded_state
  ddn_outcome :: enforcement_outcome
  ddn_failureReasons :: "enforcement_failure_reason list"
  ddn_grant :: "degraded_grant option"
  ddn_breakGlass :: "break_glass_grant option"
  ddn_grantStatus :: "degraded_grant_status option"
  ddn_auditRecord :: "degraded_audit_record option"

record list_grants_options =
  lgo_status :: "degraded_grant_status option"
  lgo_checkedAt :: "js_date option"
  lgo_scope :: "degraded_scope option"

record revoke_grant_input =
  rvg_id :: string
  rvg_revokedAt :: js_date
  rvg_revokedBy :: release_actor
  rvg_revocationReason :: string

record consume_grant_input =
  cgi_id :: string
  cgi_checkedAt :: js_date
  cgi_actor :: "release_actor option"
  cgi_failureReasons :: "enforcement_failure_reason list"
  cgi_outcome :: "enforcement_outcome option"
  cgi_metadata :: "(string \<times> json) list"

text \<open>The digest of \<open>node:crypto\<close>, the clock and the next random identifier.\<close>

record degraded_host =
  dgh_sha256 :: "string \<Rightarrow> string"
  dgh_now :: int
  dgh_uuid :: string

section \<open>Normalization\<close>

text \<open>Joining an array prints nothing for an undefined element.\<close>

fun degraded_stableStringify :: "json \<Rightarrow> string" where
  "degraded_stableStringify (JArray vs) = ''['' @ join_with '',''
     (map (\<lambda>v. if v = JUndefined then [] else degraded_stableStringify v) vs) @ '']''"
| "degraded_stableStringify (JObject kvs) =
     ''{'' @ join_with '','' (map (\<lambda>(k, v). json_quote k @ '':'' @ degraded_stableStringify v) (sort_key fst kvs)) @ ''}''"
| "degraded_stableStringify JUndefined = ''undefined''"
| "degraded_stableStringify v = JSON_stringify v"

definition sha256Digest :: "degraded_host \<Rightarrow> json \<Rightarrow> string" where
  "sha256Digest h v = ''sha256:'' @ dgh_sha256 h (degraded_stableStringify v)"

definition degraded_error :: "string \<Rightarrow> js_error" where
  "degraded_error what = Error (''Release enforcement-plane degraded mode '' @ what)"

definition degraded_normalizeIdentifier :: "string \<Rightarrow> string \<Rightarrow> string result" where
  "degraded_normalizeIdentifier value fieldName =
     (if length (trim value) = 0 then throw (degraded_error (fieldName @ '' requires a non-empty value.''))
      else return (trim value))"

definition degraded_normalizeOptionalIdentifier :: "string option \<Rightarrow> string \<Rightarrow> string option result" where
  "degraded_normalizeOptionalIdentifier value fieldName =
     (case value of
        None \<Rightarrow> return None
      | Some v \<Rightarrow>
          if length (trim v) = 0 then throw (degraded_error (fieldName @ '' cannot be blank when provided.''))
          else return (Some (trim v)))"

definition degraded_normalizeIsoTimestamp :: "js_date \<Rightarrow> string \<Rightarrow> timestamp result" where
  "degraded_normalizeIsoTimestamp value fieldName =
     (case value of
        Iso t \<Rightarrow> return t
      | BadDate s \<Rightarrow> rbind (degraded_normalizeIdentifier s fieldName) (\<lambda>_.
          throw (degraded_error (fieldName @ '' must be an ISO timestamp.''))))"

definition normalizeActor :: "release_actor \<Rightarrow> string \<Rightarrow> release_actor result" where
  "normalizeActor actor fieldName =
     rbind (degraded_normalizeIdentifier (act_id actor) (fieldName @ ''.id'')) (\<lambda>key. return
       \<lparr> act_id = key, act_type = act_type actor,
         act_displayName = map_option trim (truthy_str (act_displayName actor)),
         act_role = map_option trim (truthy_str (act_role actor)) \<rparr>)"

definition empty_scope :: degraded_scope where
  "empty_scope =
     \<lparr> dsc_environment = None, dsc_enforcementPointId = None, dsc_pointKind = None,
       dsc_boundaryKind = None, dsc_tenantId = None, dsc_accountId = None, dsc_workloadId = None,
       dsc_audience = None, dsc_targetId = None, dsc_consequenceType = None, dsc_riskClass = None \<rparr>"

text \<open>An absent scope has every member absent.\<close>

definition degraded_normalizeScope :: "degraded_scope option \<Rightarrow> degraded_scope result" where
  "degraded_normalizeScope value =
     (let scope = nullish value empty_scope in
      rbind (degraded_normalizeOptionalIdentifier (dsc_environment scope) ''scope.environment'') (\<lambda>environment.
      rbind (degraded_normalizeOptionalIdentifier (dsc_enforcementPointId scope) ''scope.enforcementPointId'') (\<lambda>enforcementPointId.
      rbind (degraded_normalizeOptionalIdentifier (dsc_tenantId scope) ''scope.tenantId'') (\<lambda>tenantId.
      rbind (degraded_normalizeOptionalIdentifier (dsc_accountId scope) ''scope.accountId'') (\<lambda>accountId.
      rbind (degraded_normalizeOptionalIdentifier (dsc_workloadId scope) ''scope.workloadId'') (\<lambda>workloadId.
      rbind (degraded_normalizeOptionalIdentifier (dsc_audience scope) ''scope.audience'') (\<lambda>audience.
      rbind (degraded_normalizeOptionalIdentifier (dsc_targetId scope) ''scope.targetId'') (\<lambda>targetId.
      if accountId \<noteq> None \<and> tenantId = None
      then throw (degraded_error ''account scope also requires tenant scope.'')
      else return
        \<lparr> dsc_environment = environment, dsc_enforcementPointId = enforcementPointId,
          dsc_pointKind = dsc_pointKind scope, dsc_boundaryKind = dsc_boundaryKind scope,
          dsc_tenantId = tenantId, dsc_accountId = accountId, dsc_workloadId = workloadId,
          dsc_audience = audience, dsc_targetId = targetId,
          dsc_consequenceType = dsc_consequenceType scope, dsc_riskClass = dsc_riskClass scope \<rparr>))))))))"

definition scopeHasNarrowingField :: "degraded_scope \<Rightarrow> bool" where
  "scopeHasNarrowingField scope \<longleftrightarrow> scope \<noteq> empty_scope"

text \<open>A \<open>Set\<close> keeps the first of equal elements.\<close>

definition first_occurrences :: "'a list \<Rightarrow> 'a list" where
  "first_occurrences xs = rev (remdups (rev xs))"

definition degraded_normalizeFailureReasons ::
  "enforcement_failure_reason list option \<Rightarrow> string \<Rightarrow> bool \<Rightarrow> enforcement_failure_reason list result" where
  "degraded_normalizeFailureReasons reasons fieldName allowEmpty =
     (let selected = nullish reasons DEFAULT_DEGRADED_MODE_ALLOWED_FAILURE_REASONS;
          unique = first_occurrences selected
      in if \<not> allowEmpty \<and> length unique = 0
         then throw (degraded_error (fieldName @ '' requires at least one reason.''))
         else return unique)"

definition degraded_uniqueFailureReasons ::
  "enforcement_failure_reason list \<Rightarrow> enforcement_failure_reason list" where
  "degraded_uniqueFailureReasons reasons = first_occurrences reasons"

fun defaultMaxTtlSeconds :: "degraded_grant_state \<Rightarrow> int" where
  "defaultMaxTtlSeconds Grant_cache_only = DEFAULT_CACHE_ONLY_MAX_TTL_SECONDS"
| "defaultMaxTtlSeconds Grant_break_glass_open = DEFAULT_BREAK_GLASS_MAX_TTL_SECONDS"

fun positive_integer :: "rat js_number \<Rightarrow> int option" where
  "positive_integer NonFinite = None"
| "positive_integer (Num q) = (case quotient_of q of (n, d) \<Rightarrow> if d = 1 \<and> 0 < n then Some n else None)"

definition degraded_normalizePositiveInteger :: "rat js_number option \<Rightarrow> int \<Rightarrow> string \<Rightarrow> int result" where
  "degraded_normalizePositiveInteger value defaultValue fieldName =
     (case positive_integer (nullish value (Num (of_int defaultValue))) of
        None \<Rightarrow> throw (degraded_error (fieldName @ '' must be a positive integer.''))
      | Some n \<Rightarrow> return n)"

section \<open>Renderings\<close>

fun degraded_grant_state_str :: "degraded_grant_state \<Rightarrow> string" where
  "degraded_grant_state_str Grant_cache_only = ''cache-only''"
| "degraded_grant_state_str Grant_break_glass_open = ''break-glass-open''"

fun degraded_audit_action_str :: "degraded_audit_action \<Rightarrow> string" where
  "degraded_audit_action_str Grant_created = ''grant-created''"
| "degraded_audit_action_str Grant_used = ''grant-used''"
| "degraded_audit_action_str Grant_denied = ''grant-denied''"
| "degraded_audit_action_str Grant_revoked = ''grant-revoked''"

text \<open>The optional members of an actor are left out of its JSON when they are absent.\<close>

definition degraded_actor_json :: "release_actor \<Rightarrow> json" where
  "degraded_actor_json a = JObject
     ([(''id'', JString (act_id a)), (''type'', JString (release_actor_type_str (act_type a)))] @
      (case act_displayName a of None \<Rightarrow> [] | Some s \<Rightarrow> [(''displayName'', JString s)]) @
      (case act_role a of None \<Rightarrow> [] | Some s \<Rightarrow> [(''role'', JString s)]))"

definition degraded_scope_json :: "degraded_scope \<Rightarrow> json" where
  "degraded_scope_json s = JObject
     [(''environment'', json_str_opt (dsc_environment s)),
      (''enforcementPointId'', json_str_opt (dsc_enforcementPointId s)),
      (''pointKind'', json_str_opt (map_option enforcement_point_kind_str (dsc_pointKind s))),
      (''boundaryKind'', json_str_opt (map_option enforcement_boundary_kind_str (dsc_boundaryKind s))),
      (''tenantId'', json_str_opt (dsc_tenantId s)),
      (''accountId'', json_str_opt (dsc_accountId s)),
      (''workloadId'', json_str_opt (dsc_workloadId s)),
      (''audience'', json_str_opt (dsc_audience s)),
      (''targetId'', json_str_opt (dsc_targetId s)),
      (''consequenceType'', json_str_opt (map_option consequence_type_str (dsc_consequenceType s))),
      (''riskClass'', json_str_opt (map_option risk_class_str (dsc_riskClass s)))]"

fun json_actor_opt :: "release_actor option \<Rightarrow> json" where
  "json_actor_opt None = JNull"
| "json_actor_opt (Some a) = degraded_actor_json a"

definition json_instant :: "timestamp \<Rightarrow> json" where
  "json_instant t = JString (toISOString t)"

definition grant_digest_json :: "degraded_grant \<Rightarrow> json" where
  "grant_digest_json g = JObject
     [(''version'', JString (dgr_version g)),
      (''id'', JString (dgr_id g)),
      (''state'', JString (degraded_grant_state_str (dgr_state g))),
      (''reason'', JString (enforcement_break_glass_reason_str (dgr_reason g))),
      (''scope'', degraded_scope_json (dgr_scope g)),
      (''authorizedBy'', degraded_actor_json (dgr_authorizedBy g)),
      (''approvedBy'', JArray (map degraded_actor_json (dgr_approvedBy g))),
      (''authorizedAt'', json_instant (dgr_authorizedAt g)),
      (''startsAt'', json_instant (dgr_startsAt g)),
      (''expiresAt'', json_instant (dgr_expiresAt g)),
      (''ticketId'', JString (dgr_ticketId g)),
      (''rationale'', JString (dgr_rationale g)),
      (''allowedFailureReasons'', json_strs (map enforcement_failure_reason_str (dgr_allowedFailureReasons g))),
      (''maxUses'', JNumber (Num (dgr_maxUses g))),
      (''remainingUses'', JNumber (Num (dgr_remainingUses g))),
      (''revokedAt'', json_str_opt (map_option toISOString (dgr_revokedAt g))),
      (''revokedBy'', json_actor_opt (dgr_revokedBy g)),
      (''revocationReason'', json_str_opt (dgr_revocationReason g))]"

definition createGrantDigest :: "degraded_host \<Rightarrow> degraded_grant \<Rightarrow> string" where
  "createGrantDigest h g = sha256Digest h (grant_digest_json g)"

section \<open>Grants\<close>

definition createDegradedModeGrantId :: "degraded_host \<Rightarrow> string" where
  "createDegradedModeGrantId h = ''dmg_'' @ filter (\<lambda>c. c \<noteq> CHR ''-'') (dgh_uuid h)"

definition createDegradedModeGrant :: "degraded_host \<Rightarrow> degraded_grant_input \<Rightarrow> degraded_grant result" where
  "createDegradedModeGrant h input =
     rbind (case dgi_authorizedAt input of
              None \<Rightarrow> toISO (dgh_now h)
            | Some d \<Rightarrow> degraded_normalizeIsoTimestamp d ''authorizedAt'') (\<lambda>authorizedAt.
     rbind (degraded_normalizeIsoTimestamp (nullish (dgi_startsAt input) (Iso authorizedAt)) ''startsAt'') (\<lambda>startsAt.
     rbind (degraded_normalizePositiveInteger (dgi_maxTtlSeconds input) (defaultMaxTtlSeconds (dgi_state input)) ''maxTtlSeconds'') (\<lambda>maxTtlSeconds.
     rbind (case dgi_expiresAt input of
              None \<Rightarrow> rbind (degraded_normalizePositiveInteger (dgi_ttlSeconds input) maxTtlSeconds ''ttlSeconds'') (\<lambda>ttlSeconds.
                toISO (startsAt + ttlSeconds * 1000))
            | Some d \<Rightarrow> degraded_normalizeIsoTimestamp d ''expiresAt'') (\<lambda>expiresAt.
     if expiresAt \<le> startsAt
     then throw (degraded_error ''grant expiresAt must be after startsAt.'')
     else if expiresAt - startsAt > maxTtlSeconds * 1000
     then throw (degraded_error (''grant ttl cannot exceed '' @ string_of_int maxTtlSeconds @ '' seconds.''))
     else
     rbind (degraded_normalizePositiveInteger (dgi_maxUses input) DEFAULT_DEGRADED_MODE_MAX_USES ''maxUses'') (\<lambda>maxUses.
     rbind (degraded_normalizePositiveInteger (dgi_remainingUses input) maxUses ''remainingUses'') (\<lambda>remainingUses.
     if remainingUses > maxUses
     then throw (degraded_error ''remainingUses cannot exceed maxUses.'')
     else
     rbind (degraded_normalizeScope (dgi_scope input)) (\<lambda>scope.
     if \<not> scopeHasNarrowingField scope
     then throw (degraded_error ''grant scope requires at least one non-wildcard field.'')
     else
     rbind (degraded_normalizeIdentifier (nullish (dgi_id input) (createDegradedModeGrantId h)) ''id'') (\<lambda>key.
     rbind (normalizeActor (dgi_authorizedBy input) ''authorizedBy'') (\<lambda>authorizedBy.
     rbind (rmap_list (\<lambda>a. normalizeActor a ''approvedBy'') (dgi_approvedBy input)) (\<lambda>approvedBy.
     rbind (degraded_normalizeIdentifier (dgi_ticketId input) ''ticketId'') (\<lambda>ticketId.
     rbind (degraded_normalizeIdentifier (dgi_rationale input) ''rationale'') (\<lambda>rationale.
     rbind (degraded_normalizeFailureReasons (dgi_allowedFailureReasons input) ''allowedFailureReasons'' False) (\<lambda>allowed.
     let withoutDigest =
       \<lparr> dgr_version = RELEASE_DEGRADED_MODE_CONTROL_SPEC_VERSION,
         dgr_id = key,
         dgr_state = dgi_state input,
         dgr_reason = dgi_reason input,
         dgr_scope = scope,
         dgr_authorizedBy = authorizedBy,
         dgr_approvedBy = approvedBy,
         dgr_authorizedAt = authorizedAt,
         dgr_startsAt = startsAt,
         dgr_expiresAt = expiresAt,
         dgr_ticketId = ticketId,
         dgr_rationale = rationale,
         dgr_allowedFailureReasons = allowed,
         dgr_maxUses = maxUses,
         dgr_remainingUses = remainingUses,
         dgr_auditDigest = [],
         dgr_revokedAt = None,
         dgr_revokedBy = None,
         dgr_revocationReason = None \<rparr>
     in return (withoutDigest\<lparr> dgr_auditDigest := createGrantDigest h withoutDigest \<rparr>))))))))))))))"

text \<open>A revoked or exhausted grant is reported without looking at the instant.\<close>

definition degradedModeGrantStatus :: "degraded_grant \<Rightarrow> js_date \<Rightarrow> degraded_grant_status result" where
  "degradedModeGrantStatus grant checkedAt =
     (if dgr_revokedAt grant \<noteq> None then return Gst_revoked
      else if dgr_remainingUses grant \<le> 0 then return Gst_exhausted
      else rbind (degraded_normalizeIsoTimestamp checkedAt ''checkedAt'') (\<lambda>t. return
        (if t < dgr_startsAt grant then Gst_not_yet_valid
         else if dgr_expiresAt grant \<le> t then Gst_expired
         else Gst_active)))"

definition degradedModeScopeFromRequest :: "enforcement_request \<Rightarrow> degraded_scope" where
  "degradedModeScopeFromRequest request =
     (let point = erq_enforcementPoint request in
      \<lparr> dsc_environment = Some (epr_environment point),
        dsc_enforcementPointId = Some (epr_enforcementPointId point),
        dsc_pointKind = Some (epr_pointKind point),
        dsc_boundaryKind = Some (epr_boundaryKind point),
        dsc_tenantId = epr_tenantId point,
        dsc_accountId = epr_accountId point,
        dsc_workloadId = epr_workloadId point,
        dsc_audience = epr_audience point,
        dsc_targetId = Some (erq_targetId request),
        dsc_consequenceType = Some (epr_consequenceType point),
        dsc_riskClass = Some (epr_riskClass point) \<rparr>)"

definition scopeFieldMatches :: "'a option \<Rightarrow> 'a option \<Rightarrow> bool" where
  "scopeFieldMatches grantValue requestValue \<longleftrightarrow> grantValue = None \<or> grantValue = requestValue"

definition degradedModeScopeMatches :: "degraded_scope \<Rightarrow> degraded_scope option \<Rightarrow> bool" where
  "degradedModeScopeMatches grantScope requestScope \<longleftrightarrow>
     (case requestScope of
        None \<Rightarrow> grantScope = empty_scope
      | Some request \<Rightarrow>
          scopeFieldMatches (dsc_environment grantScope) (dsc_environment request) \<and>
          scopeFieldMatches (dsc_enforcementPointId grantScope) (dsc_enforcementPointId request) \<and>
          scopeFieldMatches (dsc_pointKind grantScope) (dsc_pointKind request) \<and>
          scopeFieldMatches (dsc_boundaryKind grantScope) (dsc_boundaryKind request) \<and>
          scopeFieldMatches (dsc_tenantId grantScope) (dsc_tenantId request) \<and>
          scopeFieldMatches (dsc_accountId grantScope) (dsc_accountId request) \<and>
          scopeFieldMatches (dsc_workloadId grantScope) (dsc_workloadId request) \<and>
          scopeFieldMatches (dsc_audience grantScope) (dsc_audience request) \<and>
          scopeFieldMatches (dsc_targetId grantScope) (dsc_targetId request) \<and>
          scopeFieldMatches (dsc_consequenceType grantScope) (dsc_consequenceType request) \<and>
          scopeFieldMatches (dsc_riskClass grantScope) (dsc_riskClass request))"

section \<open>Evaluation\<close>

definition actorIdentity :: "release_actor \<Rightarrow> string" where
  "actorIdentity actor = release_actor_type_str (act_type actor) @ '':'' @ act_id actor"

definition distinctApproverIdentities :: "degraded_grant \<Rightarrow> string set" where
  "distinctApproverIdentities grant =
     set (filter (\<lambda>identity. identity \<noteq> actorIdentity (dgr_authorizedBy grant))
       (map actorIdentity (dgr_approvedBy grant)))"

definition profileMatchesScope :: "verification_profile \<Rightarrow> degraded_scope \<Rightarrow> bool" where
  "profileMatchesScope profile scope \<longleftrightarrow>
     (dsc_boundaryKind scope = None \<or> dsc_boundaryKind scope = Some (vpr_boundaryKind profile)) \<and>
     (dsc_consequenceType scope = None \<or> dsc_consequenceType scope = Some (vpr_consequenceType profile)) \<and>
     (dsc_riskClass scope = None \<or> dsc_riskClass scope = Some (vpr_riskClass profile))"

definition scope_profile :: "degraded_scope \<Rightarrow> verification_profile option result" where
  "scope_profile scope =
     (case (dsc_boundaryKind scope, dsc_consequenceType scope, dsc_riskClass scope) of
        (Some boundaryKind, Some consequenceType, Some riskClass) \<Rightarrow>
          rbind (resolveVerificationProfile
            \<lparr> vpi_consequenceType = consequenceType, vpi_riskClass = riskClass,
              vpi_boundaryKind = boundaryKind \<rparr>) (\<lambda>p. return (Some p))
      | _ \<Rightarrow> return None)"

definition request_profile :: "enforcement_request \<Rightarrow> verification_profile result" where
  "request_profile request =
     (let point = erq_enforcementPoint request in resolveVerificationProfile
       \<lparr> vpi_consequenceType = epr_consequenceType point, vpi_riskClass = epr_riskClass point,
         vpi_boundaryKind = epr_boundaryKind point \<rparr>)"

definition resolveDegradedModeProfile ::
  "verification_profile option \<Rightarrow> enforcement_request option \<Rightarrow> degraded_scope
     \<Rightarrow> verification_profile option result" where
  "resolveDegradedModeProfile profile request scope =
     rbind (case request of
              None \<Rightarrow> return None
            | Some r \<Rightarrow> rbind (request_profile r) (\<lambda>p. return (Some p))) (\<lambda>requestProfile.
     case nullish_opt profile requestProfile of
       Some selectedProfile \<Rightarrow>
         if (case requestProfile of
               None \<Rightarrow> False
             | Some p \<Rightarrow> vpr_consequenceType selectedProfile \<noteq> vpr_consequenceType p \<or>
                 vpr_riskClass selectedProfile \<noteq> vpr_riskClass p \<or>
                 vpr_boundaryKind selectedProfile \<noteq> vpr_boundaryKind p)
         then throw (degraded_error ''profile must match the enforcement request boundary, consequence type, and risk class.'')
         else if \<not> profileMatchesScope selectedProfile scope
         then throw (degraded_error ''profile must match the evaluated scope.'')
         else return (Some selectedProfile)
     | None \<Rightarrow> scope_profile scope)"

definition grantToBreakGlassGrant :: "degraded_grant \<Rightarrow> break_glass_grant" where
  "grantToBreakGlassGrant grant =
     \<lparr> bgg_reason = dgr_reason grant, bgg_authorizedBy = dgr_authorizedBy grant,
       bgg_authorizedAt = dgr_authorizedAt grant, bgg_expiresAt = dgr_expiresAt grant,
       bgg_ticketId = Some (dgr_ticketId grant), bgg_rationale = dgr_rationale grant \<rparr>"

definition cacheStateAllowsDegradedMode :: "enforcement_verification_result option \<Rightarrow> bool" where
  "cacheStateAllowsDegradedMode verification \<longleftrightarrow>
     (case verification of
        None \<Rightarrow> False
      | Some v \<Rightarrow> vro_status v \<noteq> Vs_invalid \<and> vro_cacheState v \<in> set CACHE_ONLY_ACCEPTED_CACHE_STATES)"

definition allFailuresAllowed ::
  "enforcement_failure_reason list \<Rightarrow> enforcement_failure_reason list \<Rightarrow> bool" where
  "allFailuresAllowed failures allowed \<longleftrightarrow>
     length failures > 0 \<and> list_all (\<lambda>reason. reason \<in> set allowed) failures"

definition emptyDecision :: "timestamp \<Rightarrow> degraded_decision" where
  "emptyDecision checkedAt =
     \<lparr> ddn_version = RELEASE_DEGRADED_MODE_CONTROL_SPEC_VERSION, ddn_checkedAt = checkedAt,
       ddn_status = Dds_normal, ddn_degradedState = Deg_normal, ddn_outcome = Out_allow,
       ddn_failureReasons = [], ddn_grant = None, ddn_breakGlass = None, ddn_grantStatus = None,
       ddn_auditRecord = None \<rparr>"

definition failClosedDecision ::
  "timestamp \<Rightarrow> degraded_decision_status \<Rightarrow> enforcement_failure_reason list \<Rightarrow> degraded_grant option
     \<Rightarrow> degraded_grant_status option \<Rightarrow> degraded_decision" where
  "failClosedDecision checkedAt status failures grant grantStatus =
     \<lparr> ddn_version = RELEASE_DEGRADED_MODE_CONTROL_SPEC_VERSION, ddn_checkedAt = checkedAt,
       ddn_status = status, ddn_degradedState = Deg_fail_closed, ddn_outcome = Out_deny,
       ddn_failureReasons = degraded_uniqueFailureReasons (failures @ [Fr_break_glass_required]),
       ddn_grant = grant, ddn_breakGlass = None, ddn_grantStatus = grantStatus,
       ddn_auditRecord = None \<rparr>"

text \<open>The part of \<open>evaluateDegradedMode\<close> about an active grant that covers the failures.\<close>

definition decide_with_grant ::
  "timestamp \<Rightarrow> degraded_evaluation_input \<Rightarrow> enforcement_failure_reason list \<Rightarrow> degraded_grant
     \<Rightarrow> degraded_grant_status \<Rightarrow> verification_profile option \<Rightarrow> degraded_decision" where
  "decide_with_grant checkedAt input failures grant grantStatus profile =
     (let denied = (\<lambda>rs. failClosedDecision checkedAt Dds_fail_closed rs (Some grant) (Some grantStatus));
          allowed = (\<lambda>status state outcome breakGlass.
            \<lparr> ddn_version = RELEASE_DEGRADED_MODE_CONTROL_SPEC_VERSION, ddn_checkedAt = checkedAt,
              ddn_status = status, ddn_degradedState = state, ddn_outcome = outcome,
              ddn_failureReasons = failures, ddn_grant = Some grant, ddn_breakGlass = breakGlass,
              ddn_grantStatus = Some grantStatus, ddn_auditRecord = None \<rparr>);
          posture = map_option vpr_overridePosture profile
      in if dgr_state grant = Grant_cache_only then
           (if (case profile of None \<Rightarrow> False | Some p \<Rightarrow> vcb_requireFreshOnlineCheck (vpr_cacheBudget p))
            then denied (degraded_uniqueFailureReasons (failures @ [Fr_fresh_introspection_required]))
            else if \<not> cacheStateAllowsDegradedMode (dei_verification input) then denied failures
            else allowed Dds_cache_only_allow Deg_cache_only Out_allow None)
         else if posture = Some Override_not_allowed
         then denied (degraded_uniqueFailureReasons (failures @ [Fr_binding_mismatch]))
         else if posture = Some Dual_break_glass \<and> card (distinctApproverIdentities grant) < 2
         then denied (degraded_uniqueFailureReasons (failures @ [Fr_binding_mismatch]))
         else allowed Dds_break_glass_allow Deg_break_glass_open Out_break_glass_allow
           (Some (grantToBreakGlassGrant grant)))"

definition effective_failures :: "degraded_evaluation_input \<Rightarrow> enforcement_verification_result \<Rightarrow> enforcement_failure_reason list" where
  "effective_failures input verification =
     (let explicitFailures = nullish (dei_failureReasons input) (vro_failureReasons verification)
      in if length explicitFailures > 0 \<or> vro_status verification = Vs_valid
         then explicitFailures else [Fr_fresh_introspection_required])"

text \<open>The part about a verification whose failures were collected.\<close>

definition evaluate_failures ::
  "timestamp \<Rightarrow> degraded_evaluation_input \<Rightarrow> enforcement_verification_result
     \<Rightarrow> enforcement_failure_reason list \<Rightarrow> degraded_decision result" where
  "evaluate_failures checkedAt input verification failures =
     (if length failures = 0 \<and> vro_status verification = Vs_valid
      then return (emptyDecision checkedAt)
      else case dei_grant input of
        None \<Rightarrow> return (failClosedDecision checkedAt Dds_break_glass_required failures None None)
      | Some grant \<Rightarrow>
          rbind (degradedModeGrantStatus grant (Iso checkedAt)) (\<lambda>grantStatus.
          rbind (degraded_normalizeScope (nullish_opt (dei_scope input)
            (map_option degradedModeScopeFromRequest (dei_request input)))) (\<lambda>requestScope.
          rbind (resolveDegradedModeProfile (dei_profile input) (dei_request input) requestScope) (\<lambda>profile.
          if grantStatus \<noteq> Gst_active \<or> \<not> degradedModeScopeMatches (dgr_scope grant) (Some requestScope) \<or>
             \<not> allFailuresAllowed failures (dgr_allowedFailureReasons grant)
          then return (failClosedDecision checkedAt Dds_fail_closed failures (Some grant) (Some grantStatus))
          else return (decide_with_grant checkedAt input failures grant grantStatus profile)))))"

definition evaluateDegradedMode :: "degraded_evaluation_input \<Rightarrow> degraded_decision result" where
  "evaluateDegradedMode input =
     rbind (degraded_normalizeIsoTimestamp (dei_checkedAt input) ''checkedAt'') (\<lambda>checkedAt.
     case dei_verification input of
       None \<Rightarrow>
         rbind (case dei_grant input of
                  None \<Rightarrow> return None
                | Some g \<Rightarrow> rbind (degradedModeGrantStatus g (Iso checkedAt)) (\<lambda>st. return (Some st))) (\<lambda>grantStatus.
         return (failClosedDecision checkedAt Dds_fail_closed [Fr_missing_release_authorization]
           (dei_grant input) grantStatus))
     | Some verification \<Rightarrow>
         rbind (degraded_normalizeFailureReasons (Some (effective_failures input verification))
           ''failureReasons'' True) (\<lambda>failures.
         evaluate_failures checkedAt input verification failures))"

section \<open>The store\<close>

record degraded_store =
  dgs_grants :: "degraded_grant list"
  dgs_auditRecords :: "degraded_audit_record list"

definition defaultDegradedModeGrantStoreFile :: degraded_store where
  "defaultDegradedModeGrantStoreFile = \<lparr> dgs_grants = [], dgs_auditRecords = [] \<rparr>"

record audit_input =
  aui_action :: degraded_audit_action
  aui_grant :: degraded_grant
  aui_recordedAt :: js_date
  aui_actor :: "release_actor option"
  aui_failureReasons :: "enforcement_failure_reason list"
  aui_outcome :: "enforcement_outcome option"
  aui_remainingUses :: int
  aui_metadata :: "(string \<times> json) list"

definition audit_json :: "degraded_audit_record \<Rightarrow> json" where
  "audit_json r = JObject
     [(''version'', JString (dar_version r)),
      (''id'', JString (dar_id r)),
      (''action'', JString (degraded_audit_action_str (dar_action r))),
      (''grantId'', JString (dar_grantId r)),
      (''recordedAt'', json_instant (dar_recordedAt r)),
      (''actor'', json_actor_opt (dar_actor r)),
      (''state'', JString (degraded_grant_state_str (dar_state r))),
      (''scope'', degraded_scope_json (dar_scope r)),
      (''reason'', JString (enforcement_break_glass_reason_str (dar_reason r))),
      (''ticketId'', JString (dar_ticketId r)),
      (''expiresAt'', json_instant (dar_expiresAt r)),
      (''failureReasons'', json_strs (map enforcement_failure_reason_str (dar_failureReasons r))),
      (''outcome'', json_str_opt (map_option enforcement_outcome_str (dar_outcome r))),
      (''remainingUses'', JNumber (Num (dar_remainingUses r))),
      (''previousDigest'', json_str_opt (dar_previousDigest r)),
      (''metadata'', JObject (dar_metadata r))]"

definition createAuditRecord ::
  "degraded_host \<Rightarrow> audit_input \<Rightarrow> string option \<Rightarrow> degraded_audit_record result" where
  "createAuditRecord h input previousDigest =
     rbind (degraded_normalizeIsoTimestamp (aui_recordedAt input) ''recordedAt'') (\<lambda>recordedAt.
     rbind (case aui_actor input of
              None \<Rightarrow> return None
            | Some a \<Rightarrow> rbind (normalizeActor a ''audit.actor'') (\<lambda>b. return (Some b))) (\<lambda>actor.
     rbind (degraded_normalizeFailureReasons (Some (aui_failureReasons input)) ''audit.failureReasons'' True) (\<lambda>failureReasons.
     let g = aui_grant input;
         recordWithoutDigest =
           \<lparr> dar_version = RELEASE_DEGRADED_MODE_CONTROL_SPEC_VERSION,
             dar_id = ''dma_'' @ filter (\<lambda>c. c \<noteq> CHR ''-'') (dgh_uuid h),
             dar_action = aui_action input,
             dar_grantId = dgr_id g,
             dar_recordedAt = recordedAt,
             dar_actor = actor,
             dar_state = dgr_state g,
             dar_scope = dgr_scope g,
             dar_reason = dgr_reason g,
             dar_ticketId = dgr_ticketId g,
             dar_expiresAt = dgr_expiresAt g,
             dar_failureReasons = failureReasons,
             dar_outcome = aui_outcome input,
             dar_remainingUses = aui_remainingUses input,
             dar_previousDigest = previousDigest,
             dar_digest = [],
             dar_metadata = aui_metadata input \<rparr>
     in return (recordWithoutDigest\<lparr> dar_digest := sha256Digest h (audit_json recordWithoutDigest) \<rparr>))))"

definition replaceGrantUseBudget :: "degraded_host \<Rightarrow> degraded_grant \<Rightarrow> int \<Rightarrow> degraded_grant" where
  "replaceGrantUseBudget h grant remainingUses =
     (let withoutDigest = grant\<lparr> dgr_remainingUses := remainingUses \<rparr>
      in withoutDigest\<lparr> dgr_auditDigest := createGrantDigest h withoutDigest \<rparr>)"

definition replaceGrantRevocation ::
  "degraded_host \<Rightarrow> degraded_grant \<Rightarrow> revoke_grant_input \<Rightarrow> degraded_grant result" where
  "replaceGrantRevocation h grant input =
     rbind (degraded_normalizeIsoTimestamp (rvg_revokedAt input) ''revokedAt'') (\<lambda>revokedAt.
     rbind (normalizeActor (rvg_revokedBy input) ''revokedBy'') (\<lambda>revokedBy.
     rbind (degraded_normalizeIdentifier (rvg_revocationReason input) ''revocationReason'') (\<lambda>revocationReason.
     let withoutDigest = grant\<lparr> dgr_revokedAt := Some revokedAt, dgr_revokedBy := Some revokedBy,
           dgr_revocationReason := Some revocationReason \<rparr>
     in return (withoutDigest\<lparr> dgr_auditDigest := createGrantDigest h withoutDigest \<rparr>))))"

definition auditHead :: "degraded_store \<Rightarrow> string option" where
  "auditHead file = (if dgs_auditRecords file = [] then None else Some (dar_digest (last (dgs_auditRecords file))))"

definition appendAudit :: "degraded_host \<Rightarrow> audit_input \<Rightarrow> degraded_store \<Rightarrow> degraded_store result" where
  "appendAudit h input file =
     rbind (createAuditRecord h input (auditHead file)) (\<lambda>r.
       return (file\<lparr> dgs_auditRecords := dgs_auditRecords file @ [r] \<rparr>))"

definition registerGrant ::
  "degraded_host \<Rightarrow> degraded_grant \<Rightarrow> degraded_store \<Rightarrow> (degraded_grant \<times> degraded_store) result" where
  "registerGrant h grant file =
     (if list_ex (\<lambda>entry. dgr_id entry = dgr_id grant) (dgs_grants file)
      then throw (degraded_error (''grant already exists: '' @ dgr_id grant))
      else
        rbind (appendAudit h
          \<lparr> aui_action = Grant_created, aui_grant = grant, aui_recordedAt = Iso (dgr_authorizedAt grant),
            aui_actor = Some (dgr_authorizedBy grant), aui_failureReasons = dgr_allowedFailureReasons grant,
            aui_outcome = None, aui_remainingUses = dgr_remainingUses grant,
            aui_metadata = [(''auditDigest'', JString (dgr_auditDigest grant))] \<rparr>
          (file\<lparr> dgs_grants := dgs_grants file @ [grant] \<rparr>)) (\<lambda>file'. return (grant, file')))"

definition findGrant :: "string \<Rightarrow> degraded_store \<Rightarrow> degraded_grant option result" where
  "findGrant key file =
     (if dgs_grants file = [] then return None
      else rbind (degraded_normalizeIdentifier key ''id'') (\<lambda>k. return (find_by dgr_id k (dgs_grants file))))"

definition listGrants ::
  "degraded_host \<Rightarrow> list_grants_options \<Rightarrow> degraded_store \<Rightarrow> degraded_grant list result" where
  "listGrants h options file =
     rbind (case lgo_checkedAt options of None \<Rightarrow> rbind (toISO (dgh_now h)) (\<lambda>t. return (Iso t)) | Some d \<Rightarrow> return d) (\<lambda>checkedAt.
     rbind (case lgo_scope options of
              None \<Rightarrow> return None
            | Some s \<Rightarrow> rbind (degraded_normalizeScope (Some s)) (\<lambda>n. return (Some n))) (\<lambda>scope.
     rbind (rmap_list (\<lambda>grant.
         rbind (case lgo_status options of
                  None \<Rightarrow> return True
                | Some st \<Rightarrow> rbind (degradedModeGrantStatus grant checkedAt) (\<lambda>s. return (s = st))) (\<lambda>keep.
         return (grant, keep \<and> (scope = None \<or> degradedModeScopeMatches (dgr_scope grant) scope))))
       (dgs_grants file)) (\<lambda>marked.
     return (map fst (filter snd marked)))))"

text \<open>The entry at the index that was found is replaced; nothing else has its identifier.\<close>

definition put_grant :: "degraded_grant \<Rightarrow> degraded_store \<Rightarrow> degraded_store" where
  "put_grant grant file = file\<lparr> dgs_grants := upsert_by dgr_id grant (dgs_grants file) \<rparr>"

definition revokeGrant ::
  "degraded_host \<Rightarrow> revoke_grant_input \<Rightarrow> degraded_store \<Rightarrow> (degraded_grant option \<times> degraded_store) result" where
  "revokeGrant h input file =
     rbind (degraded_normalizeIdentifier (rvg_id input) ''id'') (\<lambda>key.
     case find_by dgr_id key (dgs_grants file) of
       None \<Rightarrow> return (None, file)
     | Some grant \<Rightarrow>
         rbind (replaceGrantRevocation h grant input) (\<lambda>revoked.
         rbind (appendAudit h
           \<lparr> aui_action = Grant_revoked, aui_grant = revoked,
             aui_recordedAt = (case dgr_revokedAt revoked of Some t \<Rightarrow> Iso t | None \<Rightarrow> rvg_revokedAt input),
             aui_actor = dgr_revokedBy revoked, aui_failureReasons = [], aui_outcome = None,
             aui_remainingUses = dgr_remainingUses revoked,
             aui_metadata = [(''revocationReason'', json_str_opt (dgr_revocationReason revoked))] \<rparr>
           (put_grant revoked file)) (\<lambda>file'. return (Some revoked, file'))))"

definition consumeGrant ::
  "degraded_host \<Rightarrow> consume_grant_input \<Rightarrow> degraded_store \<Rightarrow> (degraded_grant option \<times> degraded_store) result" where
  "consumeGrant h input file =
     rbind (degraded_normalizeIdentifier (cgi_id input) ''id'') (\<lambda>key.
     case find_by dgr_id key (dgs_grants file) of
       None \<Rightarrow> return (None, file)
     | Some grant \<Rightarrow>
         rbind (degradedModeGrantStatus grant (cgi_checkedAt input)) (\<lambda>status.
         if status \<noteq> Gst_active then return (None, file)
         else
           let consumed = replaceGrantUseBudget h grant (dgr_remainingUses grant - 1) in
           rbind (appendAudit h
             \<lparr> aui_action = Grant_used, aui_grant = consumed, aui_recordedAt = cgi_checkedAt input,
               aui_actor = cgi_actor input, aui_failureReasons = cgi_failureReasons input,
               aui_outcome = cgi_outcome input, aui_remainingUses = dgr_remainingUses consumed,
               aui_metadata = cgi_metadata input \<rparr>
             (put_grant consumed file)) (\<lambda>file'. return (Some consumed, file'))))"

definition listAuditRecords :: "degraded_store \<Rightarrow> degraded_audit_record list" where
  "listAuditRecords file = dgs_auditRecords file"

end
