(* ===== verification/Degraded_Control.thy ===== *)
theory Degraded_Control
  imports Degraded_Mode
begin

text \<open>
  What emergency operation guarantees (src/release-enforcement-plane/degraded-mode-*.ts).

  The first part is about one evaluation: which grants admit which failed verifications. The
  second part is about the store: \<open>degraded_run\<close> is the reachability relation of creating,
  revoking and consuming grants. Replaying the audit records gives the remaining uses and the
  revocation of every grant, so the hash-linked list is a complete account of the store, and its
  head commits to it.
\<close>

section \<open>Evaluation\<close>

lemma degraded_normalizeIsoTimestamp_eq_Inr [simp]:
  "degraded_normalizeIsoTimestamp d f = Inr t \<longleftrightarrow> d = Iso t"
  by (cases d) (auto simp: degraded_normalizeIsoTimestamp_def)

lemma first_occurrences_set [simp]:
  "set (first_occurrences xs) = set xs" "first_occurrences xs = [] \<longleftrightarrow> xs = []"
  by (simp_all add: first_occurrences_def)

lemma failures_normalized [simp]:
  "degraded_normalizeFailureReasons (Some rs) f True = Inr (first_occurrences rs)"
  by (simp add: degraded_normalizeFailureReasons_def Let_def)

lemma status_active_iff:
  "degradedModeGrantStatus g d = Inr Gst_active \<longleftrightarrow>
     dgr_revokedAt g = None \<and> 0 < dgr_remainingUses g \<and>
     (\<exists>t. d = Iso t \<and> dgr_startsAt g \<le> t \<and> t < dgr_expiresAt g)"
  by (cases d) (auto simp: degradedModeGrantStatus_def degraded_normalizeIsoTimestamp_def)

text \<open>The conditions under which an active grant that covers the failures is honoured.\<close>

definition posture_admits :: "verification_profile option \<Rightarrow> degraded_grant \<Rightarrow> bool" where
  "posture_admits profile g \<longleftrightarrow>
     (case profile of
        None \<Rightarrow> True
      | Some p \<Rightarrow> vpr_overridePosture p \<noteq> Override_not_allowed \<and>
          (vpr_overridePosture p = Dual_break_glass \<longrightarrow> 2 \<le> card (distinctApproverIdentities g)))"

definition cache_admits :: "verification_profile option \<Rightarrow> enforcement_verification_result \<Rightarrow> bool" where
  "cache_admits profile v \<longleftrightarrow>
     (case profile of None \<Rightarrow> True | Some p \<Rightarrow> \<not> vcb_requireFreshOnlineCheck (vpr_cacheBudget p)) \<and>
     vro_status v \<noteq> Vs_invalid \<and> (vro_cacheState v = Cache_fresh \<or> vro_cacheState v = Cache_stale_allowed)"

lemma decide_allowed:
  assumes "dei_verification i = Some v" "ddn_outcome (decide_with_grant t i fs g st p) \<noteq> Out_deny"
  shows "ddn_failureReasons (decide_with_grant t i fs g st p) = fs"
    "dgr_state g = Grant_cache_only \<and> cache_admits p v \<and>
       ddn_outcome (decide_with_grant t i fs g st p) = Out_allow \<or>
     dgr_state g = Grant_break_glass_open \<and> posture_admits p g \<and>
       ddn_outcome (decide_with_grant t i fs g st p) = Out_break_glass_allow"
proof -
  have "ddn_failureReasons (decide_with_grant t i fs g st p) = fs \<and>
    (dgr_state g = Grant_cache_only \<and> cache_admits p v \<and>
       ddn_outcome (decide_with_grant t i fs g st p) = Out_allow \<or>
     dgr_state g = Grant_break_glass_open \<and> posture_admits p g \<and>
       ddn_outcome (decide_with_grant t i fs g st p) = Out_break_glass_allow)"
    using assms unfolding decide_with_grant_def
    by (cases p; cases "dgr_state g")
      (auto simp: Let_def failClosedDecision_def cacheStateAllowsDegradedMode_def cache_admits_def
        posture_admits_def CACHE_ONLY_ACCEPTED_CACHE_STATES_def split: if_split_asm)
  then show "ddn_failureReasons (decide_with_grant t i fs g st p) = fs"
    "dgr_state g = Grant_cache_only \<and> cache_admits p v \<and>
       ddn_outcome (decide_with_grant t i fs g st p) = Out_allow \<or>
     dgr_state g = Grant_break_glass_open \<and> posture_admits p g \<and>
       ddn_outcome (decide_with_grant t i fs g st p) = Out_break_glass_allow"
    by blast+
qed

text \<open>The scope the evaluation compares a grant with.\<close>

definition evaluated_scope :: "degraded_evaluation_input \<Rightarrow> degraded_scope option" where
  "evaluated_scope i = nullish_opt (dei_scope i) (map_option degradedModeScopeFromRequest (dei_request i))"

lemma request_has_profile:
  "resolveDegradedModeProfile p (Some r) s = Inr q \<Longrightarrow> q \<noteq> None"
  by (cases p) (auto simp: resolveDegradedModeProfile_def split: if_split_asm)

text \<open>
  C24: Emergency operation opens only what a grant covers. An evaluation that does not deny has
  either a valid verification and no failure, or a grant that is not revoked, has uses left, is
  within its time, covers the evaluated scope and allows every failure reported: every failure
  given explicitly, or else found by the verification; only where none is reported for a
  verification that is not valid does the missing fresh check stand for them. A grant for cached
  operation is honoured only for a verification that is not invalid, with a usable cache and a
  profile that does not demand a fresh check; breaking the glass only where the profile permits
  it, and where it demands two persons, with two distinct approvers other than the authorizer.
  For a request there always is such a profile.
\<close>

theorem degraded_allow_sound:
  assumes "evaluateDegradedMode i = Inr d" "ddn_outcome d \<noteq> Out_deny"
  shows "\<exists>v t. dei_verification i = Some v \<and> dei_checkedAt i = Iso t \<and>
    (ddn_outcome d = Out_allow \<and> vro_status v = Vs_valid \<and>
       nullish (dei_failureReasons i) (vro_failureReasons v) = [] \<or>
     (\<exists>g scope profile. dei_grant i = Some g \<and> dgr_revokedAt g = None \<and> 0 < dgr_remainingUses g \<and>
        dgr_startsAt g \<le> t \<and> t < dgr_expiresAt g \<and>
        degraded_normalizeScope (evaluated_scope i) = Inr scope \<and>
        degradedModeScopeMatches (dgr_scope g) (Some scope) \<and>
        (let reported = nullish (dei_failureReasons i) (vro_failureReasons v) in
         set (ddn_failureReasons d) = (if reported = [] then {Fr_fresh_introspection_required} else set reported) \<and>
         set (ddn_failureReasons d) \<subseteq> set (dgr_allowedFailureReasons g) \<and>
         (reported = [] \<longrightarrow> vro_status v \<noteq> Vs_valid)) \<and>
        resolveDegradedModeProfile (dei_profile i) (dei_request i) scope = Inr profile \<and>
        (dei_request i \<noteq> None \<longrightarrow> profile \<noteq> None) \<and>
        (dgr_state g = Grant_cache_only \<and> cache_admits profile v \<and> ddn_outcome d = Out_allow \<or>
         dgr_state g = Grant_break_glass_open \<and> posture_admits profile g \<and>
           ddn_outcome d = Out_break_glass_allow)))"
proof -
  note eval = assms(1) [unfolded evaluateDegradedMode_def]
  obtain t where t: "dei_checkedAt i = Iso t" using eval by auto
  obtain v where v: "dei_verification i = Some v"
    using eval assms(2) by (auto simp: failClosedDecision_def split: option.split_asm)
  define fs where "fs = first_occurrences (effective_failures i v)"
  have rest: "evaluate_failures t i v fs = Inr d" using eval t v by (simp add: fs_def)
  note rest = rest [unfolded evaluate_failures_def, folded evaluated_scope_def]
  show ?thesis
  proof (cases "length fs = 0 \<and> vro_status v = Vs_valid")
    case True
    then have "nullish (dei_failureReasons i) (vro_failureReasons v) = []"
      by (auto simp: fs_def effective_failures_def Let_def split: if_split_asm)
    moreover have "d = emptyDecision t" using rest True by simp
    then have "ddn_outcome d = Out_allow" by (simp add: emptyDecision_def)
    ultimately show ?thesis using True t v by simp
  next
    case False
    obtain g where g: "dei_grant i = Some g"
      using rest False assms(2) by (auto simp: failClosedDecision_def split: option.split_asm)
    obtain st scope p where p: "degradedModeGrantStatus g (Iso t) = Inr st"
      "degraded_normalizeScope (evaluated_scope i) = Inr scope"
      "resolveDegradedModeProfile (dei_profile i) (dei_request i) scope = Inr p"
      "(if st \<noteq> Gst_active \<or> \<not> degradedModeScopeMatches (dgr_scope g) (Some scope) \<or>
           \<not> allFailuresAllowed fs (dgr_allowedFailureReasons g)
        then failClosedDecision t Dds_fail_closed fs (Some g) (Some st)
        else decide_with_grant t i fs g st p) = d"
      using rest False g by (auto split: if_split_asm)
    then have ok: "st = Gst_active" "degradedModeScopeMatches (dgr_scope g) (Some scope)"
        "allFailuresAllowed fs (dgr_allowedFailureReasons g)" "d = decide_with_grant t i fs g st p"
      using assms(2) by (auto simp: failClosedDecision_def split: if_split_asm)
    have active: "dgr_revokedAt g = None" "0 < dgr_remainingUses g" "dgr_startsAt g \<le> t" "t < dgr_expiresAt g"
      using p(1) unfolding ok(1) status_active_iff by auto
    note dec = decide_allowed [OF v, of t fs g st p, folded ok(4), OF assms(2)]
    have "let reported = nullish (dei_failureReasons i) (vro_failureReasons v) in
         set fs = (if reported = [] then {Fr_fresh_introspection_required} else set reported) \<and>
         set fs \<subseteq> set (dgr_allowedFailureReasons g) \<and> (reported = [] \<longrightarrow> vro_status v \<noteq> Vs_valid)"
      using ok(3) False
      by (auto simp: allFailuresAllowed_def list_all_iff Let_def fs_def effective_failures_def split: if_split_asm)
    moreover have "dei_request i \<noteq> None \<longrightarrow> p \<noteq> None"
      using p(3) request_has_profile by auto
    ultimately show ?thesis using t v g active p(2,3) ok(2) dec by blast
  qed
qed

section \<open>Reachable stores\<close>

interpretation grants: keyed_store dgs_grants dgr_id "\<lambda>s k. find_by dgr_id k (dgs_grants s)" "\<lambda>s g. put_grant g s"
  by unfold_locales (simp_all add: put_grant_def)

text \<open>A grant is created and registered by one request of an administrator.\<close>

datatype degraded_op =
    Create_grant degraded_grant_input
  | Revoke_grant revoke_grant_input
  | Consume_grant consume_grant_input

fun degraded_step ::
  "degraded_host \<Rightarrow> degraded_op \<Rightarrow> degraded_store \<Rightarrow> (degraded_grant option \<times> degraded_store) result" where
  "degraded_step h (Create_grant i) s =
     rbind (createDegradedModeGrant h i) (\<lambda>g. rbind (registerGrant h g s) (\<lambda>(g', s'). return (Some g', s')))"
| "degraded_step h (Revoke_grant i) s = revokeGrant h i s"
| "degraded_step h (Consume_grant i) s = consumeGrant h i s"

inductive degraded_run :: "(string \<Rightarrow> string) \<Rightarrow> degraded_store \<Rightarrow> degraded_store \<Rightarrow> bool"
  for sha :: "string \<Rightarrow> string" and s :: degraded_store where
  degraded_refl: "degraded_run sha s s"
| degraded_more: "degraded_run sha s t \<Longrightarrow> dgh_sha256 h = sha \<Longrightarrow> degraded_step h op t = Inr (r, u) \<Longrightarrow>
    degraded_run sha s u"

abbreviation reached :: "(string \<Rightarrow> string) \<Rightarrow> degraded_store \<Rightarrow> bool" where
  "reached sha s \<equiv> degraded_run sha defaultDegradedModeGrantStoreFile s"

lemma created_audit:
  assumes "createAuditRecord h i p = Inr r"
  shows "dar_action r = aui_action i" "dar_grantId r = dgr_id (aui_grant i)"
    "aui_recordedAt i = Iso (dar_recordedAt r)" "dar_remainingUses r = aui_remainingUses i"
    "dar_previousDigest r = p" "dar_digest r = sha256Digest h (audit_json r)" "dar_metadata r = aui_metadata i"
  using assms by (auto simp: createAuditRecord_def Let_def audit_json_def)

lemma appended_audit:
  assumes "appendAudit h i s = Inr s'"
  obtains r where "createAuditRecord h i (auditHead s) = Inr r"
    "s' = s\<lparr> dgs_auditRecords := dgs_auditRecords s @ [r] \<rparr>"
  using assms by (auto simp: appendAudit_def)

lemma auditHead_frame [simp]:
  "auditHead (dgs_grants_update f s) = auditHead s" "auditHead (put_grant g s) = auditHead s"
  by (simp_all add: auditHead_def put_grant_def)

text \<open>What a step does to the grants and to the audit records.\<close>

inductive grant_event ::
  "(string \<Rightarrow> string) \<Rightarrow> degraded_store \<Rightarrow> degraded_store \<Rightarrow> bool" for sha s where
  event_none: "grant_event sha s s"
| event_created: "find_by dgr_id (dgr_id g) (dgs_grants s) = None \<Longrightarrow> dgr_revokedAt g = None \<Longrightarrow>
    0 < dgr_remainingUses g \<Longrightarrow> dgr_remainingUses g \<le> dgr_maxUses g \<Longrightarrow>
    dar_action r = Grant_created \<Longrightarrow> dar_grantId r = dgr_id g \<Longrightarrow> dar_remainingUses r = dgr_remainingUses g \<Longrightarrow>
    dar_previousDigest r = auditHead s \<Longrightarrow> dar_digest r = ''sha256:'' @ sha (degraded_stableStringify (audit_json r)) \<Longrightarrow>
    grant_event sha s \<lparr> dgs_grants = dgs_grants s @ [g], dgs_auditRecords = dgs_auditRecords s @ [r] \<rparr>"
| event_revoked: "find_by dgr_id (dgr_id g) (dgs_grants s) = Some old \<Longrightarrow>
    g = old\<lparr> dgr_revokedAt := Some t, dgr_revokedBy := b, dgr_revocationReason := w, dgr_auditDigest := e \<rparr> \<Longrightarrow>
    dar_action r = Grant_revoked \<Longrightarrow> dar_grantId r = dgr_id g \<Longrightarrow>
    dar_previousDigest r = auditHead s \<Longrightarrow> dar_digest r = ''sha256:'' @ sha (degraded_stableStringify (audit_json r)) \<Longrightarrow>
    grant_event sha s \<lparr> dgs_grants = upsert_by dgr_id g (dgs_grants s), dgs_auditRecords = dgs_auditRecords s @ [r] \<rparr>"
| event_used: "find_by dgr_id (dgr_id g) (dgs_grants s) = Some old \<Longrightarrow>
    g = old\<lparr> dgr_remainingUses := dgr_remainingUses old - 1, dgr_auditDigest := e \<rparr> \<Longrightarrow>
    degradedModeGrantStatus old (Iso (dar_recordedAt r)) = Inr Gst_active \<Longrightarrow>
    dar_action r = Grant_used \<Longrightarrow> dar_grantId r = dgr_id g \<Longrightarrow>
    dar_previousDigest r = auditHead s \<Longrightarrow> dar_digest r = ''sha256:'' @ sha (degraded_stableStringify (audit_json r)) \<Longrightarrow>
    grant_event sha s \<lparr> dgs_grants = upsert_by dgr_id g (dgs_grants s), dgs_auditRecords = dgs_auditRecords s @ [r] \<rparr>"

lemma positive_integer_pos: "positive_integer x = Some n \<Longrightarrow> 0 < n"
  by (cases x) (auto split: prod.split_asm if_split_asm)

lemma degraded_normalizePositiveInteger_pos: "degraded_normalizePositiveInteger v n f = Inr m \<Longrightarrow> 0 < m"
  by (auto simp: degraded_normalizePositiveInteger_def positive_integer_pos split: option.split_asm)

lemma created_grant:
  assumes "createDegradedModeGrant h i = Inr g"
  shows "dgr_revokedAt g = None" "0 < dgr_remainingUses g" "dgr_remainingUses g \<le> dgr_maxUses g"
    "dgr_scope g \<noteq> empty_scope" "dgr_startsAt g < dgr_expiresAt g"
  using assms
  by (auto simp: createDegradedModeGrant_def Let_def scopeHasNarrowingField_def split: if_split_asm
      dest: degraded_normalizePositiveInteger_pos)

lemma revoked_grant:
  assumes "replaceGrantRevocation h g i = Inr g'"
  shows "\<exists>t b w e. g' = g\<lparr> dgr_revokedAt := Some t, dgr_revokedBy := b, dgr_revocationReason := w,
    dgr_auditDigest := e \<rparr>"
  using assms by (auto simp: replaceGrantRevocation_def Let_def)

lemma step_event:
  assumes "degraded_step h op s = Inr (r, s')"
  shows "grant_event (dgh_sha256 h) s s'"
proof (cases op)
  case (Create_grant i)
  obtain g where g: "createDegradedModeGrant h i = Inr g" and reg: "registerGrant h g s = Inr (g, s')"
    using assms Create_grant by (auto simp: registerGrant_def split: if_split_asm)
  have new: "find_by dgr_id (dgr_id g) (dgs_grants s) = None"
    using reg by (auto simp: registerGrant_def find_by_None list_ex_iff split: if_split_asm)
  have "\<not> list_ex (\<lambda>entry. dgr_id entry = dgr_id g) (dgs_grants s)"
    using new by (auto simp: find_by_None list_ex_iff)
  then obtain a where a: "createAuditRecord h
          \<lparr> aui_action = Grant_created, aui_grant = g, aui_recordedAt = Iso (dgr_authorizedAt g),
            aui_actor = Some (dgr_authorizedBy g), aui_failureReasons = dgr_allowedFailureReasons g,
            aui_outcome = None, aui_remainingUses = dgr_remainingUses g,
            aui_metadata = [(''auditDigest'', JString (dgr_auditDigest g))] \<rparr> (auditHead s) = Inr a"
      and s': "s' = s\<lparr> dgs_grants := dgs_grants s @ [g], dgs_auditRecords := dgs_auditRecords s @ [a] \<rparr>"
    using reg by (auto simp: registerGrant_def elim!: appended_audit)
  note f = created_audit [OF a]
  have "s' = \<lparr> dgs_grants = dgs_grants s @ [g], dgs_auditRecords = dgs_auditRecords s @ [a] \<rparr>"
    using s' by simp
  with event_created [OF new created_grant(1-3) [OF g], of a] f show ?thesis
    by (simp add: sha256Digest_def)
next
  case (Revoke_grant i)
  with assms have rev: "revokeGrant h i s = Inr (r, s')" by simp
  then obtain k where k: "degraded_normalizeIdentifier (rvg_id i) ''id'' = Inr k" by (auto simp: revokeGrant_def)
  show ?thesis
  proof (cases "find_by dgr_id k (dgs_grants s)")
    case None
    with rev k have "s' = s" by (simp add: revokeGrant_def)
    then show ?thesis by (simp add: event_none)
  next
    case (Some old)
    with rev k obtain g where g: "replaceGrantRevocation h old i = Inr g" and
      app: "appendAudit h
           \<lparr> aui_action = Grant_revoked, aui_grant = g,
             aui_recordedAt = (case dgr_revokedAt g of Some t \<Rightarrow> Iso t | None \<Rightarrow> rvg_revokedAt i),
             aui_actor = dgr_revokedBy g, aui_failureReasons = [], aui_outcome = None,
             aui_remainingUses = dgr_remainingUses g,
             aui_metadata = [(''revocationReason'', json_str_opt (dgr_revocationReason g))] \<rparr>
           (put_grant g s) = Inr s'"
      by (auto simp: revokeGrant_def)
    obtain t b w e where g': "g = old\<lparr> dgr_revokedAt := Some t, dgr_revokedBy := b,
        dgr_revocationReason := w, dgr_auditDigest := e \<rparr>"
      using revoked_grant [OF g] by blast
    then have found: "find_by dgr_id (dgr_id g) (dgs_grants s) = Some old"
      using Some find_by_SomeD [OF Some] by simp
    from app obtain a where a: "createAuditRecord h \<lparr> aui_action = Grant_revoked, aui_grant = g,
             aui_recordedAt = (case dgr_revokedAt g of Some t \<Rightarrow> Iso t | None \<Rightarrow> rvg_revokedAt i),
             aui_actor = dgr_revokedBy g, aui_failureReasons = [], aui_outcome = None,
             aui_remainingUses = dgr_remainingUses g,
             aui_metadata = [(''revocationReason'', json_str_opt (dgr_revocationReason g))] \<rparr> (auditHead s) = Inr a"
      and s': "s' = (put_grant g s)\<lparr> dgs_auditRecords := dgs_auditRecords s @ [a] \<rparr>"
      by (auto simp: put_grant_def elim!: appended_audit)
    have "s' = \<lparr> dgs_grants = upsert_by dgr_id g (dgs_grants s), dgs_auditRecords = dgs_auditRecords s @ [a] \<rparr>"
      using s' by (simp add: put_grant_def)
    with event_revoked [OF found g', of a] created_audit [OF a] show ?thesis
      by (simp add: sha256Digest_def)
  qed
next
  case (Consume_grant i)
  with assms have con: "consumeGrant h i s = Inr (r, s')" by simp
  then obtain k where k: "degraded_normalizeIdentifier (cgi_id i) ''id'' = Inr k" by (auto simp: consumeGrant_def)
  show ?thesis
  proof (cases "find_by dgr_id k (dgs_grants s)")
    case None
    with con k have "s' = s" by (simp add: consumeGrant_def)
    then show ?thesis by (simp add: event_none)
  next
    case (Some old)
    obtain st where st: "degradedModeGrantStatus old (cgi_checkedAt i) = Inr st"
      using con k Some by (auto simp: consumeGrant_def)
    show ?thesis
    proof (cases "st = Gst_active")
      case False
      with con k Some st have "s' = s" by (simp add: consumeGrant_def)
      then show ?thesis by (simp add: event_none)
    next
      case True
      let ?g = "replaceGrantUseBudget h old (dgr_remainingUses old - 1)"
      obtain t where t: "cgi_checkedAt i = Iso t" using st True status_active_iff by blast
      have app: "appendAudit h
             \<lparr> aui_action = Grant_used, aui_grant = ?g, aui_recordedAt = cgi_checkedAt i,
               aui_actor = cgi_actor i, aui_failureReasons = cgi_failureReasons i,
               aui_outcome = cgi_outcome i, aui_remainingUses = dgr_remainingUses ?g,
               aui_metadata = cgi_metadata i \<rparr> (put_grant ?g s) = Inr s'"
        using con k Some st True by (auto simp: consumeGrant_def Let_def)
      have g': "?g = old\<lparr> dgr_remainingUses := dgr_remainingUses old - 1, dgr_auditDigest := dgr_auditDigest ?g \<rparr>"
        by (simp add: replaceGrantUseBudget_def Let_def)
      then have found: "find_by dgr_id (dgr_id ?g) (dgs_grants s) = Some old"
        using Some find_by_SomeD [OF Some] by (simp add: replaceGrantUseBudget_def Let_def)
      from app obtain a where a: "createAuditRecord h \<lparr> aui_action = Grant_used, aui_grant = ?g,
               aui_recordedAt = cgi_checkedAt i, aui_actor = cgi_actor i,
               aui_failureReasons = cgi_failureReasons i, aui_outcome = cgi_outcome i,
               aui_remainingUses = dgr_remainingUses ?g, aui_metadata = cgi_metadata i \<rparr> (auditHead s) = Inr a"
        and s': "s' = (put_grant ?g s)\<lparr> dgs_auditRecords := dgs_auditRecords s @ [a] \<rparr>"
        by (auto simp: put_grant_def elim!: appended_audit)
      note f = created_audit [OF a]
      have "degradedModeGrantStatus old (Iso (dar_recordedAt a)) = Inr Gst_active"
        using st True f(3) by simp
      moreover have "s' = \<lparr> dgs_grants = upsert_by dgr_id ?g (dgs_grants s), dgs_auditRecords = dgs_auditRecords s @ [a] \<rparr>"
        using s' by (simp add: put_grant_def)
      ultimately show ?thesis
        using event_used [OF found g', of a] f by (simp add: sha256Digest_def)
    qed
  qed
qed

text \<open>An invariant of the events holds in every store that is reached.\<close>

lemma run_induct:
  assumes "degraded_run sha s t" "P s" "\<And>u v. P u \<Longrightarrow> grant_event sha u v \<Longrightarrow> P v"
  shows "P t"
  using assms(1)
proof (induction rule: degraded_run.induct)
  case degraded_refl
  show ?case by (fact assms(2))
next
  case (degraded_more t h op r u)
  with step_event [OF degraded_more.hyps(3)] assms(3) show ?case by blast
qed

section \<open>The audit records account for the store\<close>

text \<open>Remaining uses and revocation of a grant, as the audit records tell.\<close>

definition replay_step :: "string \<Rightarrow> (int \<times> bool) option \<Rightarrow> degraded_audit_record \<Rightarrow> (int \<times> bool) option" where
  "replay_step k st r =
     (if dar_grantId r \<noteq> k then st
      else case dar_action r of
        Grant_created \<Rightarrow> Some (dar_remainingUses r, False)
      | Grant_used \<Rightarrow> map_option (\<lambda>(n, b). (n - 1, b)) st
      | Grant_revoked \<Rightarrow> map_option (\<lambda>(n, b). (n, True)) st
      | Grant_denied \<Rightarrow> st)"

definition replay :: "string \<Rightarrow> degraded_audit_record list \<Rightarrow> (int \<times> bool) option" where
  "replay k rs = foldl (replay_step k) None rs"

definition grant_view :: "degraded_store \<Rightarrow> string \<Rightarrow> (int \<times> bool) option" where
  "grant_view s k =
     map_option (\<lambda>g. (dgr_remainingUses g, dgr_revokedAt g \<noteq> None)) (find_by dgr_id k (dgs_grants s))"

lemma replay_snoc [simp]: "replay k (rs @ [r]) = replay_step k (replay k rs) r"
  by (simp add: replay_def)

lemma event_accounts:
  assumes "\<forall>k. replay k (dgs_auditRecords s) = grant_view s k" "grant_event sha s t"
  shows "\<forall>k. replay k (dgs_auditRecords t) = grant_view t k"
  using assms(2)
proof cases
  case event_none
  with assms(1) show ?thesis by simp
next
  case (event_created g r)
  then show ?thesis using assms(1)
    by (auto simp: grant_view_def replay_step_def find_by_append split: option.split)
next
  case (event_revoked g old x b w e r)
  then show ?thesis using assms(1) by (auto simp: grant_view_def replay_step_def find_by_upsert)
next
  case (event_used g old e r)
  then show ?thesis using assms(1) by (auto simp: grant_view_def replay_step_def find_by_upsert)
qed

lemma reached_accounts:
  assumes "reached sha s"
  shows "replay k (dgs_auditRecords s) = grant_view s k"
proof -
  have "\<forall>k. replay k (dgs_auditRecords s) = grant_view s k"
  proof (rule run_induct [OF assms])
    show "\<forall>k. replay k (dgs_auditRecords defaultDegradedModeGrantStoreFile) =
        grant_view defaultDegradedModeGrantStoreFile k"
      by (simp add: defaultDegradedModeGrantStoreFile_def replay_def grant_view_def find_by_None)
  qed (rule event_accounts)
  then show ?thesis ..
qed

section \<open>Uses of a grant\<close>

definition uses_of :: "string \<Rightarrow> degraded_store \<Rightarrow> degraded_audit_record list" where
  "uses_of k s = filter (\<lambda>r. dar_action r = Grant_used \<and> dar_grantId r = k) (dgs_auditRecords s)"

definition uses_ok :: "string \<Rightarrow> degraded_store \<Rightarrow> bool" where
  "uses_ok k s \<longleftrightarrow>
     (case find_by dgr_id k (dgs_grants s) of
        None \<Rightarrow> uses_of k s = []
      | Some g \<Rightarrow>
          0 \<le> dgr_remainingUses g \<and> int (length (uses_of k s)) + dgr_remainingUses g \<le> dgr_maxUses g \<and>
          (\<forall>r\<in>set (uses_of k s). dgr_startsAt g \<le> dar_recordedAt r \<and> dar_recordedAt r < dgr_expiresAt g))"

lemma uses_of_snoc:
  "uses_of k \<lparr> dgs_grants = gs, dgs_auditRecords = dgs_auditRecords s @ [r] \<rparr> =
     (if dar_action r = Grant_used \<and> dar_grantId r = k then uses_of k s @ [r] else uses_of k s)"
  by (simp add: uses_of_def)

lemma event_uses_ok: "uses_ok k s \<Longrightarrow> grant_event sha s t \<Longrightarrow> uses_ok k t"
proof (erule grant_event.cases, goal_cases)
  case 1
  then show ?case by simp
next
  case (2 g r)
  then show ?case by (auto simp: uses_ok_def uses_of_snoc find_by_append split: option.splits)
next
  case (3 g old x b w e r)
  then show ?case by (auto simp: uses_ok_def uses_of_snoc find_by_upsert split: option.splits)
next
  case (4 g old e r)
  then show ?case by (auto simp: uses_ok_def uses_of_snoc find_by_upsert status_active_iff split: option.splits)
qed

lemma reached_uses_ok:
  assumes "reached sha s"
  shows "uses_ok k s"
proof (rule run_induct [OF assms])
  show "uses_ok k defaultDegradedModeGrantStoreFile"
    by (simp add: defaultDegradedModeGrantStoreFile_def uses_ok_def uses_of_def find_by_None)
qed (rule event_uses_ok)

lemma revoked_stays:
  assumes "degraded_run sha s t" "find_by dgr_id k (dgs_grants s) = Some g" "dgr_revokedAt g \<noteq> None"
  shows "\<exists>g'. find_by dgr_id k (dgs_grants t) = Some g' \<and> dgr_revokedAt g' \<noteq> None \<and> uses_of k t = uses_of k s"
proof (rule run_induct [OF assms(1)])
  show "\<exists>g'. find_by dgr_id k (dgs_grants s) = Some g' \<and> dgr_revokedAt g' \<noteq> None \<and> uses_of k s = uses_of k s"
    using assms(2,3) by blast
next
  fix u v
  assume ih: "\<exists>g'. find_by dgr_id k (dgs_grants u) = Some g' \<and> dgr_revokedAt g' \<noteq> None \<and> uses_of k u = uses_of k s"
    and step: "grant_event sha u v"
  from step show "\<exists>g'. find_by dgr_id k (dgs_grants v) = Some g' \<and> dgr_revokedAt g' \<noteq> None \<and> uses_of k v = uses_of k s"
  proof cases
    case event_none
    with ih show ?thesis by simp
  next
    case (event_created g r)
    with ih show ?thesis by (auto simp: find_by_append uses_of_snoc)
  next
    case (event_revoked g old x b w e r)
    with ih show ?thesis by (auto simp: find_by_upsert uses_of_snoc)
  next
    case (event_used g old e r)
    with ih show ?thesis by (auto simp: find_by_upsert uses_of_snoc status_active_iff)
  qed
qed

text \<open>
  C25: Grants are used within their limits. In every store that creating, revoking and consuming
  reach, in any order and with any instants, the audit records show at most as many uses of a
  grant as it allows, each of them within the time of the grant, and what remains is what the
  uses left over. Once a grant is revoked, no later operation uses it again.
\<close>

theorem grant_uses_bounded:
  assumes "reached sha s" "find_by dgr_id k (dgs_grants s) = Some g"
  shows "0 \<le> dgr_remainingUses g \<and> int (length (uses_of k s)) + dgr_remainingUses g \<le> dgr_maxUses g \<and>
    (\<forall>r\<in>set (uses_of k s). dgr_startsAt g \<le> dar_recordedAt r \<and> dar_recordedAt r < dgr_expiresAt g) \<and>
    (dgr_revokedAt g \<noteq> None \<longrightarrow> (\<forall>t. degraded_run sha s t \<longrightarrow>
       uses_of k t = uses_of k s \<and>
       (\<exists>g'. find_by dgr_id k (dgs_grants t) = Some g' \<and> dgr_revokedAt g' \<noteq> None)))"
  using reached_uses_ok [OF assms(1), of k] assms(2) revoked_stays
  by (simp add: uses_ok_def) blast

section \<open>The head of the audit records commits to the store\<close>

fun audit_chain :: "(string \<Rightarrow> string) \<Rightarrow> string option \<Rightarrow> degraded_audit_record list \<Rightarrow> bool" where
  "audit_chain sha p [] \<longleftrightarrow> True"
| "audit_chain sha p (r # rs) \<longleftrightarrow>
     dar_previousDigest r = p \<and> dar_digest r = ''sha256:'' @ sha (degraded_stableStringify (audit_json r)) \<and>
     audit_chain sha (Some (dar_digest r)) rs"

definition chain_head :: "string option \<Rightarrow> degraded_audit_record list \<Rightarrow> string option" where
  "chain_head p rs = (if rs = [] then p else Some (dar_digest (last rs)))"

lemma auditHead_chain: "auditHead s = chain_head None (dgs_auditRecords s)"
  by (simp add: auditHead_def chain_head_def)

lemma audit_chain_snoc:
  "audit_chain sha p (rs @ [r]) \<longleftrightarrow>
     audit_chain sha p rs \<and> dar_previousDigest r = chain_head p rs \<and>
     dar_digest r = ''sha256:'' @ sha (degraded_stableStringify (audit_json r))"
  by (induction rs arbitrary: p) (auto simp: chain_head_def)

lemma event_chain:
  "audit_chain sha None (dgs_auditRecords s) \<Longrightarrow> grant_event sha s t \<Longrightarrow> audit_chain sha None (dgs_auditRecords t)"
  by (erule grant_event.cases) (simp_all add: audit_chain_snoc auditHead_chain)

lemma reached_chain:
  assumes "reached sha s"
  shows "audit_chain sha None (dgs_auditRecords s)"
proof (rule run_induct [OF assms])
  show "audit_chain sha None (dgs_auditRecords defaultDegradedModeGrantStoreFile)"
    by (simp add: defaultDegradedModeGrantStoreFile_def)
qed (rule event_chain)

lemma degraded_stableStringify_canon: "json_clean v \<Longrightarrow> degraded_stableStringify v = JSON_stringify (canon v)"
proof (induction v rule: degraded_stableStringify.induct)
  case (1 vs)
  have "(if v = JUndefined then [] else degraded_stableStringify v) = JSON_stringify (canon v)" if "v \<in> set vs" for v
    using that 1 by (cases "v = JUndefined") (auto simp: list_all_iff)
  then show ?case by (simp add: comp_def cong: map_cong)
next
  case (2 kvs)
  have same: "degraded_stableStringify (snd x) = JSON_stringify (canon (snd x))" "canon (snd x) \<noteq> JUndefined"
    if "x \<in> set kvs" for x
    using that 2 canon_defined by (auto simp: list_all_iff)
  then show ?case
    by (auto simp: filter_map comp_def case_prod_unfold cong: filter_cong
        intro!: arg_cong [of _ _ "join_with '',''"])
qed simp_all

lemma canon_member_eq:
  assumes "canon (JObject xs) = canon (JObject ys)" "distinct (map fst ys)"
    and "(k, v) \<in> set xs" "(k, w) \<in> set ys"
  shows "canon v = canon w"
proof -
  have "(\<lambda>(k, v). (k, canon v)) ` set xs = (\<lambda>(k, v). (k, canon v)) ` set ys"
    using arg_cong [OF assms(1), of "\<lambda>j. case j of JObject kvs \<Rightarrow> set kvs"] by simp
  moreover have "(k, canon v) \<in> (\<lambda>(k, v). (k, canon v)) ` set xs" using assms(3) by force
  ultimately obtain u where "(k, u) \<in> set ys" "canon v = canon u" by auto
  with assms(2,4) show ?thesis by (metis eq_key_imp_eq_value)
qed

lemma audit_action_str_inject [simp]:
  "degraded_audit_action_str a = degraded_audit_action_str b \<longleftrightarrow> a = b"
  by (cases a; cases b) simp_all

lemma canon_str_opt [simp]: "canon (json_str_opt x) = json_str_opt x"
  by (cases x) simp_all

lemma audit_json_agree:
  assumes "canon (audit_json a) = canon (audit_json b)"
  shows "dar_action a = dar_action b" "dar_grantId a = dar_grantId b"
    "dar_remainingUses a = dar_remainingUses b" "dar_previousDigest a = dar_previousDigest b"
proof -
  note eq = canon_member_eq [OF assms [unfolded audit_json_def]]
  have "canon (JString (degraded_audit_action_str (dar_action a))) = canon (JString (degraded_audit_action_str (dar_action b)))"
    by (rule eq [of "''action''"]) simp_all
  then show "dar_action a = dar_action b" by simp
  have "canon (JString (dar_grantId a)) = canon (JString (dar_grantId b))"
    by (rule eq [of "''grantId''"]) simp_all
  then show "dar_grantId a = dar_grantId b" by simp
  have "canon (JNumber (Num (dar_remainingUses a))) = canon (JNumber (Num (dar_remainingUses b)))"
    by (rule eq [of "''remainingUses''"]) simp_all
  then show "dar_remainingUses a = dar_remainingUses b" by simp
  have "canon (json_str_opt (dar_previousDigest a)) = canon (json_str_opt (dar_previousDigest b))"
    by (rule eq [of "''previousDigest''"]) simp_all
  then show "dar_previousDigest a = dar_previousDigest b" by simp
qed

definition audit_texts :: "degraded_audit_record list \<Rightarrow> string set" where
  "audit_texts rs = (\<lambda>r. degraded_stableStringify (audit_json r)) ` set rs"

definition clean_records :: "degraded_audit_record list \<Rightarrow> bool" where
  "clean_records rs \<longleftrightarrow> (\<forall>r\<in>set rs. json_clean (audit_json r))"

lemma chain_commits:
  assumes "audit_chain sha None xs" "audit_chain sha None ys" "chain_head None xs = chain_head None ys"
    and "inj_on sha (audit_texts xs \<union> audit_texts ys)" "clean_records xs" "clean_records ys"
  shows "list_all2 (\<lambda>a b. canon (audit_json a) = canon (audit_json b)) xs ys"
  using assms
proof (induction xs arbitrary: ys rule: rev_induct)
  case Nil
  then show ?case by (simp add: chain_head_def split: if_split_asm)
next
  case (snoc a xs)
  then obtain b zs where ys: "ys = zs @ [b]"
    by (cases ys rule: rev_cases) (auto simp: chain_head_def)
  have a: "audit_chain sha None xs" "dar_previousDigest a = chain_head None xs"
      "dar_digest a = ''sha256:'' @ sha (degraded_stableStringify (audit_json a))"
    using snoc.prems(1) by (simp_all add: audit_chain_snoc)
  have b: "audit_chain sha None zs" "dar_previousDigest b = chain_head None zs"
      "dar_digest b = ''sha256:'' @ sha (degraded_stableStringify (audit_json b))"
    using snoc.prems(2) by (simp_all add: ys audit_chain_snoc)
  have "dar_digest a = dar_digest b" using snoc.prems(3) by (simp add: ys chain_head_def)
  then have "sha (degraded_stableStringify (audit_json a)) = sha (degraded_stableStringify (audit_json b))"
    using a(3) b(3) by simp
  then have "degraded_stableStringify (audit_json a) = degraded_stableStringify (audit_json b)"
    by (rule inj_onD [OF snoc.prems(4)]) (simp_all add: audit_texts_def ys)
  then have same: "canon (audit_json a) = canon (audit_json b)"
    using snoc.prems(5,6) stringify_inject [of "canon (audit_json a)" "canon (audit_json b)"]
    by (simp add: degraded_stableStringify_canon clean_records_def ys)
  have "inj_on sha (audit_texts xs \<union> audit_texts zs)"
    by (rule inj_on_subset [OF snoc.prems(4)]) (auto simp: audit_texts_def ys)
  moreover have "chain_head None xs = chain_head None zs"
    using audit_json_agree(4) [OF same] a(2) b(2) by simp
  ultimately have "list_all2 (\<lambda>a b. canon (audit_json a) = canon (audit_json b)) xs zs"
    using snoc.IH a(1) b(1) snoc.prems(5,6) by (simp add: clean_records_def ys)
  with same show ?case by (simp add: ys list_all2_appendI)
qed

lemma replay_agree:
  "list_all2 (\<lambda>a b. canon (audit_json a) = canon (audit_json b)) xs ys \<Longrightarrow>
   foldl (replay_step k) st xs = foldl (replay_step k) st ys"
proof (induction arbitrary: st rule: list_all2_induct)
  case (Cons a xs b ys)
  then have "replay_step k st a = replay_step k st b"
    by (simp add: replay_step_def audit_json_agree [OF Cons.hyps(1)] split: degraded_audit_action.split)
  with Cons.IH show ?case by simp
qed simp

text \<open>
  C26: The audit records are a complete and committed account of the grants. In every reachable
  store, replaying the audit records gives the remaining uses and the revocation of every grant,
  and two reachable stores with the same audit head have the same records (up to the order of
  members in the metadata) and agree on every grant, absent a digest collision.
\<close>

theorem audit_head_commits:
  assumes "reached sha s" "reached sha t" "auditHead s = auditHead t"
    and "inj_on sha (audit_texts (dgs_auditRecords s) \<union> audit_texts (dgs_auditRecords t))"
    and "clean_records (dgs_auditRecords s)" "clean_records (dgs_auditRecords t)"
  shows "list_all2 (\<lambda>a b. canon (audit_json a) = canon (audit_json b)) (dgs_auditRecords s) (dgs_auditRecords t) \<and>
    grant_view s k = grant_view t k \<and> replay k (dgs_auditRecords s) = grant_view s k"
proof -
  have same: "list_all2 (\<lambda>a b. canon (audit_json a) = canon (audit_json b)) (dgs_auditRecords s) (dgs_auditRecords t)"
    using assms by (intro chain_commits reached_chain) (simp_all add: auditHead_chain)
  have "replay k (dgs_auditRecords s) = replay k (dgs_auditRecords t)"
    unfolding replay_def by (rule replay_agree [OF same])
  with same reached_accounts [OF assms(1)] reached_accounts [OF assms(2)] show ?thesis by simp
qed

section \<open>Examples\<close>

definition sample_degraded_host :: degraded_host where
  "sample_degraded_host = \<lparr> dgh_sha256 = (\<lambda>s. s), dgh_now = 0, dgh_uuid = ''u1'' \<rparr>"

definition sample_person :: "string \<Rightarrow> release_actor" where
  "sample_person k = \<lparr> act_id = k, act_type = User, act_displayName = None, act_role = None \<rparr>"

definition sample_grant_input :: degraded_grant_input where
  "sample_grant_input =
     \<lparr> dgi_id = Some ''g1'', dgi_state = Grant_break_glass_open, dgi_reason = Bg_availability_restore,
       dgi_scope = Some (empty_scope\<lparr> dsc_targetId := Some ''ledger'' \<rparr>),
       dgi_authorizedBy = sample_person ''ann'', dgi_approvedBy = [sample_person ''bob'', sample_person ''cid''],
       dgi_authorizedAt = Some (Iso 0), dgi_startsAt = None, dgi_expiresAt = None, dgi_ttlSeconds = None,
       dgi_maxTtlSeconds = None, dgi_ticketId = ''T1'', dgi_rationale = ''outage'',
       dgi_allowedFailureReasons = None, dgi_maxUses = Some (Num 2), dgi_remainingUses = None \<rparr>"

lemmas sample_degraded_simps =
  sample_grant_input_def sample_degraded_host_def sample_person_def empty_scope_def
  createDegradedModeGrant_def degraded_normalizeScope_def degraded_normalizeOptionalIdentifier_def
  degraded_normalizeIdentifier_def normalizeActor_def degraded_normalizePositiveInteger_def
  scopeHasNarrowingField_def degraded_normalizeFailureReasons_def first_occurrences_def
  DEFAULT_BREAK_GLASS_MAX_TTL_SECONDS_def DEFAULT_DEGRADED_MODE_ALLOWED_FAILURE_REASONS_def
  toISO_def max_time_value_def trim_def js_whitespace_def

lemma sample_created:
  "\<exists>g. createDegradedModeGrant sample_degraded_host sample_grant_input = Inr g \<and> dgr_id g = ''g1'' \<and>
     dgr_revokedAt g = None \<and> dgr_remainingUses g = 2 \<and> dgr_maxUses g = 2 \<and> dgr_startsAt g = 0 \<and>
     dgr_expiresAt g = 1800000 \<and> dgr_authorizedBy g = sample_person ''ann'' \<and>
     dgr_authorizedAt g = 0"
  by (simp add: sample_degraded_simps Let_def)

definition sample_grant_use :: consume_grant_input where
  "sample_grant_use =
     \<lparr> cgi_id = ''g1'', cgi_checkedAt = Iso 1000, cgi_actor = None, cgi_failureReasons = [],
       cgi_outcome = None, cgi_metadata = [] \<rparr>"

lemma sample_registered:
  assumes "dgr_authorizedBy g = sample_person ''ann''" "dgr_authorizedAt g = 0"
  shows "\<exists>r. registerGrant sample_degraded_host g defaultDegradedModeGrantStoreFile =
    Inr (g, \<lparr> dgs_grants = [g], dgs_auditRecords = [r] \<rparr>) \<and>
    dar_action r = Grant_created \<and> dar_grantId r = dgr_id g \<and> clean_records [r]"
  using assms
  by (simp add: registerGrant_def defaultDegradedModeGrantStoreFile_def appendAudit_def auditHead_def
      createAuditRecord_def Let_def sample_degraded_simps clean_records_def audit_json_def
      degraded_scope_json_def degraded_actor_json_def json_instant_def)

lemma sample_consumed:
  assumes "dgr_id g = ''g1''" "degradedModeGrantStatus g (Iso 1000) = Inr Gst_active"
  shows "\<exists>r g'. consumeGrant sample_degraded_host sample_grant_use \<lparr> dgs_grants = [g], dgs_auditRecords = rs \<rparr> =
    Inr (Some g', \<lparr> dgs_grants = [g'], dgs_auditRecords = rs @ [r] \<rparr>) \<and>
    dgr_id g' = ''g1'' \<and> dgr_remainingUses g' = dgr_remainingUses g - 1 \<and> dgr_revokedAt g' = dgr_revokedAt g \<and>
    dar_action r = Grant_used \<and> dar_grantId r = ''g1'' \<and> clean_records [r]"
  using assms
  by (simp add: consumeGrant_def sample_grant_use_def appendAudit_def auditHead_def put_grant_def
      createAuditRecord_def replaceGrantUseBudget_def Let_def sample_degraded_simps clean_records_def audit_json_def
      degraded_scope_json_def degraded_actor_json_def json_instant_def)

lemma sample_reached:
  "\<exists>s g. reached (\<lambda>s. s) s \<and> find_by dgr_id ''g1'' (dgs_grants s) = Some g \<and>
     dgr_remainingUses g = 1 \<and> dgr_revokedAt g = None \<and> length (uses_of ''g1'' s) = 1 \<and> clean_records (dgs_auditRecords s)"
proof -
  obtain g where g: "createDegradedModeGrant sample_degraded_host sample_grant_input = Inr g"
    "dgr_id g = ''g1''" "dgr_revokedAt g = None" "dgr_remainingUses g = 2" "dgr_startsAt g = 0"
    "dgr_expiresAt g = 1800000" "dgr_authorizedBy g = sample_person ''ann''" "dgr_authorizedAt g = 0"
    using sample_created by blast
  obtain r where r: "registerGrant sample_degraded_host g defaultDegradedModeGrantStoreFile =
      Inr (g, \<lparr> dgs_grants = [g], dgs_auditRecords = [r] \<rparr>)"
      "dar_action r = Grant_created" "clean_records [r]"
    using sample_registered [OF g(7,8)] by blast
  have "degradedModeGrantStatus g (Iso 1000) = Inr Gst_active"
    using g by (simp add: status_active_iff)
  then obtain q g' where u: "consumeGrant sample_degraded_host sample_grant_use \<lparr> dgs_grants = [g], dgs_auditRecords = [r] \<rparr> =
      Inr (Some g', \<lparr> dgs_grants = [g'], dgs_auditRecords = [r] @ [q] \<rparr>)"
      "dgr_id g' = ''g1''" "dgr_remainingUses g' = dgr_remainingUses g - 1" "dgr_revokedAt g' = dgr_revokedAt g"
      "dar_action q = Grant_used" "dar_grantId q = ''g1''" "clean_records [q]"
    using sample_consumed [OF g(2)] by blast
  let ?t = "\<lparr> dgs_grants = [g'], dgs_auditRecords = [r] @ [q] \<rparr>"
  have h: "dgh_sha256 sample_degraded_host = (\<lambda>s. s)" by (simp add: sample_degraded_host_def)
  have "reached (\<lambda>s. s) \<lparr> dgs_grants = [g], dgs_auditRecords = [r] \<rparr>"
    by (rule degraded_more [OF degraded_refl h, of "Create_grant sample_grant_input" _ "Some g"]) (simp add: g(1) r(1))
  then have "reached (\<lambda>s. s) ?t"
    by (rule degraded_more [OF _ h, of _ _ "Consume_grant sample_grant_use" "Some g'"]) (simp only: degraded_step.simps u(1))
  moreover have "length (uses_of ''g1'' ?t) = 1" using r(2) u(5,6) by (simp add: uses_of_def)
  moreover have "clean_records [r, q]" using r(3) u(7) by (simp add: clean_records_def)
  ultimately show ?thesis using u(2-4) g(3,4) by (intro exI [of _ ?t] exI [of _ g']) simp
qed

theorem grant_uses_bounded_witness:
  "\<exists>s g. reached (\<lambda>s. s) s \<and> find_by dgr_id ''g1'' (dgs_grants s) = Some g \<and> 2 \<le> dgr_maxUses g"
proof -
  obtain s g where s: "reached (\<lambda>s. s) s" "find_by dgr_id ''g1'' (dgs_grants s) = Some g"
    "dgr_remainingUses g = 1" "length (uses_of ''g1'' s) = 1"
    using sample_reached by blast
  from grant_uses_bounded [OF s(1,2)] s(3,4) have "2 \<le> dgr_maxUses g" by simp
  with s(1,2) show ?thesis by blast
qed

theorem audit_head_commits_witness:
  "\<exists>s. reached (\<lambda>s. s) s \<and> replay ''g1'' (dgs_auditRecords s) = Some (1, False)"
proof -
  obtain s g where s: "reached (\<lambda>s. s) s" "find_by dgr_id ''g1'' (dgs_grants s) = Some g"
    "dgr_remainingUses g = 1" "dgr_revokedAt g = None" "clean_records (dgs_auditRecords s)"
    using sample_reached by blast
  have "replay ''g1'' (dgs_auditRecords s) = grant_view s ''g1''"
    using audit_head_commits [OF s(1) s(1) refl _ s(5) s(5), of "''g1''"] by simp
  with s show ?thesis by (auto simp: grant_view_def)
qed

definition sample_covering_grant :: degraded_grant where
  "sample_covering_grant =
     \<lparr> dgr_version = RELEASE_DEGRADED_MODE_CONTROL_SPEC_VERSION, dgr_id = ''g1'',
       dgr_state = Grant_break_glass_open, dgr_reason = Bg_availability_restore,
       dgr_scope = empty_scope\<lparr> dsc_targetId := Some ''ledger'' \<rparr>,
       dgr_authorizedBy = sample_person ''ann'',
       dgr_approvedBy = [sample_person ''bob'', sample_person ''cid''],
       dgr_authorizedAt = 0, dgr_startsAt = 0, dgr_expiresAt = 1800000, dgr_ticketId = ''T1'',
       dgr_rationale = ''outage'',
       dgr_allowedFailureReasons = DEFAULT_DEGRADED_MODE_ALLOWED_FAILURE_REASONS,
       dgr_maxUses = 2, dgr_remainingUses = 2, dgr_auditDigest = ''d'', dgr_revokedAt = None,
       dgr_revokedBy = None, dgr_revocationReason = None \<rparr>"

definition sample_outage :: degraded_evaluation_input where
  "sample_outage =
     \<lparr> dei_checkedAt = Iso 1000, dei_grant = Some sample_covering_grant,
       dei_request = Some sample_enforcement_request, dei_scope = None,
       dei_verification = Some (sample_result Vs_indeterminate [Fr_introspection_unavailable]),
       dei_failureReasons = None, dei_profile = None \<rparr>"

theorem degraded_allow_sound_witness:
  "\<exists>d. evaluateDegradedMode sample_outage = Inr d \<and> ddn_outcome d = Out_break_glass_allow \<and>
     set (ddn_failureReasons d) = {Fr_introspection_unavailable} \<and>
     set (ddn_failureReasons d) \<subseteq> set (dgr_allowedFailureReasons sample_covering_grant)"
proof -
  have "map_sum (\<lambda>_. ()) ddn_outcome (evaluateDegradedMode sample_outage) = Inr Out_break_glass_allow"
    by code_simp
  then obtain d where d: "evaluateDegradedMode sample_outage = Inr d" "ddn_outcome d = Out_break_glass_allow"
    by (cases "evaluateDegradedMode sample_outage") auto
  have "dei_grant sample_outage = Some sample_covering_grant" "dei_failureReasons sample_outage = None"
    "dei_verification sample_outage = Some (sample_result Vs_indeterminate [Fr_introspection_unavailable])"
    by (simp_all add: sample_outage_def)
  moreover have
    "vro_failureReasons (sample_result Vs_indeterminate [Fr_introspection_unavailable]) = [Fr_introspection_unavailable]"
    by code_simp
  ultimately show ?thesis using degraded_allow_sound [OF d(1)] d by (auto simp: Let_def)
qed

end
