(* ===== verification/Evidence_Packs.thy ===== *)
theory Evidence_Packs
  imports Reviewer_Queue Policy_Bundles
begin

text \<open>
  Evidence packs: src/release-kernel/release-evidence-pack-types.ts, -digest.ts, -dsse.ts,
  -policy-context.ts, -summary.ts, -issuer.ts, -freeze.ts, -verification.ts and -store.ts.

  An evidence pack summarizes a decision, its log entries, its review and its token in a signed
  statement that outlives the token. Whoever receives one verifies it under a key: the signed
  payload is parsed, compared with the statement that came with it, and checked for inner
  consistency. The checks on the parsed payload are on JSON values, as in the code; \<open>JSON.parse\<close>
  is an argument. The policy context of a pack was added later than the other members, so it is
  optional here, as the code that reads it expects.

  The encoding that is signed is the one of Policy_Bundles, whose host functions are extended by
  the parser, the clock and the next random identifier.

  Evidence_Integrity has the lemmas and theorems.
\<close>

section \<open>Types\<close>

definition RELEASE_EVIDENCE_PACK_ISSUANCE_SPEC_VERSION :: string where
  "RELEASE_EVIDENCE_PACK_ISSUANCE_SPEC_VERSION = ''attestor.release-evidence-pack-issuance.v1''"

definition RELEASE_EVIDENCE_PACK_VERIFICATION_KEY_SPEC_VERSION :: string where
  "RELEASE_EVIDENCE_PACK_VERIFICATION_KEY_SPEC_VERSION = ''attestor.release-evidence-pack-verification-key.v1''"

definition RELEASE_EVIDENCE_PACK_VERIFICATION_SPEC_VERSION :: string where
  "RELEASE_EVIDENCE_PACK_VERIFICATION_SPEC_VERSION = ''attestor.release-evidence-pack-verification.v1''"

definition RELEASE_EVIDENCE_PACK_DSSE_PAYLOAD_TYPE :: string where
  "RELEASE_EVIDENCE_PACK_DSSE_PAYLOAD_TYPE = ''application/vnd.in-toto+json''"

definition RELEASE_EVIDENCE_PACK_STATEMENT_TYPE :: string where
  "RELEASE_EVIDENCE_PACK_STATEMENT_TYPE = ''https://in-toto.io/Statement/v1''"

definition RELEASE_EVIDENCE_PACK_PREDICATE_TYPE :: string where
  "RELEASE_EVIDENCE_PACK_PREDICATE_TYPE = ''https://attestor.ai/attestation/release-evidence/v1''"

definition EVIDENCE_PACK_SPEC_VERSION :: string where
  "EVIDENCE_PACK_SPEC_VERSION = ''attestor.evidence-pack.v1''"

datatype evidence_artifact_kind =
    Art_trace | Art_finding_log | Art_review_record | Art_signature | Art_verification_kit
  | Art_provenance | Art_other

fun evidence_artifact_kind_str :: "evidence_artifact_kind \<Rightarrow> string" where
  "evidence_artifact_kind_str Art_trace = ''trace''"
| "evidence_artifact_kind_str Art_finding_log = ''finding-log''"
| "evidence_artifact_kind_str Art_review_record = ''review-record''"
| "evidence_artifact_kind_str Art_signature = ''signature''"
| "evidence_artifact_kind_str Art_verification_kit = ''verification-kit''"
| "evidence_artifact_kind_str Art_provenance = ''provenance''"
| "evidence_artifact_kind_str Art_other = ''other''"

datatype artifact_verification = Av_issuer_derived | Av_declared_unverified

fun artifact_verification_str :: "artifact_verification \<Rightarrow> string" where
  "artifact_verification_str Av_issuer_derived = ''issuer-derived''"
| "artifact_verification_str Av_declared_unverified = ''declared-unverified''"

record evidence_artifact =
  ear_kind :: evidence_artifact_kind
  ear_path :: string
  ear_digest :: "string option"
  ear_verificationStatus :: "artifact_verification option"

text \<open>The version of the policy is a text in the context of a pack, nullable in that of a token.\<close>

record 'v evidence_policy_context =
  epc_policyVersion :: 'v
  epc_policyHash :: string
  epc_policyIrHash :: "string option"
  epc_policyProvenanceSource :: "release_policy_provenance_source option"
  epc_compiledPolicyIndexVersion :: "string option"
  epc_compiledPolicyIrVersion :: "string option"

record evidence_pack =
  epk_version :: string
  epk_id :: string
  epk_outputHash :: string
  epk_consequenceHash :: string
  epk_policyVersion :: string
  epk_policyHash :: string
  epk_policyIrHash :: "string option"
  epk_policyProvenanceSource :: "release_policy_provenance_source option"
  epk_compiledPolicyIndexVersion :: "string option"
  epk_compiledPolicyIrVersion :: "string option"
  epk_policyContext :: "string evidence_policy_context option"
  epk_retentionClass :: evidence_retention_class
  epk_findings :: "release_finding list"
  epk_artifacts :: "evidence_artifact list"

record evidence_override =
  evo_reasonCode :: string
  evo_ticketId :: "string option"
  evo_requestedById :: string
  evo_requestedByLabel :: "string option"
  evo_requestedByRole :: "string option"

record evidence_decision_summary =
  eds_id :: string
  eds_createdAt :: js_date
  eds_status :: release_decision_status
  eds_consequenceType :: consequence_type
  eds_riskClass :: risk_class
  eds_policyVersion :: string
  eds_policyHash :: string
  eds_policyIrHash :: "string option"
  eds_policyProvenanceSource :: "release_policy_provenance_source option"
  eds_compiledPolicyIndexVersion :: "string option"
  eds_compiledPolicyIrVersion :: "string option"
  eds_policyContext :: "string evidence_policy_context option"
  eds_targetId :: string
  eds_targetDisplayName :: "string option"
  eds_requesterId :: string
  eds_requesterType :: release_actor_type
  eds_requesterLabel :: "string option"
  eds_releaseTokenId :: "string option"
  eds_evidencePackId :: string
  eds_override :: "evidence_override option"

record evidence_log_summary =
  els_entryCount :: nat
  els_latestEntryDigest :: "string option"
  els_chainIntact :: bool
  els_phases :: "log_phase list"

record evidence_review_summary =
  ers_reviewId :: string
  ers_status :: queue_status
  ers_authorityState :: authority_state
  ers_approvalsRecorded :: int
  ers_approvalsRemaining :: int
  ers_reviewerDecisionCount :: nat
  ers_overrideReasonCode :: "string option"

record evidence_token_summary =
  ets_tokenId :: string
  ets_audience :: string
  ets_issuedAt :: timestamp
  ets_expiresAt :: timestamp
  ets_override :: bool
  ets_introspectionRequired :: bool
  ets_policyVersion :: "string option"
  ets_policyHash :: string
  ets_policyIrHash :: "string option"
  ets_policyProvenanceSource :: "release_policy_provenance_source option"
  ets_compiledPolicyIndexVersion :: "string option"
  ets_compiledPolicyIrVersion :: "string option"
  ets_policyContext :: "string option evidence_policy_context option"

record evidence_predicate =
  epd_version :: string
  epd_exportedAt :: timestamp
  epd_evidencePack :: evidence_pack
  epd_decision :: evidence_decision_summary
  epd_decisionLog :: evidence_log_summary
  epd_review :: "evidence_review_summary option"
  epd_releaseToken :: "evidence_token_summary option"

record evidence_statement =
  est_type :: string
  est_subject :: "statement_subject list"
  est_predicateType :: string
  est_predicate :: evidence_predicate

datatype evidence_signing_algorithm = Ed25519

record evidence_verification_key =
  evk_version :: string
  evk_issuer :: string
  evk_algorithm :: evidence_signing_algorithm
  evk_keyId :: string
  evk_publicKeyFingerprint :: string
  evk_publicKeyPem :: string

record issued_evidence_pack =
  iep_version :: string
  iep_evidencePack :: evidence_pack
  iep_statement :: evidence_statement
  iep_envelope :: dsse_envelope
  iep_verificationKey :: evidence_verification_key
  iep_bundleDigest :: string
  iep_issuedAt :: timestamp
  iep_keyId :: string
  iep_publicKeyFingerprint :: string

record evidence_issue_input =
  eii_decision :: release_decision
  eii_evidencePackId :: "string option"
  eii_issuedAt :: "js_date option"
  eii_decisionLogEntries :: "log_entry list"
  eii_decisionLogChainIntact :: "bool option"
  eii_review :: "queue_detail option"
  eii_releaseToken :: "issued_release_token option"
  eii_artifactReferences :: "evidence_artifact list"

record evidence_issuer_input =
  eis_issuer :: string
  eis_privateKeyPem :: string
  eis_publicKeyPem :: string
  eis_keyId :: "string option"
  eis_algorithm :: "evidence_signing_algorithm option"

datatype artifact_verification_state =
  Avs_none | Avs_issuer_derived_only | Avs_declared_only | Avs_mixed | Avs_unknown

record artifact_verification_summary =
  avs_artifactCount :: nat
  avs_issuerDerivedCount :: nat
  avs_declaredUnverifiedCount :: nat
  avs_unknownStatusCount :: nat
  avs_externalArtifactVerificationPerformed :: bool
  avs_allExternalArtifactsVerified :: bool
  avs_state :: artifact_verification_state

text \<open>What verification reports of the signed payload are values read from it.\<close>

record evidence_verification_result =
  evv_version :: string
  evv_valid :: bool
  evv_evidencePackId :: string
  evv_decisionId :: json
  evv_decisionStatus :: json
  evv_consequenceType :: json
  evv_riskClass :: json
  evv_outputHash :: string
  evv_consequenceHash :: string
  evv_policyVersion :: string
  evv_policyHash :: string
  evv_policyIrHash :: "string option"
  evv_policyProvenanceSource :: "release_policy_provenance_source option"
  evv_compiledPolicyIndexVersion :: "string option"
  evv_compiledPolicyIrVersion :: "string option"
  evv_policyContext :: "string evidence_policy_context"
  evv_releaseTokenId :: json
  evv_reviewId :: json
  evv_keyId :: string
  evv_predicateType :: json
  evv_subjectCount :: nat
  evv_bundleDigest :: string
  evv_artifactVerificationSummary :: artifact_verification_summary

record evidence_host = signing_host +
  evh_parse :: "string \<Rightarrow> json result"
  evh_now :: int
  evh_uuid :: string

section \<open>JSON of the records\<close>

fun authority_state_str :: "authority_state \<Rightarrow> string" where
  "authority_state_str As_pending = ''pending''"
| "authority_state_str As_approved = ''approved''"
| "authority_state_str As_rejected = ''rejected''"
| "authority_state_str As_overridden = ''overridden''"

fun reviewer_outcome_str :: "reviewer_outcome \<Rightarrow> string" where
  "reviewer_outcome_str Rv_approved = ''approved''"
| "reviewer_outcome_str Rv_rejected = ''rejected''"

text \<open>A member that is left out when it is absent.\<close>

fun optional_member :: "string \<Rightarrow> json option \<Rightarrow> (string \<times> json) list" where
  "optional_member k None = []"
| "optional_member k (Some v) = [(k, v)]"

definition json_source :: "release_policy_provenance_source option \<Rightarrow> json" where
  "json_source s = json_str_opt (map_option prov_source_str s)"

definition json_nat :: "nat \<Rightarrow> json" where
  "json_nat n = JNumber (Num (int n))"

definition context_json :: "('v \<Rightarrow> json) \<Rightarrow> 'v evidence_policy_context \<Rightarrow> json" where
  "context_json f c = JObject
     [(''policyVersion'', f (epc_policyVersion c)),
      (''policyHash'', JString (epc_policyHash c)),
      (''policyIrHash'', json_str_opt (epc_policyIrHash c)),
      (''policyProvenanceSource'', json_source (epc_policyProvenanceSource c)),
      (''compiledPolicyIndexVersion'', json_str_opt (epc_compiledPolicyIndexVersion c)),
      (''compiledPolicyIrVersion'', json_str_opt (epc_compiledPolicyIrVersion c))]"

definition evidence_artifact_json :: "evidence_artifact \<Rightarrow> json" where
  "evidence_artifact_json a = JObject
     ([(''kind'', JString (evidence_artifact_kind_str (ear_kind a))),
       (''path'', JString (ear_path a))] @
      optional_member ''digest'' (map_option JString (ear_digest a)) @
      optional_member ''verificationStatus''
        (map_option (\<lambda>s. JString (artifact_verification_str s)) (ear_verificationStatus a)))"

definition evidence_pack_json :: "evidence_pack \<Rightarrow> json" where
  "evidence_pack_json p = JObject
     ([(''version'', JString (epk_version p)),
       (''id'', JString (epk_id p)),
       (''outputHash'', JString (epk_outputHash p)),
       (''consequenceHash'', JString (epk_consequenceHash p)),
       (''policyVersion'', JString (epk_policyVersion p)),
       (''policyHash'', JString (epk_policyHash p)),
       (''policyIrHash'', json_str_opt (epk_policyIrHash p)),
       (''policyProvenanceSource'', json_source (epk_policyProvenanceSource p)),
       (''compiledPolicyIndexVersion'', json_str_opt (epk_compiledPolicyIndexVersion p)),
       (''compiledPolicyIrVersion'', json_str_opt (epk_compiledPolicyIrVersion p)),
       (''retentionClass'', JString (evidence_retention_class_str (epk_retentionClass p))),
       (''findings'', JArray (map finding_json (epk_findings p))),
       (''artifacts'', JArray (map evidence_artifact_json (epk_artifacts p)))] @
      optional_member ''policyContext'' (map_option (context_json JString) (epk_policyContext p)))"

definition evidence_override_json :: "evidence_override \<Rightarrow> json" where
  "evidence_override_json o' = JObject
     [(''reasonCode'', JString (evo_reasonCode o')),
      (''ticketId'', json_str_opt (evo_ticketId o')),
      (''requestedById'', JString (evo_requestedById o')),
      (''requestedByLabel'', json_str_opt (evo_requestedByLabel o')),
      (''requestedByRole'', json_str_opt (evo_requestedByRole o'))]"

fun json_nullable :: "('a \<Rightarrow> json) \<Rightarrow> 'a option \<Rightarrow> json" where
  "json_nullable f None = JNull"
| "json_nullable f (Some x) = f x"

definition evidence_decision_json :: "evidence_decision_summary \<Rightarrow> json" where
  "evidence_decision_json d = JObject
     ([(''id'', JString (eds_id d)),
       (''createdAt'', JString (date_text (eds_createdAt d))),
       (''status'', JString (release_decision_status_str (eds_status d))),
       (''consequenceType'', JString (consequence_type_str (eds_consequenceType d))),
       (''riskClass'', JString (risk_class_str (eds_riskClass d))),
       (''policyVersion'', JString (eds_policyVersion d)),
       (''policyHash'', JString (eds_policyHash d)),
       (''policyIrHash'', json_str_opt (eds_policyIrHash d)),
       (''policyProvenanceSource'', json_source (eds_policyProvenanceSource d)),
       (''compiledPolicyIndexVersion'', json_str_opt (eds_compiledPolicyIndexVersion d)),
       (''compiledPolicyIrVersion'', json_str_opt (eds_compiledPolicyIrVersion d)),
       (''targetId'', JString (eds_targetId d)),
       (''targetDisplayName'', json_str_opt (eds_targetDisplayName d)),
       (''requesterId'', JString (eds_requesterId d)),
       (''requesterType'', JString (release_actor_type_str (eds_requesterType d))),
       (''requesterLabel'', json_str_opt (eds_requesterLabel d)),
       (''releaseTokenId'', json_str_opt (eds_releaseTokenId d)),
       (''evidencePackId'', JString (eds_evidencePackId d)),
       (''override'', json_nullable evidence_override_json (eds_override d))] @
      optional_member ''policyContext'' (map_option (context_json JString) (eds_policyContext d)))"

definition evidence_log_json :: "evidence_log_summary \<Rightarrow> json" where
  "evidence_log_json l = JObject
     [(''entryCount'', json_nat (els_entryCount l)),
      (''latestEntryDigest'', json_str_opt (els_latestEntryDigest l)),
      (''chainIntact'', JBool (els_chainIntact l)),
      (''phases'', json_strs (map log_phase_str (els_phases l)))]"

definition evidence_review_json :: "evidence_review_summary \<Rightarrow> json" where
  "evidence_review_json r = JObject
     [(''reviewId'', JString (ers_reviewId r)),
      (''status'', JString (queue_status_str (ers_status r))),
      (''authorityState'', JString (authority_state_str (ers_authorityState r))),
      (''approvalsRecorded'', JNumber (Num (ers_approvalsRecorded r))),
      (''approvalsRemaining'', JNumber (Num (ers_approvalsRemaining r))),
      (''reviewerDecisionCount'', json_nat (ers_reviewerDecisionCount r)),
      (''overrideReasonCode'', json_str_opt (ers_overrideReasonCode r))]"

definition evidence_token_json :: "evidence_token_summary \<Rightarrow> json" where
  "evidence_token_json t = JObject
     ([(''tokenId'', JString (ets_tokenId t)),
       (''audience'', JString (ets_audience t)),
       (''issuedAt'', JString (toISOString (ets_issuedAt t))),
       (''expiresAt'', JString (toISOString (ets_expiresAt t))),
       (''override'', JBool (ets_override t)),
       (''introspectionRequired'', JBool (ets_introspectionRequired t)),
       (''policyVersion'', json_str_opt (ets_policyVersion t)),
       (''policyHash'', JString (ets_policyHash t)),
       (''policyIrHash'', json_str_opt (ets_policyIrHash t)),
       (''policyProvenanceSource'', json_source (ets_policyProvenanceSource t)),
       (''compiledPolicyIndexVersion'', json_str_opt (ets_compiledPolicyIndexVersion t)),
       (''compiledPolicyIrVersion'', json_str_opt (ets_compiledPolicyIrVersion t))] @
      optional_member ''policyContext'' (map_option (context_json json_str_opt) (ets_policyContext t)))"

definition evidence_predicate_json :: "evidence_predicate \<Rightarrow> json" where
  "evidence_predicate_json p = JObject
     [(''version'', JString (epd_version p)),
      (''exportedAt'', JString (toISOString (epd_exportedAt p))),
      (''evidencePack'', evidence_pack_json (epd_evidencePack p)),
      (''decision'', evidence_decision_json (epd_decision p)),
      (''decisionLog'', evidence_log_json (epd_decisionLog p)),
      (''review'', json_nullable evidence_review_json (epd_review p)),
      (''releaseToken'', json_nullable evidence_token_json (epd_releaseToken p))]"

definition evidence_statement_json :: "evidence_statement \<Rightarrow> json" where
  "evidence_statement_json s = JObject
     [(''_type'', JString (est_type s)),
      (''subject'', JArray (map subject_json (est_subject s))),
      (''predicateType'', JString (est_predicateType s)),
      (''predicate'', evidence_predicate_json (est_predicate s))]"

definition evidence_envelope_json :: "dsse_envelope \<Rightarrow> json" where
  "evidence_envelope_json e = JObject
     [(''payloadType'', JString (dse_payloadType e)),
      (''payload'', JString (dse_payload e)),
      (''signatures'', JArray (map (\<lambda>s. JObject
         [(''keyid'', JString (dsg_keyid s)), (''sig'', JString (dsg_sig s))]) (dse_signatures e)))]"

definition evidence_key_json :: "evidence_verification_key \<Rightarrow> json" where
  "evidence_key_json k = JObject
     [(''version'', JString (evk_version k)),
      (''issuer'', JString (evk_issuer k)),
      (''algorithm'', JString ''Ed25519''),
      (''keyId'', JString (evk_keyId k)),
      (''publicKeyFingerprint'', JString (evk_publicKeyFingerprint k)),
      (''publicKeyPem'', JString (evk_publicKeyPem k))]"

section \<open>Digests and artifacts\<close>

definition taggedSha256Hex :: "'z signing_host_scheme \<Rightarrow> string \<Rightarrow> string" where
  "taggedSha256Hex h value = ''sha256:'' @ sih_sha256Hex h (sih_toUtf8 h value)"

definition canonicalDigest :: "'z signing_host_scheme \<Rightarrow> json \<Rightarrow> string result" where
  "canonicalDigest h value = rbind (canonicalizeReleaseJson value) (\<lambda>t. return (taggedSha256Hex h t))"

definition canonicalEqual :: "json \<Rightarrow> json \<Rightarrow> bool result" where
  "canonicalEqual left right =
     rbind (canonicalizeReleaseJson left) (\<lambda>l.
     rbind (canonicalizeReleaseJson right) (\<lambda>r. return (l = r)))"

definition lower_hex_digit :: "char \<Rightarrow> bool" where
  "lower_hex_digit c \<longleftrightarrow>
     (let n = of_char c :: nat in 48 \<le> n \<and> n \<le> 57 \<or> 97 \<le> n \<and> n \<le> 102)"

definition strict_sha256_digest :: "string \<Rightarrow> bool" where
  "strict_sha256_digest s \<longleftrightarrow>
     take 7 s = ''sha256:'' \<and> length s = 71 \<and> list_all lower_hex_digit (drop 7 s)"

definition assertStrictSha256ArtifactDigest :: "string option \<Rightarrow> string \<Rightarrow> string result" where
  "assertStrictSha256ArtifactDigest value fieldName =
     (let normalized = trim (nullish value []) in
      if strict_sha256_digest normalized then return normalized
      else throw (Error (fieldName @ '' must use sha256:<64 lowercase hex> syntax.'')))"

definition artifact_label :: "string \<Rightarrow> string" where
  "artifact_label path = ''artifact '' @ [CHR 0x27] @ path @ [CHR 0x27] @ '' digest''"

definition issuerDerivedArtifact ::
  "evidence_artifact_kind \<Rightarrow> string \<Rightarrow> string \<Rightarrow> evidence_artifact result" where
  "issuerDerivedArtifact kind path digest =
     rbind (assertStrictSha256ArtifactDigest (Some digest) (artifact_label path)) (\<lambda>d. return
       \<lparr> ear_kind = kind, ear_path = path, ear_digest = Some d,
         ear_verificationStatus = Some Av_issuer_derived \<rparr>)"

definition declaredUnverifiedArtifact :: "evidence_artifact \<Rightarrow> evidence_artifact result" where
  "declaredUnverifiedArtifact artifact =
     (let path = trim (ear_path artifact) in
      if path = [] then throw (Error ''Declared evidence artifact reference requires a non-empty path.'')
      else rbind (assertStrictSha256ArtifactDigest (ear_digest artifact) (artifact_label path)) (\<lambda>d. return
       \<lparr> ear_kind = ear_kind artifact, ear_path = path, ear_digest = Some d,
         ear_verificationStatus = Some Av_declared_unverified \<rparr>))"

section \<open>Policy contexts\<close>

definition buildDecisionPolicyContext :: "release_decision \<Rightarrow> string evidence_policy_context" where
  "buildDecisionPolicyContext decision =
     (let prov = dec_policyProvenance decision in
      \<lparr> epc_policyVersion = dec_policyVersion decision,
        epc_policyHash = dec_policyHash decision,
        epc_policyIrHash = Option.bind prov prov_compiledPolicyIrHash,
        epc_policyProvenanceSource = map_option prov_source prov,
        epc_compiledPolicyIndexVersion = Option.bind prov prov_compiledPolicyIndexVersion,
        epc_compiledPolicyIrVersion = Option.bind prov prov_compiledPolicyIrVersion \<rparr>)"

definition buildEvidencePackPolicyContext :: "evidence_pack \<Rightarrow> string evidence_policy_context" where
  "buildEvidencePackPolicyContext pack =
     \<lparr> epc_policyVersion = epk_policyVersion pack,
       epc_policyHash = epk_policyHash pack,
       epc_policyIrHash = epk_policyIrHash pack,
       epc_policyProvenanceSource = epk_policyProvenanceSource pack,
       epc_compiledPolicyIndexVersion = epk_compiledPolicyIndexVersion pack,
       epc_compiledPolicyIrVersion = epk_compiledPolicyIrVersion pack \<rparr>"

definition buildTokenPolicyContext :: "issued_release_token \<Rightarrow> string option evidence_policy_context" where
  "buildTokenPolicyContext issuedToken =
     (let claims = irt_claims issuedToken in
      \<lparr> epc_policyVersion = clm_policy_version claims,
        epc_policyHash = clm_policy_hash claims,
        epc_policyIrHash = clm_policy_ir_hash claims,
        epc_policyProvenanceSource = clm_policy_provenance_source claims,
        epc_compiledPolicyIndexVersion = clm_compiled_policy_index_version claims,
        epc_compiledPolicyIrVersion = clm_compiled_policy_ir_version claims \<rparr>)"

section \<open>Summaries\<close>

definition resolveIssuedAt :: "'z evidence_host_scheme \<Rightarrow> js_date option \<Rightarrow> timestamp result" where
  "resolveIssuedAt h issuedAt =
     (case truthy_date issuedAt of
        None \<Rightarrow> toISO (evh_now h)
      | Some d \<Rightarrow> (case getTime d of
          None \<Rightarrow> throw (Error ''Release evidence pack issuance requires a valid issuedAt timestamp.'')
        | Some t \<Rightarrow> return t))"

fun retention_of :: "release_condition \<Rightarrow> evidence_retention_class option" where
  "retention_of (Retention c) = Some c"
| "retention_of _ = None"

definition releaseDecisionRetentionClass :: "release_decision \<Rightarrow> evidence_retention_class" where
  "releaseDecisionRetentionClass decision =
     (case List.find (\<lambda>item. retention_of item \<noteq> None) (dec_releaseConditions decision) of
        Some (Retention c) \<Rightarrow> c
      | _ \<Rightarrow> retentionClassForRiskClass (dec_riskClass decision))"

definition summarizeDecisionLog :: "log_entry list \<Rightarrow> bool option \<Rightarrow> evidence_log_summary" where
  "summarizeDecisionLog entries chainIntactOverride =
     \<lparr> els_entryCount = length entries,
       els_latestEntryDigest = (if entries = [] then None else Some (ent_digest (last entries))),
       els_chainIntact = nullish chainIntactOverride (list_all (\<lambda>e. length (ent_digest e) > 0) entries),
       els_phases = map (\<lambda>e. le_phase (ent_base e)) entries \<rparr>"

definition summarizeReview :: "queue_detail option \<Rightarrow> evidence_review_summary option" where
  "summarizeReview detail = map_option (\<lambda>d.
     \<lparr> ers_reviewId = qd_id d, ers_status = qd_status d, ers_authorityState = qd_authorityState d,
       ers_approvalsRecorded = qd_approvalsRecorded d, ers_approvalsRemaining = qd_approvalsRemaining d,
       ers_reviewerDecisionCount = length (qd_reviewerDecisions d),
       ers_overrideReasonCode = map_option ovs_reasonCode (qd_overrideGrant d) \<rparr>) detail"

definition summarizeReleaseToken :: "issued_release_token option \<Rightarrow> evidence_token_summary option" where
  "summarizeReleaseToken issuedToken = map_option (\<lambda>t.
     let c = buildTokenPolicyContext t in
     \<lparr> ets_tokenId = irt_tokenId t, ets_audience = clm_aud (irt_claims t),
       ets_issuedAt = irt_issuedAt t, ets_expiresAt = irt_expiresAt t,
       ets_override = clm_override (irt_claims t),
       ets_introspectionRequired = clm_introspection_required (irt_claims t),
       ets_policyVersion = epc_policyVersion c, ets_policyHash = epc_policyHash c,
       ets_policyIrHash = epc_policyIrHash c, ets_policyProvenanceSource = epc_policyProvenanceSource c,
       ets_compiledPolicyIndexVersion = epc_compiledPolicyIndexVersion c,
       ets_compiledPolicyIrVersion = epc_compiledPolicyIrVersion c,
       ets_policyContext = Some c \<rparr>) issuedToken"

definition summarizeDecision :: "release_decision \<Rightarrow> string \<Rightarrow> evidence_decision_summary" where
  "summarizeDecision decision evidencePackId =
     (let c = buildDecisionPolicyContext decision in
      \<lparr> eds_id = dec_id decision, eds_createdAt = dec_createdAt decision, eds_status = dec_status decision,
        eds_consequenceType = dec_consequenceType decision, eds_riskClass = dec_riskClass decision,
        eds_policyVersion = epc_policyVersion c, eds_policyHash = epc_policyHash c,
        eds_policyIrHash = epc_policyIrHash c, eds_policyProvenanceSource = epc_policyProvenanceSource c,
        eds_compiledPolicyIndexVersion = epc_compiledPolicyIndexVersion c,
        eds_compiledPolicyIrVersion = epc_compiledPolicyIrVersion c,
        eds_policyContext = Some c,
        eds_targetId = tgt_id (dec_target decision),
        eds_targetDisplayName = tgt_displayName (dec_target decision),
        eds_requesterId = act_id (dec_requester decision),
        eds_requesterType = act_type (dec_requester decision),
        eds_requesterLabel = act_displayName (dec_requester decision),
        eds_releaseTokenId = dec_releaseTokenId decision,
        eds_evidencePackId = evidencePackId,
        eds_override = map_option (\<lambda>o'.
          \<lparr> evo_reasonCode = og_reasonCode o', evo_ticketId = og_ticketId o',
            evo_requestedById = act_id (og_requestedBy o'),
            evo_requestedByLabel = act_displayName (og_requestedBy o'),
            evo_requestedByRole = act_role (og_requestedBy o') \<rparr>) (dec_override decision) \<rparr>)"

definition log_artifact_json :: "log_entry list \<Rightarrow> json" where
  "log_artifact_json entries = JArray (map (\<lambda>e. JObject
     [(''entryId'', JString (le_entryId (ent_base e))),
      (''phase'', JString (log_phase_str (le_phase (ent_base e)))),
      (''entryDigest'', JString (ent_digest e)),
      (''previousEntryDigest'', json_str_opt (le_previousEntryDigest (ent_base e)))]) entries)"

definition reviewer_decision_json :: "reviewer_decision \<Rightarrow> json" where
  "reviewer_decision_json d = JObject
     [(''id'', JString (rvd_id d)),
      (''reviewerId'', JString (rvd_reviewerId d)),
      (''reviewerName'', JString (rvd_reviewerName d)),
      (''reviewerRole'', JString (rvd_reviewerRole d)),
      (''outcome'', JString (reviewer_outcome_str (rvd_outcome d))),
      (''decidedAt'', JString (rvd_decidedAt d)),
      (''note'', json_str_opt (rvd_note d))]"

definition timeline_entry_json :: "timeline_entry \<Rightarrow> json" where
  "timeline_entry_json t = JObject
     ([(''occurredAt'', JString (rtl_occurredAt t)),
       (''phase'', JString (log_phase_str (rtl_phase t))),
       (''decisionStatus'', JString (release_decision_status_str (rtl_decisionStatus t))),
       (''requiresReview'', JBool (rtl_requiresReview t)),
       (''deterministicChecksCompleted'', JBool (rtl_deterministicChecksCompleted t))] @
      optional_member ''reviewerLabel'' (map_option JString (rtl_reviewerLabel t)))"

definition review_artifact_json :: "queue_detail \<Rightarrow> json" where
  "review_artifact_json d = JObject
     [(''id'', JString (qd_id d)),
      (''status'', JString (queue_status_str (qd_status d))),
      (''authorityState'', JString (authority_state_str (qd_authorityState d))),
      (''reviewerDecisions'', JArray (map reviewer_decision_json (qd_reviewerDecisions d))),
      (''timeline'', JArray (map timeline_entry_json (qd_timeline d)))]"

definition buildArtifactReferences ::
  "'z signing_host_scheme \<Rightarrow> release_decision \<Rightarrow> log_entry list \<Rightarrow> queue_detail option
     \<Rightarrow> issued_release_token option \<Rightarrow> evidence_artifact list \<Rightarrow> evidence_artifact list result" where
  "buildArtifactReferences h decision decisionLogEntries review releaseToken artifactReferences =
     rbind (canonicalDigest h (log_artifact_json decisionLogEntries)) (\<lambda>logDigest.
     rbind (issuerDerivedArtifact Art_other (''release-decision-log://'' @ dec_id decision) logDigest) (\<lambda>logArtifact.
     rbind (rmap_list declaredUnverifiedArtifact artifactReferences) (\<lambda>declared.
     rbind (case review of
              None \<Rightarrow> return []
            | Some d \<Rightarrow> rbind (canonicalDigest h (review_artifact_json d)) (\<lambda>digest.
                rbind (issuerDerivedArtifact Art_review_record (''release-review://'' @ qd_id d) digest) (\<lambda>a. return [a]))) (\<lambda>reviewArtifacts.
     rbind (case releaseToken of
              None \<Rightarrow> return []
            | Some t \<Rightarrow> rbind (issuerDerivedArtifact Art_signature (''release-token://'' @ irt_tokenId t)
                (taggedSha256Hex h (irt_token t))) (\<lambda>a. return [a])) (\<lambda>tokenArtifacts.
     return ([logArtifact] @ declared @ reviewArtifacts @ tokenArtifacts))))))"

definition status_count :: "artifact_verification option \<Rightarrow> evidence_artifact list \<Rightarrow> nat" where
  "status_count status artifacts = length (filter (\<lambda>a. ear_verificationStatus a = status) artifacts)"

definition summarizeArtifactVerification :: "evidence_artifact list \<Rightarrow> artifact_verification_summary" where
  "summarizeArtifactVerification artifacts =
     (let issuerDerivedCount = status_count (Some Av_issuer_derived) artifacts;
          declaredUnverifiedCount = status_count (Some Av_declared_unverified) artifacts;
          unknownStatusCount = status_count None artifacts
      in \<lparr> avs_artifactCount = length artifacts,
           avs_issuerDerivedCount = issuerDerivedCount,
           avs_declaredUnverifiedCount = declaredUnverifiedCount,
           avs_unknownStatusCount = unknownStatusCount,
           avs_externalArtifactVerificationPerformed = False,
           avs_allExternalArtifactsVerified = False,
           avs_state =
             (if length artifacts = 0 then Avs_none
              else if unknownStatusCount > 0 then Avs_unknown
              else if issuerDerivedCount > 0 \<and> declaredUnverifiedCount > 0 then Avs_mixed
              else if declaredUnverifiedCount > 0 then Avs_declared_only
              else Avs_issuer_derived_only) \<rparr>)"

definition buildEvidencePack :: "release_decision \<Rightarrow> string \<Rightarrow> evidence_artifact list \<Rightarrow> evidence_pack" where
  "buildEvidencePack decision evidencePackId artifacts =
     (let c = buildDecisionPolicyContext decision in
      \<lparr> epk_version = EVIDENCE_PACK_SPEC_VERSION, epk_id = evidencePackId,
        epk_outputHash = dec_outputHash decision, epk_consequenceHash = dec_consequenceHash decision,
        epk_policyVersion = epc_policyVersion c, epk_policyHash = epc_policyHash c,
        epk_policyIrHash = epc_policyIrHash c, epk_policyProvenanceSource = epc_policyProvenanceSource c,
        epk_compiledPolicyIndexVersion = epc_compiledPolicyIndexVersion c,
        epk_compiledPolicyIrVersion = epc_compiledPolicyIrVersion c,
        epk_policyContext = Some c,
        epk_retentionClass = releaseDecisionRetentionClass decision,
        epk_findings = dec_findings decision, epk_artifacts = artifacts \<rparr>)"

definition buildStatement ::
  "release_decision \<Rightarrow> evidence_pack \<Rightarrow> evidence_log_summary \<Rightarrow> evidence_review_summary option
     \<Rightarrow> evidence_token_summary option \<Rightarrow> timestamp \<Rightarrow> evidence_statement" where
  "buildStatement decision pack decisionLogSummary review releaseToken exportedAt =
     \<lparr> est_type = RELEASE_EVIDENCE_PACK_STATEMENT_TYPE,
       est_subject =
         [\<lparr> sbj_name = ''release-output/'' @ dec_id decision,
            sbj_sha256 = stripSha256Prefix (dec_outputHash decision) \<rparr>,
          \<lparr> sbj_name = ''release-consequence/'' @ tgt_id (dec_target decision),
            sbj_sha256 = stripSha256Prefix (dec_consequenceHash decision) \<rparr>],
       est_predicateType = RELEASE_EVIDENCE_PACK_PREDICATE_TYPE,
       est_predicate =
         \<lparr> epd_version = RELEASE_EVIDENCE_PACK_ISSUANCE_SPEC_VERSION, epd_exportedAt = exportedAt,
           epd_evidencePack = pack, epd_decision = summarizeDecision decision (epk_id pack),
           epd_decisionLog = decisionLogSummary, epd_review = review,
           epd_releaseToken = releaseToken \<rparr> \<rparr>"

section \<open>The issuer\<close>

definition buildBundleDigest ::
  "'z signing_host_scheme \<Rightarrow> evidence_pack \<Rightarrow> evidence_statement \<Rightarrow> dsse_envelope
     \<Rightarrow> evidence_verification_key \<Rightarrow> timestamp \<Rightarrow> string \<Rightarrow> string \<Rightarrow> string result" where
  "buildBundleDigest h pack statement envelope verificationKey issuedAt keyId publicKeyFingerprint =
     canonicalDigest h (JObject
       [(''version'', JString RELEASE_EVIDENCE_PACK_ISSUANCE_SPEC_VERSION),
        (''evidencePack'', evidence_pack_json pack),
        (''statement'', evidence_statement_json statement),
        (''envelope'', evidence_envelope_json envelope),
        (''verificationKey'', evidence_key_json verificationKey),
        (''issuedAt'', JString (toISOString issuedAt)),
        (''keyId'', JString keyId),
        (''publicKeyFingerprint'', JString publicKeyFingerprint)])"

text \<open>An issuer is its verification key.\<close>

definition createReleaseEvidencePackIssuer ::
  "'z evidence_host_scheme \<Rightarrow> evidence_issuer_input \<Rightarrow> evidence_verification_key result" where
  "createReleaseEvidencePackIssuer h input =
     rbind (derivePublicKeyIdentity (signing_host.truncate h) (eis_publicKeyPem input)) (\<lambda>keyIdentity. return
       \<lparr> evk_version = RELEASE_EVIDENCE_PACK_VERIFICATION_KEY_SPEC_VERSION,
         evk_issuer = eis_issuer input,
         evk_algorithm = nullish (eis_algorithm input) Ed25519,
         evk_keyId = nullish (eis_keyId input) (pkd_fingerprint keyIdentity),
         evk_publicKeyFingerprint = pkd_fingerprint keyIdentity,
         evk_publicKeyPem = eis_publicKeyPem input \<rparr>)"

definition decision_snapshot :: "evidence_issue_input \<Rightarrow> string \<Rightarrow> release_decision" where
  "decision_snapshot issueInput evidencePackId = (eii_decision issueInput)
     \<lparr> dec_evidencePackId := Some evidencePackId,
       dec_releaseTokenId := nullish_opt (map_option irt_tokenId (eii_releaseToken issueInput))
         (dec_releaseTokenId (eii_decision issueInput)) \<rparr>"

definition own_log_entries :: "evidence_issue_input \<Rightarrow> log_entry list" where
  "own_log_entries issueInput =
     filter (\<lambda>e. le_decisionId (ent_base e) = dec_id (eii_decision issueInput))
       (eii_decisionLogEntries issueInput)"

definition sign_statement ::
  "'z evidence_host_scheme \<Rightarrow> evidence_issuer_input \<Rightarrow> evidence_verification_key \<Rightarrow> evidence_pack
     \<Rightarrow> evidence_statement \<Rightarrow> timestamp \<Rightarrow> issued_evidence_pack result" where
  "sign_statement h input key pack statement issuedAt =
     rbind (canonicalizeReleaseJson (evidence_statement_json statement)) (\<lambda>t.
     let payload = sih_toUtf8 h t;
         pae = dssePreAuthEncoding (signing_host.truncate h) RELEASE_EVIDENCE_PACK_DSSE_PAYLOAD_TYPE payload
     in
     rbind (sih_sign h (eis_privateKeyPem input) pae) (\<lambda>signature.
     let envelope =
       \<lparr> dse_payloadType = RELEASE_EVIDENCE_PACK_DSSE_PAYLOAD_TYPE,
         dse_payload = sih_toBase64 h payload,
         dse_signatures = [\<lparr> dsg_keyid = evk_keyId key, dsg_sig = sih_toBase64 h signature \<rparr>] \<rparr>
     in
     rbind (buildBundleDigest h pack statement envelope key issuedAt (evk_keyId key)
       (evk_publicKeyFingerprint key)) (\<lambda>bundleDigest. return
       \<lparr> iep_version = RELEASE_EVIDENCE_PACK_ISSUANCE_SPEC_VERSION, iep_evidencePack = pack,
         iep_statement = statement, iep_envelope = envelope, iep_verificationKey = key,
         iep_bundleDigest = bundleDigest, iep_issuedAt = issuedAt, iep_keyId = evk_keyId key,
         iep_publicKeyFingerprint = evk_publicKeyFingerprint key \<rparr>)))"

definition issue_evidence_pack ::
  "'z evidence_host_scheme \<Rightarrow> evidence_issuer_input \<Rightarrow> evidence_verification_key \<Rightarrow> evidence_issue_input
     \<Rightarrow> issued_evidence_pack result" where
  "issue_evidence_pack h input key issueInput =
     rbind (resolveIssuedAt h (eii_issuedAt issueInput)) (\<lambda>issuedAt.
     let evidencePackId = nullish (eii_evidencePackId issueInput) (''ep_'' @ evh_uuid h);
         decisionSnapshot = decision_snapshot issueInput evidencePackId;
         decisionLogEntries = own_log_entries issueInput
     in
     rbind (buildArtifactReferences h decisionSnapshot decisionLogEntries (eii_review issueInput)
       (eii_releaseToken issueInput) (eii_artifactReferences issueInput)) (\<lambda>artifacts.
     let pack = buildEvidencePack decisionSnapshot evidencePackId artifacts;
         statement = buildStatement decisionSnapshot pack
           (summarizeDecisionLog decisionLogEntries (eii_decisionLogChainIntact issueInput))
           (summarizeReview (eii_review issueInput)) (summarizeReleaseToken (eii_releaseToken issueInput))
           issuedAt
     in sign_statement h input key pack statement issuedAt))"

section \<open>Reading the signed payload\<close>

text \<open>
  A member of a value: reading one of null or of an absent value is an error, and a member that
  is not there is undefined.
\<close>

fun jget :: "json \<Rightarrow> string \<Rightarrow> json result" where
  "jget JNull k = throw (TypeError (''Cannot read properties of null (reading '' @ k @ '')''))"
| "jget JUndefined k = throw (TypeError (''Cannot read properties of undefined (reading '' @ k @ '')''))"
| "jget (JObject kvs) k = return (nullish (map_of kvs k) JUndefined)"
| "jget _ k = return JUndefined"

text \<open>\<open>a !== b\<close>: objects and arrays are compared by identity, and these are never identical.\<close>

fun js_differs :: "json \<Rightarrow> json \<Rightarrow> bool" where
  "js_differs (JObject _) b = True"
| "js_differs (JArray _) b = True"
| "js_differs a b = (a \<noteq> b)"

fun json_or_null :: "json \<Rightarrow> json" where
  "json_or_null JUndefined = JNull"
| "json_or_null v = v"

definition verification_requires :: "string \<Rightarrow> js_error" where
  "verification_requires what = Error (''Release evidence pack verification requires '' @ what)"

fun assertNullableStringField :: "json \<Rightarrow> string \<Rightarrow> unit result" where
  "assertNullableStringField JNull fieldName = return ()"
| "assertNullableStringField (JString s) fieldName = return ()"
| "assertNullableStringField v fieldName =
     throw (verification_requires (fieldName @ '' to be a string or null.''))"

fun assertRequiredStringField :: "json \<Rightarrow> string \<Rightarrow> unit result" where
  "assertRequiredStringField (JString s) fieldName = return ()"
| "assertRequiredStringField v fieldName = throw (verification_requires (fieldName @ '' to be a string.''))"

definition nullable_member :: "json \<Rightarrow> string \<Rightarrow> string \<Rightarrow> unit result" where
  "nullable_member obj prefix k = rbind (jget obj k) (\<lambda>v. assertNullableStringField v (prefix @ ''.'' @ k))"

definition required_member :: "json \<Rightarrow> string \<Rightarrow> string \<Rightarrow> unit result" where
  "required_member obj prefix k = rbind (jget obj k) (\<lambda>v. assertRequiredStringField v (prefix @ ''.'' @ k))"

fun all_members :: "(string \<Rightarrow> unit result) \<Rightarrow> string list \<Rightarrow> unit result" where
  "all_members f [] = return ()"
| "all_members f (k # ks) = rbind (f k) (\<lambda>_. all_members f ks)"

definition optional_policy_members :: "string list" where
  "optional_policy_members =
     [''policyIrHash'', ''policyProvenanceSource'', ''compiledPolicyIndexVersion'', ''compiledPolicyIrVersion'']"

fun json_is_object :: "json \<Rightarrow> bool" where
  "json_is_object (JObject _) = True"
| "json_is_object (JArray _) = True"
| "json_is_object _ = False"

definition assertReleaseEvidencePolicyContextShape :: "json \<Rightarrow> string \<Rightarrow> bool \<Rightarrow> unit result" where
  "assertReleaseEvidencePolicyContextShape value fieldName required =
     (if \<not> json_is_object value then throw (verification_requires (fieldName @ '' to be an object.''))
      else rbind (if required then required_member value fieldName ''policyVersion''
                  else nullable_member value fieldName ''policyVersion'') (\<lambda>_.
        rbind (required_member value fieldName ''policyHash'') (\<lambda>_.
        all_members (nullable_member value fieldName) optional_policy_members)))"

text \<open>
  Comparing members of two objects: the key, whether an absent value counts as null, and the
  message when they differ.
\<close>

fun compare_members :: "json \<Rightarrow> json \<Rightarrow> (string \<times> bool \<times> string) list \<Rightarrow> unit result" where
  "compare_members left right [] = return ()"
| "compare_members left right ((k, nullable, message) # rest) =
     rbind (jget left k) (\<lambda>a. rbind (jget right k) (\<lambda>b.
       if (if nullable then js_differs (json_or_null a) (json_or_null b) else js_differs a b)
       then throw (Error message) else compare_members left right rest))"

definition assertPolicyContextMatchesFields :: "json \<Rightarrow> json \<Rightarrow> string \<Rightarrow> unit result" where
  "assertPolicyContextMatchesFields context flat label = compare_members context flat
     [(''policyVersion'', True, label @ '' policy version does not match flat policy version.''),
      (''policyHash'', False, label @ '' policy hash does not match flat policy hash.''),
      (''policyIrHash'', True, label @ '' policy IR hash does not match flat policy IR hash.''),
      (''policyProvenanceSource'', False, label @ '' policy provenance source does not match flat policy provenance source.''),
      (''compiledPolicyIndexVersion'', True, label @ '' compiled policy index version does not match flat compiled policy index version.''),
      (''compiledPolicyIrVersion'', True, label @ '' compiled policy IR version does not match flat compiled policy IR version.'')]"

text \<open>The six policy members of an object, as an object of their own.\<close>

definition flat_policy_fields :: "json \<Rightarrow> json result" where
  "flat_policy_fields obj =
     rbind (rmap_list (\<lambda>k. rbind (jget obj k) (\<lambda>v. return (k, v)))
       ([''policyVersion'', ''policyHash''] @ optional_policy_members)) (\<lambda>kvs. return (JObject kvs))"

text \<open>The context an object carries, or else its own policy members.\<close>

definition context_or_fields :: "json \<Rightarrow> json result" where
  "context_or_fields obj =
     rbind (jget obj ''policyContext'') (\<lambda>c.
       if json_or_null c = JNull then flat_policy_fields obj else return c)"

definition context_shape_if_present :: "json \<Rightarrow> string \<Rightarrow> bool \<Rightarrow> unit result" where
  "context_shape_if_present obj fieldName required =
     rbind (jget obj ''policyContext'') (\<lambda>c.
       if c \<noteq> JUndefined then assertReleaseEvidencePolicyContextShape c fieldName required else return ())"

definition check_context :: "json \<Rightarrow> string \<Rightarrow> unit result" where
  "check_context obj label =
     rbind (context_or_fields obj) (\<lambda>c. rbind (flat_policy_fields obj) (\<lambda>f.
       assertPolicyContextMatchesFields c f label))"

definition summary_message :: "string \<Rightarrow> string \<Rightarrow> string" where
  "summary_message whose what =
     ''Release evidence pack '' @ whose @ '' summary '' @ what @ '' does not match the evidence pack.''"

definition policy_members_with :: "string \<Rightarrow> bool \<Rightarrow> (string \<times> bool \<times> string) list" where
  "policy_members_with whose versionNullable =
     [(''policyVersion'', versionNullable, summary_message whose ''policy version''),
      (''policyHash'', False, summary_message whose ''policy hash''),
      (''policyIrHash'', True, summary_message whose ''policy IR hash''),
      (''policyProvenanceSource'', False, summary_message whose ''policy provenance source''),
      (''compiledPolicyIndexVersion'', True, summary_message whose ''compiled policy index version''),
      (''compiledPolicyIrVersion'', True, summary_message whose ''compiled policy IR version'')]"

text \<open>An element of an array, undefined when there is none.\<close>

fun jindex :: "json \<Rightarrow> nat \<Rightarrow> json" where
  "jindex (JArray vs) n = (if n < length vs then vs ! n else JUndefined)"
| "jindex _ n = JUndefined"

text \<open>
  Texts read from the payload. By then it has been found equal to a statement, so identifiers
  and hashes are texts.
\<close>

fun json_text :: "json \<Rightarrow> string result" where
  "json_text (JString s) = return s"
| "json_text v = throw (TypeError ''value.startsWith is not a function'')"

definition assertSubjectDigestMatches :: "json \<Rightarrow> string \<Rightarrow> string \<Rightarrow> unit result" where
  "assertSubjectDigestMatches subject expectedName expectedDigest =
     (let mismatch = throw (Error ''Release evidence pack statement subject does not match its signed release material.'')
      in if json_or_null subject = JNull then mismatch
      else rbind (jget subject ''name'') (\<lambda>name.
        if js_differs name (JString expectedName) then mismatch
        else rbind (jget subject ''digest'') (\<lambda>digest. rbind (jget digest ''sha256'') (\<lambda>sha.
          if js_differs sha (JString (stripSha256Prefix expectedDigest)) then mismatch else return ()))))"

definition check_subjects :: "json \<Rightarrow> json \<Rightarrow> json \<Rightarrow> unit result" where
  "check_subjects statement pack decision =
     rbind (jget statement ''subject'') (\<lambda>subject.
     rbind (rbind (jget decision ''id'') json_text) (\<lambda>decisionId.
     rbind (rbind (jget pack ''outputHash'') json_text) (\<lambda>outputHash.
     rbind (assertSubjectDigestMatches (jindex subject 0) (''release-output/'' @ decisionId) outputHash) (\<lambda>_.
     rbind (rbind (jget decision ''targetId'') json_text) (\<lambda>targetId.
     rbind (rbind (jget pack ''consequenceHash'') json_text) (\<lambda>consequenceHash.
     assertSubjectDigestMatches (jindex subject 1) (''release-consequence/'' @ targetId) consequenceHash))))))"

definition check_shapes :: "json \<Rightarrow> json \<Rightarrow> unit result" where
  "check_shapes pack decision =
     rbind (all_members (nullable_member pack ''evidencePack'') optional_policy_members) (\<lambda>_.
     rbind (all_members (nullable_member decision ''decision'') optional_policy_members) (\<lambda>_.
     rbind (context_shape_if_present pack ''evidencePack.policyContext'' True) (\<lambda>_.
     rbind (context_shape_if_present decision ''decision.policyContext'' True) (\<lambda>_.
     rbind (check_context pack ''Release evidence pack policy context'') (\<lambda>_.
     check_context decision ''Release evidence pack decision policy context'')))))"

definition check_token_shape :: "json \<Rightarrow> unit result" where
  "check_token_shape releaseToken =
     (if json_or_null releaseToken = JNull then return ()
      else rbind (all_members (nullable_member releaseToken ''releaseToken'')
          (''policyVersion'' # optional_policy_members)) (\<lambda>_.
        rbind (context_shape_if_present releaseToken ''releaseToken.policyContext'' False) (\<lambda>_.
        check_context releaseToken ''Release evidence pack token policy context'')))"

definition check_summaries :: "json \<Rightarrow> json \<Rightarrow> json \<Rightarrow> unit result" where
  "check_summaries pack decision releaseToken =
     rbind (jget decision ''evidencePackId'') (\<lambda>a. rbind (jget pack ''id'') (\<lambda>b.
     if js_differs a b
     then throw (Error ''Release evidence pack decision summary does not match the evidence pack id.'')
     else rbind (compare_members decision pack (policy_members_with ''decision'' False)) (\<lambda>_.
       if json_or_null releaseToken = JNull then return ()
       else compare_members releaseToken pack (policy_members_with ''token'' True))))"

definition assertPredicateInternalConsistency :: "json \<Rightarrow> unit result" where
  "assertPredicateInternalConsistency statement =
     rbind (jget statement ''predicate'') (\<lambda>predicate.
     rbind (jget predicate ''evidencePack'') (\<lambda>pack.
     rbind (jget predicate ''decision'') (\<lambda>decision.
     rbind (jget predicate ''releaseToken'') (\<lambda>releaseToken.
     rbind (check_shapes pack decision) (\<lambda>_.
     rbind (check_token_shape releaseToken) (\<lambda>_.
     rbind (check_summaries pack decision releaseToken) (\<lambda>_.
     check_subjects statement pack decision)))))))"

section \<open>Verification\<close>

text \<open>\<open>value?.k ?? null\<close>\<close>

definition optional_read :: "json \<Rightarrow> string \<Rightarrow> json result" where
  "optional_read v k = (if json_or_null v = JNull then return JNull
     else rbind (jget v k) (\<lambda>x. return (json_or_null x)))"

fun array_length :: "json \<Rightarrow> nat" where
  "array_length (JArray vs) = length vs"
| "array_length _ = 0"

definition verification_outcome ::
  "issued_evidence_pack \<Rightarrow> dsse_signature \<Rightarrow> json \<Rightarrow> evidence_verification_result result" where
  "verification_outcome pack signature statement =
     (let p = iep_evidencePack pack in
      rbind (jget statement ''predicate'') (\<lambda>predicate.
      rbind (jget predicate ''decision'') (\<lambda>decision.
      rbind (jget decision ''id'') (\<lambda>decisionId.
      rbind (jget decision ''status'') (\<lambda>decisionStatus.
      rbind (jget decision ''consequenceType'') (\<lambda>consequenceType.
      rbind (jget decision ''riskClass'') (\<lambda>riskClass.
      rbind (jget predicate ''releaseToken'') (\<lambda>releaseToken.
      rbind (optional_read releaseToken ''tokenId'') (\<lambda>releaseTokenId.
      rbind (jget predicate ''review'') (\<lambda>review.
      rbind (optional_read review ''reviewId'') (\<lambda>reviewId.
      rbind (jget statement ''predicateType'') (\<lambda>predicateType.
      rbind (jget statement ''subject'') (\<lambda>subject. return
        \<lparr> evv_version = RELEASE_EVIDENCE_PACK_VERIFICATION_SPEC_VERSION, evv_valid = True,
          evv_evidencePackId = epk_id p, evv_decisionId = decisionId,
          evv_decisionStatus = decisionStatus, evv_consequenceType = consequenceType,
          evv_riskClass = riskClass, evv_outputHash = epk_outputHash p,
          evv_consequenceHash = epk_consequenceHash p, evv_policyVersion = epk_policyVersion p,
          evv_policyHash = epk_policyHash p, evv_policyIrHash = epk_policyIrHash p,
          evv_policyProvenanceSource = epk_policyProvenanceSource p,
          evv_compiledPolicyIndexVersion = epk_compiledPolicyIndexVersion p,
          evv_compiledPolicyIrVersion = epk_compiledPolicyIrVersion p,
          evv_policyContext = nullish (epk_policyContext p) (buildEvidencePackPolicyContext p),
          evv_releaseTokenId = releaseTokenId, evv_reviewId = reviewId,
          evv_keyId = dsg_keyid signature, evv_predicateType = predicateType,
          evv_subjectCount = array_length subject, evv_bundleDigest = iep_bundleDigest pack,
          evv_artifactVerificationSummary = summarizeArtifactVerification (epk_artifacts p) \<rparr>)))))))))))))"

text \<open>The checks of the parsed payload against the pack that came with it.\<close>

definition check_statement :: "'z signing_host_scheme \<Rightarrow> issued_evidence_pack \<Rightarrow> json \<Rightarrow> unit result" where
  "check_statement h pack statement =
     rbind (jget statement ''_type'') (\<lambda>type'.
     rbind (if js_differs type' (JString RELEASE_EVIDENCE_PACK_STATEMENT_TYPE) then return True
            else rbind (jget statement ''predicateType'') (\<lambda>t.
              return (js_differs t (JString RELEASE_EVIDENCE_PACK_PREDICATE_TYPE)))) (\<lambda>unknown.
     if unknown then throw (Error ''Release evidence pack statement type is not recognized.'')
     else
     rbind (canonicalEqual statement (evidence_statement_json (iep_statement pack))) (\<lambda>sameStatement.
     if \<not> sameStatement
     then throw (Error ''Release evidence pack signed payload does not match the exported statement.'')
     else
     rbind (rbind (jget statement ''predicate'') (\<lambda>p. jget p ''evidencePack'')) (\<lambda>signedPack.
     rbind (canonicalEqual signedPack (evidence_pack_json (iep_evidencePack pack))) (\<lambda>samePack.
     if \<not> samePack
     then throw (Error ''Release evidence pack signed payload does not match the exported evidence pack.'')
     else
     rbind (jget signedPack ''id'') (\<lambda>signedId.
     if js_differs signedId (JString (epk_id (iep_evidencePack pack)))
     then throw (Error ''Release evidence pack payload does not match the exported pack id.'')
     else
     rbind (jget statement ''subject'') (\<lambda>subject.
     if array_length subject < 2
     then throw (Error ''Release evidence pack statement subjects are incomplete.'')
     else
     rbind (assertPredicateInternalConsistency statement) (\<lambda>_.
     rbind (buildBundleDigest h (iep_evidencePack pack) (iep_statement pack) (iep_envelope pack)
         (iep_verificationKey pack) (iep_issuedAt pack) (iep_keyId pack)
         (iep_publicKeyFingerprint pack)) (\<lambda>expectedBundleDigest.
     if expectedBundleDigest \<noteq> iep_bundleDigest pack
     then throw (Error ''Release evidence pack bundle digest does not match its contents.'')
     else return ())))))))))"

definition verifyIssuedReleaseEvidencePack ::
  "'z evidence_host_scheme \<Rightarrow> issued_evidence_pack \<Rightarrow> evidence_verification_key option
     \<Rightarrow> evidence_verification_result result" where
  "verifyIssuedReleaseEvidencePack h pack key =
     (case key of
        None \<Rightarrow> throw (Error ''Release evidence pack verification requires an explicit trusted verification key.'')
      | Some verificationKey \<Rightarrow>
          let payload = sih_fromBase64 h (dse_payload (iep_envelope pack));
              pae = dssePreAuthEncoding (signing_host.truncate h) (dse_payloadType (iep_envelope pack)) payload
          in case dse_signatures (iep_envelope pack) of
            [] \<Rightarrow> throw (Error ''Release evidence pack is missing DSSE signatures.'')
          | signature # _ \<Rightarrow>
              rbind (sih_verify h (evk_publicKeyPem verificationKey) pae
                (sih_fromBase64 h (dsg_sig signature))) (\<lambda>valid.
              if \<not> valid then throw (Error ''Release evidence pack DSSE signature is invalid.'')
              else rbind (evh_parse h (sih_fromUtf8 h payload)) (\<lambda>statement.
                rbind (check_statement h pack statement) (\<lambda>_.
                verification_outcome pack signature statement))))"

section \<open>The store\<close>

text \<open>
  Copying a pack fills in a missing policy context; apart from that a copy is the same value.
\<close>

definition freezeEvidencePack :: "evidence_pack \<Rightarrow> evidence_pack" where
  "freezeEvidencePack pack =
     pack\<lparr> epk_policyContext := Some (nullish (epk_policyContext pack) (buildEvidencePackPolicyContext pack)) \<rparr>"

definition freezeReleaseEvidenceDecisionSummary :: "evidence_decision_summary \<Rightarrow> evidence_decision_summary" where
  "freezeReleaseEvidenceDecisionSummary summary =
     summary\<lparr> eds_policyContext := Some (nullish (eds_policyContext summary)
       \<lparr> epc_policyVersion = eds_policyVersion summary, epc_policyHash = eds_policyHash summary,
         epc_policyIrHash = eds_policyIrHash summary,
         epc_policyProvenanceSource = eds_policyProvenanceSource summary,
         epc_compiledPolicyIndexVersion = eds_compiledPolicyIndexVersion summary,
         epc_compiledPolicyIrVersion = eds_compiledPolicyIrVersion summary \<rparr>) \<rparr>"

definition freezeReleaseEvidenceTokenSummary :: "evidence_token_summary \<Rightarrow> evidence_token_summary" where
  "freezeReleaseEvidenceTokenSummary summary =
     summary\<lparr> ets_policyContext := Some (nullish (ets_policyContext summary)
       \<lparr> epc_policyVersion = ets_policyVersion summary, epc_policyHash = ets_policyHash summary,
         epc_policyIrHash = ets_policyIrHash summary,
         epc_policyProvenanceSource = ets_policyProvenanceSource summary,
         epc_compiledPolicyIndexVersion = ets_compiledPolicyIndexVersion summary,
         epc_compiledPolicyIrVersion = ets_compiledPolicyIrVersion summary \<rparr>) \<rparr>"

definition freezeReleaseEvidenceStatement :: "evidence_statement \<Rightarrow> evidence_statement" where
  "freezeReleaseEvidenceStatement statement =
     (let p = est_predicate statement in statement\<lparr> est_predicate :=
        p\<lparr> epd_evidencePack := freezeEvidencePack (epd_evidencePack p),
           epd_decision := freezeReleaseEvidenceDecisionSummary (epd_decision p),
           epd_releaseToken := map_option freezeReleaseEvidenceTokenSummary (epd_releaseToken p) \<rparr> \<rparr>)"

definition freezeIssuedReleaseEvidencePack :: "issued_evidence_pack \<Rightarrow> issued_evidence_pack" where
  "freezeIssuedReleaseEvidencePack pack =
     pack\<lparr> iep_evidencePack := freezeEvidencePack (iep_evidencePack pack),
           iep_statement := freezeReleaseEvidenceStatement (iep_statement pack) \<rparr>"

text \<open>The stored packs, and the file as its parsed content (\<open>None\<close> when there is no file).\<close>

type_synonym evidence_store = "issued_evidence_pack list"

abbreviation pack_id :: "issued_evidence_pack \<Rightarrow> string" where
  "pack_id pack \<equiv> epk_id (iep_evidencePack pack)"

definition defaultReleaseEvidencePackStoreFile :: evidence_store where
  "defaultReleaseEvidencePackStoreFile = []"

definition upsertIssuedReleaseEvidencePack ::
  "'z evidence_host_scheme \<Rightarrow> issued_evidence_pack \<Rightarrow> evidence_store
     \<Rightarrow> (issued_evidence_pack \<times> evidence_store) result" where
  "upsertIssuedReleaseEvidencePack h pack packs =
     rbind (verifyIssuedReleaseEvidencePack h pack (Some (iep_verificationKey pack))) (\<lambda>_.
     let stored = freezeIssuedReleaseEvidencePack pack in
     case find_by pack_id (pack_id stored) packs of
       Some existing \<Rightarrow>
         if iep_bundleDigest existing \<noteq> iep_bundleDigest stored
         then throw (ReleaseEvidencePackStoreError (''Release evidence pack '' @ [CHR 0x27] @ pack_id stored @
                [CHR 0x27] @ '' already exists with a different bundle digest.''))
         else return (existing, packs)
     | None \<Rightarrow> return (stored, packs @ [stored]))"

definition get_evidence_pack :: "string \<Rightarrow> evidence_store \<Rightarrow> issued_evidence_pack option" where
  "get_evidence_pack key packs = find_by pack_id key packs"

fun evidence_error_message :: "js_error \<Rightarrow> string" where
  "evidence_error_message (Error message) = message"
| "evidence_error_message (TypeError message) = message"
| "evidence_error_message (ReleaseEvidencePackStoreError message) = message"
| "evidence_error_message _ = ''Invalid time value''"

fun verifyReleaseEvidencePackStoreFileIntegrity ::
  "'z evidence_host_scheme \<Rightarrow> string \<Rightarrow> evidence_store \<Rightarrow> unit result" where
  "verifyReleaseEvidencePackStoreFileIntegrity h path [] = return ()"
| "verifyReleaseEvidencePackStoreFileIntegrity h path (pack # packs) =
     (case verifyIssuedReleaseEvidencePack h pack (Some (iep_verificationKey pack)) of
        Inl e \<Rightarrow> throw (ReleaseEvidencePackStoreError (''Release evidence pack store '' @ [CHR 0x27] @ path @
          [CHR 0x27] @ '' failed integrity verification for pack '' @ [CHR 0x27] @ pack_id pack @ [CHR 0x27] @
          '': '' @ evidence_error_message e))
      | Inr _ \<Rightarrow> verifyReleaseEvidencePackStoreFileIntegrity h path packs)"

definition loadReleaseEvidencePackStoreFile ::
  "'z evidence_host_scheme \<Rightarrow> string \<Rightarrow> evidence_store option \<Rightarrow> evidence_store result" where
  "loadReleaseEvidencePackStoreFile h path content =
     (case content of
        None \<Rightarrow> return defaultReleaseEvidencePackStoreFile
      | Some packs \<Rightarrow>
          let loaded = map freezeIssuedReleaseEvidencePack packs in
          rbind (verifyReleaseEvidencePackStoreFileIntegrity h path loaded) (\<lambda>_. return loaded))"

text \<open>The operations of the file-backed store; the result is what the file holds afterwards.\<close>

definition file_upsert_evidence_pack ::
  "'z evidence_host_scheme \<Rightarrow> string \<Rightarrow> issued_evidence_pack \<Rightarrow> evidence_store option
     \<Rightarrow> (issued_evidence_pack \<times> evidence_store option) result" where
  "file_upsert_evidence_pack h path pack content =
     rbind (loadReleaseEvidencePackStoreFile h path content) (\<lambda>packs.
     rbind (upsertIssuedReleaseEvidencePack h pack packs) (\<lambda>(stored, packs'). return (stored, Some packs')))"

definition file_get_evidence_pack ::
  "'z evidence_host_scheme \<Rightarrow> string \<Rightarrow> string \<Rightarrow> evidence_store option \<Rightarrow> issued_evidence_pack option result" where
  "file_get_evidence_pack h path key content =
     rbind (loadReleaseEvidencePackStoreFile h path content) (\<lambda>packs. return (get_evidence_pack key packs))"

end
