(* ===== verification/Evidence_Integrity.thy ===== *)
theory Evidence_Integrity
  imports Evidence_Packs
begin

text \<open>
  What evidence packs guarantee (src/release-kernel/release-evidence-pack-*.ts).

  The first part shows that reading the signed payload does not depend on the order of its members,
  so that the checks of the parsed payload can be computed on the statement that was signed. The
  theorems are the round trip of issuing and verifying, what a verified pack says about what was
  signed, and what becomes of a pack from before policy contexts in a file-backed store.
\<close>

section \<open>Reading values that are the same up to the order of members\<close>

lemma json_same_refl [simp]: "json_same v v"
proof (induction v)
  case (JArray vs)
  then show ?case by (simp add: json_same_simps list_all2_same)
next
  case (JObject kvs)
  have "rel_option json_same (map_of kvs k) (map_of kvs k)" for k
    using JObject by (cases "map_of kvs k") (fastforce dest: map_of_SomeD)+
  then show ?case by (simp add: json_same_simps)
qed (simp_all add: json_same_simps)

abbreviation same_result :: "json result \<Rightarrow> json result \<Rightarrow> bool" where
  "same_result \<equiv> rel_sum (=) json_same"

lemma nullish_same: "rel_option json_same x y \<Longrightarrow> json_same (nullish x JUndefined) (nullish y JUndefined)"
  by (cases x; cases y) simp_all

lemma jget_same: "json_same v w \<Longrightarrow> same_result (jget v k) (jget w k)"
  by (erule json_same.cases) (auto intro: nullish_same)

lemma jget_same_Inr:
  assumes "json_same v w" "jget v k = Inr a"
  obtains b where "jget w k = Inr b" "json_same a b"
  using jget_same [OF assms(1), of k] assms(2) by (auto elim: rel_sum.cases)

lemma jget_same_string: "json_same v w \<Longrightarrow> jget v k = Inr (JString s) \<Longrightarrow> jget w k = Inr (JString s)"
  by (erule (1) jget_same_Inr) (simp add: json_same_simps)

lemma js_differs_same:
  "json_same a a' \<Longrightarrow> json_same b b' \<Longrightarrow> js_differs a b = js_differs a' b'"
  by (cases a; cases b) (auto simp: json_same_simps elim: json_same.cases)

lemma json_or_null_same: "json_same a b \<Longrightarrow> json_same (json_or_null a) (json_or_null b)"
  by (cases a) (auto simp: json_same_simps)

lemma json_or_null_JNull_same: "json_same a b \<Longrightarrow> json_or_null a = JNull \<longleftrightarrow> json_or_null b = JNull"
  by (cases a) (auto simp: json_same_simps)

lemma undefined_same: "json_same a b \<Longrightarrow> a = JUndefined \<longleftrightarrow> b = JUndefined"
  by (cases a) (auto simp: json_same_simps)

lemma asserts_same:
  "json_same a b \<Longrightarrow> assertNullableStringField a n = assertNullableStringField b n"
  "json_same a b \<Longrightarrow> assertRequiredStringField a n = assertRequiredStringField b n"
  "json_same a b \<Longrightarrow> json_is_object a = json_is_object b"
  "json_same a b \<Longrightarrow> json_text a = json_text b"
  "json_same a b \<Longrightarrow> array_length a = array_length b"
  by (cases a; auto simp: json_same_simps dest: list_all2_lengthD)+

lemma jindex_same: "json_same a b \<Longrightarrow> json_same (jindex a n) (jindex b n)"
  by (cases a) (auto simp: json_same_simps list_all2_conv_all_nth)

lemma rbind_same:
  "rel_sum (=) R x y \<Longrightarrow> (\<And>a b. R a b \<Longrightarrow> f a = g b) \<Longrightarrow> rbind x f = rbind y g"
  by (auto elim: rel_sum.cases)

lemma rbind_same_result:
  "rel_sum (=) R x y \<Longrightarrow> (\<And>a b. R a b \<Longrightarrow> rel_sum (=) Q (f a) (g b)) \<Longrightarrow> rel_sum (=) Q (rbind x f) (rbind y g)"
  by (auto elim: rel_sum.cases)

lemma all_members_cong: "(\<And>k. f k = g k) \<Longrightarrow> all_members f ks = all_members g ks"
  by (induction ks) auto

lemma members_same:
  assumes "json_same a b"
  shows "nullable_member a p k = nullable_member b p k" "required_member a p k = required_member b p k"
  unfolding nullable_member_def required_member_def
  using jget_same [OF assms] by (rule rbind_same, simp add: asserts_same)+

lemma context_shape_same:
  "json_same a b \<Longrightarrow>
   assertReleaseEvidencePolicyContextShape a n r = assertReleaseEvidencePolicyContextShape b n r"
  unfolding assertReleaseEvidencePolicyContextShape_def
  by (simp only: asserts_same members_same [of a b] cong: all_members_cong)

lemma compare_members_same:
  "json_same a a' \<Longrightarrow> json_same b b' \<Longrightarrow> compare_members a b ks = compare_members a' b' ks"
proof (induction ks)
  case (Cons x ks)
  obtain k nullable message where x: "x = (k, nullable, message)" by (cases x)
  show ?case
    unfolding x compare_members.simps
  proof (rule rbind_same [OF jget_same [OF Cons.prems(1)]], rule rbind_same [OF jget_same [OF Cons.prems(2)]])
    fix u u' v v' assume "json_same u u'" "json_same v v'"
    then have "js_differs u v = js_differs u' v'"
      "js_differs (json_or_null u) (json_or_null v) = js_differs (json_or_null u') (json_or_null v')"
      by (auto intro!: js_differs_same json_or_null_same)
    with Cons show "(if if nullable then js_differs (json_or_null u) (json_or_null v) else js_differs u v
          then Inl (Error message) else compare_members a b ks) =
        (if if nullable then js_differs (json_or_null u') (json_or_null v') else js_differs u' v'
          then Inl (Error message) else compare_members a' b' ks)"
      by simp
  qed
qed simp

lemma rmap_members_same:
  assumes "json_same a b"
  shows "rel_sum (=) (\<lambda>xs ys. map fst xs = ks \<and> map fst ys = ks \<and> list_all2 json_same (map snd xs) (map snd ys))
    (rmap_list (\<lambda>k. rbind (jget a k) (\<lambda>v. Inr (k, v))) ks) (rmap_list (\<lambda>k. rbind (jget b k) (\<lambda>v. Inr (k, v))) ks)"
proof (induction ks)
  case (Cons k ks)
  show ?case
    using jget_same [OF assms, of k] Cons by (auto elim!: rel_sum.cases)
qed simp

lemma flat_fields_same:
  assumes "json_same a b"
  shows "same_result (flat_policy_fields a) (flat_policy_fields b)"
  unfolding flat_policy_fields_def
proof (rule rbind_same_result [OF rmap_members_same [OF assms]])
  fix xs ys :: "(string \<times> json) list"
  let ?ks = "[''policyVersion'', ''policyHash''] @ optional_policy_members"
  assume xy: "map fst xs = ?ks \<and> map fst ys = ?ks \<and> list_all2 json_same (map snd xs) (map snd ys)"
  then have "distinct (map fst xs)" by (simp add: optional_policy_members_def)
  with xy show "same_result (Inr (JObject xs)) (Inr (JObject ys))"
    by (simp add: json_same_object_keys)
qed

lemma context_or_fields_same:
  assumes "json_same a b"
  shows "same_result (context_or_fields a) (context_or_fields b)"
  unfolding context_or_fields_def
  by (rule rbind_same_result [OF jget_same [OF assms]])
    (simp add: json_or_null_JNull_same flat_fields_same [OF assms])

lemma context_checks_same:
  assumes "json_same a b"
  shows "context_shape_if_present a n r = context_shape_if_present b n r" "check_context a l = check_context b l"
proof -
  show "context_shape_if_present a n r = context_shape_if_present b n r"
    unfolding context_shape_if_present_def
    by (rule rbind_same [OF jget_same [OF assms]]) (simp add: undefined_same context_shape_same cong: if_cong)
  show "check_context a l = check_context b l"
    unfolding check_context_def assertPolicyContextMatchesFields_def
    by (rule rbind_same [OF context_or_fields_same [OF assms]], rule rbind_same [OF flat_fields_same [OF assms]])
      (rule compare_members_same)
qed

lemma subject_same:
  assumes "json_same a b"
  shows "assertSubjectDigestMatches a n d = assertSubjectDigestMatches b n d"
proof -
  have "rbind (jget a ''name'') (\<lambda>name. if js_differs name (JString n) then e
        else rbind (jget a ''digest'') (\<lambda>digest. rbind (jget digest ''sha256'') (\<lambda>sha.
          if js_differs sha (JString s) then e else Inr ()))) =
      rbind (jget b ''name'') (\<lambda>name. if js_differs name (JString n) then e
        else rbind (jget b ''digest'') (\<lambda>digest. rbind (jget digest ''sha256'') (\<lambda>sha.
          if js_differs sha (JString s) then e else Inr ())))" for e s
  proof (rule rbind_same [OF jget_same [OF assms]])
    fix x y assume xy: "json_same x y"
    have "rbind (jget a ''digest'') (\<lambda>digest. rbind (jget digest ''sha256'') (\<lambda>sha.
          if js_differs sha (JString s) then e else Inr ())) =
        rbind (jget b ''digest'') (\<lambda>digest. rbind (jget digest ''sha256'') (\<lambda>sha.
          if js_differs sha (JString s) then e else Inr ()))"
      by (rule rbind_same [OF jget_same [OF assms]], erule rbind_same [OF jget_same])
        (simp add: js_differs_same [OF _ json_same_refl])
    then show "(if js_differs x (JString n) then e else rbind (jget a ''digest'') (\<lambda>digest.
          rbind (jget digest ''sha256'') (\<lambda>sha. if js_differs sha (JString s) then e else Inr ()))) =
        (if js_differs y (JString n) then e else rbind (jget b ''digest'') (\<lambda>digest.
          rbind (jget digest ''sha256'') (\<lambda>sha. if js_differs sha (JString s) then e else Inr ())))"
      using js_differs_same [OF xy json_same_refl] by simp
  qed
  then show ?thesis
    by (simp only: assertSubjectDigestMatches_def Let_def json_or_null_JNull_same [OF assms])
qed

lemma text_read_same:
  "json_same a b \<Longrightarrow> rbind (jget a k) json_text = rbind (jget b k) json_text"
  by (rule rbind_same [OF jget_same]) (simp_all add: asserts_same)

lemma checks_same:
  assumes "json_same p p'" "json_same d d'" "json_same t t'"
  shows "check_shapes p d = check_shapes p' d'" "check_token_shape t = check_token_shape t'"
    "check_summaries p d t = check_summaries p' d' t'"
    "json_same s s' \<Longrightarrow> check_subjects s p d = check_subjects s' p' d'"
proof -
  note m = members_same [OF assms(1)] members_same [OF assms(2)] members_same [OF assms(3)]
    context_checks_same [OF assms(1)] context_checks_same [OF assms(2)] context_checks_same [OF assms(3)]
  show "check_shapes p d = check_shapes p' d'"
    unfolding check_shapes_def by (simp only: m cong: all_members_cong)
  show "check_token_shape t = check_token_shape t'"
    unfolding check_token_shape_def
    by (simp only: m json_or_null_JNull_same [OF assms(3)] cong: all_members_cong)
  show "check_summaries p d t = check_summaries p' d' t'"
    unfolding check_summaries_def
  proof (rule rbind_same [OF jget_same [OF assms(2)]], rule rbind_same [OF jget_same [OF assms(1)]])
    fix u u' v v' assume "json_same u u'" "json_same v v'"
    then have d: "js_differs u v = js_differs u' v'" by (rule js_differs_same)
    show "(if js_differs u v
          then Inl (Error ''Release evidence pack decision summary does not match the evidence pack id.'')
          else rbind (compare_members d p (policy_members_with ''decision'' False)) (\<lambda>_.
            if json_or_null t = JNull then Inr ()
            else compare_members t p (policy_members_with ''token'' True))) =
        (if js_differs u' v'
          then Inl (Error ''Release evidence pack decision summary does not match the evidence pack id.'')
          else rbind (compare_members d' p' (policy_members_with ''decision'' False)) (\<lambda>_.
            if json_or_null t' = JNull then Inr ()
            else compare_members t' p' (policy_members_with ''token'' True)))"
      unfolding d compare_members_same [OF assms(2,1)] compare_members_same [OF assms(3,1)]
        json_or_null_JNull_same [OF assms(3)] by (rule refl)
  qed
  show "check_subjects s p d = check_subjects s' p' d'" if "json_same s s'"
    unfolding check_subjects_def text_read_same [OF assms(1)] text_read_same [OF assms(2)]
  proof (rule rbind_same [OF jget_same [OF that]])
    fix u u' assume u: "json_same u u'"
    have i: "assertSubjectDigestMatches (jindex u n) = assertSubjectDigestMatches (jindex u' n)" for n
      by (intro ext subject_same jindex_same u)
    show "rbind (rbind (jget d' ''id'') json_text) (\<lambda>decisionId.
        rbind (rbind (jget p' ''outputHash'') json_text) (\<lambda>outputHash.
        rbind (assertSubjectDigestMatches (jindex u 0) (''release-output/'' @ decisionId) outputHash) (\<lambda>_.
        rbind (rbind (jget d' ''targetId'') json_text) (\<lambda>targetId.
        rbind (rbind (jget p' ''consequenceHash'') json_text) (\<lambda>consequenceHash.
        assertSubjectDigestMatches (jindex u 1) (''release-consequence/'' @ targetId) consequenceHash))))) =
      rbind (rbind (jget d' ''id'') json_text) (\<lambda>decisionId.
        rbind (rbind (jget p' ''outputHash'') json_text) (\<lambda>outputHash.
        rbind (assertSubjectDigestMatches (jindex u' 0) (''release-output/'' @ decisionId) outputHash) (\<lambda>_.
        rbind (rbind (jget d' ''targetId'') json_text) (\<lambda>targetId.
        rbind (rbind (jget p' ''consequenceHash'') json_text) (\<lambda>consequenceHash.
        assertSubjectDigestMatches (jindex u' 1) (''release-consequence/'' @ targetId) consequenceHash)))))"
      unfolding i by (rule refl)
  qed
qed

lemma consistency_same:
  assumes "json_same v w"
  shows "assertPredicateInternalConsistency v = assertPredicateInternalConsistency w"
  unfolding assertPredicateInternalConsistency_def
proof (rule rbind_same [OF jget_same [OF assms]], (rule rbind_same [OF jget_same], assumption)+)
  fix u u' p p' d d' t t'
  assume "json_same p p'" "json_same d d'" "json_same t t'"
  note c = checks_same [OF this]
  show "rbind (check_shapes p d) (\<lambda>_. rbind (check_token_shape t) (\<lambda>_.
      rbind (check_summaries p d t) (\<lambda>_. check_subjects v p d))) =
    rbind (check_shapes p' d') (\<lambda>_. rbind (check_token_shape t') (\<lambda>_.
      rbind (check_summaries p' d' t') (\<lambda>_. check_subjects w p' d')))"
    unfolding c(1-3) c(4) [OF assms] by (rule refl)
qed

section \<open>Statements as values\<close>

lemma optional_member_props [simp]:
  "map fst (optional_member k x) = (if x = None then [] else [k])"
  "list_all (\<lambda>(k, v). P v) (optional_member k x) \<longleftrightarrow> (\<forall>v. x = Some v \<longrightarrow> P v)"
  "map_of (optional_member k x) l = (if l = k then x else None)"
  by (cases x; simp)+

lemma json_nullable_props [simp]:
  "(\<And>x. json_wf (f x)) \<Longrightarrow> json_wf (json_nullable f o')"
  "(\<And>x. json_clean (f x)) \<Longrightarrow> json_clean (json_nullable f o')"
  by (cases o'; simp)+

lemma list_all_mapped [simp]: "(\<And>x. P (f x)) \<Longrightarrow> list_all P (map f xs)"
  by (simp add: list_all_iff)

lemma leaf_json [simp]:
  "json_wf (json_source s)" "json_clean (json_source s)" "json_wf (json_nat n)" "json_clean (json_nat n)"
  by (simp_all add: json_source_def json_nat_def)

lemma record_json [simp]:
  "(\<And>v. json_wf (f v)) \<Longrightarrow> json_wf (context_json f c)" "(\<And>v. json_clean (f v)) \<Longrightarrow> json_clean (context_json f c)"
  "json_wf (evidence_artifact_json a)" "json_clean (evidence_artifact_json a)"
  "json_wf (finding_json fd)" "json_clean (finding_json fd)"
  "json_wf (evidence_override_json ov)" "json_clean (evidence_override_json ov)"
  "json_wf (evidence_log_json l)" "json_clean (evidence_log_json l)"
  "json_wf (evidence_review_json r)" "json_clean (evidence_review_json r)"
  "json_wf (subject_json sb)" "json_clean (subject_json sb)"
  by (auto simp: context_json_def evidence_artifact_json_def finding_json_def evidence_override_json_def
      evidence_log_json_def evidence_review_json_def subject_json_def)

lemma summary_json [simp]:
  "json_wf (evidence_pack_json p)" "json_clean (evidence_pack_json p)"
  "json_wf (evidence_decision_json d)" "json_clean (evidence_decision_json d)"
  "json_wf (evidence_token_json t)" "json_clean (evidence_token_json t)"
  by (auto simp: evidence_pack_json_def evidence_decision_json_def evidence_token_json_def)

lemma statement_json_ok [simp]:
  "json_wf (evidence_statement_json s)" "json_clean (evidence_statement_json s)"
  by (simp_all add: evidence_statement_json_def evidence_predicate_json_def)

lemma pack_members [simp]:
  "jget (evidence_pack_json p) ''id'' = Inr (JString (epk_id p))"
  "jget (evidence_pack_json p) ''outputHash'' = Inr (JString (epk_outputHash p))"
  "jget (evidence_pack_json p) ''consequenceHash'' = Inr (JString (epk_consequenceHash p))"
  "jget (evidence_pack_json p) ''policyVersion'' = Inr (JString (epk_policyVersion p))"
  "jget (evidence_pack_json p) ''policyHash'' = Inr (JString (epk_policyHash p))"
  "jget (evidence_pack_json p) ''policyIrHash'' = Inr (json_str_opt (epk_policyIrHash p))"
  "jget (evidence_pack_json p) ''policyProvenanceSource'' = Inr (json_source (epk_policyProvenanceSource p))"
  "jget (evidence_pack_json p) ''compiledPolicyIndexVersion'' = Inr (json_str_opt (epk_compiledPolicyIndexVersion p))"
  "jget (evidence_pack_json p) ''compiledPolicyIrVersion'' = Inr (json_str_opt (epk_compiledPolicyIrVersion p))"
  "jget (evidence_pack_json p) ''policyContext'' =
     Inr (nullish (map_option (context_json JString) (epk_policyContext p)) JUndefined)"
  by (simp_all add: evidence_pack_json_def)

lemma decision_members [simp]:
  "jget (evidence_decision_json d) ''id'' = Inr (JString (eds_id d))"
  "jget (evidence_decision_json d) ''status'' = Inr (JString (release_decision_status_str (eds_status d)))"
  "jget (evidence_decision_json d) ''consequenceType'' = Inr (JString (consequence_type_str (eds_consequenceType d)))"
  "jget (evidence_decision_json d) ''riskClass'' = Inr (JString (risk_class_str (eds_riskClass d)))"
  "jget (evidence_decision_json d) ''targetId'' = Inr (JString (eds_targetId d))"
  "jget (evidence_decision_json d) ''evidencePackId'' = Inr (JString (eds_evidencePackId d))"
  "jget (evidence_decision_json d) ''policyVersion'' = Inr (JString (eds_policyVersion d))"
  "jget (evidence_decision_json d) ''policyHash'' = Inr (JString (eds_policyHash d))"
  "jget (evidence_decision_json d) ''policyIrHash'' = Inr (json_str_opt (eds_policyIrHash d))"
  "jget (evidence_decision_json d) ''policyProvenanceSource'' = Inr (json_source (eds_policyProvenanceSource d))"
  "jget (evidence_decision_json d) ''compiledPolicyIndexVersion'' = Inr (json_str_opt (eds_compiledPolicyIndexVersion d))"
  "jget (evidence_decision_json d) ''compiledPolicyIrVersion'' = Inr (json_str_opt (eds_compiledPolicyIrVersion d))"
  "jget (evidence_decision_json d) ''policyContext'' =
     Inr (nullish (map_option (context_json JString) (eds_policyContext d)) JUndefined)"
  by (simp_all add: evidence_decision_json_def)

lemma token_members [simp]:
  "jget (evidence_token_json t) ''tokenId'' = Inr (JString (ets_tokenId t))"
  "jget (evidence_token_json t) ''policyVersion'' = Inr (json_str_opt (ets_policyVersion t))"
  "jget (evidence_token_json t) ''policyHash'' = Inr (JString (ets_policyHash t))"
  "jget (evidence_token_json t) ''policyIrHash'' = Inr (json_str_opt (ets_policyIrHash t))"
  "jget (evidence_token_json t) ''policyProvenanceSource'' = Inr (json_source (ets_policyProvenanceSource t))"
  "jget (evidence_token_json t) ''compiledPolicyIndexVersion'' = Inr (json_str_opt (ets_compiledPolicyIndexVersion t))"
  "jget (evidence_token_json t) ''compiledPolicyIrVersion'' = Inr (json_str_opt (ets_compiledPolicyIrVersion t))"
  "jget (evidence_token_json t) ''policyContext'' =
     Inr (nullish (map_option (context_json json_str_opt) (ets_policyContext t)) JUndefined)"
  by (simp_all add: evidence_token_json_def)

lemma statement_members [simp]:
  "jget (evidence_statement_json s) ''_type'' = Inr (JString (est_type s))"
  "jget (evidence_statement_json s) ''predicateType'' = Inr (JString (est_predicateType s))"
  "jget (evidence_statement_json s) ''subject'' = Inr (JArray (map subject_json (est_subject s)))"
  "jget (evidence_statement_json s) ''predicate'' = Inr (evidence_predicate_json (est_predicate s))"
  "jget (evidence_predicate_json q) ''evidencePack'' = Inr (evidence_pack_json (epd_evidencePack q))"
  "jget (evidence_predicate_json q) ''decision'' = Inr (evidence_decision_json (epd_decision q))"
  "jget (evidence_predicate_json q) ''releaseToken'' = Inr (json_nullable evidence_token_json (epd_releaseToken q))"
  "jget (evidence_predicate_json q) ''review'' = Inr (json_nullable evidence_review_json (epd_review q))"
  "jget (evidence_review_json r) ''reviewId'' = Inr (JString (ers_reviewId r))"
  "jget (subject_json b) ''name'' = Inr (JString (sbj_name b))"
  by (simp_all add: evidence_statement_json_def evidence_predicate_json_def evidence_review_json_def subject_json_def)

lemma subject_digest [simp]:
  "assertSubjectDigestMatches (subject_json b) n d = Inr () \<longleftrightarrow>
     sbj_name b = n \<and> sbj_sha256 b = stripSha256Prefix d"
  by (auto simp: assertSubjectDigestMatches_def subject_json_def Let_def)

lemma json_source_inject [simp]: "json_source a = json_source b \<longleftrightarrow> a = b"
proof -
  have "prov_source_str x = prov_source_str y \<longleftrightarrow> x = y" for x y by (cases x; cases y) simp_all
  then show ?thesis by (cases a; cases b) (auto simp: json_source_def)
qed

text \<open>The six policy members of a decision and a token, as a context.\<close>

definition decision_context :: "evidence_decision_summary \<Rightarrow> string evidence_policy_context" where
  "decision_context d =
     \<lparr> epc_policyVersion = eds_policyVersion d, epc_policyHash = eds_policyHash d,
       epc_policyIrHash = eds_policyIrHash d, epc_policyProvenanceSource = eds_policyProvenanceSource d,
       epc_compiledPolicyIndexVersion = eds_compiledPolicyIndexVersion d,
       epc_compiledPolicyIrVersion = eds_compiledPolicyIrVersion d \<rparr>"

definition token_context :: "evidence_token_summary \<Rightarrow> string option evidence_policy_context" where
  "token_context t =
     \<lparr> epc_policyVersion = ets_policyVersion t, epc_policyHash = ets_policyHash t,
       epc_policyIrHash = ets_policyIrHash t, epc_policyProvenanceSource = ets_policyProvenanceSource t,
       epc_compiledPolicyIndexVersion = ets_compiledPolicyIndexVersion t,
       epc_compiledPolicyIrVersion = ets_compiledPolicyIrVersion t \<rparr>"

lemma flat_fields [simp]:
  "flat_policy_fields (evidence_pack_json p) = Inr (context_json JString (buildEvidencePackPolicyContext p))"
  "flat_policy_fields (evidence_decision_json d) = Inr (context_json JString (decision_context d))"
  "flat_policy_fields (evidence_token_json t) = Inr (context_json json_str_opt (token_context t))"
  by (simp_all add: flat_policy_fields_def optional_policy_members_def context_json_def
      buildEvidencePackPolicyContext_def decision_context_def token_context_def)

lemma context_members [simp]:
  "jget (context_json f c) ''policyVersion'' = Inr (f (epc_policyVersion c))"
  "jget (context_json f c) ''policyHash'' = Inr (JString (epc_policyHash c))"
  "jget (context_json f c) ''policyIrHash'' = Inr (json_str_opt (epc_policyIrHash c))"
  "jget (context_json f c) ''policyProvenanceSource'' = Inr (json_source (epc_policyProvenanceSource c))"
  "jget (context_json f c) ''compiledPolicyIndexVersion'' = Inr (json_str_opt (epc_compiledPolicyIndexVersion c))"
  "jget (context_json f c) ''compiledPolicyIrVersion'' = Inr (json_str_opt (epc_compiledPolicyIrVersion c))"
  by (simp_all add: context_json_def)

lemma leaf_asserts [simp]:
  "assertNullableStringField (json_str_opt x) n = Inr ()" "json_or_null (json_str_opt x) = json_str_opt x"
  "js_differs (json_str_opt x) v \<longleftrightarrow> json_str_opt x \<noteq> v"
  by (cases x; simp)+

lemma source_asserts [simp]:
  "assertNullableStringField (json_source y) n = Inr ()" "json_or_null (json_source y) = json_source y"
  "js_differs (json_source y) v \<longleftrightarrow> json_source y \<noteq> v"
  by (simp_all add: json_source_def)

lemma context_asserts [simp]:
  "json_is_object (context_json f c)" "context_json f c \<noteq> JUndefined" "json_or_null (context_json f c) = context_json f c"
  "context_json f c \<noteq> JNull"
  by (simp_all add: context_json_def)

section \<open>Consistent statements\<close>

definition contexts_agree :: "evidence_statement \<Rightarrow> bool" where
  "contexts_agree st \<longleftrightarrow>
     (let q = est_predicate st; p = epd_evidencePack q; d = epd_decision q in
      (epk_policyContext p = None \<or> epk_policyContext p = Some (buildEvidencePackPolicyContext p)) \<and>
      (eds_policyContext d = None \<or> eds_policyContext d = Some (decision_context d)) \<and>
      (case epd_releaseToken q of
         None \<Rightarrow> True
       | Some t \<Rightarrow> ets_policyContext t = None \<or> ets_policyContext t = Some (token_context t)))"

definition summaries_agree :: "evidence_statement \<Rightarrow> bool" where
  "summaries_agree st \<longleftrightarrow>
     (let q = est_predicate st; p = epd_evidencePack q; d = epd_decision q in
      eds_evidencePackId d = epk_id p \<and> decision_context d = buildEvidencePackPolicyContext p)"

definition token_agrees :: "evidence_pack \<Rightarrow> evidence_token_summary option \<Rightarrow> bool" where
  "token_agrees p o' \<longleftrightarrow>
     (case o' of
        None \<Rightarrow> True
      | Some t \<Rightarrow> ets_policyVersion t = Some (epk_policyVersion p) \<and> ets_policyHash t = epk_policyHash p \<and>
          ets_policyIrHash t = epk_policyIrHash p \<and>
          ets_policyProvenanceSource t = epk_policyProvenanceSource p \<and>
          ets_compiledPolicyIndexVersion t = epk_compiledPolicyIndexVersion p \<and>
          ets_compiledPolicyIrVersion t = epk_compiledPolicyIrVersion p)"

definition subjects_agree :: "evidence_statement \<Rightarrow> bool" where
  "subjects_agree st \<longleftrightarrow>
     (let q = est_predicate st; p = epd_evidencePack q; d = epd_decision q in
      case est_subject st of
        a # b # _ \<Rightarrow>
          sbj_name a = ''release-output/'' @ eds_id d \<and> sbj_sha256 a = stripSha256Prefix (epk_outputHash p) \<and>
          sbj_name b = ''release-consequence/'' @ eds_targetId d \<and>
          sbj_sha256 b = stripSha256Prefix (epk_consequenceHash p)
      | _ \<Rightarrow> False)"

lemma context_checks_typed:
  "c = None \<or> c = Some flat \<Longrightarrow> x = nullish (map_option (context_json f) c) JUndefined \<Longrightarrow>
   (if json_or_null x = JNull then Inr (context_json f flat) else Inr x) = Inr (context_json f flat)"
  by auto

lemma string_version: "json_or_null (JString s) = JString s" by simp

lemma context_matches [simp]:
  "assertPolicyContextMatchesFields (context_json JString c) (context_json JString c) l = Inr ()"
  "assertPolicyContextMatchesFields (context_json json_str_opt e) (context_json json_str_opt e) l = Inr ()"
  by (simp_all add: assertPolicyContextMatchesFields_def)

lemma shape_typed [simp]:
  "assertReleaseEvidencePolicyContextShape (context_json JString c) n True = Inr ()"
  "assertReleaseEvidencePolicyContextShape (context_json json_str_opt e) n False = Inr ()"
  by (simp_all add: assertReleaseEvidencePolicyContextShape_def required_member_def nullable_member_def
      optional_policy_members_def)

lemma shapes_typed:
  assumes "contexts_agree st"
  shows "check_shapes (evidence_pack_json (epd_evidencePack (est_predicate st)))
      (evidence_decision_json (epd_decision (est_predicate st))) = Inr ()"
    "check_token_shape (json_nullable evidence_token_json (epd_releaseToken (est_predicate st))) = Inr ()"
proof -
  show "check_shapes (evidence_pack_json (epd_evidencePack (est_predicate st)))
      (evidence_decision_json (epd_decision (est_predicate st))) = Inr ()"
    using assms
    by (auto simp: contexts_agree_def Let_def check_shapes_def nullable_member_def optional_policy_members_def
        context_shape_if_present_def check_context_def context_or_fields_def)
  show "check_token_shape (json_nullable evidence_token_json (epd_releaseToken (est_predicate st))) = Inr ()"
  proof (cases "epd_releaseToken (est_predicate st)")
    case (Some t)
    have "json_or_null (evidence_token_json t) \<noteq> JNull" by (simp add: evidence_token_json_def)
    with Some assms show ?thesis
      by (auto simp: contexts_agree_def Let_def check_token_shape_def nullable_member_def optional_policy_members_def
          context_shape_if_present_def check_context_def context_or_fields_def)
  qed (simp add: check_token_shape_def)
qed

lemma summaries_typed:
  assumes "summaries_agree st"
  shows "check_summaries (evidence_pack_json (epd_evidencePack (est_predicate st)))
      (evidence_decision_json (epd_decision (est_predicate st)))
      (json_nullable evidence_token_json (epd_releaseToken (est_predicate st))) = Inr () \<longleftrightarrow>
    token_agrees (epd_evidencePack (est_predicate st)) (epd_releaseToken (est_predicate st))"
proof -
  have token: "json_or_null (evidence_token_json t) \<noteq> JNull" for t by (simp add: evidence_token_json_def)
  have version: "json_str_opt x = JString y \<longleftrightarrow> x = Some y" for x y by (cases x) simp_all
  show ?thesis
    using assms
    by (cases "epd_releaseToken (est_predicate st)")
      (auto simp: summaries_agree_def Let_def check_summaries_def policy_members_with_def decision_context_def
        buildEvidencePackPolicyContext_def token_agrees_def token version)
qed

lemma subjects_typed:
  assumes "subjects_agree st"
  shows "check_subjects (evidence_statement_json st) (evidence_pack_json (epd_evidencePack (est_predicate st)))
      (evidence_decision_json (epd_decision (est_predicate st))) = Inr ()"
proof -
  obtain a b rest where "est_subject st = a # b # rest"
    using assms by (auto simp: subjects_agree_def Let_def split: list.split_asm)
  with assms show ?thesis
    by (simp add: subjects_agree_def Let_def check_subjects_def)
qed

lemma consistency_typed:
  assumes "contexts_agree st" "summaries_agree st" "subjects_agree st"
  shows "assertPredicateInternalConsistency (evidence_statement_json st) = Inr () \<longleftrightarrow>
    token_agrees (epd_evidencePack (est_predicate st)) (epd_releaseToken (est_predicate st))"
  using summaries_typed [OF assms(2)]
  by (simp add: assertPredicateInternalConsistency_def shapes_typed [OF assms(1)] subjects_typed [OF assms(3)])

section \<open>Issued packs verify\<close>

text \<open>
  What is assumed of the host: decoding undoes encoding, a signature made with the private key
  verifies under the public key, and parsing the canonical text of the statement gives the
  statement up to the order of members.
\<close>

definition evidence_decoding :: "'z evidence_host_scheme \<Rightarrow> bool" where
  "evidence_decoding h \<longleftrightarrow>
     (\<forall>b. sih_fromBase64 h (sih_toBase64 h b) = b) \<and> (\<forall>s. sih_fromUtf8 h (sih_toUtf8 h s) = s)"

definition evidence_key_pair :: "'z evidence_host_scheme \<Rightarrow> string \<Rightarrow> string \<Rightarrow> bool" where
  "evidence_key_pair h privateKey publicKey \<longleftrightarrow>
     (\<forall>m sig. sih_sign h privateKey m = Inr sig \<longrightarrow> sih_verify h publicKey m sig = Inr True)"

definition parses_statement :: "'z evidence_host_scheme \<Rightarrow> evidence_statement \<Rightarrow> bool" where
  "parses_statement h st \<longleftrightarrow>
     (\<exists>w. evh_parse h (JSON_stringify (canon (evidence_statement_json st))) = Inr w \<and> json_wf w \<and>
       json_same (evidence_statement_json st) w)"

definition evidence_signed_text :: "'z evidence_host_scheme \<Rightarrow> evidence_statement \<Rightarrow> string" where
  "evidence_signed_text h st =
     dssePreAuthEncoding (signing_host.truncate h) RELEASE_EVIDENCE_PACK_DSSE_PAYLOAD_TYPE
       (sih_toUtf8 h (JSON_stringify (canon (evidence_statement_json st))))"

lemma jget_wf: "json_wf v \<Longrightarrow> jget v k = Inr a \<Longrightarrow> json_wf a"
proof (cases v)
  case (JObject kvs)
  assume "json_wf v" "jget v k = Inr a"
  with JObject show ?thesis by (cases "map_of kvs k") (auto dest: map_of_member_wf)
qed auto

lemma canonicalEqual_same:
  "json_same v w \<Longrightarrow> json_wf v \<Longrightarrow> json_wf w \<Longrightarrow> canonicalizeReleaseJson v = Inr t \<Longrightarrow> canonicalEqual w v = Inr True"
  using canonical_text_same [of v w t] by (simp add: canonicalEqual_def)

lemma fold_max_member: "x \<in> set xs \<Longrightarrow> x \<le> fold max xs (0 :: nat)"
  by (rule bspec [OF conjunct2 [OF iffD1 [OF fold_max_le order_refl]]])

lemma canonical_pack:
  assumes "canonicalizeReleaseJson (evidence_statement_json st) = Inr t"
  shows "\<exists>u. canonicalizeReleaseJson (evidence_pack_json (epd_evidencePack (est_predicate st))) = Inr u"
proof -
  have "json_nodes (evidence_pack_json (epd_evidencePack (est_predicate st))) \<le> json_nodes (evidence_statement_json st)"
    by (simp add: evidence_statement_json_def evidence_predicate_json_def)
  moreover have "Suc (json_depth (evidence_predicate_json (est_predicate st))) \<le> json_depth (evidence_statement_json st)"
    unfolding evidence_statement_json_def json_depth.simps by (rule fold_max_member) simp
  moreover have "Suc (json_depth (evidence_pack_json (epd_evidencePack (est_predicate st)))) \<le>
      json_depth (evidence_predicate_json (est_predicate st))"
    unfolding evidence_predicate_json_def json_depth.simps by (rule fold_max_member) simp
  ultimately show ?thesis using assms by (auto simp: canonicalizeReleaseJson_eq_Inr)
qed

lemma signed_fields:
  assumes "sign_statement h inp key pack st issuedAt = Inr issued"
  obtains t signature where "canonicalizeReleaseJson (evidence_statement_json st) = Inr t"
    "sih_sign h (eis_privateKeyPem inp) (evidence_signed_text h st) = Inr signature"
    "iep_evidencePack issued = pack" "iep_statement issued = st" "iep_verificationKey issued = key"
    "iep_envelope issued = \<lparr> dse_payloadType = RELEASE_EVIDENCE_PACK_DSSE_PAYLOAD_TYPE,
       dse_payload = sih_toBase64 h (sih_toUtf8 h (JSON_stringify (canon (evidence_statement_json st)))),
       dse_signatures = [\<lparr> dsg_keyid = evk_keyId key, dsg_sig = sih_toBase64 h signature \<rparr>] \<rparr>"
    "buildBundleDigest h pack st (iep_envelope issued) key (iep_issuedAt issued) (iep_keyId issued)
       (iep_publicKeyFingerprint issued) = Inr (iep_bundleDigest issued)"
  using assms
  by (auto simp: sign_statement_def Let_def evidence_signed_text_def canonicalizeReleaseJson_eq_Inr)

lemma optional_read_same:
  "json_same v w \<Longrightarrow> optional_read v k = Inr (json_str_opt x) \<Longrightarrow> optional_read w k = Inr (json_str_opt x)"
proof -
  assume same: "json_same v w" and read: "optional_read v k = Inr (json_str_opt x)"
  have scalar: "json_same (json_str_opt x) b \<Longrightarrow> b = json_str_opt x" for b by (cases x) (auto simp: json_same_simps)
  show ?thesis
  proof (cases "json_or_null v = JNull")
    case True
    with same read show ?thesis by (simp add: optional_read_def json_or_null_JNull_same [OF same, symmetric])
  next
    case False
    with read obtain a where a: "jget v k = Inr a" "json_or_null a = json_str_opt x"
      by (auto simp: optional_read_def)
    obtain b where b: "jget w k = Inr b" "json_same a b" by (rule jget_same_Inr [OF same a(1)])
    have "json_or_null b = json_str_opt x" using json_or_null_same [OF b(2)] scalar a(2) by simp
    with False b(1) show ?thesis
      by (simp add: optional_read_def json_or_null_JNull_same [OF same, symmetric])
  qed
qed

lemma optional_reads [simp]:
  "optional_read (json_nullable evidence_token_json o') ''tokenId'' = Inr (json_str_opt (map_option ets_tokenId o'))"
  "optional_read (json_nullable evidence_review_json r') ''reviewId'' = Inr (json_str_opt (map_option ers_reviewId r'))"
proof -
  have present: "json_or_null (evidence_token_json t) \<noteq> JNull" "json_or_null (evidence_review_json r) \<noteq> JNull" for t r
    by (simp_all add: evidence_token_json_def evidence_review_json_def)
  show "optional_read (json_nullable evidence_token_json o') ''tokenId'' = Inr (json_str_opt (map_option ets_tokenId o'))"
    "optional_read (json_nullable evidence_review_json r') ''reviewId'' = Inr (json_str_opt (map_option ers_reviewId r'))"
    by (cases o'; simp add: optional_read_def present) (cases r'; simp add: optional_read_def present)
qed

text \<open>What verification reports when the parsed payload is the statement of the pack.\<close>

lemma outcome_same:
  assumes "json_same (evidence_statement_json st) w"
  shows "\<exists>r. verification_outcome pack signature w = Inr r \<and> evv_valid r \<and>
    evv_decisionId r = JString (eds_id (epd_decision (est_predicate st))) \<and>
    evv_decisionStatus r = JString (release_decision_status_str (eds_status (epd_decision (est_predicate st)))) \<and>
    evv_evidencePackId r = epk_id (iep_evidencePack pack) \<and>
    evv_outputHash r = epk_outputHash (iep_evidencePack pack) \<and>
    evv_consequenceHash r = epk_consequenceHash (iep_evidencePack pack) \<and>
    evv_policyHash r = epk_policyHash (iep_evidencePack pack) \<and>
    evv_releaseTokenId r = json_str_opt (map_option ets_tokenId (epd_releaseToken (est_predicate st))) \<and>
    evv_reviewId r = json_str_opt (map_option ers_reviewId (epd_review (est_predicate st))) \<and>
    evv_bundleDigest r = iep_bundleDigest pack"
proof -
  obtain q where q: "jget w ''predicate'' = Inr q" "json_same (evidence_predicate_json (est_predicate st)) q"
    by (rule jget_same_Inr [OF assms statement_members(4)])
  obtain d where d: "jget q ''decision'' = Inr d" "json_same (evidence_decision_json (epd_decision (est_predicate st))) d"
    by (rule jget_same_Inr [OF q(2) statement_members(6)])
  obtain t where t: "jget q ''releaseToken'' = Inr t"
    "json_same (json_nullable evidence_token_json (epd_releaseToken (est_predicate st))) t"
    by (rule jget_same_Inr [OF q(2) statement_members(7)])
  obtain v where v: "jget q ''review'' = Inr v"
    "json_same (json_nullable evidence_review_json (epd_review (est_predicate st))) v"
    by (rule jget_same_Inr [OF q(2) statement_members(8)])
  obtain b where b: "jget w ''subject'' = Inr b" by (rule jget_same_Inr [OF assms statement_members(3)])
  note texts = jget_same_string [OF d(2) decision_members(1)] jget_same_string [OF d(2) decision_members(2)]
    jget_same_string [OF d(2) decision_members(3)] jget_same_string [OF d(2) decision_members(4)]
    jget_same_string [OF assms statement_members(2)]
  show ?thesis
    by (simp add: verification_outcome_def Let_def q(1) d(1) t(1) v(1) b texts
        optional_read_same [OF t(2) optional_reads(1)] optional_read_same [OF v(2) optional_reads(2)])
qed

lemma check_statement_same:
  assumes "json_same (evidence_statement_json st) w" "json_wf w" "iep_statement pack = st"
    and "iep_evidencePack pack = epd_evidencePack (est_predicate st)"
    and "canonicalizeReleaseJson (evidence_statement_json st) = Inr t"
    and "est_type st = RELEASE_EVIDENCE_PACK_STATEMENT_TYPE" "est_predicateType st = RELEASE_EVIDENCE_PACK_PREDICATE_TYPE"
    and "contexts_agree st" "summaries_agree st" "subjects_agree st"
    and "buildBundleDigest h (iep_evidencePack pack) st (iep_envelope pack) (iep_verificationKey pack)
      (iep_issuedAt pack) (iep_keyId pack) (iep_publicKeyFingerprint pack) = Inr (iep_bundleDigest pack)"
  shows "check_statement h pack w = Inr () \<longleftrightarrow> token_agrees (iep_evidencePack pack) (epd_releaseToken (est_predicate st))"
proof -
  obtain q where q: "jget w ''predicate'' = Inr q" "json_same (evidence_predicate_json (est_predicate st)) q"
    by (rule jget_same_Inr [OF assms(1) statement_members(4)])
  obtain e where e: "jget q ''evidencePack'' = Inr e" "json_same (evidence_pack_json (iep_evidencePack pack)) e"
    unfolding assms(4) by (rule jget_same_Inr [OF q(2) statement_members(5)])
  obtain b where b: "jget w ''subject'' = Inr b" "json_same (JArray (map subject_json (est_subject st))) b"
    by (rule jget_same_Inr [OF assms(1) statement_members(3)])
  obtain u where u: "canonicalizeReleaseJson (evidence_pack_json (iep_evidencePack pack)) = Inr u"
    using canonical_pack [OF assms(5)] assms(4) by auto
  have "json_wf e" using jget_wf [OF jget_wf [OF assms(2) q(1)] e(1)] .
  then have equal: "canonicalEqual w (evidence_statement_json st) = Inr True"
      "canonicalEqual e (evidence_pack_json (iep_evidencePack pack)) = Inr True"
    using canonicalEqual_same [OF assms(1) _ assms(2,5)] canonicalEqual_same [OF e(2) _ _ u] by simp_all
  have len: "\<not> array_length b < 2"
    using assms(10) asserts_same(5) [OF b(2)] by (auto simp: subjects_agree_def Let_def split: list.split_asm)
  have "assertPredicateInternalConsistency w = Inr () \<longleftrightarrow>
      token_agrees (iep_evidencePack pack) (epd_releaseToken (est_predicate st))"
    using consistency_typed [OF assms(8-10)] consistency_same [OF assms(1)] assms(4) by simp
  then show ?thesis
    using assms(11)
    by (auto simp: check_statement_def assms(3,6,7) equal q(1) e(1) b(1) len
        jget_same_string [OF assms(1) statement_members(1)] jget_same_string [OF assms(1) statement_members(2)]
        jget_same_string [OF e(2) pack_members(1)])
qed

lemma issued_consistent:
  assumes "issue_evidence_pack h inp key ii = Inr issued"
  shows "\<exists>pack st ts. sign_statement h inp key pack st ts = Inr issued \<and> pack = epd_evidencePack (est_predicate st) \<and>
    est_type st = RELEASE_EVIDENCE_PACK_STATEMENT_TYPE \<and> est_predicateType st = RELEASE_EVIDENCE_PACK_PREDICATE_TYPE \<and>
    contexts_agree st \<and> summaries_agree st \<and> subjects_agree st \<and>
    epd_releaseToken (est_predicate st) = summarizeReleaseToken (eii_releaseToken ii) \<and>
    eds_id (epd_decision (est_predicate st)) = dec_id (eii_decision ii) \<and>
    eds_status (epd_decision (est_predicate st)) = dec_status (eii_decision ii) \<and>
    epk_outputHash pack = dec_outputHash (eii_decision ii) \<and>
    epk_consequenceHash pack = dec_consequenceHash (eii_decision ii) \<and>
    buildEvidencePackPolicyContext pack = buildDecisionPolicyContext (eii_decision ii)"
proof -
  have snap: "buildDecisionPolicyContext (decision_snapshot ii k) = buildDecisionPolicyContext (eii_decision ii)"
      "dec_id (decision_snapshot ii k) = dec_id (eii_decision ii)"
      "dec_status (decision_snapshot ii k) = dec_status (eii_decision ii)"
      "dec_target (decision_snapshot ii k) = dec_target (eii_decision ii)"
      "dec_outputHash (decision_snapshot ii k) = dec_outputHash (eii_decision ii)"
      "dec_consequenceHash (decision_snapshot ii k) = dec_consequenceHash (eii_decision ii)" for k
    by (simp_all add: buildDecisionPolicyContext_def decision_snapshot_def Let_def)
  have eta: "\<lparr> epc_policyVersion = epc_policyVersion c, epc_policyHash = epc_policyHash c,
      epc_policyIrHash = epc_policyIrHash c, epc_policyProvenanceSource = epc_policyProvenanceSource c,
      epc_compiledPolicyIndexVersion = epc_compiledPolicyIndexVersion c,
      epc_compiledPolicyIrVersion = epc_compiledPolicyIrVersion c \<rparr> = c" for c :: "string evidence_policy_context"
    by simp
  obtain ts artifacts where ts: "sign_statement h inp key
      (buildEvidencePack (decision_snapshot ii (nullish (eii_evidencePackId ii) (''ep_'' @ evh_uuid h)))
        (nullish (eii_evidencePackId ii) (''ep_'' @ evh_uuid h)) artifacts)
      (buildStatement (decision_snapshot ii (nullish (eii_evidencePackId ii) (''ep_'' @ evh_uuid h)))
        (buildEvidencePack (decision_snapshot ii (nullish (eii_evidencePackId ii) (''ep_'' @ evh_uuid h)))
          (nullish (eii_evidencePackId ii) (''ep_'' @ evh_uuid h)) artifacts)
        (summarizeDecisionLog (own_log_entries ii) (eii_decisionLogChainIntact ii))
        (summarizeReview (eii_review ii)) (summarizeReleaseToken (eii_releaseToken ii)) ts) ts = Inr issued"
    using assms by (auto simp: issue_evidence_pack_def Let_def)
  show ?thesis
    by (intro exI conjI, rule ts)
      (simp_all add: buildStatement_def buildEvidencePack_def contexts_agree_def summaries_agree_def
        subjects_agree_def summarizeDecision_def decision_context_def buildEvidencePackPolicyContext_def
        snap eta summarizeReleaseToken_def token_context_def Let_def split: option.split)
qed

lemma signed_verifies:
  assumes "evidence_decoding h" "evidence_key_pair h (eis_privateKeyPem inp) (evk_publicKeyPem key)"
    and "sign_statement h inp key pack st ts = Inr issued" "pack = epd_evidencePack (est_predicate st)"
    and "est_type st = RELEASE_EVIDENCE_PACK_STATEMENT_TYPE" "est_predicateType st = RELEASE_EVIDENCE_PACK_PREDICATE_TYPE"
    and "contexts_agree st" "summaries_agree st" "subjects_agree st" "parses_statement h st"
  shows "(\<exists>r. verifyIssuedReleaseEvidencePack h issued (Some key) = Inr r) \<longleftrightarrow>
      token_agrees pack (epd_releaseToken (est_predicate st))"
    "verifyIssuedReleaseEvidencePack h issued (Some key) = Inr r \<Longrightarrow>
      verification_outcome issued (hd (dse_signatures (iep_envelope issued)))
        (projr (evh_parse h (JSON_stringify (canon (evidence_statement_json st))))) = Inr r"
proof -
  obtain t signature where s: "canonicalizeReleaseJson (evidence_statement_json st) = Inr t"
    "sih_sign h (eis_privateKeyPem inp) (evidence_signed_text h st) = Inr signature"
    "iep_evidencePack issued = pack" "iep_statement issued = st" "iep_verificationKey issued = key"
    "iep_envelope issued = \<lparr> dse_payloadType = RELEASE_EVIDENCE_PACK_DSSE_PAYLOAD_TYPE,
       dse_payload = sih_toBase64 h (sih_toUtf8 h (JSON_stringify (canon (evidence_statement_json st)))),
       dse_signatures = [\<lparr> dsg_keyid = evk_keyId key, dsg_sig = sih_toBase64 h signature \<rparr>] \<rparr>"
    "buildBundleDigest h pack st (iep_envelope issued) key (iep_issuedAt issued) (iep_keyId issued)
       (iep_publicKeyFingerprint issued) = Inr (iep_bundleDigest issued)"
    by (rule signed_fields [OF assms(3)])
  obtain w where w: "evh_parse h (JSON_stringify (canon (evidence_statement_json st))) = Inr w" "json_wf w"
      "json_same (evidence_statement_json st) w"
    using assms(10) unfolding parses_statement_def by blast
  have valid: "sih_verify h (evk_publicKeyPem key) (evidence_signed_text h st) signature = Inr True"
    using assms(2) s(2) unfolding evidence_key_pair_def by blast
  have decode: "sih_fromBase64 h (sih_toBase64 h b) = b" "sih_fromUtf8 h (sih_toUtf8 h u) = u" for b u
    using assms(1) by (simp_all add: evidence_decoding_def)
  have verify: "verifyIssuedReleaseEvidencePack h issued (Some key) =
      rbind (check_statement h issued w) (\<lambda>_. verification_outcome issued (hd (dse_signatures (iep_envelope issued))) w)"
    using valid w(1)
    by (simp add: verifyIssuedReleaseEvidencePack_def s(6) decode Let_def evidence_signed_text_def)
  have "check_statement h issued w = Inr () \<longleftrightarrow> token_agrees pack (epd_releaseToken (est_predicate st))"
    using check_statement_same [OF w(3,2) s(4) _ s(1) assms(5-9), of h] assms(4) s(3,5,7) by simp
  then show "(\<exists>r. verifyIssuedReleaseEvidencePack h issued (Some key) = Inr r) \<longleftrightarrow>
      token_agrees pack (epd_releaseToken (est_predicate st))"
    unfolding verify using outcome_same [OF w(3)] by auto
  show "verifyIssuedReleaseEvidencePack h issued (Some key) = Inr r \<Longrightarrow>
      verification_outcome issued (hd (dse_signatures (iep_envelope issued)))
        (projr (evh_parse h (JSON_stringify (canon (evidence_statement_json st))))) = Inr r"
    unfolding verify w(1) by auto
qed

definition token_policy_agrees :: "release_decision \<Rightarrow> issued_release_token \<Rightarrow> bool" where
  "token_policy_agrees decision t \<longleftrightarrow>
     (let c = buildTokenPolicyContext t; d = buildDecisionPolicyContext decision in
      epc_policyVersion c = Some (epc_policyVersion d) \<and> epc_policyHash c = epc_policyHash d \<and>
      epc_policyIrHash c = epc_policyIrHash d \<and>
      epc_policyProvenanceSource c = epc_policyProvenanceSource d \<and>
      epc_compiledPolicyIndexVersion c = epc_compiledPolicyIndexVersion d \<and>
      epc_compiledPolicyIrVersion c = epc_compiledPolicyIrVersion d)"

lemma token_agrees_iff:
  assumes "buildEvidencePackPolicyContext pack = buildDecisionPolicyContext decision"
  shows "token_agrees pack (summarizeReleaseToken o') \<longleftrightarrow>
    (case o' of None \<Rightarrow> True | Some t \<Rightarrow> token_policy_agrees decision t)"
proof -
  have "epc_policyVersion (buildDecisionPolicyContext decision) = epk_policyVersion pack"
    "epc_policyHash (buildDecisionPolicyContext decision) = epk_policyHash pack"
    "epc_policyIrHash (buildDecisionPolicyContext decision) = epk_policyIrHash pack"
    "epc_policyProvenanceSource (buildDecisionPolicyContext decision) = epk_policyProvenanceSource pack"
    "epc_compiledPolicyIndexVersion (buildDecisionPolicyContext decision) = epk_compiledPolicyIndexVersion pack"
    "epc_compiledPolicyIrVersion (buildDecisionPolicyContext decision) = epk_compiledPolicyIrVersion pack"
    unfolding assms [symmetric] by (simp_all add: buildEvidencePackPolicyContext_def)
  then show ?thesis
    by (simp add: token_agrees_def summarizeReleaseToken_def token_policy_agrees_def Let_def split: option.split)
qed

text \<open>
  C29: An issued evidence pack verifies under the exported key exactly when its token, if there is
  one, was issued under the policy of the decision; then verification reports the decision, its
  hashes and its policy. (The issuer does not compare the token with the decision, so a pack with
  the token of another policy is issued and never verifies.)
\<close>

theorem issued_evidence_verifies:
  assumes "evidence_decoding h" "evidence_key_pair h (eis_privateKeyPem inp) (eis_publicKeyPem inp)"
    and "createReleaseEvidencePackIssuer h inp = Inr key" "issue_evidence_pack h inp key ii = Inr issued"
    and "parses_statement h (iep_statement issued)"
  shows "((\<exists>r. verifyIssuedReleaseEvidencePack h issued (Some key) = Inr r) \<longleftrightarrow>
      (case eii_releaseToken ii of None \<Rightarrow> True | Some t \<Rightarrow> token_policy_agrees (eii_decision ii) t)) \<and>
    (\<forall>r. verifyIssuedReleaseEvidencePack h issued (Some key) = Inr r \<longrightarrow>
      evv_decisionId r = JString (dec_id (eii_decision ii)) \<and>
      evv_decisionStatus r = JString (release_decision_status_str (dec_status (eii_decision ii))) \<and>
      evv_outputHash r = dec_outputHash (eii_decision ii) \<and>
      evv_consequenceHash r = dec_consequenceHash (eii_decision ii) \<and>
      evv_policyHash r = dec_policyHash (eii_decision ii) \<and>
      evv_releaseTokenId r = json_str_opt (map_option irt_tokenId (eii_releaseToken ii)))"
proof -
  obtain pack st ts where st: "sign_statement h inp key pack st ts = Inr issued"
    "pack = epd_evidencePack (est_predicate st)"
    "est_type st = RELEASE_EVIDENCE_PACK_STATEMENT_TYPE" "est_predicateType st = RELEASE_EVIDENCE_PACK_PREDICATE_TYPE"
    "contexts_agree st" "summaries_agree st" "subjects_agree st"
    and f: "epd_releaseToken (est_predicate st) = summarizeReleaseToken (eii_releaseToken ii)"
    "eds_id (epd_decision (est_predicate st)) = dec_id (eii_decision ii)"
    "eds_status (epd_decision (est_predicate st)) = dec_status (eii_decision ii)"
    "epk_outputHash pack = dec_outputHash (eii_decision ii)"
    "epk_consequenceHash pack = dec_consequenceHash (eii_decision ii)"
    "buildEvidencePackPolicyContext pack = buildDecisionPolicyContext (eii_decision ii)"
    using issued_consistent [OF assms(4)] by blast
  have same: "iep_statement issued = st" "iep_evidencePack issued = pack"
    by (rule signed_fields [OF st(1)], simp)+
  have pem: "evk_publicKeyPem key = eis_publicKeyPem inp"
    using assms(3) by (auto simp: createReleaseEvidencePackIssuer_def)
  have parse: "parses_statement h st" using assms(5) unfolding same .
  note v = signed_verifies [OF assms(1) assms(2) [folded pem] st parse]
  obtain w where w: "evh_parse h (JSON_stringify (canon (evidence_statement_json st))) = Inr w"
      "json_same (evidence_statement_json st) w"
    using parse unfolding parses_statement_def by blast
  have hash: "epk_policyHash pack = dec_policyHash (eii_decision ii)"
    using arg_cong [OF f(6), of epc_policyHash]
    by (simp add: buildEvidencePackPolicyContext_def buildDecisionPolicyContext_def Let_def)
  have ids: "map_option ets_tokenId (summarizeReleaseToken x) = map_option irt_tokenId x" for x
    by (simp add: summarizeReleaseToken_def option.map_comp comp_def Let_def)
  show ?thesis
    using v(1) v(2) outcome_same [OF w(2), of issued "hd (dse_signatures (iep_envelope issued))"]
    unfolding f(1) token_agrees_iff [OF f(6)]
    by (auto simp: w(1) f(2-5) ids same hash)
qed

section \<open>Verified packs are authentic\<close>

lemma verified_eq_Inr:
  assumes "verifyIssuedReleaseEvidencePack h issued (Some key) = Inr r"
  obtains signature :: dsse_signature and w where
    "sih_verify h (evk_publicKeyPem key)
       (dssePreAuthEncoding (signing_host.truncate h) (dse_payloadType (iep_envelope issued))
         (sih_fromBase64 h (dse_payload (iep_envelope issued))))
       (sih_fromBase64 h (dsg_sig signature)) = Inr True"
    "evh_parse h (sih_fromUtf8 h (sih_fromBase64 h (dse_payload (iep_envelope issued)))) = Inr w"
    "check_statement h issued w = Inr ()" "verification_outcome issued signature w = Inr r"
proof (cases "dse_signatures (iep_envelope issued)")
  case Nil
  with assms show ?thesis by (simp add: verifyIssuedReleaseEvidencePack_def Let_def)
next
  case (Cons signature rest)
  let ?payload = "sih_fromBase64 h (dse_payload (iep_envelope issued))"
  have valid: "sih_verify h (evk_publicKeyPem key)
      (dssePreAuthEncoding (signing_host.truncate h) (dse_payloadType (iep_envelope issued)) ?payload)
      (sih_fromBase64 h (dsg_sig signature)) = Inr True"
    using assms Cons by (auto simp: verifyIssuedReleaseEvidencePack_def Let_def split: if_split_asm)
  with assms Cons obtain w where "evh_parse h (sih_fromUtf8 h ?payload) = Inr w"
    "check_statement h issued w = Inr ()" "verification_outcome issued signature w = Inr r"
    by (auto simp: verifyIssuedReleaseEvidencePack_def Let_def)
  with valid show ?thesis by (rule that)
qed

lemma checked_statement:
  assumes "check_statement h pack w = Inr ()"
  obtains q e where "canonicalEqual w (evidence_statement_json (iep_statement pack)) = Inr True"
    "jget w ''predicate'' = Inr q" "jget q ''evidencePack'' = Inr e"
    "canonicalEqual e (evidence_pack_json (iep_evidencePack pack)) = Inr True"
    "assertPredicateInternalConsistency w = Inr ()"
proof (rule that)
  show "canonicalEqual w (evidence_statement_json (iep_statement pack)) = Inr True"
    using assms by (auto simp: check_statement_def split: if_split_asm)
  obtain q where q: "jget w ''predicate'' = Inr q"
    using assms by (auto simp: check_statement_def split: if_split_asm)
  then obtain e where e: "jget q ''evidencePack'' = Inr e"
    using assms by (auto simp: check_statement_def split: if_split_asm)
  show "jget w ''predicate'' = Inr (projr (jget w ''predicate''))" using q by simp
  show "jget (projr (jget w ''predicate'')) ''evidencePack'' =
      Inr (projr (jget (projr (jget w ''predicate'')) ''evidencePack''))" using q e by simp
  show "canonicalEqual (projr (jget (projr (jget w ''predicate'')) ''evidencePack''))
      (evidence_pack_json (iep_evidencePack pack)) = Inr True"
    using assms q e by (auto simp: check_statement_def split: if_split_asm)
  show "assertPredicateInternalConsistency w = Inr ()"
    using assms by (auto simp: check_statement_def split: if_split_asm)
qed

lemma canonicalEqual_True:
  "canonicalEqual v w = Inr True \<longleftrightarrow> (\<exists>t. canonicalizeReleaseJson v = Inr t \<and> canonicalizeReleaseJson w = Inr t)"
  by (auto simp: canonicalEqual_def)

lemma canonicalEqual_json_same:
  "canonicalEqual v w = Inr True \<Longrightarrow> json_wf v \<Longrightarrow> json_wf w \<Longrightarrow> json_same v w"
  by (auto simp: canonicalEqual_True) (use canonical_text_same in blast)

lemma consistent_summaries:
  assumes "assertPredicateInternalConsistency (evidence_statement_json st) = Inr ()"
  shows "eds_evidencePackId (epd_decision (est_predicate st)) = epk_id (epd_evidencePack (est_predicate st))"
    "eds_policyHash (epd_decision (est_predicate st)) = epk_policyHash (epd_evidencePack (est_predicate st))"
    "epd_releaseToken (est_predicate st) = Some t \<Longrightarrow> ets_policyHash t = epk_policyHash (epd_evidencePack (est_predicate st))"
proof -
  let ?p = "epd_evidencePack (est_predicate st)" and ?d = "epd_decision (est_predicate st)"
  have c: "check_summaries (evidence_pack_json ?p) (evidence_decision_json ?d)
      (json_nullable evidence_token_json (epd_releaseToken (est_predicate st))) = Inr ()"
    using assms by (auto simp: assertPredicateInternalConsistency_def)
  then show "eds_evidencePackId ?d = epk_id ?p" "eds_policyHash ?d = epk_policyHash ?p"
    by (auto simp: check_summaries_def policy_members_with_def split: if_split_asm)
  have "json_or_null (evidence_token_json t) \<noteq> JNull" by (simp add: evidence_token_json_def)
  then show "epd_releaseToken (est_predicate st) = Some t \<Longrightarrow> ets_policyHash t = epk_policyHash ?p"
    using c by (auto simp: check_summaries_def policy_members_with_def split: if_split_asm)
qed

lemma consistent_subjects:
  assumes "assertPredicateInternalConsistency (evidence_statement_json st) = Inr ()"
  shows "subjects_agree st"
proof -
  have c: "check_subjects (evidence_statement_json st) (evidence_pack_json (epd_evidencePack (est_predicate st)))
      (evidence_decision_json (epd_decision (est_predicate st))) = Inr ()"
    using assms by (auto simp: assertPredicateInternalConsistency_def)
  have undefined: "assertSubjectDigestMatches JUndefined n d \<noteq> Inr ()" for n d
    by (simp add: assertSubjectDigestMatches_def Let_def)
  show ?thesis
  proof (cases "est_subject st")
    case Nil
    with c undefined show ?thesis by (auto simp: check_subjects_def)
  next
    case (Cons a rest)
    with c undefined show ?thesis
      by (cases rest) (auto simp: check_subjects_def subjects_agree_def Let_def)
  qed
qed

text \<open>What a verifying signature says about the payload, and what its checks say about the pack.\<close>

lemma verified_payload:
  assumes "evidence_decoding h" "\<forall>st\<in>signed. parses_statement h st"
    and "\<forall>m sig. sih_verify h (evk_publicKeyPem key) m sig = Inr True \<longrightarrow> (\<exists>st\<in>signed. m = evidence_signed_text h st)"
    and "verifyIssuedReleaseEvidencePack h issued (Some key) = Inr r"
  obtains st signature w where "st \<in> signed" "json_wf w" "json_same (evidence_statement_json st) w"
    "check_statement h issued w = Inr ()" "verification_outcome issued signature w = Inr r"
proof -
  let ?payload = "sih_fromBase64 h (dse_payload (iep_envelope issued))"
  obtain signature :: dsse_signature and w where v: "sih_verify h (evk_publicKeyPem key)
       (dssePreAuthEncoding (signing_host.truncate h) (dse_payloadType (iep_envelope issued)) ?payload)
       (sih_fromBase64 h (dsg_sig signature)) = Inr True"
    "evh_parse h (sih_fromUtf8 h ?payload) = Inr w" "check_statement h issued w = Inr ()"
    "verification_outcome issued signature w = Inr r"
    by (rule verified_eq_Inr [OF assms(4)])
  obtain st where st: "st \<in> signed" "dssePreAuthEncoding (signing_host.truncate h)
      (dse_payloadType (iep_envelope issued)) ?payload = evidence_signed_text h st"
    using assms(3) v(1) by blast
  have "?payload = sih_toUtf8 h (JSON_stringify (canon (evidence_statement_json st)))"
    using dsse_encoding_inject [OF st(2) [unfolded evidence_signed_text_def]] by blast
  then have "evh_parse h (JSON_stringify (canon (evidence_statement_json st))) = Inr w"
    using v(2) assms(1) by (simp add: evidence_decoding_def)
  moreover have "parses_statement h st" using assms(2) st(1) by blast
  ultimately have "json_wf w" "json_same (evidence_statement_json st) w"
    unfolding parses_statement_def by auto
  with st(1) show ?thesis using v(3,4) by (rule that)
qed

lemma canon_same:
  "json_same v w \<Longrightarrow> json_same w u \<Longrightarrow> json_wf v \<Longrightarrow> json_wf w \<Longrightarrow> json_wf u \<Longrightarrow> json_same v u"
  using canon_eq_iff_same [of v w] canon_eq_iff_same [of w u] canon_eq_iff_same [of v u] by simp

lemma checked_same:
  assumes "json_wf w" "json_same (evidence_statement_json st) w" "check_statement h issued w = Inr ()"
  shows "json_same (evidence_statement_json st) (evidence_statement_json (iep_statement issued))"
    "assertPredicateInternalConsistency (evidence_statement_json st) = Inr ()"
    "epk_id (epd_evidencePack (est_predicate st)) = epk_id (iep_evidencePack issued)"
    "epk_outputHash (epd_evidencePack (est_predicate st)) = epk_outputHash (iep_evidencePack issued)"
    "epk_consequenceHash (epd_evidencePack (est_predicate st)) = epk_consequenceHash (iep_evidencePack issued)"
    "epk_policyHash (epd_evidencePack (est_predicate st)) = epk_policyHash (iep_evidencePack issued)"
proof -
  obtain q e where c: "canonicalEqual w (evidence_statement_json (iep_statement issued)) = Inr True"
    "jget w ''predicate'' = Inr q" "jget q ''evidencePack'' = Inr e"
    "canonicalEqual e (evidence_pack_json (iep_evidencePack issued)) = Inr True"
    "assertPredicateInternalConsistency w = Inr ()"
    by (rule checked_statement [OF assms(3)])
  show "assertPredicateInternalConsistency (evidence_statement_json st) = Inr ()"
    using consistency_same [OF assms(2)] c(5) by simp
  have "json_same w (evidence_statement_json (iep_statement issued))"
    by (rule canonicalEqual_json_same [OF c(1) assms(1)]) simp
  with assms(2) show "json_same (evidence_statement_json st) (evidence_statement_json (iep_statement issued))"
    by (rule canon_same) (simp_all add: assms(1))
  obtain q' where q': "jget w ''predicate'' = Inr q'" "json_same (evidence_predicate_json (est_predicate st)) q'"
    by (rule jget_same_Inr [OF assms(2) statement_members(4)])
  obtain e' where e': "jget q' ''evidencePack'' = Inr e'"
      "json_same (evidence_pack_json (epd_evidencePack (est_predicate st))) e'"
    by (rule jget_same_Inr [OF q'(2) statement_members(5)])
  have ee: "e' = e" using q'(1) e'(1) c(2,3) by simp
  have "json_wf e" using jget_wf [OF jget_wf [OF assms(1) c(2)] c(3)] .
  then have pack: "json_same e (evidence_pack_json (iep_evidencePack issued))"
    by (intro canonicalEqual_json_same [OF c(4)]) simp_all
  have agree: "x = y" if "jget (evidence_pack_json (epd_evidencePack (est_predicate st))) k = Inr (JString x)"
    "jget (evidence_pack_json (iep_evidencePack issued)) k = Inr (JString y)" for k x y
    using jget_same_string [OF pack jget_same_string [OF e'(2) [unfolded ee] that(1)]] that(2) by simp
  show "epk_id (epd_evidencePack (est_predicate st)) = epk_id (iep_evidencePack issued)"
    "epk_outputHash (epd_evidencePack (est_predicate st)) = epk_outputHash (iep_evidencePack issued)"
    "epk_consequenceHash (epd_evidencePack (est_predicate st)) = epk_consequenceHash (iep_evidencePack issued)"
    "epk_policyHash (epd_evidencePack (est_predicate st)) = epk_policyHash (iep_evidencePack issued)"
    by (rule agree; rule pack_members)+
qed

text \<open>
  C28: A pack that verifies under a key says what the owner of the key signed. If signatures that
  verify are only on statements the owner signed, there is such a statement, equal to the one of
  the pack up to the order of members: the decision and its status that verification reports, the
  identifier of the pack, the two hashes and the policy hash are the ones in it, its decision and
  its token are under that policy, and its subjects carry the two hashes. (The key identifier that
  verification reports, the time of issue and the embedded key are not part of what is signed.)
\<close>

theorem verified_evidence_authentic:
  assumes "evidence_decoding h" "\<forall>st\<in>signed. parses_statement h st"
    and "\<forall>m sig. sih_verify h (evk_publicKeyPem key) m sig = Inr True \<longrightarrow> (\<exists>st\<in>signed. m = evidence_signed_text h st)"
    and "verifyIssuedReleaseEvidencePack h issued (Some key) = Inr r"
  shows "\<exists>st\<in>signed. json_same (evidence_statement_json st) (evidence_statement_json (iep_statement issued)) \<and>
    subjects_agree st \<and>
    evv_decisionId r = JString (eds_id (epd_decision (est_predicate st))) \<and>
    evv_decisionStatus r = JString (release_decision_status_str (eds_status (epd_decision (est_predicate st)))) \<and>
    evv_evidencePackId r = eds_evidencePackId (epd_decision (est_predicate st)) \<and>
    evv_outputHash r = epk_outputHash (epd_evidencePack (est_predicate st)) \<and>
    evv_consequenceHash r = epk_consequenceHash (epd_evidencePack (est_predicate st)) \<and>
    evv_policyHash r = eds_policyHash (epd_decision (est_predicate st)) \<and>
    (case epd_releaseToken (est_predicate st) of None \<Rightarrow> evv_releaseTokenId r = JNull
     | Some t \<Rightarrow> evv_releaseTokenId r = JString (ets_tokenId t) \<and> ets_policyHash t = evv_policyHash r)"
proof -
  obtain st signature w where st: "st \<in> signed" and w: "json_wf w" "json_same (evidence_statement_json st) w"
    and v: "check_statement h issued w = Inr ()" "verification_outcome issued signature w = Inr r"
    by (rule verified_payload [OF assms])
  note same = checked_same [OF w v(1)] and summaries = consistent_summaries [OF checked_same(2) [OF w v(1)]]
  have out: "evv_decisionId r = JString (eds_id (epd_decision (est_predicate st)))"
    "evv_decisionStatus r = JString (release_decision_status_str (eds_status (epd_decision (est_predicate st))))"
    "evv_evidencePackId r = epk_id (iep_evidencePack issued)"
    "evv_outputHash r = epk_outputHash (iep_evidencePack issued)"
    "evv_consequenceHash r = epk_consequenceHash (iep_evidencePack issued)"
    "evv_policyHash r = epk_policyHash (iep_evidencePack issued)"
    "evv_releaseTokenId r = json_str_opt (map_option ets_tokenId (epd_releaseToken (est_predicate st)))"
    using outcome_same [OF w(2), of issued signature] unfolding v(2) by blast+
  have token: "case epd_releaseToken (est_predicate st) of None \<Rightarrow> evv_releaseTokenId r = JNull
     | Some t \<Rightarrow> evv_releaseTokenId r = JString (ets_tokenId t) \<and>
         ets_policyHash t = epk_policyHash (epd_evidencePack (est_predicate st))"
    using summaries(3) unfolding out(7) by (simp split: option.split)
  show ?thesis
    unfolding out(3-6) same(3-6) [symmetric]
    using same(1) consistent_subjects [OF same(2)] out(1,2) token
    by (intro bexI [OF _ st] conjI refl summaries(1,2) [symmetric])
qed

section \<open>The file-backed store\<close>

lemma frozen_parts_idem [simp]:
  "freezeEvidencePack (freezeEvidencePack p) = freezeEvidencePack p"
  "freezeReleaseEvidenceDecisionSummary (freezeReleaseEvidenceDecisionSummary d) = freezeReleaseEvidenceDecisionSummary d"
  "freezeReleaseEvidenceTokenSummary (freezeReleaseEvidenceTokenSummary t) = freezeReleaseEvidenceTokenSummary t"
  by (simp_all add: freezeEvidencePack_def freezeReleaseEvidenceDecisionSummary_def freezeReleaseEvidenceTokenSummary_def)

lemma frozen_statement_idem [simp]:
  "freezeReleaseEvidenceStatement (freezeReleaseEvidenceStatement st) = freezeReleaseEvidenceStatement st"
  by (simp add: freezeReleaseEvidenceStatement_def Let_def option.map_comp comp_def)

lemma frozen_idem [simp]: "freezeIssuedReleaseEvidencePack (freezeIssuedReleaseEvidencePack pack) = freezeIssuedReleaseEvidencePack pack"
  by (simp add: freezeIssuedReleaseEvidencePack_def)

lemma frozen_id [simp]: "pack_id (freezeIssuedReleaseEvidencePack pack) = pack_id pack"
  by (simp add: freezeIssuedReleaseEvidencePack_def freezeEvidencePack_def)

lemma frozen_envelope [simp]:
  "iep_envelope (freezeIssuedReleaseEvidencePack pack) = iep_envelope pack"
  "iep_verificationKey (freezeIssuedReleaseEvidencePack pack) = iep_verificationKey pack"
  by (simp_all add: freezeIssuedReleaseEvidencePack_def)

lemma integrity_eq_Inr:
  "verifyReleaseEvidencePackStoreFileIntegrity h path packs = Inr () \<longleftrightarrow>
     (\<forall>pack\<in>set packs. \<exists>r. verifyIssuedReleaseEvidencePack h pack (Some (iep_verificationKey pack)) = Inr r)"
  by (induction packs) (auto split: sum.split)

lemma absent_context_not_same: "\<not> json_same JUndefined (context_json f c)" "\<not> json_same (context_json f c) JUndefined"
  by (simp_all add: context_json_def json_same_simps)

lemma context_same_present:
  assumes "json_same v w" "jget v ''policyContext'' = Inr (nullish (map_option (context_json f) x) JUndefined)"
    and "jget w ''policyContext'' = Inr (nullish (map_option (context_json g) (Some y)) JUndefined)"
  shows "x \<noteq> None"
proof
  assume "x = None"
  with assms(2) have "jget v ''policyContext'' = Inr JUndefined" by simp
  then obtain b where "jget w ''policyContext'' = Inr b" "json_same JUndefined b"
    by (rule jget_same_Inr [OF assms(1)])
  with assms(3) have "json_same JUndefined (context_json g y)" by simp
  then show False using absent_context_not_same(1) by blast
qed

lemma frozen_pack_same:
  assumes "json_same (evidence_pack_json p) (evidence_pack_json (freezeEvidencePack p))"
  shows "freezeEvidencePack p = p"
proof -
  have "epk_policyContext p \<noteq> None"
    by (rule context_same_present [OF assms pack_members(10)]) (subst pack_members(10), simp add: freezeEvidencePack_def)
  then show ?thesis by (auto simp: freezeEvidencePack_def)
qed

lemma frozen_statement_same:
  assumes "json_same (evidence_statement_json st) (evidence_statement_json (freezeReleaseEvidenceStatement st))"
  shows "freezeReleaseEvidenceStatement st = st"
proof -
  let ?q = "est_predicate st" and ?f = "est_predicate (freezeReleaseEvidenceStatement st)"
  have q: "json_same (evidence_predicate_json ?q) (evidence_predicate_json ?f)"
    using jget_same [OF assms, of "''predicate''"] by simp
  have f: "epd_evidencePack ?f = freezeEvidencePack (epd_evidencePack ?q)"
    "epd_decision ?f = freezeReleaseEvidenceDecisionSummary (epd_decision ?q)"
    "epd_releaseToken ?f = map_option freezeReleaseEvidenceTokenSummary (epd_releaseToken ?q)"
    by (simp_all add: freezeReleaseEvidenceStatement_def Let_def)
  have "json_same (evidence_pack_json (epd_evidencePack ?q)) (evidence_pack_json (epd_evidencePack ?f))"
    using jget_same [OF q, of "''evidencePack''"] by simp
  then have pack: "freezeEvidencePack (epd_evidencePack ?q) = epd_evidencePack ?q"
    unfolding f(1) by (rule frozen_pack_same)
  have "json_same (evidence_decision_json (epd_decision ?q)) (evidence_decision_json (epd_decision ?f))"
    using jget_same [OF q, of "''decision''"] by simp
  then have "eds_policyContext (epd_decision ?q) \<noteq> None"
    by (rule context_same_present [OF _ decision_members(13)])
      (subst decision_members(13), simp add: f freezeReleaseEvidenceDecisionSummary_def)
  then have decision: "freezeReleaseEvidenceDecisionSummary (epd_decision ?q) = epd_decision ?q"
    by (auto simp: freezeReleaseEvidenceDecisionSummary_def)
  have token: "freezeReleaseEvidenceTokenSummary t = t" if t: "epd_releaseToken ?q = Some t" for t
  proof -
    have "json_same (evidence_token_json t) (evidence_token_json (freezeReleaseEvidenceTokenSummary t))"
      using jget_same [OF q, of "''releaseToken''"] by (simp add: f(3) t)
    then have "ets_policyContext t \<noteq> None"
      by (rule context_same_present [OF _ token_members(8)])
        (subst token_members(8), simp add: freezeReleaseEvidenceTokenSummary_def)
    then show ?thesis by (auto simp: freezeReleaseEvidenceTokenSummary_def)
  qed
  have "map_option freezeReleaseEvidenceTokenSummary (epd_releaseToken ?q) = epd_releaseToken ?q"
    using token by (cases "epd_releaseToken ?q") simp_all
  then show ?thesis by (simp add: freezeReleaseEvidenceStatement_def pack decision Let_def)
qed

lemma canonicalEqual_both:
  assumes "canonicalEqual w v = Inr True" "canonicalEqual w v' = Inr True" "json_wf v" "json_wf v'"
  shows "json_same v v'"
  using assms by (intro canonicalEqual_json_same) (auto simp: canonicalEqual_True)

lemma frozen_verifies:
  assumes "verifyIssuedReleaseEvidencePack h pack (Some key) = Inr r"
    and "verifyIssuedReleaseEvidencePack h (freezeIssuedReleaseEvidencePack pack) (Some key) = Inr r'"
  shows "freezeIssuedReleaseEvidencePack pack = pack"
proof -
  let ?f = "freezeIssuedReleaseEvidencePack pack"
  obtain signature :: dsse_signature and w where
    v: "evh_parse h (sih_fromUtf8 h (sih_fromBase64 h (dse_payload (iep_envelope pack)))) = Inr w"
      "check_statement h pack w = Inr ()"
    by (rule verified_eq_Inr [OF assms(1)])
  obtain signature' :: dsse_signature and w' where
    "evh_parse h (sih_fromUtf8 h (sih_fromBase64 h (dse_payload (iep_envelope ?f)))) = Inr w'"
      "check_statement h ?f w' = Inr ()"
    by (rule verified_eq_Inr [OF assms(2)])
  with v(1) have v': "check_statement h ?f w = Inr ()" by simp
  obtain q e where c: "canonicalEqual w (evidence_statement_json (iep_statement pack)) = Inr True"
    "jget w ''predicate'' = Inr q" "jget q ''evidencePack'' = Inr e"
    "canonicalEqual e (evidence_pack_json (iep_evidencePack pack)) = Inr True"
    by (rule checked_statement [OF v(2)])
  obtain q' e' where c': "canonicalEqual w (evidence_statement_json (iep_statement ?f)) = Inr True"
    "jget w ''predicate'' = Inr q'" "jget q' ''evidencePack'' = Inr e'"
    "canonicalEqual e' (evidence_pack_json (iep_evidencePack ?f)) = Inr True"
    by (rule checked_statement [OF v'])
  have e: "e' = e" using c(2,3) c'(2,3) by simp
  have "json_same (evidence_statement_json (iep_statement pack)) (evidence_statement_json (iep_statement ?f))"
    by (rule canonicalEqual_both [OF c(1) c'(1)]) simp_all
  then have "freezeReleaseEvidenceStatement (iep_statement pack) = iep_statement pack"
    by (intro frozen_statement_same) (simp add: freezeIssuedReleaseEvidencePack_def)
  moreover have "json_same (evidence_pack_json (iep_evidencePack pack)) (evidence_pack_json (iep_evidencePack ?f))"
    by (rule canonicalEqual_both [OF c(4) c'(4) [unfolded e]]) simp_all
  then have "freezeEvidencePack (iep_evidencePack pack) = iep_evidencePack pack"
    by (intro frozen_pack_same) (simp add: freezeIssuedReleaseEvidencePack_def)
  ultimately show ?thesis by (simp add: freezeIssuedReleaseEvidencePack_def)
qed

text \<open>
  C30: A file of evidence packs can be read back exactly when no pack lacks a policy context. When
  the store accepts a new pack, the next load of the file gives what was written if the pack
  carries its policy contexts; otherwise (verification admits packs without them) the contexts that
  the store fills in no longer match what was signed, and this and every later operation fails.
\<close>

theorem evidence_file_reloads_iff:
  assumes "loadReleaseEvidencePackStoreFile h path content = Inr packs"
    and "file_upsert_evidence_pack h path pack content = Inr (stored, content')"
    and "get_evidence_pack (pack_id pack) packs = None"
  shows "if freezeIssuedReleaseEvidencePack pack = pack
    then loadReleaseEvidencePackStoreFile h path content' = Inr (packs @ [pack]) \<and>
      file_get_evidence_pack h path (pack_id pack) content' = Inr (Some pack)
    else (\<exists>e. loadReleaseEvidencePackStoreFile h path content' = Inl e \<and>
      (\<forall>key. file_get_evidence_pack h path key content' = Inl e) \<and>
      (\<forall>other. file_upsert_evidence_pack h path other content' = Inl e))"
proof -
  let ?f = "freezeIssuedReleaseEvidencePack pack"
  obtain r where r: "verifyIssuedReleaseEvidencePack h pack (Some (iep_verificationKey pack)) = Inr r"
    using assms(1,2) by (auto simp: file_upsert_evidence_pack_def upsertIssuedReleaseEvidencePack_def)
  have content': "content' = Some (packs @ [?f])"
    using assms r by (auto simp: file_upsert_evidence_pack_def upsertIssuedReleaseEvidencePack_def
        get_evidence_pack_def Let_def)
  have frozen: "map freezeIssuedReleaseEvidencePack packs = packs"
    "verifyReleaseEvidencePackStoreFileIntegrity h path packs = Inr ()"
    using assms(1) by (auto simp: loadReleaseEvidencePackStoreFile_def defaultReleaseEvidencePackStoreFile_def
        Let_def comp_def split: option.split_asm)
  have load: "loadReleaseEvidencePackStoreFile h path content' =
      rbind (verifyReleaseEvidencePackStoreFileIntegrity h path (packs @ [?f])) (\<lambda>_. Inr (packs @ [?f]))"
    using frozen(1) by (simp add: content' loadReleaseEvidencePackStoreFile_def Let_def)
  show ?thesis
  proof (cases "?f = pack")
    case True
    then have "verifyReleaseEvidencePackStoreFileIntegrity h path (packs @ [?f]) = Inr ()"
      using frozen(2) r by (auto simp: integrity_eq_Inr)
    with load True have ok: "loadReleaseEvidencePackStoreFile h path content' = Inr (packs @ [pack])" by simp
    moreover have "find_by pack_id (pack_id pack) (packs @ [pack]) = Some pack"
      using assms(3) by (simp add: get_evidence_pack_def find_by_append)
    ultimately show ?thesis using True by (simp add: file_get_evidence_pack_def get_evidence_pack_def)
  next
    case False
    then have "\<not> (\<exists>r'. verifyIssuedReleaseEvidencePack h ?f (Some (iep_verificationKey ?f)) = Inr r')"
      using frozen_verifies [OF r] by auto
    then have "verifyReleaseEvidencePackStoreFileIntegrity h path (packs @ [?f]) \<noteq> Inr ()"
      by (auto simp: integrity_eq_Inr)
    then obtain e where "verifyReleaseEvidencePackStoreFileIntegrity h path (packs @ [?f]) = Inl e"
      by (cases "verifyReleaseEvidencePackStoreFileIntegrity h path (packs @ [?f])") auto
    with load have "loadReleaseEvidencePackStoreFile h path content' = Inl e" by simp
    with False show ?thesis by (simp add: file_get_evidence_pack_def file_upsert_evidence_pack_def)
  qed
qed

section \<open>Examples\<close>

text \<open>A host that only signs, verifies and parses one statement, all encodings being the identity.\<close>

definition toy_evidence_codec :: evidence_host where
  "toy_evidence_codec =
     \<lparr> sih_spkiDer = Inr, sih_sha256Hex = (\<lambda>_. replicate 64 (CHR ''0'')), sih_hex = (\<lambda>s. s),
       sih_sign = (\<lambda>_ _. throw (Error ''no key'')), sih_verify = (\<lambda>_ _ _. Inr False),
       sih_toBase64 = (\<lambda>s. s), sih_fromBase64 = (\<lambda>s. s), sih_toUtf8 = (\<lambda>s. s), sih_fromUtf8 = (\<lambda>s. s),
       evh_parse = (\<lambda>_. Inr JNull), evh_now = 0, evh_uuid = ''u'' \<rparr>"

definition toy_evidence_host :: "evidence_statement \<Rightarrow> evidence_host" where
  "toy_evidence_host st = toy_evidence_codec
     \<lparr> sih_sign := (\<lambda>_ m. if m = evidence_signed_text toy_evidence_codec st then Inr ''s''
         else throw (Error ''unexpected text'')),
       sih_verify := (\<lambda>_ m _. Inr (m = evidence_signed_text toy_evidence_codec st)),
       evh_parse := (\<lambda>_. Inr (evidence_statement_json st)) \<rparr>"

definition toy_evidence_issuer :: evidence_issuer_input where
  "toy_evidence_issuer =
     \<lparr> eis_issuer = ''attestor'', eis_privateKeyPem = ''k'', eis_publicKeyPem = ''p'', eis_keyId = None,
       eis_algorithm = None \<rparr>"

definition toy_evidence_key :: evidence_verification_key where
  "toy_evidence_key =
     \<lparr> evk_version = RELEASE_EVIDENCE_PACK_VERIFICATION_KEY_SPEC_VERSION, evk_issuer = ''attestor'',
       evk_algorithm = Ed25519, evk_keyId = replicate 32 (CHR ''0''),
       evk_publicKeyFingerprint = replicate 32 (CHR ''0''), evk_publicKeyPem = ''p'' \<rparr>"

definition toy_evidence_request :: evidence_issue_input where
  "toy_evidence_request =
     \<lparr> eii_decision = sample_log_decision, eii_evidencePackId = Some ''ep1'', eii_issuedAt = None,
       eii_decisionLogEntries = [], eii_decisionLogChainIntact = None, eii_review = None,
       eii_releaseToken = None, eii_artifactReferences = [] \<rparr>"

definition toy_evidence_pack :: evidence_pack where
  "toy_evidence_pack = buildEvidencePack (decision_snapshot toy_evidence_request ''ep1'') ''ep1''
     [\<lparr> ear_kind = Art_other, ear_path = ''release-decision-log://'' @ dec_id sample_log_decision,
        ear_digest = Some (''sha256:'' @ replicate 64 (CHR ''0'')),
        ear_verificationStatus = Some Av_issuer_derived \<rparr>]"

definition toy_evidence_statement :: evidence_statement where
  "toy_evidence_statement = buildStatement (decision_snapshot toy_evidence_request ''ep1'') toy_evidence_pack
     (summarizeDecisionLog [] None) None None 0"

text \<open>The same statement without policy contexts, as earlier versions signed it.\<close>

definition old_evidence_statement :: evidence_statement where
  "old_evidence_statement =
     (let q = est_predicate toy_evidence_statement in toy_evidence_statement\<lparr> est_predicate := q
        \<lparr> epd_evidencePack := toy_evidence_pack\<lparr> epk_policyContext := None \<rparr>,
          epd_decision := (epd_decision q)\<lparr> eds_policyContext := None \<rparr> \<rparr> \<rparr>)"

lemma toy_sizes:
  "json_nodes (evidence_statement_json toy_evidence_statement) \<le> 200 \<and> json_depth (evidence_statement_json toy_evidence_statement) \<le> 20"
  "json_nodes (evidence_statement_json old_evidence_statement) \<le> 200 \<and> json_depth (evidence_statement_json old_evidence_statement) \<le> 20"
  by code_simp+

lemma limits: "200 \<le> node_limit" "20 \<le> depth_limit" "1000 \<le> node_limit" "30 \<le> depth_limit"
  by (simp_all add: MAX_CANONICAL_RELEASE_JSON_NODES_def MAX_CANONICAL_RELEASE_JSON_DEPTH_def)

lemma small_canonical:
  "json_clean v \<Longrightarrow> json_nodes v \<le> 1000 \<Longrightarrow> json_depth v \<le> 30 \<Longrightarrow> canonicalizeReleaseJson v = Inr (JSON_stringify (canon v))"
  using limits by (simp add: canonicalizeReleaseJson_eq_Inr)

lemma toy_host_simps [simp]:
  "sih_toUtf8 (toy_evidence_host st) = (\<lambda>s. s)" "sih_fromUtf8 (toy_evidence_host st) = (\<lambda>s. s)"
  "sih_toBase64 (toy_evidence_host st) = (\<lambda>s. s)" "sih_fromBase64 (toy_evidence_host st) = (\<lambda>s. s)"
  "sih_spkiDer (toy_evidence_host st) = Inr" "sih_hex (toy_evidence_host st) = (\<lambda>s. s)"
  "sih_sha256Hex (toy_evidence_host st) = (\<lambda>_. replicate 64 (CHR ''0''))"
  "evh_parse (toy_evidence_host st) = (\<lambda>_. Inr (evidence_statement_json st))"
  "sih_sign (toy_evidence_host st) k m = (if m = evidence_signed_text toy_evidence_codec st then Inr ''s''
     else Inl (Error ''unexpected text''))"
  "sih_verify (toy_evidence_host st) k m sig = Inr (m = evidence_signed_text toy_evidence_codec st)"
  "evh_now (toy_evidence_host st) = 0"
  "sih_spkiDer (signing_host.truncate (toy_evidence_host st)) = Inr"
  "sih_hex (signing_host.truncate (toy_evidence_host st)) = (\<lambda>s. s)"
  "sih_sha256Hex (signing_host.truncate (toy_evidence_host st)) = (\<lambda>_. replicate 64 (CHR ''0''))"
  "evidence_signed_text (toy_evidence_host st) x = evidence_signed_text toy_evidence_codec x"
  by (simp_all add: toy_evidence_host_def toy_evidence_codec_def signing_host.truncate_def evidence_signed_text_def
      dssePreAuthEncoding_def)

lemma toy_host_text [simp]:
  "dssePreAuthEncoding (signing_host.truncate (toy_evidence_host st)) RELEASE_EVIDENCE_PACK_DSSE_PAYLOAD_TYPE
     (JSON_stringify (canon (evidence_statement_json x))) = evidence_signed_text toy_evidence_codec x"
  using toy_host_simps(15) [of st x] by (simp add: evidence_signed_text_def)

lemma toy_host_assumptions:
  "evidence_decoding (toy_evidence_host st)" "evidence_key_pair (toy_evidence_host st) k p"
  "parses_statement (toy_evidence_host st) st"
  by (simp_all add: evidence_decoding_def evidence_key_pair_def parses_statement_def)

lemma toy_signs:
  assumes "json_nodes (evidence_statement_json st) \<le> 200 \<and> json_depth (evidence_statement_json st) \<le> 20"
  shows "\<exists>issued. sign_statement (toy_evidence_host st) toy_evidence_issuer toy_evidence_key
    (epd_evidencePack (est_predicate st)) st 0 = Inr issued"
proof -
  let ?p = "epd_evidencePack (est_predicate st)"
  have "json_nodes (evidence_pack_json ?p) \<le> json_nodes (evidence_statement_json st)"
    by (simp add: evidence_statement_json_def evidence_predicate_json_def)
  moreover have "Suc (json_depth (evidence_predicate_json (est_predicate st))) \<le> json_depth (evidence_statement_json st)"
    unfolding evidence_statement_json_def json_depth.simps by (rule fold_max_member) simp
  moreover have "Suc (json_depth (evidence_pack_json ?p)) \<le> json_depth (evidence_predicate_json (est_predicate st))"
    unfolding evidence_predicate_json_def json_depth.simps by (rule fold_max_member) simp
  ultimately have size: "json_nodes (evidence_pack_json ?p) \<le> 200" "json_depth (evidence_pack_json ?p) \<le> 20"
    using assms by auto
  have digest: "\<exists>d. buildBundleDigest h ?p st \<lparr> dse_payloadType = a, dse_payload = b,
      dse_signatures = [s] \<rparr> toy_evidence_key ts k f = Inr d" for h :: evidence_host and a b s ts k f
    unfolding buildBundleDigest_def canonicalDigest_def
    by (subst small_canonical)
      (use size assms in \<open>simp_all add: evidence_envelope_json_def evidence_key_json_def\<close>)
  show ?thesis
    using assms digest limits
    by (simp add: sign_statement_def Let_def small_canonical)
qed

lemma toy_issuer: "createReleaseEvidencePackIssuer (toy_evidence_host st) toy_evidence_issuer = Inr toy_evidence_key"
  by (simp add: createReleaseEvidencePackIssuer_def derivePublicKeyIdentity_def fingerprintPublicKeyDer_def
      ATTESTOR_SIGNING_FINGERPRINT_HEX_LENGTH_def toy_evidence_issuer_def
      toy_evidence_key_def)

lemma toy_issues:
  "issue_evidence_pack (toy_evidence_host st) toy_evidence_issuer toy_evidence_key toy_evidence_request =
   sign_statement (toy_evidence_host st) toy_evidence_issuer toy_evidence_key toy_evidence_pack toy_evidence_statement 0"
proof -
  let ?digest = "''sha256:'' @ replicate 64 (CHR ''0'')"
  have request: "eii_decision toy_evidence_request = sample_log_decision" "own_log_entries toy_evidence_request = []"
    "eii_review toy_evidence_request = None" "eii_releaseToken toy_evidence_request = None"
    "eii_artifactReferences toy_evidence_request = []" "eii_evidencePackId toy_evidence_request = Some ''ep1''"
    "eii_decisionLogChainIntact toy_evidence_request = None" "eii_issuedAt toy_evidence_request = None"
    by (simp_all add: toy_evidence_request_def own_log_entries_def)
  have digest: "canonicalDigest (toy_evidence_host st) (log_artifact_json []) = Inr ?digest"
    by (simp add: canonicalDigest_def log_artifact_json_def small_canonical taggedSha256Hex_def)
  have strict: "assertStrictSha256ArtifactDigest (Some ?digest) l = Inr ?digest" for l
  proof -
    have "trim ?digest = ?digest" "strict_sha256_digest ?digest" by code_simp+
    then show ?thesis by (simp only: assertStrictSha256ArtifactDigest_def nullish.simps Let_def if_True)
  qed
  have snap: "dec_id (decision_snapshot toy_evidence_request k) = dec_id sample_log_decision" for k
    by (simp add: decision_snapshot_def request)
  have now: "resolveIssuedAt (toy_evidence_host st) None = Inr 0"
    by (simp add: resolveIssuedAt_def max_time_value_def)
  show ?thesis
    by (simp add: issue_evidence_pack_def request now buildArtifactReferences_def digest issuerDerivedArtifact_def
        strict [simplified append_Cons append_Nil] snap toy_evidence_pack_def toy_evidence_statement_def summarizeReview_def summarizeReleaseToken_def
        Let_def)
qed

lemma toy_consistent:
  "contexts_agree toy_evidence_statement \<and> summaries_agree toy_evidence_statement \<and> subjects_agree toy_evidence_statement"
  "contexts_agree old_evidence_statement \<and> summaries_agree old_evidence_statement \<and> subjects_agree old_evidence_statement"
  by code_simp+

lemma toy_parts:
  "epd_evidencePack (est_predicate toy_evidence_statement) = toy_evidence_pack"
  "epd_releaseToken (est_predicate toy_evidence_statement) = None"
  "epd_releaseToken (est_predicate old_evidence_statement) = None"
  "est_type toy_evidence_statement = RELEASE_EVIDENCE_PACK_STATEMENT_TYPE"
  "est_predicateType toy_evidence_statement = RELEASE_EVIDENCE_PACK_PREDICATE_TYPE"
  "est_type old_evidence_statement = RELEASE_EVIDENCE_PACK_STATEMENT_TYPE"
  "est_predicateType old_evidence_statement = RELEASE_EVIDENCE_PACK_PREDICATE_TYPE"
  by (simp_all add: toy_evidence_statement_def old_evidence_statement_def buildStatement_def Let_def)

text \<open>The pack signed for a statement, and that it verifies.\<close>

definition toy_issued_pack :: "evidence_statement \<Rightarrow> issued_evidence_pack" where
  "toy_issued_pack st = projr (sign_statement (toy_evidence_host st) toy_evidence_issuer toy_evidence_key
     (epd_evidencePack (est_predicate st)) st 0)"

lemma toy_issued_pack:
  assumes "st = toy_evidence_statement \<or> st = old_evidence_statement"
  shows "sign_statement (toy_evidence_host st) toy_evidence_issuer toy_evidence_key
      (epd_evidencePack (est_predicate st)) st 0 = Inr (toy_issued_pack st)"
    "\<exists>r. verifyIssuedReleaseEvidencePack (toy_evidence_host st) (toy_issued_pack st) (Some toy_evidence_key) = Inr r"
proof -
  have "json_nodes (evidence_statement_json st) \<le> 200 \<and> json_depth (evidence_statement_json st) \<le> 20"
    using assms toy_sizes by blast
  then obtain issued where "sign_statement (toy_evidence_host st) toy_evidence_issuer toy_evidence_key
      (epd_evidencePack (est_predicate st)) st 0 = Inr issued"
    using toy_signs by blast
  then show s: "sign_statement (toy_evidence_host st) toy_evidence_issuer toy_evidence_key
      (epd_evidencePack (est_predicate st)) st 0 = Inr (toy_issued_pack st)"
    by (simp add: toy_issued_pack_def)
  have "contexts_agree st" "summaries_agree st" "subjects_agree st" "epd_releaseToken (est_predicate st) = None"
    "est_type st = RELEASE_EVIDENCE_PACK_STATEMENT_TYPE" "est_predicateType st = RELEASE_EVIDENCE_PACK_PREDICATE_TYPE"
    using assms toy_consistent toy_parts by auto
  then show "\<exists>r. verifyIssuedReleaseEvidencePack (toy_evidence_host st) (toy_issued_pack st) (Some toy_evidence_key) = Inr r"
    using signed_verifies(1) [OF toy_host_assumptions(1,2) s refl _ _ _ _ _ toy_host_assumptions(3)]
    by (simp add: token_agrees_def)
qed

theorem issued_evidence_verifies_witness:
  "\<exists>issued r. issue_evidence_pack (toy_evidence_host toy_evidence_statement) toy_evidence_issuer toy_evidence_key
      toy_evidence_request = Inr issued \<and>
    verifyIssuedReleaseEvidencePack (toy_evidence_host toy_evidence_statement) issued (Some toy_evidence_key) = Inr r \<and>
    evv_decisionId r = JString (dec_id sample_log_decision) \<and>
    evv_policyHash r = dec_policyHash sample_log_decision \<and> evv_releaseTokenId r = JNull"
proof -
  let ?st = toy_evidence_statement and ?issued = "toy_issued_pack toy_evidence_statement"
  have issued: "issue_evidence_pack (toy_evidence_host ?st) toy_evidence_issuer toy_evidence_key toy_evidence_request =
      Inr ?issued"
    using toy_issued_pack(1) [of ?st] by (simp add: toy_issues toy_parts)
  have st: "iep_statement ?issued = ?st"
    by (rule signed_fields [OF toy_issued_pack(1)]) simp_all
  have "eii_releaseToken toy_evidence_request = None" "eii_decision toy_evidence_request = sample_log_decision"
    by (simp_all add: toy_evidence_request_def)
  then show ?thesis
    using issued_evidence_verifies [OF toy_host_assumptions(1,2) toy_issuer issued] issued
      toy_host_assumptions(3) [of ?st] unfolding st by auto
qed

theorem verified_evidence_authentic_witness:
  "\<exists>r. verifyIssuedReleaseEvidencePack (toy_evidence_host toy_evidence_statement) (toy_issued_pack toy_evidence_statement)
      (Some toy_evidence_key) = Inr r \<and>
    evv_policyHash r = eds_policyHash (epd_decision (est_predicate toy_evidence_statement)) \<and>
    evv_releaseTokenId r = JNull"
proof -
  let ?st = toy_evidence_statement and ?h = "toy_evidence_host toy_evidence_statement"
  obtain r where r: "verifyIssuedReleaseEvidencePack ?h (toy_issued_pack ?st) (Some toy_evidence_key) = Inr r"
    using toy_issued_pack(2) by blast
  have "\<forall>st\<in>{?st}. parses_statement ?h st"
    "\<forall>m sig. sih_verify ?h (evk_publicKeyPem toy_evidence_key) m sig = Inr True \<longrightarrow>
      (\<exists>st\<in>{?st}. m = evidence_signed_text ?h st)"
    using toy_host_assumptions(3) by simp_all
  from verified_evidence_authentic [OF toy_host_assumptions(1) this r] show ?thesis
    by (auto simp: r toy_parts)
qed

theorem evidence_file_reloads_iff_witness:
  "\<exists>stored content'. file_upsert_evidence_pack (toy_evidence_host old_evidence_statement) ''packs''
      (toy_issued_pack old_evidence_statement) None = Inr (stored, content') \<and>
    (\<exists>e. loadReleaseEvidencePackStoreFile (toy_evidence_host old_evidence_statement) ''packs'' content' = Inl e)"
proof -
  let ?st = old_evidence_statement and ?h = "toy_evidence_host old_evidence_statement"
  let ?pack = "toy_issued_pack ?st"
  have fields: "iep_verificationKey ?pack = toy_evidence_key" "iep_evidencePack ?pack = epd_evidencePack (est_predicate ?st)"
    by (rule signed_fields [OF toy_issued_pack(1)], simp_all)+
  have load: "loadReleaseEvidencePackStoreFile ?h ''packs'' None = Inr []"
    by (simp add: loadReleaseEvidencePackStoreFile_def defaultReleaseEvidencePackStoreFile_def)
  obtain r where "verifyIssuedReleaseEvidencePack ?h ?pack (Some toy_evidence_key) = Inr r"
    using toy_issued_pack(2) by blast
  then obtain stored content' where upsert: "file_upsert_evidence_pack ?h ''packs'' ?pack None = Inr (stored, content')"
    by (simp add: file_upsert_evidence_pack_def load upsertIssuedReleaseEvidencePack_def fields(1) Let_def)
  have "epk_policyContext (iep_evidencePack ?pack) = None"
    unfolding fields(2) by (simp add: old_evidence_statement_def Let_def)
  moreover have "epk_policyContext (iep_evidencePack (freezeIssuedReleaseEvidencePack ?pack)) \<noteq> None"
    by (simp add: freezeIssuedReleaseEvidencePack_def freezeEvidencePack_def)
  ultimately have "freezeIssuedReleaseEvidencePack ?pack \<noteq> ?pack" by metis
  then show ?thesis
    using evidence_file_reloads_iff [OF load upsert] upsert by (auto simp: get_evidence_pack_def)
qed

end
