(* ===== verification/Spec2Isabelle.thy ===== *)
theory Spec2Isabelle
  imports Release_Hashing Decision_Engine Reviewer_Protocol Release_Verification
    Activation_Approvals Policy_Discovery Policy_Integrity Degraded_Control
    Evidence_Integrity
begin

text \<open>
  Attestor decides whether an output of an automated system may have a consequence (a record is
  written, a message is sent, an action is taken). This development models three layers of
  \<open>src/src\<close> and how they work together.

  \<^bold>\<open>The program.\<close> A caller asks the release kernel (\<open>release-kernel\<close>) for a release. The decision
  engine finds the policy in force, runs the deterministic checks of its risk class, and writes
  every evaluation to a hash-linked log. A decision that needs review waits in the reviewer queue
  until enough reviewers agree or an authorized person overrides it. For an accepted decision a
  short-lived signed token is issued and registered; whoever guards the consequence verifies the
  token against the hashes it expects, introspects it in the registry and uses it up. The
  enforcement plane (\<open>release-enforcement-plane\<close>) says how strictly a token is verified at each
  kind of boundary. The policy control plane (\<open>release-policy-control-plane\<close>) decides which policies
  are in force: signed bundles of policies are stored, activated for targets after approval by
  reviewers, and discovered by consumers.

  \<^bold>\<open>Foundations.\<close>
  \<^item> \<open>Js_Prelude\<close>: exceptions as values (\<open>js_error + 'a\<close>, sequenced by \<open>rbind\<close>), null and undefined as
    \<open>option\<close>, \<open>trim\<close>, number rendering, dates and the locale \<open>keyed_store\<close> for arrays of records
    searched and replaced by key. \<open>Js_Sort\<close>: \<open>Array.sort\<close> with a callback as the stable insertion
    sort, the locale \<open>consistent_cmp\<close> for callbacks that are a total preorder, \<open>sorted_store\<close>.
  \<^item> \<open>Canonical_Json\<close> and \<open>Release_Hashing\<close> (\<open>release-canonicalization.ts\<close>): JSON values,
    \<open>JSON.stringify\<close>, canonicalization with its node and depth limits, the envelopes and the hash
    bundle. The text determines the value up to the order of members; the hashes bind what they
    name.
  \<^item> \<open>Release_Types\<close> (\<open>types.ts\<close>, \<open>object-model.ts\<close>, \<open>risk-controls.ts\<close>): the vocabulary of the kernel.

  \<^bold>\<open>Decisions.\<close>
  \<^item> \<open>Release_Policy\<close> (\<open>release-policy.ts\<close>, \<open>release-policy-rollout.ts\<close>, the built-in policies):
    policies, scopes, canary rollout. \<open>Compiled_Policy\<close> (\<open>compiled-policy-ir.ts\<close>,
    \<open>compiled-policy-index.ts\<close>): compilation, static verification against the baseline of the risk
    class, the index, which is equivalent to a linear search.
  \<^item> \<open>Deterministic_Checks\<close>, \<open>Decision_Log\<close>, \<open>Decision_Engine\<close> (the files of the same names): the
    engine accepts only what a verified active policy admits, fails closed, gives the verdict the
    policy prescribes, answers every dated request while its log can be written, and logs every
    evaluation; the log commits to its history. The locale
    \<open>decision_log_writer\<close> is the contract of the two log writers.
  \<^item> \<open>Reviewer_Queue\<close> and \<open>Reviewer_Protocol\<close> (\<open>reviewer-queue-*.ts\<close> and the routes that use them):
    the queue, and reviewers that act at the same time on records they read before.

  \<^bold>\<open>Tokens.\<close>
  \<^item> \<open>Release_Token\<close> (\<open>release-token.ts\<close>): issuing and verifying; round trip until expiry.
  \<^item> \<open>Token_Registry\<close> and \<open>Token_Introspection\<close> (\<open>release-introspection.ts\<close>,
    \<open>release-decision-revocation.ts\<close>): the two stores behind the locale \<open>store_backend\<close>, of which the
    file-backed one refines the one in memory; the uses of a token never exceed the usage limit of
    the decisions it was registered under.
  \<^item> \<open>Enforcement_Types\<close>, \<open>Verification_Profiles\<close>, \<open>Freshness\<close>, \<open>Dpop\<close> (the files of the same names in
    the enforcement plane): closed lists (locale \<open>vocabulary\<close>), profiles that never relax as the
    risk grows, exact conditions for freshness, replay windows and proofs of possession.
  \<^item> \<open>Release_Verification\<close> (\<open>release-verification.ts\<close>): authorization of a consequence and the HTTP
    middleware, also interleaved with operations on the registry.

  \<^item> \<open>Evidence_Packs\<close> and \<open>Evidence_Integrity\<close> (\<open>release-evidence-pack-*.ts\<close>): signed summaries of a
    decision that outlive its token. The checks run on the parsed payload, so the lemmas show that
    they do not depend on the order of its members; an issued pack verifies, a pack that verifies
    says what was signed, and when a file of packs can be read back.

  \<^item> \<open>Enforcement_Objects\<close> (\<open>object-model.ts\<close>): requests, presentations, verification results,
    decisions and receipts of enforcement points; a decision is coherent with its verification and
    a receipt digest binds it. \<open>Degraded_Mode\<close> and \<open>Degraded_Control\<close> (\<open>degraded-mode-*.ts\<close>): emergency
    grants, what they open, and their store, whose audit records account for every use.

  \<^bold>\<open>Policies in force.\<close>
  \<^item> \<open>Policy_Types\<close>, \<open>Policy_Objects\<close>, \<open>Policy_Scoping\<close> (\<open>types.ts\<close>, \<open>object-model.ts\<close>, \<open>scoping.ts\<close>):
    targets, selectors, records and the order of precedence.
  \<^item> \<open>Policy_Bundles\<close>, \<open>Bundle_Cache\<close>, \<open>Policy_Store\<close>, \<open>Policy_Integrity\<close> (\<open>bundle-format.ts\<close>,
    \<open>bundle-signing.ts\<close>, \<open>bundle-cache.ts\<close>, \<open>store.ts\<close>, \<open>store-records.ts\<close>): signed artifacts and
    the store; what is stored stays, and a signature that is stored with it verifies.
  \<^item> \<open>Activation_Lifecycle\<close> (\<open>activation-records.ts\<close>) and \<open>Activation_Approvals\<close>
    (\<open>activation-approvals.ts\<close>): one live activation for each target in every reachable store, and
    the reviewer gate before an activation.
  \<^item> \<open>Policy_Discovery\<close> (\<open>discovery.ts\<close>, \<open>resolver.ts\<close>): which bundle and which policy a consumer gets
    in the stores that the lifecycle reaches, in every discovery mode.

  \<^bold>\<open>Conventions.\<close> Record fields carry a prefix for their record; names of definitions are those of the
  source, with a prefix where two files use one name. Functions of the host are arguments: SHA-256,
  the JOSE library, URL parsing, signature primitives and base64 of \<open>node:crypto\<close>, random
  identifiers, the clock, \<open>localeCompare\<close>. A theorem that needs something of them says so: digests
  are injective on the texts compared (\<open>inj_on\<close>), decoding undoes encoding, verification accepts what
  the matching key signed. Timestamps that the code takes from \<open>toISOString\<close> are integers
  (milliseconds), since such texts order like the instants in the years 0 to 9999; texts from outside
  are \<open>js_date\<close>, valid or not. Characters are 8 bit. Freezing and copying of records has no
  counterpart, since values do not change. A file is its parsed content. No definition needs fuel:
  every loop of the modelled code is a recursion over a list, a JSON value or a number.

  \<^bold>\<open>Not modelled.\<close> Display labels and explanatory texts; path handling, file locks and directory
  creation; HTTP parsing and authentication of the routes; generation of keys. Of the three layers:
  shadow mode, the verifiers and gateways of the enforcement plane on top of
  the object model, profiles and freshness, token exchange, HTTP message signatures, telemetry, and the simulation,
  audit and proving reports of the policy control plane. Outside the layers: consequence admission,
  wallet and chain adapters, the hosted service with its databases and queues, connectors, and the
  financial reporting application, which produces the outputs the kernel releases.
\<close>

end
